(* ===== verification/Prelude.thy ===== *)
theory Prelude
  imports Main "HOL-Library.Word"
begin

unbundle bit_operations_syntax

text \<open>
  The vocabulary every component shares: the widths of the machine integers the sources
  use (\<open>src/src/server/shared/Define.h\<close>), the collections of simplification rules the
  component theories fill, and generic facts on words, lists and error sums.

  Integers whose wrap-around can matter keep their width as \<open>w word\<close>; \<open>size_t\<close> positions
  in buffers and counts of list elements are \<open>nat\<close> (a buffer is refused by an assertion of
  the code long before \<open>size_t\<close> could wrap).
\<close>

type_synonym u8 = "8 word"
type_synonym u16 = "16 word"
type_synonym u32 = "32 word"
type_synonym u64 = "64 word"
type_synonym bytes = "8 word list"

named_theorems codec_simps \<open>how the byte codecs act on closed and on symbolic input\<close>
named_theorems route_defs \<open>definitions of the routing helper\<close>
named_theorems sess_defs \<open>definitions of the client session\<close>
named_theorems link_defs \<open>definitions of the control link\<close>

section \<open>Error sums\<close>

text \<open>
  A C++ operation that may throw is a function into \<open>'e + 'a\<close>: \<open>Inl\<close> is the exception,
  which leaves the enclosing block, \<open>Inr\<close> the normal result.
\<close>

fun rbind :: "'e + 'a \<Rightarrow> ('a \<Rightarrow> 'e + 'b) \<Rightarrow> 'e + 'b" where
  "rbind (Inl e) f = Inl e"
| "rbind (Inr x) f = f x"

lemma rbind_Inr_conv [simp]:
  "rbind r f = Inr y \<longleftrightarrow> (\<exists>x. r = Inr x \<and> f x = Inr y)"
  by (cases r) auto

lemma rbind_Inl_conv:
  "rbind r f = Inl e \<longleftrightarrow> r = Inl e \<or> (\<exists>x. r = Inr x \<and> f x = Inl e)"
  by (cases r) auto

lemma rbind_assoc: "rbind (rbind r f) g = rbind r (\<lambda>x. rbind (f x) g)"
  by (cases r) auto

section \<open>Words\<close>

lemma unat_less_numeral_8 [simp]: "unat (w :: u8) < 256"
  using unsigned_less [of w, where 'a = nat] by simp

lemma unat_u16_bound: "unat (w :: u16) < 65536"
  using unsigned_less [of w, where 'a = nat] by simp

lemma unat_u32_bound: "unat (w :: u32) < 4294967296"
  using unsigned_less [of w, where 'a = nat] by simp

lemma unat_u64_bound: "unat (w :: u64) < 18446744073709551616"
  using unsigned_less [of w, where 'a = nat] by simp

lemma word_of_nat_unat_mod:
  "unat (word_of_nat n :: 'a::len word) = n mod 2 ^ LENGTH('a)"
  by (simp add: unat_of_nat)

section \<open>Maps kept as association lists\<close>

text \<open>
  A \<open>std::unordered_map\<close> or \<open>std::map\<close> is a list of pairs with distinct keys; the order of
  the list is the order in which the container iterates. \<open>um_set\<close> is \<open>m[k] = v\<close>: it
  overwrites in place or adds a pair. Where a new key lands in the iteration order of an
  \<open>unordered_map\<close> is not specified; no theorem of this development depends on it.
\<close>

fun um_set :: "'k \<Rightarrow> 'v \<Rightarrow> ('k \<times> 'v) list \<Rightarrow> ('k \<times> 'v) list" where
  "um_set k v [] = [(k, v)]"
| "um_set k v ((k', v') # m) = (if k = k' then (k, v) # m else (k', v') # um_set k v m)"

definition um_erase :: "'k \<Rightarrow> ('k \<times> 'v) list \<Rightarrow> ('k \<times> 'v) list" where
  "um_erase k m = filter (\<lambda>p. fst p \<noteq> k) m"

definition um_keys :: "('k \<times> 'v) list \<Rightarrow> 'k set" where
  "um_keys m = fst ` set m"

lemma map_of_um_set [simp]: "map_of (um_set k v m) = (map_of m)(k \<mapsto> v)"
  by (induction k v m rule: um_set.induct) auto

lemma keys_um_set [simp]: "fst ` set (um_set k v m) = insert k (fst ` set m)"
  by (induction k v m rule: um_set.induct) auto

lemma distinct_um_set [simp]:
  "distinct (map fst m) \<Longrightarrow> distinct (map fst (um_set k v m))"
proof (induction k v m rule: um_set.induct)
  case (2 k v k' v' m)
  have "fst ` set (um_set k v m) = insert k (fst ` set m)" by (rule keys_um_set)
  with 2 show ?case by auto
qed simp

lemma length_um_set:
  "distinct (map fst m) \<Longrightarrow>
   length (um_set k v m) = (if k \<in> fst ` set m then length m else Suc (length m))"
  by (induction k v m rule: um_set.induct) auto

lemma map_of_um_erase [simp]: "map_of (um_erase k m) = (map_of m)(k := None)"
  by (induction m) (auto simp: um_erase_def)

lemma distinct_um_erase [simp]:
  "distinct (map fst m) \<Longrightarrow> distinct (map fst (um_erase k m))"
  by (simp add: um_erase_def distinct_map_filter)

lemma um_set_existing:
  "map_of m k = Some v0 \<Longrightarrow> map fst (um_set k v m) = map fst m"
  by (induction k v m rule: um_set.induct) (auto split: if_splits)

end
