(* ===== verification/ByteBuffer.thy ===== *)
theory ByteBuffer
  imports Prelude
begin

text \<open>
  The packet buffer of \<open>src/src/server/shared/Packets/ByteBuffer.h\<close>: a growing vector of
  bytes with a read and a write position, the overloaded stream operators for integers and
  strings, the packed GUID encoding, and the exceptions that reads past the end raise.
  The lemmas show that whatever is streamed in is what is streamed out again, on the level
  of single fields, of whole packets and of packed GUIDs, and that a read never goes past
  the end of the storage. \<open>WorldPacket\<close> (an opcode and a buffer) closes the theory.
\<close>

section \<open>The buffer\<close>

record bytebuf =
  rpos :: nat
  wpos :: nat
  storage :: bytes

text \<open>The exceptions, with the arguments of their constructors in the order of the code.\<close>

datatype bb_error =
    ByteBufferPositionException bool nat nat nat
  | ByteBufferSourceException nat nat nat
  | ByteBufferException
  | AssertFailure

definition bb_new :: bytebuf where
  "bb_new = \<lparr>rpos = 0, wpos = 0, storage = []\<rparr>"

definition bb_clear :: "bytebuf \<Rightarrow> bytebuf" where
  "bb_clear b = b\<lparr>storage := [], rpos := 0, wpos := 0\<rparr>"

definition bb_size :: "bytebuf \<Rightarrow> nat" where
  "bb_size b = length (storage b)"

definition bb_rfinish :: "bytebuf \<Rightarrow> bytebuf" where
  "bb_rfinish b = b\<lparr>rpos := wpos b\<rparr>"

definition bb_resize :: "nat \<Rightarrow> bytebuf \<Rightarrow> bytebuf" where
  "bb_resize n b =
     (let st = take n (storage b) @ replicate (n - bb_size b) 0
      in b\<lparr>storage := st, rpos := 0, wpos := length st\<rparr>)"

definition bb_contents :: "bytebuf \<Rightarrow> bb_error + bytes" where
  "bb_contents b = (if storage b = [] then Inl ByteBufferException else Inr (storage b))"

definition bb_at :: "nat \<Rightarrow> bytebuf \<Rightarrow> bb_error + u8" where
  "bb_at pos b =
     (if bb_size b \<le> pos then Inl (ByteBufferPositionException False pos 1 (bb_size b))
      else Inr (storage b ! pos))"

definition bb_append :: "bytes \<Rightarrow> bytebuf \<Rightarrow> bb_error + bytebuf" where
  "bb_append src b =
     (if src = [] then Inl (ByteBufferSourceException (wpos b) (bb_size b) 0)
      else if \<not> bb_size b < 10000000 then Inl AssertFailure
      else
        let newsize = wpos b + length src;
            st = (if bb_size b < newsize
                  then storage b @ replicate (newsize - bb_size b) 0 else storage b)
        in Inr (b\<lparr>storage := take (wpos b) st @ src @ drop newsize st, wpos := newsize\<rparr>))"

definition bb_append_buffer :: "bytebuf \<Rightarrow> bytebuf \<Rightarrow> bb_error + bytebuf" where
  "bb_append_buffer buffer b =
     (if wpos buffer \<noteq> 0
      then rbind (bb_contents buffer) (\<lambda>c. bb_append (take (wpos buffer) c) b)
      else Inr b)"

definition bb_put :: "nat \<Rightarrow> bytes \<Rightarrow> bytebuf \<Rightarrow> bb_error + bytebuf" where
  "bb_put pos src b =
     (if bb_size b < pos + length src
      then Inl (ByteBufferPositionException True pos (length src) (bb_size b))
      else Inr (b\<lparr>storage := take pos (storage b) @ src @ drop (pos + length src) (storage b)\<rparr>))"

definition bb_read :: "nat \<Rightarrow> bytebuf \<Rightarrow> bb_error + bytes \<times> bytebuf" where
  "bb_read len b =
     (if bb_size b < rpos b + len
      then Inl (ByteBufferPositionException False (rpos b) len (bb_size b))
      else Inr (take len (drop (rpos b) (storage b)), b\<lparr>rpos := rpos b + len\<rparr>))"

definition bb_read_skip :: "nat \<Rightarrow> bytebuf \<Rightarrow> bb_error + bytebuf" where
  "bb_read_skip skip b =
     (if bb_size b < rpos b + skip
      then Inl (ByteBufferPositionException False (rpos b) skip (bb_size b))
      else Inr (b\<lparr>rpos := rpos b + skip\<rparr>))"

section \<open>Little-endian integers\<close>

text \<open>
  \<open>append<T>\<close> and \<open>read<T>\<close> copy the bytes of the value after \<open>EndianConvert\<close>, which is
  the identity on the little-endian hosts the server targets: the wire order is least
  significant byte first.
\<close>

fun le_bytes :: "nat \<Rightarrow> nat \<Rightarrow> bytes" where
  "le_bytes 0 v = []"
| "le_bytes (Suc n) v = word_of_nat v # le_bytes n (v div 256)"

fun le_val :: "bytes \<Rightarrow> nat" where
  "le_val [] = 0"
| "le_val (b # bs) = unat b + 256 * le_val bs"

lemma length_le_bytes [simp, codec_simps]: "length (le_bytes n v) = n"
  by (induction n arbitrary: v) auto

lemma le_val_le_bytes_mod: "le_val (le_bytes n v) = v mod 256 ^ n"
proof (induction n arbitrary: v)
  case (Suc n)
  have "le_val (le_bytes (Suc n) v) = v mod 256 + 256 * (v div 256 mod 256 ^ n)"
    using Suc.IH [of "v div 256"] by (simp add: word_of_nat_unat_mod)
  also have "\<dots> = v mod (256 * 256 ^ n)"
    by (simp add: mod_mult2_eq)
  finally show ?case by simp
qed simp

lemma le_val_less: "le_val bs < 256 ^ length bs"
proof (induction bs)
  case (Cons b bs)
  have "unat b + 256 * le_val bs < 256 + 256 * le_val bs" by simp
  also have "\<dots> = 256 * Suc (le_val bs)" by simp
  also have "\<dots> \<le> 256 * 256 ^ length bs" using Cons.IH by (intro mult_le_mono2) simp
  finally show ?case by simp
qed simp

lemma le_bytes_le_val: "le_bytes (length bs) (le_val bs) = bs"
proof (induction bs)
  case (Cons b bs)
  have "(unat b + 256 * le_val bs) div 256 = le_val bs" by simp
  moreover have "(word_of_nat (unat b + 256 * le_val bs) :: u8) = b"
  proof -
    have "(256 :: u8) = 0" by simp
    then show ?thesis by (simp only: of_nat_add of_nat_mult of_nat_numeral) simp
  qed
  ultimately show ?case using Cons.IH by simp
qed simp

definition word_le :: "'a::len word \<Rightarrow> bytes" where
  "word_le w = le_bytes (LENGTH('a) div 8) (unat w)"

definition le_word :: "bytes \<Rightarrow> 'a::len word" where
  "le_word bs = word_of_nat (le_val bs)"

lemma length_word_le [codec_simps]: "length (word_le (w :: 'a::len word)) = LENGTH('a) div 8"
  by (simp add: word_le_def)

lemma le_word_word_le:
  assumes "8 dvd LENGTH('a::len)"
  shows "le_word (word_le (w :: 'a word)) = w"
proof -
  have "256 ^ (LENGTH('a) div 8) = (2 :: nat) ^ LENGTH('a)"
    using assms power_mult [of "2 :: nat" 8 "LENGTH('a) div 8"] by simp
  then show ?thesis
    by (simp add: le_word_def word_le_def le_val_le_bytes_mod unsigned_less)
qed

lemma le_word_u8 [simp, codec_simps]: "le_word (word_le (w :: u8)) = w"
  by (simp add: le_word_word_le)

lemma le_word_u16 [simp, codec_simps]: "le_word (word_le (w :: u16)) = w"
  by (simp add: le_word_word_le)

lemma le_word_u32 [simp, codec_simps]: "le_word (word_le (w :: u32)) = w"
  by (simp add: le_word_word_le)

lemma le_word_u64 [simp, codec_simps]: "le_word (word_le (w :: u64)) = w"
  by (simp add: le_word_word_le)

lemma length_word_le_widths [simp, codec_simps]:
  "length (word_le (a :: u8)) = 1" "length (word_le (b :: u16)) = 2"
  "length (word_le (c :: u32)) = 4" "length (word_le (d :: u64)) = 8"
  by (simp_all add: length_word_le)

lemma word_le_u8 [codec_simps]: "word_le (w :: u8) = [w]"
  using le_bytes.simps(2) [of 0 "unat w"] by (simp add: word_le_def)

section \<open>The stream operators\<close>

text \<open>
  The overloads of \<open>operator<<\<close> and \<open>operator>>\<close> are constructors of \<^typ>\<open>u8\<close>-to-\<^typ>\<open>u64\<close>
  fields (the signed overloads write and read the same bytes), a float given by its bit
  pattern, a \<open>std::string\<close> given by its bytes, and \<open>bool\<close>. There is no
  \<open>operator<<(bool)\<close> in the class: a \<open>bool\<close> argument is promoted to \<open>int\<close> and written by
  the \<open>int32\<close> overload as four bytes, while \<open>operator>>(bool&)\<close> reads one.
\<close>

datatype field = U8 u8 | U16 u16 | U32 u32 | U64 u64 | Flt u32 | Str bytes | Bl bool

datatype field_type = TU8 | TU16 | TU32 | TU64 | TFlt | TStr | TBl

fun field_type_of :: "field \<Rightarrow> field_type" where
  "field_type_of (U8 v) = TU8"
| "field_type_of (U16 v) = TU16"
| "field_type_of (U32 v) = TU32"
| "field_type_of (U64 v) = TU64"
| "field_type_of (Flt v) = TFlt"
| "field_type_of (Str s) = TStr"
| "field_type_of (Bl v) = TBl"

fun bb_shl :: "field \<Rightarrow> bytebuf \<Rightarrow> bb_error + bytebuf" where
  "bb_shl (U8 v) b = bb_append (word_le v) b"
| "bb_shl (U16 v) b = bb_append (word_le v) b"
| "bb_shl (U32 v) b = bb_append (word_le v) b"
| "bb_shl (U64 v) b = bb_append (word_le v) b"
| "bb_shl (Flt v) b = bb_append (word_le v) b"
| "bb_shl (Str s) b =
     (if s \<noteq> [] then rbind (bb_append s b) (bb_append [0]) else bb_append [0] b)"
| "bb_shl (Bl v) b = bb_append (word_le (if v then 1 else 0 :: u32)) b"

fun bb_shl_all :: "field list \<Rightarrow> bytebuf \<Rightarrow> bb_error + bytebuf" where
  "bb_shl_all [] b = Inr b"
| "bb_shl_all (f # fs) b = rbind (bb_shl f b) (bb_shl_all fs)"

text \<open>\<open>std::isfinite\<close> of the float with these bits: the exponent is not all ones.\<close>

definition flt_isfinite :: "u32 \<Rightarrow> bool" where
  "flt_isfinite v \<longleftrightarrow> drop_bit 23 v AND 255 \<noteq> 255"

text \<open>The loop of \<open>operator>>(std::string&)\<close> on the unread bytes: the string and the bytes consumed.\<close>

fun read_cstr :: "bytes \<Rightarrow> bytes \<times> nat" where
  "read_cstr [] = ([], 0)"
| "read_cstr (c # cs) =
     (if c = 0 then ([], 1) else let (s, n) = read_cstr cs in (c # s, Suc n))"

fun bb_shr :: "field_type \<Rightarrow> bytebuf \<Rightarrow> bb_error + field \<times> bytebuf" where
  "bb_shr TU8 b = rbind (bb_read 1 b) (\<lambda>(bs, b'). Inr (U8 (le_word bs), b'))"
| "bb_shr TU16 b = rbind (bb_read 2 b) (\<lambda>(bs, b'). Inr (U16 (le_word bs), b'))"
| "bb_shr TU32 b = rbind (bb_read 4 b) (\<lambda>(bs, b'). Inr (U32 (le_word bs), b'))"
| "bb_shr TU64 b = rbind (bb_read 8 b) (\<lambda>(bs, b'). Inr (U64 (le_word bs), b'))"
| "bb_shr TFlt b =
     rbind (bb_read 4 b)
       (\<lambda>(bs, b'). Inr (Flt (if flt_isfinite (le_word bs) then le_word bs else 0), b'))"
| "bb_shr TStr b =
     (let (s, n) = read_cstr (drop (rpos b) (storage b)) in Inr (Str s, b\<lparr>rpos := rpos b + n\<rparr>))"
| "bb_shr TBl b =
     rbind (bb_read 1 b) (\<lambda>(bs, b'). Inr (Bl (0 < sint (le_word bs :: u8)), b'))"

fun bb_shr_all :: "field_type list \<Rightarrow> bytebuf \<Rightarrow> bb_error + field list \<times> bytebuf" where
  "bb_shr_all [] b = Inr ([], b)"
| "bb_shr_all (t # ts) b =
     rbind (bb_shr t b) (\<lambda>(f, b'). rbind (bb_shr_all ts b') (\<lambda>(fs, b''). Inr (f # fs, b'')))"

text \<open>The values of the fields that were read, by their places.\<close>

fun str_at :: "nat \<Rightarrow> field list \<Rightarrow> bytes" where
  "str_at i fs = (case fs ! i of Str s \<Rightarrow> s | _ \<Rightarrow> [])"

fun u32_at :: "nat \<Rightarrow> field list \<Rightarrow> u32" where
  "u32_at i fs = (case fs ! i of U32 v \<Rightarrow> v | _ \<Rightarrow> 0)"

fun u8_at :: "nat \<Rightarrow> field list \<Rightarrow> u8" where
  "u8_at i fs = (case fs ! i of U8 v \<Rightarrow> v | _ \<Rightarrow> 0)"

fun flt_at :: "nat \<Rightarrow> field list \<Rightarrow> u32" where
  "flt_at i fs = (case fs ! i of Flt v \<Rightarrow> v | _ \<Rightarrow> 0)"

section \<open>What a field looks like on the wire\<close>

fun field_bytes :: "field \<Rightarrow> bytes" where
  "field_bytes (U8 v) = word_le v"
| "field_bytes (U16 v) = word_le v"
| "field_bytes (U32 v) = word_le v"
| "field_bytes (U64 v) = word_le v"
| "field_bytes (Flt v) = word_le v"
| "field_bytes (Str s) = s @ [0]"
| "field_bytes (Bl v) = word_le (if v then 1 else 0 :: u32)"

definition fields_bytes :: "field list \<Rightarrow> bytes" where
  "fields_bytes fs = concat (map field_bytes fs)"

lemma fields_bytes_simps [simp]:
  "fields_bytes [] = []"
  "fields_bytes (f # fs) = field_bytes f @ fields_bytes fs"
  "fields_bytes (fs @ gs) = fields_bytes fs @ fields_bytes gs"
  by (simp_all add: fields_bytes_def)

lemma word_le_ne_Nil [simp]:
  "word_le (a :: u8) \<noteq> []" "word_le (b :: u16) \<noteq> []"
  "word_le (c :: u32) \<noteq> []" "word_le (d :: u64) \<noteq> []"
  by (metis length_word_le_widths list.size(3) zero_neq_numeral zero_neq_one)+

lemma field_bytes_ne_Nil [simp]: "field_bytes f \<noteq> []"
  by (cases f) simp_all

text \<open>Appending at the end of the storage, which is where every packet is written.\<close>

lemma bb_append_end:
  assumes "wpos b = bb_size b" and "src \<noteq> []" and "bb_size b < 10000000"
  shows "bb_append src b =
    Inr (b\<lparr>storage := storage b @ src, wpos := bb_size b + length src\<rparr>)"
  using assms by (simp add: bb_append_def bb_size_def Let_def)

lemma bb_shl_end:
  assumes "wpos b = bb_size b" and "bb_size b + length (field_bytes f) \<le> 10000000"
  shows "bb_shl f b =
    Inr (b\<lparr>storage := storage b @ field_bytes f, wpos := bb_size b + length (field_bytes f)\<rparr>)"
proof (cases f)
  case (Str s)
  show ?thesis
  proof (cases "s = []")
    case True
    with Str assms show ?thesis by (simp add: bb_append_end)
  next
    case False
    with Str assms show ?thesis
      by (simp add: bb_append_end) (simp add: bb_append_end bb_size_def)
  qed
qed (use assms in \<open>simp_all add: bb_append_end\<close>)

lemma bb_shl_all_end:
  assumes "wpos b = bb_size b" and "bb_size b + length (fields_bytes fs) \<le> 10000000"
  shows "bb_shl_all fs b =
    Inr (b\<lparr>storage := storage b @ fields_bytes fs, wpos := bb_size b + length (fields_bytes fs)\<rparr>)"
  using assms
proof (induction fs arbitrary: b)
  case Nil
  then show ?case by (simp add: bb_size_def)
next
  case (Cons f fs)
  let ?b = "b\<lparr>storage := storage b @ field_bytes f, wpos := bb_size b + length (field_bytes f)\<rparr>"
  have "bb_shl f b = Inr ?b" using Cons.prems by (intro bb_shl_end) simp_all
  moreover have "bb_shl_all fs ?b = Inr (?b\<lparr>storage := storage ?b @ fields_bytes fs,
      wpos := bb_size ?b + length (fields_bytes fs)\<rparr>)"
    using Cons.prems by (intro Cons.IH) (simp_all add: bb_size_def)
  ultimately show ?case by (simp add: bb_size_def)
qed

section \<open>Reading back\<close>

definition unread :: "bytebuf \<Rightarrow> bytes" where
  "unread b = drop (rpos b) (storage b)"

text \<open>The fields that survive the wire: no zero byte inside a string, no infinite float, no \<open>bool\<close>.\<close>

fun field_ok :: "field \<Rightarrow> bool" where
  "field_ok (Flt v) = flt_isfinite v"
| "field_ok (Str s) = (0 \<notin> set s)"
| "field_ok (Bl v) = False"
| "field_ok _ = True"

lemma read_cstr_append:
  "0 \<notin> set s \<Longrightarrow> read_cstr (s @ 0 # rest) = (s, Suc (length s))"
  by (induction s) auto

lemma read_cstr_bound: "snd (read_cstr cs) \<le> length cs"
  by (induction cs) (auto simp: Let_def split: prod.splits)

lemma bb_read_unread:
  assumes "unread b = xs @ rest" and "rpos b \<le> bb_size b"
  shows "bb_read (length xs) b = Inr (xs, b\<lparr>rpos := rpos b + length xs\<rparr>)"
proof -
  have "length (unread b) = bb_size b - rpos b" by (simp add: unread_def bb_size_def)
  with assms have "rpos b + length xs \<le> bb_size b" by simp
  with assms(1) show ?thesis by (simp add: bb_read_def unread_def)
qed

lemma unread_advance:
  "unread b = xs @ rest \<Longrightarrow> unread (b\<lparr>rpos := rpos b + length xs\<rparr>) = rest"
  unfolding unread_def by simp (metis add.commute append_eq_conv_conj drop_drop)

lemma bb_shr_field:
  assumes un: "unread b = field_bytes f @ rest" and le: "rpos b \<le> bb_size b" and ok: "field_ok f"
  shows "bb_shr (field_type_of f) b = Inr (f, b\<lparr>rpos := rpos b + length (field_bytes f)\<rparr>)"
proof -
  have rd: "bb_read (length (field_bytes f)) b =
      Inr (field_bytes f, b\<lparr>rpos := rpos b + length (field_bytes f)\<rparr>)"
    using un le by (rule bb_read_unread)
  show ?thesis
  proof (cases f)
    case (Str s)
    with un ok have "read_cstr (drop (rpos b) (storage b)) = (s, Suc (length s))"
      by (simp add: unread_def read_cstr_append)
    with Str show ?thesis by simp
  qed (use rd ok in \<open>simp_all add: le_word_u8 [simplified]\<close>)
qed

lemma bb_shr_all_fields:
  assumes "unread b = fields_bytes fs @ rest" and "rpos b \<le> bb_size b" and "list_all field_ok fs"
  shows "bb_shr_all (map field_type_of fs) b =
    Inr (fs, b\<lparr>rpos := rpos b + length (fields_bytes fs)\<rparr>)"
  using assms
proof (induction fs arbitrary: b)
  case (Cons f fs)
  let ?b = "b\<lparr>rpos := rpos b + length (field_bytes f)\<rparr>"
  have un: "unread b = field_bytes f @ fields_bytes fs @ rest" using Cons.prems(1) by simp
  have first: "bb_shr (field_type_of f) b = Inr (f, ?b)"
    using un Cons.prems by (intro bb_shr_field) auto
  have "length (unread b) = bb_size b - rpos b" by (simp add: unread_def bb_size_def)
  with un Cons.prems(2) have "rpos ?b \<le> bb_size ?b" by (simp add: bb_size_def)
  moreover have "unread ?b = fields_bytes fs @ rest" using un by (rule unread_advance)
  ultimately have "bb_shr_all (map field_type_of fs) ?b =
      Inr (fs, ?b\<lparr>rpos := rpos ?b + length (fields_bytes fs)\<rparr>)"
    using Cons.prems(3) by (intro Cons.IH) simp_all
  with first show ?case by (simp add: add.assoc)
qed simp

text \<open>A read never leaves the storage, whatever is read.\<close>

lemma bb_shr_stays:
  assumes "bb_shr t b = Inr (f, b')" and "rpos b \<le> bb_size b"
  shows "rpos b \<le> rpos b' \<and> rpos b' \<le> bb_size b' \<and> storage b' = storage b \<and> wpos b' = wpos b"
proof (cases t)
  case TStr
  obtain s n where sn: "read_cstr (drop (rpos b) (storage b)) = (s, n)" by fastforce
  then have "n \<le> bb_size b - rpos b"
    using read_cstr_bound [of "drop (rpos b) (storage b)"] by (simp add: bb_size_def)
  with TStr sn assms show ?thesis by (auto simp: bb_size_def)
qed (use assms in \<open>auto simp: bb_read_def bb_size_def split: if_splits\<close>)

lemma bb_shr_all_stays:
  assumes "bb_shr_all ts b = Inr (fs, b')" and "rpos b \<le> bb_size b"
  shows "rpos b \<le> rpos b' \<and> rpos b' \<le> bb_size b' \<and> storage b' = storage b"
  using assms
proof (induction ts arbitrary: b fs)
  case (Cons t ts)
  from Cons.prems(1) obtain f b1 gs where f: "bb_shr t b = Inr (f, b1)"
    and r: "bb_shr_all ts b1 = Inr (gs, b')" by auto
  from bb_shr_stays [OF f Cons.prems(2)] have b1: "rpos b \<le> rpos b1" "rpos b1 \<le> bb_size b1"
    "storage b1 = storage b" by auto
  from Cons.IH [OF r b1(2)] b1 show ?case by auto
qed simp

section \<open>Packed GUIDs\<close>

text \<open>
  \<open>appendPackGUID\<close> sends a mask byte, then the nonzero bytes of the GUID from the least
  significant one. The loop stops at the first zero remainder.
\<close>

function pack_guid_loop :: "nat \<Rightarrow> u64 \<Rightarrow> u8 \<Rightarrow> bytes \<Rightarrow> u8 \<times> bytes" where
  "pack_guid_loop i guid mark out =
     (if guid = 0 then (mark, out)
      else if guid AND 0xFF \<noteq> 0
      then pack_guid_loop (Suc i) (drop_bit 8 guid) (mark OR push_bit i 1)
             (out @ [ucast (guid AND 0xFF)])
      else pack_guid_loop (Suc i) (drop_bit 8 guid) mark out)"
  by pat_completeness auto
termination
proof (relation "measure (\<lambda>(i, guid, mark, out). unat guid)")
  fix guid :: u64
  assume "guid \<noteq> 0"
  then have "0 < unat guid" by (simp add: unat_gt_0)
  then have "unat (drop_bit 8 guid) < unat guid"
    by (simp only: unsigned_drop_bit_eq) (simp add: drop_bit_eq_div take_bit_eq_mod)
  then show "((Suc i, drop_bit 8 guid, m, xs), (i, guid, mark, out)) \<in>
      measure (\<lambda>(i, guid, mark, out). unat guid)" for i m xs mark out
    by simp
  then show "((Suc i, drop_bit 8 guid, m, xs), (i, guid, mark, out)) \<in>
      measure (\<lambda>(i, guid, mark, out). unat guid)" for i m xs mark out .
qed simp

declare pack_guid_loop.simps [simp del]

definition bb_appendPackGUID :: "u64 \<Rightarrow> bytebuf \<Rightarrow> bb_error + bytebuf" where
  "bb_appendPackGUID guid b =
     (let (mark, out) = pack_guid_loop 0 guid 0 [] in bb_append (mark # out) b)"

fun read_pack_loop :: "nat list \<Rightarrow> u8 \<Rightarrow> u64 \<Rightarrow> bytebuf \<Rightarrow> bb_error + u64 \<times> bytebuf" where
  "read_pack_loop [] mark guid b = Inr (guid, b)"
| "read_pack_loop (i # is) mark guid b =
     (if mark AND push_bit i 1 \<noteq> 0
      then if bb_size b < rpos b + 1
           then Inl (ByteBufferPositionException False (rpos b) 1 (bb_size b))
           else rbind (bb_read 1 b)
             (\<lambda>(bs, b'). read_pack_loop is mark
                (guid OR push_bit (i * 8) (ucast (le_word bs :: u8))) b')
      else read_pack_loop is mark guid b)"

definition bb_readPackGUID :: "bytebuf \<Rightarrow> bb_error + u64 \<times> bytebuf" where
  "bb_readPackGUID b =
     (if bb_size b < rpos b + 1
      then Inl (ByteBufferPositionException False (rpos b) 1 (bb_size b))
      else rbind (bb_read 1 b) (\<lambda>(bs, b'). read_pack_loop [0..<8] (le_word bs) 0 b'))"

text \<open>Byte \<open>j\<close> of a GUID, and what the writer's loop produces in terms of it.\<close>

definition guid_byte :: "u64 \<Rightarrow> nat \<Rightarrow> u8" where
  "guid_byte guid j = ucast (drop_bit (8 * j) guid)"

lemma bit_guid_byte: "bit (guid_byte guid j) k \<longleftrightarrow> k < 8 \<and> bit guid (8 * j + k)"
  by (auto simp: guid_byte_def bit_ucast_iff bit_drop_bit_eq bit_imp_le_length)

lemma guid_byte_0_iff: "guid_byte guid j = 0 \<longleftrightarrow> (\<forall>k<8. \<not> bit guid (8 * j + k))"
  by (auto simp: bit_eq_iff bit_guid_byte)

lemma low_byte_drop:
  "(drop_bit (8 * i) guid AND 0xFF = 0) = (guid_byte guid i = 0)"
  "ucast (drop_bit (8 * i) guid AND 0xFF) = guid_byte guid i"
proof -
  have m: "bit (0xFF :: u64) k \<longleftrightarrow> k < 8" for k
  proof -
    have "(0xFF :: u64) = mask 8" by (simp add: mask_eq_exp_minus_1)
    then show ?thesis by (simp only: bit_mask_iff) auto
  qed
  show "ucast (drop_bit (8 * i) guid AND 0xFF) = guid_byte guid i"
    by (rule bit_word_eqI) (simp only: bit_ucast_iff bit_and_iff m guid_byte_def, auto)
  have "(drop_bit (8 * i) guid AND 0xFF = 0) = (\<forall>k<64. \<not> (bit (drop_bit (8 * i) guid) k \<and> k < 8))"
    by (simp only: bit_eq_iff bit_and_iff m bit_0_eq bot_apply) auto
  also have "\<dots> = (guid_byte guid i = 0)"
  proof -
    have lt: "k < 64" if "k < 8" for k :: nat using that by simp
    show ?thesis by (simp add: guid_byte_0_iff bit_drop_bit_eq) (meson lt)
  qed
  finally show "(drop_bit (8 * i) guid AND 0xFF = 0) = (guid_byte guid i = 0)" .
qed

lemma drop_all_bytes:
  assumes "drop_bit (8 * i) guid = 0" and "i \<le> j"
  shows "guid_byte guid j = 0"
proof -
  have "\<not> bit guid (8 * i + k)" for k
  proof -
    have "\<not> bit (drop_bit (8 * i) guid) k" using assms(1) by simp
    then show ?thesis by (simp add: bit_drop_bit_eq)
  qed
  from this [of "8 * (j - i) + k" for k] assms(2) show ?thesis
    by (auto simp: guid_byte_0_iff algebra_simps)
qed

lemma pack_guid_loop_spec:
  assumes "i \<le> 8" and "pack_guid_loop i (drop_bit (8 * i) guid) mark out = (m, o')"
  shows "(\<forall>j<8. bit m j \<longleftrightarrow> bit mark j \<or> i \<le> j \<and> guid_byte guid j \<noteq> 0) \<and>
    o' = out @ map (guid_byte guid) (filter (\<lambda>j. guid_byte guid j \<noteq> 0) [i..<8])"
  using assms
proof (induction "8 - i" arbitrary: i mark out)
  case 0
  then have "i = 8" by simp
  moreover have "drop_bit 64 guid = 0" by (auto simp: bit_eq_iff bit_drop_bit_eq dest: bit_imp_le_length)
  ultimately show ?case using 0 by (auto simp: pack_guid_loop.simps)
next
  case (Suc n)
  then have lt: "i < 8" and up: "[i..<8] = i # [Suc i..<8]"
    and n: "n = 8 - Suc i" and le: "Suc i \<le> 8" by (simp_all add: upt_conv_Cons)
  have dr: "drop_bit 8 (drop_bit (8 * i) guid) = drop_bit (8 * Suc i) guid" by simp
  show ?case
  proof (cases "drop_bit (8 * i) guid = 0")
    case True
    then have "\<forall>j. i \<le> j \<longrightarrow> guid_byte guid j = 0" using drop_all_bytes by blast
    with True Suc.prems show ?thesis by (auto simp: pack_guid_loop.simps filter_empty_conv)
  next
    case False
    show ?thesis
    proof (cases "guid_byte guid i = 0")
      case True
      with False Suc.prems(2) have "pack_guid_loop (Suc i) (drop_bit (8 * Suc i) guid) mark out = (m, o')"
        by (subst (asm) pack_guid_loop.simps) (simp add: low_byte_drop dr del: drop_bit_drop_bit)
      from Suc.hyps(1) [OF n le this] lt True show ?thesis
        by (auto simp: up Suc_le_eq le_less)
    next
      case nz: False
      with False Suc.prems(2) have "pack_guid_loop (Suc i) (drop_bit (8 * Suc i) guid)
          (mark OR push_bit i 1) (out @ [guid_byte guid i]) = (m, o')"
        by (subst (asm) pack_guid_loop.simps) (simp add: low_byte_drop dr del: drop_bit_drop_bit)
      from Suc.hyps(1) [OF n le this] lt nz show ?thesis
        by (auto simp: up Suc_le_eq le_less bit_or_iff bit_exp_iff)
    qed
  qed
qed

lemma mark_bit_test: "i < 8 \<Longrightarrow> (mark :: u8) AND push_bit i 1 \<noteq> 0 \<longleftrightarrow> bit mark i"
  by (simp only: bit_iff_and_push_bit_not_eq_0)

text \<open>The reader ORs byte \<open>j\<close> in at position \<open>8 * j\<close> for every set bit of the mask.\<close>

lemma read_pack_loop_spec:
  assumes "i \<le> 8" and "rpos b \<le> bb_size b"
    and "unread b = map (guid_byte guid) (filter (bit mark) [i..<8]) @ rest"
    and "\<forall>j<8. bit mark j \<longleftrightarrow> guid_byte guid j \<noteq> 0"
  shows "\<exists>b'. read_pack_loop [i..<8] mark g b =
      Inr (g OR push_bit (8 * i) (drop_bit (8 * i) guid), b') \<and> unread b' = rest \<and>
      storage b' = storage b \<and> rpos b' \<le> bb_size b'"
  using assms
proof (induction "8 - i" arbitrary: i g b)
  case 0
  then have "i = 8" by simp
  moreover have "drop_bit 64 guid = 0" by (auto simp: bit_eq_iff bit_drop_bit_eq dest: bit_imp_le_length)
  ultimately show ?case using 0 by simp
next
  case (Suc n)
  then have lt: "i < 8" and up: "[i..<8] = i # [Suc i..<8]"
    and n: "n = 8 - Suc i" and le: "Suc i \<le> 8" by (simp_all add: upt_conv_Cons)
  have step: "push_bit (8 * i) (ucast (guid_byte guid i)) OR
      push_bit (8 * Suc i) (drop_bit (8 * Suc i) guid) = push_bit (8 * i) (drop_bit (8 * i) guid)"
  proof (rule bit_word_eqI)
    fix n
    assume "n < LENGTH(64)"
    with lt show "bit (push_bit (8 * i) (ucast (guid_byte guid i)) OR
        push_bit (8 * Suc i) (drop_bit (8 * Suc i) guid)) n =
        bit (push_bit (8 * i) (drop_bit (8 * i) guid)) n"
      by (cases "n < 8 * Suc i")
        (auto simp: bit_or_iff bit_push_bit_iff bit_drop_bit_eq bit_ucast_iff bit_guid_byte)
  qed
  show ?case
  proof (cases "bit mark i")
    case False
    with Suc.prems lt have "guid_byte guid i = 0" by simp
    with step have eq: "push_bit (8 * Suc i) (drop_bit (8 * Suc i) guid) =
        push_bit (8 * i) (drop_bit (8 * i) guid)" by simp
    from Suc.hyps(1) [OF n le Suc.prems(2) _ Suc.prems(4), of g] Suc.prems(3) False up
    show ?thesis unfolding up read_pack_loop.simps eq [symmetric] mark_bit_test [OF lt] by simp
  next
    case True
    let ?b = "b\<lparr>rpos := rpos b + 1\<rparr>"
    let ?g = "g OR push_bit (8 * i) (ucast (guid_byte guid i))"
    have un: "unread b = [guid_byte guid i] @ (map (guid_byte guid) (filter (bit mark) [Suc i..<8]) @ rest)"
      using Suc.prems(3) up True by simp
    have rd: "bb_read 1 b = Inr ([guid_byte guid i], ?b)"
      using bb_read_unread [OF un Suc.prems(2)] by simp
    then have sz: "\<not> bb_size b < rpos b + 1" by (auto simp: bb_read_def split: if_splits)
    have "unread ?b = map (guid_byte guid) (filter (bit mark) [Suc i..<8]) @ rest"
      using unread_advance [OF un] by simp
    then obtain b' where b': "read_pack_loop [Suc i..<8] mark ?g ?b =
        Inr (?g OR push_bit (8 * Suc i) (drop_bit (8 * Suc i) guid), b')"
      "unread b' = rest" "storage b' = storage b" "rpos b' \<le> bb_size b'"
      using Suc.hyps(1) [OF n le _ _ Suc.prems(4), of ?b ?g] sz by (auto simp: bb_size_def)
    have "le_word [guid_byte guid i] = guid_byte guid i"
      using le_word_u8 [of "guid_byte guid i"] by (simp add: word_le_u8)
    with b' rd sz True have "read_pack_loop [i..<8] mark g b =
        Inr (?g OR push_bit (8 * Suc i) (drop_bit (8 * Suc i) guid), b')"
      unfolding up read_pack_loop.simps mark_bit_test [OF lt] by (simp add: mult.commute)
    then show ?thesis using b' step by (auto simp: or.assoc)
  qed
qed

lemma readPackGUID_appendPackGUID:
  assumes b0: "bb_appendPackGUID guid b0 = Inr b" and at_end: "wpos b0 = bb_size b0"
    and pos: "rpos b0 = bb_size b0"
  shows "\<exists>b'. bb_readPackGUID b = Inr (guid, b') \<and> rpos b' = bb_size b'"
proof -
  obtain m xs where p: "pack_guid_loop 0 guid 0 [] = (m, xs)" by fastforce
  then have spec: "\<forall>j<8. bit m j \<longleftrightarrow> guid_byte guid j \<noteq> 0"
    "xs = map (guid_byte guid) (filter (\<lambda>j. guid_byte guid j \<noteq> 0) [0..<8])"
    using pack_guid_loop_spec [of 0 guid 0 "[]" m xs] by auto
  from b0 p have ap: "bb_append (m # xs) b0 = Inr b" by (simp add: bb_appendPackGUID_def)
  then have small: "bb_size b0 < 10000000" by (auto simp: bb_append_def split: if_splits)
  with ap at_end have b: "b = b0\<lparr>storage := storage b0 @ m # xs, wpos := bb_size b0 + Suc (length xs)\<rparr>"
    using bb_append_end [of b0 "m # xs"] by simp
  have un: "unread b = [m] @ xs" using pos by (simp add: b unread_def bb_size_def)
  have le: "rpos b \<le> bb_size b" "\<not> bb_size b < rpos b + 1" using pos by (simp_all add: b bb_size_def)
  let ?b = "b\<lparr>rpos := rpos b + 1\<rparr>"
  have rd: "bb_read 1 b = Inr ([m], ?b)" using bb_read_unread [OF un le(1)] by simp
  have lw: "le_word [m] = m" using le_word_u8 [of m] by (simp add: word_le_u8)
  have "filter (bit m) [0..<8] = filter (\<lambda>j. guid_byte guid j \<noteq> 0) [0..<8]"
    using spec(1) by (intro filter_cong) auto
  then have "unread ?b = map (guid_byte guid) (filter (bit m) [0..<8]) @ []"
    using unread_advance [OF un] spec(2) by simp
  then obtain b' where b': "read_pack_loop [0..<8] m 0 ?b = Inr (guid, b')" "unread b' = []"
    "storage b' = storage b" "rpos b' \<le> bb_size b'"
    using read_pack_loop_spec [of 0 ?b guid m "[]" 0] spec(1) le(2) by (auto simp: bb_size_def)
  then have "bb_readPackGUID b = Inr (guid, b')" using rd le(2) by (simp add: bb_readPackGUID_def lw)
  moreover have "rpos b' = bb_size b'" using b' by (simp add: unread_def bb_size_def)
  ultimately show ?thesis by blast
qed

section \<open>Packets\<close>

record wpacket =
  opcode :: u16
  buf :: bytebuf

definition pkt_new :: "u16 \<Rightarrow> wpacket" where
  "pkt_new op = \<lparr>opcode = op, buf = bb_new\<rparr>"

definition pkt_Initialize :: "u16 \<Rightarrow> wpacket \<Rightarrow> wpacket" where
  "pkt_Initialize op p = p\<lparr>buf := bb_clear (buf p), opcode := op\<rparr>"

text \<open>
  \<open>mk_pkt op fs\<close> is the packet that \<open>WorldPacket p(op); p << f1 << ...\<close> leaves: the following
  lemma is why the components below write it down directly.
\<close>

definition mk_pkt :: "u16 \<Rightarrow> field list \<Rightarrow> wpacket" where
  "mk_pkt op fs =
     \<lparr>opcode = op,
      buf = \<lparr>rpos = 0, wpos = length (fields_bytes fs), storage = fields_bytes fs\<rparr>\<rparr>"

lemma mk_pkt_streams:
  assumes "length (fields_bytes fs) \<le> 10000000"
  shows "rbind (bb_shl_all fs (buf (pkt_new op))) (\<lambda>b. Inr (pkt_new op\<lparr>buf := b\<rparr>)) =
    Inr (mk_pkt op fs)"
proof -
  have "bb_shl_all fs bb_new = Inr (bb_new\<lparr>storage := fields_bytes fs,
      wpos := length (fields_bytes fs)\<rparr>)"
    using bb_shl_all_end [of bb_new fs] assms by (simp add: bb_new_def bb_size_def)
  then show ?thesis by (simp add: pkt_new_def mk_pkt_def bb_new_def)
qed

lemma mk_pkt_sel [simp]:
  "opcode (mk_pkt op fs) = op"
  "storage (buf (mk_pkt op fs)) = fields_bytes fs"
  "rpos (buf (mk_pkt op fs)) = 0"
  "bb_size (buf (mk_pkt op fs)) = length (fields_bytes fs)"
  by (simp_all add: mk_pkt_def bb_size_def)

lemma mk_pkt_read:
  assumes "list_all field_ok fs"
  shows "bb_shr_all (map field_type_of fs) (buf (mk_pkt op (fs @ gs))) =
    Inr (fs, (buf (mk_pkt op (fs @ gs)))\<lparr>rpos := length (fields_bytes fs)\<rparr>)"
  using bb_shr_all_fields [of "buf (mk_pkt op (fs @ gs))" fs "fields_bytes gs"] assms
  by (simp add: unread_def)

text \<open>\<open>reads b fs\<close>: what is left to read in \<open>b\<close> is exactly these fields.\<close>

definition reads :: "bytebuf \<Rightarrow> field list \<Rightarrow> bool" where
  "reads b fs \<longleftrightarrow> unread b = fields_bytes fs \<and> rpos b \<le> bb_size b"

lemma reads_mk_pkt [intro]: "reads (buf (mk_pkt op fs)) fs"
  by (simp add: reads_def unread_def)

lemma fields_bytes_append: "fields_bytes (fs @ gs) = fields_bytes fs @ fields_bytes gs"
  by (simp add: fields_bytes_def)

lemma reads_all:
  assumes "reads b (fs @ gs)" and "list_all field_ok fs"
  obtains b' where "bb_shr_all (map field_type_of fs) b = Inr (fs, b')" and "reads b' gs"
proof -
  let ?b = "b\<lparr>rpos := rpos b + length (fields_bytes fs)\<rparr>"
  have un: "unread b = fields_bytes fs @ fields_bytes gs" and le: "rpos b \<le> bb_size b"
    using assms(1) by (simp_all add: reads_def fields_bytes_append)
  have "length (unread b) = bb_size b - rpos b" by (simp add: unread_def bb_size_def)
  with un le have "rpos ?b \<le> bb_size ?b" by (simp add: bb_size_def)
  moreover have "unread ?b = fields_bytes gs" using un by (rule unread_advance)
  ultimately have "reads ?b gs" by (simp add: reads_def)
  with bb_shr_all_fields [OF un le assms(2)] that show thesis by blast
qed

lemma reads_one:
  assumes "reads b (f # fs)" and "field_ok f"
  obtains b' where "bb_shr (field_type_of f) b = Inr (f, b')" and "reads b' fs"
  using reads_all [of b "[f]" fs] assms by auto

end
