(* ===== verification/Routing.thy ===== *)
theory Routing
  imports ByteBuffer
begin

text \<open>
  \<open>shade/Server/RoutingHelper.cpp\<close>: which node serves a map, which nodes are up, the
  fail-over of the master node, and the last GUIDs every node reported. The state is the
  singleton's. Rows of the database are arguments; \<open>junk\<close> is the content of a struct the
  code declares without initialising it. \<open>None\<close> is a dereferenced null result.
\<close>

section \<open>Data\<close>

record NodeMap =
  nm_NodeID :: u32
  nm_NodeOnline :: bool
  nm_BackupNodeID :: u32
  nm_BackupNodeOnline :: bool
  nm_Master :: u32
  nm_Name :: bytes
  nm_Color :: bytes
  nm_SubNodeID :: u32
  nm_SubNodeOnline :: bool

record NodeList =
  nl_name :: bytes
  nl_IP :: bytes
  nl_port :: u16
  nl_controlport :: u16
  nl_online :: bool
  nl_can_enter :: bool
  nl_type :: u8
  nl_LastItemGUID :: u32
  nl_LastMailGUID :: u32
  nl_LastGroupGUID :: u32
  nl_LastCorpseID :: u32

record RoutingHelper =
  m_maplist :: "(u32 \<times> NodeMap) list"
  m_nodelist :: "(u32 \<times> NodeList) list"
  m_OnMaster :: bool
  MasterNode :: u32

text \<open>A row of \<open>map_table\<close> and of \<open>nodelist\<close>, column by column as the code reads them.\<close>

type_synonym map_row = "u32 \<times> u32 \<times> u32 \<times> u32 \<times> bytes \<times> bytes"
type_synonym node_row = "u32 \<times> bytes \<times> bytes \<times> 32 word \<times> 32 word \<times> bool \<times> u8"

section \<open>The interface of a node registry\<close>

text \<open>
  What the sessions rely on: nodes come up and go down, and the two questions of the router
  are answered by the last thing that happened to the node.
\<close>

datatype 'n node_event = NodeUp 'n | NodeDown 'n

fun registry_run :: "('n \<Rightarrow> 'r \<Rightarrow> 'r) \<Rightarrow> ('n \<Rightarrow> 'r \<Rightarrow> 'r) \<Rightarrow> 'n node_event list \<Rightarrow> 'r \<Rightarrow> 'r" where
  "registry_run up down [] r = r"
| "registry_run up down (NodeUp n # es) r = registry_run up down es (up n r)"
| "registry_run up down (NodeDown n # es) r = registry_run up down es (down n r)"

text \<open>What the last event about a node says, if there was one.\<close>

fun last_says :: "'n \<Rightarrow> 'n node_event list \<Rightarrow> bool \<Rightarrow> bool" where
  "last_says n [] b = b"
| "last_says n (NodeUp m # es) b = last_says n es (if m = n then True else b)"
| "last_says n (NodeDown m # es) b = last_says n es (if m = n then False else b)"

locale node_registry =
  fixes known online can_enter :: "'n \<Rightarrow> 'r \<Rightarrow> bool"
    and up down :: "'n \<Rightarrow> 'r \<Rightarrow> 'r"
  assumes known_up: "known n (up m r) = known n r"
    and known_down: "known n (down m r) = known n r"
    and enter_known: "can_enter n r \<Longrightarrow> known n r"
    and enter_up: "can_enter n (up m r) \<longleftrightarrow> n = m \<and> known m r \<or> can_enter n r"
    and enter_down: "can_enter n (down m r) \<longleftrightarrow> n \<noteq> m \<and> can_enter n r"
    and online_up: "online n (up m r) = online n r"
    and online_down: "online n (down m r) \<longleftrightarrow> n \<noteq> m \<and> online n r"
begin

lemma enter_run:
  "can_enter n (registry_run up down es r) \<longleftrightarrow> known n r \<and> last_says n es (can_enter n r)"
proof (induction es arbitrary: r)
  case Nil
  show ?case using enter_known by auto
next
  case (Cons e es)
  show ?case
  proof (cases e)
    case (NodeUp m)
    have "(can_enter n (up m r)) = (if m = n then known n r else can_enter n r)"
      using enter_up [of n m r] enter_known [of n r] by auto
    with NodeUp Cons [of "up m r"] show ?thesis by (auto simp: known_up)
  next
    case (NodeDown m)
    have "can_enter n (down m r) = (if m = n then False else can_enter n r)"
      using enter_down [of n m r] by auto
    with NodeDown Cons [of "down m r"] show ?thesis by (simp add: known_down)
  qed
qed

lemma online_run:
  "online n (registry_run up down es r) \<longleftrightarrow> online n r \<and> NodeDown n \<notin> set es"
proof (induction es arbitrary: r)
  case (Cons e es)
  then show ?case by (cases e) (auto simp: online_up online_down)
qed simp

end

section \<open>Maps\<close>

definition LoadNodeMap :: "NodeMap \<Rightarrow> map_row list option \<Rightarrow> RoutingHelper \<Rightarrow> RoutingHelper" where
  "LoadNodeMap junk result r =
     (case result of
        None \<Rightarrow> r
      | Some rows \<Rightarrow>
          r\<lparr>m_maplist := fold (\<lambda>(Mapid, nid, backup, sub, nam, col) ml.
                um_set Mapid (junk\<lparr>nm_NodeID := nid, nm_BackupNodeID := backup,
                  nm_SubNodeID := sub, nm_Name := nam, nm_Color := col\<rparr>) ml) rows (m_maplist r),
            MasterNode := 1, m_OnMaster := True\<rparr>)"

definition GetNodeForMap :: "u32 \<Rightarrow> RoutingHelper \<Rightarrow> int" where
  "GetNodeForMap Map_ID r =
     (case map_of (m_maplist r) Map_ID of None \<Rightarrow> -1 | Some nm \<Rightarrow> sint (nm_NodeID nm))"

text \<open>\<open>find_map P g d\<close> is the loop \<open>for (iter) if (P) return g; return d\<close>.\<close>

fun find_map :: "('v \<Rightarrow> bool) \<Rightarrow> ('v \<Rightarrow> 'r) \<Rightarrow> 'r \<Rightarrow> ('k \<times> 'v) list \<Rightarrow> 'r" where
  "find_map P g d [] = d"
| "find_map P g d ((k, v) # m) = (if P v then g v else find_map P g d m)"

definition error_label :: bytes where
  "error_label = [0x7C, 0x63, 0x66, 0x66, 0x46, 0x46, 0x30, 0x30, 0x30, 0x30, 0x20,
     0x65, 0x72, 0x72, 0x6F, 0x72, 0x20, 0x7C, 0x72]"

definition GetNameForMapNode :: "u32 \<Rightarrow> RoutingHelper \<Rightarrow> bytes" where
  "GetNameForMapNode m r = find_map (\<lambda>v. nm_NodeID v = m) nm_Name error_label (m_maplist r)"

definition GetColorForMapNode :: "u32 \<Rightarrow> RoutingHelper \<Rightarrow> bytes" where
  "GetColorForMapNode m r = find_map (\<lambda>v. nm_NodeID v = m) nm_Color error_label (m_maplist r)"

definition GetBackupNodeForMap :: "u32 \<Rightarrow> RoutingHelper \<Rightarrow> u32" where
  "GetBackupNodeForMap Map_ID r =
     (case map_of (m_maplist r) Map_ID of None \<Rightarrow> 0 | Some nm \<Rightarrow> nm_SubNodeID nm)"

definition GetNodeForID :: "u32 \<Rightarrow> RoutingHelper \<Rightarrow> u32" where
  "GetNodeForID Node_ID r = find_map (\<lambda>v. nm_BackupNodeID v = Node_ID) nm_NodeID 0 (m_maplist r)"

definition GetBackupNodeForID :: "u32 \<Rightarrow> RoutingHelper \<Rightarrow> u32" where
  "GetBackupNodeForID Node_ID r = find_map (\<lambda>v. nm_NodeID v = Node_ID) nm_BackupNodeID 0 (m_maplist r)"

definition GetSubNodeForMap :: "u32 \<Rightarrow> RoutingHelper \<Rightarrow> u32" where
  "GetSubNodeForMap Map_ID r =
     (case map_of (m_maplist r) Map_ID of None \<Rightarrow> 0 | Some nm \<Rightarrow> nm_SubNodeID nm)"

section \<open>Nodes\<close>

definition LoadNodeList :: "NodeList \<Rightarrow> node_row list option \<Rightarrow> RoutingHelper \<Rightarrow> RoutingHelper" where
  "LoadNodeList junk result r =
     (case result of
        None \<Rightarrow> r
      | Some rows \<Rightarrow>
          r\<lparr>m_nodelist := fold (\<lambda>(NodeID, nam, ip, port, cport, onl, typ) nl.
                um_set NodeID (junk\<lparr>nl_name := nam, nl_IP := ip, nl_port := ucast port,
                  nl_controlport := ucast cport, nl_online := onl, nl_type := typ,
                  nl_LastItemGUID := 0, nl_LastMailGUID := 0, nl_LastGroupGUID := 0\<rparr>) nl)
              rows (m_nodelist r)\<rparr>)"

definition CheckNodeID :: "u32 \<Rightarrow> RoutingHelper \<Rightarrow> bool" where
  "CheckNodeID NodeID r =
     (case map_of (m_nodelist r) NodeID of None \<Rightarrow> False | Some n \<Rightarrow> nl_online n)"

definition CanEnterNodeID :: "u32 \<Rightarrow> RoutingHelper \<Rightarrow> bool" where
  "CanEnterNodeID NodeID r =
     (case map_of (m_nodelist r) NodeID of None \<Rightarrow> False | Some n \<Rightarrow> nl_can_enter n)"

definition GetFirstNode :: u32 where "GetFirstNode = 1"

definition GetNodeConnectionData :: "NodeList \<Rightarrow> u32 \<Rightarrow> RoutingHelper \<Rightarrow> NodeList" where
  "GetNodeConnectionData junk NodeID r =
     (case map_of (m_nodelist r) NodeID of None \<Rightarrow> junk | Some n \<Rightarrow> n)"

definition GetNodeCount :: "RoutingHelper \<Rightarrow> u32" where
  "GetNodeCount r = fold (\<lambda>(k, _) count. max count k) (m_nodelist r) 0"

text \<open>\<open>m_nodelist[k].f = v\<close> for a key found before.\<close>

definition upd_node :: "u32 \<Rightarrow> (NodeList \<Rightarrow> NodeList) \<Rightarrow> RoutingHelper \<Rightarrow> RoutingHelper" where
  "upd_node Node f r =
     (case map_of (m_nodelist r) Node of
        None \<Rightarrow> r
      | Some n \<Rightarrow> r\<lparr>m_nodelist := um_set Node (f n) (m_nodelist r)\<rparr>)"

definition SetNodeOnline :: "u32 \<Rightarrow> RoutingHelper \<Rightarrow> RoutingHelper" where
  "SetNodeOnline Node r = upd_node Node (\<lambda>n. n\<lparr>nl_can_enter := True\<rparr>) r"

definition SetNodeOffline :: "u32 \<Rightarrow> RoutingHelper \<Rightarrow> RoutingHelper" where
  "SetNodeOffline Node r = upd_node Node (\<lambda>n. n\<lparr>nl_online := False, nl_can_enter := False\<rparr>) r"

definition ENTITYID_ITEM :: u32 where "ENTITYID_ITEM = 1"
definition ENTITYID_MAIL :: u32 where "ENTITYID_MAIL = 2"
definition ENTITYID_CORPSE :: u32 where "ENTITYID_CORPSE = 3"
definition ENTITYID_GROUP :: u32 where "ENTITYID_GROUP = 4"

lemmas entity_ids = ENTITYID_ITEM_def ENTITYID_MAIL_def ENTITYID_CORPSE_def ENTITYID_GROUP_def

definition SetLastGUID :: "u32 \<Rightarrow> u32 \<Rightarrow> u32 \<Rightarrow> RoutingHelper \<Rightarrow> RoutingHelper" where
  "SetLastGUID Node typ GUID r =
     upd_node Node (\<lambda>n.
       if typ = ENTITYID_ITEM then n\<lparr>nl_LastItemGUID := GUID\<rparr>
       else if typ = ENTITYID_MAIL then n\<lparr>nl_LastMailGUID := GUID\<rparr>
       else if typ = ENTITYID_GROUP then n\<lparr>nl_LastGroupGUID := GUID\<rparr>
       else if typ = ENTITYID_CORPSE then n\<lparr>nl_LastCorpseID := GUID\<rparr>
       else n) r"

definition ResetLastGUID :: "RoutingHelper \<Rightarrow> RoutingHelper" where
  "ResetLastGUID r = r\<lparr>m_nodelist := map (\<lambda>(k, n). (k, n\<lparr>nl_LastItemGUID := 0,
     nl_LastMailGUID := 0, nl_LastGroupGUID := 0\<rparr>)) (m_nodelist r)\<rparr>"

text \<open>\<open>query\<close> is the \<open>online\<close> column of a node's row, if the row exists.\<close>

fun refresh_rows :: "(u32 \<Rightarrow> bool option) \<Rightarrow> (u32 \<times> NodeList) list \<Rightarrow> (u32 \<times> NodeList) list option" where
  "refresh_rows query [] = Some []"
| "refresh_rows query ((k, n) # m) =
     (if \<not> nl_online n then
        (case query k of
           None \<Rightarrow> None
         | Some b \<Rightarrow> map_option ((#) (k, n\<lparr>nl_online := b\<rparr>)) (refresh_rows query m))
      else map_option ((#) (k, n)) (refresh_rows query m))"

definition RefreshOnlineStat :: "(u32 \<Rightarrow> bool option) \<Rightarrow> RoutingHelper \<Rightarrow> RoutingHelper option" where
  "RefreshOnlineStat query r =
     map_option (\<lambda>nl. r\<lparr>m_nodelist := nl\<rparr>) (refresh_rows query (m_nodelist r))"

section \<open>The master node\<close>

text \<open>Node 1 is the master; when it is down the call tries another. 0 is failure.\<close>

definition ConnectToMaster :: "RoutingHelper \<Rightarrow> u32 \<times> RoutingHelper" where
  "ConnectToMaster r0 =
     (let r = r0\<lparr>MasterNode := 1\<rparr>
      in if CheckNodeID (MasterNode r) r then (MasterNode r, r)
         else if m_OnMaster r then
           (let NewMasterNode = GetBackupNodeForID (MasterNode r) r
            in if NewMasterNode > 0 \<and> CheckNodeID NewMasterNode r
               then (NewMasterNode, r\<lparr>MasterNode := NewMasterNode, m_OnMaster := False\<rparr>)
               else (0, r))
         else
           (let NewMasterNode = GetNodeForID (MasterNode r) r
            in if NewMasterNode > 0 \<and> CheckNodeID NewMasterNode r
               then (NewMasterNode, r\<lparr>MasterNode := NewMasterNode, m_OnMaster := True\<rparr>)
               else (0, r)))"

section \<open>Facts the components use\<close>

lemma map_of_upd_node:
  "map_of (m_nodelist (upd_node Node f r)) =
     (if map_of (m_nodelist r) Node = None then map_of (m_nodelist r)
      else (map_of (m_nodelist r))(Node \<mapsto> f (the (map_of (m_nodelist r) Node))))"
  by (auto simp: upd_node_def split: option.splits)

lemma upd_node_keys [simp]:
  "map fst (m_nodelist (upd_node Node f r)) = map fst (m_nodelist r)"
  by (auto simp: upd_node_def um_set_existing split: option.splits)

lemma upd_node_rest [simp]:
  "m_maplist (upd_node Node f r) = m_maplist r" "m_OnMaster (upd_node Node f r) = m_OnMaster r"
  "MasterNode (upd_node Node f r) = MasterNode r"
  by (auto simp: upd_node_def split: option.splits)

definition node_known :: "u32 \<Rightarrow> RoutingHelper \<Rightarrow> bool" where
  "node_known n r \<longleftrightarrow> map_of (m_nodelist r) n \<noteq> None"

lemmas node_defs = node_known_def CheckNodeID_def CanEnterNodeID_def SetNodeOnline_def
  SetNodeOffline_def map_of_upd_node

interpretation routing: node_registry node_known CheckNodeID CanEnterNodeID SetNodeOnline SetNodeOffline
  by unfold_locales (auto simp: node_defs split: option.splits if_splits)

lemma GetNodeCount_Max: "GetNodeCount r = Max (insert 0 (fst ` set (m_nodelist r)))"
proof -
  have "fold (\<lambda>(k, _) count. max count k) m (c :: u32) = fold max (map fst m) c" for m :: "(u32 \<times> NodeList) list" and c
    by (induction m arbitrary: c) (auto simp: max.commute)
  then have "GetNodeCount r = Max (set (0 # map fst (m_nodelist r)))"
    by (simp only: GetNodeCount_def Max.set_eq_fold)
  then show ?thesis by simp
qed

lemma GetNodeCount_ge: "k \<in> fst ` set (m_nodelist r) \<Longrightarrow> k \<le> GetNodeCount r"
  unfolding GetNodeCount_Max by (rule Max_ge) auto

lemma GetNodeCount_in: "GetNodeCount r \<in> insert 0 (fst ` set (m_nodelist r))"
  unfolding GetNodeCount_Max by (rule Max_in) auto

lemma refresh_rows_Some:
  "refresh_rows query m = Some m' \<Longrightarrow> map fst m' = map fst m \<and>
    (\<forall>k. map_of m' k = map_option (\<lambda>n. if nl_online n then n else n\<lparr>nl_online := the (query k)\<rparr>) (map_of m k))"
  by (induction query m arbitrary: m' rule: refresh_rows.induct) (auto split: if_splits option.splits)

lemma refresh_rows_query:
  "refresh_rows query m = Some m' \<Longrightarrow> map_of m k = Some n \<Longrightarrow> distinct (map fst m) \<Longrightarrow>
   \<not> nl_online n \<Longrightarrow> query k \<noteq> None"
  by (induction query m arbitrary: m' rule: refresh_rows.induct) (auto split: if_splits option.splits)

lemma SetLastGUID_read:
  assumes "node_known Node r"
  shows "GetNodeConnectionData junk Node (SetLastGUID Node ENTITYID_ITEM g r) =
      (GetNodeConnectionData junk Node r)\<lparr>nl_LastItemGUID := g\<rparr>"
    and "GetNodeConnectionData junk Node (SetLastGUID Node ENTITYID_MAIL g r) =
      (GetNodeConnectionData junk Node r)\<lparr>nl_LastMailGUID := g\<rparr>"
    and "GetNodeConnectionData junk Node (SetLastGUID Node ENTITYID_GROUP g r) =
      (GetNodeConnectionData junk Node r)\<lparr>nl_LastGroupGUID := g\<rparr>"
    and "GetNodeConnectionData junk Node (SetLastGUID Node ENTITYID_CORPSE g r) =
      (GetNodeConnectionData junk Node r)\<lparr>nl_LastCorpseID := g\<rparr>"
  using assms
  by (auto simp: GetNodeConnectionData_def SetLastGUID_def map_of_upd_node node_known_def entity_ids)

lemma SetLastGUID_other:
  "n \<noteq> Node \<Longrightarrow> GetNodeConnectionData junk n (SetLastGUID Node typ g r) = GetNodeConnectionData junk n r"
  by (auto simp: GetNodeConnectionData_def SetLastGUID_def map_of_upd_node)

lemma SetLastGUID_status [simp]:
  "CheckNodeID n (SetLastGUID Node typ g r) = CheckNodeID n r"
  "CanEnterNodeID n (SetLastGUID Node typ g r) = CanEnterNodeID n r"
  "node_known n (SetLastGUID Node typ g r) = node_known n r"
  "GetNodeCount (SetLastGUID Node typ g r) = GetNodeCount r"
proof -
  show "CheckNodeID n (SetLastGUID Node typ g r) = CheckNodeID n r"
    "CanEnterNodeID n (SetLastGUID Node typ g r) = CanEnterNodeID n r"
    "node_known n (SetLastGUID Node typ g r) = node_known n r"
    by (auto simp: node_defs SetLastGUID_def split: option.splits)
  have "set (map fst (m_nodelist (SetLastGUID Node typ g r))) = set (map fst (m_nodelist r))"
    by (simp only: SetLastGUID_def upd_node_keys)
  then show "GetNodeCount (SetLastGUID Node typ g r) = GetNodeCount r"
    by (simp add: GetNodeCount_Max)
qed

section \<open>Properties\<close>

text \<open>
  After any sequence of nodes reporting ready and control links dying, a node may be
  entered exactly if it is in the table and the last event about it was that it came up (or
  none happened and it could be entered before), and it counts as online only while no event
  has taken it down.
\<close>

theorem routing_last_event:
  "let r' = registry_run SetNodeOnline SetNodeOffline es r
   in CanEnterNodeID n r' = (node_known n r \<and> last_says n es (CanEnterNodeID n r)) \<and>
      CheckNodeID n r' = (CheckNodeID n r \<and> NodeDown n \<notin> set es)"
  by (simp add: routing.enter_run routing.online_run Let_def)

text \<open>
  \<open>ConnectToMaster\<close> never answers with a node that is down: it answers node 1 whenever
  that is online, and otherwise 0 or an online node, which it then records as the master; it
  changes no node's status.
\<close>

theorem ConnectToMaster_safe:
  "case ConnectToMaster r of (m, r') \<Rightarrow>
     (if CheckNodeID 1 r then m = 1 else m = 0 \<or> CheckNodeID m r \<and> MasterNode r' = m) \<and>
     m_nodelist r' = m_nodelist r \<and> m_maplist r' = m_maplist r"
  by (auto simp: ConnectToMaster_def Let_def CheckNodeID_def)

lemma ConnectToMaster_off_master:
  assumes "\<not> CheckNodeID 1 r" and "\<not> m_OnMaster r" and "GetNodeForID 1 r = 0"
  shows "ConnectToMaster r = (0, r\<lparr>MasterNode := 1\<rparr>)"
  using assms by (simp add: ConnectToMaster_def Let_def CheckNodeID_def GetNodeForID_def)

text \<open>
  With node 1 down and its backup up, the first call after start-up answers the backup, but
  the call also clears the on-master flag: unless node 1 is itself the backup of another node,
  every further call answers 0 while node 1 is down, although the backup is still up.
\<close>

theorem ConnectToMaster_fails_over_once:
  assumes "\<not> CheckNodeID 1 r" and "m_OnMaster r" and "GetBackupNodeForID 1 r = b" and "0 < b"
    and "CheckNodeID b r" and "GetNodeForID 1 r = 0"
  shows "fst (ConnectToMaster r) = b \<and>
    (\<forall>n. fst (ConnectToMaster (((\<lambda>s. snd (ConnectToMaster s)) ^^ Suc n) r)) = 0) \<and>
    CheckNodeID b (snd (ConnectToMaster r))"
proof -
  let ?r1 = "snd (ConnectToMaster r)"
  have one: "ConnectToMaster r = (b, r\<lparr>MasterNode := b, m_OnMaster := False\<rparr>)"
    using assms by (simp add: ConnectToMaster_def Let_def CheckNodeID_def GetBackupNodeForID_def)
  have stay: "\<not> CheckNodeID 1 s \<and> \<not> m_OnMaster s \<and> GetNodeForID 1 s = 0"
    if "s = ((\<lambda>s. snd (ConnectToMaster s)) ^^ n) ?r1" for n s
    using that
  proof (induction n arbitrary: s)
    case 0
    then show ?case using assms one by (simp add: CheckNodeID_def GetNodeForID_def)
  next
    case (Suc n)
    let ?t = "((\<lambda>s. snd (ConnectToMaster s)) ^^ n) ?r1"
    have "\<not> CheckNodeID 1 ?t \<and> \<not> m_OnMaster ?t \<and> GetNodeForID 1 ?t = 0" by (rule Suc.IH) simp
    moreover from this ConnectToMaster_off_master [of ?t] Suc.prems have "s = ?t\<lparr>MasterNode := 1\<rparr>" by simp
    ultimately show ?case by (simp add: CheckNodeID_def GetNodeForID_def)
  qed
  have "fst (ConnectToMaster (((\<lambda>s. snd (ConnectToMaster s)) ^^ Suc n) r)) = 0" for n
  proof -
    have "((\<lambda>s. snd (ConnectToMaster s)) ^^ Suc n) r = ((\<lambda>s. snd (ConnectToMaster s)) ^^ n) ?r1"
      by (simp only: funpow_Suc_right comp_apply)
    with stay [OF this] ConnectToMaster_off_master show ?thesis by simp
  qed
  moreover have "CheckNodeID b ?r1" using assms(5) one by (simp add: CheckNodeID_def)
  ultimately show ?thesis using one by simp
qed

definition routing_example :: RoutingHelper where
  "routing_example =
     (let nm = \<lparr>nm_NodeID = 1, nm_NodeOnline = False, nm_BackupNodeID = 2, nm_BackupNodeOnline = False,
            nm_Master = 0, nm_Name = [], nm_Color = [], nm_SubNodeID = 3, nm_SubNodeOnline = False\<rparr>;
          nd = (\<lambda>on. \<lparr>nl_name = [], nl_IP = [], nl_port = 0, nl_controlport = 0, nl_online = on,
            nl_can_enter = on, nl_type = 1, nl_LastItemGUID = 0, nl_LastMailGUID = 0,
            nl_LastGroupGUID = 0, nl_LastCorpseID = 0\<rparr>)
      in \<lparr>m_maplist = [(0, nm)], m_nodelist = [(1, nd False), (2, nd True)], m_OnMaster = True,
          MasterNode = 1\<rparr>)"

theorem ConnectToMaster_fails_over_once_witness:
  "fst (ConnectToMaster routing_example) = 2 \<and>
   fst (ConnectToMaster (snd (ConnectToMaster routing_example))) = 0 \<and>
   CheckNodeID 2 (snd (ConnectToMaster routing_example))"
proof -
  have "\<not> CheckNodeID 1 routing_example" "m_OnMaster routing_example"
    "GetBackupNodeForID 1 routing_example = 2" "(0 :: u32) < 2" "CheckNodeID 2 routing_example"
    "GetNodeForID 1 routing_example = 0"
    by (simp_all add: routing_example_def Let_def CheckNodeID_def GetBackupNodeForID_def GetNodeForID_def)
  from ConnectToMaster_fails_over_once [OF this] show ?thesis by (auto dest: spec [of _ 0])
qed

text \<open>
  When no row is missing, refreshing keeps every node that was online and takes the database's
  word for the others; it touches nothing else, so a node that died can be online again and
  still not be entered until it acknowledges its initialisation.
\<close>

theorem RefreshOnlineStat_spec:
  assumes "RefreshOnlineStat query r = Some r'" and "distinct (map fst (m_nodelist r))"
  shows "CheckNodeID n r' = (CheckNodeID n r \<or> node_known n r \<and> query n = Some True) \<and>
    CanEnterNodeID n r' = CanEnterNodeID n r \<and> GetNodeCount r' = GetNodeCount r"
proof -
  from assms(1) have rows: "refresh_rows query (m_nodelist r) = Some (m_nodelist r')"
    by (auto simp: RefreshOnlineStat_def)
  from refresh_rows_Some [OF this] have keys: "map fst (m_nodelist r') = map fst (m_nodelist r)"
    and look: "map_of (m_nodelist r') n = map_option
      (\<lambda>nd. if nl_online nd then nd else nd\<lparr>nl_online := the (query n)\<rparr>) (map_of (m_nodelist r) n)" by auto
  have "fst ` set (m_nodelist r') = fst ` set (m_nodelist r)" using keys by (metis set_map)
  then have "GetNodeCount r' = GetNodeCount r" by (simp add: GetNodeCount_Max)
  moreover have "CanEnterNodeID n r' = CanEnterNodeID n r"
    using look by (auto simp: CanEnterNodeID_def split: option.splits)
  moreover have "CheckNodeID n r' = (CheckNodeID n r \<or> node_known n r \<and> query n = Some True)"
  proof (cases "map_of (m_nodelist r) n")
    case (Some nd)
    show ?thesis
    proof (cases "nl_online nd")
      case False
      with refresh_rows_query [OF rows Some assms(2)] look Some show ?thesis
        by (auto simp: CheckNodeID_def node_known_def)
    qed (use look Some in \<open>simp add: CheckNodeID_def\<close>)
  qed (use look in \<open>simp add: CheckNodeID_def node_known_def\<close>)
  ultimately show ?thesis by blast
qed

theorem RefreshOnlineStat_spec_witness:
  "\<exists>r'. RefreshOnlineStat (\<lambda>_. Some True) routing_example = Some r' \<and> CheckNodeID 1 r' \<and>
     \<not> CanEnterNodeID 1 r'"
proof -
  have d: "distinct (map fst (m_nodelist routing_example))"
    by (simp add: routing_example_def Let_def)
  obtain r' where r': "RefreshOnlineStat (\<lambda>_. Some True) routing_example = Some r'"
    by (simp add: RefreshOnlineStat_def routing_example_def Let_def)
  from RefreshOnlineStat_spec [OF this d, of 1] r' show ?thesis
    by (auto simp: routing_example_def Let_def node_known_def CanEnterNodeID_def)
qed

end
