(* ===== verification/PacketHeader.thy ===== *)
theory PacketHeader
  imports ByteBuffer
begin

text \<open>
  The headers in front of every packet. Between proxy and nodes (\<open>shared/FlexiHeader.hpp\<close>) a
  header is a big-endian 32-bit size, which counts the two opcode bytes, and a little-endian
  opcode. Between proxy and game client (\<open>shared/BlizzardHeader.hpp\<close>) the server's size takes
  two or three bytes. The header alone is enciphered (\<open>AuthCrypt.cpp\<close>); ARC4 is OpenSSL's
  and a parameter here. Integers are written and cast on a little-endian host.
\<close>

section \<open>Byte order\<close>

text \<open>\<open>ByteConverter::convert\<close> swaps the outermost bytes and goes on inwards.\<close>

fun bc_convert :: "bytes \<Rightarrow> bytes" where
  "bc_convert [] = []"
| "bc_convert [x] = [x]"
| "bc_convert (x # y # xs) = last (y # xs) # bc_convert (butlast (y # xs)) @ [x]"

lemma bc_convert_rev: "bc_convert bs = rev bs"
proof (induction bs rule: bc_convert.induct)
  case (3 x y xs)
  have "rev (butlast (y # xs)) = tl (rev (y # xs))" by (metis butlast_rev rev_rev_ident rev_swap)
  moreover have "last (y # xs) # tl (rev (y # xs)) = rev (y # xs)"
    by (metis hd_rev list.collapse list.discI rev_is_Nil_conv)
  ultimately show ?case using 3 by simp
qed simp_all

definition EndianConvertReverse_u32 :: "u32 \<Rightarrow> u32" where
  "EndianConvertReverse_u32 val = le_word (bc_convert (word_le val))"

definition EndianConvertReverse_u16 :: "u16 \<Rightarrow> u16" where
  "EndianConvertReverse_u16 val = le_word (bc_convert (word_le val))"

text \<open>On a little-endian host \<open>EndianConvert\<close> does nothing.\<close>

definition EndianConvert_u16 :: "u16 \<Rightarrow> u16" where
  "EndianConvert_u16 val = val"

definition EndianConvert_u32 :: "u32 \<Rightarrow> u32" where
  "EndianConvert_u32 val = val"

lemma le_word_bytes_u32: "length bs = 4 \<Longrightarrow> word_le (le_word bs :: u32) = bs"
  using le_bytes_le_val [of bs] le_val_less [of bs]
  by (simp add: word_le_def le_word_def unat_of_nat)

lemma le_word_bytes_u16: "length bs = 2 \<Longrightarrow> word_le (le_word bs :: u16) = bs"
  using le_bytes_le_val [of bs] le_val_less [of bs]
  by (simp add: word_le_def le_word_def unat_of_nat)

section \<open>The header between proxy and node\<close>

record flexi_server_header =
  fsh_m_size :: u32
  fsh_header :: bytes

definition Flexi_ServerPktHeader :: "u32 \<Rightarrow> u16 \<Rightarrow> flexi_server_header" where
  "Flexi_ServerPktHeader sz cmd = \<lparr>fsh_m_size = sz, fsh_header =
     [ucast (0xFF AND drop_bit 24 sz), ucast (0xFF AND drop_bit 16 sz),
      ucast (0xFF AND drop_bit 8 sz), ucast (0xFF AND sz),
      ucast (0xFF AND cmd), ucast (0xFF AND drop_bit 8 cmd)]\<rparr>"

definition Flexi_getHeaderLength :: "flexi_server_header \<Rightarrow> nat" where
  "Flexi_getHeaderLength h = 6"

record flexi_client_header =
  fch_size :: u32
  fch_cmd :: u16

text \<open>\<open>sizeof(Flexi::ClientPktHeader)\<close>, a packed struct, and the cast of the received bytes to it.\<close>

definition Flexi_ClientPktHeader_sizeof :: nat where
  "Flexi_ClientPktHeader_sizeof = 6"

definition Flexi_ClientPktHeader_at :: "bytes \<Rightarrow> flexi_client_header" where
  "Flexi_ClientPktHeader_at rd_ptr =
     \<lparr>fch_size = le_word (take 4 rd_ptr), fch_cmd = le_word (take 2 (drop 4 rd_ptr))\<rparr>"

section \<open>The header between proxy and client\<close>

record blizzard_server_header =
  bsh_size :: u32
  bsh_header :: bytes

definition Blizzard_isLargePacket :: "u32 \<Rightarrow> bool" where
  "Blizzard_isLargePacket sz \<longleftrightarrow> sz > 0x7FFF"

definition Blizzard_ServerPktHeader :: "u32 \<Rightarrow> u16 \<Rightarrow> blizzard_server_header" where
  "Blizzard_ServerPktHeader sz cmd = \<lparr>bsh_size = sz, bsh_header =
     (if Blizzard_isLargePacket sz then [0x80 OR ucast (0xFF AND drop_bit 16 sz)] else []) @
     [ucast (0xFF AND drop_bit 8 sz), ucast (0xFF AND sz),
      ucast (0xFF AND cmd), ucast (0xFF AND drop_bit 8 cmd)]\<rparr>"

definition Blizzard_getHeaderLength :: "blizzard_server_header \<Rightarrow> nat" where
  "Blizzard_getHeaderLength h = 2 + (if Blizzard_isLargePacket (bsh_size h) then 3 else 2)"

record blizzard_client_header =
  bch_size :: u16
  bch_cmd :: u32

definition Blizzard_ClientPktHeader_sizeof :: nat where
  "Blizzard_ClientPktHeader_sizeof = 6"

definition Blizzard_ClientPktHeader_at :: "bytes \<Rightarrow> blizzard_client_header" where
  "Blizzard_ClientPktHeader_at rd_ptr =
     \<lparr>bch_size = le_word (take 2 rd_ptr), bch_cmd = le_word (take 4 (drop 2 rd_ptr))\<rparr>"

section \<open>Enciphering\<close>

record 'c auth_crypt =
  clientDecrypt :: 'c
  serverEncrypt :: 'c
  crypt_initialized :: bool

text \<open>
  \<open>upd\<close> is \<open>ARC4::UpdateData\<close> (OpenSSL): the new bytes and the new key stream state; \<open>keyed\<close> is
  \<open>ARC4::Init\<close> and \<open>hmac\<close> the HMAC-SHA1 of the session key under a seed.
\<close>

definition AuthCrypt_new :: "'c \<Rightarrow> 'c auth_crypt" where
  "AuthCrypt_new c = \<lparr>clientDecrypt = c, serverEncrypt = c, crypt_initialized = False\<rparr>"

definition ServerEncryptionKey :: bytes where
  "ServerEncryptionKey = [0xCC, 0x98, 0xAE, 0x04, 0xE8, 0x97, 0xEA, 0xCA,
     0x12, 0xDD, 0xC0, 0x93, 0x42, 0x91, 0x53, 0x57]"

definition ServerDecryptionKey :: bytes where
  "ServerDecryptionKey = [0xC2, 0xB3, 0x72, 0x3C, 0xC6, 0xAE, 0xD9, 0xB5,
     0x34, 0x3C, 0x53, 0xEE, 0x2F, 0x43, 0x67, 0xCE]"

definition AuthCrypt_Init ::
  "('c \<Rightarrow> bytes \<Rightarrow> bytes \<times> 'c) \<Rightarrow> (bytes \<Rightarrow> 'c \<Rightarrow> 'c) \<Rightarrow> (bytes \<Rightarrow> 'k \<Rightarrow> bytes) \<Rightarrow> 'k \<Rightarrow>
   'c auth_crypt \<Rightarrow> 'c auth_crypt" where
  "AuthCrypt_Init upd keyed hmac K a =
     (let encryptHash = hmac ServerEncryptionKey K;
          decryptHash = hmac ServerDecryptionKey K;
          dec = keyed decryptHash (clientDecrypt a);
          enc = keyed encryptHash (serverEncrypt a);
          syncBuf = replicate 1024 0
      in a\<lparr>serverEncrypt := snd (upd enc syncBuf), clientDecrypt := snd (upd dec syncBuf),
           crypt_initialized := True\<rparr>)"

definition AuthCrypt_DecryptRecv ::
  "('c \<Rightarrow> bytes \<Rightarrow> bytes \<times> 'c) \<Rightarrow> bytes \<Rightarrow> 'c auth_crypt \<Rightarrow> bytes \<times> 'c auth_crypt" where
  "AuthCrypt_DecryptRecv upd bs a =
     (if \<not> crypt_initialized a then (bs, a)
      else case upd (clientDecrypt a) bs of (bs', c) \<Rightarrow> (bs', a\<lparr>clientDecrypt := c\<rparr>))"

definition AuthCrypt_EncryptSend ::
  "('c \<Rightarrow> bytes \<Rightarrow> bytes \<times> 'c) \<Rightarrow> bytes \<Rightarrow> 'c auth_crypt \<Rightarrow> bytes \<times> 'c auth_crypt" where
  "AuthCrypt_EncryptSend upd bs a =
     (if \<not> crypt_initialized a then (bs, a)
      else case upd (serverEncrypt a) bs of (bs', c) \<Rightarrow> (bs', a\<lparr>serverEncrypt := c\<rparr>))"

section \<open>Headers read back\<close>

lemma nat_byte: "(word_of_nat (unat (w :: 'a::len word) div 2 ^ n) :: u8) = ucast (0xFF AND drop_bit n w)"
proof (rule bit_word_eqI)
  fix i assume "i < LENGTH(8)"
  then have i: "i < 8" by simp
  have "bit (unat w div 2 ^ n) i \<longleftrightarrow> bit w (n + i)"
    by (simp add: drop_bit_eq_div [symmetric] bit_drop_bit_eq bit_unsigned_iff)
  moreover have "bit (0xFF :: 'a word) i \<longleftrightarrow> i < LENGTH('a)"
    using i by (auto simp: numeral_eq_Suc less_Suc_eq bit_simps)
  ultimately show "bit (word_of_nat (unat w div 2 ^ n) :: u8) i \<longleftrightarrow>
      bit (ucast (0xFF AND drop_bit n w) :: u8) i"
    using i by (auto simp: bit_simps dest: bit_imp_le_length)
qed

lemma le_bytes_4: "le_bytes 4 n =
    [word_of_nat (n div 2 ^ 0), word_of_nat (n div 2 ^ 8), word_of_nat (n div 2 ^ 16),
     word_of_nat (n div 2 ^ 24)]"
proof -
  have four: "(4 :: nat) = Suc (Suc (Suc (Suc 0)))" by simp
  show ?thesis unfolding four by (simp flip: div_mult2_eq)
qed

lemma le_bytes_2: "le_bytes 2 n = [word_of_nat (n div 2 ^ 0), word_of_nat (n div 2 ^ 8)]"
proof -
  have "le_bytes 2 n = le_bytes (Suc (Suc 0)) n" by (simp only: numeral_2_eq_2)
  then show ?thesis by simp
qed

lemma word_le_u32_bytes:
  "word_le (w :: u32) = [ucast (0xFF AND drop_bit 0 w), ucast (0xFF AND drop_bit 8 w),
     ucast (0xFF AND drop_bit 16 w), ucast (0xFF AND drop_bit 24 w)]"
proof -
  have "word_le w = le_bytes 4 (unat w)" by (simp add: word_le_def)
  then show ?thesis by (simp only: le_bytes_4 nat_byte)
qed

lemma word_le_u16_bytes:
  "word_le (w :: u16) = [ucast (0xFF AND drop_bit 0 w), ucast (0xFF AND drop_bit 8 w)]"
proof -
  have "word_le w = le_bytes 2 (unat w)" by (simp add: word_le_def)
  then show ?thesis by (simp only: le_bytes_2 nat_byte)
qed

text \<open>The bytes of a header of a node packet: the size reversed, then the opcode.\<close>

lemma Flexi_header_bytes:
  "fsh_header (Flexi_ServerPktHeader sz cmd) = rev (word_le sz) @ word_le cmd"
  by (simp add: Flexi_ServerPktHeader_def word_le_u32_bytes word_le_u16_bytes)

lemma length_Flexi_header [simp]: "length (fsh_header (Flexi_ServerPktHeader sz cmd)) = 6"
  by (simp add: Flexi_ServerPktHeader_def)

lemma Flexi_header_cast:
  "fch_cmd (Flexi_ClientPktHeader_at (fsh_header (Flexi_ServerPktHeader sz cmd))) = cmd"
  "EndianConvertReverse_u32 (fch_size
     (Flexi_ClientPktHeader_at (fsh_header (Flexi_ServerPktHeader sz cmd)))) = sz"
  by (simp_all add: Flexi_header_bytes Flexi_ClientPktHeader_at_def EndianConvertReverse_u32_def
      bc_convert_rev le_word_bytes_u32)

section \<open>Client headers are self-delimiting\<close>

lemma unat_byte: "unat (ucast (0xFF AND drop_bit n w) :: u8) = unat (w :: 'a::len word) div 2 ^ n mod 256"
  by (simp flip: nat_byte add: unat_of_nat)

lemma byte_determined:
  "(ucast (0xFF AND drop_bit n v) :: u8) = ucast (0xFF AND drop_bit n w) \<longleftrightarrow>
   unat (v :: 'a::len word) div 2 ^ n mod 256 = unat (w :: 'a word) div 2 ^ n mod 256"
  by (metis unat_byte unsigned_word_eqI)

lemma not_bit_7: "unat (x :: u8) < 128 \<Longrightarrow> \<not> bit x 7"
proof -
  assume "unat x < 128"
  then have "unat x div 2 ^ 7 = 0" by simp
  then have "\<not> bit (unat x) 7" by (simp only: bit_iff_odd) simp
  then show ?thesis by (simp add: bit_unsigned_iff)
qed

lemma bit_80: "bit (0x80 :: u8) i \<longleftrightarrow> i = 7"
proof -
  have "(0x80 :: u8) = 2 ^ 7" by simp
  then show ?thesis by (simp only: bit_exp_iff) auto
qed

lemma large_mark_inj:
  assumes "unat (x :: u8) < 128" and "unat y < 128" and "0x80 OR x = 0x80 OR y"
  shows "x = y"
proof (rule bit_word_eqI)
  fix i assume "i < LENGTH(8)"
  from assms(3) have "bit (0x80 OR x) i = bit (0x80 OR y) i" by simp
  then have "i = 7 \<or> bit x i \<longleftrightarrow> i = 7 \<or> bit y i" unfolding bit_or_iff bit_80 .
  then show "bit x i = bit y i"
    using not_bit_7 [OF assms(1)] not_bit_7 [OF assms(2)] by blast
qed

lemma large_mark_bit: "bit (0x80 OR x :: u8) 7"
  by (simp add: bit_or_iff bit_80)

abbreviation byte_at :: "nat \<Rightarrow> 'a::len word \<Rightarrow> u8" where
  "byte_at n w \<equiv> ucast (0xFF AND drop_bit n w)"

lemma header_parts:
  "bsh_header (Blizzard_ServerPktHeader sz cmd) =
     (if Blizzard_isLargePacket sz then [0x80 OR byte_at 16 sz] else []) @
     [byte_at 8 sz, byte_at 0 sz, byte_at 0 cmd, byte_at 8 cmd]"
  by (simp add: Blizzard_ServerPktHeader_def)

lemma small_head: "\<not> Blizzard_isLargePacket sz \<Longrightarrow> unat (byte_at 8 sz) < 128"
  by (simp add: unat_byte Blizzard_isLargePacket_def word_less_nat_alt not_less)

lemma small_top: "\<not> Blizzard_isLargePacket sz \<Longrightarrow> byte_at 16 sz = 0"
proof -
  assume "\<not> Blizzard_isLargePacket sz"
  then have "unat (byte_at 16 sz) = 0"
    unfolding unat_byte by (simp add: Blizzard_isLargePacket_def word_less_nat_alt not_less)
  then show ?thesis by (simp only: unat_eq_zero)
qed

lemma large_head: "sz < (0x800000 :: u32) \<Longrightarrow> unat (byte_at 16 sz) < 128"
  by (simp add: unat_byte word_less_nat_alt)

lemma nat_by_bytes:
  assumes "n div 2 ^ 0 mod 256 = m div 2 ^ 0 mod (256 :: nat)"
    and "n div 2 ^ 8 mod 256 = m div 2 ^ 8 mod 256" and "n div 65536 = m div 65536"
  shows "n = m"
proof -
  have "n div 256 = m div 256"
  proof -
    have split: "k div 256 = (k div 65536) * 256 + k div 256 mod 256" for k :: nat
    proof -
      have "k div 256 div 256 = k div 65536" by (simp flip: div_mult2_eq)
      then show ?thesis using div_mult_mod_eq [of "k div 256" 256] by simp
    qed
    have "n div 256 mod 256 = m div 256 mod 256" using assms(2) by simp
    note low = this
    have "n div 256 = (n div 65536) * 256 + n div 256 mod 256" by (rule split)
    also have "\<dots> = (m div 65536) * 256 + m div 256 mod 256"
      by (rule arg_cong2 [where f = "\<lambda>a b. a * 256 + b", OF assms(3) low])
    also have "\<dots> = m div 256" by (rule split [symmetric])
    finally show ?thesis .
  qed
  note high = this
  have low: "n mod 256 = m mod 256" using assms(1) by simp
  have "n = n div 256 * 256 + n mod 256" by (rule div_mult_mod_eq [symmetric])
  also have "\<dots> = m div 256 * 256 + m mod 256"
    by (rule arg_cong2 [where f = "\<lambda>a b. a * 256 + b", OF high low])
  also have "\<dots> = m" by (rule div_mult_mod_eq)
  finally show ?thesis .
qed

lemma u32_by_bytes:
  assumes "v < (0x800000 :: u32)" and "w < 0x800000" and "byte_at 16 v = byte_at 16 w"
    and "byte_at 8 v = byte_at 8 w" and "byte_at 0 v = byte_at 0 w"
  shows "v = w"
proof (rule unsigned_word_eqI, rule nat_by_bytes)
  show "unat v div 65536 = unat w div 65536"
    using assms(1-3) unfolding byte_determined by (simp add: word_less_nat_alt)
qed (use assms(4,5) in \<open>simp_all only: byte_determined\<close>)

lemma u16_by_bytes:
  assumes "byte_at 0 v = byte_at 0 (w :: u16)" and "byte_at 8 v = byte_at 8 w"
  shows "v = w"
proof (rule unsigned_word_eqI, rule nat_by_bytes)
  show "unat v div 65536 = unat w div 65536"
    using unat_u16_bound [of v] unat_u16_bound [of w] by simp
qed (use assms in \<open>simp_all only: byte_determined\<close>)

text \<open>
  A client can cut the stream at the right byte: when the size is below \<open>2^23\<close>, the first
  bytes of the stream determine the size, the opcode and where the header ends, although the
  header has two lengths, and \<open>getHeaderLength\<close> is that length.
\<close>

theorem Blizzard_header_self_delimiting:
  assumes sz: "sz < 0x800000" and sz': "sz' < 0x800000"
    and eq: "bsh_header (Blizzard_ServerPktHeader sz cmd) @ rest =
      bsh_header (Blizzard_ServerPktHeader sz' cmd') @ rest'"
  shows "sz = sz' \<and> cmd = cmd' \<and> rest = rest' \<and>
    length (bsh_header (Blizzard_ServerPktHeader sz cmd)) =
      Blizzard_getHeaderLength (Blizzard_ServerPktHeader sz cmd)"
proof -
  have len: "length (bsh_header (Blizzard_ServerPktHeader sz cmd)) =
      Blizzard_getHeaderLength (Blizzard_ServerPktHeader sz cmd)"
    by (simp add: Blizzard_ServerPktHeader_def Blizzard_getHeaderLength_def)
  show ?thesis
  proof (cases "Blizzard_isLargePacket sz")
    case True
    have large: "Blizzard_isLargePacket sz'"
    proof (rule ccontr)
      assume "\<not> Blizzard_isLargePacket sz'"
      with eq True have "0x80 OR byte_at 16 sz = byte_at 8 sz'" by (simp add: header_parts)
      moreover have "unat (byte_at 8 sz') < 128"
        using \<open>\<not> Blizzard_isLargePacket sz'\<close> by (rule small_head)
      ultimately show False using large_mark_bit not_bit_7 by metis
    qed
    with eq True have h: "0x80 OR byte_at 16 sz = 0x80 OR byte_at 16 sz'" "byte_at 8 sz = byte_at 8 sz'"
      "byte_at 0 sz = byte_at 0 sz'" "byte_at 0 cmd = byte_at 0 cmd'" "byte_at 8 cmd = byte_at 8 cmd'"
      "rest = rest'" by (simp_all add: header_parts)
    from h(1) have "byte_at 16 sz = byte_at 16 sz'"
      by (rule large_mark_inj [OF large_head [OF sz] large_head [OF sz']])
    with h have "sz = sz'" by (intro u32_by_bytes sz sz')
    moreover from h have "cmd = cmd'" by (intro u16_by_bytes)
    ultimately show ?thesis using h len by blast
  next
    case False
    have "\<not> Blizzard_isLargePacket sz'"
    proof
      assume "Blizzard_isLargePacket sz'"
      with eq False have "byte_at 8 sz = 0x80 OR byte_at 16 sz'" by (simp add: header_parts)
      with small_head [OF False] show False using large_mark_bit not_bit_7 by metis
    qed
    with eq False have h: "byte_at 8 sz = byte_at 8 sz'" "byte_at 0 sz = byte_at 0 sz'"
      "byte_at 0 cmd = byte_at 0 cmd'" "byte_at 8 cmd = byte_at 8 cmd'" "rest = rest'"
      by (simp_all add: header_parts)
    have "byte_at 16 sz = byte_at 16 sz'"
      using False \<open>\<not> Blizzard_isLargePacket sz'\<close> by (simp add: small_top)
    with h have "sz = sz'" by (intro u32_by_bytes sz sz')
    moreover from h have "cmd = cmd'" by (intro u16_by_bytes)
    ultimately show ?thesis using h len by blast
  qed
qed

theorem Blizzard_header_self_delimiting_witness:
  "bsh_header (Blizzard_ServerPktHeader 0x12345 0x1EE) @ [7] = [0x81, 0x23, 0x45, 0xEE, 0x01, 7] \<and>
   Blizzard_getHeaderLength (Blizzard_ServerPktHeader 0x12345 0x1EE) = 5"
proof -
  have e: "bsh_header (Blizzard_ServerPktHeader 0x12345 0x1EE) = [0x81, 0x23, 0x45, 0xEE, 0x01]"
    by (simp add: Blizzard_ServerPktHeader_def Blizzard_isLargePacket_def)
  with Blizzard_header_self_delimiting
      [of "0x12345" "0x12345" "0x1EE" "[7]" "0x1EE" "[7]"]
  show ?thesis by simp
qed

end
