(* ===== verification/PacketQueue.thy ===== *)
theory PacketQueue
  imports Prelude "HOL-Library.Sublist"
begin

text \<open>
  The queues that carry packets and sessions between threads:
  \<open>shared/Threading/LockedQueue.h\<close> (every operation runs under the queue's lock, so an
  operation is one step), \<open>ProducerConsumerQueue.h\<close> (a bounded-lifetime work queue) and the
  lock-free \<open>MPSCQueue.h\<close>, whose \<open>Enqueue\<close> is two separate atomic steps that other
  threads interleave with. The locale \<open>fifo\<close> is what a consumer relies on; both locked
  queues are interpretations of it. The lock-free queue is a step relation over a store of
  nodes, with the invariant that makes it a queue in the order of the head exchanges.
\<close>

section \<open>The interface of a queue\<close>

text \<open>A consumer's loop \<open>while (q.next(x)) ...\<close> over any queue, with the items it saw.\<close>

fun drain :: "('q \<Rightarrow> ('a \<times> 'q) option) \<Rightarrow> nat \<Rightarrow> 'q \<Rightarrow> 'a list \<times> 'q" where
  "drain nxt 0 q = ([], q)"
| "drain nxt (Suc fuel) q =
     (case nxt q of None \<Rightarrow> ([], q)
      | Some (x, q') \<Rightarrow> (case drain nxt fuel q' of (xs, q'') \<Rightarrow> (x # xs, q'')))"

locale fifo =
  fixes add :: "'a \<Rightarrow> 'q \<Rightarrow> 'q"
    and nxt :: "'q \<Rightarrow> ('a \<times> 'q) option"
    and contents :: "'q \<Rightarrow> 'a list"
    and live :: "'q \<Rightarrow> bool"
  assumes contents_add: "live q \<Longrightarrow> contents (add x q) = contents q @ [x]"
    and live_add: "live q \<Longrightarrow> live (add x q)"
    and nxt_Nil: "live q \<Longrightarrow> contents q = [] \<Longrightarrow> nxt q = None"
    and nxt_Cons: "live q \<Longrightarrow> contents q = x # xs \<Longrightarrow>
      \<exists>q'. nxt q = Some (x, q') \<and> contents q' = xs \<and> live q'"
begin

lemma contents_adds:
  "live q \<Longrightarrow> contents (fold add xs q) = contents q @ xs \<and> live (fold add xs q)"
  by (induction xs arbitrary: q) (simp_all add: contents_add live_add)

lemma drain_contents:
  "live q \<Longrightarrow> length (contents q) \<le> fuel \<Longrightarrow>
   \<exists>q'. drain nxt fuel q = (contents q, q') \<and> contents q' = [] \<and> live q'"
proof (induction fuel arbitrary: q)
  case (Suc fuel)
  show ?case
  proof (cases "contents q")
    case Nil
    with Suc.prems show ?thesis by (simp add: nxt_Nil)
  next
    case (Cons x xs)
    with Suc.prems obtain q1 where q1: "nxt q = Some (x, q1)" "contents q1 = xs" "live q1"
      using nxt_Cons by blast
    with Cons Suc.prems Suc.IH [of q1] show ?thesis by auto
  qed
qed simp

lemma drain_after_adds:
  assumes "live q" and "contents q = []" and "length xs \<le> fuel"
  shows "fst (drain nxt fuel (fold add xs q)) = xs"
  using drain_contents [of "fold add xs q" fuel] contents_adds [of q xs] assms by auto

text \<open>
  Producers on several threads interleave whole \<open>add\<close> calls. Whatever the interleaving, the
  items of each producer come out in the order in which that producer added them.
\<close>

lemma producer_order:
  assumes "live q" and "contents q = []" and "length ys \<le> fuel"
  shows "filter P (fst (drain nxt fuel (fold add ys q))) = filter P ys"
  by (simp add: drain_after_adds [OF assms])

end

section \<open>LockedQueue\<close>

record 'a locked_queue =
  lq_queue :: "'a list"
  lq_canceled :: bool

definition lq_new :: "'a locked_queue" where
  "lq_new = \<lparr>lq_queue = [], lq_canceled = False\<rparr>"

definition lq_add :: "'a \<Rightarrow> 'a locked_queue \<Rightarrow> 'a locked_queue" where
  "lq_add item q = q\<lparr>lq_queue := lq_queue q @ [item]\<rparr>"

definition lq_readd :: "'a list \<Rightarrow> 'a locked_queue \<Rightarrow> 'a locked_queue" where
  "lq_readd items q = q\<lparr>lq_queue := items @ lq_queue q\<rparr>"

definition lq_next :: "'a locked_queue \<Rightarrow> ('a \<times> 'a locked_queue) option" where
  "lq_next q =
     (case lq_queue q of [] \<Rightarrow> None | x # xs \<Rightarrow> Some (x, q\<lparr>lq_queue := xs\<rparr>))"

text \<open>\<open>next(result, check)\<close>: the front is copied out even when the checker refuses it.\<close>

definition lq_next_check ::
  "('a \<Rightarrow> bool) \<Rightarrow> 'a locked_queue \<Rightarrow> bool \<times> 'a option \<times> 'a locked_queue" where
  "lq_next_check process q =
     (case lq_queue q of [] \<Rightarrow> (False, None, q)
      | x # xs \<Rightarrow> if \<not> process x then (False, Some x, q)
                else (True, Some x, q\<lparr>lq_queue := xs\<rparr>))"

text \<open>\<open>front\<close> and \<open>pop_front\<close> of an empty deque are undefined: \<open>None\<close>.\<close>

definition lq_peek :: "'a locked_queue \<Rightarrow> 'a option" where
  "lq_peek q = (case lq_queue q of [] \<Rightarrow> None | x # _ \<Rightarrow> Some x)"

definition lq_pop_front :: "'a locked_queue \<Rightarrow> 'a locked_queue option" where
  "lq_pop_front q = (case lq_queue q of [] \<Rightarrow> None | _ # xs \<Rightarrow> Some (q\<lparr>lq_queue := xs\<rparr>))"

definition lq_cancel :: "'a locked_queue \<Rightarrow> 'a locked_queue" where
  "lq_cancel q = q\<lparr>lq_canceled := True\<rparr>"

definition lq_empty :: "'a locked_queue \<Rightarrow> bool" where
  "lq_empty q \<longleftrightarrow> lq_queue q = []"

interpretation lq: fifo lq_add lq_next lq_queue "\<lambda>_. True"
  by unfold_locales (auto simp: lq_add_def lq_next_def)

lemma lq_next_Some:
  "lq_next q = Some (x, q') \<longleftrightarrow> lq_queue q = x # lq_queue q' \<and> lq_canceled q' = lq_canceled q"
  by (cases q; cases q') (auto simp: lq_next_def split: list.splits)

text \<open>Taking with a checker and putting the refused prefix back loses and reorders nothing.\<close>

lemma lq_readd_taken:
  assumes "lq_next q = Some (x, q')"
  shows "lq_readd [x] q' = q"
  using assms by (cases q; cases q') (auto simp: lq_next_def lq_readd_def split: list.splits)

lemma lq_next_check_pop:
  "lq_next_check process q = (True, r, q') \<longleftrightarrow>
   (\<exists>x. r = Some x \<and> process x \<and> lq_next q = Some (x, q'))"
  by (auto simp: lq_next_check_def lq_next_def split: list.splits if_splits)

section \<open>ProducerConsumerQueue\<close>

record 'a pcq =
  pcq_queue :: "'a list"
  pcq_shutdown :: bool

definition pcq_new :: "'a pcq" where
  "pcq_new = \<lparr>pcq_queue = [], pcq_shutdown = False\<rparr>"

definition pcq_Push :: "'a \<Rightarrow> 'a pcq \<Rightarrow> 'a pcq" where
  "pcq_Push value q = q\<lparr>pcq_queue := pcq_queue q @ [value]\<rparr>"

definition pcq_Empty :: "'a pcq \<Rightarrow> bool" where
  "pcq_Empty q \<longleftrightarrow> pcq_queue q = []"

definition pcq_Pop :: "'a pcq \<Rightarrow> ('a \<times> 'a pcq) option" where
  "pcq_Pop q =
     (if pcq_queue q = [] \<or> pcq_shutdown q then None
      else Some (hd (pcq_queue q), q\<lparr>pcq_queue := tl (pcq_queue q)\<rparr>))"

text \<open>
  \<open>WaitAndPop\<close> blocks while the queue is empty and not shut down. It returns with or
  without a value; the caller cannot tell the two apart, as the method is \<open>void\<close>.
\<close>

datatype 'a wait_result = Blocked | ReturnsNothing | ReturnsValue 'a "'a pcq"

definition pcq_WaitAndPop :: "'a pcq \<Rightarrow> 'a wait_result" where
  "pcq_WaitAndPop q =
     (if pcq_queue q = [] \<and> \<not> pcq_shutdown q then Blocked
      else if pcq_queue q = [] \<or> pcq_shutdown q then ReturnsNothing
      else ReturnsValue (hd (pcq_queue q)) (q\<lparr>pcq_queue := tl (pcq_queue q)\<rparr>))"

text \<open>\<open>Cancel\<close> frees what is queued (the second component) and wakes every waiter.\<close>

definition pcq_Cancel :: "'a pcq \<Rightarrow> 'a pcq \<times> 'a list" where
  "pcq_Cancel q = (q\<lparr>pcq_queue := [], pcq_shutdown := True\<rparr>, pcq_queue q)"

interpretation pcq: fifo pcq_Push pcq_Pop pcq_queue "\<lambda>q. \<not> pcq_shutdown q"
  by unfold_locales (auto simp: pcq_Push_def pcq_Pop_def)

lemma pcq_cancelled_never_blocks:
  "pcq_WaitAndPop (fold pcq_Push xs (fst (pcq_Cancel q))) = ReturnsNothing"
proof -
  have "pcq_shutdown (fold pcq_Push xs q') = pcq_shutdown q'" for q' :: "'a pcq"
    by (induction xs arbitrary: q') (simp_all add: pcq_Push_def)
  then show ?thesis by (simp add: pcq_WaitAndPop_def pcq_Cancel_def)
qed

lemma pcq_WaitAndPop_Pop:
  "pcq_WaitAndPop q = ReturnsValue x q' \<longleftrightarrow> pcq_Pop q = Some (x, q')"
  by (auto simp: pcq_WaitAndPop_def pcq_Pop_def)

section \<open>MPSCQueue\<close>

text \<open>
  The nodes live in a store from addresses to a datum and a \<open>Next\<close> pointer; the dummy node
  has no datum. A producer's \<open>Enqueue\<close> is \<open>mpsc_exchange\<close> (allocate the node, swap it into
  \<open>_head\<close>) followed at any later time by \<open>mpsc_link\<close> (store it in the previous head's
  \<open>Next\<close>); \<open>mpsc_pend\<close> holds the producers between the two. The only consumer runs
  \<open>mpsc_Dequeue\<close>, which frees the old tail.
\<close>

record 'a mpsc_node =
  Data :: "'a option"
  Next :: "nat option"

record 'a mpsc =
  mpsc_nodes :: "nat \<rightharpoonup> 'a mpsc_node"
  mpsc_head :: nat
  mpsc_tail :: nat
  mpsc_pend :: "(nat \<times> nat) set"

definition mpsc_new :: "nat \<Rightarrow> 'a mpsc" where
  "mpsc_new d = \<lparr>mpsc_nodes = [d \<mapsto> \<lparr>Data = None, Next = None\<rparr>],
     mpsc_head = d, mpsc_tail = d, mpsc_pend = {}\<rparr>"

definition mpsc_exchange :: "nat \<Rightarrow> 'a \<Rightarrow> 'a mpsc \<Rightarrow> 'a mpsc" where
  "mpsc_exchange node input q =
     q\<lparr>mpsc_nodes := (mpsc_nodes q)(node \<mapsto> \<lparr>Data = Some input, Next = None\<rparr>),
       mpsc_head := node, mpsc_pend := insert (mpsc_head q, node) (mpsc_pend q)\<rparr>"

text \<open>Storing into a node that was freed is undefined behaviour: \<open>None\<close>.\<close>

definition mpsc_link :: "nat \<Rightarrow> nat \<Rightarrow> 'a mpsc \<Rightarrow> 'a mpsc option" where
  "mpsc_link prev node q =
     (case mpsc_nodes q prev of None \<Rightarrow> None
      | Some nd \<Rightarrow> Some (q\<lparr>mpsc_nodes := (mpsc_nodes q)(prev \<mapsto> nd\<lparr>Next := Some node\<rparr>),
                        mpsc_pend := mpsc_pend q - {(prev, node)}\<rparr>))"

text \<open>\<open>Some (None, q)\<close>: returns false; \<open>Some (Some x, q)\<close>: returns true with \<open>x\<close>; \<open>None\<close>: undefined.\<close>

definition mpsc_Dequeue :: "'a mpsc \<Rightarrow> ('a option \<times> 'a mpsc) option" where
  "mpsc_Dequeue q =
     (case mpsc_nodes q (mpsc_tail q) of None \<Rightarrow> None
      | Some t \<Rightarrow>
        (case Next t of None \<Rightarrow> Some (None, q)
         | Some n \<Rightarrow>
           (case mpsc_nodes q n of None \<Rightarrow> None
            | Some nd \<Rightarrow>
              (case Data nd of None \<Rightarrow> None
               | Some x \<Rightarrow> Some (Some x, q\<lparr>mpsc_tail := n,
                   mpsc_nodes := (mpsc_nodes q)(mpsc_tail q := None)\<rparr>)))))"

datatype 'a mpsc_event = EvExchange 'a | EvLink | EvDequeue "'a option" | EvUndefined

inductive mpsc_step :: "'a mpsc \<Rightarrow> 'a mpsc_event \<Rightarrow> 'a mpsc \<Rightarrow> bool" where
  exchange: "mpsc_nodes q node = None \<Longrightarrow> mpsc_step q (EvExchange x) (mpsc_exchange node x q)"
| link: "(prev, node) \<in> mpsc_pend q \<Longrightarrow> mpsc_link prev node q = Some q' \<Longrightarrow> mpsc_step q EvLink q'"
| link_freed: "(prev, node) \<in> mpsc_pend q \<Longrightarrow> mpsc_link prev node q = None \<Longrightarrow>
    mpsc_step q EvUndefined q"
| dequeue: "mpsc_Dequeue q = Some (r, q') \<Longrightarrow> mpsc_step q (EvDequeue r) q'"
| dequeue_bad: "mpsc_Dequeue q = None \<Longrightarrow> mpsc_step q EvUndefined q"

inductive mpsc_run :: "'a mpsc \<Rightarrow> 'a mpsc_event list \<Rightarrow> 'a mpsc \<Rightarrow> bool" where
  run_Nil: "mpsc_run q [] q"
| run_snoc: "mpsc_run q es q1 \<Longrightarrow> mpsc_step q1 e q2 \<Longrightarrow> mpsc_run q (es @ [e]) q2"

text \<open>The items in the order of the exchanges, and the items handed to the consumer.\<close>

fun exchanged :: "'a mpsc_event list \<Rightarrow> 'a list" where
  "exchanged [] = []"
| "exchanged (EvExchange x # es) = x # exchanged es"
| "exchanged (_ # es) = exchanged es"

fun dequeued :: "'a mpsc_event list \<Rightarrow> 'a list" where
  "dequeued [] = []"
| "dequeued (EvDequeue (Some x) # es) = x # dequeued es"
| "dequeued (_ # es) = dequeued es"

lemma exchanged_append [simp]: "exchanged (es @ fs) = exchanged es @ exchanged fs"
  by (induction es rule: exchanged.induct) auto

lemma dequeued_append [simp]: "dequeued (es @ fs) = dequeued es @ dequeued fs"
  by (induction es rule: dequeued.induct) auto

text \<open>
  The invariant: the nodes from the tail to the head form a chain in which each one either
  points to its successor, or has no \<open>Next\<close> yet and a producer still owes that link.
\<close>

fun mpsc_chain :: "(nat \<rightharpoonup> 'a mpsc_node) \<Rightarrow> (nat \<times> nat) set \<Rightarrow> nat list \<Rightarrow> 'a list \<Rightarrow> bool" where
  "mpsc_chain m pd [a] xs = (xs = [] \<and> (\<exists>nd. m a = Some nd \<and> Next nd = None) \<and> (\<forall>b. (a, b) \<notin> pd))"
| "mpsc_chain m pd (a # b # c) xs =
     (\<exists>nd ndb y ys. m a = Some nd \<and> m b = Some ndb \<and> Data ndb = Some y \<and> xs = y # ys \<and>
        (Next nd = Some b \<and> (\<forall>d. (a, d) \<notin> pd) \<or> Next nd = None \<and> (\<forall>d. (a, d) \<in> pd \<longleftrightarrow> d = b)) \<and>
        mpsc_chain m pd (b # c) ys)"
| "mpsc_chain m pd [] xs = False"

definition mpsc_inv :: "'a mpsc \<Rightarrow> nat list \<Rightarrow> 'a list \<Rightarrow> bool" where
  "mpsc_inv q c xs \<longleftrightarrow> distinct c \<and> set c = dom (mpsc_nodes q) \<and> c \<noteq> [] \<and> hd c = mpsc_tail q \<and>
     last c = mpsc_head q \<and> fst ` mpsc_pend q \<subseteq> set c \<and>
     mpsc_chain (mpsc_nodes q) (mpsc_pend q) c xs"

lemma mpsc_chain_cong:
  assumes "mpsc_chain m pd c xs" and "\<And>a. a \<in> set c \<Longrightarrow> m' a = m a"
    and "\<And>a b. a \<in> set c \<Longrightarrow> (a, b) \<in> pd' \<longleftrightarrow> (a, b) \<in> pd"
  shows "mpsc_chain m' pd' c xs"
  using assms by (induction m pd c xs rule: mpsc_chain.induct) auto

lemma mpsc_chain_snoc:
  assumes "mpsc_chain m pd c xs" and "distinct (c @ [n])" and "\<forall>b. (n, b) \<notin> pd"
  shows "mpsc_chain (m(n \<mapsto> \<lparr>Data = Some x, Next = None\<rparr>)) (insert (last c, n) pd) (c @ [n]) (xs @ [x])"
  using assms
proof (induction m pd c xs rule: mpsc_chain.induct)
  case (2 m pd a b c xs)
  from "2.prems"(1) obtain nd ndb y ys where h: "m a = Some nd" "m b = Some ndb" "Data ndb = Some y"
    "xs = y # ys" "mpsc_chain m pd (b # c) ys"
    "Next nd = Some b \<and> (\<forall>d. (a, d) \<notin> pd) \<or> Next nd = None \<and> (\<forall>d. (a, d) \<in> pd \<longleftrightarrow> d = b)"
    by auto
  let ?m = "m(n \<mapsto> \<lparr>Data = Some x, Next = None\<rparr>)"
  let ?pd = "insert (last (b # c), n) pd"
  have ne: "a \<noteq> n" "b \<noteq> n" "last (b # c) \<noteq> a"
    using "2.prems"(2) last_in_set [of "b # c"] by auto
  have dis: "distinct ((b # c) @ [n])" using "2.prems"(2) by simp
  have IH: "mpsc_chain ?m ?pd (b # (c @ [n])) (ys @ [x])"
    using "2.IH" [OF h(5) dis "2.prems"(3)] by (simp only: append_Cons)
  have maps: "?m a = Some nd" "?m b = Some ndb" using h ne by simp_all
  have "Next nd = Some b \<and> (\<forall>d. (a, d) \<notin> ?pd) \<or> Next nd = None \<and> (\<forall>d. (a, d) \<in> ?pd \<longleftrightarrow> d = b)"
    using h(6) ne by blast
  with maps IH h(3,4) show ?case
    unfolding append_Cons mpsc_chain.simps(2) last.simps(1) by auto
qed auto

lemma mpsc_inv_new: "mpsc_inv (mpsc_new d) [d] []"
  by (simp add: mpsc_inv_def mpsc_new_def)

lemma mpsc_inv_exchange:
  assumes inv: "mpsc_inv q c xs" and fresh: "mpsc_nodes q n = None"
  shows "mpsc_inv (mpsc_exchange n x q) (c @ [n]) (xs @ [x])"
proof -
  have nc: "n \<notin> set c" using inv fresh by (auto simp: mpsc_inv_def dom_def)
  have pd: "\<forall>b. (n, b) \<notin> mpsc_pend q" using inv nc by (force simp: mpsc_inv_def)
  have "mpsc_chain ((mpsc_nodes q)(n \<mapsto> \<lparr>Data = Some x, Next = None\<rparr>))
      (insert (last c, n) (mpsc_pend q)) (c @ [n]) (xs @ [x])"
    using mpsc_chain_snoc [of "mpsc_nodes q" "mpsc_pend q" c xs n x] inv nc pd by (auto simp: mpsc_inv_def)
  then show ?thesis using inv nc by (auto simp: mpsc_inv_def mpsc_exchange_def dest: last_in_set)
qed

text \<open>Storing the owed link of any node of the chain keeps the chain and its items.\<close>

lemma mpsc_chain_link:
  assumes "mpsc_chain m pd c xs" and "distinct c" and "(p, n) \<in> pd" and "p \<in> set c"
  shows "\<exists>nd. m p = Some nd \<and> mpsc_chain (m(p \<mapsto> nd\<lparr>Next := Some n\<rparr>)) (pd - {(p, n)}) c xs"
  using assms
proof (induction m pd c xs rule: mpsc_chain.induct)
  case (2 m pd a b c xs)
  from "2.prems"(1) obtain nd ndb y ys where h: "m a = Some nd" "m b = Some ndb" "Data ndb = Some y"
    "xs = y # ys" "mpsc_chain m pd (b # c) ys"
    "Next nd = Some b \<and> (\<forall>d. (a, d) \<notin> pd) \<or> Next nd = None \<and> (\<forall>d. (a, d) \<in> pd \<longleftrightarrow> d = b)"
    by auto
  show ?case
  proof (cases "p = a")
    case True
    with "2.prems"(3) h(6) have n: "n = b" "Next nd = None" "\<forall>d. (a, d) \<in> pd \<longleftrightarrow> d = b" by auto
    let ?m = "m(a \<mapsto> nd\<lparr>Next := Some n\<rparr>)"
    have rest: "mpsc_chain ?m (pd - {(a, n)}) (b # c) ys"
      using "2.prems"(2) by (intro mpsc_chain_cong [OF h(5)]) auto
    have "?m a = Some (nd\<lparr>Next := Some n\<rparr>)" "?m b = Some ndb" "\<forall>d. (a, d) \<notin> pd - {(a, n)}"
      using "2.prems"(2) h n by auto
    with rest h(3,4) n have "mpsc_chain ?m (pd - {(a, n)}) (a # b # c) xs"
      unfolding mpsc_chain.simps(2) by (intro exI conjI) (assumption | rule refl disjI1 | simp)+
    with True h(1) show ?thesis by blast
  next
    case False
    with "2.prems" have "p \<in> set (b # c)" by simp
    moreover have "distinct (b # c)" using "2.prems"(2) by simp
    ultimately obtain ndp where
      np: "m p = Some ndp" "mpsc_chain (m(p \<mapsto> ndp\<lparr>Next := Some n\<rparr>)) (pd - {(p, n)}) (b # c) ys"
      using "2.IH" [OF h(5) _ "2.prems"(3)] by blast
    let ?m = "m(p \<mapsto> ndp\<lparr>Next := Some n\<rparr>)"
    have "\<exists>ndb'. ?m b = Some ndb' \<and> Data ndb' = Some y"
      using np(1) h(2,3) by (cases "p = b") auto
    moreover have "?m a = Some nd" using False h(1) by simp
    moreover have "Next nd = Some b \<and> (\<forall>d. (a, d) \<notin> pd - {(p, n)}) \<or>
        Next nd = None \<and> (\<forall>d. (a, d) \<in> pd - {(p, n)} \<longleftrightarrow> d = b)"
      using h(6) False by blast
    ultimately have "mpsc_chain ?m (pd - {(p, n)}) (a # b # c) xs"
      unfolding mpsc_chain.simps(2) using np(2) h(4) by blast
    with np(1) show ?thesis by blast
  qed
qed auto

lemma mpsc_inv_link:
  assumes inv: "mpsc_inv q c xs" and pd: "(p, n) \<in> mpsc_pend q"
  shows "\<exists>q'. mpsc_link p n q = Some q' \<and> mpsc_inv q' c xs"
proof -
  have "p \<in> set c" using inv pd by (force simp: mpsc_inv_def)
  then obtain nd where nd: "mpsc_nodes q p = Some nd"
    "mpsc_chain ((mpsc_nodes q)(p \<mapsto> nd\<lparr>Next := Some n\<rparr>)) (mpsc_pend q - {(p, n)}) c xs"
    using mpsc_chain_link [of "mpsc_nodes q" "mpsc_pend q" c xs p n] inv pd by (auto simp: mpsc_inv_def)
  with inv \<open>p \<in> set c\<close> show ?thesis by (auto simp: mpsc_link_def mpsc_inv_def)
qed

lemma mpsc_inv_dequeue:
  assumes inv: "mpsc_inv q c xs"
  shows "\<exists>r q'. mpsc_Dequeue q = Some (r, q') \<and>
    (case r of None \<Rightarrow> mpsc_inv q' c xs \<and> (xs = [] \<or> mpsc_pend q \<noteq> {})
     | Some x \<Rightarrow> \<exists>ys. xs = x # ys \<and> mpsc_inv q' (tl c) ys)"
proof (cases c rule: remdups_adj.cases)
  case 1
  with inv show ?thesis by (simp add: mpsc_inv_def)
next
  case (2 a)
  with inv show ?thesis by (auto simp: mpsc_inv_def mpsc_Dequeue_def)
next
  case (3 a b d)
  have I: "distinct (a # b # d)" "set (a # b # d) = dom (mpsc_nodes q)" "a = mpsc_tail q"
    "last (a # b # d) = mpsc_head q" "fst ` mpsc_pend q \<subseteq> set (a # b # d)"
    "mpsc_chain (mpsc_nodes q) (mpsc_pend q) (a # b # d) xs"
    using inv unfolding mpsc_inv_def 3 list.sel(1) by blast+
  obtain nd ndb y ys where h: "mpsc_nodes q a = Some nd" "mpsc_nodes q b = Some ndb"
    "Data ndb = Some y" "xs = y # ys" "mpsc_chain (mpsc_nodes q) (mpsc_pend q) (b # d) ys"
    "Next nd = Some b \<and> (\<forall>e. (a, e) \<notin> mpsc_pend q) \<or>
     Next nd = None \<and> (\<forall>e. (a, e) \<in> mpsc_pend q \<longleftrightarrow> e = b)"
    using I(6) unfolding mpsc_chain.simps(2) by blast
  show ?thesis
  proof (cases "Next nd")
    case None
    then have "mpsc_Dequeue q = Some (None, q)" using h(1) I(3) by (simp add: mpsc_Dequeue_def)
    moreover have "mpsc_pend q \<noteq> {}" using h(6) None by auto
    ultimately show ?thesis using inv by simp
  next
    case (Some n)
    with h(6) have n: "n = b" "\<forall>e. (a, e) \<notin> mpsc_pend q" by auto
    let ?q = "q\<lparr>mpsc_tail := b, mpsc_nodes := (mpsc_nodes q)(a := None)\<rparr>"
    have "mpsc_chain ((mpsc_nodes q)(a := None)) (mpsc_pend q) (b # d) ys"
      using I(1) by (intro mpsc_chain_cong [OF h(5)]) auto
    moreover have "fst ` mpsc_pend q \<subseteq> set (b # d)"
    proof
      fix u assume "u \<in> fst ` mpsc_pend q"
      with n(2) have "u \<noteq> a" by auto
      with \<open>u \<in> fst ` mpsc_pend q\<close> I(5) show "u \<in> set (b # d)" by auto
    qed
    moreover have "set (b # d) = dom ((mpsc_nodes q)(a := None))"
      using I(1,2) by (simp add: dom_fun_upd) blast
    ultimately have "mpsc_inv ?q (b # d) ys"
      unfolding mpsc_inv_def using I(1,4) by simp
    moreover have "mpsc_Dequeue q = Some (Some y, ?q)"
      using h(1-3) Some n I(3) by (simp add: mpsc_Dequeue_def)
    ultimately show ?thesis using h(4) 3 by simp
  qed
qed

lemma mpsc_step_inv:
  assumes "mpsc_step q e q'" and "mpsc_inv q c xs"
  shows "e \<noteq> EvUndefined \<and> (\<exists>c' xs'. mpsc_inv q' c' xs' \<and> xs @ exchanged [e] = dequeued [e] @ xs')"
  using assms
proof (cases rule: mpsc_step.cases)
  case (exchange node x)
  with mpsc_inv_exchange [OF assms(2), of node x] show ?thesis by auto
next
  case (link prev node)
  with mpsc_inv_link [OF assms(2)] show ?thesis by fastforce
next
  case (link_freed prev node)
  with mpsc_inv_link [OF assms(2)] show ?thesis by fastforce
next
  case (dequeue r)
  with mpsc_inv_dequeue [OF assms(2)] show ?thesis by (cases r) auto
next
  case dequeue_bad
  with mpsc_inv_dequeue [OF assms(2)] show ?thesis by simp
qed

lemma mpsc_run_inv:
  assumes "mpsc_run q0 es q" and "q0 = mpsc_new d"
  shows "EvUndefined \<notin> set es \<and> (\<exists>c xs. mpsc_inv q c xs \<and> exchanged es = dequeued es @ xs)"
  using assms
proof (induction rule: mpsc_run.induct)
  case (run_Nil q)
  then show ?case using mpsc_inv_new by fastforce
next
  case (run_snoc q es q1 e q2)
  then obtain c xs where c: "EvUndefined \<notin> set es" "mpsc_inv q1 c xs" "exchanged es = dequeued es @ xs"
    by auto
  from mpsc_step_inv [OF run_snoc.hyps(2) c(2)] obtain c' xs' where
    "e \<noteq> EvUndefined" "mpsc_inv q2 c' xs'" "xs @ exchanged [e] = dequeued [e] @ xs'" by blast
  with c show ?case by auto
qed

text \<open>
  C4: Whatever the interleaving of any number of producers with the consumer, no step touches a
  node that was freed, the items the consumer has received are a prefix of the items in the order
  in which their producers swapped the head, and once no producer is between its two atomic
  steps the next \<open>Dequeue\<close> returns exactly the next item, or fails because all were received.
\<close>

theorem mpsc_linearizable:
  assumes "mpsc_run (mpsc_new d) es q"
  shows "EvUndefined \<notin> set es \<and> prefix (dequeued es) (exchanged es) \<and>
    (mpsc_pend q = {} \<longrightarrow>
      (\<exists>r q'. mpsc_Dequeue q = Some (r, q') \<and>
        (case r of None \<Rightarrow> dequeued es = exchanged es
         | Some x \<Rightarrow> prefix (dequeued es @ [x]) (exchanged es))))"
proof -
  from mpsc_run_inv [OF assms refl] obtain c xs where
    c: "EvUndefined \<notin> set es" "mpsc_inv q c xs" "exchanged es = dequeued es @ xs" by blast
  from mpsc_inv_dequeue [OF c(2)] show ?thesis
    using c(1,3) by (auto simp: prefix_def split: option.splits)
qed

theorem mpsc_linearizable_witness:
  "\<exists>q :: nat mpsc. mpsc_run (mpsc_new 0) [EvExchange 7, EvExchange 8, EvLink, EvDequeue (Some 7)] q \<and>
     prefix [7] [7, 8 :: nat]"
proof -
  let ?q1 = "mpsc_exchange 1 (7 :: nat) (mpsc_new 0)"
  let ?q2 = "mpsc_exchange 2 8 ?q1"
  obtain q3 where q3: "mpsc_link 0 1 ?q2 = Some q3"
    by (simp add: mpsc_link_def mpsc_exchange_def mpsc_new_def)
  obtain q4 where q4: "mpsc_Dequeue q3 = Some (Some 7, q4)"
    using q3 by (auto simp: mpsc_link_def mpsc_Dequeue_def mpsc_exchange_def mpsc_new_def)
  have "mpsc_run (mpsc_new 0) [EvExchange 7] ?q1"
    using run_snoc [OF run_Nil mpsc_step.exchange [of "mpsc_new 0" 1 7]] by (simp add: mpsc_new_def)
  from run_snoc [OF this mpsc_step.exchange [of ?q1 2 8]]
  have "mpsc_run (mpsc_new 0) [EvExchange 7, EvExchange 8] ?q2"
    by (simp add: mpsc_new_def mpsc_exchange_def)
  from run_snoc [OF this mpsc_step.link [OF _ q3]]
  have "mpsc_run (mpsc_new 0) [EvExchange 7, EvExchange 8, EvLink] q3"
    by (simp add: mpsc_new_def mpsc_exchange_def)
  from run_snoc [OF this mpsc_step.dequeue [OF q4]]
  have run: "mpsc_run (mpsc_new 0) [EvExchange 7, EvExchange 8, EvLink, EvDequeue (Some 7)] q4"
    by simp
  from mpsc_linearizable [OF run] run show ?thesis by auto
qed

end
