(* ===== verification/OpcodeTable.thy ===== *)
theory OpcodeTable
  imports Prelude
begin

text \<open>
  The routing table of the proxy, \<open>shade/Server/Protocol/Opcodes.cpp\<close> and \<open>Opcodes.h\<close>:
  for every opcode whether its packet may be handled off the map thread (\<open>multipass\<close>), the
  session status it needs, and what the proxy does with it when it comes from the client
  (\<open>to_node\<close>) or from a node (\<open>from_node\<close>). The rows stand in file order in nine
  definitions; \<open>opcodeTable\<close> is the array, whose trailing entries, for which the
  initialiser has no row, are zero.
\<close>

datatype SessionStatus = STATUS_AUTHED | STATUS_LOGGEDIN | STATUS_TRANSFER
  | STATUS_LOGGEDIN_OR_RECENTLY_LOGGOUT | STATUS_NEVER | STATUS_UNHANDLED

datatype PacketState = PACKET_STATE_NULL | PACKET_STATE_LOGON | PACKET_STATE_NODE
  | PACKET_STATE_BOTH | PACKET_STATE_PASS

text \<open>
  The member functions the rows point to: those the development models by their name, the
  others with their name as an argument, and the null pointer of the zero entries.
\<close>

datatype client_handler = Handle_NULL | Handle_ServerSide | Handle_SMSG_AUTH_RESPONSE
  | Handle_SMSG_AUTH_CHALLENGE | Handle_NODE_MISC_DATA | Handle_NODE_PLAYER_DATA
  | Handle_NODE_PLAYER_CHANGED_ZONE | HandlePlayerLogoutRequest | HandleLogoutCancelOpcode
  | Handle_SMSG_LOGOUT_RESPONSE | Handle_SMSG_LOGOUT_COMPLETE | HandleWorldStateUITimerUpdate
  | OtherHandler string | NullPointer

datatype OpcodeHandler = OH (oh_name: string) (multipass: bool) (status: SessionStatus)
  (to_node: PacketState) (from_node: PacketState) (handler: client_handler)

definition NUM_MSG_TYPES :: nat where
  "NUM_MSG_TYPES = 0x52D"

section \<open>The rows\<close>

definition opcode_rows_0 :: "OpcodeHandler list" where
  "opcode_rows_0 = [
     OH ''MSG_NULL_ACTION'' True STATUS_NEVER PACKET_STATE_NULL PACKET_STATE_NULL Handle_NULL,
     OH ''CMSG_BOOTME'' True STATUS_NEVER PACKET_STATE_NODE PACKET_STATE_PASS Handle_NULL,
     OH ''CMSG_DBLOOKUP'' True STATUS_NEVER PACKET_STATE_NODE PACKET_STATE_PASS Handle_NULL,
     OH ''SMSG_DBLOOKUP'' True STATUS_NEVER PACKET_STATE_NULL PACKET_STATE_PASS Handle_ServerSide,
     OH ''CMSG_QUERY_OBJECT_POSITION'' True STATUS_NEVER PACKET_STATE_NODE PACKET_STATE_PASS Handle_NULL,
     OH ''SMSG_QUERY_OBJECT_POSITION'' True STATUS_NEVER PACKET_STATE_NULL PACKET_STATE_PASS Handle_ServerSide,
     OH ''CMSG_QUERY_OBJECT_ROTATION'' True STATUS_NEVER PACKET_STATE_NODE PACKET_STATE_PASS Handle_NULL,
     OH ''SMSG_QUERY_OBJECT_ROTATION'' True STATUS_NEVER PACKET_STATE_NULL PACKET_STATE_PASS Handle_ServerSide,
     OH ''CMSG_WORLD_TELEPORT'' True STATUS_LOGGEDIN PACKET_STATE_NODE PACKET_STATE_PASS Handle_NULL,
     OH ''CMSG_TELEPORT_TO_UNIT'' True STATUS_LOGGEDIN PACKET_STATE_NODE PACKET_STATE_PASS Handle_NULL,
     OH ''CMSG_ZONE_MAP'' True STATUS_NEVER PACKET_STATE_NODE PACKET_STATE_PASS Handle_NULL,
     OH ''SMSG_ZONE_MAP'' True STATUS_NEVER PACKET_STATE_NULL PACKET_STATE_PASS Handle_ServerSide,
     OH ''CMSG_DEBUG_CHANGECELLZONE'' True STATUS_NEVER PACKET_STATE_NODE PACKET_STATE_PASS Handle_NULL,
     OH ''CMSG_MOVE_CHARACTER_CHEAT'' True STATUS_NEVER PACKET_STATE_NODE PACKET_STATE_PASS Handle_NULL,
     OH ''SMSG_MOVE_CHARACTER_CHEAT'' True STATUS_NEVER PACKET_STATE_NULL PACKET_STATE_PASS Handle_NULL,
     OH ''CMSG_RECHARGE'' True STATUS_NEVER PACKET_STATE_NODE PACKET_STATE_PASS Handle_NULL,
     OH ''CMSG_LEARN_SPELL'' True STATUS_NEVER PACKET_STATE_NODE PACKET_STATE_PASS Handle_NULL,
     OH ''CMSG_CREATEMONSTER'' True STATUS_NEVER PACKET_STATE_NODE PACKET_STATE_PASS Handle_NULL,
     OH ''CMSG_DESTROYMONSTER'' True STATUS_NEVER PACKET_STATE_NODE PACKET_STATE_PASS Handle_NULL,
     OH ''CMSG_CREATEITEM'' True STATUS_NEVER PACKET_STATE_NODE PACKET_STATE_PASS Handle_NULL,
     OH ''CMSG_CREATEGAMEOBJECT'' True STATUS_NEVER PACKET_STATE_NODE PACKET_STATE_PASS Handle_NULL,
     OH ''SMSG_CHECK_FOR_BOTS'' True STATUS_NEVER PACKET_STATE_NODE PACKET_STATE_PASS Handle_ServerSide,
     OH ''CMSG_MAKEMONSTERATTACKGUID'' True STATUS_NEVER PACKET_STATE_NODE PACKET_STATE_PASS Handle_NULL,
     OH ''CMSG_BOT_DETECTED2'' True STATUS_NEVER PACKET_STATE_NODE PACKET_STATE_PASS Handle_NULL,
     OH ''CMSG_FORCEACTION'' True STATUS_NEVER PACKET_STATE_NODE PACKET_STATE_PASS Handle_NULL,
     OH ''CMSG_FORCEACTIONONOTHER'' True STATUS_NEVER PACKET_STATE_NODE PACKET_STATE_PASS Handle_NULL,
     OH ''CMSG_FORCEACTIONSHOW'' True STATUS_NEVER PACKET_STATE_NODE PACKET_STATE_PASS Handle_NULL,
     OH ''SMSG_FORCEACTIONSHOW'' True STATUS_NEVER PACKET_STATE_NODE PACKET_STATE_PASS Handle_ServerSide,
     OH ''CMSG_PETGODMODE'' True STATUS_NEVER PACKET_STATE_NODE PACKET_STATE_PASS Handle_NULL,
     OH ''SMSG_PETGODMODE'' True STATUS_NEVER PACKET_STATE_NODE PACKET_STATE_PASS Handle_ServerSide,
     OH ''SMSG_REFER_A_FRIEND_EXPIRED'' True STATUS_NEVER PACKET_STATE_NODE PACKET_STATE_PASS Handle_ServerSide,
     OH ''CMSG_WEATHER_SPEED_CHEAT'' True STATUS_NEVER PACKET_STATE_NODE PACKET_STATE_PASS Handle_NULL,
     OH ''CMSG_UNDRESSPLAYER'' True STATUS_NEVER PACKET_STATE_NODE PACKET_STATE_PASS Handle_NULL,
     OH ''CMSG_BEASTMASTER'' True STATUS_NEVER PACKET_STATE_NODE PACKET_STATE_PASS Handle_NULL,
     OH ''CMSG_GODMODE'' True STATUS_NEVER PACKET_STATE_NODE PACKET_STATE_PASS Handle_NULL,
     OH ''SMSG_GODMODE'' True STATUS_NEVER PACKET_STATE_NODE PACKET_STATE_PASS Handle_ServerSide,
     OH ''CMSG_CHEAT_SETMONEY'' True STATUS_NEVER PACKET_STATE_NODE PACKET_STATE_PASS Handle_NULL,
     OH ''CMSG_LEVEL_CHEAT'' True STATUS_NEVER PACKET_STATE_NODE PACKET_STATE_PASS Handle_NULL,
     OH ''CMSG_PET_LEVEL_CHEAT'' True STATUS_NEVER PACKET_STATE_NODE PACKET_STATE_PASS Handle_NULL,
     OH ''CMSG_SET_WORLDSTATE'' True STATUS_NEVER PACKET_STATE_NODE PACKET_STATE_PASS Handle_NULL,
     OH ''CMSG_COOLDOWN_CHEAT'' True STATUS_NEVER PACKET_STATE_NODE PACKET_STATE_PASS Handle_NULL,
     OH ''CMSG_USE_SKILL_CHEAT'' True STATUS_NEVER PACKET_STATE_NODE PACKET_STATE_PASS Handle_NULL,
     OH ''CMSG_FLAG_QUEST'' True STATUS_NEVER PACKET_STATE_NODE PACKET_STATE_PASS Handle_NULL,
     OH ''CMSG_FLAG_QUEST_FINISH'' True STATUS_NEVER PACKET_STATE_NODE PACKET_STATE_PASS Handle_NULL,
     OH ''CMSG_CLEAR_QUEST'' True STATUS_NEVER PACKET_STATE_NODE PACKET_STATE_PASS Handle_NULL,
     OH ''CMSG_SEND_EVENT'' True STATUS_NEVER PACKET_STATE_NODE PACKET_STATE_PASS Handle_NULL,
     OH ''CMSG_DEBUG_AISTATE'' True STATUS_NEVER PACKET_STATE_NODE PACKET_STATE_PASS Handle_NULL,
     OH ''SMSG_DEBUG_AISTATE'' True STATUS_NEVER PACKET_STATE_NODE PACKET_STATE_PASS Handle_ServerSide,
     OH ''CMSG_DISABLE_PVP_CHEAT'' True STATUS_NEVER PACKET_STATE_NODE PACKET_STATE_PASS Handle_NULL,
     OH ''CMSG_ADVANCE_SPAWN_TIME'' True STATUS_NEVER PACKET_STATE_NODE PACKET_STATE_PASS Handle_NULL,
     OH ''SMSG_DESTRUCTIBLE_BUILDING_DAMAGE'' True STATUS_NEVER PACKET_STATE_NODE PACKET_STATE_PASS Handle_NULL,
     OH ''CMSG_AUTH_SRP6_BEGIN'' True STATUS_NEVER PACKET_STATE_NODE PACKET_STATE_PASS Handle_NULL,
     OH ''CMSG_AUTH_SRP6_PROOF'' True STATUS_NEVER PACKET_STATE_NODE PACKET_STATE_PASS Handle_NULL,
     OH ''CMSG_AUTH_SRP6_RECODE'' True STATUS_NEVER PACKET_STATE_NODE PACKET_STATE_PASS Handle_NULL,
     OH ''CMSG_CHAR_CREATE'' True STATUS_AUTHED PACKET_STATE_NODE PACKET_STATE_PASS Handle_NULL,
     OH ''CMSG_CHAR_ENUM'' True STATUS_AUTHED PACKET_STATE_LOGON PACKET_STATE_NULL (OtherHandler ''HandleCharEnumOpcode''),
     OH ''CMSG_CHAR_DELETE'' True STATUS_AUTHED PACKET_STATE_NODE PACKET_STATE_PASS Handle_NULL,
     OH ''SMSG_AUTH_SRP6_RESPONSE'' True STATUS_NEVER PACKET_STATE_NODE PACKET_STATE_PASS Handle_ServerSide,
     OH ''SMSG_CHAR_CREATE'' True STATUS_NEVER PACKET_STATE_NODE PACKET_STATE_PASS Handle_ServerSide,
     OH ''SMSG_CHAR_ENUM'' True STATUS_NEVER PACKET_STATE_NULL PACKET_STATE_PASS Handle_ServerSide,
     OH ''SMSG_CHAR_DELETE'' True STATUS_NEVER PACKET_STATE_NODE PACKET_STATE_PASS Handle_ServerSide,
     OH ''CMSG_PLAYER_LOGIN'' False STATUS_AUTHED PACKET_STATE_LOGON PACKET_STATE_PASS (OtherHandler ''HandlePlayerLoginOpcode''),
     OH ''SMSG_NEW_WORLD'' True STATUS_NEVER PACKET_STATE_NULL PACKET_STATE_PASS Handle_ServerSide,
     OH ''SMSG_TRANSFER_PENDING'' True STATUS_NEVER PACKET_STATE_NODE PACKET_STATE_PASS Handle_ServerSide,
     OH ''SMSG_TRANSFER_ABORTED'' True STATUS_NEVER PACKET_STATE_NODE PACKET_STATE_PASS Handle_ServerSide,
     OH ''SMSG_CHARACTER_LOGIN_FAILED'' True STATUS_NEVER PACKET_STATE_NODE PACKET_STATE_PASS Handle_ServerSide,
     OH ''SMSG_LOGIN_SETTIMESPEED'' True STATUS_NEVER PACKET_STATE_NODE PACKET_STATE_PASS Handle_ServerSide,
     OH ''SMSG_GAMETIME_UPDATE'' True STATUS_NEVER PACKET_STATE_NODE PACKET_STATE_PASS Handle_ServerSide,
     OH ''CMSG_GAMETIME_SET'' True STATUS_NEVER PACKET_STATE_NODE PACKET_STATE_PASS Handle_NULL,
     OH ''SMSG_GAMETIME_SET'' True STATUS_NEVER PACKET_STATE_NODE PACKET_STATE_PASS Handle_ServerSide,
     OH ''CMSG_GAMESPEED_SET'' True STATUS_NEVER PACKET_STATE_NODE PACKET_STATE_PASS Handle_NULL,
     OH ''SMSG_GAMESPEED_SET'' True STATUS_NEVER PACKET_STATE_NODE PACKET_STATE_PASS Handle_ServerSide,
     OH ''CMSG_SERVERTIME'' True STATUS_NEVER PACKET_STATE_NODE PACKET_STATE_PASS Handle_NULL,
     OH ''SMSG_SERVERTIME'' True STATUS_NEVER PACKET_STATE_NODE PACKET_STATE_PASS Handle_ServerSide,
     OH ''CMSG_PLAYER_LOGOUT'' True STATUS_LOGGEDIN PACKET_STATE_NODE PACKET_STATE_PASS Handle_NULL,
     OH ''CMSG_LOGOUT_REQUEST'' True STATUS_LOGGEDIN PACKET_STATE_BOTH PACKET_STATE_NULL HandlePlayerLogoutRequest,
     OH ''SMSG_LOGOUT_RESPONSE'' False STATUS_NEVER PACKET_STATE_NULL PACKET_STATE_BOTH Handle_SMSG_LOGOUT_RESPONSE,
     OH ''SMSG_LOGOUT_COMPLETE'' False STATUS_NEVER PACKET_STATE_NULL PACKET_STATE_LOGON Handle_SMSG_LOGOUT_COMPLETE,
     OH ''CMSG_LOGOUT_CANCEL'' True STATUS_LOGGEDIN PACKET_STATE_BOTH PACKET_STATE_NULL HandleLogoutCancelOpcode,
     OH ''SMSG_LOGOUT_CANCEL_ACK'' True STATUS_NEVER PACKET_STATE_NODE PACKET_STATE_PASS Handle_ServerSide,
     OH ''CMSG_NAME_QUERY'' True STATUS_LOGGEDIN PACKET_STATE_NODE PACKET_STATE_PASS Handle_NULL,
     OH ''SMSG_NAME_QUERY_RESPONSE'' True STATUS_NEVER PACKET_STATE_NODE PACKET_STATE_PASS Handle_ServerSide,
     OH ''CMSG_PET_NAME_QUERY'' True STATUS_LOGGEDIN PACKET_STATE_NODE PACKET_STATE_PASS Handle_NULL,
     OH ''SMSG_PET_NAME_QUERY_RESPONSE'' True STATUS_NEVER PACKET_STATE_NODE PACKET_STATE_PASS Handle_ServerSide,
     OH ''CMSG_GUILD_QUERY'' True STATUS_AUTHED PACKET_STATE_LOGON PACKET_STATE_LOGON (OtherHandler ''HandleGuildQueryOpcode''),
     OH ''SMSG_GUILD_QUERY_RESPONSE'' True STATUS_NEVER PACKET_STATE_LOGON PACKET_STATE_LOGON Handle_ServerSide,
     OH ''CMSG_ITEM_QUERY_SINGLE'' True STATUS_LOGGEDIN PACKET_STATE_LOGON PACKET_STATE_NULL (OtherHandler ''HandleItemQuerySingleOpcode''),
     OH ''CMSG_ITEM_QUERY_MULTIPLE'' True STATUS_NEVER PACKET_STATE_NODE PACKET_STATE_PASS Handle_NULL,
     OH ''SMSG_ITEM_QUERY_SINGLE_RESPONSE'' True STATUS_LOGGEDIN PACKET_STATE_NULL PACKET_STATE_BOTH (OtherHandler ''HandleSMSG_ITEM_QUERY_SINGLE''),
     OH ''SMSG_ITEM_QUERY_MULTIPLE_RESPONSE'' True STATUS_NEVER PACKET_STATE_NODE PACKET_STATE_PASS Handle_ServerSide,
     OH ''CMSG_PAGE_TEXT_QUERY'' True STATUS_LOGGEDIN PACKET_STATE_NODE PACKET_STATE_PASS Handle_NULL,
     OH ''SMSG_PAGE_TEXT_QUERY_RESPONSE'' True STATUS_NEVER PACKET_STATE_NODE PACKET_STATE_PASS Handle_ServerSide,
     OH ''CMSG_QUEST_QUERY'' True STATUS_LOGGEDIN PACKET_STATE_LOGON PACKET_STATE_NULL (OtherHandler ''HandleQuestQueryOpcode''),
     OH ''SMSG_QUEST_QUERY_RESPONSE'' True STATUS_NEVER PACKET_STATE_NULL PACKET_STATE_PASS Handle_ServerSide,
     OH ''CMSG_GAMEOBJECT_QUERY'' True STATUS_LOGGEDIN PACKET_STATE_LOGON PACKET_STATE_NULL (OtherHandler ''HandleGameObjectQueryOpcode''),
     OH ''SMSG_GAMEOBJECT_QUERY_RESPONSE'' True STATUS_LOGGEDIN PACKET_STATE_NULL PACKET_STATE_BOTH (OtherHandler ''HandleSMSG_GAMEOBJECT_QUERY''),
     OH ''CMSG_CREATURE_QUERY'' True STATUS_LOGGEDIN PACKET_STATE_LOGON PACKET_STATE_NULL (OtherHandler ''HandleCreatureQueryOpcode''),
     OH ''SMSG_CREATURE_QUERY_RESPONSE'' True STATUS_LOGGEDIN PACKET_STATE_NULL PACKET_STATE_BOTH (OtherHandler ''HandleSMSG_CREATURE_QUERY''),
     OH ''CMSG_WHO'' True STATUS_LOGGEDIN PACKET_STATE_NODE PACKET_STATE_PASS Handle_NULL,
     OH ''SMSG_WHO'' True STATUS_NEVER PACKET_STATE_NODE PACKET_STATE_PASS Handle_ServerSide,
     OH ''CMSG_WHOIS'' False STATUS_LOGGEDIN PACKET_STATE_LOGON PACKET_STATE_NULL (OtherHandler ''HandleWhoisOpcode''),
     OH ''SMSG_WHOIS'' True STATUS_NEVER PACKET_STATE_NULL PACKET_STATE_PASS Handle_ServerSide,
     OH ''CMSG_CONTACT_LIST'' False STATUS_LOGGEDIN PACKET_STATE_LOGON PACKET_STATE_NULL (OtherHandler ''HandleContactListOpcode''),
     OH ''SMSG_CONTACT_LIST'' True STATUS_NEVER PACKET_STATE_NULL PACKET_STATE_NULL Handle_ServerSide,
     OH ''SMSG_FRIEND_STATUS'' True STATUS_NEVER PACKET_STATE_NULL PACKET_STATE_NULL Handle_ServerSide,
     OH ''CMSG_ADD_FRIEND'' False STATUS_LOGGEDIN PACKET_STATE_BOTH PACKET_STATE_NULL (OtherHandler ''HandleAddFriendOpcode''),
     OH ''CMSG_DEL_FRIEND'' False STATUS_LOGGEDIN PACKET_STATE_BOTH PACKET_STATE_NULL (OtherHandler ''HandleDelFriendOpcode''),
     OH ''CMSG_SET_CONTACT_NOTES'' False STATUS_LOGGEDIN PACKET_STATE_LOGON PACKET_STATE_NULL (OtherHandler ''HandleSetContactNotesOpcode''),
     OH ''CMSG_ADD_IGNORE'' False STATUS_LOGGEDIN PACKET_STATE_BOTH PACKET_STATE_NULL (OtherHandler ''HandleAddIgnoreOpcode''),
     OH ''CMSG_DEL_IGNORE'' False STATUS_LOGGEDIN PACKET_STATE_BOTH PACKET_STATE_NULL (OtherHandler ''HandleDelIgnoreOpcode''),
     OH ''CMSG_GROUP_INVITE'' True STATUS_LOGGEDIN PACKET_STATE_NODE PACKET_STATE_PASS Handle_NULL,
     OH ''SMSG_GROUP_INVITE'' True STATUS_NEVER PACKET_STATE_NODE PACKET_STATE_PASS Handle_ServerSide,
     OH ''CMSG_GROUP_CANCEL'' True STATUS_LOGGEDIN PACKET_STATE_NODE PACKET_STATE_PASS Handle_NULL,
     OH ''SMSG_GROUP_CANCEL'' True STATUS_NEVER PACKET_STATE_NODE PACKET_STATE_PASS Handle_ServerSide,
     OH ''CMSG_GROUP_ACCEPT'' True STATUS_LOGGEDIN PACKET_STATE_NODE PACKET_STATE_PASS Handle_NULL,
     OH ''CMSG_GROUP_DECLINE'' True STATUS_LOGGEDIN PACKET_STATE_NODE PACKET_STATE_PASS Handle_NULL,
     OH ''SMSG_GROUP_DECLINE'' True STATUS_NEVER PACKET_STATE_NODE PACKET_STATE_PASS Handle_ServerSide,
     OH ''CMSG_GROUP_UNINVITE'' True STATUS_LOGGEDIN PACKET_STATE_NODE PACKET_STATE_PASS Handle_NULL,
     OH ''CMSG_GROUP_UNINVITE_GUID'' True STATUS_LOGGEDIN PACKET_STATE_NODE PACKET_STATE_PASS Handle_NULL,
     OH ''SMSG_GROUP_UNINVITE'' True STATUS_NEVER PACKET_STATE_NODE PACKET_STATE_PASS Handle_ServerSide,
     OH ''CMSG_GROUP_SET_LEADER'' True STATUS_LOGGEDIN PACKET_STATE_NODE PACKET_STATE_PASS Handle_NULL,
     OH ''SMSG_GROUP_SET_LEADER'' True STATUS_NEVER PACKET_STATE_NODE PACKET_STATE_PASS Handle_ServerSide,
     OH ''CMSG_LOOT_METHOD'' True STATUS_LOGGEDIN PACKET_STATE_NODE PACKET_STATE_PASS Handle_NULL,
     OH ''CMSG_GROUP_DISBAND'' True STATUS_LOGGEDIN PACKET_STATE_NODE PACKET_STATE_PASS Handle_NULL,
     OH ''SMSG_GROUP_DESTROYED'' True STATUS_NEVER PACKET_STATE_NODE PACKET_STATE_PASS Handle_ServerSide,
     OH ''SMSG_GROUP_LIST'' True STATUS_NEVER PACKET_STATE_NODE PACKET_STATE_PASS Handle_ServerSide,
     OH ''SMSG_PARTY_MEMBER_STATS'' True STATUS_NEVER PACKET_STATE_NODE PACKET_STATE_PASS Handle_ServerSide,
     OH ''SMSG_PARTY_COMMAND_RESULT'' True STATUS_NEVER PACKET_STATE_NODE PACKET_STATE_PASS Handle_ServerSide,
     OH ''UMSG_UPDATE_GROUP_MEMBERS'' True STATUS_NEVER PACKET_STATE_NODE PACKET_STATE_PASS Handle_NULL,
     OH ''CMSG_GUILD_CREATE'' True STATUS_LOGGEDIN PACKET_STATE_NODE PACKET_STATE_PASS Handle_NULL,
     OH ''CMSG_GUILD_INVITE'' True STATUS_LOGGEDIN PACKET_STATE_LOGON PACKET_STATE_NULL (OtherHandler ''HandleGuildInviteOpcode''),
     OH ''SMSG_GUILD_INVITE'' True STATUS_NEVER PACKET_STATE_LOGON PACKET_STATE_NULL Handle_ServerSide,
     OH ''CMSG_GUILD_ACCEPT'' True STATUS_LOGGEDIN PACKET_STATE_LOGON PACKET_STATE_NULL (OtherHandler ''HandleGuildAcceptOpcode''),
     OH ''CMSG_GUILD_DECLINE'' True STATUS_LOGGEDIN PACKET_STATE_LOGON PACKET_STATE_NULL (OtherHandler ''HandleGuildDeclineOpcode''),
     OH ''SMSG_GUILD_DECLINE'' True STATUS_NEVER PACKET_STATE_LOGON PACKET_STATE_NULL Handle_NULL,
     OH ''CMSG_GUILD_INFO'' True STATUS_LOGGEDIN PACKET_STATE_LOGON PACKET_STATE_NULL Handle_NULL,
     OH ''SMSG_GUILD_INFO'' True STATUS_NEVER PACKET_STATE_LOGON PACKET_STATE_NULL (OtherHandler ''HandleGuildInfoOpcode''),
     OH ''CMSG_GUILD_ROSTER'' True STATUS_LOGGEDIN PACKET_STATE_LOGON PACKET_STATE_NULL (OtherHandler ''HandleGuildRosterOpcode''),
     OH ''SMSG_GUILD_ROSTER'' True STATUS_NEVER PACKET_STATE_LOGON PACKET_STATE_NULL Handle_NULL,
     OH ''CMSG_GUILD_PROMOTE'' True STATUS_LOGGEDIN PACKET_STATE_LOGON PACKET_STATE_NULL (OtherHandler ''HandleGuildPromoteOpcode''),
     OH ''CMSG_GUILD_DEMOTE'' True STATUS_LOGGEDIN PACKET_STATE_LOGON PACKET_STATE_NULL (OtherHandler ''HandleGuildDemoteOpcode''),
     OH ''CMSG_GUILD_LEAVE'' True STATUS_LOGGEDIN PACKET_STATE_LOGON PACKET_STATE_NULL (OtherHandler ''HandleGuildLeaveOpcode''),
     OH ''CMSG_GUILD_REMOVE'' True STATUS_LOGGEDIN PACKET_STATE_LOGON PACKET_STATE_NULL (OtherHandler ''HandleGuildRemoveOpcode''),
     OH ''CMSG_GUILD_DISBAND'' True STATUS_LOGGEDIN PACKET_STATE_LOGON PACKET_STATE_NULL (OtherHandler ''HandleGuildDisbandOpcode''),
     OH ''CMSG_GUILD_LEADER'' True STATUS_LOGGEDIN PACKET_STATE_LOGON PACKET_STATE_NULL (OtherHandler ''HandleGuildLeaderOpcode''),
     OH ''CMSG_GUILD_MOTD'' True STATUS_LOGGEDIN PACKET_STATE_LOGON PACKET_STATE_NULL (OtherHandler ''HandleGuildMOTDOpcode''),
     OH ''SMSG_GUILD_EVENT'' True STATUS_NEVER PACKET_STATE_LOGON PACKET_STATE_NULL Handle_ServerSide]"

definition opcode_rows_1 :: "OpcodeHandler list" where
  "opcode_rows_1 = [
     OH ''SMSG_GUILD_COMMAND_RESULT'' True STATUS_NEVER PACKET_STATE_LOGON PACKET_STATE_NULL Handle_ServerSide,
     OH ''UMSG_UPDATE_GUILD'' True STATUS_NEVER PACKET_STATE_LOGON PACKET_STATE_NULL Handle_NULL,
     OH ''CMSG_MESSAGECHAT'' False STATUS_LOGGEDIN PACKET_STATE_LOGON PACKET_STATE_NULL (OtherHandler ''HandleMessagechatOpcode''),
     OH ''SMSG_MESSAGECHAT'' True STATUS_NEVER PACKET_STATE_NULL PACKET_STATE_PASS Handle_ServerSide,
     OH ''CMSG_JOIN_CHANNEL'' False STATUS_LOGGEDIN PACKET_STATE_LOGON PACKET_STATE_NULL (OtherHandler ''HandleJoinChannel''),
     OH ''CMSG_LEAVE_CHANNEL'' False STATUS_LOGGEDIN PACKET_STATE_LOGON PACKET_STATE_NULL (OtherHandler ''HandleLeaveChannel''),
     OH ''SMSG_CHANNEL_NOTIFY'' True STATUS_NEVER PACKET_STATE_NULL PACKET_STATE_PASS Handle_ServerSide,
     OH ''CMSG_CHANNEL_LIST'' False STATUS_LOGGEDIN PACKET_STATE_LOGON PACKET_STATE_NULL (OtherHandler ''HandleChannelAnnouncements''),
     OH ''SMSG_CHANNEL_LIST'' True STATUS_NEVER PACKET_STATE_NULL PACKET_STATE_PASS Handle_ServerSide,
     OH ''CMSG_CHANNEL_PASSWORD'' False STATUS_LOGGEDIN PACKET_STATE_LOGON PACKET_STATE_NULL (OtherHandler ''HandleChannelPassword''),
     OH ''CMSG_CHANNEL_SET_OWNER'' False STATUS_LOGGEDIN PACKET_STATE_LOGON PACKET_STATE_NULL (OtherHandler ''HandleChannelSetOwner''),
     OH ''CMSG_CHANNEL_OWNER'' False STATUS_LOGGEDIN PACKET_STATE_LOGON PACKET_STATE_NULL (OtherHandler ''HandleChannelOwner''),
     OH ''CMSG_CHANNEL_MODERATOR'' False STATUS_LOGGEDIN PACKET_STATE_LOGON PACKET_STATE_NULL (OtherHandler ''HandleChannelModerator''),
     OH ''CMSG_CHANNEL_UNMODERATOR'' False STATUS_LOGGEDIN PACKET_STATE_LOGON PACKET_STATE_NULL (OtherHandler ''HandleChannelUnmoderator''),
     OH ''CMSG_CHANNEL_MUTE'' False STATUS_LOGGEDIN PACKET_STATE_LOGON PACKET_STATE_NULL (OtherHandler ''HandleChannelMute''),
     OH ''CMSG_CHANNEL_UNMUTE'' False STATUS_LOGGEDIN PACKET_STATE_LOGON PACKET_STATE_NULL (OtherHandler ''HandleChannelUnmute''),
     OH ''CMSG_CHANNEL_INVITE'' False STATUS_LOGGEDIN PACKET_STATE_LOGON PACKET_STATE_NULL (OtherHandler ''HandleChannelInvite''),
     OH ''CMSG_CHANNEL_KICK'' False STATUS_LOGGEDIN PACKET_STATE_LOGON PACKET_STATE_NULL (OtherHandler ''HandleChannelKick''),
     OH ''CMSG_CHANNEL_BAN'' False STATUS_LOGGEDIN PACKET_STATE_LOGON PACKET_STATE_NULL (OtherHandler ''HandleChannelBan''),
     OH ''CMSG_CHANNEL_UNBAN'' False STATUS_LOGGEDIN PACKET_STATE_LOGON PACKET_STATE_NULL (OtherHandler ''HandleChannelUnban''),
     OH ''CMSG_CHANNEL_ANNOUNCEMENTS'' False STATUS_LOGGEDIN PACKET_STATE_LOGON PACKET_STATE_NULL (OtherHandler ''HandleChannelAnnouncements''),
     OH ''CMSG_CHANNEL_MODERATE'' True STATUS_LOGGEDIN PACKET_STATE_NODE PACKET_STATE_PASS Handle_NULL,
     OH ''SMSG_UPDATE_OBJECT'' True STATUS_NEVER PACKET_STATE_NULL PACKET_STATE_PASS Handle_ServerSide,
     OH ''SMSG_DESTROY_OBJECT'' True STATUS_NEVER PACKET_STATE_NULL PACKET_STATE_PASS Handle_ServerSide,
     OH ''CMSG_USE_ITEM'' True STATUS_LOGGEDIN PACKET_STATE_NODE PACKET_STATE_PASS Handle_NULL,
     OH ''CMSG_OPEN_ITEM'' True STATUS_LOGGEDIN PACKET_STATE_NODE PACKET_STATE_PASS Handle_NULL,
     OH ''CMSG_READ_ITEM'' True STATUS_LOGGEDIN PACKET_STATE_NODE PACKET_STATE_PASS Handle_NULL,
     OH ''SMSG_READ_ITEM_OK'' True STATUS_NEVER PACKET_STATE_NODE PACKET_STATE_PASS Handle_ServerSide,
     OH ''SMSG_READ_ITEM_FAILED'' True STATUS_NEVER PACKET_STATE_NODE PACKET_STATE_PASS Handle_ServerSide,
     OH ''SMSG_ITEM_COOLDOWN'' True STATUS_NEVER PACKET_STATE_NODE PACKET_STATE_PASS Handle_ServerSide,
     OH ''CMSG_GAMEOBJ_USE'' True STATUS_LOGGEDIN PACKET_STATE_NODE PACKET_STATE_PASS Handle_NULL,
     OH ''CMSG_DESTROY_ITEMS'' True STATUS_NEVER PACKET_STATE_NODE PACKET_STATE_PASS Handle_NULL,
     OH ''SMSG_GAMEOBJECT_CUSTOM_ANIM'' True STATUS_NEVER PACKET_STATE_NODE PACKET_STATE_PASS Handle_ServerSide,
     OH ''CMSG_AREATRIGGER'' True STATUS_LOGGEDIN PACKET_STATE_NODE PACKET_STATE_PASS Handle_NULL,
     OH ''MSG_MOVE_START_FORWARD'' True STATUS_LOGGEDIN PACKET_STATE_NODE PACKET_STATE_PASS Handle_NULL,
     OH ''MSG_MOVE_START_BACKWARD'' True STATUS_LOGGEDIN PACKET_STATE_NODE PACKET_STATE_PASS Handle_NULL,
     OH ''MSG_MOVE_STOP'' True STATUS_LOGGEDIN PACKET_STATE_NODE PACKET_STATE_PASS Handle_NULL,
     OH ''MSG_MOVE_START_STRAFE_LEFT'' True STATUS_LOGGEDIN PACKET_STATE_NODE PACKET_STATE_PASS Handle_NULL,
     OH ''MSG_MOVE_START_STRAFE_RIGHT'' True STATUS_LOGGEDIN PACKET_STATE_NODE PACKET_STATE_PASS Handle_NULL,
     OH ''MSG_MOVE_STOP_STRAFE'' True STATUS_LOGGEDIN PACKET_STATE_NODE PACKET_STATE_PASS Handle_NULL,
     OH ''MSG_MOVE_JUMP'' True STATUS_LOGGEDIN PACKET_STATE_NODE PACKET_STATE_PASS Handle_NULL,
     OH ''MSG_MOVE_START_TURN_LEFT'' True STATUS_LOGGEDIN PACKET_STATE_NODE PACKET_STATE_PASS Handle_NULL,
     OH ''MSG_MOVE_START_TURN_RIGHT'' True STATUS_LOGGEDIN PACKET_STATE_NODE PACKET_STATE_PASS Handle_NULL,
     OH ''MSG_MOVE_STOP_TURN'' True STATUS_LOGGEDIN PACKET_STATE_NODE PACKET_STATE_PASS Handle_NULL,
     OH ''MSG_MOVE_START_PITCH_UP'' True STATUS_LOGGEDIN PACKET_STATE_NODE PACKET_STATE_PASS Handle_NULL,
     OH ''MSG_MOVE_START_PITCH_DOWN'' True STATUS_LOGGEDIN PACKET_STATE_NODE PACKET_STATE_PASS Handle_NULL,
     OH ''MSG_MOVE_STOP_PITCH'' True STATUS_LOGGEDIN PACKET_STATE_NODE PACKET_STATE_PASS Handle_NULL,
     OH ''MSG_MOVE_SET_RUN_MODE'' True STATUS_LOGGEDIN PACKET_STATE_NODE PACKET_STATE_PASS Handle_NULL,
     OH ''MSG_MOVE_SET_WALK_MODE'' True STATUS_LOGGEDIN PACKET_STATE_NODE PACKET_STATE_PASS Handle_NULL,
     OH ''MSG_MOVE_TOGGLE_LOGGING'' True STATUS_NEVER PACKET_STATE_NODE PACKET_STATE_PASS Handle_NULL,
     OH ''MSG_MOVE_TELEPORT'' True STATUS_NEVER PACKET_STATE_NODE PACKET_STATE_PASS Handle_NULL,
     OH ''MSG_MOVE_TELEPORT_CHEAT'' True STATUS_NEVER PACKET_STATE_NODE PACKET_STATE_PASS Handle_NULL,
     OH ''MSG_MOVE_TELEPORT_ACK'' True STATUS_LOGGEDIN PACKET_STATE_NODE PACKET_STATE_PASS Handle_NULL,
     OH ''MSG_MOVE_TOGGLE_FALL_LOGGING'' True STATUS_NEVER PACKET_STATE_NODE PACKET_STATE_PASS Handle_NULL,
     OH ''MSG_MOVE_FALL_LAND'' True STATUS_LOGGEDIN PACKET_STATE_NODE PACKET_STATE_PASS Handle_NULL,
     OH ''MSG_MOVE_START_SWIM'' True STATUS_LOGGEDIN PACKET_STATE_NODE PACKET_STATE_PASS Handle_NULL,
     OH ''MSG_MOVE_STOP_SWIM'' True STATUS_LOGGEDIN PACKET_STATE_NODE PACKET_STATE_PASS Handle_NULL,
     OH ''MSG_MOVE_SET_RUN_SPEED_CHEAT'' True STATUS_NEVER PACKET_STATE_NODE PACKET_STATE_PASS Handle_NULL,
     OH ''MSG_MOVE_SET_RUN_SPEED'' True STATUS_NEVER PACKET_STATE_NODE PACKET_STATE_PASS Handle_NULL,
     OH ''MSG_MOVE_SET_RUN_BACK_SPEED_CHEAT'' True STATUS_NEVER PACKET_STATE_NODE PACKET_STATE_PASS Handle_NULL,
     OH ''MSG_MOVE_SET_RUN_BACK_SPEED'' True STATUS_NEVER PACKET_STATE_NODE PACKET_STATE_PASS Handle_NULL,
     OH ''MSG_MOVE_SET_WALK_SPEED_CHEAT'' True STATUS_NEVER PACKET_STATE_NODE PACKET_STATE_PASS Handle_NULL,
     OH ''MSG_MOVE_SET_WALK_SPEED'' True STATUS_NEVER PACKET_STATE_NODE PACKET_STATE_PASS Handle_NULL,
     OH ''MSG_MOVE_SET_SWIM_SPEED_CHEAT'' True STATUS_NEVER PACKET_STATE_NODE PACKET_STATE_PASS Handle_NULL,
     OH ''MSG_MOVE_SET_SWIM_SPEED'' True STATUS_NEVER PACKET_STATE_NODE PACKET_STATE_PASS Handle_NULL,
     OH ''MSG_MOVE_SET_SWIM_BACK_SPEED_CHEAT'' True STATUS_NEVER PACKET_STATE_NODE PACKET_STATE_PASS Handle_NULL,
     OH ''MSG_MOVE_SET_SWIM_BACK_SPEED'' True STATUS_NEVER PACKET_STATE_NODE PACKET_STATE_PASS Handle_NULL,
     OH ''MSG_MOVE_SET_ALL_SPEED_CHEAT'' True STATUS_NEVER PACKET_STATE_NODE PACKET_STATE_PASS Handle_NULL,
     OH ''MSG_MOVE_SET_TURN_RATE_CHEAT'' True STATUS_NEVER PACKET_STATE_NODE PACKET_STATE_PASS Handle_NULL,
     OH ''MSG_MOVE_SET_TURN_RATE'' True STATUS_NEVER PACKET_STATE_NODE PACKET_STATE_PASS Handle_NULL,
     OH ''MSG_MOVE_TOGGLE_COLLISION_CHEAT'' True STATUS_NEVER PACKET_STATE_NODE PACKET_STATE_PASS Handle_NULL,
     OH ''MSG_MOVE_SET_FACING'' True STATUS_LOGGEDIN PACKET_STATE_NODE PACKET_STATE_PASS Handle_NULL,
     OH ''MSG_MOVE_SET_PITCH'' True STATUS_LOGGEDIN PACKET_STATE_NODE PACKET_STATE_PASS Handle_NULL,
     OH ''MSG_MOVE_WORLDPORT_ACK'' True STATUS_TRANSFER PACKET_STATE_NODE PACKET_STATE_PASS Handle_NULL,
     OH ''SMSG_MONSTER_MOVE'' True STATUS_NEVER PACKET_STATE_NODE PACKET_STATE_PASS Handle_ServerSide,
     OH ''SMSG_MOVE_WATER_WALK'' True STATUS_NEVER PACKET_STATE_NODE PACKET_STATE_PASS Handle_ServerSide,
     OH ''SMSG_MOVE_LAND_WALK'' True STATUS_NEVER PACKET_STATE_NODE PACKET_STATE_PASS Handle_ServerSide,
     OH ''MSG_MOVE_SET_RAW_POSITION_ACK'' True STATUS_NEVER PACKET_STATE_NODE PACKET_STATE_PASS Handle_NULL,
     OH ''CMSG_MOVE_SET_RAW_POSITION'' True STATUS_NEVER PACKET_STATE_NODE PACKET_STATE_PASS Handle_NULL,
     OH ''SMSG_FORCE_RUN_SPEED_CHANGE'' True STATUS_NEVER PACKET_STATE_NODE PACKET_STATE_PASS Handle_ServerSide,
     OH ''CMSG_FORCE_RUN_SPEED_CHANGE_ACK'' True STATUS_LOGGEDIN PACKET_STATE_NODE PACKET_STATE_PASS Handle_NULL,
     OH ''SMSG_FORCE_RUN_BACK_SPEED_CHANGE'' True STATUS_NEVER PACKET_STATE_NODE PACKET_STATE_PASS Handle_ServerSide,
     OH ''CMSG_FORCE_RUN_BACK_SPEED_CHANGE_ACK'' True STATUS_LOGGEDIN PACKET_STATE_NODE PACKET_STATE_PASS Handle_NULL,
     OH ''SMSG_FORCE_SWIM_SPEED_CHANGE'' True STATUS_NEVER PACKET_STATE_NODE PACKET_STATE_PASS Handle_ServerSide,
     OH ''CMSG_FORCE_SWIM_SPEED_CHANGE_ACK'' True STATUS_LOGGEDIN PACKET_STATE_NODE PACKET_STATE_PASS Handle_NULL,
     OH ''SMSG_FORCE_MOVE_ROOT'' True STATUS_NEVER PACKET_STATE_NODE PACKET_STATE_PASS Handle_ServerSide,
     OH ''CMSG_FORCE_MOVE_ROOT_ACK'' True STATUS_LOGGEDIN PACKET_STATE_NODE PACKET_STATE_PASS Handle_NULL,
     OH ''SMSG_FORCE_MOVE_UNROOT'' True STATUS_NEVER PACKET_STATE_NODE PACKET_STATE_PASS Handle_ServerSide,
     OH ''CMSG_FORCE_MOVE_UNROOT_ACK'' True STATUS_LOGGEDIN PACKET_STATE_NODE PACKET_STATE_PASS Handle_NULL,
     OH ''MSG_MOVE_ROOT'' True STATUS_NEVER PACKET_STATE_NODE PACKET_STATE_PASS Handle_NULL,
     OH ''MSG_MOVE_UNROOT'' True STATUS_NEVER PACKET_STATE_NODE PACKET_STATE_PASS Handle_NULL,
     OH ''MSG_MOVE_HEARTBEAT'' True STATUS_LOGGEDIN PACKET_STATE_NODE PACKET_STATE_PASS Handle_NULL,
     OH ''SMSG_MOVE_KNOCK_BACK'' True STATUS_NEVER PACKET_STATE_NODE PACKET_STATE_PASS Handle_ServerSide,
     OH ''CMSG_MOVE_KNOCK_BACK_ACK'' True STATUS_LOGGEDIN PACKET_STATE_NODE PACKET_STATE_PASS Handle_NULL,
     OH ''MSG_MOVE_KNOCK_BACK'' True STATUS_NEVER PACKET_STATE_NODE PACKET_STATE_PASS Handle_NULL,
     OH ''SMSG_MOVE_FEATHER_FALL'' True STATUS_NEVER PACKET_STATE_NODE PACKET_STATE_PASS Handle_ServerSide,
     OH ''SMSG_MOVE_NORMAL_FALL'' True STATUS_NEVER PACKET_STATE_NODE PACKET_STATE_PASS Handle_ServerSide,
     OH ''SMSG_MOVE_SET_HOVER'' True STATUS_NEVER PACKET_STATE_NODE PACKET_STATE_PASS Handle_ServerSide,
     OH ''SMSG_MOVE_UNSET_HOVER'' True STATUS_NEVER PACKET_STATE_NODE PACKET_STATE_PASS Handle_ServerSide,
     OH ''CMSG_MOVE_HOVER_ACK'' True STATUS_LOGGEDIN PACKET_STATE_NODE PACKET_STATE_PASS Handle_NULL,
     OH ''MSG_MOVE_HOVER'' True STATUS_NEVER PACKET_STATE_NODE PACKET_STATE_PASS Handle_NULL,
     OH ''CMSG_TRIGGER_CINEMATIC_CHEAT'' True STATUS_NEVER PACKET_STATE_NODE PACKET_STATE_PASS Handle_NULL,
     OH ''CMSG_OPENING_CINEMATIC'' True STATUS_NEVER PACKET_STATE_NODE PACKET_STATE_PASS Handle_NULL,
     OH ''SMSG_TRIGGER_CINEMATIC'' True STATUS_NEVER PACKET_STATE_NODE PACKET_STATE_PASS Handle_ServerSide,
     OH ''CMSG_NEXT_CINEMATIC_CAMERA'' True STATUS_LOGGEDIN PACKET_STATE_NODE PACKET_STATE_PASS Handle_NULL,
     OH ''CMSG_COMPLETE_CINEMATIC'' True STATUS_LOGGEDIN PACKET_STATE_NODE PACKET_STATE_PASS Handle_NULL,
     OH ''SMSG_TUTORIAL_FLAGS'' True STATUS_NEVER PACKET_STATE_NODE PACKET_STATE_PASS Handle_ServerSide,
     OH ''CMSG_TUTORIAL_FLAG'' True STATUS_LOGGEDIN PACKET_STATE_NODE PACKET_STATE_PASS Handle_NULL,
     OH ''CMSG_TUTORIAL_CLEAR'' True STATUS_LOGGEDIN PACKET_STATE_NODE PACKET_STATE_PASS Handle_NULL,
     OH ''CMSG_TUTORIAL_RESET'' True STATUS_LOGGEDIN PACKET_STATE_NODE PACKET_STATE_PASS Handle_NULL,
     OH ''CMSG_STANDSTATECHANGE'' True STATUS_LOGGEDIN PACKET_STATE_NODE PACKET_STATE_PASS Handle_NULL,
     OH ''CMSG_EMOTE'' True STATUS_LOGGEDIN PACKET_STATE_NODE PACKET_STATE_PASS Handle_NULL,
     OH ''SMSG_EMOTE'' True STATUS_NEVER PACKET_STATE_NODE PACKET_STATE_PASS Handle_ServerSide,
     OH ''CMSG_TEXT_EMOTE'' True STATUS_LOGGEDIN PACKET_STATE_NODE PACKET_STATE_PASS Handle_NULL,
     OH ''SMSG_TEXT_EMOTE'' True STATUS_NEVER PACKET_STATE_NODE PACKET_STATE_PASS Handle_ServerSide,
     OH ''CMSG_AUTOEQUIP_GROUND_ITEM'' True STATUS_NEVER PACKET_STATE_NODE PACKET_STATE_PASS Handle_NULL,
     OH ''CMSG_AUTOSTORE_GROUND_ITEM'' True STATUS_NEVER PACKET_STATE_NODE PACKET_STATE_PASS Handle_NULL,
     OH ''CMSG_AUTOSTORE_LOOT_ITEM'' True STATUS_LOGGEDIN PACKET_STATE_NODE PACKET_STATE_PASS Handle_NULL,
     OH ''CMSG_STORE_LOOT_IN_SLOT'' True STATUS_NEVER PACKET_STATE_NODE PACKET_STATE_PASS Handle_NULL,
     OH ''CMSG_AUTOEQUIP_ITEM'' True STATUS_LOGGEDIN PACKET_STATE_NODE PACKET_STATE_PASS Handle_NULL,
     OH ''CMSG_AUTOSTORE_BAG_ITEM'' True STATUS_LOGGEDIN PACKET_STATE_NODE PACKET_STATE_PASS Handle_NULL,
     OH ''CMSG_SWAP_ITEM'' True STATUS_LOGGEDIN PACKET_STATE_NODE PACKET_STATE_PASS Handle_NULL,
     OH ''CMSG_SWAP_INV_ITEM'' True STATUS_LOGGEDIN PACKET_STATE_NODE PACKET_STATE_PASS Handle_NULL,
     OH ''CMSG_SPLIT_ITEM'' True STATUS_LOGGEDIN PACKET_STATE_NODE PACKET_STATE_PASS Handle_NULL,
     OH ''CMSG_AUTOEQUIP_ITEM_SLOT'' True STATUS_LOGGEDIN PACKET_STATE_NODE PACKET_STATE_PASS Handle_NULL,
     OH ''OBSOLETE_DROP_ITEM'' True STATUS_NEVER PACKET_STATE_NODE PACKET_STATE_PASS Handle_NULL,
     OH ''CMSG_DESTROYITEM'' True STATUS_LOGGEDIN PACKET_STATE_NODE PACKET_STATE_PASS Handle_NULL,
     OH ''SMSG_INVENTORY_CHANGE_FAILURE'' True STATUS_NEVER PACKET_STATE_NODE PACKET_STATE_PASS Handle_ServerSide,
     OH ''SMSG_OPEN_CONTAINER'' True STATUS_NEVER PACKET_STATE_NODE PACKET_STATE_PASS Handle_ServerSide,
     OH ''CMSG_INSPECT'' True STATUS_LOGGEDIN PACKET_STATE_NODE PACKET_STATE_PASS Handle_NULL,
     OH ''SMSG_INSPECT'' True STATUS_NEVER PACKET_STATE_NODE PACKET_STATE_PASS Handle_ServerSide,
     OH ''CMSG_INITIATE_TRADE'' True STATUS_LOGGEDIN PACKET_STATE_NODE PACKET_STATE_PASS Handle_NULL,
     OH ''CMSG_BEGIN_TRADE'' True STATUS_LOGGEDIN PACKET_STATE_NODE PACKET_STATE_PASS Handle_NULL,
     OH ''CMSG_BUSY_TRADE'' True STATUS_LOGGEDIN PACKET_STATE_NODE PACKET_STATE_PASS Handle_NULL,
     OH ''CMSG_IGNORE_TRADE'' True STATUS_LOGGEDIN PACKET_STATE_NODE PACKET_STATE_PASS Handle_NULL,
     OH ''CMSG_ACCEPT_TRADE'' True STATUS_LOGGEDIN PACKET_STATE_NODE PACKET_STATE_PASS Handle_NULL,
     OH ''CMSG_UNACCEPT_TRADE'' True STATUS_LOGGEDIN PACKET_STATE_NODE PACKET_STATE_PASS Handle_NULL,
     OH ''CMSG_CANCEL_TRADE'' True STATUS_LOGGEDIN PACKET_STATE_NODE PACKET_STATE_PASS Handle_NULL,
     OH ''CMSG_SET_TRADE_ITEM'' True STATUS_LOGGEDIN PACKET_STATE_NODE PACKET_STATE_PASS Handle_NULL,
     OH ''CMSG_CLEAR_TRADE_ITEM'' True STATUS_LOGGEDIN PACKET_STATE_NODE PACKET_STATE_PASS Handle_NULL,
     OH ''CMSG_SET_TRADE_GOLD'' True STATUS_LOGGEDIN PACKET_STATE_NODE PACKET_STATE_PASS Handle_NULL,
     OH ''SMSG_TRADE_STATUS'' True STATUS_NEVER PACKET_STATE_NODE PACKET_STATE_PASS Handle_ServerSide,
     OH ''SMSG_TRADE_STATUS_EXTENDED'' True STATUS_NEVER PACKET_STATE_NODE PACKET_STATE_PASS Handle_ServerSide,
     OH ''SMSG_INITIALIZE_FACTIONS'' True STATUS_NEVER PACKET_STATE_NODE PACKET_STATE_PASS Handle_ServerSide,
     OH ''SMSG_SET_FACTION_VISIBLE'' True STATUS_NEVER PACKET_STATE_NODE PACKET_STATE_PASS Handle_ServerSide,
     OH ''SMSG_SET_FACTION_STANDING'' True STATUS_NEVER PACKET_STATE_NODE PACKET_STATE_PASS Handle_ServerSide,
     OH ''CMSG_SET_FACTION_ATWAR'' True STATUS_LOGGEDIN PACKET_STATE_NODE PACKET_STATE_PASS Handle_NULL]"

definition opcode_rows_2 :: "OpcodeHandler list" where
  "opcode_rows_2 = [
     OH ''CMSG_SET_FACTION_CHEAT'' True STATUS_LOGGEDIN PACKET_STATE_NODE PACKET_STATE_PASS Handle_NULL,
     OH ''SMSG_SET_PROFICIENCY'' True STATUS_NEVER PACKET_STATE_NODE PACKET_STATE_PASS Handle_ServerSide,
     OH ''CMSG_SET_ACTION_BUTTON'' True STATUS_LOGGEDIN PACKET_STATE_NODE PACKET_STATE_PASS Handle_NULL,
     OH ''SMSG_ACTION_BUTTONS'' True STATUS_NEVER PACKET_STATE_NODE PACKET_STATE_PASS Handle_ServerSide,
     OH ''SMSG_INITIAL_SPELLS'' True STATUS_NEVER PACKET_STATE_NODE PACKET_STATE_PASS Handle_ServerSide,
     OH ''SMSG_LEARNED_SPELL'' True STATUS_NEVER PACKET_STATE_NODE PACKET_STATE_PASS Handle_ServerSide,
     OH ''SMSG_SUPERCEDED_SPELL'' True STATUS_NEVER PACKET_STATE_NODE PACKET_STATE_PASS Handle_ServerSide,
     OH ''CMSG_NEW_SPELL_SLOT'' True STATUS_NEVER PACKET_STATE_NODE PACKET_STATE_PASS Handle_NULL,
     OH ''CMSG_CAST_SPELL'' True STATUS_LOGGEDIN PACKET_STATE_NODE PACKET_STATE_PASS Handle_NULL,
     OH ''CMSG_CANCEL_CAST'' True STATUS_LOGGEDIN PACKET_STATE_NODE PACKET_STATE_PASS Handle_NULL,
     OH ''SMSG_CAST_FAILED'' True STATUS_NEVER PACKET_STATE_NODE PACKET_STATE_PASS Handle_ServerSide,
     OH ''SMSG_SPELL_START'' True STATUS_NEVER PACKET_STATE_NODE PACKET_STATE_PASS Handle_ServerSide,
     OH ''SMSG_SPELL_GO'' True STATUS_NEVER PACKET_STATE_NODE PACKET_STATE_PASS Handle_ServerSide,
     OH ''SMSG_SPELL_FAILURE'' True STATUS_NEVER PACKET_STATE_NODE PACKET_STATE_PASS Handle_ServerSide,
     OH ''SMSG_SPELL_COOLDOWN'' True STATUS_NEVER PACKET_STATE_NODE PACKET_STATE_PASS Handle_ServerSide,
     OH ''SMSG_COOLDOWN_EVENT'' True STATUS_NEVER PACKET_STATE_NODE PACKET_STATE_PASS Handle_ServerSide,
     OH ''CMSG_CANCEL_AURA'' True STATUS_LOGGEDIN PACKET_STATE_NODE PACKET_STATE_PASS Handle_NULL,
     OH ''SMSG_EQUIPMENT_SET_SAVED'' True STATUS_NEVER PACKET_STATE_NODE PACKET_STATE_PASS Handle_ServerSide,
     OH ''SMSG_PET_CAST_FAILED'' True STATUS_NEVER PACKET_STATE_NODE PACKET_STATE_PASS Handle_ServerSide,
     OH ''MSG_CHANNEL_START'' True STATUS_NEVER PACKET_STATE_NODE PACKET_STATE_PASS Handle_NULL,
     OH ''MSG_CHANNEL_UPDATE'' True STATUS_NEVER PACKET_STATE_NODE PACKET_STATE_PASS Handle_NULL,
     OH ''CMSG_CANCEL_CHANNELLING'' True STATUS_LOGGEDIN PACKET_STATE_NODE PACKET_STATE_PASS Handle_NULL,
     OH ''SMSG_AI_REACTION'' True STATUS_NEVER PACKET_STATE_NODE PACKET_STATE_PASS Handle_ServerSide,
     OH ''CMSG_SET_SELECTION'' True STATUS_LOGGEDIN PACKET_STATE_NODE PACKET_STATE_PASS Handle_NULL,
     OH ''CMSG_EQUIPMENT_SET_DELETE'' True STATUS_LOGGEDIN PACKET_STATE_NODE PACKET_STATE_PASS Handle_NULL,
     OH ''CMSG_INSTANCE_LOCK_WARNING_RESPONSE'' True STATUS_LOGGEDIN PACKET_STATE_NODE PACKET_STATE_PASS Handle_NULL,
     OH ''CMSG_UNUSED2'' True STATUS_NEVER PACKET_STATE_NODE PACKET_STATE_PASS Handle_NULL,
     OH ''CMSG_ATTACKSWING'' True STATUS_LOGGEDIN PACKET_STATE_NODE PACKET_STATE_PASS Handle_NULL,
     OH ''CMSG_ATTACKSTOP'' True STATUS_LOGGEDIN PACKET_STATE_NODE PACKET_STATE_PASS Handle_NULL,
     OH ''SMSG_ATTACKSTART'' True STATUS_NEVER PACKET_STATE_NODE PACKET_STATE_PASS Handle_ServerSide,
     OH ''SMSG_ATTACKSTOP'' True STATUS_NEVER PACKET_STATE_NODE PACKET_STATE_PASS Handle_ServerSide,
     OH ''SMSG_ATTACKSWING_NOTINRANGE'' True STATUS_NEVER PACKET_STATE_NODE PACKET_STATE_PASS Handle_ServerSide,
     OH ''SMSG_ATTACKSWING_BADFACING'' True STATUS_NEVER PACKET_STATE_NODE PACKET_STATE_PASS Handle_ServerSide,
     OH ''SMSG_INSTANCE_LOCK_WARNING_QUERY'' True STATUS_NEVER PACKET_STATE_NODE PACKET_STATE_PASS Handle_ServerSide,
     OH ''SMSG_ATTACKSWING_DEADTARGET'' True STATUS_NEVER PACKET_STATE_NODE PACKET_STATE_PASS Handle_ServerSide,
     OH ''SMSG_ATTACKSWING_CANT_ATTACK'' True STATUS_NEVER PACKET_STATE_NODE PACKET_STATE_PASS Handle_ServerSide,
     OH ''SMSG_ATTACKERSTATEUPDATE'' True STATUS_NEVER PACKET_STATE_NODE PACKET_STATE_PASS Handle_ServerSide,
     OH ''SMSG_BATTLEFIELD_PORT_DENIED'' True STATUS_NEVER PACKET_STATE_NODE PACKET_STATE_PASS Handle_ServerSide,
     OH ''SMSG_DAMAGE_DONE_OBSOLETE'' True STATUS_NEVER PACKET_STATE_NODE PACKET_STATE_PASS Handle_ServerSide,
     OH ''SMSG_UNIT_SPELLCAST_START'' True STATUS_NEVER PACKET_STATE_NODE PACKET_STATE_PASS Handle_ServerSide,
     OH ''SMSG_CANCEL_COMBAT'' True STATUS_NEVER PACKET_STATE_NODE PACKET_STATE_PASS Handle_ServerSide,
     OH ''SMSG_SPELLBREAKLOG'' True STATUS_NEVER PACKET_STATE_NODE PACKET_STATE_PASS Handle_ServerSide,
     OH ''SMSG_SPELLHEALLOG'' True STATUS_NEVER PACKET_STATE_NODE PACKET_STATE_PASS Handle_ServerSide,
     OH ''SMSG_SPELLENERGIZELOG'' True STATUS_NEVER PACKET_STATE_NODE PACKET_STATE_PASS Handle_ServerSide,
     OH ''SMSG_BREAK_TARGET'' True STATUS_NEVER PACKET_STATE_NODE PACKET_STATE_PASS Handle_ServerSide,
     OH ''CMSG_SAVE_PLAYER'' True STATUS_NEVER PACKET_STATE_NODE PACKET_STATE_PASS Handle_NULL,
     OH ''CMSG_SETDEATHBINDPOINT'' True STATUS_NEVER PACKET_STATE_NODE PACKET_STATE_PASS Handle_NULL,
     OH ''SMSG_BINDPOINTUPDATE'' True STATUS_NEVER PACKET_STATE_NODE PACKET_STATE_PASS Handle_ServerSide,
     OH ''CMSG_GETDEATHBINDZONE'' True STATUS_NEVER PACKET_STATE_NODE PACKET_STATE_PASS Handle_NULL,
     OH ''SMSG_BINDZONEREPLY'' True STATUS_NEVER PACKET_STATE_NODE PACKET_STATE_PASS Handle_ServerSide,
     OH ''SMSG_PLAYERBOUND'' True STATUS_NEVER PACKET_STATE_NODE PACKET_STATE_PASS Handle_ServerSide,
     OH ''SMSG_CLIENT_CONTROL_UPDATE'' True STATUS_NEVER PACKET_STATE_NODE PACKET_STATE_PASS Handle_ServerSide,
     OH ''CMSG_REPOP_REQUEST'' True STATUS_LOGGEDIN PACKET_STATE_NODE PACKET_STATE_PASS Handle_NULL,
     OH ''SMSG_RESURRECT_REQUEST'' True STATUS_NEVER PACKET_STATE_NODE PACKET_STATE_PASS Handle_ServerSide,
     OH ''CMSG_RESURRECT_RESPONSE'' True STATUS_LOGGEDIN PACKET_STATE_NODE PACKET_STATE_PASS Handle_NULL,
     OH ''CMSG_LOOT'' True STATUS_LOGGEDIN PACKET_STATE_NODE PACKET_STATE_PASS Handle_NULL,
     OH ''CMSG_LOOT_MONEY'' True STATUS_LOGGEDIN PACKET_STATE_NODE PACKET_STATE_PASS Handle_NULL,
     OH ''CMSG_LOOT_RELEASE'' True STATUS_LOGGEDIN PACKET_STATE_NODE PACKET_STATE_PASS Handle_NULL,
     OH ''SMSG_LOOT_RESPONSE'' True STATUS_NEVER PACKET_STATE_NODE PACKET_STATE_PASS Handle_ServerSide,
     OH ''SMSG_LOOT_RELEASE_RESPONSE'' True STATUS_NEVER PACKET_STATE_NODE PACKET_STATE_PASS Handle_ServerSide,
     OH ''SMSG_LOOT_REMOVED'' True STATUS_NEVER PACKET_STATE_NODE PACKET_STATE_PASS Handle_ServerSide,
     OH ''SMSG_LOOT_MONEY_NOTIFY'' True STATUS_NEVER PACKET_STATE_NODE PACKET_STATE_PASS Handle_ServerSide,
     OH ''SMSG_LOOT_ITEM_NOTIFY'' True STATUS_NEVER PACKET_STATE_NODE PACKET_STATE_PASS Handle_ServerSide,
     OH ''SMSG_LOOT_CLEAR_MONEY'' True STATUS_NEVER PACKET_STATE_NODE PACKET_STATE_PASS Handle_ServerSide,
     OH ''SMSG_ITEM_PUSH_RESULT'' True STATUS_NEVER PACKET_STATE_NODE PACKET_STATE_PASS Handle_ServerSide,
     OH ''SMSG_DUEL_REQUESTED'' True STATUS_NEVER PACKET_STATE_NODE PACKET_STATE_PASS Handle_ServerSide,
     OH ''SMSG_DUEL_OUTOFBOUNDS'' True STATUS_NEVER PACKET_STATE_NODE PACKET_STATE_PASS Handle_ServerSide,
     OH ''SMSG_DUEL_INBOUNDS'' True STATUS_NEVER PACKET_STATE_NODE PACKET_STATE_PASS Handle_ServerSide,
     OH ''SMSG_DUEL_COMPLETE'' True STATUS_NEVER PACKET_STATE_NODE PACKET_STATE_PASS Handle_ServerSide,
     OH ''SMSG_DUEL_WINNER'' True STATUS_NEVER PACKET_STATE_NODE PACKET_STATE_PASS Handle_ServerSide,
     OH ''CMSG_DUEL_ACCEPTED'' True STATUS_LOGGEDIN PACKET_STATE_NODE PACKET_STATE_PASS Handle_NULL,
     OH ''CMSG_DUEL_CANCELLED'' True STATUS_LOGGEDIN PACKET_STATE_NODE PACKET_STATE_PASS Handle_NULL,
     OH ''SMSG_MOUNTRESULT'' True STATUS_NEVER PACKET_STATE_NODE PACKET_STATE_PASS Handle_ServerSide,
     OH ''SMSG_DISMOUNTRESULT'' True STATUS_NEVER PACKET_STATE_NODE PACKET_STATE_PASS Handle_ServerSide,
     OH ''SMSG_PUREMOUNT_CANCELLED_OBSOLETE'' True STATUS_NEVER PACKET_STATE_NODE PACKET_STATE_PASS Handle_ServerSide,
     OH ''CMSG_MOUNTSPECIAL_ANIM'' True STATUS_LOGGEDIN PACKET_STATE_NODE PACKET_STATE_PASS Handle_NULL,
     OH ''SMSG_MOUNTSPECIAL_ANIM'' True STATUS_NEVER PACKET_STATE_NODE PACKET_STATE_PASS Handle_ServerSide,
     OH ''SMSG_PET_TAME_FAILURE'' True STATUS_NEVER PACKET_STATE_NODE PACKET_STATE_PASS Handle_ServerSide,
     OH ''CMSG_PET_SET_ACTION'' True STATUS_LOGGEDIN PACKET_STATE_NODE PACKET_STATE_PASS Handle_NULL,
     OH ''CMSG_PET_ACTION'' True STATUS_LOGGEDIN PACKET_STATE_NODE PACKET_STATE_PASS Handle_NULL,
     OH ''CMSG_PET_ABANDON'' True STATUS_LOGGEDIN PACKET_STATE_NODE PACKET_STATE_PASS Handle_NULL,
     OH ''CMSG_PET_RENAME'' True STATUS_LOGGEDIN PACKET_STATE_NODE PACKET_STATE_PASS Handle_NULL,
     OH ''SMSG_PET_NAME_INVALID'' True STATUS_NEVER PACKET_STATE_NODE PACKET_STATE_PASS Handle_ServerSide,
     OH ''SMSG_PET_SPELLS'' True STATUS_NEVER PACKET_STATE_NODE PACKET_STATE_PASS Handle_ServerSide,
     OH ''SMSG_PET_MODE'' True STATUS_NEVER PACKET_STATE_NODE PACKET_STATE_PASS Handle_ServerSide,
     OH ''CMSG_GOSSIP_HELLO'' True STATUS_LOGGEDIN PACKET_STATE_NODE PACKET_STATE_PASS Handle_NULL,
     OH ''CMSG_GOSSIP_SELECT_OPTION'' True STATUS_LOGGEDIN PACKET_STATE_NODE PACKET_STATE_PASS Handle_NULL,
     OH ''SMSG_GOSSIP_MESSAGE'' True STATUS_NEVER PACKET_STATE_NODE PACKET_STATE_PASS Handle_ServerSide,
     OH ''SMSG_GOSSIP_COMPLETE'' True STATUS_NEVER PACKET_STATE_NODE PACKET_STATE_PASS Handle_ServerSide,
     OH ''CMSG_NPC_TEXT_QUERY'' True STATUS_LOGGEDIN PACKET_STATE_NODE PACKET_STATE_PASS Handle_NULL,
     OH ''SMSG_NPC_TEXT_UPDATE'' True STATUS_NEVER PACKET_STATE_NODE PACKET_STATE_PASS Handle_ServerSide,
     OH ''SMSG_NPC_WONT_TALK'' True STATUS_NEVER PACKET_STATE_NODE PACKET_STATE_PASS Handle_ServerSide,
     OH ''CMSG_QUESTGIVER_STATUS_QUERY'' True STATUS_LOGGEDIN PACKET_STATE_NODE PACKET_STATE_PASS Handle_NULL,
     OH ''SMSG_QUESTGIVER_STATUS'' True STATUS_NEVER PACKET_STATE_NODE PACKET_STATE_PASS Handle_ServerSide,
     OH ''CMSG_QUESTGIVER_HELLO'' True STATUS_LOGGEDIN PACKET_STATE_NODE PACKET_STATE_PASS Handle_NULL,
     OH ''SMSG_QUESTGIVER_QUEST_LIST'' True STATUS_NEVER PACKET_STATE_NODE PACKET_STATE_PASS Handle_ServerSide,
     OH ''CMSG_QUESTGIVER_QUERY_QUEST'' True STATUS_LOGGEDIN PACKET_STATE_NODE PACKET_STATE_PASS Handle_NULL,
     OH ''CMSG_QUESTGIVER_QUEST_AUTOLAUNCH'' True STATUS_LOGGEDIN PACKET_STATE_NODE PACKET_STATE_PASS Handle_NULL,
     OH ''SMSG_QUESTGIVER_QUEST_DETAILS'' True STATUS_NEVER PACKET_STATE_NODE PACKET_STATE_PASS Handle_ServerSide,
     OH ''CMSG_QUESTGIVER_ACCEPT_QUEST'' True STATUS_LOGGEDIN PACKET_STATE_NODE PACKET_STATE_PASS Handle_NULL,
     OH ''CMSG_QUESTGIVER_COMPLETE_QUEST'' True STATUS_LOGGEDIN PACKET_STATE_NODE PACKET_STATE_PASS Handle_NULL,
     OH ''SMSG_QUESTGIVER_REQUEST_ITEMS'' True STATUS_NEVER PACKET_STATE_NODE PACKET_STATE_PASS Handle_ServerSide,
     OH ''CMSG_QUESTGIVER_REQUEST_REWARD'' True STATUS_LOGGEDIN PACKET_STATE_NODE PACKET_STATE_PASS Handle_NULL,
     OH ''SMSG_QUESTGIVER_OFFER_REWARD'' True STATUS_NEVER PACKET_STATE_NODE PACKET_STATE_PASS Handle_ServerSide,
     OH ''CMSG_QUESTGIVER_CHOOSE_REWARD'' True STATUS_LOGGEDIN PACKET_STATE_NODE PACKET_STATE_PASS Handle_NULL,
     OH ''SMSG_QUESTGIVER_QUEST_INVALID'' True STATUS_NEVER PACKET_STATE_NODE PACKET_STATE_PASS Handle_ServerSide,
     OH ''CMSG_QUESTGIVER_CANCEL'' True STATUS_LOGGEDIN PACKET_STATE_NODE PACKET_STATE_PASS Handle_NULL,
     OH ''SMSG_QUESTGIVER_QUEST_COMPLETE'' True STATUS_NEVER PACKET_STATE_NODE PACKET_STATE_PASS Handle_ServerSide,
     OH ''SMSG_QUESTGIVER_QUEST_FAILED'' True STATUS_NEVER PACKET_STATE_NODE PACKET_STATE_PASS Handle_ServerSide,
     OH ''CMSG_QUESTLOG_SWAP_QUEST'' True STATUS_LOGGEDIN PACKET_STATE_NODE PACKET_STATE_PASS Handle_NULL,
     OH ''CMSG_QUESTLOG_REMOVE_QUEST'' True STATUS_LOGGEDIN PACKET_STATE_NODE PACKET_STATE_PASS Handle_NULL,
     OH ''SMSG_QUESTLOG_FULL'' True STATUS_NEVER PACKET_STATE_NODE PACKET_STATE_PASS Handle_ServerSide,
     OH ''SMSG_QUESTUPDATE_FAILED'' True STATUS_NEVER PACKET_STATE_NODE PACKET_STATE_PASS Handle_ServerSide,
     OH ''SMSG_QUESTUPDATE_FAILEDTIMER'' True STATUS_NEVER PACKET_STATE_NODE PACKET_STATE_PASS Handle_ServerSide,
     OH ''SMSG_QUESTUPDATE_COMPLETE'' True STATUS_NEVER PACKET_STATE_NODE PACKET_STATE_PASS Handle_ServerSide,
     OH ''SMSG_QUESTUPDATE_ADD_KILL'' True STATUS_NEVER PACKET_STATE_NODE PACKET_STATE_PASS Handle_ServerSide,
     OH ''SMSG_QUESTUPDATE_ADD_ITEM'' True STATUS_NEVER PACKET_STATE_NODE PACKET_STATE_PASS Handle_ServerSide,
     OH ''CMSG_QUEST_CONFIRM_ACCEPT'' True STATUS_LOGGEDIN PACKET_STATE_NODE PACKET_STATE_PASS Handle_NULL,
     OH ''SMSG_QUEST_CONFIRM_ACCEPT'' True STATUS_NEVER PACKET_STATE_NODE PACKET_STATE_PASS Handle_ServerSide,
     OH ''CMSG_PUSHQUESTTOPARTY'' True STATUS_LOGGEDIN PACKET_STATE_NODE PACKET_STATE_PASS Handle_NULL,
     OH ''CMSG_LIST_INVENTORY'' True STATUS_LOGGEDIN PACKET_STATE_NODE PACKET_STATE_PASS Handle_NULL,
     OH ''SMSG_LIST_INVENTORY'' True STATUS_NEVER PACKET_STATE_NODE PACKET_STATE_PASS Handle_ServerSide,
     OH ''CMSG_SELL_ITEM'' True STATUS_LOGGEDIN PACKET_STATE_NODE PACKET_STATE_PASS Handle_NULL,
     OH ''SMSG_SELL_ITEM'' True STATUS_NEVER PACKET_STATE_NODE PACKET_STATE_PASS Handle_ServerSide,
     OH ''CMSG_BUY_ITEM'' True STATUS_LOGGEDIN PACKET_STATE_NODE PACKET_STATE_PASS Handle_NULL,
     OH ''CMSG_BUY_ITEM_IN_SLOT'' True STATUS_LOGGEDIN PACKET_STATE_NODE PACKET_STATE_PASS Handle_NULL,
     OH ''SMSG_BUY_ITEM'' True STATUS_NEVER PACKET_STATE_NODE PACKET_STATE_PASS Handle_ServerSide,
     OH ''SMSG_BUY_FAILED'' True STATUS_NEVER PACKET_STATE_NODE PACKET_STATE_PASS Handle_ServerSide,
     OH ''CMSG_TAXICLEARALLNODES'' True STATUS_NEVER PACKET_STATE_NODE PACKET_STATE_PASS Handle_NULL,
     OH ''CMSG_TAXIENABLEALLNODES'' True STATUS_NEVER PACKET_STATE_NODE PACKET_STATE_PASS Handle_NULL,
     OH ''CMSG_TAXISHOWNODES'' True STATUS_NEVER PACKET_STATE_NODE PACKET_STATE_PASS Handle_NULL,
     OH ''SMSG_SHOWTAXINODES'' True STATUS_NEVER PACKET_STATE_NODE PACKET_STATE_PASS Handle_ServerSide,
     OH ''CMSG_TAXINODE_STATUS_QUERY'' True STATUS_LOGGEDIN PACKET_STATE_NODE PACKET_STATE_PASS Handle_NULL,
     OH ''SMSG_TAXINODE_STATUS'' True STATUS_NEVER PACKET_STATE_NODE PACKET_STATE_PASS Handle_ServerSide,
     OH ''CMSG_TAXIQUERYAVAILABLENODES'' True STATUS_LOGGEDIN PACKET_STATE_NODE PACKET_STATE_PASS Handle_NULL,
     OH ''CMSG_ACTIVATETAXI'' True STATUS_LOGGEDIN PACKET_STATE_NODE PACKET_STATE_PASS Handle_NULL,
     OH ''SMSG_ACTIVATETAXIREPLY'' True STATUS_NEVER PACKET_STATE_NODE PACKET_STATE_PASS Handle_ServerSide,
     OH ''SMSG_NEW_TAXI_PATH'' True STATUS_NEVER PACKET_STATE_NODE PACKET_STATE_PASS Handle_ServerSide,
     OH ''CMSG_TRAINER_LIST'' True STATUS_LOGGEDIN PACKET_STATE_NODE PACKET_STATE_PASS Handle_NULL,
     OH ''SMSG_TRAINER_LIST'' True STATUS_NEVER PACKET_STATE_NODE PACKET_STATE_PASS Handle_ServerSide,
     OH ''CMSG_TRAINER_BUY_SPELL'' True STATUS_LOGGEDIN PACKET_STATE_NODE PACKET_STATE_PASS Handle_NULL,
     OH ''SMSG_TRAINER_BUY_SUCCEEDED'' True STATUS_NEVER PACKET_STATE_NODE PACKET_STATE_PASS Handle_ServerSide,
     OH ''SMSG_TRAINER_BUY_FAILED'' True STATUS_NEVER PACKET_STATE_NODE PACKET_STATE_PASS Handle_ServerSide,
     OH ''CMSG_BINDER_ACTIVATE'' True STATUS_LOGGEDIN PACKET_STATE_NODE PACKET_STATE_PASS Handle_NULL,
     OH ''SMSG_PLAYERBINDERROR'' True STATUS_NEVER PACKET_STATE_NODE PACKET_STATE_PASS Handle_ServerSide,
     OH ''CMSG_BANKER_ACTIVATE'' True STATUS_LOGGEDIN PACKET_STATE_NODE PACKET_STATE_PASS Handle_NULL,
     OH ''SMSG_SHOW_BANK'' True STATUS_NEVER PACKET_STATE_NODE PACKET_STATE_PASS Handle_ServerSide]"

definition opcode_rows_3 :: "OpcodeHandler list" where
  "opcode_rows_3 = [
     OH ''CMSG_BUY_BANK_SLOT'' True STATUS_LOGGEDIN PACKET_STATE_NODE PACKET_STATE_PASS Handle_NULL,
     OH ''SMSG_BUY_BANK_SLOT_RESULT'' True STATUS_NEVER PACKET_STATE_NODE PACKET_STATE_PASS Handle_ServerSide,
     OH ''CMSG_PETITION_SHOWLIST'' True STATUS_LOGGEDIN PACKET_STATE_NODE PACKET_STATE_PASS Handle_NULL,
     OH ''SMSG_PETITION_SHOWLIST'' True STATUS_NEVER PACKET_STATE_NODE PACKET_STATE_PASS Handle_ServerSide,
     OH ''CMSG_PETITION_BUY'' True STATUS_LOGGEDIN PACKET_STATE_NODE PACKET_STATE_PASS Handle_NULL,
     OH ''CMSG_PETITION_SHOW_SIGNATURES'' True STATUS_LOGGEDIN PACKET_STATE_NODE PACKET_STATE_PASS Handle_NULL,
     OH ''SMSG_PETITION_SHOW_SIGNATURES'' True STATUS_NEVER PACKET_STATE_NODE PACKET_STATE_PASS Handle_ServerSide,
     OH ''CMSG_PETITION_SIGN'' True STATUS_LOGGEDIN PACKET_STATE_NODE PACKET_STATE_PASS Handle_NULL,
     OH ''SMSG_PETITION_SIGN_RESULTS'' True STATUS_NEVER PACKET_STATE_NODE PACKET_STATE_PASS Handle_ServerSide,
     OH ''MSG_PETITION_DECLINE'' True STATUS_LOGGEDIN PACKET_STATE_NODE PACKET_STATE_PASS Handle_NULL,
     OH ''CMSG_OFFER_PETITION'' True STATUS_LOGGEDIN PACKET_STATE_NODE PACKET_STATE_PASS Handle_NULL,
     OH ''CMSG_TURN_IN_PETITION'' True STATUS_LOGGEDIN PACKET_STATE_NODE PACKET_STATE_PASS Handle_NULL,
     OH ''SMSG_TURN_IN_PETITION_RESULTS'' True STATUS_NEVER PACKET_STATE_NODE PACKET_STATE_PASS Handle_ServerSide,
     OH ''CMSG_PETITION_QUERY'' True STATUS_LOGGEDIN PACKET_STATE_NODE PACKET_STATE_PASS Handle_NULL,
     OH ''SMSG_PETITION_QUERY_RESPONSE'' True STATUS_NEVER PACKET_STATE_NODE PACKET_STATE_PASS Handle_ServerSide,
     OH ''SMSG_FISH_NOT_HOOKED'' True STATUS_NEVER PACKET_STATE_NODE PACKET_STATE_PASS Handle_ServerSide,
     OH ''SMSG_FISH_ESCAPED'' True STATUS_NEVER PACKET_STATE_NODE PACKET_STATE_PASS Handle_ServerSide,
     OH ''CMSG_BUG'' True STATUS_LOGGEDIN PACKET_STATE_NODE PACKET_STATE_PASS Handle_NULL,
     OH ''SMSG_NOTIFICATION'' True STATUS_NEVER PACKET_STATE_NODE PACKET_STATE_PASS Handle_ServerSide,
     OH ''CMSG_PLAYED_TIME'' True STATUS_LOGGEDIN PACKET_STATE_NODE PACKET_STATE_PASS Handle_NULL,
     OH ''SMSG_PLAYED_TIME'' True STATUS_NEVER PACKET_STATE_NODE PACKET_STATE_PASS Handle_ServerSide,
     OH ''CMSG_QUERY_TIME'' True STATUS_LOGGEDIN PACKET_STATE_NODE PACKET_STATE_PASS Handle_NULL,
     OH ''SMSG_QUERY_TIME_RESPONSE'' True STATUS_NEVER PACKET_STATE_NODE PACKET_STATE_PASS Handle_ServerSide,
     OH ''SMSG_LOG_XPGAIN'' True STATUS_NEVER PACKET_STATE_NODE PACKET_STATE_PASS Handle_ServerSide,
     OH ''SMSG_AURACASTLOG'' True STATUS_NEVER PACKET_STATE_NODE PACKET_STATE_PASS Handle_ServerSide,
     OH ''CMSG_RECLAIM_CORPSE'' True STATUS_LOGGEDIN PACKET_STATE_NODE PACKET_STATE_PASS Handle_NULL,
     OH ''CMSG_WRAP_ITEM'' True STATUS_LOGGEDIN PACKET_STATE_NODE PACKET_STATE_PASS Handle_NULL,
     OH ''SMSG_LEVELUP_INFO'' False STATUS_LOGGEDIN PACKET_STATE_NULL PACKET_STATE_BOTH (OtherHandler ''Handle_SMSG_LEVELUP_INFO''),
     OH ''MSG_MINIMAP_PING'' True STATUS_LOGGEDIN PACKET_STATE_NODE PACKET_STATE_PASS Handle_NULL,
     OH ''SMSG_RESISTLOG'' True STATUS_NEVER PACKET_STATE_NODE PACKET_STATE_PASS Handle_ServerSide,
     OH ''SMSG_ENCHANTMENTLOG'' True STATUS_NEVER PACKET_STATE_NODE PACKET_STATE_PASS Handle_ServerSide,
     OH ''CMSG_SET_SKILL_CHEAT'' True STATUS_NEVER PACKET_STATE_NODE PACKET_STATE_PASS Handle_NULL,
     OH ''SMSG_START_MIRROR_TIMER'' True STATUS_NEVER PACKET_STATE_NODE PACKET_STATE_PASS Handle_ServerSide,
     OH ''SMSG_PAUSE_MIRROR_TIMER'' True STATUS_NEVER PACKET_STATE_NODE PACKET_STATE_PASS Handle_ServerSide,
     OH ''SMSG_STOP_MIRROR_TIMER'' True STATUS_NEVER PACKET_STATE_NODE PACKET_STATE_PASS Handle_ServerSide,
     OH ''CMSG_PING'' True STATUS_NEVER PACKET_STATE_NODE PACKET_STATE_PASS Handle_NULL,
     OH ''SMSG_PONG'' True STATUS_NEVER PACKET_STATE_NODE PACKET_STATE_PASS Handle_ServerSide,
     OH ''SMSG_CLEAR_COOLDOWN'' True STATUS_NEVER PACKET_STATE_NODE PACKET_STATE_PASS Handle_ServerSide,
     OH ''SMSG_GAMEOBJECT_PAGETEXT'' True STATUS_NEVER PACKET_STATE_NODE PACKET_STATE_PASS Handle_ServerSide,
     OH ''CMSG_SETSHEATHED'' True STATUS_LOGGEDIN PACKET_STATE_NODE PACKET_STATE_PASS Handle_NULL,
     OH ''SMSG_COOLDOWN_CHEAT'' True STATUS_NEVER PACKET_STATE_NODE PACKET_STATE_PASS Handle_ServerSide,
     OH ''SMSG_SPELL_DELAYED'' True STATUS_NEVER PACKET_STATE_NODE PACKET_STATE_PASS Handle_ServerSide,
     OH ''CMSG_QUEST_POI_QUERY'' True STATUS_LOGGEDIN PACKET_STATE_NODE PACKET_STATE_PASS Handle_NULL,
     OH ''SMSG_QUEST_POI_QUERY_RESPONSE'' True STATUS_NEVER PACKET_STATE_NODE PACKET_STATE_PASS Handle_ServerSide,
     OH ''CMSG_GHOST'' True STATUS_NEVER PACKET_STATE_NODE PACKET_STATE_PASS Handle_NULL,
     OH ''CMSG_GM_INVIS'' True STATUS_NEVER PACKET_STATE_NODE PACKET_STATE_PASS Handle_NULL,
     OH ''SMSG_INVALID_PROMOTION_CODE'' True STATUS_NEVER PACKET_STATE_NODE PACKET_STATE_PASS Handle_ServerSide,
     OH ''MSG_GM_BIND_OTHER'' True STATUS_NEVER PACKET_STATE_NODE PACKET_STATE_PASS Handle_NULL,
     OH ''MSG_GM_SUMMON'' True STATUS_NEVER PACKET_STATE_NODE PACKET_STATE_PASS Handle_NULL,
     OH ''SMSG_ITEM_TIME_UPDATE'' True STATUS_NEVER PACKET_STATE_NODE PACKET_STATE_PASS Handle_ServerSide,
     OH ''SMSG_ITEM_ENCHANT_TIME_UPDATE'' True STATUS_NEVER PACKET_STATE_NODE PACKET_STATE_PASS Handle_ServerSide,
     OH ''SMSG_AUTH_CHALLENGE'' True STATUS_NEVER PACKET_STATE_NODE PACKET_STATE_LOGON Handle_SMSG_AUTH_CHALLENGE,
     OH ''CMSG_AUTH_SESSION'' True STATUS_NEVER PACKET_STATE_NULL PACKET_STATE_PASS Handle_NULL,
     OH ''SMSG_AUTH_RESPONSE'' True STATUS_NEVER PACKET_STATE_NULL PACKET_STATE_LOGON Handle_SMSG_AUTH_RESPONSE,
     OH ''MSG_GM_SHOWLABEL'' True STATUS_NEVER PACKET_STATE_NODE PACKET_STATE_PASS Handle_NULL,
     OH ''CMSG_PET_CAST_SPELL'' True STATUS_LOGGEDIN PACKET_STATE_NODE PACKET_STATE_PASS Handle_NULL,
     OH ''MSG_SAVE_GUILD_EMBLEM'' True STATUS_LOGGEDIN PACKET_STATE_NODE PACKET_STATE_PASS Handle_NULL,
     OH ''MSG_TABARDVENDOR_ACTIVATE'' True STATUS_LOGGEDIN PACKET_STATE_NODE PACKET_STATE_PASS Handle_NULL,
     OH ''SMSG_PLAY_SPELL_VISUAL'' True STATUS_NEVER PACKET_STATE_NODE PACKET_STATE_PASS Handle_ServerSide,
     OH ''CMSG_ZONEUPDATE'' True STATUS_LOGGEDIN PACKET_STATE_NODE PACKET_STATE_PASS Handle_NULL,
     OH ''SMSG_PARTYKILLLOG'' True STATUS_NEVER PACKET_STATE_NODE PACKET_STATE_PASS Handle_ServerSide,
     OH ''SMSG_COMPRESSED_UPDATE_OBJECT'' True STATUS_NEVER PACKET_STATE_NODE PACKET_STATE_PASS Handle_ServerSide,
     OH ''SMSG_PLAY_SPELL_IMPACT'' True STATUS_NEVER PACKET_STATE_NODE PACKET_STATE_PASS Handle_ServerSide,
     OH ''SMSG_EXPLORATION_EXPERIENCE'' True STATUS_NEVER PACKET_STATE_NODE PACKET_STATE_PASS Handle_ServerSide,
     OH ''CMSG_GM_SET_SECURITY_GROUP'' True STATUS_NEVER PACKET_STATE_NODE PACKET_STATE_PASS Handle_NULL,
     OH ''CMSG_GM_NUKE'' True STATUS_NEVER PACKET_STATE_NODE PACKET_STATE_PASS Handle_NULL,
     OH ''MSG_RANDOM_ROLL'' True STATUS_LOGGEDIN PACKET_STATE_NODE PACKET_STATE_PASS Handle_NULL,
     OH ''SMSG_ENVIRONMENTALDAMAGELOG'' True STATUS_NEVER PACKET_STATE_NODE PACKET_STATE_PASS Handle_ServerSide,
     OH ''CMSG_PLAYER_DIFFICULTY_CHANGE'' True STATUS_NEVER PACKET_STATE_NODE PACKET_STATE_PASS Handle_NULL,
     OH ''SMSG_RWHOIS'' True STATUS_NEVER PACKET_STATE_NODE PACKET_STATE_PASS Handle_ServerSide,
     OH ''SMSG_LFG_PLAYER_REWARD'' True STATUS_NEVER PACKET_STATE_NODE PACKET_STATE_PASS Handle_ServerSide,
     OH ''SMSG_LFG_TELEPORT_DENIED'' True STATUS_NEVER PACKET_STATE_NODE PACKET_STATE_PASS Handle_ServerSide,
     OH ''CMSG_UNLEARN_SPELL'' True STATUS_NEVER PACKET_STATE_NODE PACKET_STATE_PASS Handle_NULL,
     OH ''CMSG_UNLEARN_SKILL'' True STATUS_LOGGEDIN PACKET_STATE_NODE PACKET_STATE_PASS Handle_NULL,
     OH ''SMSG_REMOVED_SPELL'' True STATUS_NEVER PACKET_STATE_NODE PACKET_STATE_PASS Handle_ServerSide,
     OH ''CMSG_DECHARGE'' True STATUS_NEVER PACKET_STATE_NODE PACKET_STATE_PASS Handle_NULL,
     OH ''CMSG_GMTICKET_CREATE'' True STATUS_LOGGEDIN PACKET_STATE_LOGON PACKET_STATE_PASS (OtherHandler ''HandleGMTicketCreateOpcode''),
     OH ''SMSG_GMTICKET_CREATE'' True STATUS_NEVER PACKET_STATE_NULL PACKET_STATE_PASS Handle_ServerSide,
     OH ''CMSG_GMTICKET_UPDATETEXT'' True STATUS_LOGGEDIN PACKET_STATE_LOGON PACKET_STATE_PASS (OtherHandler ''HandleGMTicketUpdateOpcode''),
     OH ''SMSG_GMTICKET_UPDATETEXT'' True STATUS_NEVER PACKET_STATE_NULL PACKET_STATE_PASS Handle_ServerSide,
     OH ''SMSG_ACCOUNT_DATA_TIMES'' True STATUS_NEVER PACKET_STATE_NULL PACKET_STATE_PASS Handle_ServerSide,
     OH ''CMSG_REQUEST_ACCOUNT_DATA'' True STATUS_AUTHED PACKET_STATE_NODE PACKET_STATE_NULL Handle_NULL,
     OH ''CMSG_UPDATE_ACCOUNT_DATA'' True STATUS_AUTHED PACKET_STATE_NODE PACKET_STATE_NULL Handle_NULL,
     OH ''SMSG_UPDATE_ACCOUNT_DATA'' True STATUS_NEVER PACKET_STATE_NULL PACKET_STATE_PASS Handle_ServerSide,
     OH ''SMSG_CLEAR_FAR_SIGHT_IMMEDIATE'' True STATUS_NEVER PACKET_STATE_NODE PACKET_STATE_PASS Handle_ServerSide,
     OH ''SMSG_PLAYER_DIFFICULTY_CHANGE'' True STATUS_NEVER PACKET_STATE_NODE PACKET_STATE_PASS Handle_ServerSide,
     OH ''CMSG_GM_TEACH'' True STATUS_NEVER PACKET_STATE_NODE PACKET_STATE_PASS Handle_NULL,
     OH ''CMSG_GM_CREATE_ITEM_TARGET'' True STATUS_NEVER PACKET_STATE_NODE PACKET_STATE_PASS Handle_NULL,
     OH ''CMSG_GMTICKET_GETTICKET'' True STATUS_LOGGEDIN PACKET_STATE_LOGON PACKET_STATE_PASS (OtherHandler ''HandleGMTicketGetTicketOpcode''),
     OH ''SMSG_GMTICKET_GETTICKET'' True STATUS_NEVER PACKET_STATE_NULL PACKET_STATE_PASS Handle_ServerSide,
     OH ''CMSG_UNLEARN_TALENTS'' True STATUS_NEVER PACKET_STATE_NODE PACKET_STATE_PASS Handle_NULL,
     OH ''SMSG_GAMEOBJECT_SPAWN_ANIM_OBSOLETE'' True STATUS_NEVER PACKET_STATE_NODE PACKET_STATE_PASS Handle_ServerSide,
     OH ''SMSG_GAMEOBJECT_DESPAWN_ANIM'' True STATUS_NEVER PACKET_STATE_NODE PACKET_STATE_PASS Handle_ServerSide,
     OH ''MSG_CORPSE_QUERY'' True STATUS_LOGGEDIN PACKET_STATE_NODE PACKET_STATE_PASS Handle_NULL,
     OH ''CMSG_GMTICKET_DELETETICKET'' True STATUS_LOGGEDIN PACKET_STATE_LOGON PACKET_STATE_PASS (OtherHandler ''HandleGMTicketDeleteOpcode''),
     OH ''SMSG_GMTICKET_DELETETICKET'' True STATUS_NEVER PACKET_STATE_NULL PACKET_STATE_PASS Handle_ServerSide,
     OH ''SMSG_CHAT_WRONG_FACTION'' True STATUS_NEVER PACKET_STATE_NODE PACKET_STATE_PASS Handle_ServerSide,
     OH ''CMSG_GMTICKET_SYSTEMSTATUS'' True STATUS_LOGGEDIN PACKET_STATE_LOGON PACKET_STATE_PASS (OtherHandler ''HandleGMTicketSystemStatusOpcode''),
     OH ''SMSG_GMTICKET_SYSTEMSTATUS'' True STATUS_NEVER PACKET_STATE_NULL PACKET_STATE_PASS Handle_ServerSide,
     OH ''CMSG_SPIRIT_HEALER_ACTIVATE'' True STATUS_LOGGEDIN PACKET_STATE_NODE PACKET_STATE_PASS Handle_NULL,
     OH ''CMSG_SET_STAT_CHEAT'' True STATUS_NEVER PACKET_STATE_NODE PACKET_STATE_PASS Handle_NULL,
     OH ''SMSG_QUEST_FORCE_REMOVE'' True STATUS_NEVER PACKET_STATE_NODE PACKET_STATE_PASS Handle_ServerSide,
     OH ''CMSG_SKILL_BUY_STEP'' True STATUS_NEVER PACKET_STATE_NODE PACKET_STATE_PASS Handle_NULL,
     OH ''CMSG_SKILL_BUY_RANK'' True STATUS_NEVER PACKET_STATE_NODE PACKET_STATE_PASS Handle_NULL,
     OH ''CMSG_XP_CHEAT'' True STATUS_NEVER PACKET_STATE_NODE PACKET_STATE_PASS Handle_NULL,
     OH ''SMSG_SPIRIT_HEALER_CONFIRM'' True STATUS_NEVER PACKET_STATE_NODE PACKET_STATE_PASS Handle_ServerSide,
     OH ''CMSG_CHARACTER_POINT_CHEAT'' True STATUS_NEVER PACKET_STATE_NODE PACKET_STATE_PASS Handle_NULL,
     OH ''SMSG_GOSSIP_POI'' True STATUS_NEVER PACKET_STATE_NODE PACKET_STATE_PASS Handle_ServerSide,
     OH ''CMSG_CHAT_IGNORED'' True STATUS_LOGGEDIN PACKET_STATE_NODE PACKET_STATE_PASS Handle_NULL,
     OH ''CMSG_GM_VISION'' True STATUS_NEVER PACKET_STATE_NODE PACKET_STATE_PASS Handle_NULL,
     OH ''CMSG_SERVER_COMMAND'' True STATUS_NEVER PACKET_STATE_NODE PACKET_STATE_PASS Handle_NULL,
     OH ''CMSG_GM_SILENCE'' True STATUS_NEVER PACKET_STATE_NODE PACKET_STATE_PASS Handle_NULL,
     OH ''CMSG_GM_REVEALTO'' True STATUS_NEVER PACKET_STATE_NODE PACKET_STATE_PASS Handle_NULL,
     OH ''CMSG_GM_RESURRECT'' True STATUS_NEVER PACKET_STATE_NODE PACKET_STATE_PASS Handle_NULL,
     OH ''CMSG_GM_SUMMONMOB'' True STATUS_NEVER PACKET_STATE_NODE PACKET_STATE_PASS Handle_NULL,
     OH ''CMSG_GM_MOVECORPSE'' True STATUS_NEVER PACKET_STATE_NODE PACKET_STATE_PASS Handle_NULL,
     OH ''CMSG_GM_FREEZE'' True STATUS_NEVER PACKET_STATE_NODE PACKET_STATE_PASS Handle_NULL,
     OH ''CMSG_GM_UBERINVIS'' True STATUS_NEVER PACKET_STATE_NODE PACKET_STATE_PASS Handle_NULL,
     OH ''CMSG_GM_REQUEST_PLAYER_INFO'' True STATUS_NEVER PACKET_STATE_NODE PACKET_STATE_PASS Handle_NULL,
     OH ''SMSG_GM_PLAYER_INFO'' True STATUS_NEVER PACKET_STATE_NODE PACKET_STATE_PASS Handle_NULL,
     OH ''CMSG_GUILD_RANK'' True STATUS_LOGGEDIN PACKET_STATE_LOGON PACKET_STATE_LOGON (OtherHandler ''HandleGuildRankOpcode''),
     OH ''CMSG_GUILD_ADD_RANK'' True STATUS_LOGGEDIN PACKET_STATE_LOGON PACKET_STATE_LOGON (OtherHandler ''HandleGuildAddRankOpcode''),
     OH ''CMSG_GUILD_DEL_RANK'' True STATUS_LOGGEDIN PACKET_STATE_LOGON PACKET_STATE_LOGON (OtherHandler ''HandleGuildDelRankOpcode''),
     OH ''CMSG_GUILD_SET_PUBLIC_NOTE'' True STATUS_LOGGEDIN PACKET_STATE_LOGON PACKET_STATE_LOGON (OtherHandler ''HandleGuildSetPublicNoteOpcode''),
     OH ''CMSG_GUILD_SET_OFFICER_NOTE'' True STATUS_LOGGEDIN PACKET_STATE_LOGON PACKET_STATE_LOGON (OtherHandler ''HandleGuildSetOfficerNoteOpcode''),
     OH ''SMSG_LOGIN_VERIFY_WORLD'' False STATUS_NEVER PACKET_STATE_NULL PACKET_STATE_BOTH (OtherHandler ''SMSG_LOGIN_VERIFY_WORLD''),
     OH ''CMSG_CLEAR_EXPLORATION'' True STATUS_NEVER PACKET_STATE_NODE PACKET_STATE_PASS Handle_NULL,
     OH ''CMSG_SEND_MAIL'' True STATUS_LOGGEDIN PACKET_STATE_LOGON PACKET_STATE_PASS (OtherHandler ''HandleSendMail''),
     OH ''SMSG_SEND_MAIL_RESULT'' True STATUS_NEVER PACKET_STATE_NODE PACKET_STATE_PASS Handle_ServerSide,
     OH ''CMSG_GET_MAIL_LIST'' True STATUS_LOGGEDIN PACKET_STATE_NODE PACKET_STATE_PASS Handle_NULL,
     OH ''SMSG_MAIL_LIST_RESULT'' True STATUS_NEVER PACKET_STATE_NODE PACKET_STATE_PASS Handle_ServerSide,
     OH ''CMSG_BATTLEFIELD_LIST'' True STATUS_LOGGEDIN PACKET_STATE_NODE PACKET_STATE_PASS Handle_NULL,
     OH ''SMSG_BATTLEFIELD_LIST'' True STATUS_NEVER PACKET_STATE_NODE PACKET_STATE_PASS Handle_ServerSide,
     OH ''CMSG_BATTLEFIELD_JOIN'' True STATUS_NEVER PACKET_STATE_NODE PACKET_STATE_PASS Handle_NULL,
     OH ''SMSG_BATTLEFIELD_WIN_OBSOLETE'' True STATUS_NEVER PACKET_STATE_NODE PACKET_STATE_PASS Handle_ServerSide,
     OH ''SMSG_BATTLEFIELD_LOSE_OBSOLETE'' True STATUS_NEVER PACKET_STATE_NODE PACKET_STATE_PASS Handle_ServerSide,
     OH ''CMSG_TAXICLEARNODE'' True STATUS_NEVER PACKET_STATE_NODE PACKET_STATE_PASS Handle_NULL,
     OH ''CMSG_TAXIENABLENODE'' True STATUS_NEVER PACKET_STATE_NODE PACKET_STATE_PASS Handle_NULL,
     OH ''CMSG_ITEM_TEXT_QUERY'' True STATUS_LOGGEDIN PACKET_STATE_NODE PACKET_STATE_PASS Handle_NULL,
     OH ''SMSG_ITEM_TEXT_QUERY_RESPONSE'' True STATUS_NEVER PACKET_STATE_NODE PACKET_STATE_PASS Handle_ServerSide,
     OH ''CMSG_MAIL_TAKE_MONEY'' True STATUS_LOGGEDIN PACKET_STATE_NODE PACKET_STATE_PASS Handle_NULL,
     OH ''CMSG_MAIL_TAKE_ITEM'' True STATUS_LOGGEDIN PACKET_STATE_NODE PACKET_STATE_PASS Handle_NULL,
     OH ''CMSG_MAIL_MARK_AS_READ'' True STATUS_LOGGEDIN PACKET_STATE_NODE PACKET_STATE_PASS Handle_NULL,
     OH ''CMSG_MAIL_RETURN_TO_SENDER'' True STATUS_LOGGEDIN PACKET_STATE_NODE PACKET_STATE_PASS Handle_NULL,
     OH ''CMSG_MAIL_DELETE'' True STATUS_LOGGEDIN PACKET_STATE_NODE PACKET_STATE_PASS Handle_NULL,
     OH ''CMSG_MAIL_CREATE_TEXT_ITEM'' True STATUS_LOGGEDIN PACKET_STATE_NODE PACKET_STATE_PASS Handle_NULL,
     OH ''SMSG_SPELLLOGMISS'' True STATUS_NEVER PACKET_STATE_NODE PACKET_STATE_PASS Handle_ServerSide]"

definition opcode_rows_4 :: "OpcodeHandler list" where
  "opcode_rows_4 = [
     OH ''SMSG_SPELLLOGEXECUTE'' True STATUS_NEVER PACKET_STATE_NODE PACKET_STATE_PASS Handle_ServerSide,
     OH ''SMSG_DEBUGAURAPROC'' True STATUS_NEVER PACKET_STATE_NODE PACKET_STATE_PASS Handle_ServerSide,
     OH ''SMSG_PERIODICAURALOG'' True STATUS_NEVER PACKET_STATE_NODE PACKET_STATE_PASS Handle_ServerSide,
     OH ''SMSG_SPELLDAMAGESHIELD'' True STATUS_NEVER PACKET_STATE_NODE PACKET_STATE_PASS Handle_ServerSide,
     OH ''SMSG_SPELLNONMELEEDAMAGELOG'' True STATUS_NEVER PACKET_STATE_NODE PACKET_STATE_PASS Handle_ServerSide,
     OH ''CMSG_LEARN_TALENT'' True STATUS_LOGGEDIN PACKET_STATE_NODE PACKET_STATE_PASS Handle_NULL,
     OH ''SMSG_RESURRECT_FAILED'' True STATUS_NEVER PACKET_STATE_NODE PACKET_STATE_PASS Handle_ServerSide,
     OH ''CMSG_TOGGLE_PVP'' True STATUS_LOGGEDIN PACKET_STATE_NODE PACKET_STATE_PASS Handle_NULL,
     OH ''SMSG_ZONE_UNDER_ATTACK'' True STATUS_NEVER PACKET_STATE_NODE PACKET_STATE_PASS Handle_ServerSide,
     OH ''MSG_AUCTION_HELLO'' True STATUS_LOGGEDIN PACKET_STATE_NODE PACKET_STATE_PASS Handle_NULL,
     OH ''CMSG_AUCTION_SELL_ITEM'' True STATUS_LOGGEDIN PACKET_STATE_NODE PACKET_STATE_PASS Handle_NULL,
     OH ''CMSG_AUCTION_REMOVE_ITEM'' True STATUS_LOGGEDIN PACKET_STATE_NODE PACKET_STATE_PASS Handle_NULL,
     OH ''CMSG_AUCTION_LIST_ITEMS'' True STATUS_LOGGEDIN PACKET_STATE_NODE PACKET_STATE_PASS Handle_NULL,
     OH ''CMSG_AUCTION_LIST_OWNER_ITEMS'' True STATUS_LOGGEDIN PACKET_STATE_NODE PACKET_STATE_PASS Handle_NULL,
     OH ''CMSG_AUCTION_PLACE_BID'' True STATUS_LOGGEDIN PACKET_STATE_NODE PACKET_STATE_PASS Handle_NULL,
     OH ''SMSG_AUCTION_COMMAND_RESULT'' True STATUS_NEVER PACKET_STATE_NODE PACKET_STATE_PASS Handle_ServerSide,
     OH ''SMSG_AUCTION_LIST_RESULT'' True STATUS_NEVER PACKET_STATE_NODE PACKET_STATE_PASS Handle_ServerSide,
     OH ''SMSG_AUCTION_OWNER_LIST_RESULT'' True STATUS_NEVER PACKET_STATE_NODE PACKET_STATE_PASS Handle_ServerSide,
     OH ''SMSG_AUCTION_BIDDER_NOTIFICATION'' True STATUS_NEVER PACKET_STATE_NODE PACKET_STATE_PASS Handle_ServerSide,
     OH ''SMSG_AUCTION_OWNER_NOTIFICATION'' True STATUS_NEVER PACKET_STATE_NODE PACKET_STATE_PASS Handle_ServerSide,
     OH ''SMSG_PROCRESIST'' True STATUS_NEVER PACKET_STATE_NODE PACKET_STATE_PASS Handle_ServerSide,
     OH ''SMSG_STANDSTATE_CHANGE_FAILURE_OBSOLETE'' True STATUS_NEVER PACKET_STATE_NODE PACKET_STATE_PASS Handle_ServerSide,
     OH ''SMSG_DISPEL_FAILED'' True STATUS_NEVER PACKET_STATE_NODE PACKET_STATE_PASS Handle_ServerSide,
     OH ''SMSG_SPELLORDAMAGE_IMMUNE'' True STATUS_NEVER PACKET_STATE_NODE PACKET_STATE_PASS Handle_ServerSide,
     OH ''CMSG_AUCTION_LIST_BIDDER_ITEMS'' True STATUS_LOGGEDIN PACKET_STATE_NODE PACKET_STATE_PASS Handle_NULL,
     OH ''SMSG_AUCTION_BIDDER_LIST_RESULT'' True STATUS_NEVER PACKET_STATE_NODE PACKET_STATE_PASS Handle_ServerSide,
     OH ''SMSG_SET_FLAT_SPELL_MODIFIER'' True STATUS_NEVER PACKET_STATE_NODE PACKET_STATE_PASS Handle_ServerSide,
     OH ''SMSG_SET_PCT_SPELL_MODIFIER'' True STATUS_NEVER PACKET_STATE_NODE PACKET_STATE_PASS Handle_ServerSide,
     OH ''CMSG_SET_AMMO'' True STATUS_LOGGEDIN PACKET_STATE_NODE PACKET_STATE_PASS Handle_NULL,
     OH ''SMSG_CORPSE_RECLAIM_DELAY'' True STATUS_NEVER PACKET_STATE_NODE PACKET_STATE_PASS Handle_ServerSide,
     OH ''CMSG_SET_ACTIVE_MOVER'' True STATUS_LOGGEDIN PACKET_STATE_NODE PACKET_STATE_PASS Handle_NULL,
     OH ''CMSG_PET_CANCEL_AURA'' True STATUS_LOGGEDIN PACKET_STATE_NODE PACKET_STATE_PASS Handle_NULL,
     OH ''CMSG_PLAYER_AI_CHEAT'' True STATUS_NEVER PACKET_STATE_NODE PACKET_STATE_PASS Handle_NULL,
     OH ''CMSG_CANCEL_AUTO_REPEAT_SPELL'' True STATUS_LOGGEDIN PACKET_STATE_NODE PACKET_STATE_PASS Handle_NULL,
     OH ''MSG_GM_ACCOUNT_ONLINE'' True STATUS_NEVER PACKET_STATE_NODE PACKET_STATE_PASS Handle_NULL,
     OH ''MSG_LIST_STABLED_PETS'' True STATUS_LOGGEDIN PACKET_STATE_NODE PACKET_STATE_PASS Handle_NULL,
     OH ''CMSG_STABLE_PET'' True STATUS_LOGGEDIN PACKET_STATE_NODE PACKET_STATE_PASS Handle_NULL,
     OH ''CMSG_UNSTABLE_PET'' True STATUS_LOGGEDIN PACKET_STATE_NODE PACKET_STATE_PASS Handle_NULL,
     OH ''CMSG_BUY_STABLE_SLOT'' True STATUS_LOGGEDIN PACKET_STATE_NODE PACKET_STATE_PASS Handle_NULL,
     OH ''SMSG_STABLE_RESULT'' True STATUS_NEVER PACKET_STATE_NODE PACKET_STATE_PASS Handle_ServerSide,
     OH ''CMSG_STABLE_REVIVE_PET'' True STATUS_LOGGEDIN PACKET_STATE_NODE PACKET_STATE_PASS Handle_NULL,
     OH ''CMSG_STABLE_SWAP_PET'' True STATUS_LOGGEDIN PACKET_STATE_NODE PACKET_STATE_PASS Handle_NULL,
     OH ''MSG_QUEST_PUSH_RESULT'' True STATUS_LOGGEDIN PACKET_STATE_NODE PACKET_STATE_PASS Handle_NULL,
     OH ''SMSG_PLAY_MUSIC'' True STATUS_NEVER PACKET_STATE_NODE PACKET_STATE_PASS Handle_ServerSide,
     OH ''SMSG_PLAY_OBJECT_SOUND'' True STATUS_NEVER PACKET_STATE_NODE PACKET_STATE_PASS Handle_ServerSide,
     OH ''CMSG_REQUEST_PET_INFO'' True STATUS_LOGGEDIN PACKET_STATE_NODE PACKET_STATE_PASS Handle_NULL,
     OH ''CMSG_FAR_SIGHT'' True STATUS_LOGGEDIN PACKET_STATE_NODE PACKET_STATE_PASS Handle_NULL,
     OH ''SMSG_SPELLDISPELLOG'' True STATUS_NEVER PACKET_STATE_NODE PACKET_STATE_PASS Handle_ServerSide,
     OH ''SMSG_DAMAGE_CALC_LOG'' True STATUS_NEVER PACKET_STATE_NODE PACKET_STATE_PASS Handle_ServerSide,
     OH ''CMSG_ENABLE_DAMAGE_LOG'' True STATUS_NEVER PACKET_STATE_NODE PACKET_STATE_PASS Handle_NULL,
     OH ''CMSG_GROUP_CHANGE_SUB_GROUP'' True STATUS_LOGGEDIN PACKET_STATE_NODE PACKET_STATE_PASS Handle_NULL,
     OH ''CMSG_REQUEST_PARTY_MEMBER_STATS'' True STATUS_LOGGEDIN PACKET_STATE_NODE PACKET_STATE_PASS Handle_NULL,
     OH ''CMSG_GROUP_SWAP_SUB_GROUP'' True STATUS_UNHANDLED PACKET_STATE_NODE PACKET_STATE_PASS Handle_NULL,
     OH ''CMSG_RESET_FACTION_CHEAT'' True STATUS_NEVER PACKET_STATE_NODE PACKET_STATE_PASS Handle_NULL,
     OH ''CMSG_AUTOSTORE_BANK_ITEM'' True STATUS_LOGGEDIN PACKET_STATE_NODE PACKET_STATE_PASS Handle_NULL,
     OH ''CMSG_AUTOBANK_ITEM'' True STATUS_LOGGEDIN PACKET_STATE_NODE PACKET_STATE_PASS Handle_NULL,
     OH ''MSG_QUERY_NEXT_MAIL_TIME'' True STATUS_LOGGEDIN PACKET_STATE_NODE PACKET_STATE_PASS Handle_NULL,
     OH ''SMSG_RECEIVED_MAIL'' True STATUS_NEVER PACKET_STATE_NODE PACKET_STATE_PASS Handle_ServerSide,
     OH ''SMSG_RAID_GROUP_ONLY'' True STATUS_NEVER PACKET_STATE_NODE PACKET_STATE_PASS Handle_ServerSide,
     OH ''CMSG_SET_DURABILITY_CHEAT'' True STATUS_NEVER PACKET_STATE_NODE PACKET_STATE_PASS Handle_NULL,
     OH ''CMSG_SET_PVP_RANK_CHEAT'' True STATUS_NEVER PACKET_STATE_NODE PACKET_STATE_PASS Handle_NULL,
     OH ''CMSG_ADD_PVP_MEDAL_CHEAT'' True STATUS_NEVER PACKET_STATE_NODE PACKET_STATE_PASS Handle_NULL,
     OH ''CMSG_DEL_PVP_MEDAL_CHEAT'' True STATUS_NEVER PACKET_STATE_NODE PACKET_STATE_PASS Handle_NULL,
     OH ''CMSG_SET_PVP_TITLE'' True STATUS_NEVER PACKET_STATE_NODE PACKET_STATE_PASS Handle_NULL,
     OH ''SMSG_PVP_CREDIT'' True STATUS_NEVER PACKET_STATE_NODE PACKET_STATE_PASS Handle_ServerSide,
     OH ''SMSG_AUCTION_REMOVED_NOTIFICATION'' True STATUS_NEVER PACKET_STATE_NODE PACKET_STATE_PASS Handle_ServerSide,
     OH ''CMSG_GROUP_RAID_CONVERT'' True STATUS_LOGGEDIN PACKET_STATE_NODE PACKET_STATE_PASS Handle_NULL,
     OH ''CMSG_GROUP_ASSISTANT_LEADER'' True STATUS_LOGGEDIN PACKET_STATE_NODE PACKET_STATE_PASS Handle_NULL,
     OH ''CMSG_BUYBACK_ITEM'' True STATUS_LOGGEDIN PACKET_STATE_NODE PACKET_STATE_PASS Handle_NULL,
     OH ''SMSG_SERVER_MESSAGE'' True STATUS_NEVER PACKET_STATE_BOTH PACKET_STATE_PASS Handle_ServerSide,
     OH ''CMSG_SET_SAVED_INSTANCE_EXTEND'' True STATUS_LOGGEDIN PACKET_STATE_NODE PACKET_STATE_PASS Handle_NULL,
     OH ''SMSG_LFG_OFFER_CONTINUE'' True STATUS_NEVER PACKET_STATE_NODE PACKET_STATE_PASS Handle_ServerSide,
     OH ''CMSG_MEETINGSTONE_CHEAT'' True STATUS_NEVER PACKET_STATE_NODE PACKET_STATE_PASS Handle_NULL,
     OH ''SMSG_MEETINGSTONE_SETQUEUE'' True STATUS_NEVER PACKET_STATE_NODE PACKET_STATE_PASS Handle_ServerSide,
     OH ''CMSG_MEETINGSTONE_INFO'' True STATUS_LOGGEDIN PACKET_STATE_NODE PACKET_STATE_PASS Handle_NULL,
     OH ''SMSG_MEETINGSTONE_COMPLETE'' True STATUS_NEVER PACKET_STATE_NODE PACKET_STATE_PASS Handle_ServerSide,
     OH ''SMSG_MEETINGSTONE_IN_PROGRESS'' True STATUS_NEVER PACKET_STATE_NODE PACKET_STATE_PASS Handle_ServerSide,
     OH ''SMSG_MEETINGSTONE_MEMBER_ADDED'' True STATUS_NEVER PACKET_STATE_NODE PACKET_STATE_PASS Handle_ServerSide,
     OH ''CMSG_GMTICKETSYSTEM_TOGGLE'' True STATUS_NEVER PACKET_STATE_NODE PACKET_STATE_PASS Handle_NULL,
     OH ''CMSG_CANCEL_GROWTH_AURA'' True STATUS_LOGGEDIN PACKET_STATE_NODE PACKET_STATE_PASS Handle_NULL,
     OH ''SMSG_CANCEL_AUTO_REPEAT'' True STATUS_NEVER PACKET_STATE_NODE PACKET_STATE_PASS Handle_ServerSide,
     OH ''SMSG_STANDSTATE_UPDATE'' True STATUS_NEVER PACKET_STATE_NODE PACKET_STATE_PASS Handle_ServerSide,
     OH ''SMSG_LOOT_ALL_PASSED'' True STATUS_NEVER PACKET_STATE_NODE PACKET_STATE_PASS Handle_ServerSide,
     OH ''SMSG_LOOT_ROLL_WON'' True STATUS_NEVER PACKET_STATE_NODE PACKET_STATE_PASS Handle_ServerSide,
     OH ''CMSG_LOOT_ROLL'' True STATUS_LOGGEDIN PACKET_STATE_NODE PACKET_STATE_PASS Handle_NULL,
     OH ''SMSG_LOOT_START_ROLL'' True STATUS_NEVER PACKET_STATE_NODE PACKET_STATE_PASS Handle_ServerSide,
     OH ''SMSG_LOOT_ROLL'' True STATUS_NEVER PACKET_STATE_NODE PACKET_STATE_PASS Handle_ServerSide,
     OH ''CMSG_LOOT_MASTER_GIVE'' True STATUS_LOGGEDIN PACKET_STATE_NODE PACKET_STATE_PASS Handle_NULL,
     OH ''SMSG_LOOT_MASTER_LIST'' True STATUS_NEVER PACKET_STATE_NODE PACKET_STATE_PASS Handle_ServerSide,
     OH ''SMSG_SET_FORCED_REACTIONS'' True STATUS_NEVER PACKET_STATE_NODE PACKET_STATE_PASS Handle_ServerSide,
     OH ''SMSG_SPELL_FAILED_OTHER'' True STATUS_NEVER PACKET_STATE_NODE PACKET_STATE_PASS Handle_ServerSide,
     OH ''SMSG_GAMEOBJECT_RESET_STATE'' True STATUS_NEVER PACKET_STATE_NODE PACKET_STATE_PASS Handle_ServerSide,
     OH ''CMSG_REPAIR_ITEM'' True STATUS_LOGGEDIN PACKET_STATE_NODE PACKET_STATE_PASS Handle_NULL,
     OH ''SMSG_CHAT_PLAYER_NOT_FOUND'' True STATUS_NEVER PACKET_STATE_NODE PACKET_STATE_PASS Handle_ServerSide,
     OH ''MSG_TALENT_WIPE_CONFIRM'' True STATUS_LOGGEDIN PACKET_STATE_NODE PACKET_STATE_PASS Handle_NULL,
     OH ''SMSG_SUMMON_REQUEST'' True STATUS_NEVER PACKET_STATE_NODE PACKET_STATE_PASS Handle_ServerSide,
     OH ''CMSG_SUMMON_RESPONSE'' True STATUS_LOGGEDIN PACKET_STATE_NODE PACKET_STATE_PASS Handle_NULL,
     OH ''MSG_MOVE_TOGGLE_GRAVITY_CHEAT'' True STATUS_NEVER PACKET_STATE_NODE PACKET_STATE_PASS Handle_NULL,
     OH ''SMSG_MONSTER_MOVE_TRANSPORT'' True STATUS_NEVER PACKET_STATE_NODE PACKET_STATE_PASS Handle_ServerSide,
     OH ''SMSG_PET_BROKEN'' True STATUS_NEVER PACKET_STATE_NODE PACKET_STATE_PASS Handle_ServerSide,
     OH ''MSG_MOVE_FEATHER_FALL'' True STATUS_NEVER PACKET_STATE_NODE PACKET_STATE_PASS Handle_NULL,
     OH ''MSG_MOVE_WATER_WALK'' True STATUS_NEVER PACKET_STATE_NODE PACKET_STATE_PASS Handle_NULL,
     OH ''CMSG_SERVER_BROADCAST'' True STATUS_NEVER PACKET_STATE_NODE PACKET_STATE_PASS Handle_NULL,
     OH ''CMSG_SELF_RES'' True STATUS_LOGGEDIN PACKET_STATE_NODE PACKET_STATE_PASS Handle_NULL,
     OH ''SMSG_FEIGN_DEATH_RESISTED'' True STATUS_NEVER PACKET_STATE_NODE PACKET_STATE_PASS Handle_ServerSide,
     OH ''CMSG_RUN_SCRIPT'' True STATUS_NEVER PACKET_STATE_NODE PACKET_STATE_PASS Handle_NULL,
     OH ''SMSG_SCRIPT_MESSAGE'' True STATUS_NEVER PACKET_STATE_NODE PACKET_STATE_PASS Handle_ServerSide,
     OH ''SMSG_DUEL_COUNTDOWN'' True STATUS_NEVER PACKET_STATE_NODE PACKET_STATE_PASS Handle_ServerSide,
     OH ''SMSG_AREA_TRIGGER_MESSAGE'' True STATUS_NEVER PACKET_STATE_NODE PACKET_STATE_PASS Handle_ServerSide,
     OH ''CMSG_SHOWING_HELM'' True STATUS_LOGGEDIN PACKET_STATE_NODE PACKET_STATE_PASS Handle_NULL,
     OH ''CMSG_SHOWING_CLOAK'' True STATUS_LOGGEDIN PACKET_STATE_NODE PACKET_STATE_PASS Handle_NULL,
     OH ''SMSG_LFG_ROLE_CHOSEN'' True STATUS_NEVER PACKET_STATE_NODE PACKET_STATE_PASS Handle_ServerSide,
     OH ''SMSG_PLAYER_SKINNED'' True STATUS_NEVER PACKET_STATE_NODE PACKET_STATE_PASS Handle_ServerSide,
     OH ''SMSG_DURABILITY_DAMAGE_DEATH'' True STATUS_NEVER PACKET_STATE_NODE PACKET_STATE_PASS Handle_ServerSide,
     OH ''CMSG_SET_EXPLORATION'' True STATUS_NEVER PACKET_STATE_NODE PACKET_STATE_PASS Handle_NULL,
     OH ''CMSG_SET_ACTIONBAR_TOGGLES'' True STATUS_AUTHED PACKET_STATE_NODE PACKET_STATE_PASS Handle_NULL,
     OH ''UMSG_DELETE_GUILD_CHARTER'' True STATUS_NEVER PACKET_STATE_NODE PACKET_STATE_PASS Handle_NULL,
     OH ''MSG_PETITION_RENAME'' True STATUS_LOGGEDIN PACKET_STATE_NODE PACKET_STATE_PASS Handle_NULL,
     OH ''SMSG_INIT_WORLD_STATES'' True STATUS_NEVER PACKET_STATE_NODE PACKET_STATE_PASS Handle_ServerSide,
     OH ''SMSG_UPDATE_WORLD_STATE'' True STATUS_NEVER PACKET_STATE_NODE PACKET_STATE_PASS Handle_ServerSide,
     OH ''CMSG_ITEM_NAME_QUERY'' True STATUS_LOGGEDIN PACKET_STATE_NODE PACKET_STATE_PASS Handle_NULL,
     OH ''SMSG_ITEM_NAME_QUERY_RESPONSE'' True STATUS_NEVER PACKET_STATE_NODE PACKET_STATE_PASS Handle_ServerSide,
     OH ''SMSG_PET_ACTION_FEEDBACK'' True STATUS_NEVER PACKET_STATE_NODE PACKET_STATE_PASS Handle_ServerSide,
     OH ''CMSG_CHAR_RENAME'' True STATUS_AUTHED PACKET_STATE_NODE PACKET_STATE_PASS Handle_NULL,
     OH ''SMSG_CHAR_RENAME'' True STATUS_NEVER PACKET_STATE_NODE PACKET_STATE_PASS Handle_ServerSide,
     OH ''CMSG_MOVE_SPLINE_DONE'' True STATUS_LOGGEDIN PACKET_STATE_NODE PACKET_STATE_PASS Handle_NULL,
     OH ''CMSG_MOVE_FALL_RESET'' True STATUS_LOGGEDIN PACKET_STATE_NODE PACKET_STATE_PASS Handle_NULL,
     OH ''SMSG_INSTANCE_SAVE_CREATED'' True STATUS_NEVER PACKET_STATE_NODE PACKET_STATE_PASS Handle_ServerSide,
     OH ''SMSG_RAID_INSTANCE_INFO'' True STATUS_NEVER PACKET_STATE_NODE PACKET_STATE_PASS Handle_ServerSide,
     OH ''CMSG_REQUEST_RAID_INFO'' True STATUS_LOGGEDIN PACKET_STATE_NODE PACKET_STATE_PASS Handle_NULL,
     OH ''CMSG_MOVE_TIME_SKIPPED'' True STATUS_LOGGEDIN PACKET_STATE_NODE PACKET_STATE_PASS Handle_NULL,
     OH ''CMSG_MOVE_FEATHER_FALL_ACK'' True STATUS_LOGGEDIN PACKET_STATE_NODE PACKET_STATE_PASS Handle_NULL,
     OH ''CMSG_MOVE_WATER_WALK_ACK'' True STATUS_LOGGEDIN PACKET_STATE_NODE PACKET_STATE_PASS Handle_NULL,
     OH ''CMSG_MOVE_NOT_ACTIVE_MOVER'' True STATUS_LOGGEDIN PACKET_STATE_NODE PACKET_STATE_PASS Handle_NULL,
     OH ''SMSG_PLAY_SOUND'' True STATUS_NEVER PACKET_STATE_NODE PACKET_STATE_PASS Handle_ServerSide,
     OH ''CMSG_BATTLEFIELD_STATUS'' True STATUS_LOGGEDIN PACKET_STATE_NODE PACKET_STATE_PASS Handle_NULL,
     OH ''SMSG_BATTLEFIELD_STATUS'' True STATUS_NEVER PACKET_STATE_NODE PACKET_STATE_PASS Handle_ServerSide,
     OH ''CMSG_BATTLEFIELD_PORT'' True STATUS_LOGGEDIN PACKET_STATE_NODE PACKET_STATE_PASS Handle_NULL,
     OH ''MSG_INSPECT_HONOR_STATS'' True STATUS_LOGGEDIN PACKET_STATE_NODE PACKET_STATE_PASS Handle_NULL,
     OH ''CMSG_BATTLEMASTER_HELLO'' True STATUS_LOGGEDIN PACKET_STATE_NODE PACKET_STATE_PASS Handle_NULL,
     OH ''CMSG_MOVE_START_SWIM_CHEAT'' True STATUS_NEVER PACKET_STATE_NODE PACKET_STATE_PASS Handle_NULL,
     OH ''CMSG_MOVE_STOP_SWIM_CHEAT'' True STATUS_NEVER PACKET_STATE_NODE PACKET_STATE_PASS Handle_NULL,
     OH ''SMSG_FORCE_WALK_SPEED_CHANGE'' True STATUS_NEVER PACKET_STATE_NODE PACKET_STATE_PASS Handle_ServerSide,
     OH ''CMSG_FORCE_WALK_SPEED_CHANGE_ACK'' True STATUS_LOGGEDIN PACKET_STATE_NODE PACKET_STATE_PASS Handle_NULL,
     OH ''SMSG_FORCE_SWIM_BACK_SPEED_CHANGE'' True STATUS_NEVER PACKET_STATE_NODE PACKET_STATE_PASS Handle_ServerSide,
     OH ''CMSG_FORCE_SWIM_BACK_SPEED_CHANGE_ACK'' True STATUS_LOGGEDIN PACKET_STATE_NODE PACKET_STATE_PASS Handle_NULL,
     OH ''SMSG_FORCE_TURN_RATE_CHANGE'' True STATUS_NEVER PACKET_STATE_NODE PACKET_STATE_PASS Handle_ServerSide]"

definition opcode_rows_5 :: "OpcodeHandler list" where
  "opcode_rows_5 = [
     OH ''CMSG_FORCE_TURN_RATE_CHANGE_ACK'' True STATUS_LOGGEDIN PACKET_STATE_NODE PACKET_STATE_PASS Handle_NULL,
     OH ''MSG_PVP_LOG_DATA'' True STATUS_LOGGEDIN PACKET_STATE_NODE PACKET_STATE_PASS Handle_NULL,
     OH ''CMSG_LEAVE_BATTLEFIELD'' True STATUS_LOGGEDIN PACKET_STATE_NODE PACKET_STATE_PASS Handle_NULL,
     OH ''CMSG_AREA_SPIRIT_HEALER_QUERY'' True STATUS_LOGGEDIN PACKET_STATE_NODE PACKET_STATE_PASS Handle_NULL,
     OH ''CMSG_AREA_SPIRIT_HEALER_QUEUE'' True STATUS_LOGGEDIN PACKET_STATE_NODE PACKET_STATE_PASS Handle_NULL,
     OH ''SMSG_AREA_SPIRIT_HEALER_TIME'' True STATUS_NEVER PACKET_STATE_NODE PACKET_STATE_PASS Handle_ServerSide,
     OH ''CMSG_GM_UNTEACH'' True STATUS_NEVER PACKET_STATE_NODE PACKET_STATE_PASS Handle_NULL,
     OH ''SMSG_WARDEN_DATA'' True STATUS_NEVER PACKET_STATE_NULL PACKET_STATE_NULL Handle_ServerSide,
     OH ''CMSG_WARDEN_DATA'' False STATUS_AUTHED PACKET_STATE_LOGON PACKET_STATE_NULL (OtherHandler ''HandleWardenDataOpcode''),
     OH ''SMSG_GROUP_JOINED_BATTLEGROUND'' True STATUS_NEVER PACKET_STATE_NODE PACKET_STATE_PASS Handle_ServerSide,
     OH ''MSG_BATTLEGROUND_PLAYER_POSITIONS'' True STATUS_LOGGEDIN PACKET_STATE_NODE PACKET_STATE_PASS Handle_NULL,
     OH ''CMSG_PET_STOP_ATTACK'' True STATUS_LOGGEDIN PACKET_STATE_NODE PACKET_STATE_PASS Handle_NULL,
     OH ''SMSG_BINDER_CONFIRM'' True STATUS_NEVER PACKET_STATE_NODE PACKET_STATE_PASS Handle_ServerSide,
     OH ''SMSG_BATTLEGROUND_PLAYER_JOINED'' True STATUS_NEVER PACKET_STATE_NODE PACKET_STATE_PASS Handle_ServerSide,
     OH ''SMSG_BATTLEGROUND_PLAYER_LEFT'' True STATUS_NEVER PACKET_STATE_NODE PACKET_STATE_PASS Handle_ServerSide,
     OH ''CMSG_BATTLEMASTER_JOIN'' True STATUS_LOGGEDIN PACKET_STATE_NODE PACKET_STATE_PASS Handle_NULL,
     OH ''SMSG_ADDON_INFO'' True STATUS_NEVER PACKET_STATE_NULL PACKET_STATE_NULL Handle_ServerSide,
     OH ''CMSG_PET_UNLEARN'' True STATUS_NEVER PACKET_STATE_NODE PACKET_STATE_PASS Handle_NULL,
     OH ''SMSG_PET_UNLEARN_CONFIRM'' True STATUS_NEVER PACKET_STATE_NODE PACKET_STATE_PASS Handle_ServerSide,
     OH ''SMSG_PARTY_MEMBER_STATS_FULL'' True STATUS_NEVER PACKET_STATE_NODE PACKET_STATE_PASS Handle_ServerSide,
     OH ''CMSG_PET_SPELL_AUTOCAST'' True STATUS_LOGGEDIN PACKET_STATE_NODE PACKET_STATE_PASS Handle_NULL,
     OH ''SMSG_WEATHER'' True STATUS_NEVER PACKET_STATE_NODE PACKET_STATE_PASS Handle_ServerSide,
     OH ''SMSG_PLAY_TIME_WARNING'' True STATUS_NEVER PACKET_STATE_NODE PACKET_STATE_PASS Handle_ServerSide,
     OH ''SMSG_MINIGAME_SETUP'' True STATUS_NEVER PACKET_STATE_NODE PACKET_STATE_PASS Handle_ServerSide,
     OH ''SMSG_MINIGAME_STATE'' True STATUS_NEVER PACKET_STATE_NODE PACKET_STATE_PASS Handle_ServerSide,
     OH ''CMSG_MINIGAME_MOVE'' True STATUS_NEVER PACKET_STATE_NODE PACKET_STATE_PASS Handle_NULL,
     OH ''SMSG_MINIGAME_MOVE_FAILED'' True STATUS_NEVER PACKET_STATE_NODE PACKET_STATE_PASS Handle_ServerSide,
     OH ''SMSG_RAID_INSTANCE_MESSAGE'' True STATUS_NEVER PACKET_STATE_NODE PACKET_STATE_PASS Handle_ServerSide,
     OH ''SMSG_COMPRESSED_MOVES'' True STATUS_NEVER PACKET_STATE_NODE PACKET_STATE_PASS Handle_ServerSide,
     OH ''CMSG_GUILD_INFO_TEXT'' True STATUS_LOGGEDIN PACKET_STATE_LOGON PACKET_STATE_LOGON (OtherHandler ''HandleGuildChangeInfoTextOpcode''),
     OH ''SMSG_CHAT_RESTRICTED'' True STATUS_NEVER PACKET_STATE_NODE PACKET_STATE_PASS Handle_ServerSide,
     OH ''SMSG_SPLINE_SET_RUN_SPEED'' True STATUS_NEVER PACKET_STATE_NODE PACKET_STATE_PASS Handle_ServerSide,
     OH ''SMSG_SPLINE_SET_RUN_BACK_SPEED'' True STATUS_NEVER PACKET_STATE_NODE PACKET_STATE_PASS Handle_ServerSide,
     OH ''SMSG_SPLINE_SET_SWIM_SPEED'' True STATUS_NEVER PACKET_STATE_NODE PACKET_STATE_PASS Handle_ServerSide,
     OH ''SMSG_SPLINE_SET_WALK_SPEED'' True STATUS_NEVER PACKET_STATE_NODE PACKET_STATE_PASS Handle_ServerSide,
     OH ''SMSG_SPLINE_SET_SWIM_BACK_SPEED'' True STATUS_NEVER PACKET_STATE_NODE PACKET_STATE_PASS Handle_ServerSide,
     OH ''SMSG_SPLINE_SET_TURN_RATE'' True STATUS_NEVER PACKET_STATE_NODE PACKET_STATE_PASS Handle_ServerSide,
     OH ''SMSG_SPLINE_MOVE_UNROOT'' True STATUS_NEVER PACKET_STATE_NODE PACKET_STATE_PASS Handle_ServerSide,
     OH ''SMSG_SPLINE_MOVE_FEATHER_FALL'' True STATUS_NEVER PACKET_STATE_NODE PACKET_STATE_PASS Handle_ServerSide,
     OH ''SMSG_SPLINE_MOVE_NORMAL_FALL'' True STATUS_NEVER PACKET_STATE_NODE PACKET_STATE_PASS Handle_ServerSide,
     OH ''SMSG_SPLINE_MOVE_SET_HOVER'' True STATUS_NEVER PACKET_STATE_NODE PACKET_STATE_PASS Handle_ServerSide,
     OH ''SMSG_SPLINE_MOVE_UNSET_HOVER'' True STATUS_NEVER PACKET_STATE_NODE PACKET_STATE_PASS Handle_ServerSide,
     OH ''SMSG_SPLINE_MOVE_WATER_WALK'' True STATUS_NEVER PACKET_STATE_NODE PACKET_STATE_PASS Handle_ServerSide,
     OH ''SMSG_SPLINE_MOVE_LAND_WALK'' True STATUS_NEVER PACKET_STATE_NODE PACKET_STATE_PASS Handle_ServerSide,
     OH ''SMSG_SPLINE_MOVE_START_SWIM'' True STATUS_NEVER PACKET_STATE_NODE PACKET_STATE_PASS Handle_ServerSide,
     OH ''SMSG_SPLINE_MOVE_STOP_SWIM'' True STATUS_NEVER PACKET_STATE_NODE PACKET_STATE_PASS Handle_ServerSide,
     OH ''SMSG_SPLINE_MOVE_SET_RUN_MODE'' True STATUS_NEVER PACKET_STATE_NODE PACKET_STATE_PASS Handle_ServerSide,
     OH ''SMSG_SPLINE_MOVE_SET_WALK_MODE'' True STATUS_NEVER PACKET_STATE_NODE PACKET_STATE_PASS Handle_ServerSide,
     OH ''CMSG_GM_NUKE_ACCOUNT'' True STATUS_NEVER PACKET_STATE_NODE PACKET_STATE_PASS Handle_NULL,
     OH ''MSG_GM_DESTROY_CORPSE'' True STATUS_NEVER PACKET_STATE_NODE PACKET_STATE_PASS Handle_NULL,
     OH ''CMSG_GM_DESTROY_ONLINE_CORPSE'' True STATUS_NEVER PACKET_STATE_NODE PACKET_STATE_PASS Handle_NULL,
     OH ''CMSG_ACTIVATETAXIEXPRESS'' True STATUS_LOGGEDIN PACKET_STATE_NODE PACKET_STATE_PASS Handle_NULL,
     OH ''SMSG_SET_FACTION_ATWAR'' True STATUS_NEVER PACKET_STATE_NODE PACKET_STATE_PASS Handle_ServerSide,
     OH ''SMSG_GAMETIMEBIAS_SET'' True STATUS_NEVER PACKET_STATE_NODE PACKET_STATE_PASS Handle_ServerSide,
     OH ''CMSG_DEBUG_ACTIONS_START'' True STATUS_NEVER PACKET_STATE_NODE PACKET_STATE_PASS Handle_NULL,
     OH ''CMSG_DEBUG_ACTIONS_STOP'' True STATUS_NEVER PACKET_STATE_NODE PACKET_STATE_PASS Handle_NULL,
     OH ''CMSG_SET_FACTION_INACTIVE'' True STATUS_LOGGEDIN PACKET_STATE_NODE PACKET_STATE_PASS Handle_NULL,
     OH ''CMSG_SET_WATCHED_FACTION'' True STATUS_LOGGEDIN PACKET_STATE_NODE PACKET_STATE_PASS Handle_NULL,
     OH ''MSG_MOVE_TIME_SKIPPED'' True STATUS_NEVER PACKET_STATE_NODE PACKET_STATE_PASS Handle_NULL,
     OH ''SMSG_SPLINE_MOVE_ROOT'' True STATUS_NEVER PACKET_STATE_NODE PACKET_STATE_PASS Handle_ServerSide,
     OH ''CMSG_SET_EXPLORATION_ALL'' True STATUS_NEVER PACKET_STATE_NODE PACKET_STATE_PASS Handle_NULL,
     OH ''SMSG_INVALIDATE_PLAYER'' True STATUS_NEVER PACKET_STATE_NODE PACKET_STATE_PASS Handle_ServerSide,
     OH ''CMSG_RESET_INSTANCES'' True STATUS_LOGGEDIN PACKET_STATE_NODE PACKET_STATE_PASS Handle_NULL,
     OH ''SMSG_INSTANCE_RESET'' True STATUS_NEVER PACKET_STATE_NODE PACKET_STATE_PASS Handle_ServerSide,
     OH ''SMSG_INSTANCE_RESET_FAILED'' True STATUS_NEVER PACKET_STATE_NODE PACKET_STATE_PASS Handle_ServerSide,
     OH ''SMSG_UPDATE_LAST_INSTANCE'' True STATUS_NEVER PACKET_STATE_NODE PACKET_STATE_PASS Handle_ServerSide,
     OH ''MSG_RAID_TARGET_UPDATE'' True STATUS_LOGGEDIN PACKET_STATE_NODE PACKET_STATE_PASS Handle_NULL,
     OH ''MSG_RAID_READY_CHECK'' True STATUS_LOGGEDIN PACKET_STATE_NODE PACKET_STATE_PASS Handle_NULL,
     OH ''CMSG_LUA_USAGE'' True STATUS_NEVER PACKET_STATE_NODE PACKET_STATE_PASS Handle_NULL,
     OH ''SMSG_PET_ACTION_SOUND'' True STATUS_NEVER PACKET_STATE_NODE PACKET_STATE_PASS Handle_ServerSide,
     OH ''SMSG_PET_DISMISS_SOUND'' True STATUS_NEVER PACKET_STATE_NODE PACKET_STATE_PASS Handle_ServerSide,
     OH ''SMSG_GHOSTEE_GONE'' True STATUS_NEVER PACKET_STATE_NODE PACKET_STATE_PASS Handle_ServerSide,
     OH ''CMSG_GM_UPDATE_TICKET_STATUS'' True STATUS_NEVER PACKET_STATE_NODE PACKET_STATE_PASS Handle_NULL,
     OH ''SMSG_GM_TICKET_STATUS_UPDATE'' True STATUS_NEVER PACKET_STATE_NODE PACKET_STATE_PASS Handle_ServerSide,
     OH ''MSG_SET_DUNGEON_DIFFICULTY'' True STATUS_LOGGEDIN PACKET_STATE_NODE PACKET_STATE_PASS Handle_NULL,
     OH ''CMSG_GMSURVEY_SUBMIT'' True STATUS_LOGGEDIN PACKET_STATE_LOGON PACKET_STATE_PASS (OtherHandler ''HandleGMSurveySubmit''),
     OH ''SMSG_UPDATE_INSTANCE_OWNERSHIP'' True STATUS_NEVER PACKET_STATE_NODE PACKET_STATE_PASS Handle_ServerSide,
     OH ''CMSG_IGNORE_KNOCKBACK_CHEAT'' True STATUS_NEVER PACKET_STATE_NODE PACKET_STATE_PASS Handle_NULL,
     OH ''SMSG_CHAT_PLAYER_AMBIGUOUS'' True STATUS_NEVER PACKET_STATE_NODE PACKET_STATE_PASS Handle_ServerSide,
     OH ''MSG_DELAY_GHOST_TELEPORT'' True STATUS_NEVER PACKET_STATE_NODE PACKET_STATE_PASS Handle_NULL,
     OH ''SMSG_SPELLINSTAKILLLOG'' True STATUS_NEVER PACKET_STATE_NODE PACKET_STATE_PASS Handle_ServerSide,
     OH ''SMSG_SPELL_UPDATE_CHAIN_TARGETS'' True STATUS_NEVER PACKET_STATE_NODE PACKET_STATE_PASS Handle_ServerSide,
     OH ''CMSG_CHAT_FILTERED'' True STATUS_NEVER PACKET_STATE_NODE PACKET_STATE_PASS Handle_NULL,
     OH ''SMSG_EXPECTED_SPAM_RECORDS'' True STATUS_NEVER PACKET_STATE_NODE PACKET_STATE_PASS Handle_ServerSide,
     OH ''SMSG_SPELLSTEALLOG'' True STATUS_NEVER PACKET_STATE_NODE PACKET_STATE_PASS Handle_ServerSide,
     OH ''CMSG_LOTTERY_QUERY_OBSOLETE'' True STATUS_NEVER PACKET_STATE_NODE PACKET_STATE_PASS Handle_NULL,
     OH ''SMSG_LOTTERY_QUERY_RESULT_OBSOLETE'' True STATUS_NEVER PACKET_STATE_NODE PACKET_STATE_PASS Handle_ServerSide,
     OH ''CMSG_BUY_LOTTERY_TICKET_OBSOLETE'' True STATUS_NEVER PACKET_STATE_NODE PACKET_STATE_PASS Handle_NULL,
     OH ''SMSG_LOTTERY_RESULT_OBSOLETE'' True STATUS_NEVER PACKET_STATE_NODE PACKET_STATE_PASS Handle_ServerSide,
     OH ''SMSG_CHARACTER_PROFILE'' True STATUS_NEVER PACKET_STATE_NODE PACKET_STATE_PASS Handle_ServerSide,
     OH ''SMSG_CHARACTER_PROFILE_REALM_CONNECTED'' True STATUS_NEVER PACKET_STATE_NODE PACKET_STATE_PASS Handle_ServerSide,
     OH ''SMSG_DEFENSE_MESSAGE'' True STATUS_NEVER PACKET_STATE_NODE PACKET_STATE_PASS Handle_ServerSide,
     OH ''SMSG_INSTANCE_DIFFICULTY'' True STATUS_NEVER PACKET_STATE_NODE PACKET_STATE_PASS Handle_ServerSide,
     OH ''MSG_GM_RESETINSTANCELIMIT'' True STATUS_NEVER PACKET_STATE_NODE PACKET_STATE_PASS Handle_NULL,
     OH ''SMSG_MOTD'' True STATUS_NEVER PACKET_STATE_NODE PACKET_STATE_PASS Handle_ServerSide,
     OH ''SMSG_MOVE_SET_FLIGHT'' True STATUS_NEVER PACKET_STATE_NODE PACKET_STATE_PASS Handle_ServerSide,
     OH ''SMSG_MOVE_UNSET_FLIGHT'' True STATUS_NEVER PACKET_STATE_NODE PACKET_STATE_PASS Handle_ServerSide,
     OH ''CMSG_MOVE_FLIGHT_ACK'' True STATUS_NEVER PACKET_STATE_NODE PACKET_STATE_PASS Handle_NULL,
     OH ''MSG_MOVE_START_SWIM_CHEAT'' True STATUS_NEVER PACKET_STATE_NODE PACKET_STATE_PASS Handle_NULL,
     OH ''MSG_MOVE_STOP_SWIM_CHEAT'' True STATUS_NEVER PACKET_STATE_NODE PACKET_STATE_PASS Handle_NULL,
     OH ''SMSG_MOVE_SET_CAN_FLY'' True STATUS_NEVER PACKET_STATE_NODE PACKET_STATE_PASS Handle_ServerSide,
     OH ''SMSG_MOVE_UNSET_CAN_FLY'' True STATUS_NEVER PACKET_STATE_NODE PACKET_STATE_PASS Handle_ServerSide,
     OH ''CMSG_MOVE_SET_CAN_FLY_ACK'' True STATUS_LOGGEDIN PACKET_STATE_NODE PACKET_STATE_PASS Handle_NULL,
     OH ''CMSG_MOVE_SET_FLY'' True STATUS_LOGGEDIN PACKET_STATE_NODE PACKET_STATE_PASS Handle_NULL,
     OH ''CMSG_SOCKET_GEMS'' True STATUS_LOGGEDIN PACKET_STATE_NODE PACKET_STATE_PASS Handle_NULL,
     OH ''CMSG_ARENA_TEAM_CREATE'' True STATUS_NEVER PACKET_STATE_NODE PACKET_STATE_PASS Handle_NULL,
     OH ''SMSG_ARENA_TEAM_COMMAND_RESULT'' True STATUS_NEVER PACKET_STATE_NODE PACKET_STATE_PASS Handle_ServerSide,
     OH ''UMSG_UPDATE_ARENA_TEAM_OBSOLETE'' True STATUS_NEVER PACKET_STATE_NODE PACKET_STATE_PASS Handle_NULL,
     OH ''CMSG_ARENA_TEAM_QUERY'' True STATUS_LOGGEDIN PACKET_STATE_NODE PACKET_STATE_PASS Handle_NULL,
     OH ''SMSG_ARENA_TEAM_QUERY_RESPONSE'' True STATUS_NEVER PACKET_STATE_NODE PACKET_STATE_PASS Handle_ServerSide,
     OH ''CMSG_ARENA_TEAM_ROSTER'' True STATUS_LOGGEDIN PACKET_STATE_NODE PACKET_STATE_PASS Handle_NULL,
     OH ''SMSG_ARENA_TEAM_ROSTER'' True STATUS_NEVER PACKET_STATE_NODE PACKET_STATE_PASS Handle_ServerSide,
     OH ''CMSG_ARENA_TEAM_INVITE'' True STATUS_LOGGEDIN PACKET_STATE_NODE PACKET_STATE_PASS Handle_NULL,
     OH ''SMSG_ARENA_TEAM_INVITE'' True STATUS_NEVER PACKET_STATE_NODE PACKET_STATE_PASS Handle_ServerSide,
     OH ''CMSG_ARENA_TEAM_ACCEPT'' True STATUS_LOGGEDIN PACKET_STATE_NODE PACKET_STATE_PASS Handle_NULL,
     OH ''CMSG_ARENA_TEAM_DECLINE'' True STATUS_LOGGEDIN PACKET_STATE_NODE PACKET_STATE_PASS Handle_NULL,
     OH ''CMSG_ARENA_TEAM_LEAVE'' True STATUS_LOGGEDIN PACKET_STATE_NODE PACKET_STATE_PASS Handle_NULL,
     OH ''CMSG_ARENA_TEAM_REMOVE'' True STATUS_LOGGEDIN PACKET_STATE_NODE PACKET_STATE_PASS Handle_NULL,
     OH ''CMSG_ARENA_TEAM_DISBAND'' True STATUS_LOGGEDIN PACKET_STATE_NODE PACKET_STATE_PASS Handle_NULL,
     OH ''CMSG_ARENA_TEAM_LEADER'' True STATUS_LOGGEDIN PACKET_STATE_NODE PACKET_STATE_PASS Handle_NULL,
     OH ''SMSG_ARENA_TEAM_EVENT'' True STATUS_NEVER PACKET_STATE_NODE PACKET_STATE_PASS Handle_ServerSide,
     OH ''CMSG_BATTLEMASTER_JOIN_ARENA'' True STATUS_LOGGEDIN PACKET_STATE_NODE PACKET_STATE_PASS Handle_NULL,
     OH ''MSG_MOVE_START_ASCEND'' True STATUS_LOGGEDIN PACKET_STATE_NODE PACKET_STATE_PASS Handle_NULL,
     OH ''MSG_MOVE_STOP_ASCEND'' True STATUS_LOGGEDIN PACKET_STATE_NODE PACKET_STATE_PASS Handle_NULL,
     OH ''SMSG_ARENA_TEAM_STATS'' True STATUS_NEVER PACKET_STATE_NODE PACKET_STATE_PASS Handle_ServerSide,
     OH ''CMSG_LFG_JOIN'' True STATUS_LOGGEDIN PACKET_STATE_NODE PACKET_STATE_PASS Handle_NULL,
     OH ''CMSG_LFG_LEAVE'' True STATUS_LOGGEDIN PACKET_STATE_NODE PACKET_STATE_PASS Handle_NULL,
     OH ''CMSG_SEARCH_LFG_JOIN'' True STATUS_LOGGEDIN PACKET_STATE_NODE PACKET_STATE_PASS Handle_NULL,
     OH ''CMSG_SEARCH_LFG_LEAVE'' True STATUS_LOGGEDIN PACKET_STATE_NODE PACKET_STATE_PASS Handle_NULL,
     OH ''SMSG_UPDATE_LFG_LIST'' True STATUS_NEVER PACKET_STATE_NODE PACKET_STATE_PASS Handle_ServerSide,
     OH ''SMSG_LFG_PROPOSAL_UPDATE'' True STATUS_NEVER PACKET_STATE_NODE PACKET_STATE_PASS Handle_ServerSide,
     OH ''CMSG_LFG_PROPOSAL_RESULT'' True STATUS_LOGGEDIN PACKET_STATE_NODE PACKET_STATE_PASS Handle_NULL,
     OH ''SMSG_LFG_ROLE_CHECK_UPDATE'' True STATUS_NEVER PACKET_STATE_NODE PACKET_STATE_PASS Handle_ServerSide,
     OH ''SMSG_LFG_JOIN_RESULT'' True STATUS_NEVER PACKET_STATE_NODE PACKET_STATE_PASS Handle_ServerSide,
     OH ''SMSG_LFG_QUEUE_STATUS'' True STATUS_NEVER PACKET_STATE_NODE PACKET_STATE_PASS Handle_ServerSide,
     OH ''CMSG_SET_LFG_COMMENT'' True STATUS_LOGGEDIN PACKET_STATE_NODE PACKET_STATE_PASS Handle_NULL,
     OH ''SMSG_LFG_UPDATE_PLAYER'' True STATUS_NEVER PACKET_STATE_NODE PACKET_STATE_PASS Handle_ServerSide,
     OH ''SMSG_LFG_UPDATE_PARTY'' True STATUS_NEVER PACKET_STATE_NODE PACKET_STATE_PASS Handle_ServerSide,
     OH ''SMSG_LFG_UPDATE_SEARCH'' True STATUS_NEVER PACKET_STATE_NODE PACKET_STATE_PASS Handle_ServerSide,
     OH ''CMSG_LFG_SET_ROLES'' True STATUS_LOGGEDIN PACKET_STATE_NODE PACKET_STATE_PASS Handle_NULL,
     OH ''CMSG_LFG_SET_NEEDS'' True STATUS_NEVER PACKET_STATE_NODE PACKET_STATE_PASS Handle_NULL,
     OH ''CMSG_LFG_SET_BOOT_VOTE'' True STATUS_LOGGEDIN PACKET_STATE_NODE PACKET_STATE_PASS Handle_NULL,
     OH ''SMSG_LFG_BOOT_PROPOSAL_UPDATE'' True STATUS_NEVER PACKET_STATE_NODE PACKET_STATE_PASS Handle_ServerSide,
     OH ''CMSG_LFD_PLAYER_LOCK_INFO_REQUEST'' True STATUS_LOGGEDIN PACKET_STATE_NODE PACKET_STATE_PASS Handle_NULL,
     OH ''SMSG_LFG_PLAYER_INFO'' True STATUS_NEVER PACKET_STATE_NODE PACKET_STATE_PASS Handle_ServerSide,
     OH ''CMSG_LFG_TELEPORT'' True STATUS_LOGGEDIN PACKET_STATE_NODE PACKET_STATE_PASS Handle_NULL,
     OH ''CMSG_LFD_PARTY_LOCK_INFO_REQUEST'' True STATUS_LOGGEDIN PACKET_STATE_NODE PACKET_STATE_PASS Handle_NULL]"

definition opcode_rows_6 :: "OpcodeHandler list" where
  "opcode_rows_6 = [
     OH ''SMSG_LFG_PARTY_INFO'' True STATUS_NEVER PACKET_STATE_NODE PACKET_STATE_PASS Handle_ServerSide,
     OH ''SMSG_TITLE_EARNED'' True STATUS_NEVER PACKET_STATE_NODE PACKET_STATE_PASS Handle_ServerSide,
     OH ''CMSG_SET_TITLE'' True STATUS_LOGGEDIN PACKET_STATE_NODE PACKET_STATE_PASS Handle_NULL,
     OH ''CMSG_CANCEL_MOUNT_AURA'' True STATUS_LOGGEDIN PACKET_STATE_NODE PACKET_STATE_PASS Handle_NULL,
     OH ''SMSG_ARENA_ERROR'' True STATUS_NEVER PACKET_STATE_NODE PACKET_STATE_PASS Handle_ServerSide,
     OH ''MSG_INSPECT_ARENA_TEAMS'' True STATUS_LOGGEDIN PACKET_STATE_NODE PACKET_STATE_PASS Handle_NULL,
     OH ''SMSG_DEATH_RELEASE_LOC'' True STATUS_NEVER PACKET_STATE_NODE PACKET_STATE_PASS Handle_ServerSide,
     OH ''CMSG_CANCEL_TEMP_ENCHANTMENT'' True STATUS_LOGGEDIN PACKET_STATE_NODE PACKET_STATE_PASS Handle_NULL,
     OH ''SMSG_FORCED_DEATH_UPDATE'' True STATUS_NEVER PACKET_STATE_NODE PACKET_STATE_PASS Handle_ServerSide,
     OH ''CMSG_CHEAT_SET_HONOR_CURRENCY'' True STATUS_NEVER PACKET_STATE_NODE PACKET_STATE_PASS Handle_NULL,
     OH ''CMSG_CHEAT_SET_ARENA_CURRENCY'' True STATUS_NEVER PACKET_STATE_NODE PACKET_STATE_PASS Handle_NULL,
     OH ''MSG_MOVE_SET_FLIGHT_SPEED_CHEAT'' True STATUS_NEVER PACKET_STATE_NODE PACKET_STATE_PASS Handle_NULL,
     OH ''MSG_MOVE_SET_FLIGHT_SPEED'' True STATUS_NEVER PACKET_STATE_NODE PACKET_STATE_PASS Handle_NULL,
     OH ''MSG_MOVE_SET_FLIGHT_BACK_SPEED_CHEAT'' True STATUS_NEVER PACKET_STATE_NODE PACKET_STATE_PASS Handle_NULL,
     OH ''MSG_MOVE_SET_FLIGHT_BACK_SPEED'' True STATUS_NEVER PACKET_STATE_NODE PACKET_STATE_PASS Handle_NULL,
     OH ''SMSG_FORCE_FLIGHT_SPEED_CHANGE'' True STATUS_NEVER PACKET_STATE_NODE PACKET_STATE_PASS Handle_ServerSide,
     OH ''CMSG_FORCE_FLIGHT_SPEED_CHANGE_ACK'' True STATUS_LOGGEDIN PACKET_STATE_NODE PACKET_STATE_PASS Handle_NULL,
     OH ''SMSG_FORCE_FLIGHT_BACK_SPEED_CHANGE'' True STATUS_NEVER PACKET_STATE_NODE PACKET_STATE_PASS Handle_ServerSide,
     OH ''CMSG_FORCE_FLIGHT_BACK_SPEED_CHANGE_ACK'' True STATUS_LOGGEDIN PACKET_STATE_NODE PACKET_STATE_PASS Handle_NULL,
     OH ''SMSG_SPLINE_SET_FLIGHT_SPEED'' True STATUS_NEVER PACKET_STATE_NODE PACKET_STATE_PASS Handle_ServerSide,
     OH ''SMSG_SPLINE_SET_FLIGHT_BACK_SPEED'' True STATUS_NEVER PACKET_STATE_NODE PACKET_STATE_PASS Handle_ServerSide,
     OH ''CMSG_MAELSTROM_INVALIDATE_CACHE'' True STATUS_NEVER PACKET_STATE_NODE PACKET_STATE_PASS Handle_NULL,
     OH ''SMSG_FLIGHT_SPLINE_SYNC'' True STATUS_NEVER PACKET_STATE_NODE PACKET_STATE_PASS Handle_ServerSide,
     OH ''CMSG_SET_TAXI_BENCHMARK_MODE'' True STATUS_AUTHED PACKET_STATE_NULL PACKET_STATE_PASS Handle_NULL,
     OH ''SMSG_JOINED_BATTLEGROUND_QUEUE'' True STATUS_NEVER PACKET_STATE_NODE PACKET_STATE_PASS Handle_ServerSide,
     OH ''SMSG_REALM_SPLIT'' True STATUS_NEVER PACKET_STATE_NODE PACKET_STATE_PASS Handle_ServerSide,
     OH ''CMSG_REALM_SPLIT'' True STATUS_AUTHED PACKET_STATE_NODE PACKET_STATE_PASS Handle_NULL,
     OH ''CMSG_MOVE_CHNG_TRANSPORT'' True STATUS_LOGGEDIN PACKET_STATE_NODE PACKET_STATE_PASS Handle_NULL,
     OH ''MSG_PARTY_ASSIGNMENT'' True STATUS_LOGGEDIN PACKET_STATE_NODE PACKET_STATE_PASS Handle_NULL,
     OH ''SMSG_OFFER_PETITION_ERROR'' True STATUS_NEVER PACKET_STATE_NODE PACKET_STATE_PASS Handle_ServerSide,
     OH ''SMSG_TIME_SYNC_REQ'' True STATUS_NEVER PACKET_STATE_NODE PACKET_STATE_PASS Handle_ServerSide,
     OH ''CMSG_TIME_SYNC_RESP'' True STATUS_LOGGEDIN PACKET_STATE_NODE PACKET_STATE_PASS Handle_NULL,
     OH ''CMSG_SEND_LOCAL_EVENT'' True STATUS_NEVER PACKET_STATE_NODE PACKET_STATE_PASS Handle_NULL,
     OH ''CMSG_SEND_GENERAL_TRIGGER'' True STATUS_NEVER PACKET_STATE_NODE PACKET_STATE_PASS Handle_NULL,
     OH ''CMSG_SEND_COMBAT_TRIGGER'' True STATUS_NEVER PACKET_STATE_NODE PACKET_STATE_PASS Handle_NULL,
     OH ''CMSG_MAELSTROM_GM_SENT_MAIL'' True STATUS_NEVER PACKET_STATE_NODE PACKET_STATE_PASS Handle_NULL,
     OH ''SMSG_RESET_FAILED_NOTIFY'' True STATUS_NEVER PACKET_STATE_NODE PACKET_STATE_PASS Handle_ServerSide,
     OH ''SMSG_REAL_GROUP_UPDATE'' True STATUS_NEVER PACKET_STATE_NODE PACKET_STATE_PASS Handle_ServerSide,
     OH ''SMSG_LFG_DISABLED'' True STATUS_NEVER PACKET_STATE_NODE PACKET_STATE_PASS Handle_ServerSide,
     OH ''CMSG_ACTIVE_PVP_CHEAT'' True STATUS_NEVER PACKET_STATE_NODE PACKET_STATE_PASS Handle_NULL,
     OH ''CMSG_CHEAT_DUMP_ITEMS_DEBUG_ONLY'' True STATUS_NEVER PACKET_STATE_NODE PACKET_STATE_PASS Handle_NULL,
     OH ''SMSG_CHEAT_DUMP_ITEMS_DEBUG_ONLY_RESPONSE'' True STATUS_NEVER PACKET_STATE_NODE PACKET_STATE_PASS Handle_ServerSide,
     OH ''SMSG_CHEAT_DUMP_ITEMS_DEBUG_ONLY_RESPONSE_WRITE_FILE'' True STATUS_NEVER PACKET_STATE_NODE PACKET_STATE_PASS Handle_ServerSide,
     OH ''SMSG_UPDATE_COMBO_POINTS'' True STATUS_NEVER PACKET_STATE_NODE PACKET_STATE_PASS Handle_ServerSide,
     OH ''SMSG_VOICE_SESSION_ROSTER_UPDATE'' True STATUS_NEVER PACKET_STATE_NODE PACKET_STATE_PASS Handle_ServerSide,
     OH ''SMSG_VOICE_SESSION_LEAVE'' True STATUS_NEVER PACKET_STATE_NODE PACKET_STATE_PASS Handle_ServerSide,
     OH ''SMSG_VOICE_SESSION_ADJUST_PRIORITY'' True STATUS_NEVER PACKET_STATE_NODE PACKET_STATE_PASS Handle_ServerSide,
     OH ''CMSG_VOICE_SET_TALKER_MUTED_REQUEST'' True STATUS_LOGGEDIN PACKET_STATE_NULL PACKET_STATE_NULL Handle_NULL,
     OH ''SMSG_VOICE_SET_TALKER_MUTED'' True STATUS_NEVER PACKET_STATE_NULL PACKET_STATE_NULL Handle_ServerSide,
     OH ''SMSG_INIT_EXTRA_AURA_INFO_OBSOLETE'' True STATUS_NEVER PACKET_STATE_NODE PACKET_STATE_PASS Handle_ServerSide,
     OH ''SMSG_SET_EXTRA_AURA_INFO_OBSOLETE'' True STATUS_NEVER PACKET_STATE_NODE PACKET_STATE_PASS Handle_ServerSide,
     OH ''SMSG_SET_EXTRA_AURA_INFO_NEED_UPDATE_OBSOLETE'' True STATUS_NEVER PACKET_STATE_NODE PACKET_STATE_PASS Handle_ServerSide,
     OH ''SMSG_CLEAR_EXTRA_AURA_INFO_OBSOLETE'' True STATUS_NEVER PACKET_STATE_NODE PACKET_STATE_PASS Handle_ServerSide,
     OH ''MSG_MOVE_START_DESCEND'' True STATUS_LOGGEDIN PACKET_STATE_NODE PACKET_STATE_PASS Handle_NULL,
     OH ''CMSG_IGNORE_REQUIREMENTS_CHEAT'' True STATUS_NEVER PACKET_STATE_NODE PACKET_STATE_PASS Handle_NULL,
     OH ''SMSG_IGNORE_REQUIREMENTS_CHEAT'' True STATUS_NEVER PACKET_STATE_NODE PACKET_STATE_PASS Handle_ServerSide,
     OH ''SMSG_SPELL_CHANCE_PROC_LOG'' True STATUS_NEVER PACKET_STATE_NODE PACKET_STATE_PASS Handle_ServerSide,
     OH ''CMSG_MOVE_SET_RUN_SPEED'' True STATUS_NEVER PACKET_STATE_NODE PACKET_STATE_PASS Handle_NULL,
     OH ''SMSG_DISMOUNT'' True STATUS_NEVER PACKET_STATE_NODE PACKET_STATE_PASS Handle_ServerSide,
     OH ''MSG_MOVE_UPDATE_CAN_FLY'' True STATUS_NEVER PACKET_STATE_NODE PACKET_STATE_PASS Handle_NULL,
     OH ''MSG_RAID_READY_CHECK_CONFIRM'' True STATUS_NEVER PACKET_STATE_NODE PACKET_STATE_PASS Handle_NULL,
     OH ''CMSG_VOICE_SESSION_ENABLE'' True STATUS_AUTHED PACKET_STATE_NODE PACKET_STATE_PASS Handle_NULL,
     OH ''SMSG_VOICE_SESSION_ENABLE'' True STATUS_NEVER PACKET_STATE_NODE PACKET_STATE_PASS Handle_NULL,
     OH ''SMSG_VOICE_PARENTAL_CONTROLS'' True STATUS_NEVER PACKET_STATE_NODE PACKET_STATE_PASS Handle_ServerSide,
     OH ''CMSG_GM_WHISPER'' True STATUS_NEVER PACKET_STATE_NODE PACKET_STATE_PASS Handle_NULL,
     OH ''SMSG_GM_MESSAGECHAT'' True STATUS_NEVER PACKET_STATE_NODE PACKET_STATE_PASS Handle_ServerSide,
     OH ''MSG_GM_GEARRATING'' True STATUS_NEVER PACKET_STATE_NODE PACKET_STATE_PASS Handle_NULL,
     OH ''CMSG_COMMENTATOR_ENABLE'' True STATUS_NEVER PACKET_STATE_NODE PACKET_STATE_PASS Handle_NULL,
     OH ''SMSG_COMMENTATOR_STATE_CHANGED'' True STATUS_NEVER PACKET_STATE_NODE PACKET_STATE_PASS Handle_ServerSide,
     OH ''CMSG_COMMENTATOR_GET_MAP_INFO'' True STATUS_NEVER PACKET_STATE_NODE PACKET_STATE_PASS Handle_NULL,
     OH ''SMSG_COMMENTATOR_MAP_INFO'' True STATUS_NEVER PACKET_STATE_NODE PACKET_STATE_PASS Handle_ServerSide,
     OH ''CMSG_COMMENTATOR_GET_PLAYER_INFO'' True STATUS_NEVER PACKET_STATE_NODE PACKET_STATE_PASS Handle_NULL,
     OH ''SMSG_COMMENTATOR_GET_PLAYER_INFO'' True STATUS_NEVER PACKET_STATE_NODE PACKET_STATE_PASS Handle_ServerSide,
     OH ''SMSG_COMMENTATOR_PLAYER_INFO'' True STATUS_NEVER PACKET_STATE_NODE PACKET_STATE_PASS Handle_ServerSide,
     OH ''CMSG_COMMENTATOR_ENTER_INSTANCE'' True STATUS_NEVER PACKET_STATE_NODE PACKET_STATE_PASS Handle_NULL,
     OH ''CMSG_COMMENTATOR_EXIT_INSTANCE'' True STATUS_NEVER PACKET_STATE_NODE PACKET_STATE_PASS Handle_NULL,
     OH ''CMSG_COMMENTATOR_INSTANCE_COMMAND'' True STATUS_NEVER PACKET_STATE_NODE PACKET_STATE_PASS Handle_NULL,
     OH ''SMSG_CLEAR_TARGET'' True STATUS_NEVER PACKET_STATE_NODE PACKET_STATE_PASS Handle_ServerSide,
     OH ''CMSG_BOT_DETECTED'' True STATUS_NEVER PACKET_STATE_NODE PACKET_STATE_PASS Handle_NULL,
     OH ''SMSG_CROSSED_INEBRIATION_THRESHOLD'' True STATUS_NEVER PACKET_STATE_NODE PACKET_STATE_PASS Handle_ServerSide,
     OH ''CMSG_CHEAT_PLAYER_LOGIN'' True STATUS_NEVER PACKET_STATE_NODE PACKET_STATE_PASS Handle_NULL,
     OH ''CMSG_CHEAT_PLAYER_LOOKUP'' True STATUS_NEVER PACKET_STATE_NODE PACKET_STATE_PASS Handle_NULL,
     OH ''SMSG_CHEAT_PLAYER_LOOKUP'' True STATUS_NEVER PACKET_STATE_NODE PACKET_STATE_PASS Handle_ServerSide,
     OH ''SMSG_KICK_REASON'' True STATUS_NEVER PACKET_STATE_NODE PACKET_STATE_PASS Handle_ServerSide,
     OH ''MSG_RAID_READY_CHECK_FINISHED'' True STATUS_LOGGEDIN PACKET_STATE_NODE PACKET_STATE_PASS Handle_NULL,
     OH ''CMSG_COMPLAIN'' True STATUS_LOGGEDIN PACKET_STATE_NODE PACKET_STATE_PASS Handle_NULL,
     OH ''SMSG_COMPLAIN_RESULT'' True STATUS_NEVER PACKET_STATE_NODE PACKET_STATE_PASS Handle_ServerSide,
     OH ''SMSG_FEATURE_SYSTEM_STATUS'' True STATUS_NEVER PACKET_STATE_NODE PACKET_STATE_PASS Handle_ServerSide,
     OH ''CMSG_GM_SHOW_COMPLAINTS'' True STATUS_NEVER PACKET_STATE_NODE PACKET_STATE_PASS Handle_NULL,
     OH ''CMSG_GM_UNSQUELCH'' True STATUS_NEVER PACKET_STATE_NODE PACKET_STATE_PASS Handle_NULL,
     OH ''CMSG_CHANNEL_SILENCE_VOICE'' True STATUS_LOGGEDIN PACKET_STATE_NODE PACKET_STATE_PASS Handle_NULL,
     OH ''CMSG_CHANNEL_SILENCE_ALL'' True STATUS_LOGGEDIN PACKET_STATE_NODE PACKET_STATE_PASS Handle_NULL,
     OH ''CMSG_CHANNEL_UNSILENCE_VOICE'' True STATUS_LOGGEDIN PACKET_STATE_NODE PACKET_STATE_PASS Handle_NULL,
     OH ''CMSG_CHANNEL_UNSILENCE_ALL'' True STATUS_LOGGEDIN PACKET_STATE_NODE PACKET_STATE_PASS Handle_NULL,
     OH ''CMSG_TARGET_CAST'' True STATUS_NEVER PACKET_STATE_NODE PACKET_STATE_PASS Handle_NULL,
     OH ''CMSG_TARGET_SCRIPT_CAST'' True STATUS_NEVER PACKET_STATE_NODE PACKET_STATE_PASS Handle_NULL,
     OH ''CMSG_CHANNEL_DISPLAY_LIST'' False STATUS_LOGGEDIN PACKET_STATE_LOGON PACKET_STATE_PASS (OtherHandler ''HandleChannelDisplayListQuery''),
     OH ''CMSG_SET_ACTIVE_VOICE_CHANNEL'' True STATUS_AUTHED PACKET_STATE_NULL PACKET_STATE_NULL Handle_NULL,
     OH ''CMSG_GET_CHANNEL_MEMBER_COUNT'' False STATUS_LOGGEDIN PACKET_STATE_LOGON PACKET_STATE_NULL (OtherHandler ''HandleGetChannelMemberCount''),
     OH ''SMSG_CHANNEL_MEMBER_COUNT'' True STATUS_NEVER PACKET_STATE_NULL PACKET_STATE_PASS Handle_ServerSide,
     OH ''CMSG_CHANNEL_VOICE_ON'' True STATUS_LOGGEDIN PACKET_STATE_NULL PACKET_STATE_NULL Handle_NULL,
     OH ''CMSG_CHANNEL_VOICE_OFF'' True STATUS_LOGGEDIN PACKET_STATE_NULL PACKET_STATE_NULL Handle_NULL,
     OH ''CMSG_DEBUG_LIST_TARGETS'' True STATUS_NEVER PACKET_STATE_NODE PACKET_STATE_PASS Handle_NULL,
     OH ''SMSG_DEBUG_LIST_TARGETS'' True STATUS_NEVER PACKET_STATE_NODE PACKET_STATE_PASS Handle_ServerSide,
     OH ''SMSG_AVAILABLE_VOICE_CHANNEL'' True STATUS_LOGGEDIN PACKET_STATE_NODE PACKET_STATE_PASS Handle_ServerSide,
     OH ''CMSG_ADD_VOICE_IGNORE'' True STATUS_LOGGEDIN PACKET_STATE_NODE PACKET_STATE_PASS Handle_NULL,
     OH ''CMSG_DEL_VOICE_IGNORE'' True STATUS_LOGGEDIN PACKET_STATE_NODE PACKET_STATE_PASS Handle_NULL,
     OH ''CMSG_PARTY_SILENCE'' True STATUS_LOGGEDIN PACKET_STATE_NODE PACKET_STATE_PASS Handle_NULL,
     OH ''CMSG_PARTY_UNSILENCE'' True STATUS_LOGGEDIN PACKET_STATE_NODE PACKET_STATE_PASS Handle_NULL,
     OH ''MSG_NOTIFY_PARTY_SQUELCH'' True STATUS_NEVER PACKET_STATE_NODE PACKET_STATE_PASS Handle_NULL,
     OH ''SMSG_COMSAT_RECONNECT_TRY'' True STATUS_NEVER PACKET_STATE_NODE PACKET_STATE_PASS Handle_ServerSide,
     OH ''SMSG_COMSAT_DISCONNECT'' True STATUS_NEVER PACKET_STATE_NODE PACKET_STATE_PASS Handle_ServerSide,
     OH ''SMSG_COMSAT_CONNECT_FAIL'' True STATUS_NEVER PACKET_STATE_NODE PACKET_STATE_PASS Handle_ServerSide,
     OH ''SMSG_VOICE_CHAT_STATUS'' True STATUS_NEVER PACKET_STATE_NODE PACKET_STATE_PASS Handle_ServerSide,
     OH ''CMSG_REPORT_PVP_AFK'' True STATUS_LOGGEDIN PACKET_STATE_NODE PACKET_STATE_PASS Handle_NULL,
     OH ''SMSG_REPORT_PVP_AFK_RESULT'' True STATUS_NEVER PACKET_STATE_NODE PACKET_STATE_PASS Handle_NULL,
     OH ''CMSG_GUILD_BANKER_ACTIVATE'' True STATUS_LOGGEDIN PACKET_STATE_NODE PACKET_STATE_PASS Handle_NULL,
     OH ''CMSG_GUILD_BANK_QUERY_TAB'' True STATUS_LOGGEDIN PACKET_STATE_NODE PACKET_STATE_PASS Handle_NULL,
     OH ''SMSG_GUILD_BANK_LIST'' True STATUS_NEVER PACKET_STATE_NODE PACKET_STATE_PASS Handle_ServerSide,
     OH ''CMSG_GUILD_BANK_SWAP_ITEMS'' True STATUS_LOGGEDIN PACKET_STATE_NODE PACKET_STATE_PASS Handle_NULL,
     OH ''CMSG_GUILD_BANK_BUY_TAB'' True STATUS_LOGGEDIN PACKET_STATE_NODE PACKET_STATE_PASS Handle_NULL,
     OH ''CMSG_GUILD_BANK_UPDATE_TAB'' True STATUS_LOGGEDIN PACKET_STATE_NODE PACKET_STATE_PASS Handle_NULL,
     OH ''CMSG_GUILD_BANK_DEPOSIT_MONEY'' True STATUS_LOGGEDIN PACKET_STATE_NODE PACKET_STATE_PASS Handle_NULL,
     OH ''CMSG_GUILD_BANK_WITHDRAW_MONEY'' True STATUS_LOGGEDIN PACKET_STATE_NODE PACKET_STATE_PASS Handle_NULL,
     OH ''MSG_GUILD_BANK_LOG_QUERY'' True STATUS_LOGGEDIN PACKET_STATE_NODE PACKET_STATE_PASS Handle_NULL,
     OH ''CMSG_SET_CHANNEL_WATCH'' True STATUS_LOGGEDIN PACKET_STATE_NULL PACKET_STATE_NULL Handle_NULL,
     OH ''SMSG_USERLIST_ADD'' True STATUS_NEVER PACKET_STATE_NODE PACKET_STATE_PASS Handle_ServerSide,
     OH ''SMSG_USERLIST_REMOVE'' True STATUS_NEVER PACKET_STATE_NODE PACKET_STATE_PASS Handle_ServerSide,
     OH ''SMSG_USERLIST_UPDATE'' True STATUS_NEVER PACKET_STATE_NODE PACKET_STATE_PASS Handle_ServerSide,
     OH ''CMSG_CLEAR_CHANNEL_WATCH'' True STATUS_NEVER PACKET_STATE_NODE PACKET_STATE_PASS Handle_NULL,
     OH ''SMSG_INSPECT_TALENT'' True STATUS_NEVER PACKET_STATE_NODE PACKET_STATE_PASS Handle_ServerSide,
     OH ''SMSG_GOGOGO_OBSOLETE'' True STATUS_NEVER PACKET_STATE_NODE PACKET_STATE_PASS Handle_ServerSide,
     OH ''SMSG_ECHO_PARTY_SQUELCH'' True STATUS_NEVER PACKET_STATE_NODE PACKET_STATE_PASS Handle_ServerSide,
     OH ''CMSG_SET_TITLE_SUFFIX'' True STATUS_NEVER PACKET_STATE_NODE PACKET_STATE_PASS Handle_NULL,
     OH ''CMSG_SPELLCLICK'' True STATUS_LOGGEDIN PACKET_STATE_NODE PACKET_STATE_PASS Handle_NULL,
     OH ''SMSG_LOOT_LIST'' True STATUS_NEVER PACKET_STATE_NODE PACKET_STATE_PASS Handle_ServerSide,
     OH ''CMSG_GM_CHARACTER_RESTORE'' True STATUS_NEVER PACKET_STATE_NODE PACKET_STATE_PASS Handle_NULL,
     OH ''CMSG_GM_CHARACTER_SAVE'' True STATUS_NEVER PACKET_STATE_NODE PACKET_STATE_PASS Handle_NULL,
     OH ''SMSG_VOICESESSION_FULL'' True STATUS_NEVER PACKET_STATE_NODE PACKET_STATE_PASS Handle_ServerSide,
     OH ''MSG_GUILD_PERMISSIONS'' True STATUS_LOGGEDIN PACKET_STATE_NODE PACKET_STATE_PASS Handle_NULL,
     OH ''MSG_GUILD_BANK_MONEY_WITHDRAWN'' True STATUS_LOGGEDIN PACKET_STATE_NODE PACKET_STATE_PASS Handle_NULL,
     OH ''MSG_GUILD_EVENT_LOG_QUERY'' True STATUS_LOGGEDIN PACKET_STATE_LOGON PACKET_STATE_LOGON (OtherHandler ''HandleGuildEventLogQueryOpcode''),
     OH ''CMSG_MAELSTROM_RENAME_GUILD'' True STATUS_NEVER PACKET_STATE_NODE PACKET_STATE_PASS Handle_NULL,
     OH ''CMSG_GET_MIRRORIMAGE_DATA'' True STATUS_LOGGEDIN PACKET_STATE_NODE PACKET_STATE_PASS Handle_NULL,
     OH ''SMSG_MIRRORIMAGE_DATA'' True STATUS_NEVER PACKET_STATE_NODE PACKET_STATE_PASS Handle_ServerSide,
     OH ''SMSG_FORCE_DISPLAY_UPDATE'' True STATUS_NEVER PACKET_STATE_NODE PACKET_STATE_PASS Handle_ServerSide,
     OH ''SMSG_SPELL_CHANCE_RESIST_PUSHBACK'' True STATUS_NEVER PACKET_STATE_NODE PACKET_STATE_PASS Handle_ServerSide]"

definition opcode_rows_7 :: "OpcodeHandler list" where
  "opcode_rows_7 = [
     OH ''CMSG_IGNORE_DIMINISHING_RETURNS_CHEAT'' True STATUS_NEVER PACKET_STATE_NODE PACKET_STATE_PASS Handle_NULL,
     OH ''SMSG_IGNORE_DIMINISHING_RETURNS_CHEAT'' True STATUS_NEVER PACKET_STATE_NODE PACKET_STATE_PASS Handle_ServerSide,
     OH ''CMSG_KEEP_ALIVE'' True STATUS_NEVER PACKET_STATE_NODE PACKET_STATE_PASS Handle_NULL,
     OH ''SMSG_RAID_READY_CHECK_ERROR'' True STATUS_NEVER PACKET_STATE_NODE PACKET_STATE_PASS Handle_ServerSide,
     OH ''CMSG_OPT_OUT_OF_LOOT'' True STATUS_AUTHED PACKET_STATE_NODE PACKET_STATE_PASS Handle_NULL,
     OH ''MSG_QUERY_GUILD_BANK_TEXT'' True STATUS_LOGGEDIN PACKET_STATE_NODE PACKET_STATE_PASS Handle_NULL,
     OH ''CMSG_SET_GUILD_BANK_TEXT'' True STATUS_LOGGEDIN PACKET_STATE_NODE PACKET_STATE_PASS Handle_NULL,
     OH ''CMSG_SET_GRANTABLE_LEVELS'' True STATUS_NEVER PACKET_STATE_NODE PACKET_STATE_PASS Handle_NULL,
     OH ''CMSG_GRANT_LEVEL'' True STATUS_NEVER PACKET_STATE_NODE PACKET_STATE_PASS Handle_NULL,
     OH ''CMSG_REFER_A_FRIEND'' True STATUS_NEVER PACKET_STATE_NODE PACKET_STATE_PASS Handle_NULL,
     OH ''MSG_GM_CHANGE_ARENA_RATING'' True STATUS_NEVER PACKET_STATE_NODE PACKET_STATE_PASS Handle_NULL,
     OH ''CMSG_DECLINE_CHANNEL_INVITE'' True STATUS_LOGGEDIN PACKET_STATE_NODE PACKET_STATE_PASS Handle_NULL,
     OH ''SMSG_GROUPACTION_THROTTLED'' True STATUS_NEVER PACKET_STATE_NODE PACKET_STATE_PASS Handle_ServerSide,
     OH ''SMSG_OVERRIDE_LIGHT'' True STATUS_NEVER PACKET_STATE_NODE PACKET_STATE_PASS Handle_ServerSide,
     OH ''SMSG_TOTEM_CREATED'' True STATUS_NEVER PACKET_STATE_NODE PACKET_STATE_PASS Handle_ServerSide,
     OH ''CMSG_TOTEM_DESTROYED'' True STATUS_LOGGEDIN PACKET_STATE_NODE PACKET_STATE_PASS Handle_NULL,
     OH ''CMSG_EXPIRE_RAID_INSTANCE'' True STATUS_NEVER PACKET_STATE_NODE PACKET_STATE_PASS Handle_NULL,
     OH ''CMSG_NO_SPELL_VARIANCE'' True STATUS_NEVER PACKET_STATE_NODE PACKET_STATE_PASS Handle_NULL,
     OH ''CMSG_QUESTGIVER_STATUS_MULTIPLE_QUERY'' True STATUS_LOGGEDIN PACKET_STATE_NODE PACKET_STATE_PASS Handle_NULL,
     OH ''SMSG_QUESTGIVER_STATUS_MULTIPLE'' True STATUS_NEVER PACKET_STATE_NODE PACKET_STATE_PASS Handle_ServerSide,
     OH ''CMSG_SET_PLAYER_DECLINED_NAMES'' True STATUS_AUTHED PACKET_STATE_NODE PACKET_STATE_PASS Handle_NULL,
     OH ''SMSG_SET_PLAYER_DECLINED_NAMES_RESULT'' True STATUS_NEVER PACKET_STATE_NODE PACKET_STATE_PASS Handle_ServerSide,
     OH ''CMSG_QUERY_SERVER_BUCK_DATA'' True STATUS_NEVER PACKET_STATE_NODE PACKET_STATE_PASS Handle_NULL,
     OH ''CMSG_CLEAR_SERVER_BUCK_DATA'' True STATUS_NEVER PACKET_STATE_NODE PACKET_STATE_PASS Handle_NULL,
     OH ''SMSG_SERVER_BUCK_DATA'' True STATUS_NEVER PACKET_STATE_NODE PACKET_STATE_PASS Handle_ServerSide,
     OH ''SMSG_SEND_UNLEARN_SPELLS'' True STATUS_NEVER PACKET_STATE_NODE PACKET_STATE_PASS Handle_ServerSide,
     OH ''SMSG_PROPOSE_LEVEL_GRANT'' True STATUS_NEVER PACKET_STATE_NODE PACKET_STATE_PASS Handle_ServerSide,
     OH ''CMSG_ACCEPT_LEVEL_GRANT'' True STATUS_NEVER PACKET_STATE_NODE PACKET_STATE_PASS Handle_NULL,
     OH ''SMSG_REFER_A_FRIEND_FAILURE'' True STATUS_NEVER PACKET_STATE_NODE PACKET_STATE_PASS Handle_ServerSide,
     OH ''SMSG_SPLINE_MOVE_SET_FLYING'' True STATUS_NEVER PACKET_STATE_NODE PACKET_STATE_PASS Handle_ServerSide,
     OH ''SMSG_SPLINE_MOVE_UNSET_FLYING'' True STATUS_NEVER PACKET_STATE_NODE PACKET_STATE_PASS Handle_ServerSide,
     OH ''SMSG_SUMMON_CANCEL'' True STATUS_NEVER PACKET_STATE_NODE PACKET_STATE_PASS Handle_ServerSide,
     OH ''CMSG_CHANGE_PERSONAL_ARENA_RATING'' True STATUS_NEVER PACKET_STATE_NODE PACKET_STATE_PASS Handle_NULL,
     OH ''CMSG_ALTER_APPEARANCE'' True STATUS_LOGGEDIN PACKET_STATE_NODE PACKET_STATE_PASS Handle_NULL,
     OH ''SMSG_ENABLE_BARBER_SHOP'' True STATUS_NEVER PACKET_STATE_NODE PACKET_STATE_PASS Handle_ServerSide,
     OH ''SMSG_BARBER_SHOP_RESULT'' True STATUS_NEVER PACKET_STATE_NODE PACKET_STATE_PASS Handle_ServerSide,
     OH ''CMSG_CALENDAR_GET_CALENDAR'' True STATUS_LOGGEDIN PACKET_STATE_NODE PACKET_STATE_PASS Handle_NULL,
     OH ''CMSG_CALENDAR_GET_EVENT'' True STATUS_LOGGEDIN PACKET_STATE_NODE PACKET_STATE_PASS Handle_NULL,
     OH ''CMSG_CALENDAR_GUILD_FILTER'' True STATUS_LOGGEDIN PACKET_STATE_NODE PACKET_STATE_PASS Handle_NULL,
     OH ''CMSG_CALENDAR_ARENA_TEAM'' True STATUS_LOGGEDIN PACKET_STATE_NODE PACKET_STATE_PASS Handle_NULL,
     OH ''CMSG_CALENDAR_ADD_EVENT'' True STATUS_LOGGEDIN PACKET_STATE_NODE PACKET_STATE_PASS Handle_NULL,
     OH ''CMSG_CALENDAR_UPDATE_EVENT'' True STATUS_LOGGEDIN PACKET_STATE_NODE PACKET_STATE_PASS Handle_NULL,
     OH ''CMSG_CALENDAR_REMOVE_EVENT'' True STATUS_LOGGEDIN PACKET_STATE_NODE PACKET_STATE_PASS Handle_NULL,
     OH ''CMSG_CALENDAR_COPY_EVENT'' True STATUS_LOGGEDIN PACKET_STATE_NODE PACKET_STATE_PASS Handle_NULL,
     OH ''CMSG_CALENDAR_EVENT_INVITE'' True STATUS_LOGGEDIN PACKET_STATE_NODE PACKET_STATE_PASS Handle_NULL,
     OH ''CMSG_CALENDAR_EVENT_RSVP'' True STATUS_LOGGEDIN PACKET_STATE_NODE PACKET_STATE_PASS Handle_NULL,
     OH ''CMSG_CALENDAR_EVENT_REMOVE_INVITE'' True STATUS_LOGGEDIN PACKET_STATE_NODE PACKET_STATE_PASS Handle_NULL,
     OH ''CMSG_CALENDAR_EVENT_STATUS'' True STATUS_LOGGEDIN PACKET_STATE_NODE PACKET_STATE_PASS Handle_NULL,
     OH ''CMSG_CALENDAR_EVENT_MODERATOR_STATUS'' True STATUS_LOGGEDIN PACKET_STATE_NODE PACKET_STATE_PASS Handle_NULL,
     OH ''SMSG_CALENDAR_SEND_CALENDAR'' True STATUS_NEVER PACKET_STATE_NODE PACKET_STATE_PASS Handle_ServerSide,
     OH ''SMSG_CALENDAR_SEND_EVENT'' True STATUS_NEVER PACKET_STATE_NODE PACKET_STATE_PASS Handle_ServerSide,
     OH ''SMSG_CALENDAR_FILTER_GUILD'' True STATUS_NEVER PACKET_STATE_NODE PACKET_STATE_PASS Handle_ServerSide,
     OH ''SMSG_CALENDAR_ARENA_TEAM'' True STATUS_NEVER PACKET_STATE_NODE PACKET_STATE_PASS Handle_ServerSide,
     OH ''SMSG_CALENDAR_EVENT_INVITE'' True STATUS_NEVER PACKET_STATE_NODE PACKET_STATE_PASS Handle_ServerSide,
     OH ''SMSG_CALENDAR_EVENT_INVITE_REMOVED'' True STATUS_NEVER PACKET_STATE_NODE PACKET_STATE_PASS Handle_ServerSide,
     OH ''SMSG_CALENDAR_EVENT_STATUS'' True STATUS_NEVER PACKET_STATE_NODE PACKET_STATE_PASS Handle_ServerSide,
     OH ''SMSG_CALENDAR_COMMAND_RESULT'' True STATUS_NEVER PACKET_STATE_NODE PACKET_STATE_PASS Handle_ServerSide,
     OH ''SMSG_CALENDAR_RAID_LOCKOUT_ADDED'' True STATUS_NEVER PACKET_STATE_NODE PACKET_STATE_PASS Handle_ServerSide,
     OH ''SMSG_CALENDAR_RAID_LOCKOUT_REMOVED'' True STATUS_NEVER PACKET_STATE_NODE PACKET_STATE_PASS Handle_ServerSide,
     OH ''SMSG_CALENDAR_EVENT_INVITE_ALERT'' True STATUS_NEVER PACKET_STATE_NODE PACKET_STATE_PASS Handle_ServerSide,
     OH ''SMSG_CALENDAR_EVENT_INVITE_REMOVED_ALERT'' True STATUS_NEVER PACKET_STATE_NODE PACKET_STATE_PASS Handle_ServerSide,
     OH ''SMSG_CALENDAR_EVENT_INVITE_STATUS_ALERT'' True STATUS_NEVER PACKET_STATE_NODE PACKET_STATE_PASS Handle_ServerSide,
     OH ''SMSG_CALENDAR_EVENT_REMOVED_ALERT'' True STATUS_NEVER PACKET_STATE_NODE PACKET_STATE_PASS Handle_ServerSide,
     OH ''SMSG_CALENDAR_EVENT_UPDATED_ALERT'' True STATUS_NEVER PACKET_STATE_NODE PACKET_STATE_PASS Handle_ServerSide,
     OH ''SMSG_CALENDAR_EVENT_MODERATOR_STATUS_ALERT'' True STATUS_NEVER PACKET_STATE_NODE PACKET_STATE_PASS Handle_ServerSide,
     OH ''CMSG_CALENDAR_COMPLAIN'' True STATUS_LOGGEDIN PACKET_STATE_NODE PACKET_STATE_PASS Handle_NULL,
     OH ''CMSG_CALENDAR_GET_NUM_PENDING'' True STATUS_LOGGEDIN PACKET_STATE_NODE PACKET_STATE_PASS Handle_NULL,
     OH ''SMSG_CALENDAR_SEND_NUM_PENDING'' True STATUS_NEVER PACKET_STATE_NODE PACKET_STATE_PASS Handle_ServerSide,
     OH ''CMSG_SAVE_DANCE'' True STATUS_NEVER PACKET_STATE_NODE PACKET_STATE_PASS Handle_NULL,
     OH ''SMSG_NOTIFY_DANCE'' True STATUS_NEVER PACKET_STATE_NODE PACKET_STATE_PASS Handle_ServerSide,
     OH ''CMSG_PLAY_DANCE'' True STATUS_NEVER PACKET_STATE_NODE PACKET_STATE_PASS Handle_NULL,
     OH ''SMSG_PLAY_DANCE'' True STATUS_NEVER PACKET_STATE_NODE PACKET_STATE_PASS Handle_ServerSide,
     OH ''CMSG_LOAD_DANCES'' True STATUS_NEVER PACKET_STATE_NODE PACKET_STATE_PASS Handle_NULL,
     OH ''CMSG_STOP_DANCE'' True STATUS_NEVER PACKET_STATE_NODE PACKET_STATE_PASS Handle_NULL,
     OH ''SMSG_STOP_DANCE'' True STATUS_NEVER PACKET_STATE_NODE PACKET_STATE_PASS Handle_ServerSide,
     OH ''CMSG_SYNC_DANCE'' True STATUS_NEVER PACKET_STATE_NODE PACKET_STATE_PASS Handle_NULL,
     OH ''CMSG_DANCE_QUERY'' True STATUS_NEVER PACKET_STATE_NODE PACKET_STATE_PASS Handle_NULL,
     OH ''SMSG_DANCE_QUERY_RESPONSE'' True STATUS_NEVER PACKET_STATE_NODE PACKET_STATE_PASS Handle_ServerSide,
     OH ''SMSG_INVALIDATE_DANCE'' True STATUS_NEVER PACKET_STATE_NODE PACKET_STATE_PASS Handle_ServerSide,
     OH ''CMSG_DELETE_DANCE'' True STATUS_NEVER PACKET_STATE_NODE PACKET_STATE_PASS Handle_NULL,
     OH ''SMSG_LEARNED_DANCE_MOVES'' True STATUS_NEVER PACKET_STATE_NODE PACKET_STATE_PASS Handle_ServerSide,
     OH ''CMSG_LEARN_DANCE_MOVE'' True STATUS_NEVER PACKET_STATE_NODE PACKET_STATE_PASS Handle_NULL,
     OH ''CMSG_UNLEARN_DANCE_MOVE'' True STATUS_NEVER PACKET_STATE_NODE PACKET_STATE_PASS Handle_NULL,
     OH ''CMSG_SET_RUNE_COUNT'' True STATUS_NEVER PACKET_STATE_NODE PACKET_STATE_PASS Handle_NULL,
     OH ''CMSG_SET_RUNE_COOLDOWN'' True STATUS_NEVER PACKET_STATE_NODE PACKET_STATE_PASS Handle_NULL,
     OH ''MSG_MOVE_SET_PITCH_RATE_CHEAT'' True STATUS_NEVER PACKET_STATE_NODE PACKET_STATE_PASS Handle_NULL,
     OH ''MSG_MOVE_SET_PITCH_RATE'' True STATUS_NEVER PACKET_STATE_NODE PACKET_STATE_PASS Handle_NULL,
     OH ''SMSG_FORCE_PITCH_RATE_CHANGE'' True STATUS_NEVER PACKET_STATE_NODE PACKET_STATE_PASS Handle_ServerSide,
     OH ''CMSG_FORCE_PITCH_RATE_CHANGE_ACK'' True STATUS_NEVER PACKET_STATE_NODE PACKET_STATE_PASS Handle_NULL,
     OH ''SMSG_SPLINE_SET_PITCH_RATE'' True STATUS_NEVER PACKET_STATE_NODE PACKET_STATE_PASS Handle_ServerSide,
     OH ''SMSG_MOVE_ABANDON_TRANSPORT'' True STATUS_NEVER PACKET_STATE_NODE PACKET_STATE_PASS Handle_ServerSide,
     OH ''SMSG_CALENDAR_UPDATE_INVITE_LIST'' True STATUS_NEVER PACKET_STATE_NODE PACKET_STATE_PASS Handle_NULL,
     OH ''SMSG_CALENDAR_UPDATE_INVITE_LIST2'' True STATUS_NEVER PACKET_STATE_NODE PACKET_STATE_PASS Handle_NULL,
     OH ''CMSG_UPDATE_MISSILE_TRAJECTORY'' True STATUS_LOGGEDIN PACKET_STATE_NODE PACKET_STATE_NULL Handle_NULL,
     OH ''SMSG_UPDATE_ACCOUNT_DATA_COMPLETE'' True STATUS_NEVER PACKET_STATE_NODE PACKET_STATE_PASS Handle_ServerSide,
     OH ''SMSG_TRIGGER_MOVIE'' True STATUS_NEVER PACKET_STATE_NODE PACKET_STATE_PASS Handle_ServerSide,
     OH ''CMSG_COMPLETE_MOVIE'' True STATUS_NEVER PACKET_STATE_NODE PACKET_STATE_PASS Handle_NULL,
     OH ''CMSG_SET_GLYPH_SLOT'' True STATUS_NEVER PACKET_STATE_NODE PACKET_STATE_PASS Handle_NULL,
     OH ''CMSG_SET_GLYPH'' True STATUS_NEVER PACKET_STATE_NODE PACKET_STATE_NULL Handle_NULL,
     OH ''SMSG_ACHIEVEMENT_EARNED'' True STATUS_NEVER PACKET_STATE_NULL PACKET_STATE_PASS Handle_NULL,
     OH ''SMSG_DYNAMIC_DROP_ROLL_RESULT'' True STATUS_NEVER PACKET_STATE_NODE PACKET_STATE_PASS Handle_ServerSide,
     OH ''SMSG_CRITERIA_UPDATE'' True STATUS_NEVER PACKET_STATE_NODE PACKET_STATE_PASS Handle_ServerSide,
     OH ''CMSG_QUERY_INSPECT_ACHIEVEMENTS'' False STATUS_LOGGEDIN PACKET_STATE_LOGON PACKET_STATE_NULL (OtherHandler ''HandleQueryInspectAchievements''),
     OH ''SMSG_RESPOND_INSPECT_ACHIEVEMENTS'' True STATUS_NEVER PACKET_STATE_NULL PACKET_STATE_NULL Handle_ServerSide,
     OH ''CMSG_DISMISS_CONTROLLED_VEHICLE'' True STATUS_LOGGEDIN PACKET_STATE_NODE PACKET_STATE_PASS Handle_NULL,
     OH ''CMSG_COMPLETE_ACHIEVEMENT_CHEAT'' True STATUS_NEVER PACKET_STATE_NULL PACKET_STATE_NULL Handle_NULL,
     OH ''SMSG_QUESTUPDATE_ADD_PVP_KILL'' True STATUS_NEVER PACKET_STATE_NODE PACKET_STATE_PASS Handle_ServerSide,
     OH ''CMSG_SET_CRITERIA_CHEAT'' True STATUS_NEVER PACKET_STATE_NODE PACKET_STATE_PASS Handle_NULL,
     OH ''SMSG_CALENDAR_UPDATE_INVITE_LIST3'' True STATUS_NEVER PACKET_STATE_NODE PACKET_STATE_PASS Handle_ServerSide,
     OH ''CMSG_UNITANIMTIER_CHEAT'' True STATUS_NEVER PACKET_STATE_NODE PACKET_STATE_PASS Handle_NULL,
     OH ''CMSG_CHAR_CUSTOMIZE'' True STATUS_AUTHED PACKET_STATE_NODE PACKET_STATE_PASS Handle_NULL,
     OH ''SMSG_CHAR_CUSTOMIZE'' True STATUS_NEVER PACKET_STATE_NODE PACKET_STATE_PASS Handle_ServerSide,
     OH ''SMSG_PET_RENAMEABLE'' True STATUS_NEVER PACKET_STATE_NODE PACKET_STATE_PASS Handle_ServerSide,
     OH ''CMSG_REQUEST_VEHICLE_EXIT'' True STATUS_LOGGEDIN PACKET_STATE_NODE PACKET_STATE_PASS Handle_NULL,
     OH ''CMSG_REQUEST_VEHICLE_PREV_SEAT'' True STATUS_LOGGEDIN PACKET_STATE_NODE PACKET_STATE_PASS Handle_NULL,
     OH ''CMSG_REQUEST_VEHICLE_NEXT_SEAT'' True STATUS_LOGGEDIN PACKET_STATE_NODE PACKET_STATE_PASS Handle_NULL,
     OH ''CMSG_REQUEST_VEHICLE_SWITCH_SEAT'' True STATUS_LOGGEDIN PACKET_STATE_NODE PACKET_STATE_PASS Handle_NULL,
     OH ''CMSG_PET_LEARN_TALENT'' True STATUS_LOGGEDIN PACKET_STATE_NODE PACKET_STATE_PASS Handle_NULL,
     OH ''CMSG_PET_UNLEARN_TALENTS'' True STATUS_NEVER PACKET_STATE_NODE PACKET_STATE_PASS Handle_NULL,
     OH ''SMSG_SET_PHASE_SHIFT'' True STATUS_NEVER PACKET_STATE_NODE PACKET_STATE_PASS Handle_ServerSide,
     OH ''SMSG_ALL_ACHIEVEMENT_DATA'' True STATUS_NEVER PACKET_STATE_NULL PACKET_STATE_NULL Handle_ServerSide,
     OH ''CMSG_FORCE_SAY_CHEAT'' True STATUS_NEVER PACKET_STATE_NODE PACKET_STATE_PASS Handle_NULL,
     OH ''SMSG_HEALTH_UPDATE'' True STATUS_NEVER PACKET_STATE_NODE PACKET_STATE_PASS Handle_ServerSide,
     OH ''SMSG_POWER_UPDATE'' True STATUS_NEVER PACKET_STATE_NODE PACKET_STATE_PASS Handle_ServerSide,
     OH ''CMSG_GAMEOBJ_REPORT_USE'' True STATUS_LOGGEDIN PACKET_STATE_NODE PACKET_STATE_PASS Handle_NULL,
     OH ''SMSG_HIGHEST_THREAT_UPDATE'' True STATUS_NEVER PACKET_STATE_NODE PACKET_STATE_PASS Handle_ServerSide,
     OH ''SMSG_THREAT_UPDATE'' True STATUS_NEVER PACKET_STATE_NODE PACKET_STATE_PASS Handle_ServerSide,
     OH ''SMSG_THREAT_REMOVE'' True STATUS_NEVER PACKET_STATE_NODE PACKET_STATE_PASS Handle_ServerSide,
     OH ''SMSG_THREAT_CLEAR'' True STATUS_NEVER PACKET_STATE_NODE PACKET_STATE_PASS Handle_ServerSide,
     OH ''SMSG_CONVERT_RUNE'' True STATUS_NEVER PACKET_STATE_NODE PACKET_STATE_PASS Handle_ServerSide,
     OH ''SMSG_RESYNC_RUNES'' True STATUS_NEVER PACKET_STATE_NODE PACKET_STATE_PASS Handle_ServerSide,
     OH ''SMSG_ADD_RUNE_POWER'' True STATUS_NEVER PACKET_STATE_NODE PACKET_STATE_PASS Handle_ServerSide,
     OH ''CMSG_START_QUEST'' True STATUS_NEVER PACKET_STATE_NODE PACKET_STATE_PASS Handle_NULL,
     OH ''CMSG_REMOVE_GLYPH'' True STATUS_LOGGEDIN PACKET_STATE_NODE PACKET_STATE_PASS Handle_NULL,
     OH ''CMSG_DUMP_OBJECTS'' True STATUS_NEVER PACKET_STATE_NODE PACKET_STATE_PASS Handle_NULL,
     OH ''SMSG_DUMP_OBJECTS_DATA'' True STATUS_NEVER PACKET_STATE_NODE PACKET_STATE_PASS Handle_ServerSide,
     OH ''CMSG_DISMISS_CRITTER'' True STATUS_LOGGEDIN PACKET_STATE_NODE PACKET_STATE_PASS Handle_NULL,
     OH ''SMSG_NOTIFY_DEST_LOC_SPELL_CAST'' True STATUS_NEVER PACKET_STATE_NODE PACKET_STATE_PASS Handle_ServerSide,
     OH ''CMSG_AUCTION_LIST_PENDING_SALES'' True STATUS_LOGGEDIN PACKET_STATE_NODE PACKET_STATE_PASS Handle_NULL,
     OH ''SMSG_AUCTION_LIST_PENDING_SALES'' True STATUS_NEVER PACKET_STATE_NODE PACKET_STATE_PASS Handle_ServerSide,
     OH ''SMSG_MODIFY_COOLDOWN'' True STATUS_NEVER PACKET_STATE_NODE PACKET_STATE_PASS Handle_ServerSide,
     OH ''SMSG_PET_UPDATE_COMBO_POINTS'' True STATUS_NEVER PACKET_STATE_NODE PACKET_STATE_PASS Handle_ServerSide,
     OH ''CMSG_ENABLETAXI'' True STATUS_LOGGEDIN PACKET_STATE_NODE PACKET_STATE_PASS Handle_NULL,
     OH ''SMSG_PRE_RESURRECT'' True STATUS_NEVER PACKET_STATE_NODE PACKET_STATE_PASS Handle_ServerSide,
     OH ''SMSG_AURA_UPDATE_ALL'' True STATUS_NEVER PACKET_STATE_NODE PACKET_STATE_PASS Handle_ServerSide,
     OH ''SMSG_AURA_UPDATE'' True STATUS_NEVER PACKET_STATE_NODE PACKET_STATE_PASS Handle_ServerSide,
     OH ''CMSG_FLOOD_GRACE_CHEAT'' True STATUS_NEVER PACKET_STATE_NODE PACKET_STATE_PASS Handle_NULL]"

definition opcode_rows_8 :: "OpcodeHandler list" where
  "opcode_rows_8 = [
     OH ''SMSG_SERVER_FIRST_ACHIEVEMENT'' True STATUS_NEVER PACKET_STATE_NODE PACKET_STATE_PASS Handle_ServerSide,
     OH ''SMSG_PET_LEARNED_SPELL'' True STATUS_NEVER PACKET_STATE_NODE PACKET_STATE_PASS Handle_ServerSide,
     OH ''SMSG_PET_REMOVED_SPELL'' True STATUS_NEVER PACKET_STATE_NODE PACKET_STATE_PASS Handle_ServerSide,
     OH ''CMSG_CHANGE_SEATS_ON_CONTROLLED_VEHICLE'' True STATUS_LOGGEDIN PACKET_STATE_NODE PACKET_STATE_PASS Handle_NULL,
     OH ''CMSG_HEARTH_AND_RESURRECT'' True STATUS_LOGGEDIN PACKET_STATE_NODE PACKET_STATE_PASS Handle_NULL,
     OH ''SMSG_ON_CANCEL_EXPECTED_RIDE_VEHICLE_AURA'' True STATUS_NEVER PACKET_STATE_NODE PACKET_STATE_PASS Handle_ServerSide,
     OH ''SMSG_CRITERIA_DELETED'' True STATUS_NEVER PACKET_STATE_NODE PACKET_STATE_PASS Handle_ServerSide,
     OH ''SMSG_ACHIEVEMENT_DELETED'' True STATUS_NEVER PACKET_STATE_NODE PACKET_STATE_PASS Handle_ServerSide,
     OH ''CMSG_SERVER_INFO_QUERY'' True STATUS_NEVER PACKET_STATE_NODE PACKET_STATE_PASS Handle_NULL,
     OH ''SMSG_SERVER_INFO_RESPONSE'' True STATUS_NEVER PACKET_STATE_NODE PACKET_STATE_PASS Handle_ServerSide,
     OH ''CMSG_CHECK_LOGIN_CRITERIA'' True STATUS_NEVER PACKET_STATE_NODE PACKET_STATE_PASS Handle_NULL,
     OH ''SMSG_SERVER_BUCK_DATA_START'' True STATUS_NEVER PACKET_STATE_NODE PACKET_STATE_PASS Handle_ServerSide,
     OH ''CMSG_QUERY_VEHICLE_STATUS'' True STATUS_NEVER PACKET_STATE_NODE PACKET_STATE_PASS Handle_NULL,
     OH ''UMSG_UNKNOWN_1189'' True STATUS_NEVER PACKET_STATE_NODE PACKET_STATE_PASS Handle_NULL,
     OH ''SMSG_BATTLEGROUND_INFO_THROTTLED'' True STATUS_NEVER PACKET_STATE_NODE PACKET_STATE_PASS Handle_ServerSide,
     OH ''SMSG_PLAYER_VEHICLE_DATA'' True STATUS_NEVER PACKET_STATE_NODE PACKET_STATE_PASS Handle_ServerSide,
     OH ''CMSG_PLAYER_VEHICLE_ENTER'' True STATUS_LOGGEDIN PACKET_STATE_NODE PACKET_STATE_PASS Handle_NULL,
     OH ''CMSG_EJECT_PASSENGER'' True STATUS_LOGGEDIN PACKET_STATE_NODE PACKET_STATE_PASS Handle_NULL,
     OH ''SMSG_PET_GUIDS'' True STATUS_NEVER PACKET_STATE_NODE PACKET_STATE_PASS Handle_ServerSide,
     OH ''SMSG_CLIENTCACHE_VERSION'' True STATUS_NEVER PACKET_STATE_NODE PACKET_STATE_PASS Handle_ServerSide,
     OH ''UMSG_UNKNOWN_1196'' True STATUS_NEVER PACKET_STATE_NODE PACKET_STATE_PASS Handle_NULL,
     OH ''UMSG_UNKNOWN_1197'' True STATUS_NEVER PACKET_STATE_NODE PACKET_STATE_PASS Handle_NULL,
     OH ''UMSG_UNKNOWN_1198'' True STATUS_NEVER PACKET_STATE_NODE PACKET_STATE_PASS Handle_NULL,
     OH ''UMSG_UNKNOWN_1199'' True STATUS_NEVER PACKET_STATE_NODE PACKET_STATE_PASS Handle_NULL,
     OH ''UMSG_UNKNOWN_1200'' True STATUS_NEVER PACKET_STATE_NODE PACKET_STATE_PASS Handle_NULL,
     OH ''UMSG_UNKNOWN_1201'' True STATUS_NEVER PACKET_STATE_NODE PACKET_STATE_PASS Handle_NULL,
     OH ''SMSG_ITEM_REFUND_INFO_RESPONSE'' True STATUS_NEVER PACKET_STATE_NODE PACKET_STATE_PASS Handle_ServerSide,
     OH ''CMSG_ITEM_REFUND_INFO'' True STATUS_LOGGEDIN PACKET_STATE_NODE PACKET_STATE_PASS Handle_NULL,
     OH ''CMSG_ITEM_REFUND'' True STATUS_LOGGEDIN PACKET_STATE_NODE PACKET_STATE_PASS Handle_NULL,
     OH ''SMSG_ITEM_REFUND_RESULT'' True STATUS_NEVER PACKET_STATE_NODE PACKET_STATE_PASS Handle_ServerSide,
     OH ''CMSG_CORPSE_MAP_POSITION_QUERY'' True STATUS_LOGGEDIN PACKET_STATE_NODE PACKET_STATE_PASS Handle_NULL,
     OH ''SMSG_CORPSE_MAP_POSITION_QUERY_RESPONSE'' True STATUS_NEVER PACKET_STATE_NODE PACKET_STATE_PASS Handle_ServerSide,
     OH ''CMSG_LFG_SET_ROLES_2'' True STATUS_LOGGEDIN PACKET_STATE_NODE PACKET_STATE_PASS Handle_NULL,
     OH ''UMSG_UNKNOWN_1209'' True STATUS_NEVER PACKET_STATE_NODE PACKET_STATE_PASS Handle_NULL,
     OH ''CMSG_CALENDAR_CONTEXT_EVENT_SIGNUP'' True STATUS_NEVER PACKET_STATE_NODE PACKET_STATE_PASS Handle_NULL,
     OH ''SMSG_CALENDAR_ACTION_PENDING'' True STATUS_NEVER PACKET_STATE_NODE PACKET_STATE_PASS Handle_ServerSide,
     OH ''SMSG_EQUIPMENT_SET_LIST'' True STATUS_NEVER PACKET_STATE_NODE PACKET_STATE_PASS Handle_ServerSide,
     OH ''CMSG_EQUIPMENT_SET_SAVE'' True STATUS_LOGGEDIN PACKET_STATE_NODE PACKET_STATE_PASS Handle_NULL,
     OH ''CMSG_UPDATE_PROJECTILE_POSITION'' True STATUS_LOGGEDIN PACKET_STATE_NODE PACKET_STATE_PASS Handle_NULL,
     OH ''SMSG_SET_PROJECTILE_POSITION'' True STATUS_NEVER PACKET_STATE_NODE PACKET_STATE_PASS Handle_ServerSide,
     OH ''SMSG_TALENTS_INFO'' True STATUS_NEVER PACKET_STATE_NODE PACKET_STATE_PASS Handle_ServerSide,
     OH ''CMSG_LEARN_PREVIEW_TALENTS'' True STATUS_LOGGEDIN PACKET_STATE_NODE PACKET_STATE_PASS Handle_NULL,
     OH ''CMSG_LEARN_PREVIEW_TALENTS_PET'' True STATUS_LOGGEDIN PACKET_STATE_NODE PACKET_STATE_PASS Handle_NULL,
     OH ''UMSG_UNKNOWN_1219'' True STATUS_NEVER PACKET_STATE_NODE PACKET_STATE_PASS Handle_NULL,
     OH ''UMSG_UNKNOWN_1220'' True STATUS_NEVER PACKET_STATE_NODE PACKET_STATE_PASS Handle_NULL,
     OH ''UMSG_UNKNOWN_1221'' True STATUS_NEVER PACKET_STATE_NODE PACKET_STATE_PASS Handle_NULL,
     OH ''UMSG_UNKNOWN_1222'' True STATUS_NEVER PACKET_STATE_NODE PACKET_STATE_PASS Handle_NULL,
     OH ''SMSG_ARENA_OPPONENT_UPDATE'' True STATUS_NEVER PACKET_STATE_NODE PACKET_STATE_PASS Handle_ServerSide,
     OH ''SMSG_ARENA_TEAM_CHANGE_FAILED_QUEUED'' True STATUS_NEVER PACKET_STATE_NODE PACKET_STATE_PASS Handle_ServerSide,
     OH ''UMSG_UNKNOWN_1225'' True STATUS_NEVER PACKET_STATE_NODE PACKET_STATE_PASS Handle_NULL,
     OH ''UMSG_UNKNOWN_1226'' True STATUS_NEVER PACKET_STATE_NODE PACKET_STATE_PASS Handle_NULL,
     OH ''UMSG_UNKNOWN_1227'' True STATUS_NEVER PACKET_STATE_NODE PACKET_STATE_PASS Handle_NULL,
     OH ''UMSG_UNKNOWN_1228'' True STATUS_NEVER PACKET_STATE_NODE PACKET_STATE_PASS Handle_NULL,
     OH ''SMSG_MULTIPLE_PACKETS'' True STATUS_NEVER PACKET_STATE_NODE PACKET_STATE_PASS Handle_ServerSide,
     OH ''SMSG_FORCE_UNK1_SPEED_CHANGE'' True STATUS_NEVER PACKET_STATE_NODE PACKET_STATE_PASS Handle_ServerSide,
     OH ''CMSG_FORCE_UNK1_SPEED_CHANGE_ACK'' True STATUS_NEVER PACKET_STATE_NODE PACKET_STATE_PASS Handle_NULL,
     OH ''SMSG_FORCE_UNK2_SPEED_CHANGE'' True STATUS_NEVER PACKET_STATE_NODE PACKET_STATE_PASS Handle_ServerSide,
     OH ''CMSG_FORCE_UNK2_SPEED_CHANGE_ACK'' True STATUS_NEVER PACKET_STATE_NODE PACKET_STATE_PASS Handle_NULL,
     OH ''MSG_MOVE_UNKNOWN_1234'' True STATUS_NEVER PACKET_STATE_NODE PACKET_STATE_PASS Handle_ServerSide,
     OH ''SMSG_SPLINE_MOVE_UNKNOWN_1235'' True STATUS_NEVER PACKET_STATE_NODE PACKET_STATE_PASS Handle_ServerSide,
     OH ''SMSG_SPLINE_MOVE_UNKNOWN_1236'' True STATUS_NEVER PACKET_STATE_NODE PACKET_STATE_PASS Handle_ServerSide,
     OH ''CMSG_EQUIPMENT_SET_USE'' True STATUS_LOGGEDIN PACKET_STATE_NODE PACKET_STATE_PASS Handle_NULL,
     OH ''SMSG_EQUIPMENT_SET_USE_RESULT'' True STATUS_NEVER PACKET_STATE_NODE PACKET_STATE_PASS Handle_ServerSide,
     OH ''UMSG_UNKNOWN_1239'' True STATUS_NEVER PACKET_STATE_NODE PACKET_STATE_PASS Handle_NULL,
     OH ''SMSG_UNKNOWN_1240'' True STATUS_NEVER PACKET_STATE_NODE PACKET_STATE_PASS Handle_ServerSide,
     OH ''CMSG_CHAR_FACTION_CHANGE'' True STATUS_AUTHED PACKET_STATE_NODE PACKET_STATE_PASS Handle_NULL,
     OH ''SMSG_CHAR_FACTION_CHANGE'' True STATUS_NEVER PACKET_STATE_NODE PACKET_STATE_PASS Handle_ServerSide,
     OH ''UMSG_UNKNOWN_1243'' True STATUS_NEVER PACKET_STATE_NODE PACKET_STATE_PASS Handle_NULL,
     OH ''UMSG_UNKNOWN_1244'' True STATUS_NEVER PACKET_STATE_NODE PACKET_STATE_PASS Handle_NULL,
     OH ''UMSG_UNKNOWN_1245'' True STATUS_NEVER PACKET_STATE_NODE PACKET_STATE_PASS Handle_NULL,
     OH ''SMSG_BATTLEFIELD_MGR_ENTRY_INVITE'' True STATUS_NEVER PACKET_STATE_NODE PACKET_STATE_PASS Handle_ServerSide,
     OH ''CMSG_BATTLEFIELD_MGR_ENTRY_INVITE_RESPONSE'' True STATUS_LOGGEDIN PACKET_STATE_NODE PACKET_STATE_PASS Handle_NULL,
     OH ''SMSG_BATTLEFIELD_MGR_ENTERED'' True STATUS_NEVER PACKET_STATE_NODE PACKET_STATE_PASS Handle_ServerSide,
     OH ''SMSG_BATTLEFIELD_MGR_QUEUE_INVITE'' True STATUS_NEVER PACKET_STATE_NODE PACKET_STATE_PASS Handle_ServerSide,
     OH ''CMSG_BATTLEFIELD_MGR_QUEUE_INVITE_RESPONSE'' True STATUS_LOGGEDIN PACKET_STATE_NODE PACKET_STATE_PASS Handle_NULL,
     OH ''CMSG_BATTLEFIELD_MGR_QUEUE_REQUEST'' True STATUS_LOGGEDIN PACKET_STATE_NODE PACKET_STATE_PASS Handle_NULL,
     OH ''SMSG_BATTLEFIELD_MGR_QUEUE_REQUEST_RESPONSE'' True STATUS_NEVER PACKET_STATE_NODE PACKET_STATE_PASS Handle_ServerSide,
     OH ''SMSG_BATTLEFIELD_MGR_EJECT_PENDING'' True STATUS_NEVER PACKET_STATE_NODE PACKET_STATE_PASS Handle_ServerSide,
     OH ''SMSG_BATTLEFIELD_MGR_EJECTED'' True STATUS_NEVER PACKET_STATE_NODE PACKET_STATE_PASS Handle_ServerSide,
     OH ''CMSG_BATTLEFIELD_MGR_EXIT_REQUEST'' True STATUS_LOGGEDIN PACKET_STATE_NODE PACKET_STATE_PASS Handle_NULL,
     OH ''SMSG_BATTLEFIELD_MGR_STATE_CHANGE'' True STATUS_NEVER PACKET_STATE_NODE PACKET_STATE_PASS Handle_ServerSide,
     OH ''UMSG_UNKNOWN_1257'' True STATUS_NEVER PACKET_STATE_NODE PACKET_STATE_PASS Handle_NULL,
     OH ''UMSG_UNKNOWN_1258'' True STATUS_NEVER PACKET_STATE_NODE PACKET_STATE_PASS Handle_NULL,
     OH ''MSG_SET_RAID_DIFFICULTY'' True STATUS_LOGGEDIN PACKET_STATE_NODE PACKET_STATE_PASS Handle_NULL,
     OH ''UMSG_UNKNOWN_1260'' True STATUS_NEVER PACKET_STATE_NODE PACKET_STATE_PASS Handle_NULL,
     OH ''SMSG_TOGGLE_XP_GAIN'' True STATUS_NEVER PACKET_STATE_NODE PACKET_STATE_PASS Handle_ServerSide,
     OH ''SMSG_GMRESPONSE_DB_ERROR'' True STATUS_NEVER PACKET_STATE_NULL PACKET_STATE_PASS Handle_ServerSide,
     OH ''SMSG_GMRESPONSE_RECEIVED'' True STATUS_NEVER PACKET_STATE_NULL PACKET_STATE_PASS Handle_ServerSide,
     OH ''CMSG_GMRESPONSE_RESOLVE'' True STATUS_LOGGEDIN PACKET_STATE_LOGON PACKET_STATE_PASS (OtherHandler ''HandleGMResponseResolve''),
     OH ''SMSG_GMRESPONSE_STATUS_UPDATE'' True STATUS_NEVER PACKET_STATE_NULL PACKET_STATE_PASS Handle_ServerSide,
     OH ''UMSG_UNKNOWN_1266'' True STATUS_NEVER PACKET_STATE_NODE PACKET_STATE_PASS Handle_NULL,
     OH ''UMSG_UNKNOWN_1267'' True STATUS_NEVER PACKET_STATE_NODE PACKET_STATE_PASS Handle_NULL,
     OH ''UMSG_UNKNOWN_1268'' True STATUS_NEVER PACKET_STATE_NODE PACKET_STATE_PASS Handle_NULL,
     OH ''UMSG_UNKNOWN_1269'' True STATUS_NEVER PACKET_STATE_NODE PACKET_STATE_PASS Handle_NULL,
     OH ''CMSG_WORLD_STATE_UI_TIMER_UPDATE'' True STATUS_LOGGEDIN PACKET_STATE_LOGON PACKET_STATE_NULL HandleWorldStateUITimerUpdate,
     OH ''SMSG_WORLD_STATE_UI_TIMER_UPDATE'' True STATUS_NEVER PACKET_STATE_NULL PACKET_STATE_NULL Handle_ServerSide,
     OH ''CMSG_CHAR_RACE_CHANGE'' True STATUS_AUTHED PACKET_STATE_NODE PACKET_STATE_PASS Handle_NULL,
     OH ''UMSG_UNKNOWN_1273'' True STATUS_NEVER PACKET_STATE_NODE PACKET_STATE_PASS Handle_NULL,
     OH ''SMSG_TALENTS_INVOLUNTARILY_RESET'' True STATUS_NEVER PACKET_STATE_NODE PACKET_STATE_PASS Handle_ServerSide,
     OH ''UMSG_UNKNOWN_1275'' True STATUS_NEVER PACKET_STATE_NODE PACKET_STATE_PASS Handle_NULL,
     OH ''SMSG_UNKNOWN_1276'' True STATUS_NEVER PACKET_STATE_NODE PACKET_STATE_PASS Handle_ServerSide,
     OH ''SMSG_LOOT_SLOT_CHANGED'' True STATUS_NEVER PACKET_STATE_NODE PACKET_STATE_PASS Handle_ServerSide,
     OH ''UMSG_UPDATE_GROUP_INFO'' True STATUS_NEVER PACKET_STATE_NODE PACKET_STATE_PASS Handle_NULL,
     OH ''CMSG_READY_FOR_ACCOUNT_DATA_TIMES'' True STATUS_AUTHED PACKET_STATE_NODE PACKET_STATE_NULL Handle_NULL,
     OH ''CMSG_QUERY_QUESTS_COMPLETED'' True STATUS_LOGGEDIN PACKET_STATE_NODE PACKET_STATE_PASS Handle_NULL,
     OH ''SMSG_QUERY_QUESTS_COMPLETED_RESPONSE'' True STATUS_NEVER PACKET_STATE_NODE PACKET_STATE_PASS Handle_ServerSide,
     OH ''CMSG_GM_REPORT_LAG'' True STATUS_LOGGEDIN PACKET_STATE_LOGON PACKET_STATE_PASS (OtherHandler ''HandleReportLag''),
     OH ''CMSG_AFK_MONITOR_INFO_REQUEST'' True STATUS_NEVER PACKET_STATE_NODE PACKET_STATE_PASS Handle_NULL,
     OH ''SMSG_AFK_MONITOR_INFO_RESPONSE'' True STATUS_NEVER PACKET_STATE_NODE PACKET_STATE_PASS Handle_NULL,
     OH ''CMSG_AFK_MONITOR_INFO_CLEAR'' True STATUS_NEVER PACKET_STATE_NODE PACKET_STATE_PASS Handle_NULL,
     OH ''SMSG_CORPSE_IS_NOT_IN_INSTANCE'' True STATUS_NEVER PACKET_STATE_NODE PACKET_STATE_PASS Handle_ServerSide,
     OH ''CMSG_GM_NUKE_CHARACTER'' True STATUS_NEVER PACKET_STATE_NODE PACKET_STATE_PASS Handle_NULL,
     OH ''CMSG_SET_ALLOW_LOW_LEVEL_RAID1'' True STATUS_NEVER PACKET_STATE_NODE PACKET_STATE_PASS Handle_NULL,
     OH ''CMSG_SET_ALLOW_LOW_LEVEL_RAID2'' True STATUS_NEVER PACKET_STATE_NODE PACKET_STATE_PASS Handle_NULL,
     OH ''SMSG_CAMERA_SHAKE'' True STATUS_NEVER PACKET_STATE_NODE PACKET_STATE_PASS Handle_ServerSide,
     OH ''SMSG_UPDATE_ITEM_ENCHANTMENTS'' True STATUS_NEVER PACKET_STATE_NODE PACKET_STATE_PASS Handle_ServerSide,
     OH ''CMSG_SET_CHARACTER_MODEL'' True STATUS_NEVER PACKET_STATE_NODE PACKET_STATE_PASS Handle_NULL,
     OH ''SMSG_REDIRECT_CLIENT'' True STATUS_NEVER PACKET_STATE_NODE PACKET_STATE_PASS Handle_ServerSide,
     OH ''CMSG_REDIRECTION_FAILED'' True STATUS_NEVER PACKET_STATE_NODE PACKET_STATE_PASS Handle_NULL,
     OH ''SMSG_SUSPEND_COMMS'' True STATUS_NEVER PACKET_STATE_NODE PACKET_STATE_PASS Handle_ServerSide,
     OH ''CMSG_SUSPEND_COMMS_ACK'' True STATUS_NEVER PACKET_STATE_NODE PACKET_STATE_PASS Handle_NULL,
     OH ''SMSG_FORCE_SEND_QUEUED_PACKETS'' True STATUS_NEVER PACKET_STATE_NODE PACKET_STATE_PASS Handle_ServerSide,
     OH ''CMSG_REDIRECTION_AUTH_PROOF'' True STATUS_NEVER PACKET_STATE_NODE PACKET_STATE_PASS Handle_NULL,
     OH ''CMSG_DROP_NEW_CONNECTION'' True STATUS_NEVER PACKET_STATE_NODE PACKET_STATE_PASS Handle_NULL,
     OH ''SMSG_COMBAT_LOG_MULTIPLE'' True STATUS_NEVER PACKET_STATE_NODE PACKET_STATE_PASS Handle_ServerSide,
     OH ''SMSG_LFG_OPEN_FROM_GOSSIP'' True STATUS_NEVER PACKET_STATE_NODE PACKET_STATE_PASS Handle_ServerSide,
     OH ''SMSG_MOVE_SET_COLLISION_HGT'' True STATUS_NEVER PACKET_STATE_NODE PACKET_STATE_PASS Handle_ServerSide,
     OH ''CMSG_MOVE_SET_COLLISION_HGT_ACK'' True STATUS_NEVER PACKET_STATE_NODE PACKET_STATE_PASS Handle_NULL,
     OH ''MSG_MOVE_SET_COLLISION_HGT'' True STATUS_NEVER PACKET_STATE_NODE PACKET_STATE_PASS Handle_ServerSide,
     OH ''CMSG_CLEAR_RANDOM_BG_WIN_TIME'' True STATUS_NEVER PACKET_STATE_NODE PACKET_STATE_PASS Handle_NULL,
     OH ''CMSG_CLEAR_HOLIDAY_BG_WIN_TIME'' True STATUS_NEVER PACKET_STATE_NODE PACKET_STATE_PASS Handle_NULL,
     OH ''CMSG_COMMENTATOR_SKIRMISH_QUEUE_COMMAND'' True STATUS_NEVER PACKET_STATE_NODE PACKET_STATE_PASS Handle_NULL,
     OH ''SMSG_COMMENTATOR_SKIRMISH_QUEUE_RESULT1'' True STATUS_NEVER PACKET_STATE_NODE PACKET_STATE_PASS Handle_ServerSide,
     OH ''SMSG_COMMENTATOR_SKIRMISH_QUEUE_RESULT2'' True STATUS_NEVER PACKET_STATE_NODE PACKET_STATE_PASS Handle_ServerSide,
     OH ''SMSG_UNKNOWN_1310'' True STATUS_NEVER PACKET_STATE_NODE PACKET_STATE_PASS Handle_ServerSide,
     OH ''NUM_CLIENT_MSG_TYPES'' True STATUS_NEVER PACKET_STATE_NULL PACKET_STATE_NULL Handle_NULL,
     OH ''LOGON_AUTH_MASTER'' True STATUS_NEVER PACKET_STATE_NULL PACKET_STATE_NULL Handle_ServerSide,
     OH ''LOGON_NODE_INIT'' True STATUS_NEVER PACKET_STATE_NULL PACKET_STATE_NULL Handle_ServerSide,
     OH ''NODE_INIT_ACK'' True STATUS_NEVER PACKET_STATE_NULL PACKET_STATE_NULL Handle_NULL,
     OH ''LOGON_SYNC_DATA'' True STATUS_NEVER PACKET_STATE_NULL PACKET_STATE_LOGON Handle_NULL,
     OH ''NODE_SYNC_DATA'' True STATUS_NEVER PACKET_STATE_NULL PACKET_STATE_LOGON Handle_NULL,
     OH ''NODE_PLAYER_CHANGED_ZONE'' True STATUS_LOGGEDIN PACKET_STATE_NULL PACKET_STATE_LOGON Handle_NODE_PLAYER_CHANGED_ZONE,
     OH ''NODE_PLAYER_DATA'' True STATUS_LOGGEDIN PACKET_STATE_NULL PACKET_STATE_LOGON Handle_NODE_PLAYER_DATA,
     OH ''NODE_MISC_DATA'' True STATUS_LOGGEDIN PACKET_STATE_NULL PACKET_STATE_LOGON Handle_NODE_MISC_DATA,
     OH ''CLUSTER_PLAYER_DATA'' True STATUS_NEVER PACKET_STATE_NODE PACKET_STATE_PASS Handle_NULL]"

section \<open>The table\<close>

definition zero_row :: OpcodeHandler where
  "zero_row = OH [] False STATUS_AUTHED PACKET_STATE_NULL PACKET_STATE_NULL NullPointer"

definition opcodeTable :: "OpcodeHandler list" where
  "opcodeTable = opcode_rows_0 @ opcode_rows_1 @ opcode_rows_2 @ opcode_rows_3 @ opcode_rows_4 @
     opcode_rows_5 @ opcode_rows_6 @ opcode_rows_7 @ opcode_rows_8 @ replicate 4 zero_row"

definition LookupOpcodeName :: "u16 \<Rightarrow> string" where
  "LookupOpcodeName opcode =
     (if NUM_MSG_TYPES \<le> unat opcode then ''Received unknown opcode, it's more than max!''
      else oh_name (opcodeTable ! unat opcode))"

lemma length_rows:
  "length opcode_rows_0 = 147" "length opcode_rows_1 = 147" "length opcode_rows_2 = 147"
  "length opcode_rows_3 = 147" "length opcode_rows_4 = 147" "length opcode_rows_5 = 147"
  "length opcode_rows_6 = 147" "length opcode_rows_7 = 147" "length opcode_rows_8 = 145"
  by (simp_all add: opcode_rows_0_def opcode_rows_1_def opcode_rows_2_def opcode_rows_3_def
      opcode_rows_4_def opcode_rows_5_def opcode_rows_6_def opcode_rows_7_def opcode_rows_8_def)

lemma length_opcodeTable [simp]: "length opcodeTable = NUM_MSG_TYPES"
  by (simp add: opcodeTable_def length_rows NUM_MSG_TYPES_def)


section \<open>What the dispatcher relies on\<close>

text \<open>
  The proxy applies a row's handler when the direction's state is \<open>LOGON\<close> or \<open>BOTH\<close>, and
  it has no case for \<open>PASS\<close> on the way to the node: a row is safe to dispatch when neither
  direction calls the null pointer of a zero entry and no client packet is marked \<open>PASS\<close>.
\<close>

definition row_dispatchable :: "OpcodeHandler \<Rightarrow> bool" where
  "row_dispatchable r \<longleftrightarrow> to_node r \<noteq> PACKET_STATE_PASS \<and>
     (handler r = NullPointer \<longrightarrow>
        to_node r = PACKET_STATE_NULL \<and> from_node r = PACKET_STATE_NULL)"


lemma rows_0_dispatchable: "list_all row_dispatchable opcode_rows_0"
  by (simp add: opcode_rows_0_def row_dispatchable_def)

lemma rows_1_dispatchable: "list_all row_dispatchable opcode_rows_1"
  by (simp add: opcode_rows_1_def row_dispatchable_def)

lemma rows_2_dispatchable: "list_all row_dispatchable opcode_rows_2"
  by (simp add: opcode_rows_2_def row_dispatchable_def)

lemma rows_3_dispatchable: "list_all row_dispatchable opcode_rows_3"
  by (simp add: opcode_rows_3_def row_dispatchable_def)

lemma rows_4_dispatchable: "list_all row_dispatchable opcode_rows_4"
  by (simp add: opcode_rows_4_def row_dispatchable_def)

lemma rows_5_dispatchable: "list_all row_dispatchable opcode_rows_5"
  by (simp add: opcode_rows_5_def row_dispatchable_def)

lemma rows_6_dispatchable: "list_all row_dispatchable opcode_rows_6"
  by (simp add: opcode_rows_6_def row_dispatchable_def)

lemma rows_7_dispatchable: "list_all row_dispatchable opcode_rows_7"
  by (simp add: opcode_rows_7_def row_dispatchable_def)

lemma rows_8_dispatchable: "list_all row_dispatchable opcode_rows_8"
  by (simp add: opcode_rows_8_def row_dispatchable_def)

lemma opcodeTable_dispatchable: "list_all row_dispatchable opcodeTable"
  by (simp add: opcodeTable_def rows_0_dispatchable rows_1_dispatchable rows_2_dispatchable
      rows_3_dispatchable rows_4_dispatchable rows_5_dispatchable rows_6_dispatchable
      rows_7_dispatchable rows_8_dispatchable)
    (simp add: zero_row_def row_dispatchable_def numeral_eq_Suc)

lemma nth_row_dispatchable:
  assumes "n < NUM_MSG_TYPES"
  shows "row_dispatchable (opcodeTable ! n)"
  using opcodeTable_dispatchable assms by (simp add: list_all_length)

lemma opcodeTable_tail:
  "drop 0x525 opcodeTable =
    [OH ''NODE_PLAYER_CHANGED_ZONE'' True STATUS_LOGGEDIN PACKET_STATE_NULL PACKET_STATE_LOGON
       Handle_NODE_PLAYER_CHANGED_ZONE,
     OH ''NODE_PLAYER_DATA'' True STATUS_LOGGEDIN PACKET_STATE_NULL PACKET_STATE_LOGON
       Handle_NODE_PLAYER_DATA,
     OH ''NODE_MISC_DATA'' True STATUS_LOGGEDIN PACKET_STATE_NULL PACKET_STATE_LOGON
       Handle_NODE_MISC_DATA,
     OH ''CLUSTER_PLAYER_DATA'' True STATUS_NEVER PACKET_STATE_NODE PACKET_STATE_PASS
       Handle_NULL,
     zero_row, zero_row, zero_row, zero_row]"
  by (simp add: opcodeTable_def length_rows drop_append)
    (simp add: opcode_rows_8_def numeral_eq_Suc)

end
