(* ===== verification/SocketStream.thy ===== *)
theory SocketStream
  imports PacketHeader PacketQueue OpcodeTable
begin

text \<open>
  The receiving half of \<open>shade/Server/Generics/Socket.cpp\<close>, which turns whatever pieces the
  kernel returns from \<open>recv\<close> into packets, and the two subclasses that speak with the nodes
  (\<open>NodeSocket.cpp\<close>, \<open>ControlSocket.cpp\<close>). The subclass's virtual functions are arguments
  of the base class's; the locale \<open>framing\<close> is the contract between them. Under it the loop
  ends, no assertion fails, and how the stream is cut into pieces does not matter.
\<close>

section \<open>State\<close>

text \<open>
  An \<open>ACE_Message_Block\<close>: its capacity, the read offset, and the bytes from its base up to
  the write pointer.
\<close>

record mblock =
  mb_cap :: nat
  mb_rd :: nat
  mb_data :: bytes

definition mb_new :: "nat \<Rightarrow> mblock" where
  "mb_new cap = \<lparr>mb_cap = cap, mb_rd = 0, mb_data = []\<rparr>"

definition mb_space :: "mblock \<Rightarrow> nat" where
  "mb_space b = mb_cap b - length (mb_data b)"

definition mb_unread :: "mblock \<Rightarrow> bytes" where
  "mb_unread b = drop (mb_rd b) (mb_data b)"

definition mb_reset :: "mblock \<Rightarrow> mblock" where
  "mb_reset b = b\<lparr>mb_rd := 0, mb_data := []\<rparr>"

text \<open>\<open>copy\<close> refuses (-1) what does not fit.\<close>

definition mb_copy :: "bytes \<Rightarrow> mblock \<Rightarrow> mblock option" where
  "mb_copy bs b = (if mb_space b < length bs then None
     else Some (b\<lparr>mb_data := mb_data b @ bs\<rparr>))"

text \<open>
  \<open>_recvPct\<close> has no memory of its own: its base is the storage of \<open>_recvWPct\<close>, so copying
  into it writes the packet. It is a capacity and a write offset. A subclass extends the record.
\<close>

record 'c sock =
  sk_header :: mblock
  sk_recvWPct :: "wpacket option"
  sk_recvPct_cap :: nat
  sk_recvPct_wr :: nat
  sk_closing :: bool
  sk_single :: "wpacket locked_queue"
  sk_multi :: "wpacket locked_queue"
  sk_outBuffer :: mblock
  sk_msg_queue :: "bytes list"
  sk_crypt :: "'c auth_crypt"

definition recvPct_space :: "('c, 'z) sock_scheme \<Rightarrow> nat" where
  "recvPct_space s = sk_recvPct_cap s - sk_recvPct_wr s"

text \<open>Writing the next bytes of the payload into the packet's storage.\<close>

definition recvPct_copy :: "bytes \<Rightarrow> ('c, 'z) sock_scheme \<Rightarrow> ('c, 'z) sock_scheme" where
  "recvPct_copy bs s =
     s\<lparr>sk_recvWPct := map_option (\<lambda>p. p\<lparr>buf := (buf p)\<lparr>storage :=
         take (sk_recvPct_wr s) (storage (buf p)) @ bs @
         drop (sk_recvPct_wr s + length bs) (storage (buf p))\<rparr>\<rparr>) (sk_recvWPct s),
       sk_recvPct_wr := sk_recvPct_wr s + length bs\<rparr>"

section \<open>The input loop\<close>

datatype hdr_result = HdrOk | HdrInvalid | HdrAssert

datatype in_exit = ExWouldBlock | ExInvalid | ExAssert

type_synonym ('c, 'z) input_header = "('c, 'z) sock_scheme \<Rightarrow> hdr_result \<times> ('c, 'z) sock_scheme"
type_synonym ('c, 'z) incoming = "wpacket \<Rightarrow> ('c, 'z) sock_scheme \<Rightarrow> int \<times> ('c, 'z) sock_scheme"

definition handle_input_payload ::
  "('c, 'z) incoming \<Rightarrow> ('c, 'z) sock_scheme \<Rightarrow> in_exit option \<times> ('c, 'z) sock_scheme" where
  "handle_input_payload proc s =
     (if recvPct_space s \<noteq> 0 \<or> mb_space (sk_header s) \<noteq> 0 then (Some ExAssert, s)
      else case sk_recvWPct s of
        None \<Rightarrow> (Some ExAssert, s)
      | Some pct \<Rightarrow>
          (case proc pct s of (ret, s1) \<Rightarrow>
            (if ret = -1 then Some ExInvalid else None,
             s1\<lparr>sk_recvPct_cap := 0, sk_recvPct_wr := 0, sk_recvWPct := None,
                sk_header := mb_reset (sk_header s1)\<rparr>)))"

text \<open>The first half of the loop's body: complete the header, then let the subclass read it.\<close>

definition input_header_phase ::
  "('c, 'z) input_header \<Rightarrow> bytes \<Rightarrow> ('c, 'z) sock_scheme \<Rightarrow>
   in_exit option \<times> bytes \<times> ('c, 'z) sock_scheme" where
  "input_header_phase hih bs s =
     (if mb_space (sk_header s) > 0 then
        (let to_header = min (length bs) (mb_space (sk_header s));
             s1 = s\<lparr>sk_header := (sk_header s)\<lparr>mb_data := mb_data (sk_header s) @ take to_header bs\<rparr>\<rparr>;
             bs1 = drop to_header bs
         in if mb_space (sk_header s1) > 0 then
              (if bs1 \<noteq> [] then Some ExAssert else Some ExWouldBlock, bs1, s1)
            else (case hih s1 of
                (HdrOk, s2) \<Rightarrow> (None, bs1, s2)
              | (HdrInvalid, s2) \<Rightarrow> (Some ExInvalid, bs1, s2)
              | (HdrAssert, s2) \<Rightarrow> (Some ExAssert, bs1, s2)))
      else (None, bs, s))"

text \<open>The second half: fill the payload and hand the packet on.\<close>

definition input_payload_phase ::
  "('c, 'z) incoming \<Rightarrow> bytes \<Rightarrow> ('c, 'z) sock_scheme \<Rightarrow>
   in_exit option \<times> bytes \<times> ('c, 'z) sock_scheme" where
  "input_payload_phase proc bs s =
     (if sk_recvWPct s = None then (Some ExInvalid, bs, s)
      else if recvPct_space s > 0 then
        (let to_data = min (length bs) (recvPct_space s);
             s1 = recvPct_copy (take to_data bs) s;
             bs1 = drop to_data bs
         in if recvPct_space s1 > 0 then
              (if bs1 \<noteq> [] then Some ExAssert else Some ExWouldBlock, bs1, s1)
            else (case handle_input_payload proc s1 of (e, s2) \<Rightarrow> (e, bs1, s2)))
      else (case handle_input_payload proc s of (e, s2) \<Rightarrow> (e, bs, s2)))"

definition input_iteration ::
  "('c, 'z) input_header \<Rightarrow> ('c, 'z) incoming \<Rightarrow> bytes \<Rightarrow> ('c, 'z) sock_scheme \<Rightarrow>
   in_exit option \<times> bytes \<times> ('c, 'z) sock_scheme" where
  "input_iteration hih proc bs s =
     (case input_header_phase hih bs s of
        (Some e, bs1, s1) \<Rightarrow> (Some e, bs1, s1)
      | (None, bs1, s1) \<Rightarrow> input_payload_phase proc bs1 s1)"

text \<open>\<open>while (message_block.length() > 0)\<close>; not returning is \<open>None\<close>.\<close>

partial_function (option) input_loop ::
  "('c, 'z) input_header \<Rightarrow> ('c, 'z) incoming \<Rightarrow> bytes \<Rightarrow> ('c, 'z) sock_scheme \<Rightarrow>
   (in_exit option \<times> ('c, 'z) sock_scheme) option" where
  "input_loop hih proc bs s =
     (if bs = [] then Some (None, s)
      else case input_iteration hih proc bs s of
        (Some e, bs1, s1) \<Rightarrow> Some (Some e, s1)
      | (None, bs1, s1) \<Rightarrow> input_loop hih proc bs1 s1)"

text \<open>
  What \<open>recv\<close> returned, with the \<open>errno\<close> test already made, and what \<open>handle_input\<close> tells the
  reactor: an \<open>int\<close>, unless an assertion stopped the process.
\<close>

datatype recv_result = RecvWouldBlock | RecvError | RecvEof | RecvData bytes

datatype in_result = InRet int | InAborted

definition recv_size :: nat where
  "recv_size = 4096"

definition Socket_handle_input ::
  "('c, 'z) input_header \<Rightarrow> ('c, 'z) incoming \<Rightarrow> recv_result \<Rightarrow> ('c, 'z) sock_scheme \<Rightarrow>
   (in_result \<times> ('c, 'z) sock_scheme) option" where
  "Socket_handle_input hih proc r s =
     (if sk_closing s then Some (InRet (-1), s)
      else case r of
        RecvWouldBlock \<Rightarrow> Some (InRet (if sk_closing s then -1 else 0), s)
      | RecvError \<Rightarrow> Some (InRet (-1), s)
      | RecvEof \<Rightarrow> Some (InRet (-1), s)
      | RecvData bs \<Rightarrow>
          (case input_loop hih proc bs s of
            None \<Rightarrow> None
          | Some (Some ExWouldBlock, s1) \<Rightarrow> Some (InRet (if sk_closing s1 then -1 else 0), s1)
          | Some (Some ExInvalid, s1) \<Rightarrow> Some (InRet (-1), s1)
          | Some (Some ExAssert, s1) \<Rightarrow> Some (InAborted, s1)
          | Some (None, s1) \<Rightarrow>
              (if length bs = recv_size then Some (InRet 1, s1)
               else Some (InRet (if sk_closing s1 then -1 else 0), s1))))"

text \<open>
  The reactor calls \<open>handle_input\<close> once per readable event; a -1 for anything but "would block"
  closes the connection.
\<close>

fun input_chunks ::
  "('c, 'z) input_header \<Rightarrow> ('c, 'z) incoming \<Rightarrow> bytes list \<Rightarrow> ('c, 'z) sock_scheme \<Rightarrow>
   (in_exit option \<times> ('c, 'z) sock_scheme) option" where
  "input_chunks hih proc [] s = Some (None, s)"
| "input_chunks hih proc (c # cs) s =
     (case input_loop hih proc c s of
        None \<Rightarrow> None
      | Some (e, s1) \<Rightarrow>
          if e = Some ExInvalid \<or> e = Some ExAssert \<or> cs = [] then Some (e, s1)
          else input_chunks hih proc cs s1)"

section \<open>The contract of a subclass\<close>

text \<open>
  Between two calls of \<open>handle_input\<close> the socket either still gathers header bytes, or holds
  a packet whose payload is incomplete. \<open>sock_mid\<close> is the state after a header was read.
\<close>

definition sock_mid :: "nat \<Rightarrow> ('c, 'z) sock_scheme \<Rightarrow> bool" where
  "sock_mid len s \<longleftrightarrow> mb_cap (sk_header s) = len \<and> mb_rd (sk_header s) = 0 \<and>
     length (mb_data (sk_header s)) = len \<and>
     (\<exists>p. sk_recvWPct s = Some p \<and> sk_recvPct_cap s = length (storage (buf p)) \<and>
        sk_recvPct_wr s \<le> sk_recvPct_cap s)"

definition sock_gathering :: "nat \<Rightarrow> ('c, 'z) sock_scheme \<Rightarrow> bool" where
  "sock_gathering len s \<longleftrightarrow> mb_cap (sk_header s) = len \<and> mb_rd (sk_header s) = 0 \<and>
     length (mb_data (sk_header s)) < len \<and>
     sk_recvWPct s = None \<and> sk_recvPct_cap s = 0 \<and> sk_recvPct_wr s = 0"

definition sock_ok :: "nat \<Rightarrow> ('c, 'z) sock_scheme \<Rightarrow> bool" where
  "sock_ok len s \<longleftrightarrow> sock_gathering len s \<or> sock_mid len s \<and> recvPct_space s > 0"

definition header_full :: "nat \<Rightarrow> ('c, 'z) sock_scheme \<Rightarrow> bool" where
  "header_full len s \<longleftrightarrow> mb_cap (sk_header s) = len \<and> mb_rd (sk_header s) = 0 \<and>
     length (mb_data (sk_header s)) = len \<and>
     sk_recvWPct s = None \<and> sk_recvPct_cap s = 0 \<and> sk_recvPct_wr s = 0"

lemma recvPct_copy_Nil:
  assumes "sock_mid len s"
  shows "recvPct_copy [] s = s"
  using assms by (auto simp: sock_mid_def recvPct_copy_def)

lemma recvPct_copy_mid:
  assumes "sock_mid len s" and "length bs \<le> recvPct_space s"
  shows "sock_mid len (recvPct_copy bs s)"
    and "recvPct_space (recvPct_copy bs s) = recvPct_space s - length bs"
  using assms by (auto simp: sock_mid_def recvPct_copy_def recvPct_space_def)

lemma recvPct_copy_copy:
  assumes "sock_mid len s" and "length as + length bs \<le> recvPct_space s"
  shows "recvPct_copy bs (recvPct_copy as s) = recvPct_copy (as @ bs) s"
  using assms by (auto simp: sock_mid_def recvPct_copy_def recvPct_space_def ac_simps)

lemma payload_phase_short:
  assumes "sock_mid len s" and "length bs < recvPct_space s"
  shows "input_payload_phase proc bs s = (Some ExWouldBlock, [], recvPct_copy bs s)"
  using assms recvPct_copy_mid(2) [OF assms(1), of bs]
  by (auto simp: input_payload_phase_def sock_mid_def)

lemma payload_phase_full:
  assumes "sock_mid len s" and "recvPct_space s \<le> length bs"
  shows "input_payload_phase proc bs s =
    (case handle_input_payload proc (recvPct_copy (take (recvPct_space s) bs) s) of
       (e, s2) \<Rightarrow> (e, drop (recvPct_space s) bs, s2))"
proof -
  have "min (length bs) (recvPct_space s) = recvPct_space s" using assms(2) by simp
  moreover have "sk_recvWPct s \<noteq> None" using assms(1) by (auto simp: sock_mid_def)
  moreover have "recvPct_space (recvPct_copy (take (recvPct_space s) bs) s) = 0"
    using recvPct_copy_mid(2) [OF assms(1), of "take (recvPct_space s) bs"] assms(2) by simp
  ultimately show ?thesis
    by (auto simp: input_payload_phase_def Let_def recvPct_copy_Nil [OF assms(1)])
qed

definition header_add :: "bytes \<Rightarrow> ('c, 'z) sock_scheme \<Rightarrow> ('c, 'z) sock_scheme" where
  "header_add bs s = s\<lparr>sk_header := (sk_header s)\<lparr>mb_data := mb_data (sk_header s) @ bs\<rparr>\<rparr>"

lemma header_add_add: "header_add bs (header_add as s) = header_add (as @ bs) s"
  by (simp add: header_add_def)

lemma header_phase_short:
  assumes "length bs < mb_space (sk_header s)"
  shows "input_header_phase hih bs s = (Some ExWouldBlock, [], header_add bs s)"
  using assms by (auto simp: input_header_phase_def header_add_def mb_space_def Let_def)

lemma header_phase_full:
  assumes "0 < mb_space (sk_header s)" and "mb_space (sk_header s) \<le> length bs"
  shows "input_header_phase hih bs s =
    (case hih (header_add (take (mb_space (sk_header s)) bs) s) of
       (HdrOk, s2) \<Rightarrow> (None, drop (mb_space (sk_header s)) bs, s2)
     | (HdrInvalid, s2) \<Rightarrow> (Some ExInvalid, drop (mb_space (sk_header s)) bs, s2)
     | (HdrAssert, s2) \<Rightarrow> (Some ExAssert, drop (mb_space (sk_header s)) bs, s2))"
proof -
  let ?n = "mb_space (sk_header s)"
  have "min (length bs) ?n = ?n" using assms by simp
  moreover have "mb_space (sk_header (header_add (take ?n bs) s)) = 0"
    using assms by (simp add: header_add_def mb_space_def)
  ultimately show ?thesis
    using assms(1) by (simp add: input_header_phase_def Let_def header_add_def)
qed

lemma header_phase_none:
  assumes "sock_mid len s"
  shows "input_header_phase hih bs s = (None, bs, s)"
  using assms by (auto simp: input_header_phase_def sock_mid_def mb_space_def)

lemma gathering_add:
  assumes "sock_gathering len s"
  shows "length bs < mb_space (sk_header s) \<Longrightarrow> sock_gathering len (header_add bs s)"
    and "length bs = mb_space (sk_header s) \<Longrightarrow> header_full len (header_add bs s)"
    and "0 < mb_space (sk_header s)"
    and "mb_space (sk_header (header_add bs s)) = mb_space (sk_header s) - length bs"
  using assms by (auto simp: sock_gathering_def header_full_def header_add_def mb_space_def)

locale framing =
  fixes hih :: "('c, 'z) input_header"
    and incoming :: "('c, 'z) incoming"
    and len :: nat
  assumes len_pos: "0 < len"
    and header_no_assert: "header_full len s \<Longrightarrow> hih s \<noteq> (HdrAssert, s')"
    and header_ok: "header_full len s \<Longrightarrow> hih s = (HdrOk, s') \<Longrightarrow>
      sock_mid len s' \<and> sk_recvPct_wr s' = 0"
    and incoming_frame: "incoming p s = (ret, s') \<Longrightarrow> sk_header s' = sk_header s"
begin

lemma payload_done:
  assumes "sock_mid len s" and "recvPct_space s = 0"
  obtains p ret s0 s1 where "sk_recvWPct s = Some p" and "incoming p s = (ret, s0)"
    and "handle_input_payload incoming s = (if ret = -1 then Some ExInvalid else None, s1)"
    and "s1 = s0\<lparr>sk_recvPct_cap := 0, sk_recvPct_wr := 0, sk_recvWPct := None,
           sk_header := mb_reset (sk_header s0)\<rparr>"
    and "sock_gathering len s1" and "mb_data (sk_header s1) = []"
proof -
  from assms(1) obtain p where p: "sk_recvWPct s = Some p" by (auto simp: sock_mid_def)
  obtain ret s0 where r: "incoming p s = (ret, s0)" by fastforce
  from incoming_frame [OF r] assms p r len_pos that show ?thesis
    by (auto simp: handle_input_payload_def mb_space_def sock_mid_def sock_gathering_def mb_reset_def)
qed

lemma payload_phase_ok:
  assumes "sock_mid len s" and "input_payload_phase incoming bs s = (e, bs1, s1)"
  shows "e \<noteq> Some ExAssert \<and> length bs1 \<le> length bs \<and>
    (e = None \<longrightarrow> sock_ok len s1 \<and> length bs1 + recvPct_space s = length bs) \<and>
    (e = Some ExWouldBlock \<longrightarrow> sock_ok len s1 \<and> bs1 = [])"
proof (cases "length bs < recvPct_space s")
  case True
  with assms(2) payload_phase_short [OF assms(1) True]
  have "e = Some ExWouldBlock" "bs1 = []" "s1 = recvPct_copy bs s" by auto
  with recvPct_copy_mid [OF assms(1), of bs] True show ?thesis by (simp add: sock_ok_def)
next
  case False
  let ?s = "recvPct_copy (take (recvPct_space s) bs) s"
  from False recvPct_copy_mid [OF assms(1), of "take (recvPct_space s) bs"]
  have m: "sock_mid len ?s" "recvPct_space ?s = 0" by simp_all
  obtain p ret s0 s2 where "sk_recvWPct ?s = Some p" "incoming p ?s = (ret, s0)"
    and h1: "handle_input_payload incoming ?s = (if ret = -1 then Some ExInvalid else None, s2)"
    and "s2 = s0\<lparr>sk_recvPct_cap := 0, sk_recvPct_wr := 0, sk_recvWPct := None,
           sk_header := mb_reset (sk_header s0)\<rparr>"
    and h2: "sock_gathering len s2" and "mb_data (sk_header s2) = []"
    by (rule payload_done [OF m])
  have "(e, bs1, s1) = (if ret = -1 then Some ExInvalid else None, drop (recvPct_space s) bs, s2)"
    using payload_phase_full [OF assms(1), of bs incoming] assms(2) False h1 by simp
  then have e: "e = (if ret = -1 then Some ExInvalid else None)" "bs1 = drop (recvPct_space s) bs" "s1 = s2"
    by (simp_all only: prod.inject)
  have "sock_ok len s1" using h2 e(3) by (simp add: sock_ok_def)
  moreover have "length bs1 + recvPct_space s = length bs" using e(2) False by simp
  ultimately show ?thesis using e(1) by simp
qed

lemma header_phase_ok:
  assumes "sock_gathering len s" and "input_header_phase hih bs s = (e, bs1, s1)"
  shows "e \<noteq> Some ExAssert \<and>
    (e = None \<longrightarrow> sock_mid len s1 \<and> sk_recvPct_wr s1 = 0 \<and> length bs1 < length bs) \<and>
    (e = Some ExWouldBlock \<longrightarrow> sock_gathering len s1 \<and> bs1 = [])"
proof (cases "length bs < mb_space (sk_header s)")
  case True
  with assms(2) header_phase_short [OF True, of hih]
  have "e = Some ExWouldBlock" "bs1 = []" "s1 = header_add bs s" by auto
  with gathering_add(1) [OF assms(1) True] show ?thesis by simp
next
  case False
  let ?n = "mb_space (sk_header s)"
  let ?s = "header_add (take ?n bs) s"
  have full: "header_full len ?s" using gathering_add(2) [OF assms(1), of "take ?n bs"] False by simp
  have pos: "0 < ?n" using gathering_add(3) [OF assms(1)] .
  obtain r s2 where h: "hih ?s = (r, s2)" by fastforce
  have "(e, bs1, s1) = (case r of HdrOk \<Rightarrow> None | HdrInvalid \<Rightarrow> Some ExInvalid | HdrAssert \<Rightarrow> Some ExAssert,
      drop ?n bs, s2)"
    using assms(2) header_phase_full [OF pos, of bs hih] False h by (cases r) simp_all
  moreover have "r \<noteq> HdrAssert" using header_no_assert [OF full] h by blast
  moreover have "r = HdrOk \<Longrightarrow> sock_mid len s2 \<and> sk_recvPct_wr s2 = 0" using header_ok [OF full] h by blast
  ultimately show ?thesis using False pos by (cases r) auto
qed

lemma iteration_ok:
  assumes ok: "sock_ok len s" and ne: "bs \<noteq> []"
    and it: "input_iteration hih incoming bs s = (e, bs1, s1)"
  shows "e \<noteq> Some ExAssert \<and> (e = None \<longrightarrow> sock_ok len s1 \<and> length bs1 < length bs) \<and>
    (e = Some ExWouldBlock \<longrightarrow> sock_ok len s1 \<and> bs1 = [])"
proof (cases "sock_gathering len s")
  case True
  obtain e0 bs0 s0 where h: "input_header_phase hih bs s = (e0, bs0, s0)" by (metis prod_cases3)
  note p = header_phase_ok [OF True h]
  show ?thesis
  proof (cases e0)
    case None
    with it h have "input_payload_phase incoming bs0 s0 = (e, bs1, s1)"
      by (simp add: input_iteration_def)
    from payload_phase_ok [OF _ this] p None show ?thesis by auto
  next
    case (Some x)
    with it h have "e = e0" "bs1 = bs0" "s1 = s0" by (auto simp: input_iteration_def)
    with p Some show ?thesis by (auto simp: sock_ok_def)
  qed
next
  case False
  with ok have m: "sock_mid len s" "recvPct_space s > 0" by (auto simp: sock_ok_def)
  with it have "input_payload_phase incoming bs s = (e, bs1, s1)"
    by (simp add: input_iteration_def header_phase_none [OF m(1)])
  from payload_phase_ok [OF m(1) this] m(2) show ?thesis by auto
qed

lemma loop_returns:
  "sock_ok len s \<Longrightarrow> \<exists>e s1. input_loop hih incoming bs s = Some (e, s1) \<and>
     e \<noteq> Some ExAssert \<and> (e \<noteq> Some ExInvalid \<longrightarrow> sock_ok len s1)"
proof (induction "length bs" arbitrary: bs s rule: less_induct)
  case less
  show ?case
  proof (cases "bs = []")
    case True
    with less.prems show ?thesis by (simp add: input_loop.simps)
  next
    case False
    obtain e bs1 s1 where it: "input_iteration hih incoming bs s = (e, bs1, s1)" by (metis prod_cases3)
    note p = iteration_ok [OF less.prems False it]
    show ?thesis
    proof (cases e)
      case None
      with p less.hyps [of bs1 s1] it False show ?thesis by (simp add: input_loop.simps [of _ _ bs])
    next
      case (Some x)
      with p it False show ?thesis by (cases x) (simp_all add: input_loop.simps [of _ _ bs])
    qed
  qed
qed

lemma payload_phase_append:
  assumes mid: "sock_mid len s" and ph: "input_payload_phase incoming as s = (e, as1, s1)"
  shows "(e = Some ExWouldBlock \<longrightarrow>
      sock_mid len s1 \<and>
      input_payload_phase incoming (as @ bs) s = input_payload_phase incoming bs s1) \<and>
    (e \<noteq> Some ExWouldBlock \<longrightarrow> input_payload_phase incoming (as @ bs) s = (e, as1 @ bs, s1))"
proof (cases "length as < recvPct_space s")
  case True
  note short = True
  with ph payload_phase_short [OF mid True]
  have e: "e = Some ExWouldBlock" "s1 = recvPct_copy as s" by auto
  have mid1: "sock_mid len s1" "recvPct_space s1 = recvPct_space s - length as"
    using recvPct_copy_mid [OF mid, of as] short e by auto
  have "input_payload_phase incoming (as @ bs) s = input_payload_phase incoming bs s1"
  proof (cases "length as + length bs < recvPct_space s")
    case True
    then have "input_payload_phase incoming bs s1 = (Some ExWouldBlock, [], recvPct_copy bs s1)"
      using mid1 by (intro payload_phase_short) auto
    moreover have "recvPct_copy bs s1 = recvPct_copy (as @ bs) s"
      unfolding e(2) using True by (intro recvPct_copy_copy [OF mid]) simp
    ultimately show ?thesis using True by (simp add: payload_phase_short [OF mid])
  next
    case False
    then have le: "recvPct_space s \<le> length (as @ bs)" "recvPct_space s1 \<le> length bs"
      using mid1(2) by auto
    have "recvPct_copy (take (recvPct_space s1) bs) s1 = recvPct_copy (take (recvPct_space s) (as @ bs)) s"
      using False short mid1(2) unfolding e(2) by (subst recvPct_copy_copy [OF mid]) simp_all
    then show ?thesis
      using short mid1(2) payload_phase_full [OF mid le(1), of incoming]
        payload_phase_full [OF mid1(1) le(2), of incoming] by simp
  qed
  with e mid1(1) show ?thesis by simp
next
  case False
  then have le: "recvPct_space s \<le> length as" "recvPct_space s \<le> length (as @ bs)" by simp_all
  have "e \<noteq> Some ExWouldBlock"
  proof
    let ?s = "recvPct_copy (take (recvPct_space s) as) s"
    assume "e = Some ExWouldBlock"
    have m: "sock_mid len ?s" "recvPct_space ?s = 0"
      using le recvPct_copy_mid [OF mid, of "take (recvPct_space s) as"] by simp_all
    obtain p ret s0 s2 where "sk_recvWPct ?s = Some p" "incoming p ?s = (ret, s0)"
      and h1: "handle_input_payload incoming ?s = (if ret = -1 then Some ExInvalid else None, s2)"
      and "s2 = s0\<lparr>sk_recvPct_cap := 0, sk_recvPct_wr := 0, sk_recvWPct := None,
             sk_header := mb_reset (sk_header s0)\<rparr>"
      and "sock_gathering len s2" and "mb_data (sk_header s2) = []"
      by (rule payload_done [OF m])
    with payload_phase_full [OF mid le(1), of incoming] ph \<open>e = Some ExWouldBlock\<close>
    show False by (simp split: if_splits)
  qed
  moreover have "input_payload_phase incoming (as @ bs) s = (e, as1 @ bs, s1)"
  proof -
    obtain e2 s2 where "handle_input_payload incoming (recvPct_copy (take (recvPct_space s) as) s) = (e2, s2)"
      by fastforce
    then show ?thesis using ph le
        payload_phase_full [OF mid le(1), of incoming] payload_phase_full [OF mid le(2), of incoming]
      by auto
  qed
  ultimately show ?thesis by simp
qed

lemma header_phase_append:
  assumes g: "sock_gathering len s" and ph: "input_header_phase hih as s = (e, as1, s1)"
  shows "(e = Some ExWouldBlock \<longrightarrow>
      input_header_phase hih (as @ bs) s = input_header_phase hih bs s1 \<and> sock_gathering len s1) \<and>
    (e \<noteq> Some ExWouldBlock \<longrightarrow> input_header_phase hih (as @ bs) s = (e, as1 @ bs, s1))"
proof (cases "length as < mb_space (sk_header s)")
  case True
  note short = True
  with ph header_phase_short [OF True, of hih]
  have e: "e = Some ExWouldBlock" "s1 = header_add as s" by auto
  have sp: "mb_space (sk_header s1) = mb_space (sk_header s) - length as"
    using gathering_add(4) [OF g, of as] e by simp
  have g1: "sock_gathering len s1" using gathering_add(1) [OF g short] e by simp
  have "input_header_phase hih (as @ bs) s = input_header_phase hih bs s1"
  proof (cases "length as + length bs < mb_space (sk_header s)")
    case True
    then have "input_header_phase hih bs s1 = (Some ExWouldBlock, [], header_add bs s1)"
      using sp by (intro header_phase_short) simp
    with True e(2) show ?thesis by (simp add: header_phase_short header_add_add)
  next
    case False
    then have le: "mb_space (sk_header s) \<le> length (as @ bs)" "mb_space (sk_header s1) \<le> length bs"
      using sp by auto
    have add: "header_add (take (mb_space (sk_header s1)) bs) s1 =
        header_add (take (mb_space (sk_header s)) (as @ bs)) s"
      unfolding e(2) header_add_add using short gathering_add(4) [OF g, of as] by simp
    have drp: "drop (mb_space (sk_header s1)) bs = drop (mb_space (sk_header s)) (as @ bs)"
      using short sp by simp
    show ?thesis
      using header_phase_full [OF gathering_add(3) [OF g] le(1), of hih]
        header_phase_full [OF gathering_add(3) [OF g1] le(2), of hih]
      unfolding add drp by simp
  qed
  with e g1 show ?thesis by simp
next
  case False
  then have le: "mb_space (sk_header s) \<le> length as" "mb_space (sk_header s) \<le> length (as @ bs)" by simp_all
  obtain r s2 where h: "hih (header_add (take (mb_space (sk_header s)) as) s) = (r, s2)" by fastforce
  have pos: "0 < mb_space (sk_header s)" by (rule gathering_add(3) [OF g])
  have tk: "take (mb_space (sk_header s)) (as @ bs) = take (mb_space (sk_header s)) as"
    "drop (mb_space (sk_header s)) (as @ bs) = drop (mb_space (sk_header s)) as @ bs"
    using le by simp_all
  show ?thesis
    using ph header_phase_full [OF pos le(1), of hih] header_phase_full [OF pos le(2), of hih]
    unfolding tk h by (cases r) auto
qed

lemma iteration_append:
  assumes ok: "sock_ok len s" and it: "input_iteration hih incoming as s = (e, as1, s1)"
  shows "(e = Some ExWouldBlock \<longrightarrow>
      input_iteration hih incoming (as @ bs) s = input_iteration hih incoming bs s1) \<and>
    (e \<noteq> Some ExWouldBlock \<longrightarrow> input_iteration hih incoming (as @ bs) s = (e, as1 @ bs, s1))"
proof (cases "sock_gathering len s")
  case True
  obtain e0 as0 s0 where h: "input_header_phase hih as s = (e0, as0, s0)" by (metis prod_cases3)
  note p = header_phase_append [OF True h, of bs] and q = header_phase_ok [OF True h]
  show ?thesis
  proof (cases e0)
    case None
    with it h have ph: "input_payload_phase incoming as0 s0 = (e, as1, s1)"
      by (simp add: input_iteration_def)
    from None q have m0: "sock_mid len s0" by simp
    note r = payload_phase_append [OF m0 ph, of bs]
    show ?thesis
      using r p None header_phase_none [of len s1 hih bs]
      by (cases "e = Some ExWouldBlock") (simp_all add: input_iteration_def)
  next
    case (Some x)
    with it h have "e = e0" "as1 = as0" "s1 = s0" by (auto simp: input_iteration_def)
    with p Some show ?thesis by (cases "e0 = Some ExWouldBlock") (simp_all add: input_iteration_def)
  qed
next
  case False
  with ok have m: "sock_mid len s" by (auto simp: sock_ok_def)
  with it have "input_payload_phase incoming as s = (e, as1, s1)"
    by (simp add: input_iteration_def header_phase_none)
  from payload_phase_append [OF m this, of bs] show ?thesis
    by (auto simp: input_iteration_def header_phase_none [OF m] header_phase_none)
qed

text \<open>
  Cutting the stream anywhere: after the first piece the loop has done exactly what it does on
  that prefix of the whole stream.
\<close>

lemma loop_append:
  assumes "sock_ok len s" and "input_loop hih incoming as s = Some (e, s1)"
  shows "(e = Some ExInvalid \<longrightarrow> input_loop hih incoming (as @ bs) s = Some (e, s1)) \<and>
    (e \<noteq> Some ExInvalid \<and> bs \<noteq> [] \<longrightarrow> input_loop hih incoming (as @ bs) s = input_loop hih incoming bs s1)"
  using assms
proof (induction "length as" arbitrary: as s rule: less_induct)
  case less
  show ?case
  proof (cases "as = []")
    case True
    with less.prems show ?thesis by (simp add: input_loop.simps)
  next
    case False
    obtain e' as1 s' where it: "input_iteration hih incoming as s = (e', as1, s')" by (metis prod_cases3)
    note p = iteration_ok [OF less.prems(1) False it]
      and q = iteration_append [OF less.prems(1) it, of bs]
    show ?thesis
    proof (cases e')
      case None
      with p q less.hyps [of as1 s'] less.prems(2) it False show ?thesis
        by (simp add: input_loop.simps [of _ _ as] input_loop.simps [of _ _ "as @ bs"])
    next
      case (Some x)
      with less.prems(2) it False have e: "e = Some x" "s1 = s'"
        by (simp_all add: input_loop.simps [of _ _ as])
      with p q Some it False show ?thesis
        by (cases x) (simp_all add: input_loop.simps [of _ _ "as @ bs"] input_loop.simps [of _ _ bs])
    qed
  qed
qed

lemma chunks_concat:
  "sock_ok len s \<Longrightarrow> list_all (\<lambda>c. c \<noteq> []) cs \<Longrightarrow>
   input_chunks hih incoming cs s = input_loop hih incoming (concat cs) s"
proof (induction cs arbitrary: s)
  case Nil
  then show ?case by (simp add: input_loop.simps)
next
  case (Cons c cs)
  obtain e s1 where l: "input_loop hih incoming c s = Some (e, s1)" "e \<noteq> Some ExAssert"
    "e \<noteq> Some ExInvalid \<longrightarrow> sock_ok len s1"
    using loop_returns [OF Cons.prems(1)] by blast
  note a = loop_append [OF Cons.prems(1) l(1), of "concat cs"]
  show ?case
  proof (cases "e = Some ExInvalid \<or> cs = []")
    case True
    with a l show ?thesis by auto
  next
    case False
    with Cons.prems(2) have "concat cs \<noteq> []" by (cases cs) auto
    with False l a have "input_loop hih incoming (c @ concat cs) s = input_loop hih incoming (concat cs) s1"
      by blast
    moreover have "input_chunks hih incoming cs s1 = input_loop hih incoming (concat cs) s1"
      using False l Cons.prems(2) by (intro Cons.IH) simp_all
    ultimately show ?thesis using l False by simp
  qed
qed

end

section \<open>The sockets to the nodes\<close>

definition NodeSocket_handleInputHeader ::
  "('c \<Rightarrow> bytes \<Rightarrow> bytes \<times> 'c) \<Rightarrow> ('c, 'z) input_header" where
  "NodeSocket_handleInputHeader upd s =
     (if sk_recvWPct s \<noteq> None \<or>
         length (mb_unread (sk_header s)) \<noteq> Flexi_ClientPktHeader_sizeof then (HdrAssert, s)
      else
        (case AuthCrypt_DecryptRecv upd (mb_unread (sk_header s)) (sk_crypt s) of
          (plain, crypt) \<Rightarrow>
          (let header = Flexi_ClientPktHeader_at plain;
               hsize = EndianConvertReverse_u32 (fch_size header);
               hcmd = EndianConvert_u16 (fch_cmd header);
               s1 = s\<lparr>sk_crypt := crypt\<rparr>
           in if hsize < 2 then (HdrInvalid, s1)
              else
                (let hsize = hsize - 2;
                     pct = pkt_new hcmd;
                     pct1 = pct\<lparr>buf := bb_resize (unat hsize) (buf pct)\<rparr>
                 in if hsize > 0 then
                      (HdrOk, s1\<lparr>sk_recvWPct := Some pct1,
                         sk_recvPct_cap := bb_size (buf pct1), sk_recvPct_wr := 0\<rparr>)
                    else if recvPct_space s1 \<noteq> 0 then (HdrAssert, s1)
                    else (HdrOk, s1\<lparr>sk_recvWPct := Some pct\<rparr>)))))"

text \<open>The socket owns no session: what the table knows is queued, the rest is freed.\<close>

definition NodeSocket_processIncoming :: "('c, 'z) incoming" where
  "NodeSocket_processIncoming newPacket s =
     (if unat (opcode newPacket) < NUM_MSG_TYPES then
        (if multipass (opcodeTable ! unat (opcode newPacket))
         then (0, s\<lparr>sk_multi := lq_add newPacket (sk_multi s)\<rparr>)
         else (0, s\<lparr>sk_single := lq_add newPacket (sk_single s)\<rparr>))
      else (0, s))"

definition ControlSocket_handleInputHeader ::
  "('c \<Rightarrow> bytes \<Rightarrow> bytes \<times> 'c) \<Rightarrow> ('c, 'z) input_header" where
  "ControlSocket_handleInputHeader upd s =
     (if sk_recvWPct s \<noteq> None \<or>
         length (mb_unread (sk_header s)) \<noteq> Flexi_ClientPktHeader_sizeof then (HdrAssert, s)
      else
        (case AuthCrypt_DecryptRecv upd (mb_unread (sk_header s)) (sk_crypt s) of
          (plain, crypt) \<Rightarrow>
          (let header = Flexi_ClientPktHeader_at plain;
               hsize = EndianConvertReverse_u32 (fch_size header);
               hcmd = EndianConvert_u16 (fch_cmd header);
               s1 = s\<lparr>sk_crypt := crypt\<rparr>
           in if hsize < 2 then (HdrInvalid, s1)
              else
                (let hsize = hsize - 2;
                     pct = pkt_new hcmd;
                     pct1 = pct\<lparr>buf := bb_resize (unat hsize) (buf pct)\<rparr>
                 in if hsize > 0 then
                      (HdrOk, s1\<lparr>sk_recvWPct := Some pct1,
                         sk_recvPct_cap := bb_size (buf pct1), sk_recvPct_wr := 0\<rparr>)
                    else if recvPct_space s1 \<noteq> 0 then (HdrAssert, s1)
                    else (HdrOk, s1\<lparr>sk_recvWPct := Some pct\<rparr>)))))"

definition ControlSocket_processIncoming :: "('c, 'z) incoming" where
  "ControlSocket_processIncoming newPacket s =
     (let opc = ucast (opcode newPacket) :: u32
      in if unat opc < NUM_MSG_TYPES then
           (if multipass (opcodeTable ! unat opc)
            then (0, s\<lparr>sk_multi := lq_add newPacket (sk_multi s)\<rparr>)
            else (0, s\<lparr>sk_single := lq_add newPacket (sk_single s)\<rparr>))
         else (0, s))"

lemma unat_ucast_u16: "unat (ucast (w :: u16) :: u32) = unat w"
  using unat_u16_bound [of w] by (simp add: unsigned_ucast_eq take_bit_nat_eq_self_iff)

lemma Control_is_Node:
  "ControlSocket_handleInputHeader = NodeSocket_handleInputHeader"
  "ControlSocket_processIncoming = NodeSocket_processIncoming"
  by (intro ext, simp add: ControlSocket_handleInputHeader_def NodeSocket_handleInputHeader_def)
    (intro ext, simp add: ControlSocket_processIncoming_def NodeSocket_processIncoming_def Let_def
      unat_ucast_u16)

lemma length_mb_unread: "mb_rd b = 0 \<Longrightarrow> mb_unread b = mb_data b"
  by (simp add: mb_unread_def)

lemma bb_resize_new: "bb_resize n bb_new = \<lparr>rpos = 0, wpos = n, storage = replicate n 0\<rparr>"
  by (simp add: bb_resize_def bb_new_def bb_size_def)

lemma NodeSocket_header_contract:
  assumes "header_full Flexi_ClientPktHeader_sizeof s"
  shows "NodeSocket_handleInputHeader upd s \<noteq> (HdrAssert, s')"
    and "NodeSocket_handleInputHeader upd s = (HdrOk, s') \<Longrightarrow>
      sock_mid Flexi_ClientPktHeader_sizeof s' \<and> sk_recvPct_wr s' = 0"
  using assms
  by (auto simp: NodeSocket_handleInputHeader_def header_full_def length_mb_unread recvPct_space_def
      Let_def sock_mid_def pkt_new_def bb_resize_new bb_size_def bb_new_def
      split: prod.splits if_splits)

lemma NodeSocket_incoming_frame:
  "NodeSocket_processIncoming p s = (ret, s') \<Longrightarrow> sk_header s' = sk_header s"
  by (auto simp: NodeSocket_processIncoming_def split: if_splits)

lemma Flexi_sizeof_pos: "0 < Flexi_ClientPktHeader_sizeof"
  by (simp add: Flexi_ClientPktHeader_sizeof_def)

interpretation node_frame: framing
  "NodeSocket_handleInputHeader upd" NodeSocket_processIncoming Flexi_ClientPktHeader_sizeof
  for upd
  by unfold_locales
    (use Flexi_sizeof_pos NodeSocket_header_contract NodeSocket_incoming_frame in blast)+

interpretation control_frame: framing
  "ControlSocket_handleInputHeader upd" ControlSocket_processIncoming Flexi_ClientPktHeader_sizeof
  for upd
  unfolding Control_is_Node by (rule node_frame.framing_axioms)

section \<open>Frames\<close>

text \<open>What a packet looks like to its receiver, and the bytes a node packet travels as.\<close>

definition pkt_received :: "wpacket \<Rightarrow> wpacket" where
  "pkt_received p = \<lparr>opcode = opcode p,
     buf = \<lparr>rpos = 0, wpos = bb_size (buf p), storage = storage (buf p)\<rparr>\<rparr>"

definition flexi_wire :: "wpacket \<Rightarrow> bytes" where
  "flexi_wire p = fsh_header (Flexi_ServerPktHeader (word_of_nat (bb_size (buf p) + 2)) (opcode p)) @
     storage (buf p)"

definition sock_idle :: "nat \<Rightarrow> ('c, 'z) sock_scheme \<Rightarrow> bool" where
  "sock_idle len s \<longleftrightarrow> sock_gathering len s \<and> mb_data (sk_header s) = []"

lemma flexi_size:
  assumes "n + 2 < 4294967296"
  shows "\<not> (word_of_nat (n + 2) :: u32) < 2" "unat ((word_of_nat (n + 2) :: u32) - 2) = n"
proof -
  have u: "unat (word_of_nat (n + 2) :: u32) = n + 2" using assms by (simp only: unat_of_nat) simp
  then show "\<not> (word_of_nat (n + 2) :: u32) < 2" by (simp add: word_less_nat_alt)
  then have "(2 :: u32) \<le> word_of_nat (n + 2)" by simp
  then show "unat ((word_of_nat (n + 2) :: u32) - 2) = n" using u by (simp only: unat_sub) simp
qed

lemma NodeSocket_reads_header:
  assumes idle: "sock_idle Flexi_ClientPktHeader_sizeof s" and plain: "\<not> crypt_initialized (sk_crypt s)"
    and n: "n + 2 < 4294967296"
  shows "NodeSocket_handleInputHeader upd
      (header_add (fsh_header (Flexi_ServerPktHeader (word_of_nat (n + 2)) cmd)) s) =
    (HdrOk, (header_add (fsh_header (Flexi_ServerPktHeader (word_of_nat (n + 2)) cmd)) s)
       \<lparr>sk_recvWPct := Some \<lparr>opcode = cmd, buf = \<lparr>rpos = 0, wpos = n, storage = replicate n 0\<rparr>\<rparr>,
        sk_recvPct_cap := n, sk_recvPct_wr := 0\<rparr>)"
proof -
  let ?hdr = "fsh_header (Flexi_ServerPktHeader (word_of_nat (n + 2)) cmd)"
  let ?s = "header_add ?hdr s"
  have rd: "mb_unread (sk_header ?s) = ?hdr" and none: "sk_recvWPct ?s = None"
    and cap: "sk_recvPct_cap ?s = 0" "sk_recvPct_wr ?s = 0" and cr: "\<not> crypt_initialized (sk_crypt ?s)"
    using idle plain by (simp_all add: sock_idle_def sock_gathering_def header_add_def length_mb_unread)
  have sz: "length ?hdr = Flexi_ClientPktHeader_sizeof" by (simp add: Flexi_ClientPktHeader_sizeof_def)
  have pos: "0 < (word_of_nat (n + 2) :: u32) - 2 \<longleftrightarrow> n \<noteq> 0"
    using flexi_size(2) [OF n] by (metis word_gt_0 unat_eq_zero)
  have same: "?s\<lparr>sk_crypt := sk_crypt ?s\<rparr> = ?s" by simp
  show ?thesis
    unfolding NodeSocket_handleInputHeader_def rd AuthCrypt_DecryptRecv_def Let_def
    using none cap cr sz pos flexi_size [OF n]
    by (simp only: prod.case Flexi_header_cast EndianConvert_u16_def if_True if_False simp_thms same)
       (cases n; simp add: pkt_new_def bb_resize_def bb_size_def recvPct_space_def bb_new_def)
qed

text \<open>The socket after a complete packet is where it was, with the packet queued.\<close>

definition node_deliver :: "wpacket \<Rightarrow> ('c, 'z) sock_scheme \<Rightarrow> ('c, 'z) sock_scheme" where
  "node_deliver p s = snd (NodeSocket_processIncoming (pkt_received p) s)"

lemma node_deliver_fields:
  "sk_header (node_deliver p s) = sk_header s" "sk_recvWPct (node_deliver p s) = sk_recvWPct s"
  "sk_recvPct_cap (node_deliver p s) = sk_recvPct_cap s"
  "sk_recvPct_wr (node_deliver p s) = sk_recvPct_wr s" "sk_crypt (node_deliver p s) = sk_crypt s"
  "sk_closing (node_deliver p s) = sk_closing s"
  by (simp_all add: node_deliver_def NodeSocket_processIncoming_def)

lemma node_deliver_queues:
  "lq_queue (sk_multi (node_deliver p s)) = lq_queue (sk_multi s) @
     (if unat (opcode p) < NUM_MSG_TYPES \<and> multipass (opcodeTable ! unat (opcode p))
      then [pkt_received p] else [])"
  "lq_queue (sk_single (node_deliver p s)) = lq_queue (sk_single s) @
     (if unat (opcode p) < NUM_MSG_TYPES \<and> \<not> multipass (opcodeTable ! unat (opcode p))
      then [pkt_received p] else [])"
  by (simp_all add: node_deliver_def NodeSocket_processIncoming_def pkt_received_def lq_add_def)

text \<open>
  The state in which a complete frame is handed to the subclass, and what the iteration that
  reads it returns, for any subclass with this header.
\<close>

definition frame_mid :: "wpacket \<Rightarrow> ('c, 'z) sock_scheme \<Rightarrow> ('c, 'z) sock_scheme" where
  "frame_mid p s = (header_add (fsh_header (Flexi_ServerPktHeader
       (word_of_nat (bb_size (buf p) + 2)) (opcode p))) s)
     \<lparr>sk_recvWPct := Some (pkt_received p), sk_recvPct_cap := bb_size (buf p),
      sk_recvPct_wr := bb_size (buf p)\<rparr>"

definition frame_end :: "('c, 'z) sock_scheme \<Rightarrow> ('c, 'z) sock_scheme" where
  "frame_end s = s\<lparr>sk_recvPct_cap := 0, sk_recvPct_wr := 0, sk_recvWPct := None,
     sk_header := mb_reset (sk_header s)\<rparr>"

lemma flexi_reads_frame:
  assumes idle: "sock_idle Flexi_ClientPktHeader_sizeof s" and plain: "\<not> crypt_initialized (sk_crypt s)"
    and n: "bb_size (buf p) + 2 < 4294967296"
  shows "input_iteration (NodeSocket_handleInputHeader upd) proc (flexi_wire p @ rest) s =
    (case proc (pkt_received p) (frame_mid p s) of
      (ret, s1) \<Rightarrow> (if ret = -1 then Some ExInvalid else None, rest, frame_end s1))"
proof -
  let ?n = "bb_size (buf p)"
  let ?hdr = "fsh_header (Flexi_ServerPktHeader (word_of_nat (?n + 2)) (opcode p))"
  let ?s1 = "header_add ?hdr s"
  let ?s2 = "?s1\<lparr>sk_recvWPct := Some \<lparr>opcode = opcode p,
      buf = \<lparr>rpos = 0, wpos = ?n, storage = replicate ?n 0\<rparr>\<rparr>, sk_recvPct_cap := ?n, sk_recvPct_wr := 0\<rparr>"
  have g: "sock_gathering Flexi_ClientPktHeader_sizeof s" and sp: "mb_space (sk_header s) = 6"
    using idle by (simp_all add: sock_idle_def sock_gathering_def mb_space_def Flexi_ClientPktHeader_sizeof_def)
  have hp: "input_header_phase (NodeSocket_handleInputHeader upd) (flexi_wire p @ rest) s =
      (None, storage (buf p) @ rest, ?s2)"
    using header_phase_full [of s "flexi_wire p @ rest" "NodeSocket_handleInputHeader upd"]
      NodeSocket_reads_header [OF idle plain n, of upd "opcode p"]
    by (simp add: sp flexi_wire_def)
  have mid: "sock_mid Flexi_ClientPktHeader_sizeof ?s2"
    using g idle by (simp add: sock_mid_def sock_idle_def sock_gathering_def header_add_def
        Flexi_ClientPktHeader_sizeof_def)
  have cp: "recvPct_copy (storage (buf p)) ?s2 = frame_mid p s"
    by (simp add: recvPct_copy_def pkt_received_def bb_size_def frame_mid_def)
  have space: "recvPct_space ?s2 = ?n" by (simp add: recvPct_space_def)
  have fin: "handle_input_payload proc (frame_mid p s) = (case proc (pkt_received p) (frame_mid p s) of
      (ret, s1) \<Rightarrow> (if ret = -1 then Some ExInvalid else None, frame_end s1))"
    using idle by (simp add: handle_input_payload_def mb_space_def header_add_def sock_idle_def
        sock_gathering_def Flexi_ClientPktHeader_sizeof_def recvPct_space_def frame_mid_def frame_end_def)
  have "input_payload_phase proc (storage (buf p) @ rest) ?s2 =
      (case proc (pkt_received p) (frame_mid p s) of
        (ret, s1) \<Rightarrow> (if ret = -1 then Some ExInvalid else None, rest, frame_end s1))"
    using payload_phase_full [OF mid, of "storage (buf p) @ rest" proc] cp fin
    unfolding space by (simp add: bb_size_def split: prod.splits)
  with hp show ?thesis by (simp add: input_iteration_def)
qed

lemma NodeSocket_reads_frame:
  assumes idle: "sock_idle Flexi_ClientPktHeader_sizeof s" and plain: "\<not> crypt_initialized (sk_crypt s)"
    and n: "bb_size (buf p) + 2 < 4294967296"
  shows "input_iteration (NodeSocket_handleInputHeader upd) NodeSocket_processIncoming
      (flexi_wire p @ rest) s = (None, rest, node_deliver p s)"
  using idle unfolding flexi_reads_frame [OF assms]
  by (cases s) (simp add: NodeSocket_processIncoming_def node_deliver_def frame_mid_def frame_end_def
      header_add_def mb_reset_def sock_idle_def sock_gathering_def)

definition frame_fits :: "wpacket \<Rightarrow> bool" where
  "frame_fits p \<longleftrightarrow> bb_size (buf p) + 2 < 4294967296"

definition goes_multi :: "wpacket \<Rightarrow> bool" where
  "goes_multi p \<longleftrightarrow> unat (opcode p) < NUM_MSG_TYPES \<and> multipass (opcodeTable ! unat (opcode p))"

definition goes_single :: "wpacket \<Rightarrow> bool" where
  "goes_single p \<longleftrightarrow> unat (opcode p) < NUM_MSG_TYPES \<and> \<not> multipass (opcodeTable ! unat (opcode p))"

lemma flexi_wire_ne [simp]: "flexi_wire p \<noteq> []"
  using length_Flexi_header [of "word_of_nat (bb_size (buf p) + 2)" "opcode p"]
  by (auto simp: flexi_wire_def simp del: length_Flexi_header)

lemma node_deliver_idle:
  "sock_idle len (node_deliver p s) \<longleftrightarrow> sock_idle len s"
  by (simp add: sock_idle_def sock_gathering_def node_deliver_fields)

lemma node_loop_frames:
  "sock_idle Flexi_ClientPktHeader_sizeof s \<Longrightarrow> \<not> crypt_initialized (sk_crypt s) \<Longrightarrow>
   list_all frame_fits ps \<Longrightarrow>
   input_loop (NodeSocket_handleInputHeader upd) NodeSocket_processIncoming
     (concat (map flexi_wire ps) @ rest) s =
   input_loop (NodeSocket_handleInputHeader upd) NodeSocket_processIncoming rest (fold node_deliver ps s)"
proof (induction ps arbitrary: s)
  case (Cons p ps)
  have "input_iteration (NodeSocket_handleInputHeader upd) NodeSocket_processIncoming
      (flexi_wire p @ concat (map flexi_wire ps) @ rest) s =
      (None, concat (map flexi_wire ps) @ rest, node_deliver p s)"
    using Cons.prems by (intro NodeSocket_reads_frame) (simp_all add: frame_fits_def)
  moreover have "sock_idle Flexi_ClientPktHeader_sizeof (node_deliver p s)"
    "\<not> crypt_initialized (sk_crypt (node_deliver p s))"
    using Cons.prems by (simp_all add: node_deliver_idle node_deliver_fields)
  ultimately show ?case
    using Cons.IH [of "node_deliver p s"] Cons.prems(3)
    by (simp add: input_loop.simps [of _ _ "flexi_wire p @ concat (map flexi_wire ps) @ rest"])
qed simp

lemma node_delivers:
  "sock_idle len (fold node_deliver ps s) \<longleftrightarrow> sock_idle len s"
  "sk_crypt (fold node_deliver ps s) = sk_crypt s"
  "sk_closing (fold node_deliver ps s) = sk_closing s"
  "lq_queue (sk_multi (fold node_deliver ps s)) =
     lq_queue (sk_multi s) @ map pkt_received (filter goes_multi ps)"
  "lq_queue (sk_single (fold node_deliver ps s)) =
     lq_queue (sk_single s) @ map pkt_received (filter goes_single ps)"
  by (induction ps arbitrary: s)
    (simp_all add: node_deliver_idle node_deliver_fields node_deliver_queues goes_multi_def goes_single_def)

lemma idle_ok: "sock_idle len s \<Longrightarrow> sock_ok len s"
  by (simp add: sock_idle_def sock_ok_def)

text \<open>
  C15: \<open>NodeSocket\<close> rebuilds exactly the packets that were sent, in their order, from any
  cutting of the stream into \<open>recv\<close> pieces: the multipass packets in one queue, the others in the
  other, the opcodes outside the table dropped, and the socket ready for the next header.
\<close>

theorem NodeSocket_reassembles:
  assumes "sock_idle Flexi_ClientPktHeader_sizeof s" and "\<not> crypt_initialized (sk_crypt s)"
    and "list_all frame_fits ps" and "list_all (\<lambda>c. c \<noteq> []) chunks"
    and "concat chunks = concat (map flexi_wire ps)"
  shows "\<exists>s'. input_chunks (NodeSocket_handleInputHeader upd) NodeSocket_processIncoming chunks s =
      Some (None, s') \<and> sock_idle Flexi_ClientPktHeader_sizeof s' \<and>
      lq_queue (sk_multi s') = lq_queue (sk_multi s) @ map pkt_received (filter goes_multi ps) \<and>
      lq_queue (sk_single s') = lq_queue (sk_single s) @ map pkt_received (filter goes_single ps)"
  using node_frame.chunks_concat [OF idle_ok [OF assms(1)] assms(4), of upd]
    node_loop_frames [OF assms(1-3), of upd "[]"] assms(1,5)
  by (simp add: input_loop.simps node_delivers)

text \<open>
  C16: Whatever the peer sends, \<open>handle_input\<close> of a node socket in a state between two calls
  returns, no assertion fails, and unless it closes the connection the state is again one
  between two calls.
\<close>

theorem NodeSocket_handle_input_total:
  assumes "sock_ok Flexi_ClientPktHeader_sizeof s"
  shows "\<exists>i s'. Socket_handle_input (NodeSocket_handleInputHeader upd) NodeSocket_processIncoming r s =
      Some (InRet i, s') \<and> (i = -1 \<or> sock_ok Flexi_ClientPktHeader_sizeof s')"
proof (cases r)
  case (RecvData bs)
  obtain e s1 where "input_loop (NodeSocket_handleInputHeader upd) NodeSocket_processIncoming bs s =
      Some (e, s1)" "e \<noteq> Some ExAssert"
    "e \<noteq> Some ExInvalid \<longrightarrow> sock_ok Flexi_ClientPktHeader_sizeof s1"
    using node_frame.loop_returns [OF assms] by blast
  with RecvData assms show ?thesis
    by (cases e rule: option.exhaust; (cases "the e")?) (simp_all add: Socket_handle_input_def)
qed (simp_all add: Socket_handle_input_def assms)

text \<open>
  C17: For a control socket in a state between two calls, two cuttings of the same stream,
  well-formed or not, leave the same queues, the same partly read packet and the same verdict.
\<close>

theorem ControlSocket_chunk_invariant:
  assumes "sock_ok Flexi_ClientPktHeader_sizeof s" and "list_all (\<lambda>c. c \<noteq> []) cs"
    and "list_all (\<lambda>c. c \<noteq> []) ds" and "concat cs = concat ds"
  shows "input_chunks (ControlSocket_handleInputHeader upd) ControlSocket_processIncoming cs s =
    input_chunks (ControlSocket_handleInputHeader upd) ControlSocket_processIncoming ds s"
  using control_frame.chunks_concat [OF assms(1,2), of upd]
    control_frame.chunks_concat [OF assms(1,3), of upd] assms(4) by simp

section \<open>The theorems at work\<close>

definition sock_fresh :: "'c \<Rightarrow> nat \<Rightarrow> 'c sock" where
  "sock_fresh c hdr = \<lparr>sk_header = mb_new hdr, sk_recvWPct = None, sk_recvPct_cap = 0,
     sk_recvPct_wr = 0, sk_closing = False, sk_single = lq_new, sk_multi = lq_new,
     sk_outBuffer = mb_new 65536, sk_msg_queue = [], sk_crypt = AuthCrypt_new c\<rparr>"

lemma sock_fresh_idle:
  "sock_idle Flexi_ClientPktHeader_sizeof (sock_fresh c Flexi_ClientPktHeader_sizeof)"
  "\<not> crypt_initialized (sk_crypt (sock_fresh c hdr))"
  by (simp_all add: sock_idle_def sock_gathering_def sock_fresh_def mb_new_def AuthCrypt_new_def
      Flexi_sizeof_pos)

theorem NodeSocket_reassembles_witness:
  "\<exists>s'. input_chunks (NodeSocket_handleInputHeader (\<lambda>(c :: unit) bs. (bs, c))) NodeSocket_processIncoming
       [[0, 0, 0], [3, 0x4E, 0, 9]] (sock_fresh () Flexi_ClientPktHeader_sizeof) = Some (None, s') \<and>
     sock_idle Flexi_ClientPktHeader_sizeof s'"
proof -
  have w: "flexi_wire (mk_pkt 0x4E [U8 9]) = [0, 0, 0, 3, 0x4E, 0, 9]"
    by (simp add: flexi_wire_def Flexi_ServerPktHeader_def fields_bytes_def word_le_u8)
  have fits: "list_all frame_fits [mk_pkt 0x4E [U8 9]]"
    by (simp add: frame_fits_def fields_bytes_def word_le_u8)
  have cut: "concat [[0, 0, 0], [3, 0x4E, 0, 9]] = concat (map flexi_wire [mk_pkt 0x4E [U8 9]])"
    by (simp add: w)
  have ne: "list_all (\<lambda>c. c \<noteq> []) [[0, 0, 0], [3, 0x4E, 0, 9 :: u8]]" by simp
  show ?thesis
    using NodeSocket_reassembles [OF sock_fresh_idle(1) sock_fresh_idle(2) fits ne cut,
      where upd = "\<lambda>(c :: unit) bs. (bs, c)"]
    by fast
qed

theorem NodeSocket_handle_input_total_witness:
  "\<exists>i s'. Socket_handle_input (NodeSocket_handleInputHeader (\<lambda>(c :: unit) bs. (bs, c))) NodeSocket_processIncoming
     (RecvData [0, 0, 0, 1, 0, 0]) (sock_fresh () Flexi_ClientPktHeader_sizeof) = Some (InRet i, s')"
  using NodeSocket_handle_input_total [OF idle_ok [OF sock_fresh_idle(1)],
      where upd = "\<lambda>(c :: unit) bs. (bs, c)" and r = "RecvData [0, 0, 0, 1, 0, 0]"] by fast

theorem ControlSocket_chunk_invariant_witness:
  "input_chunks (ControlSocket_handleInputHeader (\<lambda>c bs. (bs, c))) ControlSocket_processIncoming
     [[0, 0], [0]] (sock_fresh () Flexi_ClientPktHeader_sizeof) =
   input_chunks (ControlSocket_handleInputHeader (\<lambda>c bs. (bs, c))) ControlSocket_processIncoming
     [[0], [0, 0]] (sock_fresh () Flexi_ClientPktHeader_sizeof)"
  by (rule ControlSocket_chunk_invariant [OF idle_ok [OF sock_fresh_idle(1)]]) simp_all

end
