(* ===== verification/SocketOutput.thy ===== *)
theory SocketOutput
  imports SocketStream
begin

text \<open>
  The sending half of \<open>shade/Server/Generics/Socket.cpp\<close> and the \<open>_sendPacket\<close> of its
  subclasses: a packet goes into the output buffer while there is room and nothing is queued,
  else it is queued as a block of its own; when the kernel accepts bytes, the buffer leaves
  before the queue. The theorems say that the bytes leave in the order of the packets.

  \<open>q_full\<close> is \<open>ACE_Message_Queue\<close>'s high-water test, which makes \<open>enqueue_tail\<close> and
  \<open>enqueue_head\<close> with a zero timeout fail; \<open>wake\<close> is whether the reactor accepts a change of
  the write mask. All operations here run under \<open>_outBufferLock\<close>.
\<close>

section \<open>Sending\<close>

text \<open>Buffer or queue the bytes of one packet.\<close>

definition sock_put :: "(bytes list \<Rightarrow> bool) \<Rightarrow> bytes \<Rightarrow> ('c, 'z) sock_scheme \<Rightarrow> int \<times> ('c, 'z) sock_scheme" where
  "sock_put q_full blk s =
     (if length blk \<le> mb_space (sk_outBuffer s) \<and> sk_msg_queue s = [] then
        (0, s\<lparr>sk_outBuffer := (sk_outBuffer s)\<lparr>mb_data := mb_data (sk_outBuffer s) @ blk\<rparr>\<rparr>)
      else if q_full (sk_msg_queue s) then (-1, s)
      else (0, s\<lparr>sk_msg_queue := sk_msg_queue s @ [blk]\<rparr>))"

text \<open>It touches the buffer and the queue of the sender only.\<close>

lemma sock_put_frame:
  "sock_put q_full blk s = (r, s1) \<Longrightarrow> sk_header s1 = sk_header s \<and> sk_crypt s1 = sk_crypt s \<and>
     sk_single s1 = sk_single s \<and> sk_multi s1 = sk_multi s \<and> sk_closing s1 = sk_closing s \<and>
     sock.more s1 = sock.more s"
  by (auto simp: sock_put_def split: if_splits)

type_synonym ('c, 'z) sender = "wpacket \<Rightarrow> ('c, 'z) sock_scheme \<Rightarrow> int \<times> ('c, 'z) sock_scheme"

definition NodeSocket_sendPacket ::
  "('c \<Rightarrow> bytes \<Rightarrow> bytes \<times> 'c) \<Rightarrow> (bytes list \<Rightarrow> bool) \<Rightarrow> ('c, 'z) sender" where
  "NodeSocket_sendPacket upd q_full pct s =
     (let header = Flexi_ServerPktHeader (word_of_nat (bb_size (buf pct) + 2)) (opcode pct)
      in case AuthCrypt_EncryptSend upd (take (Flexi_getHeaderLength header) (fsh_header header)) (sk_crypt s) of
           (hdr, crypt) \<Rightarrow> sock_put q_full (hdr @ storage (buf pct)) (s\<lparr>sk_crypt := crypt\<rparr>))"

definition ControlSocket_sendPacket ::
  "('c \<Rightarrow> bytes \<Rightarrow> bytes \<times> 'c) \<Rightarrow> (bytes list \<Rightarrow> bool) \<Rightarrow> ('c, 'z) sender" where
  "ControlSocket_sendPacket upd q_full pct s =
     (let header = Flexi_ServerPktHeader (word_of_nat (bb_size (buf pct) + 2)) (opcode pct)
      in case AuthCrypt_EncryptSend upd (take (Flexi_getHeaderLength header) (fsh_header header)) (sk_crypt s) of
           (hdr, crypt) \<Rightarrow> sock_put q_full (hdr @ storage (buf pct)) (s\<lparr>sk_crypt := crypt\<rparr>))"

definition ClientSocket_sendPacket ::
  "('c \<Rightarrow> bytes \<Rightarrow> bytes \<times> 'c) \<Rightarrow> (bytes list \<Rightarrow> bool) \<Rightarrow> ('c, 'z) sender" where
  "ClientSocket_sendPacket upd q_full pct s =
     (let header = Blizzard_ServerPktHeader (word_of_nat (bb_size (buf pct) + 2)) (opcode pct)
      in case AuthCrypt_EncryptSend upd (take (Blizzard_getHeaderLength header) (bsh_header header)) (sk_crypt s) of
           (hdr, crypt) \<Rightarrow> sock_put q_full (hdr @ storage (buf pct)) (s\<lparr>sk_crypt := crypt\<rparr>))"

definition cancel_wakeup_output :: "bool \<Rightarrow> int" where
  "cancel_wakeup_output wake = (if wake then 0 else -1)"

definition schedule_wakeup_output :: "bool \<Rightarrow> int" where
  "schedule_wakeup_output wake = (if wake then 0 else -1)"

definition Socket_SendPacket :: "('c, 'z) sender \<Rightarrow> bool \<Rightarrow> ('c, 'z) sender" where
  "Socket_SendPacket send wake pct s =
     (if sk_closing s then (-1, s)
      else case send pct s of
        (r, s1) \<Rightarrow> if r < 0 then (-1, s1) else (schedule_wakeup_output wake, s1))"

definition Socket_directlySendPacket :: "('c, 'z) sender \<Rightarrow> ('c, 'z) sender" where
  "Socket_directlySendPacket send pct s = (if sk_closing s then (-1, s) else send pct s)"

section \<open>Output events\<close>

text \<open>What \<open>send\<close> returned: an error, would-block or not, or how many bytes it took.\<close>

datatype send_result = SendWouldBlock | SendError | Sent nat

definition WRITE_MASK :: int where
  "WRITE_MASK = 2"

text \<open>The third component is what went onto the wire.\<close>

definition handle_output_queue ::
  "(bytes list \<Rightarrow> bool) \<Rightarrow> bool \<Rightarrow> send_result \<Rightarrow> ('c, 'z) sock_scheme \<Rightarrow>
   int \<times> ('c, 'z) sock_scheme \<times> bytes" where
  "handle_output_queue q_full wake r s =
     (case sk_msg_queue s of
        [] \<Rightarrow> (cancel_wakeup_output wake, s, [])
      | mblk # rest \<Rightarrow>
         (let s1 = s\<lparr>sk_msg_queue := rest\<rparr>
          in case r of
               SendWouldBlock \<Rightarrow>
                 (schedule_wakeup_output wake,
                  if q_full rest then s1 else s1\<lparr>sk_msg_queue := mblk # rest\<rparr>, [])
             | SendError \<Rightarrow> (-1, s1, [])
             | Sent n \<Rightarrow>
                 (if n = 0 then (-1, s1, [])
                  else if n < length mblk then
                    (if q_full rest then (-1, s1, take n mblk)
                     else (schedule_wakeup_output wake,
                       s1\<lparr>sk_msg_queue := drop n mblk # rest\<rparr>, take n mblk))
                  else ((if rest = [] then cancel_wakeup_output wake else WRITE_MASK), s1, mblk))))"

definition handle_output ::
  "(bytes list \<Rightarrow> bool) \<Rightarrow> bool \<Rightarrow> send_result \<Rightarrow> send_result \<Rightarrow> ('c, 'z) sock_scheme \<Rightarrow>
   int \<times> ('c, 'z) sock_scheme \<times> bytes" where
  "handle_output q_full wake r r2 s =
     (if sk_closing s then (-1, s, [])
      else
        (let out = mb_unread (sk_outBuffer s)
         in if out = [] then handle_output_queue q_full wake r2 s
            else (case r of
                SendWouldBlock \<Rightarrow> (schedule_wakeup_output wake, s, [])
              | SendError \<Rightarrow> (-1, s, [])
              | Sent n \<Rightarrow>
                  (if n = 0 then (-1, s, [])
                   else if n < length out then
                     (schedule_wakeup_output wake,
                      s\<lparr>sk_outBuffer := (sk_outBuffer s)\<lparr>mb_rd := 0, mb_data := drop n out\<rparr>\<rparr>, take n out)
                   else (case handle_output_queue q_full wake r2
                             (s\<lparr>sk_outBuffer := mb_reset (sk_outBuffer s)\<rparr>) of
                         (i, s1, sent) \<Rightarrow> (i, s1, out @ sent))))))"

section \<open>The bytes leave in order\<close>

text \<open>What is still to leave, in the order in which it will.\<close>

definition out_pending :: "('c, 'z) sock_scheme \<Rightarrow> bytes" where
  "out_pending s = mb_unread (sk_outBuffer s) @ concat (sk_msg_queue s)"

lemma sock_put_pending:
  assumes "sock_put q_full blk s = (r, s1)" and "mb_rd (sk_outBuffer s) \<le> length (mb_data (sk_outBuffer s))"
  shows "out_pending s1 = out_pending s @ (if r < 0 then [] else blk) \<and>
    mb_rd (sk_outBuffer s1) \<le> length (mb_data (sk_outBuffer s1)) \<and> sk_crypt s1 = sk_crypt s"
  using assms by (auto simp: sock_put_def out_pending_def mb_unread_def split: if_splits)

lemma handle_output_queue_pending:
  assumes "handle_output_queue q_full wake r s = (i, s1, bs)" and "i \<noteq> -1"
    and "\<not> q_full (tl (sk_msg_queue s))"
  shows "bs @ concat (sk_msg_queue s1) = concat (sk_msg_queue s) \<and> sk_outBuffer s1 = sk_outBuffer s \<and>
    sk_crypt s1 = sk_crypt s"
  using assms
  by (auto simp: handle_output_queue_def Let_def simp flip: append_assoc
      split: list.splits send_result.splits if_splits)

lemma handle_output_pending:
  assumes "handle_output q_full wake r r2 s = (i, s1, bs)" and "i \<noteq> -1"
    and "\<not> q_full (tl (sk_msg_queue s))"
  shows "bs @ out_pending s1 = out_pending s \<and> sk_crypt s1 = sk_crypt s \<and>
    (mb_rd (sk_outBuffer s) \<le> length (mb_data (sk_outBuffer s)) \<longrightarrow>
     mb_rd (sk_outBuffer s1) \<le> length (mb_data (sk_outBuffer s1)))"
proof (cases "mb_unread (sk_outBuffer s) = [] \<and> \<not> sk_closing s")
  case True
  with assms(1) have "handle_output_queue q_full wake r2 s = (i, s1, bs)" by (simp add: handle_output_def)
  from handle_output_queue_pending [OF this assms(2,3)] True show ?thesis by (simp add: out_pending_def)
next
  case False
  with assms(1,2) obtain n where n: "r = Sent n \<or> r = SendWouldBlock" and opn: "\<not> sk_closing s"
    and ne: "mb_unread (sk_outBuffer s) \<noteq> []"
    by (cases r) (auto simp: handle_output_def Let_def split: if_splits)
  show ?thesis
  proof (cases "r = SendWouldBlock \<or> (\<exists>n. r = Sent n \<and> n < length (mb_unread (sk_outBuffer s)))")
    case True
    with assms(1,2) opn ne show ?thesis
      by (auto simp: handle_output_def Let_def out_pending_def mb_unread_def simp del: drop_drop
          simp flip: append_assoc split: if_splits)
  next
    case False
    let ?s = "s\<lparr>sk_outBuffer := mb_reset (sk_outBuffer s)\<rparr>"
    from False n obtain n where n: "r = Sent n" "\<not> n < length (mb_unread (sk_outBuffer s))" by auto
    with ne have "n \<noteq> 0" by (cases n) auto
    obtain sent where h: "handle_output_queue q_full wake r2 ?s = (i, s1, sent)"
      "bs = mb_unread (sk_outBuffer s) @ sent"
      using assms(1) n \<open>n \<noteq> 0\<close> opn ne
      by (cases "handle_output_queue q_full wake r2 ?s") (simp add: handle_output_def Let_def)
    from handle_output_queue_pending [OF h(1) assms(2)] assms(3) h(2) show ?thesis
      by (simp add: out_pending_def mb_unread_def mb_reset_def)
  qed
qed

text \<open>
  A connection's output as a run of steps: a packet accepted (with the bytes it became) or
  refused, or a writable event, which puts bytes on the wire. A -1 of \<open>handle_output\<close> closes the
  connection and ends the run. The last rule asks that taking the first block leaves the
  queue below the high-water mark; see \<open>full_queue_loses_head\<close> for what happens otherwise.
\<close>

type_synonym ('c, 'z) writer = "bool \<Rightarrow> send_result \<Rightarrow> send_result \<Rightarrow> ('c, 'z) sock_scheme \<Rightarrow>
   int \<times> ('c, 'z) sock_scheme \<times> bytes"

datatype out_event = EvAccept wpacket bytes | EvRefuse | EvWire bytes

inductive out_step ::
  "('c, 'z) sender \<Rightarrow> ('c, 'z) writer \<Rightarrow> (('c, 'z) sock_scheme \<Rightarrow> wpacket \<Rightarrow> bytes) \<Rightarrow> (bytes list \<Rightarrow> bool) \<Rightarrow>
   ('c, 'z) sock_scheme \<Rightarrow> out_event \<Rightarrow> ('c, 'z) sock_scheme \<Rightarrow> bool"
  for send writ block q_full where
  step_accept: "send p s = (r, s1) \<Longrightarrow> 0 \<le> r \<Longrightarrow>
    out_step send writ block q_full s (EvAccept p (block s p)) s1"
| step_refuse: "send p s = (r, s1) \<Longrightarrow> r < 0 \<Longrightarrow> out_step send writ block q_full s EvRefuse s1"
| step_wire: "writ wake r r2 s = (i, s1, bs) \<Longrightarrow> i \<noteq> -1 \<Longrightarrow>
    \<not> q_full (tl (sk_msg_queue s)) \<Longrightarrow> out_step send writ block q_full s (EvWire bs) s1"

inductive out_run ::
  "('c, 'z) sender \<Rightarrow> ('c, 'z) writer \<Rightarrow> (('c, 'z) sock_scheme \<Rightarrow> wpacket \<Rightarrow> bytes) \<Rightarrow> (bytes list \<Rightarrow> bool) \<Rightarrow>
   ('c, 'z) sock_scheme \<Rightarrow> out_event list \<Rightarrow> ('c, 'z) sock_scheme \<Rightarrow> bool"
  for send writ block q_full s where
  run_start: "out_run send writ block q_full s [] s"
| run_step: "out_run send writ block q_full s es s1 \<Longrightarrow> out_step send writ block q_full s1 e s2 \<Longrightarrow>
    out_run send writ block q_full s (es @ [e]) s2"

fun wire_of :: "out_event list \<Rightarrow> bytes" where
  "wire_of [] = []"
| "wire_of (EvWire bs # es) = bs @ wire_of es"
| "wire_of (_ # es) = wire_of es"

fun accepted :: "out_event list \<Rightarrow> (wpacket \<times> bytes) list" where
  "accepted [] = []"
| "accepted (EvAccept p blk # es) = (p, blk) # accepted es"
| "accepted (_ # es) = accepted es"

lemma wire_of_append [simp]: "wire_of (es @ fs) = wire_of es @ wire_of fs"
  by (induction es rule: wire_of.induct) auto

lemma accepted_append [simp]: "accepted (es @ fs) = accepted es @ accepted fs"
  by (induction es rule: accepted.induct) auto

definition out_ok :: "('c, 'z) sock_scheme \<Rightarrow> bool" where
  "out_ok s \<longleftrightarrow> mb_rd (sk_outBuffer s) \<le> length (mb_data (sk_outBuffer s))"

locale sending =
  fixes send :: "('c, 'z) sender"
    and writ :: "('c, 'z) writer"
    and block :: "('c, 'z) sock_scheme \<Rightarrow> wpacket \<Rightarrow> bytes"
    and q_full :: "bytes list \<Rightarrow> bool"
  assumes send_pending: "send p s = (r, s1) \<Longrightarrow> out_ok s \<Longrightarrow>
    out_pending s1 = out_pending s @ (if r < 0 then [] else block s p) \<and> out_ok s1"
    and write_pending: "writ wake r1 r2 s = (i, s1, bs) \<Longrightarrow> i \<noteq> -1 \<Longrightarrow>
    \<not> q_full (tl (sk_msg_queue s)) \<Longrightarrow> out_ok s \<Longrightarrow> bs @ out_pending s1 = out_pending s \<and> out_ok s1"
begin

lemma run_pending:
  "out_run send writ block q_full s es s' \<Longrightarrow> out_ok s \<Longrightarrow>
   wire_of es @ out_pending s' = out_pending s @ concat (map snd (accepted es)) \<and> out_ok s'"
proof (induction rule: out_run.induct)
  case (run_step es s1 e s2)
  then have IH: "wire_of es @ out_pending s1 = out_pending s @ concat (map snd (accepted es))" "out_ok s1"
    by simp_all
  from run_step.hyps(2) show ?case
  proof (cases rule: out_step.cases)
    case (step_accept p r)
    with send_pending [OF step_accept(2) IH(2)] IH show ?thesis by (simp flip: append_assoc)
  next
    case (step_refuse p r)
    with send_pending [OF step_refuse(2) IH(2)] IH show ?thesis by simp
  next
    case (step_wire wake r r2 i bs)
    with write_pending [OF step_wire(2-4) IH(2)] IH show ?thesis by simp
  qed
qed (simp_all)

end

definition flexi_block :: "('c \<Rightarrow> bytes \<Rightarrow> bytes \<times> 'c) \<Rightarrow> ('c, 'z) sock_scheme \<Rightarrow> wpacket \<Rightarrow> bytes" where
  "flexi_block upd s p =
     fst (AuthCrypt_EncryptSend upd (fsh_header (Flexi_ServerPktHeader
       (word_of_nat (bb_size (buf p) + 2)) (opcode p))) (sk_crypt s)) @ storage (buf p)"

definition blizzard_block :: "('c \<Rightarrow> bytes \<Rightarrow> bytes \<times> 'c) \<Rightarrow> ('c, 'z) sock_scheme \<Rightarrow> wpacket \<Rightarrow> bytes" where
  "blizzard_block upd s p =
     fst (AuthCrypt_EncryptSend upd (bsh_header (Blizzard_ServerPktHeader
       (word_of_nat (bb_size (buf p) + 2)) (opcode p))) (sk_crypt s)) @ storage (buf p)"

lemma take_header:
  "take (Flexi_getHeaderLength h) (fsh_header (Flexi_ServerPktHeader sz cmd)) =
    fsh_header (Flexi_ServerPktHeader sz cmd)"
  "take (Blizzard_getHeaderLength (Blizzard_ServerPktHeader sz cmd))
      (bsh_header (Blizzard_ServerPktHeader sz cmd)) = bsh_header (Blizzard_ServerPktHeader sz cmd)"
  by (simp_all add: Flexi_getHeaderLength_def Blizzard_getHeaderLength_def Blizzard_ServerPktHeader_def)

lemma out_pending_crypt [simp]:
  "out_pending (s\<lparr>sk_crypt := c\<rparr>) = out_pending s" "out_ok (s\<lparr>sk_crypt := c\<rparr>) = out_ok s"
  by (simp_all add: out_pending_def out_ok_def)

lemma handle_output_writes:
  "handle_output q_full wake r r2 s = (i, s1, bs) \<Longrightarrow> i \<noteq> -1 \<Longrightarrow>
   \<not> q_full (tl (sk_msg_queue s)) \<Longrightarrow> out_ok s \<Longrightarrow> bs @ out_pending s1 = out_pending s \<and> out_ok s1"
  using handle_output_pending by (fastforce simp: out_ok_def)

lemma NodeSocket_sends:
  "NodeSocket_sendPacket upd q_full p s = (r, s1) \<Longrightarrow> out_ok s \<Longrightarrow>
   out_pending s1 = out_pending s @ (if r < 0 then [] else flexi_block upd s p) \<and> out_ok s1"
  using sock_put_pending [of q_full _ "s\<lparr>sk_crypt := c\<rparr>" r s1 for c]
  by (auto simp: NodeSocket_sendPacket_def Let_def take_header flexi_block_def out_ok_def
      split: prod.splits)

lemma ClientSocket_sends:
  "ClientSocket_sendPacket upd q_full p s = (r, s1) \<Longrightarrow> out_ok s \<Longrightarrow>
   out_pending s1 = out_pending s @ (if r < 0 then [] else blizzard_block upd s p) \<and> out_ok s1"
  using sock_put_pending [of q_full _ "s\<lparr>sk_crypt := c\<rparr>" r s1 for c]
  by (auto simp: ClientSocket_sendPacket_def Let_def take_header blizzard_block_def out_ok_def
      split: prod.splits)

lemma Control_sends_as_Node: "ControlSocket_sendPacket = NodeSocket_sendPacket"
  by (intro ext) (simp add: ControlSocket_sendPacket_def NodeSocket_sendPacket_def)

interpretation node_out: sending "NodeSocket_sendPacket upd q_full" "handle_output q_full" "flexi_block upd" q_full
  for upd q_full
  by unfold_locales (rule NodeSocket_sends handle_output_writes; assumption)+

interpretation control_out: sending "ControlSocket_sendPacket upd q_full" "handle_output q_full" "flexi_block upd" q_full
  for upd q_full
  unfolding Control_sends_as_Node by (rule node_out.sending_axioms)

interpretation client_out: sending "ClientSocket_sendPacket upd q_full" "handle_output q_full" "blizzard_block upd" q_full
  for upd q_full
  by unfold_locales (rule ClientSocket_sends handle_output_writes; assumption)+

section \<open>An unkeyed link sends frames\<close>

lemma NodeSocket_keeps_unkeyed:
  assumes "out_step (NodeSocket_sendPacket upd q_full) (handle_output q_full) (flexi_block upd) q_full s e s'"
    and "\<not> crypt_initialized (sk_crypt s)"
  shows "\<not> crypt_initialized (sk_crypt s') \<and> (\<forall>p blk. e = EvAccept p blk \<longrightarrow> blk = flexi_wire p)"
  using assms
proof (cases rule: out_step.cases)
  case (step_wire wake r r2 i bs)
  with handle_output_pending [OF step_wire(2-4)] assms(2) show ?thesis by simp
qed (auto simp: NodeSocket_sendPacket_def AuthCrypt_EncryptSend_def Let_def sock_put_def flexi_block_def
    flexi_wire_def split: if_splits)

lemma NodeSocket_run_unkeyed:
  assumes "out_run (NodeSocket_sendPacket upd q_full) (handle_output q_full) (flexi_block upd) q_full s es s'"
    and "\<not> crypt_initialized (sk_crypt s)"
  shows "\<not> crypt_initialized (sk_crypt s') \<and> map snd (accepted es) = map (\<lambda>(p, _). flexi_wire p) (accepted es)"
  using assms
proof (induction rule: out_run.induct)
  case (run_step es s1 e s2)
  with NodeSocket_keeps_unkeyed [OF run_step.hyps(2)] show ?case by (cases e) auto
qed simp

text \<open>
  C18: On the enciphered link to the game client the bytes on the wire, followed by what is
  still buffered and queued, are the blocks of the accepted packets in the order in which they
  were accepted and enciphered, for every interleaving of sends with partial writes.
\<close>

theorem ClientSocket_output_order:
  assumes "out_run (ClientSocket_sendPacket upd q_full) (handle_output q_full) (blizzard_block upd) q_full s es s'" and "out_ok s"
  shows "wire_of es @ out_pending s' = out_pending s @ concat (map snd (accepted es))"
  using client_out.run_pending [OF assms] by simp

theorem ClientSocket_output_order_witness:
  "\<exists>s' es. out_run (ClientSocket_sendPacket (\<lambda>(c :: unit) bs. (bs, c)) (\<lambda>q. False))
      (handle_output (\<lambda>q. False)) (blizzard_block (\<lambda>c bs. (bs, c))) (\<lambda>q. False) (sock_fresh () 6) es s' \<and>
     wire_of es = [0, 3, 0x4E] \<and> wire_of es @ out_pending s' = [0, 3, 0x4E, 0, 9]"
proof -
  let ?send = "ClientSocket_sendPacket (\<lambda>(c :: unit) bs. (bs, c)) (\<lambda>q. False)"
  let ?writ = "handle_output (\<lambda>q. False)"
  let ?s = "sock_fresh () 6" and ?p = "mk_pkt 0x4E [U8 9]"
  let ?blk = "[0, 3, 0x4E, 0, 9] :: bytes"
  let ?s1 = "?s\<lparr>sk_outBuffer := \<lparr>mb_cap = 65536, mb_rd = 0, mb_data = ?blk\<rparr>\<rparr>"
  let ?s2 = "?s\<lparr>sk_outBuffer := \<lparr>mb_cap = 65536, mb_rd = 0, mb_data = [0, 9]\<rparr>\<rparr>"
  have blk: "blizzard_block (\<lambda>c bs. (bs, c)) ?s ?p = ?blk"
    by (simp add: blizzard_block_def Blizzard_ServerPktHeader_def Blizzard_isLargePacket_def
        AuthCrypt_EncryptSend_def sock_fresh_def AuthCrypt_new_def fields_bytes_def word_le_u8)
  have "?send ?p ?s = (0, ?s1)"
    by (simp add: ClientSocket_sendPacket_def Blizzard_ServerPktHeader_def Blizzard_isLargePacket_def
        Blizzard_getHeaderLength_def AuthCrypt_EncryptSend_def sock_fresh_def AuthCrypt_new_def
        fields_bytes_def word_le_u8 sock_put_def mb_space_def mb_new_def)
  from out_step.step_accept [where send = ?send and p = ?p and s = ?s, OF this,
      of ?writ "blizzard_block (\<lambda>c bs. (bs, c))" "\<lambda>q. False"]
  have a: "out_step ?send ?writ (blizzard_block (\<lambda>c bs. (bs, c))) (\<lambda>q. False) ?s (EvAccept ?p ?blk) ?s1"
    by (simp only: blk)
  have "handle_output (\<lambda>q. False) True (Sent 3) SendError ?s1 = (0, ?s2, [0, 3, 0x4E])"
    by (simp add: handle_output_def mb_unread_def sock_fresh_def schedule_wakeup_output_def)
  then have b: "out_step ?send ?writ (blizzard_block (\<lambda>c bs. (bs, c))) (\<lambda>q. False) ?s1 (EvWire [0, 3, 0x4E]) ?s2"
    by (rule out_step.step_wire) simp_all
  have run: "out_run ?send ?writ (blizzard_block (\<lambda>c bs. (bs, c))) (\<lambda>q. False) ?s
      [EvAccept ?p ?blk, EvWire [0, 3, 0x4E]] ?s2"
    using run_step [OF run_step [OF run_start a] b] by simp
  from ClientSocket_output_order [OF run] run show ?thesis
    by (intro exI [of _ ?s2] exI [of _ "[EvAccept ?p ?blk, EvWire [0, 3, 0x4E]]"])
       (simp add: out_ok_def out_pending_def mb_unread_def sock_fresh_def mb_new_def)
qed

section \<open>Where the order is lost\<close>

text \<open>
  When the queue without its head is already at the high-water mark, a would-block makes
  \<open>handle_output_queue\<close> drop the head: the result of \<open>enqueue_head\<close> is not looked at, and the
  connection stays open.
\<close>

lemma full_queue_loses_head:
  assumes "sk_msg_queue s = mblk # rest" and "q_full rest"
  shows "handle_output_queue q_full True SendWouldBlock s = (0, s\<lparr>sk_msg_queue := rest\<rparr>, [])"
  using assms by (simp add: handle_output_queue_def schedule_wakeup_output_def)

text \<open>
  A packet that is refused because the queue is full has already been enciphered: the key
  stream has moved on, so the client cannot read the next header.
\<close>

lemma refused_packet_moves_key_stream:
  assumes "crypt_initialized (sk_crypt s)" and "sk_msg_queue s \<noteq> []" and "q_full (sk_msg_queue s)"
    and "upd (serverEncrypt (sk_crypt s)) (bsh_header (Blizzard_ServerPktHeader
      (word_of_nat (bb_size (buf p) + 2)) (opcode p))) = (hdr, c)"
  shows "ClientSocket_sendPacket upd q_full p s = (-1, s\<lparr>sk_crypt := (sk_crypt s)\<lparr>serverEncrypt := c\<rparr>\<rparr>)"
  using assms by (simp add: ClientSocket_sendPacket_def Let_def take_header AuthCrypt_EncryptSend_def sock_put_def)

end
