(* ===== verification/Codes.thy ===== *)
theory Codes
  imports Prelude
begin

text \<open>
  The opcodes of \<open>shared/OpcodeDefines.hpp\<close> and the response codes of \<open>SharedDefines.h\<close> that the
  modelled components name.
\<close>

definition CMSG_PING :: u16 where "CMSG_PING = 0x1DC"
definition SMSG_PONG :: u16 where "SMSG_PONG = 0x1DD"
definition SMSG_AUTH_CHALLENGE :: u16 where "SMSG_AUTH_CHALLENGE = 0x1EC"
definition CMSG_AUTH_SESSION :: u16 where "CMSG_AUTH_SESSION = 0x1ED"
definition SMSG_AUTH_RESPONSE :: u16 where "SMSG_AUTH_RESPONSE = 0x1EE"
definition SMSG_ADDON_INFO :: u16 where "SMSG_ADDON_INFO = 0x2EF"
definition CMSG_KEEP_ALIVE :: u16 where "CMSG_KEEP_ALIVE = 0x407"
definition SMSG_CLIENTCACHE_VERSION :: u16 where "SMSG_CLIENTCACHE_VERSION = 0x4AB"
definition CMSG_PLAYER_LOGIN :: u16 where "CMSG_PLAYER_LOGIN = 0x03D"
definition SMSG_MESSAGECHAT :: u16 where "SMSG_MESSAGECHAT = 0x096"
definition SMSG_FORCE_MOVE_ROOT :: u16 where "SMSG_FORCE_MOVE_ROOT = 0x0E8"
definition SMSG_FORCE_MOVE_UNROOT :: u16 where "SMSG_FORCE_MOVE_UNROOT = 0x0EA"
definition SMSG_SERVER_MESSAGE :: u16 where "SMSG_SERVER_MESSAGE = 0x291"
definition LOGON_AUTH_MASTER :: u16 where "LOGON_AUTH_MASTER = 0x520"
definition LOGON_INIT_NODE :: u16 where "LOGON_INIT_NODE = 0x521"
definition NODE_INIT_ACK :: u16 where "NODE_INIT_ACK = 0x522"
definition LOGON_SYNC_DATA :: u16 where "LOGON_SYNC_DATA = 0x523"
definition NODE_SYNC_DATA :: u16 where "NODE_SYNC_DATA = 0x524"
definition NODE_PLAYER_CHANGED_ZONE :: u16 where "NODE_PLAYER_CHANGED_ZONE = 0x525"
definition NODE_PLAYER_DATA :: u16 where "NODE_PLAYER_DATA = 0x526"
definition NODE_MISC_DATA :: u16 where "NODE_MISC_DATA = 0x527"
definition SMSG_ACCOUNT_DATA_TIMES :: u16 where "SMSG_ACCOUNT_DATA_TIMES = 0x209"
definition SMSG_TUTORIAL_FLAGS :: u16 where "SMSG_TUTORIAL_FLAGS = 0x0FD"
definition SMSG_WORLD_STATE_UI_TIMER_UPDATE :: u16 where "SMSG_WORLD_STATE_UI_TIMER_UPDATE = 0x4F7"
definition SMSG_LOGOUT_RESPONSE :: u16 where "SMSG_LOGOUT_RESPONSE = 0x04C"
definition SMSG_LOGOUT_COMPLETE :: u16 where "SMSG_LOGOUT_COMPLETE = 0x04D"
definition SMSG_LOGOUT_CANCEL_ACK :: u16 where "SMSG_LOGOUT_CANCEL_ACK = 0x04F"

lemmas opcode_defs = CMSG_PING_def SMSG_PONG_def SMSG_AUTH_CHALLENGE_def CMSG_AUTH_SESSION_def
  SMSG_AUTH_RESPONSE_def SMSG_ADDON_INFO_def CMSG_KEEP_ALIVE_def SMSG_CLIENTCACHE_VERSION_def
  CMSG_PLAYER_LOGIN_def SMSG_MESSAGECHAT_def SMSG_FORCE_MOVE_ROOT_def SMSG_FORCE_MOVE_UNROOT_def
  SMSG_SERVER_MESSAGE_def LOGON_AUTH_MASTER_def LOGON_INIT_NODE_def NODE_INIT_ACK_def
  LOGON_SYNC_DATA_def NODE_SYNC_DATA_def NODE_PLAYER_CHANGED_ZONE_def NODE_PLAYER_DATA_def
  NODE_MISC_DATA_def SMSG_ACCOUNT_DATA_TIMES_def SMSG_TUTORIAL_FLAGS_def SMSG_WORLD_STATE_UI_TIMER_UPDATE_def
  SMSG_LOGOUT_RESPONSE_def SMSG_LOGOUT_COMPLETE_def SMSG_LOGOUT_CANCEL_ACK_def

definition AUTH_OK :: u8 where "AUTH_OK = 0x0C"
definition AUTH_FAILED :: u8 where "AUTH_FAILED = 0x0D"
definition AUTH_REJECT :: u8 where "AUTH_REJECT = 0x0E"
definition AUTH_UNAVAILABLE :: u8 where "AUTH_UNAVAILABLE = 0x10"
definition AUTH_UNKNOWN_ACCOUNT :: u8 where "AUTH_UNKNOWN_ACCOUNT = 0x15"
definition AUTH_WAIT_QUEUE :: u8 where "AUTH_WAIT_QUEUE = 0x1B"
definition AUTH_BANNED :: u8 where "AUTH_BANNED = 0x1C"

lemmas auth_codes = AUTH_OK_def AUTH_FAILED_def AUTH_REJECT_def AUTH_UNAVAILABLE_def
  AUTH_UNKNOWN_ACCOUNT_def AUTH_WAIT_QUEUE_def AUTH_BANNED_def

end
