(* ===== verification/PoolSocket.thy ===== *)
theory PoolSocket
  imports SocketOutput Codes
begin

text \<open>
  \<open>game/Pool/PoolSocket.cpp\<close>, the node's end of the control link. It is the same framing as
  the proxy's sockets with the session it feeds: the record holds the socket's pointer to its
  session (\<open>pl_m_Session\<close>, null or not) and the session itself, which outlives it. The database
  lookup of the proxy's name is the argument \<open>db\<close>; \<open>now\<close> is the clock.
\<close>

section \<open>State\<close>

record pool_session =
  pss_serverId :: u32
  pss_socket :: bool
  pss_recvPoolQueue :: "wpacket locked_queue"

record 'c pool_link = "'c sock" +
  pl_m_Session :: bool
  pl_session :: "pool_session option"
  pl_LastPingTime :: nat
  pl_OutActive :: bool
  pl_Seed :: u32

section \<open>Output\<close>

definition PoolSocket_CloseSocket :: "('c, 'z) pool_link_scheme \<Rightarrow> ('c, 'z) pool_link_scheme" where
  "PoolSocket_CloseSocket s =
     (if sk_closing s then s else s\<lparr>sk_closing := True, pl_m_Session := False\<rparr>)"

definition PoolSocket_handle_close :: "('c, 'z) pool_link_scheme \<Rightarrow> ('c, 'z) pool_link_scheme" where
  "PoolSocket_handle_close s = s\<lparr>sk_closing := True, pl_m_Session := False\<rparr>"

definition PoolSocket_SendPacket ::
  "('c \<Rightarrow> bytes \<Rightarrow> bytes \<times> 'c) \<Rightarrow> (bytes list \<Rightarrow> bool) \<Rightarrow> wpacket \<Rightarrow>
   ('c, 'z) pool_link_scheme \<Rightarrow> int \<times> ('c, 'z) pool_link_scheme" where
  "PoolSocket_SendPacket upd q_full pct s =
     (if sk_closing s then (-1, s)
      else
        (let header = Flexi_ServerPktHeader (word_of_nat (bb_size (buf pct) + 2)) (opcode pct)
         in case AuthCrypt_EncryptSend upd (take (Flexi_getHeaderLength header) (fsh_header header)) (sk_crypt s) of
              (hdr, crypt) \<Rightarrow> sock_put q_full (hdr @ storage (buf pct)) (s\<lparr>sk_crypt := crypt\<rparr>)))"

definition PoolSocket_cancel_wakeup_output ::
  "bool \<Rightarrow> ('c, 'z) pool_link_scheme \<Rightarrow> int \<times> ('c, 'z) pool_link_scheme" where
  "PoolSocket_cancel_wakeup_output wake s =
     (if \<not> pl_OutActive s then (0, s)
      else (if wake then 0 else -1, s\<lparr>pl_OutActive := False\<rparr>))"

definition PoolSocket_schedule_wakeup_output ::
  "bool \<Rightarrow> ('c, 'z) pool_link_scheme \<Rightarrow> int \<times> ('c, 'z) pool_link_scheme" where
  "PoolSocket_schedule_wakeup_output wake s =
     (if pl_OutActive s then (0, s)
      else (if wake then 0 else -1, s\<lparr>pl_OutActive := True\<rparr>))"

definition with_wire :: "int \<times> 's \<Rightarrow> bytes \<Rightarrow> int \<times> 's \<times> bytes" where
  "with_wire r bs = (case r of (i, s) \<Rightarrow> (i, s, bs))"

definition PoolSocket_handle_output_queue ::
  "(bytes list \<Rightarrow> bool) \<Rightarrow> bool \<Rightarrow> send_result \<Rightarrow> ('c, 'z) pool_link_scheme \<Rightarrow>
   int \<times> ('c, 'z) pool_link_scheme \<times> bytes" where
  "PoolSocket_handle_output_queue q_full wake r s =
     (case sk_msg_queue s of
        [] \<Rightarrow> with_wire (PoolSocket_cancel_wakeup_output wake s) []
      | mblk # rest \<Rightarrow>
         (let s1 = s\<lparr>sk_msg_queue := rest\<rparr>
          in case r of
               SendWouldBlock \<Rightarrow>
                 with_wire (PoolSocket_schedule_wakeup_output wake
                   (if q_full rest then s1 else s1\<lparr>sk_msg_queue := mblk # rest\<rparr>)) []
             | SendError \<Rightarrow> (-1, s1, [])
             | Sent n \<Rightarrow>
                 (if n = 0 then (-1, s1, [])
                  else if n < length mblk then
                    (if q_full rest then (-1, s1, take n mblk)
                     else with_wire (PoolSocket_schedule_wakeup_output wake
                       (s1\<lparr>sk_msg_queue := drop n mblk # rest\<rparr>)) (take n mblk))
                  else if rest = [] then with_wire (PoolSocket_cancel_wakeup_output wake s1) mblk
                  else (WRITE_MASK, s1, mblk))))"

definition PoolSocket_handle_output ::
  "(bytes list \<Rightarrow> bool) \<Rightarrow> bool \<Rightarrow> send_result \<Rightarrow> send_result \<Rightarrow> ('c, 'z) pool_link_scheme \<Rightarrow>
   int \<times> ('c, 'z) pool_link_scheme \<times> bytes" where
  "PoolSocket_handle_output q_full wake r r2 s =
     (if sk_closing s then (-1, s, [])
      else
        (let out = mb_unread (sk_outBuffer s)
         in if out = [] then PoolSocket_handle_output_queue q_full wake r2 s
            else (case r of
                SendWouldBlock \<Rightarrow> with_wire (PoolSocket_schedule_wakeup_output wake s) []
              | SendError \<Rightarrow> (-1, s, [])
              | Sent n \<Rightarrow>
                  (if n = 0 then (-1, s, [])
                   else if n < length out then
                     with_wire (PoolSocket_schedule_wakeup_output wake
                       (s\<lparr>sk_outBuffer := (sk_outBuffer s)\<lparr>mb_rd := 0, mb_data := drop n out\<rparr>\<rparr>)) (take n out)
                   else (case PoolSocket_handle_output_queue q_full wake r2
                             (s\<lparr>sk_outBuffer := mb_reset (sk_outBuffer s)\<rparr>) of
                         (i, s1, sent) \<Rightarrow> (i, s1, out @ sent))))))"

text \<open>
  \<open>Update\<close> writes while there is more to write; \<open>rs\<close> are the outcomes of its rounds. \<open>None\<close>:
  more rounds than outcomes.
\<close>

fun pool_output_rounds ::
  "(bytes list \<Rightarrow> bool) \<Rightarrow> bool \<Rightarrow> (send_result \<times> send_result) list \<Rightarrow> ('c, 'z) pool_link_scheme \<Rightarrow>
   (int \<times> ('c, 'z) pool_link_scheme \<times> bytes) option" where
  "pool_output_rounds q_full wake [] s = None"
| "pool_output_rounds q_full wake ((r, r2) # rs) s =
     (case PoolSocket_handle_output q_full wake r r2 s of
        (ret, s1, bs) \<Rightarrow>
          if ret > 0 then map_option (\<lambda>(i, s2, bs2). (i, s2, bs @ bs2)) (pool_output_rounds q_full wake rs s1)
          else Some (ret, s1, bs))"

definition PoolSocket_Update ::
  "(bytes list \<Rightarrow> bool) \<Rightarrow> bool \<Rightarrow> (send_result \<times> send_result) list \<Rightarrow> ('c, 'z) pool_link_scheme \<Rightarrow>
   (int \<times> ('c, 'z) pool_link_scheme \<times> bytes) option" where
  "PoolSocket_Update q_full wake rs s =
     (if sk_closing s then Some (-1, s, [])
      else if pl_OutActive s \<or> mb_unread (sk_outBuffer s) = [] \<and> sk_msg_queue s = [] then Some (0, s, [])
      else pool_output_rounds q_full wake rs s)"

text \<open>\<open>open\<close>, as far as it sends: the challenge with its random seeds.\<close>

definition PoolSocket_open ::
  "('c \<Rightarrow> bytes \<Rightarrow> bytes \<times> 'c) \<Rightarrow> (bytes list \<Rightarrow> bool) \<Rightarrow> bytes \<Rightarrow> bytes \<Rightarrow>
   ('c, 'z) pool_link_scheme \<Rightarrow> int \<times> ('c, 'z) pool_link_scheme" where
  "PoolSocket_open upd q_full seed1 seed2 s =
     (case PoolSocket_SendPacket upd q_full
         (mk_pkt SMSG_AUTH_CHALLENGE ([U32 1, U32 (pl_Seed s)] @ map U8 seed1 @ map U8 seed2))
         (s\<lparr>pl_OutActive := True\<rparr>) of
        (r, s1) \<Rightarrow> if r = -1 then (-1, s1) else (0, s1))"

section \<open>Input\<close>

definition PoolSocket_handle_input_header ::
  "('c \<Rightarrow> bytes \<Rightarrow> bytes \<times> 'c) \<Rightarrow> ('c, 'z) input_header" where
  "PoolSocket_handle_input_header upd s =
     (if sk_recvWPct s \<noteq> None \<or>
         length (mb_unread (sk_header s)) \<noteq> Flexi_ClientPktHeader_sizeof then (HdrAssert, s)
      else
        (case AuthCrypt_DecryptRecv upd (mb_unread (sk_header s)) (sk_crypt s) of
          (plain, crypt) \<Rightarrow>
          (let header = Flexi_ClientPktHeader_at plain;
               hsize = EndianConvertReverse_u32 (fch_size header);
               hcmd = EndianConvert_u16 (fch_cmd header);
               s1 = s\<lparr>sk_crypt := crypt\<rparr>
           in if hsize < 2 then (HdrInvalid, s1)
              else
                (let hsize = hsize - 2;
                     pct = pkt_new hcmd;
                     pct1 = pct\<lparr>buf := bb_resize (unat hsize) (buf pct)\<rparr>
                 in if hsize > 0 then
                      (HdrOk, s1\<lparr>sk_recvWPct := Some pct1,
                         sk_recvPct_cap := bb_size (buf pct1), sk_recvPct_wr := 0\<rparr>)
                    else if recvPct_space s1 \<noteq> 0 then (HdrAssert, s1)
                    else (HdrOk, s1\<lparr>sk_recvWPct := Some pct\<rparr>)))))"

definition PoolSocket_HandlePing ::
  "('c \<Rightarrow> bytes \<Rightarrow> bytes \<times> 'c) \<Rightarrow> (bytes list \<Rightarrow> bool) \<Rightarrow> nat \<Rightarrow> wpacket \<Rightarrow>
   ('c, 'z) pool_link_scheme \<Rightarrow> int \<times> ('c, 'z) pool_link_scheme" where
  "PoolSocket_HandlePing upd q_full now pct s =
     (case bb_shr_all [TU32, TU32] (buf pct) of
        Inr ([ping, latency], _) \<Rightarrow>
          PoolSocket_SendPacket upd q_full (mk_pkt SMSG_PONG [ping]) (s\<lparr>pl_LastPingTime := now\<rparr>)
      | _ \<Rightarrow> (-1, s))"

definition PoolSocket_HandleAuthSession ::
  "('c \<Rightarrow> bytes \<Rightarrow> bytes \<times> 'c) \<Rightarrow> (bytes list \<Rightarrow> bool) \<Rightarrow> (bytes \<Rightarrow> u32 option) \<Rightarrow> wpacket \<Rightarrow>
   ('c, 'z) pool_link_scheme \<Rightarrow> int \<times> ('c, 'z) pool_link_scheme" where
  "PoolSocket_HandleAuthSession upd q_full db pct s =
     (case bb_shr TStr (buf pct) of
        Inr (Str nam, _) \<Rightarrow>
          (case db nam of
             None \<Rightarrow> (-1, snd (PoolSocket_SendPacket upd q_full
                            (mk_pkt SMSG_AUTH_RESPONSE [U8 AUTH_FAILED]) s))
           | Some sid \<Rightarrow> (0, s\<lparr>pl_m_Session := True, pl_session := Some \<lparr>pss_serverId = sid,
                 pss_socket = True, pss_recvPoolQueue = lq_new\<rparr>\<rparr>))
      | _ \<Rightarrow> (-1, s))"

definition PoolSocket_ProcessIncoming ::
  "('c \<Rightarrow> bytes \<Rightarrow> bytes \<times> 'c) \<Rightarrow> (bytes list \<Rightarrow> bool) \<Rightarrow> (bytes \<Rightarrow> u32 option) \<Rightarrow> nat \<Rightarrow> wpacket \<Rightarrow>
   ('c, 'z) pool_link_scheme \<Rightarrow> int \<times> ('c, 'z) pool_link_scheme" where
  "PoolSocket_ProcessIncoming upd q_full db now new_pct s =
     (if sk_closing s then (-1, s)
      else if opcode new_pct = CMSG_PING then PoolSocket_HandlePing upd q_full now new_pct s
      else if opcode new_pct = LOGON_AUTH_MASTER then
        (if pl_m_Session s then (-1, s) else PoolSocket_HandleAuthSession upd q_full db new_pct s)
      else if opcode new_pct = CMSG_KEEP_ALIVE then (0, s)
      else if pl_m_Session s then
        (0, s\<lparr>pl_session := map_option (\<lambda>ss. ss\<lparr>pss_recvPoolQueue :=
              lq_add new_pct (pss_recvPoolQueue ss)\<rparr>) (pl_session s)\<rparr>)
      else (-1, snd (PoolSocket_SendPacket upd q_full (mk_pkt SMSG_AUTH_RESPONSE [U8 AUTH_REJECT]) s)))"

definition PoolSocket_handle_input ::
  "('c \<Rightarrow> bytes \<Rightarrow> bytes \<times> 'c) \<Rightarrow> (bytes list \<Rightarrow> bool) \<Rightarrow> (bytes \<Rightarrow> u32 option) \<Rightarrow> nat \<Rightarrow> bool \<Rightarrow>
   (send_result \<times> send_result) list \<Rightarrow> recv_result \<Rightarrow> ('c, 'z) pool_link_scheme \<Rightarrow>
   (in_result \<times> ('c, 'z) pool_link_scheme \<times> bytes) option" where
  "PoolSocket_handle_input upd q_full db now wake rs r s =
     (let flush = (\<lambda>s1. map_option (\<lambda>(i, s2, bs). (InRet i, s2, bs)) (PoolSocket_Update q_full wake rs s1))
      in if sk_closing s then Some (InRet (-1), s, [])
         else case r of
           RecvWouldBlock \<Rightarrow> flush s
         | RecvError \<Rightarrow> Some (InRet (-1), s, [])
         | RecvEof \<Rightarrow> Some (InRet (-1), s, [])
         | RecvData bs \<Rightarrow>
             (case input_loop (PoolSocket_handle_input_header upd)
                 (PoolSocket_ProcessIncoming upd q_full db now) bs s of
               None \<Rightarrow> None
             | Some (Some ExWouldBlock, s1) \<Rightarrow> flush s1
             | Some (Some ExInvalid, s1) \<Rightarrow> Some (InRet (-1), s1, [])
             | Some (Some ExAssert, s1) \<Rightarrow> Some (InAborted, s1, [])
             | Some (None, s1) \<Rightarrow> if length bs = recv_size then Some (InRet 1, s1, []) else flush s1))"

section \<open>The contracts hold here too\<close>

lemma Pool_header_is_Node: "PoolSocket_handle_input_header = NodeSocket_handleInputHeader"
  by (intro ext) (simp add: PoolSocket_handle_input_header_def NodeSocket_handleInputHeader_def)

lemma PoolSocket_Send_frame:
  "PoolSocket_SendPacket upd q_full p s = (r, s1) \<Longrightarrow> sk_header s1 = sk_header s"
  by (auto simp: PoolSocket_SendPacket_def Let_def dest: sock_put_frame split: if_splits prod.splits)

lemma PoolSocket_Send_frame':
  "sk_header (snd (PoolSocket_SendPacket upd q_full p s)) = sk_header s"
  by (cases "PoolSocket_SendPacket upd q_full p s") (simp add: PoolSocket_Send_frame)

lemma PoolSocket_incoming_frame:
  assumes "PoolSocket_ProcessIncoming upd q_full db now p s = (ret, s')"
  shows "sk_header s' = sk_header s"
proof -
  have ping: "sk_header (snd (PoolSocket_HandlePing upd q_full now p s)) = sk_header s"
    by (simp add: PoolSocket_HandlePing_def PoolSocket_Send_frame' split: sum.splits list.splits prod.splits)
  have auth: "sk_header (snd (PoolSocket_HandleAuthSession upd q_full db p s)) = sk_header s"
    by (simp add: PoolSocket_HandleAuthSession_def PoolSocket_Send_frame'
        split: sum.splits field.splits prod.splits option.splits)
  have "sk_header (snd (PoolSocket_ProcessIncoming upd q_full db now p s)) = sk_header s"
    by (simp add: PoolSocket_ProcessIncoming_def ping auth PoolSocket_Send_frame')
  with assms show ?thesis by simp
qed

interpretation pool_frame: framing
  "PoolSocket_handle_input_header upd" "PoolSocket_ProcessIncoming upd q_full db now"
  Flexi_ClientPktHeader_sizeof for upd q_full db now
  unfolding Pool_header_is_Node
  by unfold_locales
    (use Flexi_sizeof_pos NodeSocket_header_contract PoolSocket_incoming_frame in blast)+

lemma Pool_wakeups [simp]:
  "with_wire (PoolSocket_cancel_wakeup_output wake s) bs = (i, s1, bs') \<longleftrightarrow>
     bs' = bs \<and> PoolSocket_cancel_wakeup_output wake s = (i, s1)"
  "with_wire (PoolSocket_schedule_wakeup_output wake s) bs = (i, s1, bs') \<longleftrightarrow>
     bs' = bs \<and> PoolSocket_schedule_wakeup_output wake s = (i, s1)"
  by (auto simp: with_wire_def split: prod.splits)

lemma Pool_wakeup_keeps:
  "PoolSocket_cancel_wakeup_output wake s = (i, s1) \<Longrightarrow>
     sk_msg_queue s1 = sk_msg_queue s \<and> sk_outBuffer s1 = sk_outBuffer s"
  "PoolSocket_schedule_wakeup_output wake s = (i, s1) \<Longrightarrow>
     sk_msg_queue s1 = sk_msg_queue s \<and> sk_outBuffer s1 = sk_outBuffer s"
  by (auto simp: PoolSocket_cancel_wakeup_output_def PoolSocket_schedule_wakeup_output_def split: if_splits)

lemma Pool_output_queue_pending:
  assumes "PoolSocket_handle_output_queue q_full wake r s = (i, s1, bs)" and "i \<noteq> -1"
    and "\<not> q_full (tl (sk_msg_queue s))"
  shows "bs @ concat (sk_msg_queue s1) = concat (sk_msg_queue s) \<and> sk_outBuffer s1 = sk_outBuffer s"
proof (cases "sk_msg_queue s")
  case Nil
  with assms(1) show ?thesis
    by (auto simp: PoolSocket_handle_output_queue_def dest!: Pool_wakeup_keeps)
next
  case (Cons mblk rest)
  with assms show ?thesis
    by (cases r) (auto simp: PoolSocket_handle_output_queue_def Let_def dest!: Pool_wakeup_keeps
        simp flip: append_assoc split: if_splits)
qed

lemma Pool_output_writes:
  assumes "PoolSocket_handle_output q_full wake r r2 s = (i, s1, bs)" and "i \<noteq> -1"
    and "\<not> q_full (tl (sk_msg_queue s))" and "out_ok s"
  shows "bs @ out_pending s1 = out_pending s \<and> out_ok s1"
proof (cases "mb_unread (sk_outBuffer s) = [] \<and> \<not> sk_closing s")
  case True
  with assms(1) have "PoolSocket_handle_output_queue q_full wake r2 s = (i, s1, bs)"
    by (simp add: PoolSocket_handle_output_def)
  from Pool_output_queue_pending [OF this assms(2,3)] True assms(4) show ?thesis
    by (simp add: out_pending_def out_ok_def)
next
  case False
  with assms(1,2) have opn: "\<not> sk_closing s" and ne: "mb_unread (sk_outBuffer s) \<noteq> []"
    by (auto simp: PoolSocket_handle_output_def split: if_splits)
  show ?thesis
  proof (cases "\<exists>n. r = Sent n \<and> n \<noteq> 0 \<and> \<not> n < length (mb_unread (sk_outBuffer s))")
    case True
    let ?s = "s\<lparr>sk_outBuffer := mb_reset (sk_outBuffer s)\<rparr>"
    from True obtain n where n: "r = Sent n" "n \<noteq> 0" "\<not> n < length (mb_unread (sk_outBuffer s))" by auto
    obtain sent where h: "PoolSocket_handle_output_queue q_full wake r2 ?s = (i, s1, sent)"
      "bs = mb_unread (sk_outBuffer s) @ sent"
      using assms(1) n opn ne
      by (cases "PoolSocket_handle_output_queue q_full wake r2 ?s")
         (simp add: PoolSocket_handle_output_def Let_def)
    from Pool_output_queue_pending [OF h(1) assms(2)] assms(3) h(2) show ?thesis
      by (simp add: out_pending_def out_ok_def mb_unread_def mb_reset_def)
  next
    case False
    with assms opn ne show ?thesis
      by (cases r) (auto simp: PoolSocket_handle_output_def Let_def out_pending_def out_ok_def mb_unread_def
          simp del: drop_drop simp flip: append_assoc dest!: Pool_wakeup_keeps split: if_splits)
  qed
qed

lemma PoolSocket_sends:
  "PoolSocket_SendPacket upd q_full p s = (r, s1) \<Longrightarrow> out_ok s \<Longrightarrow>
   out_pending s1 = out_pending s @ (if r < 0 then [] else flexi_block upd s p) \<and> out_ok s1"
  using sock_put_pending [of q_full _ "s\<lparr>sk_crypt := c\<rparr>" r s1 for c]
  by (auto simp: PoolSocket_SendPacket_def Let_def take_header flexi_block_def out_ok_def
      split: prod.splits if_splits)

interpretation pool_out: sending "PoolSocket_SendPacket upd q_full" "PoolSocket_handle_output q_full"
  "flexi_block upd" q_full for upd q_full
  by unfold_locales (rule PoolSocket_sends Pool_output_writes; assumption)+

section \<open>Frames reach the session\<close>

definition pool_takes :: "wpacket \<Rightarrow> bool" where
  "pool_takes p \<longleftrightarrow> opcode p \<noteq> CMSG_PING \<and> opcode p \<noteq> LOGON_AUTH_MASTER \<and> opcode p \<noteq> CMSG_KEEP_ALIVE"

definition pool_deliver :: "wpacket \<Rightarrow> ('c, 'z) pool_link_scheme \<Rightarrow> ('c, 'z) pool_link_scheme" where
  "pool_deliver p s = s\<lparr>pl_session := map_option (\<lambda>ss. ss\<lparr>pss_recvPoolQueue :=
     lq_add (pkt_received p) (pss_recvPoolQueue ss)\<rparr>) (pl_session s)\<rparr>"

lemma pool_deliver_idle [simp]:
  "sock_idle len (pool_deliver p s) = sock_idle len s" "sk_crypt (pool_deliver p s) = sk_crypt s"
  "sk_closing (pool_deliver p s) = sk_closing s" "pl_m_Session (pool_deliver p s) = pl_m_Session s"
  by (simp_all add: pool_deliver_def sock_idle_def sock_gathering_def)

lemma PoolSocket_reads_frame:
  assumes idle: "sock_idle Flexi_ClientPktHeader_sizeof s" and plain: "\<not> crypt_initialized (sk_crypt s)"
    and n: "bb_size (buf p) + 2 < 4294967296"
    and opn: "\<not> sk_closing s" "pl_m_Session s" "pool_takes p"
  shows "input_iteration (PoolSocket_handle_input_header upd) (PoolSocket_ProcessIncoming upd q_full db now)
      (flexi_wire p @ rest) s = (None, rest, pool_deliver p s)"
  using idle opn unfolding Pool_header_is_Node flexi_reads_frame [OF idle plain n]
  by (cases s) (simp add: PoolSocket_ProcessIncoming_def pool_takes_def pool_deliver_def frame_mid_def
      frame_end_def header_add_def mb_reset_def sock_idle_def sock_gathering_def pkt_received_def)

lemma pool_loop_frames:
  "sock_idle Flexi_ClientPktHeader_sizeof s \<Longrightarrow> \<not> crypt_initialized (sk_crypt s) \<Longrightarrow>
   \<not> sk_closing s \<Longrightarrow> pl_m_Session s \<Longrightarrow> list_all frame_fits ps \<Longrightarrow> list_all pool_takes ps \<Longrightarrow>
   input_loop (PoolSocket_handle_input_header upd) (PoolSocket_ProcessIncoming upd q_full db now)
     (concat (map flexi_wire ps)) s = Some (None, fold pool_deliver ps s)"
proof (induction ps arbitrary: s)
  case Nil
  show ?case by (simp add: input_loop.simps)
next
  case (Cons p ps)
  have "input_iteration (PoolSocket_handle_input_header upd) (PoolSocket_ProcessIncoming upd q_full db now)
      (flexi_wire p @ concat (map flexi_wire ps)) s = (None, concat (map flexi_wire ps), pool_deliver p s)"
    using Cons.prems by (intro PoolSocket_reads_frame) (simp_all add: frame_fits_def)
  with Cons.IH [of "pool_deliver p s"] Cons.prems show ?case
    by (simp add: input_loop.simps [of _ _ "flexi_wire p @ concat (map flexi_wire ps)"])
qed

lemma pool_delivers:
  "pl_session s = Some ss \<Longrightarrow> pl_session (fold pool_deliver ps s) =
     Some (ss\<lparr>pss_recvPoolQueue := (pss_recvPoolQueue ss)\<lparr>lq_queue :=
       lq_queue (pss_recvPoolQueue ss) @ map pkt_received ps\<rparr>\<rparr>)"
  by (induction ps arbitrary: s ss) (simp_all add: pool_deliver_def lq_add_def)

text \<open>An unkeyed node sends frames as well.\<close>

lemma Pool_wakeup_crypt:
  "PoolSocket_cancel_wakeup_output wake s = (i, s1) \<Longrightarrow> sk_crypt s1 = sk_crypt s"
  "PoolSocket_schedule_wakeup_output wake s = (i, s1) \<Longrightarrow> sk_crypt s1 = sk_crypt s"
  by (auto simp: PoolSocket_cancel_wakeup_output_def PoolSocket_schedule_wakeup_output_def split: if_splits)

lemma Pool_output_queue_crypt:
  "PoolSocket_handle_output_queue q_full wake r s = (i, s1, bs) \<Longrightarrow> sk_crypt s1 = sk_crypt s"
  by (auto simp: PoolSocket_handle_output_queue_def Let_def dest!: Pool_wakeup_crypt
      split: list.splits send_result.splits if_splits)

lemma Pool_output_crypt:
  "PoolSocket_handle_output q_full wake r r2 s = (i, s1, bs) \<Longrightarrow> sk_crypt s1 = sk_crypt s"
  by (auto simp: PoolSocket_handle_output_def Let_def dest!: Pool_wakeup_crypt Pool_output_queue_crypt
      split: send_result.splits if_splits prod.splits)

lemma PoolSocket_run_unkeyed:
  assumes "out_run (PoolSocket_SendPacket upd q_full) (PoolSocket_handle_output q_full) (flexi_block upd) q_full s es s'"
    and "\<not> crypt_initialized (sk_crypt s)"
  shows "\<not> crypt_initialized (sk_crypt s') \<and> map snd (accepted es) = map flexi_wire (map fst (accepted es))"
  using assms
proof (induction rule: out_run.induct)
  case (run_step es s1 e s2)
  then have IH: "\<not> crypt_initialized (sk_crypt s1)"
    "map snd (accepted es) = map flexi_wire (map fst (accepted es))" by simp_all
  from run_step.hyps(2) IH show ?case
  proof (cases rule: out_step.cases)
    case (step_accept p r)
    with IH show ?thesis
      by (auto simp: PoolSocket_SendPacket_def Let_def AuthCrypt_EncryptSend_def flexi_block_def flexi_wire_def
          dest!: sock_put_frame split: if_splits)
  next
    case (step_refuse p r)
    with IH show ?thesis
      by (auto simp: PoolSocket_SendPacket_def Let_def AuthCrypt_EncryptSend_def dest!: sock_put_frame
          split: if_splits)
  next
    case (step_wire wake r r2 i bs)
    with IH Pool_output_crypt [OF step_wire(2)] show ?thesis by simp
  qed
qed simp

section \<open>Properties\<close>

text \<open>
  C2: From the node to the proxy: whatever the partial writes of the node and the pieces in
  which the proxy reads, once the node's buffer and queue are empty the proxy's control socket
  has queued exactly the packets the node accepted, unchanged and in order.
\<close>

theorem node_to_proxy_delivery:
  assumes "out_run (PoolSocket_SendPacket upd q_full) (PoolSocket_handle_output q_full) (flexi_block upd) q_full s es s'"
    and "out_ok s" and "out_pending s = []" and "\<not> crypt_initialized (sk_crypt s)" and "out_pending s' = []"
    and "sock_idle Flexi_ClientPktHeader_sizeof t" and "\<not> crypt_initialized (sk_crypt t)"
    and "list_all frame_fits (map fst (accepted es))"
    and "list_all (\<lambda>c. c \<noteq> []) chunks" and "concat chunks = wire_of es"
  shows "\<exists>t'. input_chunks (ControlSocket_handleInputHeader upd') ControlSocket_processIncoming chunks t =
      Some (None, t') \<and>
      lq_queue (sk_multi t') = lq_queue (sk_multi t) @ map pkt_received (filter goes_multi (map fst (accepted es))) \<and>
      lq_queue (sk_single t') = lq_queue (sk_single t) @ map pkt_received (filter goes_single (map fst (accepted es)))"
proof -
  have "wire_of es = concat (map snd (accepted es))"
    using pool_out.run_pending [OF assms(1,2)] assms(3,5) by simp
  then have "concat chunks = concat (map flexi_wire (map fst (accepted es)))"
    using PoolSocket_run_unkeyed [OF assms(1,4)] assms(10) by (simp only:)
  then show ?thesis
    using control_frame.chunks_concat [OF idle_ok [OF assms(6)] assms(9), of upd']
      node_loop_frames [OF assms(6,7,8), of upd' "[]"]
    unfolding Control_is_Node by (simp add: input_loop.simps node_delivers)
qed

text \<open>
  C1: From the proxy to the node: the packets the proxy's control socket accepted reach the
  session's queue on the node, unchanged and in order, once the proxy's output has drained
  and the node has a session for the link (pings, keep-alives and the login itself are
  answered by the socket and excluded here).
\<close>

theorem proxy_to_node_delivery:
  assumes "out_run (ControlSocket_sendPacket upd q_full) (handle_output q_full) (flexi_block upd) q_full s es s'"
    and "out_ok s" and "out_pending s = []" and "\<not> crypt_initialized (sk_crypt s)" and "out_pending s' = []"
    and "sock_idle Flexi_ClientPktHeader_sizeof t" and "\<not> crypt_initialized (sk_crypt t)"
    and "\<not> sk_closing t" and "pl_m_Session t" and "pl_session t = Some ss"
    and "list_all frame_fits (map fst (accepted es))" and "list_all pool_takes (map fst (accepted es))"
    and "list_all (\<lambda>c. c \<noteq> []) chunks" and "concat chunks = wire_of es"
  shows "\<exists>t' ss'. input_chunks (PoolSocket_handle_input_header upd') (PoolSocket_ProcessIncoming upd' q_full' db now)
        chunks t = Some (None, t') \<and> pl_session t' = Some ss' \<and>
      lq_queue (pss_recvPoolQueue ss') = lq_queue (pss_recvPoolQueue ss) @ map pkt_received (map fst (accepted es))"
proof -
  have "map snd (accepted es) = map flexi_wire (map fst (accepted es))"
    using NodeSocket_run_unkeyed [of upd q_full s es s'] assms(1,4)
    unfolding Control_sends_as_Node by (simp add: case_prod_beta)
  moreover have "wire_of es = concat (map snd (accepted es))"
    using control_out.run_pending [OF assms(1,2)] assms(3,5) by simp
  ultimately have "concat chunks = concat (map flexi_wire (map fst (accepted es)))"
    using assms(14) by (simp only:)
  then have "input_chunks (PoolSocket_handle_input_header upd') (PoolSocket_ProcessIncoming upd' q_full' db now)
      chunks t = Some (None, fold pool_deliver (map fst (accepted es)) t)"
    using pool_frame.chunks_concat [where upd = upd' and q_full = q_full' and db = db and now = now,
        OF idle_ok [OF assms(6)] assms(13)]
      pool_loop_frames [where upd = upd' and q_full = q_full' and db = db and now = now,
        OF assms(6-9,11,12)] by simp
  with pool_delivers [OF assms(10)] show ?thesis by fastforce
qed

definition pool_fresh :: "pool_session option \<Rightarrow> unit pool_link" where
  "pool_fresh ss = \<lparr>sk_header = mb_new Flexi_ClientPktHeader_sizeof, sk_recvWPct = None, sk_recvPct_cap = 0,
     sk_recvPct_wr = 0, sk_closing = False, sk_single = lq_new, sk_multi = lq_new,
     sk_outBuffer = mb_new 65536, sk_msg_queue = [], sk_crypt = AuthCrypt_new (),
     pl_m_Session = (ss \<noteq> None), pl_session = ss, pl_LastPingTime = 0, pl_OutActive = True, pl_Seed = 0\<rparr>"

lemma pool_fresh_idle:
  "sock_idle Flexi_ClientPktHeader_sizeof (pool_fresh ss)" "\<not> crypt_initialized (sk_crypt (pool_fresh ss))"
  "\<not> sk_closing (pool_fresh ss)" "out_ok (pool_fresh ss)" "out_pending (pool_fresh ss) = []"
  by (simp_all add: sock_idle_def sock_gathering_def pool_fresh_def mb_new_def AuthCrypt_new_def
      Flexi_sizeof_pos out_ok_def out_pending_def mb_unread_def)

lemmas ack_bytes = Flexi_ServerPktHeader_def Flexi_getHeaderLength_def fields_bytes_def word_le_u8 Let_def

lemma ack_fits: "list_all frame_fits [mk_pkt 0x522 [U8 254]]"
  by (simp add: frame_fits_def fields_bytes_def word_le_u8)

abbreviation plain_upd :: "unit \<Rightarrow> bytes \<Rightarrow> bytes \<times> unit" where
  "plain_upd \<equiv> \<lambda>c bs. (bs, c)"

lemma pool_sends_ack:
  "out_run (PoolSocket_SendPacket plain_upd (\<lambda>q. False)) (PoolSocket_handle_output (\<lambda>q. False))
     (flexi_block plain_upd) (\<lambda>q. False) (pool_fresh None)
     [EvAccept (mk_pkt 0x522 [U8 254]) [0, 0, 0, 3, 0x22, 5, 254], EvWire [0, 0, 0, 3, 0x22, 5, 254]]
     ((pool_fresh None)\<lparr>pl_OutActive := False\<rparr>)"
proof -
  let ?send = "PoolSocket_SendPacket plain_upd (\<lambda>q. False)"
  let ?writ = "PoolSocket_handle_output (\<lambda>q. False)"
  let ?blk = "[0, 0, 0, 3, 0x22, 5, 254] :: bytes" and ?p = "mk_pkt 0x522 [U8 254]"
  let ?s1 = "(pool_fresh None)\<lparr>sk_outBuffer := \<lparr>mb_cap = 65536, mb_rd = 0, mb_data = ?blk\<rparr>\<rparr>"
  have blk: "flexi_block plain_upd (pool_fresh None) ?p = ?blk"
    by (simp add: ack_bytes flexi_block_def AuthCrypt_EncryptSend_def pool_fresh_def AuthCrypt_new_def)
  have "?send ?p (pool_fresh None) = (0, ?s1)"
    by (simp add: ack_bytes PoolSocket_SendPacket_def AuthCrypt_EncryptSend_def pool_fresh_def
        AuthCrypt_new_def sock_put_def mb_space_def mb_new_def)
  from out_step.step_accept [where send = ?send and p = ?p and s = "pool_fresh None", OF this,
      of ?writ "flexi_block plain_upd" "\<lambda>q. False"]
  have a: "out_step ?send ?writ (flexi_block plain_upd) (\<lambda>q. False) (pool_fresh None) (EvAccept ?p ?blk) ?s1"
    by (simp only: blk)
  have "?writ True (Sent 7) SendError ?s1 = (0, (pool_fresh None)\<lparr>pl_OutActive := False\<rparr>, ?blk)"
    by (simp add: PoolSocket_handle_output_def PoolSocket_handle_output_queue_def mb_unread_def pool_fresh_def
        PoolSocket_cancel_wakeup_output_def with_wire_def mb_reset_def mb_new_def)
  then have b: "out_step ?send ?writ (flexi_block plain_upd) (\<lambda>q. False) ?s1 (EvWire ?blk)
      ((pool_fresh None)\<lparr>pl_OutActive := False\<rparr>)"
    by (rule out_step.step_wire) simp_all
  show ?thesis using run_step [OF run_step [OF run_start a] b] by simp
qed

theorem node_to_proxy_delivery_witness:
  "\<exists>t'. input_chunks (ControlSocket_handleInputHeader plain_upd) ControlSocket_processIncoming
      [[0, 0, 0, 3, 0x22], [5, 254]] (sock_fresh () Flexi_ClientPktHeader_sizeof) = Some (None, t')"
proof -
  have "out_pending ((pool_fresh None)\<lparr>pl_OutActive := False\<rparr>) = []"
    by (simp add: out_pending_def pool_fresh_def mb_unread_def mb_new_def)
  from node_to_proxy_delivery [OF pool_sends_ack pool_fresh_idle(4,5,2) this sock_fresh_idle(1)
      sock_fresh_idle(2), where chunks = "[[0, 0, 0, 3, 0x22], [5, 254]]" and upd' = plain_upd] ack_fits
  show ?thesis by fastforce
qed

lemma control_sends_ack:
  "out_run (ControlSocket_sendPacket plain_upd (\<lambda>q. False)) (handle_output (\<lambda>q. False))
     (flexi_block plain_upd) (\<lambda>q. False) (sock_fresh () 6)
     [EvAccept (mk_pkt 0x522 [U8 254]) [0, 0, 0, 3, 0x22, 5, 254], EvWire [0, 0, 0, 3, 0x22, 5, 254]]
     (sock_fresh () 6)"
proof -
  let ?send = "ControlSocket_sendPacket plain_upd (\<lambda>q. False)"
  let ?writ = "handle_output (\<lambda>q. False)"
  let ?blk = "[0, 0, 0, 3, 0x22, 5, 254] :: bytes" and ?p = "mk_pkt 0x522 [U8 254]"
  let ?s = "sock_fresh () 6 :: unit sock"
  let ?s1 = "?s\<lparr>sk_outBuffer := \<lparr>mb_cap = 65536, mb_rd = 0, mb_data = ?blk\<rparr>\<rparr>"
  have blk: "flexi_block plain_upd ?s ?p = ?blk"
    by (simp add: ack_bytes flexi_block_def AuthCrypt_EncryptSend_def sock_fresh_def AuthCrypt_new_def)
  have "?send ?p ?s = (0, ?s1)"
    by (simp add: ack_bytes ControlSocket_sendPacket_def AuthCrypt_EncryptSend_def sock_fresh_def
        AuthCrypt_new_def sock_put_def mb_space_def mb_new_def)
  from out_step.step_accept [where send = ?send and p = ?p and s = ?s, OF this,
      of ?writ "flexi_block plain_upd" "\<lambda>q. False"]
  have a: "out_step ?send ?writ (flexi_block plain_upd) (\<lambda>q. False) ?s (EvAccept ?p ?blk) ?s1"
    by (simp only: blk)
  have "?writ True (Sent 7) SendError ?s1 = (0, ?s, ?blk)"
    by (simp add: handle_output_def handle_output_queue_def mb_unread_def sock_fresh_def
        cancel_wakeup_output_def mb_reset_def mb_new_def)
  then have b: "out_step ?send ?writ (flexi_block plain_upd) (\<lambda>q. False) ?s1 (EvWire ?blk) ?s"
    by (rule out_step.step_wire) simp_all
  show ?thesis using run_step [OF run_step [OF run_start a] b] by simp
qed

theorem proxy_to_node_delivery_witness:
  "\<exists>t' ss'. input_chunks (PoolSocket_handle_input_header plain_upd)
      (PoolSocket_ProcessIncoming plain_upd (\<lambda>q. False) (\<lambda>n. None) 0)
      [[0, 0, 0, 3, 0x22], [5, 254]]
      (pool_fresh (Some \<lparr>pss_serverId = 1, pss_socket = True, pss_recvPoolQueue = lq_new\<rparr>)) = Some (None, t') \<and>
    pl_session t' = Some ss' \<and> lq_queue (pss_recvPoolQueue ss') = [pkt_received (mk_pkt 0x522 [U8 254])]"
proof -
  let ?ss = "\<lparr>pss_serverId = 1, pss_socket = True, pss_recvPoolQueue = lq_new\<rparr>"
  have o: "out_ok (sock_fresh () 6)" "out_pending (sock_fresh () 6) = []"
    by (simp_all add: out_ok_def out_pending_def sock_fresh_def mb_new_def mb_unread_def)
  have p: "pl_m_Session (pool_fresh (Some ?ss))" "pl_session (pool_fresh (Some ?ss)) = Some ?ss"
    by (simp_all add: pool_fresh_def)
  have takes: "list_all pool_takes [mk_pkt 0x522 [U8 254]]" by (simp add: pool_takes_def opcode_defs)
  from proxy_to_node_delivery [OF control_sends_ack o sock_fresh_idle(2) o(2) pool_fresh_idle(1,2,3) p,
      where chunks = "[[0, 0, 0, 3, 0x22], [5, 254]]" and upd' = plain_upd and q_full' = "\<lambda>q. False"
        and db = "\<lambda>n. None" and now = 0] ack_fits takes
  show ?thesis by (simp add: lq_new_def)
qed

lemma PoolSocket_Send_session [simp]:
  "pl_session (snd (PoolSocket_SendPacket upd q_full p t)) = pl_session t"
  "pl_m_Session (snd (PoolSocket_SendPacket upd q_full p t)) = pl_m_Session t"
  by (simp_all add: PoolSocket_SendPacket_def Let_def sock_put_def split: prod.splits)

text \<open>
  No packet of an unauthenticated peer gets further than the socket: without a session a
  packet other than the login, a ping or a keep-alive is answered with a rejection and closes the
  connection, and a session appears only from a login whose name the database knows, with an
  empty queue.
\<close>

theorem PoolSocket_gate:
  assumes "PoolSocket_ProcessIncoming upd q_full db now pct s = (r, s')"
    and "\<not> pl_m_Session s" and "pl_session s = None"
  shows "(pool_takes pct \<longrightarrow> r = -1) \<and>
    (pl_session s' = None \<and> \<not> pl_m_Session s' \<or>
     opcode pct = LOGON_AUTH_MASTER \<and> r = 0 \<and>
     (\<exists>nam b sid. bb_shr TStr (buf pct) = Inr (Str nam, b) \<and> db nam = Some sid \<and>
        pl_session s' = Some \<lparr>pss_serverId = sid, pss_socket = True, pss_recvPoolQueue = lq_new\<rparr>))"
proof -
  have ping: "pl_session (snd (PoolSocket_HandlePing upd q_full now pct s)) = None \<and>
      \<not> pl_m_Session (snd (PoolSocket_HandlePing upd q_full now pct s))"
    using assms(2,3) by (simp add: PoolSocket_HandlePing_def split: sum.splits list.splits prod.splits)
  have "snd (PoolSocket_ProcessIncoming upd q_full db now pct s) = s'" "fst (PoolSocket_ProcessIncoming upd q_full db now pct s) = r"
    using assms(1) by simp_all
  then show ?thesis
    using ping assms(2,3)
    by (auto simp: PoolSocket_ProcessIncoming_def PoolSocket_HandleAuthSession_def pool_takes_def opcode_defs
        split: if_splits sum.splits field.splits option.splits prod.splits)
qed

theorem PoolSocket_gate_witness:
  "fst (PoolSocket_ProcessIncoming plain_upd (\<lambda>q. False) (\<lambda>n. None) 0 (mk_pkt 0x521 []) (pool_fresh None)) = -1"
proof -
  obtain r s' where r: "PoolSocket_ProcessIncoming plain_upd (\<lambda>q. False) (\<lambda>n. None) 0 (mk_pkt 0x521 [])
      (pool_fresh None) = (r, s')" by fastforce
  have t: "pool_takes (mk_pkt 0x521 [])" by (simp add: pool_takes_def opcode_defs)
  from PoolSocket_gate [OF r] t r show ?thesis by (simp add: pool_fresh_def)
qed

end
