(* ===== verification/GuidRange.thy ===== *)
theory GuidRange
  imports Prelude
begin

text \<open>
  The identifier counters of a node, \<open>game/Globals/ObjectMgr.cpp\<close>. Items, mails and corpses get
  identifiers that are unique over the whole cluster: every node starts from its own offset,
  which the proxy hands out, and steps by the number of nodes. A failed \<open>ASSERT\<close> is \<open>None\<close>;
  \<open>World::StopNow\<close> only sets a flag that the main loop reads later.
\<close>

section \<open>Counters\<close>

record ObjectMgr =
  om_hiRange :: u32
  om_hiItemGuid :: u32
  om_mailId :: u32
  om_hiCorpseGuid :: u32
  om_hiCreatureGuid :: u32
  om_hiPetGuid :: u32
  om_hiVehicleGuid :: u32
  om_hiCharGuid :: u32
  om_hiGoGuid :: u32
  om_hiDoGuid :: u32
  om_hiMoTransGuid :: u32
  om_auctionId :: u32
  om_equipmentSetGuid :: u64
  om_stopped :: bool

datatype HighGuid = HIGHGUID_ITEM | HIGHGUID_UNIT | HIGHGUID_PET | HIGHGUID_VEHICLE
  | HIGHGUID_PLAYER | HIGHGUID_GAMEOBJECT | HIGHGUID_CORPSE | HIGHGUID_DYNAMICOBJECT
  | HIGHGUID_MO_TRANSPORT | HIGHGUID_OTHER

text \<open>What a call tells the proxy: the entity type and the new counter (\<open>SendGUIDSync\<close>).\<close>

type_synonym guid_sync = "(u32 \<times> u32) option"

definition GenerateAuctionID :: "ObjectMgr \<Rightarrow> u32 \<times> ObjectMgr" where
  "GenerateAuctionID o1 =
     (let o2 = (if om_auctionId o1 \<ge> 0xFFFFFFFE then o1\<lparr>om_stopped := True\<rparr> else o1)
      in (om_auctionId o2, o2\<lparr>om_auctionId := om_auctionId o2 + 1\<rparr>))"

definition GenerateEquipmentSetGuid :: "ObjectMgr \<Rightarrow> u64 \<times> ObjectMgr" where
  "GenerateEquipmentSetGuid o1 =
     (let o2 = (if om_equipmentSetGuid o1 \<ge> 0xFFFFFFFFFFFFFFFE then o1\<lparr>om_stopped := True\<rparr> else o1)
      in (om_equipmentSetGuid o2, o2\<lparr>om_equipmentSetGuid := om_equipmentSetGuid o2 + 1\<rparr>))"

definition GenerateMailIDWhenNode :: "ObjectMgr \<Rightarrow> u32 \<times> ObjectMgr \<times> guid_sync" where
  "GenerateMailIDWhenNode o1 =
     (let o2 = (if om_mailId o1 \<ge> 0xFFFFFFFE then o1\<lparr>om_stopped := True\<rparr> else o1);
          o3 = o2\<lparr>om_mailId := om_mailId o2 + om_hiRange o2\<rparr>
      in (om_mailId o3, o3, Some (2, om_mailId o3)))"

definition GenerateLowGuidWhenNode :: "HighGuid \<Rightarrow> ObjectMgr \<Rightarrow> (u32 \<times> ObjectMgr \<times> guid_sync) option" where
  "GenerateLowGuidWhenNode guidhigh o1 =
     (case guidhigh of
        HIGHGUID_ITEM \<Rightarrow>
          if \<not> om_hiItemGuid o1 < 0xFFFFFFFE then None
          else let o2 = o1\<lparr>om_hiItemGuid := om_hiItemGuid o1 + om_hiRange o1\<rparr>
               in Some (om_hiItemGuid o2, o2, Some (1, om_hiItemGuid o2))
      | HIGHGUID_UNIT \<Rightarrow>
          if \<not> om_hiCreatureGuid o1 < 0xFFFFFFFE then None
          else Some (om_hiCreatureGuid o1, o1\<lparr>om_hiCreatureGuid := om_hiCreatureGuid o1 + 1\<rparr>, None)
      | HIGHGUID_PET \<Rightarrow>
          if \<not> om_hiPetGuid o1 < 0x00FFFFFE then None
          else Some (om_hiPetGuid o1, o1\<lparr>om_hiPetGuid := om_hiPetGuid o1 + 1\<rparr>, None)
      | HIGHGUID_VEHICLE \<Rightarrow>
          if \<not> om_hiVehicleGuid o1 < 0x00FFFFFF then None
          else Some (om_hiVehicleGuid o1, o1\<lparr>om_hiVehicleGuid := om_hiVehicleGuid o1 + 1\<rparr>, None)
      | HIGHGUID_PLAYER \<Rightarrow>
          if \<not> om_hiCharGuid o1 < 0xFFFFFFFE then None
          else Some (om_hiCharGuid o1, o1\<lparr>om_hiCharGuid := om_hiCharGuid o1 + 1\<rparr>, None)
      | HIGHGUID_GAMEOBJECT \<Rightarrow>
          if \<not> om_hiGoGuid o1 < 0x00FFFFFE then None
          else Some (om_hiGoGuid o1, o1\<lparr>om_hiGoGuid := om_hiGoGuid o1 + 1\<rparr>, None)
      | HIGHGUID_CORPSE \<Rightarrow>
          if \<not> om_hiCorpseGuid o1 < 0xFFFFFFFE then None
          else let o2 = o1\<lparr>om_hiCorpseGuid := om_hiCorpseGuid o1 + om_hiRange o1\<rparr>
               in Some (om_hiCorpseGuid o2, o2, Some (3, om_hiCorpseGuid o2))
      | HIGHGUID_DYNAMICOBJECT \<Rightarrow>
          if \<not> om_hiDoGuid o1 < 0xFFFFFFFE then None
          else Some (om_hiDoGuid o1, o1\<lparr>om_hiDoGuid := om_hiDoGuid o1 + 1\<rparr>, None)
      | HIGHGUID_MO_TRANSPORT \<Rightarrow>
          if \<not> om_hiMoTransGuid o1 < 0xFFFFFFFE then None
          else Some (om_hiMoTransGuid o1, o1\<lparr>om_hiMoTransGuid := om_hiMoTransGuid o1 + 1\<rparr>, None)
      | HIGHGUID_OTHER \<Rightarrow> None)"

section \<open>Offsets that do not meet\<close>

text \<open>Node \<open>i\<close> of \<open>N\<close> starts at \<open>base + (i - 1)\<close>; the ids are between 1 and \<open>N\<close>.\<close>

lemma offsets_differ:
  assumes "1 \<le> i" "i \<le> N" "1 \<le> j" "j \<le> N" "i \<noteq> (j :: nat)"
  shows "(base + (i - 1)) mod N \<noteq> (base + (j - 1)) mod N"
proof -
  have aux: "(base + a) mod N \<noteq> (base + b) mod N" if "a < b" "b < N" for a b
  proof
    assume "(base + a) mod N = (base + b) mod N"
    then have "N dvd (base + b) - (base + a)" using that by (intro mod_eq_dvd_iff_nat [THEN iffD1]) auto
    then have "N dvd b - a" by simp
    with that show False by (auto dest: dvd_imp_le)
  qed
  show ?thesis
  proof (cases "i < j")
    case True
    then show ?thesis using aux [of "i - 1" "j - 1"] assms by simp
  next
    case False
    then have "j - 1 < i - 1" "i - 1 < N" using assms by simp_all
    from aux [OF this] show ?thesis by simp
  qed
qed

section \<open>The interface of a strided counter\<close>

text \<open>Calling a generator \<open>n\<close> times, with the identifiers it returned.\<close>

fun guid_run :: "('o \<Rightarrow> (u32 \<times> 'o \<times> guid_sync) option) \<Rightarrow> nat \<Rightarrow> 'o \<Rightarrow> (u32 list \<times> 'o) option" where
  "guid_run gen 0 o1 = Some ([], o1)"
| "guid_run gen (Suc n) o1 =
     (case gen o1 of None \<Rightarrow> None
      | Some (g, o2, _) \<Rightarrow> map_option (\<lambda>(gs, o3). (g # gs, o3)) (guid_run gen n o2))"

locale strided =
  fixes gen :: "'o \<Rightarrow> (u32 \<times> 'o \<times> guid_sync) option"
    and counter range :: "'o \<Rightarrow> u32"
  assumes gen_step: "counter o1 < 0xFFFFFFFE \<Longrightarrow>
    \<exists>o2 m. gen o1 = Some (counter o1 + range o1, o2, m) \<and>
      counter o2 = counter o1 + range o1 \<and> range o2 = range o1"
begin

text \<open>As long as nothing wraps the identifiers are an arithmetic progression.\<close>

lemma run_progression:
  "unat (counter o1) + n * unat (range o1) < 0xFFFFFFFE \<Longrightarrow>
   \<exists>gs o2. guid_run gen n o1 = Some (gs, o2) \<and>
     map unat gs = map (\<lambda>k. unat (counter o1) + Suc k * unat (range o1)) [0..<n]"
proof (induction n arbitrary: o1)
  case (Suc n)
  have "counter o1 < 0xFFFFFFFE" using Suc.prems by (simp add: word_less_nat_alt)
  from gen_step [OF this] obtain o2 m where o2: "gen o1 = Some (counter o1 + range o1, o2, m)"
    "counter o2 = counter o1 + range o1" "range o2 = range o1" by blast
  have sum: "unat (counter o1) + unat (range o1) < 2 ^ LENGTH(32)" using Suc.prems by simp
  then have c2: "unat (counter o2) = unat (counter o1) + unat (range o1)"
    using o2(2) by (simp add: unat_word_ariths)
  have "unat (counter o2) + n * unat (range o2) < 0xFFFFFFFE"
    using Suc.prems c2 o2(3) by (simp add: algebra_simps)
  from Suc.IH [OF this] obtain gs o3 where gs: "guid_run gen n o2 = Some (gs, o3)"
    "map unat gs = map (\<lambda>k. unat (counter o2) + Suc k * unat (range o2)) [0..<n]" by blast
  have "map unat ((counter o1 + range o1) # gs) =
      map (\<lambda>k. unat (counter o1) + Suc k * unat (range o1)) [0..<Suc n]"
    using gs(2) c2 o2(2,3) by (simp add: upt_conv_Cons map_Suc_upt [symmetric] algebra_simps
        del: upt_Suc map_Suc_upt)
  with gs(1) o2(1) show ?case by auto
qed simp

lemma run_distinct:
  assumes "unat (counter o1) + n * unat (range o1) < 0xFFFFFFFE" and "0 < range o1"
  shows "\<exists>gs o2. guid_run gen n o1 = Some (gs, o2) \<and> distinct gs"
proof -
  from run_progression [OF assms(1)] obtain gs o2 where g: "guid_run gen n o1 = Some (gs, o2)"
    "map unat gs = map (\<lambda>k. unat (counter o1) + Suc k * unat (range o1)) [0..<n]" by blast
  have "unat (range o1) \<noteq> 0" using assms(2) by (simp add: unat_eq_zero word_gt_0)
  then have "distinct (map unat gs)" unfolding g(2) by (simp add: distinct_map inj_on_def)
  with g(1) show ?thesis using distinct_map by blast
qed

text \<open>Two nodes with the same stride and offsets that differ modulo it never meet.\<close>

lemma runs_disjoint:
  assumes "unat (counter o1) + n * unat (range o1) < 0xFFFFFFFE"
    and "unat (counter o2) + m * unat (range o2) < 0xFFFFFFFE"
    and "range o1 = range o2" and "guid_run gen n o1 = Some (gs, p1)" and "guid_run gen m o2 = Some (hs, p2)"
    and "unat (counter o1) mod unat (range o1) \<noteq> unat (counter o2) mod unat (range o1)"
  shows "set gs \<inter> set hs = {}"
proof -
  have g: "map unat gs = map (\<lambda>k. unat (counter o1) + Suc k * unat (range o1)) [0..<n]"
    using run_progression [OF assms(1)] assms(4) by auto
  have h: "map unat hs = map (\<lambda>k. unat (counter o2) + Suc k * unat (range o1)) [0..<m]"
    using run_progression [OF assms(2)] assms(3,5) by auto
  show ?thesis
  proof (rule equals0I)
    fix x assume "x \<in> set gs \<inter> set hs"
    then have "unat x \<in> set (map unat gs)" "unat x \<in> set (map unat hs)" by auto
    then obtain k l where "unat x = unat (counter o1) + Suc k * unat (range o1)"
      "unat x = unat (counter o2) + Suc l * unat (range o1)" unfolding g h by auto
    then have "unat (counter o1) mod unat (range o1) = unat (counter o2) mod unat (range o1)"
      by (metis mod_mult_self2 mult.commute)
    with assms(6) show False by contradiction
  qed
qed

lemma offsets_unique:
  assumes "unat (counter o1) = base + (i - 1)" and "unat (counter o2) = base + (j - 1)"
    and "unat (range o1) = N" and "unat (range o2) = N"
    and "1 \<le> i" and "i \<le> N" and "1 \<le> j" and "j \<le> N" and "i \<noteq> j"
    and "base + N + n * N < 0xFFFFFFFE" and "base + N + m * N < 0xFFFFFFFE"
  shows "\<exists>gs p1 hs p2. guid_run gen n o1 = Some (gs, p1) \<and> guid_run gen m o2 = Some (hs, p2) \<and>
    distinct gs \<and> distinct hs \<and> set gs \<inter> set hs = {}"
proof -
  have b: "unat (counter o1) + n * unat (range o1) < 0xFFFFFFFE"
    "unat (counter o2) + m * unat (range o2) < 0xFFFFFFFE" using assms by simp_all
  have "0 < unat (range o1)" "0 < unat (range o2)" using assms by simp_all
  then have pos: "0 < range o1" "0 < range o2" by (simp_all add: word_less_nat_alt)
  obtain gs p1 hs p2 where r: "guid_run gen n o1 = Some (gs, p1)" "guid_run gen m o2 = Some (hs, p2)"
    "distinct gs" "distinct hs"
    using run_distinct [OF b(1) pos(1)] run_distinct [OF b(2) pos(2)] by blast
  have "set gs \<inter> set hs = {}"
  proof (rule runs_disjoint [OF b _ r(1,2)])
    show "range o1 = range o2" using assms(3,4) by (metis unsigned_word_eqI)
    show "unat (counter o1) mod unat (range o1) \<noteq> unat (counter o2) mod unat (range o1)"
      using offsets_differ [OF assms(5-9)] unfolding assms(1-3) .
  qed
  with r show ?thesis by blast
qed

end

interpretation item_guids: strided "GenerateLowGuidWhenNode HIGHGUID_ITEM" om_hiItemGuid om_hiRange
  by unfold_locales (auto simp: GenerateLowGuidWhenNode_def Let_def)

interpretation corpse_guids: strided "GenerateLowGuidWhenNode HIGHGUID_CORPSE" om_hiCorpseGuid om_hiRange
  by unfold_locales (auto simp: GenerateLowGuidWhenNode_def Let_def)

interpretation mail_ids: strided "\<lambda>o1. Some (GenerateMailIDWhenNode o1)" om_mailId om_hiRange
  by unfold_locales (auto simp: GenerateMailIDWhenNode_def Let_def)

definition om_example :: "u32 \<Rightarrow> u32 \<Rightarrow> ObjectMgr" where
  "om_example rng c = \<lparr>om_hiRange = rng, om_hiItemGuid = c, om_mailId = c, om_hiCorpseGuid = c,
     om_hiCreatureGuid = 1, om_hiPetGuid = 1, om_hiVehicleGuid = 1, om_hiCharGuid = 1, om_hiGoGuid = 1,
     om_hiDoGuid = 1, om_hiMoTransGuid = 1, om_auctionId = 1, om_equipmentSetGuid = 1, om_stopped = False\<rparr>"

text \<open>
  Two different nodes that were started from the same base with their own offset and the
  same stride never hand out the same mail identifier, and no node repeats one, for any number
  of calls on each, as long as no counter reaches the guard.
\<close>

theorem mail_ids_unique:
  assumes "unat (om_mailId o1) = base + (i - 1)" and "unat (om_mailId o2) = base + (j - 1)"
    and "unat (om_hiRange o1) = N" and "unat (om_hiRange o2) = N"
    and "1 \<le> i" and "i \<le> N" and "1 \<le> j" and "j \<le> N" and "i \<noteq> j"
    and "base + N + n * N < 0xFFFFFFFE" and "base + N + m * N < 0xFFFFFFFE"
  shows "\<exists>gs p1 hs p2. guid_run (\<lambda>o1. Some (GenerateMailIDWhenNode o1)) n o1 = Some (gs, p1) \<and>
    guid_run (\<lambda>o1. Some (GenerateMailIDWhenNode o1)) m o2 = Some (hs, p2) \<and>
    distinct gs \<and> distinct hs \<and> set gs \<inter> set hs = {}"
  using assms by (rule mail_ids.offsets_unique)

theorem mail_ids_unique_witness:
  "\<exists>gs p1 hs p2. guid_run (\<lambda>o1. Some (GenerateMailIDWhenNode o1)) 2 (om_example 3 10) = Some (gs, p1) \<and>
    guid_run (\<lambda>o1. Some (GenerateMailIDWhenNode o1)) 2 (om_example 3 11) = Some (hs, p2) \<and>
    distinct gs \<and> distinct hs \<and> set gs \<inter> set hs = {}"
  by (rule mail_ids_unique [of _ 10 1 _ 2 3]) (simp_all add: om_example_def)

text \<open>
  The guard looks at the counter before the stride is added: a counter it lets pass can wrap,
  and the call then returns an identifier from the beginning of the range.
\<close>

lemma stride_passes_the_guard:
  "GenerateLowGuidWhenNode HIGHGUID_ITEM (om_example 7 0xFFFFFFFD) =
     Some (4, (om_example 7 0xFFFFFFFD)\<lparr>om_hiItemGuid := 4\<rparr>, Some (1, 4))"
  by (simp add: GenerateLowGuidWhenNode_def om_example_def)

end
