(* ===== verification/PoolNode.thy ===== *)
theory PoolNode
  imports PoolSocket GuidRange
begin

text \<open>
  The node's half of the cluster protocol: \<open>game/Pool/PoolSession.cpp\<close>, which takes the
  proxy's settings and counters, and \<open>PoolSessionMgr.cpp\<close>, which owns the sessions and reports
  every used identifier back. Handlers keep what they did before an exception. Links (a socket
  with its session) live in a store by address, as the manager's containers hold pointers.
\<close>

section \<open>State\<close>

record node_world =
  nw_om :: ObjectMgr
  nw_rates :: "string \<rightharpoonup> u32"
  nw_ints :: "string \<rightharpoonup> u32"
  nw_shutdown :: "u32 option"

record 'c pool_node =
  pn_world :: node_world
  pn_link :: "nat \<Rightarrow> 'c pool_link"
  pn_sessions :: "(u32 \<times> nat) list"
  pn_addSessQueue :: "nat locked_queue"
  pn_QueuedPlayer :: "nat list"
  pn_playerLimit :: u32
  pn_maxActiveSessionCount :: u32
  pn_maxQueuedSessionCount :: u32

text \<open>\<open>NodeAck\<close>, \<open>MiscData\<close> and \<open>EntityIDType\<close> of \<open>shared/ClusterDefines.h\<close>.\<close>

definition NODE_INIT_ACK_ITEM_GUID_FAIL :: u8 where "NODE_INIT_ACK_ITEM_GUID_FAIL = 1"
definition NODE_INIT_ACK_MAIL_GUID_FAIL :: u8 where "NODE_INIT_ACK_MAIL_GUID_FAIL = 2"
definition NODE_INIT_ACK_CORPSE_GUID_FAIL :: u8 where "NODE_INIT_ACK_CORPSE_GUID_FAIL = 3"
definition NODE_INIT_ACK_OK :: u8 where "NODE_INIT_ACK_OK = 254"
definition CL_DEF_GUID_SYNC :: u32 where "CL_DEF_GUID_SYNC = 0"
definition CL_DEF_SHUTDOWN :: u32 where "CL_DEF_SHUTDOWN = 1"

section \<open>The session\<close>

definition PoolSession_SendPacket ::
  "('c \<Rightarrow> bytes \<Rightarrow> bytes \<times> 'c) \<Rightarrow> (bytes list \<Rightarrow> bool) \<Rightarrow> wpacket \<Rightarrow> 'c pool_link \<Rightarrow> 'c pool_link" where
  "PoolSession_SendPacket upd q_full p l =
     (case pl_session l of
        None \<Rightarrow> l
      | Some ss \<Rightarrow>
          if \<not> pss_socket ss then l
          else (case PoolSocket_SendPacket upd q_full p l of
            (r, l1) \<Rightarrow> if r = -1 then PoolSocket_CloseSocket l1 else l1))"

definition PoolSession_CloseSockets :: "'c pool_link \<Rightarrow> 'c pool_link" where
  "PoolSession_CloseSockets l =
     (case pl_session l of
        None \<Rightarrow> l
      | Some ss \<Rightarrow>
          if pss_socket ss \<and> \<not> sk_closing l
          then (PoolSocket_CloseSocket l)\<lparr>pl_session := Some (ss\<lparr>pss_socket := False\<rparr>)\<rparr>
          else l)"

text \<open>The destructor: close the socket, free the queue.\<close>

definition PoolSession_delete :: "'c pool_link \<Rightarrow> 'c pool_link" where
  "PoolSession_delete l = (PoolSession_CloseSockets l)\<lparr>pl_session := None\<rparr>"

definition SendInitACK ::
  "('c \<Rightarrow> bytes \<Rightarrow> bytes \<times> 'c) \<Rightarrow> (bytes list \<Rightarrow> bool) \<Rightarrow> u8 \<Rightarrow> 'c pool_link \<Rightarrow> 'c pool_link" where
  "SendInitACK upd q_full ack l = PoolSession_SendPacket upd q_full (mk_pkt NODE_INIT_ACK [U8 ack]) l"

text \<open>The order in which the handler stores the 38 rates; two stores are commented out.\<close>

definition init_rate_order :: "string list" where
  "init_rate_order = [
    ''RATE_HEALTH'', ''RATE_POWER_MANA'', ''RATE_POWER_RAGE_INCOME'', ''RATE_POWER_RAGE_LOSS'',
     ''RATE_POWER_RUNICPOWER_INCOME'', ''RATE_POWER_RUNICPOWER_LOSS'', ''RATE_POWER_FOCUS'',
     ''RATE_POWER_ENERGY'', ''RATE_SKILL_DISCOVERY'', ''RATE_DROP_ITEM_POOR'',
     ''RATE_DROP_ITEM_NORMAL'', ''RATE_DROP_ITEM_UNCOMMON'', ''RATE_DROP_ITEM_RARE'',
     ''RATE_DROP_ITEM_EPIC'', ''RATE_DROP_ITEM_LEGENDARY'', ''RATE_DROP_ITEM_ARTIFACT'',
     ''RATE_DROP_ITEM_REFERENCED'', ''RATE_DROP_ITEM_REFERENCED_AMOUNT'', ''RATE_DROP_MONEY'',
     ''RATE_XP_KILL'', ''RATE_XP_QUEST'', ''RATE_XP_EXPLORE'', ''RATE_REPAIRCOST'',
     ''RATE_REST_INGAME'', ''RATE_REST_OFFLINE_IN_TAVERN_OR_CITY'',
     ''RATE_REST_OFFLINE_IN_WILDERNESS'', ''RATE_DAMAGE_FALL'', ''RATE_AUCTION_TIME'',
     ''RATE_AUCTION_DEPOSIT'', ''RATE_AUCTION_CUT'', ''RATE_HONOR'', ''RATE_MINING_AMOUNT'',
     ''RATE_MINING_NEXT'', ''RATE_TALENT'', ''RATE_REPUTATION_GAIN'',
     ''RATE_REPUTATION_LOWLEVEL_KILL'', ''RATE_REPUTATION_LOWLEVEL_QUEST'',
     ''RATE_REPUTATION_RECRUIT_A_FRIEND_BONUS'']"

definition init_rate_ignored :: "string list" where
  "init_rate_ignored = [''RATE_MINING_AMOUNT'', ''RATE_MINING_NEXT'']"

definition init_int_order :: "string list" where
  "init_int_order = [
    ''CONFIG_SKILL_GAIN_CRAFTING'', ''CONFIG_SKILL_GAIN_DEFENSE'',
     ''CONFIG_SKILL_GAIN_GATHERING'', ''CONFIG_SKILL_GAIN_WEAPON'',
     ''CONFIG_SKILL_CHANCE_ORANGE'', ''CONFIG_SKILL_CHANCE_YELLOW'',
     ''CONFIG_SKILL_CHANCE_GREEN'', ''CONFIG_SKILL_CHANCE_GREY'',
     ''CONFIG_SKILL_CHANCE_MINING_STEPS'', ''CONFIG_SKILL_CHANCE_SKINNING_STEPS'']"

fun set_all :: "(string \<times> u32) list \<Rightarrow> (string \<rightharpoonup> u32) \<Rightarrow> (string \<rightharpoonup> u32)" where
  "set_all [] m = m"
| "set_all ((k, v) # kvs) m = set_all kvs (m(k \<mapsto> v))"

fun flt_bits :: "field \<Rightarrow> u32" where
  "flt_bits (Flt w) = w"
| "flt_bits (U32 w) = w"
| "flt_bits _ = 0"

definition Handle_LOGON_INIT_NODE ::
  "('c \<Rightarrow> bytes \<Rightarrow> bytes \<times> 'c) \<Rightarrow> (bytes list \<Rightarrow> bool) \<Rightarrow> wpacket \<Rightarrow>
   node_world \<times> 'c pool_link \<Rightarrow> node_world \<times> 'c pool_link" where
  "Handle_LOGON_INIT_NODE upd q_full pct st =
     (case st of (w, l) \<Rightarrow>
      case bb_shr TU32 (buf pct) of
        Inr (U32 rng, b1) \<Rightarrow>
         (let w1 = w\<lparr>nw_om := (nw_om w)\<lparr>om_hiRange := rng\<rparr>\<rparr> in
          case bb_shr TU32 b1 of
            Inr (U32 ItemGuid, b2) \<Rightarrow>
             (if ItemGuid \<ge> 0xFFFFFFFE then (w1, SendInitACK upd q_full NODE_INIT_ACK_ITEM_GUID_FAIL l)
              else let w2 = w1\<lparr>nw_om := (nw_om w1)\<lparr>om_hiItemGuid := ItemGuid\<rparr>\<rparr> in
              case bb_shr TU32 b2 of
                Inr (U32 MailGuid, b3) \<Rightarrow>
                 (if MailGuid \<ge> 0xFFFFFFFE then (w2, SendInitACK upd q_full NODE_INIT_ACK_MAIL_GUID_FAIL l)
                  else let w3 = w2\<lparr>nw_om := (nw_om w2)\<lparr>om_mailId := MailGuid\<rparr>\<rparr> in
                  case bb_shr_all [TU32, TU32] b3 of
                    Inr ([GroupGuid, U32 CorpseGuid], b4) \<Rightarrow>
                     (if CorpseGuid \<ge> 0xFFFFFFFE then (w3, SendInitACK upd q_full NODE_INIT_ACK_CORPSE_GUID_FAIL l)
                      else let w4 = w3\<lparr>nw_om := (nw_om w3)\<lparr>om_hiCorpseGuid := CorpseGuid\<rparr>\<rparr> in
                      case bb_shr_all (replicate 38 TFlt) b4 of
                        Inr (rates, b5) \<Rightarrow>
                         (let w5 = w4\<lparr>nw_rates := set_all (filter (\<lambda>(k, _). k \<notin> set init_rate_ignored)
                                (zip init_rate_order (map flt_bits rates))) (nw_rates w4)\<rparr> in
                          case bb_shr_all (replicate 10 TU32) b5 of
                            Inr (ints, _) \<Rightarrow>
                              (w5\<lparr>nw_ints := set_all (zip init_int_order (map flt_bits ints)) (nw_ints w5)\<rparr>,
                               SendInitACK upd q_full NODE_INIT_ACK_OK l)
                          | _ \<Rightarrow> (w5, l))
                      | _ \<Rightarrow> (w4, l))
                  | _ \<Rightarrow> (w3, l))
              | _ \<Rightarrow> (w2, l))
          | _ \<Rightarrow> (w1, l))
      | _ \<Rightarrow> (w, l))"

definition Handle_LOGON_SYNC_DATA :: "wpacket \<Rightarrow> node_world \<Rightarrow> node_world" where
  "Handle_LOGON_SYNC_DATA pct w =
     (case bb_shr TU32 (buf pct) of
        Inr (U32 cmd, b1) \<Rightarrow>
         (if cmd = CL_DEF_GUID_SYNC then
           (case bb_shr TU32 b1 of
              Inr (U32 subCommand, b2) \<Rightarrow>
               (let store = (\<lambda>f. case bb_shr TU32 b2 of
                        Inr (U32 g, b3) \<Rightarrow> Some (w\<lparr>nw_om := f g (nw_om w)\<rparr>, b3)
                      | _ \<Rightarrow> None);
                    res = (if subCommand = 1 then store (\<lambda>g om. om\<lparr>om_hiItemGuid := g\<rparr>)
                           else if subCommand = 2 then store (\<lambda>g om. om\<lparr>om_mailId := g\<rparr>)
                           else if subCommand = 3 then store (\<lambda>g om. om\<lparr>om_hiCorpseGuid := g\<rparr>)
                           else Some (w, b2))
                in case res of
                     None \<Rightarrow> w
                   | Some (w1, b3) \<Rightarrow>
                      (case bb_shr TU32 b3 of
                         Inr (U32 rng, _) \<Rightarrow> w1\<lparr>nw_om := (nw_om w1)\<lparr>om_hiRange := rng\<rparr>\<rparr>
                       | _ \<Rightarrow> w1))
            | _ \<Rightarrow> w)
          else if cmd = CL_DEF_SHUTDOWN then
           (case bb_shr TU32 b1 of Inr (U32 time, _) \<Rightarrow> w\<lparr>nw_shutdown := Some time\<rparr> | _ \<Rightarrow> w)
          else w)
      | _ \<Rightarrow> w)"

text \<open>The dispatch loop of \<open>UpdateServerIO\<close>; the packets it did not get to stay queued.\<close>

fun pool_io ::
  "('c \<Rightarrow> bytes \<Rightarrow> bytes \<times> 'c) \<Rightarrow> (bytes list \<Rightarrow> bool) \<Rightarrow> wpacket list \<Rightarrow>
   node_world \<times> 'c pool_link \<Rightarrow> wpacket list \<times> node_world \<times> 'c pool_link" where
  "pool_io upd q_full [] st = ([], st)"
| "pool_io upd q_full (p # ps) st =
     (if sk_closing (snd st) then (p # ps, st)
      else pool_io upd q_full ps
        (if NUM_MSG_TYPES \<le> unat (opcode p) then st
         else if opcode p = LOGON_INIT_NODE then Handle_LOGON_INIT_NODE upd q_full p st
         else if opcode p = LOGON_SYNC_DATA then (Handle_LOGON_SYNC_DATA p (fst st), snd st)
         else st))"

definition PoolSession_UpdateServerIO ::
  "('c \<Rightarrow> bytes \<Rightarrow> bytes \<times> 'c) \<Rightarrow> (bytes list \<Rightarrow> bool) \<Rightarrow> node_world \<times> 'c pool_link \<Rightarrow>
   bool \<times> node_world \<times> 'c pool_link" where
  "PoolSession_UpdateServerIO upd q_full st =
     (case pl_session (snd st) of
        None \<Rightarrow> (False, st)
      | Some ss \<Rightarrow>
          if \<not> pss_socket ss \<or> sk_closing (snd st) then (False, st)
          else (case pool_io upd q_full (lq_queue (pss_recvPoolQueue ss)) st of
            (rest, w, l) \<Rightarrow> (True, w, l\<lparr>pl_session := map_option (\<lambda>ss. ss\<lparr>pss_recvPoolQueue :=
                (pss_recvPoolQueue ss)\<lparr>lq_queue := rest\<rparr>\<rparr>) (pl_session l)\<rparr>)))"

section \<open>The manager\<close>

definition upd_link :: "nat \<Rightarrow> ('c pool_link \<Rightarrow> 'c pool_link) \<Rightarrow> 'c pool_node \<Rightarrow> 'c pool_node" where
  "upd_link a f n = n\<lparr>pn_link := (pn_link n)(a := f (pn_link n a))\<rparr>"

definition PoolSessionMgr_GetActiveSessionCount :: "'c pool_node \<Rightarrow> u32" where
  "PoolSessionMgr_GetActiveSessionCount n =
     word_of_nat (length (pn_sessions n)) - word_of_nat (length (pn_QueuedPlayer n))"

text \<open>\<open>begin()->second\<close> of an empty map is undefined: \<open>None\<close>.\<close>

definition PoolSessionMgr_GetSession :: "u32 \<Rightarrow> 'c pool_node \<Rightarrow> nat option option" where
  "PoolSessionMgr_GetSession sid n =
     (if sid = 0 then (case pn_sessions n of [] \<Rightarrow> None | (_, a) # _ \<Rightarrow> Some (Some a))
      else Some None)"

definition SendGUIDSync ::
  "('c \<Rightarrow> bytes \<Rightarrow> bytes \<times> 'c) \<Rightarrow> (bytes list \<Rightarrow> bool) \<Rightarrow> u32 \<Rightarrow> u32 \<Rightarrow> 'c pool_node \<Rightarrow> 'c pool_node" where
  "SendGUIDSync upd q_full typ guid n =
     (case pn_sessions n of
        [] \<Rightarrow> n
      | (_, a) # _ \<Rightarrow> upd_link a (PoolSession_SendPacket upd q_full
            (mk_pkt NODE_SYNC_DATA [U32 CL_DEF_GUID_SYNC, U32 typ, U32 guid])) n)"

definition SendPacketToAll ::
  "('c \<Rightarrow> bytes \<Rightarrow> bytes \<times> 'c) \<Rightarrow> (bytes list \<Rightarrow> bool) \<Rightarrow> wpacket \<Rightarrow> 'c pool_node \<Rightarrow> 'c pool_node" where
  "SendPacketToAll upd q_full p n =
     fold (\<lambda>(_, a). upd_link a (PoolSession_SendPacket upd q_full p)) (pn_sessions n) n"

definition PoolSessionMgr_ServerClose :: "'c pool_node \<Rightarrow> 'c pool_node" where
  "PoolSessionMgr_ServerClose n =
     (fold (\<lambda>(_, a). upd_link a PoolSession_delete) (pn_sessions n) n)\<lparr>pn_sessions := []\<rparr>"

definition PoolSessionMgr_AddSession :: "nat \<Rightarrow> 'c pool_node \<Rightarrow> 'c pool_node" where
  "PoolSessionMgr_AddSession a n = n\<lparr>pn_addSessQueue := lq_add a (pn_addSessQueue n)\<rparr>"

definition PoolSessionMgr_AddQueuedPlayer :: "nat \<Rightarrow> 'c pool_node \<Rightarrow> 'c pool_node" where
  "PoolSessionMgr_AddQueuedPlayer a n = n\<lparr>pn_QueuedPlayer := pn_QueuedPlayer n @ [a]\<rparr>"

definition PoolSessionMgr_RemoveQueuedPlayer :: "nat \<Rightarrow> 'c pool_node \<Rightarrow> bool \<times> 'c pool_node" where
  "PoolSessionMgr_RemoveQueuedPlayer a n =
     (let sessions = PoolSessionMgr_GetActiveSessionCount n;
          found = (a \<in> set (pn_QueuedPlayer n));
          queue = remove1 a (pn_QueuedPlayer n);
          sessions = (if \<not> found \<and> sessions \<noteq> 0 then sessions - 1 else sessions);
          queue = (if (pn_playerLimit n = 0 \<or> sessions < pn_playerLimit n) \<and> queue \<noteq> [] then tl queue else queue)
      in (found, n\<lparr>pn_QueuedPlayer := queue\<rparr>))"

definition PoolSessionMgr_UpdateMaxSessionCounters :: "'c pool_node \<Rightarrow> 'c pool_node" where
  "PoolSessionMgr_UpdateMaxSessionCounters n =
     n\<lparr>pn_maxActiveSessionCount := max (pn_maxActiveSessionCount n)
         (word_of_nat (length (pn_sessions n)) - word_of_nat (length (pn_QueuedPlayer n))),
       pn_maxQueuedSessionCount := max (pn_maxQueuedSessionCount n)
         (word_of_nat (length (pn_QueuedPlayer n)))\<rparr>"

definition link_serverId :: "'c pool_link \<Rightarrow> u32" where
  "link_serverId l = (case pl_session l of None \<Rightarrow> 0 | Some ss \<Rightarrow> pss_serverId ss)"

text \<open>\<open>RemoveSession\<close> does nothing and answers true.\<close>

definition PoolSessionMgr_AddSession_now ::
  "('c \<Rightarrow> bytes \<Rightarrow> bytes \<times> 'c) \<Rightarrow> (bytes list \<Rightarrow> bool) \<Rightarrow> nat \<Rightarrow> 'c pool_node \<Rightarrow> 'c pool_node" where
  "PoolSessionMgr_AddSession_now upd q_full s n =
     (let sid = link_serverId (pn_link n s);
          n1 = (case map_of (pn_sessions n) sid of
                  None \<Rightarrow> n
                | Some old \<Rightarrow> upd_link old PoolSession_delete (snd (PoolSessionMgr_RemoveQueuedPlayer old n)));
          n2 = n1\<lparr>pn_sessions := um_set sid s (pn_sessions n1)\<rparr>;
          n3 = upd_link s (PoolSession_SendPacket upd q_full (mk_pkt SMSG_AUTH_RESPONSE [U16 (ucast AUTH_OK)])) n2
      in PoolSessionMgr_UpdateMaxSessionCounters n3)"

definition PoolSessionMgr_GetQueuePos :: "nat \<Rightarrow> 'c pool_node \<Rightarrow> nat" where
  "PoolSessionMgr_GetQueuePos a n =
     (if a \<in> set (pn_QueuedPlayer n) then Suc (length (takeWhile (\<lambda>x. x \<noteq> a) (pn_QueuedPlayer n))) else 0)"

definition pool_update_one ::
  "('c \<Rightarrow> bytes \<Rightarrow> bytes \<times> 'c) \<Rightarrow> (bytes list \<Rightarrow> bool) \<Rightarrow> u32 \<times> nat \<Rightarrow> 'c pool_node \<Rightarrow> 'c pool_node" where
  "pool_update_one upd q_full e n =
     (case PoolSession_UpdateServerIO upd q_full (pn_world n, pn_link n (snd e)) of
        (alive, w, l) \<Rightarrow>
         (let n1 = n\<lparr>pn_world := w, pn_link := (pn_link n)(snd e := l)\<rparr>
          in if alive then n1
             else upd_link (snd e) PoolSession_delete
               ((snd (PoolSessionMgr_RemoveQueuedPlayer (snd e) n1))
                 \<lparr>pn_sessions := um_erase (fst e) (pn_sessions n1)\<rparr>)))"

definition PoolSessionMgr_Update ::
  "('c \<Rightarrow> bytes \<Rightarrow> bytes \<times> 'c) \<Rightarrow> (bytes list \<Rightarrow> bool) \<Rightarrow> 'c pool_node \<Rightarrow> 'c pool_node" where
  "PoolSessionMgr_Update upd q_full n =
     (let n1 = fold (PoolSessionMgr_AddSession_now upd q_full) (lq_queue (pn_addSessQueue n))
                 (n\<lparr>pn_addSessQueue := (pn_addSessQueue n)\<lparr>lq_queue := []\<rparr>\<rparr>)
      in fold (pool_update_one upd q_full) (pn_sessions n1) n1)"

end
