(* ===== verification/ControlLink.thy ===== *)
theory ControlLink
  imports Routing PoolNode
begin

text \<open>
  The proxy's half of the cluster protocol: \<open>shade/Server/Control/ControlSession.cpp\<close>,
  \<open>ControlSessionRoutines.cpp\<close> and \<open>ControlSessionMgr.cpp\<close>. A control session keeps the link to
  one node alive, authenticates, hands out the identifier ranges and settings and records the
  identifiers the node reports. Its state is threaded together with the routing helper's.
  \<open>conn\<close> is what a connection attempt yields; \<open>None\<close> as a result is a dereferenced null.
\<close>

section \<open>State\<close>

record 'c control_session =
  cs_socket :: "'c sock option"
  cs_reconnect_timer :: u32
  cs_flag_reconnect :: bool
  cs_flag_authed :: bool
  cs_nodeId :: u32
  cs_nodeType :: u8

text \<open>What the session reads of the proxy: its identifier counters, settings and realm name.\<close>

record proxy_world =
  pw_hiItemGuid :: u32
  pw_mailid :: u32
  pw_hiCorpseGuid :: u32
  pw_rates :: "string \<Rightarrow> u32"
  pw_ints :: "string \<Rightarrow> u32"
  pw_realm_name :: "bytes option"
  pw_junk_node :: NodeList

type_synonym 'c control_state = "RoutingHelper \<times> 'c control_session"

section \<open>Connection\<close>

definition ControlSession_new :: "'c sock option \<Rightarrow> 'c control_session \<Rightarrow> u32 \<Rightarrow> u8 \<Rightarrow> 'c control_session" where
  "ControlSession_new conn junk NodeID NodeType =
     (case conn of
        Some socket \<Rightarrow> junk\<lparr>cs_nodeId := NodeID, cs_nodeType := NodeType, cs_socket := Some socket,
            cs_flag_reconnect := False\<rparr>
      | None \<Rightarrow> junk\<lparr>cs_nodeId := NodeID, cs_nodeType := NodeType, cs_socket := None,
            cs_reconnect_timer := 2000, cs_flag_reconnect := True\<rparr>)"

text \<open>\<open>close()\<close> of the socket ends in \<open>handle_close\<close>, which marks it closing.\<close>

definition ControlSession_CloseSocket :: "'c control_session \<Rightarrow> 'c control_session" where
  "ControlSession_CloseSocket cs = cs\<lparr>cs_socket := map_option (\<lambda>s. s\<lparr>sk_closing := True\<rparr>) (cs_socket cs)\<rparr>"

definition ControlSession_delete :: "'c control_session \<Rightarrow> 'c control_session" where
  "ControlSession_delete cs = cs\<lparr>cs_flag_reconnect := False, cs_socket := None\<rparr>"

definition ControlSession_SendPacket ::
  "('c \<Rightarrow> bytes \<Rightarrow> bytes \<times> 'c) \<Rightarrow> (bytes list \<Rightarrow> bool) \<Rightarrow> bool \<Rightarrow> wpacket \<Rightarrow>
   'c control_session \<Rightarrow> 'c control_session" where
  "ControlSession_SendPacket upd q_full wake p cs =
     (case cs_socket cs of
        None \<Rightarrow> cs
      | Some s \<Rightarrow>
          (case Socket_SendPacket (ControlSocket_sendPacket upd q_full) wake p s of
            (r, s1) \<Rightarrow> (if r = -1 then ControlSession_CloseSocket (cs\<lparr>cs_socket := Some s1\<rparr>)
                       else cs\<lparr>cs_socket := Some s1\<rparr>)))"

section \<open>Handlers\<close>

text \<open>
  \<open>if (uint32 g = last) packet << g; else { g = hi + _nodeId - 1; SetLastGUID; packet << g; }\<close>
\<close>

definition last_or_start ::
  "u32 \<Rightarrow> u32 \<Rightarrow> u32 \<Rightarrow> u32 \<Rightarrow> RoutingHelper \<Rightarrow> u32 \<times> RoutingHelper" where
  "last_or_start lst hi nodeId typ r =
     (if lst \<noteq> 0 then (lst, r)
      else (let g = hi + (nodeId - 1) in (g, SetLastGUID nodeId typ g r)))"

text \<open>The order in which the proxy streams its rates and its integer settings.\<close>

definition send_rate_order :: "string list" where
  "send_rate_order = [
    ''RATE_HEALTH'', ''RATE_POWER_MANA'', ''RATE_POWER_RAGE_INCOME'', ''RATE_POWER_RAGE_LOSS'',
     ''RATE_POWER_RUNICPOWER_INCOME'', ''RATE_POWER_RUNICPOWER_LOSS'', ''RATE_POWER_FOCUS'',
     ''RATE_POWER_ENERGY'', ''RATE_SKILL_DISCOVERY'', ''RATE_DROP_ITEM_POOR'',
     ''RATE_DROP_ITEM_NORMAL'', ''RATE_DROP_ITEM_UNCOMMON'', ''RATE_DROP_ITEM_RARE'',
     ''RATE_DROP_ITEM_EPIC'', ''RATE_DROP_ITEM_LEGENDARY'', ''RATE_DROP_ITEM_ARTIFACT'',
     ''RATE_DROP_ITEM_REFERENCED'', ''RATE_DROP_ITEM_REFERENCED_AMOUNT'', ''RATE_DROP_MONEY'',
     ''RATE_XP_KILL'', ''RATE_XP_QUEST'', ''RATE_XP_EXPLORE'', ''RATE_REPAIRCOST'',
     ''RATE_REST_INGAME'', ''RATE_REST_OFFLINE_IN_TAVERN_OR_CITY'',
     ''RATE_REST_OFFLINE_IN_WILDERNESS'', ''RATE_DAMAGE_FALL'', ''RATE_AUCTION_TIME'',
     ''RATE_AUCTION_DEPOSIT'', ''RATE_AUCTION_CUT'', ''RATE_HONOR'', ''RATE_MINING_AMOUNT'',
     ''RATE_MINING_NEXT'', ''RATE_TALENT'', ''RATE_REPUTATION_GAIN'',
     ''RATE_REPUTATION_LOWLEVEL_KILL'', ''RATE_REPUTATION_LOWLEVEL_QUEST'',
     ''RATE_REPUTATION_RECRUIT_A_FRIEND_BONUS'']"

definition send_int_order :: "string list" where
  "send_int_order = [
    ''CONFIG_SKILL_GAIN_CRAFTING'', ''CONFIG_SKILL_GAIN_DEFENSE'',
     ''CONFIG_SKILL_GAIN_GATHERING'', ''CONFIG_SKILL_GAIN_WEAPON'',
     ''CONFIG_SKILL_CHANCE_ORANGE'', ''CONFIG_SKILL_CHANCE_YELLOW'',
     ''CONFIG_SKILL_CHANCE_GREEN'', ''CONFIG_SKILL_CHANCE_GREY'',
     ''CONFIG_SKILL_CHANCE_MINING_STEPS'', ''CONFIG_SKILL_CHANCE_SKINNING_STEPS'']"

definition SendInitAuthedNode ::
  "('c \<Rightarrow> bytes \<Rightarrow> bytes \<times> 'c) \<Rightarrow> (bytes list \<Rightarrow> bool) \<Rightarrow> bool \<Rightarrow> proxy_world \<Rightarrow>
   'c control_state \<Rightarrow> 'c control_state" where
  "SendInitAuthedNode upd q_full wake pw st =
     (case st of (r, cs) \<Rightarrow>
      (let nid = cs_nodeId cs;
           count = GetNodeCount r;
           (item, r1) = last_or_start (nl_LastItemGUID (GetNodeConnectionData (pw_junk_node pw) nid r))
                          (pw_hiItemGuid pw) nid ENTITYID_ITEM r;
           (mail, r2) = last_or_start (nl_LastMailGUID (GetNodeConnectionData (pw_junk_node pw) nid r1))
                          (pw_mailid pw) nid ENTITYID_MAIL r1;
           (corpse, r3) = last_or_start (nl_LastCorpseID (GetNodeConnectionData (pw_junk_node pw) nid r2))
                          (pw_hiCorpseGuid pw) nid ENTITYID_CORPSE r2;
           packet = mk_pkt LOGON_INIT_NODE
             ([U32 count, U32 item, U32 mail, U32 nid, U32 corpse] @
              map (\<lambda>k. Flt (pw_rates pw k)) send_rate_order @
              map (\<lambda>k. U32 (pw_ints pw k)) send_int_order)
       in (r3, ControlSession_SendPacket upd q_full wake packet cs)))"

definition Control_Handle_SMSG_AUTH_RESPONSE ::
  "('c \<Rightarrow> bytes \<Rightarrow> bytes \<times> 'c) \<Rightarrow> (bytes list \<Rightarrow> bool) \<Rightarrow> bool \<Rightarrow> proxy_world \<Rightarrow> wpacket \<Rightarrow>
   'c control_state \<Rightarrow> 'c control_state" where
  "Control_Handle_SMSG_AUTH_RESPONSE upd q_full wake pw p st =
     (case bb_shr TU8 (buf p) of
        Inr (U8 code, _) \<Rightarrow>
          (if code = AUTH_OK then
             SendInitAuthedNode upd q_full wake pw (fst st, (snd st)\<lparr>cs_flag_authed := True\<rparr>)
           else (fst st, ControlSession_CloseSocket (snd st)))
      | _ \<Rightarrow> st)"

definition Handle_NODE_INIT_ACK :: "wpacket \<Rightarrow> 'c control_state \<Rightarrow> 'c control_state" where
  "Handle_NODE_INIT_ACK p st =
     (case bb_shr TU8 (buf p) of
        Inr (U8 ack_code, _) \<Rightarrow>
          (if ack_code = NODE_INIT_ACK_OK then (SetNodeOnline (cs_nodeId (snd st)) (fst st), snd st)
           else (fst st, ControlSession_CloseSocket (snd st)))
      | _ \<Rightarrow> st)"

definition Handle_NODE_SYNC_DATA :: "wpacket \<Rightarrow> 'c control_state \<Rightarrow> 'c control_state" where
  "Handle_NODE_SYNC_DATA p st =
     (case bb_shr TU32 (buf p) of
        Inr (U32 cmd, b1) \<Rightarrow>
          (if cmd = CL_DEF_GUID_SYNC then
             (case bb_shr_all [TU32, TU32] b1 of
                Inr ([U32 Type, U32 GUID], _) \<Rightarrow> (SetLastGUID (cs_nodeId (snd st)) Type GUID (fst st), snd st)
              | _ \<Rightarrow> st)
           else st)
      | _ \<Rightarrow> st)"

definition Control_Handle_SMSG_AUTH_CHALLENGE ::
  "('c \<Rightarrow> bytes \<Rightarrow> bytes \<times> 'c) \<Rightarrow> (bytes list \<Rightarrow> bool) \<Rightarrow> bool \<Rightarrow> proxy_world \<Rightarrow>
   'c control_state \<Rightarrow> 'c control_state option" where
  "Control_Handle_SMSG_AUTH_CHALLENGE upd q_full wake pw st =
     (case pw_realm_name pw of
        None \<Rightarrow> None
      | Some nam \<Rightarrow> Some (fst st, ControlSession_SendPacket upd q_full wake
            (mk_pkt LOGON_AUTH_MASTER [Str nam]) (snd st)))"

definition ControlSession_HandlePacket ::
  "('c \<Rightarrow> bytes \<Rightarrow> bytes \<times> 'c) \<Rightarrow> (bytes list \<Rightarrow> bool) \<Rightarrow> bool \<Rightarrow> proxy_world \<Rightarrow> wpacket \<Rightarrow>
   'c control_state \<Rightarrow> 'c control_state option" where
  "ControlSession_HandlePacket upd q_full wake pw p st =
     (if NUM_MSG_TYPES \<le> unat (opcode p) then Some st
      else if opcode p = SMSG_AUTH_RESPONSE then
        Some (Control_Handle_SMSG_AUTH_RESPONSE upd q_full wake pw p st)
      else if opcode p = NODE_INIT_ACK then Some (Handle_NODE_INIT_ACK p st)
      else if opcode p = NODE_SYNC_DATA then Some (Handle_NODE_SYNC_DATA p st)
      else if opcode p = SMSG_AUTH_CHALLENGE then Control_Handle_SMSG_AUTH_CHALLENGE upd q_full wake pw st
      else Some st)"

section \<open>The loop\<close>

text \<open>\<open>while (m_Socket && GetNext(packet)) HandlePacket(packet)\<close>, with the packets left over.\<close>

fun control_io ::
  "(wpacket \<Rightarrow> 'c control_state \<Rightarrow> 'c control_state option) \<Rightarrow> wpacket list \<Rightarrow> 'c control_state \<Rightarrow>
   (wpacket list \<times> 'c control_state) option" where
  "control_io hp [] st = Some ([], st)"
| "control_io hp (p # ps) st =
     (case cs_socket (snd st) of
        None \<Rightarrow> Some (p # ps, st)
      | Some s \<Rightarrow> if sk_closing s then Some (p # ps, st)
                 else (case hp p st of None \<Rightarrow> None | Some st1 \<Rightarrow> control_io hp ps st1))"

definition set_sock :: "('c sock \<Rightarrow> 'c sock) \<Rightarrow> 'c control_state \<Rightarrow> 'c control_state" where
  "set_sock f st = (fst st, (snd st)\<lparr>cs_socket := map_option f (cs_socket (snd st))\<rparr>)"

definition UpdateControlIO ::
  "('c \<Rightarrow> bytes \<Rightarrow> bytes \<times> 'c) \<Rightarrow> (bytes list \<Rightarrow> bool) \<Rightarrow> bool \<Rightarrow> proxy_world \<Rightarrow>
   'c control_state \<Rightarrow> 'c control_state option" where
  "UpdateControlIO upd q_full wake pw st =
     (case cs_socket (snd st) of
        None \<Rightarrow> Some st
      | Some s \<Rightarrow>
          (case control_io (ControlSession_HandlePacket upd q_full wake pw) (lq_queue (sk_single s)) st of
            None \<Rightarrow> None
          | Some (rest, st1) \<Rightarrow>
             (let st2 = set_sock (\<lambda>s. s\<lparr>sk_single := (sk_single s)\<lparr>lq_queue := rest\<rparr>\<rparr>) st1
              in case control_io (ControlSession_HandlePacket upd q_full wake pw) (lq_queue (sk_multi s)) st2 of
                   None \<Rightarrow> None
                 | Some (rest2, st3) \<Rightarrow>
                     Some (set_sock (\<lambda>s. s\<lparr>sk_multi := (sk_multi s)\<lparr>lq_queue := rest2\<rparr>\<rparr>) st3))))"

text \<open>The head of \<open>Update\<close>, \<open>if (HasFlag(CTL_FLAG_NODE_RECONNECT))\<close>, and its tail, the lost link.\<close>

definition control_reconnect ::
  "'c sock option \<Rightarrow> u32 \<Rightarrow> RoutingHelper \<Rightarrow> 'c control_session \<Rightarrow> 'c control_session" where
  "control_reconnect conn diff r cs =
     (if cs_flag_reconnect cs then
        (if cs_reconnect_timer cs \<le> diff then
           (let cs0 = cs\<lparr>cs_reconnect_timer := 2000\<rparr>
            in if CheckNodeID (cs_nodeId cs) r then
                 (case conn of Some socket \<Rightarrow> cs0\<lparr>cs_socket := Some socket, cs_flag_reconnect := False\<rparr>
                  | None \<Rightarrow> cs0)
               else cs0)
         else cs\<lparr>cs_reconnect_timer := cs_reconnect_timer cs - diff\<rparr>)
      else cs)"

definition control_drop :: "'c control_state \<Rightarrow> 'c control_state" where
  "control_drop st =
     (case st of (r, cs) \<Rightarrow>
        (case cs_socket cs of
           Some s \<Rightarrow> if sk_closing s
             then (SetNodeOffline (cs_nodeId cs) r,
                   cs\<lparr>cs_socket := None, cs_reconnect_timer := 2000, cs_flag_reconnect := True\<rparr>)
             else (r, cs)
         | None \<Rightarrow> (r, cs)))"

definition ControlSession_Update ::
  "('c \<Rightarrow> bytes \<Rightarrow> bytes \<times> 'c) \<Rightarrow> (bytes list \<Rightarrow> bool) \<Rightarrow> bool \<Rightarrow> proxy_world \<Rightarrow> 'c sock option \<Rightarrow> u32 \<Rightarrow>
   'c control_state \<Rightarrow> 'c control_state option" where
  "ControlSession_Update upd q_full wake pw conn diff st =
     map_option control_drop
       (UpdateControlIO upd q_full wake pw (fst st, control_reconnect conn diff (fst st) (snd st)))"

section \<open>The manager\<close>

record 'c control_mgr =
  cm_sessions :: "(u32 \<times> 'c control_session) list"
  cm_addSessQueue :: "'c control_session locked_queue"

definition ControlSessionMgr_ServerClose :: "'c control_mgr \<Rightarrow> 'c control_mgr" where
  "ControlSessionMgr_ServerClose m = m\<lparr>cm_sessions := []\<rparr>"

definition ControlSessionMgr_AddSession_now :: "'c control_session \<Rightarrow> 'c control_mgr \<Rightarrow> 'c control_mgr" where
  "ControlSessionMgr_AddSession_now s m = m\<lparr>cm_sessions := um_set (cs_nodeId s) s (cm_sessions m)\<rparr>"

fun control_update_all ::
  "(u32 \<Rightarrow> 'c control_state \<Rightarrow> 'c control_state option) \<Rightarrow> (u32 \<times> 'c control_session) list \<Rightarrow> RoutingHelper \<Rightarrow>
   (RoutingHelper \<times> (u32 \<times> 'c control_session) list) option" where
  "control_update_all up [] r = Some (r, [])"
| "control_update_all up ((k, cs) # m) r =
     (case up k (r, cs) of
        None \<Rightarrow> None
      | Some (r1, cs1) \<Rightarrow> map_option (\<lambda>(r2, m2). (r2, (k, cs1) # m2)) (control_update_all up m r1))"

definition ControlSessionMgr_Update ::
  "('c \<Rightarrow> bytes \<Rightarrow> bytes \<times> 'c) \<Rightarrow> (bytes list \<Rightarrow> bool) \<Rightarrow> bool \<Rightarrow> proxy_world \<Rightarrow> (u32 \<Rightarrow> 'c sock option) \<Rightarrow> u32 \<Rightarrow>
   RoutingHelper \<times> 'c control_mgr \<Rightarrow> (RoutingHelper \<times> 'c control_mgr) option" where
  "ControlSessionMgr_Update upd q_full wake pw conn diff st =
     (let (r, m) = st;
          m1 = fold ControlSessionMgr_AddSession_now (lq_queue (cm_addSessQueue m))
                 (m\<lparr>cm_addSessQueue := (cm_addSessQueue m)\<lparr>lq_queue := []\<rparr>\<rparr>)
      in map_option (\<lambda>(r2, ss). (r2, m1\<lparr>cm_sessions := ss\<rparr>))
           (control_update_all (\<lambda>k. ControlSession_Update upd q_full wake pw (conn k) diff) (cm_sessions m1) r))"

definition findNodebyID :: "u32 \<Rightarrow> 'c control_mgr \<Rightarrow> 'c control_session option" where
  "findNodebyID nid m = map_of (cm_sessions m) nid"

definition SendGlobal ::
  "('c \<Rightarrow> bytes \<Rightarrow> bytes \<times> 'c) \<Rightarrow> (bytes list \<Rightarrow> bool) \<Rightarrow> bool \<Rightarrow> wpacket \<Rightarrow> 'c control_mgr \<Rightarrow> 'c control_mgr" where
  "SendGlobal upd q_full wake p m =
     m\<lparr>cm_sessions := map (\<lambda>(k, cs). (k, ControlSession_SendPacket upd q_full wake p cs)) (cm_sessions m)\<rparr>"

definition SendToNodeType ::
  "('c \<Rightarrow> bytes \<Rightarrow> bytes \<times> 'c) \<Rightarrow> (bytes list \<Rightarrow> bool) \<Rightarrow> bool \<Rightarrow> u8 \<Rightarrow> wpacket \<Rightarrow>
   'c control_mgr \<Rightarrow> 'c control_mgr" where
  "SendToNodeType upd q_full wake Type p m =
     m\<lparr>cm_sessions := map (\<lambda>(k, cs). (k, if cs_nodeType cs = Type
         then ControlSession_SendPacket upd q_full wake p cs else cs)) (cm_sessions m)\<rparr>"

definition SetupControler ::
  "(u32 \<Rightarrow> 'c sock option) \<Rightarrow> 'c control_session \<Rightarrow> RoutingHelper \<Rightarrow> 'c control_mgr \<Rightarrow> 'c control_mgr" where
  "SetupControler conn junk r m =
     m\<lparr>cm_addSessQueue := fold (\<lambda>(k, n). lq_add (ControlSession_new (conn k) junk k (nl_type n)))
         (m_nodelist r) (cm_addSessQueue m)\<rparr>"

section \<open>The control session's invariant\<close>

text \<open>
  The reconnect flag is set exactly while there is no socket; only a node's own acknowledgement
  makes it enterable, and losing the link takes it out of the routing.
\<close>

definition control_inv :: "'c control_session \<Rightarrow> bool" where
  "control_inv cs \<longleftrightarrow> (cs_flag_reconnect cs \<longleftrightarrow> cs_socket cs = None)"

lemma ControlSession_Send_frame [simp]:
  "cs_flag_reconnect (ControlSession_SendPacket upd q_full wake p cs) = cs_flag_reconnect cs"
  "cs_flag_authed (ControlSession_SendPacket upd q_full wake p cs) = cs_flag_authed cs"
  "cs_nodeId (ControlSession_SendPacket upd q_full wake p cs) = cs_nodeId cs"
  "(cs_socket (ControlSession_SendPacket upd q_full wake p cs) = None) = (cs_socket cs = None)"
  by (simp_all add: ControlSession_SendPacket_def ControlSession_CloseSocket_def split: option.splits prod.splits)

lemma ControlSession_Close_frame [simp]:
  "cs_flag_reconnect (ControlSession_CloseSocket cs) = cs_flag_reconnect cs"
  "cs_nodeId (ControlSession_CloseSocket cs) = cs_nodeId cs"
  "(cs_socket (ControlSession_CloseSocket cs) = None) = (cs_socket cs = None)"
  by (simp_all add: ControlSession_CloseSocket_def)

text \<open>The packet of \<open>SendInitAuthedNode\<close> and the routing state it leaves.\<close>

definition init_guid :: "u32 \<Rightarrow> u32 \<Rightarrow> u32 \<Rightarrow> u32" where
  "init_guid lst hi nid = (if lst \<noteq> 0 then lst else hi + (nid - 1))"

definition init_fields :: "proxy_world \<Rightarrow> u32 \<Rightarrow> RoutingHelper \<Rightarrow> field list" where
  "init_fields pw nid r =
     (let nd = GetNodeConnectionData (pw_junk_node pw) nid r
      in [U32 (GetNodeCount r), U32 (init_guid (nl_LastItemGUID nd) (pw_hiItemGuid pw) nid),
          U32 (init_guid (nl_LastMailGUID nd) (pw_mailid pw) nid), U32 nid,
          U32 (init_guid (nl_LastCorpseID nd) (pw_hiCorpseGuid pw) nid)] @
         map (\<lambda>k. Flt (pw_rates pw k)) send_rate_order @ map (\<lambda>k. U32 (pw_ints pw k)) send_int_order)"

lemma SetLastGUID_fields:
  "nl_LastMailGUID (GetNodeConnectionData junk n (SetLastGUID n ENTITYID_ITEM g r)) =
     nl_LastMailGUID (GetNodeConnectionData junk n r)"
  "nl_LastCorpseID (GetNodeConnectionData junk n (SetLastGUID n ENTITYID_ITEM g r)) =
     nl_LastCorpseID (GetNodeConnectionData junk n r)"
  "nl_LastCorpseID (GetNodeConnectionData junk n (SetLastGUID n ENTITYID_MAIL g r)) =
     nl_LastCorpseID (GetNodeConnectionData junk n r)"
  by (auto simp: GetNodeConnectionData_def SetLastGUID_def map_of_upd_node entity_ids)

lemma last_or_start_conv:
  "last_or_start lst hi nid typ r =
     (init_guid lst hi nid, if lst \<noteq> 0 then r else SetLastGUID nid typ (init_guid lst hi nid) r)"
  by (simp add: last_or_start_def init_guid_def Let_def)

lemma SendInitAuthedNode_packet:
  obtains r' where "SendInitAuthedNode upd q_full wake pw (r, cs) =
      (r', ControlSession_SendPacket upd q_full wake (mk_pkt LOGON_INIT_NODE (init_fields pw (cs_nodeId cs) r)) cs)"
    and "\<And>n. CheckNodeID n r' = CheckNodeID n r" and "\<And>n. CanEnterNodeID n r' = CanEnterNodeID n r"
    and "\<And>n. node_known n r' = node_known n r" and "GetNodeCount r' = GetNodeCount r"
proof -
  let ?nid = "cs_nodeId cs" and ?d = "\<lambda>r. GetNodeConnectionData (pw_junk_node pw) (cs_nodeId cs) r"
  define r1 where "r1 = (if nl_LastItemGUID (?d r) \<noteq> 0 then r else
      SetLastGUID ?nid ENTITYID_ITEM (init_guid (nl_LastItemGUID (?d r)) (pw_hiItemGuid pw) ?nid) r)"
  define r2 where "r2 = (if nl_LastMailGUID (?d r1) \<noteq> 0 then r1 else
      SetLastGUID ?nid ENTITYID_MAIL (init_guid (nl_LastMailGUID (?d r1)) (pw_mailid pw) ?nid) r1)"
  define r3 where "r3 = (if nl_LastCorpseID (?d r2) \<noteq> 0 then r2 else
      SetLastGUID ?nid ENTITYID_CORPSE (init_guid (nl_LastCorpseID (?d r2)) (pw_hiCorpseGuid pw) ?nid) r2)"
  have f: "nl_LastMailGUID (?d r1) = nl_LastMailGUID (?d r)" "nl_LastCorpseID (?d r2) = nl_LastCorpseID (?d r)"
    by (simp_all add: r1_def r2_def SetLastGUID_fields)
  have "SendInitAuthedNode upd q_full wake pw (r, cs) =
      (r3, ControlSession_SendPacket upd q_full wake (mk_pkt LOGON_INIT_NODE (init_fields pw (cs_nodeId cs) r)) cs)"
    unfolding SendInitAuthedNode_def Let_def last_or_start_conv prod.case
    unfolding r1_def [symmetric] unfolding r2_def [symmetric] unfolding r3_def [symmetric]
    by (simp add: init_fields_def f Let_def)
  moreover have "CheckNodeID n r3 = CheckNodeID n r" "CanEnterNodeID n r3 = CanEnterNodeID n r"
    "node_known n r3 = node_known n r" "GetNodeCount r3 = GetNodeCount r" for n
    by (simp_all add: r3_def r2_def r1_def)
  ultimately show thesis using that by blast
qed

lemma HandlePacket_frame:
  assumes "ControlSession_HandlePacket upd q_full wake pw p (r, cs) = Some (r', cs')"
  shows "cs_flag_reconnect cs' = cs_flag_reconnect cs \<and> cs_nodeId cs' = cs_nodeId cs \<and>
    (cs_socket cs' = None) = (cs_socket cs = None)"
  using assms
  by (auto simp: ControlSession_HandlePacket_def Control_Handle_SMSG_AUTH_RESPONSE_def Handle_NODE_INIT_ACK_def
      Handle_NODE_SYNC_DATA_def Control_Handle_SMSG_AUTH_CHALLENGE_def SendInitAuthedNode_def Let_def
      split: if_splits sum.splits field.splits list.splits option.splits prod.splits)

lemma auth_response_nodes:
  "CheckNodeID n (fst (Control_Handle_SMSG_AUTH_RESPONSE upd q_full wake pw p st)) = CheckNodeID n (fst st)"
  "CanEnterNodeID n (fst (Control_Handle_SMSG_AUTH_RESPONSE upd q_full wake pw p st)) = CanEnterNodeID n (fst st)"
proof -
  have init: "CheckNodeID n (fst (SendInitAuthedNode upd q_full wake pw (r, c))) = CheckNodeID n r \<and>
      CanEnterNodeID n (fst (SendInitAuthedNode upd q_full wake pw (r, c))) = CanEnterNodeID n r" for r c
    by (rule SendInitAuthedNode_packet [of upd q_full wake pw r c]) simp
  show "CheckNodeID n (fst (Control_Handle_SMSG_AUTH_RESPONSE upd q_full wake pw p st)) = CheckNodeID n (fst st)"
    "CanEnterNodeID n (fst (Control_Handle_SMSG_AUTH_RESPONSE upd q_full wake pw p st)) = CanEnterNodeID n (fst st)"
    by (auto simp: Control_Handle_SMSG_AUTH_RESPONSE_def init split: sum.splits field.splits prod.splits)
qed

lemma sync_data_nodes:
  "CheckNodeID n (fst (Handle_NODE_SYNC_DATA p st)) = CheckNodeID n (fst st)"
  "CanEnterNodeID n (fst (Handle_NODE_SYNC_DATA p st)) = CanEnterNodeID n (fst st)"
  by (auto simp: Handle_NODE_SYNC_DATA_def split: sum.splits field.splits prod.splits list.splits)

lemma init_ack_nodes:
  "CheckNodeID n (fst (Handle_NODE_INIT_ACK p st)) = CheckNodeID n (fst st)"
  "CanEnterNodeID n (fst (Handle_NODE_INIT_ACK p st)) \<longleftrightarrow> CanEnterNodeID n (fst st) \<or>
     n = cs_nodeId (snd st) \<and> node_known n (fst st) \<and> (\<exists>b. bb_shr TU8 (buf p) = Inr (U8 NODE_INIT_ACK_OK, b))"
  by (auto simp: Handle_NODE_INIT_ACK_def routing.enter_up routing.online_up
      split: sum.splits field.splits prod.splits)

lemma HandlePacket_nodes:
  assumes "ControlSession_HandlePacket upd q_full wake pw p (r, cs) = Some (r', cs')"
  shows "CheckNodeID n r' = CheckNodeID n r \<and>
    (CanEnterNodeID n r' \<longleftrightarrow> CanEnterNodeID n r \<or>
       n = cs_nodeId cs \<and> node_known n r \<and> opcode p = NODE_INIT_ACK \<and>
       (\<exists>b. bb_shr TU8 (buf p) = Inr (U8 NODE_INIT_ACK_OK, b)))"
proof -
  have op: "opcode p \<noteq> NODE_INIT_ACK" if "opcode p = SMSG_AUTH_RESPONSE \<or> opcode p = NODE_SYNC_DATA \<or>
      opcode p = SMSG_AUTH_CHALLENGE"
    using that by (auto simp: opcode_defs)
  consider (bad) "NUM_MSG_TYPES \<le> unat (opcode p)" | (resp) "opcode p = SMSG_AUTH_RESPONSE" "\<not> NUM_MSG_TYPES \<le> unat (opcode p)"
    | (ack) "opcode p = NODE_INIT_ACK" "\<not> NUM_MSG_TYPES \<le> unat (opcode p)"
    | (sync) "opcode p = NODE_SYNC_DATA" "\<not> NUM_MSG_TYPES \<le> unat (opcode p)"
    | (chal) "opcode p = SMSG_AUTH_CHALLENGE" "\<not> NUM_MSG_TYPES \<le> unat (opcode p)"
    | (other) "opcode p \<noteq> SMSG_AUTH_RESPONSE" "opcode p \<noteq> NODE_INIT_ACK" "opcode p \<noteq> NODE_SYNC_DATA"
        "opcode p \<noteq> SMSG_AUTH_CHALLENGE" "\<not> NUM_MSG_TYPES \<le> unat (opcode p)" by blast
  then show ?thesis
  proof cases
    case bad
    then have "opcode p \<noteq> NODE_INIT_ACK" by (auto simp: NUM_MSG_TYPES_def NODE_INIT_ACK_def)
    with bad assms show ?thesis by (auto simp: ControlSession_HandlePacket_def)
  next
    case resp
    with assms op auth_response_nodes [of n upd q_full wake pw p "(r, cs)"] show ?thesis
      by (auto simp: ControlSession_HandlePacket_def)
  next
    case ack
    with assms init_ack_nodes [of n p "(r, cs)"] show ?thesis
      by (auto simp: ControlSession_HandlePacket_def opcode_defs)
  next
    case sync
    with assms op sync_data_nodes [of n p "(r, cs)"] show ?thesis
      by (auto simp: ControlSession_HandlePacket_def opcode_defs)
  next
    case chal
    with assms op show ?thesis
      by (auto simp: ControlSession_HandlePacket_def opcode_defs Control_Handle_SMSG_AUTH_CHALLENGE_def
          split: option.splits)
  next
    case other
    with assms show ?thesis by (simp add: ControlSession_HandlePacket_def)
  qed
qed

text \<open>
  C6: A packet from a node makes a node enterable only if it is that node's initialisation
  acknowledgement with the success code; no packet changes which nodes count as online, and no
  packet takes away the permission to enter a node.
\<close>

theorem only_ack_opens_node:
  assumes "ControlSession_HandlePacket upd q_full wake pw p (r, cs) = Some (r', cs')"
  shows "CheckNodeID n r' = CheckNodeID n r \<and>
    (CanEnterNodeID n r' \<longleftrightarrow> CanEnterNodeID n r \<or>
       n = cs_nodeId cs \<and> node_known n r \<and> opcode p = NODE_INIT_ACK \<and>
       (\<exists>b. bb_shr TU8 (buf p) = Inr (U8 NODE_INIT_ACK_OK, b)))"
  using assms by (rule HandlePacket_nodes)

text \<open>A node the proxy waits for, and its session with a fresh socket.\<close>

definition control_example :: "unit control_session" where
  "control_example = \<lparr>cs_socket = Some (sock_fresh () Flexi_ClientPktHeader_sizeof), cs_reconnect_timer = 2000,
     cs_flag_reconnect = False, cs_flag_authed = True, cs_nodeId = 1, cs_nodeType = 1\<rparr>"

definition proxy_example :: proxy_world where
  "proxy_example = \<lparr>pw_hiItemGuid = 100, pw_mailid = 200, pw_hiCorpseGuid = 300, pw_rates = (\<lambda>_. 0x3F800000),
     pw_ints = (\<lambda>_. 5), pw_realm_name = Some [0x48], pw_junk_node = snd (m_nodelist routing_example ! 0)\<rparr>"

theorem only_ack_opens_node_witness:
  "\<exists>st. ControlSession_HandlePacket (\<lambda>c b. (b, c)) (\<lambda>_. False) False proxy_example
        (mk_pkt NODE_INIT_ACK [U8 NODE_INIT_ACK_OK]) (routing_example, control_example) = Some st \<and>
     CanEnterNodeID 1 (fst st) \<and> \<not> CanEnterNodeID 1 routing_example"
proof -
  let ?p = "mk_pkt NODE_INIT_ACK [U8 NODE_INIT_ACK_OK]"
  obtain st where st: "ControlSession_HandlePacket (\<lambda>c b. (b, c)) (\<lambda>_. False) False proxy_example ?p
      (routing_example, control_example) = Some st"
    by (simp add: ControlSession_HandlePacket_def opcode_defs NUM_MSG_TYPES_def)
  have "node_known 1 routing_example" "\<not> CanEnterNodeID 1 routing_example"
    by (simp_all add: node_known_def routing_example_def Let_def CanEnterNodeID_def)
  moreover have "\<exists>b. bb_shr TU8 (buf ?p) = Inr (U8 NODE_INIT_ACK_OK, b)"
    using reads_one [OF reads_mk_pkt [of NODE_INIT_ACK "[U8 NODE_INIT_ACK_OK]"]] by simp blast
  ultimately show ?thesis
    using st only_ack_opens_node [of "\<lambda>c b. (b, c)" "\<lambda>_. False" False proxy_example ?p routing_example control_example
        "fst st" "snd st" 1]
    by (simp add: control_example_def)
qed

section \<open>One update of a session\<close>

lemma control_io_inv:
  assumes "control_io hp ps st = Some (rest, st')" and "Q st"
    and "\<And>p s s'. hp p s = Some s' \<Longrightarrow> Q s \<Longrightarrow> Q s'"
  shows "Q st'"
  using assms
proof (induction hp ps st arbitrary: rest st' rule: control_io.induct)
  case (2 hp p ps st)
  from 2(2) consider (stop) "st' = st"
    | (step) s st1 where "cs_socket (snd st) = Some s" "\<not> sk_closing s" "hp p st = Some st1"
        "control_io hp ps st1 = Some (rest, st')"
    by (auto split: option.splits if_splits)
  then show ?case
  proof cases
    case step
    from 2(4) [OF step(3) 2(3)] have "Q st1" .
    from 2(1) [OF step(1-3) step(4) this 2(4)] show ?thesis .
  qed (use 2(3) in simp)
qed simp

definition same_link :: "'c control_state \<Rightarrow> 'c control_state \<Rightarrow> bool" where
  "same_link st st' \<longleftrightarrow>
     cs_flag_reconnect (snd st') = cs_flag_reconnect (snd st) \<and> cs_nodeId (snd st') = cs_nodeId (snd st) \<and>
     (cs_socket (snd st') = None) = (cs_socket (snd st) = None) \<and>
     (\<forall>n. CheckNodeID n (fst st') = CheckNodeID n (fst st)) \<and>
     (\<forall>n. n \<noteq> cs_nodeId (snd st) \<longrightarrow> CanEnterNodeID n (fst st') = CanEnterNodeID n (fst st))"

lemma same_link_trans: "same_link a b \<Longrightarrow> same_link b c \<Longrightarrow> same_link a c"
  by (simp add: same_link_def)

lemma same_link_set_sock [simp]: "same_link a (set_sock f b) = same_link a b"
  by (simp add: same_link_def set_sock_def)

lemma HandlePacket_same_link:
  "ControlSession_HandlePacket upd q_full wake pw p st = Some st' \<Longrightarrow> same_link st st'"
proof -
  assume a: "ControlSession_HandlePacket upd q_full wake pw p st = Some st'"
  then have a': "ControlSession_HandlePacket upd q_full wake pw p (fst st, snd st) = Some (fst st', snd st')"
    by simp
  show ?thesis
    using HandlePacket_frame [OF a'] HandlePacket_nodes [OF a'] by (auto simp: same_link_def)
qed

lemma UpdateControlIO_same_link:
  assumes "UpdateControlIO upd q_full wake pw st = Some st'"
  shows "same_link st st'"
proof (cases "cs_socket (snd st)")
  case None
  with assms show ?thesis by (simp add: UpdateControlIO_def same_link_def)
next
  case (Some s)
  let ?hp = "ControlSession_HandlePacket upd q_full wake pw"
  from assms Some obtain rest st1 rest2 st3 where
    1: "control_io ?hp (lq_queue (sk_single s)) st = Some (rest, st1)" and
    2: "control_io ?hp (lq_queue (sk_multi s))
         (set_sock (\<lambda>s. s\<lparr>sk_single := (sk_single s)\<lparr>lq_queue := rest\<rparr>\<rparr>) st1) = Some (rest2, st3)" and
    3: "st' = set_sock (\<lambda>s. s\<lparr>sk_multi := (sk_multi s)\<lparr>lq_queue := rest2\<rparr>\<rparr>) st3"
    by (auto simp: UpdateControlIO_def Let_def split: option.splits prod.splits)
  have step: "\<And>p s s'. ?hp p s = Some s' \<Longrightarrow> same_link st s \<Longrightarrow> same_link st s'"
    by (blast intro: same_link_trans HandlePacket_same_link)
  have "same_link st st1"
    by (rule control_io_inv [OF 1, where Q = "same_link st"]) (simp add: same_link_def, erule (1) step)
  then have "same_link st st3"
    by (intro control_io_inv [OF 2, where Q = "same_link st"]) (simp, erule (1) step)
  then show ?thesis by (simp add: 3)
qed

text \<open>
  C14: One update of a control session keeps its invariant (it is reconnecting exactly while it
  has no socket) and its node, leaves no closing socket behind, and changes the status of no
  other node. When the link was lost during it, the node is offline, may not be entered and the
  session is set to reconnect after two seconds; otherwise the node's online mark is untouched.
\<close>

theorem ControlSession_Update_link:
  assumes "control_inv cs"
    and "ControlSession_Update upd q_full wake pw conn diff (r, cs) = Some (r', cs')"
  shows "control_inv cs' \<and> cs_nodeId cs' = cs_nodeId cs \<and>
    (\<forall>s. cs_socket cs' = Some s \<longrightarrow> \<not> sk_closing s) \<and>
    (\<forall>n. n \<noteq> cs_nodeId cs \<longrightarrow> CheckNodeID n r' = CheckNodeID n r \<and> CanEnterNodeID n r' = CanEnterNodeID n r) \<and>
    (\<not> cs_flag_reconnect cs \<and> cs_flag_reconnect cs' \<longrightarrow>
       \<not> CheckNodeID (cs_nodeId cs) r' \<and> \<not> CanEnterNodeID (cs_nodeId cs) r' \<and> cs_reconnect_timer cs' = 2000) \<and>
    (\<not> cs_flag_reconnect cs' \<longrightarrow> CheckNodeID (cs_nodeId cs) r' = CheckNodeID (cs_nodeId cs) r)"
proof -
  define cs1 where "cs1 = control_reconnect conn diff r cs"
  have c1: "control_inv cs1" "cs_nodeId cs1 = cs_nodeId cs" "cs_flag_reconnect cs1 \<longrightarrow> cs_flag_reconnect cs"
    using assms(1) by (auto simp: cs1_def control_reconnect_def Let_def control_inv_def split: option.splits)
  from assms(2) obtain r2 cs2 where
    io: "UpdateControlIO upd q_full wake pw (r, cs1) = Some (r2, cs2)" and
    fin: "(r', cs') = control_drop (r2, cs2)"
    by (auto simp: ControlSession_Update_def cs1_def)
  have l: "same_link (r, cs1) (r2, cs2)" using io by (rule UpdateControlIO_same_link)
  show ?thesis
  proof (cases "\<exists>s. cs_socket cs2 = Some s \<and> sk_closing s")
    case True
    with fin have "r' = SetNodeOffline (cs_nodeId cs2) r2"
      "cs' = cs2\<lparr>cs_socket := None, cs_reconnect_timer := 2000, cs_flag_reconnect := True\<rparr>"
      by (auto simp: control_drop_def)
    with l c1 show ?thesis
      by (auto simp: control_inv_def same_link_def routing.enter_down routing.online_down)
  next
    case False
    with fin have "r' = r2" "cs' = cs2" by (auto simp: control_drop_def split: option.splits if_splits)
    with l c1 False show ?thesis by (auto simp: control_inv_def same_link_def)
  qed
qed

theorem ControlSession_Update_link_witness:
  "\<exists>st. ControlSession_Update (\<lambda>c b. (b, c)) (\<lambda>_. False) False proxy_example None 10
       (SetNodeOnline 2 routing_example, ControlSession_CloseSocket (control_example\<lparr>cs_nodeId := 2\<rparr>)) = Some st \<and>
     cs_flag_reconnect (snd st) \<and> \<not> CheckNodeID 2 (fst st) \<and> CheckNodeID 2 routing_example"
proof -
  let ?cs = "ControlSession_CloseSocket (control_example\<lparr>cs_nodeId := 2\<rparr>)"
  have i: "control_inv ?cs" "\<not> cs_flag_reconnect ?cs" "cs_nodeId ?cs = 2"
    by (simp_all add: control_inv_def control_example_def ControlSession_CloseSocket_def)
  obtain r' cs' where u: "ControlSession_Update (\<lambda>c b. (b, c)) (\<lambda>_. False) False proxy_example None 10
      (SetNodeOnline 2 routing_example, ?cs) = Some (r', cs')" "cs_flag_reconnect cs'"
    by (simp add: ControlSession_Update_def control_reconnect_def control_drop_def UpdateControlIO_def control_example_def
        ControlSession_CloseSocket_def sock_fresh_def set_sock_def lq_new_def)
  show ?thesis
    using ControlSession_Update_link [OF i(1) u(1)] u i
    by (auto simp: routing_example_def Let_def CheckNodeID_def)
qed

end
