(* ===== verification/ClusterLogin.thy ===== *)
theory ClusterLogin
  imports ClusterSync
begin

text \<open>
  The login of the proxy at a node from the connection on, with both ends and the bytes between them: the
  node's challenge when the socket opens (\<open>PoolSocket.open\<close>), the proxy's answer with its realm name, the
  node's lookup of the name and its session (\<open>PoolSocket::HandleAuthSession\<close>, \<open>PoolSessionMgr::AddSession_\<close>),
  the initialisation and its acknowledgement. Nothing is handed from one end to the other but the bytes that
  the sockets write; both sockets are run by their input and output events and both sessions by their updates.
\<close>

section \<open>One exchange\<close>

text \<open>
  The socket at \<open>a\<close> opens; it writes all it has to; it reads the pieces of a stream, and a login that succeeds
  hands the new session to the manager (the last lines of \<open>HandleAuthSession\<close>). \<open>None\<close>: the connection breaks.
\<close>

definition node_opens ::
  "('d \<Rightarrow> bytes \<Rightarrow> bytes \<times> 'd) \<Rightarrow> (bytes list \<Rightarrow> bool) \<Rightarrow> bytes \<Rightarrow> bytes \<Rightarrow> nat \<Rightarrow> 'd pool_node \<Rightarrow> 'd pool_node option" where
  "node_opens upd q_full seed1 seed2 a n =
     (case PoolSocket_open upd q_full seed1 seed2 (pn_link n a) of
        (r, l) \<Rightarrow> if r = -1 then None else Some (n\<lparr>pn_link := (pn_link n)(a := l)\<rparr>))"

definition node_writes :: "(bytes list \<Rightarrow> bool) \<Rightarrow> nat \<Rightarrow> 'd pool_node \<Rightarrow> ('d pool_node \<times> bytes) option" where
  "node_writes q_full a n =
     (case PoolSocket_handle_output q_full True (Sent (length (mb_unread (sk_outBuffer (pn_link n a))))) SendWouldBlock
            (pn_link n a) of
        (i, l, bs) \<Rightarrow> if i = -1 then None else Some (n\<lparr>pn_link := (pn_link n)(a := l)\<rparr>, bs))"

definition node_reads ::
  "('d \<Rightarrow> bytes \<Rightarrow> bytes \<times> 'd) \<Rightarrow> (bytes list \<Rightarrow> bool) \<Rightarrow> (bytes \<Rightarrow> u32 option) \<Rightarrow> nat \<Rightarrow> nat \<Rightarrow> bytes list \<Rightarrow>
   'd pool_node \<Rightarrow> 'd pool_node option" where
  "node_reads upd q_full db now a chunks n =
     (case input_chunks (PoolSocket_handle_input_header upd) (PoolSocket_ProcessIncoming upd q_full db now) chunks
            (pn_link n a) of
        Some (None, l) \<Rightarrow>
         (let n1 = n\<lparr>pn_link := (pn_link n)(a := l)\<rparr>
          in Some (if pl_m_Session l \<and> \<not> pl_m_Session (pn_link n a) then PoolSessionMgr_AddSession a n1 else n1))
      | _ \<Rightarrow> None)"

definition proxy_writes :: "(bytes list \<Rightarrow> bool) \<Rightarrow> 'c control_state \<Rightarrow> ('c control_state \<times> bytes) option" where
  "proxy_writes q_full st =
     (case cs_socket (snd st) of
        None \<Rightarrow> None
      | Some s \<Rightarrow>
          (case handle_output q_full True (Sent (length (mb_unread (sk_outBuffer s)))) SendWouldBlock s of
             (i, s1, bs) \<Rightarrow> if i = -1 then None else Some (set_sock (\<lambda>_. s1) st, bs)))"

definition proxy_reads ::
  "('c \<Rightarrow> bytes \<Rightarrow> bytes \<times> 'c) \<Rightarrow> bytes list \<Rightarrow> 'c control_state \<Rightarrow> 'c control_state option" where
  "proxy_reads upd chunks st =
     (case cs_socket (snd st) of
        None \<Rightarrow> None
      | Some s \<Rightarrow>
          (case input_chunks (ControlSocket_handleInputHeader upd) ControlSocket_processIncoming chunks s of
             Some (None, s1) \<Rightarrow> Some (set_sock (\<lambda>_. s1) st)
           | _ \<Rightarrow> None))"

text \<open>
  What both ends share of the surroundings: the ciphers and queue limits of the sockets, the proxy's
  settings, the node's database and clock, the time between two updates, and how the network cuts a stream.
\<close>

record ('c, 'd) surroundings =
  su_upd :: "'c \<Rightarrow> bytes \<Rightarrow> bytes \<times> 'c"
  su_full :: "bytes list \<Rightarrow> bool"
  su_node_upd :: "'d \<Rightarrow> bytes \<Rightarrow> bytes \<times> 'd"
  su_node_full :: "bytes list \<Rightarrow> bool"
  su_world :: proxy_world
  su_db :: "bytes \<Rightarrow> u32 option"
  su_now :: nat
  su_diff :: u32
  su_cut :: "bytes \<Rightarrow> bytes list"

text \<open>
  The turn of the proxy: it reads, its control session is updated, its socket writes. The turn of the node:
  its socket reads, its manager of sessions is updated. One exchange: what the node has to say reaches the
  proxy, and what the proxy makes of it reaches the node.
\<close>

definition proxy_turn :: "('c, 'd) surroundings \<Rightarrow> bytes \<Rightarrow> 'c control_state \<Rightarrow> ('c control_state \<times> bytes) option" where
  "proxy_turn su bs st =
     Option.bind (proxy_reads (su_upd su) (su_cut su bs) st) (\<lambda>st1.
     Option.bind (ControlSession_Update (su_upd su) (su_full su) True (su_world su) None (su_diff su) st1)
       (proxy_writes (su_full su)))"

definition node_turn :: "('c, 'd) surroundings \<Rightarrow> nat \<Rightarrow> bytes \<Rightarrow> 'd pool_node \<Rightarrow> 'd pool_node option" where
  "node_turn su a bs n =
     map_option (PoolSessionMgr_Update (su_node_upd su) (su_node_full su))
       (node_reads (su_node_upd su) (su_node_full su) (su_db su) (su_now su) a (su_cut su bs) n)"

definition cluster_round ::
  "('c, 'd) surroundings \<Rightarrow> nat \<Rightarrow> 'c control_state \<times> 'd pool_node \<Rightarrow> ('c control_state \<times> 'd pool_node) option" where
  "cluster_round su a x =
     Option.bind (node_writes (su_node_full su) a (snd x)) (\<lambda>(n1, bs).
     Option.bind (proxy_turn su bs (fst x)) (\<lambda>(st1, bs').
     map_option (Pair st1) (node_turn su a bs' n1)))"

fun cluster_rounds ::
  "('c, 'd) surroundings \<Rightarrow> nat \<Rightarrow> nat \<Rightarrow> 'c control_state \<times> 'd pool_node \<Rightarrow> ('c control_state \<times> 'd pool_node) option" where
  "cluster_rounds su a 0 x = Some x"
| "cluster_rounds su a (Suc k) x = Option.bind (cluster_round su a x) (cluster_rounds su a k)"

text \<open>
  The login: the update in which a reconnecting session gets its socket, the opening of the socket on
  the node, and three exchanges.
\<close>

definition cluster_login ::
  "('c, 'd) surroundings \<Rightarrow> 'c \<Rightarrow> bytes \<Rightarrow> bytes \<Rightarrow> nat \<Rightarrow> 'c control_state \<Rightarrow> 'd pool_node \<Rightarrow>
   ('c control_state \<times> 'd pool_node) option" where
  "cluster_login su c seed1 seed2 a st n =
     Option.bind (ControlSession_Update (su_upd su) (su_full su) True (su_world su)
                    (Some (sock_fresh c Flexi_ClientPktHeader_sizeof)) (su_diff su) st) (\<lambda>st1.
     Option.bind (node_opens (su_node_upd su) (su_node_full su) seed1 seed2 a n) (\<lambda>n1.
     cluster_rounds su a 3 (st1, n1)))"

section \<open>A link at rest\<close>

text \<open>Between two exchanges a socket has read all its input, and has at most the bytes \<open>bs\<close> to write.\<close>

definition writes_next :: "bytes \<Rightarrow> ('c, 'z) sock_scheme \<Rightarrow> bool" where
  "writes_next bs s \<longleftrightarrow> \<not> crypt_initialized (sk_crypt s) \<and> \<not> sk_closing s \<and>
     sk_outBuffer s = \<lparr>mb_cap = 65536, mb_rd = 0, mb_data = bs\<rparr> \<and> sk_msg_queue s = []"

definition at_rest :: "bytes \<Rightarrow> ('c, 'z) sock_scheme \<Rightarrow> bool" where
  "at_rest bs s \<longleftrightarrow> writes_next bs s \<and> sock_idle Flexi_ClientPktHeader_sizeof s \<and>
     lq_queue (sk_single s) = [] \<and> lq_queue (sk_multi s) = []"

abbreviation with_out :: "bytes \<Rightarrow> ('c, 'z) sock_scheme \<Rightarrow> ('c, 'z) sock_scheme" where
  "with_out bs s \<equiv> s\<lparr>sk_outBuffer := \<lparr>mb_cap = 65536, mb_rd = 0, mb_data = bs\<rparr>\<rparr>"

definition fits_buffer :: "wpacket \<Rightarrow> bool" where
  "fits_buffer p \<longleftrightarrow> bb_size (buf p) + 6 \<le> 65536"

lemma fits_frame: "fits_buffer p \<Longrightarrow> frame_fits p"
  by (simp add: fits_buffer_def frame_fits_def)

lemma length_flexi_wire [simp]: "length (flexi_wire p) = bb_size (buf p) + 6"
  by (simp add: flexi_wire_def bb_size_def)

lemma pkt_received_mk [simp]: "pkt_received (mk_pkt op fs) = mk_pkt op fs"
  by (simp add: pkt_received_def mk_pkt_def bb_size_def)

lemma rest_fresh: "at_rest [] (sock_fresh c Flexi_ClientPktHeader_sizeof)"
  using sock_fresh_idle [of c] by (simp add: at_rest_def writes_next_def sock_fresh_def mb_new_def lq_new_def)

lemma rest_loaded: "at_rest bs s \<Longrightarrow> at_rest bs' (with_out bs' s)" "writes_next bs s \<Longrightarrow> writes_next bs' (with_out bs' s)"
  by (simp_all add: at_rest_def writes_next_def sock_idle_def sock_gathering_def)

lemma rest_same: "writes_next bs s \<Longrightarrow> with_out bs s = s"
  by (cases s) (simp add: writes_next_def)

lemma rest_put: "writes_next [] s \<Longrightarrow> fits_buffer p \<Longrightarrow> sock_put q_full (flexi_wire p) s = (0, with_out (flexi_wire p) s)"
  by (simp add: sock_put_def writes_next_def mb_space_def fits_buffer_def)

lemma rest_unkeyed: "writes_next bs x \<Longrightarrow> AuthCrypt_EncryptSend upd hdr (sk_crypt x) = (hdr, sk_crypt x)"
  by (simp add: AuthCrypt_EncryptSend_def writes_next_def)

lemma pool_sends:
  assumes "writes_next [] s" and "fits_buffer p"
  shows "PoolSocket_SendPacket upd q_full p s = (0, with_out (flexi_wire p) s)"
proof -
  have "PoolSocket_SendPacket upd q_full p s = sock_put q_full (flexi_wire p) s"
    using rest_unkeyed [OF assms(1)] assms(1) by (simp add: PoolSocket_SendPacket_def Let_def take_header flexi_wire_def writes_next_def)
  then show ?thesis using rest_put [OF assms] by simp
qed

lemma control_sends:
  assumes "cs_socket cs = Some s" and "writes_next [] s" and "fits_buffer p"
  shows "ControlSession_SendPacket upd q_full True p cs = cs\<lparr>cs_socket := Some (with_out (flexi_wire p) s)\<rparr>"
proof -
  have "ControlSocket_sendPacket upd q_full p s = sock_put q_full (flexi_wire p) s"
    using rest_unkeyed [OF assms(2)] by (simp add: ControlSocket_sendPacket_def Let_def take_header flexi_wire_def)
  then show ?thesis using rest_put [OF assms(2,3)] assms(1,2)
    by (simp add: ControlSession_SendPacket_def Socket_SendPacket_def schedule_wakeup_output_def writes_next_def)
qed

text \<open>Writing empties the buffer.\<close>

lemma rest_writes:
  assumes "writes_next bs s"
  shows "handle_output q_full True (Sent (length (mb_unread (sk_outBuffer s)))) SendWouldBlock s = (0, with_out [] s, bs)"
  using assms
  by (cases s) (auto simp: writes_next_def handle_output_def handle_output_queue_def mb_unread_def mb_reset_def cancel_wakeup_output_def Let_def)

lemma pool_writes:
  assumes "writes_next bs l"
  shows "PoolSocket_handle_output q_full True (Sent (length (mb_unread (sk_outBuffer l)))) SendWouldBlock l =
    (0, (with_out [] l)\<lparr>pl_OutActive := False\<rparr>, bs)"
  using assms
  by (cases l) (auto simp: writes_next_def PoolSocket_handle_output_def PoolSocket_handle_output_queue_def mb_unread_def
      mb_reset_def PoolSocket_cancel_wakeup_output_def with_wire_def Let_def)

text \<open>Reading a frame, however it is cut.\<close>

definition cuts :: "(bytes \<Rightarrow> bytes list) \<Rightarrow> bool" where
  "cuts pieces \<longleftrightarrow> (\<forall>bs. concat (pieces bs) = bs \<and> [] \<notin> set (pieces bs))"

lemma cuts_pieces: "cuts pieces \<Longrightarrow> list_all (\<lambda>c. c \<noteq> []) (pieces bs)" "cuts pieces \<Longrightarrow> concat (pieces bs) = bs"
  by (auto simp: cuts_def list_all_iff)

lemma cuts_Nil: "cuts pieces \<Longrightarrow> pieces [] = []"
  by (metis cuts_def concat_eq_Nil_conv list.set_intros(1) neq_Nil_conv)

lemma rest_reads:
  assumes "at_rest bs s" and "fits_buffer p" and "cuts pieces"
  shows "input_chunks (ControlSocket_handleInputHeader upd) ControlSocket_processIncoming (pieces (flexi_wire p)) s =
    Some (None, node_deliver p s)"
  using control_frame.chunks_concat [OF idle_ok cuts_pieces(1) [OF assms(3)], of s upd] node_loop_frames [of s "[p]" upd "[]"]
    assms fits_frame
  unfolding Control_is_Node by (simp add: input_loop.simps cuts_pieces(2) at_rest_def writes_next_def)

section \<open>The proxy's end\<close>

lemma node_deliver_cases:
  assumes "unat (opcode p) < NUM_MSG_TYPES"
  shows "node_deliver p s = s\<lparr>sk_multi := lq_add (pkt_received p) (sk_multi s)\<rparr> \<or>
    node_deliver p s = s\<lparr>sk_single := lq_add (pkt_received p) (sk_single s)\<rparr>"
  using assms by (simp add: node_deliver_def NodeSocket_processIncoming_def pkt_received_def)

lemma lq_emptied: "lq_queue q = [] \<Longrightarrow> q\<lparr>lq_queue := []\<rparr> = q" "lq_queue q = [] \<Longrightarrow> (lq_add x q)\<lparr>lq_queue := []\<rparr> = q"
  by (cases q, simp add: lq_add_def)+

text \<open>The turn of the proxy in which its session handles the packet that has come, and sends \<open>bs\<close>.\<close>

lemma proxy_turn_handles:
  assumes s: "at_rest [] s" "cs_socket cs = Some s" and rec: "\<not> cs_flag_reconnect cs"
    and p: "unat (opcode p) < NUM_MSG_TYPES" "fits_buffer p" "pkt_received p = p" and su: "cuts (su_cut su)"
    and hp: "ControlSession_HandlePacket (su_upd su) (su_full su) True (su_world su) p
        (r, cs\<lparr>cs_socket := Some (node_deliver p s)\<rparr>) = Some (r1, cs1)"
    and out: "cs_socket cs1 = Some (with_out bs (node_deliver p s))"
  shows "proxy_turn su (flexi_wire p) (r, cs) = Some ((r1, cs1\<lparr>cs_socket := Some s\<rparr>), bs)"
proof -
  have q: "lq_queue (sk_single s) = []" "lq_queue (sk_multi s) = []" and c: "\<not> sk_closing s"
    using s(1) by (simp_all add: at_rest_def writes_next_def)
  have w: "writes_next bs (with_out bs s)" "with_out [] s = s"
    using s(1) by (auto simp: at_rest_def intro: rest_loaded rest_same)
  have "ControlSession_Update (su_upd su) (su_full su) True (su_world su) None (su_diff su)
      (r, cs\<lparr>cs_socket := Some (node_deliver p s)\<rparr>) = Some (r1, cs1\<lparr>cs_socket := Some (with_out bs s)\<rparr>)"
    using node_deliver_cases [OF p(1), of s]
  proof
    assume d: "node_deliver p s = s\<lparr>sk_single := lq_add (pkt_received p) (sk_single s)\<rparr>"
    show ?thesis using rec hp out c q p(3)
      by (simp add: ControlSession_Update_def control_reconnect_def UpdateControlIO_def control_drop_def set_sock_def d
          lq_emptied Let_def) (simp add: lq_add_def lq_emptied set_sock_def)
  next
    assume d: "node_deliver p s = s\<lparr>sk_multi := lq_add (pkt_received p) (sk_multi s)\<rparr>"
    show ?thesis using rec hp out c q p(3)
      by (simp add: ControlSession_Update_def control_reconnect_def UpdateControlIO_def control_drop_def set_sock_def d
          lq_emptied Let_def) (simp add: lq_add_def lq_emptied set_sock_def)
  qed
  then show ?thesis
    using s(2) rest_reads [OF s(1) p(2) su, of "su_upd su"] rest_writes [OF w(1), of "su_full su"] w(2)
    by (simp add: proxy_turn_def proxy_reads_def proxy_writes_def set_sock_def)
qed

text \<open>The three packets of the node, and what the proxy makes of them.\<close>

definition challenge_pkt :: "u32 \<Rightarrow> bytes \<Rightarrow> bytes \<Rightarrow> wpacket" where
  "challenge_pkt seed seed1 seed2 = mk_pkt SMSG_AUTH_CHALLENGE ([U32 1, U32 seed] @ map U8 seed1 @ map U8 seed2)"

abbreviation login_pkt :: "bytes \<Rightarrow> wpacket" where
  "login_pkt nam \<equiv> mk_pkt LOGON_AUTH_MASTER [Str nam]"

abbreviation response_pkt :: wpacket where
  "response_pkt \<equiv> mk_pkt SMSG_AUTH_RESPONSE [U16 (ucast AUTH_OK)]"

abbreviation init_pkt :: "proxy_world \<Rightarrow> u32 \<Rightarrow> RoutingHelper \<Rightarrow> wpacket" where
  "init_pkt pw nid r \<equiv> mk_pkt LOGON_INIT_NODE (init_fields pw nid r)"

abbreviation ack_pkt :: wpacket where
  "ack_pkt \<equiv> mk_pkt NODE_INIT_ACK [U8 NODE_INIT_ACK_OK]"

lemma fits_mk: "fits_buffer (mk_pkt op fs) \<longleftrightarrow> length (fields_bytes fs) + 6 \<le> 65536"
  by (simp add: fits_buffer_def mk_pkt_def bb_size_def)

lemma length_fields:
  "length (fields_bytes (map U8 bs)) = length bs" "length (fields_bytes (map U32 xs)) = 4 * length xs"
  "length (fields_bytes (map Flt ys)) = 4 * length ys"
  by (induction bs, simp_all) (induction xs, simp_all, induction ys, simp_all)

lemma length_init_fields: "length (fields_bytes (init_fields pw nid r)) = 212"
proof -
  have "map (\<lambda>k. Flt (pw_rates pw k)) send_rate_order = map Flt (map (pw_rates pw) init_rate_order)"
    "map (\<lambda>k. U32 (pw_ints pw k)) send_int_order = map U32 (map (pw_ints pw) init_int_order)"
    by (simp_all add: orders_agree)
  then show ?thesis
    by (simp only: init_fields_def Let_def fields_bytes_append length_append length_fields length_map init_orders) simp
qed

lemma packets_fit:
  "length seed1 = 16 \<Longrightarrow> length seed2 = 16 \<Longrightarrow> fits_buffer (challenge_pkt seed seed1 seed2)"
  "length nam \<le> 255 \<Longrightarrow> fits_buffer (login_pkt nam)" "fits_buffer response_pkt" "fits_buffer (init_pkt pw nid r)" "fits_buffer ack_pkt"
  by (simp_all add: fits_mk challenge_pkt_def fields_bytes_append length_fields length_init_fields)

lemma node_opcodes:
  "unat (opcode (challenge_pkt seed seed1 seed2)) < NUM_MSG_TYPES" "unat (opcode response_pkt) < NUM_MSG_TYPES"
  "unat (opcode ack_pkt) < NUM_MSG_TYPES"
  by (simp_all add: challenge_pkt_def mk_pkt_def opcode_defs NUM_MSG_TYPES_def)

lemma challenge_handled:
  assumes "pw_realm_name pw = Some nam"
  shows "ControlSession_HandlePacket upd q_full True pw (challenge_pkt seed seed1 seed2) (r, cs) =
    Some (r, ControlSession_SendPacket upd q_full True (login_pkt nam) cs)"
  using assms node_opcodes(1) [of seed seed1 seed2]
  by (simp add: ControlSession_HandlePacket_def Control_Handle_SMSG_AUTH_CHALLENGE_def not_le challenge_pkt_def)
    (simp add: mk_pkt_def opcode_defs)

lemma response_handled:
  obtains r1 where "ControlSession_HandlePacket upd q_full True pw response_pkt (r, cs) =
      Some (r1, ControlSession_SendPacket upd q_full True (init_pkt pw (cs_nodeId cs) r) (cs\<lparr>cs_flag_authed := True\<rparr>))"
    "\<And>n. CheckNodeID n r1 = CheckNodeID n r" "\<And>n. CanEnterNodeID n r1 = CanEnterNodeID n r" "\<And>n. node_known n r1 = node_known n r"
proof -
  obtain b where b: "bb_shr TU8 (buf response_pkt) = Inr (U8 AUTH_OK, b)" by (rule auth_response_first_byte)
  obtain r1 where r1: "SendInitAuthedNode upd q_full True pw (r, cs\<lparr>cs_flag_authed := True\<rparr>) =
      (r1, ControlSession_SendPacket upd q_full True (init_pkt pw (cs_nodeId (cs\<lparr>cs_flag_authed := True\<rparr>)) r) (cs\<lparr>cs_flag_authed := True\<rparr>))"
    "\<And>n. CheckNodeID n r1 = CheckNodeID n r" "\<And>n. CanEnterNodeID n r1 = CanEnterNodeID n r" "\<And>n. node_known n r1 = node_known n r"
    by (rule SendInitAuthedNode_packet [of upd q_full True pw r "cs\<lparr>cs_flag_authed := True\<rparr>"]) blast
  have "ControlSession_HandlePacket upd q_full True pw response_pkt (r, cs) =
      Some (Control_Handle_SMSG_AUTH_RESPONSE upd q_full True pw response_pkt (r, cs))"
    using node_opcodes(2) by (simp add: ControlSession_HandlePacket_def not_le)
  then show thesis using that [of r1] r1 by (simp add: Control_Handle_SMSG_AUTH_RESPONSE_def b del: bb_shr.simps)
qed

lemma ack_handled:
  "ControlSession_HandlePacket upd q_full True pw ack_pkt (r, cs) = Some (SetNodeOnline (cs_nodeId cs) r, cs)"
proof -
  obtain b where b: "bb_shr TU8 (buf ack_pkt) = Inr (U8 NODE_INIT_ACK_OK, b)" by (rule init_ack_reads)
  have "opcode ack_pkt = NODE_INIT_ACK" "NODE_INIT_ACK \<noteq> SMSG_AUTH_RESPONSE" by (simp_all add: mk_pkt_def opcode_defs)
  then show ?thesis using node_opcodes(3)
    by (simp add: ControlSession_HandlePacket_def not_le Handle_NODE_INIT_ACK_def b del: bb_shr.simps)
qed

text \<open>The three turns of the proxy.\<close>

definition proxy_link :: "u32 \<Rightarrow> RoutingHelper \<Rightarrow> 'c control_state \<Rightarrow> bool" where
  "proxy_link nid r st \<longleftrightarrow> cs_nodeId (snd st) = nid \<and> \<not> cs_flag_reconnect (snd st) \<and>
     (\<exists>s. cs_socket (snd st) = Some s \<and> at_rest [] s) \<and> (\<forall>n. CheckNodeID n (fst st) = CheckNodeID n r)"

lemma rest_deliver: "at_rest [] s \<Longrightarrow> writes_next [] (node_deliver p s)"
  by (cases "unat (opcode p) < NUM_MSG_TYPES")
    (use node_deliver_cases [of p s] in \<open>auto simp: at_rest_def writes_next_def node_deliver_def NodeSocket_processIncoming_def pkt_received_def\<close>)

lemma login_turn:
  assumes "proxy_link nid r st" and "pw_realm_name (su_world su) = Some nam" and "length nam \<le> 255" and "cuts (su_cut su)"
    and "length seed1 = 16" and "length seed2 = 16"
  shows "\<exists>st'. proxy_turn su (flexi_wire (challenge_pkt seed seed1 seed2)) st = Some (st', flexi_wire (login_pkt nam)) \<and>
    proxy_link nid r st' \<and> fst st' = fst st"
proof -
  obtain r0 cs where st: "st = (r0, cs)" by (cases st)
  obtain s where s: "cs_socket cs = Some s" "at_rest [] s" using assms(1) by (auto simp: proxy_link_def st)
  let ?p = "challenge_pkt seed seed1 seed2" and ?cs = "cs\<lparr>cs_socket := Some (node_deliver (challenge_pkt seed seed1 seed2) s)\<rparr>"
  have "ControlSession_SendPacket (su_upd su) (su_full su) True (login_pkt nam) ?cs =
      ?cs\<lparr>cs_socket := Some (with_out (flexi_wire (login_pkt nam)) (node_deliver ?p s))\<rparr>"
    by (rule control_sends) (use rest_deliver [OF s(2)] packets_fit(2) [OF assms(3)] in simp_all)
  note h = challenge_handled [OF assms(2), of "su_upd su" "su_full su" seed seed1 seed2 r0 ?cs, unfolded this]
  have "pkt_received ?p = ?p" by (simp add: challenge_pkt_def)
  from proxy_turn_handles [OF s(2,1) _ node_opcodes(1) packets_fit(1) [OF assms(5,6)] this assms(4) h] assms(1) s
  show ?thesis by (simp add: st proxy_link_def)
qed

lemma init_turn:
  assumes "proxy_link nid r (r0, cs)" and "cuts (su_cut su)"
  shows "\<exists>st'. proxy_turn su (flexi_wire response_pkt) (r0, cs) = Some (st', flexi_wire (init_pkt (su_world su) nid r0)) \<and>
    proxy_link nid r st' \<and> cs_flag_authed (snd st') \<and>
    (\<forall>n. CanEnterNodeID n (fst st') = CanEnterNodeID n r0 \<and> node_known n (fst st') = node_known n r0)"
proof -
  obtain s where s: "cs_socket cs = Some s" "at_rest [] s" using assms(1) by (auto simp: proxy_link_def)
  let ?p = response_pkt and ?cs = "cs\<lparr>cs_socket := Some (node_deliver response_pkt s)\<rparr>"
  have n: "cs_nodeId ?cs = nid" using assms(1) by (simp add: proxy_link_def)
  obtain r1 where h: "ControlSession_HandlePacket (su_upd su) (su_full su) True (su_world su) ?p (r0, ?cs) =
      Some (r1, ControlSession_SendPacket (su_upd su) (su_full su) True (init_pkt (su_world su) (cs_nodeId ?cs) r0) (?cs\<lparr>cs_flag_authed := True\<rparr>))"
    and r1: "\<And>n. CheckNodeID n r1 = CheckNodeID n r0" "\<And>n. CanEnterNodeID n r1 = CanEnterNodeID n r0" "\<And>n. node_known n r1 = node_known n r0"
    by (rule response_handled [of "su_upd su" "su_full su" "su_world su" r0 ?cs]) (rule that)
  have "ControlSession_SendPacket (su_upd su) (su_full su) True (init_pkt (su_world su) nid r0) (?cs\<lparr>cs_flag_authed := True\<rparr>) =
      ?cs\<lparr>cs_flag_authed := True, cs_socket := Some (with_out (flexi_wire (init_pkt (su_world su) nid r0)) (node_deliver ?p s))\<rparr>"
    by (rule control_sends) (use rest_deliver [OF s(2)] packets_fit(4) in simp_all)
  note h = h [unfolded n this]
  from proxy_turn_handles [OF s(2,1) _ node_opcodes(2) packets_fit(3) pkt_received_mk assms(2) h] assms(1) s r1
  show ?thesis by (simp add: proxy_link_def)
qed

lemma ack_turn:
  assumes "proxy_link nid r (r0, cs)" and "cuts (su_cut su)"
  shows "\<exists>cs'. proxy_turn su (flexi_wire ack_pkt) (r0, cs) = Some ((SetNodeOnline nid r0, cs'), []) \<and>
    cs_flag_authed cs' = cs_flag_authed cs \<and> \<not> cs_flag_reconnect cs' \<and> cs_socket cs' = cs_socket cs \<and> cs_nodeId cs' = nid"
proof -
  obtain s where s: "cs_socket cs = Some s" "at_rest [] s" using assms(1) by (auto simp: proxy_link_def)
  let ?cs = "cs\<lparr>cs_socket := Some (node_deliver ack_pkt s)\<rparr>"
  have "cs_socket ?cs = Some (with_out [] (node_deliver ack_pkt s))" using rest_same [OF rest_deliver [OF s(2)]] by simp
  from proxy_turn_handles [OF s(2,1) _ node_opcodes(3) packets_fit(5) pkt_received_mk assms(2) ack_handled this] assms(1) s
  show ?thesis by (simp add: proxy_link_def)
qed

section \<open>The node's end\<close>

text \<open>A socket without a session, and one whose session \<open>sid\<close> is with the manager.\<close>

definition node_link_new :: "nat \<Rightarrow> bytes \<Rightarrow> 'd pool_node \<Rightarrow> bool" where
  "node_link_new a bs n \<longleftrightarrow> at_rest bs (pn_link n a) \<and> \<not> pl_m_Session (pn_link n a) \<and> pl_session (pn_link n a) = None \<and>
     pn_sessions n = [] \<and> lq_queue (pn_addSessQueue n) = []"

definition node_link :: "u32 \<Rightarrow> nat \<Rightarrow> bytes \<Rightarrow> 'd pool_node \<Rightarrow> bool" where
  "node_link sid a bs n \<longleftrightarrow> at_rest bs (pn_link n a) \<and> pl_m_Session (pn_link n a) \<and>
     pl_session (pn_link n a) = Some \<lparr>pss_serverId = sid, pss_socket = True, pss_recvPoolQueue = lq_new\<rparr> \<and>
     pn_sessions n = [(sid, a)] \<and> lq_queue (pn_addSessQueue n) = []"

lemma rest_pool [simp]:
  "at_rest bs (l\<lparr>pl_m_Session := b, pl_session := ss\<rparr>) = at_rest bs l" "at_rest bs (l\<lparr>pl_OutActive := b\<rparr>) = at_rest bs l"
  "at_rest bs (l\<lparr>pl_session := ss\<rparr>) = at_rest bs l" "at_rest bs (l\<lparr>pl_m_Session := b\<rparr>) = at_rest bs l"
  "writes_next bs (l\<lparr>pl_session := ss\<rparr>) = writes_next bs l" "writes_next bs (l\<lparr>pl_OutActive := b\<rparr>) = writes_next bs l"
  by (simp_all add: at_rest_def writes_next_def sock_idle_def sock_gathering_def)

lemma node_opens_challenge:
  assumes "node_link_new a [] n" and "length seed1 = 16" and "length seed2 = 16"
  obtains n' where "node_opens upd q_full seed1 seed2 a n = Some n'" "pn_world n' = pn_world n"
    "node_link_new a (flexi_wire (challenge_pkt (pl_Seed (pn_link n a)) seed1 seed2)) n'"
proof -
  let ?l = "(pn_link n a)\<lparr>pl_OutActive := True\<rparr>"
  have l: "at_rest [] ?l" using assms(1) by (simp add: node_link_new_def)
  then have "PoolSocket_SendPacket upd q_full (challenge_pkt (pl_Seed (pn_link n a)) seed1 seed2) ?l =
      (0, with_out (flexi_wire (challenge_pkt (pl_Seed (pn_link n a)) seed1 seed2)) ?l)"
    by (intro pool_sends packets_fit(1) assms(2,3)) (simp add: at_rest_def)
  then have "node_opens upd q_full seed1 seed2 a n =
      Some (n\<lparr>pn_link := (pn_link n)(a := with_out (flexi_wire (challenge_pkt (pl_Seed (pn_link n a)) seed1 seed2)) ?l)\<rparr>)"
    by (simp add: node_opens_def PoolSocket_open_def challenge_pkt_def)
  then show thesis by (rule that) (use assms(1) rest_loaded(1) [OF l] in \<open>simp_all add: node_link_new_def\<close>)
qed

lemma node_writes_all:
  assumes "at_rest bs (pn_link n a)"
  shows "node_writes q_full a n =
    Some (n\<lparr>pn_link := (pn_link n)(a := (with_out [] (pn_link n a))\<lparr>pl_OutActive := False\<rparr>)\<rparr>, bs)"
  using pool_writes [of bs "pn_link n a" q_full] assms by (simp add: node_writes_def at_rest_def)

lemma node_link_writes:
  "node_link_new a bs n \<Longrightarrow> \<exists>n'. node_writes q_full a n = Some (n', bs) \<and> node_link_new a [] n' \<and> pn_world n' = pn_world n"
  "node_link sid a bs n \<Longrightarrow> \<exists>n'. node_writes q_full a n = Some (n', bs) \<and> node_link sid a [] n' \<and> pn_world n' = pn_world n"
  using node_writes_all [of bs n a q_full] rest_loaded(1) [of bs "pn_link n a" "[]"]
  by (auto simp: node_link_new_def node_link_def)

text \<open>The login is read: the database knows the name, so there is a session now.\<close>

lemma login_reads: "\<exists>b. 0 \<notin> set nam \<longrightarrow> bb_shr TStr (buf (login_pkt nam)) = Inr (Str nam, b)"
proof (cases "0 \<in> set nam")
  case False
  then have "field_ok (Str nam)" by simp
  from reads_one [OF reads_mk_pkt [of LOGON_AUTH_MASTER "[Str nam]"] this]
  show ?thesis by (simp del: bb_shr.simps) blast
qed simp

lemma node_reads_login:
  assumes "node_link_new a [] n" and "db nam = Some sid" and "0 \<notin> set nam" and "length nam \<le> 255" and "cuts pieces"
  shows "node_reads upd q_full db now a (pieces (flexi_wire (login_pkt nam))) n =
    Some (PoolSessionMgr_AddSession a (n\<lparr>pn_link := (pn_link n)(a := (pn_link n a)\<lparr>pl_m_Session := True,
      pl_session := Some \<lparr>pss_serverId = sid, pss_socket = True, pss_recvPoolQueue = lq_new\<rparr>\<rparr>)\<rparr>))"
proof -
  let ?l = "pn_link n a" and ?p = "login_pkt nam"
  let ?l' = "?l\<lparr>pl_m_Session := True, pl_session := Some \<lparr>pss_serverId = sid, pss_socket = True, pss_recvPoolQueue = lq_new\<rparr>\<rparr>"
  have l: "at_rest [] ?l" "\<not> pl_m_Session ?l" using assms(1) by (simp_all add: node_link_new_def)
  then have i: "sock_idle Flexi_ClientPktHeader_sizeof ?l" "\<not> crypt_initialized (sk_crypt ?l)" "\<not> sk_closing ?l"
    by (simp_all add: at_rest_def writes_next_def)
  obtain b where b: "bb_shr TStr (buf ?p) = Inr (Str nam, b)" using login_reads [of nam] assms(3) by blast
  have op: "opcode ?p = LOGON_AUTH_MASTER" "LOGON_AUTH_MASTER \<noteq> CMSG_PING" by (simp_all add: mk_pkt_def opcode_defs)
  have n: "bb_size (buf ?p) + 2 < 4294967296" using fits_frame [OF packets_fit(2) [OF assms(4)]] by (simp add: frame_fits_def)
  have "PoolSocket_ProcessIncoming upd q_full db now ?p (frame_mid ?p ?l) =
      (0, (frame_mid ?p ?l)\<lparr>pl_m_Session := True, pl_session := Some \<lparr>pss_serverId = sid, pss_socket = True, pss_recvPoolQueue = lq_new\<rparr>\<rparr>)"
    using i(3) l(2) op b assms(2)
    by (simp add: PoolSocket_ProcessIncoming_def PoolSocket_HandleAuthSession_def frame_mid_def header_add_def del: bb_shr.simps)
  moreover have "frame_end ((frame_mid ?p ?l)\<lparr>pl_m_Session := True,
      pl_session := Some \<lparr>pss_serverId = sid, pss_socket = True, pss_recvPoolQueue = lq_new\<rparr>\<rparr>) = ?l'"
    using i(1) by (cases ?l) (simp add: frame_mid_def frame_end_def header_add_def mb_reset_def sock_idle_def sock_gathering_def)
  ultimately have "input_iteration (PoolSocket_handle_input_header upd) (PoolSocket_ProcessIncoming upd q_full db now)
      (flexi_wire ?p @ []) ?l = (None, [], ?l')"
    unfolding Pool_header_is_Node flexi_reads_frame [OF i(1,2) n] by simp
  then have "input_loop (PoolSocket_handle_input_header upd) (PoolSocket_ProcessIncoming upd q_full db now) (flexi_wire ?p) ?l = Some (None, ?l')"
    by (simp add: input_loop.simps [of _ _ "flexi_wire ?p"] input_loop.simps [of _ _ "[]"])
  then have "input_chunks (PoolSocket_handle_input_header upd) (PoolSocket_ProcessIncoming upd q_full db now) (pieces (flexi_wire ?p)) ?l = Some (None, ?l')"
    using pool_frame.chunks_concat [where upd = upd and q_full = q_full and db = db and now = now,
        OF idle_ok [OF i(1)] cuts_pieces(1) [OF assms(5)], of "flexi_wire ?p"] cuts_pieces(2) [OF assms(5)] by simp
  then show ?thesis using l(2) by (simp add: node_reads_def Let_def)
qed

text \<open>The manager's update takes the session up and sends the answer.\<close>

lemma session_sends:
  assumes "writes_next [] l" and "pl_session l = Some ss" and "pss_socket ss" and "fits_buffer p"
  shows "PoolSession_SendPacket upd q_full p l = with_out (flexi_wire p) l"
  using pool_sends [OF assms(1,4), of upd q_full] assms(2,3) by (simp add: PoolSession_SendPacket_def)

lemma lq_new_emptied [simp]: "lq_new\<lparr>lq_queue := []\<rparr> = lq_new" "lq_queue lq_new = []"
  by (simp_all add: lq_new_def)

lemma update_one_idle:
  assumes "node_link sid a bs n"
  shows "pool_update_one upd q_full (sid, a) n = n"
proof -
  obtain ss where ss: "pl_session (pn_link n a) = Some ss" "ss = \<lparr>pss_serverId = sid, pss_socket = True, pss_recvPoolQueue = lq_new\<rparr>"
    using assms by (simp add: node_link_def)
  have c: "\<not> sk_closing (pn_link n a)" using assms by (simp add: node_link_def at_rest_def writes_next_def)
  have same: "(pn_link n a)\<lparr>pl_session := Some ss\<rparr> = pn_link n a" using ss(1) by (cases "pn_link n a") simp
  have "PoolSession_UpdateServerIO upd q_full (pn_world n, pn_link n a) =
      (True, pn_world n, (pn_link n a)\<lparr>pl_session := Some (ss\<lparr>pss_recvPoolQueue := (pss_recvPoolQueue ss)\<lparr>lq_queue := []\<rparr>\<rparr>)\<rparr>)"
    using ss c by (simp add: PoolSession_UpdateServerIO_def)
  also have "ss\<lparr>pss_recvPoolQueue := (pss_recvPoolQueue ss)\<lparr>lq_queue := []\<rparr>\<rparr> = ss" by (simp add: ss(2))
  finally show ?thesis unfolding pool_update_one_def same snd_conv by (simp add: same)
qed

lemma update_answers:
  assumes "at_rest [] (pn_link n a)" and "pl_m_Session (pn_link n a)"
    and "pl_session (pn_link n a) = Some \<lparr>pss_serverId = sid, pss_socket = True, pss_recvPoolQueue = lq_new\<rparr>"
    and "pn_sessions n = []" and "lq_queue (pn_addSessQueue n) = [a]"
  shows "node_link sid a (flexi_wire response_pkt) (PoolSessionMgr_Update upd q_full n) \<and>
    pn_world (PoolSessionMgr_Update upd q_full n) = pn_world n"
proof -
  let ?n0 = "n\<lparr>pn_addSessQueue := (pn_addSessQueue n)\<lparr>lq_queue := []\<rparr>\<rparr>"
  let ?n1 = "PoolSessionMgr_AddSession_now upd q_full a ?n0"
  have w: "PoolSession_SendPacket upd q_full response_pkt (pn_link n a) = with_out (flexi_wire response_pkt) (pn_link n a)"
    by (rule session_sends [OF _ assms(3)]) (use assms(1) packets_fit(3) in \<open>simp_all add: at_rest_def\<close>)
  have n1: "pn_link ?n1 a = with_out (flexi_wire response_pkt) (pn_link n a)" "pn_sessions ?n1 = [(sid, a)]"
    "lq_queue (pn_addSessQueue ?n1) = []" "pn_world ?n1 = pn_world n"
    using assms(3,4) w
    by (simp_all add: PoolSessionMgr_AddSession_now_def link_serverId_def upd_link_def PoolSessionMgr_UpdateMaxSessionCounters_def
        Let_def)
  then have l: "node_link sid a (flexi_wire response_pkt) ?n1"
    using assms(2,3) rest_loaded(1) [OF assms(1)] by (simp add: node_link_def)
  have "PoolSessionMgr_Update upd q_full n = ?n1"
    using n1(2) update_one_idle [OF l] by (simp add: PoolSessionMgr_Update_def Let_def assms(5))
  with l n1(4) show ?thesis by simp
qed

text \<open>An update in which the session handles the initialisation.\<close>

lemma update_initialises:
  assumes l: "at_rest [] (pn_link n a)" "pl_m_Session (pn_link n a)"
    "pl_session (pn_link n a) = Some \<lparr>pss_serverId = sid, pss_socket = True, pss_recvPoolQueue = lq_new\<lparr>lq_queue := [init_pkt pw nid r]\<rparr>\<rparr>"
    and "pn_sessions n = [(sid, a)]" and "lq_queue (pn_addSessQueue n) = []" and ok: "init_ok pw nid r"
  shows "node_link sid a (flexi_wire ack_pkt) (PoolSessionMgr_Update upd q_full n) \<and>
    pn_world (PoolSessionMgr_Update upd q_full n) =
      fst (Handle_LOGON_INIT_NODE upd q_full (init_pkt pw nid r) (pn_world n, pn_link n a))"
proof -
  let ?l = "pn_link n a" and ?h = "Handle_LOGON_INIT_NODE upd q_full (init_pkt pw nid r) (pn_world n, pn_link n a)"
  have op: "\<not> NUM_MSG_TYPES \<le> unat (opcode (init_pkt pw nid r))" "opcode (init_pkt pw nid r) = LOGON_INIT_NODE"
    by (simp_all add: mk_pkt_def opcode_defs NUM_MSG_TYPES_def)
  have c: "\<not> sk_closing ?l" using l(1) by (simp add: at_rest_def writes_next_def)
  have "PoolSession_SendPacket upd q_full ack_pkt ?l = with_out (flexi_wire ack_pkt) ?l"
    by (rule session_sends [OF _ l(3)]) (use l(1) packets_fit(5) in \<open>simp_all add: at_rest_def\<close>)
  then have h: "?h = (fst ?h, with_out (flexi_wire ack_pkt) ?l)"
    using init_packet_world [OF ok, of upd q_full "pn_world n" ?l] by (simp add: SendInitACK_def Let_def)
  have "pool_io upd q_full [init_pkt pw nid r] (pn_world n, ?l) = ([], fst ?h, with_out (flexi_wire ack_pkt) ?l)"
    using c op h by simp
  then have "PoolSession_UpdateServerIO upd q_full (pn_world n, ?l) = (True, fst ?h, (with_out (flexi_wire ack_pkt) ?l)
      \<lparr>pl_session := Some \<lparr>pss_serverId = sid, pss_socket = True, pss_recvPoolQueue = lq_new\<rparr>\<rparr>)"
    using l(3) c by (simp add: PoolSession_UpdateServerIO_def)
  moreover have "n\<lparr>pn_addSessQueue := (pn_addSessQueue n)\<lparr>lq_queue := []\<rparr>\<rparr> = n"
    using lq_emptied(1) [OF assms(5)] by simp
  ultimately have "PoolSessionMgr_Update upd q_full n = n\<lparr>pn_world := fst ?h, pn_link := (pn_link n)(a := (with_out (flexi_wire ack_pkt) ?l)
      \<lparr>pl_session := Some \<lparr>pss_serverId = sid, pss_socket = True, pss_recvPoolQueue = lq_new\<rparr>\<rparr>)\<rparr>"
    using assms(4,5) by (simp add: PoolSessionMgr_Update_def pool_update_one_def Let_def)
  then show ?thesis using l(2) assms(4,5) rest_loaded(1) [OF l(1)] by (simp add: node_link_def)
qed

lemma update_idle:
  assumes "node_link sid a bs n"
  shows "PoolSessionMgr_Update upd q_full n = n"
proof -
  have "n\<lparr>pn_addSessQueue := (pn_addSessQueue n)\<lparr>lq_queue := []\<rparr>\<rparr> = n"
    using assms lq_emptied(1) [of "pn_addSessQueue n"] by (simp add: node_link_def)
  note same = this
  have "lq_queue (pn_addSessQueue n) = []" "pn_sessions n = [(sid, a)]" using assms by (simp_all add: node_link_def)
  then show ?thesis using update_one_idle [OF assms, of upd q_full] unfolding PoolSessionMgr_Update_def Let_def
    by (simp only: same fold_simps id_apply list.simps fold_Nil fold_Cons comp_def)
qed

section \<open>The login\<close>

lemma node_turn_login:
  assumes "node_link_new a [] n" and "su_db su nam = Some sid" and "0 \<notin> set nam" and "length nam \<le> 255" and "cuts (su_cut su)"
  shows "\<exists>n'. node_turn su a (flexi_wire (login_pkt nam)) n = Some n' \<and> node_link sid a (flexi_wire response_pkt) n' \<and>
    pn_world n' = pn_world n"
proof -
  let ?n1 = "PoolSessionMgr_AddSession a (n\<lparr>pn_link := (pn_link n)(a := (pn_link n a)\<lparr>pl_m_Session := True,
      pl_session := Some \<lparr>pss_serverId = sid, pss_socket = True, pss_recvPoolQueue = lq_new\<rparr>\<rparr>)\<rparr>)"
  have l: "at_rest [] (pn_link n a)" using assms(1) by (simp add: node_link_new_def)
  have "node_link sid a (flexi_wire response_pkt) (PoolSessionMgr_Update (su_node_upd su) (su_node_full su) ?n1) \<and>
      pn_world (PoolSessionMgr_Update (su_node_upd su) (su_node_full su) ?n1) = pn_world ?n1"
    by (rule update_answers) (use assms(1) l in \<open>simp_all add: node_link_new_def PoolSessionMgr_AddSession_def lq_add_def\<close>)
  then show ?thesis
    using node_reads_login [where db = "su_db su" and pieces = "su_cut su", OF assms, of "su_node_upd su" "su_node_full su" "su_now su"]
    by (simp add: node_turn_def PoolSessionMgr_AddSession_def)
qed

lemma node_turn_init:
  assumes "node_link sid a [] n" and "init_ok pw nid r" and "cuts (su_cut su)"
  shows "\<exists>n' l. node_turn su a (flexi_wire (init_pkt pw nid r)) n = Some n' \<and> node_link sid a (flexi_wire ack_pkt) n' \<and>
    pn_world n' = fst (Handle_LOGON_INIT_NODE (su_node_upd su) (su_node_full su) (init_pkt pw nid r) (pn_world n, l))"
proof -
  let ?p = "init_pkt pw nid r" and ?l = "pn_link n a"
  let ?l' = "pool_deliver ?p ?l"
  have l: "at_rest [] ?l" "pl_m_Session ?l" using assms(1) by (simp_all add: node_link_def)
  then have i: "sock_idle Flexi_ClientPktHeader_sizeof ?l" "\<not> crypt_initialized (sk_crypt ?l)" "\<not> sk_closing ?l"
    by (simp_all add: at_rest_def writes_next_def)
  have "frame_fits ?p" "pool_takes ?p" using fits_frame [OF packets_fit(4)] by (simp_all add: pool_takes_def mk_pkt_def opcode_defs)
  then have "input_chunks (PoolSocket_handle_input_header (su_node_upd su))
      (PoolSocket_ProcessIncoming (su_node_upd su) (su_node_full su) (su_db su) (su_now su)) (su_cut su (flexi_wire ?p)) ?l = Some (None, ?l')"
    using pool_frame.chunks_concat [where upd = "su_node_upd su" and q_full = "su_node_full su" and db = "su_db su" and now = "su_now su",
        OF idle_ok [OF i(1)] cuts_pieces(1) [OF assms(3)], of "flexi_wire ?p"] cuts_pieces(2) [OF assms(3)]
      pool_loop_frames [OF i l(2), of "[?p]" "su_node_upd su" "su_node_full su" "su_db su" "su_now su"] by simp
  moreover obtain n1 where n1: "n1 = n\<lparr>pn_link := (pn_link n)(a := ?l')\<rparr>" by blast
  ultimately have "node_turn su a (flexi_wire ?p) n = Some (PoolSessionMgr_Update (su_node_upd su) (su_node_full su) n1)"
    using l(2) by (simp add: node_turn_def node_reads_def Let_def)
  moreover have "at_rest [] (pn_link n1 a)" "pl_m_Session (pn_link n1 a)"
    "pl_session (pn_link n1 a) = Some \<lparr>pss_serverId = sid, pss_socket = True, pss_recvPoolQueue = lq_new\<lparr>lq_queue := [?p]\<rparr>\<rparr>"
    "pn_sessions n1 = [(sid, a)]" "lq_queue (pn_addSessQueue n1) = []" "pn_world n1 = pn_world n"
    using assms(1) by (simp_all add: n1 node_link_def pool_deliver_def lq_add_def)
  ultimately show ?thesis
    using update_initialises [OF _ _ _ _ _ assms(2), of n1 a sid "su_node_upd su" "su_node_full su"] by auto
qed

lemma node_turn_idle:
  assumes "node_link sid a [] n" and "cuts (su_cut su)"
  shows "node_turn su a [] n = Some n"
  using update_idle [OF assms(1)] cuts_Nil [OF assms(2)] by (simp add: node_turn_def node_reads_def)

text \<open>The connection: the update in which the session gets its socket.\<close>

lemma update_connects:
  assumes "cs_socket cs = None" and "cs_flag_reconnect cs" and "cs_reconnect_timer cs \<le> diff" and "CheckNodeID (cs_nodeId cs) r"
  shows "\<exists>cs'. ControlSession_Update upd q_full True pw (Some (sock_fresh c Flexi_ClientPktHeader_sizeof)) diff (r, cs) = Some (r, cs') \<and>
    proxy_link (cs_nodeId cs) r (r, cs')"
proof -
  let ?s = "sock_fresh c Flexi_ClientPktHeader_sizeof"
  have "lq_queue (sk_single ?s) = []" "lq_queue (sk_multi ?s) = []" "\<not> sk_closing ?s"
    by (simp_all add: sock_fresh_def)
  moreover have "at_rest [] (?s\<lparr>sk_single := (sk_single ?s)\<lparr>lq_queue := []\<rparr>, sk_multi := (sk_multi ?s)\<lparr>lq_queue := []\<rparr>\<rparr>)"
    using rest_fresh [of c] by (simp add: at_rest_def writes_next_def sock_idle_def sock_gathering_def)
  ultimately show ?thesis using assms rest_fresh [of c]
    by (simp add: ControlSession_Update_def control_reconnect_def UpdateControlIO_def control_drop_def set_sock_def proxy_link_def Let_def)
qed

text \<open>
  C5: The login of the proxy at a node succeeds. A control session of the proxy that is due to connect to a node that
  is up gets a socket; the node, which has no session yet, accepts it. Whatever the seeds and however the network cuts
  the streams, then, if the node's database knows the proxy's realm, three exchanges of bytes later the node has
  registered exactly one session, with the number its database gives, and initialised its world from the proxy's packet,
  and the proxy counts itself as authenticated and lets players enter that node, while no other
  node's status has changed.
\<close>

theorem handshake_opens_node:
  assumes "cs_socket cs = None" and "cs_flag_reconnect cs" and "cs_reconnect_timer cs \<le> su_diff su"
    and "CheckNodeID (cs_nodeId cs) r" and "init_ok (su_world su) (cs_nodeId cs) r"
    and "pw_realm_name (su_world su) = Some nam" and "0 \<notin> set nam" and "length nam \<le> 255" and "su_db su nam = Some sid"
    and "node_link_new a [] n" and "cuts (su_cut su)" and "length seed1 = 16" and "length seed2 = 16"
  shows "\<exists>r' cs' n' l. cluster_login su c seed1 seed2 a (r, cs) n = Some ((r', cs'), n') \<and>
    CanEnterNodeID (cs_nodeId cs) r' \<and> (\<forall>m. CheckNodeID m r' = CheckNodeID m r) \<and>
    (\<forall>m. m \<noteq> cs_nodeId cs \<longrightarrow> CanEnterNodeID m r' = CanEnterNodeID m r) \<and>
    cs_flag_authed cs' \<and> \<not> cs_flag_reconnect cs' \<and> cs_socket cs' \<noteq> None \<and> pn_sessions n' = [(sid, a)] \<and>
    pn_world n' = fst (Handle_LOGON_INIT_NODE (su_node_upd su) (su_node_full su)
      (mk_pkt LOGON_INIT_NODE (init_fields (su_world su) (cs_nodeId cs) r)) (pn_world n, l))"
proof -
  let ?nid = "cs_nodeId cs" and ?pw = "su_world su"
  obtain cs1 where 1: "ControlSession_Update (su_upd su) (su_full su) True ?pw (Some (sock_fresh c Flexi_ClientPktHeader_sizeof)) (su_diff su) (r, cs) =
      Some (r, cs1)" "proxy_link ?nid r (r, cs1)" using update_connects [OF assms(1-4)] by blast
  obtain n1 where n1: "node_opens (su_node_upd su) (su_node_full su) seed1 seed2 a n = Some n1" "pn_world n1 = pn_world n"
    "node_link_new a (flexi_wire (challenge_pkt (pl_Seed (pn_link n a)) seed1 seed2)) n1"
    by (rule node_opens_challenge [OF assms(10,12,13)])
  obtain n2 where n2: "node_writes (su_node_full su) a n1 = Some (n2, flexi_wire (challenge_pkt (pl_Seed (pn_link n a)) seed1 seed2))"
    "node_link_new a [] n2" "pn_world n2 = pn_world n1" using node_link_writes(1) [OF n1(3)] by blast
  obtain cs2 where 2: "proxy_turn su (flexi_wire (challenge_pkt (pl_Seed (pn_link n a)) seed1 seed2)) (r, cs1) =
      Some ((r, cs2), flexi_wire (login_pkt nam))" "proxy_link ?nid r (r, cs2)"
    using login_turn [OF 1(2) assms(6,8,11-13), of "pl_Seed (pn_link n a)"] by auto
  obtain n3 where n3: "node_turn su a (flexi_wire (login_pkt nam)) n2 = Some n3" "node_link sid a (flexi_wire response_pkt) n3"
    "pn_world n3 = pn_world n2" using node_turn_login [OF n2(2) assms(9,7,8,11)] by blast
  obtain n4 where n4: "node_writes (su_node_full su) a n3 = Some (n4, flexi_wire response_pkt)" "node_link sid a [] n4"
    "pn_world n4 = pn_world n3" using node_link_writes(2) [OF n3(2)] by blast
  obtain r3 cs3 where 3: "proxy_turn su (flexi_wire response_pkt) (r, cs2) = Some ((r3, cs3), flexi_wire (init_pkt ?pw ?nid r))"
    "proxy_link ?nid r (r3, cs3)" "cs_flag_authed cs3" "\<And>m. CanEnterNodeID m r3 = CanEnterNodeID m r" "\<And>m. node_known m r3 = node_known m r"
    using init_turn [OF 2(2) assms(11)] by auto
  obtain n5 l where n5: "node_turn su a (flexi_wire (init_pkt ?pw ?nid r)) n4 = Some n5" "node_link sid a (flexi_wire ack_pkt) n5"
    "pn_world n5 = fst (Handle_LOGON_INIT_NODE (su_node_upd su) (su_node_full su) (init_pkt ?pw ?nid r) (pn_world n4, l))"
    using node_turn_init [OF n4(2) assms(5,11)] by blast
  obtain n6 where n6: "node_writes (su_node_full su) a n5 = Some (n6, flexi_wire ack_pkt)" "node_link sid a [] n6"
    "pn_world n6 = pn_world n5" using node_link_writes(2) [OF n5(2)] by blast
  obtain cs4 where 4: "proxy_turn su (flexi_wire ack_pkt) (r3, cs3) = Some ((SetNodeOnline ?nid r3, cs4), [])"
    "cs_flag_authed cs4 = cs_flag_authed cs3" "\<not> cs_flag_reconnect cs4" "cs_socket cs4 = cs_socket cs3"
    using ack_turn [OF 3(2) assms(11)] by blast
  have "cluster_login su c seed1 seed2 a (r, cs) n = Some ((SetNodeOnline ?nid r3, cs4), n6)"
    by (simp add: cluster_login_def cluster_round_def numeral_3_eq_3 1(1) n1(1) n2(1) 2(1) n3(1) n4(1) 3(1) n5(1) n6(1) 4(1)
        node_turn_idle [OF n6(2) assms(11)])
  moreover have "node_known ?nid r3" using assms(4) 3(5) by (simp add: CheckNodeID_def node_known_def split: option.splits)
  ultimately show ?thesis
    using 3(2-5) 4(2-4) n6(2,3) n5(3) n4(3) n3(3) n2(3) n1(2)
    by (auto simp: proxy_link_def node_link_def routing.enter_up routing.online_up)
qed

section \<open>The login at work\<close>

text \<open>Two servers: the realm is called H, the node knows it as number 7, the network delivers byte by byte.\<close>

definition su_example :: "(unit, unit) surroundings" where
  "su_example = \<lparr>su_upd = plain_upd, su_full = (\<lambda>_. False), su_node_upd = plain_upd, su_node_full = (\<lambda>_. False),
     su_world = proxy_example, su_db = (\<lambda>nam. if nam = [0x48] then Some 7 else None), su_now = 0, su_diff = 2000,
     su_cut = map (\<lambda>b. [b])\<rparr>"

definition due_example :: "unit control_session" where
  "due_example = \<lparr>cs_socket = None, cs_reconnect_timer = 2000, cs_flag_reconnect = True, cs_flag_authed = False,
     cs_nodeId = 1, cs_nodeType = 1\<rparr>"

text \<open>Node 1 has come up and may not be entered yet.\<close>

definition routing_up :: RoutingHelper where
  "routing_up = routing_example\<lparr>m_nodelist := map (\<lambda>(k, nd). (k, nd\<lparr>nl_online := True\<rparr>)) (m_nodelist routing_example)\<rparr>"

lemma routing_up_facts: "CheckNodeID 1 routing_up" "\<not> CanEnterNodeID 1 routing_up" "init_ok proxy_example 1 routing_up"
  by (simp_all add: routing_up_def routing_example_def CheckNodeID_def CanEnterNodeID_def Let_def init_ok_def proxy_example_def
      GetNodeConnectionData_def init_guid_def flt_isfinite_def list_all_iff)

definition node_example :: "unit pool_node" where
  "node_example = \<lparr>pn_world = \<lparr>nw_om = om_example 0 0, nw_rates = Map.empty, nw_ints = Map.empty, nw_shutdown = None\<rparr>,
     pn_link = (\<lambda>_. pool_fresh None), pn_sessions = [], pn_addSessQueue = lq_new, pn_QueuedPlayer = [], pn_playerLimit = 0,
     pn_maxActiveSessionCount = 0, pn_maxQueuedSessionCount = 0\<rparr>"

theorem handshake_opens_node_witness:
  "\<exists>r' cs' n'. cluster_login su_example () (replicate 16 1) (replicate 16 2) 5 (routing_up, due_example) node_example =
      Some ((r', cs'), n') \<and> CanEnterNodeID 1 r' \<and> \<not> CanEnterNodeID 1 routing_up \<and> cs_flag_authed cs' \<and>
    pn_sessions n' = [(7, 5)]"
proof -
  have s: "su_world su_example = proxy_example" "cs_nodeId due_example = 1" "su_diff su_example = 2000"
    by (simp_all add: su_example_def due_example_def)
  have k: "CheckNodeID (cs_nodeId due_example) routing_up" "init_ok (su_world su_example) (cs_nodeId due_example) routing_up"
    unfolding s by (rule routing_up_facts)+
  have d: "cs_socket due_example = None" "cs_flag_reconnect due_example" "cs_reconnect_timer due_example \<le> su_diff su_example"
    by (simp_all add: due_example_def su_example_def)
  have nam: "pw_realm_name (su_world su_example) = Some [0x48]" "0 \<notin> set [0x48 :: u8]" "length [0x48 :: u8] \<le> 255"
    "su_db su_example [0x48] = Some 7" by (simp_all add: su_example_def proxy_example_def)
  have cut: "cuts (su_cut su_example)" by (auto simp: cuts_def su_example_def)
  have n: "node_link_new 5 [] node_example"
    using pool_fresh_idle [of None]
    by (simp add: node_link_new_def node_example_def at_rest_def writes_next_def pool_fresh_def mb_new_def lq_new_def)
  show ?thesis
    using handshake_opens_node [OF d k nam n cut, of "replicate 16 1" "replicate 16 2" "()"] routing_up_facts(2) unfolding s by auto
qed

end
