(* ===== verification/ClientAuth.thy ===== *)
theory ClientAuth
  imports SocketOutput Codes
begin

text \<open>
  The socket of a game client at the proxy, \<open>shade/Server/Client/ClientSocket.cpp\<close>: the login, the
  pings and the gate in front of the queues; with it \<open>ReadAddonsInfo\<close> of \<open>ClientSession.cpp\<close>, which
  the login calls, and \<open>AcceptSocket.h\<close>. The databases, SHA-1, zlib and the clock are arguments
  collected in a record. A session the login made is handed to the manager in \<open>clk_session\<close>.
\<close>

definition TOTAL_LOCALES :: u8 where "TOTAL_LOCALES = 9"
definition LOCALE_enUS :: u8 where "LOCALE_enUS = 0"

section \<open>State\<close>

record addon_info =
  ai_Name :: bytes
  ai_Enabled :: u8
  ai_CRC :: u32
  ai_State :: u8
  ai_UsePublicKeyOrCRC :: bool

text \<open>A session as the login creates it, with its addons; \<open>WardenWin\<close> is started for \<open>os = Win\<close>.\<close>

record new_session =
  ns_id :: u32
  ns_security :: u32
  ns_expansion :: u8
  ns_mutetime :: int
  ns_locale :: u8
  ns_recruiter :: u32
  ns_isRecruiter :: bool
  ns_addons :: "addon_info list"
  ns_warden :: bool

datatype db_write = UpdMuteTime int u32 | UpdLastIp bytes bytes

record 'c client_socket = "'c sock" +
  clk_authenticated :: bool
  clk_Seed :: u32
  clk_LastPingTime :: int
  clk_OverSpeedPings :: u32
  clk_latency :: u32
  clk_lastActionTime :: u32
  clk_session :: "new_session option"
  clk_db :: "db_write list"
  clk_knownAddons :: "(bytes \<times> u32) list"

text \<open>A row of the account query, and the rest of what the login asks.\<close>

record account_row =
  ac_id :: u32
  ac_sessionkey :: bytes
  ac_last_ip :: bytes
  ac_locked :: u8
  ac_expansion :: u8
  ac_mutetime :: int
  ac_locale :: u8
  ac_recruiter :: u32
  ac_os :: bytes

record auth_env =
  ae_closed :: bool
  ae_account :: "bytes \<Rightarrow> account_row option"
  ae_expansion :: u32
  ae_address :: bytes
  ae_gmlevel :: "u32 \<Rightarrow> u8 option"
  ae_banned :: "u32 \<Rightarrow> bytes \<Rightarrow> bool"
  ae_security_limit :: u32
  ae_sha1 :: "bytes \<Rightarrow> bytes"
  ae_key_bytes :: "bytes \<Rightarrow> bytes"
  ae_is_recruiter :: "u32 \<Rightarrow> bool"
  ae_uncompress :: "nat \<Rightarrow> bytes \<Rightarrow> bytes option"
  ae_time :: u32
  ae_gettimeofday :: int
  ae_max_pings :: u32

section \<open>Addons\<close>

text \<open>\<open>AddonMgr\<close>: the first saved entry of that name, and saving one more.\<close>

definition GetAddonInfo :: "bytes \<Rightarrow> (bytes \<times> u32) list \<Rightarrow> u32 option" where
  "GetAddonInfo nam known = map_of known nam"

definition SaveAddon :: "addon_info \<Rightarrow> (bytes \<times> u32) list \<Rightarrow> (bytes \<times> u32) list" where
  "SaveAddon a known = known @ [(ai_Name a, ai_CRC a)]"

text \<open>
  The loop of \<open>ReadAddonsInfo\<close>: whether it ran to the end, was left by \<open>return\<close> or by an exception,
  the buffer it left, the addons so far and the addon manager.
\<close>

datatype addon_exit = AddonsDone | AddonsReturn | AddonsThrow bb_error

fun read_addons ::
  "nat \<Rightarrow> bytebuf \<Rightarrow> addon_info list \<Rightarrow> (bytes \<times> u32) list \<Rightarrow>
   addon_exit \<times> bytebuf \<times> addon_info list \<times> (bytes \<times> u32) list" where
  "read_addons 0 b as known = (AddonsDone, b, as, known)"
| "read_addons (Suc n) b as known =
     (if rpos b + 1 > bb_size b then (AddonsReturn, b, as, known)
      else case bb_shr_all [TStr, TU8, TU32, TU32] b of
        Inr ([Str addonName, U8 enabled, U32 crc, U32 unk1], b1) \<Rightarrow>
          (let addon = \<lparr>ai_Name = addonName, ai_Enabled = enabled, ai_CRC = crc, ai_State = 2,
                 ai_UsePublicKeyOrCRC = True\<rparr>;
               known1 = (case GetAddonInfo addonName known of
                           Some _ \<Rightarrow> known | None \<Rightarrow> SaveAddon addon known)
           in read_addons n b1 (as @ [addon]) known1)
      | Inr (_, b1) \<Rightarrow> (AddonsReturn, b1, as, known)
      | Inl e \<Rightarrow> (AddonsThrow e, b, as, known))"

definition ReadAddonsInfo ::
  "(nat \<Rightarrow> bytes \<Rightarrow> bytes option) \<Rightarrow> bytebuf \<Rightarrow> (bytes \<times> u32) list \<Rightarrow>
   addon_exit \<times> addon_info list \<times> (bytes \<times> u32) list" where
  "ReadAddonsInfo uncompress data known =
     (if rpos data + 4 > bb_size data then (AddonsReturn, [], known)
      else case bb_shr TU32 data of
        Inr (U32 sz, data1) \<Rightarrow>
          (if sz = 0 then (AddonsReturn, [], known)
           else if sz > 0xFFFFF then (AddonsReturn, [], known)
           else case uncompress (unat sz) (drop (rpos data1) (storage data1)) of
             None \<Rightarrow> (AddonsDone, [], known)
           | Some out \<Rightarrow>
              (let info = bb_resize (unat sz) bb_new;
                   info = info\<lparr>storage := take (unat sz) out @ drop (length out) (storage info)\<rparr>
               in case bb_shr TU32 info of
                    Inr (U32 addonsCount, info1) \<Rightarrow>
                      (case read_addons (unat addonsCount) info1 [] known of
                         (AddonsDone, info2, as, known1) \<Rightarrow>
                           (case bb_shr TU32 info2 of
                              Inr _ \<Rightarrow> (AddonsDone, as, known1)
                            | Inl e \<Rightarrow> (AddonsThrow e, as, known1))
                       | (ex, info2, as, known1) \<Rightarrow> (ex, as, known1))
                  | Inr _ \<Rightarrow> (AddonsReturn, [], known)
                  | Inl e \<Rightarrow> (AddonsThrow e, [], known)))
      | Inr _ \<Rightarrow> (AddonsReturn, [], known)
      | Inl e \<Rightarrow> (AddonsThrow e, [], known))"

section \<open>Opening\<close>

text \<open>\<open>seed1\<close> and \<open>seed2\<close> are the random numbers of the challenge.\<close>

definition buildAuthChallengePacket :: "bytes \<Rightarrow> bytes \<Rightarrow> 'c client_socket \<Rightarrow> wpacket" where
  "buildAuthChallengePacket seed1 seed2 s =
     mk_pkt SMSG_AUTH_CHALLENGE ([U32 1, U32 (clk_Seed s)] @ map U8 (take 16 seed1) @ map U8 (take 16 seed2))"

text \<open>\<open>AcceptSocket::open\<close>, with the results of \<open>_setup\<close> and of \<open>register_handler\<close>.\<close>

definition AcceptSocket_open ::
  "('c \<Rightarrow> bytes \<Rightarrow> bytes \<times> 'c) \<Rightarrow> (bytes list \<Rightarrow> bool) \<Rightarrow> bool \<Rightarrow> bool \<Rightarrow> bytes \<Rightarrow> bytes \<Rightarrow>
   'c client_socket \<Rightarrow> int \<times> 'c client_socket" where
  "AcceptSocket_open upd q_full setup registered seed1 seed2 s =
     (if \<not> setup then (-1, s)
      else case Socket_directlySendPacket (ClientSocket_sendPacket upd q_full)
                  (buildAuthChallengePacket seed1 seed2 s) s of
        (r, s1) \<Rightarrow> if r = -1 then (-1, s1) else if \<not> registered then (-1, s1) else (0, s1))"

section \<open>The header\<close>

definition ClientSocket_handleInputHeader ::
  "('c \<Rightarrow> bytes \<Rightarrow> bytes \<times> 'c) \<Rightarrow> ('c, 'z) input_header" where
  "ClientSocket_handleInputHeader upd s =
     (if sk_recvWPct s \<noteq> None \<or>
         length (mb_unread (sk_header s)) \<noteq> Blizzard_ClientPktHeader_sizeof then (HdrAssert, s)
      else
        (case AuthCrypt_DecryptRecv upd (mb_unread (sk_header s)) (sk_crypt s) of
          (plain, crypt) \<Rightarrow>
          (let header = Blizzard_ClientPktHeader_at plain;
               hsize = EndianConvertReverse_u16 (bch_size header);
               hcmd = EndianConvert_u32 (bch_cmd header);
               s1 = s\<lparr>sk_crypt := crypt\<rparr>
           in if hsize < 4 \<or> hsize > 10240 \<or> hcmd > 10240 then (HdrInvalid, s1)
              else
                (let hsize = hsize - 4;
                     pct = pkt_new (ucast hcmd);
                     pct1 = pct\<lparr>buf := bb_resize (unat hsize) (buf pct)\<rparr>
                 in if hsize > 0 then
                      (HdrOk, s1\<lparr>sk_recvWPct := Some pct1,
                         sk_recvPct_cap := bb_size (buf pct1), sk_recvPct_wr := 0\<rparr>)
                    else if recvPct_space s1 \<noteq> 0 then (HdrAssert, s1)
                    else (HdrOk, s1\<lparr>sk_recvWPct := Some pct\<rparr>)))))"

section \<open>Pings\<close>

text \<open>Times in microseconds; zero is \<open>ACE_Time_Value::zero\<close>.\<close>

definition ClientSocket_handlePing ::
  "('c \<Rightarrow> bytes \<Rightarrow> bytes \<times> 'c) \<Rightarrow> (bytes list \<Rightarrow> bool) \<Rightarrow> bool \<Rightarrow> auth_env \<Rightarrow> wpacket \<Rightarrow>
   'c client_socket \<Rightarrow> int \<times> 'c client_socket" where
  "ClientSocket_handlePing upd q_full wake env pct s =
     (case bb_shr_all [TU32, TU32] (buf pct) of
        Inr ([U32 ping, U32 latency], _) \<Rightarrow>
          (let now = ae_gettimeofday env;
               first = (clk_LastPingTime s = 0);
               diff_time = now - clk_LastPingTime s;
               s1 = s\<lparr>clk_LastPingTime := now\<rparr>;
               s2 = (if first then s1
                     else if diff_time < 27000000 then s1\<lparr>clk_OverSpeedPings := clk_OverSpeedPings s1 + 1\<rparr>
                     else s1\<lparr>clk_OverSpeedPings := 0\<rparr>)
           in if \<not> first \<and> diff_time < 27000000 \<and> ae_max_pings env \<noteq> 0 \<and>
                 clk_OverSpeedPings s2 > ae_max_pings env then (-1, s2)
              else Socket_SendPacket (ClientSocket_sendPacket upd q_full) wake (mk_pkt SMSG_PONG [U32 ping])
                     (s2\<lparr>clk_latency := latency\<rparr>))
      | _ \<Rightarrow> (-1, s))"

section \<open>The login\<close>

definition send_reject ::
  "('c \<Rightarrow> bytes \<Rightarrow> bytes \<times> 'c) \<Rightarrow> (bytes list \<Rightarrow> bool) \<Rightarrow> bool \<Rightarrow> wpacket \<Rightarrow>
   'c client_socket \<Rightarrow> int \<times> 'c client_socket" where
  "send_reject upd q_full wake packet s =
     (-1, snd (Socket_SendPacket (ClientSocket_sendPacket upd q_full) wake packet s))"

text \<open>What the client must have signed: its name, four zero bytes, both seeds and the session key.\<close>

definition auth_digest :: "auth_env \<Rightarrow> bytes \<Rightarrow> u32 \<Rightarrow> u32 \<Rightarrow> account_row \<Rightarrow> bytes" where
  "auth_digest env account clientSeed seed row =
     ae_sha1 env (account @ word_le (0 :: u32) @ word_le clientSeed @ word_le seed @
       ae_key_bytes env (ac_sessionkey row))"

text \<open>A negative mute time counts from this login.\<close>

definition login_mutetime :: "auth_env \<Rightarrow> account_row \<Rightarrow> int" where
  "login_mutetime env row =
     (if ac_mutetime row < 0 then uint (ae_time env) + \<bar>ac_mutetime row\<bar> else ac_mutetime row)"

definition login_security :: "auth_env \<Rightarrow> account_row \<Rightarrow> u32" where
  "login_security env row = (case ae_gmlevel env (ac_id row) of None \<Rightarrow> 0 | Some g \<Rightarrow> ucast g)"

definition login_expansion :: "auth_env \<Rightarrow> account_row \<Rightarrow> u8" where
  "login_expansion env row =
     (if ucast (ac_expansion row) > ae_expansion env then ucast (ae_expansion env) else ac_expansion row)"

text \<open>
  The accepted branch: \<open>new ClientSession\<close>, the key stream, the addons (whose exception leaves the
  socket unauthenticated and the session unreachable), and the manager's queue.
\<close>

definition login_accept ::
  "('c \<Rightarrow> bytes \<Rightarrow> bytes \<times> 'c) \<Rightarrow> (bytes \<Rightarrow> 'c \<Rightarrow> 'c) \<Rightarrow> (bytes \<Rightarrow> bytes \<Rightarrow> bytes) \<Rightarrow> auth_env \<Rightarrow>
   bytes \<Rightarrow> account_row \<Rightarrow> bytebuf \<Rightarrow> 'c client_socket \<Rightarrow> int \<times> 'c client_socket" where
  "login_accept upd keyed hmac env account row rest s =
     (let s1 = s\<lparr>clk_db := clk_db s @ [UpdLastIp (ae_address env) account],
                sk_crypt := AuthCrypt_Init upd keyed hmac (ae_key_bytes env (ac_sessionkey row)) (sk_crypt s)\<rparr>
      in case ReadAddonsInfo (ae_uncompress env) rest (clk_knownAddons s) of
           (ex, as, known) \<Rightarrow>
             (let s2 = s1\<lparr>clk_knownAddons := known\<rparr>
              in case ex of
                   AddonsThrow e \<Rightarrow> (-1, s2)
                 | _ \<Rightarrow> (0, s2\<lparr>clk_authenticated := True, clk_session := Some
                     \<lparr>ns_id = ac_id row, ns_security = login_security env row,
                      ns_expansion = login_expansion env row, ns_mutetime = login_mutetime env row,
                      ns_locale = (if ac_locale row \<ge> TOTAL_LOCALES then LOCALE_enUS else ac_locale row),
                      ns_recruiter = ac_recruiter row, ns_isRecruiter = ae_is_recruiter env (ac_id row),
                      ns_addons = as, ns_warden = (ac_os row = [0x57, 0x69, 0x6E])\<rparr>\<rparr>)))"

text \<open>What is read of the packet: the account, the client's seed, its digest, and the rest.\<close>

definition login_parse :: "wpacket \<Rightarrow> (bytes \<times> u32 \<times> bytes \<times> bytebuf) option" where
  "login_parse pct =
     (case bb_shr_all [TU32, TU32, TStr, TU32, TU32, TU32, TU32, TU32, TU64] (buf pct) of
        Inr ([_, _, Str account, _, U32 clientSeed, _, _, _, _], b1) \<Rightarrow>
          (case bb_read 20 b1 of Inr (digest, b2) \<Rightarrow> Some (account, clientSeed, digest, b2) | Inl _ \<Rightarrow> None)
      | _ \<Rightarrow> None)"

text \<open>
  The checks in their order: the packet a refused client gets, or its row. The refusal for a too
  low security level fills a packet \<open>Packet\<close> and sends the still empty \<open>packet\<close>.
\<close>

definition login_check ::
  "auth_env \<Rightarrow> u32 \<Rightarrow> bytes \<Rightarrow> u32 \<Rightarrow> bytes \<Rightarrow> db_write list \<times> (wpacket + account_row)" where
  "login_check env seed account clientSeed digest =
     (case ae_account env account of
        None \<Rightarrow> ([], Inl (mk_pkt SMSG_AUTH_RESPONSE [U8 AUTH_UNKNOWN_ACCOUNT]))
      | Some row \<Rightarrow>
         if ac_locked row = 1 \<and> ac_last_ip row \<noteq> ae_address env
         then ([], Inl (mk_pkt SMSG_AUTH_RESPONSE [U8 AUTH_FAILED]))
         else
           (if ac_mutetime row < 0 then [UpdMuteTime (login_mutetime env row) (ac_id row)] else [],
            if ae_banned env (ac_id row) (ae_address env) then Inl (mk_pkt SMSG_AUTH_RESPONSE [U8 AUTH_BANNED])
            else if login_security env row < ae_security_limit env then Inl (pkt_new 0)
            else if auth_digest env account clientSeed seed row \<noteq> digest
            then Inl (mk_pkt SMSG_AUTH_RESPONSE [U8 AUTH_FAILED])
            else Inr row))"

definition ClientSocket_handleAuthSession ::
  "('c \<Rightarrow> bytes \<Rightarrow> bytes \<times> 'c) \<Rightarrow> (bytes \<Rightarrow> 'c \<Rightarrow> 'c) \<Rightarrow> (bytes \<Rightarrow> bytes \<Rightarrow> bytes) \<Rightarrow>
   (bytes list \<Rightarrow> bool) \<Rightarrow> bool \<Rightarrow> auth_env \<Rightarrow> wpacket \<Rightarrow> 'c client_socket \<Rightarrow> int \<times> 'c client_socket" where
  "ClientSocket_handleAuthSession upd keyed hmac q_full wake env pct s =
     (if ae_closed env then send_reject upd q_full wake (mk_pkt SMSG_AUTH_RESPONSE [U8 AUTH_REJECT]) s
      else case login_parse pct of
        None \<Rightarrow> (-1, s)
      | Some (account, clientSeed, digest, rest) \<Rightarrow>
          (case login_check env (clk_Seed s) account clientSeed digest of
             (ws, Inl packet) \<Rightarrow> send_reject upd q_full wake packet (s\<lparr>clk_db := clk_db s @ ws\<rparr>)
           | (ws, Inr row) \<Rightarrow>
               login_accept upd keyed hmac env account row rest (s\<lparr>clk_db := clk_db s @ ws\<rparr>)))"

definition ClientSocket_processIncoming ::
  "('c \<Rightarrow> bytes \<Rightarrow> bytes \<times> 'c) \<Rightarrow> (bytes \<Rightarrow> 'c \<Rightarrow> 'c) \<Rightarrow> (bytes \<Rightarrow> bytes \<Rightarrow> bytes) \<Rightarrow>
   (bytes list \<Rightarrow> bool) \<Rightarrow> bool \<Rightarrow> auth_env \<Rightarrow> wpacket \<Rightarrow> 'c client_socket \<Rightarrow> int \<times> 'c client_socket" where
  "ClientSocket_processIncoming upd keyed hmac q_full wake env newPacket s =
     (let opc = opcode newPacket
      in if sk_closing s then (-1, s)
         else if opc = CMSG_PING then ClientSocket_handlePing upd q_full wake env newPacket s
         else if opc = CMSG_AUTH_SESSION then
           (if clk_authenticated s then (-1, s)
            else ClientSocket_handleAuthSession upd keyed hmac q_full wake env newPacket s)
         else if opc = CMSG_KEEP_ALIVE then (0, s)
         else if clk_authenticated s \<and> unat opc < NUM_MSG_TYPES then
           (let s1 = s\<lparr>clk_lastActionTime := ae_time env\<rparr>
            in if multipass (opcodeTable ! unat opc)
               then (0, s1\<lparr>sk_multi := lq_add newPacket (sk_multi s1)\<rparr>)
               else (0, s1\<lparr>sk_single := lq_add newPacket (sk_single s1)\<rparr>))
         else (0, s))"

section \<open>The contract of the generic socket\<close>

lemma ClientSocket_header_contract:
  assumes "header_full Blizzard_ClientPktHeader_sizeof s"
  shows "ClientSocket_handleInputHeader upd s \<noteq> (HdrAssert, s')"
    and "ClientSocket_handleInputHeader upd s = (HdrOk, s') \<Longrightarrow>
      sock_mid Blizzard_ClientPktHeader_sizeof s' \<and> sk_recvPct_wr s' = 0"
  using assms
  by (auto simp: ClientSocket_handleInputHeader_def header_full_def length_mb_unread recvPct_space_def
      Let_def sock_mid_def pkt_new_def bb_resize_new bb_size_def bb_new_def
      split: prod.splits if_splits)

text \<open>What sending and the handlers leave alone.\<close>

lemma ClientSocket_send_frame:
  assumes "Socket_SendPacket (ClientSocket_sendPacket upd q_full) wake p s = (r, s')"
  shows "sk_header s' = sk_header s \<and> sk_single s' = sk_single s \<and> sk_multi s' = sk_multi s \<and>
     sk_closing s' = sk_closing s \<and> sock.more s' = sock.more s"
proof (cases "sk_closing s")
  case True
  with assms show ?thesis by (simp add: Socket_SendPacket_def)
next
  case False
  let ?h = "Blizzard_ServerPktHeader (word_of_nat (bb_size (buf p) + 2)) (opcode p)"
  obtain hdr c where c: "AuthCrypt_EncryptSend upd (take (Blizzard_getHeaderLength ?h) (bsh_header ?h)) (sk_crypt s) =
      (hdr, c)" by fastforce
  obtain r1 s1 where put: "sock_put q_full (hdr @ storage (buf p)) (s\<lparr>sk_crypt := c\<rparr>) = (r1, s1)" by fastforce
  have "s' = s1"
    using assms unfolding Socket_SendPacket_def ClientSocket_sendPacket_def Let_def c prod.case put
    by (simp add: False split: if_splits)
  then show ?thesis using sock_put_frame [OF put] by simp
qed

lemma send_reject_frame:
  assumes "send_reject upd q_full wake p s = (r, s')"
  shows "r = -1 \<and> sk_header s' = sk_header s \<and> sk_single s' = sk_single s \<and>
     sk_multi s' = sk_multi s \<and> sk_closing s' = sk_closing s \<and> sock.more s' = sock.more s"
proof -
  obtain r1 s1 where s1: "Socket_SendPacket (ClientSocket_sendPacket upd q_full) wake p s = (r1, s1)" by fastforce
  with assms have "r = -1" "s' = s1" unfolding send_reject_def by simp_all
  with ClientSocket_send_frame [OF s1] show ?thesis by simp
qed

text \<open>The socket's own part of the record, read off \<open>more\<close>.\<close>

lemma client_more:
  fixes s s' :: "'c client_socket"
  assumes "sock.more s' = sock.more s"
  shows "clk_authenticated s' = clk_authenticated s" "clk_session s' = clk_session s" "clk_Seed s' = clk_Seed s"
    "clk_db s' = clk_db s" "clk_knownAddons s' = clk_knownAddons s"
  using assms by (cases s, cases s', simp)+

definition same_queues :: "('c, 'z) sock_scheme \<Rightarrow> ('c, 'z) sock_scheme \<Rightarrow> bool" where
  "same_queues s s' \<longleftrightarrow> sk_header s' = sk_header s \<and> sk_single s' = sk_single s \<and> sk_multi s' = sk_multi s"

lemma login_accept_frame:
  "login_accept upd keyed hmac env account row rest s = (r, s') \<Longrightarrow> same_queues s s'"
  by (auto simp: login_accept_def Let_def same_queues_def split: prod.splits addon_exit.splits)

lemma handleAuthSession_frame:
  assumes "ClientSocket_handleAuthSession upd keyed hmac q_full wake env pct s = (r, s')"
  shows "same_queues s s'"
proof -
  have rej: "send_reject upd q_full wake p (s\<lparr>clk_db := d\<rparr>) = (r, s') \<Longrightarrow> same_queues s s'" for p d
    by (auto dest!: send_reject_frame simp: same_queues_def)
  have rej0: "send_reject upd q_full wake p s = (r, s') \<Longrightarrow> same_queues s s'" for p
    by (auto dest!: send_reject_frame simp: same_queues_def)
  have acc: "login_accept upd keyed hmac env account row rest (s\<lparr>clk_db := d\<rparr>) = (r, s') \<Longrightarrow> same_queues s s'"
    for account row rest d by (auto dest!: login_accept_frame simp: same_queues_def)
  from assms show ?thesis
    unfolding ClientSocket_handleAuthSession_def
    by (auto split: if_splits sum.splits prod.splits option.splits dest: rej rej0 acc simp: same_queues_def)
qed

lemma handlePing_frame:
  assumes "ClientSocket_handlePing upd q_full wake env pct s = (r, s')"
  shows "same_queues s s' \<and> clk_authenticated s' = clk_authenticated s \<and> clk_session s' = clk_session s \<and>
    clk_knownAddons s' = clk_knownAddons s"
proof (cases "\<exists>ping latency b. bb_shr_all [TU32, TU32] (buf pct) = Inr ([U32 ping, U32 latency], b)")
  case True
  then obtain ping latency b where rd: "bb_shr_all [TU32, TU32] (buf pct) = Inr ([U32 ping, U32 latency], b)" by blast
  have send: "same_queues s s' \<and> clk_authenticated s' = clk_authenticated s \<and> clk_session s' = clk_session s \<and>
      clk_knownAddons s' = clk_knownAddons s"
    if "Socket_SendPacket (ClientSocket_sendPacket upd q_full) wake q t = (r, s')"
      "same_queues s t" "clk_authenticated t = clk_authenticated s" "clk_session t = clk_session s"
      "clk_knownAddons t = clk_knownAddons s" for q and t
    using ClientSocket_send_frame [OF that(1)] that(2-) client_more [of s' t] by (auto simp: same_queues_def)
  from assms show ?thesis
    unfolding ClientSocket_handlePing_def rd Let_def sum.case prod.case list.case field.case
    by (auto split: if_splits dest: send simp: same_queues_def)
next
  case False
  then have "ClientSocket_handlePing upd q_full wake env pct s = (-1, s)"
    unfolding ClientSocket_handlePing_def by (auto split: sum.split list.split field.split)
  with assms show ?thesis by (simp add: same_queues_def)
qed

lemma processIncoming_header:
  assumes "ClientSocket_processIncoming upd keyed hmac q_full wake env p s = (r, s')"
  shows "sk_header s' = sk_header s"
  using assms
  by (auto simp: ClientSocket_processIncoming_def Let_def same_queues_def split: if_splits
      dest: handlePing_frame handleAuthSession_frame)

interpretation client_frame: framing
  "ClientSocket_handleInputHeader upd" "ClientSocket_processIncoming upd' keyed hmac q_full wake env"
  Blizzard_ClientPktHeader_sizeof
  for upd upd' keyed hmac q_full wake env
proof unfold_locales
  show "0 < Blizzard_ClientPktHeader_sizeof" by (simp add: Blizzard_ClientPktHeader_sizeof_def)
qed (use ClientSocket_header_contract processIncoming_header in blast)+

section \<open>Reading a login\<close>

text \<open>The packet of a client that wants to log in, with the rest of the packet (its addons) behind.\<close>

definition login_packet :: "u32 \<Rightarrow> bytes \<Rightarrow> u32 \<Rightarrow> bytes \<Rightarrow> field list \<Rightarrow> wpacket" where
  "login_packet build account clientSeed digest rest =
     mk_pkt CMSG_AUTH_SESSION
       ([U32 build, U32 0, Str account, U32 0, U32 clientSeed, U32 0, U32 0, U32 0, U64 0] @
        map U8 digest @ rest)"

lemma fields_bytes_U8: "fields_bytes (map U8 bs) = bs"
  by (induction bs) (simp_all add: fields_bytes_def word_le_u8)

lemma reads_raw:
  assumes "reads b (map U8 bs @ fs)"
  obtains b' where "bb_read (length bs) b = Inr (bs, b')" and "reads b' fs"
proof -
  let ?b = "b\<lparr>rpos := rpos b + length bs\<rparr>"
  have un: "unread b = bs @ fields_bytes fs" and le: "rpos b \<le> bb_size b"
    using assms by (simp_all add: reads_def fields_bytes_append fields_bytes_U8)
  have "length (unread b) = bb_size b - rpos b" by (simp add: unread_def bb_size_def)
  with un le have "rpos ?b \<le> bb_size ?b" by (simp add: bb_size_def)
  moreover have "unread ?b = fields_bytes fs" using un by (rule unread_advance)
  ultimately have "reads ?b fs" by (simp add: reads_def)
  with bb_read_unread [OF un le] that show thesis by blast
qed

lemma login_parse_packet:
  assumes "0 \<notin> set account" and "length digest = 20"
  obtains rest' where "login_parse (login_packet build account clientSeed digest rest) =
    Some (account, clientSeed, digest, rest')" and "reads rest' rest"
proof -
  let ?hd = "[U32 build, U32 0, Str account, U32 0, U32 clientSeed, U32 0, U32 0, U32 0, U64 0]"
  let ?p = "login_packet build account clientSeed digest rest"
  have "reads (buf ?p) (?hd @ map U8 digest @ rest)"
    unfolding login_packet_def by (rule reads_mk_pkt)
  moreover have "list_all field_ok ?hd" using assms(1) by simp
  ultimately obtain b1 where b1: "bb_shr_all (map field_type_of ?hd) (buf ?p) = Inr (?hd, b1)"
    and rd1: "reads b1 (map U8 digest @ rest)" by (rule reads_all)
  obtain b2 where b2: "bb_read 20 b1 = Inr (digest, b2)" and rd2: "reads b2 rest"
    using reads_raw [OF rd1] assms(2) by metis
  have ts: "map field_type_of ?hd = [TU32, TU32, TStr, TU32, TU32, TU32, TU32, TU32, TU64]" by simp
  have "login_parse ?p = Some (account, clientSeed, digest, b2)"
    unfolding login_parse_def b1 [unfolded ts] sum.case prod.case list.case field.case b2
    option.case by (rule refl)
  then show thesis using that rd2 by blast
qed

section \<open>Who gets in\<close>

text \<open>The conditions of the login on the account, the ban list, the realm and the digest.\<close>

definition may_enter :: "auth_env \<Rightarrow> u32 \<Rightarrow> bytes \<Rightarrow> u32 \<Rightarrow> bytes \<Rightarrow> account_row \<Rightarrow> bool" where
  "may_enter env seed account clientSeed digest row \<longleftrightarrow>
     ae_account env account = Some row \<and>
     (ac_locked row = 1 \<longrightarrow> ac_last_ip row = ae_address env) \<and>
     \<not> ae_banned env (ac_id row) (ae_address env) \<and>
     ae_security_limit env \<le> login_security env row \<and>
     auth_digest env account clientSeed seed row = digest"

lemma login_check_Inr:
  "(\<exists>ws. login_check env seed account clientSeed digest = (ws, Inr row)) \<longleftrightarrow>
   may_enter env seed account clientSeed digest row"
  by (auto simp: login_check_def may_enter_def not_less split: option.splits)

definition addons_throw :: "auth_env \<Rightarrow> bytebuf \<Rightarrow> (bytes \<times> u32) list \<Rightarrow> bool" where
  "addons_throw env rest known \<longleftrightarrow> (\<exists>e. fst (ReadAddonsInfo (ae_uncompress env) rest known) = AddonsThrow e)"

lemma login_accept_auth:
  assumes "login_accept upd keyed hmac env account row rest s = (r, s')" and "\<not> clk_authenticated s"
  shows "clk_authenticated s' \<longleftrightarrow> \<not> addons_throw env rest (clk_knownAddons s)"
    and "clk_authenticated s' \<Longrightarrow> r = 0 \<and> sk_crypt s' =
      AuthCrypt_Init upd keyed hmac (ae_key_bytes env (ac_sessionkey row)) (sk_crypt s) \<and>
      (\<exists>sess. clk_session s' = Some sess \<and> ns_id sess = ac_id row \<and>
         ns_security sess = login_security env row \<and> ucast (ns_expansion sess) \<le> ae_expansion env)"
proof -
  obtain ex as known where ex: "ReadAddonsInfo (ae_uncompress env) rest (clk_knownAddons s) = (ex, as, known)"
    by (cases "ReadAddonsInfo (ae_uncompress env) rest (clk_knownAddons s)")
  have acc: "(r, s') = login_accept upd keyed hmac env account row rest s" using assms(1) by simp
  have lim: "ucast (login_expansion env row) \<le> ae_expansion env"
    by (auto simp: login_expansion_def word_le_nat_alt word_less_nat_alt unsigned_ucast_eq not_less)
  show "clk_authenticated s' \<longleftrightarrow> \<not> addons_throw env rest (clk_knownAddons s)"
    using acc assms(2) by (cases ex) (simp_all add: login_accept_def ex addons_throw_def)
  show "clk_authenticated s' \<Longrightarrow> r = 0 \<and> sk_crypt s' =
      AuthCrypt_Init upd keyed hmac (ae_key_bytes env (ac_sessionkey row)) (sk_crypt s) \<and>
      (\<exists>sess. clk_session s' = Some sess \<and> ns_id sess = ac_id row \<and>
         ns_security sess = login_security env row \<and> ucast (ns_expansion sess) \<le> ae_expansion env)"
    using acc assms(2) lim by (cases ex) (simp_all add: login_accept_def ex)
qed


lemma processIncoming_login:
  assumes "ClientSocket_processIncoming upd keyed hmac q_full wake env p s = (r, s')" and "\<not> clk_authenticated s"
    and "clk_authenticated s'"
  obtains account clientSeed digest rest row t
  where "\<not> sk_closing s" "opcode p = CMSG_AUTH_SESSION" "\<not> ae_closed env"
    "login_parse p = Some (account, clientSeed, digest, rest)"
    "may_enter env (clk_Seed s) account clientSeed digest row"
    "\<not> addons_throw env rest (clk_knownAddons s)"
    "r = 0 \<and> sk_crypt s' = AuthCrypt_Init upd keyed hmac (ae_key_bytes env (ac_sessionkey row)) (sk_crypt s) \<and>
      (\<exists>sess. clk_session s' = Some sess \<and> ns_id sess = ac_id row \<and>
         ns_security sess = login_security env row \<and> ucast (ns_expansion sess) \<le> ae_expansion env)"
proof -
  have ping: "ClientSocket_handlePing upd q_full wake env p s \<noteq> (r, s')"
    using handlePing_frame assms(2,3) by blast
  have rej: "send_reject upd q_full wake q (s\<lparr>clk_db := d\<rparr>) \<noteq> (r, s')" for q d
    using send_reject_frame [of upd q_full wake q "s\<lparr>clk_db := d\<rparr>" r s'] client_more(1) [of s' "s\<lparr>clk_db := d\<rparr>"] assms(2,3)
    by auto
  have rej0: "send_reject upd q_full wake q s \<noteq> (r, s')" for q
    using rej [of q "clk_db s"] by simp
  have au: "ClientSocket_handleAuthSession upd keyed hmac q_full wake env p s = (r, s')"
    and op: "\<not> sk_closing s" "opcode p = CMSG_AUTH_SESSION"
    using assms ping by (auto simp: ClientSocket_processIncoming_def Let_def split: if_splits)
  from au rej0 assms(2,3) obtain account clientSeed digest rest
    where cl: "\<not> ae_closed env" and lp: "login_parse p = Some (account, clientSeed, digest, rest)"
    by (cases "login_parse p") (auto simp: ClientSocket_handleAuthSession_def split: if_splits)
  obtain ws res where chk: "login_check env (clk_Seed s) account clientSeed digest = (ws, res)" by fastforce
  obtain row where row: "res = Inr row"
    using au rej by (cases res) (auto simp: ClientSocket_handleAuthSession_def cl lp chk)
  have acc: "login_accept upd keyed hmac env account row rest (s\<lparr>clk_db := clk_db s @ ws\<rparr>) = (r, s')"
    using au by (simp add: ClientSocket_handleAuthSession_def cl lp chk row)
  have "may_enter env (clk_Seed s) account clientSeed digest row"
    using chk row login_check_Inr by blast
  with op cl lp that login_accept_auth [OF acc] assms(2,3) show thesis by simp
qed

lemma login_opens:
  assumes "ClientSocket_processIncoming upd keyed hmac q_full wake env p s = (r, s')" and "\<not> clk_authenticated s"
    and "\<not> sk_closing s \<and> opcode p = CMSG_AUTH_SESSION \<and> \<not> ae_closed env \<and>
      (\<exists>account clientSeed digest rest row. login_parse p = Some (account, clientSeed, digest, rest) \<and>
         may_enter env (clk_Seed s) account clientSeed digest row \<and>
         \<not> addons_throw env rest (clk_knownAddons s))"
  shows "clk_authenticated s'"
proof -
  from assms(3) obtain account clientSeed digest rest row
    where e: "\<not> sk_closing s" "opcode p = CMSG_AUTH_SESSION" "\<not> ae_closed env"
      "login_parse p = Some (account, clientSeed, digest, rest)" "\<not> addons_throw env rest (clk_knownAddons s)"
      and "may_enter env (clk_Seed s) account clientSeed digest row" by blast
  then obtain ws where ws: "login_check env (clk_Seed s) account clientSeed digest = (ws, Inr row)"
    using login_check_Inr by blast
  have "CMSG_AUTH_SESSION \<noteq> CMSG_PING" by (simp add: opcode_defs)
  then have "login_accept upd keyed hmac env account row rest (s\<lparr>clk_db := clk_db s @ ws\<rparr>) = (r, s')"
    using assms(1,2) e by (simp add: ClientSocket_processIncoming_def ClientSocket_handleAuthSession_def ws)
  with login_accept_auth(1) [OF this] e(5) assms(2) show ?thesis by simp
qed

text \<open>
  C20: An unauthenticated client becomes authenticated by exactly one kind of packet: a
  \<open>CMSG_AUTH_SESSION\<close> that can be read, on an open socket of an open realm, whose account exists,
  is not locked to another address, not banned and of sufficient security, whose digest signs the
  seed this socket sent, and whose addon list does not run past its end. Then the packet is answered
  0, the key stream starts from the account's session key and the session is the account's, its
  expansion at most the realm's.
\<close>

theorem ClientSocket_login_iff:
  assumes "ClientSocket_processIncoming upd keyed hmac q_full wake env p s = (r, s')" and "\<not> clk_authenticated s"
  shows "(clk_authenticated s' \<longleftrightarrow>
      \<not> sk_closing s \<and> opcode p = CMSG_AUTH_SESSION \<and> \<not> ae_closed env \<and>
      (\<exists>account clientSeed digest rest row. login_parse p = Some (account, clientSeed, digest, rest) \<and>
         may_enter env (clk_Seed s) account clientSeed digest row \<and>
         \<not> addons_throw env rest (clk_knownAddons s))) \<and>
    (clk_authenticated s' \<longrightarrow> r = 0 \<and>
      (\<exists>account clientSeed digest rest row sess. login_parse p = Some (account, clientSeed, digest, rest) \<and>
         ae_account env account = Some row \<and> clk_session s' = Some sess \<and> ns_id sess = ac_id row \<and>
         ae_security_limit env \<le> ns_security sess \<and> ucast (ns_expansion sess) \<le> ae_expansion env \<and>
         sk_crypt s' = AuthCrypt_Init upd keyed hmac (ae_key_bytes env (ac_sessionkey row)) (sk_crypt s)))"
proof (intro conjI impI)
  show "clk_authenticated s' \<longleftrightarrow>
      \<not> sk_closing s \<and> opcode p = CMSG_AUTH_SESSION \<and> \<not> ae_closed env \<and>
      (\<exists>account clientSeed digest rest row. login_parse p = Some (account, clientSeed, digest, rest) \<and>
         may_enter env (clk_Seed s) account clientSeed digest row \<and>
         \<not> addons_throw env rest (clk_knownAddons s))" (is "_ \<longleftrightarrow> ?enter")
  proof
    assume "clk_authenticated s'"
    then show ?enter by (rule processIncoming_login [OF assms]) blast
  next
    assume ?enter
    then show "clk_authenticated s'" using login_opens [OF assms] by blast
  qed
next
  assume "clk_authenticated s'"
  then obtain account clientSeed digest rest row sess
    where login: "login_parse p = Some (account, clientSeed, digest, rest)"
      and me: "may_enter env (clk_Seed s) account clientSeed digest row" and r: "r = 0"
      and sess: "clk_session s' = Some sess" "ns_id sess = ac_id row" "ns_security sess = login_security env row"
        "ucast (ns_expansion sess) \<le> ae_expansion env"
        "sk_crypt s' = AuthCrypt_Init upd keyed hmac (ae_key_bytes env (ac_sessionkey row)) (sk_crypt s)"
    by (rule processIncoming_login [OF assms]) blast
  show "r = 0" by (rule r)
  from login me sess show "\<exists>account clientSeed digest rest row sess.
      login_parse p = Some (account, clientSeed, digest, rest) \<and>
      ae_account env account = Some row \<and> clk_session s' = Some sess \<and> ns_id sess = ac_id row \<and>
      ae_security_limit env \<le> ns_security sess \<and> ucast (ns_expansion sess) \<le> ae_expansion env \<and>
      sk_crypt s' = AuthCrypt_Init upd keyed hmac (ae_key_bytes env (ac_sessionkey row)) (sk_crypt s)"
    by (intro exI conjI) (auto simp: may_enter_def)
qed

section \<open>The addon list\<close>

text \<open>What the client lists, each addon with a number nobody uses, and how the manager learns them.\<close>

definition addon_fields :: "addon_info \<times> u32 \<Rightarrow> field list" where
  "addon_fields = (\<lambda>(a, unk). [Str (ai_Name a), U8 (ai_Enabled a), U32 (ai_CRC a), U32 unk])"

text \<open>An addon as \<open>ReadAddonsInfo\<close> makes it from the list.\<close>

definition addon_ok :: "addon_info \<Rightarrow> bool" where
  "addon_ok a \<longleftrightarrow> 0 \<notin> set (ai_Name a) \<and> ai_State a = 2 \<and> ai_UsePublicKeyOrCRC a"

definition learn_addon :: "addon_info \<Rightarrow> (bytes \<times> u32) list \<Rightarrow> (bytes \<times> u32) list" where
  "learn_addon a known = (if ai_Name a \<in> fst ` set known then known else SaveAddon a known)"

lemma learn_addon_case:
  "(case GetAddonInfo (ai_Name a) known of Some _ \<Rightarrow> known | None \<Rightarrow> SaveAddon a known) = learn_addon a known"
  by (simp add: learn_addon_def GetAddonInfo_def map_of_eq_None_iff split: option.split)
    (metis map_of_eq_None_iff option.distinct(1))

lemma read_addons_fields:
  assumes "reads b (concat (map addon_fields xs) @ fs)" and "\<forall>(a, _) \<in> set xs. addon_ok a"
  obtains b' where "read_addons (length xs) b as known =
      (AddonsDone, b', as @ map fst xs, fold learn_addon (map fst xs) known)" and "reads b' fs"
  using assms
proof (induction xs arbitrary: b as known thesis)
  case Nil
  then show ?case by simp
next
  case (Cons x xs)
  obtain a unk where x: "x = (a, unk)" by fastforce
  let ?f = "[Str (ai_Name a), U8 (ai_Enabled a), U32 (ai_CRC a), U32 unk]"
  have rd: "reads b (?f @ concat (map addon_fields xs) @ fs)"
    using Cons.prems(2) by (simp add: x addon_fields_def)
  have ok: "list_all field_ok ?f" using Cons.prems(3) by (simp add: x addon_ok_def)
  obtain b1 where b1: "bb_shr_all (map field_type_of ?f) b = Inr (?f, b1)"
    and rd1: "reads b1 (concat (map addon_fields xs) @ fs)" by (rule reads_all [OF rd ok])
  have ts: "map field_type_of ?f = [TStr, TU8, TU32, TU32]" by simp
  have len: "(rpos b + 1 > bb_size b) = False"
  proof -
    have "length (unread b) = bb_size b - rpos b" by (simp add: unread_def bb_size_def)
    moreover have "unread b \<noteq> []" using rd by (simp add: reads_def fields_bytes_def)
    ultimately show ?thesis by (cases "unread b") auto
  qed
  have names: "\<forall>(a, _) \<in> set xs. addon_ok a" using Cons.prems(3) by simp
  obtain b' where b': "read_addons (length xs) b1 (as @ [a]) (learn_addon a known) =
      (AddonsDone, b', (as @ [a]) @ map fst xs, fold learn_addon (map fst xs) (learn_addon a known))"
    and rd': "reads b' fs"
    using Cons.IH [of b1 "as @ [a]" "learn_addon a known"] rd1 names by blast
  have a: "\<lparr>ai_Name = ai_Name a, ai_Enabled = ai_Enabled a, ai_CRC = ai_CRC a, ai_State = 2,
      ai_UsePublicKeyOrCRC = True\<rparr> = a" using Cons.prems(3) by (simp add: x addon_ok_def)
  have "read_addons (length (x # xs)) b as known =
      (AddonsDone, b', as @ map fst (x # xs), fold learn_addon (map fst (x # xs)) known)"
    unfolding list.size add_Suc_right add_0_right read_addons.simps(2) len if_False b1 [unfolded ts] sum.case prod.case
      list.case field.case Let_def a learn_addon_case b'
    by (simp add: x)
  with rd' Cons.prems(1) show ?case by blast
qed


text \<open>The rest of the login packet: the unpacked size, and the packed list.\<close>

definition addon_info_of :: "(addon_info \<times> u32) list \<Rightarrow> u32 \<Rightarrow> field list" where
  "addon_info_of xs t = U32 (word_of_nat (length xs)) # concat (map addon_fields xs) @ [U32 t]"

lemma length_addons: "length xs \<le> length (fields_bytes (concat (map addon_fields xs)))"
  by (induction xs) (simp_all add: fields_bytes_append addon_fields_def fields_bytes_def case_prod_beta le_SucI
      trans_le_add2)

lemma ReadAddonsInfo_lists:
  assumes rd: "reads b (U32 sz # map U8 z)" and names: "\<forall>(a, _) \<in> set xs. addon_ok a"
    and unz: "uncompress (unat sz) z = Some (fields_bytes (addon_info_of xs t))"
    and sz: "length (fields_bytes (addon_info_of xs t)) = unat sz" "sz \<le> 0xFFFFF"
  shows "ReadAddonsInfo uncompress b known = (AddonsDone, map fst xs, fold learn_addon (map fst xs) known)"
proof -
  obtain b1 where b1: "bb_shr TU32 b = Inr (U32 sz, b1)" and rd1: "reads b1 (map U8 z)"
    using reads_one [of b "U32 sz" "map U8 z", OF rd] by auto
  have z: "drop (rpos b1) (storage b1) = z" using rd1 by (simp add: reads_def unread_def fields_bytes_U8)
  have four: "(rpos b + 4 > bb_size b) = False"
  proof -
    have "length (unread b) = bb_size b - rpos b" by (simp add: unread_def bb_size_def)
    moreover have "4 \<le> length (unread b)" using rd by (simp add: reads_def fields_bytes_def)
    ultimately show ?thesis by simp
  qed
  let ?out = "fields_bytes (addon_info_of xs t)"
  let ?info = "(bb_resize (unat sz) bb_new)
    \<lparr>storage := take (unat sz) ?out @ drop (length ?out) (storage (bb_resize (unat sz) bb_new))\<rparr>"
  have "4 \<le> length ?out" by (simp add: addon_info_of_def fields_bytes_def)
  then have nz: "(sz = 0) = False" and small: "(sz > 0xFFFFF) = False" using sz by auto
  have info: "reads ?info (addon_info_of xs t)"
    using sz(1) by (simp add: reads_def unread_def bb_resize_new bb_size_def)
  have fs: "U32 (word_of_nat (length xs)) # concat (map addon_fields xs) @ [U32 t] = addon_info_of xs t"
    by (simp add: addon_info_of_def)
  have info': "reads ?info (U32 (word_of_nat (length xs)) # concat (map addon_fields xs) @ [U32 t])"
    using info by (simp only: fs)
  have count: "unat (word_of_nat (length xs) :: u32) = length xs"
  proof -
    have "length xs \<le> unat sz"
      using sz(1) length_addons [of xs] by (simp add: addon_info_of_def fields_bytes_append fields_bytes_def)
    also have "\<dots> \<le> 0xFFFFF" using sz(2) by (simp add: word_le_nat_alt)
    finally show ?thesis by (simp add: unsigned_of_nat take_bit_nat_eq_self_iff)
  qed
  obtain i1 where i1: "bb_shr TU32 ?info = Inr (U32 (word_of_nat (length xs)), i1)"
    and rdi: "reads i1 (concat (map addon_fields xs) @ [U32 t])"
    using reads_one [of ?info _ "concat (map addon_fields xs) @ [U32 t]", OF info'] by auto
  obtain i2 where i2: "read_addons (length xs) i1 [] known =
      (AddonsDone, i2, map fst xs, fold learn_addon (map fst xs) known)" and rd2: "reads i2 [U32 t]"
    using read_addons_fields [OF rdi names, of "[]" known] by auto
  obtain i3 where i3: "bb_shr TU32 i2 = Inr (U32 t, i3)"
    using reads_one [of i2 "U32 t" "[]", OF rd2] by (auto simp del: bb_shr.simps)
  show ?thesis
    unfolding ReadAddonsInfo_def four if_False b1 sum.case prod.case field.case nz small z unz option.case Let_def i1
      count i2 addon_exit.case i3 by (rule refl)
qed


lemma ReadAddonsInfo_result:
  "ReadAddonsInfo uncompress b known = (ex, as, known') \<Longrightarrow> \<exists>ys. known' = fold learn_addon ys known"
proof -
  have loop: "\<exists>ys. known' = fold learn_addon ys known"
    if "read_addons n b as known = (ex, b', as', known')" for n b as known ex b' as' known'
    using that
  proof (induction n b as known rule: read_addons.induct)
    case (1 b as known)
    then have "known' = fold learn_addon [] known" by simp
    then show ?case by blast
  next
    case (2 n b as known)
    show ?case
    proof (cases "\<exists>nam en crc unk b1. rpos b + 1 \<le> bb_size b \<and>
        bb_shr_all [TStr, TU8, TU32, TU32] b = Inr ([Str nam, U8 en, U32 crc, U32 unk], b1)")
      case True
      then obtain nam en crc unk b1 where len: "(rpos b + 1 > bb_size b) = False"
        and rd: "bb_shr_all [TStr, TU8, TU32, TU32] b = Inr ([Str nam, U8 en, U32 crc, U32 unk], b1)" by fastforce
      let ?a = "\<lparr>ai_Name = nam, ai_Enabled = en, ai_CRC = crc, ai_State = 2, ai_UsePublicKeyOrCRC = True\<rparr>"
      have rec: "read_addons n b1 (as @ [?a]) (learn_addon ?a known) = (ex, b', as', known')"
        using 2(2) unfolding read_addons.simps(2) len if_False rd sum.case prod.case list.case field.case Let_def
        using learn_addon_case [of ?a known] by simp
      have kn: "(case GetAddonInfo nam known of None \<Rightarrow> SaveAddon ?a known | Some _ \<Rightarrow> known) = learn_addon ?a known"
        using learn_addon_case [of ?a known] by simp
      have "\<exists>ys. known' = fold learn_addon ys (learn_addon ?a known)"
        using "2.IH" [OF _ rd refl refl refl refl refl refl refl refl refl refl refl refl] len rec kn by simp
      then obtain ys where "known' = fold learn_addon (?a # ys) known" by auto
      then show ?thesis by blast
    next
      case False
      then have "read_addons (Suc n) b as known = (ex, b', as', known') \<Longrightarrow> known' = known"
        unfolding read_addons.simps(2)
        by (auto split: if_splits sum.splits prod.splits list.splits field.splits simp del: bb_shr_all.simps)
      with 2(2) have "known' = fold learn_addon [] known" by simp
      then show ?thesis by blast
    qed
  qed
  assume "ReadAddonsInfo uncompress b known = (ex, as, known')"
  then show ?thesis
    by (auto simp: ReadAddonsInfo_def Let_def simp del: bb_shr.simps
        intro: exI [of _ "[]"] dest!: loop
        split: if_splits sum.splits prod.splits option.splits field.splits addon_exit.splits)
qed

section \<open>Properties of the login\<close>

lemma login_accept_known:
  assumes "login_accept upd keyed hmac env account row rest s = (r, s')"
  shows "\<exists>ys. clk_knownAddons s' = fold learn_addon ys (clk_knownAddons s)"
proof -
  obtain ex as known where rd: "ReadAddonsInfo (ae_uncompress env) rest (clk_knownAddons s) = (ex, as, known)"
    using prod_cases3 by blast
  have "clk_knownAddons s' = known" using assms by (cases ex) (auto simp: login_accept_def rd)
  with ReadAddonsInfo_result [OF rd] show ?thesis by blast
qed

lemma learn_addons_keep:
  "distinct (map fst known) \<Longrightarrow> distinct (map fst (fold learn_addon ys known)) \<and>
     map_of known \<subseteq>\<^sub>m map_of (fold learn_addon ys known)"
proof (induction ys arbitrary: known)
  case (Cons a ys)
  have "distinct (map fst (learn_addon a known)) \<and> map_of known \<subseteq>\<^sub>m map_of (learn_addon a known)"
    using Cons.prems by (auto simp: learn_addon_def SaveAddon_def map_le_def map_add_def domIff split: option.split)
  with Cons.IH [of "learn_addon a known"] show ?case by (auto intro: map_le_trans)
qed simp

lemma processIncoming_known:
  assumes "ClientSocket_processIncoming upd keyed hmac q_full wake env p s = (r, s')"
    and "clk_knownAddons s' \<noteq> clk_knownAddons s"
  obtains account row rest d where "login_accept upd keyed hmac env account row rest (s\<lparr>clk_db := d\<rparr>) = (r, s')"
proof -
  have rej: "send_reject upd q_full wake q (s\<lparr>clk_db := d\<rparr>) \<noteq> (r, s')" for q d
    using send_reject_frame [of upd q_full wake q "s\<lparr>clk_db := d\<rparr>" r s'] client_more(5) [of s' "s\<lparr>clk_db := d\<rparr>"] assms(2)
    by auto
  have rej0: "send_reject upd q_full wake q s \<noteq> (r, s')" for q
    using rej [of q "clk_db s"] by simp
  have "ClientSocket_handleAuthSession upd keyed hmac q_full wake env p s = (r, s')"
    using assms handlePing_frame by (fastforce simp: ClientSocket_processIncoming_def Let_def split: if_splits)
  with rej rej0 assms(2) that show thesis
    by (fastforce simp: ClientSocket_handleAuthSession_def split: if_splits option.splits prod.splits sum.splits)
qed

text \<open>
  Whatever packet a client sends, well-formed or not, the addon manager still has one checksum per
  addon name and keeps the checksum it learned first.
\<close>

theorem known_addons_first_wins:
  assumes "ClientSocket_processIncoming upd keyed hmac q_full wake env p s = (r, s')"
    and "distinct (map fst (clk_knownAddons s))"
  shows "distinct (map fst (clk_knownAddons s')) \<and> map_of (clk_knownAddons s) \<subseteq>\<^sub>m map_of (clk_knownAddons s')"
proof (cases "clk_knownAddons s' = clk_knownAddons s")
  case False
  obtain account row rest d where acc: "login_accept upd keyed hmac env account row rest (s\<lparr>clk_db := d\<rparr>) = (r, s')"
    using processIncoming_known [OF assms(1)] False by blast
  then show ?thesis using login_accept_known [OF acc] learn_addons_keep [OF assms(2)] by auto
qed (use assms(2) in simp)

text \<open>
  C21: A client that signs the seed of this socket with the key of an account that may enter is logged
  in by its first packet: the answer is 0, the session is the account's and holds the addons the
  packed list named, in its order, and the names the manager did not know are learned.
\<close>

theorem honest_client_logs_in:
  assumes "\<not> sk_closing s" "\<not> clk_authenticated s" "\<not> ae_closed env"
    and "0 \<notin> set account" "length digest = 20" "may_enter env (clk_Seed s) account clientSeed digest row"
    and "\<forall>(a, _) \<in> set xs. addon_ok a"
    and "ae_uncompress env (unat sz) z = Some (fields_bytes (addon_info_of xs t))"
    and "length (fields_bytes (addon_info_of xs t)) = unat sz" "sz \<le> 0xFFFFF"
  shows "\<exists>s' sess. ClientSocket_processIncoming upd keyed hmac q_full wake env
      (login_packet build account clientSeed digest (U32 sz # map U8 z)) s = (0, s') \<and>
    clk_authenticated s' \<and> clk_session s' = Some sess \<and> ns_id sess = ac_id row \<and> ns_addons sess = map fst xs \<and>
    clk_knownAddons s' = fold learn_addon (map fst xs) (clk_knownAddons s)"
proof -
  let ?p = "login_packet build account clientSeed digest (U32 sz # map U8 z)"
  obtain rest where lp: "login_parse ?p = Some (account, clientSeed, digest, rest)"
    and rd: "reads rest (U32 sz # map U8 z)" using login_parse_packet [OF assms(4,5)] by metis
  obtain ws where ws: "login_check env (clk_Seed s) account clientSeed digest = (ws, Inr row)"
    using assms(6) login_check_Inr by blast
  note ra = ReadAddonsInfo_lists [of rest sz z xs "ae_uncompress env" t, OF rd assms(7-10)]
  have op: "opcode ?p = CMSG_AUTH_SESSION" "CMSG_AUTH_SESSION \<noteq> CMSG_PING"
    by (simp_all add: login_packet_def opcode_defs)
  have "ClientSocket_processIncoming upd keyed hmac q_full wake env ?p s =
      login_accept upd keyed hmac env account row rest (s\<lparr>clk_db := clk_db s @ ws\<rparr>)"
    using assms(1-3) op by (simp add: ClientSocket_processIncoming_def ClientSocket_handleAuthSession_def lp ws)
  then show ?thesis by (simp add: login_accept_def ra)
qed

text \<open>
  A client whose security level is below the realm's limit is refused without the reason the code
  prepares: what leaves is an empty packet with opcode 0, not \<open>SMSG_AUTH_RESPONSE\<close>.
\<close>

theorem low_security_gets_no_reason:
  assumes "\<not> sk_closing s" "\<not> clk_authenticated s" "\<not> ae_closed env" "opcode p = CMSG_AUTH_SESSION"
    and "login_parse p = Some (account, clientSeed, digest, rest)" "ae_account env account = Some row"
    and "ac_locked row \<noteq> 1" "\<not> ae_banned env (ac_id row) (ae_address env)"
    and "login_security env row < ae_security_limit env"
    and "\<not> crypt_initialized (sk_crypt s)" "out_ok s" "\<not> q_full (sk_msg_queue s)"
  shows "\<exists>s'. ClientSocket_processIncoming upd keyed hmac q_full wake env p s = (-1, s') \<and>
    out_pending s' = out_pending s @ [0, 2, 0, 0]"
proof -
  obtain ws where ws: "login_check env (clk_Seed s) account clientSeed digest = (ws, Inl (pkt_new 0))"
    using assms(6-9) by (simp add: login_check_def)
  let ?s = "s\<lparr>clk_db := clk_db s @ ws\<rparr>"
  obtain r1 s1 where snd: "ClientSocket_sendPacket upd q_full (pkt_new 0) ?s = (r1, s1)" by fastforce
  have blk: "blizzard_block upd ?s (pkt_new 0) = [0, 2, 0, 0]"
  proof -
    have "fst (AuthCrypt_EncryptSend upd bs (sk_crypt s)) = bs" for bs
      using assms(10) by (simp add: AuthCrypt_EncryptSend_def)
    moreover have "bsh_header (Blizzard_ServerPktHeader (word_of_nat (bb_size (buf (pkt_new 0)) + 2)) 0) = [0, 2, 0, 0]"
      by code_simp
    ultimately show ?thesis by (simp add: blizzard_block_def pkt_new_def bb_new_def)
  qed
  have "r1 = 0" using snd assms(12) by (auto simp: ClientSocket_sendPacket_def Let_def sock_put_def split: prod.splits if_splits)
  moreover have "out_pending s1 = out_pending ?s @ (if r1 < 0 then [] else [0, 2, 0, 0])"
    using ClientSocket_sends [OF snd] assms(11) unfolding blk by (simp add: out_ok_def)
  ultimately have "out_pending s1 = out_pending s @ [0, 2, 0, 0]" by (simp add: out_pending_def)
  moreover have "ClientSocket_processIncoming upd keyed hmac q_full wake env p s = (-1, s1)"
    using assms(1-5) snd
    by (simp add: ClientSocket_processIncoming_def ClientSocket_handleAuthSession_def ws send_reject_def
        Socket_SendPacket_def opcode_defs split: if_splits)
  ultimately show ?thesis by blast
qed

section \<open>Concrete logins\<close>

definition fresh_client :: "unit client_socket" where
  "fresh_client = \<lparr>sk_header = mb_new Blizzard_ClientPktHeader_sizeof, sk_recvWPct = None, sk_recvPct_cap = 0,
     sk_recvPct_wr = 0, sk_closing = False, sk_single = lq_new, sk_multi = lq_new,
     sk_outBuffer = mb_new 65536, sk_msg_queue = [], sk_crypt = AuthCrypt_new (),
     clk_authenticated = False, clk_Seed = 5, clk_LastPingTime = 0, clk_OverSpeedPings = 0, clk_latency = 0,
     clk_lastActionTime = 0, clk_session = None, clk_db = [], clk_knownAddons = []\<rparr>"

text \<open>A realm with the one account \<open>AB\<close>, whose digest is the mirrored end of what is signed.\<close>

definition example_row :: account_row where
  "example_row = \<lparr>ac_id = 7, ac_sessionkey = [0x31, 0x32], ac_last_ip = [0x3A], ac_locked = 0, ac_expansion = 2,
     ac_mutetime = -60, ac_locale = 3, ac_recruiter = 0, ac_os = [0x57, 0x69, 0x6E]\<rparr>"

definition example_realm :: "u32 \<Rightarrow> auth_env" where
  "example_realm limit = \<lparr>ae_closed = False, ae_account = (\<lambda>a. if a = [0x41, 0x42] then Some example_row else None),
     ae_expansion = 1, ae_address = [0x3A, 0x31], ae_gmlevel = (\<lambda>_. Some 1), ae_banned = (\<lambda>_ _. False),
     ae_security_limit = limit, ae_sha1 = (\<lambda>bs. take 20 (rev bs @ replicate 20 0)), ae_key_bytes = (\<lambda>k. k),
     ae_is_recruiter = (\<lambda>_. False), ae_uncompress = (\<lambda>n z. Some z), ae_time = 1000, ae_gettimeofday = 0,
     ae_max_pings = 3\<rparr>"

definition example_addons :: "(addon_info \<times> u32) list" where
  "example_addons = [(\<lparr>ai_Name = [0x58], ai_Enabled = 1, ai_CRC = 0x4C1C776D, ai_State = 2, ai_UsePublicKeyOrCRC = True\<rparr>, 0)]"

abbreviation plain_upd0 :: "unit \<Rightarrow> bytes \<Rightarrow> bytes \<times> unit" where
  "plain_upd0 \<equiv> \<lambda>c bs. (bs, c)"

abbreviation "example_digest \<equiv> auth_digest (example_realm 1) [0x41, 0x42] 9 5 example_row"

abbreviation "example_login \<equiv>
  login_packet 12340 [0x41, 0x42] 9 example_digest (U32 19 # map U8 (fields_bytes (addon_info_of example_addons 8)))"

lemma example_addon_bytes: "length (fields_bytes (addon_info_of example_addons 8)) = 19"
  by (simp add: addon_info_of_def example_addons_def addon_fields_def fields_bytes_def)

lemma fresh_client_sel [simp]:
  "\<not> sk_closing fresh_client" "\<not> clk_authenticated fresh_client" "clk_Seed fresh_client = 5"
  "clk_knownAddons fresh_client = []" "\<not> crypt_initialized (sk_crypt fresh_client)" "out_ok fresh_client"
  "out_pending fresh_client = []"
  by (simp_all add: fresh_client_def AuthCrypt_new_def out_ok_def mb_new_def out_pending_def mb_unread_def)

lemma example_may_enter: "may_enter (example_realm 1) 5 [0x41, 0x42] 9 example_digest example_row"
  by (simp add: may_enter_def example_realm_def example_row_def login_security_def)

lemma example_digest_length: "length example_digest = 20"
  by (simp add: auth_digest_def example_realm_def example_row_def)

theorem honest_client_logs_in_witness:
  "\<exists>s' sess. ClientSocket_processIncoming plain_upd0 (\<lambda>_ c. c) (\<lambda>_ _. []) (\<lambda>_. False) True (example_realm 1)
      example_login fresh_client = (0, s') \<and> clk_session s' = Some sess \<and> ns_id sess = 7 \<and>
      ns_addons sess = [\<lparr>ai_Name = [0x58], ai_Enabled = 1, ai_CRC = 0x4C1C776D, ai_State = 2, ai_UsePublicKeyOrCRC = True\<rparr>]"
proof -
  have names: "\<forall>(a, _) \<in> set example_addons. addon_ok a" by (simp add: example_addons_def addon_ok_def)
  have unz: "ae_uncompress (example_realm 1) (unat (19 :: u32)) (fields_bytes (addon_info_of example_addons 8)) =
      Some (fields_bytes (addon_info_of example_addons 8))" by (simp add: example_realm_def)
  from honest_client_logs_in [of fresh_client "example_realm 1" "[0x41, 0x42]" example_digest 9 example_row
      example_addons 19 "fields_bytes (addon_info_of example_addons 8)" 8 plain_upd0 "\<lambda>_ c. c" "\<lambda>_ _. []" "\<lambda>_. False" True 12340]
    example_may_enter example_digest_length names unz example_addon_bytes
  show ?thesis by (auto simp: example_realm_def example_row_def example_addons_def)
qed

theorem ClientSocket_login_iff_witness:
  "\<not> clk_authenticated (snd (ClientSocket_processIncoming plain_upd0 (\<lambda>_ c. c) (\<lambda>_ _. []) (\<lambda>_. False) True
     (example_realm 1) (mk_pkt CMSG_AUTH_SESSION [U32 12340]) fresh_client))"
proof -
  have "login_parse (mk_pkt CMSG_AUTH_SESSION [U32 12340]) = None"
    by (simp add: login_parse_def mk_pkt_def fields_bytes_def bb_size_def bb_read_def)
  then show ?thesis
    using ClientSocket_login_iff [OF prod.collapse [symmetric] fresh_client_sel(2), of plain_upd0 "\<lambda>_ c. c" "\<lambda>_ _. []"
      "\<lambda>_. False" True "example_realm 1" "mk_pkt CMSG_AUTH_SESSION [U32 12340]"] by simp
qed

theorem known_addons_first_wins_witness:
  "distinct (map fst (clk_knownAddons (snd (ClientSocket_processIncoming plain_upd0 (\<lambda>_ c. c) (\<lambda>_ _. []) (\<lambda>_. False) True
     (example_realm 1) example_login fresh_client))))"
  using known_addons_first_wins [where s = fresh_client, OF prod.collapse [symmetric]] by simp

theorem low_security_gets_no_reason_witness:
  "\<exists>s'. ClientSocket_processIncoming plain_upd0 (\<lambda>_ c. c) (\<lambda>_ _. []) (\<lambda>_. False) True (example_realm 2)
      example_login fresh_client = (-1, s') \<and> out_pending s' = [0, 2, 0, 0]"
proof -
  obtain rest where lp: "login_parse example_login = Some ([0x41, 0x42], 9, example_digest, rest)"
    by (rule login_parse_packet [OF _ example_digest_length]) auto
  have "\<exists>s'. ClientSocket_processIncoming plain_upd0 (\<lambda>_ c. c) (\<lambda>_ _. []) (\<lambda>_. False) True (example_realm 2)
      example_login fresh_client = (-1, s') \<and> out_pending s' = out_pending fresh_client @ [0, 2, 0, 0]"
    by (rule low_security_gets_no_reason [OF _ _ _ _ lp, where row = example_row])
      (simp_all add: example_realm_def example_row_def login_packet_def login_security_def)
  then show ?thesis by simp
qed

end
