(* ===== verification/ClientSession.thy ===== *)
theory ClientSession
  imports ClientAuth Routing OpcodeTable
begin

text \<open>
  A game client's session at the proxy: \<open>shade/Server/Client/ClientSession.cpp\<close>, the login and logout
  handlers of \<open>Character/CharacterHandler.cpp\<close>, the packets a node sends to it in
  \<open>Handler/MiscHandler.cpp\<close> and \<open>Protocol/AuthHandler.cpp\<close>. The session joins the client's socket
  with the socket to the node that runs its map: it passes packets through by the opcode table,
  reconnects a lost node and moves between nodes. Its state is threaded with the routing helper's.

  Handlers that belong to other components (chat, guilds, channels, tickets, the caches), the
  anticheat module and the answers of the database are arguments collected in a record. \<open>None\<close> as a
  result is a call through a null pointer.
\<close>

section \<open>State\<close>

text \<open>What the session keeps of its character: what the node reports, positions as the bits of floats.\<close>

record player =
  ply_GUID :: u64
  ply_health :: u32
  ply_maxhealth :: u32
  ply_power :: u32
  ply_maxpower :: u32
  ply_powertype :: u32
  ply_deathState :: u32
  ply_position :: "u32 \<times> u32 \<times> u32 \<times> u32"
  ply_GuildId :: u32
  ply_zone :: u32
  ply_area :: u32
  ply_map :: u32

record 'c session =
  ss_accountId :: u32
  ss_security :: u32
  ss_expansion :: u8
  ss_ClientSocket :: "'c client_socket option"
  ss_NodeSocket :: "'c sock option"
  ss_reconnect_timer :: u32
  ss_callback_timer :: u32
  ss_sessionflags :: u32
  ss_nodeId :: u32
  ss_authed :: bool
  ss_inQueue :: bool
  ss_addonsList :: "addon_info list"
  ss_accountData :: "(u32 \<times> bytes) list"
  ss_Tutorials :: "u32 list"
  ss_TutorialsChanged :: bool
  ss_player :: "player option"
  ss_GUID :: u64
  ss_GUIDLow :: u32
  ss_playerLoading :: bool
  ss_allowedChars :: "u32 list"
  ss_loginQuery :: "u64 option"
  ss_warden :: bool

type_synonym 'c sstate = "RoutingHelper \<times> 'c session"

text \<open>The cipher and the queues of the sockets, and whether the reactor accepts a wake-up.\<close>

record 'c net =
  nt_upd :: "'c \<Rightarrow> bytes \<Rightarrow> bytes \<times> 'c"
  nt_full :: "bytes list \<Rightarrow> bool"
  nt_wake :: bool

section \<open>Flags\<close>

definition FLAG_ACCOUNT_RECONNECT :: u32 where "FLAG_ACCOUNT_RECONNECT = 0x001"
definition FLAG_ACCOUNT_WAIT_FOR_OK :: u32 where "FLAG_ACCOUNT_WAIT_FOR_OK = 0x002"
definition FLAG_LOGOUT_REQUEST :: u32 where "FLAG_LOGOUT_REQUEST = 0x004"
definition FLAG_LOGOUT :: u32 where "FLAG_LOGOUT = 0x008"
definition FLAG_TRANSFER_PENDING :: u32 where "FLAG_TRANSFER_PENDING = 0x010"
definition FLAG_FORCE_TELEPORT :: u32 where "FLAG_FORCE_TELEPORT = 0x040"
definition FLAG_INFORMED_SERVER_DOWN :: u32 where "FLAG_INFORMED_SERVER_DOWN = 0x080"
definition FLAG_ACCOUNT_KICKED :: u32 where "FLAG_ACCOUNT_KICKED = 0x100"

lemmas session_flags = FLAG_ACCOUNT_RECONNECT_def FLAG_ACCOUNT_WAIT_FOR_OK_def FLAG_LOGOUT_REQUEST_def
  FLAG_LOGOUT_def FLAG_TRANSFER_PENDING_def FLAG_FORCE_TELEPORT_def FLAG_INFORMED_SERVER_DOWN_def
  FLAG_ACCOUNT_KICKED_def

unbundle bit_operations_syntax

definition HasFlag :: "u32 \<Rightarrow> 'c session \<Rightarrow> bool" where
  "HasFlag flag ss \<longleftrightarrow> (ss_sessionflags ss AND flag) \<noteq> 0"

definition SetFlag :: "u32 \<Rightarrow> 'c session \<Rightarrow> 'c session" where
  "SetFlag newFlag ss = ss\<lparr>ss_sessionflags := ss_sessionflags ss OR newFlag\<rparr>"

definition RemoveFlag :: "u32 \<Rightarrow> 'c session \<Rightarrow> 'c session" where
  "RemoveFlag oldFlag ss = ss\<lparr>ss_sessionflags := ss_sessionflags ss AND NOT oldFlag\<rparr>"

definition KickPlayer :: "'c session \<Rightarrow> 'c session" where
  "KickPlayer ss = RemoveFlag FLAG_ACCOUNT_RECONNECT (SetFlag FLAG_ACCOUNT_KICKED ss)"

section \<open>Sending\<close>

definition CloseSocket :: "'c session \<Rightarrow> 'c session" where
  "CloseSocket ss = ss\<lparr>ss_ClientSocket := map_option (\<lambda>s. s\<lparr>sk_closing := True\<rparr>) (ss_ClientSocket ss)\<rparr>"

definition CloseSubSocket :: "'c session \<Rightarrow> 'c session" where
  "CloseSubSocket ss = ss\<lparr>ss_NodeSocket := map_option (\<lambda>s. s\<lparr>sk_closing := True\<rparr>) (ss_NodeSocket ss)\<rparr>"

definition SendPacket :: "'c net \<Rightarrow> wpacket \<Rightarrow> 'c session \<Rightarrow> 'c session" where
  "SendPacket net packet ss =
     (case ss_ClientSocket ss of
        None \<Rightarrow> ss
      | Some s \<Rightarrow>
          (case Socket_SendPacket (ClientSocket_sendPacket (nt_upd net) (nt_full net)) (nt_wake net) packet s of
             (r, s1) \<Rightarrow> let ss1 = ss\<lparr>ss_ClientSocket := Some s1\<rparr> in if r = -1 then CloseSocket ss1 else ss1))"

definition SendPacketToNode :: "'c net \<Rightarrow> wpacket \<Rightarrow> 'c session \<Rightarrow> 'c session" where
  "SendPacketToNode net packet ss =
     (case ss_NodeSocket ss of
        None \<Rightarrow> ss
      | Some s \<Rightarrow>
          (case Socket_SendPacket (NodeSocket_sendPacket (nt_upd net) (nt_full net)) (nt_wake net) packet s of
             (r, s1) \<Rightarrow> let ss1 = ss\<lparr>ss_NodeSocket := Some s1\<rparr> in if r = -1 then CloseSubSocket ss1 else ss1))"

definition SendAuthWaitQue :: "'c net \<Rightarrow> u32 \<Rightarrow> 'c session \<Rightarrow> 'c session" where
  "SendAuthWaitQue net position ss =
     (if position = 0 then SendPacket net (mk_pkt SMSG_AUTH_RESPONSE [U8 AUTH_OK]) ss
      else SendPacket net (mk_pkt SMSG_AUTH_RESPONSE [U8 AUTH_WAIT_QUEUE, U32 position, U8 0]) ss)"

definition SendAuthResponse :: "'c net \<Rightarrow> u8 \<Rightarrow> bool \<Rightarrow> u32 \<Rightarrow> 'c session \<Rightarrow> 'c session" where
  "SendAuthResponse net code shortForm queuePos ss =
     SendPacket net (mk_pkt SMSG_AUTH_RESPONSE
       ([U8 code, U32 0, U8 0, U32 0, U8 (ss_expansion ss), U8 (ss_expansion ss)] @
        (if shortForm then [] else [U32 queuePos, U8 0]))) ss"

definition SendClientCacheVersion :: "'c net \<Rightarrow> u32 \<Rightarrow> 'c session \<Rightarrow> 'c session" where
  "SendClientCacheVersion net version ss = SendPacket net (mk_pkt SMSG_CLIENTCACHE_VERSION [U32 version]) ss"

definition STANDARD_ADDON_CRC :: u32 where "STANDARD_ADDON_CRC = 0x4C1C776D"

definition addonPublicKey :: bytes where
  "addonPublicKey = [
     0xC3, 0x5B, 0x50, 0x84, 0xB9, 0x3E, 0x32, 0x42, 0x8C, 0xD0, 0xC7, 0x48, 0xFA, 0x0E, 0x5D, 0x54,
     0x5A, 0xA3, 0x0E, 0x14, 0xBA, 0x9E, 0x0D, 0xB9, 0x5D, 0x8B, 0xEE, 0xB6, 0x84, 0x93, 0x45, 0x75,
     0xFF, 0x31, 0xFE, 0x2F, 0x64, 0x3F, 0x3D, 0x6D, 0x07, 0xD9, 0x44, 0x9B, 0x40, 0x85, 0x59, 0x34,
     0x4E, 0x10, 0xE1, 0xE7, 0x43, 0x69, 0xEF, 0x7C, 0x16, 0xFC, 0xB4, 0xED, 0x1B, 0x95, 0x28, 0xA8,
     0x23, 0x76, 0x51, 0x31, 0x57, 0x30, 0x2B, 0x79, 0x08, 0x50, 0x10, 0x1C, 0x4A, 0x1A, 0x2C, 0xC8,
     0x8B, 0x8F, 0x05, 0x2D, 0x22, 0x3D, 0xDB, 0x5A, 0x24, 0x7A, 0x0F, 0x13, 0x50, 0x37, 0x8F, 0x5A,
     0xCC, 0x9E, 0x04, 0x44, 0x0E, 0x87, 0x01, 0xD4, 0xA3, 0x15, 0x94, 0x16, 0x34, 0xC6, 0xC2, 0xC3,
     0xFB, 0x49, 0xFE, 0xE1, 0xF9, 0xDA, 0x8C, 0x50, 0x3C, 0xBE, 0x2C, 0xBB, 0x57, 0xED, 0x46, 0xB9,
     0xAD, 0x8B, 0xC6, 0xDF, 0x0E, 0xD6, 0x0F, 0xBE, 0x80, 0xB3, 0x8B, 0x1E, 0x77, 0xCF, 0xAD, 0x22,
     0xCF, 0xB7, 0x4B, 0xCF, 0xFB, 0xF0, 0x6B, 0x11, 0x45, 0x2D, 0x7A, 0x81, 0x18, 0xF2, 0x92, 0x7E,
     0x98, 0x56, 0x5D, 0x5E, 0x69, 0x72, 0x0A, 0x0D, 0x03, 0x0A, 0x85, 0xA2, 0x85, 0x9C, 0xCB, 0xFB,
     0x56, 0x6E, 0x8F, 0x44, 0xBB, 0x8F, 0x02, 0x22, 0x68, 0x63, 0x97, 0xBC, 0x85, 0xBA, 0xA8, 0xF7,
     0xB5, 0x40, 0x68, 0x3C, 0x77, 0x86, 0x6F, 0x4B, 0xD7, 0x88, 0xCA, 0x8A, 0xD7, 0xCE, 0x36, 0xF0,
     0x45, 0x6E, 0xD5, 0x64, 0x79, 0x0F, 0x17, 0xFC, 0x64, 0xDD, 0x10, 0x6F, 0xF3, 0xF5, 0xE0, 0xA6,
     0xC3, 0xFB, 0x1B, 0x8C, 0x29, 0xEF, 0x8E, 0xE5, 0x34, 0xCB, 0xD1, 0x2A, 0xCE, 0x79, 0xC3, 0x9A,
     0x0D, 0x36, 0xEA, 0x01, 0xE0, 0xAA, 0x91, 0x20, 0x54, 0xF0, 0x72, 0xD8, 0x1E, 0xC7, 0x89, 0xD2]"

text \<open>What the client is told of one of its addons; the public key goes with a wrong checksum.\<close>

definition addon_reply :: "addon_info \<Rightarrow> field list" where
  "addon_reply a =
     [U8 (ai_State a), U8 (if ai_UsePublicKeyOrCRC a then 1 else 0)] @
     (if ai_UsePublicKeyOrCRC a then
        (if ai_CRC a \<noteq> STANDARD_ADDON_CRC then U8 1 # map U8 addonPublicKey else [U8 0]) @ [U32 0]
      else []) @ [U8 0]"

definition SendAddonsInfo :: "'c net \<Rightarrow> 'c session \<Rightarrow> 'c session" where
  "SendAddonsInfo net ss =
     SendPacket net (mk_pkt SMSG_ADDON_INFO
         (concat (map addon_reply (ss_addonsList ss)) @ [U32 0]))
       (ss\<lparr>ss_addonsList := []\<rparr>)"


section \<open>Account data and tutorials\<close>

definition NUM_ACCOUNT_DATA_TYPES :: nat where "NUM_ACCOUNT_DATA_TYPES = 8"
definition GLOBAL_CACHE_MASK :: u32 where "GLOBAL_CACHE_MASK = 0x15"
definition PER_CHARACTER_CACHE_MASK :: u32 where "PER_CHARACTER_CACHE_MASK = 0xEA"

text \<open>\<open>msk & (1 << i)\<close>; the rows are type, time and data.\<close>

definition in_mask :: "u32 \<Rightarrow> nat \<Rightarrow> bool" where
  "in_mask msk i \<longleftrightarrow> (msk AND push_bit i 1) \<noteq> 0"

fun load_account_rows :: "u32 \<Rightarrow> (u8 \<times> u32 \<times> bytes) list \<Rightarrow> (u32 \<times> bytes) list \<Rightarrow> (u32 \<times> bytes) list" where
  "load_account_rows msk [] ad = ad"
| "load_account_rows msk ((typ, tm, data) # rows) ad =
     (if NUM_ACCOUNT_DATA_TYPES \<le> unat typ then load_account_rows msk rows ad
      else if \<not> in_mask msk (unat typ) then load_account_rows msk rows ad
      else load_account_rows msk rows (ad[unat typ := (tm, data)]))"

definition LoadAccountData :: "(u8 \<times> u32 \<times> bytes) list option \<Rightarrow> u32 \<Rightarrow> 'c session \<Rightarrow> 'c session" where
  "LoadAccountData result msk ss =
     (let ad = map (\<lambda>i. if in_mask msk i then (0, []) else ss_accountData ss ! i) [0..<NUM_ACCOUNT_DATA_TYPES]
      in case result of
           None \<Rightarrow> ss\<lparr>ss_accountData := ad\<rparr>
         | Some rows \<Rightarrow> ss\<lparr>ss_accountData := load_account_rows msk rows ad\<rparr>)"

definition SendAccountDataTimes :: "'c net \<Rightarrow> u32 \<Rightarrow> u32 \<Rightarrow> 'c session \<Rightarrow> 'c session" where
  "SendAccountDataTimes net now msk ss =
     SendPacket net (mk_pkt SMSG_ACCOUNT_DATA_TIMES
       ([U32 now, U8 1, U32 msk] @
        map (\<lambda>i. U32 (fst (ss_accountData ss ! i))) (filter (in_mask msk) [0..<NUM_ACCOUNT_DATA_TYPES]))) ss"

text \<open>\<open>SetAccountData\<close> with the statement it executes: whose data, the type, the time, the text.\<close>

datatype account_write = RepAccountData u32 u8 u32 bytes | RepPlayerAccountData u32 u8 u32 bytes

definition SetAccountData ::
  "nat \<Rightarrow> u32 \<Rightarrow> bytes \<Rightarrow> 'c session \<Rightarrow> account_write option \<times> 'c session" where
  "SetAccountData typ tm data ss =
     (let ss1 = ss\<lparr>ss_accountData := (ss_accountData ss)[typ := (tm, data)]\<rparr>
      in if in_mask GLOBAL_CACHE_MASK typ
         then (Some (RepAccountData (ss_accountId ss) (word_of_nat typ) tm data), ss1)
         else if ss_GUIDLow ss = 0 then (None, ss)
         else (Some (RepPlayerAccountData (ss_GUIDLow ss) (word_of_nat typ) tm data), ss1))"

definition MAX_ACCOUNT_TUTORIAL_VALUES :: nat where "MAX_ACCOUNT_TUTORIAL_VALUES = 8"

definition LoadTutorialsData :: "u32 list option \<Rightarrow> 'c session \<Rightarrow> 'c session" where
  "LoadTutorialsData result ss =
     ss\<lparr>ss_Tutorials := (case result of None \<Rightarrow> replicate MAX_ACCOUNT_TUTORIAL_VALUES 0 | Some row \<Rightarrow> row),
        ss_TutorialsChanged := False\<rparr>"

definition SendTutorialsData :: "'c net \<Rightarrow> 'c session \<Rightarrow> 'c session" where
  "SendTutorialsData net ss = SendPacket net (mk_pkt SMSG_TUTORIAL_FLAGS (map U32 (ss_Tutorials ss))) ss"

text \<open>\<open>SaveTutorialsData\<close>, with the statement appended: an update or an insertion.\<close>

datatype tutorial_write = UpdTutorials "u32 list" u32 | InsTutorials "u32 list" u32

definition SaveTutorialsData :: "bool \<Rightarrow> 'c session \<Rightarrow> tutorial_write list \<times> 'c session" where
  "SaveTutorialsData hasTutorials ss =
     (if \<not> ss_TutorialsChanged ss then ([], ss)
      else ([(if hasTutorials then UpdTutorials else InsTutorials) (ss_Tutorials ss) (ss_accountId ss)],
            ss\<lparr>ss_TutorialsChanged := False\<rparr>))"

section \<open>The player\<close>

text \<open>\<open>GUID_HIPART\<close>, \<open>IsGuidHaveEnPart\<close> and \<open>GUID_LOPART\<close> of \<open>Objects/ObjectDefines.h\<close>.\<close>

definition GUID_HIPART :: "u64 \<Rightarrow> u32" where
  "GUID_HIPART x = ucast (drop_bit 48 x AND 0xFFFF)"

definition IsGuidHaveEnPart :: "u64 \<Rightarrow> bool" where
  "IsGuidHaveEnPart guid \<longleftrightarrow> GUID_HIPART guid \<notin> {0x4000, 0x0000, 0xF100, 0xF101, 0x1F50}"

definition GUID_LOPART :: "u64 \<Rightarrow> u32" where
  "GUID_LOPART x = (if IsGuidHaveEnPart x then ucast (x AND 0xFFFFFF) else ucast (x AND 0xFFFFFFFF))"

definition SetPlayer :: "player option \<Rightarrow> 'c session \<Rightarrow> 'c session" where
  "SetPlayer plr ss =
     (case plr of
        None \<Rightarrow> ss\<lparr>ss_player := None\<rparr>
      | Some p \<Rightarrow> ss\<lparr>ss_player := Some p, ss_GUIDLow := GUID_LOPART (ply_GUID p)\<rparr>)"

definition SendPlayerLogin :: "'c net \<Rightarrow> player \<Rightarrow> 'c session \<Rightarrow> 'c session" where
  "SendPlayerLogin net p ss = SendPacketToNode net (mk_pkt CMSG_PLAYER_LOGIN [U64 (ply_GUID p)]) ss"

text \<open>As far as the session goes: the player's own logout is not part of it.\<close>

definition PlayerLogout :: "'c session \<Rightarrow> 'c session" where
  "PlayerLogout ss = (case ss_player ss of None \<Rightarrow> ss | Some _ \<Rightarrow> SetPlayer None ss)"

definition CHAT_MSG_SYSTEM :: u8 where "CHAT_MSG_SYSTEM = 0"
definition LANG_UNIVERSAL :: u32 where "LANG_UNIVERSAL = 0"

definition SendServerMessageToPlayer :: "'c net \<Rightarrow> player option \<Rightarrow> bytes \<Rightarrow> 'c session \<Rightarrow> 'c session" where
  "SendServerMessageToPlayer net player msg ss =
     (case player of
        None \<Rightarrow> ss
      | Some _ \<Rightarrow> SendPacket net (mk_pkt SMSG_MESSAGECHAT
          [U8 CHAT_MSG_SYSTEM, U32 LANG_UNIVERSAL, U64 0, U32 0, U64 0, U32 (word_of_nat (length msg + 1)),
           Str msg, U8 0]) ss)"

definition pack_guid :: "u64 \<Rightarrow> field list" where
  "pack_guid guid = (case pack_guid_loop 0 guid 0 [] of (mark, out) \<Rightarrow> map U8 (mark # out))"

definition ascii :: "string \<Rightarrow> bytes" where "ascii t = map of_char t"

definition lost_text :: bytes where
  "lost_text = ascii ''|cffFF0000ALERT:|r We have lost connection to the node, please wait till we reconnect...''"

definition back_text :: bytes where
  "back_text = ascii ''|cff00FF00ALERT:|r Reconnected to the node successfully.''"

definition SetStunned :: "'c net \<Rightarrow> bool \<Rightarrow> 'c session \<Rightarrow> 'c session" where
  "SetStunned net apply_it ss =
     (case ss_player ss of
        None \<Rightarrow> ss
      | Some p \<Rightarrow>
          (let ss1 = SendServerMessageToPlayer net (ss_player ss) (if apply_it then lost_text else back_text) ss
           in SendPacket net (mk_pkt (if apply_it then SMSG_FORCE_MOVE_ROOT else SMSG_FORCE_MOVE_UNROOT)
                (pack_guid (ply_GUID p) @ [U32 0])) ss1))"


text \<open>The text of \<open>SendToNode\<close>; \<open>m\<close> is not used.\<close>

definition node_label :: "u32 \<Rightarrow> string" where
  "node_label n =
     (if n = 1 then ''3abec5Capital Cities Node (master node)''
      else if n = 2 then ''3abec5Eastern Kingdoms Node (map node [1])''
      else if n = 3 then ''3abec5Kalimdor Node (map node [1])''
      else if n = 4 then ''3abec5Outland Node (map node [1])''
      else if n = 5 then ''3abec5Northrend Node (map node [1])''
      else if n = 6 then ''3abec5PvE Node (raids/dungeons) (map node [1])''
      else if n = 7 then ''3abec5PvP Node (battlegrounds/arenas) (map node [1])''
      else ''ff0000 +error+ '')"

definition SendToNode :: "'c net \<Rightarrow> u32 \<Rightarrow> u32 \<Rightarrow> 'c session \<Rightarrow> 'c session" where
  "SendToNode net n m ss = SendServerMessageToPlayer net (ss_player ss)
     (ascii (''|cffcc0066][Clustering][ |cffb3ffffYou have been moved to node:|r '' @ ''|cff'' @ node_label n @ ''|r'')) ss"

section \<open>Creation\<close>

text \<open>\<open>_nodeId = ConnectToMaster()\<close> with the timer that follows it.\<close>

definition to_master :: "'c sstate \<Rightarrow> 'c sstate" where
  "to_master st =
     (case ConnectToMaster (fst st) of
        (nid, r) \<Rightarrow> (r, (snd st)\<lparr>ss_nodeId := nid,
          ss_reconnect_timer := (if nid = 0 then 2000000 else 100000)\<rparr>))"

definition ClientSession_new ::
  "u32 \<Rightarrow> 'c client_socket option \<Rightarrow> u32 \<Rightarrow> u8 \<Rightarrow> 'c session \<Rightarrow> RoutingHelper \<Rightarrow> 'c sstate" where
  "ClientSession_new AccountID sock sec expansion junk r =
     (case to_master (r, junk\<lparr>ss_accountId := AccountID, ss_ClientSocket := sock, ss_security := sec,
             ss_expansion := expansion, ss_player := None, ss_NodeSocket := None, ss_sessionflags := 0,
             ss_authed := True, ss_callback_timer := 5000, ss_addonsList := [], ss_warden := False,
             ss_allowedChars := []\<rparr>) of
        (r1, ss) \<Rightarrow> (r1, SetFlag FLAG_ACCOUNT_RECONNECT ss))"

text \<open>\<open>InitWarden\<close>, as far as it makes the module; for other systems \<open>m_Warden\<close> is never set.\<close>

definition InitWarden :: "bytes \<Rightarrow> 'c session \<Rightarrow> 'c session" where
  "InitWarden os ss = (if os = ascii ''Win'' then ss\<lparr>ss_warden := True\<rparr> else ss)"

section \<open>What the session asks of the rest\<close>

text \<open>
  The clock, the connector, the account table, the handlers of other components, the anticheat
  module (\<open>Warden::Update\<close>) and the answers that arrived from the database: the rows of the character
  list, with the bytes of each character or none, and a loaded character with its account data and
  the packets its login sends. \<open>m_playerLoading\<close> of a query that could not start is \<open>se_query_ok\<close>.
\<close>

record 'c senv =
  se_net :: "'c net"
  se_now :: u32
  se_timeout :: u32
  se_conn :: "u32 \<Rightarrow> 'c sock option"
  se_username :: "u32 \<Rightarrow> bytes option"
  se_others :: "string \<Rightarrow> wpacket \<Rightarrow> 'c sstate \<Rightarrow> 'c sstate option"
  se_warden :: "'c session \<Rightarrow> 'c session"
  se_query_ok :: bool
  se_charEnum :: "(u32 \<times> field list option) list option"
  se_charLogin :: "(u64 \<times> (player \<times> (u8 \<times> u32 \<times> bytes) list option \<times> wpacket list) option) option"
  se_social :: "'c session \<Rightarrow> 'c session"

section \<open>Login and logout\<close>

definition CHAR_LOGIN_NO_WORLD :: u8 where "CHAR_LOGIN_NO_WORLD = 0x4E"
definition CHAR_LOGIN_DUPLICATE_CHARACTER :: u8 where "CHAR_LOGIN_DUPLICATE_CHARACTER = 0x4F"
definition SMSG_CHAR_ENUM :: u16 where "SMSG_CHAR_ENUM = 0x03B"
definition SMSG_CHARACTER_LOGIN_FAILED :: u16 where "SMSG_CHARACTER_LOGIN_FAILED = 0x041"

fun enum_rows :: "(u32 \<times> field list option) list \<Rightarrow> u32 list \<Rightarrow> u8 \<Rightarrow> field list \<Rightarrow> u32 list \<times> u8 \<times> field list" where
  "enum_rows [] allowed num fs = (allowed, num, fs)"
| "enum_rows ((guidlow, built) # rows) allowed num fs =
     (if guidlow \<in> set allowed then enum_rows rows allowed num fs
      else case built of
             None \<Rightarrow> enum_rows rows allowed num fs
           | Some bs \<Rightarrow> enum_rows rows (allowed @ [guidlow]) (num + 1) (fs @ bs))"

definition HandleCharEnum :: "'c net \<Rightarrow> (u32 \<times> field list option) list \<Rightarrow> 'c session \<Rightarrow> 'c session" where
  "HandleCharEnum net rows ss =
     (case enum_rows rows [] 0 [] of
        (allowed, num, fs) \<Rightarrow>
          SendPacket net (mk_pkt SMSG_CHAR_ENUM (U8 num # fs)) (ss\<lparr>ss_allowedChars := allowed\<rparr>))"

definition CharCanLogin :: "u32 \<Rightarrow> 'c session \<Rightarrow> bool" where
  "CharCanLogin lowGUID ss \<longleftrightarrow> lowGUID \<in> set (ss_allowedChars ss)"

definition HandlePlayerLoginOpcode :: "'c senv \<Rightarrow> wpacket \<Rightarrow> 'c sstate \<Rightarrow> 'c sstate" where
  "HandlePlayerLoginOpcode env recv_data st =
     (case st of (r, ss) \<Rightarrow>
       if \<not> CheckNodeID (ss_nodeId ss) r \<or> ss_nodeId ss = 0 \<and> ss_playerLoading ss then
         (r, SendAuthResponse (se_net env) CHAR_LOGIN_NO_WORLD False 0
               (SendPacket (se_net env) (mk_pkt SMSG_CHARACTER_LOGIN_FAILED [U8 CHAR_LOGIN_DUPLICATE_CHARACTER]) ss))
       else
         (let ss1 = SetPlayer None ss
          in if ss_player ss1 \<noteq> None then (r, ss1)
             else
               (let ss2 = ss1\<lparr>ss_playerLoading := True\<rparr>
                in case bb_shr TU64 (buf recv_data) of
                     Inr (U64 playerGuid, _) \<Rightarrow>
                       (if \<not> CharCanLogin (GUID_LOPART playerGuid) ss2 then (r, KickPlayer ss2)
                        else if \<not> se_query_ok env then (r, ss2\<lparr>ss_playerLoading := False\<rparr>)
                        else (r, ss2\<lparr>ss_loginQuery := Some playerGuid\<rparr>))
                   | _ \<Rightarrow> (r, ss2))))"

text \<open>A loaded character, up to its guild: the packets of \<open>SendInitialPackets\<close> and what follows are given.\<close>

definition HandlePlayerLogin ::
  "'c senv \<Rightarrow> u64 \<Rightarrow> (player \<times> (u8 \<times> u32 \<times> bytes) list option \<times> wpacket list) option \<Rightarrow> 'c session \<Rightarrow> 'c session" where
  "HandlePlayerLogin env playerGuid loaded ss =
     (case loaded of
        None \<Rightarrow> (KickPlayer ss)\<lparr>ss_playerLoading := False\<rparr>
      | Some (pCurrChar, account_rows, initial) \<Rightarrow>
          (let ss1 = (SetPlayer (Some pCurrChar) ss)\<lparr>ss_GUID := playerGuid\<rparr>;
               ss2 = LoadAccountData account_rows PER_CHARACTER_CACHE_MASK ss1;
               ss3 = SendAccountDataTimes (se_net env) (se_now env) PER_CHARACTER_CACHE_MASK ss2;
               ss4 = fold (SendPacket (se_net env)) initial ss3;
               ss5 = SendPlayerLogin (se_net env) pCurrChar ss4
           in ss5\<lparr>ss_playerLoading := False\<rparr>))"

definition ProcessQueryCallbacks :: "'c senv \<Rightarrow> 'c session \<Rightarrow> 'c session" where
  "ProcessQueryCallbacks env ss =
     (let ss1 = (case se_charEnum env of None \<Rightarrow> ss | Some rows \<Rightarrow> HandleCharEnum (se_net env) rows ss);
          ss2 = (case se_charLogin env of
                   None \<Rightarrow> ss1
                 | Some (guid, loaded) \<Rightarrow> (HandlePlayerLogin env guid loaded ss1)\<lparr>ss_loginQuery := None\<rparr>)
      in se_social env ss2)"

definition Handle_SMSG_LOGOUT_RESPONSE_at :: "wpacket \<Rightarrow> 'c session \<Rightarrow> 'c session" where
  "Handle_SMSG_LOGOUT_RESPONSE_at recv_data ss =
     (case bb_shr_all [TU8, TU32] (buf recv_data) of
        Inr ([U8 reason, U32 time], _) \<Rightarrow> if reason \<noteq> 0 then RemoveFlag FLAG_LOGOUT_REQUEST ss else ss
      | _ \<Rightarrow> ss)"

definition Handle_SMSG_LOGOUT_COMPLETE_at :: "'c net \<Rightarrow> 'c sstate \<Rightarrow> 'c sstate" where
  "Handle_SMSG_LOGOUT_COMPLETE_at net st =
     (case st of (r, ss) \<Rightarrow>
       if \<not> HasFlag FLAG_LOGOUT_REQUEST ss then st
       else
         (let ss1 = SendPacket net (mk_pkt SMSG_LOGOUT_COMPLETE []) (PlayerLogout ss)
          in case ConnectToMaster r of
               (nid, r1) \<Rightarrow>
                 if ss_nodeId ss1 \<noteq> nid then
                   (case to_master (r1, (CloseSubSocket ss1)\<lparr>ss_sessionflags := 0, ss_nodeId := 0\<rparr>) of
                      (r2, ss2) \<Rightarrow> (r2, SetFlag FLAG_ACCOUNT_RECONNECT ss2))
                 else (r1, ss1)))"


section \<open>What the node sends\<close>

text \<open>The handlers carry the suffix \<open>_at\<close> beside the names of the opcode table.\<close>

definition Handle_SMSG_AUTH_RESPONSE_at :: "'c net \<Rightarrow> wpacket \<Rightarrow> 'c session \<Rightarrow> 'c session" where
  "Handle_SMSG_AUTH_RESPONSE_at net recvPacket ss =
     (case bb_shr TU8 (buf recvPacket) of
        Inr (U8 code, _) \<Rightarrow>
          (if code = AUTH_OK then
             (let ss1 = (if HasFlag FLAG_ACCOUNT_WAIT_FOR_OK ss then
                           RemoveFlag FLAG_ACCOUNT_WAIT_FOR_OK
                             (case ss_player ss of None \<Rightarrow> ss | Some p \<Rightarrow> SendPlayerLogin net p ss)
                         else ss)
              in if HasFlag FLAG_TRANSFER_PENDING ss1 then RemoveFlag FLAG_TRANSFER_PENDING ss1 else ss1)
           else ss)
      | _ \<Rightarrow> ss)"

definition CL_DEF_TRANSFER_TO_NODE :: u32 where "CL_DEF_TRANSFER_TO_NODE = 4"
definition CL_DEF_TRANSFER_OK :: u8 where "CL_DEF_TRANSFER_OK = 5"

definition Handle_NODE_TRANSFER_ACK :: "'c net \<Rightarrow> wpacket \<Rightarrow> 'c session \<Rightarrow> 'c session" where
  "Handle_NODE_TRANSFER_ACK net recvPacket ss =
     (case bb_shr TU8 (buf recvPacket) of
        Inr (U8 action, b) \<Rightarrow>
          (if action = CL_DEF_TRANSFER_OK then
             (case bb_shr TU32 b of
                Inr (U32 transguid, _) \<Rightarrow> SendPacketToNode net (mk_pkt CMSG_PLAYER_LOGIN [U64 (ucast transguid)]) ss
              | _ \<Rightarrow> ss)
           else ss)
      | _ \<Rightarrow> ss)"

text \<open>Without a row for the account the result set is dereferenced all the same.\<close>

definition Handle_SMSG_AUTH_CHALLENGE_at :: "'c senv \<Rightarrow> wpacket \<Rightarrow> 'c session \<Rightarrow> 'c session option" where
  "Handle_SMSG_AUTH_CHALLENGE_at env recvPacket ss =
     (case bb_shr_all [TU32, TU32] (buf recvPacket) of
        Inl _ \<Rightarrow> Some ss
      | Inr _ \<Rightarrow>
          (case se_username env (ss_accountId ss) of
             None \<Rightarrow> None
           | Some username \<Rightarrow>
               (let packet = mk_pkt CMSG_AUTH_SESSION
                      [Str username, U32 (ss_accountId ss), U32 (ss_security ss), Bl (ss_authed ss),
                       Bl (HasFlag FLAG_FORCE_TELEPORT ss)];
                    ss1 = (if HasFlag FLAG_FORCE_TELEPORT ss then RemoveFlag FLAG_FORCE_TELEPORT ss else ss)
                in Some (SendPacketToNode (se_net env) packet ss1))))"

definition CL_PLR_SEND_HEALTH_AMOUNT :: u32 where "CL_PLR_SEND_HEALTH_AMOUNT = 1000"

text \<open>
  \<open>CL_PLR_SEND_SET_DEATHSTATE\<close> reads the state and a flag, and stores the flag; the identifiers of
  \<open>CL_PLR_GROUP_UPDATE_ID\<close> are only logged.
\<close>

definition upd_player :: "(player \<Rightarrow> player) \<Rightarrow> 'c session \<Rightarrow> 'c session" where
  "upd_player f ss = ss\<lparr>ss_player := map_option f (ss_player ss)\<rparr>"

definition player_data :: "'c net \<Rightarrow> u32 \<Rightarrow> bytebuf \<Rightarrow> 'c session \<Rightarrow> 'c session" where
  "player_data net action b ss =
     (let one = (\<lambda>f. case bb_shr TU32 b of Inr (U32 v, _) \<Rightarrow> upd_player (f v) ss | _ \<Rightarrow> ss)
      in if action = CL_PLR_SEND_HEALTH_AMOUNT then one (\<lambda>v p. p\<lparr>ply_health := v\<rparr>)
         else if action = CL_PLR_SEND_HEALTH_AMOUNT + 1 then one (\<lambda>v p. p\<lparr>ply_maxhealth := v\<rparr>)
         else if action = CL_PLR_SEND_HEALTH_AMOUNT + 2 then one (\<lambda>v p. p\<lparr>ply_power := v\<rparr>)
         else if action = CL_PLR_SEND_HEALTH_AMOUNT + 3 then one (\<lambda>v p. p\<lparr>ply_maxpower := v\<rparr>)
         else if action = CL_PLR_SEND_HEALTH_AMOUNT + 4 then one (\<lambda>v p. p\<lparr>ply_powertype := v\<rparr>)
         else if action = CL_PLR_SEND_HEALTH_AMOUNT + 6 then
           (case bb_shr_all [TU32, TBl] b of
              Inr ([U32 st, Bl s], _) \<Rightarrow> upd_player (\<lambda>p. p\<lparr>ply_deathState := (if s then 1 else 0)\<rparr>) ss
            | _ \<Rightarrow> ss)
         else if action = CL_PLR_SEND_HEALTH_AMOUNT + 7 then
           (case bb_shr_all [TFlt, TFlt, TFlt, TFlt, TBl] b of
              Inr ([Flt x, Flt y, Flt z, Flt ori, Bl t], _) \<Rightarrow> upd_player (\<lambda>p. p\<lparr>ply_position := (x, y, z, ori)\<rparr>) ss
            | _ \<Rightarrow> ss)
         else if action = CL_PLR_SEND_HEALTH_AMOUNT + 8 then one (\<lambda>v p. p\<lparr>ply_GuildId := v\<rparr>)
         else if action = CL_PLR_SEND_HEALTH_AMOUNT + 9 then
           (case bb_shr_all [TU32, TU32] b of
              Inr ([U32 nodeid, U32 mapid], _) \<Rightarrow> SendToNode net nodeid mapid ss
            | _ \<Rightarrow> ss)
         else ss)"

definition Handle_NODE_PLAYER_DATA_at :: "'c net \<Rightarrow> wpacket \<Rightarrow> 'c session \<Rightarrow> 'c session" where
  "Handle_NODE_PLAYER_DATA_at net data ss =
     (case bb_shr TU32 (buf data) of
        Inr (U32 action, b) \<Rightarrow> (case ss_player ss of None \<Rightarrow> ss | Some _ \<Rightarrow> player_data net action b ss)
      | _ \<Rightarrow> ss)"

definition Handle_NODE_MISC_DATA_at :: "wpacket \<Rightarrow> 'c sstate \<Rightarrow> 'c sstate" where
  "Handle_NODE_MISC_DATA_at recvPacket st =
     (case bb_shr TU32 (buf recvPacket) of
        Inr (U32 cmd, b) \<Rightarrow>
          (if cmd = CL_DEF_TRANSFER_TO_NODE then
             (case bb_shr TU32 b of
                Inr (U32 node, _) \<Rightarrow>
                  (if ss_nodeId (snd st) = node then st
                   else if \<not> CheckNodeID node (fst st) then st
                   else (fst st, SetFlag FLAG_ACCOUNT_RECONNECT
                     ((CloseSubSocket ((snd st)\<lparr>ss_nodeId := node\<rparr>))\<lparr>ss_reconnect_timer := 500\<rparr>)))
              | _ \<Rightarrow> st)
           else st)
      | _ \<Rightarrow> st)"

text \<open>\<open>GetPlayer()->UpdateZone(...)\<close>, also without a player.\<close>

definition Handle_NODE_PLAYER_CHANGED_ZONE_at :: "wpacket \<Rightarrow> 'c session \<Rightarrow> 'c session option" where
  "Handle_NODE_PLAYER_CHANGED_ZONE_at recvPacket ss =
     (case bb_shr_all [TU32, TU32, TU32] (buf recvPacket) of
        Inr ([U32 zone, U32 area, U32 mapid], _) \<Rightarrow>
          (case ss_player ss of
             None \<Rightarrow> None
           | Some _ \<Rightarrow> Some (upd_player (\<lambda>p. p\<lparr>ply_area := area, ply_zone := zone, ply_map := mapid\<rparr>) ss))
      | _ \<Rightarrow> Some ss)"

section \<open>Dispatch\<close>

fun session_handler :: "'c senv \<Rightarrow> client_handler \<Rightarrow> wpacket \<Rightarrow> 'c sstate \<Rightarrow> 'c sstate option" where
  "session_handler env Handle_NULL p st = Some st"
| "session_handler env Handle_ServerSide p st = Some st"
| "session_handler env Handle_SMSG_AUTH_RESPONSE p st =
     Some (apsnd (Handle_SMSG_AUTH_RESPONSE_at (se_net env) p) st)"
| "session_handler env Handle_SMSG_AUTH_CHALLENGE p st =
     map_option (Pair (fst st)) (Handle_SMSG_AUTH_CHALLENGE_at env p (snd st))"
| "session_handler env Handle_NODE_MISC_DATA p st = Some (Handle_NODE_MISC_DATA_at p st)"
| "session_handler env Handle_NODE_PLAYER_DATA p st =
     Some (apsnd (Handle_NODE_PLAYER_DATA_at (se_net env) p) st)"
| "session_handler env Handle_NODE_PLAYER_CHANGED_ZONE p st =
     map_option (Pair (fst st)) (Handle_NODE_PLAYER_CHANGED_ZONE_at p (snd st))"
| "session_handler env HandlePlayerLogoutRequest p st = Some (apsnd (SetFlag FLAG_LOGOUT_REQUEST) st)"
| "session_handler env HandleLogoutCancelOpcode p st = Some (apsnd (RemoveFlag FLAG_LOGOUT_REQUEST) st)"
| "session_handler env Handle_SMSG_LOGOUT_RESPONSE p st = Some (apsnd (Handle_SMSG_LOGOUT_RESPONSE_at p) st)"
| "session_handler env Handle_SMSG_LOGOUT_COMPLETE p st = Some (Handle_SMSG_LOGOUT_COMPLETE_at (se_net env) st)"
| "session_handler env HandleWorldStateUITimerUpdate p st =
     Some (apsnd (SendPacket (se_net env) (mk_pkt SMSG_WORLD_STATE_UI_TIMER_UPDATE [U32 (se_now env)])) st)"
| "session_handler env (OtherHandler nam) p st =
     (if nam = ''HandlePlayerLoginOpcode'' then Some (HandlePlayerLoginOpcode env p st)
      else se_others env nam p st)"
| "session_handler env NullPointer p st = None"

datatype procedure = PROC (to_the_node: bool) (to_the_client: bool) (process: bool)

definition HandlePacket :: "'c senv \<Rightarrow> wpacket \<Rightarrow> procedure \<Rightarrow> 'c sstate \<Rightarrow> 'c sstate option" where
  "HandlePacket env packet proc st =
     (let st1 = (if to_the_node proc then apsnd (SendPacketToNode (se_net env) packet) st else st);
          st2 = (if to_the_client proc then apsnd (SendPacket (se_net env) packet) st1 else st1)
      in if process proc then session_handler env (handler (opcodeTable ! unat (opcode packet))) packet st2
         else Some st2)"

text \<open>The two switches: by \<open>from_node\<close>, and by \<open>status\<close> and \<open>to_node\<close>.\<close>

definition from_node_procedure :: "PacketState \<Rightarrow> procedure" where
  "from_node_procedure s =
     (case s of PACKET_STATE_PASS \<Rightarrow> PROC False True False | PACKET_STATE_BOTH \<Rightarrow> PROC False True True
      | PACKET_STATE_LOGON \<Rightarrow> PROC False False True | _ \<Rightarrow> PROC False False False)"

definition to_node_procedure :: "PacketState \<Rightarrow> procedure" where
  "to_node_procedure s =
     (case s of PACKET_STATE_NODE \<Rightarrow> PROC True False False | PACKET_STATE_BOTH \<Rightarrow> PROC True False True
      | PACKET_STATE_LOGON \<Rightarrow> PROC False False True | _ \<Rightarrow> PROC False False False)"

definition status_permits :: "SessionStatus \<Rightarrow> 'c session \<Rightarrow> bool" where
  "status_permits st ss \<longleftrightarrow> st = STATUS_AUTHED \<and> ss_authed ss \<or> st = STATUS_LOGGEDIN \<and> ss_player ss \<noteq> None \<or>
     st = STATUS_TRANSFER \<and> ss_player ss \<noteq> None"

definition node_packet :: "'c senv \<Rightarrow> wpacket \<Rightarrow> 'c sstate \<Rightarrow> 'c sstate option" where
  "node_packet env p st =
     (if unat (opcode p) < NUM_MSG_TYPES
      then HandlePacket env p (from_node_procedure (from_node (opcodeTable ! unat (opcode p)))) st
      else Some st)"

definition client_packet :: "'c senv \<Rightarrow> wpacket \<Rightarrow> 'c sstate \<Rightarrow> 'c sstate option" where
  "client_packet env p st =
     (if unat (opcode p) < NUM_MSG_TYPES then
        (let opHandle = opcodeTable ! unat (opcode p)
         in if status_permits (status opHandle) (snd st)
            then HandlePacket env p (to_node_procedure (to_node opHandle)) st else Some st)
      else Some st)"


section \<open>The loops\<close>

text \<open>
  \<open>while (socket && socket->GetNext...Packet(packet))\<close> over the packets of a queue, with those left
  over; \<open>ready\<close> is that the socket is there and not closing.
\<close>

fun session_io ::
  "('c session \<Rightarrow> bool) \<Rightarrow> (wpacket \<Rightarrow> 'c sstate \<Rightarrow> 'c sstate option) \<Rightarrow> wpacket list \<Rightarrow> 'c sstate \<Rightarrow>
   (wpacket list \<times> 'c sstate) option" where
  "session_io ready hp [] st = Some ([], st)"
| "session_io ready hp (p # ps) st =
     (if \<not> ready (snd st) then Some (p # ps, st)
      else case hp p st of None \<Rightarrow> None | Some st1 \<Rightarrow> session_io ready hp ps st1)"

definition node_ready :: "'c session \<Rightarrow> bool" where
  "node_ready ss \<longleftrightarrow> (case ss_NodeSocket ss of None \<Rightarrow> False | Some s \<Rightarrow> \<not> sk_closing s)"

definition client_ready :: "'c session \<Rightarrow> bool" where
  "client_ready ss \<longleftrightarrow> (case ss_ClientSocket ss of None \<Rightarrow> False | Some s \<Rightarrow> \<not> sk_closing s)"

definition with_node :: "('c sock \<Rightarrow> 'c sock) \<Rightarrow> 'c session \<Rightarrow> 'c session" where
  "with_node f ss = ss\<lparr>ss_NodeSocket := map_option f (ss_NodeSocket ss)\<rparr>"

definition with_client :: "('c client_socket \<Rightarrow> 'c client_socket) \<Rightarrow> 'c session \<Rightarrow> 'c session" where
  "with_client f ss = ss\<lparr>ss_ClientSocket := map_option f (ss_ClientSocket ss)\<rparr>"

definition UpdateSingleNodeIO :: "'c senv \<Rightarrow> 'c sstate \<Rightarrow> 'c sstate option" where
  "UpdateSingleNodeIO env st =
     (case ss_NodeSocket (snd st) of
        None \<Rightarrow> Some st
      | Some s \<Rightarrow> map_option (\<lambda>(rest, st1). apsnd (with_node (\<lambda>s. s\<lparr>sk_single := (sk_single s)\<lparr>lq_queue := rest\<rparr>\<rparr>)) st1)
          (session_io node_ready (node_packet env) (lq_queue (sk_single s)) st))"

definition UpdateSingleClientIO :: "'c senv \<Rightarrow> 'c sstate \<Rightarrow> 'c sstate option" where
  "UpdateSingleClientIO env st =
     (case ss_ClientSocket (snd st) of
        None \<Rightarrow> Some st
      | Some s \<Rightarrow> map_option (\<lambda>(rest, st1). apsnd (with_client (\<lambda>s. s\<lparr>sk_single := (sk_single s)\<lparr>lq_queue := rest\<rparr>\<rparr>)) st1)
          (session_io client_ready (client_packet env) (lq_queue (sk_single s)) st))"

definition UpdateMultiNodeIO :: "'c senv \<Rightarrow> 'c sstate \<Rightarrow> 'c sstate option" where
  "UpdateMultiNodeIO env st =
     (case ss_NodeSocket (snd st) of
        None \<Rightarrow> Some st
      | Some s \<Rightarrow> map_option (\<lambda>(rest, st1). apsnd (with_node (\<lambda>s. s\<lparr>sk_multi := (sk_multi s)\<lparr>lq_queue := rest\<rparr>\<rparr>)) st1)
          (session_io node_ready (node_packet env) (lq_queue (sk_multi s)) st))"

definition UpdateMultiClientIO :: "'c senv \<Rightarrow> 'c sstate \<Rightarrow> 'c sstate option" where
  "UpdateMultiClientIO env st =
     (case ss_ClientSocket (snd st) of
        None \<Rightarrow> Some st
      | Some s \<Rightarrow> map_option (\<lambda>(rest, st1). apsnd (with_client (\<lambda>s. s\<lparr>sk_multi := (sk_multi s)\<lparr>lq_queue := rest\<rparr>\<rparr>)) st1)
          (session_io client_ready (client_packet env) (lq_queue (sk_multi s)) st))"

section \<open>The updates\<close>

text \<open>\<open>UpdateSingle\<close> runs in the thread of the manager, \<open>UpdateMulti\<close> in one of the updaters.\<close>

definition UpdateSingle :: "'c senv \<Rightarrow> 'c sstate \<Rightarrow> (bool \<times> 'c sstate) option" where
  "UpdateSingle env st =
     (if HasFlag FLAG_ACCOUNT_KICKED (snd st) then Some (False, st)
      else case UpdateSingleNodeIO env st of
             None \<Rightarrow> None
           | Some st1 \<Rightarrow>
               if \<not> client_ready (snd st1) then Some (False, st1)
               else map_option (Pair True) (UpdateSingleClientIO env st1))"

text \<open>The time-out is tested against the future: \<open>last > now + limit\<close>.\<close>

definition session_timeout :: "'c senv \<Rightarrow> 'c session \<Rightarrow> 'c session" where
  "session_timeout env ss =
     (case ss_ClientSocket ss of
        None \<Rightarrow> ss
      | Some s \<Rightarrow> if unat (clk_lastActionTime s) > unat (se_now env) + unat (se_timeout env) then KickPlayer ss else ss)"

definition session_callbacks :: "'c senv \<Rightarrow> u32 \<Rightarrow> 'c session \<Rightarrow> 'c session" where
  "session_callbacks env diff ss =
     (if ss_callback_timer ss \<le> diff then ProcessQueryCallbacks env (ss\<lparr>ss_callback_timer := 50000\<rparr>)
      else ss\<lparr>ss_callback_timer := ss_callback_timer ss - diff\<rparr>)"

definition session_connect :: "'c senv \<Rightarrow> 'c sstate \<Rightarrow> 'c sstate" where
  "session_connect env st =
     (case st of (r, ss) \<Rightarrow>
       if ss_nodeId ss = 0 then
         (case ConnectToMaster r of (nid, r1) \<Rightarrow> (r1, ss\<lparr>ss_nodeId := nid\<rparr>))
       else if CanEnterNodeID (ss_nodeId ss) r then
         (case se_conn env (ss_nodeId ss) of
            None \<Rightarrow> (r, ss)
          | Some socket \<Rightarrow>
              (r, SetStunned (se_net env) False
                    (SetFlag FLAG_ACCOUNT_WAIT_FOR_OK
                      (RemoveFlag FLAG_ACCOUNT_RECONNECT (ss\<lparr>ss_NodeSocket := Some socket\<rparr>)))))
       else (r, ss))"

definition session_reconnect :: "'c senv \<Rightarrow> u32 \<Rightarrow> 'c sstate \<Rightarrow> 'c sstate" where
  "session_reconnect env diff st =
     (if HasFlag FLAG_ACCOUNT_RECONNECT (snd st) then
        (if ss_reconnect_timer (snd st) > diff
         then apsnd (\<lambda>ss. ss\<lparr>ss_reconnect_timer := ss_reconnect_timer ss - diff\<rparr>) st
         else apsnd (\<lambda>ss. ss\<lparr>ss_reconnect_timer := 5000000\<rparr>) (session_connect env st))
      else st)"

definition session_drop_node :: "'c senv \<Rightarrow> 'c session \<Rightarrow> 'c session" where
  "session_drop_node env ss =
     (case ss_NodeSocket ss of
        None \<Rightarrow> ss
      | Some s \<Rightarrow>
          if sk_closing s then
            (let ss1 = SetStunned (se_net env) True (ss\<lparr>ss_NodeSocket := None\<rparr>);
                 ss2 = (if ss_player ss1 \<noteq> None then SetFlag FLAG_FORCE_TELEPORT ss1 else ss1)
             in SetFlag FLAG_ACCOUNT_RECONNECT ss2)
          else ss)"

definition session_drop_client :: "'c session \<Rightarrow> 'c session" where
  "session_drop_client ss =
     (case ss_ClientSocket ss of
        None \<Rightarrow> ss
      | Some s \<Rightarrow> if sk_closing s then ss\<lparr>ss_ClientSocket := None\<rparr> else ss)"

text \<open>\<open>m_Warden->Update()\<close> is called whether or not the login made an anticheat module.\<close>

definition UpdateMulti :: "'c senv \<Rightarrow> u32 \<Rightarrow> 'c sstate \<Rightarrow> (bool \<times> 'c sstate) option" where
  "UpdateMulti env diff st =
     (if HasFlag FLAG_ACCOUNT_KICKED (snd st) then Some (False, st)
      else
        (let st1 = apsnd (session_callbacks env diff) (apsnd (session_timeout env) st);
             st2 = session_reconnect env diff st1
         in case UpdateMultiNodeIO env st2 of
              None \<Rightarrow> None
            | Some st3 \<Rightarrow>
                (case UpdateMultiClientIO env (apsnd (session_drop_node env) st3) of
                   None \<Rightarrow> None
                 | Some st4 \<Rightarrow>
                     if \<not> ss_warden (snd st4) then None
                     else
                       (let st5 = apsnd session_drop_client (apsnd (se_warden env) st4)
                        in Some (ss_ClientSocket (snd st5) \<noteq> None, st5)))))"


section \<open>The flags\<close>

lemma HasFlag_Set: "HasFlag f (SetFlag g ss) \<longleftrightarrow> HasFlag f ss \<or> g AND f \<noteq> 0"
  by (auto simp: HasFlag_def SetFlag_def bit.conj_disj_distrib2 or_eq_0_iff)

lemma HasFlag_Remove: "HasFlag f (RemoveFlag f ss) = False"
  by (simp add: HasFlag_def RemoveFlag_def and.assoc)

lemma HasFlag_Remove_other:
  assumes "g AND f = 0"
  shows "HasFlag f (RemoveFlag g ss) = HasFlag f ss"
proof -
  have "\<not> (bit g n \<and> bit f n)" for n using arg_cong [OF assms, of "\<lambda>x. bit x n"] by (simp add: bit_and_iff)
  then have "(ss_sessionflags ss AND NOT g) AND f = ss_sessionflags ss AND f"
    by (intro bit_word_eqI) (auto simp: bit_and_iff bit_not_iff)
  then show ?thesis by (simp add: HasFlag_def RemoveFlag_def)
qed

lemmas flag_simps = HasFlag_Set HasFlag_Remove HasFlag_Remove_other session_flags


section \<open>The session's invariant\<close>

text \<open>
  While the session waits to reconnect it has no open link to a node, and without a link it waits to
  reconnect, unless it was kicked. Most steps only send, set other flags or kick:
\<close>

definition session_inv :: "'c session \<Rightarrow> bool" where
  "session_inv ss \<longleftrightarrow> (HasFlag FLAG_ACCOUNT_RECONNECT ss \<longrightarrow> \<not> node_ready ss) \<and>
     (ss_NodeSocket ss = None \<longrightarrow> HasFlag FLAG_ACCOUNT_RECONNECT ss \<or> HasFlag FLAG_ACCOUNT_KICKED ss)"

definition node_frame :: "'c session \<Rightarrow> 'c session \<Rightarrow> bool" where
  "node_frame ss ss' \<longleftrightarrow> (ss_NodeSocket ss' = None \<longleftrightarrow> ss_NodeSocket ss = None) \<and> (node_ready ss' \<longrightarrow> node_ready ss) \<and>
     (HasFlag FLAG_ACCOUNT_RECONNECT ss' \<longrightarrow> HasFlag FLAG_ACCOUNT_RECONNECT ss) \<and>
     (HasFlag FLAG_ACCOUNT_RECONNECT ss \<longrightarrow> HasFlag FLAG_ACCOUNT_RECONNECT ss' \<or> HasFlag FLAG_ACCOUNT_KICKED ss') \<and>
     (HasFlag FLAG_ACCOUNT_KICKED ss \<longrightarrow> HasFlag FLAG_ACCOUNT_KICKED ss')"

named_theorems frames

lemma node_frame_refl [simp, intro]: "node_frame ss ss"
  by (simp add: node_frame_def)

lemma node_frame_trans [trans]: "node_frame a b \<Longrightarrow> node_frame b c \<Longrightarrow> node_frame a c"
  unfolding node_frame_def by auto

lemma node_frame_inv: "node_frame ss ss' \<Longrightarrow> session_inv ss \<Longrightarrow> session_inv ss'"
  unfolding node_frame_def session_inv_def by blast

lemma node_frame_fold: "(\<And>x ss. node_frame ss (f x ss)) \<Longrightarrow> node_frame ss (fold f xs ss)"
  by (induction xs arbitrary: ss) (auto intro: node_frame_trans)

text \<open>Steps that leave the node's socket and the flags alone.\<close>

lemma node_frame_same:
  "ss_NodeSocket ss' = ss_NodeSocket ss \<Longrightarrow> ss_sessionflags ss' = ss_sessionflags ss \<Longrightarrow> node_frame ss ss'"
  by (simp add: node_frame_def node_ready_def HasFlag_def)

lemma CloseSocket_frame [frames]: "node_frame ss (CloseSocket ss)"
  by (rule node_frame_same) (simp_all add: CloseSocket_def)

lemma SendPacket_fields:
  "ss_NodeSocket (SendPacket net p ss) = ss_NodeSocket ss \<and> ss_sessionflags (SendPacket net p ss) = ss_sessionflags ss \<and>
   ss_player (SendPacket net p ss) = ss_player ss \<and> ss_nodeId (SendPacket net p ss) = ss_nodeId ss \<and>
   ss_reconnect_timer (SendPacket net p ss) = ss_reconnect_timer ss \<and> ss_authed (SendPacket net p ss) = ss_authed ss \<and>
   ss_accountId (SendPacket net p ss) = ss_accountId ss \<and> ss_warden (SendPacket net p ss) = ss_warden ss \<and>
   ss_inQueue (SendPacket net p ss) = ss_inQueue ss"
  by (auto simp: SendPacket_def CloseSocket_def Let_def split: option.split prod.split)

lemma SendPacket_frame [frames]: "node_frame ss (SendPacket net p ss)"
  by (rule node_frame_same) (simp_all add: SendPacket_fields)

lemma Socket_Send_closing:
  assumes "Socket_SendPacket (NodeSocket_sendPacket upd q_full) wake p s = (r, s')"
  shows "sk_closing s' = sk_closing s"
proof (cases "sk_closing s")
  case True
  with assms show ?thesis by (simp add: Socket_SendPacket_def)
next
  case False
  have "snd (NodeSocket_sendPacket upd q_full p s) = s'" using assms False
    by (auto simp: Socket_SendPacket_def split: prod.splits if_splits)
  moreover have "sk_closing (snd (NodeSocket_sendPacket upd q_full p s)) = sk_closing s"
    by (auto simp: NodeSocket_sendPacket_def Let_def sock_put_def split: prod.split)
  ultimately show ?thesis by simp
qed

lemma SendPacketToNode_fields:
  "ss_sessionflags (SendPacketToNode net p ss) = ss_sessionflags ss \<and>
   ss_player (SendPacketToNode net p ss) = ss_player ss \<and> ss_nodeId (SendPacketToNode net p ss) = ss_nodeId ss \<and>
   ss_reconnect_timer (SendPacketToNode net p ss) = ss_reconnect_timer ss \<and>
   ss_authed (SendPacketToNode net p ss) = ss_authed ss \<and> ss_ClientSocket (SendPacketToNode net p ss) = ss_ClientSocket ss \<and>
   ss_accountId (SendPacketToNode net p ss) = ss_accountId ss \<and> ss_warden (SendPacketToNode net p ss) = ss_warden ss"
  by (auto simp: SendPacketToNode_def CloseSubSocket_def Let_def split: option.split prod.split)

lemma SendPacketToNode_frame [frames]: "node_frame ss (SendPacketToNode net p ss)"
proof (cases "ss_NodeSocket ss")
  case None
  then show ?thesis by (simp add: SendPacketToNode_def)
next
  case (Some s)
  obtain r s1 where s1: "Socket_SendPacket (NodeSocket_sendPacket (nt_upd net) (nt_full net)) (nt_wake net) p s = (r, s1)"
    by fastforce
  from Socket_Send_closing [OF s1] show ?thesis
    by (simp add: SendPacketToNode_def Some s1 Let_def node_frame_def node_ready_def HasFlag_def CloseSubSocket_def)
qed

lemma SetFlag_frame:
  "g AND FLAG_ACCOUNT_RECONNECT = 0 \<Longrightarrow> node_frame ss (SetFlag g ss)"
  by (simp add: node_frame_def HasFlag_Set) (simp add: SetFlag_def node_ready_def)

lemma RemoveFlag_frame:
  "g AND FLAG_ACCOUNT_RECONNECT = 0 \<Longrightarrow> g AND FLAG_ACCOUNT_KICKED = 0 \<Longrightarrow> node_frame ss (RemoveFlag g ss)"
  by (simp add: node_frame_def HasFlag_Remove_other) (simp add: RemoveFlag_def node_ready_def)

lemma KickPlayer_frame [frames]: "node_frame ss (KickPlayer ss)"
  by (simp add: node_frame_def KickPlayer_def flag_simps) (simp add: SetFlag_def RemoveFlag_def node_ready_def)

lemma SetPlayer_frame [frames]: "node_frame ss (SetPlayer p ss)"
  by (rule node_frame_same) (simp_all add: SetPlayer_def split: option.split)

lemma upd_player_frame [frames]: "node_frame ss (upd_player f ss)"
  by (rule node_frame_same) (simp_all add: upd_player_def)

lemma SendServerMessageToPlayer_frame [frames]: "node_frame ss (SendServerMessageToPlayer net plr msg ss)"
  by (cases plr) (simp_all add: SendServerMessageToPlayer_def SendPacket_frame)

lemma SetStunned_frame [frames]: "node_frame ss (SetStunned net b ss)"
  by (auto simp: SetStunned_def Let_def split: option.split
      intro: node_frame_trans [OF SendServerMessageToPlayer_frame SendPacket_frame])

lemma PlayerLogout_frame [frames]: "node_frame ss (PlayerLogout ss)"
  by (simp add: PlayerLogout_def SetPlayer_frame split: option.split)


lemma HandleCharEnum_frame [frames]: "node_frame ss (HandleCharEnum net rows ss)"
proof -
  obtain allowed num fs where e: "enum_rows rows [] 0 [] = (allowed, num, fs)" using prod_cases3 by blast
  have "node_frame ss (ss\<lparr>ss_allowedChars := allowed\<rparr>)" by (rule node_frame_same) simp_all
  from node_frame_trans [OF this SendPacket_frame] show ?thesis by (simp add: HandleCharEnum_def e)
qed

lemma HandlePlayerLogin_frame [frames]: "node_frame ss (HandlePlayerLogin env guid loaded ss)"
proof (cases loaded)
  case None
  have "node_frame (KickPlayer ss) ((KickPlayer ss)\<lparr>ss_playerLoading := False\<rparr>)" by (rule node_frame_same) simp_all
  from node_frame_trans [OF KickPlayer_frame this] show ?thesis by (simp add: HandlePlayerLogin_def None)
next
  case (Some l)
  obtain pl rows initial where l: "l = (pl, rows, initial)" using prod_cases3 by blast
  let ?s1 = "(SetPlayer (Some pl) ss)\<lparr>ss_GUID := guid\<rparr>"
  let ?s2 = "LoadAccountData rows PER_CHARACTER_CACHE_MASK ?s1"
  have "node_frame ss ?s1" by (rule node_frame_same) (simp_all add: SetPlayer_def)
  also have "node_frame ?s1 ?s2" by (rule node_frame_same) (simp_all add: LoadAccountData_def Let_def split: option.split)
  also have "node_frame ?s2 (SendAccountDataTimes (se_net env) (se_now env) PER_CHARACTER_CACHE_MASK ?s2)"
    unfolding SendAccountDataTimes_def by (rule SendPacket_frame)
  also have "node_frame \<dots> (fold (SendPacket (se_net env)) initial \<dots>)" by (rule node_frame_fold) (rule SendPacket_frame)
  also have "node_frame \<dots> (SendPlayerLogin (se_net env) pl \<dots>)" unfolding SendPlayerLogin_def by (rule SendPacketToNode_frame)
  finally have "node_frame ss (SendPlayerLogin (se_net env) pl (fold (SendPacket (se_net env)) initial
      (SendAccountDataTimes (se_net env) (se_now env) PER_CHARACTER_CACHE_MASK ?s2)))" .
  moreover have "node_frame t (t\<lparr>ss_playerLoading := False\<rparr>)" for t :: "'a session"
    by (rule node_frame_same) simp_all
  ultimately show ?thesis using node_frame_trans by (simp add: HandlePlayerLogin_def Some l Let_def) blast
qed

lemma HandlePlayerLoginOpcode_frame [frames]: "node_frame (snd st) (snd (HandlePlayerLoginOpcode env p st))"
proof (cases st)
  case (Pair r ss)
  let ?ss1 = "SetPlayer None ss"
  let ?ss2 = "?ss1\<lparr>ss_playerLoading := True\<rparr>"
  have np: "(ss_player ?ss1 \<noteq> None) = False" by (simp add: SetPlayer_def)
  have f2: "node_frame ss ?ss2" by (rule node_frame_same) (simp_all add: SetPlayer_def)
  have q: "node_frame ss (?ss2\<lparr>ss_loginQuery := g\<rparr>)" for g by (rule node_frame_same) (simp_all add: SetPlayer_def)
  have l: "node_frame ss (?ss2\<lparr>ss_playerLoading := False\<rparr>)" by (rule node_frame_same) (simp_all add: SetPlayer_def)
  have k: "node_frame ss (KickPlayer ?ss2)" using f2 KickPlayer_frame by (rule node_frame_trans)
  have rej: "node_frame ss (SendAuthResponse net c sh pos (SendPacket net pk ss))" for net c sh pos pk
    unfolding SendAuthResponse_def by (rule node_frame_trans [OF SendPacket_frame SendPacket_frame])
  show ?thesis
    unfolding HandlePlayerLoginOpcode_def Pair prod.case Let_def np if_False
    by (auto simp del: bb_shr.simps simp: rej f2 q l [simplified] k split: sum.split field.split)
qed

lemma Handle_AUTH_RESPONSE_frame [frames]: "node_frame ss (Handle_SMSG_AUTH_RESPONSE_at net p ss)"
proof -
  have wait: "node_frame ss (RemoveFlag FLAG_ACCOUNT_WAIT_FOR_OK ss)"
    and pend: "node_frame ss (RemoveFlag FLAG_TRANSFER_PENDING ss)" for ss :: "'a session"
    by (rule RemoveFlag_frame; simp add: session_flags)+
  have log: "node_frame ss (RemoveFlag FLAG_ACCOUNT_WAIT_FOR_OK (SendPlayerLogin net pl ss))" for pl
    unfolding SendPlayerLogin_def by (rule node_frame_trans [OF SendPacketToNode_frame wait])
  show ?thesis
    unfolding Handle_SMSG_AUTH_RESPONSE_at_def Let_def
    by (auto simp del: bb_shr.simps split: sum.split field.split option.split
        intro: wait pend log node_frame_trans [OF wait pend] node_frame_trans [OF log pend])
qed

lemma Handle_AUTH_CHALLENGE_frame:
  assumes "Handle_SMSG_AUTH_CHALLENGE_at env p ss = Some ss'"
  shows "node_frame ss ss'"
proof -
  have "node_frame ss (RemoveFlag FLAG_FORCE_TELEPORT ss)" by (rule RemoveFlag_frame) (simp_all add: session_flags)
  then show ?thesis using assms
    by (auto simp: Handle_SMSG_AUTH_CHALLENGE_at_def Let_def split: sum.splits option.splits if_splits
        intro: SendPacketToNode_frame node_frame_trans [OF _ SendPacketToNode_frame])
qed

text \<open>A read that either yields its fields or leaves the session: a property of both results.\<close>

lemma read_cases:
  "P z \<Longrightarrow> (\<And>v. P (f1 v)) \<Longrightarrow> P (case r1 of Inr (U32 v, b) \<Rightarrow> f1 v | _ \<Rightarrow> z)"
  "P z \<Longrightarrow> (\<And>v s. P (f2 v s)) \<Longrightarrow> P (case r2 of Inr ([U32 v, Bl s], b) \<Rightarrow> f2 v s | _ \<Rightarrow> z)"
  "P z \<Longrightarrow> (\<And>v w. P (f3 v w)) \<Longrightarrow> P (case r3 of Inr ([U32 v, U32 w], b) \<Rightarrow> f3 v w | _ \<Rightarrow> z)"
  "P z \<Longrightarrow> (\<And>x y u v t. P (f4 x y u v t)) \<Longrightarrow>
     P (case r4 of Inr ([Flt x, Flt y, Flt u, Flt v, Bl t], b) \<Rightarrow> f4 x y u v t | _ \<Rightarrow> z)"
  by (simp_all split: sum.split prod.split list.split field.split)

lemma if_cases: "P a \<Longrightarrow> P b \<Longrightarrow> P (if c then a else b)"
  by simp

lemma player_data_frame: "node_frame ss (player_data net action b ss)"
  unfolding player_data_def Let_def SendToNode_def
  by (intro if_cases [of "node_frame ss"] read_cases [of "node_frame ss"] upd_player_frame SendServerMessageToPlayer_frame node_frame_refl)

lemma Handle_NODE_PLAYER_DATA_frame [frames]: "node_frame ss (Handle_NODE_PLAYER_DATA_at net p ss)"
  by (auto simp: Handle_NODE_PLAYER_DATA_at_def player_data_frame simp del: bb_shr.simps
      split: sum.split field.split option.split)

lemma Handle_CHANGED_ZONE_frame:
  "Handle_NODE_PLAYER_CHANGED_ZONE_at p ss = Some ss' \<Longrightarrow> node_frame ss ss'"
  by (auto simp: Handle_NODE_PLAYER_CHANGED_ZONE_at_def simp del: bb_shr_all.simps intro: upd_player_frame
      split: sum.splits list.splits field.splits option.splits)

lemma Handle_LOGOUT_RESPONSE_frame [frames]: "node_frame ss (Handle_SMSG_LOGOUT_RESPONSE_at p ss)"
proof -
  have "node_frame ss (RemoveFlag FLAG_LOGOUT_REQUEST ss)" by (rule RemoveFlag_frame) (simp_all add: session_flags)
  then show ?thesis
    by (auto simp: Handle_SMSG_LOGOUT_RESPONSE_at_def simp del: bb_shr_all.simps
        split: sum.split list.split field.split)
qed


text \<open>Closing the link and setting the reconnect flag establishes the invariant.\<close>

lemma closed_inv: "session_inv (SetFlag FLAG_ACCOUNT_RECONNECT ((CloseSubSocket ss)\<lparr>ss_reconnect_timer := t\<rparr>))"
  by (simp add: session_inv_def flag_simps)
    (simp add: node_ready_def SetFlag_def CloseSubSocket_def split: option.split)

lemma Handle_NODE_MISC_DATA_inv: "session_inv (snd st) \<Longrightarrow> session_inv (snd (Handle_NODE_MISC_DATA_at p st))"
  by (auto simp: Handle_NODE_MISC_DATA_at_def closed_inv simp del: bb_shr.simps split: sum.split field.split)

lemma Handle_LOGOUT_COMPLETE_inv:
  assumes "session_inv (snd st)"
  shows "session_inv (snd (Handle_SMSG_LOGOUT_COMPLETE_at net st))"
proof (cases st)
  case (Pair r ss)
  let ?ss1 = "SendPacket net (mk_pkt SMSG_LOGOUT_COMPLETE []) (PlayerLogout ss)"
  have "node_frame ss ?ss1" by (rule node_frame_trans [OF PlayerLogout_frame SendPacket_frame])
  then have one: "session_inv ?ss1" using assms Pair by (simp add: node_frame_inv)
  have two: "session_inv (SetFlag FLAG_ACCOUNT_RECONNECT
      ((CloseSubSocket ?ss1)\<lparr>ss_sessionflags := 0, ss_nodeId := nid, ss_reconnect_timer := t\<rparr>))" for nid t
    by (simp add: session_inv_def flag_simps)
      (simp add: node_ready_def SetFlag_def CloseSubSocket_def split: option.split)
  show ?thesis using one two assms
    by (auto simp: Handle_SMSG_LOGOUT_COMPLETE_at_def Pair Let_def to_master_def split: prod.split)
qed

text \<open>What is asked of the parts that are arguments: they send, set flags of their own and kick.\<close>

definition env_quiet :: "'c senv \<Rightarrow> bool" where
  "env_quiet env \<longleftrightarrow> (\<forall>nam p st st'. se_others env nam p st = Some st' \<longrightarrow> node_frame (snd st) (snd st')) \<and>
     (\<forall>ss. node_frame ss (se_warden env ss)) \<and> (\<forall>ss. node_frame ss (se_social env ss))"

lemma session_handler_inv:
  assumes "session_handler env h p st = Some st'" and "session_inv (snd st)" and "env_quiet env"
  shows "session_inv (snd st')"
proof -
  have req: "node_frame ss (SetFlag FLAG_LOGOUT_REQUEST ss)" "node_frame ss (RemoveFlag FLAG_LOGOUT_REQUEST ss)"
    for ss :: "'a session"
    by (rule SetFlag_frame RemoveFlag_frame; simp add: session_flags)+
  have fr: "session_inv ss'" if "node_frame (snd st) ss'" for ss'
    using that assms(2) by (rule node_frame_inv)
  show ?thesis
  proof (cases h)
    case (OtherHandler nam)
    have "node_frame (snd st) (snd st')"
    proof (cases "nam = ''HandlePlayerLoginOpcode''")
      case True
      with OtherHandler assms(1) show ?thesis using HandlePlayerLoginOpcode_frame [of st env p] by simp
    next
      case False
      with OtherHandler assms(1) have "se_others env nam p st = Some st'" by simp
      with assms(3) show ?thesis unfolding env_quiet_def by blast
    qed
    then show ?thesis by (rule fr)
  next
    case Handle_NODE_MISC_DATA
    then show ?thesis using assms(1,2) by (auto simp: Handle_NODE_MISC_DATA_inv)
  next
    case Handle_SMSG_LOGOUT_COMPLETE
    then show ?thesis using assms(1,2) by (auto simp: Handle_LOGOUT_COMPLETE_inv)
  next
    case Handle_SMSG_AUTH_CHALLENGE
    then show ?thesis using assms(1) by (auto intro!: fr Handle_AUTH_CHALLENGE_frame)
  next
    case Handle_NODE_PLAYER_CHANGED_ZONE
    then show ?thesis using assms(1) by (auto intro!: fr Handle_CHANGED_ZONE_frame)
  qed (use assms(1) in \<open>auto intro!: fr Handle_AUTH_RESPONSE_frame Handle_NODE_PLAYER_DATA_frame req
      Handle_LOGOUT_RESPONSE_frame SendPacket_frame\<close>)
qed

lemma HandlePacket_inv:
  assumes "HandlePacket env p proc st = Some st'" and "session_inv (snd st)" and "env_quiet env"
  shows "session_inv (snd st')"
proof -
  define st1 where "st1 = (if to_the_node proc then apsnd (SendPacketToNode (se_net env) p) st else st)"
  define st2 where "st2 = (if to_the_client proc then apsnd (SendPacket (se_net env) p) st1 else st1)"
  have "session_inv (snd st1)" using assms(2) by (simp add: st1_def node_frame_inv [OF SendPacketToNode_frame])
  then have "session_inv (snd st2)" by (simp add: st2_def node_frame_inv [OF SendPacket_frame])
  moreover have "(if process proc then session_handler env (handler (opcodeTable ! unat (opcode p))) p st2 else Some st2) =
      Some st'" using assms(1) unfolding HandlePacket_def Let_def st1_def st2_def .
  ultimately show ?thesis using assms(3) session_handler_inv by (metis option.inject)
qed

lemma packet_inv:
  "node_packet env p st = Some st' \<Longrightarrow> session_inv (snd st) \<Longrightarrow> env_quiet env \<Longrightarrow> session_inv (snd st')"
  "client_packet env p st = Some st' \<Longrightarrow> session_inv (snd st) \<Longrightarrow> env_quiet env \<Longrightarrow> session_inv (snd st')"
  by (auto simp: node_packet_def client_packet_def Let_def split: if_splits intro: HandlePacket_inv)

lemma session_io_inv:
  assumes "\<And>p st st'. hp p st = Some st' \<Longrightarrow> Q st \<Longrightarrow> Q st'"
  shows "session_io ready hp ps st = Some (rest, st') \<Longrightarrow> Q st \<Longrightarrow> Q st'"
  by (induction ps arbitrary: st) (auto split: if_splits option.splits dest: assms)

lemma with_node_inv: "session_inv ss \<Longrightarrow> (\<And>s. sk_closing (f s) = sk_closing s) \<Longrightarrow> session_inv (with_node f ss)"
  by (auto simp: session_inv_def with_node_def node_ready_def HasFlag_def split: option.splits)

lemma with_client_inv: "session_inv ss \<Longrightarrow> session_inv (with_client f ss)"
  by (simp add: session_inv_def with_client_def node_ready_def HasFlag_def)

lemma IO_inv:
  assumes "session_inv (snd st)" and "env_quiet env"
  shows "UpdateSingleNodeIO env st = Some st' \<Longrightarrow> session_inv (snd st')"
    and "UpdateMultiNodeIO env st = Some st' \<Longrightarrow> session_inv (snd st')"
    and "UpdateSingleClientIO env st = Some st' \<Longrightarrow> session_inv (snd st')"
    and "UpdateMultiClientIO env st = Some st' \<Longrightarrow> session_inv (snd st')"
proof -
  have node: "session_io ready (node_packet env) ps st = Some (rest, st1) \<Longrightarrow> session_inv (snd st1)" for ready ps rest st1
    using session_io_inv [of "node_packet env" "\<lambda>st. session_inv (snd st)"] packet_inv(1) assms by blast
  have client: "session_io ready (client_packet env) ps st = Some (rest, st1) \<Longrightarrow> session_inv (snd st1)" for ready ps rest st1
    using session_io_inv [of "client_packet env" "\<lambda>st. session_inv (snd st)"] packet_inv(2) assms by blast
  show "UpdateSingleNodeIO env st = Some st' \<Longrightarrow> session_inv (snd st')"
    "UpdateMultiNodeIO env st = Some st' \<Longrightarrow> session_inv (snd st')"
    "UpdateSingleClientIO env st = Some st' \<Longrightarrow> session_inv (snd st')"
    "UpdateMultiClientIO env st = Some st' \<Longrightarrow> session_inv (snd st')"
    using assms(1)
    by (auto simp: UpdateSingleNodeIO_def UpdateMultiNodeIO_def UpdateSingleClientIO_def UpdateMultiClientIO_def
        split: option.splits dest!: node client intro!: with_node_inv with_client_inv)
qed

lemma session_reconnect_inv:
  assumes "session_inv (snd st)"
  shows "session_inv (snd (session_reconnect env diff st))"
proof -
  have timer: "session_inv (ss\<lparr>ss_reconnect_timer := t\<rparr>) = session_inv ss" for ss :: "'a session" and t
    by (simp add: session_inv_def node_ready_def HasFlag_def)
  have nid: "session_inv (ss\<lparr>ss_nodeId := t\<rparr>) = session_inv ss" for ss :: "'a session" and t
    by (simp add: session_inv_def node_ready_def HasFlag_def)
  have conn: "session_inv (SetFlag FLAG_ACCOUNT_WAIT_FOR_OK (RemoveFlag FLAG_ACCOUNT_RECONNECT (ss\<lparr>ss_NodeSocket := Some s\<rparr>)))"
    for ss :: "'a session" and s
    by (simp add: session_inv_def flag_simps) (simp add: SetFlag_def RemoveFlag_def)
  have "session_inv (snd (session_connect env st))"
    using assms by (cases st)
      (auto simp: session_connect_def nid node_frame_inv [OF SetStunned_frame conn] split: prod.split option.split)
  with assms show ?thesis by (simp add: session_reconnect_def timer)
qed

lemma session_drop_node_inv: "session_inv ss \<Longrightarrow> session_inv (session_drop_node env ss)"
proof (cases "\<exists>s. ss_NodeSocket ss = Some s \<and> sk_closing s")
  case True
  then obtain s where s: "ss_NodeSocket ss = Some s" "sk_closing s" by blast
  let ?s1 = "SetStunned (se_net env) True (ss\<lparr>ss_NodeSocket := None\<rparr>)"
  have "ss_NodeSocket ?s1 = None" using SetStunned_frame [of "ss\<lparr>ss_NodeSocket := None\<rparr>" "se_net env" True]
    by (simp add: node_frame_def)
  then have "session_inv (SetFlag FLAG_ACCOUNT_RECONNECT t)" if "t = ?s1 \<or> t = SetFlag FLAG_FORCE_TELEPORT ?s1" for t
    using that by (auto simp: session_inv_def flag_simps) (auto simp: SetFlag_def node_ready_def)
  then show ?thesis by (simp add: session_drop_node_def s Let_def)
qed (auto simp: session_drop_node_def split: option.split)


lemma session_callbacks_frame:
  assumes "env_quiet env"
  shows "node_frame ss (session_callbacks env diff ss)"
proof -
  have timer: "node_frame ss (ss\<lparr>ss_callback_timer := t\<rparr>)" for t by (rule node_frame_same) simp_all
  have query: "node_frame t (t\<lparr>ss_loginQuery := None\<rparr>)" for t :: "'a session" by (rule node_frame_same) simp_all
  have pq: "node_frame t (ProcessQueryCallbacks env t)" for t
  proof -
    define t1 where "t1 = (case se_charEnum env of None \<Rightarrow> t | Some rows \<Rightarrow> HandleCharEnum (se_net env) rows t)"
    define t2 where "t2 = (case se_charLogin env of None \<Rightarrow> t1
      | Some (guid, loaded) \<Rightarrow> (HandlePlayerLogin env guid loaded t1)\<lparr>ss_loginQuery := None\<rparr>)"
    have "node_frame t t1" by (simp add: t1_def HandleCharEnum_frame split: option.split)
    moreover have "node_frame t1 t2"
      by (auto simp: t2_def intro: node_frame_trans [OF HandlePlayerLogin_frame query] split: option.split)
    moreover have "node_frame t2 (se_social env t2)" using assms by (simp add: env_quiet_def)
    ultimately show ?thesis
      by (simp add: ProcessQueryCallbacks_def Let_def flip: t1_def t2_def) (blast intro: node_frame_trans)
  qed
  show ?thesis by (simp add: session_callbacks_def timer node_frame_trans [OF timer pq])
qed

lemma session_updates_inv:
  assumes "session_inv (snd st)" and "env_quiet env"
  shows "(\<forall>b st'. UpdateSingle env st = Some (b, st') \<longrightarrow> session_inv (snd st')) \<and>
    (\<forall>b st'. UpdateMulti env diff st = Some (b, st') \<longrightarrow> session_inv (snd st'))"
proof (intro conjI allI impI)
  fix b st'
  assume "UpdateSingle env st = Some (b, st')"
  then consider "st' = st" | "UpdateSingleNodeIO env st = Some st'"
    | st1 where "UpdateSingleNodeIO env st = Some st1" "UpdateSingleClientIO env st1 = Some st'"
    by (auto simp: UpdateSingle_def split: if_splits option.splits)
  then show "session_inv (snd st')"
  proof cases
    case (3 st1)
    have "session_inv (snd st1)" by (rule IO_inv(1) [OF assms 3(1)])
    then show ?thesis using IO_inv(3) [OF _ assms(2) 3(2)] by blast
  next
    case 2
    then show ?thesis by (rule IO_inv(1) [OF assms])
  qed (use assms in simp)
next
  fix b st'
  assume up: "UpdateMulti env diff st = Some (b, st')"
  let ?st1 = "apsnd (session_callbacks env diff) (apsnd (session_timeout env) st)"
  have "node_frame (snd st) (session_timeout env (snd st))"
    by (auto simp: session_timeout_def KickPlayer_frame split: option.split)
  then have "session_inv (session_timeout env (snd st))" using assms(1) by (rule node_frame_inv)
  then have "session_inv (snd ?st1)" using node_frame_inv [OF session_callbacks_frame [OF assms(2)]] by simp
  then have two: "session_inv (snd (session_reconnect env diff ?st1))" by (rule session_reconnect_inv)
  show "session_inv (snd st')"
  proof (cases "HasFlag FLAG_ACCOUNT_KICKED (snd st)")
    case True
    with up assms(1) show ?thesis by (auto simp: UpdateMulti_def)
  next
    case False
    with up obtain st3 st4 where st3: "UpdateMultiNodeIO env (session_reconnect env diff ?st1) = Some st3"
      and st4: "UpdateMultiClientIO env (apsnd (session_drop_node env) st3) = Some st4"
      and end_st: "st' = apsnd session_drop_client (apsnd (se_warden env) st4)"
      by (auto simp: UpdateMulti_def Let_def split: option.splits if_splits)
    have "session_inv (snd st3)" by (rule IO_inv(2) [OF two assms(2) st3])
    then have "session_inv (snd (apsnd (session_drop_node env) st3))" by (simp add: session_drop_node_inv)
    then have "session_inv (snd st4)" using IO_inv(4) [OF _ assms(2) st4] by blast
    moreover have "node_frame (snd st4) (se_warden env (snd st4))" using assms(2) by (simp add: env_quiet_def)
    ultimately have "session_inv (se_warden env (snd st4))" by (rule node_frame_inv [rotated])
    moreover have "node_frame t (session_drop_client t)" for t :: "'a session"
      by (rule node_frame_same) (simp_all add: session_drop_client_def split: option.split)
    ultimately show ?thesis using end_st node_frame_inv by auto
  qed
qed


text \<open>
  The life of a session: its two updates, a kick from another thread, the routing helper as the
  control sessions change it, and the sockets as the network threads change them, which fill queues
  and close but never reopen.
\<close>

inductive session_step :: "'c sstate \<Rightarrow> 'c sstate \<Rightarrow> bool" where
  single: "session_step st st'" if "UpdateSingle env st = Some (b, st')" and "env_quiet env"
| multi: "session_step st st'" if "UpdateMulti env diff st = Some (b, st')" and "env_quiet env"
| kicked: "session_step (r, ss) (r, KickPlayer ss)"
| routed: "session_step (r, ss) (r', ss)"
| node_net: "session_step (r, ss) (r, with_node f ss)" if "\<And>s. sk_closing s \<Longrightarrow> sk_closing (f s)"
| client_net: "session_step (r, ss) (r, with_client f ss)"

lemma session_step_inv: "session_step st st' \<Longrightarrow> session_inv (snd st) \<Longrightarrow> session_inv (snd st')"
proof (induction rule: session_step.induct)
  case (single env st b st')
  then show ?case using session_updates_inv by blast
next
  case (multi env diff st b st')
  then show ?case using session_updates_inv by blast
next
  case (kicked r ss)
  then show ?case using node_frame_inv [OF KickPlayer_frame] by simp
next
  case (node_net f r ss)
  then show ?case
    by (auto simp: session_inv_def with_node_def node_ready_def HasFlag_def split: option.splits)
qed (simp_all add: with_client_inv)

lemma ClientSession_new_inv: "session_inv (snd (ClientSession_new acc sock sec ex junk r))"
  by (simp add: ClientSession_new_def to_master_def session_inv_def flag_simps split: prod.split)
    (simp add: SetFlag_def node_ready_def)

text \<open>
  C22: From its creation on, whatever its updates, its sockets, the routing and the other threads do, a
  session never waits to reconnect while it has an open link to a node, so no link is ever replaced
  while it is open; and a session without a link is always one that will try to get one, unless it was
  kicked.
\<close>

theorem session_keeps_its_link:
  assumes "session_step\<^sup>*\<^sup>* (ClientSession_new acc sock sec ex junk r) (r', ss)"
  shows "(HasFlag FLAG_ACCOUNT_RECONNECT ss \<longrightarrow> \<not> node_ready ss) \<and>
    (ss_NodeSocket ss = None \<longrightarrow> HasFlag FLAG_ACCOUNT_RECONNECT ss \<or> HasFlag FLAG_ACCOUNT_KICKED ss)"
proof -
  have "session_inv (snd (r', ss))"
    using assms by (induction rule: rtranclp_induct) (auto intro: ClientSession_new_inv session_step_inv)
  then show ?thesis by (simp add: session_inv_def)
qed


section \<open>A client cannot speak for a node\<close>

definition node_only :: "client_handler \<Rightarrow> bool" where
  "node_only h \<longleftrightarrow> h \<in> {Handle_SMSG_AUTH_RESPONSE, Handle_SMSG_AUTH_CHALLENGE, Handle_NODE_MISC_DATA,
     Handle_NODE_PLAYER_DATA, Handle_NODE_PLAYER_CHANGED_ZONE, Handle_SMSG_LOGOUT_RESPONSE,
     Handle_SMSG_LOGOUT_COMPLETE}"

definition row_refuses_client :: "OpcodeHandler \<Rightarrow> bool" where
  "row_refuses_client row \<longleftrightarrow>
     (node_only (handler row) \<longrightarrow> status row = STATUS_NEVER \<or> to_node row = PACKET_STATE_NULL)"

lemma rows_refuse_client:
  "list_all row_refuses_client opcode_rows_0" "list_all row_refuses_client opcode_rows_1"
  "list_all row_refuses_client opcode_rows_2" "list_all row_refuses_client opcode_rows_3"
  "list_all row_refuses_client opcode_rows_4" "list_all row_refuses_client opcode_rows_5"
  "list_all row_refuses_client opcode_rows_6" "list_all row_refuses_client opcode_rows_7"
  "list_all row_refuses_client opcode_rows_8" "row_refuses_client zero_row"
  by (simp_all add: opcode_rows_0_def opcode_rows_1_def opcode_rows_2_def opcode_rows_3_def opcode_rows_4_def
      opcode_rows_5_def opcode_rows_6_def opcode_rows_7_def opcode_rows_8_def row_refuses_client_def node_only_def
      zero_row_def)

lemma nth_row_refuses_client: "n < NUM_MSG_TYPES \<Longrightarrow> row_refuses_client (opcodeTable ! n)"
proof -
  assume n: "n < NUM_MSG_TYPES"
  have "list_all row_refuses_client opcodeTable"
    by (simp add: opcodeTable_def rows_refuse_client list_all_append list_all_iff)
      (use rows_refuse_client in \<open>auto simp: list_all_iff\<close>)
  with n show ?thesis by (simp add: list_all_length)
qed

text \<open>
  C25: A client cannot make the proxy run a handler that is meant for the packets of a node: whatever
  it sends with such an opcode neither changes the session nor is passed on to the node.
\<close>

theorem client_cannot_speak_for_node:
  assumes "node_only (handler (opcodeTable ! unat (opcode p)))"
  shows "client_packet env p st = Some st"
proof (cases "unat (opcode p) < NUM_MSG_TYPES")
  case True
  with nth_row_refuses_client [OF True] assms show ?thesis
    by (auto simp: client_packet_def Let_def row_refuses_client_def status_permits_def to_node_procedure_def
        HandlePacket_def)
qed (simp add: client_packet_def)


section \<open>Sending while the links hold\<close>

text \<open>No queue is full and the reactor accepts wake-ups.\<close>

definition net_holds :: "'c net \<Rightarrow> bool" where
  "net_holds net \<longleftrightarrow> nt_full net = (\<lambda>q. False) \<and> nt_wake net"

text \<open>The link to the node is open and not enciphered (node links never start a key stream).\<close>

definition node_open :: "'c session \<Rightarrow> 'c sock \<Rightarrow> bool" where
  "node_open ss s \<longleftrightarrow> ss_NodeSocket ss = Some s \<and> \<not> sk_closing s \<and> out_ok s \<and> \<not> crypt_initialized (sk_crypt s)"

lemma NodeSocket_send_holds:
  assumes "\<not> sk_closing s" "out_ok s" "\<not> crypt_initialized (sk_crypt s)"
  obtains s' where "Socket_SendPacket (NodeSocket_sendPacket upd (\<lambda>q. False)) True p s = (0, s')"
    and "\<not> sk_closing s'" "out_ok s'" "\<not> crypt_initialized (sk_crypt s')"
    and "out_pending s' = out_pending s @ flexi_wire p" and "sk_multi s' = sk_multi s" "sk_single s' = sk_single s"
proof -
  obtain r s' where ns: "NodeSocket_sendPacket upd (\<lambda>q. False) p s = (r, s')" by fastforce
  have r: "r = 0" and kept: "sk_closing s' = sk_closing s" "sk_crypt s' = sk_crypt s" "sk_multi s' = sk_multi s"
    "sk_single s' = sk_single s"
    using ns assms(3)
    by (auto simp: NodeSocket_sendPacket_def Let_def AuthCrypt_EncryptSend_def sock_put_def split: if_splits)
  have "flexi_block upd s p = flexi_wire p"
    using assms(3) by (simp add: flexi_block_def flexi_wire_def AuthCrypt_EncryptSend_def)
  with NodeSocket_sends [OF ns assms(2)] r have pend: "out_pending s' = out_pending s @ flexi_wire p" "out_ok s'" by simp_all
  have "Socket_SendPacket (NodeSocket_sendPacket upd (\<lambda>q. False)) True p s = (0, s')"
    using assms(1) by (simp add: Socket_SendPacket_def ns r schedule_wakeup_output_def)
  with that kept pend assms show thesis by simp
qed

lemma SendPacketToNode_holds:
  assumes "net_holds net" and "node_open ss s"
  obtains s' where "SendPacketToNode net p ss = ss\<lparr>ss_NodeSocket := Some s'\<rparr>"
    and "node_open (ss\<lparr>ss_NodeSocket := Some s'\<rparr>) s'" and "out_pending s' = out_pending s @ flexi_wire p"
    and "sk_multi s' = sk_multi s" "sk_single s' = sk_single s"
proof -
  have o: "\<not> sk_closing s" "out_ok s" "\<not> crypt_initialized (sk_crypt s)" and n: "ss_NodeSocket ss = Some s"
    using assms(2) by (simp_all add: node_open_def)
  have net: "nt_full net = (\<lambda>q. False)" "nt_wake net = True" using assms(1) by (simp_all add: net_holds_def)
  obtain s' where s': "Socket_SendPacket (NodeSocket_sendPacket (nt_upd net) (\<lambda>q. False)) True p s = (0, s')"
    "\<not> sk_closing s'" "out_ok s'" "\<not> crypt_initialized (sk_crypt s')" "out_pending s' = out_pending s @ flexi_wire p"
    "sk_multi s' = sk_multi s" "sk_single s' = sk_single s"
    by (rule NodeSocket_send_holds [OF o])
  have "SendPacketToNode net p ss = ss\<lparr>ss_NodeSocket := Some s'\<rparr>"
    unfolding SendPacketToNode_def n option.case net s'(1) prod.case Let_def by simp
  with that s' show thesis by (simp add: node_open_def)
qed

text \<open>The client's socket: it stays open and keeps its queues.\<close>

lemma SendPacket_holds:
  assumes "net_holds net" and "ss_ClientSocket ss = Some c" and "\<not> sk_closing c"
  obtains c' where "SendPacket net p ss = ss\<lparr>ss_ClientSocket := Some c'\<rparr>" and "\<not> sk_closing c'"
    and "sk_multi c' = sk_multi c" "sk_single c' = sk_single c" "clk_lastActionTime c' = clk_lastActionTime c"
proof -
  have net: "nt_full net = (\<lambda>q. False)" "nt_wake net = True" using assms(1) by (simp_all add: net_holds_def)
  obtain r c' where s: "Socket_SendPacket (ClientSocket_sendPacket (nt_upd net) (\<lambda>q. False)) True p c = (r, c')"
    by fastforce
  have fr: "sk_closing c' = sk_closing c" "sk_multi c' = sk_multi c" "sk_single c' = sk_single c"
    "sock.more c' = sock.more c" using ClientSocket_send_frame [OF s] by simp_all
  have "r = 0"
    using s assms(3)
    by (auto simp: Socket_SendPacket_def ClientSocket_sendPacket_def Let_def sock_put_def schedule_wakeup_output_def
        split: prod.splits if_splits)
  then have "SendPacket net p ss = ss\<lparr>ss_ClientSocket := Some c'\<rparr>"
    unfolding SendPacket_def assms(2) option.case net s prod.case Let_def by simp
  moreover have "clk_lastActionTime c' = clk_lastActionTime c" using fr(4) by (cases c, cases c', simp)
  ultimately show thesis using that fr assms(3) by simp
qed

text \<open>
  When the node accepts a session that waits for it, the login of the session's character leaves
  for the node, once: the wait is over and a second acceptance sends nothing.
\<close>

theorem player_login_sent_once:
  assumes "net_holds net" and "node_open ss s" and "HasFlag FLAG_ACCOUNT_WAIT_FOR_OK ss" and "ss_player ss = Some pl"
  shows "\<exists>ss1 s1. Handle_SMSG_AUTH_RESPONSE_at net (mk_pkt SMSG_AUTH_RESPONSE [U8 AUTH_OK]) ss = ss1 \<and>
    node_open ss1 s1 \<and> out_pending s1 = out_pending s @ flexi_wire (mk_pkt CMSG_PLAYER_LOGIN [U64 (ply_GUID pl)]) \<and>
    \<not> HasFlag FLAG_ACCOUNT_WAIT_FOR_OK ss1 \<and>
    Handle_SMSG_AUTH_RESPONSE_at net (mk_pkt SMSG_AUTH_RESPONSE [U8 AUTH_OK]) ss1 = ss1"
proof -
  let ?p = "mk_pkt SMSG_AUTH_RESPONSE [U8 AUTH_OK]" and ?login = "mk_pkt CMSG_PLAYER_LOGIN [U64 (ply_GUID pl)]"
  obtain b where rd: "bb_shr TU8 (buf ?p) = Inr (U8 AUTH_OK, b)"
    using reads_one [of "buf ?p" "U8 AUTH_OK" "[]", OF reads_mk_pkt] by (auto simp del: bb_shr.simps)
  obtain s1 where s1: "SendPacketToNode net ?login ss = ss\<lparr>ss_NodeSocket := Some s1\<rparr>"
    "node_open (ss\<lparr>ss_NodeSocket := Some s1\<rparr>) s1" "out_pending s1 = out_pending s @ flexi_wire ?login"
    by (rule SendPacketToNode_holds [OF assms(1,2)])
  define ss1 where "ss1 = Handle_SMSG_AUTH_RESPONSE_at net ?p ss"
  have ss1: "ss1 = RemoveFlag FLAG_ACCOUNT_WAIT_FOR_OK (ss\<lparr>ss_NodeSocket := Some s1\<rparr>) \<or>
      ss1 = RemoveFlag FLAG_TRANSFER_PENDING (RemoveFlag FLAG_ACCOUNT_WAIT_FOR_OK (ss\<lparr>ss_NodeSocket := Some s1\<rparr>)) \<and>
      \<not> HasFlag FLAG_TRANSFER_PENDING ss1"
    and off: "\<not> HasFlag FLAG_TRANSFER_PENDING ss1"
    unfolding ss1_def Handle_SMSG_AUTH_RESPONSE_at_def rd sum.case prod.case field.case Let_def assms(4) option.case
      SendPlayerLogin_def s1(1)
    using assms(3) by (auto simp: flag_simps)
  have wait: "\<not> HasFlag FLAG_ACCOUNT_WAIT_FOR_OK ss1" using ss1 by (auto simp: flag_simps)
  have "node_open ss1 s1" using ss1 s1(2) by (auto simp: node_open_def RemoveFlag_def)
  moreover have "Handle_SMSG_AUTH_RESPONSE_at net ?p ss1 = ss1"
    unfolding Handle_SMSG_AUTH_RESPONSE_at_def rd sum.case prod.case field.case Let_def using wait off by simp
  ultimately show ?thesis using s1(3) wait ss1_def by blast
qed


section \<open>Passing through\<close>

text \<open>A packet the table passes on to the node, in the session's state.\<close>

definition passes_to_node :: "'c session \<Rightarrow> wpacket \<Rightarrow> bool" where
  "passes_to_node ss p \<longleftrightarrow> unat (opcode p) < NUM_MSG_TYPES \<and>
     to_node (opcodeTable ! unat (opcode p)) = PACKET_STATE_NODE \<and>
     status_permits (status (opcodeTable ! unat (opcode p))) ss"

lemma client_packet_passes:
  "passes_to_node ss p \<Longrightarrow> client_packet env p (r, ss) = Some (r, SendPacketToNode (se_net env) p ss)"
  by (simp add: client_packet_def passes_to_node_def to_node_procedure_def HandlePacket_def Let_def)

lemma passes_same_link [simp]: "passes_to_node (ss\<lparr>ss_NodeSocket := x\<rparr>) = passes_to_node ss"
  by (rule ext) (simp add: passes_to_node_def status_permits_def)

lemma client_io_passes:
  assumes "net_holds (se_net env)" and "node_open ss s" and "client_ready ss"
    and "list_all (passes_to_node ss) ps"
  shows "\<exists>s'. session_io client_ready (client_packet env) ps (r, ss) = Some ([], r, ss\<lparr>ss_NodeSocket := Some s'\<rparr>) \<and>
    node_open (ss\<lparr>ss_NodeSocket := Some s'\<rparr>) s' \<and> out_pending s' = out_pending s @ concat (map flexi_wire ps)"
  using assms(2-4)
proof (induction ps arbitrary: ss s)
  case Nil
  moreover have "ss\<lparr>ss_NodeSocket := Some s\<rparr> = ss" using Nil by (cases ss) (simp add: node_open_def)
  ultimately show ?case by (intro exI [of _ s]) simp
next
  case (Cons p ps)
  obtain s1 where s1: "SendPacketToNode (se_net env) p ss = ss\<lparr>ss_NodeSocket := Some s1\<rparr>"
    "node_open (ss\<lparr>ss_NodeSocket := Some s1\<rparr>) s1" "out_pending s1 = out_pending s @ flexi_wire p"
    by (rule SendPacketToNode_holds [OF assms(1) Cons.prems(1)])
  have "client_ready (ss\<lparr>ss_NodeSocket := Some s1\<rparr>)" "list_all (passes_to_node (ss\<lparr>ss_NodeSocket := Some s1\<rparr>)) ps"
    using Cons.prems by (simp_all add: client_ready_def)
  from Cons.IH [OF s1(2) this] obtain s2
    where "session_io client_ready (client_packet env) ps (r, ss\<lparr>ss_NodeSocket := Some s1\<rparr>) =
        Some ([], r, ss\<lparr>ss_NodeSocket := Some s1, ss_NodeSocket := Some s2\<rparr>)"
      "node_open (ss\<lparr>ss_NodeSocket := Some s2\<rparr>) s2" "out_pending s2 = out_pending s1 @ concat (map flexi_wire ps)"
    by auto
  then show ?case
    using s1 Cons.prems by (auto simp: client_packet_passes)
qed

text \<open>
  C24: The packets a client sends that the table passes on leave for the node unchanged and in their
  order, one frame each behind what already waits, and its queue is empty afterwards.
\<close>

theorem client_packets_pass_in_order:
  assumes "net_holds (se_net env)" and "node_open ss s" and "ss_ClientSocket ss = Some c" and "\<not> sk_closing c"
    and "list_all (passes_to_node ss) (lq_queue (sk_multi c))"
  shows "\<exists>s' c'. UpdateMultiClientIO env (r, ss) = Some (r, ss\<lparr>ss_NodeSocket := Some s', ss_ClientSocket := Some c'\<rparr>) \<and>
    lq_queue (sk_multi c') = [] \<and> \<not> sk_closing s' \<and>
    out_pending s' = out_pending s @ concat (map flexi_wire (lq_queue (sk_multi c)))"
proof -
  have "client_ready ss" using assms(3,4) by (simp add: client_ready_def)
  from client_io_passes [OF assms(1,2) this assms(5)] obtain s'
    where io: "session_io client_ready (client_packet env) (lq_queue (sk_multi c)) (r, ss) =
        Some ([], r, ss\<lparr>ss_NodeSocket := Some s'\<rparr>)"
      and s': "node_open (ss\<lparr>ss_NodeSocket := Some s'\<rparr>) s'"
        "out_pending s' = out_pending s @ concat (map flexi_wire (lq_queue (sk_multi c)))" by blast
  let ?c' = "c\<lparr>sk_multi := (sk_multi c)\<lparr>lq_queue := []\<rparr>\<rparr>"
  have "UpdateMultiClientIO env (r, ss) = Some (r, ss\<lparr>ss_NodeSocket := Some s', ss_ClientSocket := Some ?c'\<rparr>)"
    using assms(3) by (simp add: UpdateMultiClientIO_def io with_client_def)
  moreover have "lq_queue (sk_multi ?c') = []" by simp
  ultimately show ?thesis using s' unfolding node_open_def by blast
qed

section \<open>Moving to another node\<close>

text \<open>Nothing but the node's packets happens: no answer of the database, an idle, living client.\<close>

definition env_idle :: "'c senv \<Rightarrow> bool" where
  "env_idle env \<longleftrightarrow> net_holds (se_net env) \<and> se_charEnum env = None \<and> se_charLogin env = None \<and>
     se_social env = (\<lambda>ss. ss) \<and> se_warden env = (\<lambda>ss. ss)"

definition client_idle :: "'c senv \<Rightarrow> 'c session \<Rightarrow> bool" where
  "client_idle env ss \<longleftrightarrow> ss_warden ss \<and> (\<exists>c. ss_ClientSocket ss = Some c \<and> \<not> sk_closing c \<and> lq_queue (sk_multi c) = [] \<and>
     unat (clk_lastActionTime c) \<le> unat (se_now env) + unat (se_timeout env))"

lemma SendPacket_idle:
  assumes "net_holds net" and "client_idle env ss"
  shows "client_idle env (SendPacket net p ss) \<and>
    (\<exists>c'. SendPacket net p ss = ss\<lparr>ss_ClientSocket := Some c'\<rparr>)"
proof -
  obtain c where c: "ss_ClientSocket ss = Some c" "\<not> sk_closing c" "lq_queue (sk_multi c) = []"
    "unat (clk_lastActionTime c) \<le> unat (se_now env) + unat (se_timeout env)" and w: "ss_warden ss"
    using assms(2) by (auto simp: client_idle_def)
  obtain c' where "SendPacket net p ss = ss\<lparr>ss_ClientSocket := Some c'\<rparr>" "\<not> sk_closing c'"
    "sk_multi c' = sk_multi c" "clk_lastActionTime c' = clk_lastActionTime c"
    by (rule SendPacket_holds [OF assms(1) c(1,2)])
  with c w show ?thesis by (auto simp: client_idle_def)
qed

lemma SetStunned_idle:
  assumes "net_holds net" and "client_idle env ss"
  shows "client_idle env (SetStunned net b ss) \<and> (\<exists>c'. SetStunned net b ss = ss\<lparr>ss_ClientSocket := c'\<rparr>)"
proof (cases "ss_player ss")
  case None
  then show ?thesis using assms(2) by (auto simp: SetStunned_def intro: exI [of _ "ss_ClientSocket ss"])
next
  case (Some pl)
  let ?m = "mk_pkt SMSG_MESSAGECHAT [U8 CHAT_MSG_SYSTEM, U32 LANG_UNIVERSAL, U64 0, U32 0, U64 0,
    U32 (word_of_nat (length (if b then lost_text else back_text) + 1)), Str (if b then lost_text else back_text), U8 0]"
  let ?r = "mk_pkt (if b then SMSG_FORCE_MOVE_ROOT else SMSG_FORCE_MOVE_UNROOT) (pack_guid (ply_GUID pl) @ [U32 0])"
  have st: "SetStunned net b ss = SendPacket net ?r (SendPacket net ?m ss)"
    by (simp add: SetStunned_def SendServerMessageToPlayer_def Some)
  from SendPacket_idle [OF assms, of ?m] obtain c1 where one: "client_idle env (SendPacket net ?m ss)"
    "SendPacket net ?m ss = ss\<lparr>ss_ClientSocket := Some c1\<rparr>" by blast
  from SendPacket_idle [OF assms(1) one(1), of ?r] one(2) show ?thesis unfolding st by auto
qed

text \<open>One update of an idle client, reduced to its link.\<close>

lemma UpdateMulti_idle:
  assumes "env_idle env" and "client_idle env ss" and "\<not> HasFlag FLAG_ACCOUNT_KICKED ss"
  obtains t where "UpdateMulti env diff (r, ss) =
    (case UpdateMultiNodeIO env (session_reconnect env diff (r, ss\<lparr>ss_callback_timer := t\<rparr>)) of
       None \<Rightarrow> None
     | Some st3 \<Rightarrow>
         (case UpdateMultiClientIO env (apsnd (session_drop_node env) st3) of
            None \<Rightarrow> None
          | Some st4 \<Rightarrow> if \<not> ss_warden (snd st4) then None
              else Some (ss_ClientSocket (session_drop_client (snd st4)) \<noteq> None, apsnd session_drop_client st4)))"
proof -
  have to: "session_timeout env ss = ss"
    using assms(2) by (auto simp: session_timeout_def client_idle_def split: option.split)
  obtain t where cb: "session_callbacks env diff ss = ss\<lparr>ss_callback_timer := t\<rparr>"
    using assms(1) by (cases "ss_callback_timer ss \<le> diff")
      (auto simp: session_callbacks_def ProcessQueryCallbacks_def env_idle_def)
  have w: "se_warden env = (\<lambda>ss. ss)" using assms(1) by (simp add: env_idle_def)
  show thesis
    by (rule that [of t])
      (simp add: UpdateMulti_def Let_def to cb assms(3) w option.case_eq_if apsnd_def map_prod_def case_prod_beta)
qed

lemma client_idle_IO:
  assumes "client_idle env ss"
  shows "UpdateMultiClientIO env (r, ss) = Some (r, ss)" and "session_drop_client ss = ss"
proof -
  obtain c where c: "ss_ClientSocket ss = Some c" "\<not> sk_closing c" "lq_queue (sk_multi c) = []"
    using assms by (auto simp: client_idle_def)
  have "c\<lparr>sk_multi := (sk_multi c)\<lparr>lq_queue := []\<rparr>\<rparr> = c"
    using c(3) by (cases c; cases "sk_multi c") simp
  moreover have "ss\<lparr>ss_ClientSocket := Some c\<rparr> = ss" using c(1) by (cases ss) simp
  ultimately show "UpdateMultiClientIO env (r, ss) = Some (r, ss)"
    using c by (simp add: UpdateMultiClientIO_def with_client_def)
  show "session_drop_client ss = ss" using c by (simp add: session_drop_client_def)
qed


lemma row_MISC_DATA: "opcodeTable ! 0x527 = OH ''NODE_MISC_DATA'' True STATUS_LOGGEDIN PACKET_STATE_NULL
    PACKET_STATE_LOGON Handle_NODE_MISC_DATA"
proof -
  have "opcodeTable ! 0x527 = drop 0x525 opcodeTable ! 2" by (simp add: NUM_MSG_TYPES_def)
  then show ?thesis by (simp only: opcodeTable_tail) simp
qed

lemma transfer_packet:
  "node_packet env (mk_pkt NODE_MISC_DATA [U32 CL_DEF_TRANSFER_TO_NODE, U32 n]) st =
     Some (if ss_nodeId (snd st) = n \<or> \<not> CheckNodeID n (fst st) then st
       else (fst st, SetFlag FLAG_ACCOUNT_RECONNECT
         ((CloseSubSocket ((snd st)\<lparr>ss_nodeId := n\<rparr>))\<lparr>ss_reconnect_timer := 500\<rparr>)))"
proof -
  let ?p = "mk_pkt NODE_MISC_DATA [U32 CL_DEF_TRANSFER_TO_NODE, U32 n]"
  obtain b1 where b1: "bb_shr TU32 (buf ?p) = Inr (U32 CL_DEF_TRANSFER_TO_NODE, b1)" and rd: "reads b1 [U32 n]"
    using reads_one [of "buf ?p" "U32 CL_DEF_TRANSFER_TO_NODE" "[U32 n]", OF reads_mk_pkt]
    by (auto simp del: bb_shr.simps)
  obtain b2 where b2: "bb_shr TU32 b1 = Inr (U32 n, b2)"
    using reads_one [of b1 "U32 n" "[]", OF rd] by (auto simp del: bb_shr.simps)
  have op: "unat NODE_MISC_DATA = 0x527" by (simp add: opcode_defs)
  have "Handle_NODE_MISC_DATA_at ?p st = (if ss_nodeId (snd st) = n \<or> \<not> CheckNodeID n (fst st) then st
       else (fst st, SetFlag FLAG_ACCOUNT_RECONNECT
         ((CloseSubSocket ((snd st)\<lparr>ss_nodeId := n\<rparr>))\<lparr>ss_reconnect_timer := 500\<rparr>)))"
    unfolding Handle_NODE_MISC_DATA_at_def b1 sum.case prod.case field.case b2 by simp
  then show ?thesis
    by (simp add: node_packet_def op row_MISC_DATA from_node_procedure_def HandlePacket_def NUM_MSG_TYPES_def)
qed

text \<open>The lost link, with a client to tell.\<close>

lemma session_drop_idle:
  assumes "net_holds (se_net env)" and "client_idle env x" and "ss_NodeSocket x = Some s" and "sk_closing s"
  shows "client_idle env (session_drop_node env x)" and "ss_NodeSocket (session_drop_node env x) = None"
    and "ss_nodeId (session_drop_node env x) = ss_nodeId x"
    and "ss_reconnect_timer (session_drop_node env x) = ss_reconnect_timer x"
    and "HasFlag FLAG_ACCOUNT_RECONNECT (session_drop_node env x)"
    and "HasFlag FLAG_ACCOUNT_KICKED (session_drop_node env x) = HasFlag FLAG_ACCOUNT_KICKED x"
    and "ss_player x \<noteq> None \<Longrightarrow> HasFlag FLAG_FORCE_TELEPORT (session_drop_node env x)"
    and "ss_player (session_drop_node env x) = ss_player x"
proof -
  have "client_idle env (x\<lparr>ss_NodeSocket := None\<rparr>)" using assms(2) by (simp add: client_idle_def)
  from SetStunned_idle [OF assms(1) this, of True] obtain c'
    where st: "SetStunned (se_net env) True (x\<lparr>ss_NodeSocket := None\<rparr>) = x\<lparr>ss_NodeSocket := None, ss_ClientSocket := c'\<rparr>"
      and idle: "client_idle env (x\<lparr>ss_NodeSocket := None, ss_ClientSocket := c'\<rparr>)" by auto
  have flag: "client_idle env (SetFlag f y) = client_idle env y" for f y by (simp add: client_idle_def SetFlag_def)
  have has: "HasFlag f (x\<lparr>ss_NodeSocket := None, ss_ClientSocket := c'\<rparr>) = HasFlag f x" for f by (simp add: HasFlag_def)
  show "client_idle env (session_drop_node env x)" "ss_NodeSocket (session_drop_node env x) = None"
    "ss_nodeId (session_drop_node env x) = ss_nodeId x"
    "ss_reconnect_timer (session_drop_node env x) = ss_reconnect_timer x"
    "HasFlag FLAG_ACCOUNT_RECONNECT (session_drop_node env x)"
    "HasFlag FLAG_ACCOUNT_KICKED (session_drop_node env x) = HasFlag FLAG_ACCOUNT_KICKED x"
    "ss_player x \<noteq> None \<Longrightarrow> HasFlag FLAG_FORCE_TELEPORT (session_drop_node env x)"
    "ss_player (session_drop_node env x) = ss_player x"
    using idle by (simp_all add: session_drop_node_def assms(3,4) st Let_def flag flag_simps has)
      (simp_all add: SetFlag_def)
qed

lemma transfer_leaves:
  assumes "env_idle env" "client_idle env ss"
    and "\<not> HasFlag FLAG_ACCOUNT_KICKED ss" "\<not> HasFlag FLAG_ACCOUNT_RECONNECT ss"
    and "ss_NodeSocket ss = Some s" "\<not> sk_closing s"
      "lq_queue (sk_multi s) = [mk_pkt NODE_MISC_DATA [U32 CL_DEF_TRANSFER_TO_NODE, U32 n]]"
    and "n \<noteq> ss_nodeId ss" "CheckNodeID n r"
  obtains ss1 where "UpdateMulti env diff (r, ss) = Some (True, r, ss1)" and "client_idle env ss1"
    and "ss_NodeSocket ss1 = None" "ss_nodeId ss1 = n" "ss_reconnect_timer ss1 = 500"
    and "HasFlag FLAG_ACCOUNT_RECONNECT ss1" "\<not> HasFlag FLAG_ACCOUNT_KICKED ss1"
    and "ss_player ss1 = ss_player ss" "ss_player ss \<noteq> None \<longrightarrow> HasFlag FLAG_FORCE_TELEPORT ss1"
proof -
  obtain t where up: "UpdateMulti env diff (r, ss) =
    (case UpdateMultiNodeIO env (session_reconnect env diff (r, ss\<lparr>ss_callback_timer := t\<rparr>)) of
       None \<Rightarrow> None
     | Some st3 \<Rightarrow>
         (case UpdateMultiClientIO env (apsnd (session_drop_node env) st3) of
            None \<Rightarrow> None
          | Some st4 \<Rightarrow> if \<not> ss_warden (snd st4) then None
              else Some (ss_ClientSocket (session_drop_client (snd st4)) \<noteq> None, apsnd session_drop_client st4)))"
    by (rule UpdateMulti_idle [OF assms(1-3)])
  let ?t = "ss\<lparr>ss_callback_timer := t\<rparr>"
  have rec: "session_reconnect env diff (r, ?t) = (r, ?t)"
    using assms(4) by (simp add: session_reconnect_def HasFlag_def)
  let ?x = "SetFlag FLAG_ACCOUNT_RECONNECT ((CloseSubSocket (?t\<lparr>ss_nodeId := n\<rparr>))\<lparr>ss_reconnect_timer := 500\<rparr>)"
  let ?y = "with_node (\<lambda>s. s\<lparr>sk_multi := (sk_multi s)\<lparr>lq_queue := []\<rparr>\<rparr>) ?x"
  have io: "UpdateMultiNodeIO env (r, ?t) = Some (r, ?y)"
    using assms(5-9) by (simp add: UpdateMultiNodeIO_def node_ready_def transfer_packet)
  have idle: "client_idle env ?y" using assms(2)
    by (simp add: client_idle_def with_node_def SetFlag_def CloseSubSocket_def)
  obtain s2 where s2: "ss_NodeSocket ?y = Some s2" "sk_closing s2"
    using assms(5) by (simp add: with_node_def SetFlag_def CloseSubSocket_def)
  have net: "net_holds (se_net env)" using assms(1) by (simp add: env_idle_def)
  note drop = session_drop_idle [OF net idle s2]
  have has: "HasFlag f ?y = HasFlag f ?x" for f by (simp add: HasFlag_def with_node_def)
  have kick: "\<not> HasFlag FLAG_ACCOUNT_KICKED ?y" using assms(3) unfolding has
    by (simp add: flag_simps) (simp add: HasFlag_def CloseSubSocket_def)
  have pl: "ss_player ?y = ss_player ss" by (simp add: with_node_def SetFlag_def CloseSubSocket_def)
  have nid: "ss_nodeId ?y = n" "ss_reconnect_timer ?y = 500"
    by (simp_all add: with_node_def SetFlag_def CloseSubSocket_def)
  have w: "ss_warden (session_drop_node env ?y)" using drop(1) by (simp add: client_idle_def)
  have cl: "ss_ClientSocket (session_drop_node env ?y) \<noteq> None" using drop(1) by (auto simp: client_idle_def)
  have "UpdateMulti env diff (r, ss) = Some (True, r, session_drop_node env ?y)"
    unfolding up rec io option.case apsnd_conv client_idle_IO(1) [OF drop(1)] snd_conv client_idle_IO(2) [OF drop(1)]
    using w cl by simp
  then show thesis by (rule that) (use drop nid kick pl in auto)
qed

lemma transfer_arrives:
  assumes "env_idle env" "client_idle env ss"
    and "\<not> HasFlag FLAG_ACCOUNT_KICKED ss" "HasFlag FLAG_ACCOUNT_RECONNECT ss" "ss_reconnect_timer ss \<le> diff"
    and "ss_nodeId ss \<noteq> 0" "CanEnterNodeID (ss_nodeId ss) r" "se_conn env (ss_nodeId ss) = Some s'"
    and "\<not> sk_closing s'" "lq_queue (sk_multi s') = []"
  obtains ss2 where "UpdateMulti env diff (r, ss) = Some (True, r, ss2)" and "ss_NodeSocket ss2 = Some s'"
    and "ss_nodeId ss2 = ss_nodeId ss" "HasFlag FLAG_ACCOUNT_WAIT_FOR_OK ss2" "\<not> HasFlag FLAG_ACCOUNT_RECONNECT ss2"
    and "HasFlag FLAG_FORCE_TELEPORT ss2 = HasFlag FLAG_FORCE_TELEPORT ss"
proof -
  obtain t where up: "UpdateMulti env diff (r, ss) =
    (case UpdateMultiNodeIO env (session_reconnect env diff (r, ss\<lparr>ss_callback_timer := t\<rparr>)) of
       None \<Rightarrow> None
     | Some st3 \<Rightarrow>
         (case UpdateMultiClientIO env (apsnd (session_drop_node env) st3) of
            None \<Rightarrow> None
          | Some st4 \<Rightarrow> if \<not> ss_warden (snd st4) then None
              else Some (ss_ClientSocket (session_drop_client (snd st4)) \<noteq> None, apsnd session_drop_client st4)))"
    by (rule UpdateMulti_idle [OF assms(1-3)])
  let ?t = "ss\<lparr>ss_callback_timer := t\<rparr>"
  let ?u = "SetFlag FLAG_ACCOUNT_WAIT_FOR_OK (RemoveFlag FLAG_ACCOUNT_RECONNECT (?t\<lparr>ss_NodeSocket := Some s'\<rparr>))"
  have net: "net_holds (se_net env)" using assms(1) by (simp add: env_idle_def)
  have "client_idle env ?u" using assms(2) by (simp add: client_idle_def SetFlag_def RemoveFlag_def)
  from SetStunned_idle [OF net this, of False] obtain c'
    where st: "SetStunned (se_net env) False ?u = ?u\<lparr>ss_ClientSocket := c'\<rparr>"
      and idle0: "client_idle env (?u\<lparr>ss_ClientSocket := c'\<rparr>)" by auto
  let ?v = "?u\<lparr>ss_ClientSocket := c', ss_reconnect_timer := 5000000\<rparr>"
  have idle: "client_idle env ?v" using idle0 by (simp add: client_idle_def)
  have "HasFlag FLAG_ACCOUNT_RECONNECT ?t" "(ss_reconnect_timer ?t > diff) = False" "(ss_nodeId ?t = 0) = False"
    using assms(4-6) by (simp_all add: HasFlag_def not_less)
  then have rec: "session_reconnect env diff (r, ?t) = (r, ?v)"
    using assms(7,8) by (simp add: session_reconnect_def session_connect_def st)
  have v: "ss_NodeSocket ?v = Some s'" by (simp add: SetFlag_def RemoveFlag_def)
  have q: "s'\<lparr>sk_multi := (sk_multi s')\<lparr>lq_queue := []\<rparr>\<rparr> = s'" using assms(10) by (cases s'; cases "sk_multi s'") simp
  have "?v\<lparr>ss_NodeSocket := Some s'\<rparr> = ?v" using v by (cases ?v) simp
  then have io: "UpdateMultiNodeIO env (r, ?v) = Some (r, ?v)"
    unfolding UpdateMultiNodeIO_def snd_conv v option.case assms(10) session_io.simps(1) option.map prod.case apsnd_conv
      with_node_def q by simp
  have dr: "session_drop_node env ?v = ?v" unfolding session_drop_node_def v option.case using assms(9) by simp
  have w: "ss_warden ?v" using idle by (simp add: client_idle_def)
  have cl: "ss_ClientSocket ?v \<noteq> None" using idle by (auto simp: client_idle_def)
  have "UpdateMulti env diff (r, ss) = Some (True, r, ?v)"
    unfolding up rec io option.case apsnd_conv dr client_idle_IO(1) [OF idle] snd_conv client_idle_IO(2) [OF idle]
    using w cl by simp
  moreover have "HasFlag f ?v = HasFlag f ?u" for f by (simp add: HasFlag_def)
  moreover have "HasFlag f (?t\<lparr>ss_NodeSocket := Some s'\<rparr>) = HasFlag f ss" for f by (simp add: HasFlag_def)
  ultimately show thesis
    using that [OF _ v] by (simp add: flag_simps) (simp add: SetFlag_def RemoveFlag_def)
qed

text \<open>
  C23: A transfer to another node that is up ends at that node: the update that reads the order closes
  the old link and tells the client, and the first update after half a millisecond connects to the
  new node, where the session then waits to be accepted.
\<close>

theorem transfer_moves_session:
  assumes idle: "env_idle env1" "env_idle env2" "client_idle env1 ss"
    and clock: "se_now env1 \<le> se_now env2" "se_timeout env2 = se_timeout env1"
    and flags: "\<not> HasFlag FLAG_ACCOUNT_KICKED ss" "\<not> HasFlag FLAG_ACCOUNT_RECONNECT ss"
    and node: "ss_NodeSocket ss = Some s" "\<not> sk_closing s"
      "lq_queue (sk_multi s) = [mk_pkt NODE_MISC_DATA [U32 CL_DEF_TRANSFER_TO_NODE, U32 n]]"
    and target: "n \<noteq> ss_nodeId ss" "n \<noteq> 0" "CheckNodeID n r" "CanEnterNodeID n r"
      "se_conn env2 n = Some s'" "\<not> sk_closing s'" "lq_queue (sk_multi s') = []"
    and time: "500 \<le> diff2"
  shows "\<exists>ss1 ss2. UpdateMulti env1 diff1 (r, ss) = Some (True, r, ss1) \<and> ss_NodeSocket ss1 = None \<and>
    UpdateMulti env2 diff2 (r, ss1) = Some (True, r, ss2) \<and> ss_NodeSocket ss2 = Some s' \<and> ss_nodeId ss2 = n \<and>
    HasFlag FLAG_ACCOUNT_WAIT_FOR_OK ss2 \<and> \<not> HasFlag FLAG_ACCOUNT_RECONNECT ss2 \<and>
    (ss_player ss \<noteq> None \<longrightarrow> HasFlag FLAG_FORCE_TELEPORT ss2)"
proof -
  obtain ss1 where one: "UpdateMulti env1 diff1 (r, ss) = Some (True, r, ss1)" "client_idle env1 ss1"
    "ss_NodeSocket ss1 = None" "ss_nodeId ss1 = n" "ss_reconnect_timer ss1 = 500"
    "HasFlag FLAG_ACCOUNT_RECONNECT ss1" "\<not> HasFlag FLAG_ACCOUNT_KICKED ss1"
    "ss_player ss1 = ss_player ss" "ss_player ss \<noteq> None \<longrightarrow> HasFlag FLAG_FORCE_TELEPORT ss1"
    by (rule transfer_leaves [OF idle(1,3) flags node target(1,3)])
  have "unat (se_now env1) \<le> unat (se_now env2)" using clock(1) by (simp add: word_le_nat_alt)
  then have idle2: "client_idle env2 ss1" using one(2) clock(2) by (fastforce simp: client_idle_def)
  have "ss_reconnect_timer ss1 \<le> diff2" "ss_nodeId ss1 \<noteq> 0" "CanEnterNodeID (ss_nodeId ss1) r"
    "se_conn env2 (ss_nodeId ss1) = Some s'" using one(4,5) target time by simp_all
  then obtain ss2 where "UpdateMulti env2 diff2 (r, ss1) = Some (True, r, ss2)" "ss_NodeSocket ss2 = Some s'"
    "ss_nodeId ss2 = ss_nodeId ss1" "HasFlag FLAG_ACCOUNT_WAIT_FOR_OK ss2" "\<not> HasFlag FLAG_ACCOUNT_RECONNECT ss2"
    "HasFlag FLAG_FORCE_TELEPORT ss2 = HasFlag FLAG_FORCE_TELEPORT ss1"
    using transfer_arrives [OF idle(2) idle2 one(7,6) _ _ _ _ target(6,7)] by blast
  with one show ?thesis by auto
qed


section \<open>Logins and lost players\<close>

text \<open>
  A login is started only for a character of the list the client was sent last, by the low part of
  its GUID, and then the session has no player; for any other GUID the client is kicked.
\<close>

theorem login_only_listed:
  assumes "HandlePlayerLoginOpcode env (mk_pkt CMSG_PLAYER_LOGIN [U64 g]) (r, ss) = (r', ss')"
    and "CheckNodeID (ss_nodeId ss) r" and "ss_nodeId ss \<noteq> 0"
  shows "(GUID_LOPART g \<in> set (ss_allowedChars ss) \<longrightarrow> ss_player ss' = None \<and>
      ss_loginQuery ss' = (if se_query_ok env then Some g else ss_loginQuery ss)) \<and>
    (GUID_LOPART g \<notin> set (ss_allowedChars ss) \<longrightarrow> HasFlag FLAG_ACCOUNT_KICKED ss' \<and>
      ss_loginQuery ss' = ss_loginQuery ss)"
proof -
  obtain b where rd: "bb_shr TU64 (buf (mk_pkt CMSG_PLAYER_LOGIN [U64 g])) = Inr (U64 g, b)"
    using reads_one [of "buf (mk_pkt CMSG_PLAYER_LOGIN [U64 g])" "U64 g" "[]", OF reads_mk_pkt]
    by (auto simp del: bb_shr.simps)
  have np: "(ss_player (SetPlayer None ss) \<noteq> None) = False" by (simp add: SetPlayer_def)
  have up: "(\<not> CheckNodeID (ss_nodeId ss) r \<or> ss_nodeId ss = 0 \<and> ss_playerLoading ss) = False" using assms(2,3) by simp
  have "ss' = (let ss2 = (SetPlayer None ss)\<lparr>ss_playerLoading := True\<rparr>
      in if \<not> CharCanLogin (GUID_LOPART g) ss2 then KickPlayer ss2
         else if \<not> se_query_ok env then ss2\<lparr>ss_playerLoading := False\<rparr> else ss2\<lparr>ss_loginQuery := Some g\<rparr>)"
    using assms(1) unfolding HandlePlayerLoginOpcode_def prod.case up if_False Let_def np rd sum.case field.case
    by (auto split: if_splits)
  then show ?thesis
    by (auto simp: Let_def CharCanLogin_def SetPlayer_def KickPlayer_def flag_simps)
      (auto simp: SetFlag_def RemoveFlag_def)
qed

text \<open>The guard \<open>GetPlayer() != NULL\<close> behind \<open>SetPlayer(NULL)\<close> never holds: a second login drops the first player.\<close>

lemma second_login_drops_player:
  assumes "CheckNodeID (ss_nodeId ss) r" and "ss_nodeId ss \<noteq> 0"
  shows "ss_player (snd (HandlePlayerLoginOpcode env p (r, ss))) = None"
  using assms
  by (auto simp: HandlePlayerLoginOpcode_def Let_def SetPlayer_def KickPlayer_def SetFlag_def RemoveFlag_def
      simp del: bb_shr.simps split: sum.split field.split)

lemma row_CHANGED_ZONE: "opcodeTable ! 0x525 = OH ''NODE_PLAYER_CHANGED_ZONE'' True STATUS_LOGGEDIN
    PACKET_STATE_NULL PACKET_STATE_LOGON Handle_NODE_PLAYER_CHANGED_ZONE"
proof -
  have "opcodeTable ! 0x525 = drop 0x525 opcodeTable ! 0" by (simp add: NUM_MSG_TYPES_def)
  then show ?thesis by (simp only: opcodeTable_tail) simp
qed

lemma logout_drops_player:
  assumes "HasFlag FLAG_LOGOUT_REQUEST (snd st)"
  shows "ss_player (snd (Handle_SMSG_LOGOUT_COMPLETE_at net st)) = None"
proof -
  have "ss_player (PlayerLogout (snd st)) = None" by (simp add: PlayerLogout_def SetPlayer_def split: option.split)
  then show ?thesis using assms
    by (auto simp: Handle_SMSG_LOGOUT_COMPLETE_at_def Let_def to_master_def SendPacket_fields CloseSubSocket_def
        SetFlag_def split: prod.split)
qed

text \<open>
  A zone report of the node that is handled after the logout of the character was completed goes
  through a null player: the proxy, with all its sessions, crashes.
\<close>

theorem zone_report_after_logout_crashes:
  assumes "HasFlag FLAG_LOGOUT_REQUEST (snd st)"
  shows "node_packet env (mk_pkt NODE_PLAYER_CHANGED_ZONE [U32 z, U32 a, U32 m])
    (Handle_SMSG_LOGOUT_COMPLETE_at net st) = None"
proof -
  let ?fs = "[U32 z, U32 a, U32 m]" and ?st = "Handle_SMSG_LOGOUT_COMPLETE_at net st"
  let ?p = "mk_pkt NODE_PLAYER_CHANGED_ZONE ?fs"
  have "reads (buf ?p) (?fs @ [])" using reads_mk_pkt by simp
  then obtain b where rd: "bb_shr_all (map field_type_of ?fs) (buf ?p) = Inr (?fs, b)"
    by (rule reads_all) simp_all
  have ts: "map field_type_of ?fs = [TU32, TU32, TU32]" by simp
  have "Handle_NODE_PLAYER_CHANGED_ZONE_at ?p (snd ?st) = None"
    unfolding Handle_NODE_PLAYER_CHANGED_ZONE_at_def rd [unfolded ts] sum.case prod.case list.case field.case
      logout_drops_player [OF assms] option.case by (rule refl)
  moreover have "unat NODE_PLAYER_CHANGED_ZONE = 0x525" by (simp add: opcode_defs)
  ultimately show ?thesis
    by (simp add: node_packet_def row_CHANGED_ZONE from_node_procedure_def HandlePacket_def NUM_MSG_TYPES_def)
qed

lemma session_without_anticheat:
  assumes "env_idle env" and "ss_ClientSocket ss = Some c" "lq_queue (sk_multi c) = []" "\<not> sk_closing c"
    and "unat (clk_lastActionTime c) \<le> unat (se_now env) + unat (se_timeout env)"
    and "ss_NodeSocket ss = None" "ss_reconnect_timer ss > diff" "\<not> HasFlag FLAG_ACCOUNT_KICKED ss" "\<not> ss_warden ss"
  shows "UpdateMulti env diff (r, ss) = None"
proof -
  have to: "session_timeout env ss = ss" using assms(2,5) by (simp add: session_timeout_def)
  obtain t where cb: "session_callbacks env diff ss = ss\<lparr>ss_callback_timer := t\<rparr>"
    using assms(1) by (cases "ss_callback_timer ss \<le> diff")
      (auto simp: session_callbacks_def ProcessQueryCallbacks_def env_idle_def)
  have "\<exists>u. session_reconnect env diff (r, ss\<lparr>ss_callback_timer := t\<rparr>) =
      (r, ss\<lparr>ss_callback_timer := t, ss_reconnect_timer := u\<rparr>)"
  proof (cases "HasFlag FLAG_ACCOUNT_RECONNECT (ss\<lparr>ss_callback_timer := t\<rparr>)")
    case True
    then show ?thesis using assms(7) by (auto simp: session_reconnect_def)
  next
    case False
    then show ?thesis by (intro exI [of _ "ss_reconnect_timer ss"]) (simp add: session_reconnect_def)
  qed
  then obtain u where rec: "session_reconnect env diff (r, ss\<lparr>ss_callback_timer := t\<rparr>) =
      (r, ss\<lparr>ss_callback_timer := t, ss_reconnect_timer := u\<rparr>)" by blast
  show ?thesis
    using assms(2-4,6,8,9)
    by (simp add: UpdateMulti_def to cb rec UpdateMultiNodeIO_def session_drop_node_def UpdateMultiClientIO_def
        with_client_def)
qed

text \<open>
  The session of a client that is not a Windows one never gets an anticheat module, and its first
  update calls one all the same: a login from another system takes the proxy down.
\<close>

theorem session_without_anticheat_crashes:
  assumes "env_idle env" and "os \<noteq> ascii ''Win''" and "ClientSession_new acc (Some c) sec ex junk r = (r', ss)"
    and "lq_queue (sk_multi c) = []" "\<not> sk_closing c"
    and "unat (clk_lastActionTime c) \<le> unat (se_now env) + unat (se_timeout env)" and "diff < 100000"
  shows "UpdateMulti env diff (r', InitWarden os ss) = None"
proof -
  obtain nid r1 where m: "ConnectToMaster r = (nid, r1)" by fastforce
  have new: "ss_ClientSocket ss = Some c" "ss_NodeSocket ss = None" "\<not> ss_warden ss" "\<not> HasFlag FLAG_ACCOUNT_KICKED ss"
    "ss_reconnect_timer ss = (if nid = 0 then 2000000 else 100000)"
    using assms(3) by (auto simp: ClientSession_new_def to_master_def m SetFlag_def HasFlag_def session_flags)
  have "diff < ss_reconnect_timer ss" using assms(7) order_less_trans [OF assms(7), of 2000000] by (simp add: new(5))
  then show ?thesis
    using session_without_anticheat [OF assms(1) new(1) assms(4,5,6) new(2) _ new(4,3)] assms(2)
    by (simp add: InitWarden_def)
qed

lemma idle_client_is_never_kicked:
  assumes "ss_ClientSocket ss = Some c" and "clk_lastActionTime c \<le> se_now env"
  shows "session_timeout env ss = ss"
  using assms by (simp add: session_timeout_def word_le_nat_alt)


section \<open>Concrete sessions\<close>

definition example_net :: "unit net" where
  "example_net = \<lparr>nt_upd = (\<lambda>c bs. (bs, c)), nt_full = (\<lambda>q. False), nt_wake = True\<rparr>"

definition example_env :: "unit senv" where
  "example_env = \<lparr>se_net = example_net, se_now = 1000, se_timeout = 60, se_conn = (\<lambda>n. Some (sock_fresh () 6)),
     se_username = (\<lambda>n. Some (ascii ''ANNA'')), se_others = (\<lambda>nam p st. Some st), se_warden = (\<lambda>ss. ss),
     se_query_ok = True, se_charEnum = None, se_charLogin = None, se_social = (\<lambda>ss. ss)\<rparr>"

definition example_player :: player where
  "example_player = \<lparr>ply_GUID = 42, ply_health = 100, ply_maxhealth = 100, ply_power = 0, ply_maxpower = 0,
     ply_powertype = 0, ply_deathState = 0, ply_position = (0, 0, 0, 0), ply_GuildId = 0, ply_zone = 0,
     ply_area = 0, ply_map = 0\<rparr>"

text \<open>A logged-in player at node 1, with packets from the node and from the client waiting.\<close>

definition example_session :: "u32 \<Rightarrow> wpacket list \<Rightarrow> wpacket list \<Rightarrow> unit session" where
  "example_session flags nps cps =
     \<lparr>ss_accountId = 7, ss_security = 0, ss_expansion = 2,
      ss_ClientSocket = Some (fresh_client\<lparr>sk_multi := \<lparr>lq_queue = cps, lq_canceled = False\<rparr>\<rparr>),
      ss_NodeSocket = Some ((sock_fresh () 6)\<lparr>sk_multi := \<lparr>lq_queue = nps, lq_canceled = False\<rparr>\<rparr>),
      ss_reconnect_timer = 0, ss_callback_timer = 5000, ss_sessionflags = flags, ss_nodeId = 1, ss_authed = True,
      ss_inQueue = False, ss_addonsList = [], ss_accountData = replicate 8 (0, []), ss_Tutorials = replicate 8 0,
      ss_TutorialsChanged = False, ss_player = Some example_player, ss_GUID = 42, ss_GUIDLow = 42,
      ss_playerLoading = False, ss_allowedChars = [42], ss_loginQuery = None, ss_warden = True\<rparr>"

lemma example_env_idle: "env_idle example_env" "net_holds (se_net example_env)" "env_quiet example_env"
  by (simp_all add: env_idle_def example_env_def net_holds_def example_net_def env_quiet_def)

lemma example_node_open:
  "node_open (example_session flags ps qs) ((sock_fresh () 6)\<lparr>sk_multi := \<lparr>lq_queue = ps, lq_canceled = False\<rparr>\<rparr>)"
  by (simp add: node_open_def example_session_def sock_fresh_def out_ok_def mb_new_def AuthCrypt_new_def)

lemma example_client_idle: "client_idle example_env (example_session flags ps [])"
  by (simp add: client_idle_def example_session_def fresh_client_def example_env_def)

theorem session_keeps_its_link_witness:
  "\<exists>r' ss. ClientSession_new 7 None 0 2 (example_session 0 [] []) routing_example = (r', ss) \<and>
     HasFlag FLAG_ACCOUNT_RECONNECT ss \<and> \<not> node_ready ss"
proof -
  obtain r' ss where new: "ClientSession_new 7 None 0 2 (example_session 0 [] []) routing_example = (r', ss)"
    by fastforce
  have "session_step\<^sup>*\<^sup>* (ClientSession_new 7 None 0 2 (example_session 0 [] []) routing_example) (r', ss)"
    unfolding new by simp
  from session_keeps_its_link [OF this] new show ?thesis
    by (auto simp: ClientSession_new_def to_master_def flag_simps split: prod.splits)
qed

theorem client_cannot_speak_for_node_witness:
  "client_packet example_env (mk_pkt NODE_MISC_DATA [U32 CL_DEF_TRANSFER_TO_NODE, U32 2])
     (routing_example, example_session 0 [] []) = Some (routing_example, example_session 0 [] [])"
proof -
  have "unat NODE_MISC_DATA = 0x527" by (simp add: opcode_defs)
  then have "node_only (handler (opcodeTable ! unat (opcode (mk_pkt NODE_MISC_DATA [U32 CL_DEF_TRANSFER_TO_NODE, U32 2]))))"
    by (simp add: row_MISC_DATA node_only_def)
  then show ?thesis by (rule client_cannot_speak_for_node)
qed

theorem player_login_sent_once_witness:
  "\<exists>ss1 s1. Handle_SMSG_AUTH_RESPONSE_at (se_net example_env) (mk_pkt SMSG_AUTH_RESPONSE [U8 AUTH_OK])
       (example_session FLAG_ACCOUNT_WAIT_FOR_OK [] []) = ss1 \<and> ss_NodeSocket ss1 = Some s1 \<and>
     out_pending s1 = flexi_wire (mk_pkt CMSG_PLAYER_LOGIN [U64 42])"
proof -
  have w: "HasFlag FLAG_ACCOUNT_WAIT_FOR_OK (example_session FLAG_ACCOUNT_WAIT_FOR_OK [] [])"
    and p: "ss_player (example_session FLAG_ACCOUNT_WAIT_FOR_OK [] []) = Some example_player"
    by (simp_all add: HasFlag_def example_session_def session_flags)
  from player_login_sent_once [OF example_env_idle(2) example_node_open w p] show ?thesis
    by (auto simp: node_open_def example_player_def sock_fresh_def out_pending_def mb_unread_def mb_new_def)
qed

text \<open>\<open>CMSG_CHAR_CREATE\<close>, row \<open>0x036\<close>, goes to the node.\<close>

lemma row_CHAR_CREATE: "opcodeTable ! 0x36 = OH ''CMSG_CHAR_CREATE'' True STATUS_AUTHED PACKET_STATE_NODE
    PACKET_STATE_PASS Handle_NULL"
  by (simp add: opcodeTable_def nth_append length_rows) (simp add: opcode_rows_0_def)

theorem client_packets_pass_in_order_witness:
  "\<exists>s' c'. UpdateMultiClientIO example_env (routing_example, example_session 0 [] [mk_pkt 0x36 [U8 1], mk_pkt 0x36 [U8 2]]) =
       Some (routing_example, (example_session 0 [] [mk_pkt 0x36 [U8 1], mk_pkt 0x36 [U8 2]])
         \<lparr>ss_NodeSocket := Some s', ss_ClientSocket := Some c'\<rparr>) \<and>
     out_pending s' = [0, 0, 0, 3, 0x36, 0, 1, 0, 0, 0, 3, 0x36, 0, 2]"
proof -
  let ?ss = "example_session 0 [] [mk_pkt 0x36 [U8 1], mk_pkt 0x36 [U8 2]]"
  let ?c = "fresh_client\<lparr>sk_multi := \<lparr>lq_queue = [mk_pkt 0x36 [U8 1], mk_pkt 0x36 [U8 2]], lq_canceled = False\<rparr>\<rparr>"
  have c: "ss_ClientSocket ?ss = Some ?c" "\<not> sk_closing ?c" by (simp_all add: example_session_def fresh_client_def)
  have "list_all (passes_to_node ?ss) (lq_queue (sk_multi ?c))"
    by (simp add: passes_to_node_def row_CHAR_CREATE NUM_MSG_TYPES_def status_permits_def example_session_def)
  from client_packets_pass_in_order [OF example_env_idle(2) example_node_open c this, of routing_example]
  show ?thesis
    by (auto simp: flexi_wire_def Flexi_ServerPktHeader_def Flexi_getHeaderLength_def Let_def fields_bytes_def word_le_u8
        out_pending_def sock_fresh_def mb_unread_def mb_new_def)
qed

theorem transfer_moves_session_witness:
  "\<exists>ss1 ss2. UpdateMulti example_env 10 (routing_example,
       example_session 0 [mk_pkt NODE_MISC_DATA [U32 CL_DEF_TRANSFER_TO_NODE, U32 2]] []) = Some (True, routing_example, ss1) \<and>
     UpdateMulti example_env 600 (routing_example, ss1) = Some (True, routing_example, ss2) \<and> ss_nodeId ss2 = 2 \<and>
     HasFlag FLAG_ACCOUNT_WAIT_FOR_OK ss2"
proof -
  let ?p = "mk_pkt NODE_MISC_DATA [U32 CL_DEF_TRANSFER_TO_NODE, U32 2]"
  let ?ss = "example_session 0 [?p] []"
  let ?s = "(sock_fresh () 6)\<lparr>sk_multi := \<lparr>lq_queue = [?p], lq_canceled = False\<rparr>\<rparr>"
  have f: "\<not> HasFlag FLAG_ACCOUNT_KICKED ?ss" "\<not> HasFlag FLAG_ACCOUNT_RECONNECT ?ss"
    by (simp_all add: HasFlag_def example_session_def)
  have n: "ss_NodeSocket ?ss = Some ?s" "\<not> sk_closing ?s" "lq_queue (sk_multi ?s) = [?p]"
    by (simp_all add: example_session_def sock_fresh_def)
  have t: "2 \<noteq> ss_nodeId ?ss" "(2 :: u32) \<noteq> 0" "CheckNodeID 2 routing_example" "CanEnterNodeID 2 routing_example"
    "se_conn example_env 2 = Some (sock_fresh () 6)" "\<not> sk_closing (sock_fresh () 6)"
    "lq_queue (sk_multi (sock_fresh () 6)) = []"
    by (simp_all add: example_session_def routing_example_def CheckNodeID_def CanEnterNodeID_def Let_def example_env_def
        sock_fresh_def lq_new_def)
  from transfer_moves_session [OF example_env_idle(1,1) example_client_idle _ _ f n t, of 600 10] show ?thesis by auto
qed

theorem login_only_listed_witness:
  "\<exists>ss'. HandlePlayerLoginOpcode example_env (mk_pkt CMSG_PLAYER_LOGIN [U64 43])
       (routing_example, (example_session 0 [] [])\<lparr>ss_nodeId := 2\<rparr>) = (routing_example, ss') \<and>
     HasFlag FLAG_ACCOUNT_KICKED ss'"
proof -
  let ?ss = "(example_session 0 [] [])\<lparr>ss_nodeId := 2\<rparr>"
  obtain r' ss' where h: "HandlePlayerLoginOpcode example_env (mk_pkt CMSG_PLAYER_LOGIN [U64 43]) (routing_example, ?ss) =
      (r', ss')" by fastforce
  have "r' = routing_example" using h
    by (auto simp: HandlePlayerLoginOpcode_def Let_def simp del: bb_shr.simps split: if_splits sum.splits field.splits)
  moreover have "CheckNodeID (ss_nodeId ?ss) routing_example" "ss_nodeId ?ss \<noteq> 0" "GUID_LOPART 43 \<notin> set (ss_allowedChars ?ss)"
    by (simp_all add: routing_example_def CheckNodeID_def Let_def example_session_def GUID_LOPART_def IsGuidHaveEnPart_def
        GUID_HIPART_def)
  ultimately show ?thesis using login_only_listed [OF h] h by simp
qed

theorem zone_report_after_logout_crashes_witness:
  "node_packet example_env (mk_pkt NODE_PLAYER_CHANGED_ZONE [U32 12, U32 87, U32 0])
     (Handle_SMSG_LOGOUT_COMPLETE_at (se_net example_env)
        (routing_example, example_session FLAG_LOGOUT_REQUEST [] [])) = None"
  by (rule zone_report_after_logout_crashes) (simp add: HasFlag_def example_session_def session_flags)

theorem session_without_anticheat_crashes_witness:
  "\<exists>r' ss. ClientSession_new 7 (Some fresh_client) 0 2 (example_session 0 [] []) routing_example = (r', ss) \<and>
     UpdateMulti example_env 10 (r', InitWarden (ascii ''OSX'') ss) = None"
proof -
  obtain r' ss where new: "ClientSession_new 7 (Some fresh_client) 0 2 (example_session 0 [] []) routing_example = (r', ss)"
    by fastforce
  have "ascii ''OSX'' \<noteq> ascii ''Win''" by (simp add: ascii_def)
  from session_without_anticheat_crashes [OF example_env_idle(1) this new, of 10] new show ?thesis
    by (auto simp: fresh_client_def lq_new_def)
qed

end
