(* ===== verification/SessionMgr.thy ===== *)
theory SessionMgr
  imports ClientSession "HOL-Library.Multiset"
begin

text \<open>
  The manager of the client sessions, \<open>shade/Server/Client/ClientSessionMgr.cpp\<close>, and the updater
  threads it hands them to, \<open>shade/Server/SessionUpdater.cpp\<close>. A session is an object on the heap with
  a reference count; the manager's map, its queue of new sessions and the updaters each hold counted
  references, the queue of waiting players holds plain pointers. The heap is a map from addresses to
  counts and sessions, and using a freed address is an error value, so that the lifetime of the
  sessions can be reasoned about.

  Threads interleave at the granularity of one operation on a session: the manager's \<open>Update\<close> and
  an updater's \<open>svc\<close> are sequences of such operations, and the step relation lets the others in
  between.
\<close>

section \<open>State\<close>

type_synonym ref = nat

datatype mgr_error = BadPointer ref | SessionCrash ref | NoUpdater

record updater =
  up_started :: bool
  up_counter :: int
  up_new :: "ref locked_queue"
  up_sessions :: "ref list"
  up_sleep :: bool
  up_stop :: bool

record 'c mgr =
  mg_heap :: "ref \<Rightarrow> (int \<times> 'c session) option"
  mg_routing :: RoutingHelper
  mg_addQueue :: "ref locked_queue"
  mg_sessions :: "(u32 \<times> ref) list"
  mg_queued :: "ref list"
  mg_updaters :: "updater list"
  mg_playerLimit :: u32
  mg_maxActive :: u32
  mg_maxQueued :: u32
  mg_PlayerCount :: u32
  mg_MaxPlayerCount :: u32
  mg_AllyCount :: u32
  mg_HordeCount :: u32
  mg_dyn_max :: u8
  mg_dyn_timer :: u32
  mg_dyn_enabled :: bool
  mg_online :: "(u32 \<times> bool) list"

text \<open>The settings the manager reads, and the team of a player.\<close>

record 'c mgr_conf =
  cf_net :: "'c net"
  cf_dyn_max :: u32
  cf_dyn_timer :: u32
  cf_dyn_enabled :: bool
  cf_threads :: u32
  cf_clientcache :: u32
  cf_team :: "player \<Rightarrow> u32"

section \<open>Sessions on the heap\<close>

definition deref :: "ref \<Rightarrow> 'c mgr \<Rightarrow> mgr_error + 'c session" where
  "deref p m = (case mg_heap m p of None \<Rightarrow> Inl (BadPointer p) | Some (r, ss) \<Rightarrow> Inr ss)"

definition on_session :: "('c session \<Rightarrow> 'c session) \<Rightarrow> ref \<Rightarrow> 'c mgr \<Rightarrow> mgr_error + 'c mgr" where
  "on_session f p m =
     (case mg_heap m p of
        None \<Rightarrow> Inl (BadPointer p)
      | Some (r, ss) \<Rightarrow> Inr (m\<lparr>mg_heap := (mg_heap m)(p \<mapsto> (r, f ss))\<rparr>))"

text \<open>A method that also uses the routing helper, and may itself go wrong.\<close>

definition run_session ::
  "('c sstate \<Rightarrow> (bool \<times> 'c sstate) option) \<Rightarrow> ref \<Rightarrow> 'c mgr \<Rightarrow> mgr_error + bool \<times> 'c mgr" where
  "run_session act p m =
     (case mg_heap m p of
        None \<Rightarrow> Inl (BadPointer p)
      | Some (r, ss) \<Rightarrow>
          (case act (mg_routing m, ss) of
             None \<Rightarrow> Inl (SessionCrash p)
           | Some (b, rt, ss1) \<Rightarrow> Inr (b, m\<lparr>mg_heap := (mg_heap m)(p \<mapsto> (r, ss1)), mg_routing := rt\<rparr>)))"

definition add_reference :: "ref \<Rightarrow> 'c mgr \<Rightarrow> mgr_error + 'c mgr" where
  "add_reference p m =
     (case mg_heap m p of
        None \<Rightarrow> Inl (BadPointer p)
      | Some (r, ss) \<Rightarrow> Inr (m\<lparr>mg_heap := (mg_heap m)(p \<mapsto> (r + 1, ss))\<rparr>))"

text \<open>
  The last reference deletes the session: its destructor closes and releases both sockets, which go
  with it, and takes the account offline.
\<close>

definition ClientSession_delete :: "ref \<Rightarrow> 'c session \<Rightarrow> 'c mgr \<Rightarrow> 'c mgr" where
  "ClientSession_delete p ss m =
     m\<lparr>mg_heap := (mg_heap m)(p := None), mg_online := mg_online m @ [(ss_accountId ss, False)]\<rparr>"

definition remove_reference :: "ref \<Rightarrow> 'c mgr \<Rightarrow> mgr_error + 'c mgr" where
  "remove_reference p m =
     (case mg_heap m p of
        None \<Rightarrow> Inl (BadPointer p)
      | Some (r, ss) \<Rightarrow>
          if r - 1 = 0 then Inr (ClientSession_delete p ss m)
          else Inr (m\<lparr>mg_heap := (mg_heap m)(p \<mapsto> (r - 1, ss))\<rparr>))"

text \<open>\<open>new ClientSession\<close> at a free address, with a count of one.\<close>

definition new_ClientSession ::
  "ref \<Rightarrow> u32 \<Rightarrow> 'c client_socket option \<Rightarrow> u32 \<Rightarrow> u8 \<Rightarrow> 'c session \<Rightarrow> 'c mgr \<Rightarrow> 'c mgr" where
  "new_ClientSession p acc sock sec expansion junk m =
     (case ClientSession_new acc sock sec expansion junk (mg_routing m) of
        (rt, ss) \<Rightarrow> m\<lparr>mg_heap := (mg_heap m)(p \<mapsto> (1, ss)), mg_routing := rt,
          mg_online := mg_online m @ (if sock = None then [] else [(acc, True)])\<rparr>)"

section \<open>The updaters\<close>

definition SessionUpdater_new :: updater where
  "SessionUpdater_new = \<lparr>up_started = False, up_counter = 0, up_new = lq_new, up_sessions = [],
     up_sleep = False, up_stop = False\<rparr>"

definition SessionUpdater_Start :: "updater \<Rightarrow> int \<times> updater" where
  "SessionUpdater_Start u = (if up_started u then (-1, u) else (0, u\<lparr>up_started := True\<rparr>))"

definition SessionUpdater_Stop :: "updater \<Rightarrow> updater" where
  "SessionUpdater_Stop u = u\<lparr>up_stop := True\<rparr>"

definition SessionUpdater_Sleep :: "updater \<Rightarrow> updater" where
  "SessionUpdater_Sleep u = u\<lparr>up_sleep := True\<rparr>"

definition on_updater :: "(updater \<Rightarrow> updater) \<Rightarrow> nat \<Rightarrow> 'c mgr \<Rightarrow> 'c mgr" where
  "on_updater f i m = m\<lparr>mg_updaters := (mg_updaters m)[i := f (mg_updaters m ! i)]\<rparr>"

definition SessionUpdater_AddSession :: "nat \<Rightarrow> ref \<Rightarrow> 'c mgr \<Rightarrow> mgr_error + 'c mgr" where
  "SessionUpdater_AddSession i p m =
     rbind (add_reference p (on_updater (\<lambda>u. u\<lparr>up_counter := up_counter u + 1\<rparr>) i m))
       (\<lambda>m1. Inr (on_updater (\<lambda>u. u\<lparr>up_new := lq_add p (up_new u)\<rparr>) i m1))"

text \<open>\<open>m_Sessions\<close> is a \<open>std::set\<close> of pointers, iterated in the order of the addresses.\<close>

definition AddNewSessions :: "updater \<Rightarrow> updater" where
  "AddNewSessions u =
     u\<lparr>up_sessions := fold insort_insert (lq_queue (up_new u)) (up_sessions u),
       up_new := (up_new u)\<lparr>lq_queue := []\<rparr>\<rparr>"

text \<open>The references of the cleared sessions are not given back.\<close>

definition SetSleep :: "updater \<Rightarrow> updater" where
  "SetSleep u =
     (let u1 = u\<lparr>up_sleep := False\<rparr>
      in if \<not> lq_empty (up_new u1) then u1 else u1\<lparr>up_counter := 0, up_sessions := []\<rparr>)"

text \<open>The loop body of \<open>svc\<close>: first the set, then its sessions one after the other.\<close>

definition updater_begin :: "nat \<Rightarrow> 'c mgr \<Rightarrow> 'c mgr" where
  "updater_begin i m = on_updater (\<lambda>u. AddNewSessions (if up_sleep u then SetSleep u else u)) i m"

definition updater_forget :: "ref \<Rightarrow> updater \<Rightarrow> updater" where
  "updater_forget p u = u\<lparr>up_sessions := remove1 p (up_sessions u), up_counter := up_counter u - 1\<rparr>"

definition updater_visit :: "'c senv \<Rightarrow> u32 \<Rightarrow> nat \<Rightarrow> ref \<Rightarrow> 'c mgr \<Rightarrow> mgr_error + 'c mgr" where
  "updater_visit env diff i p m =
     (if p = 0 then Inr (on_updater (updater_forget p) i m)
      else rbind (run_session (UpdateMulti env diff) p m)
        (\<lambda>(b, m1). if b then Inr m1
          else rbind (remove_reference p m1) (\<lambda>m2. Inr (on_updater (updater_forget p) i m2))))"

fun visit_each :: "(ref \<Rightarrow> 'c mgr \<Rightarrow> mgr_error + 'c mgr) \<Rightarrow> ref list \<Rightarrow> 'c mgr \<Rightarrow> mgr_error + 'c mgr" where
  "visit_each f [] m = Inr m"
| "visit_each f (p # ps) m = rbind (f p m) (visit_each f ps)"

definition updater_pass :: "(ref \<Rightarrow> 'c senv) \<Rightarrow> u32 \<Rightarrow> nat \<Rightarrow> 'c mgr \<Rightarrow> mgr_error + 'c mgr" where
  "updater_pass envs diff i m =
     (if up_stop (mg_updaters m ! i) then Inr m
      else (let m1 = updater_begin i m
            in visit_each (\<lambda>p. updater_visit (envs p) diff i p) (up_sessions (mg_updaters m1 ! i)) m1))"

section \<open>The manager\<close>

definition SEC_PLAYER :: u32 where "SEC_PLAYER = 0"
definition SEC_MODERATOR :: u32 where "SEC_MODERATOR = 1"
definition SEC_GAMEMASTER :: u32 where "SEC_GAMEMASTER = 2"

text \<open>The counts: \<open>size_t\<close> differences cut to \<open>uint32\<close>.\<close>

definition GetActiveAndQueuedSessionCount :: "'c mgr \<Rightarrow> u32" where
  "GetActiveAndQueuedSessionCount m = word_of_nat (length (mg_sessions m))"

definition GetActiveSessionCount :: "'c mgr \<Rightarrow> u32" where
  "GetActiveSessionCount m = word_of_nat (length (mg_sessions m)) - word_of_nat (length (mg_queued m))"

definition GetQueuedSessionCount :: "'c mgr \<Rightarrow> u32" where
  "GetQueuedSessionCount m = word_of_nat (length (mg_queued m))"

definition SetPlayerAmountLimit :: "u32 \<Rightarrow> 'c mgr \<Rightarrow> 'c mgr" where
  "SetPlayerAmountLimit limit m = m\<lparr>mg_playerLimit := limit\<rparr>"

definition HORDE :: u32 where "HORDE = 67"
definition ALLIANCE :: u32 where "ALLIANCE = 469"

definition IncreasePlayerCount :: "u32 \<Rightarrow> 'c mgr \<Rightarrow> 'c mgr" where
  "IncreasePlayerCount team m =
     (let m1 = m\<lparr>mg_PlayerCount := mg_PlayerCount m + 1\<rparr>;
          m2 = m1\<lparr>mg_MaxPlayerCount := max (mg_MaxPlayerCount m1) (mg_PlayerCount m1)\<rparr>
      in if team = HORDE then m2\<lparr>mg_HordeCount := mg_HordeCount m2 + 1\<rparr>
         else if team = ALLIANCE then m2\<lparr>mg_AllyCount := mg_AllyCount m2 + 1\<rparr> else m2)"

definition DecreasePlayerCount :: "u32 \<Rightarrow> 'c mgr \<Rightarrow> 'c mgr" where
  "DecreasePlayerCount team m =
     (let m1 = m\<lparr>mg_PlayerCount := mg_PlayerCount m - 1\<rparr>
      in if team = HORDE then m1\<lparr>mg_HordeCount := mg_HordeCount m1 - 1\<rparr>
         else if team = ALLIANCE then m1\<lparr>mg_AllyCount := mg_AllyCount m1 - 1\<rparr> else m1)"

definition ClientSessionMgr_Start :: "'c mgr_conf \<Rightarrow> 'c mgr \<Rightarrow> 'c mgr" where
  "ClientSessionMgr_Start cf m =
     m\<lparr>mg_updaters := replicate (if sint (cf_threads cf) \<le> 0 then 1 else unat (cf_threads cf))
         (snd (SessionUpdater_Start SessionUpdater_new))\<rparr>"

definition ClientSessionMgr_Initialize :: "'c mgr_conf \<Rightarrow> 'c mgr \<Rightarrow> 'c mgr" where
  "ClientSessionMgr_Initialize cf m =
     ClientSessionMgr_Start cf (m\<lparr>mg_PlayerCount := 0, mg_AllyCount := 0, mg_HordeCount := 0,
       mg_MaxPlayerCount := 0, mg_maxActive := 0, mg_maxQueued := 0, mg_dyn_max := ucast (cf_dyn_max cf),
       mg_dyn_timer := cf_dyn_timer cf, mg_dyn_enabled := cf_dyn_enabled cf\<rparr>)"

definition HasRecentlyDisconnected :: "'c session \<Rightarrow> bool" where
  "HasRecentlyDisconnected ss = False"

definition UpdateMaxSessionCounters :: "'c mgr \<Rightarrow> 'c mgr" where
  "UpdateMaxSessionCounters m =
     m\<lparr>mg_maxActive := max (mg_maxActive m) (GetActiveSessionCount m),
       mg_maxQueued := max (mg_maxQueued m) (GetQueuedSessionCount m)\<rparr>"

text \<open>\<open>pos_in\<close> counts from one; zero is absence.\<close>

fun pos_in :: "ref \<Rightarrow> nat \<Rightarrow> ref list \<Rightarrow> nat" where
  "pos_in p i [] = 0"
| "pos_in p i (q # qs) = (if q = p then i else pos_in p (Suc i) qs)"

definition GetQueuePos :: "ref \<Rightarrow> 'c mgr \<Rightarrow> u32" where
  "GetQueuePos p m = word_of_nat (pos_in p 1 (mg_queued m))"

definition SetInQueue :: "bool \<Rightarrow> 'c session \<Rightarrow> 'c session" where
  "SetInQueue state ss = ss\<lparr>ss_inQueue := state\<rparr>"

definition AddQueuedPlayer :: "'c mgr_conf \<Rightarrow> ref \<Rightarrow> 'c mgr \<Rightarrow> mgr_error + 'c mgr" where
  "AddQueuedPlayer cf p m =
     rbind (on_session (SetInQueue True) p m)
       (\<lambda>m1. let m2 = m1\<lparr>mg_queued := mg_queued m1 @ [p]\<rparr>
             in on_session (SendAuthResponse (cf_net cf) AUTH_WAIT_QUEUE False (GetQueuePos p m2)) p m2)"

fun send_positions :: "'c net \<Rightarrow> nat \<Rightarrow> ref list \<Rightarrow> 'c mgr \<Rightarrow> mgr_error + 'c mgr" where
  "send_positions net position [] m = Inr m"
| "send_positions net position (p # ps) m =
     rbind (on_session (SendAuthWaitQue net (word_of_nat position)) p m) (send_positions net (Suc position) ps)"

definition admit_front :: "'c mgr_conf \<Rightarrow> 'c session \<Rightarrow> 'c session" where
  "admit_front cf ss =
     SendClientCacheVersion (cf_net cf) (cf_clientcache cf)
       (SendAddonsInfo (cf_net cf) (SendAuthWaitQue (cf_net cf) 0 (SetInQueue False ss)))"

text \<open>
  \<open>RemoveQueuedPlayer\<close>. The first loop finds the session and erases it; \<open>iter\<close> then points to the
  rest of the queue behind it, \<open>position\<close> is the place of that rest.
\<close>

definition queue_without ::
  "ref \<Rightarrow> 'c mgr \<Rightarrow> mgr_error + bool \<times> nat \<times> ref list \<times> 'c mgr" where
  "queue_without sess m =
     (let front = takeWhile (\<lambda>q. q \<noteq> sess) (mg_queued m);
          rest = dropWhile (\<lambda>q. q \<noteq> sess) (mg_queued m)
      in if rest = [] then Inr (False, Suc (length front), [], m)
         else rbind (on_session (SetInQueue False) sess m)
           (\<lambda>m1. Inr (True, Suc (length front), tl rest, m1\<lparr>mg_queued := front @ tl rest\<rparr>)))"

definition RemoveQueuedPlayer :: "'c mgr_conf \<Rightarrow> ref \<Rightarrow> 'c mgr \<Rightarrow> mgr_error + bool \<times> 'c mgr" where
  "RemoveQueuedPlayer cf sess m =
     (let sessions0 = GetActiveSessionCount m
      in rbind (queue_without sess m)
        (\<lambda>(found, position, iter, m1).
           let sessions = (if \<not> found \<and> sessions0 \<noteq> 0 then sessions0 - 1 else sessions0)
           in if (mg_playerLimit m1 = 0 \<or> sessions < mg_playerLimit m1) \<and> mg_queued m1 \<noteq> [] then
                rbind (on_session (admit_front cf) (hd (mg_queued m1)) m1)
                  (\<lambda>m2. let m3 = m2\<lparr>mg_queued := tl (mg_queued m2)\<rparr>
                        in rbind (send_positions (cf_net cf) 1 (mg_queued m3) m3) (\<lambda>m4. Inr (found, m4)))
              else rbind (send_positions (cf_net cf) position iter m1) (\<lambda>m2. Inr (found, m2))))"

definition ClientSessionMgr_AddSession :: "ref \<Rightarrow> 'c mgr \<Rightarrow> mgr_error + 'c mgr" where
  "ClientSessionMgr_AddSession p m =
     rbind (add_reference p m) (\<lambda>m1. Inr (m1\<lparr>mg_addQueue := lq_add p (mg_addQueue m1)\<rparr>))"

text \<open>The end of a login: the socket creates the session, hands it over and drops its own reference.\<close>

definition login_session ::
  "ref \<Rightarrow> new_session \<Rightarrow> 'c client_socket \<Rightarrow> 'c session \<Rightarrow> 'c mgr \<Rightarrow> mgr_error + 'c mgr" where
  "login_session p ns sock junk m =
     (let m1 = new_ClientSession p (ns_id ns) (Some sock) (ns_security ns) (ns_expansion ns) junk m
      in rbind (on_session (\<lambda>ss. ss\<lparr>ss_addonsList := ns_addons ns, ss_warden := ns_warden ns\<rparr>) p m1)
        (\<lambda>m2. rbind (ClientSessionMgr_AddSession p m2) (remove_reference p)))"

definition FindSession :: "u32 \<Rightarrow> 'c mgr \<Rightarrow> ref" where
  "FindSession acc m = (case map_of (mg_sessions m) acc of None \<Rightarrow> 0 | Some p \<Rightarrow> p)"

definition RemoveSession :: "u32 \<Rightarrow> 'c mgr \<Rightarrow> mgr_error + 'c mgr" where
  "RemoveSession acc m =
     (case map_of (mg_sessions m) acc of
        None \<Rightarrow> Inr m
      | Some p \<Rightarrow> if p = 0 then Inr m else on_session KickPlayer p m)"

text \<open>The updater with the fewest sessions; with dynamics on, the first one until it is full.\<close>

definition least_updater :: "'c mgr \<Rightarrow> nat" where
  "least_updater m =
     fold (\<lambda>i least. if up_counter (mg_updaters m ! i) < up_counter (mg_updaters m ! least) then i else least)
       [0..<length (mg_updaters m)] 0"

definition choose_updater :: "'c mgr \<Rightarrow> nat" where
  "choose_updater m =
     (if mg_dyn_enabled m
      then (if up_counter (mg_updaters m ! 0) \<ge> uint (mg_dyn_max m) then least_updater m else 0)
      else least_updater m)"

text \<open>
  \<open>AddSession_\<close>: an older session of the account is kicked and taken out of the waiting queue, and its
  entry in the map overwritten; the newcomer goes to an updater, and then in or into the queue.
\<close>

definition replace_old :: "'c mgr_conf \<Rightarrow> u32 \<Rightarrow> 'c mgr \<Rightarrow> mgr_error + bool \<times> 'c mgr" where
  "replace_old cf acc m =
     rbind (RemoveSession acc m)
       (\<lambda>m1. case map_of (mg_sessions m1) acc of
          None \<Rightarrow> Inr (False, m1)
        | Some old \<Rightarrow> RemoveQueuedPlayer cf old m1)"

definition admit_or_queue :: "'c mgr_conf \<Rightarrow> bool \<Rightarrow> ref \<Rightarrow> 'c mgr \<Rightarrow> mgr_error + 'c mgr" where
  "admit_or_queue cf decrease_session p m =
     rbind (deref p m)
       (\<lambda>ss. let Sessions = (if decrease_session then GetActiveAndQueuedSessionCount m - 1
                             else GetActiveAndQueuedSessionCount m);
                 pLimit = mg_playerLimit m
             in if 0 < pLimit \<and> pLimit \<le> Sessions \<and> ss_security ss = SEC_PLAYER \<and> \<not> HasRecentlyDisconnected ss
                then rbind (AddQueuedPlayer cf p m) (\<lambda>m1. Inr (UpdateMaxSessionCounters m1))
                else rbind (on_session (\<lambda>ss. SendAddonsInfo (cf_net cf) (SendAuthResponse (cf_net cf) AUTH_OK True 0 ss)) p m)
                  (\<lambda>m1. Inr (UpdateMaxSessionCounters m1)))"

definition AddSession_now :: "'c mgr_conf \<Rightarrow> ref \<Rightarrow> 'c mgr \<Rightarrow> mgr_error + 'c mgr" where
  "AddSession_now cf p m =
     rbind (deref p m)
       (\<lambda>ss. rbind (replace_old cf (ss_accountId ss) m)
         (\<lambda>(found, m1). let m2 = m1\<lparr>mg_sessions := um_set (ss_accountId ss) p (mg_sessions m1)\<rparr>
            in if mg_updaters m2 = [] then Inl NoUpdater
               else rbind (SessionUpdater_AddSession (choose_updater m2) p m2) (admit_or_queue cf (\<not> found) p)))"

fun admit_new :: "'c mgr_conf \<Rightarrow> nat \<Rightarrow> 'c mgr \<Rightarrow> mgr_error + 'c mgr" where
  "admit_new cf 0 m = Inr m"
| "admit_new cf (Suc fuel) m =
     (case lq_next (mg_addQueue m) of
        None \<Rightarrow> Inr m
      | Some (p, q) \<Rightarrow>
          (let m1 = m\<lparr>mg_addQueue := q\<rparr>
           in rbind (if p \<noteq> 0 then AddSession_now cf p m1 else Inr m1) (admit_new cf fuel)))"

definition visit_session :: "'c senv \<Rightarrow> u32 \<times> ref \<Rightarrow> 'c mgr \<Rightarrow> mgr_error + 'c mgr" where
  "visit_session env entry m =
     rbind (run_session (UpdateSingle env) (snd entry) m)
       (\<lambda>(b, m1). if b then Inr m1
         else rbind (on_session KickPlayer (snd entry) m1)
           (\<lambda>m2. rbind (remove_reference (snd entry) m2)
             (\<lambda>m3. Inr (m3\<lparr>mg_sessions := um_erase (fst entry) (mg_sessions m3)\<rparr>))))"

fun visit_sessions :: "(ref \<Rightarrow> 'c senv) \<Rightarrow> (u32 \<times> ref) list \<Rightarrow> 'c mgr \<Rightarrow> mgr_error + 'c mgr" where
  "visit_sessions envs [] m = Inr m"
| "visit_sessions envs (e # es) m = rbind (visit_session (envs (snd e)) e m) (visit_sessions envs es)"

text \<open>\<open>UpdateDynamics\<close> puts the updaters to sleep and hands every session to the first one again.\<close>

definition all_busy :: "'c mgr \<Rightarrow> bool" where
  "all_busy m \<longleftrightarrow> list_all (\<lambda>u. up_counter u \<noteq> 0) (tl (mg_updaters m))"

definition UpdateDynamics :: "'c mgr_conf \<Rightarrow> u32 \<Rightarrow> 'c mgr \<Rightarrow> mgr_error + 'c mgr" where
  "UpdateDynamics cf diff m =
     (if length (mg_updaters m) = 1 then Inr m
      else if mg_dyn_timer m \<ge> diff then Inr (m\<lparr>mg_dyn_timer := mg_dyn_timer m - diff\<rparr>)
      else
        (let m1 = m\<lparr>mg_dyn_timer := cf_dyn_timer cf\<rparr>
         in if length (mg_sessions m1) \<ge> unat (mg_dyn_max m1) then Inr m1
            else if mg_updaters m1 = [] then Inl NoUpdater
            else if \<not> all_busy m1 then Inr m1
            else visit_each (SessionUpdater_AddSession 0) (map snd (mg_sessions m1))
              (m1\<lparr>mg_updaters := map SessionUpdater_Sleep (mg_updaters m1)\<rparr>)))"

definition ClientSessionMgr_Update :: "'c mgr_conf \<Rightarrow> (ref \<Rightarrow> 'c senv) \<Rightarrow> u32 \<Rightarrow> 'c mgr \<Rightarrow> mgr_error + 'c mgr" where
  "ClientSessionMgr_Update cf envs diff m =
     rbind (admit_new cf (length (lq_queue (mg_addQueue m))) m)
       (\<lambda>m1. rbind (visit_sessions envs (mg_sessions m1) m1)
         (\<lambda>m2. if mg_dyn_enabled m2 then UpdateDynamics cf diff m2 else Inr m2))"

text \<open>\<open>ServerClose\<close>: every session of the map is released, the updaters stop.\<close>

fun release_sessions :: "(u32 \<times> ref) list \<Rightarrow> 'c mgr \<Rightarrow> mgr_error + 'c mgr" where
  "release_sessions [] m = Inr m"
| "release_sessions (e # es) m =
     rbind (remove_reference (snd e) m) (\<lambda>m1. release_sessions es (m1\<lparr>mg_sessions := es\<rparr>))"

definition ServerClose :: "'c mgr \<Rightarrow> mgr_error + 'c mgr" where
  "ServerClose m =
     rbind (release_sessions (mg_sessions m) m)
       (\<lambda>m1. Inr (m1\<lparr>mg_updaters := map SessionUpdater_Stop (mg_updaters m1)\<rparr>))"

section \<open>Broadcasts\<close>

definition SERVER_MSG_STRING :: u32 where "SERVER_MSG_STRING = 3"

fun tell_sessions :: "('c session \<Rightarrow> bool) \<Rightarrow> ref \<Rightarrow> 'c net \<Rightarrow> wpacket \<Rightarrow> ref list \<Rightarrow> 'c mgr \<Rightarrow> mgr_error + 'c mgr" where
  "tell_sessions sel self net packet [] m = Inr m"
| "tell_sessions sel self net packet (p # ps) m =
     (if p = 0 then tell_sessions sel self net packet ps m
      else rbind (deref p m)
        (\<lambda>ss. rbind (if ss_player ss \<noteq> None \<and> p \<noteq> self \<and> sel ss then on_session (SendPacket net packet) p m else Inr m)
          (tell_sessions sel self net packet ps)))"

definition SendGlobalMessage :: "'c mgr_conf \<Rightarrow> wpacket \<Rightarrow> ref \<Rightarrow> u32 \<Rightarrow> 'c mgr \<Rightarrow> mgr_error + 'c mgr" where
  "SendGlobalMessage cf packet self team m =
     tell_sessions (\<lambda>ss. team = 0 \<or> (\<exists>pl. ss_player ss = Some pl \<and> cf_team cf pl = team)) self (cf_net cf) packet
       (map snd (mg_sessions m)) m"

text \<open>\<open>AccountMgr::IsVIPorPlayer\<close>, which the next broadcast asks whether an account is an ordinary one.\<close>

definition IsVIPorPlayer :: "u32 \<Rightarrow> bool" where
  "IsVIPorPlayer gmlevel = False"

text \<open>The text is the formatted message, cut to the buffer by \<open>vsnprintf\<close>.\<close>

definition SendGameMasterMessage :: "'c mgr_conf \<Rightarrow> bytes \<Rightarrow> 'c mgr \<Rightarrow> mgr_error + 'c mgr" where
  "SendGameMasterMessage cf text m =
     tell_sessions (\<lambda>ss. \<not> IsVIPorPlayer (ss_security ss)) 0 (cf_net cf)
       (mk_pkt SMSG_SERVER_MESSAGE [U32 SERVER_MSG_STRING, Str (take 2047 text)]) (map snd (mg_sessions m)) m"

definition SendServerMessage :: "'c mgr_conf \<Rightarrow> u32 \<Rightarrow> bytes \<Rightarrow> ref \<Rightarrow> 'c mgr \<Rightarrow> mgr_error + 'c mgr" where
  "SendServerMessage cf type text player_session m =
     (let data = mk_pkt SMSG_SERVER_MESSAGE ([U32 type] @ (if type \<le> SERVER_MSG_STRING then [Str text] else []))
      in if player_session \<noteq> 0 then on_session (SendPacket (cf_net cf) data) player_session m
         else SendGlobalMessage cf data 0 0 m)"

section \<open>Outcomes\<close>

text \<open>
  \<open>outcome s P r\<close>: the operation ends in a state with \<open>P\<close> or with an error; if \<open>s\<close>, the error is not
  the use of a bad pointer.
\<close>

definition outcome :: "bool \<Rightarrow> ('a \<Rightarrow> bool) \<Rightarrow> mgr_error + 'a \<Rightarrow> bool" where
  "outcome s P r = (case r of Inl e \<Rightarrow> s \<longrightarrow> (\<forall>p. e \<noteq> BadPointer p) | Inr x \<Rightarrow> P x)"

named_theorems outcomes

lemma outcome_Inr [simp]: "outcome s P (Inr x) = P x"
  by (simp add: outcome_def)

lemma outcome_Inl [simp]: "outcome s P (Inl e) = (s \<longrightarrow> (\<forall>p. e \<noteq> BadPointer p))"
  by (simp add: outcome_def)

lemma outcome_bind:
  assumes "outcome s Q r" and "\<And>x. r = Inr x \<Longrightarrow> Q x \<Longrightarrow> outcome s P (f x)"
  shows "outcome s P (rbind r f)"
  using assms by (cases r) auto

lemma outcome_mono: "outcome s Q r \<Longrightarrow> (\<And>x. r = Inr x \<Longrightarrow> Q x \<Longrightarrow> P x) \<Longrightarrow> outcome s P r"
  by (cases r) auto

lemma outcomeD: "outcome s P r \<Longrightarrow> r = Inr x \<Longrightarrow> P x"
  by simp

lemma outcome_no_bad: "outcome True P r \<Longrightarrow> r \<noteq> Inl (BadPointer p)"
  by auto

section \<open>Counted references\<close>

text \<open>
  \<open>core\<close> is what holds counted references, \<open>held\<close> those references as a multiset. The references in
  \<open>ls\<close> are held by the code that is running: every address has at least as many references on its
  count as there are holders, and addresses without a session have none. In the strict case, without
  a player limit, nobody waits in the queue.
\<close>

definition core :: "'c mgr \<Rightarrow> ref locked_queue \<times> (u32 \<times> ref) list \<times> updater list \<times> u32" where
  "core m = (mg_addQueue m, mg_sessions m, mg_updaters m, mg_playerLimit m)"

definition up_held :: "updater \<Rightarrow> ref multiset" where
  "up_held u = mset (lq_queue (up_new u)) + mset (up_sessions u)"

definition held :: "'c mgr \<Rightarrow> ref multiset" where
  "held m = mset (lq_queue (mg_addQueue m)) + mset (map snd (mg_sessions m)) +
     sum_list (map up_held (mg_updaters m))"

definition enough :: "(int \<times> 'c session) option \<Rightarrow> nat \<Rightarrow> bool" where
  "enough cell n = (case cell of None \<Rightarrow> n = 0 | Some (r, ss) \<Rightarrow> 0 < r \<and> int n \<le> r)"

definition mgr_inv :: "bool \<Rightarrow> ref list \<Rightarrow> 'c mgr \<Rightarrow> bool" where
  "mgr_inv s ls m \<longleftrightarrow>
     (\<forall>p. enough (mg_heap m p) (count (held m + mset ls) p)) \<and>
     distinct (map fst (mg_sessions m)) \<and>
     (\<forall>u \<in> set (mg_updaters m). sorted (up_sessions u) \<and> distinct (up_sessions u)) \<and>
     (s \<longrightarrow> mg_playerLimit m = 0 \<and> mg_queued m = [])"

lemma held_core: "core m' = core m \<Longrightarrow> held m' = held m"
  by (simp add: core_def held_def)

lemma core_iff:
  "core m' = core m \<longleftrightarrow> mg_addQueue m' = mg_addQueue m \<and> mg_sessions m' = mg_sessions m \<and>
     mg_updaters m' = mg_updaters m \<and> mg_playerLimit m' = mg_playerLimit m"
  by (auto simp: core_def)

lemma core_fields:
  "core m' = core m \<Longrightarrow> mg_addQueue m' = mg_addQueue m \<and> mg_sessions m' = mg_sessions m \<and>
     mg_updaters m' = mg_updaters m \<and> mg_playerLimit m' = mg_playerLimit m"
  by (simp add: core_def)

lemma enough_mono: "enough cell n \<Longrightarrow> k \<le> n \<Longrightarrow> enough cell k"
  by (cases cell) (auto simp: enough_def)

lemma enough_pos: "enough cell (Suc n) \<Longrightarrow> \<exists>r ss. cell = Some (r, ss) \<and> 0 < r \<and> int n \<le> r - 1"
  by (cases cell) (auto simp: enough_def)

lemma mgr_inv_enough: "mgr_inv s ls m \<Longrightarrow> enough (mg_heap m p) (count (held m + mset ls) p)"
  by (simp add: mgr_inv_def)

lemma mgr_inv_live:
  assumes "mgr_inv s ls m" and "p \<in># held m + mset ls"
  shows "\<exists>r ss. mg_heap m p = Some (r, ss) \<and> 0 < r"
proof -
  from assms(2) obtain n where "count (held m + mset ls) p = Suc n" by (metis in_countE)
  with mgr_inv_enough [OF assms(1), of p] enough_pos [of "mg_heap m p" n] show ?thesis by auto
qed

text \<open>The invariant only sees the core, the counts and whether somebody waits.\<close>

lemma mgr_inv_cong:
  assumes "mgr_inv s ls m" and "core m' = core m"
    and "\<And>p. map_option fst (mg_heap m' p) = map_option fst (mg_heap m p)"
    and "s \<Longrightarrow> mg_queued m = [] \<Longrightarrow> mg_queued m' = []"
  shows "mgr_inv s ls m'"
proof -
  have "enough (mg_heap m' p) n = enough (mg_heap m p) n" for p n
    using assms(3) [of p] by (cases "mg_heap m' p"; cases "mg_heap m p") (auto simp: enough_def)
  then show ?thesis
    using assms(1,4) held_core [OF assms(2)] core_fields [OF assms(2)] by (simp add: mgr_inv_def)
qed

lemma mgr_inv_weaken: "mgr_inv s (ls @ ls') m \<Longrightarrow> mgr_inv s ls' m"
  unfolding mgr_inv_def by (auto elim!: enough_mono dest!: spec)

lemma on_session_out [outcomes]:
  assumes "mgr_inv s ls m" and "s \<Longrightarrow> p \<in># held m + mset ls"
  shows "outcome s (\<lambda>m'. mgr_inv s ls m' \<and> core m' = core m \<and> mg_queued m' = mg_queued m) (on_session f p m)"
proof (cases "mg_heap m p")
  case None
  with assms mgr_inv_live [of s ls m p] have "\<not> s" by auto
  with None show ?thesis by (simp add: on_session_def)
next
  case (Some cell)
  obtain r ss where c: "cell = (r, ss)" by fastforce
  have "mgr_inv s ls (m\<lparr>mg_heap := (mg_heap m)(p \<mapsto> (r, f ss))\<rparr>)"
    using Some c by (intro mgr_inv_cong [OF assms(1)]) (auto simp: core_def)
  with Some c show ?thesis by (simp add: on_session_def core_def)
qed

lemma run_session_out [outcomes]:
  assumes "mgr_inv s ls m" and "s \<Longrightarrow> p \<in># held m + mset ls"
  shows "outcome s (\<lambda>(b, m'). mgr_inv s ls m' \<and> core m' = core m \<and> mg_queued m' = mg_queued m) (run_session act p m)"
proof (cases "mg_heap m p")
  case None
  with assms mgr_inv_live [of s ls m p] have "\<not> s" by auto
  with None show ?thesis by (simp add: run_session_def)
next
  case (Some cell)
  obtain r ss where c: "cell = (r, ss)" by fastforce
  have "mgr_inv s ls (m\<lparr>mg_heap := (mg_heap m)(p \<mapsto> (r, ss1)), mg_routing := rt\<rparr>)" for ss1 rt
    using Some c by (intro mgr_inv_cong [OF assms(1)]) (auto simp: core_def)
  with Some c show ?thesis by (simp add: run_session_def core_def split: prod.split option.split)
qed

lemma mgr_inv_heap:
  assumes "mgr_inv s ls m" and "core m' = core m" and "s \<Longrightarrow> mg_queued m = [] \<Longrightarrow> mg_queued m' = []"
    and "\<And>q. enough (mg_heap m q) (count (held m + mset ls) q) \<Longrightarrow> enough (mg_heap m' q) (count (held m + mset ls') q)"
  shows "mgr_inv s ls' m'"
  using assms(1,3,4) held_core [OF assms(2)] core_fields [OF assms(2)] by (simp add: mgr_inv_def)

lemma add_reference_out [outcomes]:
  assumes "mgr_inv s ls m" and "s \<Longrightarrow> p \<in># held m + mset ls"
  shows "outcome s (\<lambda>m'. mgr_inv s (p # ls) m' \<and> core m' = core m \<and> mg_queued m' = mg_queued m) (add_reference p m)"
proof (cases "mg_heap m p")
  case None
  with assms mgr_inv_live [of s ls m p] have "\<not> s" by auto
  with None show ?thesis by (simp add: add_reference_def)
next
  case (Some cell)
  obtain r ss where c: "cell = (r, ss)" by fastforce
  have "mgr_inv s (p # ls) (m\<lparr>mg_heap := (mg_heap m)(p \<mapsto> (r + 1, ss))\<rparr>)"
    using Some c by (intro mgr_inv_heap [OF assms(1)]) (auto simp: core_def enough_def split: option.splits)
  with Some c show ?thesis by (simp add: add_reference_def core_def)
qed

lemma remove_reference_out [outcomes]:
  assumes "mgr_inv s (p # ls) m"
  shows "outcome True (\<lambda>m'. mgr_inv s ls m' \<and> core m' = core m \<and> mg_queued m' = mg_queued m) (remove_reference p m)"
proof -
  obtain r ss where c: "mg_heap m p = Some (r, ss)" "0 < r" "int (count (held m + mset ls) p) \<le> r - 1"
    using enough_pos [of "mg_heap m p" "count (held m + mset ls) p"] mgr_inv_enough [OF assms, of p] by auto
  let ?m' = "if r - 1 = 0 then ClientSession_delete p ss m else m\<lparr>mg_heap := (mg_heap m)(p \<mapsto> (r - 1, ss))\<rparr>"
  have "enough (mg_heap ?m' q) (count (held m + mset ls) q)"
    if "enough (mg_heap m q) (count (held m + mset (p # ls)) q)" for q
  proof (cases "q = p")
    case True
    then show ?thesis using c(2,3) unfolding ClientSession_delete_def enough_def
      by (cases "r = 1") (simp_all del: count_union)
  next
    case False
    then show ?thesis using that by (simp add: ClientSession_delete_def)
  qed
  then have "mgr_inv s ls ?m'"
    by (intro mgr_inv_heap [OF assms]) (auto simp: core_def ClientSession_delete_def)
  with c show ?thesis by (auto simp: remove_reference_def core_def ClientSession_delete_def)
qed

text \<open>A holder leaves its container after its reference is gone: the order does not matter.\<close>

lemma remove_then_sessions:
  "rbind (remove_reference p m) (\<lambda>m1. Inr (m1\<lparr>mg_sessions := f (mg_sessions m1)\<rparr>)) =
   remove_reference p (m\<lparr>mg_sessions := f (mg_sessions m)\<rparr>)"
  by (simp add: remove_reference_def ClientSession_delete_def split: option.split)

lemma remove_then_updater:
  "rbind (remove_reference p m) (\<lambda>m1. Inr (on_updater f i m1)) = remove_reference p (on_updater f i m)"
  by (simp add: remove_reference_def ClientSession_delete_def on_updater_def split: option.split)

text \<open>Moving a reference between the running code and a container.\<close>

lemma mgr_inv_move:
  assumes "mgr_inv s ls m" and "mg_heap m' = mg_heap m" and "held m' + mset ls' \<subseteq># held m + mset ls"
    and "distinct (map fst (mg_sessions m'))" and "\<forall>u \<in> set (mg_updaters m'). sorted (up_sessions u) \<and> distinct (up_sessions u)"
    and "s \<Longrightarrow> mg_playerLimit m = 0 \<Longrightarrow> mg_queued m = [] \<Longrightarrow> mg_playerLimit m' = 0 \<and> mg_queued m' = []"
  shows "mgr_inv s ls' m'"
  using assms(1,4,5,6) enough_mono [OF mgr_inv_enough [OF assms(1)] mset_subset_eq_count [OF assms(3)]]
  by (simp add: mgr_inv_def assms(2) del: count_union)

lemma mset_um_erase:
  "distinct (map fst xs) \<Longrightarrow> (k, p) \<in> set xs \<Longrightarrow>
   mset (map snd xs) = add_mset p (mset (map snd (um_erase k xs)))"
proof (induction xs)
  case (Cons x xs)
  show ?case
  proof (cases "x = (k, p)")
    case True
    with Cons.prems(1) have "um_erase k (x # xs) = xs" by (auto simp: um_erase_def filter_id_conv image_iff)
    with True show ?thesis by simp
  next
    case False
    with Cons.prems have "fst x \<noteq> k" "mset (map snd xs) = add_mset p (mset (map snd (um_erase k xs)))"
      using Cons.IH by (auto simp: image_iff)
    then show ?thesis by (simp add: um_erase_def)
  qed
qed simp

lemma mset_um_set:
  "distinct (map fst xs) \<Longrightarrow>
   mset (map snd (um_set k p xs)) + mset (case map_of xs k of None \<Rightarrow> [] | Some old \<Rightarrow> [old]) =
   add_mset p (mset (map snd xs))"
  by (induction k p xs rule: um_set.induct) (auto split: option.splits)

lemma on_updater_fields [simp]:
  "mg_heap (on_updater f i m) = mg_heap m" "mg_sessions (on_updater f i m) = mg_sessions m"
  "mg_addQueue (on_updater f i m) = mg_addQueue m" "mg_queued (on_updater f i m) = mg_queued m"
  "mg_playerLimit (on_updater f i m) = mg_playerLimit m"
  by (simp_all add: on_updater_def)

lemma sum_list_update_mset:
  fixes f :: "'a \<Rightarrow> 'b multiset"
  assumes "i < length xs"
  shows "sum_list (map f (xs[i := x])) + f (xs ! i) = sum_list (map f xs) + f x"
  using assms by (induction xs arbitrary: i) (auto simp: ac_simps split: nat.split)

lemma held_on_updater:
  "i < length (mg_updaters m) \<Longrightarrow>
   held (on_updater f i m) + up_held (mg_updaters m ! i) = held m + up_held (f (mg_updaters m ! i))"
  using sum_list_update_mset [of i "mg_updaters m" up_held "f (mg_updaters m ! i)"]
  by (simp add: held_def on_updater_def add.assoc)

text \<open>An updater that changes its lists, adding the references \<open>as\<close> and giving up \<open>bs\<close>.\<close>

lemma mgr_inv_updater:
  assumes "mgr_inv s ls m" and "i < length (mg_updaters m)"
    and "up_held (f (mg_updaters m ! i)) + mset ls' \<subseteq># up_held (mg_updaters m ! i) + mset ls"
    and "sorted (up_sessions (f (mg_updaters m ! i))) \<and> distinct (up_sessions (f (mg_updaters m ! i)))"
  shows "mgr_inv s ls' (on_updater f i m)"
proof (rule mgr_inv_move [OF assms(1)])
  have "(held (on_updater f i m) + up_held (mg_updaters m ! i)) + mset ls' \<subseteq># held m + up_held (mg_updaters m ! i) + mset ls"
    unfolding held_on_updater [OF assms(2)] using assms(3) by (simp add: add.assoc)
  then have "(held (on_updater f i m) + mset ls') + up_held (mg_updaters m ! i) \<subseteq>#
      (held m + mset ls) + up_held (mg_updaters m ! i)" by (simp add: ac_simps)
  then show "held (on_updater f i m) + mset ls' \<subseteq># held m + mset ls"
    by (rule mset_subset_eq_mono_add_right_cancel [THEN iffD1])
  show "\<forall>u\<in>set (mg_updaters (on_updater f i m)). sorted (up_sessions u) \<and> distinct (up_sessions u)"
    using assms(1,4) by (auto simp: mgr_inv_def on_updater_def dest!: set_update_subset_insert [THEN subsetD])
qed (use assms(1) in \<open>auto simp: mgr_inv_def\<close>)

section \<open>Every operation keeps the count\<close>

lemma held_parts:
  "u \<in> set (mg_updaters m) \<Longrightarrow> p \<in># up_held u \<Longrightarrow> p \<in># held m"
  "(k, p) \<in> set (mg_sessions m) \<Longrightarrow> p \<in># held m"
  "p \<in> set (lq_queue (mg_addQueue m)) \<Longrightarrow> p \<in># held m"
  by (auto simp: held_def image_iff set_mset_sum_list) force+

lemma AddSession_updater_out [outcomes]:
  assumes "mgr_inv s ls m" and "s \<Longrightarrow> p \<in># held m + mset ls" and "i < length (mg_updaters m)"
  shows "outcome s (\<lambda>m'. mgr_inv s ls m' \<and> mg_sessions m' = mg_sessions m \<and> mg_addQueue m' = mg_addQueue m \<and>
      length (mg_updaters m') = length (mg_updaters m) \<and> held m' = add_mset p (held m))
    (SessionUpdater_AddSession i p m)"
proof -
  let ?u = "\<lambda>u. u\<lparr>up_counter := up_counter u + 1\<rparr>"
  let ?m1 = "on_updater ?u i m"
  have so: "sorted (up_sessions (mg_updaters m ! i)) \<and> distinct (up_sessions (mg_updaters m ! i))"
    using assms(1,3) by (simp add: mgr_inv_def)
  have h1: "held ?m1 = held m" using held_on_updater [OF assms(3), of ?u] by (simp add: up_held_def)
  have i1: "mgr_inv s ls ?m1"
    by (rule mgr_inv_updater [OF assms(1,3)]) (use so in \<open>auto simp: up_held_def\<close>)
  have "outcome s (\<lambda>m'. mgr_inv s (p # ls) m' \<and> core m' = core ?m1 \<and> mg_queued m' = mg_queued ?m1) (add_reference p ?m1)"
    by (rule add_reference_out [OF i1]) (use assms(2) h1 in auto)
  then show ?thesis unfolding SessionUpdater_AddSession_def
  proof (rule outcome_bind)
    fix m2 assume m2: "mgr_inv s (p # ls) m2 \<and> core m2 = core ?m1 \<and> mg_queued m2 = mg_queued ?m1"
    let ?v = "\<lambda>u. u\<lparr>up_new := lq_add p (up_new u)\<rparr>"
    have f: "mg_updaters m2 = mg_updaters ?m1" "mg_sessions m2 = mg_sessions m" "mg_addQueue m2 = mg_addQueue m"
      using core_fields [of m2 ?m1] m2 by simp_all
    have l: "i < length (mg_updaters m2)" using assms(3) f by (simp add: on_updater_def)
    have u: "mg_updaters m2 ! i = ?u (mg_updaters m ! i)" using f assms(3) by (simp add: on_updater_def)
    have "mgr_inv s ls (on_updater ?v i m2)"
      by (rule mgr_inv_updater [where ls = "p # ls"]) (use m2 l so in \<open>auto simp: up_held_def lq_add_def u\<close>)
    moreover have "held (on_updater ?v i m2) = add_mset p (held m)"
      using held_on_updater [OF l, of ?v] held_core [of m2 ?m1] m2 h1 by (simp add: up_held_def lq_add_def u)
    moreover have "length (mg_updaters (on_updater ?v i m2)) = length (mg_updaters m)"
      using f by (simp add: on_updater_def)
    ultimately show "outcome s (\<lambda>m'. mgr_inv s ls m' \<and> mg_sessions m' = mg_sessions m \<and>
        mg_addQueue m' = mg_addQueue m \<and> length (mg_updaters m') = length (mg_updaters m) \<and>
        held m' = add_mset p (held m)) (Inr (on_updater ?v i m2))"
      using f by simp
  qed
qed

lemma least_updater_bound: "mg_updaters m \<noteq> [] \<Longrightarrow> least_updater m < length (mg_updaters m)"
proof -
  assume ne: "mg_updaters m \<noteq> []"
  have "fold (\<lambda>i least. if up_counter (mg_updaters m ! i) < up_counter (mg_updaters m ! least) then i else least) is k
      < length (mg_updaters m)"
    if "\<forall>i \<in> set is. i < length (mg_updaters m)" "k < length (mg_updaters m)" for "is" k
    using that by (induction "is" arbitrary: k) auto
  then show ?thesis unfolding least_updater_def using ne by simp
qed

lemma choose_updater_bound: "mg_updaters m \<noteq> [] \<Longrightarrow> choose_updater m < length (mg_updaters m)"
  using least_updater_bound [of m] by (simp add: choose_updater_def)

text \<open>The waiting queue: without the strict case nothing is claimed of its pointers.\<close>

lemma send_positions_out:
  fixes m :: "'c mgr"
  assumes "mgr_inv s ls m" and "s \<Longrightarrow> ps = []"
  shows "outcome s (\<lambda>m'. mgr_inv s ls m' \<and> core m' = core m \<and> mg_queued m' = mg_queued m) (send_positions net k ps m)"
  using assms
proof (induction ps arbitrary: k m)
  case (Cons p ps)
  then have ns: "\<not> s" by auto
  show ?case
    unfolding send_positions.simps
  proof (rule outcome_bind [OF on_session_out [OF Cons.prems(1)]])
    fix m1 :: "'c mgr" assume m1: "mgr_inv s ls m1 \<and> core m1 = core m \<and> mg_queued m1 = mg_queued m"
    with ns have "outcome s (\<lambda>m'. mgr_inv s ls m' \<and> core m' = core m1 \<and> mg_queued m' = mg_queued m1)
        (send_positions net (Suc k) ps m1)" by (intro Cons.IH) auto
    with m1 show "outcome s (\<lambda>m'. mgr_inv s ls m' \<and> core m' = core m \<and> mg_queued m' = mg_queued m)
        (send_positions net (Suc k) ps m1)" by simp
  qed (use ns in simp)
qed simp

lemma queue_without_out:
  assumes "mgr_inv s ls m"
  shows "outcome s (\<lambda>(found, k, iter, m'). mgr_inv s ls m' \<and> core m' = core m \<and> (s \<longrightarrow> iter = []))
    (queue_without sess m)"
proof (cases "dropWhile (\<lambda>q. q \<noteq> sess) (mg_queued m) = []")
  case True
  then show ?thesis using assms by (simp add: queue_without_def)
next
  case False
  then have ns: "\<not> s" using assms by (auto simp: mgr_inv_def)
  show ?thesis unfolding queue_without_def Let_def if_not_P [OF False]
  proof (rule outcome_bind [OF on_session_out [OF assms]])
    fix m1 assume m1: "mgr_inv s ls m1 \<and> core m1 = core m \<and> mg_queued m1 = mg_queued m"
    have "mgr_inv s ls (m1\<lparr>mg_queued := q\<rparr>)" for q
      by (rule mgr_inv_cong [where m = m1]) (use m1 ns in \<open>auto simp: core_def\<close>)
    then show "outcome s (\<lambda>(found, k, iter, m'). mgr_inv s ls m' \<and> core m' = core m \<and> (s \<longrightarrow> iter = []))
        (Inr (True, Suc (length (takeWhile (\<lambda>q. q \<noteq> sess) (mg_queued m))), tl (dropWhile (\<lambda>q. q \<noteq> sess) (mg_queued m)),
          m1\<lparr>mg_queued := takeWhile (\<lambda>q. q \<noteq> sess) (mg_queued m) @ tl (dropWhile (\<lambda>q. q \<noteq> sess) (mg_queued m))\<rparr>))"
      using m1 ns by (simp add: core_def)
  qed (use ns in simp)
qed

lemma RemoveQueuedPlayer_out [outcomes]:
  fixes m :: "'c mgr"
  assumes "mgr_inv s ls m"
  shows "outcome s (\<lambda>(b, m'). mgr_inv s ls m' \<and> core m' = core m) (RemoveQueuedPlayer cf sess m)"
  unfolding RemoveQueuedPlayer_def Let_def
proof (rule outcome_bind [OF queue_without_out [OF assms]], clarify)
  fix found :: bool and k and iter :: "ref list" and m1 :: "'c mgr"
  assume m1: "mgr_inv s ls m1" "core m1 = core m" "s \<longrightarrow> iter = []"
  have "outcome s (\<lambda>(b, m'). mgr_inv s ls m' \<and> core m' = core m)
      (rbind (send_positions (cf_net cf) k iter m1) (\<lambda>m2. Inr (found, m2)))"
    by (rule outcome_bind [OF send_positions_out [OF m1(1)]]) (use m1 in auto)
  moreover have "outcome s (\<lambda>(b, m'). mgr_inv s ls m' \<and> core m' = core m)
      (rbind (on_session (admit_front cf) (hd (mg_queued m1)) m1)
        (\<lambda>m2. rbind (send_positions (cf_net cf) 1 (mg_queued (m2\<lparr>mg_queued := tl (mg_queued m2)\<rparr>))
            (m2\<lparr>mg_queued := tl (mg_queued m2)\<rparr>)) (\<lambda>m4. Inr (found, m4))))"
    if "mg_queued m1 \<noteq> []"
  proof -
    have ns: "\<not> s" using that m1(1) by (auto simp: mgr_inv_def)
    show ?thesis
    proof (rule outcome_bind [OF on_session_out [OF m1(1)]])
      fix m2 :: "'c mgr" assume m2: "mgr_inv s ls m2 \<and> core m2 = core m1 \<and> mg_queued m2 = mg_queued m1"
      let ?m3 = "m2\<lparr>mg_queued := tl (mg_queued m2)\<rparr>"
      have i3: "mgr_inv s ls ?m3" by (rule mgr_inv_cong [where m = m2]) (use m2 in \<open>auto simp: core_def\<close>)
      have c3: "core ?m3 = core m" using m2 m1(2) by (simp add: core_def)
      show "outcome s (\<lambda>(b, m'). mgr_inv s ls m' \<and> core m' = core m)
        (rbind (send_positions (cf_net cf) 1 (mg_queued ?m3) ?m3) (\<lambda>m4. Inr (found, m4)))"
        by (rule outcome_bind [OF send_positions_out [OF i3]]) (use ns c3 in auto)
    qed (use ns in simp)
  qed
  ultimately show "outcome s (\<lambda>(b, m'). mgr_inv s ls m' \<and> core m' = core m)
    (if (mg_playerLimit m1 = 0 \<or> (if \<not> found \<and> GetActiveSessionCount m \<noteq> 0 then GetActiveSessionCount m - 1
            else GetActiveSessionCount m) < mg_playerLimit m1) \<and> mg_queued m1 \<noteq> []
     then rbind (on_session (admit_front cf) (hd (mg_queued m1)) m1)
       (\<lambda>m2. rbind (send_positions (cf_net cf) 1 (mg_queued (m2\<lparr>mg_queued := tl (mg_queued m2)\<rparr>))
           (m2\<lparr>mg_queued := tl (mg_queued m2)\<rparr>)) (\<lambda>m4. Inr (found, m4)))
     else rbind (send_positions (cf_net cf) k iter m1) (\<lambda>m2. Inr (found, m2)))"
    by simp
qed

lemma AddQueuedPlayer_out:
  fixes m :: "'c mgr"
  assumes "mgr_inv s ls m" and "\<not> s"
  shows "outcome s (\<lambda>m'. mgr_inv s ls m' \<and> core m' = core m) (AddQueuedPlayer cf p m)"
  unfolding AddQueuedPlayer_def Let_def
proof (rule outcome_bind [OF on_session_out [OF assms(1)]])
  fix m1 :: "'c mgr" assume m1: "mgr_inv s ls m1 \<and> core m1 = core m \<and> mg_queued m1 = mg_queued m"
  let ?m2 = "m1\<lparr>mg_queued := mg_queued m1 @ [p]\<rparr>"
  have i2: "mgr_inv s ls ?m2" by (rule mgr_inv_cong [where m = m1]) (use m1 assms(2) in \<open>auto simp: core_def\<close>)
  show "outcome s (\<lambda>m'. mgr_inv s ls m' \<and> core m' = core m)
    (on_session (SendAuthResponse (cf_net cf) AUTH_WAIT_QUEUE False (GetQueuePos p ?m2)) p ?m2)"
    by (rule outcome_mono [OF on_session_out [OF i2]]) (use m1 assms(2) in \<open>auto simp: core_def\<close>)
qed (use assms in simp)

lemma RemoveSession_out:
  assumes "mgr_inv s ls m"
  shows "outcome s (\<lambda>m'. mgr_inv s ls m' \<and> core m' = core m \<and> mg_queued m' = mg_queued m) (RemoveSession acc m)"
proof (cases "map_of (mg_sessions m) acc")
  case (Some p)
  have "p \<in># held m" using held_parts(2) map_of_SomeD [OF Some] by metis
  with Some on_session_out [OF assms, of p KickPlayer] assms show ?thesis by (auto simp: RemoveSession_def)
qed (use assms in \<open>simp add: RemoveSession_def\<close>)

lemma replace_old_out:
  assumes "mgr_inv s ls m"
  shows "outcome s (\<lambda>(b, m'). mgr_inv s ls m' \<and> core m' = core m) (replace_old cf acc m)"
  unfolding replace_old_def
proof (rule outcome_bind [OF RemoveSession_out [OF assms]])
  fix m1 :: "'a mgr" assume m1: "mgr_inv s ls m1 \<and> core m1 = core m \<and> mg_queued m1 = mg_queued m"
  then show "outcome s (\<lambda>(b, m'). mgr_inv s ls m' \<and> core m' = core m)
      (case map_of (mg_sessions m1) acc of None \<Rightarrow> Inr (False, m1) | Some old \<Rightarrow> RemoveQueuedPlayer cf old m1)"
    using RemoveQueuedPlayer_out [of s ls m1 cf] by (simp split: option.split)
qed

lemma UpdateMax_inv [simp]: "mgr_inv s ls (UpdateMaxSessionCounters m) = mgr_inv s ls m"
  by (simp add: UpdateMaxSessionCounters_def mgr_inv_def held_def)

lemma UpdateMax_core [simp]: "core (UpdateMaxSessionCounters m) = core m"
  by (simp add: UpdateMaxSessionCounters_def core_def)

lemma admit_or_queue_out:
  assumes "mgr_inv s ls m" and "s \<Longrightarrow> p \<in># held m + mset ls"
  shows "outcome s (\<lambda>m'. mgr_inv s ls m' \<and> core m' = core m) (admit_or_queue cf b p m)"
proof -
  have tell: "outcome s (\<lambda>m'. mgr_inv s ls m' \<and> core m' = core m)
      (rbind (on_session f p m) (\<lambda>m1. Inr (UpdateMaxSessionCounters m1)))" for f
    by (rule outcome_bind [OF on_session_out [OF assms]]) simp_all
  have wait: "outcome s (\<lambda>m'. mgr_inv s ls m' \<and> core m' = core m)
      (rbind (AddQueuedPlayer cf p m) (\<lambda>m1. Inr (UpdateMaxSessionCounters m1)))" if "0 < mg_playerLimit m"
  proof (rule outcome_bind [OF AddQueuedPlayer_out [OF assms(1)]])
    show "\<not> s" using assms(1) that by (auto simp: mgr_inv_def)
  qed simp
  show ?thesis
  proof (cases "mg_heap m p")
    case None
    with assms mgr_inv_live [of s ls m p] show ?thesis by (auto simp: admit_or_queue_def deref_def)
  next
    case (Some cell)
    then show ?thesis using tell wait by (cases cell) (simp add: admit_or_queue_def deref_def Let_def)
  qed
qed

definition replaced :: "ref \<Rightarrow> 'c mgr \<Rightarrow> ref list" where
  "replaced p m =
     (case mg_heap m p of
        None \<Rightarrow> []
      | Some (r, ss) \<Rightarrow> (case map_of (mg_sessions m) (ss_accountId ss) of None \<Rightarrow> [] | Some old \<Rightarrow> [old]))"

text \<open>A reference handed to \<open>AddSession_\<close> ends up in the map; that of a replaced session is nowhere.\<close>

lemma mgr_inv_enter:
  assumes "mgr_inv s (p # ls) m"
  shows "mgr_inv s ((case map_of (mg_sessions m) acc of None \<Rightarrow> [] | Some old \<Rightarrow> [old]) @ ls)
    (m\<lparr>mg_sessions := um_set acc p (mg_sessions m)\<rparr>)"
proof (rule mgr_inv_move [OF assms])
  have "distinct (map fst (mg_sessions m))" using assms by (simp add: mgr_inv_def)
  from mset_um_set [OF this, of acc p]
  show "held (m\<lparr>mg_sessions := um_set acc p (mg_sessions m)\<rparr>) +
      mset ((case map_of (mg_sessions m) acc of None \<Rightarrow> [] | Some old \<Rightarrow> [old]) @ ls) \<subseteq># held m + mset (p # ls)"
    by (simp add: held_def ac_simps)
qed (use assms in \<open>auto simp: mgr_inv_def\<close>)

lemma AddSession_now_out:
  fixes m :: "'c mgr"
  assumes "mgr_inv s (p # ls) m"
  shows "outcome s (\<lambda>m'. mgr_inv s (replaced p m @ ls) m' \<and> mg_addQueue m' = mg_addQueue m \<and>
      length (mg_updaters m') = length (mg_updaters m)) (AddSession_now cf p m)"
proof -
  obtain r ss where c: "mg_heap m p = Some (r, ss)" using mgr_inv_live [OF assms, of p] by auto
  let ?old = "\<lambda>m. case map_of (mg_sessions m) (ss_accountId ss) of None \<Rightarrow> [] | Some old \<Rightarrow> [old]"
  have d: "deref p m = Inr ss" by (simp add: deref_def c)
  have rep: "replaced p m = ?old m" by (simp add: replaced_def c)
  show ?thesis unfolding AddSession_now_def d rbind.simps rep
  proof (rule outcome_bind [OF replace_old_out [OF assms]], clarify)
    fix found :: bool and m1 :: "'c mgr" assume m1: "mgr_inv s (p # ls) m1" "core m1 = core m"
    let ?m2 = "m1\<lparr>mg_sessions := um_set (ss_accountId ss) p (mg_sessions m1)\<rparr>"
    let ?P = "\<lambda>m'. mgr_inv s (?old m @ ls) m' \<and> mg_addQueue m' = mg_addQueue m \<and>
        length (mg_updaters m') = length (mg_updaters m)"
    have f: "mg_sessions m1 = mg_sessions m" "mg_addQueue m1 = mg_addQueue m" "mg_updaters m1 = mg_updaters m"
      using core_fields [OF m1(2)] by simp_all
    have i2: "mgr_inv s (?old m @ ls) ?m2" using mgr_inv_enter [OF m1(1), of "ss_accountId ss"] by (simp add: f)
    have p2: "p \<in># held ?m2"
      by (rule held_parts(2) [of "ss_accountId ss"]) (simp add: map_of_SomeD)
    show "outcome s ?P (let m2 = ?m2 in if mg_updaters m2 = [] then Inl NoUpdater
        else rbind (SessionUpdater_AddSession (choose_updater m2) p m2) (admit_or_queue cf (\<not> found) p))"
    proof (cases "mg_updaters ?m2 = []")
      case False
      have "outcome s ?P (rbind (SessionUpdater_AddSession (choose_updater ?m2) p ?m2) (admit_or_queue cf (\<not> found) p))"
      proof (rule outcome_bind [OF AddSession_updater_out [OF i2 _ choose_updater_bound [OF False]]])
        fix m3 :: "'c mgr" assume m3: "mgr_inv s (?old m @ ls) m3 \<and> mg_sessions m3 = mg_sessions ?m2 \<and>
          mg_addQueue m3 = mg_addQueue ?m2 \<and> length (mg_updaters m3) = length (mg_updaters ?m2) \<and>
          held m3 = add_mset p (held ?m2)"
        then have "outcome s (\<lambda>m'. mgr_inv s (?old m @ ls) m' \<and> core m' = core m3) (admit_or_queue cf (\<not> found) p m3)"
          by (intro admit_or_queue_out) auto
        then show "outcome s ?P (admit_or_queue cf (\<not> found) p m3)"
          by (rule outcome_mono) (use m3 f in \<open>simp add: core_iff\<close>)
      qed (use p2 in simp)
      with False show ?thesis by (simp add: Let_def)
    qed simp
  qed
qed

lemma take_new:
  assumes "mgr_inv s ls m" and "lq_next (mg_addQueue m) = Some (p, q)"
  shows "mgr_inv s (p # ls) (m\<lparr>mg_addQueue := q\<rparr>)"
proof -
  have "lq_queue (mg_addQueue m) = p # lq_queue q" using assms(2) by (simp add: lq_next_Some)
  then show ?thesis
    by (intro mgr_inv_move [OF assms(1)]) (use assms(1) in \<open>auto simp: held_def mgr_inv_def\<close>)
qed

lemma admit_new_out:
  assumes "mgr_inv s ls m"
  shows "outcome s (\<lambda>m'. mgr_inv s ls m' \<and> length (mg_updaters m') = length (mg_updaters m) \<and>
      length (lq_queue (mg_addQueue m')) = length (lq_queue (mg_addQueue m)) - fuel) (admit_new cf fuel m)"
  using assms
proof (induction fuel arbitrary: m)
  case (Suc fuel)
  show ?case
  proof (cases "lq_next (mg_addQueue m)")
    case None
    then have "lq_queue (mg_addQueue m) = []" by (simp add: lq_next_def split: list.splits)
    with None Suc.prems show ?thesis by simp
  next
    case (Some pq)
    obtain p q where pq: "pq = (p, q)" by fastforce
    let ?m1 = "m\<lparr>mg_addQueue := q\<rparr>"
    let ?P = "\<lambda>m'. mgr_inv s ls m' \<and> length (mg_updaters m') = length (mg_updaters m) \<and>
      length (lq_queue (mg_addQueue m')) = length (lq_queue (mg_addQueue m)) - Suc fuel"
    have q: "lq_queue (mg_addQueue m) = p # lq_queue q" using Some by (simp add: pq lq_next_Some)
    have t: "mgr_inv s (p # ls) ?m1" using take_new [OF Suc.prems] Some pq by simp
    have "outcome s (\<lambda>m'. mgr_inv s ls m' \<and> mg_addQueue m' = q \<and> length (mg_updaters m') = length (mg_updaters m))
        (if p \<noteq> 0 then AddSession_now cf p ?m1 else Inr ?m1)"
    proof (cases "p = 0")
      case True
      with t mgr_inv_weaken [of s "[p]" ls ?m1] show ?thesis by simp
    next
      case False
      have "outcome s (\<lambda>m'. mgr_inv s ls m' \<and> mg_addQueue m' = q \<and> length (mg_updaters m') = length (mg_updaters m))
          (AddSession_now cf p ?m1)"
        by (rule outcome_mono [OF AddSession_now_out [OF t]]) (auto intro: mgr_inv_weaken)
      with False show ?thesis by simp
    qed
    then have "outcome s ?P (rbind (if p \<noteq> 0 then AddSession_now cf p ?m1 else Inr ?m1) (admit_new cf fuel))"
    proof (rule outcome_bind)
      fix m2 :: "'a mgr" assume m2: "mgr_inv s ls m2 \<and> mg_addQueue m2 = q \<and> length (mg_updaters m2) = length (mg_updaters m)"
      then show "outcome s ?P (admit_new cf fuel m2)"
        by (intro outcome_mono [OF Suc.IH [of m2]]) (auto simp: q)
    qed
    with Some pq show ?thesis by (simp add: Let_def)
  qed
qed simp

text \<open>The manager's loop over its map.\<close>

lemma mgr_inv_leave:
  assumes "mgr_inv s ls m" and "(k, p) \<in> set (mg_sessions m)"
  shows "mgr_inv s (p # ls) (m\<lparr>mg_sessions := um_erase k (mg_sessions m)\<rparr>)"
proof (rule mgr_inv_move [OF assms(1)])
  have "distinct (map fst (mg_sessions m))" using assms(1) by (simp add: mgr_inv_def)
  from mset_um_erase [OF this assms(2)]
  show "held (m\<lparr>mg_sessions := um_erase k (mg_sessions m)\<rparr>) + mset (p # ls) \<subseteq># held m + mset ls"
    by (simp add: held_def)
qed (use assms(1) in \<open>simp_all add: mgr_inv_def\<close>)

lemma visit_session_out:
  fixes m :: "'c mgr"
  assumes "mgr_inv s ls m" and "(k, p) \<in> set (mg_sessions m)"
  shows "outcome s (\<lambda>m'. mgr_inv s ls m' \<and> mg_addQueue m' = mg_addQueue m \<and> mg_updaters m' = mg_updaters m \<and>
      (mg_sessions m' = mg_sessions m \<or> mg_sessions m' = um_erase k (mg_sessions m)) \<and> mg_queued m' = mg_queued m)
    (visit_session env (k, p) m)"
  unfolding visit_session_def fst_conv snd_conv
proof (rule outcome_bind [OF run_session_out [OF assms(1)]], goal_cases)
  case 1
  then show ?case using held_parts(2) [OF assms(2)] by simp
next
  case (2 x)
  obtain b and m1 :: "'c mgr" where x: "x = (b, m1)" by fastforce
  have m1: "mgr_inv s ls m1" "core m1 = core m" "mg_queued m1 = mg_queued m" using 2 by (simp_all add: x)
  have f: "mg_sessions m1 = mg_sessions m" "mg_addQueue m1 = mg_addQueue m" "mg_updaters m1 = mg_updaters m"
    using core_fields [OF m1(2)] by simp_all
  let ?P = "\<lambda>m'. mgr_inv s ls m' \<and> mg_addQueue m' = mg_addQueue m \<and> mg_updaters m' = mg_updaters m \<and>
      (mg_sessions m' = mg_sessions m \<or> mg_sessions m' = um_erase k (mg_sessions m)) \<and> mg_queued m' = mg_queued m"
  have "outcome s ?P (rbind (on_session KickPlayer p m1)
      (\<lambda>m2. rbind (remove_reference p m2) (\<lambda>m3. Inr (m3\<lparr>mg_sessions := um_erase k (mg_sessions m3)\<rparr>))))"
    unfolding remove_then_sessions
  proof (rule outcome_bind [OF on_session_out [OF m1(1)]], goal_cases)
    case 1
    then show ?case using held_parts(2) [of k p m1] assms(2) f by simp
  next
    case (2 m2)
    have g: "mg_sessions m2 = mg_sessions m" "mg_addQueue m2 = mg_addQueue m" "mg_updaters m2 = mg_updaters m"
      using core_fields [of m2 m1] 2 f by simp_all
    let ?m3 = "m2\<lparr>mg_sessions := um_erase k (mg_sessions m2)\<rparr>"
    have i2: "mgr_inv s ls m2" using 2 by simp
    have "(k, p) \<in> set (mg_sessions m2)" using assms(2) g by simp
    from remove_reference_out [OF mgr_inv_leave [OF i2 this]]
    have r: "outcome True ?P (remove_reference p ?m3)"
    proof (rule outcome_mono)
      fix m4 assume "mgr_inv s ls m4 \<and> core m4 = core ?m3 \<and> mg_queued m4 = mg_queued ?m3"
      then show "?P m4" using g conjunct2 [OF conjunct2 [OF 2(2)]] m1(3) by (simp add: core_iff)
    qed
    show ?case by (cases "remove_reference p ?m3") (use r in \<open>simp_all add: outcome_def\<close>)
  qed
  with m1(1,3) f show ?case by (simp add: x)
qed

lemma visit_sessions_out:
  fixes m :: "'c mgr"
  assumes "mgr_inv s ls m" and "set es \<subseteq> set (mg_sessions m)" and "distinct (map fst es)"
  shows "outcome s (\<lambda>m'. mgr_inv s ls m' \<and> mg_updaters m' = mg_updaters m \<and> mg_queued m' = mg_queued m)
    (visit_sessions envs es m)"
  using assms
proof (induction es arbitrary: m)
  case (Cons e es)
  obtain k p where e: "e = (k, p)" by fastforce
  have "(k, p) \<in> set (mg_sessions m)" using Cons.prems(2) e by simp
  from visit_session_out [OF Cons.prems(1) this] show ?case unfolding visit_sessions.simps e snd_conv
  proof (rule outcome_bind)
    fix m1 :: "'c mgr"
    assume m1: "mgr_inv s ls m1 \<and> mg_addQueue m1 = mg_addQueue m \<and> mg_updaters m1 = mg_updaters m \<and>
      (mg_sessions m1 = mg_sessions m \<or> mg_sessions m1 = um_erase k (mg_sessions m)) \<and> mg_queued m1 = mg_queued m"
    have "set es \<subseteq> set (mg_sessions m1)"
      using m1 Cons.prems(2,3) e by (fastforce simp: um_erase_def image_iff)
    with Cons.IH [of m1] m1 Cons.prems(3)
    show "outcome s (\<lambda>m'. mgr_inv s ls m' \<and> mg_updaters m' = mg_updaters m \<and> mg_queued m' = mg_queued m)
        (visit_sessions envs es m1)" by simp
  qed
qed simp

lemma sum_list_Sleep: "sum_list (map (up_held \<circ> SessionUpdater_Sleep) us) = sum_list (map up_held us)"
  by (induction us) (simp_all add: up_held_def SessionUpdater_Sleep_def)

lemma hand_over_out:
  fixes m :: "'c mgr"
  assumes "mgr_inv s ls m" and "set_mset (mset ps) \<subseteq> set_mset (held m)" and "mg_updaters m \<noteq> []"
  shows "outcome s (mgr_inv s ls) (visit_each (SessionUpdater_AddSession 0) ps m)"
  using assms
proof (induction ps arbitrary: m)
  case (Cons p ps)
  show ?case unfolding visit_each.simps
  proof (rule outcome_bind [OF AddSession_updater_out [OF Cons.prems(1)]])
    fix m1 :: "'c mgr"
    assume "mgr_inv s ls m1 \<and> mg_sessions m1 = mg_sessions m \<and> mg_addQueue m1 = mg_addQueue m \<and>
      length (mg_updaters m1) = length (mg_updaters m) \<and> held m1 = add_mset p (held m)"
    with Cons.IH [of m1] Cons.prems(2,3)
    show "outcome s (mgr_inv s ls) (visit_each (SessionUpdater_AddSession 0) ps m1)"
      by (metis insert_subset length_0_conv list.simps(15) set_mset_add_mset_insert set_mset_mset subset_insertI2)
  qed (use Cons.prems in auto)
qed simp

lemma UpdateDynamics_out:
  fixes m :: "'c mgr"
  assumes "mgr_inv s ls m"
  shows "outcome s (mgr_inv s ls) (UpdateDynamics cf diff m)"
proof -
  have t: "mgr_inv s ls (m\<lparr>mg_dyn_timer := t\<rparr>)" for t
    by (rule mgr_inv_cong [OF assms]) (simp_all add: core_def)
  let ?m2 = "m\<lparr>mg_dyn_timer := cf_dyn_timer cf, mg_updaters := map SessionUpdater_Sleep (mg_updaters m)\<rparr>"
  have h: "held ?m2 = held m" by (simp add: held_def sum_list_Sleep)
  have i2: "mgr_inv s ls ?m2"
    by (rule mgr_inv_move [OF t [of "cf_dyn_timer cf"]])
      (use assms h in \<open>auto simp: mgr_inv_def SessionUpdater_Sleep_def held_def\<close>)
  have "outcome s (mgr_inv s ls) (visit_each (SessionUpdater_AddSession 0) (map snd (mg_sessions m)) ?m2)"
    if "mg_updaters m \<noteq> []"
    by (rule hand_over_out [OF i2]) (use that in \<open>auto simp: held_def\<close>)
  with t assms show ?thesis by (simp add: UpdateDynamics_def Let_def)
qed

lemma Update_out:
  fixes m :: "'c mgr"
  assumes "mgr_inv s ls m"
  shows "outcome s (mgr_inv s ls) (ClientSessionMgr_Update cf envs diff m)"
  unfolding ClientSessionMgr_Update_def
proof (rule outcome_bind [OF admit_new_out [OF assms]])
  fix m1 :: "'c mgr" assume m1: "mgr_inv s ls m1 \<and> length (mg_updaters m1) = length (mg_updaters m) \<and>
    length (lq_queue (mg_addQueue m1)) = length (lq_queue (mg_addQueue m)) - length (lq_queue (mg_addQueue m))"
  have "distinct (map fst (mg_sessions m1))" using m1 by (simp add: mgr_inv_def)
  then have "outcome s (\<lambda>m'. mgr_inv s ls m' \<and> mg_updaters m' = mg_updaters m1 \<and> mg_queued m' = mg_queued m1)
      (visit_sessions envs (mg_sessions m1) m1)" using m1 by (intro visit_sessions_out) auto
  then show "outcome s (mgr_inv s ls) (rbind (visit_sessions envs (mg_sessions m1) m1)
      (\<lambda>m2. if mg_dyn_enabled m2 then UpdateDynamics cf diff m2 else Inr m2))"
    by (rule outcome_bind) (use UpdateDynamics_out [where ls = ls] in auto)
qed

text \<open>The updater threads.\<close>

lemma fold_insort_insert:
  "sorted ys \<and> distinct ys \<Longrightarrow> sorted (fold insort_insert xs ys) \<and> distinct (fold insort_insert xs ys) \<and>
   set (fold insort_insert xs ys) = set xs \<union> set ys \<and> mset (fold insort_insert xs ys) \<subseteq># mset xs + mset ys"
proof (induction xs arbitrary: ys)
  case (Cons x xs)
  have "mset (insort_insert x ys) \<subseteq># add_mset x (mset ys)" by (simp add: insort_insert_key_def)
  moreover have "sorted (insort_insert x ys) \<and> distinct (insort_insert x ys)"
    using Cons.prems by (simp add: sorted_insort_insert distinct_insort_insert)
  moreover have "mset xs + mset (insort_insert x ys) \<subseteq># mset (x # xs) + mset ys"
    using calculation(1) mset_subset_eq_mono_add [of "mset xs" "mset xs"] by fastforce
  ultimately show ?case
    using Cons.IH [of "insort_insert x ys"] subset_mset.order_trans by (fastforce simp: set_insort_insert)
qed simp

lemma updater_begin_out:
  assumes "mgr_inv s ls m" and "i < length (mg_updaters m)"
  shows "mgr_inv s ls (updater_begin i m)"
proof -
  have so: "sorted (up_sessions (mg_updaters m ! i)) \<and> distinct (up_sessions (mg_updaters m ! i))"
    using assms by (simp add: mgr_inv_def)
  have ff: "mset (fold insort_insert xs (up_sessions (mg_updaters m ! i))) \<subseteq># mset (up_sessions (mg_updaters m ! i)) + mset xs" for xs
    using fold_insort_insert [OF so, of xs] by (simp add: add.commute)
  show ?thesis unfolding updater_begin_def
    by (rule mgr_inv_updater [OF assms])
      (use so ff fold_insort_insert [OF so] in
        \<open>auto simp: AddNewSessions_def SetSleep_def Let_def up_held_def lq_empty_def\<close>)
qed

lemma updater_visit_out:
  fixes m :: "'c mgr"
  assumes "mgr_inv s ls m" and "i < length (mg_updaters m)" and "p \<in> set (up_sessions (mg_updaters m ! i))"
  shows "outcome s (\<lambda>m'. mgr_inv s ls m' \<and> length (mg_updaters m') = length (mg_updaters m) \<and>
      set (up_sessions (mg_updaters m ! i)) - {p} \<subseteq> set (up_sessions (mg_updaters m' ! i)))
    (updater_visit env diff i p m)"
proof -
  let ?P = "\<lambda>m'. mgr_inv s ls m' \<and> length (mg_updaters m') = length (mg_updaters m) \<and>
      set (up_sessions (mg_updaters m ! i)) - {p} \<subseteq> set (up_sessions (mg_updaters m' ! i))"
  have so: "sorted (up_sessions (mg_updaters m ! i)) \<and> distinct (up_sessions (mg_updaters m ! i))"
    using assms by (simp add: mgr_inv_def)
  have leave: "mgr_inv s (p # ls) (on_updater (updater_forget p) i m1)"
    if "mgr_inv s ls m1" "mg_updaters m1 = mg_updaters m" for m1 :: "'c mgr"
    by (rule mgr_inv_updater [OF that(1)])
      (use that(2) so assms(2,3) in \<open>auto simp: updater_forget_def up_held_def sorted_remove1\<close>)
  have keep: "length (mg_updaters (on_updater (updater_forget p) i m1)) = length (mg_updaters m) \<and>
      set (up_sessions (mg_updaters m ! i)) - {p} \<subseteq> set (up_sessions (mg_updaters (on_updater (updater_forget p) i m1) ! i))"
    if "mg_updaters m1 = mg_updaters m" for m1 :: "'c mgr"
    using that so assms(2) by (simp add: on_updater_def updater_forget_def)
  show ?thesis
  proof (cases "p = 0")
    case True
    then show ?thesis
      using leave [OF assms(1) refl] keep [of m] mgr_inv_weaken [of s "[p]" ls] by (simp add: updater_visit_def)
  next
    case False
    have "p \<in># held m" using assms(2,3) by (intro held_parts(1) [of "mg_updaters m ! i"]) (simp_all add: up_held_def)
    then have run: "outcome s (\<lambda>(b, m'). mgr_inv s ls m' \<and> core m' = core m \<and> mg_queued m' = mg_queued m)
        (run_session (UpdateMulti env diff) p m)" by (intro run_session_out [OF assms(1)]) simp
    have "outcome s ?P (rbind (run_session (UpdateMulti env diff) p m)
        (\<lambda>(b, m1). if b then Inr m1
          else rbind (remove_reference p m1) (\<lambda>m2. Inr (on_updater (updater_forget p) i m2))))"
      unfolding remove_then_updater
    proof (rule outcome_bind [OF run], clarify)
      fix b and m1 :: "'c mgr" assume m1: "mgr_inv s ls m1" "core m1 = core m" "mg_queued m1 = mg_queued m"
      let ?m2 = "on_updater (updater_forget p) i m1"
      have u: "mg_updaters m1 = mg_updaters m" using m1(2) by (simp add: core_iff)
      have r: "outcome True ?P (remove_reference p ?m2)"
        by (rule outcome_mono [OF remove_reference_out [OF leave [OF m1(1) u]]])
          (use keep [OF u] in \<open>simp add: core_iff\<close>)
      then have "outcome s ?P (remove_reference p ?m2)" by (simp add: outcome_def split: sum.splits)
      then show "outcome s ?P (if b then Inr m1 else remove_reference p ?m2)" using m1(1) u by auto
    qed
    with False show ?thesis by (simp add: updater_visit_def)
  qed
qed

lemma updater_pass_out:
  fixes m :: "'c mgr"
  assumes "mgr_inv s ls m" and "i < length (mg_updaters m)"
  shows "outcome s (mgr_inv s ls) (updater_pass envs diff i m)"
proof -
  have "outcome s (mgr_inv s ls) (visit_each (\<lambda>p. updater_visit (envs p) diff i p) ps m1)"
    if "mgr_inv s ls m1" "i < length (mg_updaters m1)" "distinct ps" "set ps \<subseteq> set (up_sessions (mg_updaters m1 ! i))"
    for ps and m1 :: "'c mgr"
    using that
  proof (induction ps arbitrary: m1)
    case (Cons p ps)
    have "p \<in> set (up_sessions (mg_updaters m1 ! i))" using Cons.prems(4) by simp
    then show ?case unfolding visit_each.simps
      by (rule outcome_bind [OF updater_visit_out [OF Cons.prems(1,2)]])
        (use Cons.prems(2-4) in \<open>auto intro!: Cons.IH\<close>)
  qed simp
  note loop = this
  have i1: "mgr_inv s ls (updater_begin i m)" by (rule updater_begin_out [OF assms])
  have l: "i < length (mg_updaters (updater_begin i m))" using assms(2) by (simp add: updater_begin_def on_updater_def)
  then have "distinct (up_sessions (mg_updaters (updater_begin i m) ! i))" using i1 by (simp add: mgr_inv_def)
  from loop [OF i1 l this] assms(1) show ?thesis by (simp add: updater_pass_def Let_def)
qed

lemma ServerClose_out:
  fixes m :: "'c mgr"
  assumes "mgr_inv s ls m"
  shows "outcome s (mgr_inv s ls) (ServerClose m)"
proof -
  have "outcome s (\<lambda>m'. mgr_inv s ls m') (release_sessions (mg_sessions m) m)"
    using assms
  proof (induction "mg_sessions m" arbitrary: m)
    case (Cons e es)
    have d: "distinct (map fst (mg_sessions m))" using Cons.prems by (simp add: mgr_inv_def)
    have e: "um_erase (fst e) (mg_sessions m) = es"
      using d unfolding Cons.hyps(2) [symmetric] by (auto simp: um_erase_def filter_id_conv image_iff)
    have "(fst e, snd e) \<in> set (mg_sessions m)" unfolding Cons.hyps(2) [symmetric] by simp
    from mgr_inv_leave [OF Cons.prems this] have i1: "mgr_inv s (snd e # ls) (m\<lparr>mg_sessions := es\<rparr>)" by (simp add: e)
    have "outcome s (\<lambda>m'. mgr_inv s ls m') (rbind (rbind (remove_reference (snd e) m) (\<lambda>m1. Inr (m1\<lparr>mg_sessions := es\<rparr>)))
        (release_sessions es))"
      unfolding remove_then_sessions [of _ _ "\<lambda>_. es"]
    proof (rule outcome_bind)
      show "outcome s (\<lambda>m'. mgr_inv s ls m' \<and> core m' = core (m\<lparr>mg_sessions := es\<rparr>))
          (remove_reference (snd e) (m\<lparr>mg_sessions := es\<rparr>))"
        using remove_reference_out [OF i1] by (auto simp: outcome_def split: sum.splits)
    next
      fix m1 :: "'c mgr" assume "mgr_inv s ls m1 \<and> core m1 = core (m\<lparr>mg_sessions := es\<rparr>)"
      then show "outcome s (mgr_inv s ls) (release_sessions es m1)"
        using Cons.hyps(1) [of m1] by (simp add: core_iff)
    qed
    then show ?case unfolding Cons.hyps(2) [symmetric] by (simp add: rbind_assoc)
  qed simp
  then show ?thesis unfolding ServerClose_def
  proof (rule outcome_bind)
    fix m1 :: "'c mgr" assume i: "mgr_inv s ls m1"
    have "sum_list (map (up_held \<circ> SessionUpdater_Stop) us) = sum_list (map up_held us)" for us
      by (induction us) (simp_all add: up_held_def SessionUpdater_Stop_def)
    then have "mgr_inv s ls (m1\<lparr>mg_updaters := map SessionUpdater_Stop (mg_updaters m1)\<rparr>)"
      by (intro mgr_inv_move [OF i]) (use i in \<open>auto simp: mgr_inv_def held_def SessionUpdater_Stop_def\<close>)
    then show "outcome s (mgr_inv s ls) (Inr (m1\<lparr>mg_updaters := map SessionUpdater_Stop (mg_updaters m1)\<rparr>))" by simp
  qed
qed

lemma mgr_inv_put:
  assumes "mgr_inv s (p # ls) m"
  shows "mgr_inv s ls (m\<lparr>mg_addQueue := lq_add p (mg_addQueue m)\<rparr>)"
proof (rule mgr_inv_move [OF assms])
  show "held (m\<lparr>mg_addQueue := lq_add p (mg_addQueue m)\<rparr>) + mset ls \<subseteq># held m + mset (p # ls)"
    by (simp add: held_def lq_add_def)
qed (use assms in \<open>simp_all add: mgr_inv_def\<close>)

lemma login_session_out:
  fixes m :: "'c mgr"
  assumes "mgr_inv s ls m" and "mg_heap m p = None"
  shows "outcome s (mgr_inv s ls) (login_session p ns sock junk m)"
proof -
  let ?m1 = "new_ClientSession p (ns_id ns) (Some sock) (ns_security ns) (ns_expansion ns) junk m"
  have z: "count (held m + mset ls) p = 0" using mgr_inv_enough [OF assms(1), of p] assms(2) by (simp add: enough_def)
  have i1: "mgr_inv s (p # ls) ?m1"
    by (rule mgr_inv_heap [OF assms(1)])
      (use z in \<open>auto simp: new_ClientSession_def core_def enough_def simp del: count_union split: prod.split\<close>)
  show ?thesis unfolding login_session_def Let_def
  proof (rule outcome_bind [OF on_session_out [OF i1]], simp, rule outcome_bind)
    fix m2 :: "'c mgr" assume m2: "mgr_inv s (p # ls) m2 \<and> core m2 = core ?m1 \<and> mg_queued m2 = mg_queued ?m1"
    show "outcome s (mgr_inv s (p # ls)) (ClientSessionMgr_AddSession p m2)"
      unfolding ClientSessionMgr_AddSession_def
    proof (rule outcome_bind [OF add_reference_out])
      fix m3 :: "'c mgr" assume m3: "mgr_inv s (p # p # ls) m3 \<and> core m3 = core m2 \<and> mg_queued m3 = mg_queued m2"
      then have "mgr_inv s (p # p # ls) m3" by blast
      from mgr_inv_put [OF this] show "outcome s (mgr_inv s (p # ls)) (Inr (m3\<lparr>mg_addQueue := lq_add p (mg_addQueue m3)\<rparr>))" by simp
    qed (use m2 in auto)
    fix m4 :: "'c mgr" assume "mgr_inv s (p # ls) m4"
    from remove_reference_out [OF this] show "outcome s (mgr_inv s ls) (remove_reference p m4)"
      by (auto simp: outcome_def split: sum.splits)
  qed
qed

section \<open>Steps of the proxy's threads\<close>

text \<open>
  The manager before \<open>Initialize\<close>, with the limit the configuration set. Its life: a login hands over
  a session at a free address; the manager's thread takes one in, visits one of its map, runs the
  dynamics; an updater begins a pass or visits one of its sessions; network threads, handlers and
  broadcasts change a session but not its count; the routing changes; a reload sets another limit; the
  proxy closes.
\<close>

definition mgr_empty :: "RoutingHelper \<Rightarrow> 'c mgr" where
  "mgr_empty rt = \<lparr>mg_heap = (\<lambda>_. None), mg_routing = rt, mg_addQueue = lq_new, mg_sessions = [], mg_queued = [],
     mg_updaters = [], mg_playerLimit = 0, mg_maxActive = 0, mg_maxQueued = 0, mg_PlayerCount = 0,
     mg_MaxPlayerCount = 0, mg_AllyCount = 0, mg_HordeCount = 0, mg_dyn_max = 0, mg_dyn_timer = 0,
     mg_dyn_enabled = False, mg_online = []\<rparr>"

definition mgr_start :: "'c mgr_conf \<Rightarrow> u32 \<Rightarrow> RoutingHelper \<Rightarrow> 'c mgr" where
  "mgr_start cf limit rt = ClientSessionMgr_Initialize cf (SetPlayerAmountLimit limit (mgr_empty rt))"

inductive mgr_step :: "'c mgr_conf \<Rightarrow> u32 set \<Rightarrow> 'c mgr \<Rightarrow> 'c mgr \<Rightarrow> bool" for cf limits where
  login: "mgr_step cf limits m m'"
    if "mg_heap m p = None" and "p \<noteq> 0" and "login_session p ns sock junk m = Inr m'"
| admitted: "mgr_step cf limits m m'"
    if "lq_next (mg_addQueue m) = Some (p, q)" and "AddSession_now cf p (m\<lparr>mg_addQueue := q\<rparr>) = Inr m'"
| visited: "mgr_step cf limits m m'" if "e \<in> set (mg_sessions m)" and "visit_session env e m = Inr m'"
| dynamics: "mgr_step cf limits m m'" if "UpdateDynamics cf diff m = Inr m'"
| begun: "mgr_step cf limits m (updater_begin i m)" if "i < length (mg_updaters m)"
| worked: "mgr_step cf limits m m'"
    if "i < length (mg_updaters m)" and "p \<in> set (up_sessions (mg_updaters m ! i))" and "updater_visit env diff i p m = Inr m'"
| changed: "mgr_step cf limits m m'" if "on_session f p m = Inr m'"
| routed: "mgr_step cf limits m (m\<lparr>mg_routing := rt\<rparr>)"
| entered: "mgr_step cf limits m (IncreasePlayerCount team m)"
| left_world: "mgr_step cf limits m (DecreasePlayerCount team m)"
| reloaded: "mgr_step cf limits m (SetPlayerAmountLimit limit m)" if "limit \<in> limits"
| closed: "mgr_step cf limits m m'" if "ServerClose m = Inr m'"

text \<open>The invariant with any extra references, strict if the only limit is no limit.\<close>

lemma on_session_inv: "on_session f p m = Inr m' \<Longrightarrow> mgr_inv s ls m \<Longrightarrow> mgr_inv s ls m'"
  by (auto simp: on_session_def core_def split: option.splits prod.splits elim!: mgr_inv_cong)

lemma mgr_step_inv:
  fixes m m' :: "'c mgr"
  assumes "mgr_step cf limits m m'" and "mgr_inv s ls m" and "s \<Longrightarrow> limits \<subseteq> {0}"
  shows "mgr_inv s ls m'"
  using assms
proof (induction rule: mgr_step.induct)
  case (login m p ns sock junk m')
  then show ?case using outcomeD [OF login_session_out] by metis
next
  case (admitted m p q m')
  have "mgr_inv s (replaced p (m\<lparr>mg_addQueue := q\<rparr>) @ ls) m'"
    using outcomeD [OF AddSession_now_out [OF take_new [OF admitted.prems(1) admitted.hyps(1)]] admitted.hyps(2)] by simp
  then show ?case by (rule mgr_inv_weaken)
next
  case (visited e m env m')
  then show ?case using outcomeD [OF visit_session_out [of s ls m "fst e" "snd e" env], of m'] by simp
next
  case (dynamics diff m m')
  then show ?case using outcomeD [OF UpdateDynamics_out] by metis
next
  case (begun i m)
  then show ?case using updater_begin_out by blast
next
  case (worked i m p env diff m')
  then show ?case using outcomeD [OF updater_visit_out] by metis
next
  case (changed f p m m')
  then show ?case using on_session_inv by blast
next
  case (closed m m')
  then show ?case using outcomeD [OF ServerClose_out] by metis
next
  case (reloaded limit m)
  then show ?case by (auto simp: SetPlayerAmountLimit_def mgr_inv_def held_def)
qed (simp_all add: mgr_inv_def held_def IncreasePlayerCount_def DecreasePlayerCount_def Let_def)

lemma mgr_steps_inv:
  assumes "(mgr_step cf limits)\<^sup>*\<^sup>* m m'" and "mgr_inv s ls m" and "s \<Longrightarrow> limits \<subseteq> {0}"
  shows "mgr_inv s ls m'"
  using assms(1)
proof (induction rule: rtranclp_induct)
  case (step y z)
  from mgr_step_inv [OF step.hyps(2) step.IH assms(3)] show ?case by simp
qed (rule assms(2))

lemma mgr_start_fields:
  "mg_heap (mgr_start cf limit rt) = (\<lambda>_. None)" "mg_sessions (mgr_start cf limit rt) = []"
  "mg_queued (mgr_start cf limit rt) = []" "mg_playerLimit (mgr_start cf limit rt) = limit"
  "mg_addQueue (mgr_start cf limit rt) = lq_new"
  "mg_updaters (mgr_start cf limit rt) = replicate (if sint (cf_threads cf) \<le> 0 then 1 else unat (cf_threads cf))
     (SessionUpdater_new\<lparr>up_started := True\<rparr>)"
  by (simp_all add: mgr_start_def ClientSessionMgr_Initialize_def ClientSessionMgr_Start_def SetPlayerAmountLimit_def
      mgr_empty_def SessionUpdater_Start_def SessionUpdater_new_def)

lemma mgr_start_inv: "s \<longrightarrow> limit = 0 \<Longrightarrow> mgr_inv s [] (mgr_start cf limit rt)"
proof -
  assume l: "s \<longrightarrow> limit = 0"
  have "sum_list (map up_held (replicate n (SessionUpdater_new\<lparr>up_started := True\<rparr>))) = {#}" for n
    by (induction n) (simp_all add: up_held_def SessionUpdater_new_def lq_new_def)
  then have "held (mgr_start cf limit rt) = {#}" by (simp only: held_def mgr_start_fields) (simp add: lq_new_def)
  then show ?thesis using l
    by (auto simp: mgr_inv_def mgr_start_fields enough_def SessionUpdater_new_def)
qed

lemma mgr_reach_inv:
  assumes "(mgr_step cf limits)\<^sup>*\<^sup>* (mgr_start cf limit rt) m" and "limit \<in> limits"
  shows "mgr_inv (limits = {0}) [] m"
  by (rule mgr_steps_inv [OF assms(1) mgr_start_inv]) (use assms(2) in auto)

text \<open>
  C26: Whatever logins, updates, kicks, updater passes and reloads happen in whatever order, every
  session in the manager's map, in its queue of new sessions or with an updater is alive and has at least as
  many references on its count as there are such holders. If the proxy runs without a player limit,
  neither the manager's update nor an updater's pass nor closing the server ever uses a freed session.
\<close>

theorem no_use_after_free:
  assumes "(mgr_step cf limits)\<^sup>*\<^sup>* (mgr_start cf limit rt) m" and "limit \<in> limits"
  shows "(\<forall>p \<in># held m. \<exists>r ss. mg_heap m p = Some (r, ss) \<and> int (count (held m) p) \<le> r) \<and>
    (limits = {0} \<longrightarrow> ClientSessionMgr_Update cf envs diff m \<noteq> Inl (BadPointer p) \<and>
       (i < length (mg_updaters m) \<longrightarrow> updater_pass envs diff i m \<noteq> Inl (BadPointer p)) \<and>
       ServerClose m \<noteq> Inl (BadPointer p))"
proof (intro conjI ballI impI)
  have inv: "mgr_inv (limits = {0}) [] m" by (rule mgr_reach_inv [OF assms])
  { fix p assume "p \<in># held m"
    with mgr_inv_live [OF inv, of p] mgr_inv_enough [OF inv, of p]
    show "\<exists>r ss. mg_heap m p = Some (r, ss) \<and> int (count (held m) p) \<le> r" by (auto simp: enough_def) }
  assume "limits = {0}"
  with inv have inv: "mgr_inv True [] m" by simp
  show "ClientSessionMgr_Update cf envs diff m \<noteq> Inl (BadPointer p)" "ServerClose m \<noteq> Inl (BadPointer p)"
    using Update_out [OF inv, of cf envs diff] ServerClose_out [OF inv] by auto
  show "updater_pass envs diff i m \<noteq> Inl (BadPointer p)" if "i < length (mg_updaters m)"
    using updater_pass_out [OF inv that, of envs diff] by auto
qed

text \<open>
  When an account logs in again while its earlier session is in the map, the entry is overwritten
  without giving its reference back: in every later state, whatever happens, the earlier session is
  still on the heap with one reference more than it has holders. It is never destroyed, and so
  its sockets are never released.
\<close>

theorem relogin_leaks_session:
  assumes "(mgr_step cf limits)\<^sup>*\<^sup>* (mgr_start cf limit rt) m" and "limit \<in> limits"
    and "lq_next (mg_addQueue m) = Some (p, q)" and "mg_heap m p = Some (r, ss)"
    and "map_of (mg_sessions m) (ss_accountId ss) = Some old"
    and "AddSession_now cf p (m\<lparr>mg_addQueue := q\<rparr>) = Inr m1" and "(mgr_step cf limits)\<^sup>*\<^sup>* m1 m2"
  shows "\<exists>r' ss'. mg_heap m2 old = Some (r', ss') \<and> int (count (held m2) old) < r'"
proof -
  let ?s = "limits = {0}"
  have "mgr_inv ?s (replaced p (m\<lparr>mg_addQueue := q\<rparr>) @ []) m1"
    using outcomeD [OF AddSession_now_out [OF take_new [OF mgr_reach_inv [OF assms(1,2)] assms(3)]] assms(6)] by simp
  moreover have "replaced p (m\<lparr>mg_addQueue := q\<rparr>) = [old]" using assms(4,5) by (simp add: replaced_def)
  ultimately have "mgr_inv ?s [old] m1" by simp
  from mgr_steps_inv [OF assms(7) this] have inv: "mgr_inv ?s [old] m2" by simp
  from mgr_inv_live [OF inv, of old] mgr_inv_enough [OF inv, of old] show ?thesis by (auto simp: enough_def)
qed
end
