(* ===== verification/WaitingQueue.thy ===== *)
theory WaitingQueue
  imports SessionMgr
begin

text \<open>
  The queue of players that wait for a place, \<open>_QueuedPlayer\<close> of
  \<open>shade/Server/Client/ClientSessionMgr.cpp\<close>: who is put into it, in which order it advances, what its
  members are told, and what happens to the plain pointers it holds when their sessions end. Also the
  broadcasts of the manager, and concrete managers for both theories.
\<close>

section \<open>The queue advances in order\<close>

lemma pos_in_bounds: "p \<in> set ps \<Longrightarrow> k \<le> pos_in p k ps"
  by (induction p k ps rule: pos_in.induct) fastforce+

lemma send_positions_heap:
  assumes "distinct ps" and "\<forall>p \<in> set ps. mg_heap m p \<noteq> None"
  shows "send_positions net k ps m = Inr (m\<lparr>mg_heap := (\<lambda>p. if p \<in> set ps
     then map_option (apsnd (SendAuthWaitQue net (word_of_nat (pos_in p k ps)))) (mg_heap m p) else mg_heap m p)\<rparr>)"
  using assms
proof (induction ps arbitrary: k m)
  case (Cons q ps)
  obtain r ss where q: "mg_heap m q = Some (r, ss)" using Cons.prems(2) by auto
  let ?m1 = "m\<lparr>mg_heap := (mg_heap m)(q \<mapsto> (r, SendAuthWaitQue net (word_of_nat k) ss))\<rparr>"
  have "send_positions net (Suc k) ps ?m1 = Inr (?m1\<lparr>mg_heap := (\<lambda>p. if p \<in> set ps
     then map_option (apsnd (SendAuthWaitQue net (word_of_nat (pos_in p (Suc k) ps)))) (mg_heap ?m1 p) else mg_heap ?m1 p)\<rparr>)"
    by (rule Cons.IH) (use Cons.prems in auto)
  then show ?case using Cons.prems(1) q by (auto simp: on_session_def fun_eq_iff)
qed simp

text \<open>Which sessions \<open>RemoveQueuedPlayer\<close> speaks to, and how.\<close>

definition queue_admits :: "bool \<Rightarrow> 'c mgr \<Rightarrow> bool" where
  "queue_admits found m \<longleftrightarrow> mg_playerLimit m = 0 \<or>
     (if \<not> found \<and> GetActiveSessionCount m \<noteq> 0 then GetActiveSessionCount m - 1 else GetActiveSessionCount m)
       < mg_playerLimit m"

definition behind :: "ref \<Rightarrow> ref list \<Rightarrow> ref list" where
  "behind sess qs = tl (dropWhile (\<lambda>q. q \<noteq> sess) qs)"

definition told :: "'c mgr_conf \<Rightarrow> ref \<Rightarrow> 'c mgr \<Rightarrow> ref list \<Rightarrow> ref \<Rightarrow> 'c session \<Rightarrow> 'c session" where
  "told cf sess m rest p ss =
     (if p = sess \<and> sess \<in> set (mg_queued m) then SetInQueue False ss
      else if rest \<noteq> [] \<and> queue_admits (sess \<in> set (mg_queued m)) m then
        (if p = hd rest then admit_front cf ss
         else if p \<in> set rest then SendAuthWaitQue (cf_net cf) (word_of_nat (pos_in p 1 (tl rest))) ss else ss)
      else if p \<in> set (behind sess (mg_queued m))
      then SendAuthWaitQue (cf_net cf) (word_of_nat (pos_in p 1 rest)) ss else ss)"

lemma pos_in_append:
  "p \<notin> set xs \<Longrightarrow> pos_in p k (xs @ ys) = pos_in p (k + length xs) ys"
  by (induction xs arbitrary: k) auto

lemma remove1_split:
  "sess \<in> set qs \<Longrightarrow> takeWhile (\<lambda>q. q \<noteq> sess) qs @ behind sess qs = remove1 sess qs"
  by (induction qs) (auto simp: behind_def)

lemma behind_subset: "sess \<in> set qs \<Longrightarrow> distinct qs \<Longrightarrow>
  set (behind sess qs) \<subseteq> set (remove1 sess qs) \<and> distinct (behind sess qs) \<and> sess \<notin> set (behind sess qs) \<and>
  set (takeWhile (\<lambda>q. q \<noteq> sess) qs) \<inter> set (behind sess qs) = {}"
  by (induction qs) (auto simp: behind_def dest: set_takeWhileD)

lemma queue_without_found:
  assumes "sess \<in> set (mg_queued m)" and "mg_heap m sess = Some (r, ss)"
  shows "queue_without sess m = Inr (True, Suc (length (takeWhile (\<lambda>q. q \<noteq> sess) (mg_queued m))),
    behind sess (mg_queued m),
    m\<lparr>mg_queued := remove1 sess (mg_queued m), mg_heap := (mg_heap m)(sess \<mapsto> (r, SetInQueue False ss))\<rparr>)"
proof -
  have "dropWhile (\<lambda>q. q \<noteq> sess) (mg_queued m) \<noteq> []" using assms(1) by (auto simp: dropWhile_eq_Nil_conv)
  moreover have "takeWhile (\<lambda>q. q \<noteq> sess) (mg_queued m) @ tl (dropWhile (\<lambda>q. q \<noteq> sess) (mg_queued m)) =
      remove1 sess (mg_queued m)" using remove1_split [OF assms(1)] by (simp add: behind_def)
  ultimately show ?thesis using assms(2) by (simp add: queue_without_def on_session_def behind_def Let_def)
qed

lemma queue_without_missing:
  assumes "sess \<notin> set (mg_queued m)"
  shows "queue_without sess m = Inr (False, Suc (length (mg_queued m)), [], m)"
proof -
  have dw: "dropWhile (\<lambda>q. q \<noteq> sess) (mg_queued m) = []" and tw: "takeWhile (\<lambda>q. q \<noteq> sess) (mg_queued m) = mg_queued m"
    using assms by (auto simp: dropWhile_eq_Nil_conv takeWhile_eq_all_conv)
  show ?thesis unfolding queue_without_def Let_def dw tw by simp
qed

text \<open>What follows the erasure, on a queue of live sessions.\<close>

definition advance :: "'c mgr_conf \<Rightarrow> bool \<Rightarrow> nat \<Rightarrow> ref list \<Rightarrow> 'c mgr \<Rightarrow> mgr_error + 'c mgr" where
  "advance cf room k iter m =
     (if room \<and> mg_queued m \<noteq> [] then
        rbind (on_session (admit_front cf) (hd (mg_queued m)) m)
          (\<lambda>m2. send_positions (cf_net cf) 1 (tl (mg_queued m2)) (m2\<lparr>mg_queued := tl (mg_queued m2)\<rparr>))
      else send_positions (cf_net cf) k iter m)"

lemma RemoveQueuedPlayer_advance:
  assumes "queue_without sess m = Inr (found, k, iter, m1)" and "mg_playerLimit m1 = mg_playerLimit m"
  shows "RemoveQueuedPlayer cf sess m = rbind (advance cf (queue_admits found m) k iter m1) (\<lambda>m2. Inr (found, m2))"
  using assms by (simp add: RemoveQueuedPlayer_def Let_def advance_def queue_admits_def rbind_assoc)

definition advanced :: "'c mgr_conf \<Rightarrow> bool \<Rightarrow> ref list \<Rightarrow> ref list \<Rightarrow> ref \<Rightarrow> 'c session \<Rightarrow> 'c session" where
  "advanced cf room qs iter p ss =
     (if room \<and> qs \<noteq> [] then
        (if p = hd qs then admit_front cf ss
         else if p \<in> set qs then SendAuthWaitQue (cf_net cf) (word_of_nat (pos_in p 1 (tl qs))) ss else ss)
      else if p \<in> set iter then SendAuthWaitQue (cf_net cf) (word_of_nat (pos_in p 1 qs)) ss else ss)"

lemma advance_heap:
  assumes "distinct (mg_queued m)" and "\<forall>q \<in> set (mg_queued m). mg_heap m q \<noteq> None"
    and "mg_queued m = front @ iter" and "k = Suc (length front)"
  shows "advance cf room k iter m = Inr (m\<lparr>mg_queued := (if room then tl (mg_queued m) else mg_queued m),
     mg_heap := (\<lambda>p. map_option (apsnd (advanced cf room (mg_queued m) iter p)) (mg_heap m p))\<rparr>)"
proof (cases "room \<and> mg_queued m \<noteq> []")
  case True
  then obtain q qs where qs: "mg_queued m = q # qs" by (cases "mg_queued m") auto
  obtain r ss where q: "mg_heap m q = Some (r, ss)" using assms(2) qs by auto
  let ?m2 = "m\<lparr>mg_heap := (mg_heap m)(q \<mapsto> (r, admit_front cf ss)), mg_queued := qs\<rparr>"
  let ?h = "\<lambda>p. if p \<in> set qs
     then map_option (apsnd (SendAuthWaitQue (cf_net cf) (word_of_nat (pos_in p 1 qs)))) (mg_heap ?m2 p) else mg_heap ?m2 p"
  have sp: "send_positions (cf_net cf) 1 qs ?m2 = Inr (?m2\<lparr>mg_heap := ?h\<rparr>)"
    by (rule send_positions_heap) (use assms(1,2) qs in auto)
  have h: "?h = (\<lambda>p. map_option (apsnd (advanced cf room (q # qs) iter p)) (mg_heap m p))"
  proof (rule ext)
    fix p show "?h p = map_option (apsnd (advanced cf room (q # qs) iter p)) (mg_heap m p)"
      using q assms(1) qs True by (cases "mg_heap m p") (auto simp: advanced_def)
  qed
  from True have room by simp
  with sp h show ?thesis unfolding qs by (simp add: advance_def on_session_def q qs)
next
  case False
  let ?h = "\<lambda>p. if p \<in> set iter
     then map_option (apsnd (SendAuthWaitQue (cf_net cf) (word_of_nat (pos_in p k iter)))) (mg_heap m p) else mg_heap m p"
  have sp: "send_positions (cf_net cf) k iter m = Inr (m\<lparr>mg_heap := ?h\<rparr>)"
    by (rule send_positions_heap) (use assms(1,2,3) in auto)
  have h: "?h = (\<lambda>p. map_option (apsnd (advanced cf room (mg_queued m) iter p)) (mg_heap m p))"
  proof (rule ext)
    fix p
    have "pos_in p k iter = pos_in p 1 (mg_queued m)" if "p \<in> set iter"
    proof -
      have "p \<notin> set front" using that assms(1) unfolding assms(3) by auto
      then show ?thesis unfolding assms(3,4) by (simp add: pos_in_append)
    qed
    with False show "?h p = map_option (apsnd (advanced cf room (mg_queued m) iter p)) (mg_heap m p)"
      by (cases "mg_heap m p") (auto simp: advanced_def)
  qed
  from False have "(if room then tl (mg_queued m) else mg_queued m) = mg_queued m" by auto
  with sp h False show ?thesis by (auto simp: advance_def)
qed

lemma remove_found:
  assumes "distinct (mg_queued m)" and "\<forall>q \<in> set (mg_queued m). mg_heap m q \<noteq> None"
    and "rest = remove1 sess (mg_queued m)" and here: "sess \<in> set (mg_queued m)"
  shows "RemoveQueuedPlayer cf sess m = Inr (True,
     m\<lparr>mg_queued := (if queue_admits True m then tl rest else rest),
       mg_heap := (\<lambda>p. map_option (apsnd (told cf sess m rest p)) (mg_heap m p))\<rparr>)"
proof -
  let ?front = "takeWhile (\<lambda>q. q \<noteq> sess) (mg_queued m)" and ?b = "behind sess (mg_queued m)"
  obtain r ss where c: "mg_heap m sess = Some (r, ss)" using assms(2) here by auto
  let ?m1 = "m\<lparr>mg_queued := rest, mg_heap := (mg_heap m)(sess \<mapsto> (r, SetInQueue False ss))\<rparr>"
  have q: "queue_without sess m = Inr (True, Suc (length ?front), ?b, ?m1)"
    using queue_without_found [OF here c] assms(3) by simp
  have new: "sess \<notin> set rest" "sess \<notin> set ?b" "rest \<noteq> [] \<Longrightarrow> hd rest \<noteq> sess"
    using assms(1,3) behind_subset [OF here assms(1)] hd_in_set [of rest] by auto
  have adv: "advance cf (queue_admits True m) (Suc (length ?front)) ?b ?m1 =
      Inr (?m1\<lparr>mg_queued := (if queue_admits True m then tl (mg_queued ?m1) else mg_queued ?m1),
        mg_heap := (\<lambda>p. map_option (apsnd (advanced cf (queue_admits True m) (mg_queued ?m1) ?b p)) (mg_heap ?m1 p))\<rparr>)"
    by (rule advance_heap [where front = ?front]) (use here assms(1-3) remove1_split [OF here] in \<open>auto dest: notin_set_remove1\<close>)
  have h: "(\<lambda>p. map_option (apsnd (advanced cf (queue_admits True m) rest ?b p)) (mg_heap ?m1 p)) =
      (\<lambda>p. map_option (apsnd (told cf sess m rest p)) (mg_heap m p))"
  proof (rule ext)
    fix p show "map_option (apsnd (advanced cf (queue_admits True m) rest ?b p)) (mg_heap ?m1 p) =
        map_option (apsnd (told cf sess m rest p)) (mg_heap m p)"
    proof (cases "p = sess")
      case True
      have "advanced cf (queue_admits True m) rest ?b sess = (\<lambda>ss. ss)"
        using new by (auto simp: advanced_def fun_eq_iff)
      then show ?thesis using True here c by (simp add: told_def)
    next
      case False
      then have "advanced cf (queue_admits True m) rest ?b p = told cf sess m rest p"
        using here by (simp add: advanced_def told_def fun_eq_iff)
      with False show ?thesis by simp
    qed
  qed
  have q1: "mg_queued ?m1 = rest" by simp
  show ?thesis using RemoveQueuedPlayer_advance [OF q, of cf] by (simp add: adv [unfolded q1 h])
qed

lemma remove_missing:
  assumes "distinct (mg_queued m)" and "\<forall>q \<in> set (mg_queued m). mg_heap m q \<noteq> None"
    and "rest = remove1 sess (mg_queued m)" and absent: "sess \<notin> set (mg_queued m)"
  shows "RemoveQueuedPlayer cf sess m = Inr (False,
     m\<lparr>mg_queued := (if queue_admits False m then tl rest else rest),
       mg_heap := (\<lambda>p. map_option (apsnd (told cf sess m rest p)) (mg_heap m p))\<rparr>)"
proof -
  have rest: "rest = mg_queued m" using absent assms(3) by (simp add: remove1_idem)
  have b: "behind sess (mg_queued m) = []" 
  proof -
    have dw: "dropWhile (\<lambda>q. q \<noteq> sess) (mg_queued m) = []" using absent by (auto simp: dropWhile_eq_Nil_conv)
    show ?thesis unfolding behind_def dw by simp
  qed
  have "advanced cf (queue_admits False m) rest [] p = told cf sess m rest p" for p
    using absent b by (auto simp: fun_eq_iff advanced_def told_def rest)
  then have "advance cf (queue_admits False m) (Suc (length (mg_queued m))) [] m =
      Inr (m\<lparr>mg_queued := (if queue_admits False m then tl rest else rest),
       mg_heap := (\<lambda>p. map_option (apsnd (told cf sess m rest p)) (mg_heap m p))\<rparr>)"
    using advance_heap [OF assms(1,2), where front = "mg_queued m" and iter = "[]" and cf = cf] by (simp add: rest)
  then show ?thesis using RemoveQueuedPlayer_advance [OF queue_without_missing [OF absent], of cf] by simp
qed

text \<open>
  C27: Taking a session out of the queue, if no waiting session has been freed: the others keep their
  order; if there is room, the first of them is let in and all others are told their new places; if not,
  exactly those behind the removed one are told theirs, each the place it now has. No other session
  is touched. The answer is whether the session was waiting.
\<close>

theorem RemoveQueuedPlayer_spec:
  assumes "distinct (mg_queued m)" and "\<forall>q \<in> set (mg_queued m). mg_heap m q \<noteq> None"
    and "rest = remove1 sess (mg_queued m)"
  shows "RemoveQueuedPlayer cf sess m = Inr (sess \<in> set (mg_queued m),
     m\<lparr>mg_queued := (if queue_admits (sess \<in> set (mg_queued m)) m then tl rest else rest),
       mg_heap := (\<lambda>p. map_option (apsnd (told cf sess m rest p)) (mg_heap m p))\<rparr>)"
  using remove_found [OF assms] remove_missing [OF assms] by (cases "sess \<in> set (mg_queued m)") simp_all

section \<open>Who waits\<close>

lemma SessionUpdater_AddSession_eq:
  assumes "mg_heap m p = Some (r, ss)"
  shows "\<exists>us. SessionUpdater_AddSession i p m = Inr (m\<lparr>mg_heap := (mg_heap m)(p \<mapsto> (r + 1, ss)), mg_updaters := us\<rparr>)"
  using assms by (auto simp: SessionUpdater_AddSession_def add_reference_def on_updater_def)

text \<open>
  A session of a new account, taken in by the manager, enters the map, and it is made to wait
  behind all others exactly if there is a limit, the sessions before it (active or waiting) reach it, and
  the account is an ordinary player's. Nobody else's place changes.
\<close>

theorem AddSession_admission:
  assumes "mg_heap m p = Some (r, ss)" and "map_of (mg_sessions m) (ss_accountId ss) = None"
    and "distinct (map fst (mg_sessions m))" and "mg_updaters m \<noteq> []"
  shows "\<exists>m'. AddSession_now cf p m = Inr m' \<and> map_of (mg_sessions m') (ss_accountId ss) = Some p \<and>
    mg_queued m' = mg_queued m @
      (if 0 < mg_playerLimit m \<and> mg_playerLimit m \<le> word_of_nat (length (mg_sessions m)) \<and> ss_security ss = SEC_PLAYER
       then [p] else []) \<and>
    (\<forall>p'. p' \<noteq> p \<longrightarrow> mg_heap m' p' = mg_heap m p')"
proof -
  let ?m2 = "m\<lparr>mg_sessions := um_set (ss_accountId ss) p (mg_sessions m)\<rparr>"
  have rep: "replace_old cf (ss_accountId ss) m = Inr (False, m)"
    using assms(2) by (simp add: replace_old_def RemoveSession_def)
  obtain us where us: "SessionUpdater_AddSession (choose_updater ?m2) p ?m2 =
      Inr (?m2\<lparr>mg_heap := (mg_heap ?m2)(p \<mapsto> (r + 1, ss)), mg_updaters := us\<rparr>)"
    using SessionUpdater_AddSession_eq [of ?m2 p r ss] assms(1) by auto
  have "ss_accountId ss \<notin> fst ` set (mg_sessions m)" using assms(2) by (simp add: map_of_eq_None_iff)
  then have len: "length (um_set (ss_accountId ss) p (mg_sessions m)) = Suc (length (mg_sessions m))"
    using length_um_set [OF assms(3)] by simp
  show ?thesis
    using assms(1,4)
    by (auto simp: AddSession_now_def deref_def rep us admit_or_queue_def Let_def len GetActiveAndQueuedSessionCount_def
        HasRecentlyDisconnected_def AddQueuedPlayer_def on_session_def UpdateMaxSessionCounters_def)
qed

text \<open>The queue is not touched by what ends sessions.\<close>

definition keeps_queue :: "'c mgr \<Rightarrow> mgr_error + 'c mgr \<Rightarrow> bool" where
  "keeps_queue m r = outcome False (\<lambda>m'. mg_queued m' = mg_queued m) r"

lemma keeps_queue_simps:
  "keeps_queue m (Inr m') = (mg_queued m' = mg_queued m)" "keeps_queue m (Inl e)"
  by (simp_all add: keeps_queue_def)

lemma keeps_queue_bind:
  assumes "keeps_queue m r" and "\<And>x. mg_queued x = mg_queued m \<Longrightarrow> keeps_queue m (f x)"
  shows "keeps_queue m (rbind r f)"
  using assms unfolding keeps_queue_def by (rule outcome_bind)

lemma keeps_queue_basic:
  "mg_queued m = mg_queued m0 \<Longrightarrow> keeps_queue m0 (on_session f p m)"
  "mg_queued m = mg_queued m0 \<Longrightarrow> keeps_queue m0 (add_reference p m)"
  "mg_queued m = mg_queued m0 \<Longrightarrow> keeps_queue m0 (remove_reference p m)"
  by (simp_all add: keeps_queue_def on_session_def add_reference_def remove_reference_def ClientSession_delete_def
      split: option.split prod.split)

lemma keeps_queue_run:
  assumes "mg_queued m = mg_queued m0" and "\<And>b x. mg_queued x = mg_queued m0 \<Longrightarrow> keeps_queue m0 (f (b, x))"
  shows "keeps_queue m0 (rbind (run_session act p m) f)"
  using assms by (auto simp: run_session_def keeps_queue_simps split: option.split)

lemma visit_session_keeps: "mg_queued m = mg_queued m0 \<Longrightarrow> keeps_queue m0 (visit_session env e m)"
  unfolding visit_session_def
  by (rule keeps_queue_run) (auto simp: keeps_queue_simps intro!: keeps_queue_bind keeps_queue_basic)

lemma visit_sessions_keep: "mg_queued m = mg_queued m0 \<Longrightarrow> keeps_queue m0 (visit_sessions envs es m)"
  by (induction es arbitrary: m) (auto simp: keeps_queue_simps intro!: keeps_queue_bind visit_session_keeps)

lemma AddSession_updater_keeps: "mg_queued m = mg_queued m0 \<Longrightarrow> keeps_queue m0 (SessionUpdater_AddSession i p m)"
  unfolding SessionUpdater_AddSession_def
  by (rule keeps_queue_bind [OF keeps_queue_basic(2)]) (simp_all add: keeps_queue_simps)

lemma visit_each_keeps:
  assumes "\<And>p m. mg_queued m = mg_queued m0 \<Longrightarrow> keeps_queue m0 (f p m)"
  shows "mg_queued m = mg_queued m0 \<Longrightarrow> keeps_queue m0 (visit_each f ps m)"
  by (induction ps arbitrary: m) (auto simp: keeps_queue_simps intro!: keeps_queue_bind assms)

lemma UpdateDynamics_keeps: "mg_queued m = mg_queued m0 \<Longrightarrow> keeps_queue m0 (UpdateDynamics cf diff m)"
  unfolding UpdateDynamics_def Let_def
  by (auto simp: keeps_queue_simps intro!: visit_each_keeps AddSession_updater_keeps)

lemma updater_visit_keeps: "mg_queued m = mg_queued m0 \<Longrightarrow> keeps_queue m0 (updater_visit env diff i p m)"
  unfolding updater_visit_def
  by (cases "p = 0") (auto simp: keeps_queue_simps intro!: keeps_queue_run keeps_queue_bind keeps_queue_basic)

text \<open>
  The waiting queue never advances when players leave: an update of the manager without newcomers,
  an updater's pass and the closing of the server leave it as it is, however many sessions end and
  however much room there is. Only the arrival of a new session can move it.
\<close>

theorem leaving_does_not_admit:
  shows "(lq_queue (mg_addQueue m) = [] \<and> ClientSessionMgr_Update cf envs diff m = Inr m1 \<longrightarrow>
      mg_queued m1 = mg_queued m) \<and>
    (updater_pass envs diff i m = Inr m2 \<longrightarrow> mg_queued m2 = mg_queued m)"
proof (intro conjI impI)
  assume a: "lq_queue (mg_addQueue m) = [] \<and> ClientSessionMgr_Update cf envs diff m = Inr m1"
  have "keeps_queue m (ClientSessionMgr_Update cf envs diff m)"
    using a by (auto simp: ClientSessionMgr_Update_def keeps_queue_simps
        intro!: keeps_queue_bind visit_sessions_keep UpdateDynamics_keeps)
  with a show "mg_queued m1 = mg_queued m" by (simp add: keeps_queue_simps)
next
  assume a: "updater_pass envs diff i m = Inr m2"
  have "keeps_queue m (updater_pass envs diff i m)"
    by (auto simp: updater_pass_def Let_def keeps_queue_simps updater_begin_def
        intro!: visit_each_keeps updater_visit_keeps)
  with a show "mg_queued m2 = mg_queued m" by (simp add: keeps_queue_simps)
qed

section \<open>A waiting player that leaves\<close>

text \<open>
  C28: When the session at the front of the queue ends while the manager's map holds its last
  reference, the session is freed but its pointer stays in the queue; the next time the queue is
  asked to advance and there is room, the proxy uses the freed session.
\<close>

theorem queued_disconnect_dangles:
  assumes "(k, p) \<in> set (mg_sessions m)" and "mg_queued m = p # qs"
    and "mg_heap m p = Some (1, ss)" and "HasFlag FLAG_ACCOUNT_KICKED ss"
  shows "\<exists>m1. visit_session env (k, p) m = Inr m1 \<and> mg_heap m1 p = None \<and> mg_queued m1 = p # qs \<and>
    (\<forall>sess. sess \<notin> set (p # qs) \<and> queue_admits False m1 \<longrightarrow> RemoveQueuedPlayer cf sess m1 = Inl (BadPointer p))"
proof -
  let ?m1 = "ClientSession_delete p (KickPlayer ss) m"
  let ?m2 = "?m1\<lparr>mg_sessions := um_erase k (mg_sessions m)\<rparr>"
  have "UpdateSingle env (mg_routing m, ss) = Some (False, mg_routing m, ss)" using assms(4) by (simp add: UpdateSingle_def)
  then have v: "visit_session env (k, p) m = Inr ?m2"
    using assms(3) by (simp add: visit_session_def run_session_def on_session_def remove_reference_def ClientSession_delete_def)
  have "RemoveQueuedPlayer cf sess ?m2 = Inl (BadPointer p)"
    if "sess \<notin> set (p # qs)" "queue_admits False ?m2" for sess
  proof -
    have q: "mg_queued ?m2 = p # qs" by (simp add: ClientSession_delete_def assms(2))
    have "queue_without sess ?m2 = Inr (False, Suc (length (mg_queued ?m2)), [], ?m2)"
      by (rule queue_without_missing) (use that(1) q in simp)
    from RemoveQueuedPlayer_advance [OF this refl, of cf] that(2) show ?thesis
      by (simp add: advance_def q on_session_def) (simp add: ClientSession_delete_def)
  qed
  with v show ?thesis by (intro exI [of _ ?m2]) (simp add: ClientSession_delete_def assms(2))
qed

section \<open>Broadcasts\<close>

text \<open>
  A message to the game masters is sent to every session that plays, whatever its security:
  the test for ordinary players is answered with no.
\<close>

theorem gm_message_reaches_everyone:
  assumes "\<forall>e \<in> set (mg_sessions m). snd e \<noteq> 0 \<and> mg_heap m (snd e) \<noteq> None" and "distinct (map snd (mg_sessions m))"
  shows "SendGameMasterMessage cf text m = Inr (m\<lparr>mg_heap := (\<lambda>p. map_option (apsnd (\<lambda>ss.
     if p \<in> snd ` set (mg_sessions m) \<and> ss_player ss \<noteq> None
     then SendPacket (cf_net cf) (mk_pkt SMSG_SERVER_MESSAGE [U32 SERVER_MSG_STRING, Str (take 2047 text)]) ss else ss)) (mg_heap m p))\<rparr>)"
proof -
  have "tell_sessions (\<lambda>ss. \<not> IsVIPorPlayer (ss_security ss)) 0 net pkt ps m = Inr (m\<lparr>mg_heap := (\<lambda>p. map_option (apsnd (\<lambda>ss.
     if p \<in> set ps \<and> ss_player ss \<noteq> None then SendPacket net pkt ss else ss)) (mg_heap m p))\<rparr>)"
    if "\<forall>p \<in> set ps. p \<noteq> 0 \<and> mg_heap m p \<noteq> None" "distinct ps" for net pkt ps and m :: "'a mgr"
    using that
  proof (induction ps arbitrary: m)
    case Nil
    show ?case by (simp add: option.map_ident apsnd_def map_prod_def)
  next
    case (Cons q ps)
    obtain r ss where q: "mg_heap m q = Some (r, ss)" "q \<noteq> 0" using Cons.prems(1) by auto
    let ?ss' = "if ss_player ss \<noteq> None then SendPacket net pkt ss else ss"
    let ?m1 = "m\<lparr>mg_heap := (mg_heap m)(q \<mapsto> (r, ?ss'))\<rparr>"
    have "tell_sessions (\<lambda>ss. \<not> IsVIPorPlayer (ss_security ss)) 0 net pkt (q # ps) m =
        tell_sessions (\<lambda>ss. \<not> IsVIPorPlayer (ss_security ss)) 0 net pkt ps ?m1"
      using q by (auto simp: deref_def on_session_def IsVIPorPlayer_def fun_upd_idem)
    also have "\<dots> = Inr (?m1\<lparr>mg_heap := (\<lambda>p. map_option (apsnd (\<lambda>ss.
        if p \<in> set ps \<and> ss_player ss \<noteq> None then SendPacket net pkt ss else ss)) (mg_heap ?m1 p))\<rparr>)"
      by (rule Cons.IH) (use Cons.prems in auto)
    also have "\<dots> = Inr (m\<lparr>mg_heap := (\<lambda>p. map_option (apsnd (\<lambda>ss.
        if p \<in> set (q # ps) \<and> ss_player ss \<noteq> None then SendPacket net pkt ss else ss)) (mg_heap m p))\<rparr>)"
      (is "Inr (?m1\<lparr>mg_heap := ?h\<rparr>) = Inr (m\<lparr>mg_heap := ?g\<rparr>)")
    proof -
      have "?h p = ?g p" for p using Cons.prems(2) q by (cases "p = q"; cases "mg_heap m p") auto
      then have "?h = ?g" by (rule ext)
      then show ?thesis by simp
    qed
    finally show ?case .
  qed
  from this [of "map snd (mg_sessions m)" m "cf_net cf"] assms show ?thesis
    by (simp add: SendGameMasterMessage_def)
qed

section \<open>Logins, one after the other\<close>

lemma login_session_eq:
  fixes junk :: "'c session" and m :: "'c mgr"
  shows "\<exists>m' ss. login_session p ns sock junk m = Inr m' \<and> mg_addQueue m' = lq_add p (mg_addQueue m) \<and>
    mg_heap m' = (mg_heap m)(p \<mapsto> (1, ss)) \<and> ss_accountId ss = ns_id ns \<and> ss_security ss = ns_security ns \<and>
    mg_sessions m' = mg_sessions m \<and> mg_updaters m' = mg_updaters m \<and> mg_queued m' = mg_queued m \<and>
    mg_playerLimit m' = mg_playerLimit m"
proof -
  obtain rt ss where new: "ClientSession_new (ns_id ns) (Some sock) (ns_security ns) (ns_expansion ns) junk (mg_routing m) = (rt, ss)"
    by fastforce
  have id: "ss_accountId ss = ns_id ns" "ss_security ss = ns_security ns"
    using new by (auto simp: ClientSession_new_def to_master_def SetFlag_def split: prod.splits)
  let ?ss = "ss\<lparr>ss_addonsList := ns_addons ns, ss_warden := ns_warden ns\<rparr>"
  have "login_session p ns sock junk m = Inr (m\<lparr>mg_routing := rt, mg_online := mg_online m @ [(ns_id ns, True)],
      mg_addQueue := lq_add p (mg_addQueue m), mg_heap := (mg_heap m)(p \<mapsto> (1, ?ss))\<rparr>)"
    by (simp add: login_session_def new_ClientSession_def new on_session_def ClientSessionMgr_AddSession_def
        add_reference_def remove_reference_def)
  with id show ?thesis by auto
qed

lemma AddSession_relogin:
  assumes "mg_heap m p = Some (r, ss)" and "map_of (mg_sessions m) (ss_accountId ss) = Some old" and "old \<noteq> p" and "old \<noteq> 0"
    and "mg_heap m old = Some (r', ss')" and "mg_queued m = []" and "mg_updaters m \<noteq> []"
  shows "\<exists>m'. AddSession_now cf p m = Inr m'"
proof -
  let ?m1 = "m\<lparr>mg_heap := (mg_heap m)(old \<mapsto> (r', KickPlayer ss'))\<rparr>"
  have "RemoveSession (ss_accountId ss) m = Inr ?m1" using assms(2,4,5) by (simp add: RemoveSession_def on_session_def)
  moreover have "RemoveQueuedPlayer cf old ?m1 = Inr (False, ?m1)"
    using RemoveQueuedPlayer_advance [OF queue_without_missing [of old ?m1] refl, of cf]
    by (simp add: assms(6) advance_def)
  ultimately have rep: "replace_old cf (ss_accountId ss) m = Inr (False, ?m1)"
    using assms(2) by (simp add: replace_old_def)
  let ?m2 = "?m1\<lparr>mg_sessions := um_set (ss_accountId ss) p (mg_sessions m)\<rparr>"
  have p2: "mg_heap ?m2 p = Some (r, ss)" using assms(1,3) by simp
  obtain us where us: "SessionUpdater_AddSession (choose_updater ?m2) p ?m2 =
      Inr (?m2\<lparr>mg_heap := (mg_heap ?m2)(p \<mapsto> (r + 1, ss)), mg_updaters := us\<rparr>)"
    using SessionUpdater_AddSession_eq [OF p2] by blast
  show ?thesis
    using assms(1,7)
    by (auto simp: AddSession_now_def deref_def rep us admit_or_queue_def Let_def AddQueuedPlayer_def on_session_def)
qed

section \<open>Concrete managers\<close>

definition example_conf :: "unit mgr_conf" where
  "example_conf = \<lparr>cf_net = example_net, cf_dyn_max = 50, cf_dyn_timer = 1000, cf_dyn_enabled = False, cf_threads = 1,
     cf_clientcache = 0, cf_team = (\<lambda>_. HORDE)\<rparr>"

definition example_login :: new_session where
  "example_login = \<lparr>ns_id = 7, ns_security = 0, ns_expansion = 2, ns_mutetime = 0, ns_locale = 0, ns_recruiter = 0,
     ns_isRecruiter = False, ns_addons = [], ns_warden = True\<rparr>"

text \<open>One kicked session with its last reference in the map, which still waits in the queue.\<close>

definition example_waiting :: "unit mgr" where
  "example_waiting = (mgr_empty routing_example)\<lparr>mg_heap := [1 \<mapsto> (1, example_session FLAG_ACCOUNT_KICKED [] []),
     2 \<mapsto> (1, example_session 0 [] [])], mg_sessions := [(7, 1)], mg_queued := [1], mg_updaters := [SessionUpdater_new]\<rparr>"

abbreviation "first_start \<equiv> mgr_start example_conf 0 routing_example"

lemma first_start_updaters: "length (mg_updaters first_start) = 1"
  by (simp add: mgr_start_fields example_conf_def)

lemma first_login:
  "\<exists>m1. (mgr_step example_conf {0})\<^sup>*\<^sup>* first_start m1 \<and> mg_addQueue m1 = lq_add 1 lq_new \<and>
     (\<exists>ss. mg_heap m1 = [1 \<mapsto> (1, ss)] \<and> ss_accountId ss = 7) \<and> mg_sessions m1 = [] \<and> mg_queued m1 = [] \<and>
     length (mg_updaters m1) = 1"
proof -
  obtain m1 ss where l: "login_session 1 example_login fresh_client (example_session 0 [] []) first_start = Inr m1"
    "mg_addQueue m1 = lq_add 1 (mg_addQueue first_start)" "mg_heap m1 = (mg_heap first_start)(1 \<mapsto> (1, ss))"
    "ss_accountId ss = 7" "mg_sessions m1 = []" "mg_queued m1 = []" "mg_updaters m1 = mg_updaters first_start"
    using login_session_eq [of 1 example_login fresh_client "example_session 0 [] []" first_start]
    by (auto simp: mgr_start_fields example_login_def)
  have "mgr_step example_conf {0} first_start m1" by (rule mgr_step.login [OF _ _ l(1)]) (simp_all add: mgr_start_fields)
  with l first_start_updaters show ?thesis by (intro exI [of _ m1]) (auto simp: mgr_start_fields)
qed

theorem no_use_after_free_witness:
  "\<exists>m. (mgr_step example_conf {0})\<^sup>*\<^sup>* first_start m \<and> (\<exists>r ss. mg_heap m 1 = Some (r, ss) \<and> int (count (held m) 1) \<le> r) \<and>
     ClientSessionMgr_Update example_conf (\<lambda>_. example_env) 10 m \<noteq> Inl (BadPointer 1)"
proof -
  obtain m where m: "(mgr_step example_conf {0})\<^sup>*\<^sup>* first_start m" "mg_addQueue m = lq_add 1 lq_new" using first_login by blast
  have "1 \<in># held m" by (rule held_parts(3)) (simp add: m(2) lq_add_def lq_new_def)
  with no_use_after_free [OF m(1), of "\<lambda>_. example_env" 10 1 0] m(1) show ?thesis by auto
qed

theorem relogin_leaks_session_witness:
  "\<exists>m. (mgr_step example_conf {0})\<^sup>*\<^sup>* first_start m \<and> (\<exists>r ss. mg_heap m 1 = Some (r, ss) \<and> int (count (held m) 1) < r)"
proof -
  obtain m1 ss where m1: "(mgr_step example_conf {0})\<^sup>*\<^sup>* first_start m1" "mg_addQueue m1 = lq_add 1 lq_new"
    "mg_heap m1 = [1 \<mapsto> (1, ss)]" "ss_accountId ss = 7" "mg_sessions m1 = []" "mg_queued m1 = []" "length (mg_updaters m1) = 1"
    using first_login by blast
  have n1: "lq_next (mg_addQueue m1) = Some (1, lq_new)" by (simp add: m1(2) lq_next_def lq_add_def lq_new_def)
  have ne1: "mg_updaters m1 \<noteq> []" using m1(7) by auto
  have inv1: "mgr_inv True [] m1" using mgr_reach_inv [OF m1(1)] by simp
  let ?m1 = "m1\<lparr>mg_addQueue := lq_new\<rparr>"
  obtain m2 where m2: "AddSession_now example_conf 1 ?m1 = Inr m2" "map_of (mg_sessions m2) 7 = Some 1"
    "\<forall>p. p \<noteq> 1 \<longrightarrow> mg_heap m2 p = None"
    using AddSession_admission [of ?m1 1 1 ss example_conf] m1 ne1 by auto
  have a2: "mgr_inv True [] m2 \<and> mg_addQueue m2 = lq_new \<and> length (mg_updaters m2) = 1"
    using outcomeD [OF AddSession_now_out [OF take_new [OF inv1 n1]] m2(1)] m1(7) mgr_inv_weaken
    by (auto simp: replaced_def m1(3,5))
  have step2: "mgr_step example_conf {0} m1 m2" by (rule mgr_step.admitted [OF n1 m2(1)])
  have "1 \<in># held m2" using held_parts(2) map_of_SomeD [OF m2(2)] by metis
  then obtain r1 ss1 where old: "mg_heap m2 1 = Some (r1, ss1)" using mgr_inv_live [of True "[]" m2 1] a2 by auto
  obtain m3 ss3 where m3: "login_session 2 example_login fresh_client (example_session 0 [] []) m2 = Inr m3"
    "mg_addQueue m3 = lq_add 2 lq_new" "mg_heap m3 = (mg_heap m2)(2 \<mapsto> (1, ss3))" "ss_accountId ss3 = 7"
    "mg_sessions m3 = mg_sessions m2" "mg_updaters m3 = mg_updaters m2" "mg_queued m3 = mg_queued m2"
    using login_session_eq [of 2 example_login fresh_client "example_session 0 [] []" m2] a2
    by (auto simp: example_login_def)
  have step3: "mgr_step example_conf {0} m2 m3" by (rule mgr_step.login [OF _ _ m3(1)]) (simp_all add: m2(3))
  have reach3: "(mgr_step example_conf {0})\<^sup>*\<^sup>* first_start m3" using m1(1) step2 step3 by (meson rtranclp.rtrancl_into_rtrancl)
  have n3: "lq_next (mg_addQueue m3) = Some (2, lq_new)" by (simp add: m3(2) lq_next_def lq_add_def lq_new_def)
  let ?m3 = "m3\<lparr>mg_addQueue := lq_new\<rparr>"
  have q2: "mg_queued m2 = []" using a2 by (simp add: mgr_inv_def)
  have "\<exists>m4. AddSession_now example_conf 2 ?m3 = Inr m4"
    by (rule AddSession_relogin [where old = 1]) (use m3 m2(2) old q2 a2 in auto)
  then obtain m4 where m4: "AddSession_now example_conf 2 ?m3 = Inr m4" by blast
  have "mgr_step example_conf {0} m3 m4" by (rule mgr_step.admitted [OF n3 m4])
  with reach3 have reach4: "(mgr_step example_conf {0})\<^sup>*\<^sup>* first_start m4" by (meson rtranclp.rtrancl_into_rtrancl)
  have "\<exists>r' ss'. mg_heap m4 1 = Some (r', ss') \<and> int (count (held m4) 1) < r'"
    by (rule relogin_leaks_session [OF reach3 _ n3 _ _ m4, where ss = ss3]) (use m3 m2(2) in auto)
  with reach4 show ?thesis by blast
qed

theorem RemoveQueuedPlayer_spec_witness:
  "\<exists>m'. RemoveQueuedPlayer example_conf 2 (example_waiting\<lparr>mg_queued := [2, 1], mg_playerLimit := 1\<rparr>) = Inr (True, m') \<and>
     mg_queued m' = [1] \<and>
     mg_heap m' 1 = Some (1, SendAuthWaitQue example_net 1 (example_session FLAG_ACCOUNT_KICKED [] []))"
proof -
  let ?m = "example_waiting\<lparr>mg_queued := [2, 1], mg_playerLimit := 1\<rparr>"
  have "\<not> queue_admits True ?m"
    by (simp add: queue_admits_def GetActiveSessionCount_def example_waiting_def)
  then show ?thesis
    using RemoveQueuedPlayer_spec [of ?m "[1]" 2 example_conf]
    by (auto simp: example_waiting_def told_def behind_def example_conf_def)
qed

theorem AddSession_admission_witness:
  "\<exists>m'. AddSession_now example_conf 2 (example_waiting\<lparr>mg_playerLimit := 1, mg_sessions := [(8, 1)]\<rparr>) = Inr m' \<and>
     mg_queued m' = [1, 2]"
  using AddSession_admission [of "example_waiting\<lparr>mg_playerLimit := 1, mg_sessions := [(8, 1)]\<rparr>" 2 1 "example_session 0 [] []" example_conf]
  by (auto simp: example_waiting_def example_session_def SEC_PLAYER_def)

lemma example_waiting_visit:
  "visit_session env (7, 1) example_waiting =
     Inr (ClientSession_delete 1 (KickPlayer (example_session FLAG_ACCOUNT_KICKED [] [])) example_waiting\<lparr>mg_sessions := []\<rparr>)"
  by (simp add: visit_session_def run_session_def example_waiting_def UpdateSingle_def on_session_def remove_reference_def
      HasFlag_def example_session_def session_flags um_erase_def ClientSession_delete_def)

theorem queued_disconnect_dangles_witness:
  "\<exists>m1. visit_session example_env (7, 1) example_waiting = Inr m1 \<and>
     RemoveQueuedPlayer example_conf 2 m1 = Inl (BadPointer 1)"
proof -
  have k: "HasFlag FLAG_ACCOUNT_KICKED (example_session FLAG_ACCOUNT_KICKED [] [])"
    by (simp add: HasFlag_def example_session_def session_flags)
  obtain m1 where m1: "visit_session example_env (7, 1) example_waiting = Inr m1"
    "\<forall>sess. sess \<notin> set [1] \<and> queue_admits False m1 \<longrightarrow> RemoveQueuedPlayer example_conf sess m1 = Inl (BadPointer 1)"
    using queued_disconnect_dangles [of 7 1 example_waiting "[]" _ example_env example_conf, OF _ _ _ k]
    by (auto simp: example_waiting_def)
  have "queue_admits False m1"
    using m1(1) unfolding example_waiting_visit
    by (auto simp: queue_admits_def ClientSession_delete_def example_waiting_def mgr_empty_def)
  with m1 show ?thesis by auto
qed

theorem leaving_does_not_admit_witness:
  "\<exists>m1. ClientSessionMgr_Update example_conf (\<lambda>_. example_env) 10 example_waiting = Inr m1 \<and> mg_sessions m1 = [] \<and>
     mg_queued m1 = [1]"
proof -
  have q: "lq_queue (mg_addQueue example_waiting) = []" by (simp add: example_waiting_def mgr_empty_def lq_new_def)
  have e: "mg_sessions example_waiting = [(7, 1)]" "\<not> mg_dyn_enabled example_waiting" "mg_queued example_waiting = [1]"
    by (simp_all add: example_waiting_def mgr_empty_def)
  let ?m1 = "ClientSession_delete 1 (KickPlayer (example_session FLAG_ACCOUNT_KICKED [] [])) example_waiting\<lparr>mg_sessions := []\<rparr>"
  have u: "ClientSessionMgr_Update example_conf (\<lambda>_. example_env) 10 example_waiting = Inr ?m1"
    by (simp add: ClientSessionMgr_Update_def q e(1) example_waiting_visit [unfolded One_nat_def]) (simp add: ClientSession_delete_def e(2))
  with leaving_does_not_admit [of example_waiting example_conf "\<lambda>_. example_env" 10 ?m1] q e show ?thesis by auto
qed

theorem gm_message_reaches_everyone_witness:
  "\<exists>m'. SendGameMasterMessage example_conf [0x48, 0x49] example_waiting = Inr m' \<and>
     mg_heap m' 1 = Some (1, SendPacket example_net (mk_pkt SMSG_SERVER_MESSAGE [U32 SERVER_MSG_STRING, Str [0x48, 0x49]])
       (example_session FLAG_ACCOUNT_KICKED [] []))"
proof -
  have "\<forall>e \<in> set (mg_sessions example_waiting). snd e \<noteq> 0 \<and> mg_heap example_waiting (snd e) \<noteq> None"
    "distinct (map snd (mg_sessions example_waiting))" by (simp_all add: example_waiting_def)
  from gm_message_reaches_everyone [OF this, of example_conf "[0x48, 0x49]"] show ?thesis
    by (simp add: example_waiting_def example_conf_def) (simp add: example_session_def)
qed

end
