(* ===== verification/StdMap.thy ===== *)
theory StdMap
  imports Prelude
begin

text \<open>
  The containers and text helpers of the C++ library that the proxy's chat rests on: \<open>std::map\<close> and
  \<open>std::set\<close>, which iterate in the order of their keys, the decimal numbers that \<open>operator<<\<close> writes and
  \<open>atol\<close> reads, the \<open>Tokenizer\<close> of \<open>shared/Utilities/Util.cpp\<close>, and \<open>tolower\<close>. A map is the list of
  its pairs in the order of the keys.
\<close>

section \<open>Ordered maps\<close>

fun om_set :: "'k::linorder \<Rightarrow> 'v \<Rightarrow> ('k \<times> 'v) list \<Rightarrow> ('k \<times> 'v) list" where
  "om_set k v [] = [(k, v)]"
| "om_set k v ((k', v') # m) =
     (if k < k' then (k, v) # (k', v') # m else if k = k' then (k, v) # m else (k', v') # om_set k v m)"

text \<open>\<open>m.erase(k)\<close> is the \<open>um_erase\<close> of the prelude.\<close>

definition om_wf :: "('k::linorder \<times> 'v) list \<Rightarrow> bool" where
  "om_wf m \<longleftrightarrow> sorted_wrt (<) (map fst m)"

lemma om_wf_Nil [simp]: "om_wf []"
  by (simp add: om_wf_def)

lemma om_wf_Cons [simp]: "om_wf (p # m) \<longleftrightarrow> (\<forall>k \<in> fst ` set m. fst p < k) \<and> om_wf m"
  by (auto simp: om_wf_def)

lemma keys_om_set [simp]: "fst ` set (om_set k v m) = insert k (fst ` set m)"
  by (induction k v m rule: om_set.induct) auto

lemma om_wf_set [simp]: "om_wf m \<Longrightarrow> om_wf (om_set k v m)"
  by (induction k v m rule: om_set.induct) auto

lemma map_of_om_set [simp]: "om_wf m \<Longrightarrow> map_of (om_set k v m) = (map_of m)(k \<mapsto> v)"
proof (induction k v m rule: om_set.induct)
  case (2 k v k' v' m)
  have "map_of m k = None" if "k < k'" using that 2(2) by (force simp: map_of_eq_None_iff)
  with 2 show ?case by (auto simp: fun_eq_iff)
qed simp

lemma om_wf_erase [simp]: "om_wf m \<Longrightarrow> om_wf (um_erase k m)"
  by (induction m) (auto simp: um_erase_def)

lemma om_wf_distinct: "om_wf m \<Longrightarrow> distinct (map fst m)"
  by (induction m) (auto simp: image_iff)

lemma om_wf_lookup: "om_wf m \<Longrightarrow> (k, v) \<in> set m \<longleftrightarrow> map_of m k = Some v"
  using om_wf_distinct [of m] by (metis map_of_eq_Some_iff)

section \<open>Ordered sets\<close>

lemma sorted_remove1_set:
  "sorted xs \<Longrightarrow> distinct xs \<Longrightarrow>
   sorted (remove1 x xs) \<and> distinct (remove1 x xs) \<and> set (remove1 x xs) = set xs - {x}"
  by (simp add: sorted_remove1)

lemma insort_insert_set:
  "sorted xs \<and> distinct xs \<Longrightarrow> sorted (insort_insert x xs) \<and> distinct (insort_insert x xs) \<and>
   set (insort_insert x xs) = insert x (set xs)"
  by (simp add: sorted_insort_insert distinct_insort_insert set_insort_insert)

lemma fold_insort_insert_set:
  "sorted ys \<and> distinct ys \<Longrightarrow> sorted (fold insort_insert xs ys) \<and> distinct (fold insort_insert xs ys) \<and>
   set (fold insort_insert xs ys) = set xs \<union> set ys"
proof (induction xs arbitrary: ys)
  case (Cons x xs)
  from Cons.IH [OF conjI [OF insort_insert_set [OF Cons.prems, THEN conjunct1]
      insort_insert_set [OF Cons.prems, THEN conjunct2, THEN conjunct1]]]
  show ?case using insort_insert_set [OF Cons.prems] by simp
qed simp

section \<open>Decimal numbers\<close>

text \<open>\<open>out << n\<close>: the digits, most significant first.\<close>

function dec_digits :: "nat \<Rightarrow> bytes" where
  "dec_digits n = (if n < 10 then [word_of_nat (48 + n)] else dec_digits (n div 10) @ [word_of_nat (48 + n mod 10)])"
  by pat_completeness auto
termination by (relation "measure id") auto

declare dec_digits.simps [simp del]

definition is_digit :: "u8 \<Rightarrow> bool" where
  "is_digit c \<longleftrightarrow> 48 \<le> c \<and> c \<le> 57"

text \<open>
  \<open>atol\<close> on a 64-bit platform, for texts without leading white space: an optional sign and the digits
  up to the first other character, saturated at the ends of \<open>long\<close>.
\<close>

definition dec_value :: "bytes \<Rightarrow> nat" where
  "dec_value ds = foldl (\<lambda>a d. 10 * a + (unat d - 48)) 0 ds"

definition long_sat :: "int \<Rightarrow> int" where
  "long_sat i = max (- (2 ^ 63)) (min (2 ^ 63 - 1) i)"

fun atol :: "bytes \<Rightarrow> int" where
  "atol [] = 0"
| "atol (c # cs) =
     (if c = 45 then long_sat (- int (dec_value (takeWhile is_digit cs)))
      else if c = 43 then long_sat (int (dec_value (takeWhile is_digit cs)))
      else long_sat (int (dec_value (takeWhile is_digit (c # cs)))))"

lemma unat_digit: "n < 10 \<Longrightarrow> unat (word_of_nat (48 + n) :: u8) = 48 + n"
  unfolding unat_of_nat by simp

lemma is_digit_digit: "n < 10 \<Longrightarrow> is_digit (word_of_nat (48 + n))"
  using unat_digit [of n] by (simp add: is_digit_def word_le_nat_alt)

lemma dec_digits_all: "list_all is_digit (dec_digits n) \<and> dec_digits n \<noteq> [] \<and> dec_value (dec_digits n) = n"
proof (induction n rule: dec_digits.induct)
  case (1 n)
  show ?case
  proof (cases "n < 10")
    case True
    then show ?thesis using is_digit_digit [of n] unat_digit [of n] dec_digits.simps [of n] by (simp add: dec_value_def)
  next
    case False
    have d: "n mod 10 < 10" by simp
    have "dec_value (dec_digits (n div 10) @ [word_of_nat (48 + n mod 10)]) = 10 * dec_value (dec_digits (n div 10)) + n mod 10"
      using unat_digit [OF d] by (simp add: dec_value_def)
    with 1 [OF False] False is_digit_digit [OF d] show ?thesis
      by (subst (1 2 3) dec_digits.simps) simp
  qed
qed

lemma digit_is_no_sign: "is_digit c \<Longrightarrow> c \<noteq> 45 \<and> c \<noteq> 43 \<and> c \<noteq> 32 \<and> c \<noteq> 0"
  by (auto simp: is_digit_def)

lemma atol_dec_digits: "n < 2 ^ 63 \<Longrightarrow> atol (dec_digits n) = int n"
proof -
  assume n: "n < 2 ^ 63"
  then have "int n \<le> 2 ^ 63 - 1" by (simp add: zle_diff1_eq [symmetric] del: zle_diff1_eq)
  then have sat: "long_sat (int n) = int n" by (simp add: long_sat_def)
  obtain c cs where c: "dec_digits n = c # cs" using dec_digits_all [of n] by (cases "dec_digits n") auto
  have d: "\<forall>x \<in> set (c # cs). is_digit x" "dec_value (c # cs) = n"
    using dec_digits_all [of n] by (simp_all add: c list_all_iff)
  then have tw: "takeWhile is_digit (c # cs) = c # cs" by (simp only: takeWhile_eq_all_conv)
  show ?thesis unfolding c atol.simps tw using d digit_is_no_sign [of c] sat by simp
qed

section \<open>Tokens\<close>

text \<open>
  \<open>Tokenizer\<close>: the text is cut at every separator, empty tokens included; what remains at the end is
  a token unless it is empty. The text ends at its first null byte.
\<close>

fun tokens_from :: "u8 \<Rightarrow> bytes \<Rightarrow> bytes \<Rightarrow> bytes list" where
  "tokens_from sep old [] = (if old = [] then [] else [old])"
| "tokens_from sep old (c # cs) =
     (if c = sep then old # tokens_from sep [] cs
      else if c = 0 then (if old = [] then [] else [old])
      else tokens_from sep (old @ [c]) cs)"

definition Tokenizer :: "bytes \<Rightarrow> u8 \<Rightarrow> bytes list" where
  "Tokenizer src sep = tokens_from sep [] src"

lemma tokens_from_word:
  "sep \<notin> set w \<Longrightarrow> 0 \<notin> set w \<Longrightarrow> tokens_from sep old (w @ sep # rest) = (old @ w) # tokens_from sep [] rest"
  by (induction w arbitrary: old) auto

lemma Tokenizer_joined:
  "\<forall>w \<in> set ws. sep \<notin> set w \<and> 0 \<notin> set w \<Longrightarrow> Tokenizer (concat (map (\<lambda>w. w @ [sep]) ws)) sep = ws"
  by (induction ws) (simp_all add: Tokenizer_def tokens_from_word)

lemma dec_digits_token: "(32 :: u8) \<notin> set (dec_digits n) \<and> 0 \<notin> set (dec_digits n)"
  using dec_digits_all [of n] digit_is_no_sign by (auto simp: list_all_iff)

section \<open>Lower case\<close>

definition to_lower :: "u8 \<Rightarrow> u8" where
  "to_lower c = (if 65 \<le> c \<and> c \<le> 90 then c + 32 else c)"

end
