(* ===== verification/ProxyShutdown.thy ===== *)
theory ProxyShutdown
  imports WaitingQueue StdMap
begin

text \<open>
  Shutdown and halt of the proxy: the countdown in \<open>_UpdateGameTime\<close> and the commands that start and
  cancel it (\<open>shade/Proxy/Proxy.cpp\<close>), the announcements of \<open>ClientSessionMgr::ShutdownMsg\<close>, and the
  two conversions between times and texts of \<open>shared/Utilities/Util.cpp\<close>.
\<close>

section \<open>Times as texts\<close>

definition secsToTimeString :: "u64 \<Rightarrow> bool \<Rightarrow> bytes" where
  "secsToTimeString timeInSecs shortText =
     (let secs = timeInSecs mod 60; minutes = timeInSecs mod 3600 div 60;
          hours = timeInSecs mod 86400 div 3600; days = timeInSecs div 86400;
          ss = (if days \<noteq> 0 then dec_digits (unat days) @ ascii (if shortText then ''d'' else '' day(s) '') else []) @
               (if hours \<noteq> 0 then dec_digits (unat hours) @ ascii (if shortText then ''h'' else '' hour(s) '') else []) @
               (if minutes \<noteq> 0 then dec_digits (unat minutes) @ ascii (if shortText then ''m'' else '' minute(s) '') else []) @
               (if secs \<noteq> 0 \<or> days = 0 \<and> hours = 0 \<and> minutes = 0
                then dec_digits (unat secs) @ ascii (if shortText then ''s'' else '' second(s) '') else [])
      in if \<not> shortText \<and> ss \<noteq> [] \<and> last ss = 32 then butlast ss else ss)"

definition time_multiplier :: "u8 \<Rightarrow> u32 option" where
  "time_multiplier c =
     (if c = 100 then Some 86400 else if c = 104 then Some 3600 else if c = 109 then Some 60
      else if c = 115 then Some 1 else None)"

fun time_secs :: "u32 \<Rightarrow> u32 \<Rightarrow> bytes \<Rightarrow> u32" where
  "time_secs secs buffer [] = secs"
| "time_secs secs buffer (c # cs) =
     (if is_digit c then time_secs secs (buffer * 10 + (ucast c - 48)) cs
      else (case time_multiplier c of None \<Rightarrow> 0 | Some k \<Rightarrow> time_secs (secs + buffer * k) 0 cs))"

definition TimeStringToSecs :: "bytes \<Rightarrow> u32" where
  "TimeStringToSecs timestring = time_secs 0 0 timestring"

section \<open>State\<close>

definition SHUTDOWN_MASK_RESTART :: u32 where "SHUTDOWN_MASK_RESTART = 1"
definition SHUTDOWN_MASK_IDLE :: u32 where "SHUTDOWN_MASK_IDLE = 2"
definition SHUTDOWN_MASK_HALT :: u32 where "SHUTDOWN_MASK_HALT = 3"
definition SHUTDOWN_EXIT_CODE :: u8 where "SHUTDOWN_EXIT_CODE = 0"
definition SERVER_MSG_SHUTDOWN_CANCELLED :: u32 where "SERVER_MSG_SHUTDOWN_CANCELLED = 4"
definition SERVER_MSG_RESTART_CANCELLED :: u32 where "SERVER_MSG_RESTART_CANCELLED = 5"

lemmas shutdown_masks = SHUTDOWN_MASK_RESTART_def SHUTDOWN_MASK_IDLE_def SHUTDOWN_MASK_HALT_def

text \<open>\<open>lg_flagged\<close> holds the realms that statements for the login database have marked as off-line.\<close>

record 'c logon =
  lg_gameTime :: int
  lg_stopEvent :: bool
  lg_haltEvent :: bool
  lg_ExitCode :: u8
  lg_ShutdownTimer :: u32
  lg_ShutdownMask :: u32
  lg_HaltTimer :: u32
  lg_flagged :: "int list"
  lg_mgr :: "'c mgr"

section \<open>Operations\<close>

definition shutdown_due :: "u32 \<Rightarrow> bool \<Rightarrow> bool" where
  "shutdown_due t shw \<longleftrightarrow> shw \<or> t < 5 * 60 \<and> t mod 15 = 0 \<or> t < 15 * 60 \<and> t mod 60 = 0 \<or>
     t < 30 * 60 \<and> t mod (5 * 60) = 0 \<or> t < 12 * 3600 \<and> t mod 3600 = 0 \<or> t > 12 * 3600 \<and> t mod (12 * 3600) = 0"

definition ShutdownMsg :: "'c mgr_conf \<Rightarrow> u32 \<Rightarrow> u32 \<Rightarrow> bool \<Rightarrow> ref \<Rightarrow> 'c mgr \<Rightarrow> mgr_error + 'c mgr" where
  "ShutdownMsg cf shutdownTimer shutdownMask shw player_session m =
     (if shutdownMask AND SHUTDOWN_MASK_IDLE \<noteq> 0 then Inr m
      else if shutdown_due shutdownTimer shw
      then SendServerMessage cf SERVER_MSG_STRING
             (ascii ''ProxyServer is '' @
              ascii (if shutdownMask AND SHUTDOWN_MASK_RESTART \<noteq> 0 then ''restarting'' else ''shutting down'') @
              ascii '' in: '' @ secsToTimeString (ucast shutdownTimer) False) player_session m
      else Inr m)"

text \<open>\<open>HaltMsg\<close> returns in its first line.\<close>

definition HaltMsg :: "u32 \<Rightarrow> u32 \<Rightarrow> bool \<Rightarrow> ref \<Rightarrow> 'c mgr \<Rightarrow> mgr_error + 'c mgr" where
  "HaltMsg haltTimer shutdownMask shw player_session m = Inr m"

definition on_mgr :: "('c mgr \<Rightarrow> mgr_error + 'c mgr) \<Rightarrow> 'c logon \<Rightarrow> mgr_error + 'c logon" where
  "on_mgr f lg = rbind (f (lg_mgr lg)) (\<lambda>m. Inr (lg\<lparr>lg_mgr := m\<rparr>))"

definition nobody_left :: "u32 \<Rightarrow> 'c mgr \<Rightarrow> bool" where
  "nobody_left msk m \<longleftrightarrow> msk AND SHUTDOWN_MASK_IDLE = 0 \<or> GetActiveAndQueuedSessionCount m = 0"

text \<open>The statement names the realm with its first argument, the constant two.\<close>

definition halt_tick :: "u32 \<Rightarrow> 'c logon \<Rightarrow> mgr_error + 'c logon" where
  "halt_tick elapsed lg =
     (if \<not> lg_haltEvent lg \<and> lg_HaltTimer lg > 0 \<and> elapsed > 0 then
        (if lg_HaltTimer lg \<le> elapsed
         then Inr (lg\<lparr>lg_flagged := lg_flagged lg @ [2], lg_HaltTimer := 0, lg_haltEvent := True\<rparr>)
         else (let lg1 = lg\<lparr>lg_HaltTimer := lg_HaltTimer lg - elapsed\<rparr>
               in on_mgr (HaltMsg (lg_HaltTimer lg1) (lg_ShutdownMask lg1) False 0) lg1))
      else Inr lg)"

definition shutdown_tick :: "'c mgr_conf \<Rightarrow> u32 \<Rightarrow> 'c logon \<Rightarrow> mgr_error + 'c logon" where
  "shutdown_tick cf elapsed lg =
     (if \<not> lg_stopEvent lg \<and> lg_ShutdownTimer lg > 0 \<and> elapsed > 0 then
        (if lg_ShutdownTimer lg \<le> elapsed
         then (if nobody_left (lg_ShutdownMask lg) (lg_mgr lg) then Inr (lg\<lparr>lg_stopEvent := True\<rparr>)
               else Inr (lg\<lparr>lg_ShutdownTimer := 1\<rparr>))
         else (let lg1 = lg\<lparr>lg_ShutdownTimer := lg_ShutdownTimer lg - elapsed\<rparr>
               in on_mgr (ShutdownMsg cf (lg_ShutdownTimer lg1) (lg_ShutdownMask lg1) False 0) lg1))
      else Inr lg)"

definition UpdateGameTime :: "'c mgr_conf \<Rightarrow> int \<Rightarrow> 'c logon \<Rightarrow> mgr_error + 'c logon" where
  "UpdateGameTime cf thisTime lg =
     (let elapsed = word_of_int (thisTime - lg_gameTime lg)
      in rbind (halt_tick elapsed (lg\<lparr>lg_gameTime := thisTime\<rparr>)) (shutdown_tick cf elapsed))"

definition HaltServ :: "'c mgr_conf \<Rightarrow> u32 \<Rightarrow> u32 \<Rightarrow> 'c logon \<Rightarrow> mgr_error + 'c logon" where
  "HaltServ cf time options lg =
     (let lg1 = lg\<lparr>lg_ShutdownMask := options\<rparr>
      in if time = 0 then Inr (lg1\<lparr>lg_haltEvent := True\<rparr>)
         else (let lg2 = lg1\<lparr>lg_HaltTimer := time\<rparr>
               in on_mgr (ShutdownMsg cf (lg_ShutdownTimer lg2) (lg_ShutdownMask lg2) True 0) lg2))"

definition ShutdownServ :: "'c mgr_conf \<Rightarrow> u32 \<Rightarrow> u32 \<Rightarrow> u8 \<Rightarrow> 'c logon \<Rightarrow> mgr_error + 'c logon" where
  "ShutdownServ cf time options exitcode lg =
     (if lg_stopEvent lg then Inr lg
      else
        (let lg1 = lg\<lparr>lg_ShutdownMask := options, lg_ExitCode := exitcode\<rparr>
         in if time = 0 then
              (if nobody_left options (lg_mgr lg1) then Inr (lg1\<lparr>lg_stopEvent := True\<rparr>)
               else Inr (lg1\<lparr>lg_ShutdownTimer := 1\<rparr>))
            else (let lg2 = lg1\<lparr>lg_ShutdownTimer := time\<rparr>
                  in on_mgr (ShutdownMsg cf (lg_ShutdownTimer lg2) (lg_ShutdownMask lg2) True 0) lg2)))"

definition ShutdownCancel :: "'c mgr_conf \<Rightarrow> 'c logon \<Rightarrow> mgr_error + 'c logon" where
  "ShutdownCancel cf lg =
     (if lg_ShutdownTimer lg = 0 \<or> lg_stopEvent lg then Inr lg
      else
        (let msgid = (if lg_ShutdownMask lg AND SHUTDOWN_MASK_RESTART \<noteq> 0 then SERVER_MSG_RESTART_CANCELLED
                      else SERVER_MSG_SHUTDOWN_CANCELLED);
             lg1 = lg\<lparr>lg_ShutdownMask := 0, lg_ShutdownTimer := 0, lg_ExitCode := SHUTDOWN_EXIT_CODE\<rparr>
         in on_mgr (SendServerMessage cf msgid [] 0) lg1))"

section \<open>Commands\<close>

definition is_space :: "u8 \<Rightarrow> bool" where
  "is_space c \<longleftrightarrow> c = 32 \<or> 9 \<le> c \<and> c \<le> 13"

definition atoi :: "bytes \<Rightarrow> int" where
  "atoi s = sint (word_of_int (atol (dropWhile is_space s)) :: u32)"

text \<open>
  \<open>time_str\<close> is the first token, \<open>exitcode_str\<close> all that follows the blank behind it; a text of blanks has
  no token, and \<open>atoi\<close> is called with a null pointer.
\<close>

definition HandleServerShutDownCommand :: "'c mgr_conf \<Rightarrow> bytes \<Rightarrow> 'c logon \<Rightarrow> mgr_error + bool \<times> 'c logon" where
  "HandleServerShutDownCommand cf args lg =
     (let tokens = dropWhile (\<lambda>c. c = 32) args; time_str = takeWhile (\<lambda>c. c \<noteq> 32) tokens;
          exitcode_str = drop (length time_str + 1) tokens; time = atoi time_str; exitcode = atoi exitcode_str;
          order = (\<lambda>code. rbind (ShutdownServ cf (word_of_int time) 0 code lg) (\<lambda>lg. Inr (True, lg)))
      in if args = [] then Inr (False, lg)
         else if time_str = [] then Inl (BadPointer 0)
         else if time = 0 \<and> time_str \<noteq> [48] \<or> time < 0 then Inr (False, lg)
         else if exitcode_str \<noteq> [] then
           (if exitcode = 0 \<and> exitcode_str \<noteq> [48] then Inr (False, lg)
            else if exitcode < 0 \<or> exitcode > 125 then Inr (False, lg)
            else order (word_of_int exitcode))
         else order SHUTDOWN_EXIT_CODE)"

definition HandleServerShutDownCancelCommand :: "'c mgr_conf \<Rightarrow> bytes \<Rightarrow> 'c logon \<Rightarrow> mgr_error + bool \<times> 'c logon" where
  "HandleServerShutDownCancelCommand cf args lg = rbind (ShutdownCancel cf lg) (\<lambda>lg. Inr (True, lg))"

definition HandleAnnounceCommand :: "'c mgr_conf \<Rightarrow> bytes \<Rightarrow> 'c logon \<Rightarrow> mgr_error + bool \<times> 'c logon" where
  "HandleAnnounceCommand cf args lg =
     (if args = [] then Inr (False, lg)
      else rbind (on_mgr (SendServerMessage cf SERVER_MSG_STRING args 0) lg) (\<lambda>lg. Inr (True, lg)))"

section \<open>Updates\<close>

text \<open>The updates of the proxy at the given times; whatever happens to the sessions in between.\<close>

fun ticks :: "'c mgr_conf \<Rightarrow> (int \<times> 'c mgr) list \<Rightarrow> 'c logon \<Rightarrow> mgr_error + 'c logon" where
  "ticks cf [] lg = Inr lg"
| "ticks cf (t # ts) lg = rbind (UpdateGameTime cf (fst t) (lg\<lparr>lg_mgr := snd t\<rparr>)) (ticks cf ts)"

section \<open>A time read back from its text\<close>

lemma digit_value: "k < 10 \<Longrightarrow> ucast (word_of_nat (48 + k) :: u8) - 48 = (word_of_nat k :: u32)"
proof -
  assume "k < 10"
  then have "ucast (word_of_nat (48 + k) :: u8) = (word_of_nat (48 + k) :: u32)"
    using unat_digit [of k] by (metis of_nat_unat)
  then show ?thesis by simp
qed

lemma time_secs_number: "time_secs s 0 (dec_digits n @ cs) = time_secs s (word_of_nat n) cs"
proof (induction n arbitrary: cs rule: dec_digits.induct)
  case (1 n)
  show ?case
  proof (cases "n < 10")
    case True
    with is_digit_digit [of n] digit_value [of n] show ?thesis by (subst dec_digits.simps) (simp del: of_nat_add of_nat_numeral)
  next
    case False
    have d: "n mod 10 < 10" by simp
    have "n = n div 10 * 10 + n mod 10" by simp
    then have "word_of_nat n = word_of_nat (n div 10) * 10 + (word_of_nat (n mod 10) :: u32)"
      by (metis of_nat_add of_nat_mult of_nat_numeral)
    with 1 [OF False] False is_digit_digit [OF d] digit_value [OF d] show ?thesis
      by (subst dec_digits.simps) (simp del: of_nat_add of_nat_numeral)
  qed
qed

definition time_part :: "nat \<Rightarrow> u8 \<Rightarrow> bytes" where
  "time_part k unit_letter = (if k = 0 then [] else dec_digits k @ [unit_letter])"

lemma time_secs_part:
  assumes "time_multiplier c = Some k" and "\<not> is_digit c"
  shows "time_secs s 0 (time_part n c @ cs) = time_secs (s + word_of_nat n * k) 0 cs"
  using assms by (simp add: time_part_def time_secs_number)

lemma nat_in_parts:
  fixes n :: nat
  shows "n = n div 86400 * 86400 + n mod 86400 div 3600 * 3600 + n mod 3600 div 60 * 60 + n mod 60"
proof -
  have "n mod 86400 mod 3600 = n mod 3600" "n mod 3600 mod 60 = n mod 60" by (simp_all add: mod_mod_cancel)
  then show ?thesis
    using div_mult_mod_eq [of n 86400] div_mult_mod_eq [of "n mod 86400" 3600] div_mult_mod_eq [of "n mod 3600" 60] by linarith
qed

lemma secs_short_text:
  "secsToTimeString t True =
     (if t = 0 then dec_digits 0 @ [115]
      else time_part (unat t div 86400) 100 @ time_part (unat t mod 86400 div 3600) 104 @
        time_part (unat t mod 3600 div 60) 109 @ time_part (unat t mod 60) 115)"
proof -
  define n where "n = unat t"
  have parts: "unat (t mod 60) = n mod 60" "unat (t mod 3600 div 60) = n mod 3600 div 60"
    "unat (t mod 86400 div 3600) = n mod 86400 div 3600" "unat (t div 86400) = n div 86400"
    by (simp_all add: n_def unat_div_distrib unat_mod_distrib)
  have zero: "w = 0 \<longleftrightarrow> unat w = 0" for w :: u64 by (simp add: unat_0_iff)
  have "n = 0" if "n mod 60 = 0" "n div 86400 = 0" "n mod 86400 div 3600 = 0" "n mod 3600 div 60 = 0"
    using that nat_in_parts [of n] by simp
  then show ?thesis
    unfolding secsToTimeString_def Let_def zero parts n_def [symmetric]
    by (auto simp: time_part_def ascii_def)
qed

lemma time_in_parts:
  "(of_nat (n div 86400) * 86400 + of_nat (n mod 86400 div 3600) * 3600 + of_nat (n mod 3600 div 60) * 60 +
    of_nat (n mod 60) :: u32) = of_nat n"
  using nat_in_parts [of n, THEN arg_cong [where f = "of_nat :: nat \<Rightarrow> u32"]]
  by (simp only: of_nat_add of_nat_mult of_nat_numeral)

text \<open>The short text of a time that fits the reader's width is read back to the same time.\<close>

lemma time_text_roundtrip: "TimeStringToSecs (secsToTimeString (ucast n) True) = n"
proof -
  have n: "unat (ucast n :: u64) = unat n" by (simp add: unsigned_ucast_eq take_bit_nat_eq_self_iff unat_u32_bound [THEN less_trans])
  have zero: "(ucast n :: u64) = 0 \<longleftrightarrow> n = 0" using n by (metis unat_0_iff)
  have letters: "time_multiplier 100 = Some 86400" "time_multiplier 104 = Some 3600" "time_multiplier 109 = Some 60"
    "time_multiplier 115 = Some 1" "\<not> is_digit 100" "\<not> is_digit 104" "\<not> is_digit 109" "\<not> is_digit 115"
    by (simp_all add: time_multiplier_def is_digit_def)
  show ?thesis
    using time_secs_part [where cs = "[]" and c = 115 and k = 1] time_in_parts [of "unat n"] letters zero
    by (simp add: TimeStringToSecs_def secs_short_text n time_secs_part time_secs_number algebra_simps)
qed

section \<open>Announcements\<close>

text \<open>Every session the manager maps to is null or alive: the broadcasts meet no dangling pointer.\<close>

definition mgr_alive :: "'c mgr \<Rightarrow> bool" where
  "mgr_alive m \<longleftrightarrow> (\<forall>e \<in> set (mg_sessions m). snd e = 0 \<or> mg_heap m (snd e) \<noteq> None)"

lemma tell_sessions_alive:
  assumes "\<forall>p \<in> set ps. p = 0 \<or> mg_heap m p \<noteq> None"
  shows "\<exists>h. tell_sessions sel self net packet ps m = Inr (m\<lparr>mg_heap := h\<rparr>)"
  using assms
proof (induction ps arbitrary: m)
  case Nil
  have "m = m\<lparr>mg_heap := mg_heap m\<rparr>" by simp
  then show ?case by (metis tell_sessions.simps(1))
next
  case (Cons p ps)
  show ?case
  proof (cases "p = 0")
    case True
    with Cons show ?thesis by simp
  next
    case False
    then obtain r ss where p: "mg_heap m p = Some (r, ss)" using Cons.prems by auto
    let ?m1 = "m\<lparr>mg_heap := (mg_heap m)(p \<mapsto> (r, SendPacket net packet ss))\<rparr>"
    have "\<forall>q \<in> set ps. q = 0 \<or> mg_heap ?m1 q \<noteq> None" using Cons.prems by simp
    from Cons.IH [OF this] Cons.IH [of m] Cons.prems False p show ?thesis
      by (auto simp: deref_def on_session_def)
  qed
qed

lemma SendServerMessage_alive:
  "mgr_alive m \<Longrightarrow> \<exists>h. SendServerMessage cf type t 0 m = Inr (m\<lparr>mg_heap := h\<rparr>)"
  unfolding SendServerMessage_def SendGlobalMessage_def Let_def
  by (simp add: mgr_alive_def tell_sessions_alive)

lemma ShutdownMsg_alive:
  assumes "mgr_alive m"
  shows "\<exists>h. ShutdownMsg cf t msk shw 0 m = Inr (m\<lparr>mg_heap := h\<rparr>)"
proof -
  have "m = m\<lparr>mg_heap := mg_heap m\<rparr>" by simp
  then have "\<exists>h. Inr m = (Inr (m\<lparr>mg_heap := h\<rparr>) :: mgr_error + 'a mgr)" by metis
  with SendServerMessage_alive [OF assms, of cf] show ?thesis by (simp add: ShutdownMsg_def)
qed

lemma ShutdownMsg_idle: "msk AND SHUTDOWN_MASK_IDLE \<noteq> 0 \<Longrightarrow> ShutdownMsg cf t msk shw player m = Inr m"
  by (simp add: ShutdownMsg_def)

section \<open>One update\<close>

text \<open>The countdown of a halt leaves everything else as it is.\<close>

lemma halt_tick_frame:
  "\<exists>lg'. halt_tick e lg = Inr lg' \<and> lg_gameTime lg' = lg_gameTime lg \<and> lg_stopEvent lg' = lg_stopEvent lg \<and>
     lg_ExitCode lg' = lg_ExitCode lg \<and> lg_ShutdownTimer lg' = lg_ShutdownTimer lg \<and>
     lg_ShutdownMask lg' = lg_ShutdownMask lg \<and> lg_mgr lg' = lg_mgr lg"
  by (simp add: halt_tick_def on_mgr_def HaltMsg_def)

lemma shutdown_tick_stopped: "lg_stopEvent lg \<Longrightarrow> shutdown_tick cf e lg = Inr lg"
  by (simp add: shutdown_tick_def)

lemma shutdown_tick_counts:
  assumes "\<not> lg_stopEvent lg" and "0 < lg_ShutdownTimer lg" and "lg_ShutdownMask lg AND SHUTDOWN_MASK_IDLE = 0"
    and "mgr_alive (lg_mgr lg)"
  shows "\<exists>lg'. shutdown_tick cf e lg = Inr lg' \<and> lg_gameTime lg' = lg_gameTime lg \<and> lg_ExitCode lg' = lg_ExitCode lg \<and>
    (if lg_ShutdownTimer lg \<le> e then lg_stopEvent lg'
     else \<not> lg_stopEvent lg' \<and> lg_ShutdownTimer lg' = lg_ShutdownTimer lg - e \<and> lg_ShutdownMask lg' = lg_ShutdownMask lg)"
proof -
  obtain h where "ShutdownMsg cf (lg_ShutdownTimer lg - e) (lg_ShutdownMask lg) False 0 (lg_mgr lg) = Inr ((lg_mgr lg)\<lparr>mg_heap := h\<rparr>)"
    using ShutdownMsg_alive [OF assms(4)] by blast
  then show ?thesis
    using assms by (auto simp: shutdown_tick_def on_mgr_def nobody_left_def word_gt_0 Let_def)
qed

lemma UpdateGameTime_stopped:
  assumes "lg_stopEvent lg"
  shows "\<exists>lg'. UpdateGameTime cf t lg = Inr lg' \<and> lg_stopEvent lg' \<and> lg_ExitCode lg' = lg_ExitCode lg"
proof -
  obtain lg' where "halt_tick (word_of_int (t - lg_gameTime lg)) (lg\<lparr>lg_gameTime := t\<rparr>) = Inr lg'"
    "lg_stopEvent lg'" "lg_ExitCode lg' = lg_ExitCode lg"
    using halt_tick_frame [of "word_of_int (t - lg_gameTime lg)" "lg\<lparr>lg_gameTime := t\<rparr>"] assms by auto
  then show ?thesis by (simp add: UpdateGameTime_def shutdown_tick_stopped)
qed

lemma UpdateGameTime_counts:
  assumes "\<not> lg_stopEvent lg" and "0 < lg_ShutdownTimer lg" and "lg_ShutdownMask lg AND SHUTDOWN_MASK_IDLE = 0"
    and "mgr_alive (lg_mgr lg)" and "e = word_of_int (t - lg_gameTime lg)"
  shows "\<exists>lg'. UpdateGameTime cf t lg = Inr lg' \<and> lg_gameTime lg' = t \<and> lg_ExitCode lg' = lg_ExitCode lg \<and>
    (if lg_ShutdownTimer lg \<le> e then lg_stopEvent lg'
     else \<not> lg_stopEvent lg' \<and> lg_ShutdownTimer lg' = lg_ShutdownTimer lg - e \<and> lg_ShutdownMask lg' = lg_ShutdownMask lg)"
proof -
  obtain lg1 where h: "halt_tick e (lg\<lparr>lg_gameTime := t\<rparr>) = Inr lg1" "lg_gameTime lg1 = t" "lg_stopEvent lg1 = lg_stopEvent lg"
    "lg_ExitCode lg1 = lg_ExitCode lg" "lg_ShutdownTimer lg1 = lg_ShutdownTimer lg"
    "lg_ShutdownMask lg1 = lg_ShutdownMask lg" "lg_mgr lg1 = lg_mgr lg"
    using halt_tick_frame [of e "lg\<lparr>lg_gameTime := t\<rparr>"] by auto
  have upd: "UpdateGameTime cf t lg = shutdown_tick cf e lg1" unfolding UpdateGameTime_def Let_def assms(5) [symmetric] h(1) by simp
  show ?thesis using shutdown_tick_counts [of lg1 cf e] assms(1-4) unfolding upd h by blast
qed

section \<open>The countdown\<close>

lemma ticks_stopped: "lg_stopEvent lg \<Longrightarrow> \<exists>lg'. ticks cf ts lg = Inr lg' \<and> lg_stopEvent lg' \<and> lg_ExitCode lg' = lg_ExitCode lg"
proof (induction ts arbitrary: lg)
  case (Cons t ts)
  obtain lg1 where "UpdateGameTime cf (fst t) (lg\<lparr>lg_mgr := snd t\<rparr>) = Inr lg1" "lg_stopEvent lg1" "lg_ExitCode lg1 = lg_ExitCode lg"
    using UpdateGameTime_stopped [of "lg\<lparr>lg_mgr := snd t\<rparr>" cf "fst t"] Cons.prems by auto
  with Cons.IH [of lg1] show ?case by simp
qed simp

lemma unat_elapsed: "0 \<le> (d :: int) \<Longrightarrow> d < 2 ^ 32 \<Longrightarrow> int (unat (word_of_int d :: u32)) = d"
  by (simp add: unsigned_of_int take_bit_int_eq_self)

lemma sorted_last: "sorted (x # xs) \<Longrightarrow> x \<le> last (x # xs)"
  by auto

lemma seconds_left:
  fixes T e :: u32
  assumes "\<not> T \<le> e" and "int (unat e) = d"
  shows "0 < T - e" and "int (unat (T - e)) = int (unat T) - d" and "d < int (unat T)"
proof -
  show "d < int (unat T)" using assms unfolding word_le_nat_alt by linarith
qed (use assms in \<open>simp_all add: word_less_nat_alt unat_sub word_le_nat_alt\<close>)

lemma ticks_count:
  assumes "\<not> lg_stopEvent lg" and "0 < lg_ShutdownTimer lg" and "lg_ShutdownMask lg AND SHUTDOWN_MASK_IDLE = 0"
    and "\<forall>t \<in> set ts. mgr_alive (snd t)" and "sorted (lg_gameTime lg # map fst ts)"
    and "last (lg_gameTime lg # map fst ts) - lg_gameTime lg < 2 ^ 32"
  shows "\<exists>lg'. ticks cf ts lg = Inr lg' \<and> lg_ExitCode lg' = lg_ExitCode lg \<and>
    (lg_stopEvent lg' \<longleftrightarrow> int (unat (lg_ShutdownTimer lg)) \<le> last (lg_gameTime lg # map fst ts) - lg_gameTime lg)"
  using assms
proof (induction ts arbitrary: lg)
  case Nil
  then show ?case by (simp add: word_gt_0 uint_0_iff)
next
  case (Cons t ts)
  let ?T = "lg_ShutdownTimer lg"
  define e :: u32 where "e = word_of_int (fst t - lg_gameTime lg)"
  define l where "l = last (fst t # map fst ts)"
  have le: "lg_gameTime lg \<le> fst t" "fst t \<le> l"
    using Cons.prems(5) sorted_last [of "fst t" "map fst ts"] by (auto simp: l_def)
  have l: "l - lg_gameTime lg < 2 ^ 32" using Cons.prems(6) by (simp add: l_def)
  have ue: "int (unat e) = fst t - lg_gameTime lg" unfolding e_def by (rule unat_elapsed) (use le l in auto)
  obtain lg1 where u: "UpdateGameTime cf (fst t) (lg\<lparr>lg_mgr := snd t\<rparr>) = Inr lg1" "lg_gameTime lg1 = fst t"
    "lg_ExitCode lg1 = lg_ExitCode lg"
    "if ?T \<le> e then lg_stopEvent lg1
     else \<not> lg_stopEvent lg1 \<and> lg_ShutdownTimer lg1 = ?T - e \<and> lg_ShutdownMask lg1 = lg_ShutdownMask lg"
    using UpdateGameTime_counts [of "lg\<lparr>lg_mgr := snd t\<rparr>" e "fst t" cf] Cons.prems by (auto simp: e_def)
  show ?case
  proof (cases "?T \<le> e")
    case True
    then have "int (unat ?T) \<le> int (unat e)" by (simp only: word_le_nat_alt of_nat_le_iff)
    then have "int (unat ?T) \<le> l - lg_gameTime lg" unfolding ue using le by linarith
    with u True ticks_stopped [of lg1 cf ts] show ?thesis by (auto simp: l_def)
  next
    case False
    note T = seconds_left [OF False ue]
    have "\<exists>lg'. ticks cf ts lg1 = Inr lg' \<and> lg_ExitCode lg' = lg_ExitCode lg1 \<and>
      (lg_stopEvent lg' \<longleftrightarrow> int (unat (lg_ShutdownTimer lg1)) \<le> last (lg_gameTime lg1 # map fst ts) - lg_gameTime lg1)"
      by (rule Cons.IH) (use Cons.prems u False T le l in \<open>auto simp: l_def\<close>)
    with u False T show ?thesis by (auto simp: l_def)
  qed
qed

section \<open>Shutdown and halt, from the command to the stop\<close>

text \<open>
  C31: A shutdown is on time. When the proxy is not stopping yet, a shutdown that does not wait for an idle
  proxy is ordered, and its clock does not run backwards, then no update fails, the updates stop the proxy
  exactly when the seconds ordered have passed since the order, no matter how the updates are spread over
  that time or which of them are missed, and the process ends with the exit code of the order.
\<close>

theorem shutdown_on_time:
  assumes "\<not> lg_stopEvent lg0" and "options AND SHUTDOWN_MASK_IDLE = 0" and "mgr_alive (lg_mgr lg0)"
    and "\<forall>t \<in> set ts. mgr_alive (snd t)" and "sorted (lg_gameTime lg0 # map fst ts)"
    and "last (lg_gameTime lg0 # map fst ts) - lg_gameTime lg0 < 2 ^ 32"
  shows "\<exists>lg lg'. ShutdownServ cf time options exitcode lg0 = Inr lg \<and> ticks cf ts lg = Inr lg' \<and>
    lg_ExitCode lg' = exitcode \<and>
    (lg_stopEvent lg' \<longleftrightarrow> int (unat time) \<le> last (lg_gameTime lg0 # map fst ts) - lg_gameTime lg0)"
proof (cases "time = 0")
  case True
  have "lg_gameTime lg0 \<le> last (lg_gameTime lg0 # map fst ts)" using assms(5) by (rule sorted_last)
  with True assms(1,2) ticks_stopped [of "lg0\<lparr>lg_ShutdownMask := options, lg_ExitCode := exitcode, lg_stopEvent := True\<rparr>" cf ts]
  show ?thesis by (auto simp: ShutdownServ_def nobody_left_def)
next
  case False
  obtain h where "ShutdownMsg cf time options True 0 (lg_mgr lg0) = Inr ((lg_mgr lg0)\<lparr>mg_heap := h\<rparr>)"
    using ShutdownMsg_alive [OF assms(3)] by blast
  with False assms(1) have s: "ShutdownServ cf time options exitcode lg0 = Inr (lg0\<lparr>lg_ShutdownMask := options, lg_ExitCode := exitcode,
      lg_ShutdownTimer := time, lg_mgr := (lg_mgr lg0)\<lparr>mg_heap := h\<rparr>\<rparr>)" (is "_ = Inr ?lg")
    by (simp add: ShutdownServ_def on_mgr_def Let_def)
  have "\<exists>lg'. ticks cf ts ?lg = Inr lg' \<and> lg_ExitCode lg' = lg_ExitCode ?lg \<and>
      (lg_stopEvent lg' \<longleftrightarrow> int (unat (lg_ShutdownTimer ?lg)) \<le> last (lg_gameTime ?lg # map fst ts) - lg_gameTime ?lg)"
    by (rule ticks_count) (use False assms in \<open>auto simp: word_gt_0\<close>)
  with s show ?thesis by simp
qed

lemma halt_is_idle: "SHUTDOWN_MASK_HALT AND SHUTDOWN_MASK_IDLE \<noteq> 0"
  by (simp add: shutdown_masks)

lemma shutdown_tick_busy:
  assumes "lg_ShutdownMask lg = SHUTDOWN_MASK_HALT" and "\<not> lg_stopEvent lg" and "\<not> nobody_left SHUTDOWN_MASK_HALT (lg_mgr lg)"
  shows "\<exists>lg'. shutdown_tick cf e lg = Inr lg' \<and> lg_gameTime lg' = lg_gameTime lg \<and> \<not> lg_stopEvent lg' \<and>
    lg_ShutdownMask lg' = SHUTDOWN_MASK_HALT \<and> lg_mgr lg' = lg_mgr lg \<and> lg_haltEvent lg' = lg_haltEvent lg \<and>
    lg_HaltTimer lg' = lg_HaltTimer lg"
  using assms ShutdownMsg_idle [OF halt_is_idle, of cf] by (simp add: shutdown_tick_def on_mgr_def Let_def)

text \<open>What a halt leaves behind at each update: nothing was sent, and a pending shutdown is still pending.\<close>

lemma halt_tick_counts:
  "\<exists>lg'. halt_tick e (lg\<lparr>lg_gameTime := t\<rparr>) = Inr lg' \<and>
     (if \<not> lg_haltEvent lg \<and> 0 < lg_HaltTimer lg \<and> lg_HaltTimer lg \<le> e then lg_haltEvent lg'
      else lg_haltEvent lg' = lg_haltEvent lg \<and>
        (\<not> lg_haltEvent lg \<longrightarrow> lg_HaltTimer lg' = (if lg_HaltTimer lg = 0 then 0 else lg_HaltTimer lg - e)))"
proof (cases "e = 0")
  case True
  then show ?thesis by (simp add: halt_tick_def word_gt_0)
next
  case False
  then show ?thesis by (simp add: halt_tick_def on_mgr_def HaltMsg_def Let_def word_gt_0)
qed

lemma UpdateGameTime_halted:
  assumes "lg_ShutdownMask lg = SHUTDOWN_MASK_HALT" and "\<not> lg_stopEvent lg"
    and "0 < length (mg_sessions (lg_mgr lg))" and "length (mg_sessions (lg_mgr lg)) < 2 ^ 32"
    and "e = word_of_int (t - lg_gameTime lg)"
  shows "\<exists>lg'. UpdateGameTime cf t lg = Inr lg' \<and> lg_gameTime lg' = t \<and> \<not> lg_stopEvent lg' \<and>
    lg_ShutdownMask lg' = SHUTDOWN_MASK_HALT \<and> lg_mgr lg' = lg_mgr lg \<and>
    (if \<not> lg_haltEvent lg \<and> 0 < lg_HaltTimer lg \<and> lg_HaltTimer lg \<le> e then lg_haltEvent lg'
     else lg_haltEvent lg' = lg_haltEvent lg \<and>
       (\<not> lg_haltEvent lg \<longrightarrow> lg_HaltTimer lg' = (if lg_HaltTimer lg = 0 then 0 else lg_HaltTimer lg - e)))"
proof -
  obtain lg1 where h: "halt_tick e (lg\<lparr>lg_gameTime := t\<rparr>) = Inr lg1" "lg_gameTime lg1 = t" "\<not> lg_stopEvent lg1"
    "lg_ShutdownMask lg1 = SHUTDOWN_MASK_HALT" "lg_mgr lg1 = lg_mgr lg"
    "if \<not> lg_haltEvent lg \<and> 0 < lg_HaltTimer lg \<and> lg_HaltTimer lg \<le> e then lg_haltEvent lg1
     else lg_haltEvent lg1 = lg_haltEvent lg \<and>
       (\<not> lg_haltEvent lg \<longrightarrow> lg_HaltTimer lg1 = (if lg_HaltTimer lg = 0 then 0 else lg_HaltTimer lg - e))"
    using halt_tick_frame [of e "lg\<lparr>lg_gameTime := t\<rparr>"] halt_tick_counts [where e = e and lg = lg and t = t] assms(1,2)
    by auto
  have busy: "\<not> nobody_left SHUTDOWN_MASK_HALT (lg_mgr lg)"
    using assms(3,4) by (simp add: nobody_left_def GetActiveAndQueuedSessionCount_def shutdown_masks word_of_nat_eq_0_iff nat_dvd_not_less)
  have upd: "UpdateGameTime cf t lg = shutdown_tick cf e lg1" unfolding UpdateGameTime_def Let_def assms(5) [symmetric] h(1) by simp
  obtain lg2 where w: "shutdown_tick cf e lg1 = Inr lg2" "lg_gameTime lg2 = lg_gameTime lg1" "\<not> lg_stopEvent lg2"
    "lg_ShutdownMask lg2 = SHUTDOWN_MASK_HALT" "lg_mgr lg2 = lg_mgr lg1" "lg_haltEvent lg2 = lg_haltEvent lg1"
    "lg_HaltTimer lg2 = lg_HaltTimer lg1"
    using shutdown_tick_busy [OF h(4) h(3), of cf e] busy h(5) by auto
  show ?thesis unfolding upd by (rule exI [of _ lg2]) (use h(2,5,6) w in \<open>simp only: simp_thms\<close>)
qed

lemma ticks_halted:
  assumes "lg_ShutdownMask lg = SHUTDOWN_MASK_HALT" and "\<not> lg_stopEvent lg"
    and "\<forall>t \<in> set ts. 0 < length (mg_sessions (snd t)) \<and> length (mg_sessions (snd t)) < 2 ^ 32"
    and "sorted (lg_gameTime lg # map fst ts)" and "last (lg_gameTime lg # map fst ts) - lg_gameTime lg < 2 ^ 32"
    and "lg_haltEvent lg \<or> 0 < lg_HaltTimer lg"
  shows "\<exists>lg'. ticks cf ts lg = Inr lg' \<and> \<not> lg_stopEvent lg' \<and> lg_mgr lg' = last (lg_mgr lg # map snd ts) \<and>
    (lg_haltEvent lg' \<longleftrightarrow> lg_haltEvent lg \<or>
       int (unat (lg_HaltTimer lg)) \<le> last (lg_gameTime lg # map fst ts) - lg_gameTime lg)"
  using assms
proof (induction ts arbitrary: lg)
  case Nil
  then show ?case by (auto simp: word_gt_0 uint_0_iff)
next
  case (Cons t ts)
  let ?T = "lg_HaltTimer lg"
  define e :: u32 where "e = word_of_int (fst t - lg_gameTime lg)"
  define l where "l = last (fst t # map fst ts)"
  have le: "lg_gameTime lg \<le> fst t" "fst t \<le> l"
    using Cons.prems(4) sorted_last [of "fst t" "map fst ts"] by (auto simp: l_def)
  have l: "l - lg_gameTime lg < 2 ^ 32" using Cons.prems(5) by (simp add: l_def)
  have ue: "int (unat e) = fst t - lg_gameTime lg" unfolding e_def by (rule unat_elapsed) (use le l in auto)
  obtain lg1 where u: "UpdateGameTime cf (fst t) (lg\<lparr>lg_mgr := snd t\<rparr>) = Inr lg1" "lg_gameTime lg1 = fst t"
    "\<not> lg_stopEvent lg1" "lg_ShutdownMask lg1 = SHUTDOWN_MASK_HALT" "lg_mgr lg1 = snd t"
    "if \<not> lg_haltEvent lg \<and> 0 < ?T \<and> ?T \<le> e then lg_haltEvent lg1
     else lg_haltEvent lg1 = lg_haltEvent lg \<and> (\<not> lg_haltEvent lg \<longrightarrow> lg_HaltTimer lg1 = (if ?T = 0 then 0 else ?T - e))"
    using UpdateGameTime_halted [of "lg\<lparr>lg_mgr := snd t\<rparr>" e "fst t" cf] Cons.prems by (auto simp: e_def)
  have rest: "lg_haltEvent lg1 \<longleftrightarrow> lg_haltEvent lg \<or> ?T \<le> e"
    "\<not> lg_haltEvent lg1 \<Longrightarrow> 0 < lg_HaltTimer lg1 \<and> int (unat (lg_HaltTimer lg1)) = int (unat ?T) - (fst t - lg_gameTime lg)"
    using u(6) Cons.prems(6) seconds_left [OF _ ue, of ?T] by (auto split: if_splits)
  have "\<exists>lg'. ticks cf ts lg1 = Inr lg' \<and> \<not> lg_stopEvent lg' \<and> lg_mgr lg' = last (lg_mgr lg1 # map snd ts) \<and>
    (lg_haltEvent lg' \<longleftrightarrow> lg_haltEvent lg1 \<or>
       int (unat (lg_HaltTimer lg1)) \<le> last (lg_gameTime lg1 # map fst ts) - lg_gameTime lg1)"
    by (rule Cons.IH) (use Cons.prems u(2-5) rest le l in \<open>auto simp: l_def\<close>)
  moreover have "int (unat ?T) \<le> l - lg_gameTime lg" if "?T \<le> e"
  proof -
    have "int (unat ?T) \<le> int (unat e)" using that by (simp only: word_le_nat_alt of_nat_le_iff)
    then show ?thesis unfolding ue using le by linarith
  qed
  ultimately show ?case using u(1-5) rest seconds_left(3) [OF _ ue, of ?T] by (cases "lg_haltEvent lg1"; cases "?T \<le> e") (auto simp: l_def)
qed

text \<open>
  C32: A halt is silent and holds a shutdown back. The halt command sets the mask that stands for a halt,
  in which the bit of an idle shutdown is set; so neither the order nor any later update sends a session
  anything, and as long as sessions are there, a shutdown that was counting down when the halt came
  never stops the proxy, although the halt itself is on time.
\<close>

theorem halt_holds_shutdown:
  assumes "\<not> lg_stopEvent lg0" and "\<not> lg_haltEvent lg0" and "lg_mgr lg0 = m0"
    and "\<forall>t \<in> set ts. 0 < length (mg_sessions (snd t)) \<and> length (mg_sessions (snd t)) < 2 ^ 32"
    and "sorted (lg_gameTime lg0 # map fst ts)" and "last (lg_gameTime lg0 # map fst ts) - lg_gameTime lg0 < 2 ^ 32"
  shows "\<exists>lg lg'. HaltServ cf time SHUTDOWN_MASK_HALT lg0 = Inr lg \<and> ticks cf ts lg = Inr lg' \<and>
    lg_mgr lg = m0 \<and> lg_mgr lg' = last (m0 # map snd ts) \<and> \<not> lg_stopEvent lg' \<and>
    (lg_haltEvent lg' \<longleftrightarrow> int (unat time) \<le> last (lg_gameTime lg0 # map fst ts) - lg_gameTime lg0)"
proof -
  obtain lg where h: "HaltServ cf time SHUTDOWN_MASK_HALT lg0 = Inr lg" "lg_mgr lg = m0" "\<not> lg_stopEvent lg"
    "lg_ShutdownMask lg = SHUTDOWN_MASK_HALT" "lg_gameTime lg = lg_gameTime lg0"
    "lg_haltEvent lg \<longleftrightarrow> time = 0" "time \<noteq> 0 \<Longrightarrow> lg_HaltTimer lg = time"
    using assms(1-3) ShutdownMsg_idle [OF halt_is_idle, of cf] by (cases "time = 0") (auto simp: HaltServ_def on_mgr_def Let_def)
  have "\<exists>lg'. ticks cf ts lg = Inr lg' \<and> \<not> lg_stopEvent lg' \<and> lg_mgr lg' = last (lg_mgr lg # map snd ts) \<and>
    (lg_haltEvent lg' \<longleftrightarrow> lg_haltEvent lg \<or>
       int (unat (lg_HaltTimer lg)) \<le> last (lg_gameTime lg # map fst ts) - lg_gameTime lg)"
    by (rule ticks_halted) (use h assms in \<open>auto simp: word_gt_0\<close>)
  moreover have "lg_gameTime lg0 \<le> last (lg_gameTime lg0 # map fst ts)" using assms(5) by (rule sorted_last)
  ultimately show ?thesis using h by (cases "time = 0") auto
qed

section \<open>The command\<close>

lemma digits_token:
  "takeWhile (\<lambda>c. c \<noteq> 32) (dec_digits n) = dec_digits n"
  "dropWhile (\<lambda>c. c = 32) (dec_digits n @ s) = dec_digits n @ s"
  "takeWhile (\<lambda>c. c \<noteq> 32) (dec_digits n @ 32 # s) = dec_digits n"
proof -
  have d: "\<forall>c \<in> set (dec_digits n). c \<noteq> 32" using dec_digits_all [of n] by (auto simp: list_all_iff is_digit_def)
  then show "takeWhile (\<lambda>c. c \<noteq> 32) (dec_digits n) = dec_digits n" "takeWhile (\<lambda>c. c \<noteq> 32) (dec_digits n @ 32 # s) = dec_digits n"
    by (auto simp: takeWhile_append2)
  obtain c cs where c: "dec_digits n = c # cs" using dec_digits_all [of n] by (cases "dec_digits n") auto
  with d show "dropWhile (\<lambda>c. c = 32) (dec_digits n @ s) = dec_digits n @ s" by simp
qed

lemma atoi_digits: "n < 2 ^ 31 \<Longrightarrow> atoi (dec_digits n) = int n"
proof -
  assume n: "n < 2 ^ 31"
  obtain c cs where c: "dec_digits n = c # cs" "is_digit c" using dec_digits_all [of n] by (cases "dec_digits n") auto
  then have "dropWhile is_space (dec_digits n) = dec_digits n" by (auto simp: is_space_def is_digit_def word_le_nat_alt)
  moreover have "atol (dec_digits n) = int n" by (rule atol_dec_digits) (use n in simp)
  moreover have "sint (word_of_nat n :: u32) = int n" using n by (simp add: signed_of_nat signed_take_bit_int_eq_self)
  ultimately show ?thesis by (simp add: atoi_def)
qed

lemma zero_text: "dec_digits n = [48] \<longleftrightarrow> n = 0"
  using dec_digits_all [of n] by (auto simp: dec_value_def dec_digits.simps [of 0])

text \<open>The command with a time and an exit code orders the shutdown it says.\<close>

lemma command_orders_shutdown:
  assumes "t < 2 ^ 31" and "code \<le> 125"
  shows "HandleServerShutDownCommand cf (dec_digits t @ [32] @ dec_digits code) lg =
    rbind (ShutdownServ cf (word_of_nat t) 0 (word_of_nat code) lg) (\<lambda>lg. Inr (True, lg))"
  using assms dec_digits_all [of t] dec_digits_all [of code]
  by (auto simp: HandleServerShutDownCommand_def digits_token atoi_digits zero_text Let_def)

section \<open>A clock that is set back\<close>

text \<open>
  If the clock goes back by a second between two updates, the difference wraps to almost \<open>2 ^ 32\<close> seconds,
  and a pending shutdown, however far away, stops the proxy at once.
\<close>

lemma clock_set_back_stops:
  assumes "\<not> lg_stopEvent lg" and "0 < lg_ShutdownTimer lg" and "lg_ShutdownMask lg AND SHUTDOWN_MASK_IDLE = 0"
    and "mgr_alive (lg_mgr lg)"
  shows "\<exists>lg'. UpdateGameTime cf (lg_gameTime lg - 1) lg = Inr lg' \<and> lg_stopEvent lg'"
proof -
  have "lg_ShutdownTimer lg \<le> word_of_int (lg_gameTime lg - 1 - lg_gameTime lg)" by simp
  with UpdateGameTime_counts [OF assms refl, of cf "lg_gameTime lg - 1"] show ?thesis by auto
qed

section \<open>A concrete proxy\<close>

definition example_logon :: "u32 \<Rightarrow> unit logon" where
  "example_logon timer = \<lparr>lg_gameTime = 100, lg_stopEvent = False, lg_haltEvent = False, lg_ExitCode = 0, lg_ShutdownTimer = timer,
     lg_ShutdownMask = 0, lg_HaltTimer = 0, lg_flagged = [], lg_mgr = example_waiting\<rparr>"

lemma example_waiting_alive: "mgr_alive example_waiting"
  by (simp add: mgr_alive_def example_waiting_def)

theorem shutdown_on_time_witness:
  "\<exists>lg lg'. ShutdownServ example_conf 10 0 2 (example_logon 0) = Inr lg \<and>
     ticks example_conf [(103, example_waiting), (112, example_waiting)] lg = Inr lg' \<and> lg_ExitCode lg' = 2 \<and> lg_stopEvent lg'"
  using shutdown_on_time [of "example_logon 0" 0 "[(103, example_waiting), (112, example_waiting)]" example_conf 10 2]
    example_waiting_alive
  by (simp add: example_logon_def)

theorem halt_holds_shutdown_witness:
  "\<exists>lg lg'. HaltServ example_conf 5 SHUTDOWN_MASK_HALT (example_logon 3) = Inr lg \<and>
     ticks example_conf [(103, example_waiting), (110, example_waiting)] lg = Inr lg' \<and>
     lg_mgr lg' = example_waiting \<and> \<not> lg_stopEvent lg' \<and> lg_haltEvent lg'"
  using halt_holds_shutdown [of "example_logon 3" example_waiting "[(103, example_waiting), (110, example_waiting)]" example_conf 5]
  by (auto simp: example_logon_def example_waiting_def)

end
