(* ===== verification/Channel.thy ===== *)
theory Channel
  imports SessionMgr StdMap
begin

text \<open>
  One chat channel of the proxy, \<open>shade/Chat/Channel.h\<close> and \<open>Channel.cpp\<close>: its members with their
  flags, its ban list, password and owner. An operation returns the channel and what it caused, in order:
  the packets sent to single players, the channel being added to or taken off a player's own list,
  and the writes to the database.

  What the channel asks of the rest is collected in a record: the players online (in the order in which
  the object manager's map iterates), the settings, the built-in channels and the stored rows.
\<close>

section \<open>The world around a channel\<close>

record chat_player =
  cp_name :: bytes
  cp_security :: u32
  cp_team :: u32
  cp_ignores :: "u32 list"
  cp_gm_visible :: bool
  cp_hidden_from :: "u64 list"
  cp_chat_tag :: u8

record chat_world =
  cw_players :: "(u64 \<times> chat_player) list"
  cw_db_name :: "u32 \<Rightarrow> bytes option"
  cw_two_side :: bool
  cw_silent_gm :: bool
  cw_restricted_lfg :: bool
  cw_preserve :: bool
  cw_gm_in_who :: u32
  cw_builtin :: "u32 \<Rightarrow> u32 option"
  cw_stored :: "bytes \<Rightarrow> u32 \<Rightarrow> (bool \<times> bool \<times> bytes \<times> bytes option) option"

definition FindPlayer :: "chat_world \<Rightarrow> u64 \<Rightarrow> chat_player option" where
  "FindPlayer w p = map_of (cw_players w) p"

text \<open>The first player whose name is the same in lower case: its identifier and itself.\<close>

definition FindPlayerByName :: "chat_world \<Rightarrow> bytes \<Rightarrow> (u64 \<times> chat_player) option" where
  "FindPlayerByName w name = find (\<lambda>p. map to_lower (cp_name (snd p)) = map to_lower name) (cw_players w)"

definition GetPlayerNameByGUID :: "chat_world \<Rightarrow> u64 \<Rightarrow> bytes option" where
  "GetPlayerNameByGUID w guid =
     (case FindPlayer w guid of Some pl \<Rightarrow> Some (cp_name pl) | None \<Rightarrow> cw_db_name w (GUID_LOPART guid))"

definition HasIgnore :: "u32 \<Rightarrow> chat_player \<Rightarrow> bool" where
  "HasIgnore guid pl \<longleftrightarrow> guid \<in> set (cp_ignores pl)"

text \<open>\<open>Accounts/AccountMgr.cpp\<close>, beside the \<open>IsVIPorPlayer\<close> the session manager asks.\<close>

definition IsGMAccount :: "u32 \<Rightarrow> bool" where
  "IsGMAccount gmlevel \<longleftrightarrow> 2 \<le> gmlevel \<and> gmlevel \<le> 4"

definition security_of :: "chat_world \<Rightarrow> u64 \<Rightarrow> u32" where
  "security_of w p = (case FindPlayer w p of Some pl \<Rightarrow> cp_security pl | None \<Rightarrow> 0)"

datatype chan_event =
    SendTo u64 wpacket
  | JoinedChannel u64
  | LeftChannel u64
  | UpdChannel bool bool bytes bytes bytes u32
  | InsChannel bytes u32

section \<open>Members and channels\<close>

definition MEMBER_FLAG_NONE :: u8 where "MEMBER_FLAG_NONE = 0x00"
definition MEMBER_FLAG_OWNER :: u8 where "MEMBER_FLAG_OWNER = 0x01"
definition MEMBER_FLAG_MODERATOR :: u8 where "MEMBER_FLAG_MODERATOR = 0x02"
definition MEMBER_FLAG_MUTED :: u8 where "MEMBER_FLAG_MUTED = 0x08"

definition CHANNEL_FLAG_CUSTOM :: u8 where "CHANNEL_FLAG_CUSTOM = 0x01"
definition CHANNEL_FLAG_TRADE :: u8 where "CHANNEL_FLAG_TRADE = 0x04"
definition CHANNEL_FLAG_NOT_LFG :: u8 where "CHANNEL_FLAG_NOT_LFG = 0x08"
definition CHANNEL_FLAG_GENERAL :: u8 where "CHANNEL_FLAG_GENERAL = 0x10"
definition CHANNEL_FLAG_CITY :: u8 where "CHANNEL_FLAG_CITY = 0x20"
definition CHANNEL_FLAG_LFG :: u8 where "CHANNEL_FLAG_LFG = 0x40"

definition CHANNEL_DBC_FLAG_TRADE :: u32 where "CHANNEL_DBC_FLAG_TRADE = 0x00008"
definition CHANNEL_DBC_FLAG_CITY_ONLY2 :: u32 where "CHANNEL_DBC_FLAG_CITY_ONLY2 = 0x00020"
definition CHANNEL_DBC_FLAG_LFG :: u32 where "CHANNEL_DBC_FLAG_LFG = 0x40000"

lemmas chan_flags = MEMBER_FLAG_NONE_def MEMBER_FLAG_OWNER_def MEMBER_FLAG_MODERATOR_def MEMBER_FLAG_MUTED_def
  CHANNEL_FLAG_CUSTOM_def CHANNEL_FLAG_TRADE_def CHANNEL_FLAG_NOT_LFG_def CHANNEL_FLAG_GENERAL_def
  CHANNEL_FLAG_CITY_def CHANNEL_FLAG_LFG_def CHANNEL_DBC_FLAG_TRADE_def CHANNEL_DBC_FLAG_CITY_ONLY2_def
  CHANNEL_DBC_FLAG_LFG_def

record player_info =
  pi_player :: u64
  pi_flags :: u8

record channel =
  ch_players :: "(u64 \<times> player_info) list"
  ch_banned :: "u64 list"
  ch_announce :: bool
  ch_ownership :: bool
  ch_name :: bytes
  ch_password :: bytes
  ch_flags :: u8
  ch_channelId :: u32
  ch_ownerGUID :: u64
  ch_IsSaved :: bool
  ch_Team :: u32

unbundle bit_operations_syntax

definition IsOwner :: "player_info \<Rightarrow> bool" where
  "IsOwner i \<longleftrightarrow> pi_flags i AND MEMBER_FLAG_OWNER \<noteq> 0"

definition IsModerator :: "player_info \<Rightarrow> bool" where
  "IsModerator i \<longleftrightarrow> pi_flags i AND MEMBER_FLAG_MODERATOR \<noteq> 0"

definition IsMuted :: "player_info \<Rightarrow> bool" where
  "IsMuted i \<longleftrightarrow> pi_flags i AND MEMBER_FLAG_MUTED \<noteq> 0"

definition put_flag :: "u8 \<Rightarrow> bool \<Rightarrow> player_info \<Rightarrow> player_info" where
  "put_flag flag state i = i\<lparr>pi_flags := (if state then pi_flags i OR flag else pi_flags i AND NOT flag)\<rparr>"

definition info_SetOwner :: "bool \<Rightarrow> player_info \<Rightarrow> player_info" where
  "info_SetOwner = put_flag MEMBER_FLAG_OWNER"

definition info_SetModerator :: "bool \<Rightarrow> player_info \<Rightarrow> player_info" where
  "info_SetModerator = put_flag MEMBER_FLAG_MODERATOR"

definition info_SetMuted :: "bool \<Rightarrow> player_info \<Rightarrow> player_info" where
  "info_SetMuted = put_flag MEMBER_FLAG_MUTED"

definition IsOn :: "u64 \<Rightarrow> channel \<Rightarrow> bool" where
  "IsOn who ch \<longleftrightarrow> map_of (ch_players ch) who \<noteq> None"

definition IsBanned :: "u64 \<Rightarrow> channel \<Rightarrow> bool" where
  "IsBanned guid ch \<longleftrightarrow> guid \<in> set (ch_banned ch)"

definition IsConstant :: "channel \<Rightarrow> bool" where
  "IsConstant ch \<longleftrightarrow> ch_channelId ch \<noteq> 0"

definition chan_HasFlag :: "u8 \<Rightarrow> channel \<Rightarrow> bool" where
  "chan_HasFlag flag ch \<longleftrightarrow> ch_flags ch AND flag \<noteq> 0"

definition GetPlayerFlags :: "u64 \<Rightarrow> channel \<Rightarrow> u8" where
  "GetPlayerFlags p ch = (case map_of (ch_players ch) p of None \<Rightarrow> 0 | Some i \<Rightarrow> pi_flags i)"

definition GetNumPlayers :: "channel \<Rightarrow> u32" where
  "GetNumPlayers ch = word_of_nat (length (ch_players ch))"

text \<open>\<open>players[p]\<close>: a missing entry is made, with all fields zero.\<close>

definition info_at :: "u64 \<Rightarrow> channel \<Rightarrow> player_info" where
  "info_at p ch = (case map_of (ch_players ch) p of None \<Rightarrow> \<lparr>pi_player = 0, pi_flags = 0\<rparr> | Some i \<Rightarrow> i)"

definition upd_info :: "(player_info \<Rightarrow> player_info) \<Rightarrow> u64 \<Rightarrow> channel \<Rightarrow> channel" where
  "upd_info f p ch = ch\<lparr>ch_players := om_set p (f (info_at p ch)) (ch_players ch)\<rparr>"

section \<open>Notices\<close>

definition SMSG_CHANNEL_NOTIFY :: u16 where "SMSG_CHANNEL_NOTIFY = 0x099"
definition SMSG_CHANNEL_LIST :: u16 where "SMSG_CHANNEL_LIST = 0x09B"
definition SMSG_CHANNEL_MEMBER_COUNT :: u16 where "SMSG_CHANNEL_MEMBER_COUNT = 0x3D5"
definition SMSG_USERLIST_ADD :: u16 where "SMSG_USERLIST_ADD = 0x3F0"
definition SMSG_USERLIST_REMOVE :: u16 where "SMSG_USERLIST_REMOVE = 0x3F1"
definition SMSG_USERLIST_UPDATE :: u16 where "SMSG_USERLIST_UPDATE = 0x3F2"

definition MakeNotifyPacket :: "channel \<Rightarrow> u8 \<Rightarrow> field list \<Rightarrow> wpacket" where
  "MakeNotifyPacket ch notify_type rest = mk_pkt SMSG_CHANNEL_NOTIFY ([U8 notify_type, Str (ch_name ch)] @ rest)"

text \<open>The bodies of the first two are commented out: the packet stays the default one, with opcode 0.\<close>

definition MakeJoined :: wpacket where "MakeJoined = pkt_new 0"
definition MakeLeft :: wpacket where "MakeLeft = pkt_new 0"
definition MakeYouJoined :: "channel \<Rightarrow> wpacket" where
  "MakeYouJoined ch = MakeNotifyPacket ch 0x02 [U8 (ch_flags ch), U32 (ch_channelId ch), U32 0]"
definition MakeYouLeft :: "channel \<Rightarrow> wpacket" where
  "MakeYouLeft ch = MakeNotifyPacket ch 0x03 [U32 (ch_channelId ch), U8 (if IsConstant ch then 1 else 0)]"
definition MakeWrongPassword :: "channel \<Rightarrow> wpacket" where "MakeWrongPassword ch = MakeNotifyPacket ch 0x04 []"
definition MakeNotMember :: "channel \<Rightarrow> wpacket" where "MakeNotMember ch = MakeNotifyPacket ch 0x05 []"
definition MakeNotModerator :: "channel \<Rightarrow> wpacket" where "MakeNotModerator ch = MakeNotifyPacket ch 0x06 []"
definition MakePasswordChanged :: "channel \<Rightarrow> u64 \<Rightarrow> wpacket" where
  "MakePasswordChanged ch guid = MakeNotifyPacket ch 0x07 [U64 guid]"
definition MakeOwnerChanged :: "channel \<Rightarrow> u64 \<Rightarrow> wpacket" where
  "MakeOwnerChanged ch guid = MakeNotifyPacket ch 0x08 [U64 guid]"
definition MakePlayerNotFound :: "channel \<Rightarrow> bytes \<Rightarrow> wpacket" where
  "MakePlayerNotFound ch name = MakeNotifyPacket ch 0x09 [Str name]"
definition MakeNotOwner :: "channel \<Rightarrow> wpacket" where "MakeNotOwner ch = MakeNotifyPacket ch 0x0A []"

definition MakeChannelOwner :: "chat_world \<Rightarrow> channel \<Rightarrow> wpacket" where
  "MakeChannelOwner w ch =
     (let name = (case GetPlayerNameByGUID w (ch_ownerGUID ch) of
                    Some n \<Rightarrow> if n = [] then ascii ''PLAYER_NOT_FOUND'' else n
                  | None \<Rightarrow> ascii ''PLAYER_NOT_FOUND'')
      in MakeNotifyPacket ch 0x0B [Str (if IsConstant ch \<or> ch_ownerGUID ch = 0 then ascii ''Nobody'' else name)])"

definition MakeModeChange :: "channel \<Rightarrow> u64 \<Rightarrow> u8 \<Rightarrow> wpacket" where
  "MakeModeChange ch guid oldflags = MakeNotifyPacket ch 0x0C [U64 guid, U8 oldflags, U8 (GetPlayerFlags guid ch)]"
definition MakeAnnouncementsOn :: "channel \<Rightarrow> u64 \<Rightarrow> wpacket" where
  "MakeAnnouncementsOn ch guid = MakeNotifyPacket ch 0x0D [U64 guid]"
definition MakeAnnouncementsOff :: "channel \<Rightarrow> u64 \<Rightarrow> wpacket" where
  "MakeAnnouncementsOff ch guid = MakeNotifyPacket ch 0x0E [U64 guid]"
definition MakeMuted :: "channel \<Rightarrow> wpacket" where "MakeMuted ch = MakeNotifyPacket ch 0x11 []"
definition MakePlayerKicked :: "channel \<Rightarrow> u64 \<Rightarrow> u64 \<Rightarrow> wpacket" where
  "MakePlayerKicked ch bad good = MakeNotifyPacket ch 0x12 [U64 bad, U64 good]"
definition MakeBanned :: "channel \<Rightarrow> wpacket" where "MakeBanned ch = MakeNotifyPacket ch 0x13 []"
definition MakePlayerBanned :: "channel \<Rightarrow> u64 \<Rightarrow> u64 \<Rightarrow> wpacket" where
  "MakePlayerBanned ch bad good = MakeNotifyPacket ch 0x14 [U64 bad, U64 good]"
definition MakePlayerUnbanned :: "channel \<Rightarrow> u64 \<Rightarrow> u64 \<Rightarrow> wpacket" where
  "MakePlayerUnbanned ch bad good = MakeNotifyPacket ch 0x15 [U64 bad, U64 good]"
definition MakePlayerAlreadyMember :: "channel \<Rightarrow> u64 \<Rightarrow> wpacket" where
  "MakePlayerAlreadyMember ch guid = MakeNotifyPacket ch 0x17 [U64 guid]"
definition MakeInvite :: "channel \<Rightarrow> u64 \<Rightarrow> wpacket" where
  "MakeInvite ch guid = MakeNotifyPacket ch 0x18 [U64 guid]"
definition MakeInviteWrongFaction :: "channel \<Rightarrow> wpacket" where
  "MakeInviteWrongFaction ch = MakeNotifyPacket ch 0x19 []"
definition MakePlayerInvited :: "channel \<Rightarrow> bytes \<Rightarrow> wpacket" where
  "MakePlayerInvited ch name = MakeNotifyPacket ch 0x1D [Str name]"
definition MakePlayerInviteBanned :: "channel \<Rightarrow> bytes \<Rightarrow> wpacket" where
  "MakePlayerInviteBanned ch name = MakeNotifyPacket ch 0x1E [Str name]"

section \<open>Sending\<close>

definition SendToOne :: "chat_world \<Rightarrow> wpacket \<Rightarrow> u64 \<Rightarrow> chan_event list" where
  "SendToOne w data who = (if FindPlayer w who = None then [] else [SendTo who data])"

text \<open>To all members online; with a sender \<open>p\<close>, to those that do not ignore it.\<close>

definition hears :: "chat_world \<Rightarrow> u64 \<Rightarrow> u64 \<Rightarrow> bool" where
  "hears w p m \<longleftrightarrow> (case FindPlayer w m of None \<Rightarrow> False | Some pl \<Rightarrow> p = 0 \<or> \<not> HasIgnore (GUID_LOPART p) pl)"

definition SendToAll :: "chat_world \<Rightarrow> channel \<Rightarrow> wpacket \<Rightarrow> u64 \<Rightarrow> chan_event list" where
  "SendToAll w ch data p = map (\<lambda>m. SendTo m data) (filter (hears w p) (map fst (ch_players ch)))"

definition SendToAllButOne :: "chat_world \<Rightarrow> channel \<Rightarrow> wpacket \<Rightarrow> u64 \<Rightarrow> chan_event list" where
  "SendToAllButOne w ch data who =
     map (\<lambda>m. SendTo m data) (filter (\<lambda>m. m \<noteq> who \<and> FindPlayer w m \<noteq> None) (map fst (ch_players ch)))"

definition JoinNotify :: "chat_world \<Rightarrow> channel \<Rightarrow> u64 \<Rightarrow> chan_event list" where
  "JoinNotify w ch guid =
     (let fields = [U64 guid, U8 (GetPlayerFlags guid ch), U8 (ch_flags ch), U32 (GetNumPlayers ch), Str (ch_name ch)]
      in if IsConstant ch then SendToAllButOne w ch (mk_pkt SMSG_USERLIST_ADD fields) guid
         else SendToAll w ch (mk_pkt SMSG_USERLIST_UPDATE fields) 0)"

definition LeaveNotify :: "chat_world \<Rightarrow> channel \<Rightarrow> u64 \<Rightarrow> chan_event list" where
  "LeaveNotify w ch guid =
     (let data = mk_pkt SMSG_USERLIST_REMOVE [U64 guid, U8 (ch_flags ch), U32 (GetNumPlayers ch), Str (ch_name ch)]
      in if IsConstant ch then SendToAllButOne w ch data guid else SendToAll w ch data 0)"

section \<open>The stored channel\<close>

definition banlist_text :: "u64 list \<Rightarrow> bytes" where
  "banlist_text banned = concat (map (\<lambda>g. dec_digits (unat g) @ [32]) banned)"

definition UpdateChannelInDB :: "channel \<Rightarrow> chan_event list" where
  "UpdateChannelInDB ch =
     (if ch_IsSaved ch then [UpdChannel (ch_announce ch) (ch_ownership ch) (ch_password ch)
        (banlist_text (ch_banned ch)) (ch_name ch) (ch_Team ch)] else [])"

fun load_banned :: "bytes list \<Rightarrow> u64 list \<Rightarrow> u64 list" where
  "load_banned [] banned = banned"
| "load_banned (t # ts) banned =
     (let banned_guid = word_of_int (atol t)
      in load_banned ts (if banned_guid \<noteq> 0 then insort_insert banned_guid banned else banned))"

definition custom_channel :: "chat_world \<Rightarrow> channel \<Rightarrow> channel \<times> chan_event list" where
  "custom_channel w ch =
     (let ch1 = ch\<lparr>ch_flags := ch_flags ch OR CHANNEL_FLAG_CUSTOM\<rparr>
      in if cw_preserve w then
           (case cw_stored w (ch_name ch1) (ch_Team ch1) of
              Some (announce, ownership, password, banlist) \<Rightarrow>
                (ch1\<lparr>ch_announce := announce, ch_ownership := ownership, ch_password := password,
                   ch_banned := (case banlist of None \<Rightarrow> ch_banned ch1
                     | Some t \<Rightarrow> load_banned (Tokenizer t 32) (ch_banned ch1)), ch_IsSaved := True\<rparr>, [])
            | None \<Rightarrow> (ch1\<lparr>ch_IsSaved := True\<rparr>, [InsChannel (ch_name ch1) (ch_Team ch1)]))
         else (ch1, []))"

definition builtin_flags :: "u32 \<Rightarrow> u8" where
  "builtin_flags f = CHANNEL_FLAG_GENERAL
     OR (if f AND CHANNEL_DBC_FLAG_TRADE \<noteq> 0 then CHANNEL_FLAG_TRADE else 0)
     OR (if f AND CHANNEL_DBC_FLAG_CITY_ONLY2 \<noteq> 0 then CHANNEL_FLAG_CITY else 0)
     OR (if f AND CHANNEL_DBC_FLAG_LFG \<noteq> 0 then CHANNEL_FLAG_LFG else CHANNEL_FLAG_NOT_LFG)"

definition Channel_new :: "chat_world \<Rightarrow> bytes \<Rightarrow> u32 \<Rightarrow> u32 \<Rightarrow> channel \<times> chan_event list" where
  "Channel_new w name channel_id Team =
     (let ch = \<lparr>ch_players = [], ch_banned = [], ch_announce = True, ch_ownership = True, ch_name = name,
        ch_password = [], ch_flags = 0, ch_channelId = channel_id, ch_ownerGUID = 0, ch_IsSaved = False, ch_Team = Team\<rparr>
      in case cw_builtin w channel_id of
           Some f \<Rightarrow> (ch\<lparr>ch_announce := False, ch_ownership := False, ch_flags := builtin_flags f\<rparr>, [])
         | None \<Rightarrow> custom_channel w ch)"

section \<open>Owner and modes\<close>

definition SetOwner_guid :: "chat_world \<Rightarrow> u64 \<Rightarrow> bool \<Rightarrow> channel \<Rightarrow> channel \<times> chan_event list" where
  "SetOwner_guid w guid exclaim ch =
     (let ch1 = (if ch_ownerGUID ch \<noteq> 0 \<and> IsOn (ch_ownerGUID ch) ch
                 then upd_info (info_SetOwner False) (ch_ownerGUID ch) ch else ch);
          ch2 = ch1\<lparr>ch_ownerGUID := guid\<rparr>
      in if guid \<noteq> 0 then
           (let oldFlag = GetPlayerFlags guid ch2;
                ch3 = upd_info (info_SetOwner True) guid (upd_info (info_SetModerator True) guid ch2)
            in (ch3, SendToAll w ch3 (MakeModeChange ch3 guid oldFlag) 0 @
                  (if exclaim then SendToAll w ch3 (MakeOwnerChanged ch3 guid) 0 else []) @ UpdateChannelInDB ch3))
         else (ch2, []))"

definition SetModerator_guid :: "chat_world \<Rightarrow> u64 \<Rightarrow> bool \<Rightarrow> channel \<Rightarrow> channel \<times> chan_event list" where
  "SetModerator_guid w p st ch =
     (if IsModerator (info_at p ch) \<noteq> st then
        (let oldFlag = GetPlayerFlags p ch; ch1 = upd_info (info_SetModerator st) p ch
         in (ch1, SendToAll w ch1 (MakeModeChange ch1 p oldFlag) 0))
      else (upd_info (\<lambda>i. i) p ch, []))"

definition SetMute_guid :: "chat_world \<Rightarrow> u64 \<Rightarrow> bool \<Rightarrow> channel \<Rightarrow> channel \<times> chan_event list" where
  "SetMute_guid w p st ch =
     (if IsMuted (info_at p ch) \<noteq> st then
        (let oldFlag = GetPlayerFlags p ch; ch1 = upd_info (info_SetMuted st) p ch
         in (ch1, SendToAll w ch1 (MakeModeChange ch1 p oldFlag) 0))
      else (upd_info (\<lambda>i. i) p ch, []))"

section \<open>Joining and leaving\<close>

definition announced :: "chat_world \<Rightarrow> u64 \<Rightarrow> channel \<Rightarrow> bool" where
  "announced w p ch \<longleftrightarrow> ch_announce ch \<and>
     (FindPlayer w p = None \<or> \<not> IsGMAccount (security_of w p) \<or> \<not> cw_silent_gm w)"

definition Channel_enter :: "chat_world \<Rightarrow> u64 \<Rightarrow> channel \<Rightarrow> channel \<times> chan_event list" where
  "Channel_enter w p ch =
     (let ev1 = (if FindPlayer w p \<noteq> None then [JoinedChannel p] else []) @
                (if announced w p ch then SendToAll w ch MakeJoined 0 else []);
          ch1 = ch\<lparr>ch_players := om_set p \<lparr>pi_player = p, pi_flags = MEMBER_FLAG_NONE\<rparr> (ch_players ch)\<rparr>;
          ev2 = ev1 @ SendToOne w (MakeYouJoined ch1) p @ JoinNotify w ch1 p
      in if \<not> IsConstant ch1 \<and> ch_ownerGUID ch1 = 0 \<and> ch_ownership ch1 then
           (case SetOwner_guid w p (1 < length (ch_players ch1)) ch1 of
              (ch2, ev3) \<Rightarrow> (upd_info (info_SetModerator True) p ch2, ev2 @ ev3))
         else (ch1, ev2))"

definition Channel_Join :: "chat_world \<Rightarrow> u64 \<Rightarrow> bytes \<Rightarrow> channel \<Rightarrow> channel \<times> chan_event list" where
  "Channel_Join w p pass ch =
     (if IsOn p ch then (ch, if \<not> IsConstant ch then SendToOne w (MakePlayerAlreadyMember ch p) p else [])
      else if IsBanned p ch then (ch, SendToOne w (MakeBanned ch) p)
      else if ch_password ch \<noteq> [] \<and> pass \<noteq> ch_password ch then (ch, SendToOne w (MakeWrongPassword ch) p)
      else if FindPlayer w p \<noteq> None \<and> chan_HasFlag CHANNEL_FLAG_LFG ch \<and> cw_restricted_lfg w then (ch, [])
      else Channel_enter w p ch)"

text \<open>The first member in the order of the map succeeds an owner that leaves.\<close>

definition pass_ownership :: "chat_world \<Rightarrow> bool \<Rightarrow> u64 \<Rightarrow> channel \<Rightarrow> channel \<times> chan_event list" where
  "pass_ownership w changeowner newowner ch =
     (if changeowner \<and> ch_ownership ch \<and> ch_players ch \<noteq> []
      then SetOwner_guid w newowner True (upd_info (info_SetModerator True) newowner ch) else (ch, []))"

definition Channel_Leave :: "chat_world \<Rightarrow> u64 \<Rightarrow> bool \<Rightarrow> channel \<Rightarrow> channel \<times> chan_event list" where
  "Channel_Leave w p send ch =
     (if \<not> IsOn p ch then (ch, if send then SendToOne w (MakeNotMember ch) p else [])
      else
        (let ev1 = (if send then SendToOne w (MakeYouLeft ch) p @
                      (if FindPlayer w p \<noteq> None then [LeftChannel p] else []) else []);
             changeowner = IsOwner (info_at p ch);
             ch1 = ch\<lparr>ch_players := um_erase p (ch_players ch)\<rparr>;
             ev2 = ev1 @ (if announced w p ch1 then SendToAll w ch1 MakeLeft 0 else []) @ LeaveNotify w ch1 p
         in if \<not> IsConstant ch1 then
              (case pass_ownership w changeowner (pi_player (snd (hd (ch_players ch1)))) ch1 of
                 (ch2, ev3) \<Rightarrow> (ch2, ev2 @ ev3))
            else (ch1, ev2)))"

section \<open>Moderation\<close>

text \<open>The checks most operations begin with: a member, and a moderator or a game master.\<close>

definition moderated ::
  "chat_world \<Rightarrow> u64 \<Rightarrow> channel \<Rightarrow> channel \<times> chan_event list \<Rightarrow> channel \<times> chan_event list" where
  "moderated w p ch r =
     (if \<not> IsOn p ch then (ch, SendToOne w (MakeNotMember ch) p)
      else if \<not> IsModerator (info_at p ch) \<and> \<not> IsGMAccount (security_of w p)
      then (ch, SendToOne w (MakeNotModerator ch) p)
      else r)"

definition remove_member :: "chat_world \<Rightarrow> u64 \<Rightarrow> u64 \<Rightarrow> bool \<Rightarrow> channel \<Rightarrow> channel \<times> chan_event list" where
  "remove_member w good bad ban ch =
     (let changeowner = (ch_ownerGUID ch = bad);
          notify = (\<not> (IsGMAccount (security_of w good) \<and> cw_silent_gm w));
          newban = (ban \<and> \<not> IsBanned bad ch);
          ch1 = (if newban then ch\<lparr>ch_banned := insort_insert bad (ch_banned ch)\<rparr> else ch);
          ev1 = (if newban then UpdateChannelInDB ch1 else []) @
                (if notify then SendToAll w ch1
                   (if newban then MakePlayerBanned ch1 bad good else MakePlayerKicked ch1 bad good) 0 else []);
          ch2 = ch1\<lparr>ch_players := um_erase bad (ch_players ch1)\<rparr>
      in case pass_ownership w changeowner good ch2 of
           (ch3, ev3) \<Rightarrow> (ch3, ev1 @ [LeftChannel bad] @ ev3))"

definition KickOrBan :: "chat_world \<Rightarrow> u64 \<Rightarrow> bytes \<Rightarrow> bool \<Rightarrow> channel \<Rightarrow> channel \<times> chan_event list" where
  "KickOrBan w good badname ban ch =
     moderated w good ch
       (case FindPlayerByName w badname of
          None \<Rightarrow> (ch, SendToOne w (MakePlayerNotFound ch badname) good)
        | Some (bad, _) \<Rightarrow>
            if \<not> IsOn bad ch then (ch, SendToOne w (MakePlayerNotFound ch badname) good)
            else if \<not> IsGMAccount (security_of w good) \<and> bad = ch_ownerGUID ch \<and> good \<noteq> ch_ownerGUID ch
            then (ch, SendToOne w (MakeNotOwner ch) good)
            else remove_member w good bad ban ch)"

definition UnBan :: "chat_world \<Rightarrow> u64 \<Rightarrow> bytes \<Rightarrow> channel \<Rightarrow> channel \<times> chan_event list" where
  "UnBan w good badname ch =
     moderated w good ch
       (case FindPlayerByName w badname of
          None \<Rightarrow> (ch, SendToOne w (MakePlayerNotFound ch badname) good)
        | Some (bad, _) \<Rightarrow>
            if \<not> IsBanned bad ch then (ch, SendToOne w (MakePlayerNotFound ch badname) good)
            else (let ch1 = ch\<lparr>ch_banned := remove1 bad (ch_banned ch)\<rparr>
                  in (ch1, SendToAll w ch1 (MakePlayerUnbanned ch1 bad good) 0 @ UpdateChannelInDB ch1)))"

definition Channel_Password :: "chat_world \<Rightarrow> u64 \<Rightarrow> bytes \<Rightarrow> channel \<Rightarrow> channel \<times> chan_event list" where
  "Channel_Password w p pass ch =
     moderated w p ch
       (let ch1 = ch\<lparr>ch_password := pass\<rparr>
        in (ch1, SendToAll w ch1 (MakePasswordChanged ch1 p) 0 @ UpdateChannelInDB ch1))"

definition Channel_Announce :: "chat_world \<Rightarrow> u64 \<Rightarrow> channel \<Rightarrow> channel \<times> chan_event list" where
  "Channel_Announce w p ch =
     moderated w p ch
       (let ch1 = ch\<lparr>ch_announce := \<not> ch_announce ch\<rparr>
        in (ch1, SendToAll w ch1 (if ch_announce ch1 then MakeAnnouncementsOn ch1 p else MakeAnnouncementsOff ch1 p) 0 @
              UpdateChannelInDB ch1))"

definition SetMode :: "chat_world \<Rightarrow> u64 \<Rightarrow> bytes \<Rightarrow> bool \<Rightarrow> bool \<Rightarrow> channel \<Rightarrow> channel \<times> chan_event list" where
  "SetMode w p p2n moderate st ch =
     (case FindPlayer w p of
        None \<Rightarrow> (ch, [])
      | Some player \<Rightarrow>
          moderated w p ch
            (case FindPlayerByName w p2n of
               None \<Rightarrow> (ch, SendToOne w (MakePlayerNotFound ch p2n) p)
             | Some (newp, np) \<Rightarrow>
                 if p = ch_ownerGUID ch \<and> newp = ch_ownerGUID ch \<and> moderate then (ch, [])
                 else if \<not> IsOn newp ch then (ch, SendToOne w (MakePlayerNotFound ch p2n) p)
                 else if (\<not> IsGMAccount (cp_security player) \<or> \<not> IsGMAccount (cp_security np)) \<and>
                         cp_team player \<noteq> cp_team np \<and> \<not> cw_two_side w
                 then (ch, SendToOne w (MakePlayerNotFound ch p2n) p)
                 else if ch_ownerGUID ch = newp \<and> ch_ownerGUID ch \<noteq> p then (ch, SendToOne w (MakeNotOwner ch) p)
                 else if moderate then SetModerator_guid w newp st ch else SetMute_guid w newp st ch))"

definition SetOwner_name :: "chat_world \<Rightarrow> u64 \<Rightarrow> bytes \<Rightarrow> channel \<Rightarrow> channel \<times> chan_event list" where
  "SetOwner_name w p newname ch =
     (case FindPlayer w p of
        None \<Rightarrow> (ch, [])
      | Some player \<Rightarrow>
          if \<not> IsOn p ch then (ch, SendToOne w (MakeNotMember ch) p)
          else if \<not> IsGMAccount (cp_security player) \<and> p \<noteq> ch_ownerGUID ch then (ch, SendToOne w (MakeNotOwner ch) p)
          else
            (case FindPlayerByName w newname of
               None \<Rightarrow> (ch, SendToOne w (MakePlayerNotFound ch newname) p)
             | Some (newp, np) \<Rightarrow>
                 if \<not> IsOn newp ch then (ch, SendToOne w (MakePlayerNotFound ch newname) p)
                 else if cp_team np \<noteq> cp_team player \<and> \<not> cw_two_side w
                 then (ch, SendToOne w (MakePlayerNotFound ch newname) p)
                 else SetOwner_guid w newp True (upd_info (info_SetModerator True) newp ch)))"

section \<open>What changes nothing\<close>

definition SendWhoOwner :: "chat_world \<Rightarrow> u64 \<Rightarrow> channel \<Rightarrow> chan_event list" where
  "SendWhoOwner w p ch = SendToOne w (if IsOn p ch then MakeChannelOwner w ch else MakeNotMember ch) p"

definition in_who_list :: "chat_world \<Rightarrow> u64 \<Rightarrow> chat_player \<Rightarrow> u64 \<Rightarrow> bool" where
  "in_who_list w p player m =
     (case FindPlayer w m of
        None \<Rightarrow> False
      | Some member \<Rightarrow> (\<not> IsVIPorPlayer (cp_security player) \<or> cp_security member \<le> cw_gm_in_who w) \<and>
          p \<notin> set (cp_hidden_from member))"

definition Channel_List :: "chat_world \<Rightarrow> u64 \<Rightarrow> chat_player \<Rightarrow> channel \<Rightarrow> chan_event list" where
  "Channel_List w p player ch =
     (if \<not> IsOn p ch then SendToOne w (MakeNotMember ch) p
      else
        (let shown = filter (\<lambda>e. in_who_list w p player (fst e)) (ch_players ch)
         in SendToOne w (mk_pkt SMSG_CHANNEL_LIST ([U8 1, Str (ch_name ch), U8 (ch_flags ch),
              U32 (word_of_nat (length shown))] @ concat (map (\<lambda>e. [U64 (fst e), U8 (pi_flags (snd e))]) shown))) p))"

definition CHAT_MSG_CHANNEL :: u8 where "CHAT_MSG_CHANNEL = 0x11"

definition Channel_Say :: "chat_world \<Rightarrow> u64 \<Rightarrow> bytes \<Rightarrow> u32 \<Rightarrow> channel \<Rightarrow> chan_event list" where
  "Channel_Say w p text lang ch =
     (let lang1 = (if cw_two_side w then LANG_UNIVERSAL else lang)
      in if \<not> IsOn p ch then SendToOne w (MakeNotMember ch) p
         else if IsMuted (info_at p ch) then SendToOne w (MakeMuted ch) p
         else SendToAll w ch (mk_pkt SMSG_MESSAGECHAT [U8 CHAT_MSG_CHANNEL, U32 lang1, U64 p, U32 0, Str (ch_name ch),
                U64 p, U32 (word_of_nat (length text + 1)), Str text,
                U8 (case FindPlayer w p of Some pl \<Rightarrow> cp_chat_tag pl | None \<Rightarrow> 0)])
              (if \<not> IsModerator (info_at p ch) then p else 0))"

definition Channel_Invite :: "chat_world \<Rightarrow> u64 \<Rightarrow> bytes \<Rightarrow> channel \<Rightarrow> chan_event list" where
  "Channel_Invite w p newname ch =
     (if \<not> IsOn p ch then SendToOne w (MakeNotMember ch) p
      else
        (case FindPlayerByName w newname of
           None \<Rightarrow> SendToOne w (MakePlayerNotFound ch newname) p
         | Some (newp, np) \<Rightarrow>
             if \<not> cp_gm_visible np then SendToOne w (MakePlayerNotFound ch newname) p
             else if IsBanned newp ch then SendToOne w (MakePlayerInviteBanned ch newname) p
             else
               (case FindPlayer w p of
                  None \<Rightarrow> []
                | Some player \<Rightarrow>
                    if cp_team np \<noteq> cp_team player \<and> \<not> cw_two_side w then SendToOne w (MakeInviteWrongFaction ch) p
                    else if IsOn newp ch then SendToOne w (MakePlayerAlreadyMember ch newp) p
                    else (if \<not> HasIgnore (GUID_LOPART p) np then SendToOne w (MakeInvite ch p) newp else []) @
                      SendToOne w (MakePlayerInvited ch (cp_name np)) p)))"

definition SetOwnership :: "bool \<Rightarrow> channel \<Rightarrow> channel" where
  "SetOwnership ownership ch = ch\<lparr>ch_ownership := ownership\<rparr>"

section \<open>The operations of a member\<close>

datatype chan_op =
    OpJoin bytes
  | OpLeave bool
  | OpKickOrBan bytes bool
  | OpUnBan bytes
  | OpPassword bytes
  | OpMode bytes bool bool
  | OpSetOwner bytes
  | OpAnnounce
  | OpSay bytes u32
  | OpInvite bytes
  | OpWhoOwner
  | OpList chat_player

fun chan_do :: "chat_world \<Rightarrow> u64 \<Rightarrow> chan_op \<Rightarrow> channel \<Rightarrow> channel \<times> chan_event list" where
  "chan_do w p (OpJoin pass) ch = Channel_Join w p pass ch"
| "chan_do w p (OpLeave send) ch = Channel_Leave w p send ch"
| "chan_do w p (OpKickOrBan bad ban) ch = KickOrBan w p bad ban ch"
| "chan_do w p (OpUnBan bad) ch = UnBan w p bad ch"
| "chan_do w p (OpPassword pass) ch = Channel_Password w p pass ch"
| "chan_do w p (OpMode name moderate st) ch = SetMode w p name moderate st ch"
| "chan_do w p (OpSetOwner name) ch = SetOwner_name w p name ch"
| "chan_do w p OpAnnounce ch = Channel_Announce w p ch"
| "chan_do w p (OpSay text lang) ch = (ch, Channel_Say w p text lang ch)"
| "chan_do w p (OpInvite name) ch = (ch, Channel_Invite w p name ch)"
| "chan_do w p OpWhoOwner ch = (ch, SendWhoOwner w p ch)"
| "chan_do w p (OpList player) ch = (ch, Channel_List w p player ch)"

lemmas chan_op_defs = Channel_Join_def Channel_Leave_def KickOrBan_def UnBan_def Channel_Password_def SetMode_def
  SetOwner_name_def Channel_Announce_def

section \<open>Flags and entries\<close>

lemma put_flag_same: "f \<noteq> 0 \<Longrightarrow> (pi_flags (put_flag f st i) AND f \<noteq> 0) = st"
  by (cases st) (simp_all add: put_flag_def and.assoc bit.conj_disj_distrib2 or_eq_0_iff)

lemma put_flag_other:
  assumes "f AND g = 0"
  shows "pi_flags (put_flag f st i) AND g = pi_flags i AND g"
proof (rule bit_word_eqI)
  fix n
  have "\<not> (bit f n \<and> bit g n)" using arg_cong [OF assms, of "\<lambda>x. bit x n"] by (simp add: bit_and_iff)
  then show "bit (pi_flags (put_flag f st i) AND g) n = bit (pi_flags i AND g) n" if "n < LENGTH(8)"
    using that by (auto simp: put_flag_def bit_and_iff bit_or_iff bit_not_iff)
qed

lemma put_flag_player [simp]: "pi_player (put_flag f st i) = pi_player i"
  by (simp add: put_flag_def)

lemma member_flags [simp]:
  "IsOwner (info_SetOwner st i) = st" "IsModerator (info_SetOwner st i) = IsModerator i"
  "IsMuted (info_SetOwner st i) = IsMuted i"
  "IsOwner (info_SetModerator st i) = IsOwner i" "IsModerator (info_SetModerator st i) = st"
  "IsMuted (info_SetModerator st i) = IsMuted i"
  "IsOwner (info_SetMuted st i) = IsOwner i" "IsModerator (info_SetMuted st i) = IsModerator i"
  "IsMuted (info_SetMuted st i) = st"
  using put_flag_same [of 1 st i] put_flag_same [of 2 st i] put_flag_same [of 8 st i]
  by (simp_all add: IsOwner_def IsModerator_def IsMuted_def info_SetOwner_def info_SetModerator_def info_SetMuted_def
      MEMBER_FLAG_OWNER_def MEMBER_FLAG_MODERATOR_def MEMBER_FLAG_MUTED_def put_flag_other)

lemma info_player [simp]:
  "pi_player (info_SetOwner st i) = pi_player i" "pi_player (info_SetModerator st i) = pi_player i"
  "pi_player (info_SetMuted st i) = pi_player i"
  by (simp_all add: info_SetOwner_def info_SetModerator_def info_SetMuted_def)

lemma no_flags [simp]:
  "\<not> IsOwner \<lparr>pi_player = p, pi_flags = MEMBER_FLAG_NONE\<rparr>" "\<not> IsModerator \<lparr>pi_player = p, pi_flags = MEMBER_FLAG_NONE\<rparr>"
  by (simp_all add: IsOwner_def IsModerator_def MEMBER_FLAG_NONE_def)

lemma upd_info_sel [simp]:
  "ch_ownerGUID (upd_info f p ch) = ch_ownerGUID ch" "ch_banned (upd_info f p ch) = ch_banned ch"
  "ch_password (upd_info f p ch) = ch_password ch" "ch_announce (upd_info f p ch) = ch_announce ch"
  "ch_ownership (upd_info f p ch) = ch_ownership ch" "ch_channelId (upd_info f p ch) = ch_channelId ch"
  "ch_players (upd_info f p ch) = om_set p (f (info_at p ch)) (ch_players ch)"
  "ch_name (upd_info f p ch) = ch_name ch" "IsConstant (upd_info f p ch) = IsConstant ch"
  "IsBanned q (upd_info f p ch) = IsBanned q ch"
  by (simp_all add: upd_info_def IsConstant_def IsBanned_def)

text \<open>
  An owner that kicks or bans itself while others are there is not removed: \<open>KickOrBan\<close> erases its entry, and
  \<open>players[newowner]\<close> and \<open>SetOwner\<close> make a new one, which names player 0. Such an entry is a ghost; when it
  is the first of a channel that its owner leaves, the ownership passes to player 0, under an entry of its own.
\<close>

definition kicks_itself :: "chat_world \<Rightarrow> u64 \<Rightarrow> chan_op \<Rightarrow> channel \<Rightarrow> bool" where
  "kicks_itself w p op ch \<longleftrightarrow>
     (\<exists>name ban pl. op = OpKickOrBan name ban \<and> FindPlayerByName w name = Some (p, pl)) \<and>
     IsOn p ch \<and> (IsModerator (info_at p ch) \<or> IsGMAccount (security_of w p)) \<and>
     p = ch_ownerGUID ch \<and> ch_ownership ch \<and> um_erase p (ch_players ch) \<noteq> []"

definition bans_itself :: "chat_world \<Rightarrow> u64 \<Rightarrow> chan_op \<Rightarrow> channel \<Rightarrow> bool" where
  "bans_itself w p op ch \<longleftrightarrow> kicks_itself w p op ch \<and> (\<exists>name. op = OpKickOrBan name True)"

text \<open>
  A well-formed channel, whose ghosts are all in \<open>V\<close> and whose banned ghosts are all in \<open>B\<close>: members in
  the order of their identifiers, each entry a ghost's or that of the member it is filed under, which is then
  not banned, and the owner's flag only on the channel's owner, who is a moderator.
\<close>

definition entry_wf :: "u64 set \<Rightarrow> u64 set \<Rightarrow> u64 \<Rightarrow> u64 list \<Rightarrow> u64 \<Rightarrow> player_info \<Rightarrow> bool" where
  "entry_wf V B own bans k i \<longleftrightarrow>
     (k \<noteq> 0 \<and> pi_player i = k \<and> k \<notin> set bans \<or> pi_player i = 0 \<and> k \<in> V \<and> (k \<in> set bans \<longrightarrow> k \<in> B)) \<and>
     (IsOwner i \<longrightarrow> k \<noteq> 0 \<and> k = own \<and> IsModerator i)"

definition chan_wf :: "u64 set \<Rightarrow> u64 set \<Rightarrow> channel \<Rightarrow> bool" where
  "chan_wf V B ch \<longleftrightarrow> om_wf (ch_players ch) \<and> sorted (ch_banned ch) \<and> distinct (ch_banned ch) \<and>
     (\<forall>k i. map_of (ch_players ch) k = Some i \<longrightarrow> entry_wf V B (ch_ownerGUID ch) (ch_banned ch) k i)"

definition ghosts_ok :: "u64 set \<Rightarrow> u64 set \<Rightarrow> bool" where
  "ghosts_ok V B \<longleftrightarrow> B \<subseteq> V \<and> (V \<noteq> {} \<longrightarrow> 0 \<in> B)"

text \<open>Who may have an entry: a member, or one that an entry is allowed to be a ghost of.\<close>

definition enterable_as :: "u64 set \<Rightarrow> u64 set \<Rightarrow> u64 \<Rightarrow> channel \<Rightarrow> bool" where
  "enterable_as V B p ch \<longleftrightarrow> IsOn p ch \<or> p \<in> V \<and> (IsBanned p ch \<longrightarrow> p \<in> B)"

lemma chan_wf_om: "chan_wf V B ch \<Longrightarrow> om_wf (ch_players ch)"
  by (simp add: chan_wf_def)

lemma chan_wf_entry: "chan_wf V B ch \<Longrightarrow> map_of (ch_players ch) k = Some i \<Longrightarrow> entry_wf V B (ch_ownerGUID ch) (ch_banned ch) k i"
  by (simp add: chan_wf_def)

lemma chan_wf_member: "chan_wf V B ch \<Longrightarrow> IsOn p ch \<Longrightarrow> entry_wf V B (ch_ownerGUID ch) (ch_banned ch) p (info_at p ch)"
  by (auto simp: chan_wf_def IsOn_def info_at_def)

lemma chan_wf_mono: "chan_wf V B ch \<Longrightarrow> V \<subseteq> V' \<Longrightarrow> B \<subseteq> B' \<Longrightarrow> chan_wf V' B' ch"
  by (auto simp: chan_wf_def entry_wf_def)

lemma info_at_on: "map_of (ch_players ch) k = Some i \<Longrightarrow> info_at k ch = i"
  by (simp add: info_at_def)

lemma info_at_off: "\<not> IsOn k ch \<Longrightarrow> info_at k ch = \<lparr>pi_player = 0, pi_flags = MEMBER_FLAG_NONE\<rparr>"
  by (auto simp: info_at_def IsOn_def MEMBER_FLAG_NONE_def)

lemma IsOn_upd_info: "om_wf (ch_players ch) \<Longrightarrow> IsOn q (upd_info f p ch) \<longleftrightarrow> q = p \<or> IsOn q ch"
  by (simp add: IsOn_def)

text \<open>Changing an entry, or making a ghost's, keeps the channel well-formed, if it keeps the entry so.\<close>

lemma upd_info_wf:
  assumes "chan_wf V B ch" and "enterable_as V B p ch" and "\<And>i. pi_player (f i) = pi_player i"
    and "IsOwner (f (info_at p ch)) \<Longrightarrow> p \<noteq> 0 \<and> p = ch_ownerGUID ch \<and> IsModerator (f (info_at p ch))"
  shows "chan_wf V B (upd_info f p ch)"
proof -
  have "entry_wf V B (ch_ownerGUID ch) (ch_banned ch) p (f (info_at p ch))"
  proof (cases "IsOn p ch")
    case True
    then show ?thesis using chan_wf_member [OF assms(1) True] assms(3,4) by (auto simp: entry_wf_def)
  next
    case False
    then show ?thesis using assms(2-4) info_at_off [OF False] by (auto simp: entry_wf_def enterable_as_def IsBanned_def)
  qed
  then show ?thesis using assms(1) by (simp add: chan_wf_def)
qed

lemma SetOwner_guid_wf:
  assumes "chan_wf V B ch" and "guid = 0 \<or> enterable_as V B guid ch"
  shows "chan_wf V B (fst (SetOwner_guid w guid exclaim ch))"
proof -
  let ?c = "ch_ownerGUID ch \<noteq> 0 \<and> IsOn (ch_ownerGUID ch) ch"
  obtain ch1 where ch1: "ch1 = (if ?c then upd_info (info_SetOwner False) (ch_ownerGUID ch) ch else ch)" by blast
  have own1: "ch_ownerGUID ch1 = ch_ownerGUID ch" "IsBanned guid ch1 = IsBanned guid ch" by (simp_all add: ch1)
  have w1: "chan_wf V B ch1"
    using upd_info_wf [OF assms(1), of "ch_ownerGUID ch" "info_SetOwner False"] assms(1)
    by (simp add: ch1 enterable_as_def)
  have unflagged: "\<not> IsOwner i" if "map_of (ch_players ch1) k = Some i" for k i
  proof
    assume "IsOwner i"
    then have k: "k = ch_ownerGUID ch" "k \<noteq> 0" using chan_wf_entry [OF w1 that] own1 by (auto simp: entry_wf_def)
    then show False using that \<open>IsOwner i\<close> chan_wf_om [OF assms(1)] by (auto simp: ch1 IsOn_def split: if_splits)
  qed
  let ?ch2 = "ch1\<lparr>ch_ownerGUID := guid\<rparr>"
  have w2: "chan_wf V B ?ch2" using w1 unflagged by (simp add: chan_wf_def entry_wf_def)
  have "IsOn guid ch \<Longrightarrow> IsOn guid ch1" using chan_wf_om [OF assms(1)] by (auto simp: ch1 IsOn_upd_info)
  then have e2: "enterable_as V B guid ?ch2" if "guid \<noteq> 0"
    using assms(2) own1(2) that by (auto simp: enterable_as_def IsOn_def IsBanned_def)
  show ?thesis
  proof (cases "guid = 0")
    case False
    let ?ch3 = "upd_info (info_SetModerator True) guid ?ch2"
    have un2: "\<not> IsOwner (info_at guid ?ch2)"
      using unflagged by (cases "map_of (ch_players ch1) guid") (simp_all add: info_at_def IsOwner_def)
    have w3: "chan_wf V B ?ch3" by (rule upd_info_wf [OF w2 e2 [OF False]]) (use un2 in simp_all)
    have o2: "om_wf (ch_players ?ch2)" by (rule chan_wf_om [OF w2])
    then have on3: "IsOn guid ?ch3" by (simp add: IsOn_upd_info)
    have m3: "IsModerator (info_at guid ?ch3)" using o2 by (simp add: info_at_def)
    have "chan_wf V B (upd_info (info_SetOwner True) guid ?ch3)"
      by (rule upd_info_wf [OF w3]) (use on3 m3 False in \<open>simp_all add: enterable_as_def\<close>)
    then show ?thesis unfolding SetOwner_guid_def Let_def ch1 [symmetric] using False by simp
  qed (use w2 in \<open>simp add: SetOwner_guid_def Let_def ch1 [symmetric]\<close>)
qed

text \<open>The members after a change of owner.\<close>

lemma SetOwner_guid_on:
  assumes "om_wf (ch_players ch)" and "IsOn guid ch"
  shows "IsOn q (fst (SetOwner_guid w guid exclaim ch)) \<longleftrightarrow> IsOn q ch"
proof -
  have "om_wf (om_set k i (om_set k j (ch_players ch)))" for k i j using assms(1) by simp
  then show ?thesis using assms by (auto simp: SetOwner_guid_def Let_def IsOn_def)
qed

lemma erase_wf: "chan_wf V B ch \<Longrightarrow> chan_wf V B (ch\<lparr>ch_players := um_erase p (ch_players ch)\<rparr>)"
  by (auto simp: chan_wf_def)

lemma IsOn_erase [simp]: "IsOn q (ch\<lparr>ch_players := um_erase p (ch_players ch)\<rparr>) \<longleftrightarrow> q \<noteq> p \<and> IsOn q ch"
  by (simp add: IsOn_def)

lemma make_moderator_wf: "chan_wf V B ch \<Longrightarrow> enterable_as V B p ch \<Longrightarrow> chan_wf V B (upd_info (info_SetModerator True) p ch)"
  using chan_wf_member [of V B ch p] info_at_off [of p ch]
  by (cases "IsOn p ch") (auto simp: entry_wf_def intro!: upd_info_wf)

lemma pass_ownership_wf:
  assumes "chan_wf V B ch" and "changeowner \<Longrightarrow> ch_ownership ch \<Longrightarrow> ch_players ch \<noteq> [] \<Longrightarrow> enterable_as V B newowner ch"
  shows "chan_wf V B (fst (pass_ownership w changeowner newowner ch))"
  using assms SetOwner_guid_wf [OF make_moderator_wf [OF assms(1)], of newowner newowner w True] chan_wf_om [OF assms(1)]
  by (auto simp: pass_ownership_def IsOn_upd_info enterable_as_def)

lemma enter_wf:
  assumes "chan_wf V B ch" and "\<not> IsBanned p ch" and "p \<noteq> 0 \<or> p \<in> V"
  shows "chan_wf V B (fst (Channel_enter w p ch))"
proof -
  let ?ch1 = "ch\<lparr>ch_players := om_set p \<lparr>pi_player = p, pi_flags = MEMBER_FLAG_NONE\<rparr> (ch_players ch)\<rparr>"
  have w1: "chan_wf V B ?ch1" using assms by (auto simp: chan_wf_def entry_wf_def IsBanned_def)
  have on1: "IsOn p ?ch1" using chan_wf_om [OF assms(1)] by (simp add: IsOn_def)
  obtain ex where ex: "(1 < length (ch_players ?ch1)) = ex" by blast
  obtain ch2 ev where s: "SetOwner_guid w p ex ?ch1 = (ch2, ev)" by fastforce
  have "chan_wf V B ch2" "IsOn p ch2"
    using SetOwner_guid_wf [OF w1, of p w ex] SetOwner_guid_on [OF chan_wf_om [OF w1], of p p w ex] on1
    by (simp_all add: s enterable_as_def)
  then have "chan_wf V B (upd_info (info_SetModerator True) p ch2)" by (simp add: make_moderator_wf enterable_as_def)
  with w1 show ?thesis unfolding Channel_enter_def Let_def ex s by simp
qed

lemma moderated_fst:
  "fst (moderated w p ch r) = (if IsOn p ch \<and> (IsModerator (info_at p ch) \<or> IsGMAccount (security_of w p)) then fst r else ch)"
  by (simp add: moderated_def)

lemma remove_member_wf:
  assumes "chan_wf V B ch" and "IsOn good ch"
    and "\<lbrakk>good = bad; bad = ch_ownerGUID ch; ch_ownership ch; um_erase bad (ch_players ch) \<noteq> []\<rbrakk> \<Longrightarrow>
      bad \<in> V \<and> (ban \<or> IsBanned bad ch \<longrightarrow> bad \<in> B)"
  shows "chan_wf V B (fst (remove_member w good bad ban ch))"
proof -
  obtain ch1 where ch1: "ch1 = (if ban \<and> \<not> IsBanned bad ch then ch\<lparr>ch_banned := insort_insert bad (ch_banned ch)\<rparr> else ch)"
    by blast
  have same: "ch_players ch1 = ch_players ch" "ch_ownerGUID ch1 = ch_ownerGUID ch" "ch_ownership ch1 = ch_ownership ch"
    by (simp_all add: ch1)
  have b: "sorted (ch_banned ch1) \<and> distinct (ch_banned ch1) \<and> set (ch_banned ch1) \<subseteq> insert bad (set (ch_banned ch))"
    "IsBanned bad ch1 \<longleftrightarrow> ban \<or> IsBanned bad ch"
    using assms(1) insort_insert_set [of "ch_banned ch" bad] by (auto simp: ch1 chan_wf_def IsBanned_def)
  let ?ch2 = "ch1\<lparr>ch_players := um_erase bad (ch_players ch1)\<rparr>"
  have w2: "chan_wf V B ?ch2" using b(1) assms(1) by (auto simp: chan_wf_def same entry_wf_def)
  have "enterable_as V B good ?ch2" if "ch_ownerGUID ch = bad" "ch_ownership ?ch2" "ch_players ?ch2 \<noteq> []"
  proof (cases "good = bad")
    case True
    have "bad \<in> V \<and> (ban \<or> IsBanned bad ch \<longrightarrow> bad \<in> B)" by (rule assms(3)) (use that same True in simp_all)
    then show ?thesis using b(2) True by (simp add: enterable_as_def IsBanned_def)
  next
    case False
    then show ?thesis using assms(2) same by (simp add: enterable_as_def IsOn_def)
  qed
  then have "chan_wf V B (fst (pass_ownership w (ch_ownerGUID ch = bad) good ?ch2))" by (rule pass_ownership_wf [OF w2])
  moreover have "fst (remove_member w good bad ban ch) = fst (pass_ownership w (ch_ownerGUID ch = bad) good ?ch2)"
    unfolding remove_member_def Let_def ch1 [symmetric] by (simp split: prod.split)
  ultimately show ?thesis by simp
qed

lemma SetOwner_name_wf: "chan_wf V B ch \<Longrightarrow> chan_wf V B (fst (SetOwner_name w p name ch))"
  unfolding SetOwner_name_def
  by (auto split: option.splits intro!: SetOwner_guid_wf make_moderator_wf simp: IsOn_upd_info chan_wf_om enterable_as_def)

lemma SetMode_wf:
  assumes "chan_wf V B ch"
  shows "chan_wf V B (fst (SetMode w p name moderate st ch))"
proof -
  have e: "enterable_as V B q ch" if "IsOn q ch" for q using that by (simp add: enterable_as_def)
  have m: "IsOwner (info_at q ch) \<longrightarrow> q \<noteq> 0 \<and> q = ch_ownerGUID ch \<and> IsModerator (info_at q ch)" if "IsOn q ch" for q
    using chan_wf_member [OF assms that] by (simp add: entry_wf_def)
  have modr: "chan_wf V B (fst (SetModerator_guid w q st ch))" if "IsOn q ch" "ch_ownerGUID ch \<noteq> q" for q
    using upd_info_wf [OF assms e [OF that(1)], of "info_SetModerator st"] upd_info_wf [OF assms e [OF that(1)], of "\<lambda>i. i"]
      m [OF that(1)] that(2) by (auto simp: SetModerator_guid_def Let_def)
  have mute: "chan_wf V B (fst (SetMute_guid w q st ch))" if "IsOn q ch" for q
    using upd_info_wf [OF assms e [OF that], of "info_SetMuted st"] upd_info_wf [OF assms e [OF that], of "\<lambda>i. i"]
      m [OF that] by (auto simp: SetMute_guid_def Let_def)
  show ?thesis
    using assms modr mute by (auto simp: SetMode_def moderated_fst split: option.splits)
qed

lemma KickOrBan_wf:
  assumes "chan_wf V B ch" and "kicks_itself w p (OpKickOrBan name ban) ch \<Longrightarrow> p \<in> V"
    and "bans_itself w p (OpKickOrBan name ban) ch \<Longrightarrow> p \<in> B"
  shows "chan_wf V B (fst (KickOrBan w p name ban ch))"
proof -
  have "chan_wf V B (fst (remove_member w p bad ban ch))"
    if "FindPlayerByName w name = Some (bad, pl)" "IsOn p ch" "IsModerator (info_at p ch) \<or> IsGMAccount (security_of w p)" for bad pl
  proof (rule remove_member_wf [OF assms(1) that(2)])
    assume a: "p = bad" "bad = ch_ownerGUID ch" "ch_ownership ch" "um_erase bad (ch_players ch) \<noteq> []"
    then have k: "kicks_itself w p (OpKickOrBan name ban) ch" using that by (auto simp: kicks_itself_def)
    have "IsBanned bad ch \<longrightarrow> bad \<in> B" using chan_wf_member [OF assms(1) that(2)] a(1) by (auto simp: entry_wf_def IsBanned_def)
    then show "bad \<in> V \<and> (ban \<or> IsBanned bad ch \<longrightarrow> bad \<in> B)" using assms(2,3) k a(1) by (auto simp: bans_itself_def)
  qed
  then show ?thesis using assms(1) by (auto simp: KickOrBan_def moderated_fst split: option.splits)
qed

lemma UnBan_wf: "chan_wf V B ch \<Longrightarrow> chan_wf V B (fst (UnBan w p name ch))"
  using sorted_remove1_set [of "ch_banned ch"]
  by (auto simp: UnBan_def moderated_fst Let_def chan_wf_def entry_wf_def split: option.splits)

lemma Leave_wf:
  assumes "chan_wf V B ch" and "ghosts_ok V B"
  shows "chan_wf V B (fst (Channel_Leave w p send ch))"
proof -
  let ?ch1 = "ch\<lparr>ch_players := um_erase p (ch_players ch)\<rparr>"
  have w1: "chan_wf V B ?ch1" by (rule erase_wf [OF assms(1)])
  have "enterable_as V B (pi_player (snd (hd (ch_players ?ch1)))) ?ch1" if "ch_players ?ch1 \<noteq> []"
  proof -
    obtain k i m where c: "ch_players ?ch1 = (k, i) # m" using \<open>ch_players ?ch1 \<noteq> []\<close> by (cases "ch_players ?ch1") auto
    then have "entry_wf V B (ch_ownerGUID ch) (ch_banned ch) k i" using chan_wf_entry [OF w1, of k i] by simp
    moreover have "IsOn k ?ch1" unfolding IsOn_def by (simp add: c)
    ultimately show ?thesis using assms(2) by (auto simp: c entry_wf_def enterable_as_def ghosts_ok_def)
  qed
  then have "chan_wf V B (fst (pass_ownership w (IsOwner (info_at p ch)) (pi_player (snd (hd (ch_players ?ch1)))) ?ch1))"
    by (intro pass_ownership_wf [OF w1])
  then show ?thesis using assms(1) w1 unfolding Channel_Leave_def Let_def by (auto split: prod.splits)
qed

lemma chan_do_wf:
  assumes "chan_wf V B ch" and "ghosts_ok V B" and "p \<noteq> 0 \<or> p \<in> V"
    and "kicks_itself w p op ch \<Longrightarrow> p \<in> V" and "bans_itself w p op ch \<Longrightarrow> p \<in> B"
  shows "chan_wf V B (fst (chan_do w p op ch))"
proof (cases op)
  case (OpJoin pass)
  then show ?thesis using assms(1,3) by (simp add: Channel_Join_def enter_wf)
next
  case (OpLeave send)
  then show ?thesis using Leave_wf [OF assms(1,2)] by simp
next
  case (OpKickOrBan name ban)
  then show ?thesis using KickOrBan_wf [OF assms(1)] assms(4,5) by simp
next
  case (OpUnBan name)
  then show ?thesis using UnBan_wf [OF assms(1)] by simp
next
  case (OpMode name moderate st)
  then show ?thesis using SetMode_wf [OF assms(1)] by simp
next
  case (OpSetOwner name)
  then show ?thesis using SetOwner_name_wf [OF assms(1)] by simp
next
  case (OpPassword pass)
  then show ?thesis using assms(1) by (simp add: Channel_Password_def moderated_fst Let_def chan_wf_def)
next
  case OpAnnounce
  then show ?thesis using assms(1) by (simp add: Channel_Announce_def moderated_fst Let_def chan_wf_def)
qed (use assms(1) in simp_all)

lemma load_banned_set: "sorted bs \<and> distinct bs \<Longrightarrow> sorted (load_banned ts bs) \<and> distinct (load_banned ts bs)"
  by (induction ts bs rule: load_banned.induct) (simp_all add: Let_def sorted_insort_insert distinct_insort_insert)

lemma Channel_new_wf: "chan_wf V B (fst (Channel_new w name cid team))"
  using load_banned_set [of "[]"]
  by (auto simp: Channel_new_def Let_def custom_channel_def chan_wf_def split: option.split)

text \<open>
  A channel's history: any operations of players, and its ownership switched on or off. \<open>K\<close> collects the
  owners that kicked or banned themselves, and \<open>B\<close> those that banned themselves.
\<close>

inductive chan_run :: "channel \<Rightarrow> u64 set \<Rightarrow> u64 set \<Rightarrow> channel \<Rightarrow> bool" for ch0 where
  start: "chan_run ch0 {} {} ch0"
| op: "chan_run ch0 (if kicks_itself w p op ch then insert p K else K) (if bans_itself w p op ch then insert p B else B)
        (fst (chan_do w p op ch))"
    if "chan_run ch0 K B ch" and "p \<noteq> 0"
| ownership: "chan_run ch0 K B (SetOwnership b ch)" if "chan_run ch0 K B ch"

definition ghosts :: "u64 set \<Rightarrow> u64 set \<Rightarrow> u64 set" where
  "ghosts K S = (if K = {} then {} else insert 0 S)"

lemma ghosts_ok_ghosts: "B \<subseteq> K \<Longrightarrow> ghosts_ok (ghosts K K) (ghosts K B)"
  by (auto simp: ghosts_ok_def ghosts_def)

lemma chan_run_wf:
  assumes "chan_run ch0 K B ch" and "chan_wf {} {} ch0"
  shows "B \<subseteq> K \<and> chan_wf (ghosts K K) (ghosts K B) ch"
  using assms
proof (induction rule: chan_run.induct)
  case (op K B ch p w op)
  let ?K = "if kicks_itself w p op ch then insert p K else K" and ?B = "if bans_itself w p op ch then insert p B else B"
  have b: "?B \<subseteq> ?K" using op by (auto simp: bans_itself_def)
  then have g: "ghosts_ok (ghosts ?K ?K) (ghosts ?K ?B)" by (rule ghosts_ok_ghosts)
  have "chan_wf (ghosts ?K ?K) (ghosts ?K ?B) ch"
    by (rule chan_wf_mono [of "ghosts K K" "ghosts K B"]) (use op.IH [OF op.prems] in \<open>auto simp: ghosts_def\<close>)
  then have "chan_wf (ghosts ?K ?K) (ghosts ?K ?B) (fst (chan_do w p op ch))"
    by (rule chan_do_wf [OF _ g]) (use op.hyps(2) in \<open>auto simp: ghosts_def bans_itself_def\<close>)
  with b show ?case by blast
qed (simp_all add: SetOwnership_def chan_wf_def ghosts_def)

lemma channel_wf:
  "chan_run (fst (Channel_new w name cid team)) K B ch \<Longrightarrow> B \<subseteq> K \<and> chan_wf (ghosts K K) (ghosts K B) ch"
  by (erule chan_run_wf [OF _ Channel_new_wf])

section \<open>What a channel promises\<close>

text \<open>
  C33: From its creation on, whatever its members and others do: the members are listed once each, in the order of
  their identifiers, and the ban list is sorted without duplicates; only the channel's owner carries the owner's flag
  and is then a moderator; and every entry is filed under the player it names, who is not banned, except for the
  ghosts, which name player 0: the entry of an owner that kicked or banned itself while others were there (the
  only one that can be banned and listed, if it banned itself) and, once there was such an owner, an entry 0.
\<close>

theorem channel_stays_wellformed:
  assumes "chan_run (fst (Channel_new w name cid team)) K B ch"
  shows "om_wf (ch_players ch) \<and> sorted (ch_banned ch) \<and> distinct (ch_banned ch) \<and>
    (\<forall>k i. map_of (ch_players ch) k = Some i \<longrightarrow>
       (IsOwner i \<longrightarrow> k = ch_ownerGUID ch \<and> IsModerator i) \<and>
       (k \<noteq> 0 \<and> pi_player i = k \<and> \<not> IsBanned k ch \<or>
        pi_player i = 0 \<and> (k \<in> K \<or> k = 0 \<and> K \<noteq> {}) \<and> (IsBanned k ch \<longrightarrow> k \<in> B \<or> k = 0)))"
proof -
  have wf: "chan_wf (ghosts K K) (ghosts K B) ch" using channel_wf [OF assms] ..
  have "(IsOwner i \<longrightarrow> k = ch_ownerGUID ch \<and> IsModerator i) \<and>
       (k \<noteq> 0 \<and> pi_player i = k \<and> \<not> IsBanned k ch \<or>
        pi_player i = 0 \<and> (k \<in> K \<or> k = 0 \<and> K \<noteq> {}) \<and> (IsBanned k ch \<longrightarrow> k \<in> B \<or> k = 0))"
    if "map_of (ch_players ch) k = Some i" for k i
    using chan_wf_entry [OF wf that] by (auto simp: entry_wf_def ghosts_def IsBanned_def split: if_splits)
  with wf show ?thesis by (simp add: chan_wf_def)
qed

lemma moderated_outsider: "\<not> IsOn p ch \<Longrightarrow> moderated w p ch r = (ch, SendToOne w (MakeNotMember ch) p)"
  by (simp add: moderated_def)

text \<open>
  C34: A banned player is shut out, unless it is an owner that banned itself while others were there: whatever it
  tries, even as a game master, the channel stays as it is and the only packets sent go to the player itself.
  (The exception is real: \<open>owner_kicks_itself\<close> and \<open>banned_owner_rules\<close> below.)
\<close>

theorem banned_shut_out:
  assumes "chan_run (fst (Channel_new w0 name cid team)) K B ch" and "IsBanned p ch" and "p \<noteq> 0" and "p \<notin> B"
  shows "\<exists>evs. chan_do w p op ch = (ch, evs) \<and> (\<forall>e \<in> set evs. \<exists>data. e = SendTo p data)"
proof -
  have wf: "chan_wf (ghosts K K) (ghosts K B) ch" using channel_wf [OF assms(1)] ..
  have off: "\<not> IsOn p ch"
    using chan_wf_member [OF wf, of p] assms(2-4) by (auto simp: entry_wf_def ghosts_def IsBanned_def split: if_splits)
  have one: "e \<in> set (SendToOne w data p) \<Longrightarrow> \<exists>data. e = SendTo p data" for e data
    by (auto simp: SendToOne_def split: if_splits)
  show ?thesis using off assms(2) one
    by (cases op) (auto simp: chan_op_defs moderated_outsider Channel_Say_def Channel_Invite_def SendWhoOwner_def
        Channel_List_def Let_def split: option.splits)
qed

text \<open>The parts of a channel that only moderators may change, and the entries of everybody else.\<close>

definition chan_settings :: "channel \<Rightarrow> bytes \<times> u64 list \<times> bool \<times> bool \<times> bytes \<times> u32" where
  "chan_settings ch = (ch_password ch, ch_banned ch, ch_announce ch, ch_ownership ch, ch_name ch, ch_channelId ch)"

definition ordinary :: "chat_world \<Rightarrow> u64 \<Rightarrow> channel \<Rightarrow> bool" where
  "ordinary w p ch \<longleftrightarrow> \<not> IsGMAccount (security_of w p) \<and> p \<noteq> ch_ownerGUID ch \<and> (IsOn p ch \<longrightarrow> \<not> IsModerator (info_at p ch))"

lemma moderated_ordinary: "ordinary w p ch \<Longrightarrow> fst (moderated w p ch r) = ch"
  by (auto simp: moderated_def ordinary_def)

lemma enter_others:
  assumes "om_wf (ch_players ch)" and "ch_ownerGUID ch \<noteq> 0 \<longrightarrow> q \<noteq> p"
  shows "chan_settings (fst (Channel_enter w p ch)) = chan_settings ch \<and>
    (q \<noteq> p \<longrightarrow> map_of (ch_players (fst (Channel_enter w p ch))) q = map_of (ch_players ch) q) \<and>
    (ch_ownerGUID ch \<noteq> 0 \<longrightarrow> ch_ownerGUID (fst (Channel_enter w p ch)) = ch_ownerGUID ch)"
  using assms
  by (auto simp: Channel_enter_def Let_def SetOwner_guid_def chan_settings_def upd_info_def split: prod.splits)

text \<open>
  C35: A player that is no game master, not the owner and no moderator of the channel (a member or not)
  cannot change the password, the ban list, the announcements, the owner or the entry of anybody else;
  at most it becomes the first owner by entering a channel that has none.
\<close>

theorem only_moderators_moderate:
  assumes "chan_run (fst (Channel_new w0 name cid team)) K B ch" and "ordinary w p ch" and "q \<noteq> p"
  shows "chan_settings (fst (chan_do w p op ch)) = chan_settings ch \<and>
    map_of (ch_players (fst (chan_do w p op ch))) q = map_of (ch_players ch) q \<and>
    (ch_ownerGUID ch \<noteq> 0 \<longrightarrow> ch_ownerGUID (fst (chan_do w p op ch)) = ch_ownerGUID ch)"
proof -
  have wf: "chan_wf (ghosts K K) (ghosts K B) ch" using channel_wf [OF assms(1)] ..
  have own: "IsOn p ch \<Longrightarrow> \<not> IsOwner (info_at p ch)"
    using chan_wf_member [OF wf, of p] assms(2) by (auto simp: ordinary_def entry_wf_def)
  show ?thesis
  proof (cases op)
    case (OpJoin pass)
    then show ?thesis using enter_others [OF chan_wf_om [OF wf], of q p w] assms(3) by (simp add: Channel_Join_def)
  next
    case (OpLeave send)
    then show ?thesis using own assms(3)
      by (auto simp: Channel_Leave_def Let_def pass_ownership_def chan_settings_def split: prod.split)
  next
    case (OpMode name moderate st)
    then show ?thesis using assms(2) by (simp add: SetMode_def moderated_ordinary split: option.split)
  next
    case (OpSetOwner name)
    have "\<not> IsGMAccount (cp_security pl)" if "FindPlayer w p = Some pl" for pl
      using assms(2) that by (simp add: ordinary_def security_of_def)
    then show ?thesis using assms(2) OpSetOwner by (auto simp: SetOwner_name_def ordinary_def split: option.split)
  qed (use assms(2) in \<open>simp_all add: chan_op_defs moderated_ordinary\<close>)
qed

text \<open>
  An owner that kicks itself from a channel with other members is not removed: it is entered again
  as owner, under an entry that names nobody, while the channel is taken off its own list (so that its
  logout will not take it out); if it banned itself, it is owner and banned at once.
\<close>

theorem owner_kicks_itself:
  assumes "om_wf (ch_players ch)" and "IsOn p ch" and "p = ch_ownerGUID ch \<and> p \<noteq> 0" and "ch_ownership ch"
    and "FindPlayerByName w name = Some (p, pl)" and "IsModerator (info_at p ch)"
    and "um_erase p (ch_players ch) \<noteq> []"
  shows "\<exists>i evs. chan_do w p (OpKickOrBan name ban) ch = (fst (chan_do w p (OpKickOrBan name ban) ch), evs) \<and>
    map_of (ch_players (fst (chan_do w p (OpKickOrBan name ban) ch))) p = Some i \<and> pi_player i = 0 \<and> IsOwner i \<and>
    ch_ownerGUID (fst (chan_do w p (OpKickOrBan name ban) ch)) = p \<and> LeftChannel p \<in> set evs \<and>
    (ban \<longrightarrow> IsBanned p (fst (chan_do w p (OpKickOrBan name ban) ch)))"
proof -
  obtain ch1 where ch1: "ch1 = (if ban \<and> \<not> IsBanned p ch then ch\<lparr>ch_banned := insort_insert p (ch_banned ch)\<rparr> else ch)"
    by blast
  have own: "ch_ownerGUID ch = p" and p0: "p \<noteq> 0" using assms(3) by blast+
  have same: "ch_players ch1 = ch_players ch" "ch_ownerGUID ch1 = p" "ch_ownership ch1" by (simp_all add: ch1 own assms(4))
  have banned: "ban \<longrightarrow> IsBanned p ch1" by (simp add: ch1 IsBanned_def set_insort_insert)
  have om: "om_wf (um_erase p (ch_players ch))" using assms(1) by simp
  let ?ch2 = "ch1\<lparr>ch_players := um_erase p (ch_players ch)\<rparr>"
  obtain ch3 evs where po: "pass_ownership w True p ?ch2 = (ch3, evs)" by fastforce
  have ch3: "map_of (ch_players ch3) p =
      Some (info_SetOwner True (info_SetModerator True (info_SetOwner False (info_SetModerator True \<lparr>pi_player = 0, pi_flags = 0\<rparr>))))"
    "ch_ownerGUID ch3 = p" "ch_banned ch3 = ch_banned ch1"
    using po p0 om assms(7) same
    by (auto simp: pass_ownership_def SetOwner_guid_def Let_def IsOn_upd_info info_at_def)
  have kick: "chan_do w p (OpKickOrBan name ban) ch = remove_member w p p ban ch"
    using assms(2,5,6) own by (simp add: KickOrBan_def moderated_def)
  have "fst (remove_member w p p ban ch) = ch3" "LeftChannel p \<in> set (snd (remove_member w p p ban ch))"
    unfolding remove_member_def Let_def ch1 [symmetric] using po same own by (simp_all add: split: prod.split)
  note res = this [folded kick]
  have b3: "ban \<longrightarrow> IsBanned p ch3" using banned ch3(3) by (simp add: IsBanned_def)
  let ?i = "info_SetOwner True (info_SetModerator True (info_SetOwner False (info_SetModerator True \<lparr>pi_player = 0, pi_flags = 0\<rparr>)))"
  have i: "pi_player ?i = 0 \<and> IsOwner ?i"
    by (simp only: member_flags) (simp add: info_SetOwner_def info_SetModerator_def)
  show ?thesis
    by (rule exI [of _ ?i], rule exI [of _ "snd (chan_do w p (OpKickOrBan name ban) ch)"])
      (use i b3 res(2) in \<open>simp only: res(1) ch3(1,2) prod.collapse prod_eq_iff fst_conv snd_conv simp_thms\<close>)
qed

text \<open>
  An owner that is alone and kicks itself leaves an empty channel that still names it as the owner:
  the next to join becomes neither owner nor moderator, so nobody but a game master can moderate there.
\<close>

theorem lone_owner_leaves_stale_channel:
  assumes "ch_players ch = [(p, i)]" and "p = ch_ownerGUID ch" and "p \<noteq> 0" and "IsModerator i"
    and "FindPlayerByName w name = Some (p, pl)"
    and "q \<noteq> 0" and "\<not> IsBanned q ch" and "ch_password ch = []" and "\<not> chan_HasFlag CHANNEL_FLAG_LFG ch"
  shows "ch_players (fst (chan_do w q (OpJoin pass) (fst (chan_do w p (OpKickOrBan name False) ch)))) =
      [(q, \<lparr>pi_player = q, pi_flags = MEMBER_FLAG_NONE\<rparr>)] \<and>
    ch_ownerGUID (fst (chan_do w q (OpJoin pass) (fst (chan_do w p (OpKickOrBan name False) ch)))) = p"
proof -
  have "fst (chan_do w p (OpKickOrBan name False) ch) = ch\<lparr>ch_players := []\<rparr>"
    using assms(1-5) by (simp add: KickOrBan_def moderated_def IsOn_def info_at_def remove_member_def Let_def
        pass_ownership_def um_erase_def)
  then show ?thesis using assms(2,3,7-9)
    by (simp add: Channel_Join_def IsOn_def IsBanned_def chan_HasFlag_def Channel_enter_def Let_def)
qed

text \<open>
  C36: Saving the ban list and loading it again gives it back, for identifiers below \<open>2 ^ 63\<close>
  (\<open>atol\<close> saturates there, so larger ones come back as \<open>2 ^ 63 - 1\<close>).
\<close>

theorem ban_list_roundtrip:
  assumes "sorted bs" and "distinct bs" and "0 \<notin> set bs" and "\<forall>g \<in> set bs. g < 2 ^ 63"
  shows "load_banned (Tokenizer (banlist_text bs) 32) [] = bs"
proof -
  have toks: "Tokenizer (banlist_text bs) 32 = map (\<lambda>g. dec_digits (unat g)) bs"
    using Tokenizer_joined [of "map (\<lambda>g. dec_digits (unat g)) bs" 32] dec_digits_token
    by (simp add: banlist_text_def comp_def)
  have reads: "word_of_int (atol (dec_digits (unat g))) = g" if "g < 2 ^ 63" for g :: u64
  proof -
    have "unat g < 2 ^ 63" using that by (simp add: word_less_nat_alt)
    then show ?thesis by (simp add: atol_dec_digits)
  qed
  have load: "load_banned (map (\<lambda>g. dec_digits (unat g)) xs) ys = fold insort_insert xs ys"
    if "\<forall>g \<in> set xs. g < 2 ^ 63" "0 \<notin> set xs" for xs ys
    using that by (induction xs arbitrary: ys) (simp_all add: reads Let_def)
  have "sorted (fold insort_insert bs []) \<and> distinct (fold insort_insert bs []) \<and> set (fold insort_insert bs []) = set bs"
    using fold_insort_insert_set [of "[]" bs] by simp
  then show ?thesis unfolding toks load [OF assms(4,3)]
    using assms(1,2) sorted_distinct_set_unique by blast
qed

section \<open>The properties at work\<close>

definition ex_player :: "bytes \<Rightarrow> chat_player" where
  "ex_player name = \<lparr>cp_name = name, cp_security = 0, cp_team = 469, cp_ignores = [], cp_gm_visible = True,
     cp_hidden_from = [], cp_chat_tag = 0\<rparr>"

definition ex_chat :: chat_world where
  "ex_chat = \<lparr>cw_players = [(10, ex_player (ascii ''Ann'')), (20, ex_player (ascii ''Bob''))], cw_db_name = (\<lambda>_. None),
     cw_two_side = False, cw_silent_gm = False, cw_restricted_lfg = False, cw_preserve = False, cw_gm_in_who = 3,
     cw_builtin = (\<lambda>_. None), cw_stored = (\<lambda>_ _. None)\<rparr>"

text \<open>The channel, with its owner Ann, with Ann and Bob, and with Bob banned by Ann.\<close>

definition ex_new :: channel where "ex_new = fst (Channel_new ex_chat (ascii ''ab'') 0 469)"
definition ex_ann :: channel where "ex_ann = fst (chan_do ex_chat 10 (OpJoin []) ex_new)"
definition ex_two :: channel where "ex_two = fst (chan_do ex_chat 20 (OpJoin []) ex_ann)"
definition ex_ban :: channel where "ex_ban = fst (chan_do ex_chat 10 (OpKickOrBan (ascii ''Bob'') True) ex_two)"

lemma ex_two_value: "ch_players ex_two = [(10, \<lparr>pi_player = 10, pi_flags = 3\<rparr>), (20, \<lparr>pi_player = 20, pi_flags = 0\<rparr>)]"
    "ch_ownerGUID ex_two = 10" "ch_banned ex_two = []" "ch_ownership ex_two"
  by code_simp+

lemma ex_ban_value: "ch_players ex_ban = [(10, \<lparr>pi_player = 10, pi_flags = 3\<rparr>)]" "ch_ownerGUID ex_ban = 10" "ch_banned ex_ban = [20]"
  by code_simp+

text \<open>The channel after its owner Ann has banned herself: a ghost that is owner, member and banned.\<close>

definition ex_self :: channel where "ex_self = fst (chan_do ex_chat 10 (OpKickOrBan (ascii ''Ann'') True) ex_two)"

lemma ex_self_value: "ch_players ex_self = [(10, \<lparr>pi_player = 0, pi_flags = 3\<rparr>), (20, \<lparr>pi_player = 20, pi_flags = 0\<rparr>)]"
    "ch_ownerGUID ex_self = 10" "ch_banned ex_self = [10]"
  by code_simp+

lemma ex_names: "FindPlayerByName ex_chat (ascii ''Ann'') = Some (10, ex_player (ascii ''Ann''))"
    "FindPlayerByName ex_chat (ascii ''Bob'') = Some (20, ex_player (ascii ''Bob''))"
  by code_simp+

lemma ex_on: "IsOn 10 ex_two" "IsModerator (info_at 10 ex_two)" "um_erase 10 (ch_players ex_two) \<noteq> []"
  by (simp_all add: ex_two_value IsOn_def info_at_def IsModerator_def MEMBER_FLAG_MODERATOR_def um_erase_def)

lemma chan_run_plain:
  "chan_run ch0 K B ch \<Longrightarrow> p \<noteq> 0 \<Longrightarrow> \<not> kicks_itself w p op ch \<Longrightarrow> chan_run ch0 K B (fst (chan_do w p op ch))"
  using chan_run.op [of ch0 K B ch p w op] by (simp add: bans_itself_def)

lemma ex_steps:
  "chan_run (fst (Channel_new ex_chat (ascii ''ab'') 0 469)) {} {} ex_two"
  "chan_run (fst (Channel_new ex_chat (ascii ''ab'') 0 469)) {} {} ex_ban"
  "chan_run (fst (Channel_new ex_chat (ascii ''ab'') 0 469)) {10} {10} ex_self"
proof -
  let ?run = "chan_run (fst (Channel_new ex_chat (ascii ''ab'') 0 469))"
  have "?run {} {} ex_new" unfolding ex_new_def by (rule chan_run.start)
  then have "?run {} {} ex_ann" unfolding ex_ann_def by (rule chan_run_plain) (simp_all add: kicks_itself_def)
  then show two: "?run {} {} ex_two" unfolding ex_two_def by (rule chan_run_plain) (simp_all add: kicks_itself_def)
  then show "?run {} {} ex_ban" unfolding ex_ban_def by (rule chan_run_plain) (simp_all add: kicks_itself_def ex_names)
  have "bans_itself ex_chat 10 (OpKickOrBan (ascii ''Ann'') True) ex_two" "kicks_itself ex_chat 10 (OpKickOrBan (ascii ''Ann'') True) ex_two"
    using ex_on by (auto simp: bans_itself_def kicks_itself_def ex_names ex_two_value(2,4))
  with chan_run.op [OF two, of 10 ex_chat "OpKickOrBan (ascii ''Ann'') True"] show "?run {10} {10} ex_self"
    by (simp add: ex_self_def)
qed

text \<open>Banned from its own channel, the owner still sets its password: \<open>banned_shut_out\<close> cannot do without its exception.\<close>

lemma banned_owner_rules:
  "IsBanned 10 ex_self" "IsOn 10 ex_self"
  "ch_password (fst (chan_do ex_chat 10 (OpPassword (ascii ''x'')) ex_self)) = ascii ''x''" "ch_password ex_self = []"
proof -
  show "IsBanned 10 ex_self" "IsOn 10 ex_self" by (simp_all add: IsBanned_def IsOn_def ex_self_value)
  show "ch_password (fst (chan_do ex_chat 10 (OpPassword (ascii ''x'')) ex_self)) = ascii ''x''" "ch_password ex_self = []"
    by code_simp+
qed

lemma channel_stays_wellformed_witness:
  "om_wf (ch_players ex_self) \<and> map_of (ch_players ex_self) 20 = Some \<lparr>pi_player = 20, pi_flags = 0\<rparr> \<and>
    \<not> IsBanned 20 ex_self \<and> ch_ownerGUID ex_self = 10 \<and> IsBanned 10 ex_self"
proof -
  note r = channel_stays_wellformed [OF ex_steps(3)]
  have m: "map_of (ch_players ex_self) 20 = Some \<lparr>pi_player = 20, pi_flags = 0\<rparr>" by (simp add: ex_self_value)
  have "om_wf (ch_players ex_self)" using r by blast
  moreover have "\<not> IsBanned 20 ex_self" using r [THEN conjunct2, THEN conjunct2, THEN conjunct2, rule_format, OF m] by simp
  ultimately show ?thesis using m banned_owner_rules(1) by (simp add: ex_self_value(2))
qed

lemma banned_shut_out_witness:
  "IsBanned 20 ex_ban \<and>
    (\<exists>evs. chan_do ex_chat 20 (OpJoin []) ex_ban = (ex_ban, evs) \<and> list_all (\<lambda>e. \<exists>data. e = SendTo 20 data) evs)"
proof -
  have b: "IsBanned 20 ex_ban" by (simp add: IsBanned_def ex_ban_value)
  show ?thesis using banned_shut_out [OF ex_steps(2) b, of ex_chat "OpJoin []"] b unfolding list_all_iff by simp
qed

lemma only_moderators_moderate_witness:
  "chan_settings (fst (chan_do ex_chat 20 (OpPassword (ascii ''x'')) ex_two)) = chan_settings ex_two \<and>
    map_of (ch_players (fst (chan_do ex_chat 20 (OpPassword (ascii ''x'')) ex_two))) 10 = map_of (ch_players ex_two) 10 \<and>
    ch_ownerGUID (fst (chan_do ex_chat 20 (OpPassword (ascii ''x'')) ex_two)) = ch_ownerGUID ex_two"
proof -
  have "\<not> IsGMAccount (security_of ex_chat 20)" by code_simp
  then have o: "ordinary ex_chat 20 ex_two"
    by (simp add: ordinary_def ex_two_value info_at_def IsModerator_def)
  have "ch_ownerGUID ex_two \<noteq> 0" by (simp add: ex_two_value(2))
  moreover have "(10 :: u64) \<noteq> 20" by simp
  ultimately show ?thesis using only_moderators_moderate [OF ex_steps(1) o] by blast
qed

lemma owner_kicks_itself_witness:
  "\<exists>i evs. chan_do ex_chat 10 (OpKickOrBan (ascii ''Ann'') True) ex_two =
      (fst (chan_do ex_chat 10 (OpKickOrBan (ascii ''Ann'') True) ex_two), evs) \<and>
    map_of (ch_players (fst (chan_do ex_chat 10 (OpKickOrBan (ascii ''Ann'') True) ex_two))) 10 = Some i \<and>
    pi_player i = 0 \<and> IsOwner i \<and>
    ch_ownerGUID (fst (chan_do ex_chat 10 (OpKickOrBan (ascii ''Ann'') True) ex_two)) = 10 \<and> LeftChannel 10 \<in> set evs \<and>
    IsBanned 10 (fst (chan_do ex_chat 10 (OpKickOrBan (ascii ''Ann'') True) ex_two))"
proof -
  have w: "om_wf (ch_players ex_two)" by (simp add: ex_two_value)
  have v: "10 = ch_ownerGUID ex_two \<and> (10 :: u64) \<noteq> 0" by (simp add: ex_two_value)
  show ?thesis using owner_kicks_itself [OF w ex_on(1) v ex_two_value(4) ex_names(1) ex_on(2,3), of True] by blast
qed

lemma lone_owner_leaves_stale_channel_witness:
  "ch_players (fst (chan_do ex_chat 30 (OpJoin []) (fst (chan_do ex_chat 10 (OpKickOrBan (ascii ''Ann'') False) ex_ban)))) =
      [(30, \<lparr>pi_player = 30, pi_flags = MEMBER_FLAG_NONE\<rparr>)] \<and>
    ch_ownerGUID (fst (chan_do ex_chat 30 (OpJoin []) (fst (chan_do ex_chat 10 (OpKickOrBan (ascii ''Ann'') False) ex_ban)))) = 10"
proof (rule lone_owner_leaves_stale_channel [where i = "\<lparr>pi_player = 10, pi_flags = 3\<rparr>" and pl = "ex_player (ascii ''Ann'')"])
  show "FindPlayerByName ex_chat (ascii ''Ann'') = Some (10, ex_player (ascii ''Ann''))" by code_simp
  show "\<not> chan_HasFlag CHANNEL_FLAG_LFG ex_ban" "ch_password ex_ban = []" by code_simp+
qed (simp_all add: ex_ban_value IsModerator_def MEMBER_FLAG_MODERATOR_def IsBanned_def)

lemma ban_list_roundtrip_witness: "load_banned (Tokenizer (banlist_text [7, 20]) 32) [] = [7, 20]"
  by (rule ban_list_roundtrip) simp_all

end
