(* ===== verification/Utf8.thy ===== *)
theory Utf8
  imports StdMap
begin

text \<open>
  Text of the clients: the UTF-8 library \<open>src/dep/utf8cpp/utf8/core.h\<close> and \<open>checked.h\<close>, the conversions
  to and from wide strings in \<open>shared/Utilities/Util.cpp\<close>, the case mapping of \<open>Util.h\<close>, and
  \<open>normalizePlayerName\<close> of \<open>shade/Objects/ObjectMgr.cpp\<close>. An iterator is the text from its position to the
  end. The wide strings hold UTF-16 code units, also where \<open>wchar_t\<close> has 32 bits, since
  \<open>utf8::utf8to16\<close> writes them.
\<close>

unbundle bit_operations_syntax

section \<open>Sequences\<close>

datatype utf_error = NOT_ENOUGH_ROOM | INVALID_LEAD | INCOMPLETE_SEQUENCE | OVERLONG_SEQUENCE | INVALID_CODE_POINT

definition LEAD_SURROGATE_MIN :: u32 where "LEAD_SURROGATE_MIN = 0xd800"
definition LEAD_SURROGATE_MAX :: u32 where "LEAD_SURROGATE_MAX = 0xdbff"
definition TRAIL_SURROGATE_MIN :: u32 where "TRAIL_SURROGATE_MIN = 0xdc00"
definition TRAIL_SURROGATE_MAX :: u32 where "TRAIL_SURROGATE_MAX = 0xdfff"
definition LEAD_OFFSET :: u32 where "LEAD_OFFSET = LEAD_SURROGATE_MIN - drop_bit 10 0x10000"
definition SURROGATE_OFFSET :: u32 where
  "SURROGATE_OFFSET = 0x10000 - push_bit 10 LEAD_SURROGATE_MIN - TRAIL_SURROGATE_MIN"
definition CODE_POINT_MAX :: u32 where "CODE_POINT_MAX = 0x0010ffff"

definition is_trail :: "u8 \<Rightarrow> bool" where
  "is_trail oc \<longleftrightarrow> drop_bit 6 oc = 2"

definition is_lead_surrogate :: "u32 \<Rightarrow> bool" where
  "is_lead_surrogate cp \<longleftrightarrow> LEAD_SURROGATE_MIN \<le> cp \<and> cp \<le> LEAD_SURROGATE_MAX"

definition is_trail_surrogate :: "u32 \<Rightarrow> bool" where
  "is_trail_surrogate cp \<longleftrightarrow> TRAIL_SURROGATE_MIN \<le> cp \<and> cp \<le> TRAIL_SURROGATE_MAX"

definition is_surrogate :: "u32 \<Rightarrow> bool" where
  "is_surrogate cp \<longleftrightarrow> LEAD_SURROGATE_MIN \<le> cp \<and> cp \<le> TRAIL_SURROGATE_MAX"

definition is_code_point_valid :: "u32 \<Rightarrow> bool" where
  "is_code_point_valid cp \<longleftrightarrow> cp \<le> CODE_POINT_MAX \<and> \<not> is_surrogate cp"

definition sequence_length :: "u8 \<Rightarrow> nat" where
  "sequence_length lead =
     (if lead < 0x80 then 1
      else if drop_bit 5 lead = 0x6 then 2
      else if drop_bit 4 lead = 0xe then 3
      else if drop_bit 3 lead = 0x1e then 4
      else 0)"

definition is_overlong_sequence :: "u32 \<Rightarrow> nat \<Rightarrow> bool" where
  "is_overlong_sequence cp len \<longleftrightarrow>
     (if cp < 0x80 then len \<noteq> 1
      else if cp < 0x800 then len \<noteq> 2
      else if cp < 0x10000 then len \<noteq> 3
      else False)"

fun increase_safely :: "bytes \<Rightarrow> utf_error + bytes" where
  "increase_safely (_ # c # cs) = (if \<not> is_trail c then Inl INCOMPLETE_SEQUENCE else Inr (c # cs))"
| "increase_safely _ = Inl NOT_ENOUGH_ROOM"

text \<open>Each leaves its iterator on the last octet of the sequence.\<close>

definition get_sequence_1 :: "bytes \<Rightarrow> utf_error + u32 \<times> bytes" where
  "get_sequence_1 it = (if it = [] then Inl NOT_ENOUGH_ROOM else Inr (ucast (hd it), it))"

definition get_sequence_2 :: "bytes \<Rightarrow> utf_error + u32 \<times> bytes" where
  "get_sequence_2 it =
     (if it = [] then Inl NOT_ENOUGH_ROOM
      else rbind (increase_safely it) (\<lambda>it1.
        Inr ((push_bit 6 (ucast (hd it)) AND 0x7ff) + (ucast (hd it1) AND 0x3f), it1)))"

definition get_sequence_3 :: "bytes \<Rightarrow> utf_error + u32 \<times> bytes" where
  "get_sequence_3 it =
     (if it = [] then Inl NOT_ENOUGH_ROOM
      else rbind (increase_safely it) (\<lambda>it1. rbind (increase_safely it1) (\<lambda>it2.
        Inr ((push_bit 12 (ucast (hd it)) AND 0xffff) + (push_bit 6 (ucast (hd it1)) AND 0xfff) +
             (ucast (hd it2) AND 0x3f), it2))))"

definition get_sequence_4 :: "bytes \<Rightarrow> utf_error + u32 \<times> bytes" where
  "get_sequence_4 it =
     (if it = [] then Inl NOT_ENOUGH_ROOM
      else rbind (increase_safely it) (\<lambda>it1. rbind (increase_safely it1) (\<lambda>it2. rbind (increase_safely it2) (\<lambda>it3.
        Inr ((push_bit 18 (ucast (hd it)) AND 0x1fffff) + (push_bit 12 (ucast (hd it1)) AND 0x3ffff) +
             (push_bit 6 (ucast (hd it2)) AND 0xfff) + (ucast (hd it3) AND 0x3f), it3)))))"

text \<open>The next code point of a text that is not at its end, and the text behind it.\<close>

definition validate_next :: "bytes \<Rightarrow> utf_error + u32 \<times> bytes" where
  "validate_next it =
     (let len = sequence_length (hd it)
      in if len = 0 then Inl INVALID_LEAD
         else rbind (if len = 1 then get_sequence_1 it else if len = 2 then get_sequence_2 it
                     else if len = 3 then get_sequence_3 it else get_sequence_4 it)
           (\<lambda>(cp, it'). if \<not> is_code_point_valid cp then Inl INVALID_CODE_POINT
              else if is_overlong_sequence cp len then Inl OVERLONG_SEQUENCE
              else Inr (cp, tl it')))"

lemma increase_safely_Inr: "increase_safely it = Inr it1 \<longleftrightarrow> (\<exists>a c cs. it = a # c # cs \<and> is_trail c \<and> it1 = c # cs)"
  by (cases it rule: increase_safely.cases) auto

lemmas get_sequence_defs = get_sequence_1_def get_sequence_2_def get_sequence_3_def get_sequence_4_def

lemma validate_next_shorter: "it \<noteq> [] \<Longrightarrow> validate_next it = Inr (cp, rest) \<Longrightarrow> length rest < length it"
  by (auto simp: validate_next_def Let_def get_sequence_defs increase_safely_Inr split: if_splits)

section \<open>Whole texts\<close>

function distance :: "bytes \<Rightarrow> utf_error + nat" where
  "distance it =
     (if it = [] then Inr 0
      else (case validate_next it of
              Inl e \<Rightarrow> Inl e
            | Inr (cp, rest) \<Rightarrow> rbind (distance rest) (\<lambda>n. Inr (Suc n))))"
  by pat_completeness auto
termination by (relation "measure length") (auto simp: validate_next_shorter)

definition code_units :: "u32 \<Rightarrow> u16 list" where
  "code_units cp =
     (if 0xffff < cp then [ucast (drop_bit 10 cp + LEAD_OFFSET), ucast ((cp AND 0x3ff) + TRAIL_SURROGATE_MIN)]
      else [ucast cp])"

function utf8to16 :: "bytes \<Rightarrow> utf_error + u16 list" where
  "utf8to16 it =
     (if it = [] then Inr []
      else (case validate_next it of
              Inl e \<Rightarrow> Inl e
            | Inr (cp, rest) \<Rightarrow> rbind (utf8to16 rest) (\<lambda>ws. Inr (code_units cp @ ws))))"
  by pat_completeness auto
termination by (relation "measure length") (auto simp: validate_next_shorter)

declare distance.simps [simp del] utf8to16.simps [simp del]

text \<open>\<open>utf8::append\<close>; \<open>None\<close> is the exception.\<close>

definition utf8_append :: "u32 \<Rightarrow> bytes option" where
  "utf8_append cp =
     (if \<not> is_code_point_valid cp then None
      else if cp < 0x80 then Some [ucast cp]
      else if cp < 0x800 then Some [ucast (drop_bit 6 cp OR 0xc0), ucast ((cp AND 0x3f) OR 0x80)]
      else if cp < 0x10000 then
        Some [ucast (drop_bit 12 cp OR 0xe0), ucast ((drop_bit 6 cp AND 0x3f) OR 0x80), ucast ((cp AND 0x3f) OR 0x80)]
      else Some [ucast (drop_bit 18 cp OR 0xf0), ucast ((drop_bit 12 cp AND 0x3f) OR 0x80),
                 ucast ((drop_bit 6 cp AND 0x3f) OR 0x80), ucast ((cp AND 0x3f) OR 0x80)])"

fun utf16to8 :: "u16 list \<Rightarrow> bytes option" where
  "utf16to8 [] = Some []"
| "utf16to8 (u # us) =
     (let cp = ucast u
      in if is_lead_surrogate cp then
           (case us of
              [] \<Rightarrow> None
            | t # ts \<Rightarrow>
                if is_trail_surrogate (ucast t)
                then Option.bind (utf8_append (push_bit 10 cp + ucast t + SURROGATE_OFFSET))
                       (\<lambda>x. Option.bind (utf16to8 ts) (\<lambda>xs. Some (x @ xs)))
                else None)
         else if is_trail_surrogate cp then None
         else Option.bind (utf8_append cp) (\<lambda>x. Option.bind (utf16to8 us) (\<lambda>xs. Some (x @ xs))))"

section \<open>Decoding is the inverse of encoding\<close>

text \<open>The operations on words as arithmetic on their values.\<close>

lemma unat_and_masks:
  fixes c :: u32
  shows "unat (c AND 0x3f) = unat c mod 64" "unat (c AND 0x7ff) = unat c mod 2048" "unat (c AND 0xfff) = unat c mod 4096"
    "unat (c AND 0xffff) = unat c mod 65536" "unat (c AND 0x3ffff) = unat c mod 262144"
    "unat (c AND 0x1fffff) = unat c mod 2097152" "unat (c AND 0x3ff) = unat c mod 1024"
proof -
  have m: "unat (c AND mask n) = unat c mod 2 ^ n" for n
    unfolding take_bit_eq_mask [symmetric] unsigned_take_bit_eq by (rule take_bit_eq_mod)
  show "unat (c AND 0x3f) = unat c mod 64" "unat (c AND 0x7ff) = unat c mod 2048" "unat (c AND 0xfff) = unat c mod 4096"
    "unat (c AND 0xffff) = unat c mod 65536" "unat (c AND 0x3ffff) = unat c mod 262144"
    "unat (c AND 0x1fffff) = unat c mod 2097152" "unat (c AND 0x3ff) = unat c mod 1024"
    using m [of 6] m [of 11] m [of 12] m [of 16] m [of 18] m [of 21] m [of 10] by (simp_all add: mask_eq_exp_minus_1)
qed

lemma unat_shifted: "n \<le> 18 \<Longrightarrow> unat (push_bit n (ucast (b :: u8)) :: u32) = unat b * 2 ^ n"
proof -
  assume n: "n \<le> 18"
  have b: "unat b * 2 ^ n < 2 ^ 32"
    using mult_less_le_imp_less [of "unat b" 256 "2 ^ n" "2 ^ 18 :: nat"] n power_increasing [of n 18 "2 :: nat"] by simp
  have "unat b < 2 ^ 32" by (rule less_trans [OF unat_less_numeral_8]) simp
  with b show ?thesis unfolding unsigned_push_bit_eq unsigned_ucast_eq take_bit_eq_mod push_bit_eq_mult [where 'a = nat]
    by simp
qed

lemma unat_u8_u32: "unat (ucast (b :: u8) :: u32) = unat b"
  using unat_less_numeral_8 [of b] by (simp add: unsigned_ucast_eq take_bit_eq_mod del: unat_less_numeral_8)

lemma unat_low: "unat (ucast (c :: u32) :: u8) = unat c mod 256"
  by (simp add: unsigned_ucast_eq take_bit_eq_mod)

lemma unat_drop: "unat (drop_bit n (c :: 'a::len word)) = unat c div 2 ^ n"
  using unat_drop_bit_eq [of n c] by (simp add: drop_bit_eq_div)

lemma or_marks:
  fixes k :: nat
  shows "k < 64 \<Longrightarrow> k OR 128 = 128 + k" "k < 32 \<Longrightarrow> k OR 192 = 192 + k" "k < 16 \<Longrightarrow> k OR 224 = 224 + k"
    "k < 8 \<Longrightarrow> k OR 240 = 240 + k"
proof -
  have "\<forall>k \<in> set [0..<64]. k OR 128 = 128 + k" "\<forall>k \<in> set [0..<32]. k OR 192 = 192 + k"
    "\<forall>k \<in> set [0..<16]. k OR 224 = 224 + k" "\<forall>k \<in> set [0..<8]. k OR (240 :: nat) = 240 + k"
    by code_simp+
  then show "k < 64 \<Longrightarrow> k OR 128 = 128 + k" "k < 32 \<Longrightarrow> k OR 192 = 192 + k" "k < 16 \<Longrightarrow> k OR 224 = 224 + k"
    "k < 8 \<Longrightarrow> k OR 240 = 240 + k"
    by simp_all
qed

lemma unat_mark:
  fixes c :: u32
  shows "unat c < 64 \<Longrightarrow> unat (ucast (c OR 0x80) :: u8) = 128 + unat c"
    "unat c < 32 \<Longrightarrow> unat (ucast (c OR 0xc0) :: u8) = 192 + unat c"
    "unat c < 16 \<Longrightarrow> unat (ucast (c OR 0xe0) :: u8) = 224 + unat c"
    "unat c < 8 \<Longrightarrow> unat (ucast (c OR 0xf0) :: u8) = 240 + unat c"
  by (simp_all add: unat_low unsigned_or_eq or_marks)

lemma unat_plus: "unat (x :: u32) + unat y < 2 ^ 32 \<Longrightarrow> unat (x + y) = unat x + unat y"
  by (simp add: unat_word_ariths(1))

lemma is_trail_div: "is_trail b \<longleftrightarrow> unat b div 64 = 2"
  by (simp add: is_trail_def word_unat_eq_iff unat_drop)

lemma is_trail_nat: "is_trail b \<longleftrightarrow> 128 \<le> unat b \<and> unat b < 192"
  unfolding is_trail_div by auto

lemma sequence_length_nat:
  "sequence_length a = (if unat a < 128 then 1 else if 192 \<le> unat a \<and> unat a < 224 then 2
     else if 224 \<le> unat a \<and> unat a < 240 then 3 else if 240 \<le> unat a \<and> unat a < 248 then 4 else 0)"
proof -
  have "n div 32 = 6 \<longleftrightarrow> 192 \<le> n \<and> n < 224" "n div 16 = 14 \<longleftrightarrow> 224 \<le> n \<and> n < 240"
    "n div 8 = 30 \<longleftrightarrow> 240 \<le> n \<and> n < 248" for n :: nat
    by auto
  then show ?thesis by (simp add: sequence_length_def word_unat_eq_iff unat_drop word_less_nat_alt)
qed

lemma mods:
  fixes a :: nat
  shows "a * 64 mod 2048 = a mod 32 * 64" "a * 64 mod 4096 = a mod 64 * 64" "a * 4096 mod 65536 = a mod 16 * 4096"
    "a * 4096 mod 262144 = a mod 64 * 4096" "a * 262144 mod 2097152 = a mod 8 * 262144"
  using mod_mult_mult2 [of a 64 32] mod_mult_mult2 [of a 64 64] mod_mult_mult2 [of a 4096 16] mod_mult_mult2 [of a 4096 64]
    mod_mult_mult2 [of a 262144 8] by simp_all

lemma seq2_nat:
  "unat ((push_bit 6 (ucast (a :: u8)) AND 0x7ff) + (ucast (b :: u8) AND 0x3f) :: u32) = unat a mod 32 * 64 + unat b mod 64"
  unfolding mods [symmetric] by (subst unat_plus) (simp_all add: unat_and_masks unat_shifted unat_u8_u32)

lemma seq3_nat:
  "unat ((push_bit 12 (ucast (a :: u8)) AND 0xffff) + (push_bit 6 (ucast (b :: u8)) AND 0xfff) + (ucast (c :: u8) AND 0x3f) :: u32)
   = unat a mod 16 * 4096 + unat b mod 64 * 64 + unat c mod 64"
proof -
  have "unat a * 4096 mod 65536 < 65536" "unat b * 64 mod 4096 < 4096" "unat c mod 64 < 64" by simp_all
  then show ?thesis unfolding mods [symmetric] by (subst unat_plus, subst unat_plus) (simp_all add: unat_and_masks unat_shifted unat_u8_u32 unat_plus)
qed

lemma seq4_nat:
  "unat ((push_bit 18 (ucast (a :: u8)) AND 0x1fffff) + (push_bit 12 (ucast (b :: u8)) AND 0x3ffff) +
     (push_bit 6 (ucast (c :: u8)) AND 0xfff) + (ucast (d :: u8) AND 0x3f) :: u32)
   = unat a mod 8 * 262144 + unat b mod 64 * 4096 + unat c mod 64 * 64 + unat d mod 64"
proof -
  have "unat a * 262144 mod 2097152 < 2097152" "unat b * 4096 mod 262144 < 262144" "unat c * 64 mod 4096 < 4096"
    "unat d mod 64 < 64" by simp_all
  then show ?thesis unfolding mods [symmetric]
    by (subst unat_plus, subst unat_plus, subst unat_plus) (simp_all add: unat_and_masks unat_shifted unat_u8_u32 unat_plus)
qed

lemma valid_nat: "is_code_point_valid cp \<longleftrightarrow> unat cp \<le> 1114111 \<and> (unat cp < 55296 \<or> 57343 < unat cp)"
  by (auto simp: is_code_point_valid_def is_surrogate_def CODE_POINT_MAX_def LEAD_SURROGATE_MIN_def TRAIL_SURROGATE_MAX_def
      word_le_nat_alt)

lemma overlong_nat:
  "is_overlong_sequence cp len \<longleftrightarrow> (if unat cp < 128 then len \<noteq> 1 else if unat cp < 2048 then len \<noteq> 2
     else if unat cp < 65536 then len \<noteq> 3 else False)"
  by (simp add: is_overlong_sequence_def word_less_nat_alt)

text \<open>The octets of a code point, by their values.\<close>

lemma append_nat:
  assumes "is_code_point_valid cp"
  shows "map_option (map unat) (utf8_append cp) = Some (let n = unat cp in
     if n < 128 then [n]
     else if n < 2048 then [192 + n div 64, 128 + n mod 64]
     else if n < 65536 then [224 + n div 4096, 128 + n div 64 mod 64, 128 + n mod 64]
     else [240 + n div 262144, 128 + n div 4096 mod 64, 128 + n div 64 mod 64, 128 + n mod 64])"
proof -
  have n: "unat cp \<le> 1114111" using assms by (simp add: valid_nat)
  have d: "unat cp < 2048 \<Longrightarrow> unat cp div 64 < 32" "unat cp < 65536 \<Longrightarrow> unat cp div 4096 < 16" "unat cp div 262144 < 8"
    using n by (auto simp: div_less_iff_less_mult)
  show ?thesis using assms d n
    using unat_low [of cp] by (simp add: utf8_append_def Let_def word_less_nat_alt unat_mark unat_drop unat_and_masks)
qed

lemma words_unat_eq: "map unat xs = map unat (ys :: 'a::len word list) \<longleftrightarrow> xs = ys"
  by (simp add: inj_map_eq_map [OF inj_onI] word_unat_eq_iff)

text \<open>The octets of a code point decode to it.\<close>

lemma digits:
  fixes n :: nat
  shows "n div 64 * 64 + n mod 64 = n" "n div 4096 * 4096 + n div 64 mod 64 * 64 + n mod 64 = n"
    "n div 262144 * 262144 + n div 4096 mod 64 * 4096 + n div 64 mod 64 * 64 + n mod 64 = n"
proof -
  have q: "n div 4096 = n div 64 div 64" "n div 262144 = n div 4096 div 64" by (simp_all flip: div_mult2_eq)
  have d: "n div 64 * 64 + n mod 64 = n" "n div 4096 * 64 + n div 64 mod 64 = n div 64"
    "n div 262144 * 64 + n div 4096 mod 64 = n div 4096"
    unfolding q by simp_all
  then show "n div 64 * 64 + n mod 64 = n" "n div 4096 * 4096 + n div 64 mod 64 * 64 + n mod 64 = n"
    "n div 262144 * 262144 + n div 4096 mod 64 * 4096 + n div 64 mod 64 * 64 + n mod 64 = n"
    by linarith+
qed

lemma split64: "z < 64 \<Longrightarrow> (m * 64 + z) div 64 = m \<and> (m * 64 + z) mod 64 = (z :: nat)"
  by simp

lemma low64: "(128 + n mod 64) mod 64 = n mod (64 :: nat)"
  using mod_mult_self1 [of "n mod 64" 2 64] by (simp add: add.commute)

lemma low32: "q < 32 \<Longrightarrow> (192 + q) mod 32 = (q :: nat)"
  using mod_mult_self1 [of q 6 32] by (simp add: add.commute)

lemma low16: "q < 16 \<Longrightarrow> (224 + q) mod 16 = (q :: nat)"
  using mod_mult_self1 [of q 14 16] by (simp add: add.commute)

lemma low8: "q < 8 \<Longrightarrow> (240 + q) mod 8 = (q :: nat)"
  using mod_mult_self1 [of q 30 8] by (simp add: add.commute)

lemma validate_next_append:
  assumes "utf8_append cp = Some x"
  shows "x \<noteq> [] \<and> validate_next (x @ rest) = Inr (cp, rest)"
proof -
  have v: "is_code_point_valid cp" using assms by (simp add: utf8_append_def split: if_splits)
  have x: "map unat x = (let n = unat cp in
     if n < 128 then [n]
     else if n < 2048 then [192 + n div 64, 128 + n mod 64]
     else if n < 65536 then [224 + n div 4096, 128 + n div 64 mod 64, 128 + n mod 64]
     else [240 + n div 262144, 128 + n div 4096 mod 64, 128 + n div 64 mod 64, 128 + n mod 64])"
    using append_nat [OF v] assms by simp
  have n: "unat cp < 1114112" using v by (simp add: valid_nat)
  consider "unat cp < 128" | "128 \<le> unat cp" "unat cp < 2048" | "2048 \<le> unat cp" "unat cp < 65536" | "65536 \<le> unat cp"
    by linarith
  then show ?thesis
  proof cases
    case 1
    then obtain a where a: "x = [a]" "unat a = unat cp" using x by (auto simp: Let_def map_eq_Cons_conv)
    then have "ucast a = cp" by (simp add: word_unat_eq_iff unat_u8_u32)
    then show ?thesis using a 1 v
      by (simp add: validate_next_def sequence_length_nat get_sequence_1_def overlong_nat)
  next
    case 2
    then obtain a b where a: "x = [a, b]" "unat a = 192 + unat cp div 64" "unat b = 128 + unat cp mod 64"
      using x by (auto simp: Let_def map_eq_Cons_conv)
    have q: "unat cp div 64 < 32" using 2 by (simp add: div_less_iff_less_mult)
    have "sequence_length a = 2" unfolding sequence_length_nat a(2) using q by simp
    moreover have "is_trail b" by (simp add: is_trail_nat a(3))
    moreover have "(push_bit 6 (ucast a) AND 0x7ff) + (ucast b AND 0x3f) = cp"
      unfolding word_unat_eq_iff seq2_nat a(2,3) using q low32 by (simp add: low64)
    ultimately show ?thesis using a(1) 2 v
      by (simp add: validate_next_def get_sequence_2_def overlong_nat)
  next
    case 3
    then obtain a b c where a: "x = [a, b, c]" "unat a = 224 + unat cp div 4096" "unat b = 128 + unat cp div 64 mod 64"
      "unat c = 128 + unat cp mod 64"
      using x by (auto simp: Let_def map_eq_Cons_conv)
    have q: "unat cp div 4096 < 16" using 3 by (simp add: div_less_iff_less_mult)
    have "sequence_length a = 3" unfolding sequence_length_nat a(2) using q by simp
    moreover have "is_trail b" "is_trail c" by (simp_all add: is_trail_nat a(3,4))
    moreover have "(push_bit 12 (ucast a) AND 0xffff) + (push_bit 6 (ucast b) AND 0xfff) + (ucast c AND 0x3f) = cp"
      unfolding word_unat_eq_iff seq3_nat a(2-4) using q low16 digits(2) [of "unat cp"] by (simp add: low64)
    ultimately show ?thesis using a(1) 3 v
      by (simp add: validate_next_def get_sequence_3_def overlong_nat)
  next
    case 4
    then obtain a b c d where a: "x = [a, b, c, d]" "unat a = 240 + unat cp div 262144" "unat b = 128 + unat cp div 4096 mod 64"
      "unat c = 128 + unat cp div 64 mod 64" "unat d = 128 + unat cp mod 64"
      using x by (auto simp: Let_def map_eq_Cons_conv)
    have q: "unat cp div 262144 < 8" using n by (simp add: div_less_iff_less_mult)
    have "sequence_length a = 4" unfolding sequence_length_nat a(2) using q by simp
    moreover have "is_trail b" "is_trail c" "is_trail d" by (simp_all add: is_trail_nat a(3-5))
    moreover have "(push_bit 18 (ucast a) AND 0x1fffff) + (push_bit 12 (ucast b) AND 0x3ffff) + (push_bit 6 (ucast c) AND 0xfff) +
        (ucast d AND 0x3f) = cp"
      unfolding word_unat_eq_iff seq4_nat a(2-5) using q low8 digits(3) [of "unat cp"] by (simp add: low64)
    ultimately show ?thesis using a(1) 4 v
      by (simp add: validate_next_def get_sequence_4_def overlong_nat)
  qed
qed

text \<open>What decodes is what the encoder writes.\<close>

lemma validate_next_encodes:
  assumes "it \<noteq> []" and "validate_next it = Inr (cp, rest)"
  shows "\<exists>x. utf8_append cp = Some x \<and> it = x @ rest"
proof -
  obtain a r where it: "it = a # r" using assms(1) by (cases it) auto
  have v: "is_code_point_valid cp" and lo: "\<not> is_overlong_sequence cp (sequence_length a)"
    using assms(2) by (auto simp: validate_next_def Let_def it split: if_splits)
  obtain x where x: "utf8_append cp = Some x" using append_nat [OF v] by (cases "utf8_append cp") auto
  have xs: "map unat x = (let n = unat cp in
     if n < 128 then [n]
     else if n < 2048 then [192 + n div 64, 128 + n mod 64]
     else if n < 65536 then [224 + n div 4096, 128 + n div 64 mod 64, 128 + n mod 64]
     else [240 + n div 262144, 128 + n div 4096 mod 64, 128 + n div 64 mod 64, 128 + n mod 64])"
    using append_nat [OF v] x by simp
  have unread: "it = x @ rest" if "it = y @ rest" "map unat y = map unat x" for y
    using that by (simp add: words_unat_eq)
  have t: "128 + unat b mod 64 = unat b" if "is_trail b" for b
    using that div_mult_mod_eq [of "unat b" 64] by (simp add: is_trail_div)
  consider (1) "unat a < 128" | (2) "192 \<le> unat a" "unat a < 224"
    | (3) "224 \<le> unat a" "unat a < 240" | (4) "240 \<le> unat a" "unat a < 248"
    using assms(2) by (auto simp: validate_next_def it sequence_length_nat split: if_splits)
  then have "it = x @ rest"
  proof cases
    case 1
    then have "cp = ucast a" "rest = r"
      using assms(2) by (auto simp: validate_next_def it sequence_length_nat get_sequence_1_def split: if_splits)
    with 1 xs have "map unat [a] = map unat x" by (simp add: Let_def unat_u8_u32)
    then show ?thesis using unread [of "[a]"] by (simp add: it \<open>rest = r\<close>)
  next
    case 2
    then have len: "sequence_length a = 2" by (simp add: sequence_length_nat)
    obtain b where b: "r = b # rest" "is_trail b" "cp = (push_bit 6 (ucast a) AND 0x7ff) + (ucast b AND 0x3f)"
      using assms(2) by (auto simp: validate_next_def it len get_sequence_2_def increase_safely_Inr split: if_splits)
    obtain k y where ky: "k = unat a mod 32" "y = unat b mod 64" "k < 32" "y < 64" by simp
    have n: "unat cp = k * 64 + y" by (simp add: b(3) seq2_nat ky)
    have "unat a = 192 + k" using div_mult_mod_eq [of "unat a" 32] div_nat_eqI [of 32 6 "unat a"] 2 ky(1) by simp
    moreover have "128 \<le> unat cp \<and> unat cp < 2048" using lo n ky(3,4) by (auto simp: overlong_nat len split: if_splits)
    moreover have "unat cp div 64 = k" "unat cp mod 64 = y" using n ky(4) by simp_all
    ultimately have "map unat [a, b] = map unat x" using xs t [OF b(2)] ky(2) by (simp add: Let_def)
    then show ?thesis using unread [of "[a, b]"] by (simp add: it b(1))
  next
    case 3
    then have len: "sequence_length a = 3" by (simp add: sequence_length_nat)
    obtain b c where b: "r = b # c # rest" "is_trail b" "is_trail c"
      "cp = (push_bit 12 (ucast a) AND 0xffff) + (push_bit 6 (ucast b) AND 0xfff) + (ucast c AND 0x3f)"
      using assms(2) by (auto simp: validate_next_def it len get_sequence_3_def increase_safely_Inr split: if_splits)
    obtain k y z where ky: "k = unat a mod 16" "y = unat b mod 64" "z = unat c mod 64" "k < 16" "y < 64" "z < 64" by simp
    have n: "unat cp = (k * 64 + y) * 64 + z" unfolding b(4) seq3_nat ky(1-3) by simp
    have "unat a = 224 + k" using div_mult_mod_eq [of "unat a" 16] div_nat_eqI [of 16 14 "unat a"] 3 ky(1) by simp
    moreover have "2048 \<le> unat cp \<and> unat cp < 65536" using lo n ky(4-6) by (auto simp: overlong_nat len split: if_splits)
    moreover have d: "unat cp div 64 = k * 64 + y" "unat cp mod 64 = z" unfolding n using split64 [OF ky(6)] by blast+
    moreover have "unat cp div 4096 = (k * 64 + y) div 64" using d(1) div_mult2_eq [of "unat cp" 64 64] by simp
    ultimately have "map unat [a, b, c] = map unat x" using xs t [OF b(2)] t [OF b(3)] ky(2,3,5) by (simp add: Let_def)
    then show ?thesis using unread [of "[a, b, c]"] by (simp add: it b(1))
  next
    case 4
    then have len: "sequence_length a = 4" by (simp add: sequence_length_nat)
    obtain b c d where b: "r = b # c # d # rest" "is_trail b" "is_trail c" "is_trail d"
      "cp = (push_bit 18 (ucast a) AND 0x1fffff) + (push_bit 12 (ucast b) AND 0x3ffff) + (push_bit 6 (ucast c) AND 0xfff) +
        (ucast d AND 0x3f)"
      using assms(2) by (auto simp: validate_next_def it len get_sequence_4_def increase_safely_Inr split: if_splits)
    obtain k y z u where ky: "k = unat a mod 8" "y = unat b mod 64" "z = unat c mod 64" "u = unat d mod 64" "y < 64" "z < 64" "u < 64"
      by simp
    have n: "unat cp = ((k * 64 + y) * 64 + z) * 64 + u" unfolding b(5) seq4_nat ky(1-4) by simp
    have d: "unat cp div 64 = (k * 64 + y) * 64 + z" "unat cp mod 64 = u" unfolding n using split64 [OF ky(7)] by blast+
    have e: "unat cp div 4096 = k * 64 + y" using d(1) ky(6) div_mult2_eq [of "unat cp" 64 64] by simp
    have "unat a = 240 + k" using div_mult_mod_eq [of "unat a" 8] div_nat_eqI [of 8 30 "unat a"] 4 ky(1) by simp
    moreover have "65536 \<le> unat cp" using lo by (auto simp: overlong_nat len split: if_splits)
    moreover have "unat cp div 64 mod 64 = z" unfolding d(1) using split64 [OF ky(6)] by blast
    moreover have "unat cp div 262144 = k" using e ky(5) div_mult2_eq [of "unat cp" 4096 64] by simp
    moreover have "unat cp div 4096 mod 64 = y" unfolding e using split64 [OF ky(5)] by blast
    ultimately have "map unat [a, b, c, d] = map unat x"
      using xs t [OF b(2)] t [OF b(3)] t [OF b(4)] ky(2-4) d(2) by (simp add: Let_def)
    then show ?thesis using unread [of "[a, b, c, d]"] by (simp add: it b(1))
  qed
  with x show ?thesis by blast
qed

section \<open>UTF-16\<close>

text \<open>A text is the concatenation of the encodings of its code points; both conversions go point by point.\<close>

lemma distance_encode:
  assumes "utf8_append cp = Some x"
  shows "distance (x @ it) = rbind (distance it) (\<lambda>n. Inr (Suc n))"
  using validate_next_append [OF assms, of it] by (subst distance.simps) simp

lemma utf8to16_encode:
  assumes "utf8_append cp = Some x"
  shows "utf8to16 (x @ it) = rbind (utf8to16 it) (\<lambda>ws. Inr (code_units cp @ ws))"
  using validate_next_append [OF assms, of it] by (subst utf8to16.simps) simp

lemma utf_Nil [simp]: "distance [] = Inr 0" "utf8to16 [] = Inr []"
  by (subst distance.simps, simp) (subst utf8to16.simps, simp)

lemma encodable: "is_code_point_valid cp \<longleftrightarrow> (\<exists>x. utf8_append cp = Some x)"
  by (auto simp: utf8_append_def)

lemma utf8to16_cases:
  assumes "it \<noteq> []" and "utf8to16 it = Inr ws"
  obtains cp x rest us where "utf8_append cp = Some x" "it = x @ rest" "utf8to16 rest = Inr us" "ws = code_units cp @ us"
    "length rest < length it"
proof -
  obtain cp rest us where r: "validate_next it = Inr (cp, rest)" "utf8to16 rest = Inr us" "ws = code_units cp @ us"
    using assms by (subst (asm) utf8to16.simps) (auto split: sum.splits)
  obtain x where "utf8_append cp = Some x" "it = x @ rest" using validate_next_encodes [OF assms(1) r(1)] by blast
  then show ?thesis using that r validate_next_shorter [OF assms(1) r(1)] by blast
qed

lemma lead_bound: "is_code_point_valid cp \<Longrightarrow> (unat cp - 65536) div 1024 < 1024"
proof -
  assume "is_code_point_valid cp"
  then have "unat cp \<le> 1114111" by (simp add: valid_nat)
  then have "unat cp - 65536 < 1024 * 1024" by simp
  then show ?thesis by (simp only: div_less_iff_less_mult)
qed

text \<open>The two code units of a supplementary code point, by their values.\<close>

lemma unat_u32_u16: "unat (ucast (c :: u32) :: u16) = unat c mod 65536"
  by (simp add: unsigned_ucast_eq take_bit_eq_mod)

lemma unat_u16_u32: "unat (ucast (u :: u16) :: u32) = unat u"
  using unat_u16_bound [of u] by (simp add: unsigned_ucast_eq take_bit_eq_mod)

lemma surrogate_nat:
  "is_lead_surrogate c \<longleftrightarrow> 55296 \<le> unat c \<and> unat c \<le> 56319"
  "is_trail_surrogate c \<longleftrightarrow> 56320 \<le> unat c \<and> unat c \<le> 57343"
  by (auto simp: is_lead_surrogate_def is_trail_surrogate_def LEAD_SURROGATE_MIN_def LEAD_SURROGATE_MAX_def
      TRAIL_SURROGATE_MIN_def TRAIL_SURROGATE_MAX_def word_le_nat_alt)

lemma code_units_nat:
  assumes "is_code_point_valid cp"
  shows "map unat (code_units cp) =
    (if unat cp < 65536 then [unat cp]
     else [55296 + (unat cp - 65536) div 1024, 56320 + (unat cp - 65536) mod 1024])"
proof (cases "unat cp < 65536")
  case True
  then show ?thesis by (simp add: code_units_def word_less_nat_alt unat_u32_u16)
next
  case False
  then obtain m where m: "unat cp = 65536 + m" using le_Suc_ex by fastforce
  have b: "m < 1048576" using assms m by (simp add: valid_nat)
  then have q: "m div 1024 < 1024" by (simp add: div_less_iff_less_mult)
  have "unat (drop_bit 10 cp) = 64 + m div 1024" by (simp add: unat_drop m)
  then have "unat (drop_bit 10 cp + LEAD_OFFSET) = 55296 + m div 1024"
    using q by (subst unat_plus) (simp_all add: LEAD_OFFSET_def LEAD_SURROGATE_MIN_def)
  moreover have "unat ((cp AND 0x3ff) + TRAIL_SURROGATE_MIN) = 56320 + m mod 1024"
  proof -
    have "(65536 + m) mod 1024 = m mod 1024" using mod_mult_self1 [of m 64 1024] by (simp add: add.commute)
    moreover have "m mod 1024 < 1024" by simp
    ultimately show ?thesis by (subst unat_plus) (simp_all add: unat_and_masks m TRAIL_SURROGATE_MIN_def)
  qed
  ultimately show ?thesis using False q by (simp add: code_units_def word_less_nat_alt unat_u32_u16 m)
qed

lemma combine_surrogates:
  assumes "is_lead_surrogate (ucast (l :: u16))" and "is_trail_surrogate (ucast (t :: u16))"
  shows "unat (push_bit 10 (ucast l) + ucast t + SURROGATE_OFFSET) = 65536 + (unat l - 55296) * 1024 + (unat t - 56320)"
proof -
  obtain q where q: "unat l = 55296 + q" "q < 1024"
    using assms(1) le_Suc_ex [of 55296 "unat l"] by (auto simp: surrogate_nat unat_u16_u32)
  obtain r where r: "unat t = 56320 + r" "r < 1024"
    using assms(2) le_Suc_ex [of 56320 "unat t"] by (auto simp: surrogate_nat unat_u16_u32)
  have s: "unat (push_bit 10 (ucast l :: u32)) = unat l * 1024"
  proof -
    have "unat l * 1024 < 2 ^ 32" using q by simp
    then show ?thesis unfolding unsigned_push_bit_eq unat_u16_u32 take_bit_eq_mod push_bit_eq_mult [where 'a = nat] by simp
  qed
  have o: "unat SURROGATE_OFFSET = 4238353408"
    by (simp add: SURROGATE_OFFSET_def LEAD_SURROGATE_MIN_def TRAIL_SURROGATE_MIN_def)
  have "unat (push_bit 10 (ucast l :: u32) + ucast t) = 56679424 + q * 1024 + r"
    using q r by (subst unat_plus) (simp_all add: s unat_u16_u32)
  then have "unat (push_bit 10 (ucast l) + ucast t + SURROGATE_OFFSET) = (4295032832 + q * 1024 + r) mod 4294967296"
    by (simp only: unat_word_ariths(1) [of "push_bit 10 (ucast l) + ucast t" SURROGATE_OFFSET] o) (simp add: add.assoc)
  also have "\<dots> = 65536 + q * 1024 + r"
    using q(2) r(2) mod_mult_self1 [of "65536 + q * 1024 + r" 1 4294967296] by (simp add: add.assoc)
  finally show ?thesis by (simp add: q r)
qed

lemma utf16to8_units:
  assumes "utf8_append cp = Some x"
  shows "utf16to8 (code_units cp @ us) = Option.bind (utf16to8 us) (\<lambda>xs. Some (x @ xs))"
proof -
  have v: "is_code_point_valid cp" using assms encodable by blast
  show ?thesis
  proof (cases "unat cp < 65536")
    case True
    then have u: "code_units cp = [ucast cp]" by (simp add: code_units_def word_less_nat_alt)
    have c: "ucast (ucast cp :: u16) = cp"
      using True by (simp add: word_unat_eq_iff unat_u16_u32 unat_u32_u16)
    have "\<not> is_lead_surrogate cp" "\<not> is_trail_surrogate cp" using v by (auto simp: surrogate_nat valid_nat)
    then show ?thesis by (simp add: u c assms)
  next
    case False
    then obtain l t where lt: "code_units cp = [l, t]" by (simp add: code_units_def word_less_nat_alt)
    then have n: "unat l = 55296 + (unat cp - 65536) div 1024" "unat t = 56320 + (unat cp - 65536) mod 1024"
      using code_units_nat [OF v] False by simp_all
    have "(unat cp - 65536) div 1024 < 1024" using lead_bound [OF v] .
    then have s: "is_lead_surrogate (ucast l)" "is_trail_surrogate (ucast t)"
      by (simp_all add: surrogate_nat unat_u16_u32 n)
    have "push_bit 10 (ucast l) + ucast t + SURROGATE_OFFSET = cp"
      unfolding word_unat_eq_iff combine_surrogates [OF s] using False
        div_mult_mod_eq [of "unat cp - 65536" 1024] by (simp add: n)
    then show ?thesis using s assms by (simp add: lt)
  qed
qed

text \<open>
  C37: The way from UTF-8 to UTF-16 and back: a text that converts to wide characters converts back to itself.
\<close>

theorem utf8_roundtrip: "utf8to16 s = Inr ws \<Longrightarrow> utf16to8 ws = Some s"
proof (induction s arbitrary: ws rule: length_induct)
  case (1 s)
  show ?case
  proof (cases "s = []")
    case False
    obtain cp x rest us where c: "utf8_append cp = Some x" "s = x @ rest" "utf8to16 rest = Inr us" "ws = code_units cp @ us"
      "length rest < length s"
      by (rule utf8to16_cases [OF False 1(2)])
    have "utf16to8 us = Some rest" using 1(1) c(3,5) by blast
    then show ?thesis by (simp add: c(2,4) utf16to8_units [OF c(1)])
  qed (use 1 in simp)
qed

lemma utf8_roundtrip_witness:
  "utf8to16 [0xF0, 0x9F, 0x98, 0x80] = Inr [0xD83D, 0xDE00] \<and> utf16to8 [0xD83D, 0xDE00] = Some [0xF0, 0x9F, 0x98, 0x80]"
proof -
  have "utf8to16 [0xF0, 0x9F, 0x98, 0x80] = Inr [0xD83D, 0xDE00]" by code_simp
  with utf8_roundtrip [OF this] show ?thesis by blast
qed

lemma units_of_unit:
  assumes "\<not> is_lead_surrogate (ucast u)" and "\<not> is_trail_surrogate (ucast u)"
  shows "is_code_point_valid (ucast (u :: u16)) \<and> code_units (ucast u) = [u]"
  using assms unat_u16_bound [of u]
  by (auto simp: valid_nat surrogate_nat unat_u16_u32 code_units_def word_less_nat_alt word_unat_eq_iff unat_u32_u16)

lemma units_of_pair:
  assumes "is_lead_surrogate (ucast l)" and "is_trail_surrogate (ucast t)"
  shows "code_units (push_bit 10 (ucast (l :: u16)) + ucast (t :: u16) + SURROGATE_OFFSET) = [l, t]"
proof -
  let ?cp = "push_bit 10 (ucast l) + ucast t + SURROGATE_OFFSET"
  obtain q where q: "unat l = 55296 + q" "q < 1024"
    using assms(1) le_Suc_ex [of 55296 "unat l"] by (auto simp: surrogate_nat unat_u16_u32)
  obtain r where r: "unat t = 56320 + r" "r < 1024"
    using assms(2) le_Suc_ex [of 56320 "unat t"] by (auto simp: surrogate_nat unat_u16_u32)
  have n: "unat ?cp = 65536 + q * 1024 + r" unfolding combine_surrogates [OF assms] by (simp add: q r)
  then have v: "is_code_point_valid ?cp" using q r by (simp add: valid_nat)
  have "map unat (code_units ?cp) = map unat [l, t]"
    unfolding code_units_nat [OF v] n using q r by simp
  then show ?thesis by (simp only: words_unat_eq)
qed

lemma utf16to8_decodes: "utf16to8 ws = Some s \<Longrightarrow> utf8to16 s = Inr ws"
proof (induction ws arbitrary: s rule: utf16to8.induct)
  case (2 u us)
  show ?case
  proof (cases "is_lead_surrogate (ucast u)")
    case True
    then obtain t ts x xs where r: "us = t # ts" "is_trail_surrogate (ucast t)"
      "utf8_append (push_bit 10 (ucast u) + ucast t + SURROGATE_OFFSET) = Some x" "utf16to8 ts = Some xs" "s = x @ xs"
      using 2(3) by (auto split: list.splits if_splits Option.bind_splits)
    have "utf8to16 xs = Inr ts" using 2(1) True r by simp
    then show ?thesis using utf8to16_encode [OF r(3)] units_of_pair [OF True r(2)] by (simp add: r(1,5))
  next
    case False
    then obtain x xs where r: "\<not> is_trail_surrogate (ucast u)" "utf8_append (ucast u) = Some x" "utf16to8 us = Some xs" "s = x @ xs"
      using 2(3) by (auto simp: Let_def split: if_splits Option.bind_splits)
    have "utf8to16 xs = Inr us" using 2(2) False r by simp
    then show ?thesis using utf8to16_encode [OF r(2)] units_of_unit [OF False r(1)] by (simp add: r(4))
  qed
qed simp

section \<open>Conversions into buffers\<close>

definition supplementary :: "u16 list \<Rightarrow> nat" where
  "supplementary ws = length (filter (\<lambda>u. is_lead_surrogate (ucast u)) ws)"

lemma distance_units: "utf8to16 s = Inr ws \<Longrightarrow> \<exists>n. distance s = Inr n \<and> length ws = n + supplementary ws \<and> supplementary ws \<le> n"
proof (induction s arbitrary: ws rule: length_induct)
  case (1 s)
  show ?case
  proof (cases "s = []")
    case False
    obtain cp x rest us where c: "utf8_append cp = Some x" "s = x @ rest" "utf8to16 rest = Inr us" "ws = code_units cp @ us"
      "length rest < length s"
      by (rule utf8to16_cases [OF False 1(2)])
    obtain n where n: "distance rest = Inr n" "length us = n + supplementary us" "supplementary us \<le> n" using 1(1) c(3,5) by blast
    have v: "is_code_point_valid cp" using c(1) encodable by blast
    have u: "length (code_units cp) = Suc (supplementary (code_units cp)) \<and> supplementary (code_units cp) \<le> 1"
    proof (cases "unat cp < 65536")
      case True
      then have "code_units cp = [ucast cp]" by (simp add: code_units_def word_less_nat_alt)
      moreover have "unat (ucast (ucast cp :: u16) :: u32) = unat cp" using True by (simp add: unat_u16_u32 unat_u32_u16)
      ultimately show ?thesis using v by (auto simp: supplementary_def surrogate_nat valid_nat)
    next
      case False
      then obtain l t where lt: "code_units cp = [l, t]" by (simp add: code_units_def word_less_nat_alt)
      then have k: "unat l = 55296 + (unat cp - 65536) div 1024" "unat t = 56320 + (unat cp - 65536) mod 1024"
        using code_units_nat [OF v] False by simp_all
      have "(unat cp - 65536) div 1024 < 1024" using lead_bound [OF v] .
      then show ?thesis by (simp add: lt supplementary_def surrogate_nat unat_u16_u32 k)
    qed
    have "distance s = Inr (Suc n)" by (simp add: c(2) distance_encode [OF c(1)] n(1))
    moreover have "supplementary ws = supplementary (code_units cp) + supplementary us" by (simp add: c(4) supplementary_def)
    ultimately show ?thesis using u n(2,3) by (simp add: c(4))
  qed (use 1 in \<open>simp add: supplementary_def\<close>)
qed

text \<open>
  Into a buffer for \<open>wsize\<close> characters and a null: whether it succeeded, everything that is written from
  the buffer's start on, and the new \<open>wsize\<close>.
\<close>

definition Utf8toWStr :: "bytes \<Rightarrow> nat \<Rightarrow> bool \<times> u16 list \<times> nat" where
  "Utf8toWStr utf8str wsize =
     (case distance utf8str of
        Inl _ \<Rightarrow> (False, if 0 < wsize then [0] else [], 0)
      | Inr len \<Rightarrow>
          if wsize < len then (False, if 0 < wsize then [0] else [], 0)
          else (case utf8to16 utf8str of
                  Inl _ \<Rightarrow> (False, if 0 < len then [0] else [], 0)
                | Inr ws \<Rightarrow> (True, if len < length ws then ws[len := 0] else ws @ [0], len)))"

text \<open>Into a string, which is made to hold \<open>distance\<close> characters; \<open>None\<close> where more is written than it holds.\<close>

definition Utf8toWStr_string :: "bytes \<Rightarrow> u16 list \<Rightarrow> (bool \<times> u16 list) option" where
  "Utf8toWStr_string utf8str wstr =
     (case distance utf8str of
        Inl _ \<Rightarrow> Some (False, [])
      | Inr len \<Rightarrow>
          if len = 0 then Some (True, wstr)
          else (case utf8to16 utf8str of
                  Inl _ \<Rightarrow> Some (False, [])
                | Inr ws \<Rightarrow> if length ws = len then Some (True, ws) else None))"

definition WStrToUtf8 :: "u16 list \<Rightarrow> bool \<times> bytes" where
  "WStrToUtf8 ws = (case utf16to8 ws of Some s \<Rightarrow> (True, s) | None \<Rightarrow> (False, []))"

section \<open>Letters\<close>

definition wcharToUpper :: "u16 \<Rightarrow> u16" where
  "wcharToUpper c =
     (if 0x61 \<le> c \<and> c \<le> 0x7A then c - 0x20
      else if c = 0xDF then 0x1E9E
      else if 0xE0 \<le> c \<and> c \<le> 0xF6 then c - 0x20
      else if 0xF8 \<le> c \<and> c \<le> 0xFE then c - 0x20
      else if 0x101 \<le> c \<and> c \<le> 0x12F \<and> c mod 2 = 1 then c - 1
      else if 0x430 \<le> c \<and> c \<le> 0x44F then c - 0x20
      else if c = 0x451 then 0x401
      else c)"

definition wcharToLower :: "u16 \<Rightarrow> u16" where
  "wcharToLower c =
     (if 0x41 \<le> c \<and> c \<le> 0x5A then c + 0x20
      else if 0xC0 \<le> c \<and> c \<le> 0xD6 then c + 0x20
      else if 0xD8 \<le> c \<and> c \<le> 0xDE then c + 0x20
      else if 0x100 \<le> c \<and> c \<le> 0x12E \<and> c mod 2 = 0 then c + 1
      else if c = 0x1E9E then 0xDF
      else if c = 0x401 then 0x451
      else if 0x410 \<le> c \<and> c \<le> 0x42F then c + 0x20
      else c)"

definition wstrToUpper :: "u16 list \<Rightarrow> u16 list" where
  "wstrToUpper = map wcharToUpper"

definition wstrToLower :: "u16 list \<Rightarrow> u16 list" where
  "wstrToLower = map wcharToLower"

lemma nat_u16_plus: "unat (c :: u16) + unat d < 65536 \<Longrightarrow> unat (c + d) = unat c + unat d"
  by (simp add: unat_word_ariths(1))

lemma unat_upper:
  "unat (wcharToUpper c) = (let n = unat c in
     if 97 \<le> n \<and> n \<le> 122 then n - 32 else if n = 223 then 7838 else if 224 \<le> n \<and> n \<le> 246 then n - 32
     else if 248 \<le> n \<and> n \<le> 254 then n - 32 else if 257 \<le> n \<and> n \<le> 303 \<and> n mod 2 = 1 then n - 1
     else if 1072 \<le> n \<and> n \<le> 1103 then n - 32 else if n = 1105 then 1025 else n)"
  by (simp add: wcharToUpper_def Let_def word_le_nat_alt word_unat_eq_iff unat_sub unat_mod_distrib unat_sub_if')

lemma unat_lower:
  "unat (wcharToLower c) = (let n = unat c in
     if 65 \<le> n \<and> n \<le> 90 then n + 32 else if 192 \<le> n \<and> n \<le> 214 then n + 32 else if 216 \<le> n \<and> n \<le> 222 then n + 32
     else if 256 \<le> n \<and> n \<le> 302 \<and> n mod 2 = 0 then n + 1 else if n = 7838 then 223 else if n = 1025 then 1105
     else if 1040 \<le> n \<and> n \<le> 1071 then n + 32 else n)"
  by (simp add: wcharToLower_def Let_def word_le_nat_alt word_unat_eq_iff nat_u16_plus unat_mod_distrib)

lemma upper_upper: "wcharToUpper (wcharToUpper c) = wcharToUpper c"
proof -
  obtain n where n: "unat c = n" by blast
  have l: "unat (wcharToUpper c) = m \<Longrightarrow> (let n = m in
     if 97 \<le> n \<and> n \<le> 122 then n - 32 else if n = 223 then 7838 else if 224 \<le> n \<and> n \<le> 246 then n - 32
     else if 248 \<le> n \<and> n \<le> 254 then n - 32 else if 257 \<le> n \<and> n \<le> 303 \<and> n mod 2 = 1 then n - 1
     else if 1072 \<le> n \<and> n \<le> 1103 then n - 32 else if n = 1105 then 1025 else n) = m \<Longrightarrow> ?thesis" for m
    using unat_upper [of "wcharToUpper c"] by (simp only: word_unat_eq_iff)
  note u = unat_upper [of c, unfolded n Let_def]
  consider (a) "97 \<le> n \<and> n \<le> 122" | (b) "n = 223" | (c) "224 \<le> n \<and> n \<le> 246" | (d) "248 \<le> n \<and> n \<le> 254"
    | (e) "257 \<le> n \<and> n \<le> 303 \<and> n mod 2 = 1" | (f) "1072 \<le> n \<and> n \<le> 1103" | (g) "n = 1105"
    | (z) "\<not> (97 \<le> n \<and> n \<le> 122)" "n \<noteq> 223" "\<not> (224 \<le> n \<and> n \<le> 246)" "\<not> (248 \<le> n \<and> n \<le> 254)"
      "\<not> (257 \<le> n \<and> n \<le> 303 \<and> n mod 2 = 1)" "\<not> (1072 \<le> n \<and> n \<le> 1103)" "n \<noteq> 1105" by blast
  then show ?thesis
  proof cases
    case a
    then obtain k where "n = 32 + k" using le_Suc_ex [of 32 n] by auto
    then show ?thesis using u a by (intro l [of k]) (simp_all add: Let_def)
  next
    case b then show ?thesis using u by (intro l [of 7838]) (simp_all add: Let_def)
  next
    case c
    then obtain k where "n = 32 + k" using le_Suc_ex [of 32 n] by auto
    then show ?thesis using u c by (intro l [of k]) (simp_all add: Let_def)
  next
    case d
    then obtain k where "n = 32 + k" using le_Suc_ex [of 32 n] by auto
    then show ?thesis using u d by (intro l [of k]) (simp_all add: Let_def)
  next
    case e
    then obtain k where k: "n = 2 * k + 1" by (metis mult_div_mod_eq)
    show ?thesis using u e by (intro l [of "2 * k"]) (simp_all add: Let_def k)
  next
    case f
    then obtain k where "n = 32 + k" using le_Suc_ex [of 32 n] by auto
    then show ?thesis using u f by (intro l [of k]) (simp_all add: Let_def)
  next
    case g then show ?thesis using u by (intro l [of 1025]) (simp_all add: Let_def)
  next
    case z
    then have "wcharToUpper c = c" unfolding word_unat_eq_iff n using u by (simp only: if_False simp_thms)
    then show ?thesis by simp
  qed
qed

lemma lower_lower: "wcharToLower (wcharToLower c) = wcharToLower c"
  unfolding word_unat_eq_iff unat_lower [of "wcharToLower c"] unfolding unat_lower Let_def
  by (simp split: if_split) presburger

text \<open>Neither case mapping makes or loses a surrogate.\<close>

lemma case_no_surrogate:
  assumes "\<not> is_lead_surrogate (ucast c)" and "\<not> is_trail_surrogate (ucast c)"
  shows "\<not> is_lead_surrogate (ucast (wcharToUpper c)) \<and> \<not> is_trail_surrogate (ucast (wcharToUpper c)) \<and>
    \<not> is_lead_surrogate (ucast (wcharToLower c)) \<and> \<not> is_trail_surrogate (ucast (wcharToLower c))"
proof -
  have "unat (wcharToUpper c) = unat c \<or> unat (wcharToUpper c) < 55296"
    unfolding unat_upper Let_def by auto
  moreover have "unat (wcharToLower c) = unat c \<or> unat (wcharToLower c) < 55296"
    unfolding unat_lower Let_def by simp
  ultimately show ?thesis using assms unfolding surrogate_nat unat_u16_u32 by linarith
qed

text \<open>
  A player's name as stored: the first letter a capital, the others small. \<open>BufferOverrun\<close> is the
  conversion writing behind the sixteen characters on the stack.
\<close>

definition MAX_INTERNAL_PLAYER_NAME :: nat where "MAX_INTERNAL_PLAYER_NAME = 15"

datatype name_result = Normalized bytes | BadName bytes | BufferOverrun

definition normalizePlayerName :: "bytes \<Rightarrow> name_result" where
  "normalizePlayerName name =
     (if name = [] then BadName []
      else (case Utf8toWStr name MAX_INTERNAL_PLAYER_NAME of
              (ok, wstr_buf, wstr_len) \<Rightarrow>
                if MAX_INTERNAL_PLAYER_NAME + 1 < length wstr_buf then BufferOverrun
                else if \<not> ok then BadName name
                else (case WStrToUtf8 (take wstr_len (wcharToUpper (hd wstr_buf) # map wcharToLower (tl wstr_buf))) of
                        (True, name') \<Rightarrow> Normalized name'
                      | (False, name') \<Rightarrow> BadName name')))"

section \<open>What the conversions promise\<close>

lemma Utf8toWStr_ok:
  assumes "Utf8toWStr s wsize = (True, w, n)"
  obtains ws where "utf8to16 s = Inr ws" "distance s = Inr n" "n \<le> wsize" "length ws = n + supplementary ws"
    "supplementary ws \<le> n" "w = (if n < length ws then ws[n := 0] else ws @ [0])"
proof -
  obtain m where d: "distance s = Inr m" "\<not> wsize < m" using assms
    by (auto simp: Utf8toWStr_def split: sum.splits if_splits)
  then obtain ws where ws: "utf8to16 s = Inr ws" "w = (if m < length ws then ws[m := 0] else ws @ [0])" "m = n"
    using assms by (auto simp: Utf8toWStr_def split: sum.splits)
  then show ?thesis using that distance_units [OF ws(1)] d by auto
qed

text \<open>
  C38: The space a conversion takes: with no supplementary characters the \<open>n\<close> characters and the null fit
  the buffer of \<open>wsize + 1\<close>. Each supplementary character takes two code units but is counted once, so up to
  \<open>2 * wsize\<close> units are written, past the end of the buffer.
\<close>

theorem conversion_space:
  assumes "Utf8toWStr s wsize = (True, w, n)" and "utf8to16 s = Inr ws"
  shows "n \<le> wsize \<and> length w = (if supplementary ws = 0 then n + 1 else n + supplementary ws) \<and>
    (supplementary ws = 0 \<longrightarrow> length w \<le> wsize + 1) \<and> length w \<le> max (wsize + 1) (2 * wsize)"
  by (rule Utf8toWStr_ok [OF assms(1)]) (use assms(2) in auto)

lemma conversion_space_witness:
  "Utf8toWStr [0xF0, 0x9F, 0x98, 0x80, 0xF0, 0x9F, 0x98, 0x80] 2 = (True, [0xD83D, 0xDE00, 0, 0xDE00], 2) \<and>
    length [0xD83D, 0xDE00, 0, 0xDE00 :: u16] = 2 + supplementary [0xD83D, 0xDE00, 0xD83D, 0xDE00] \<and>
    length [0xD83D, 0xDE00, 0, 0xDE00 :: u16] \<le> max (2 + 1) (2 * 2)"
proof -
  have c: "Utf8toWStr [0xF0, 0x9F, 0x98, 0x80, 0xF0, 0x9F, 0x98, 0x80] 2 = (True, [0xD83D, 0xDE00, 0, 0xDE00], 2)" by code_simp
  have u: "utf8to16 [0xF0, 0x9F, 0x98, 0x80, 0xF0, 0x9F, 0x98, 0x80] = Inr [0xD83D, 0xDE00, 0xD83D, 0xDE00]" by code_simp
  have "supplementary [0xD83D, 0xDE00, 0xD83D, 0xDE00] = 2" by code_simp
  with conversion_space [OF c u] c show ?thesis by simp
qed

text \<open>
  A name of at most fifteen characters overruns the buffer on the stack as soon as characters and
  supplementary characters together are more than sixteen; nothing before the conversion checks it.
\<close>

theorem name_overruns_buffer:
  assumes "distance name = Inr n" and "n \<le> 15" and "utf8to16 name = Inr ws" and "16 < n + supplementary ws"
  shows "normalizePlayerName name = BufferOverrun"
proof -
  have l: "length ws = n + supplementary ws" using distance_units [OF assms(3)] assms(1) by auto
  then have "Utf8toWStr name 15 = (True, ws[n := 0], n)" using assms by (simp add: Utf8toWStr_def)
  moreover have "name \<noteq> []" using assms by (auto simp: supplementary_def)
  ultimately show ?thesis using l assms(4) by (simp add: normalizePlayerName_def MAX_INTERNAL_PLAYER_NAME_def)
qed

lemma name_overruns_buffer_witness:
  "normalizePlayerName (concat (replicate 9 [0xF0, 0x9F, 0x98, 0x80])) = BufferOverrun"
proof (rule name_overruns_buffer)
  show "distance (concat (replicate 9 [0xF0, 0x9F, 0x98, 0x80])) = Inr 9" by code_simp
  show "utf8to16 (concat (replicate 9 [0xF0, 0x9F, 0x98, 0x80])) = Inr (concat (replicate 9 [0xD83D, 0xDE00]))" by code_simp
  show "16 < 9 + supplementary (concat (replicate 9 [0xD83D, 0xDE00]))" by code_simp
qed simp

lemma normalize_plain:
  assumes "utf8to16 name = Inr ws" and "supplementary ws = 0" and "ws \<noteq> []" and "length ws \<le> 15"
  shows "normalizePlayerName name =
    (case utf16to8 (wcharToUpper (hd ws) # map wcharToLower (tl ws)) of Some s \<Rightarrow> Normalized s | None \<Rightarrow> BadName [])"
proof -
  have d: "distance name = Inr (length ws)" using distance_units [OF assms(1)] assms(2) by auto
  have "name \<noteq> []" using assms(1,3) by auto
  moreover have "Utf8toWStr name 15 = (True, ws @ [0], length ws)" using assms d by (simp add: Utf8toWStr_def)
  ultimately show ?thesis using assms(3,4)
    by (cases ws) (simp_all add: normalizePlayerName_def MAX_INTERNAL_PLAYER_NAME_def WStrToUtf8_def split: option.split)
qed

lemma no_lead_no_trail:
  "utf16to8 ws = Some s \<Longrightarrow> supplementary ws = 0 \<Longrightarrow> \<forall>u \<in> set ws. \<not> is_lead_surrogate (ucast u) \<and> \<not> is_trail_surrogate (ucast u)"
proof (induction ws arbitrary: s rule: utf16to8.induct)
  case (2 u us)
  have l: "\<not> is_lead_surrogate (ucast u)" "supplementary us = 0"
    using 2(4) by (auto simp: supplementary_def split: if_splits)
  moreover have "\<not> is_trail_surrogate (ucast u)" using 2(3) l(1) by (auto simp: Let_def)
  moreover from this obtain a xs where "utf8_append (ucast u) = Some a" "utf16to8 us = Some xs"
    using 2(3) l(1) by (auto simp: Let_def split: Option.bind_splits)
  ultimately show ?case using 2(2) by simp
qed simp

text \<open>
  Normalizing a name is final: the normal form of a name without supplementary characters is its own
  normal form.
\<close>

theorem normalize_idempotent:
  assumes "normalizePlayerName name = Normalized m" and "utf8to16 name = Inr ws" and "supplementary ws = 0"
  shows "normalizePlayerName m = Normalized m"
proof -
  have "name \<noteq> []" using assms(1) by (auto simp: normalizePlayerName_def)
  then have w0: "ws \<noteq> []" using utf8_roundtrip [OF assms(2)] by auto
  have d: "distance name = Inr (length ws)" using distance_units [OF assms(2)] assms(3) by auto
  have le: "length ws \<le> 15"
    using assms(1) \<open>name \<noteq> []\<close> d
    by (auto simp: normalizePlayerName_def Utf8toWStr_def MAX_INTERNAL_PLAYER_NAME_def split: if_splits)
  let ?vs = "wcharToUpper (hd ws) # map wcharToLower (tl ws)"
  have m: "utf16to8 ?vs = Some m" using assms(1) normalize_plain [OF assms(2,3) w0 le] by (simp split: option.splits)
  have plain: "\<not> is_lead_surrogate (ucast u) \<and> \<not> is_trail_surrogate (ucast u)" if "u \<in> set ws" for u
    using no_lead_no_trail [OF utf8_roundtrip [OF assms(2)] assms(3)] that by blast
  have "\<not> is_lead_surrogate (ucast (wcharToUpper (hd ws)))" using plain [of "hd ws"] case_no_surrogate w0 by simp
  moreover have "\<not> is_lead_surrogate (ucast (wcharToLower u))" if "u \<in> set (tl ws)" for u
    using plain [of u] case_no_surrogate that w0 by (simp add: list.set_sel(2))
  ultimately have s0: "supplementary ?vs = 0" by (simp add: supplementary_def filter_empty_conv)
  have "length ?vs \<le> 15" using le w0 by simp
  from normalize_plain [OF utf16to8_decodes [OF m] s0 _ this] show ?thesis
    using m by (simp add: upper_upper lower_lower comp_def)
qed

lemma normalize_idempotent_witness:
  "normalizePlayerName [0x61, 0x4E, 0x4E] = Normalized [0x41, 0x6E, 0x6E] \<and> normalizePlayerName [0x41, 0x6E, 0x6E] = Normalized [0x41, 0x6E, 0x6E]"
proof -
  have n: "normalizePlayerName [0x61, 0x4E, 0x4E] = Normalized [0x41, 0x6E, 0x6E]" by code_simp
  have w: "utf8to16 [0x61, 0x4E, 0x4E] = Inr [97, 78, 78]" by code_simp
  show ?thesis using normalize_idempotent [OF n w] n by (simp add: supplementary_def surrogate_nat)
qed

end
