(* ===== verification/ChannelHub.thy ===== *)
theory ChannelHub
  imports Channel Utf8
begin

text \<open>
  All the channels of the proxy: the managers of \<open>shade/Chat/ChannelMgr.cpp\<close>, one for each faction or one
  for both, the lists of joined channels that the players keep (\<open>shade/Character/Player.cpp\<close>), and the
  handlers of the clients' channel packets (\<open>shade/Handler/ChannelHandler.cpp\<close>). Channels are objects on a
  heap: managers and players point to them, and a manager deletes a channel when it is empty. A pointer
  without an object is a freed channel, and whatever uses one ends with the error \<open>FreedChannel\<close>.
\<close>

section \<open>Managers, channels and players\<close>

datatype mgr_id = AllianceChannelMgr | HordeChannelMgr

record hub =
  hb_heap :: "nat \<Rightarrow> channel option"
  hb_next :: nat
  hb_mgr :: "mgr_id \<Rightarrow> u16 list \<Rightarrow> nat option"
  hb_team :: "mgr_id \<Rightarrow> u32"
  hb_joined :: "u64 \<Rightarrow> nat list"

definition hub_init :: hub where
  "hub_init = \<lparr>hb_heap = (\<lambda>_. None), hb_next = 0, hb_mgr = (\<lambda>_ _. None), hb_team = (\<lambda>_. 0), hb_joined = (\<lambda>_. [])\<rparr>"

text \<open>
  A packet that is too short; a conversion that writes behind its string, or the use of a channel that was
  deleted, after which nothing is known.
\<close>

datatype hub_error = PacketException bb_error | WideOverrun | FreedChannel

type_synonym hub_result = "hub_error + hub \<times> chan_event list"

definition hub_seq :: "hub_result \<Rightarrow> (hub \<Rightarrow> hub_result) \<Rightarrow> hub_result" where
  "hub_seq r f = rbind r (\<lambda>(h1, evs). rbind (f h1) (\<lambda>(h2, evs'). Inr (h2, evs @ evs')))"

definition channelMgr :: "chat_world \<Rightarrow> u32 \<Rightarrow> mgr_id option" where
  "channelMgr w team =
     (if cw_two_side w then Some AllianceChannelMgr
      else if team = ALLIANCE then Some AllianceChannelMgr
      else if team = HORDE then Some HordeChannelMgr
      else None)"

text \<open>The name in lower-case wide characters, which the managers' maps are keyed by.\<close>

definition wname_of :: "bytes \<Rightarrow> hub_error + u16 list" where
  "wname_of name = (case Utf8toWStr_string name [] of Some (_, wname) \<Rightarrow> Inr (wstrToLower wname) | None \<Rightarrow> Inl WideOverrun)"

definition GetJoinChannel :: "chat_world \<Rightarrow> mgr_id \<Rightarrow> bytes \<Rightarrow> u32 \<Rightarrow> hub \<Rightarrow> hub_error + hub \<times> chan_event list \<times> nat" where
  "GetJoinChannel w m name channel_id h =
     rbind (wname_of name) (\<lambda>wname.
       case hb_mgr h m wname of
         Some c \<Rightarrow> Inr (h, [], c)
       | None \<Rightarrow>
           (case Channel_new w name channel_id (hb_team h m) of
              (nchan, evs) \<Rightarrow>
                Inr (h\<lparr>hb_heap := (hb_heap h)(hb_next h := Some nchan), hb_next := Suc (hb_next h),
                       hb_mgr := (hb_mgr h)(m := (hb_mgr h m)(wname \<mapsto> hb_next h))\<rparr>, evs, hb_next h)))"

definition MakeNotOnPacket :: "bytes \<Rightarrow> wpacket" where
  "MakeNotOnPacket name = mk_pkt SMSG_CHANNEL_NOTIFY [U8 0x05, Str name]"

definition GetChannel :: "mgr_id \<Rightarrow> bytes \<Rightarrow> u64 \<Rightarrow> hub \<Rightarrow> hub_error + chan_event list \<times> nat option" where
  "GetChannel m name p h =
     rbind (wname_of name) (\<lambda>wname.
       Inr (case hb_mgr h m wname of None \<Rightarrow> ([SendTo p (MakeNotOnPacket name)], None) | Some c \<Rightarrow> ([], Some c)))"

definition mgr_LeftChannel :: "mgr_id \<Rightarrow> bytes \<Rightarrow> hub \<Rightarrow> hub_error + hub" where
  "mgr_LeftChannel m name h =
     rbind (wname_of name) (\<lambda>wname.
       case hb_mgr h m wname of
         None \<Rightarrow> Inr h
       | Some c \<Rightarrow>
           (case hb_heap h c of
              None \<Rightarrow> Inl FreedChannel
            | Some channel \<Rightarrow>
                Inr (if GetNumPlayers channel = 0 \<and> \<not> IsConstant channel
                     then h\<lparr>hb_mgr := (hb_mgr h)(m := (hb_mgr h m)(wname := None)), hb_heap := (hb_heap h)(c := None)\<rparr>
                     else h)))"

text \<open>What an operation of a channel does to the lists of the players.\<close>

fun track :: "nat \<Rightarrow> chan_event list \<Rightarrow> (u64 \<Rightarrow> nat list) \<Rightarrow> u64 \<Rightarrow> nat list" where
  "track c [] joined = joined"
| "track c (JoinedChannel p # evs) joined = track c evs (joined(p := joined p @ [c]))"
| "track c (LeftChannel p # evs) joined = track c evs (joined(p := removeAll c (joined p)))"
| "track c (_ # evs) joined = track c evs joined"

definition run_channel :: "chat_world \<Rightarrow> u64 \<Rightarrow> chan_op \<Rightarrow> nat \<Rightarrow> hub \<Rightarrow> hub_result" where
  "run_channel w p op c h =
     (case hb_heap h c of
        None \<Rightarrow> Inl FreedChannel
      | Some ch \<Rightarrow>
          (case chan_do w p op ch of
             (ch', evs) \<Rightarrow> Inr (h\<lparr>hb_heap := (hb_heap h)(c \<mapsto> ch'), hb_joined := track c evs (hb_joined h)\<rparr>, evs)))"

section \<open>The handlers\<close>

text \<open>The pattern of most of them: the manager of the player's faction, its channel, the operation.\<close>

definition on_channel :: "chat_world \<Rightarrow> u64 \<Rightarrow> chat_player \<Rightarrow> bytes \<Rightarrow> chan_op \<Rightarrow> hub \<Rightarrow> hub_result" where
  "on_channel w p me channelname op h =
     (case channelMgr w (cp_team me) of
        None \<Rightarrow> Inr (h, [])
      | Some m \<Rightarrow>
          rbind (GetChannel m channelname p h) (\<lambda>(evs, chn).
            case chn of None \<Rightarrow> Inr (h, evs) | Some c \<Rightarrow> hub_seq (Inr (h, evs)) (run_channel w p op c)))"

definition read_pkt :: "field_type list \<Rightarrow> wpacket \<Rightarrow> (field list \<Rightarrow> hub_error + 'a) \<Rightarrow> hub_error + 'a" where
  "read_pkt ts recvPacket f =
     (case bb_shr_all ts (buf recvPacket) of Inl e \<Rightarrow> Inl (PacketException e) | Inr (fs, _) \<Rightarrow> f fs)"

text \<open>The operations on a player given by name.\<close>

definition on_named :: "chat_world \<Rightarrow> u64 \<Rightarrow> chat_player \<Rightarrow> (bytes \<Rightarrow> chan_op) \<Rightarrow> wpacket \<Rightarrow> hub \<Rightarrow> hub_result" where
  "on_named w p me op recvPacket h =
     read_pkt [TStr, TStr] recvPacket (\<lambda>fs.
       case normalizePlayerName (str_at 1 fs) of
         BufferOverrun \<Rightarrow> Inl WideOverrun
       | BadName _ \<Rightarrow> Inr (h, [])
       | Normalized otp \<Rightarrow> on_channel w p me (str_at 0 fs) (op otp) h)"

definition join_in :: "chat_world \<Rightarrow> u64 \<Rightarrow> bytes \<Rightarrow> u32 \<Rightarrow> bytes \<Rightarrow> u32 \<Rightarrow> hub \<Rightarrow> hub_result" where
  "join_in w p channelname channel_id pass team h =
     (case channelMgr w team of
        None \<Rightarrow> Inr (h, [])
      | Some m \<Rightarrow>
          rbind (GetJoinChannel w m channelname channel_id (h\<lparr>hb_team := (hb_team h)(m := team)\<rparr>)) (\<lambda>(h1, evs, chn).
            hub_seq (Inr (h1, evs)) (run_channel w p (OpJoin pass) chn)))"

definition HandleJoinChannel :: "chat_world \<Rightarrow> u64 \<Rightarrow> chat_player \<Rightarrow> wpacket \<Rightarrow> hub \<Rightarrow> hub_result" where
  "HandleJoinChannel w p me recvPacket h =
     read_pkt [TU32, TU8, TU8, TStr, TStr] recvPacket (\<lambda>fs.
       let channel_id = u32_at 0 fs; channelname = str_at 3 fs; pass = str_at 4 fs
       in if channelname = [] then Inr (h, [])
          else if IsVIPorPlayer (cp_security me) then join_in w p channelname channel_id pass (cp_team me) h
          else hub_seq (join_in w p channelname channel_id pass ALLIANCE h)
                       (join_in w p channelname channel_id pass HORDE))"

definition leave_in :: "chat_world \<Rightarrow> u64 \<Rightarrow> bytes \<Rightarrow> u32 \<Rightarrow> hub \<Rightarrow> hub_result" where
  "leave_in w p channelname team h =
     (case channelMgr w team of
        None \<Rightarrow> Inr (h, [])
      | Some m \<Rightarrow>
          rbind (GetChannel m channelname p h) (\<lambda>(evs, chn).
            hub_seq (case chn of None \<Rightarrow> Inr (h, evs) | Some c \<Rightarrow> hub_seq (Inr (h, evs)) (run_channel w p (OpLeave True) c))
              (\<lambda>h1. rbind (mgr_LeftChannel m channelname h1) (\<lambda>h2. Inr (h2, [])))))"

definition HandleLeaveChannel :: "chat_world \<Rightarrow> u64 \<Rightarrow> chat_player \<Rightarrow> wpacket \<Rightarrow> hub \<Rightarrow> hub_result" where
  "HandleLeaveChannel w p me recvPacket h =
     read_pkt [TU32, TStr] recvPacket (\<lambda>fs.
       let channelname = str_at 1 fs
       in if channelname = [] then Inr (h, [])
          else if IsVIPorPlayer (cp_security me) then leave_in w p channelname (cp_team me) h
          else hub_seq (leave_in w p channelname ALLIANCE h) (leave_in w p channelname HORDE))"

definition HandleChannelList :: "chat_world \<Rightarrow> u64 \<Rightarrow> chat_player \<Rightarrow> wpacket \<Rightarrow> hub \<Rightarrow> hub_result" where
  "HandleChannelList w p me recvPacket h =
     read_pkt [TStr] recvPacket (\<lambda>fs. on_channel w p me (str_at 0 fs) (OpList me) h)"

text \<open>The password is set only when the name compares equal to one of the two world channels' names.\<close>

definition HandleChannelPassword :: "chat_world \<Rightarrow> u64 \<Rightarrow> chat_player \<Rightarrow> wpacket \<Rightarrow> hub \<Rightarrow> hub_result" where
  "HandleChannelPassword w p me recvPacket h =
     read_pkt [TStr, TStr] recvPacket (\<lambda>fs.
       let channelname = str_at 0 fs
       in case channelMgr w (cp_team me) of
            None \<Rightarrow> Inr (h, [])
          | Some m \<Rightarrow>
              rbind (GetChannel m channelname p h) (\<lambda>(evs, chn).
                case chn of
                  None \<Rightarrow> Inr (h, evs)
                | Some c \<Rightarrow>
                    if channelname = ascii ''World'' \<or> channelname = ascii ''world''
                    then hub_seq (Inr (h, evs)) (run_channel w p (OpPassword (str_at 1 fs)) c)
                    else Inr (h, evs)))"

definition HandleChannelSetOwner :: "chat_world \<Rightarrow> u64 \<Rightarrow> chat_player \<Rightarrow> wpacket \<Rightarrow> hub \<Rightarrow> hub_result" where
  "HandleChannelSetOwner w p me = on_named w p me OpSetOwner"

definition HandleChannelOwner :: "chat_world \<Rightarrow> u64 \<Rightarrow> chat_player \<Rightarrow> wpacket \<Rightarrow> hub \<Rightarrow> hub_result" where
  "HandleChannelOwner w p me recvPacket h =
     read_pkt [TStr] recvPacket (\<lambda>fs. on_channel w p me (str_at 0 fs) OpWhoOwner h)"

definition HandleChannelModerator :: "chat_world \<Rightarrow> u64 \<Rightarrow> chat_player \<Rightarrow> wpacket \<Rightarrow> hub \<Rightarrow> hub_result" where
  "HandleChannelModerator w p me = on_named w p me (\<lambda>otp. OpMode otp True True)"

definition HandleChannelUnmoderator :: "chat_world \<Rightarrow> u64 \<Rightarrow> chat_player \<Rightarrow> wpacket \<Rightarrow> hub \<Rightarrow> hub_result" where
  "HandleChannelUnmoderator w p me = on_named w p me (\<lambda>otp. OpMode otp True False)"

definition HandleChannelMute :: "chat_world \<Rightarrow> u64 \<Rightarrow> chat_player \<Rightarrow> wpacket \<Rightarrow> hub \<Rightarrow> hub_result" where
  "HandleChannelMute w p me = on_named w p me (\<lambda>otp. OpMode otp False True)"

definition HandleChannelUnmute :: "chat_world \<Rightarrow> u64 \<Rightarrow> chat_player \<Rightarrow> wpacket \<Rightarrow> hub \<Rightarrow> hub_result" where
  "HandleChannelUnmute w p me = on_named w p me (\<lambda>otp. OpMode otp False False)"

definition HandleChannelInvite :: "chat_world \<Rightarrow> u64 \<Rightarrow> chat_player \<Rightarrow> wpacket \<Rightarrow> hub \<Rightarrow> hub_result" where
  "HandleChannelInvite w p me = on_named w p me OpInvite"

definition HandleChannelKick :: "chat_world \<Rightarrow> u64 \<Rightarrow> chat_player \<Rightarrow> wpacket \<Rightarrow> hub \<Rightarrow> hub_result" where
  "HandleChannelKick w p me = on_named w p me (\<lambda>otp. OpKickOrBan otp False)"

definition HandleChannelBan :: "chat_world \<Rightarrow> u64 \<Rightarrow> chat_player \<Rightarrow> wpacket \<Rightarrow> hub \<Rightarrow> hub_result" where
  "HandleChannelBan w p me = on_named w p me (\<lambda>otp. OpKickOrBan otp True)"

definition HandleChannelUnban :: "chat_world \<Rightarrow> u64 \<Rightarrow> chat_player \<Rightarrow> wpacket \<Rightarrow> hub \<Rightarrow> hub_result" where
  "HandleChannelUnban w p me = on_named w p me OpUnBan"

definition HandleChannelAnnouncements :: "chat_world \<Rightarrow> u64 \<Rightarrow> chat_player \<Rightarrow> wpacket \<Rightarrow> hub \<Rightarrow> hub_result" where
  "HandleChannelAnnouncements w p me recvPacket h =
     read_pkt [TStr] recvPacket (\<lambda>fs. on_channel w p me (str_at 0 fs) OpAnnounce h)"

definition HandleChannelDisplayListQuery :: "chat_world \<Rightarrow> u64 \<Rightarrow> chat_player \<Rightarrow> wpacket \<Rightarrow> hub \<Rightarrow> hub_result" where
  "HandleChannelDisplayListQuery = HandleChannelList"

text \<open>Two handlers only look at the channel.\<close>

definition at_channel ::
  "chat_world \<Rightarrow> u64 \<Rightarrow> chat_player \<Rightarrow> (channel \<Rightarrow> chan_event list) \<Rightarrow> wpacket \<Rightarrow> hub \<Rightarrow> hub_result" where
  "at_channel w p me f recvPacket h =
     read_pkt [TStr] recvPacket (\<lambda>fs.
       case channelMgr w (cp_team me) of
         None \<Rightarrow> Inr (h, [])
       | Some m \<Rightarrow>
           rbind (GetChannel m (str_at 0 fs) p h) (\<lambda>(evs, chn).
             case chn of
               None \<Rightarrow> Inr (h, evs)
             | Some c \<Rightarrow> (case hb_heap h c of None \<Rightarrow> Inl FreedChannel | Some ch \<Rightarrow> Inr (h, evs @ f ch))))"

definition HandleGetChannelMemberCount :: "chat_world \<Rightarrow> u64 \<Rightarrow> chat_player \<Rightarrow> wpacket \<Rightarrow> hub \<Rightarrow> hub_result" where
  "HandleGetChannelMemberCount w p me =
     at_channel w p me (\<lambda>ch. [SendTo p (mk_pkt SMSG_CHANNEL_MEMBER_COUNT [Str (ch_name ch), U8 (ch_flags ch), U32 (GetNumPlayers ch)])])"

definition HandleSetChannelWatch :: "chat_world \<Rightarrow> u64 \<Rightarrow> chat_player \<Rightarrow> wpacket \<Rightarrow> hub \<Rightarrow> hub_result" where
  "HandleSetChannelWatch w p me = at_channel w p me (\<lambda>ch. JoinNotify w ch p)"

section \<open>Logout\<close>

text \<open>
  \<open>Player::CleanupChannels\<close>: as long as the player's list is not empty, its first channel is taken off it, left
  (with neither packet nor \<open>LeftChannel\<close> to the player) and given to the manager of the player's faction under
  its name. The loop looks at the list anew in every round; not to end is the value \<open>None\<close>.
\<close>

definition cleanup_channel :: "chat_world \<Rightarrow> u64 \<Rightarrow> u32 \<Rightarrow> nat \<Rightarrow> hub \<Rightarrow> hub_result" where
  "cleanup_channel w p team ch h =
     hub_seq (run_channel w p (OpLeave False) ch h) (\<lambda>h1.
       case channelMgr w team of
         None \<Rightarrow> Inr (h1, [])
       | Some cMgr \<Rightarrow>
           (case hb_heap h1 ch of
              None \<Rightarrow> Inl FreedChannel
            | Some c \<Rightarrow> rbind (mgr_LeftChannel cMgr (ch_name c) h1) (\<lambda>h2. Inr (h2, []))))"

partial_function (option) cleanup_loop :: "chat_world \<Rightarrow> u64 \<Rightarrow> u32 \<Rightarrow> hub \<Rightarrow> hub_result option" where
  "cleanup_loop w p team h =
     (case hb_joined h p of
        [] \<Rightarrow> Some (Inr (h, []))
      | ch # m_channels \<Rightarrow>
          (case cleanup_channel w p team ch (h\<lparr>hb_joined := (hb_joined h)(p := m_channels)\<rparr>) of
             Inl e \<Rightarrow> Some (Inl e)
           | Inr (h1, evs) \<Rightarrow>
               Option.bind (cleanup_loop w p team h1) (\<lambda>r. Some (hub_seq (Inr (h1, evs)) (\<lambda>_. r)))))"

definition CleanupChannels :: "chat_world \<Rightarrow> u64 \<Rightarrow> chat_player \<Rightarrow> hub \<Rightarrow> hub_result option" where
  "CleanupChannels w p me h = cleanup_loop w p (cp_team me) h"

lemma hub_seq_sent [simp]: "hub_seq (Inr (h, evs)) f = rbind (f h) (\<lambda>(h2, evs'). Inr (h2, evs @ evs'))"
  by (simp add: hub_seq_def)

lemma hub_seq_Inr:
  "hub_seq r f = Inr (h2, ev) \<longleftrightarrow> (\<exists>h1 e1 e2. r = Inr (h1, e1) \<and> f h1 = Inr (h2, e2) \<and> ev = e1 @ e2)"
  by (auto simp: hub_seq_def case_prod_unfold)

lemma hub_seq_Inl: "hub_seq r f = Inl e \<longleftrightarrow> r = Inl e \<or> (\<exists>h1 e1. r = Inr (h1, e1) \<and> f h1 = Inl e)"
  by (auto simp: hub_seq_def rbind_Inl_conv case_prod_unfold)

lemma run_channel_Inr:
  "run_channel w p op c h = Inr (h', evs) \<longleftrightarrow>
     (\<exists>ch ch'. hb_heap h c = Some ch \<and> chan_do w p op ch = (ch', evs) \<and>
        h' = h\<lparr>hb_heap := (hb_heap h)(c \<mapsto> ch'), hb_joined := track c evs (hb_joined h)\<rparr>)"
  by (auto simp: run_channel_def split: option.split prod.split)

section \<open>What an operation does to the members\<close>

text \<open>Events that no player's list notices.\<close>

definition quiet :: "chan_event list \<Rightarrow> bool" where
  "quiet evs \<longleftrightarrow> (\<forall>e \<in> set evs. \<forall>q. e \<noteq> JoinedChannel q \<and> e \<noteq> LeftChannel q)"

lemma quiet_simps [simp]:
  "quiet []" "quiet (xs @ ys) \<longleftrightarrow> quiet xs \<and> quiet ys" "quiet (SendTo q data # evs) \<longleftrightarrow> quiet evs"
  "quiet (UpdChannel a b c d n f # evs) \<longleftrightarrow> quiet evs" "quiet (InsChannel name team # evs) \<longleftrightarrow> quiet evs"
  "\<not> quiet (JoinedChannel q # evs)" "\<not> quiet (LeftChannel q # evs)"
  by (auto simp: quiet_def)

lemma quiet_sends [simp]:
  "quiet (SendToOne w data q)" "quiet (SendToAll w ch data q)" "quiet (SendToAllButOne w ch data q)"
  "quiet (JoinNotify w ch q)" "quiet (LeaveNotify w ch q)" "quiet (UpdateChannelInDB ch)"
  by (auto simp: quiet_def SendToOne_def SendToAll_def SendToAllButOne_def JoinNotify_def LeaveNotify_def UpdateChannelInDB_def Let_def)

lemma track_append: "track c (xs @ ys) j = track c ys (track c xs j)"
  by (induction c xs j rule: track.induct) (simp_all add: fun_upd_def)

lemma track_quiet [simp]: "quiet evs \<Longrightarrow> track c evs j = j"
  by (induction c evs j rule: track.induct) (auto simp: quiet_def)

text \<open>A channel that keeps its name and loses no member.\<close>

definition grows :: "channel \<Rightarrow> channel \<Rightarrow> bool" where
  "grows ch ch' \<longleftrightarrow> om_wf (ch_players ch') \<and> ch_name ch' = ch_name ch \<and> (\<forall>q. IsOn q ch \<longrightarrow> IsOn q ch')"

lemma grows_refl: "om_wf (ch_players ch) \<Longrightarrow> grows ch ch"
  by (simp add: grows_def)

lemma grows_trans: "grows a b \<Longrightarrow> grows b c \<Longrightarrow> grows a c"
  by (simp add: grows_def)

lemma grows_upd_info: "om_wf (ch_players ch) \<Longrightarrow> grows ch (upd_info f p ch)"
  by (simp add: grows_def IsOn_upd_info)

lemma grows_om: "grows a b \<Longrightarrow> om_wf (ch_players b)"
  by (simp add: grows_def)

lemma grows_owner: "grows a b \<Longrightarrow> grows a (b\<lparr>ch_ownerGUID := g\<rparr>)"
  by (simp add: grows_def IsOn_def)

lemma SetOwner_guid_grows:
  assumes "om_wf (ch_players ch)"
  shows "grows ch (fst (SetOwner_guid w g ex ch)) \<and> quiet (snd (SetOwner_guid w g ex ch))"
proof -
  obtain ch1 where ch1: "ch1 = (if ch_ownerGUID ch \<noteq> 0 \<and> IsOn (ch_ownerGUID ch) ch
      then upd_info (info_SetOwner False) (ch_ownerGUID ch) ch else ch)" by blast
  have g1: "grows ch (ch1\<lparr>ch_ownerGUID := g\<rparr>)"
    using grows_upd_info [OF assms] grows_refl [OF assms] by (auto simp: ch1 intro!: grows_owner)
  have "grows ch (upd_info f g (upd_info f' g (ch1\<lparr>ch_ownerGUID := g\<rparr>)))" for f f'
    by (rule grows_trans [OF grows_trans [OF g1 grows_upd_info [OF grows_om [OF g1]]] grows_upd_info])
      (rule grows_om [OF grows_upd_info [OF grows_om [OF g1]]])
  with g1 show ?thesis unfolding SetOwner_guid_def Let_def ch1 [symmetric] by (cases "g = 0") simp_all
qed

lemma pass_ownership_grows:
  assumes "om_wf (ch_players ch)"
  shows "grows ch (fst (pass_ownership w co g ch)) \<and> quiet (snd (pass_ownership w co g ch))"
proof -
  have g: "grows ch (upd_info (info_SetModerator True) g ch)" by (rule grows_upd_info [OF assms])
  show ?thesis using SetOwner_guid_grows [OF grows_om [OF g], of w g True] grows_trans [OF g] grows_refl [OF assms]
    by (simp add: pass_ownership_def)
qed

lemma pass_ownership_quiet: "quiet (snd (pass_ownership w co g ch))"
  by (simp add: pass_ownership_def SetOwner_guid_def Let_def)

text \<open>A leave that does not reach the player's own list.\<close>

definition silent :: "chat_world \<Rightarrow> u64 \<Rightarrow> chan_op \<Rightarrow> bool" where
  "silent w p op \<longleftrightarrow> (\<exists>send. op = OpLeave send \<and> (send \<longrightarrow> FindPlayer w p = None))"

text \<open>
  The possible effects of an operation on the members and on the players' lists: none is lost and nothing
  noticed; the player has entered; one has been removed and its list told; the player has left silently.
\<close>

definition effect :: "chat_world \<Rightarrow> u64 \<Rightarrow> chan_op \<Rightarrow> channel \<Rightarrow> channel \<times> chan_event list \<Rightarrow> bool" where
  "effect w p op ch r \<longleftrightarrow> (case r of (ch', evs) \<Rightarrow>
     om_wf (ch_players ch') \<and> ch_name ch' = ch_name ch \<and>
     (grows ch ch' \<and> (\<forall>c j. track c evs j = j) \<or>
      grows ch ch' \<and> \<not> IsOn p ch \<and> IsOn p ch' \<and> (\<forall>c j. track c evs j = j(p := j p @ [c])) \<or>
      (\<exists>b. (\<forall>q. q \<noteq> b \<and> IsOn q ch \<longrightarrow> IsOn q ch') \<and> (\<forall>c j. track c evs j = j(b := removeAll c (j b)))) \<or>
      silent w p op \<and> (\<forall>q. q \<noteq> p \<and> IsOn q ch \<longrightarrow> IsOn q ch') \<and> (\<forall>c j. track c evs j = j)))"

lemma effect_grows: "grows ch ch' \<Longrightarrow> quiet evs \<Longrightarrow> effect w p op ch (ch', evs)"
  by (simp add: effect_def grows_def)

lemma effect_none: "om_wf (ch_players ch) \<Longrightarrow> quiet evs \<Longrightarrow> effect w p op ch (ch, evs)"
  by (simp add: effect_grows grows_refl)

lemma effect_grows_pair: "grows ch (fst r) \<and> quiet (snd r) \<Longrightarrow> effect w p op ch r"
  by (cases r) (simp add: effect_grows)

lemma effect_entered:
  assumes "grows ch ch'" and "\<not> IsOn p ch" and "IsOn p ch'" and "quiet evs"
  shows "effect w p op ch (ch', (if FindPlayer w p \<noteq> None then [JoinedChannel p] else []) @ evs)"
  using assms by (cases "FindPlayer w p \<noteq> None") (simp_all add: effect_def, simp_all add: grows_def)

lemma effect_removed:
  assumes "om_wf (ch_players ch')" and "ch_name ch' = ch_name ch" and "\<And>q. q \<noteq> b \<Longrightarrow> IsOn q ch \<Longrightarrow> IsOn q ch'"
    and "quiet evs" and "quiet evs'"
  shows "effect w p op ch (ch', evs @ LeftChannel b # evs')"
  using assms unfolding effect_def by (auto simp: track_append)

lemma effect_silent:
  assumes "om_wf (ch_players ch')" and "ch_name ch' = ch_name ch" and "\<And>q. q \<noteq> p \<Longrightarrow> IsOn q ch \<Longrightarrow> IsOn q ch'"
    and "quiet evs" and "silent w p op"
  shows "effect w p op ch (ch', evs)"
  using assms unfolding effect_def by auto

lemma effect_moderated: "om_wf (ch_players ch) \<Longrightarrow> effect w p op ch r \<Longrightarrow> effect w p op ch (moderated w p ch r)"
  by (simp add: moderated_def effect_none)

lemma enter_effect:
  assumes "om_wf (ch_players ch)" and "\<not> IsOn p ch"
  shows "effect w p op ch (Channel_enter w p ch)"
proof -
  let ?ch1 = "ch\<lparr>ch_players := om_set p \<lparr>pi_player = p, pi_flags = MEMBER_FLAG_NONE\<rparr> (ch_players ch)\<rparr>"
  have g1: "grows ch ?ch1" and on1: "IsOn p ?ch1" using assms(1) by (simp_all add: grows_def IsOn_def)
  obtain ch2 ev3 where so: "SetOwner_guid w p (1 < length (ch_players ?ch1)) ?ch1 = (ch2, ev3)" by fastforce
  have g2: "grows ch ch2" "quiet ev3" and on2: "IsOn p ch2"
    using SetOwner_guid_grows [OF grows_om [OF g1], of w p "1 < length (ch_players ?ch1)"] grows_trans [OF g1] on1
    unfolding so by (simp_all add: grows_def)
  have g3: "grows ch (upd_info (info_SetModerator True) p ch2)" by (rule grows_trans [OF g2(1) grows_upd_info [OF grows_om [OF g2(1)]]])
  have on3: "IsOn p (upd_info (info_SetModerator True) p ch2)" using IsOn_upd_info [OF grows_om [OF g2(1)]] by simp
  have q1: "quiet (if announced w p ch then SendToAll w ch MakeJoined 0 else [])" by simp
  show ?thesis
    unfolding Channel_enter_def Let_def append_assoc so prod.case
    using effect_entered [OF g1 assms(2) on1] effect_entered [OF g3 assms(2) on3] g2(2) q1
    by (simp only: quiet_simps quiet_sends if_split simp_thms)
qed

lemma leave_effect:
  assumes "om_wf (ch_players ch)"
  shows "effect w p (OpLeave send) ch (Channel_Leave w p send ch)"
proof (cases "IsOn p ch")
  case False
  then show ?thesis using assms by (simp add: Channel_Leave_def effect_none)
next
  case True
  let ?ch1 = "ch\<lparr>ch_players := um_erase p (ch_players ch)\<rparr>"
  have o1: "om_wf (ch_players ?ch1)" using assms by simp
  obtain ch2 ev3 where po: "pass_ownership w (IsOwner (info_at p ch)) (pi_player (snd (hd (ch_players ?ch1)))) ?ch1 = (ch2, ev3)"
    by fastforce
  have g2: "grows ?ch1 ch2" "quiet ev3"
    using pass_ownership_grows [OF o1, of w "IsOwner (info_at p ch)" "pi_player (snd (hd (ch_players ?ch1)))"]
    unfolding po by simp_all
  then have on2: "IsOn q ch2" if "q \<noteq> p" "IsOn q ch" for q using that by (simp add: grows_def)
  have r2: "om_wf (ch_players ch2)" "ch_name ch2 = ch_name ch" using g2(1) by (simp_all add: grows_def)
  have on1: "IsOn q ?ch1" if "q \<noteq> p" "IsOn q ch" for q using that by simp
  have n1: "ch_name ?ch1 = ch_name ch" by simp
  have q1: "quiet (if announced w p ?ch1 then SendToAll w ?ch1 MakeLeft 0 else [])" by simp
  show ?thesis
  proof (cases "send \<and> FindPlayer w p \<noteq> None")
    case s: True
    have e: "effect w p (OpLeave True) ch (c, SendToOne w (MakeYouLeft ch) p @ LeftChannel p # evs)"
      if "c = ?ch1 \<or> c = ch2" "quiet evs" for c evs
      using that effect_removed [of ?ch1 ch p] effect_removed [of ch2 ch p] o1 n1 on1 r2 on2 quiet_sends by blast
    show ?thesis unfolding Channel_Leave_def Let_def po prod.case append_assoc
      using True s g2(2) q1 by (simp add: e)
  next
    case s: False
    have e: "effect w p (OpLeave send) ch (c, evs)" if "c = ?ch1 \<or> c = ch2" "quiet evs" for c evs
    proof -
      have "silent w p (OpLeave send)" using s by (simp add: silent_def)
      then show ?thesis
        using that effect_silent [of ?ch1 ch p] effect_silent [of ch2 ch p] o1 n1 on1 r2 on2 by blast
    qed
    show ?thesis unfolding Channel_Leave_def Let_def po prod.case append_assoc
      using True s g2(2) q1 by (auto simp: e)
  qed
qed

lemma remove_effect:
  assumes "om_wf (ch_players ch)"
  shows "effect w p op ch (remove_member w good bad ban ch)"
proof -
  obtain ch1 where ch1: "ch1 = (if ban \<and> \<not> IsBanned bad ch then ch\<lparr>ch_banned := insort_insert bad (ch_banned ch)\<rparr> else ch)"
    by blast
  let ?ch2 = "ch1\<lparr>ch_players := um_erase bad (ch_players ch1)\<rparr>"
  have o2: "om_wf (ch_players ?ch2)" using assms by (simp add: ch1)
  obtain ch3 ev3 where po: "pass_ownership w (ch_ownerGUID ch = bad) good ?ch2 = (ch3, ev3)" by fastforce
  have g: "grows ?ch2 ch3" "quiet ev3" using pass_ownership_grows [OF o2, of w "ch_ownerGUID ch = bad" good] unfolding po by simp_all
  have "IsOn q ch3" if "q \<noteq> bad" "IsOn q ch" for q
    using g(1) that by (simp add: grows_def ch1 IsOn_def)
  moreover have "ch_name ch3 = ch_name ch" "om_wf (ch_players ch3)" using g(1) by (simp_all add: grows_def ch1)
  moreover have "quiet (xs @ (if b then SendToAll w ch1 pkt 0 else []))" if "quiet xs" for xs pkt b using that by simp
  ultimately show ?thesis unfolding remove_member_def Let_def ch1 [symmetric] po prod.case append_Cons append_Nil
    using g(2) by (intro effect_removed) simp_all
qed

lemma grows_settings:
  assumes "om_wf (ch_players ch)"
  shows "grows ch (ch\<lparr>ch_password := pass\<rparr>)" "grows ch (ch\<lparr>ch_announce := a\<rparr>)" "grows ch (ch\<lparr>ch_banned := bs\<rparr>)"
  using assms by (simp_all add: grows_def IsOn_def)

lemma chan_do_effect:
  assumes "om_wf (ch_players ch)"
  shows "effect w p op ch (chan_do w p op ch)"
proof (cases op)
  case (OpJoin pass)
  then show ?thesis using assms by (auto simp: Channel_Join_def effect_none enter_effect)
next
  case (OpLeave send)
  then show ?thesis using leave_effect [OF assms] by simp
next
  case (OpKickOrBan name ban)
  then show ?thesis using assms
    by (auto simp: KickOrBan_def effect_none remove_effect intro!: effect_moderated split: option.split)
next
  case (OpUnBan name)
  then show ?thesis using assms
    by (auto simp: UnBan_def Let_def grows_refl grows_settings intro!: effect_moderated effect_grows split: option.split)
next
  case (OpPassword pass)
  then show ?thesis using assms
    by (auto simp: Channel_Password_def Let_def grows_settings intro!: effect_moderated effect_grows)
next
  case OpAnnounce
  then show ?thesis using assms
    by (auto simp: Channel_Announce_def Let_def grows_settings intro!: effect_moderated effect_grows)
next
  case (OpMode name moderate st)
  have "effect w p op ch (SetModerator_guid w q st ch)" "effect w p op ch (SetMute_guid w q st ch)" for q
    using grows_upd_info [OF assms] by (auto simp: SetModerator_guid_def SetMute_guid_def Let_def intro!: effect_grows)
  then show ?thesis using assms OpMode
    by (auto simp: SetMode_def effect_none intro!: effect_moderated split: option.split)
next
  case (OpSetOwner name)
  have "effect w p op ch (SetOwner_guid w q True (upd_info (info_SetModerator True) q ch))" for q
  proof (rule effect_grows_pair)
    have g: "grows ch (upd_info (info_SetModerator True) q ch)" by (rule grows_upd_info [OF assms])
    show "grows ch (fst (SetOwner_guid w q True (upd_info (info_SetModerator True) q ch))) \<and>
        quiet (snd (SetOwner_guid w q True (upd_info (info_SetModerator True) q ch)))"
      using SetOwner_guid_grows [OF grows_om [OF g], of w q True] grows_trans [OF g] by blast
  qed
  then show ?thesis using assms OpSetOwner by (auto simp: SetOwner_name_def effect_none split: option.split)
qed (use assms in \<open>simp_all add: effect_none Channel_Say_def Channel_Invite_def SendWhoOwner_def Channel_List_def Let_def split: option.split\<close>)

section \<open>Every handler is one of a few steps\<close>

datatype chan_handler =
    JOIN_CHANNEL | LEAVE_CHANNEL | CHANNEL_LIST | CHANNEL_PASSWORD | CHANNEL_SET_OWNER | CHANNEL_OWNER
  | CHANNEL_MODERATOR | CHANNEL_UNMODERATOR | CHANNEL_MUTE | CHANNEL_UNMUTE | CHANNEL_INVITE | CHANNEL_KICK
  | CHANNEL_BAN | CHANNEL_UNBAN | CHANNEL_ANNOUNCEMENTS | CHANNEL_DISPLAY_LIST | GET_CHANNEL_MEMBER_COUNT
  | SET_CHANNEL_WATCH

fun handle_channel :: "chan_handler \<Rightarrow> chat_world \<Rightarrow> u64 \<Rightarrow> chat_player \<Rightarrow> wpacket \<Rightarrow> hub \<Rightarrow> hub_result" where
  "handle_channel JOIN_CHANNEL = HandleJoinChannel"
| "handle_channel LEAVE_CHANNEL = HandleLeaveChannel"
| "handle_channel CHANNEL_LIST = HandleChannelList"
| "handle_channel CHANNEL_PASSWORD = HandleChannelPassword"
| "handle_channel CHANNEL_SET_OWNER = HandleChannelSetOwner"
| "handle_channel CHANNEL_OWNER = HandleChannelOwner"
| "handle_channel CHANNEL_MODERATOR = HandleChannelModerator"
| "handle_channel CHANNEL_UNMODERATOR = HandleChannelUnmoderator"
| "handle_channel CHANNEL_MUTE = HandleChannelMute"
| "handle_channel CHANNEL_UNMUTE = HandleChannelUnmute"
| "handle_channel CHANNEL_INVITE = HandleChannelInvite"
| "handle_channel CHANNEL_KICK = HandleChannelKick"
| "handle_channel CHANNEL_BAN = HandleChannelBan"
| "handle_channel CHANNEL_UNBAN = HandleChannelUnban"
| "handle_channel CHANNEL_ANNOUNCEMENTS = HandleChannelAnnouncements"
| "handle_channel CHANNEL_DISPLAY_LIST = HandleChannelDisplayListQuery"
| "handle_channel GET_CHANNEL_MEMBER_COUNT = HandleGetChannelMemberCount"
| "handle_channel SET_CHANNEL_WATCH = HandleSetChannelWatch"

section \<open>The invariant of managers, channels and lists\<close>

text \<open>What holds of every channel, with no account of who is a ghost.\<close>

abbreviation chan_sound :: "channel \<Rightarrow> bool" where
  "chan_sound \<equiv> chan_wf UNIV UNIV"

lemma chan_do_sound: "chan_sound ch \<Longrightarrow> chan_sound (fst (chan_do w p op ch))"
  by (rule chan_do_wf) (simp_all add: ghosts_ok_def)

text \<open>
  The managers point to channels whose name is the key they are filed under, no two of them to one channel;
  a channel on a player's list has the player as a member, and is there once.
\<close>

definition mgr_wf :: "hub \<Rightarrow> bool" where
  "mgr_wf h \<longleftrightarrow>
     (\<forall>m key c. hb_mgr h m key = Some c \<longrightarrow> (\<exists>ch. hb_heap h c = Some ch \<and> wname_of (ch_name ch) = Inr key)) \<and>
     (\<forall>m m' key key' c. hb_mgr h m key = Some c \<and> hb_mgr h m' key' = Some c \<longrightarrow> m = m')"

definition heap_wf :: "hub \<Rightarrow> bool" where
  "heap_wf h \<longleftrightarrow>
     (\<forall>c ch. hb_heap h c = Some ch \<longrightarrow> c < hb_next h \<and> chan_sound ch \<and> (\<exists>key. wname_of (ch_name ch) = Inr key))"

definition lists_wf :: "hub \<Rightarrow> bool" where
  "lists_wf h \<longleftrightarrow>
     (\<forall>p c. c \<in> set (hb_joined h p) \<longrightarrow> (\<exists>ch. hb_heap h c = Some ch \<and> IsOn p ch)) \<and> (\<forall>p. distinct (hb_joined h p))"

definition hub_wf :: "hub \<Rightarrow> bool" where
  "hub_wf h \<longleftrightarrow> mgr_wf h \<and> heap_wf h \<and> lists_wf h"

lemma hub_wf_init: "hub_wf hub_init"
  by (simp add: hub_wf_def mgr_wf_def heap_wf_def lists_wf_def hub_init_def)

lemma hub_wf_team: "hub_wf h \<Longrightarrow> hub_wf (h\<lparr>hb_team := t\<rparr>)"
  by (simp add: hub_wf_def mgr_wf_def heap_wf_def lists_wf_def)

lemma hub_wf_member: "hub_wf h \<Longrightarrow> c \<in> set (hb_joined h p) \<Longrightarrow> hb_heap h c = Some ch \<Longrightarrow> IsOn p ch"
  by (force simp: hub_wf_def lists_wf_def)

lemma mgr_wfD: "hub_wf h \<Longrightarrow> hb_mgr h m key = Some c \<Longrightarrow> \<exists>ch. hb_heap h c = Some ch \<and> wname_of (ch_name ch) = Inr key"
  by (simp add: hub_wf_def mgr_wf_def)

lemma hub_wf_sound: "hub_wf h \<Longrightarrow> hb_heap h c = Some ch \<Longrightarrow> chan_sound ch"
  by (simp add: hub_wf_def heap_wf_def)

lemma mgr_wf_inj: "hub_wf h \<Longrightarrow> hb_mgr h m key = Some c \<Longrightarrow> hb_mgr h m' key' = Some c \<Longrightarrow> m = m'"
  unfolding hub_wf_def mgr_wf_def by blast

text \<open>Replacing a channel by one with the same name.\<close>

lemma hub_wf_put:
  assumes "hub_wf h" and "hb_heap h c = Some ch" and "chan_sound ch'" and "ch_name ch' = ch_name ch"
    and "\<And>q. distinct (j q)" and "\<And>q x. x \<in> set (j q) \<Longrightarrow> x \<noteq> c \<Longrightarrow> x \<in> set (hb_joined h q)"
    and "\<And>q. c \<in> set (j q) \<Longrightarrow> IsOn q ch'"
  shows "hub_wf (h\<lparr>hb_heap := (hb_heap h)(c \<mapsto> ch'), hb_joined := j\<rparr>)"
proof -
  have "mgr_wf (h\<lparr>hb_heap := (hb_heap h)(c \<mapsto> ch'), hb_joined := j\<rparr>)"
    using assms(1,2,4) by (force simp: hub_wf_def mgr_wf_def)
  moreover have "heap_wf (h\<lparr>hb_heap := (hb_heap h)(c \<mapsto> ch'), hb_joined := j\<rparr>)"
    using assms(1-4) by (force simp: hub_wf_def heap_wf_def)
  moreover have "lists_wf (h\<lparr>hb_heap := (hb_heap h)(c \<mapsto> ch'), hb_joined := j\<rparr>)"
    using assms(1,5-7) by (force simp: hub_wf_def lists_wf_def)
  ultimately show ?thesis by (simp add: hub_wf_def)
qed

lemma run_channel_wf:
  assumes "hub_wf h" and "run_channel w p op c h = Inr (h', evs)" and "silent w p op \<Longrightarrow> c \<notin> set (hb_joined h p)"
  shows "hub_wf h'"
proof -
  obtain ch ch' where Some: "hb_heap h c = Some ch" and d: "chan_do w p op ch = (ch', evs)"
    and res: "h' = h\<lparr>hb_heap := (hb_heap h)(c \<mapsto> ch'), hb_joined := track c evs (hb_joined h)\<rparr>"
    using assms(2) unfolding run_channel_Inr by blast
  have sound: "chan_sound ch" using hub_wf_sound [OF assms(1) Some] .
  have sound': "chan_sound ch'" using chan_do_sound [OF sound, of w p op] by (simp add: d)
  note e = chan_do_effect [OF chan_wf_om [OF sound], of w p op, unfolded d effect_def prod.case]
  have m: "IsOn q ch" if "c \<in> set (hb_joined h q)" for q using hub_wf_member [OF assms(1) that Some] .
  have di: "distinct (hb_joined h q)" for q using assms(1) by (simp add: hub_wf_def lists_wf_def)
  have put: "hub_wf (h\<lparr>hb_heap := (hb_heap h)(c \<mapsto> ch'), hb_joined := j\<rparr>)"
    if "\<And>q. distinct (j q)" "\<And>q x. x \<in> set (j q) \<Longrightarrow> x \<noteq> c \<Longrightarrow> x \<in> set (hb_joined h q)" "\<And>q. c \<in> set (j q) \<Longrightarrow> IsOn q ch'" for j
    by (rule hub_wf_put [OF assms(1) Some sound']) (use e that in blast)+
  consider (same) "grows ch ch'" "\<forall>c j. track c evs j = j"
    | (entered) "grows ch ch'" "\<not> IsOn p ch" "IsOn p ch'" "\<forall>c j. track c evs j = j(p := j p @ [c])"
    | (removed) b where "\<forall>q. q \<noteq> b \<and> IsOn q ch \<longrightarrow> IsOn q ch'" "\<forall>c j. track c evs j = j(b := removeAll c (j b))"
    | (silent) "silent w p op" "\<forall>q. q \<noteq> p \<and> IsOn q ch \<longrightarrow> IsOn q ch'" "\<forall>c j. track c evs j = j"
    using e by metis
  then show ?thesis unfolding res
  proof cases
    case same
    show "hub_wf (h\<lparr>hb_heap := (hb_heap h)(c \<mapsto> ch'), hb_joined := track c evs (hb_joined h)\<rparr>)"
      by (rule put) (use same m di in \<open>auto simp: grows_def\<close>)
  next
    case entered
    have "c \<notin> set (hb_joined h p)" using m entered(2) by blast
    then show "hub_wf (h\<lparr>hb_heap := (hb_heap h)(c \<mapsto> ch'), hb_joined := track c evs (hb_joined h)\<rparr>)"
      by (intro put) (use entered m di in \<open>auto simp: grows_def split: if_splits\<close>)
  next
    case removed
    show "hub_wf (h\<lparr>hb_heap := (hb_heap h)(c \<mapsto> ch'), hb_joined := track c evs (hb_joined h)\<rparr>)"
      by (rule put) (use removed m di in \<open>auto simp: distinct_removeAll split: if_splits\<close>)
  next
    case silent
    have "q \<noteq> p" if "c \<in> set (hb_joined h q)" for q using that assms(3) silent(1) by blast
    then have on: "IsOn q ch'" if "c \<in> set (hb_joined h q)" for q using that silent(2) m by blast
    show "hub_wf (h\<lparr>hb_heap := (hb_heap h)(c \<mapsto> ch'), hb_joined := track c evs (hb_joined h)\<rparr>)"
      by (rule put) (use on silent(3) di in auto)
  qed
qed

text \<open>Counts of members that fit the 32 bits of \<open>GetNumPlayers\<close>, with room for \<open>k\<close> more.\<close>

definition room :: "nat \<Rightarrow> nat \<Rightarrow> hub \<Rightarrow> bool" where
  "room k c h \<longleftrightarrow> (\<forall>ch. hb_heap h c = Some ch \<longrightarrow> length (ch_players ch) + k < 2 ^ 32)"

lemma no_players: "length (ch_players ch) < 2 ^ 32 \<Longrightarrow> GetNumPlayers ch = 0 \<longleftrightarrow> ch_players ch = []"
proof -
  assume "length (ch_players ch) < 2 ^ 32"
  then have "unat (GetNumPlayers ch) = length (ch_players ch)" by (simp add: GetNumPlayers_def unat_of_nat)
  then show ?thesis by (metis length_0_conv unat_eq_zero)
qed

text \<open>Outside \<open>X\<close>, nothing happens to the managers and channels but that empty channels go.\<close>

definition shrinks :: "nat set \<Rightarrow> hub \<Rightarrow> hub \<Rightarrow> bool" where
  "shrinks X h h' \<longleftrightarrow>
     (\<forall>c. c \<notin> X \<longrightarrow> hb_heap h' c = hb_heap h c \<or>
        hb_heap h' c = None \<and> (\<exists>ch. hb_heap h c = Some ch \<and> ch_players ch = [])) \<and>
     (\<forall>m key c. hb_mgr h' m key = Some c \<longrightarrow> hb_mgr h m key = Some c)"

lemma shrinks_refl: "shrinks X h h"
  by (simp add: shrinks_def)

lemma shrinks_trans: "shrinks X h h1 \<Longrightarrow> shrinks Y h1 h' \<Longrightarrow> X \<subseteq> Z \<Longrightarrow> Y \<subseteq> Z \<Longrightarrow> shrinks Z h h'"
  unfolding shrinks_def
proof (elim conjE, intro conjI allI impI)
  fix c assume a: "X \<subseteq> Z" "Y \<subseteq> Z" "c \<notin> Z"
    and b: "\<forall>c. c \<notin> X \<longrightarrow> hb_heap h1 c = hb_heap h c \<or> hb_heap h1 c = None \<and> (\<exists>ch. hb_heap h c = Some ch \<and> ch_players ch = [])"
      "\<forall>c. c \<notin> Y \<longrightarrow> hb_heap h' c = hb_heap h1 c \<or> hb_heap h' c = None \<and> (\<exists>ch. hb_heap h1 c = Some ch \<and> ch_players ch = [])"
  from a have "c \<notin> X" "c \<notin> Y" by auto
  with b [THEN spec, of c] show "hb_heap h' c = hb_heap h c \<or> hb_heap h' c = None \<and> (\<exists>ch. hb_heap h c = Some ch \<and> ch_players ch = [])"
    by metis
qed simp

lemma shrinks_room: "shrinks {} h h' \<Longrightarrow> room k c h \<Longrightarrow> room k c h'"
  unfolding shrinks_def room_def by (metis empty_iff option.distinct(1))

lemma mgr_LeftChannel_wf:
  assumes "hub_wf h" and "mgr_LeftChannel m name h = Inr h'" and "\<And>c. room 0 c h"
  shows "hub_wf h' \<and> hb_joined h' = hb_joined h \<and> shrinks {} h h'"
proof -
  obtain key where key: "wname_of name = Inr key" using assms(2) by (cases "wname_of name") (auto simp: mgr_LeftChannel_def)
  show ?thesis
  proof (cases "h' = h")
    case False
    obtain c ch where c: "hb_mgr h m key = Some c" "hb_heap h c = Some ch" "GetNumPlayers ch = 0"
      "h' = h\<lparr>hb_mgr := (hb_mgr h)(m := (hb_mgr h m)(key := None)), hb_heap := (hb_heap h)(c := None)\<rparr>"
    proof (cases "hb_mgr h m key")
      case None
      then show ?thesis using assms(2) key False by (simp add: mgr_LeftChannel_def)
    next
      case (Some c)
      then obtain ch where "hb_heap h c = Some ch" using mgr_wfD [OF assms(1) Some] by blast
      then show ?thesis using that [OF Some] assms(2) key False Some by (simp add: mgr_LeftChannel_def split: if_splits)
    qed
    have "ch_players ch = []" using no_players [of ch] assms(3) [of c] c(2,3) by (simp add: room_def)
    then have off: "c \<notin> set (hb_joined h q)" for q using hub_wf_member [OF assms(1) _ c(2), of q] by (auto simp: IsOn_def)
    have k: "key' = key \<and> m' = m" if "hb_mgr h m' key' = Some c" for m' key'
      using mgr_wfD [OF assms(1) that] mgr_wfD [OF assms(1) c(1)] mgr_wf_inj [OF assms(1) that c(1)] by auto
    have "mgr_wf h'" unfolding mgr_wf_def
    proof (intro conjI allI impI)
      fix m1 key1 c1 assume a: "hb_mgr h' m1 key1 = Some c1"
      then have b: "hb_mgr h m1 key1 = Some c1" "\<not> (m1 = m \<and> key1 = key)" by (auto simp: c(4) split: if_splits)
      then have "c1 \<noteq> c" using k by blast
      moreover obtain ch1 where "hb_heap h c1 = Some ch1" "wname_of (ch_name ch1) = Inr key1"
        using assms(1) b(1) unfolding hub_wf_def mgr_wf_def by blast
      ultimately show "\<exists>ch. hb_heap h' c1 = Some ch \<and> wname_of (ch_name ch) = Inr key1" by (simp add: c(4))
    next
      fix m1 m2 key1 key2 c1 assume "hb_mgr h' m1 key1 = Some c1 \<and> hb_mgr h' m2 key2 = Some c1"
      then have "hb_mgr h m1 key1 = Some c1 \<and> hb_mgr h m2 key2 = Some c1" by (auto simp: c(4) split: if_splits)
      then show "m1 = m2" using assms(1) unfolding hub_wf_def mgr_wf_def by blast
    qed
    moreover have "heap_wf h'" using assms(1) by (auto simp: hub_wf_def heap_wf_def c(4) split: if_splits)
    moreover have "lists_wf h'" using assms(1) off by (auto simp: hub_wf_def lists_wf_def c(4))
    moreover have "shrinks {} h h'" using c(2) \<open>ch_players ch = []\<close> by (auto simp: shrinks_def c(4))
    ultimately show ?thesis by (simp add: hub_wf_def c(4))
  qed (use assms(1) shrinks_refl in simp)
qed

lemma mgr_LeftChannel_found:
  assumes "hub_wf h" and "wname_of name = Inr key"
  shows "\<exists>h'. mgr_LeftChannel m name h = Inr h'"
proof (cases "hb_mgr h m key")
  case (Some c)
  then show ?thesis using mgr_wfD [OF assms(1) Some] assms(2) by (auto simp: mgr_LeftChannel_def)
qed (simp add: mgr_LeftChannel_def assms(2))

section \<open>The handlers keep the invariant\<close>

lemma not_silent: "(\<And>send. op \<noteq> OpLeave send) \<Longrightarrow> \<not> silent w p op"
  by (simp add: silent_def)

lemma Channel_new_parts: "ch_players (fst (Channel_new w name cid team)) = [] \<and> ch_name (fst (Channel_new w name cid team)) = name \<and>
    chan_sound (fst (Channel_new w name cid team))"
  using Channel_new_wf [of UNIV UNIV w name cid team]
  by (auto simp: Channel_new_def custom_channel_def Let_def split: option.split)

lemma GetJoinChannel_wf:
  assumes "hub_wf h" and "GetJoinChannel w m name cid h = Inr (h', evs, c)"
  shows "hub_wf h'"
proof -
  obtain key where key: "wname_of name = Inr key" using assms(2) by (cases "wname_of name") (auto simp: GetJoinChannel_def)
  show ?thesis
  proof (cases "hb_mgr h m key")
    case None
    obtain nchan ev where n: "Channel_new w name cid (hb_team h m) = (nchan, ev)" by fastforce
    have nw: "ch_players nchan = []" "ch_name nchan = name" "chan_sound nchan" using Channel_new_parts [of w name cid "hb_team h m"] by (simp_all add: n)
    have h': "h' = h\<lparr>hb_heap := (hb_heap h)(hb_next h := Some nchan), hb_next := Suc (hb_next h),
        hb_mgr := (hb_mgr h)(m := (hb_mgr h m)(key \<mapsto> hb_next h))\<rparr>"
      using assms(2) by (auto simp: GetJoinChannel_def key None n)
    have fresh: "hb_heap h (hb_next h) = None"
      using assms(1) by (cases "hb_heap h (hb_next h)") (auto simp: hub_wf_def heap_wf_def)
    have unused: "hb_mgr h m' key' \<noteq> Some (hb_next h)" for m' key' using mgr_wfD [OF assms(1)] fresh by fastforce
    have "mgr_wf h'" unfolding mgr_wf_def
    proof (intro conjI allI impI)
      fix m1 key1 c1 assume "hb_mgr h' m1 key1 = Some c1"
      then have "c1 = hb_next h \<and> key1 = key \<or> hb_mgr h m1 key1 = Some c1" by (auto simp: h' split: if_splits)
      then show "\<exists>ch. hb_heap h' c1 = Some ch \<and> wname_of (ch_name ch) = Inr key1"
        using mgr_wfD [OF assms(1)] unused by (auto simp: h' nw key)
    next
      fix m1 m2 key1 key2 c1 assume a: "hb_mgr h' m1 key1 = Some c1 \<and> hb_mgr h' m2 key2 = Some c1"
      then have "c1 = hb_next h \<and> m1 = m \<or> hb_mgr h m1 key1 = Some c1" "c1 = hb_next h \<and> m2 = m \<or> hb_mgr h m2 key2 = Some c1"
        by (auto simp: h' split: if_splits)
      then show "m1 = m2" using unused mgr_wf_inj [OF assms(1)] by blast
    qed
    moreover have "heap_wf h'" using assms(1) by (auto simp: hub_wf_def heap_wf_def h' nw key less_SucI split: if_splits)
    moreover have "lists_wf h'"
    proof -
      have "c1 \<noteq> hb_next h" if "c1 \<in> set (hb_joined h q)" for c1 q
        using assms(1) that fresh unfolding hub_wf_def lists_wf_def by force
      then show ?thesis using assms(1) by (simp add: hub_wf_def lists_wf_def h')
    qed
    ultimately show ?thesis by (simp add: hub_wf_def)
  qed (use assms key in \<open>simp add: GetJoinChannel_def\<close>)
qed

lemma join_in_wf: "hub_wf h \<Longrightarrow> join_in w p name cid pass team h = Inr (h', evs) \<Longrightarrow> hub_wf h'"
proof -
  assume wf: "hub_wf h" and j: "join_in w p name cid pass team h = Inr (h', evs)"
  show "hub_wf h'"
  proof (cases "channelMgr w team")
    case (Some m)
    then obtain h1 ev c where g: "GetJoinChannel w m name cid (h\<lparr>hb_team := (hb_team h)(m := team)\<rparr>) = Inr (h1, ev, c)"
      "\<exists>ev'. run_channel w p (OpJoin pass) c h1 = Inr (h', ev')"
      using j by (auto simp: join_in_def case_prod_unfold)
    then obtain ev' where r: "run_channel w p (OpJoin pass) c h1 = Inr (h', ev')" by blast
    show ?thesis by (rule run_channel_wf [OF GetJoinChannel_wf [OF hub_wf_team [OF wf] g(1)] r]) (simp add: silent_def)
  qed (use wf j in \<open>simp add: join_in_def\<close>)
qed

lemma on_channel_wf:
  assumes "hub_wf h" and "on_channel w p me name op h = Inr (h', evs)" and "\<And>send. op \<noteq> OpLeave send"
  shows "hub_wf h'"
proof -
  have "h' = h \<or> (\<exists>c ev. run_channel w p op c h = Inr (h', ev))"
    using assms(2) by (auto simp: on_channel_def case_prod_unfold split: option.splits)
  then show ?thesis using assms(1) run_channel_wf [OF assms(1)] not_silent [OF assms(3)] by blast
qed

lemma keys_length: "om_wf (ch_players c) \<Longrightarrow> length (ch_players c) = card (fst ` set (ch_players c))"
  using om_wf_distinct [of "ch_players c"] by (metis distinct_card image_set length_map)

lemma SetOwner_guid_keys:
  "fst ` set (ch_players (fst (SetOwner_guid w g ex c))) \<subseteq> insert g (fst ` set (ch_players c))"
proof -
  obtain c1 where c1: "c1 = (if ch_ownerGUID c \<noteq> 0 \<and> IsOn (ch_ownerGUID c) c
      then upd_info (info_SetOwner False) (ch_ownerGUID c) c else c)" by blast
  have "fst ` set (ch_players c1) \<subseteq> fst ` set (ch_players c)" by (auto simp: c1 IsOn_def map_of_eq_None_iff)
  then show ?thesis unfolding SetOwner_guid_def Let_def c1 [symmetric] by auto
qed

lemma pass_ownership_keys:
  "fst ` set (ch_players (fst (pass_ownership w co g c))) \<subseteq>
     (if ch_players c = [] then {} else insert g (fst ` set (ch_players c)))"
  using SetOwner_guid_keys [of w g True "upd_info (info_SetModerator True) g c"] by (auto simp: pass_ownership_def)

lemma IsOn_keys: "IsOn p ch \<longleftrightarrow> p \<in> fst ` set (ch_players ch)"
  by (simp add: IsOn_def map_of_eq_None_iff)

text \<open>Who has left is gone, and nobody but another of the members, or player 0, gets an entry.\<close>

lemma leave_keys:
  assumes "chan_sound ch" and "IsOn p ch"
  obtains g where "fst ` set (ch_players (fst (Channel_Leave w p send ch))) \<subseteq> insert g (fst ` set (ch_players ch) - {p})"
    "g = 0 \<or> g \<noteq> p"
proof -
  let ?ch1 = "ch\<lparr>ch_players := um_erase p (ch_players ch)\<rparr>"
  have k1: "fst ` set (ch_players ?ch1) = fst ` set (ch_players ch) - {p}" by (auto simp: um_erase_def)
  obtain g where g: "g = pi_player (snd (hd (ch_players ?ch1)))" by blast
  have g0: "g = 0 \<or> g \<noteq> p" if ne: "ch_players ?ch1 \<noteq> []"
  proof -
    obtain k i m where c: "ch_players ?ch1 = (k, i) # m" using ne by (cases "ch_players ?ch1") auto
    then have "k \<noteq> p" using k1 by auto
    moreover have "entry_wf UNIV UNIV (ch_ownerGUID ch) (ch_banned ch) k i" using chan_wf_entry [OF erase_wf [OF assms(1)], of p k i] c by simp
    ultimately show ?thesis using g c by (auto simp: entry_wf_def)
  qed
  have "fst (Channel_Leave w p send ch) = ?ch1 \<or> ch_players ?ch1 \<noteq> [] \<and>
      fst (Channel_Leave w p send ch) = fst (pass_ownership w (IsOwner (info_at p ch)) g ?ch1)"
    using assms(2) unfolding Channel_Leave_def Let_def g pass_ownership_def by (simp split: prod.split)
  then show ?thesis
  proof
    assume a: "fst (Channel_Leave w p send ch) = ?ch1"
    show ?thesis by (rule that [of 0]) (use k1 in \<open>auto simp: a\<close>)
  next
    assume a: "ch_players ?ch1 \<noteq> [] \<and>
      fst (Channel_Leave w p send ch) = fst (pass_ownership w (IsOwner (info_at p ch)) g ?ch1)"
    show ?thesis
    proof (rule that [of g])
      show "fst ` set (ch_players (fst (Channel_Leave w p send ch))) \<subseteq> insert g (fst ` set (ch_players ch) - {p})"
        using a pass_ownership_keys [of w "IsOwner (info_at p ch)" g ?ch1] unfolding k1 by simp
    qed (use g0 a in blast)
  qed
qed

lemma leave_gone:
  assumes "chan_sound ch" and "p \<noteq> 0"
  shows "\<not> IsOn p (fst (Channel_Leave w p send ch))"
proof (cases "IsOn p ch")
  case True
  obtain g where "fst ` set (ch_players (fst (Channel_Leave w p send ch))) \<subseteq> insert g (fst ` set (ch_players ch) - {p})" "g = 0 \<or> g \<noteq> p"
    by (rule leave_keys [OF assms(1) True, of w send])
  then show ?thesis using assms(2) by (auto simp: IsOn_keys)
qed (simp add: Channel_Leave_def)

lemma leave_length:
  assumes "chan_sound ch"
  shows "length (ch_players (fst (Channel_Leave w p send ch))) \<le> length (ch_players ch)"
proof (cases "IsOn p ch")
  case True
  obtain g where g: "fst ` set (ch_players (fst (Channel_Leave w p send ch))) \<subseteq> insert g (fst ` set (ch_players ch) - {p})"
    by (rule leave_keys [OF assms True, of w send])
  have "om_wf (ch_players (fst (Channel_Leave w p send ch)))"
    using chan_wf_om [OF Leave_wf [OF assms]] by (simp add: ghosts_ok_def)
  then have "length (ch_players (fst (Channel_Leave w p send ch))) = card (fst ` set (ch_players (fst (Channel_Leave w p send ch))))"
    by (rule keys_length)
  also have "\<dots> \<le> card (insert g (fst ` set (ch_players ch) - {p}))" by (rule card_mono [OF _ g]) simp
  also have "\<dots> \<le> Suc (card (fst ` set (ch_players ch) - {p}))" by (rule card_insert_le_m1) simp_all
  also have "\<dots> = length (ch_players ch)"
    using True unfolding keys_length [OF chan_wf_om [OF assms]] IsOn_keys by (intro card_Suc_Diff1) simp_all
  finally show ?thesis .
qed (simp add: Channel_Leave_def)

lemma leave_quiet: "quiet (snd (Channel_Leave w p False ch))"
  using pass_ownership_quiet by (auto simp: Channel_Leave_def Let_def case_prod_unfold)

lemma run_leave_room:
  assumes "hub_wf h" and "run_channel w p (OpLeave send) c h = Inr (h', evs)" and "room k x h"
  shows "room k x h'"
proof -
  obtain ch ch' where c: "hb_heap h c = Some ch" "Channel_Leave w p send ch = (ch', evs)"
    "hb_heap h' = (hb_heap h)(c \<mapsto> ch')"
    using assms(2) unfolding run_channel_Inr by auto
  then have "length (ch_players ch') \<le> length (ch_players ch)"
    using leave_length [OF hub_wf_sound [OF assms(1) c(1)], of w p send] by simp
  with assms(3) c(1,3) show ?thesis by (auto simp: room_def)
qed

lemma leave_in_wf:
  assumes "hub_wf h" and "leave_in w p name team h = Inr (h', evs)" and "FindPlayer w p \<noteq> None" and "\<And>c. room 0 c h"
  shows "hub_wf h' \<and> (\<forall>c. room 0 c h')"
proof (cases "channelMgr w team")
  case (Some m)
  obtain chn ev h1 e1 where
    r: "(case chn of None \<Rightarrow> Inr (h, ev) | Some c \<Rightarrow> hub_seq (Inr (h, ev)) (run_channel w p (OpLeave True) c)) = Inr (h1, e1)"
    and l: "mgr_LeftChannel m name h1 = Inr h'"
    using assms(2) Some by (auto simp only: leave_in_def option.case rbind_Inr_conv hub_seq_Inr case_prod_unfold prod_eq_iff fst_conv snd_conv)
  have "h1 = h \<or> (\<exists>c ev. run_channel w p (OpLeave True) c h = Inr (h1, ev))" using r by (auto split: option.splits)
  note h1 = this l
  have "\<not> silent w p (OpLeave True)" using assms(3) by (simp add: silent_def)
  then have w1: "hub_wf h1" using h1(1) assms(1) run_channel_wf [OF assms(1)] by blast
  have r1: "room 0 c h1" for c using h1(1) run_leave_room [OF assms(1)] assms(4) by blast
  show ?thesis using mgr_LeftChannel_wf [OF w1 h1(2) r1] shrinks_room r1 by blast
qed (use assms in \<open>simp add: leave_in_def\<close>)

text \<open>A logout: the player's channels are left, one after the other, and nobody else's list changes.\<close>

lemma drop_channel_wf:
  "hub_wf h \<Longrightarrow> hb_joined h p = c # cs \<Longrightarrow> hub_wf (h\<lparr>hb_joined := (hb_joined h)(p := cs)\<rparr>) \<and> c \<notin> set cs"
proof -
  assume wf: "hub_wf h" and j: "hb_joined h p = c # cs"
  have "distinct (hb_joined h p)" using wf by (simp add: hub_wf_def lists_wf_def)
  moreover have "\<exists>ch. hb_heap h x = Some ch \<and> IsOn p ch" if "x \<in> set cs" for x
    using wf that j unfolding hub_wf_def lists_wf_def by (metis list.set_intros(2))
  ultimately show ?thesis using wf j by (auto simp: hub_wf_def mgr_wf_def heap_wf_def lists_wf_def)
qed

text \<open>What a player leaves behind: a channel it is no member of, and that its manager keeps only if it is needed.\<close>

definition left_behind :: "chat_world \<Rightarrow> u64 \<Rightarrow> u32 \<Rightarrow> hub \<Rightarrow> nat \<Rightarrow> bool" where
  "left_behind w p team h c \<longleftrightarrow>
     (\<forall>ch. hb_heap h c = Some ch \<longrightarrow> \<not> IsOn p ch \<and>
        (\<forall>m key. channelMgr w team = Some m \<and> hb_mgr h m key = Some c \<longrightarrow> ch_players ch \<noteq> [] \<or> IsConstant ch))"

lemma left_behind_shrinks: "shrinks X h h' \<Longrightarrow> c \<notin> X \<Longrightarrow> left_behind w p team h c \<Longrightarrow> left_behind w p team h' c"
  unfolding shrinks_def left_behind_def by (metis option.distinct(1))

lemma LeftChannel_left_behind:
  assumes "hub_wf h" and "hb_heap h c = Some ch" and "\<not> IsOn p ch" and "\<And>c. room 0 c h"
    and "channelMgr w team = Some m" and "mgr_LeftChannel m (ch_name ch) h = Inr h'"
  shows "left_behind w p team h' c"
proof -
  have w2: "shrinks {} h h'" using mgr_LeftChannel_wf [OF assms(1,6,4)] by blast
  have needed: "ch_players ch \<noteq> [] \<or> IsConstant ch" if "hb_mgr h' m key = Some c" "hb_heap h' c = Some ch" for key
  proof (rule ccontr)
    assume n: "\<not> ?thesis"
    obtain key' where key': "wname_of (ch_name ch) = Inr key'" using assms(6) by (auto simp: mgr_LeftChannel_def)
    have "hb_mgr h m key = Some c" using that(1) assms(6) key' by (auto simp: mgr_LeftChannel_def split: option.splits if_splits)
    then have "hb_mgr h m key' = Some c" using mgr_wfD [OF assms(1), of m key c] assms(2) key' by simp
    moreover have "GetNumPlayers ch = 0" using no_players [of ch] assms(2) assms(4) [of c] n by (simp add: room_def)
    ultimately show False using assms(2,6) key' n that(2) by (auto simp: mgr_LeftChannel_def)
  qed
  have same: "ch' = ch" if "hb_heap h' c = Some ch'" for ch'
  proof -
    have "hb_heap h' c = hb_heap h c \<or> hb_heap h' c = None" using w2 [unfolded shrinks_def, THEN conjunct1, rule_format, of c] by auto
    with that assms(2) show ?thesis by auto
  qed
  show ?thesis unfolding left_behind_def
  proof (intro allI impI conjI)
    fix ch' assume h': "hb_heap h' c = Some ch'"
    show "\<not> IsOn p ch'" using same [OF h'] assms(3) by simp
    fix m' key assume "channelMgr w team = Some m' \<and> hb_mgr h' m' key = Some c"
    then show "ch_players ch' \<noteq> [] \<or> IsConstant ch'" using needed [of key] h' same [OF h'] assms(5) by simp
  qed
qed

lemma cleanup_channel_wf:
  assumes "hub_wf h" and "hb_heap h c = Some ch" and "c \<notin> set (hb_joined h p)" and "\<And>c. room 0 c h"
  obtains h' evs where "cleanup_channel w p team c h = Inr (h', evs)" "hub_wf h'" "hb_joined h' = hb_joined h"
    "\<And>c. room 0 c h'" "shrinks {c} h h'" "p \<noteq> 0 \<longrightarrow> left_behind w p team h' c"
proof -
  obtain ch1 evs where l: "Channel_Leave w p False ch = (ch1, evs)" by fastforce
  obtain h1 where h1: "h1 = h\<lparr>hb_heap := (hb_heap h)(c \<mapsto> ch1), hb_joined := track c evs (hb_joined h)\<rparr>" by blast
  have run: "run_channel w p (OpLeave False) c h = Inr (h1, evs)" using assms(2) l h1 by (simp add: run_channel_def)
  have w1: "hub_wf h1" by (rule run_channel_wf [OF assms(1) run]) (rule assms(3))
  have r1: "room 0 x h1" for x by (rule run_leave_room [OF assms(1) run assms(4)])
  have j1: "hb_joined h1 = hb_joined h" using leave_quiet [of w p ch] by (simp add: h1 l)
  have off: "p \<noteq> 0 \<Longrightarrow> \<not> IsOn p ch1" using leave_gone [OF hub_wf_sound [OF assms(1,2)], of p w False] by (simp add: l)
  have c1: "hb_heap h1 c = Some ch1" "shrinks {c} h h1" by (simp_all add: h1 shrinks_def)
  show ?thesis
  proof (cases "channelMgr w team")
    case None
    then show ?thesis using run w1 r1 j1 off c1 shrinks_refl
      by (intro that [of h1 evs]) (auto simp: cleanup_channel_def hub_seq_def left_behind_def)
  next
    case (Some m)
    obtain key where "wname_of (ch_name ch1) = Inr key" using w1 c1(1) unfolding hub_wf_def heap_wf_def by blast
    then obtain h2 where h2: "mgr_LeftChannel m (ch_name ch1) h1 = Inr h2" using mgr_LeftChannel_found [OF w1] by blast
    note w2 = mgr_LeftChannel_wf [OF w1 h2 r1]
    show ?thesis
    proof (rule that [of h2 evs])
      show "cleanup_channel w p team c h = Inr (h2, evs)" by (simp add: cleanup_channel_def hub_seq_def run Some c1 h2)
      show "p \<noteq> 0 \<longrightarrow> left_behind w p team h2 c" using LeftChannel_left_behind [OF w1 c1(1) off r1 Some h2] by blast
      show "shrinks {c} h h2" using shrinks_trans [OF c1(2), of "{}" h2] w2 by simp
    qed (use w2 j1 shrinks_room r1 in auto)
  qed
qed

lemma cleanup_loop_ends:
  "hub_wf h \<Longrightarrow> (\<And>c. room 0 c h) \<Longrightarrow> hb_joined h p = cs \<Longrightarrow>
   \<exists>h' evs. cleanup_loop w p team h = Some (Inr (h', evs)) \<and> hub_wf h' \<and> hb_joined h' = (hb_joined h)(p := []) \<and>
     shrinks (set cs) h h' \<and> (p \<noteq> 0 \<longrightarrow> (\<forall>c \<in> set cs. left_behind w p team h' c))"
proof (induction cs arbitrary: h)
  case Nil
  then show ?case by (auto simp: cleanup_loop.simps [of w p team h] fun_upd_idem shrinks_refl)
next
  case (Cons c cs)
  let ?h0 = "h\<lparr>hb_joined := (hb_joined h)(p := cs)\<rparr>"
  have w0: "hub_wf ?h0" and c: "c \<notin> set cs" using drop_channel_wf [OF Cons.prems(1,3)] by simp_all
  have s0: "shrinks {} h ?h0" by (simp add: shrinks_def)
  obtain ch where ch: "hb_heap h c = Some ch" using Cons.prems(1,3) unfolding hub_wf_def lists_wf_def by (metis list.set_intros(1))
  obtain h1 evs where h1: "cleanup_channel w p team c ?h0 = Inr (h1, evs)" "hub_wf h1" "hb_joined h1 = (hb_joined h)(p := cs)"
    "\<And>c. room 0 c h1" "shrinks {c} ?h0 h1" "p \<noteq> 0 \<longrightarrow> left_behind w p team h1 c"
    by (rule cleanup_channel_wf [OF w0, of c ch p w team]) (use ch c Cons.prems(2) in \<open>simp_all add: room_def\<close>)
  obtain h' evs' where h': "cleanup_loop w p team h1 = Some (Inr (h', evs'))" "hub_wf h'" "hb_joined h' = (hb_joined h1)(p := [])"
    "shrinks (set cs) h1 h'" "p \<noteq> 0 \<longrightarrow> (\<forall>c \<in> set cs. left_behind w p team h' c)"
    using Cons.IH [OF h1(2,4)] h1(3) by (metis fun_upd_same)
  have "cleanup_loop w p team h = Some (Inr (h', evs @ evs'))"
    by (simp add: cleanup_loop.simps [of w p team h] Cons.prems(3) h1(1) h'(1))
  moreover have "shrinks (set (c # cs)) h h'"
    using shrinks_trans [OF s0 shrinks_trans [OF h1(5) h'(4), of "set (c # cs)"], of "set (c # cs)"] by auto
  ultimately show ?case
    using h'(2,3,5) h1(3) left_behind_shrinks [OF h'(4) c, of w p team] h1(6) by auto
qed

lemma on_named_wf:
  assumes "hub_wf h" and "on_named w p me op pkt h = Inr (h', evs)" and "\<And>n send. op n \<noteq> OpLeave send"
  shows "hub_wf h'"
  using assms(1,2) on_channel_wf [OF assms(1) _ assms(3)]
  by (auto simp: on_named_def read_pkt_def split: sum.splits prod.splits name_result.splits)

lemma read_channel_wf:
  assumes "hub_wf h" and "read_pkt ts pkt (\<lambda>fs. on_channel w p me (f fs) (op fs) h) = Inr (h', evs)"
    and "\<And>fs send. op fs \<noteq> OpLeave send"
  shows "hub_wf h'"
  using assms(1,2) on_channel_wf [OF assms(1) _ assms(3)] by (auto simp: read_pkt_def split: sum.splits prod.splits)

lemma at_channel_wf: "at_channel w p me f pkt h = Inr (h', evs) \<Longrightarrow> h' = h"
  by (auto simp: at_channel_def read_pkt_def GetChannel_def split: sum.splits prod.splits option.splits)

lemma join_wf:
  assumes "hub_wf h" and "HandleJoinChannel w p me pkt h = Inr (h', evs)"
  shows "hub_wf h'"
proof -
  have "hub_wf h2" if "hub_seq (join_in w p n cid pass ALLIANCE h) (join_in w p n cid pass HORDE) = Inr (h2, ev)" for n cid pass h2 ev
    using that join_in_wf join_in_wf [OF assms(1)] unfolding hub_seq_Inr by blast
  moreover have "hub_wf h2" if "join_in w p n cid pass team h = Inr (h2, ev)" for n cid pass team h2 ev
    using join_in_wf [OF assms(1) that] .
  ultimately show ?thesis using assms
    by (auto simp: HandleJoinChannel_def read_pkt_def Let_def split: sum.splits prod.splits if_splits)
qed

lemma leave_wf:
  assumes "hub_wf h" and "HandleLeaveChannel w p me pkt h = Inr (h', evs)" and "FindPlayer w p \<noteq> None" and "\<And>c. room 2 c h"
  shows "hub_wf h'"
proof -
  have r0: "room 0 c h" for c using assms(4) by (fastforce simp: room_def)
  have "hub_wf h2" if "hub_seq (leave_in w p n ALLIANCE h) (leave_in w p n HORDE) = Inr (h2, ev)" for n h2 ev
    using that leave_in_wf [OF assms(1) _ assms(3) r0] leave_in_wf [OF _ _ assms(3), of _ n HORDE]
    unfolding hub_seq_Inr by blast
  moreover have "hub_wf h2" if "leave_in w p n team h = Inr (h2, ev)" for n team h2 ev
    using leave_in_wf [OF assms(1) that assms(3) r0] by blast
  ultimately show ?thesis using assms(1,2)
    by (auto simp: HandleLeaveChannel_def read_pkt_def Let_def split: sum.splits prod.splits if_splits)
qed

lemma password_wf:
  assumes "hub_wf h" and "HandleChannelPassword w p me pkt h = Inr (h', evs)"
  shows "hub_wf h'"
proof -
  have "h' = h \<or> (\<exists>pass c ev. run_channel w p (OpPassword pass) c h = Inr (h', ev))"
    using assms(2)
    by (auto simp: HandleChannelPassword_def read_pkt_def Let_def case_prod_unfold split: sum.splits option.splits if_splits)
  moreover have "\<not> silent w p (OpPassword pass)" for pass by (simp add: silent_def)
  ultimately show ?thesis using assms(1) run_channel_wf [OF assms(1)] by blast
qed

lemma handle_channel_wf:
  assumes "hub_wf h" and "handle_channel k w p me pkt h = Inr (h', evs)" and "FindPlayer w p \<noteq> None" and "\<And>c. room 2 c h"
  shows "hub_wf h'"
proof (cases k)
  case JOIN_CHANNEL
  then show ?thesis using join_wf [OF assms(1)] assms(2) by simp
next
  case LEAVE_CHANNEL
  then show ?thesis using leave_wf [OF assms(1) _ assms(3,4)] assms(2) by simp
next
  case CHANNEL_PASSWORD
  then show ?thesis using password_wf [OF assms(1)] assms(2) by simp
next
  case GET_CHANNEL_MEMBER_COUNT
  then show ?thesis using at_channel_wf assms(1,2) by (fastforce simp: HandleGetChannelMemberCount_def)
next
  case SET_CHANNEL_WATCH
  then show ?thesis using at_channel_wf assms(1,2) by (fastforce simp: HandleSetChannelWatch_def)
qed (use assms(2) on_named_wf [OF assms(1)] read_channel_wf [OF assms(1)] in
  \<open>auto simp: HandleChannelList_def HandleChannelDisplayListQuery_def HandleChannelSetOwner_def HandleChannelOwner_def
     HandleChannelModerator_def HandleChannelUnmoderator_def HandleChannelMute_def HandleChannelUnmute_def
     HandleChannelInvite_def HandleChannelKick_def HandleChannelBan_def HandleChannelUnban_def HandleChannelAnnouncements_def\<close>)

section \<open>No handler uses a deleted channel\<close>

definition live :: "hub_error + 'a \<Rightarrow> bool" where
  "live r \<longleftrightarrow> r \<noteq> Inl FreedChannel"

lemma live_base [simp]:
  "live (Inr x)" "live (Inl WideOverrun)" "live (Inl (PacketException e))" "live (wname_of n)"
  "live (run_channel w p op c h) \<longleftrightarrow> hb_heap h c \<noteq> None"
  by (simp_all add: live_def wname_of_def run_channel_def split: option.split prod.split)

lemma live_bind [intro]: "live r \<Longrightarrow> (\<And>x. r = Inr x \<Longrightarrow> live (f x)) \<Longrightarrow> live (rbind r f)"
  by (cases r) (auto simp: live_def)

lemma live_sent [simp]: "live (rbind r (\<lambda>(h2, evs'). Inr (h2, evs @ evs'))) \<longleftrightarrow> live r"
  by (cases r) (auto simp: live_def)

lemma live_seq [intro]: "live r \<Longrightarrow> (\<And>h1 evs. r = Inr (h1, evs) \<Longrightarrow> live (f h1)) \<Longrightarrow> live (hub_seq r f)"
  unfolding hub_seq_def by (intro live_bind) (auto intro!: live_bind split: prod.split)

lemma live_read [intro]: "(\<And>fs. live (f fs)) \<Longrightarrow> live (read_pkt ts pkt f)"
  by (auto simp: read_pkt_def split: sum.split)

lemma GetChannel_found: "hub_wf h \<Longrightarrow> GetChannel m n p h = Inr (evs, Some c) \<Longrightarrow> \<exists>ch. hb_heap h c = Some ch"
  by (auto simp: GetChannel_def split: option.splits dest: mgr_wfD)

text \<open>Whatever a handler does with the channel it has found, and the channels it makes and deletes.\<close>

lemma found_live [intro]:
  assumes "hub_wf h" and "\<And>evs. live (f evs None)" and "\<And>evs c ch. hb_heap h c = Some ch \<Longrightarrow> live (f evs (Some c))"
  shows "live (rbind (GetChannel m n p h) (\<lambda>(evs, chn). f evs chn))"
proof (rule live_bind)
  show "live (GetChannel m n p h)" unfolding GetChannel_def by (rule live_bind) simp_all
  fix r assume "GetChannel m n p h = Inr r"
  then show "live (case r of (evs, chn) \<Rightarrow> f evs chn)"
    using assms(2,3) GetChannel_found [OF assms(1), of m n p] by (cases r; cases "snd r") auto
qed

lemma GetJoinChannel_live:
  assumes "hub_wf h"
  shows "live (GetJoinChannel w m n cid h)"
    and "GetJoinChannel w m n cid h = Inr (h', evs, c) \<Longrightarrow> \<exists>ch. hb_heap h' c = Some ch"
proof -
  show "live (GetJoinChannel w m n cid h)" unfolding GetJoinChannel_def by (rule live_bind) (simp_all split: option.split prod.split)
  assume "GetJoinChannel w m n cid h = Inr (h', evs, c)"
  then obtain key where "hb_mgr h m key = Some c \<and> h' = h \<or> hb_heap h' c \<noteq> None"
    by (auto simp: GetJoinChannel_def split: option.splits prod.splits)
  then show "\<exists>ch. hb_heap h' c = Some ch" using mgr_wfD [OF assms, of m key c] by auto
qed

lemma LeftChannel_live: "hub_wf h \<Longrightarrow> live (mgr_LeftChannel m n h)"
  unfolding mgr_LeftChannel_def by (rule live_bind) (auto split: option.split dest: mgr_wfD)

lemma on_channel_live: "hub_wf h \<Longrightarrow> live (on_channel w p me n op h)"
  unfolding on_channel_def by (auto split: option.split intro!: found_live)

lemma on_named_live: "hub_wf h \<Longrightarrow> live (on_named w p me op pkt h)"
  unfolding on_named_def by (auto split: name_result.split intro!: live_read on_channel_live)

lemma at_channel_live: "hub_wf h \<Longrightarrow> live (at_channel w p me f pkt h)"
  unfolding at_channel_def by (auto split: option.split intro!: live_read found_live)

lemma join_in_live: "hub_wf h \<Longrightarrow> live (join_in w p n cid pass team h)"
  unfolding join_in_def
  by (auto split: option.split prod.split intro!: live_bind GetJoinChannel_live(1) hub_wf_team
      dest: GetJoinChannel_live(2) [OF hub_wf_team])

lemma leave_in_live:
  assumes "hub_wf h" and "FindPlayer w p \<noteq> None"
  shows "live (leave_in w p n team h)"
proof -
  have "\<not> silent w p (OpLeave True)" using assms(2) by (simp add: silent_def)
  then have w1: "hub_wf h1" if "run_channel w p (OpLeave True) c h = Inr (h1, ev)" for c h1 ev
    using run_channel_wf [OF assms(1) that] by blast
  have l: "live (rbind (mgr_LeftChannel m n h1) (\<lambda>h2. Inr (h2, [])))" if "hub_wf h1" for m and h1 :: hub
    by (rule live_bind) (use LeftChannel_live [OF that] in simp_all)
  show ?thesis unfolding leave_in_def
    by (auto split: option.split intro!: found_live [OF assms(1)] live_seq l assms(1) dest: w1)
qed

lemma handle_channel_live:
  assumes "hub_wf h" and "FindPlayer w p \<noteq> None" and "\<And>c. room 2 c h"
  shows "live (handle_channel k w p me pkt h)"
proof (cases k)
  case JOIN_CHANNEL
  show ?thesis unfolding JOIN_CHANNEL handle_channel.simps HandleJoinChannel_def Let_def
    using join_in_live join_in_wf [OF assms(1)] assms(1) by (auto intro!: live_read live_seq)
next
  case LEAVE_CHANNEL
  have "room 0 c h" for c using assms(3) by (fastforce simp: room_def)
  then show ?thesis unfolding LEAVE_CHANNEL handle_channel.simps HandleLeaveChannel_def Let_def
    using leave_in_live [OF _ assms(2)] leave_in_wf [OF assms(1) _ assms(2)] assms(1) by (auto intro!: live_read live_seq)
next
  case CHANNEL_PASSWORD
  show ?thesis unfolding CHANNEL_PASSWORD handle_channel.simps HandleChannelPassword_def Let_def
    using assms(1) by (auto split: option.split intro!: live_read found_live)
qed (use assms(1) on_named_live on_channel_live at_channel_live in
  \<open>auto simp: HandleChannelList_def HandleChannelDisplayListQuery_def HandleChannelSetOwner_def HandleChannelOwner_def
     HandleChannelModerator_def HandleChannelUnmoderator_def HandleChannelMute_def HandleChannelUnmute_def
     HandleChannelInvite_def HandleChannelKick_def HandleChannelBan_def HandleChannelUnban_def HandleChannelAnnouncements_def
     HandleGetChannelMemberCount_def HandleSetChannelWatch_def intro!: live_read\<close>)

section \<open>What the channels promise\<close>

text \<open>
  A step: a packet handled for a player in the object manager, or the logout of one. The counts of members
  stay below \<open>2 ^ 32\<close>, where \<open>GetNumPlayers\<close> would wrap.
\<close>

inductive hub_step :: "hub \<Rightarrow> hub \<Rightarrow> bool" where
  packet: "hub_step h h'"
    if "FindPlayer w p = Some me" and "handle_channel k w p me pkt h = Inr (h', evs)" and "\<And>c. room 2 c h"
| logout: "hub_step h h'" if "CleanupChannels w p me h = Some (Inr (h', evs))" and "\<And>c. room 2 c h"

lemma room_less: "room k c h \<Longrightarrow> j \<le> k \<Longrightarrow> room j c h"
  by (fastforce simp: room_def)

lemma hub_step_wf: "hub_step h h' \<Longrightarrow> hub_wf h \<Longrightarrow> hub_wf h'"
proof (induction rule: hub_step.induct)
  case (packet w p me k pkt h h' evs)
  then show ?case using handle_channel_wf [of h k w p me pkt h' evs] by simp
next
  case (logout w p me h h' evs)
  then show ?case using cleanup_loop_ends [of h p "hb_joined h p" w "cp_team me"] room_less [of 2 _ h 0]
    by (fastforce simp: CleanupChannels_def)
qed

lemma hub_steps_wf: "hub_step\<^sup>*\<^sup>* h h' \<Longrightarrow> hub_wf h \<Longrightarrow> hub_wf h'"
  by (induction rule: rtranclp_induct) (auto intro: hub_step_wf)

text \<open>
  C39: No manager and no player's list ever points to a freed channel: every channel found under a name is
  live and bears that name, and a player is a member of every channel on its list.
\<close>

theorem no_dangling_channel:
  assumes "hub_step\<^sup>*\<^sup>* hub_init h"
  shows "(\<forall>m key c. hb_mgr h m key = Some c \<longrightarrow> (\<exists>ch. hb_heap h c = Some ch \<and> wname_of (ch_name ch) = Inr key)) \<and>
    (\<forall>p c. c \<in> set (hb_joined h p) \<longrightarrow> (\<exists>ch. hb_heap h c = Some ch \<and> IsOn p ch))"
proof -
  have "hub_wf h" by (rule hub_steps_wf [OF assms hub_wf_init])
  then show ?thesis by (simp add: hub_wf_def mgr_wf_def lists_wf_def)
qed

text \<open>Nor does the handling of a packet ever use a deleted channel.\<close>

theorem no_freed_channel_used:
  assumes "hub_step\<^sup>*\<^sup>* hub_init h" and "FindPlayer w p = Some me" and "\<And>c. room 2 c h"
  shows "handle_channel k w p me pkt h \<noteq> Inl FreedChannel"
  using handle_channel_live [OF hub_steps_wf [OF assms(1) hub_wf_init] _ assms(3), of w p k me pkt] assms(2)
  by (simp add: live_def)

text \<open>
  C40: The clean-up of the channels at a logout returns, whatever the player's channels, with no conversion of a name
  that overruns and no use of a deleted channel. Then the player's list is empty and nobody else's has changed; the
  player is in none of the channels that were on it; those of them that are still filed with the manager of its
  faction have members or are constant, so that the empty ones are gone; and of the other channels none has
  changed, but that empty ones may be gone too.
\<close>

theorem logout_completes:
  assumes "hub_step\<^sup>*\<^sup>* hub_init h" and "\<And>c. room 2 c h" and "p \<noteq> 0"
  shows "\<exists>h' evs. CleanupChannels w p me h = Some (Inr (h', evs)) \<and> hb_joined h' = (hb_joined h)(p := []) \<and>
    (\<forall>c \<in> set (hb_joined h p). \<forall>ch. hb_heap h' c = Some ch \<longrightarrow> \<not> IsOn p ch \<and>
       (\<forall>m key. channelMgr w (cp_team me) = Some m \<and> hb_mgr h' m key = Some c \<longrightarrow> ch_players ch \<noteq> [] \<or> IsConstant ch)) \<and>
    (\<forall>c. c \<notin> set (hb_joined h p) \<longrightarrow> hb_heap h' c = hb_heap h c \<or>
       hb_heap h' c = None \<and> (\<exists>ch. hb_heap h c = Some ch \<and> ch_players ch = []))"
  using cleanup_loop_ends [OF hub_steps_wf [OF assms(1) hub_wf_init] room_less [OF assms(2)], of p "hb_joined h p" w "cp_team me"]
    assms(3)
  by (simp add: CleanupChannels_def shrinks_def left_behind_def) blast

lemma read_pkt_fields:
  assumes "reads (buf pkt) fs" and "list_all field_ok fs"
  shows "read_pkt (map field_type_of fs) pkt f = f fs"
proof -
  obtain b where "bb_shr_all (map field_type_of fs) (buf pkt) = Inr (fs, b)" by (rule reads_all [of "buf pkt" fs "[]"]) (use assms in auto)
  then show ?thesis by (simp add: read_pkt_def)
qed

text \<open>
  A password can be set for nothing but the world channels, though the code's comment wants to
  prevent exactly that: on any other name the packet changes nothing, whoever sends it.
\<close>

theorem only_world_gets_password:
  assumes "reads (buf pkt) [Str name, Str pass]" and "0 \<notin> set name" and "0 \<notin> set pass"
    and "name \<noteq> ascii ''World''" and "name \<noteq> ascii ''world''"
    and "HandleChannelPassword w p me pkt h = Inr (h', evs)"
  shows "h' = h"
proof -
  have fields: "read_pkt [TStr, TStr] pkt f = f [Str name, Str pass]" for f :: "field list \<Rightarrow> hub_result"
    using read_pkt_fields [OF assms(1)] assms(2,3) by simp
  show ?thesis using assms(4-6) unfolding HandleChannelPassword_def fields
    by (auto simp: case_prod_unfold split: option.splits)
qed

text \<open>The join packet, read, for an account that is not \<open>IsVIPorPlayer\<close>: for all of them.\<close>

lemma join_fields:
  assumes "reads (buf pkt) [U32 cid, U8 u1, U8 u2, Str name, Str pass]" and "0 \<notin> set name" and "0 \<notin> set pass" and "name \<noteq> []"
  shows "HandleJoinChannel w p me pkt h =
    hub_seq (join_in w p name cid pass ALLIANCE h) (join_in w p name cid pass HORDE)"
proof -
  have fields: "read_pkt [TU32, TU8, TU8, TStr, TStr] pkt f = f [U32 cid, U8 u1, U8 u2, Str name, Str pass]" for f :: "field list \<Rightarrow> hub_result"
    using read_pkt_fields [OF assms(1)] assms(2,3) by simp
  show ?thesis using assms(4) unfolding HandleJoinChannel_def fields
    by (simp add: IsVIPorPlayer_def nth_Cons')
qed

text \<open>Entering a channel that nobody has made yet.\<close>

lemma SetOwner_guid_quiet: "quiet (snd (SetOwner_guid w g ex ch))"
  by (simp add: SetOwner_guid_def Let_def)

lemma enter_track: "FindPlayer w p \<noteq> None \<Longrightarrow> track c (snd (Channel_enter w p ch)) j = j(p := j p @ [c])"
  using SetOwner_guid_quiet by (simp add: Channel_enter_def Let_def case_prod_unfold)

lemma enter_keys: "fst ` set (ch_players (fst (Channel_enter w p ch))) \<subseteq> insert p (fst ` set (ch_players ch))"
proof -
  let ?ch1 = "ch\<lparr>ch_players := om_set p \<lparr>pi_player = p, pi_flags = MEMBER_FLAG_NONE\<rparr> (ch_players ch)\<rparr>"
  have "fst ` set (ch_players (fst (SetOwner_guid w p ex ?ch1))) \<subseteq> insert p (fst ` set (ch_players ch))" for ex
    using SetOwner_guid_keys [of w p ex ?ch1] by simp
  then show ?thesis unfolding Channel_enter_def Let_def by (simp add: case_prod_unfold)
qed

lemma join_in_new:
  assumes "channelMgr w team = Some m" and "wname_of name = Inr key" and "hb_mgr h m key = None"
    and "cw_builtin w cid = None" and "\<not> cw_preserve w" and "FindPlayer w p \<noteq> None"
  obtains h' evs where "join_in w p name cid pass team h = Inr (h', evs)"
    "hb_joined h' = (hb_joined h)(p := hb_joined h p @ [hb_next h])" "hb_next h' = Suc (hb_next h)"
    "hb_mgr h' = (hb_mgr h)(m := (hb_mgr h m)(key \<mapsto> hb_next h))"
    "\<And>c. hb_heap h' c = hb_heap h c \<or> (\<exists>ch. hb_heap h' c = Some ch \<and> length (ch_players ch) \<le> 1)"
proof -
  let ?n = "\<lparr>ch_players = [], ch_banned = [], ch_announce = True, ch_ownership = True, ch_name = name,
      ch_password = [], ch_flags = CHANNEL_FLAG_CUSTOM, ch_channelId = cid, ch_ownerGUID = 0, ch_IsSaved = False, ch_Team = team\<rparr>"
  have n: "Channel_new w name cid team = (?n, [])"
    using assms(4,5) by (simp add: Channel_new_def custom_channel_def Let_def)
  have f: "\<not> chan_HasFlag CHANNEL_FLAG_LFG ?n" by (simp add: chan_HasFlag_def CHANNEL_FLAG_CUSTOM_def CHANNEL_FLAG_LFG_def)
  obtain ch' evs where e: "Channel_enter w p ?n = (ch', evs)" by fastforce
  have jn: "Channel_Join w p pass ?n = (ch', evs)"
    unfolding Channel_Join_def e using f by (simp add: IsOn_def IsBanned_def)
  have "effect w p (OpJoin pass) ?n (ch', evs)" using enter_effect [of ?n p w "OpJoin pass"] unfolding e by (simp add: IsOn_def)
  then have "length (ch_players ch') = card (fst ` set (ch_players ch'))" by (intro keys_length) (simp add: effect_def)
  also have "\<dots> \<le> card {p}" by (rule card_mono) (use enter_keys [of w p ?n, unfolded e] in simp_all)
  finally have "length (ch_players ch') \<le> 1" by simp
  moreover have "track c evs j = j(p := j p @ [c])" for c j using enter_track [OF assms(6), of c ?n j] by (simp only: e snd_conv)
  moreover obtain h' where h': "h' = h\<lparr>hb_team := (hb_team h)(m := team), hb_heap := (hb_heap h)(hb_next h \<mapsto> ch'),
      hb_next := Suc (hb_next h), hb_mgr := (hb_mgr h)(m := (hb_mgr h m)(key \<mapsto> hb_next h)),
      hb_joined := (hb_joined h)(p := hb_joined h p @ [hb_next h])\<rparr>" by blast
  ultimately have "join_in w p name cid pass team h = Inr (h', evs)" "length (ch_players ch') \<le> 1"
    using assms(1-3) n jn by (simp_all add: join_in_def GetJoinChannel_def run_channel_def)
  then show ?thesis using that [of h' evs] by (simp add: h')
qed

text \<open>
  Unless the configuration lets the factions share their channels, a player that joins a channel that
  does not exist yet makes and enters two: one of the Alliance and one of the Horde, whatever its own
  faction (only accounts for which \<open>IsVIPorPlayer\<close> holds would enter just their own, and it holds for none).
\<close>

theorem joins_both_factions:
  assumes "reads (buf pkt) [U32 cid, U8 u1, U8 u2, Str name, Str pass]" and "0 \<notin> set name" and "0 \<notin> set pass"
    and "name \<noteq> []" and "wname_of name = Inr key" and "\<not> cw_two_side w" and "cw_builtin w cid = None" and "\<not> cw_preserve w"
    and "FindPlayer w p = Some me" and "hb_mgr h AllianceChannelMgr key = None" and "hb_mgr h HordeChannelMgr key = None"
  shows "\<exists>h' evs. HandleJoinChannel w p me pkt h = Inr (h', evs) \<and>
    hb_joined h' p = hb_joined h p @ [hb_next h, Suc (hb_next h)] \<and>
    hb_mgr h' AllianceChannelMgr key = Some (hb_next h) \<and> hb_mgr h' HordeChannelMgr key = Some (Suc (hb_next h))"
proof -
  have m: "channelMgr w ALLIANCE = Some AllianceChannelMgr" "channelMgr w HORDE = Some HordeChannelMgr"
    using assms(6) by (simp_all add: channelMgr_def ALLIANCE_def HORDE_def)
  obtain h1 evs1 where h1: "join_in w p name cid pass ALLIANCE h = Inr (h1, evs1)"
    "hb_joined h1 = (hb_joined h)(p := hb_joined h p @ [hb_next h])" "hb_next h1 = Suc (hb_next h)"
    "hb_mgr h1 = (hb_mgr h)(AllianceChannelMgr := (hb_mgr h AllianceChannelMgr)(key \<mapsto> hb_next h))"
    by (rule join_in_new [OF m(1) assms(5,10,7,8)]) (use assms(9) in auto)
  have "hb_mgr h1 HordeChannelMgr key = None" using assms(11) by (simp add: h1(4))
  then obtain h2 evs2 where h2: "join_in w p name cid pass HORDE h1 = Inr (h2, evs2)"
    "hb_joined h2 = (hb_joined h1)(p := hb_joined h1 p @ [hb_next h1])"
    "hb_mgr h2 = (hb_mgr h1)(HordeChannelMgr := (hb_mgr h1 HordeChannelMgr)(key \<mapsto> hb_next h1))"
    by (rule join_in_new [OF m(2) assms(5) _ assms(7,8)]) (use assms(9) in auto)
  have "HandleJoinChannel w p me pkt h = Inr (h2, evs1 @ evs2)"
    unfolding join_fields [OF assms(1-4)] by (simp add: h1(1) h2(1) hub_seq_def)
  then show ?thesis by (simp add: h1(2-4) h2(2,3))
qed

section \<open>The properties at work\<close>

definition ex_ab :: bytes where "ex_ab = [0x61, 0x62]"
definition ex_ann_player :: chat_player where "ex_ann_player = ex_player (ascii ''Ann'')"
definition ex_join_pkt :: wpacket where "ex_join_pkt = mk_pkt 0x97 [U32 0, U8 0, U8 0, Str ex_ab, Str []]"

lemma ex_facts:
  "wname_of ex_ab = Inr [0x61, 0x62]" "FindPlayer ex_chat 10 = Some ex_ann_player" "\<not> cw_two_side ex_chat"
  "cw_builtin ex_chat 0 = None" "\<not> cw_preserve ex_chat"
  "reads (buf ex_join_pkt) [U32 0, U8 0, U8 0, Str ex_ab, Str []]"
  by (code_simp, code_simp, code_simp, simp add: ex_chat_def, code_simp, simp add: ex_join_pkt_def reads_mk_pkt)

lemma joins_both_factions_witness:
  "\<exists>h' evs. HandleJoinChannel ex_chat 10 ex_ann_player ex_join_pkt hub_init = Inr (h', evs) \<and>
    hb_joined h' 10 = hb_joined hub_init 10 @ [hb_next hub_init, Suc (hb_next hub_init)] \<and>
    hb_mgr h' AllianceChannelMgr [0x61, 0x62] = Some (hb_next hub_init) \<and>
    hb_mgr h' HordeChannelMgr [0x61, 0x62] = Some (Suc (hb_next hub_init))"
  by (rule joins_both_factions [where name = ex_ab and pass = "[]" and cid = 0, OF ex_facts(6)]) (use ex_facts in \<open>simp_all add: ex_ab_def hub_init_def\<close>)

text \<open>The hub when Ann has joined.\<close>

lemma ex_hub: "\<exists>h. hub_step\<^sup>*\<^sup>* hub_init h \<and> hb_joined h 10 = [0, 1] \<and> (\<forall>c. room 2 c h)"
proof -
  have m: "channelMgr ex_chat ALLIANCE = Some AllianceChannelMgr" "channelMgr ex_chat HORDE = Some HordeChannelMgr"
    by (simp_all add: channelMgr_def ALLIANCE_def HORDE_def ex_facts)
  obtain h1 evs1 where h1: "join_in ex_chat 10 ex_ab 0 [] ALLIANCE hub_init = Inr (h1, evs1)"
    "hb_joined h1 = (hb_joined hub_init)(10 := hb_joined hub_init 10 @ [hb_next hub_init])" "hb_next h1 = Suc (hb_next hub_init)"
    "hb_mgr h1 = (hb_mgr hub_init)(AllianceChannelMgr := (hb_mgr hub_init AllianceChannelMgr)([0x61, 0x62] \<mapsto> hb_next hub_init))"
    "\<And>c. hb_heap h1 c = hb_heap hub_init c \<or> (\<exists>ch. hb_heap h1 c = Some ch \<and> length (ch_players ch) \<le> 1)"
    by (rule join_in_new [OF m(1) ex_facts(1) _ ex_facts(4,5), of hub_init 10 "[]"]) (simp_all add: hub_init_def ex_facts)
  have "hb_mgr h1 HordeChannelMgr [0x61, 0x62] = None" by (simp add: h1(4) hub_init_def)
  then obtain h2 evs2 where h2: "join_in ex_chat 10 ex_ab 0 [] HORDE h1 = Inr (h2, evs2)"
    "hb_joined h2 = (hb_joined h1)(10 := hb_joined h1 10 @ [hb_next h1])"
    "\<And>c. hb_heap h2 c = hb_heap h1 c \<or> (\<exists>ch. hb_heap h2 c = Some ch \<and> length (ch_players ch) \<le> 1)"
    by (rule join_in_new [OF m(2) ex_facts(1) _ ex_facts(4,5), of h1 10 "[]"]) (simp_all add: ex_facts)
  have "HandleJoinChannel ex_chat 10 ex_ann_player ex_join_pkt hub_init = Inr (h2, evs1 @ evs2)"
    using join_fields [OF ex_facts(6)] h1(1) h2(1) by (simp add: hub_seq_def ex_ab_def)
  then have "hub_step hub_init h2"
    by (intro hub_step.packet [OF ex_facts(2), where k = JOIN_CHANNEL and pkt = ex_join_pkt]) (simp_all add: room_def hub_init_def)
  moreover have "hb_joined h2 10 = [0, 1]" by (simp add: h2(2) h1(2,3) hub_init_def)
  moreover have "room 2 c h2" for c
    using h1(5) [of c] h2(3) [of c] by (elim disjE) (auto simp: room_def hub_init_def)
  ultimately show ?thesis by blast
qed

lemma no_dangling_channel_witness:
  "\<exists>h :: hub. hb_joined h 10 = [0, 1] \<and> (\<exists>ch. hb_heap h 0 = Some ch \<and> IsOn 10 ch) \<and> (\<exists>ch. hb_heap h 1 = Some ch \<and> IsOn 10 ch)"
proof -
  obtain h where h: "hub_step\<^sup>*\<^sup>* hub_init h" "hb_joined h 10 = [0, 1]" using ex_hub by blast
  note r = conjunct2 [OF no_dangling_channel [OF h(1)], rule_format]
  show ?thesis by (intro exI [of _ h] conjI h(2) r) (simp_all add: h(2))
qed

lemma logout_completes_witness:
  "\<exists>h :: hub. hb_joined h 10 = [0, 1] \<and>
    (\<exists>h' evs. CleanupChannels ex_chat 10 ex_ann_player h = Some (Inr (h', evs)) \<and> hb_joined h' = (hb_joined h)(10 := []))"
proof -
  obtain h where h: "hub_step\<^sup>*\<^sup>* hub_init h" "hb_joined h 10 = [0, 1]" "\<And>c. room 2 c h" using ex_hub by blast
  show ?thesis using logout_completes [OF h(1,3), of 10 ex_chat ex_ann_player] h(2) by (intro exI [of _ h]) auto
qed

lemma only_world_gets_password_witness:
  "\<exists>(h :: hub) h' evs. hb_joined h 10 = [0, 1] \<and>
    HandleChannelPassword ex_chat 10 ex_ann_player (mk_pkt 0x9C [Str ex_ab, Str ex_ab]) h = Inr (h', evs) \<and> h' = h"
proof -
  obtain h :: hub where h: "hb_joined h 10 = [0, 1]" using ex_hub by blast
  have n: "ex_ab \<noteq> ascii ''World''" "ex_ab \<noteq> ascii ''world''" "0 \<notin> set ex_ab" by (code_simp, code_simp, simp add: ex_ab_def)
  have fields: "read_pkt [TStr, TStr] (mk_pkt 0x9C [Str ex_ab, Str ex_ab]) f = f [Str ex_ab, Str ex_ab]"
    for f :: "field list \<Rightarrow> hub_result"
    using read_pkt_fields [of "mk_pkt 0x9C [Str ex_ab, Str ex_ab]" "[Str ex_ab, Str ex_ab]", OF reads_mk_pkt] n(3) by simp
  have "\<exists>res. HandleChannelPassword ex_chat 10 ex_ann_player (mk_pkt 0x9C [Str ex_ab, Str ex_ab]) h = Inr res"
    unfolding HandleChannelPassword_def fields using ex_facts(1) n(1,2)
    by (auto simp: GetChannel_def Let_def split: option.split)
  then obtain res where "HandleChannelPassword ex_chat 10 ex_ann_player (mk_pkt 0x9C [Str ex_ab, Str ex_ab]) h = Inr res" by blast
  then obtain h' evs where r: "HandleChannelPassword ex_chat 10 ex_ann_player (mk_pkt 0x9C [Str ex_ab, Str ex_ab]) h = Inr (h', evs)"
    by (cases res) auto
  have "h' = h" by (rule only_world_gets_password [OF reads_mk_pkt n(3) n(3) n(1,2) r])
  with h r show ?thesis by blast
qed

end
