(* ===== verification/NodeOpcodes.thy ===== *)
theory NodeOpcodes
  imports OpcodeTable
begin

text \<open>
  The opcode table of a node, \<open>game/Server/Protocol/Opcodes.cpp\<close> and \<open>Opcodes.h\<close>: for every opcode
  the state of the session it needs, the thread that may process it and the member function that
  does. The rows stand in file order in nine definitions cut like those of the proxy's table in
  \<open>OpcodeTable\<close>, so that the two tables can be compared row by row.
\<close>

datatype PacketProcessing = PROCESS_INPLACE | PROCESS_THREADUNSAFE | PROCESS_THREADSAFE

text \<open>
  The member functions: those that only log, the receiver of the proxy's own packets, the others by
  their name, and the null pointer of the entries without a row.
\<close>

datatype world_handler = WHandle_NULL | WHandle_EarlyProccess | WHandle_ServerSide | HandleNodeDataReciever
  | WorldHandler string | WNullPointer

datatype WorldOpcodeHandler = WOH (woh_name: string) (woh_status: SessionStatus)
  (packetProcessing: PacketProcessing) (woh_handler: world_handler) (isGrouppedMovementOpcode: bool)

section \<open>The rows\<close>

definition node_rows_0 :: "WorldOpcodeHandler list" where
  "node_rows_0 = [
     WOH ''MSG_NULL_ACTION'' STATUS_NEVER PROCESS_INPLACE WHandle_NULL False,
     WOH ''CMSG_BOOTME'' STATUS_NEVER PROCESS_INPLACE WHandle_NULL False,
     WOH ''CMSG_DBLOOKUP'' STATUS_NEVER PROCESS_INPLACE WHandle_NULL False,
     WOH ''SMSG_DBLOOKUP'' STATUS_NEVER PROCESS_INPLACE WHandle_ServerSide False,
     WOH ''CMSG_QUERY_OBJECT_POSITION'' STATUS_NEVER PROCESS_INPLACE WHandle_NULL False,
     WOH ''SMSG_QUERY_OBJECT_POSITION'' STATUS_NEVER PROCESS_INPLACE WHandle_ServerSide False,
     WOH ''CMSG_QUERY_OBJECT_ROTATION'' STATUS_NEVER PROCESS_INPLACE WHandle_NULL False,
     WOH ''SMSG_QUERY_OBJECT_ROTATION'' STATUS_NEVER PROCESS_INPLACE WHandle_ServerSide False,
     WOH ''CMSG_WORLD_TELEPORT'' STATUS_LOGGEDIN PROCESS_THREADUNSAFE (WorldHandler ''HandleWorldTeleportOpcode'') False,
     WOH ''CMSG_TELEPORT_TO_UNIT'' STATUS_LOGGEDIN PROCESS_INPLACE WHandle_NULL False,
     WOH ''CMSG_ZONE_MAP'' STATUS_NEVER PROCESS_INPLACE WHandle_NULL False,
     WOH ''SMSG_ZONE_MAP'' STATUS_NEVER PROCESS_INPLACE WHandle_ServerSide False,
     WOH ''CMSG_DEBUG_CHANGECELLZONE'' STATUS_NEVER PROCESS_INPLACE WHandle_NULL False,
     WOH ''CMSG_MOVE_CHARACTER_CHEAT'' STATUS_NEVER PROCESS_INPLACE WHandle_NULL False,
     WOH ''SMSG_MOVE_CHARACTER_CHEAT'' STATUS_NEVER PROCESS_INPLACE WHandle_NULL False,
     WOH ''CMSG_RECHARGE'' STATUS_NEVER PROCESS_INPLACE WHandle_NULL False,
     WOH ''CMSG_LEARN_SPELL'' STATUS_NEVER PROCESS_INPLACE WHandle_NULL False,
     WOH ''CMSG_CREATEMONSTER'' STATUS_NEVER PROCESS_INPLACE WHandle_NULL False,
     WOH ''CMSG_DESTROYMONSTER'' STATUS_NEVER PROCESS_INPLACE WHandle_NULL False,
     WOH ''CMSG_CREATEITEM'' STATUS_NEVER PROCESS_INPLACE WHandle_NULL False,
     WOH ''CMSG_CREATEGAMEOBJECT'' STATUS_NEVER PROCESS_INPLACE WHandle_NULL False,
     WOH ''SMSG_CHECK_FOR_BOTS'' STATUS_NEVER PROCESS_INPLACE WHandle_ServerSide False,
     WOH ''CMSG_MAKEMONSTERATTACKGUID'' STATUS_NEVER PROCESS_INPLACE WHandle_NULL False,
     WOH ''CMSG_BOT_DETECTED2'' STATUS_NEVER PROCESS_INPLACE WHandle_NULL False,
     WOH ''CMSG_FORCEACTION'' STATUS_NEVER PROCESS_INPLACE WHandle_NULL False,
     WOH ''CMSG_FORCEACTIONONOTHER'' STATUS_NEVER PROCESS_INPLACE WHandle_NULL False,
     WOH ''CMSG_FORCEACTIONSHOW'' STATUS_NEVER PROCESS_INPLACE WHandle_NULL False,
     WOH ''SMSG_FORCEACTIONSHOW'' STATUS_NEVER PROCESS_INPLACE WHandle_ServerSide False,
     WOH ''CMSG_PETGODMODE'' STATUS_NEVER PROCESS_INPLACE WHandle_NULL False,
     WOH ''SMSG_PETGODMODE'' STATUS_NEVER PROCESS_INPLACE WHandle_ServerSide False,
     WOH ''SMSG_REFER_A_FRIEND_EXPIRED'' STATUS_NEVER PROCESS_INPLACE WHandle_ServerSide False,
     WOH ''CMSG_WEATHER_SPEED_CHEAT'' STATUS_NEVER PROCESS_INPLACE WHandle_NULL False,
     WOH ''CMSG_UNDRESSPLAYER'' STATUS_NEVER PROCESS_INPLACE WHandle_NULL False,
     WOH ''CMSG_BEASTMASTER'' STATUS_NEVER PROCESS_INPLACE WHandle_NULL False,
     WOH ''CMSG_GODMODE'' STATUS_NEVER PROCESS_INPLACE WHandle_NULL False,
     WOH ''SMSG_GODMODE'' STATUS_NEVER PROCESS_INPLACE WHandle_ServerSide False,
     WOH ''CMSG_CHEAT_SETMONEY'' STATUS_NEVER PROCESS_INPLACE WHandle_NULL False,
     WOH ''CMSG_LEVEL_CHEAT'' STATUS_NEVER PROCESS_INPLACE WHandle_NULL False,
     WOH ''CMSG_PET_LEVEL_CHEAT'' STATUS_NEVER PROCESS_INPLACE WHandle_NULL False,
     WOH ''CMSG_SET_WORLDSTATE'' STATUS_NEVER PROCESS_INPLACE WHandle_NULL False,
     WOH ''CMSG_COOLDOWN_CHEAT'' STATUS_NEVER PROCESS_INPLACE WHandle_NULL False,
     WOH ''CMSG_USE_SKILL_CHEAT'' STATUS_NEVER PROCESS_INPLACE WHandle_NULL False,
     WOH ''CMSG_FLAG_QUEST'' STATUS_NEVER PROCESS_INPLACE WHandle_NULL False,
     WOH ''CMSG_FLAG_QUEST_FINISH'' STATUS_NEVER PROCESS_INPLACE WHandle_NULL False,
     WOH ''CMSG_CLEAR_QUEST'' STATUS_NEVER PROCESS_INPLACE WHandle_NULL False,
     WOH ''CMSG_SEND_EVENT'' STATUS_NEVER PROCESS_INPLACE WHandle_NULL False,
     WOH ''CMSG_DEBUG_AISTATE'' STATUS_NEVER PROCESS_INPLACE WHandle_NULL False,
     WOH ''SMSG_DEBUG_AISTATE'' STATUS_NEVER PROCESS_INPLACE WHandle_ServerSide False,
     WOH ''CMSG_DISABLE_PVP_CHEAT'' STATUS_NEVER PROCESS_INPLACE WHandle_NULL False,
     WOH ''CMSG_ADVANCE_SPAWN_TIME'' STATUS_NEVER PROCESS_INPLACE WHandle_NULL False,
     WOH ''SMSG_DESTRUCTIBLE_BUILDING_DAMAGE'' STATUS_NEVER PROCESS_INPLACE WHandle_ServerSide False,
     WOH ''CMSG_AUTH_SRP6_BEGIN'' STATUS_NEVER PROCESS_INPLACE WHandle_NULL False,
     WOH ''CMSG_AUTH_SRP6_PROOF'' STATUS_NEVER PROCESS_INPLACE WHandle_NULL False,
     WOH ''CMSG_AUTH_SRP6_RECODE'' STATUS_NEVER PROCESS_INPLACE WHandle_NULL False,
     WOH ''CMSG_CHAR_CREATE'' STATUS_AUTHED PROCESS_THREADUNSAFE (WorldHandler ''HandleCharCreateOpcode'') False,
     WOH ''CMSG_CHAR_ENUM'' STATUS_AUTHED PROCESS_THREADUNSAFE (WorldHandler ''HandleCharEnumOpcode'') False,
     WOH ''CMSG_CHAR_DELETE'' STATUS_AUTHED PROCESS_THREADUNSAFE (WorldHandler ''HandleCharDeleteOpcode'') False,
     WOH ''SMSG_AUTH_SRP6_RESPONSE'' STATUS_NEVER PROCESS_INPLACE WHandle_ServerSide False,
     WOH ''SMSG_CHAR_CREATE'' STATUS_NEVER PROCESS_INPLACE WHandle_ServerSide False,
     WOH ''SMSG_CHAR_ENUM'' STATUS_NEVER PROCESS_INPLACE WHandle_ServerSide False,
     WOH ''SMSG_CHAR_DELETE'' STATUS_NEVER PROCESS_INPLACE WHandle_ServerSide False,
     WOH ''CMSG_PLAYER_LOGIN'' STATUS_AUTHED PROCESS_THREADUNSAFE (WorldHandler ''HandlePlayerLoginOpcode'') False,
     WOH ''SMSG_NEW_WORLD'' STATUS_NEVER PROCESS_INPLACE WHandle_ServerSide False,
     WOH ''SMSG_TRANSFER_PENDING'' STATUS_NEVER PROCESS_INPLACE WHandle_ServerSide False,
     WOH ''SMSG_TRANSFER_ABORTED'' STATUS_NEVER PROCESS_INPLACE WHandle_ServerSide False,
     WOH ''SMSG_CHARACTER_LOGIN_FAILED'' STATUS_NEVER PROCESS_INPLACE WHandle_ServerSide False,
     WOH ''SMSG_LOGIN_SETTIMESPEED'' STATUS_NEVER PROCESS_INPLACE WHandle_ServerSide False,
     WOH ''SMSG_GAMETIME_UPDATE'' STATUS_NEVER PROCESS_INPLACE WHandle_ServerSide False,
     WOH ''CMSG_GAMETIME_SET'' STATUS_NEVER PROCESS_INPLACE WHandle_NULL False,
     WOH ''SMSG_GAMETIME_SET'' STATUS_NEVER PROCESS_INPLACE WHandle_ServerSide False,
     WOH ''CMSG_GAMESPEED_SET'' STATUS_NEVER PROCESS_INPLACE WHandle_NULL False,
     WOH ''SMSG_GAMESPEED_SET'' STATUS_NEVER PROCESS_INPLACE WHandle_ServerSide False,
     WOH ''CMSG_SERVERTIME'' STATUS_NEVER PROCESS_INPLACE WHandle_NULL False,
     WOH ''SMSG_SERVERTIME'' STATUS_NEVER PROCESS_INPLACE WHandle_ServerSide False,
     WOH ''CMSG_PLAYER_LOGOUT'' STATUS_LOGGEDIN PROCESS_THREADUNSAFE (WorldHandler ''HandlePlayerLogoutOpcode'') False,
     WOH ''CMSG_LOGOUT_REQUEST'' STATUS_LOGGEDIN PROCESS_THREADUNSAFE (WorldHandler ''HandleLogoutRequestOpcode'') False,
     WOH ''SMSG_LOGOUT_RESPONSE'' STATUS_NEVER PROCESS_INPLACE WHandle_ServerSide False,
     WOH ''SMSG_LOGOUT_COMPLETE'' STATUS_NEVER PROCESS_INPLACE WHandle_ServerSide False,
     WOH ''CMSG_LOGOUT_CANCEL'' STATUS_LOGGEDIN PROCESS_THREADUNSAFE (WorldHandler ''HandleLogoutCancelOpcode'') False,
     WOH ''SMSG_LOGOUT_CANCEL_ACK'' STATUS_NEVER PROCESS_INPLACE WHandle_ServerSide False,
     WOH ''CMSG_NAME_QUERY'' STATUS_LOGGEDIN PROCESS_THREADSAFE (WorldHandler ''HandleNameQueryOpcode'') False,
     WOH ''SMSG_NAME_QUERY_RESPONSE'' STATUS_NEVER PROCESS_INPLACE WHandle_ServerSide False,
     WOH ''CMSG_PET_NAME_QUERY'' STATUS_LOGGEDIN PROCESS_THREADUNSAFE (WorldHandler ''HandlePetNameQuery'') False,
     WOH ''SMSG_PET_NAME_QUERY_RESPONSE'' STATUS_NEVER PROCESS_INPLACE WHandle_ServerSide False,
     WOH ''CMSG_GUILD_QUERY'' STATUS_AUTHED PROCESS_THREADUNSAFE (WorldHandler ''HandleGuildQueryOpcode'') False,
     WOH ''SMSG_GUILD_QUERY_RESPONSE'' STATUS_NEVER PROCESS_INPLACE WHandle_ServerSide False,
     WOH ''CMSG_ITEM_QUERY_SINGLE'' STATUS_LOGGEDIN PROCESS_THREADSAFE (WorldHandler ''HandleItemQuerySingleOpcode'') False,
     WOH ''CMSG_ITEM_QUERY_MULTIPLE'' STATUS_NEVER PROCESS_INPLACE WHandle_NULL False,
     WOH ''SMSG_ITEM_QUERY_SINGLE_RESPONSE'' STATUS_NEVER PROCESS_INPLACE WHandle_ServerSide False,
     WOH ''SMSG_ITEM_QUERY_MULTIPLE_RESPONSE'' STATUS_NEVER PROCESS_INPLACE WHandle_ServerSide False,
     WOH ''CMSG_PAGE_TEXT_QUERY'' STATUS_LOGGEDIN PROCESS_THREADUNSAFE (WorldHandler ''HandlePageTextQueryOpcode'') False,
     WOH ''SMSG_PAGE_TEXT_QUERY_RESPONSE'' STATUS_NEVER PROCESS_INPLACE WHandle_ServerSide False,
     WOH ''CMSG_QUEST_QUERY'' STATUS_LOGGEDIN PROCESS_THREADSAFE (WorldHandler ''HandleQuestQueryOpcode'') False,
     WOH ''SMSG_QUEST_QUERY_RESPONSE'' STATUS_NEVER PROCESS_INPLACE WHandle_ServerSide False,
     WOH ''CMSG_GAMEOBJECT_QUERY'' STATUS_LOGGEDIN PROCESS_THREADSAFE (WorldHandler ''HandleGameObjectQueryOpcode'') False,
     WOH ''SMSG_GAMEOBJECT_QUERY_RESPONSE'' STATUS_NEVER PROCESS_INPLACE WHandle_ServerSide False,
     WOH ''CMSG_CREATURE_QUERY'' STATUS_LOGGEDIN PROCESS_THREADSAFE (WorldHandler ''HandleCreatureQueryOpcode'') False,
     WOH ''SMSG_CREATURE_QUERY_RESPONSE'' STATUS_NEVER PROCESS_INPLACE WHandle_ServerSide False,
     WOH ''CMSG_WHO'' STATUS_LOGGEDIN PROCESS_THREADSAFE (WorldHandler ''HandleWhoOpcode'') False,
     WOH ''SMSG_WHO'' STATUS_NEVER PROCESS_INPLACE WHandle_ServerSide False,
     WOH ''CMSG_WHOIS'' STATUS_LOGGEDIN PROCESS_THREADUNSAFE (WorldHandler ''HandleWhoisOpcode'') False,
     WOH ''SMSG_WHOIS'' STATUS_NEVER PROCESS_INPLACE WHandle_ServerSide False,
     WOH ''CMSG_CONTACT_LIST'' STATUS_LOGGEDIN PROCESS_THREADSAFE (WorldHandler ''HandleContactListOpcode'') False,
     WOH ''SMSG_CONTACT_LIST'' STATUS_NEVER PROCESS_INPLACE WHandle_ServerSide False,
     WOH ''SMSG_FRIEND_STATUS'' STATUS_NEVER PROCESS_INPLACE WHandle_ServerSide False,
     WOH ''CMSG_ADD_FRIEND'' STATUS_LOGGEDIN PROCESS_THREADUNSAFE (WorldHandler ''HandleAddFriendOpcode'') False,
     WOH ''CMSG_DEL_FRIEND'' STATUS_LOGGEDIN PROCESS_THREADUNSAFE (WorldHandler ''HandleDelFriendOpcode'') False,
     WOH ''CMSG_SET_CONTACT_NOTES'' STATUS_LOGGEDIN PROCESS_THREADUNSAFE (WorldHandler ''HandleSetContactNotesOpcode'') False,
     WOH ''CMSG_ADD_IGNORE'' STATUS_LOGGEDIN PROCESS_THREADUNSAFE (WorldHandler ''HandleAddIgnoreOpcode'') False,
     WOH ''CMSG_DEL_IGNORE'' STATUS_LOGGEDIN PROCESS_THREADUNSAFE (WorldHandler ''HandleDelIgnoreOpcode'') False,
     WOH ''CMSG_GROUP_INVITE'' STATUS_LOGGEDIN PROCESS_THREADUNSAFE (WorldHandler ''HandleGroupInviteOpcode'') False,
     WOH ''SMSG_GROUP_INVITE'' STATUS_NEVER PROCESS_INPLACE WHandle_ServerSide False,
     WOH ''CMSG_GROUP_CANCEL'' STATUS_LOGGEDIN PROCESS_INPLACE WHandle_NULL False,
     WOH ''SMSG_GROUP_CANCEL'' STATUS_NEVER PROCESS_INPLACE WHandle_ServerSide False,
     WOH ''CMSG_GROUP_ACCEPT'' STATUS_LOGGEDIN PROCESS_THREADUNSAFE (WorldHandler ''HandleGroupAcceptOpcode'') False,
     WOH ''CMSG_GROUP_DECLINE'' STATUS_LOGGEDIN PROCESS_THREADUNSAFE (WorldHandler ''HandleGroupDeclineOpcode'') False,
     WOH ''SMSG_GROUP_DECLINE'' STATUS_NEVER PROCESS_INPLACE WHandle_ServerSide False,
     WOH ''CMSG_GROUP_UNINVITE'' STATUS_LOGGEDIN PROCESS_THREADUNSAFE (WorldHandler ''HandleGroupUninviteOpcode'') False,
     WOH ''CMSG_GROUP_UNINVITE_GUID'' STATUS_LOGGEDIN PROCESS_THREADUNSAFE (WorldHandler ''HandleGroupUninviteGuidOpcode'') False,
     WOH ''SMSG_GROUP_UNINVITE'' STATUS_NEVER PROCESS_INPLACE WHandle_ServerSide False,
     WOH ''CMSG_GROUP_SET_LEADER'' STATUS_LOGGEDIN PROCESS_THREADUNSAFE (WorldHandler ''HandleGroupSetLeaderOpcode'') False,
     WOH ''SMSG_GROUP_SET_LEADER'' STATUS_NEVER PROCESS_INPLACE WHandle_ServerSide False,
     WOH ''CMSG_LOOT_METHOD'' STATUS_LOGGEDIN PROCESS_THREADUNSAFE (WorldHandler ''HandleLootMethodOpcode'') False,
     WOH ''CMSG_GROUP_DISBAND'' STATUS_LOGGEDIN PROCESS_THREADUNSAFE (WorldHandler ''HandleGroupDisbandOpcode'') False,
     WOH ''SMSG_GROUP_DESTROYED'' STATUS_NEVER PROCESS_INPLACE WHandle_ServerSide False,
     WOH ''SMSG_GROUP_LIST'' STATUS_NEVER PROCESS_INPLACE WHandle_ServerSide False,
     WOH ''SMSG_PARTY_MEMBER_STATS'' STATUS_NEVER PROCESS_INPLACE WHandle_ServerSide False,
     WOH ''SMSG_PARTY_COMMAND_RESULT'' STATUS_NEVER PROCESS_INPLACE WHandle_ServerSide False,
     WOH ''UMSG_UPDATE_GROUP_MEMBERS'' STATUS_NEVER PROCESS_INPLACE WHandle_NULL False,
     WOH ''CMSG_GUILD_CREATE'' STATUS_LOGGEDIN PROCESS_THREADUNSAFE (WorldHandler ''HandleGuildCreateOpcode'') False,
     WOH ''CMSG_GUILD_INVITE'' STATUS_LOGGEDIN PROCESS_THREADUNSAFE (WorldHandler ''HandleGuildInviteOpcode'') False,
     WOH ''SMSG_GUILD_INVITE'' STATUS_NEVER PROCESS_INPLACE WHandle_ServerSide False,
     WOH ''CMSG_GUILD_ACCEPT'' STATUS_LOGGEDIN PROCESS_THREADUNSAFE (WorldHandler ''HandleGuildAcceptOpcode'') False,
     WOH ''CMSG_GUILD_DECLINE'' STATUS_LOGGEDIN PROCESS_THREADUNSAFE (WorldHandler ''HandleGuildDeclineOpcode'') False,
     WOH ''SMSG_GUILD_DECLINE'' STATUS_NEVER PROCESS_INPLACE WHandle_ServerSide False,
     WOH ''CMSG_GUILD_INFO'' STATUS_LOGGEDIN PROCESS_THREADUNSAFE (WorldHandler ''HandleGuildInfoOpcode'') False,
     WOH ''SMSG_GUILD_INFO'' STATUS_NEVER PROCESS_INPLACE WHandle_ServerSide False,
     WOH ''CMSG_GUILD_ROSTER'' STATUS_LOGGEDIN PROCESS_THREADUNSAFE (WorldHandler ''HandleGuildRosterOpcode'') False,
     WOH ''SMSG_GUILD_ROSTER'' STATUS_NEVER PROCESS_INPLACE WHandle_ServerSide False,
     WOH ''CMSG_GUILD_PROMOTE'' STATUS_LOGGEDIN PROCESS_THREADUNSAFE (WorldHandler ''HandleGuildPromoteOpcode'') False,
     WOH ''CMSG_GUILD_DEMOTE'' STATUS_LOGGEDIN PROCESS_THREADUNSAFE (WorldHandler ''HandleGuildDemoteOpcode'') False,
     WOH ''CMSG_GUILD_LEAVE'' STATUS_LOGGEDIN PROCESS_THREADUNSAFE (WorldHandler ''HandleGuildLeaveOpcode'') False,
     WOH ''CMSG_GUILD_REMOVE'' STATUS_LOGGEDIN PROCESS_THREADUNSAFE (WorldHandler ''HandleGuildRemoveOpcode'') False,
     WOH ''CMSG_GUILD_DISBAND'' STATUS_LOGGEDIN PROCESS_THREADUNSAFE (WorldHandler ''HandleGuildDisbandOpcode'') False,
     WOH ''CMSG_GUILD_LEADER'' STATUS_LOGGEDIN PROCESS_THREADUNSAFE (WorldHandler ''HandleGuildLeaderOpcode'') False,
     WOH ''CMSG_GUILD_MOTD'' STATUS_LOGGEDIN PROCESS_THREADUNSAFE (WorldHandler ''HandleGuildMOTDOpcode'') False,
     WOH ''SMSG_GUILD_EVENT'' STATUS_NEVER PROCESS_INPLACE WHandle_ServerSide False]"

definition node_rows_1 :: "WorldOpcodeHandler list" where
  "node_rows_1 = [
     WOH ''SMSG_GUILD_COMMAND_RESULT'' STATUS_NEVER PROCESS_INPLACE WHandle_ServerSide False,
     WOH ''UMSG_UPDATE_GUILD'' STATUS_NEVER PROCESS_INPLACE WHandle_NULL False,
     WOH ''CMSG_MESSAGECHAT'' STATUS_LOGGEDIN PROCESS_THREADUNSAFE (WorldHandler ''HandleMessagechatOpcode'') False,
     WOH ''SMSG_MESSAGECHAT'' STATUS_NEVER PROCESS_INPLACE WHandle_ServerSide False,
     WOH ''CMSG_JOIN_CHANNEL'' STATUS_LOGGEDIN PROCESS_THREADUNSAFE (WorldHandler ''HandleJoinChannel'') False,
     WOH ''CMSG_LEAVE_CHANNEL'' STATUS_LOGGEDIN PROCESS_THREADUNSAFE (WorldHandler ''HandleLeaveChannel'') False,
     WOH ''SMSG_CHANNEL_NOTIFY'' STATUS_NEVER PROCESS_INPLACE WHandle_ServerSide False,
     WOH ''CMSG_CHANNEL_LIST'' STATUS_LOGGEDIN PROCESS_THREADUNSAFE (WorldHandler ''HandleChannelList'') False,
     WOH ''SMSG_CHANNEL_LIST'' STATUS_NEVER PROCESS_INPLACE WHandle_ServerSide False,
     WOH ''CMSG_CHANNEL_PASSWORD'' STATUS_LOGGEDIN PROCESS_THREADUNSAFE (WorldHandler ''HandleChannelPassword'') False,
     WOH ''CMSG_CHANNEL_SET_OWNER'' STATUS_LOGGEDIN PROCESS_THREADUNSAFE (WorldHandler ''HandleChannelSetOwner'') False,
     WOH ''CMSG_CHANNEL_OWNER'' STATUS_LOGGEDIN PROCESS_THREADUNSAFE (WorldHandler ''HandleChannelOwner'') False,
     WOH ''CMSG_CHANNEL_MODERATOR'' STATUS_LOGGEDIN PROCESS_THREADUNSAFE (WorldHandler ''HandleChannelModerator'') False,
     WOH ''CMSG_CHANNEL_UNMODERATOR'' STATUS_LOGGEDIN PROCESS_THREADUNSAFE (WorldHandler ''HandleChannelUnmoderator'') False,
     WOH ''CMSG_CHANNEL_MUTE'' STATUS_LOGGEDIN PROCESS_THREADUNSAFE (WorldHandler ''HandleChannelMute'') False,
     WOH ''CMSG_CHANNEL_UNMUTE'' STATUS_LOGGEDIN PROCESS_THREADUNSAFE (WorldHandler ''HandleChannelUnmute'') False,
     WOH ''CMSG_CHANNEL_INVITE'' STATUS_LOGGEDIN PROCESS_THREADUNSAFE (WorldHandler ''HandleChannelInvite'') False,
     WOH ''CMSG_CHANNEL_KICK'' STATUS_LOGGEDIN PROCESS_THREADUNSAFE (WorldHandler ''HandleChannelKick'') False,
     WOH ''CMSG_CHANNEL_BAN'' STATUS_LOGGEDIN PROCESS_THREADUNSAFE (WorldHandler ''HandleChannelBan'') False,
     WOH ''CMSG_CHANNEL_UNBAN'' STATUS_LOGGEDIN PROCESS_THREADUNSAFE (WorldHandler ''HandleChannelUnban'') False,
     WOH ''CMSG_CHANNEL_ANNOUNCEMENTS'' STATUS_LOGGEDIN PROCESS_THREADUNSAFE (WorldHandler ''HandleChannelAnnouncements'') False,
     WOH ''CMSG_CHANNEL_MODERATE'' STATUS_LOGGEDIN PROCESS_THREADUNSAFE WHandle_NULL False,
     WOH ''SMSG_UPDATE_OBJECT'' STATUS_NEVER PROCESS_INPLACE WHandle_ServerSide False,
     WOH ''SMSG_DESTROY_OBJECT'' STATUS_NEVER PROCESS_INPLACE WHandle_ServerSide False,
     WOH ''CMSG_USE_ITEM'' STATUS_LOGGEDIN PROCESS_THREADSAFE (WorldHandler ''HandleUseItemOpcode'') False,
     WOH ''CMSG_OPEN_ITEM'' STATUS_LOGGEDIN PROCESS_THREADSAFE (WorldHandler ''HandleOpenItemOpcode'') False,
     WOH ''CMSG_READ_ITEM'' STATUS_LOGGEDIN PROCESS_THREADSAFE (WorldHandler ''HandleReadItem'') False,
     WOH ''SMSG_READ_ITEM_OK'' STATUS_NEVER PROCESS_INPLACE WHandle_ServerSide False,
     WOH ''SMSG_READ_ITEM_FAILED'' STATUS_NEVER PROCESS_INPLACE WHandle_ServerSide False,
     WOH ''SMSG_ITEM_COOLDOWN'' STATUS_NEVER PROCESS_INPLACE WHandle_ServerSide False,
     WOH ''CMSG_GAMEOBJ_USE'' STATUS_LOGGEDIN PROCESS_THREADSAFE (WorldHandler ''HandleGameObjectUseOpcode'') False,
     WOH ''CMSG_DESTROY_ITEMS'' STATUS_NEVER PROCESS_INPLACE WHandle_NULL False,
     WOH ''SMSG_GAMEOBJECT_CUSTOM_ANIM'' STATUS_NEVER PROCESS_INPLACE WHandle_ServerSide False,
     WOH ''CMSG_AREATRIGGER'' STATUS_LOGGEDIN PROCESS_THREADSAFE (WorldHandler ''HandleAreaTriggerOpcode'') False,
     WOH ''MSG_MOVE_START_FORWARD'' STATUS_LOGGEDIN PROCESS_THREADSAFE (WorldHandler ''HandleMovementOpcodes'') True,
     WOH ''MSG_MOVE_START_BACKWARD'' STATUS_LOGGEDIN PROCESS_THREADSAFE (WorldHandler ''HandleMovementOpcodes'') True,
     WOH ''MSG_MOVE_STOP'' STATUS_LOGGEDIN PROCESS_THREADSAFE (WorldHandler ''HandleMovementOpcodes'') True,
     WOH ''MSG_MOVE_START_STRAFE_LEFT'' STATUS_LOGGEDIN PROCESS_THREADSAFE (WorldHandler ''HandleMovementOpcodes'') True,
     WOH ''MSG_MOVE_START_STRAFE_RIGHT'' STATUS_LOGGEDIN PROCESS_THREADSAFE (WorldHandler ''HandleMovementOpcodes'') True,
     WOH ''MSG_MOVE_STOP_STRAFE'' STATUS_LOGGEDIN PROCESS_THREADSAFE (WorldHandler ''HandleMovementOpcodes'') True,
     WOH ''MSG_MOVE_JUMP'' STATUS_LOGGEDIN PROCESS_THREADSAFE (WorldHandler ''HandleMovementOpcodes'') False,
     WOH ''MSG_MOVE_START_TURN_LEFT'' STATUS_LOGGEDIN PROCESS_THREADSAFE (WorldHandler ''HandleMovementOpcodes'') True,
     WOH ''MSG_MOVE_START_TURN_RIGHT'' STATUS_LOGGEDIN PROCESS_THREADSAFE (WorldHandler ''HandleMovementOpcodes'') True,
     WOH ''MSG_MOVE_STOP_TURN'' STATUS_LOGGEDIN PROCESS_THREADSAFE (WorldHandler ''HandleMovementOpcodes'') True,
     WOH ''MSG_MOVE_START_PITCH_UP'' STATUS_LOGGEDIN PROCESS_THREADSAFE (WorldHandler ''HandleMovementOpcodes'') True,
     WOH ''MSG_MOVE_START_PITCH_DOWN'' STATUS_LOGGEDIN PROCESS_THREADSAFE (WorldHandler ''HandleMovementOpcodes'') True,
     WOH ''MSG_MOVE_STOP_PITCH'' STATUS_LOGGEDIN PROCESS_THREADSAFE (WorldHandler ''HandleMovementOpcodes'') True,
     WOH ''MSG_MOVE_SET_RUN_MODE'' STATUS_LOGGEDIN PROCESS_THREADSAFE (WorldHandler ''HandleMovementOpcodes'') False,
     WOH ''MSG_MOVE_SET_WALK_MODE'' STATUS_LOGGEDIN PROCESS_THREADSAFE (WorldHandler ''HandleMovementOpcodes'') False,
     WOH ''MSG_MOVE_TOGGLE_LOGGING'' STATUS_NEVER PROCESS_INPLACE WHandle_NULL False,
     WOH ''MSG_MOVE_TELEPORT'' STATUS_NEVER PROCESS_INPLACE WHandle_NULL False,
     WOH ''MSG_MOVE_TELEPORT_CHEAT'' STATUS_NEVER PROCESS_INPLACE WHandle_NULL False,
     WOH ''MSG_MOVE_TELEPORT_ACK'' STATUS_LOGGEDIN PROCESS_THREADSAFE (WorldHandler ''HandleMoveTeleportAck'') False,
     WOH ''MSG_MOVE_TOGGLE_FALL_LOGGING'' STATUS_NEVER PROCESS_INPLACE WHandle_NULL False,
     WOH ''MSG_MOVE_FALL_LAND'' STATUS_LOGGEDIN PROCESS_THREADSAFE (WorldHandler ''HandleMovementOpcodes'') False,
     WOH ''MSG_MOVE_START_SWIM'' STATUS_LOGGEDIN PROCESS_THREADSAFE (WorldHandler ''HandleMovementOpcodes'') True,
     WOH ''MSG_MOVE_STOP_SWIM'' STATUS_LOGGEDIN PROCESS_THREADSAFE (WorldHandler ''HandleMovementOpcodes'') True,
     WOH ''MSG_MOVE_SET_RUN_SPEED_CHEAT'' STATUS_NEVER PROCESS_INPLACE WHandle_NULL False,
     WOH ''MSG_MOVE_SET_RUN_SPEED'' STATUS_NEVER PROCESS_INPLACE WHandle_NULL False,
     WOH ''MSG_MOVE_SET_RUN_BACK_SPEED_CHEAT'' STATUS_NEVER PROCESS_INPLACE WHandle_NULL False,
     WOH ''MSG_MOVE_SET_RUN_BACK_SPEED'' STATUS_NEVER PROCESS_INPLACE WHandle_NULL False,
     WOH ''MSG_MOVE_SET_WALK_SPEED_CHEAT'' STATUS_NEVER PROCESS_INPLACE WHandle_NULL False,
     WOH ''MSG_MOVE_SET_WALK_SPEED'' STATUS_NEVER PROCESS_INPLACE WHandle_NULL False,
     WOH ''MSG_MOVE_SET_SWIM_SPEED_CHEAT'' STATUS_NEVER PROCESS_INPLACE WHandle_NULL False,
     WOH ''MSG_MOVE_SET_SWIM_SPEED'' STATUS_NEVER PROCESS_INPLACE WHandle_NULL False,
     WOH ''MSG_MOVE_SET_SWIM_BACK_SPEED_CHEAT'' STATUS_NEVER PROCESS_INPLACE WHandle_NULL False,
     WOH ''MSG_MOVE_SET_SWIM_BACK_SPEED'' STATUS_NEVER PROCESS_INPLACE WHandle_NULL False,
     WOH ''MSG_MOVE_SET_ALL_SPEED_CHEAT'' STATUS_NEVER PROCESS_INPLACE WHandle_NULL False,
     WOH ''MSG_MOVE_SET_TURN_RATE_CHEAT'' STATUS_NEVER PROCESS_INPLACE WHandle_NULL False,
     WOH ''MSG_MOVE_SET_TURN_RATE'' STATUS_NEVER PROCESS_INPLACE WHandle_NULL False,
     WOH ''MSG_MOVE_TOGGLE_COLLISION_CHEAT'' STATUS_NEVER PROCESS_INPLACE WHandle_NULL False,
     WOH ''MSG_MOVE_SET_FACING'' STATUS_LOGGEDIN PROCESS_THREADSAFE (WorldHandler ''HandleMovementOpcodes'') True,
     WOH ''MSG_MOVE_SET_PITCH'' STATUS_LOGGEDIN PROCESS_THREADSAFE (WorldHandler ''HandleMovementOpcodes'') True,
     WOH ''MSG_MOVE_WORLDPORT_ACK'' STATUS_TRANSFER PROCESS_THREADUNSAFE (WorldHandler ''HandleMoveWorldportAckOpcode'') False,
     WOH ''SMSG_MONSTER_MOVE'' STATUS_NEVER PROCESS_INPLACE WHandle_ServerSide False,
     WOH ''SMSG_MOVE_WATER_WALK'' STATUS_NEVER PROCESS_INPLACE WHandle_ServerSide False,
     WOH ''SMSG_MOVE_LAND_WALK'' STATUS_NEVER PROCESS_INPLACE WHandle_ServerSide False,
     WOH ''CMSG_MOVE_CHARM_PORT_CHEAT'' STATUS_NEVER PROCESS_INPLACE WHandle_NULL False,
     WOH ''CMSG_MOVE_SET_RAW_POSITION'' STATUS_NEVER PROCESS_INPLACE WHandle_NULL False,
     WOH ''SMSG_FORCE_RUN_SPEED_CHANGE'' STATUS_NEVER PROCESS_INPLACE WHandle_ServerSide False,
     WOH ''CMSG_FORCE_RUN_SPEED_CHANGE_ACK'' STATUS_LOGGEDIN PROCESS_THREADSAFE (WorldHandler ''HandleForceSpeedChangeAck'') False,
     WOH ''SMSG_FORCE_RUN_BACK_SPEED_CHANGE'' STATUS_NEVER PROCESS_INPLACE WHandle_ServerSide False,
     WOH ''CMSG_FORCE_RUN_BACK_SPEED_CHANGE_ACK'' STATUS_LOGGEDIN PROCESS_THREADSAFE (WorldHandler ''HandleForceSpeedChangeAck'') False,
     WOH ''SMSG_FORCE_SWIM_SPEED_CHANGE'' STATUS_NEVER PROCESS_INPLACE WHandle_ServerSide False,
     WOH ''CMSG_FORCE_SWIM_SPEED_CHANGE_ACK'' STATUS_LOGGEDIN PROCESS_THREADSAFE (WorldHandler ''HandleForceSpeedChangeAck'') False,
     WOH ''SMSG_FORCE_MOVE_ROOT'' STATUS_NEVER PROCESS_INPLACE WHandle_ServerSide False,
     WOH ''CMSG_FORCE_MOVE_ROOT_ACK'' STATUS_LOGGEDIN PROCESS_THREADSAFE (WorldHandler ''HandleMoveRootAck'') False,
     WOH ''SMSG_FORCE_MOVE_UNROOT'' STATUS_NEVER PROCESS_INPLACE WHandle_ServerSide False,
     WOH ''CMSG_FORCE_MOVE_UNROOT_ACK'' STATUS_LOGGEDIN PROCESS_THREADSAFE (WorldHandler ''HandleMoveUnRootAck'') False,
     WOH ''MSG_MOVE_ROOT'' STATUS_NEVER PROCESS_INPLACE WHandle_NULL False,
     WOH ''MSG_MOVE_UNROOT'' STATUS_NEVER PROCESS_INPLACE WHandle_NULL False,
     WOH ''MSG_MOVE_HEARTBEAT'' STATUS_LOGGEDIN PROCESS_THREADSAFE (WorldHandler ''HandleMovementOpcodes'') True,
     WOH ''SMSG_MOVE_KNOCK_BACK'' STATUS_NEVER PROCESS_INPLACE WHandle_ServerSide False,
     WOH ''CMSG_MOVE_KNOCK_BACK_ACK'' STATUS_LOGGEDIN PROCESS_THREADSAFE (WorldHandler ''HandleMoveKnockBackAck'') False,
     WOH ''MSG_MOVE_KNOCK_BACK'' STATUS_NEVER PROCESS_INPLACE WHandle_NULL False,
     WOH ''SMSG_MOVE_FEATHER_FALL'' STATUS_NEVER PROCESS_INPLACE WHandle_ServerSide False,
     WOH ''SMSG_MOVE_NORMAL_FALL'' STATUS_NEVER PROCESS_INPLACE WHandle_ServerSide False,
     WOH ''SMSG_MOVE_SET_HOVER'' STATUS_NEVER PROCESS_INPLACE WHandle_ServerSide False,
     WOH ''SMSG_MOVE_UNSET_HOVER'' STATUS_NEVER PROCESS_INPLACE WHandle_ServerSide False,
     WOH ''CMSG_MOVE_HOVER_ACK'' STATUS_LOGGEDIN PROCESS_THREADUNSAFE (WorldHandler ''HandleMoveHoverAck'') False,
     WOH ''MSG_MOVE_HOVER'' STATUS_NEVER PROCESS_INPLACE WHandle_ServerSide False,
     WOH ''CMSG_TRIGGER_CINEMATIC_CHEAT'' STATUS_NEVER PROCESS_INPLACE WHandle_NULL False,
     WOH ''CMSG_OPENING_CINEMATIC'' STATUS_NEVER PROCESS_INPLACE WHandle_NULL False,
     WOH ''SMSG_TRIGGER_CINEMATIC'' STATUS_NEVER PROCESS_INPLACE WHandle_ServerSide False,
     WOH ''CMSG_NEXT_CINEMATIC_CAMERA'' STATUS_LOGGEDIN PROCESS_THREADUNSAFE (WorldHandler ''HandleNextCinematicCamera'') False,
     WOH ''CMSG_COMPLETE_CINEMATIC'' STATUS_LOGGEDIN PROCESS_THREADUNSAFE (WorldHandler ''HandleCompleteCinematic'') False,
     WOH ''SMSG_TUTORIAL_FLAGS'' STATUS_NEVER PROCESS_INPLACE WHandle_ServerSide False,
     WOH ''CMSG_TUTORIAL_FLAG'' STATUS_LOGGEDIN PROCESS_THREADUNSAFE (WorldHandler ''HandleTutorialFlag'') False,
     WOH ''CMSG_TUTORIAL_CLEAR'' STATUS_LOGGEDIN PROCESS_THREADUNSAFE (WorldHandler ''HandleTutorialClear'') False,
     WOH ''CMSG_TUTORIAL_RESET'' STATUS_LOGGEDIN PROCESS_THREADUNSAFE (WorldHandler ''HandleTutorialReset'') False,
     WOH ''CMSG_STANDSTATECHANGE'' STATUS_LOGGEDIN PROCESS_THREADUNSAFE (WorldHandler ''HandleStandStateChangeOpcode'') False,
     WOH ''CMSG_EMOTE'' STATUS_LOGGEDIN PROCESS_THREADSAFE (WorldHandler ''HandleEmoteOpcode'') False,
     WOH ''SMSG_EMOTE'' STATUS_NEVER PROCESS_INPLACE WHandle_ServerSide False,
     WOH ''CMSG_TEXT_EMOTE'' STATUS_LOGGEDIN PROCESS_THREADSAFE (WorldHandler ''HandleTextEmoteOpcode'') False,
     WOH ''SMSG_TEXT_EMOTE'' STATUS_NEVER PROCESS_INPLACE WHandle_ServerSide False,
     WOH ''CMSG_AUTOEQUIP_GROUND_ITEM'' STATUS_NEVER PROCESS_INPLACE WHandle_NULL False,
     WOH ''CMSG_AUTOSTORE_GROUND_ITEM'' STATUS_NEVER PROCESS_INPLACE WHandle_NULL False,
     WOH ''CMSG_AUTOSTORE_LOOT_ITEM'' STATUS_LOGGEDIN PROCESS_THREADSAFE (WorldHandler ''HandleAutostoreLootItemOpcode'') False,
     WOH ''CMSG_STORE_LOOT_IN_SLOT'' STATUS_NEVER PROCESS_INPLACE WHandle_NULL False,
     WOH ''CMSG_AUTOEQUIP_ITEM'' STATUS_LOGGEDIN PROCESS_THREADSAFE (WorldHandler ''HandleAutoEquipItemOpcode'') False,
     WOH ''CMSG_AUTOSTORE_BAG_ITEM'' STATUS_LOGGEDIN PROCESS_THREADSAFE (WorldHandler ''HandleAutoStoreBagItemOpcode'') False,
     WOH ''CMSG_SWAP_ITEM'' STATUS_LOGGEDIN PROCESS_THREADSAFE (WorldHandler ''HandleSwapItem'') False,
     WOH ''CMSG_SWAP_INV_ITEM'' STATUS_LOGGEDIN PROCESS_THREADSAFE (WorldHandler ''HandleSwapInvItemOpcode'') False,
     WOH ''CMSG_SPLIT_ITEM'' STATUS_LOGGEDIN PROCESS_THREADSAFE (WorldHandler ''HandleSplitItemOpcode'') False,
     WOH ''CMSG_AUTOEQUIP_ITEM_SLOT'' STATUS_LOGGEDIN PROCESS_THREADSAFE (WorldHandler ''HandleAutoEquipItemSlotOpcode'') False,
     WOH ''CMSG_UNCLAIM_LICENSE'' STATUS_NEVER PROCESS_INPLACE WHandle_NULL False,
     WOH ''CMSG_DESTROYITEM'' STATUS_LOGGEDIN PROCESS_THREADSAFE (WorldHandler ''HandleDestroyItemOpcode'') False,
     WOH ''SMSG_INVENTORY_CHANGE_FAILURE'' STATUS_NEVER PROCESS_INPLACE WHandle_ServerSide False,
     WOH ''SMSG_OPEN_CONTAINER'' STATUS_NEVER PROCESS_INPLACE WHandle_ServerSide False,
     WOH ''CMSG_INSPECT'' STATUS_LOGGEDIN PROCESS_THREADSAFE (WorldHandler ''HandleInspectOpcode'') False,
     WOH ''SMSG_INSPECT_RESULTS_UPDATE'' STATUS_NEVER PROCESS_INPLACE WHandle_ServerSide False,
     WOH ''CMSG_INITIATE_TRADE'' STATUS_LOGGEDIN PROCESS_THREADUNSAFE (WorldHandler ''HandleInitiateTradeOpcode'') False,
     WOH ''CMSG_BEGIN_TRADE'' STATUS_LOGGEDIN PROCESS_THREADUNSAFE (WorldHandler ''HandleBeginTradeOpcode'') False,
     WOH ''CMSG_BUSY_TRADE'' STATUS_LOGGEDIN PROCESS_THREADUNSAFE (WorldHandler ''HandleBusyTradeOpcode'') False,
     WOH ''CMSG_IGNORE_TRADE'' STATUS_LOGGEDIN PROCESS_THREADUNSAFE (WorldHandler ''HandleIgnoreTradeOpcode'') False,
     WOH ''CMSG_ACCEPT_TRADE'' STATUS_LOGGEDIN PROCESS_THREADUNSAFE (WorldHandler ''HandleAcceptTradeOpcode'') False,
     WOH ''CMSG_UNACCEPT_TRADE'' STATUS_LOGGEDIN PROCESS_THREADUNSAFE (WorldHandler ''HandleUnacceptTradeOpcode'') False,
     WOH ''CMSG_CANCEL_TRADE'' STATUS_LOGGEDIN PROCESS_THREADUNSAFE (WorldHandler ''HandleCancelTradeOpcode'') False,
     WOH ''CMSG_SET_TRADE_ITEM'' STATUS_LOGGEDIN PROCESS_THREADUNSAFE (WorldHandler ''HandleSetTradeItemOpcode'') False,
     WOH ''CMSG_CLEAR_TRADE_ITEM'' STATUS_LOGGEDIN PROCESS_THREADUNSAFE (WorldHandler ''HandleClearTradeItemOpcode'') False,
     WOH ''CMSG_SET_TRADE_GOLD'' STATUS_LOGGEDIN PROCESS_THREADUNSAFE (WorldHandler ''HandleSetTradeGoldOpcode'') False,
     WOH ''SMSG_TRADE_STATUS'' STATUS_NEVER PROCESS_INPLACE WHandle_ServerSide False,
     WOH ''SMSG_TRADE_STATUS_EXTENDED'' STATUS_NEVER PROCESS_INPLACE WHandle_ServerSide False,
     WOH ''SMSG_INITIALIZE_FACTIONS'' STATUS_NEVER PROCESS_INPLACE WHandle_ServerSide False,
     WOH ''SMSG_SET_FACTION_VISIBLE'' STATUS_NEVER PROCESS_INPLACE WHandle_ServerSide False,
     WOH ''SMSG_SET_FACTION_STANDING'' STATUS_NEVER PROCESS_INPLACE WHandle_ServerSide False,
     WOH ''CMSG_SET_FACTION_ATWAR'' STATUS_LOGGEDIN PROCESS_THREADUNSAFE (WorldHandler ''HandleSetFactionAtWar'') False]"

definition node_rows_2 :: "WorldOpcodeHandler list" where
  "node_rows_2 = [
     WOH ''CMSG_SET_FACTION_CHEAT'' STATUS_LOGGEDIN PROCESS_THREADUNSAFE (WorldHandler ''HandleSetFactionCheat'') False,
     WOH ''SMSG_SET_PROFICIENCY'' STATUS_NEVER PROCESS_INPLACE WHandle_ServerSide False,
     WOH ''CMSG_SET_ACTION_BUTTON'' STATUS_LOGGEDIN PROCESS_THREADUNSAFE (WorldHandler ''HandleSetActionButtonOpcode'') False,
     WOH ''SMSG_ACTION_BUTTONS'' STATUS_NEVER PROCESS_INPLACE WHandle_ServerSide False,
     WOH ''SMSG_INITIAL_SPELLS'' STATUS_NEVER PROCESS_INPLACE WHandle_ServerSide False,
     WOH ''SMSG_LEARNED_SPELL'' STATUS_NEVER PROCESS_INPLACE WHandle_ServerSide False,
     WOH ''SMSG_SUPERCEDED_SPELL'' STATUS_NEVER PROCESS_INPLACE WHandle_ServerSide False,
     WOH ''CMSG_NEW_SPELL_SLOT'' STATUS_NEVER PROCESS_INPLACE WHandle_NULL False,
     WOH ''CMSG_CAST_SPELL'' STATUS_LOGGEDIN PROCESS_THREADSAFE (WorldHandler ''HandleCastSpellOpcode'') False,
     WOH ''CMSG_CANCEL_CAST'' STATUS_LOGGEDIN PROCESS_THREADSAFE (WorldHandler ''HandleCancelCastOpcode'') False,
     WOH ''SMSG_CAST_FAILED'' STATUS_NEVER PROCESS_INPLACE WHandle_ServerSide False,
     WOH ''SMSG_SPELL_START'' STATUS_NEVER PROCESS_INPLACE WHandle_ServerSide False,
     WOH ''SMSG_SPELL_GO'' STATUS_NEVER PROCESS_INPLACE WHandle_ServerSide False,
     WOH ''SMSG_SPELL_FAILURE'' STATUS_NEVER PROCESS_INPLACE WHandle_ServerSide False,
     WOH ''SMSG_SPELL_COOLDOWN'' STATUS_NEVER PROCESS_INPLACE WHandle_ServerSide False,
     WOH ''SMSG_COOLDOWN_EVENT'' STATUS_NEVER PROCESS_INPLACE WHandle_ServerSide False,
     WOH ''CMSG_CANCEL_AURA'' STATUS_LOGGEDIN PROCESS_THREADSAFE (WorldHandler ''HandleCancelAuraOpcode'') False,
     WOH ''SMSG_EQUIPMENT_SET_SAVED'' STATUS_NEVER PROCESS_INPLACE WHandle_ServerSide False,
     WOH ''SMSG_PET_CAST_FAILED'' STATUS_NEVER PROCESS_INPLACE WHandle_ServerSide False,
     WOH ''MSG_CHANNEL_START'' STATUS_NEVER PROCESS_INPLACE WHandle_NULL False,
     WOH ''MSG_CHANNEL_UPDATE'' STATUS_NEVER PROCESS_INPLACE WHandle_NULL False,
     WOH ''CMSG_CANCEL_CHANNELLING'' STATUS_LOGGEDIN PROCESS_THREADSAFE (WorldHandler ''HandleCancelChanneling'') False,
     WOH ''SMSG_AI_REACTION'' STATUS_NEVER PROCESS_INPLACE WHandle_ServerSide False,
     WOH ''CMSG_SET_SELECTION'' STATUS_LOGGEDIN PROCESS_THREADSAFE (WorldHandler ''HandleSetSelectionOpcode'') False,
     WOH ''CMSG_DELETEEQUIPMENT_SET'' STATUS_LOGGEDIN PROCESS_THREADUNSAFE (WorldHandler ''HandleEquipmentSetDelete'') False,
     WOH ''CMSG_INSTANCE_LOCK_RESPONSE'' STATUS_LOGGEDIN PROCESS_THREADUNSAFE (WorldHandler ''HandleInstanceLockResponse'') False,
     WOH ''CMSG_DEBUG_PASSIVE_AURA'' STATUS_NEVER PROCESS_INPLACE WHandle_NULL False,
     WOH ''CMSG_ATTACKSWING'' STATUS_LOGGEDIN PROCESS_THREADSAFE (WorldHandler ''HandleAttackSwingOpcode'') False,
     WOH ''CMSG_ATTACKSTOP'' STATUS_LOGGEDIN PROCESS_THREADSAFE (WorldHandler ''HandleAttackStopOpcode'') False,
     WOH ''SMSG_ATTACKSTART'' STATUS_NEVER PROCESS_INPLACE WHandle_ServerSide False,
     WOH ''SMSG_ATTACKSTOP'' STATUS_NEVER PROCESS_INPLACE WHandle_ServerSide False,
     WOH ''SMSG_ATTACKSWING_NOTINRANGE'' STATUS_NEVER PROCESS_INPLACE WHandle_ServerSide False,
     WOH ''SMSG_ATTACKSWING_BADFACING'' STATUS_NEVER PROCESS_INPLACE WHandle_ServerSide False,
     WOH ''SMSG_INSTANCE_LOCK_WARNING_QUERY'' STATUS_NEVER PROCESS_INPLACE WHandle_ServerSide False,
     WOH ''SMSG_ATTACKSWING_DEADTARGET'' STATUS_NEVER PROCESS_INPLACE WHandle_ServerSide False,
     WOH ''SMSG_ATTACKSWING_CANT_ATTACK'' STATUS_NEVER PROCESS_INPLACE WHandle_ServerSide False,
     WOH ''SMSG_ATTACKERSTATEUPDATE'' STATUS_NEVER PROCESS_INPLACE WHandle_ServerSide False,
     WOH ''SMSG_BATTLEFIELD_PORT_DENIED'' STATUS_NEVER PROCESS_INPLACE WHandle_ServerSide False,
     WOH ''CMSG_PERFORM_ACTION_SET'' STATUS_NEVER PROCESS_INPLACE WHandle_NULL False,
     WOH ''SMSG_RESUME_CAST_BAR'' STATUS_NEVER PROCESS_INPLACE WHandle_ServerSide False,
     WOH ''SMSG_CANCEL_COMBAT'' STATUS_NEVER PROCESS_INPLACE WHandle_ServerSide False,
     WOH ''SMSG_SPELLBREAKLOG'' STATUS_NEVER PROCESS_INPLACE WHandle_ServerSide False,
     WOH ''SMSG_SPELLHEALLOG'' STATUS_NEVER PROCESS_INPLACE WHandle_ServerSide False,
     WOH ''SMSG_SPELLENERGIZELOG'' STATUS_NEVER PROCESS_INPLACE WHandle_ServerSide False,
     WOH ''SMSG_BREAK_TARGET'' STATUS_NEVER PROCESS_INPLACE WHandle_ServerSide False,
     WOH ''CMSG_SAVE_PLAYER'' STATUS_NEVER PROCESS_INPLACE WHandle_NULL False,
     WOH ''CMSG_SETDEATHBINDPOINT'' STATUS_NEVER PROCESS_INPLACE WHandle_NULL False,
     WOH ''SMSG_BINDPOINTUPDATE'' STATUS_NEVER PROCESS_INPLACE WHandle_ServerSide False,
     WOH ''CMSG_GETDEATHBINDZONE'' STATUS_NEVER PROCESS_INPLACE WHandle_NULL False,
     WOH ''SMSG_BINDZONEREPLY'' STATUS_NEVER PROCESS_INPLACE WHandle_ServerSide False,
     WOH ''SMSG_PLAYERBOUND'' STATUS_NEVER PROCESS_INPLACE WHandle_ServerSide False,
     WOH ''SMSG_CLIENT_CONTROL_UPDATE'' STATUS_NEVER PROCESS_INPLACE WHandle_ServerSide False,
     WOH ''CMSG_REPOP_REQUEST'' STATUS_LOGGEDIN PROCESS_THREADSAFE (WorldHandler ''HandleRepopRequestOpcode'') False,
     WOH ''SMSG_RESURRECT_REQUEST'' STATUS_NEVER PROCESS_INPLACE WHandle_ServerSide False,
     WOH ''CMSG_RESURRECT_RESPONSE'' STATUS_LOGGEDIN PROCESS_THREADSAFE (WorldHandler ''HandleResurrectResponseOpcode'') False,
     WOH ''CMSG_LOOT'' STATUS_LOGGEDIN PROCESS_THREADUNSAFE (WorldHandler ''HandleLootOpcode'') False,
     WOH ''CMSG_LOOT_MONEY'' STATUS_LOGGEDIN PROCESS_THREADUNSAFE (WorldHandler ''HandleLootMoneyOpcode'') False,
     WOH ''CMSG_LOOT_RELEASE'' STATUS_LOGGEDIN PROCESS_THREADUNSAFE (WorldHandler ''HandleLootReleaseOpcode'') False,
     WOH ''SMSG_LOOT_RESPONSE'' STATUS_NEVER PROCESS_INPLACE WHandle_ServerSide False,
     WOH ''SMSG_LOOT_RELEASE_RESPONSE'' STATUS_NEVER PROCESS_INPLACE WHandle_ServerSide False,
     WOH ''SMSG_LOOT_REMOVED'' STATUS_NEVER PROCESS_INPLACE WHandle_ServerSide False,
     WOH ''SMSG_LOOT_MONEY_NOTIFY'' STATUS_NEVER PROCESS_INPLACE WHandle_ServerSide False,
     WOH ''SMSG_LOOT_ITEM_NOTIFY'' STATUS_NEVER PROCESS_INPLACE WHandle_ServerSide False,
     WOH ''SMSG_LOOT_CLEAR_MONEY'' STATUS_NEVER PROCESS_INPLACE WHandle_ServerSide False,
     WOH ''SMSG_ITEM_PUSH_RESULT'' STATUS_NEVER PROCESS_INPLACE WHandle_ServerSide False,
     WOH ''SMSG_DUEL_REQUESTED'' STATUS_NEVER PROCESS_INPLACE WHandle_ServerSide False,
     WOH ''SMSG_DUEL_OUTOFBOUNDS'' STATUS_NEVER PROCESS_INPLACE WHandle_ServerSide False,
     WOH ''SMSG_DUEL_INBOUNDS'' STATUS_NEVER PROCESS_INPLACE WHandle_ServerSide False,
     WOH ''SMSG_DUEL_COMPLETE'' STATUS_NEVER PROCESS_INPLACE WHandle_ServerSide False,
     WOH ''SMSG_DUEL_WINNER'' STATUS_NEVER PROCESS_INPLACE WHandle_ServerSide False,
     WOH ''CMSG_DUEL_ACCEPTED'' STATUS_LOGGEDIN PROCESS_THREADUNSAFE (WorldHandler ''HandleDuelAcceptedOpcode'') False,
     WOH ''CMSG_DUEL_CANCELLED'' STATUS_LOGGEDIN PROCESS_THREADUNSAFE (WorldHandler ''HandleDuelCancelledOpcode'') False,
     WOH ''SMSG_MOUNTRESULT'' STATUS_NEVER PROCESS_INPLACE WHandle_ServerSide False,
     WOH ''SMSG_DISMOUNTRESULT'' STATUS_NEVER PROCESS_INPLACE WHandle_ServerSide False,
     WOH ''SMSG_REMOVED_FROM_PVP_QUEUE'' STATUS_NEVER PROCESS_INPLACE WHandle_ServerSide False,
     WOH ''CMSG_MOUNTSPECIAL_ANIM'' STATUS_LOGGEDIN PROCESS_THREADUNSAFE (WorldHandler ''HandleMountSpecialAnimOpcode'') False,
     WOH ''SMSG_MOUNTSPECIAL_ANIM'' STATUS_NEVER PROCESS_INPLACE WHandle_ServerSide False,
     WOH ''SMSG_PET_TAME_FAILURE'' STATUS_NEVER PROCESS_INPLACE WHandle_ServerSide False,
     WOH ''CMSG_PET_SET_ACTION'' STATUS_LOGGEDIN PROCESS_THREADUNSAFE (WorldHandler ''HandlePetSetAction'') False,
     WOH ''CMSG_PET_ACTION'' STATUS_LOGGEDIN PROCESS_THREADUNSAFE (WorldHandler ''HandlePetAction'') False,
     WOH ''CMSG_PET_ABANDON'' STATUS_LOGGEDIN PROCESS_THREADUNSAFE (WorldHandler ''HandlePetAbandon'') False,
     WOH ''CMSG_PET_RENAME'' STATUS_LOGGEDIN PROCESS_THREADUNSAFE (WorldHandler ''HandlePetRename'') False,
     WOH ''SMSG_PET_NAME_INVALID'' STATUS_NEVER PROCESS_INPLACE WHandle_ServerSide False,
     WOH ''SMSG_PET_SPELLS'' STATUS_NEVER PROCESS_INPLACE WHandle_ServerSide False,
     WOH ''SMSG_PET_MODE'' STATUS_NEVER PROCESS_INPLACE WHandle_ServerSide False,
     WOH ''CMSG_GOSSIP_HELLO'' STATUS_LOGGEDIN PROCESS_THREADSAFE (WorldHandler ''HandleGossipHelloOpcode'') False,
     WOH ''CMSG_GOSSIP_SELECT_OPTION'' STATUS_LOGGEDIN PROCESS_THREADUNSAFE (WorldHandler ''HandleGossipSelectOptionOpcode'') False,
     WOH ''SMSG_GOSSIP_MESSAGE'' STATUS_NEVER PROCESS_INPLACE WHandle_ServerSide False,
     WOH ''SMSG_GOSSIP_COMPLETE'' STATUS_NEVER PROCESS_INPLACE WHandle_ServerSide False,
     WOH ''CMSG_NPC_TEXT_QUERY'' STATUS_LOGGEDIN PROCESS_THREADSAFE (WorldHandler ''HandleNpcTextQueryOpcode'') False,
     WOH ''SMSG_NPC_TEXT_UPDATE'' STATUS_NEVER PROCESS_INPLACE WHandle_ServerSide False,
     WOH ''SMSG_NPC_WONT_TALK'' STATUS_NEVER PROCESS_INPLACE WHandle_ServerSide False,
     WOH ''CMSG_QUESTGIVER_STATUS_QUERY'' STATUS_LOGGEDIN PROCESS_THREADSAFE (WorldHandler ''HandleQuestgiverStatusQueryOpcode'') False,
     WOH ''SMSG_QUESTGIVER_STATUS'' STATUS_NEVER PROCESS_INPLACE WHandle_ServerSide False,
     WOH ''CMSG_QUESTGIVER_HELLO'' STATUS_LOGGEDIN PROCESS_THREADSAFE (WorldHandler ''HandleQuestgiverHelloOpcode'') False,
     WOH ''SMSG_QUESTGIVER_QUEST_LIST'' STATUS_NEVER PROCESS_INPLACE WHandle_ServerSide False,
     WOH ''CMSG_QUESTGIVER_QUERY_QUEST'' STATUS_LOGGEDIN PROCESS_THREADSAFE (WorldHandler ''HandleQuestgiverQueryQuestOpcode'') False,
     WOH ''CMSG_QUESTGIVER_QUEST_AUTOLAUNCH'' STATUS_LOGGEDIN PROCESS_THREADSAFE (WorldHandler ''HandleQuestgiverQuestAutoLaunch'') False,
     WOH ''SMSG_QUESTGIVER_QUEST_DETAILS'' STATUS_NEVER PROCESS_INPLACE WHandle_ServerSide False,
     WOH ''CMSG_QUESTGIVER_ACCEPT_QUEST'' STATUS_LOGGEDIN PROCESS_THREADSAFE (WorldHandler ''HandleQuestgiverAcceptQuestOpcode'') False,
     WOH ''CMSG_QUESTGIVER_COMPLETE_QUEST'' STATUS_LOGGEDIN PROCESS_THREADSAFE (WorldHandler ''HandleQuestgiverCompleteQuest'') False,
     WOH ''SMSG_QUESTGIVER_REQUEST_ITEMS'' STATUS_NEVER PROCESS_INPLACE WHandle_ServerSide False,
     WOH ''CMSG_QUESTGIVER_REQUEST_REWARD'' STATUS_LOGGEDIN PROCESS_THREADSAFE (WorldHandler ''HandleQuestgiverRequestRewardOpcode'') False,
     WOH ''SMSG_QUESTGIVER_OFFER_REWARD'' STATUS_NEVER PROCESS_INPLACE WHandle_ServerSide False,
     WOH ''CMSG_QUESTGIVER_CHOOSE_REWARD'' STATUS_LOGGEDIN PROCESS_THREADSAFE (WorldHandler ''HandleQuestgiverChooseRewardOpcode'') False,
     WOH ''SMSG_QUESTGIVER_QUEST_INVALID'' STATUS_NEVER PROCESS_INPLACE WHandle_ServerSide False,
     WOH ''CMSG_QUESTGIVER_CANCEL'' STATUS_LOGGEDIN PROCESS_THREADSAFE (WorldHandler ''HandleQuestgiverCancel'') False,
     WOH ''SMSG_QUESTGIVER_QUEST_COMPLETE'' STATUS_NEVER PROCESS_INPLACE WHandle_ServerSide False,
     WOH ''SMSG_QUESTGIVER_QUEST_FAILED'' STATUS_NEVER PROCESS_INPLACE WHandle_ServerSide False,
     WOH ''CMSG_QUESTLOG_SWAP_QUEST'' STATUS_LOGGEDIN PROCESS_THREADSAFE (WorldHandler ''HandleQuestLogSwapQuest'') False,
     WOH ''CMSG_QUESTLOG_REMOVE_QUEST'' STATUS_LOGGEDIN PROCESS_THREADSAFE (WorldHandler ''HandleQuestLogRemoveQuest'') False,
     WOH ''SMSG_QUESTLOG_FULL'' STATUS_NEVER PROCESS_INPLACE WHandle_ServerSide False,
     WOH ''SMSG_QUESTUPDATE_FAILED'' STATUS_NEVER PROCESS_INPLACE WHandle_ServerSide False,
     WOH ''SMSG_QUESTUPDATE_FAILEDTIMER'' STATUS_NEVER PROCESS_INPLACE WHandle_ServerSide False,
     WOH ''SMSG_QUESTUPDATE_COMPLETE'' STATUS_NEVER PROCESS_INPLACE WHandle_ServerSide False,
     WOH ''SMSG_QUESTUPDATE_ADD_KILL'' STATUS_NEVER PROCESS_INPLACE WHandle_ServerSide False,
     WOH ''SMSG_QUESTUPDATE_ADD_ITEM'' STATUS_NEVER PROCESS_INPLACE WHandle_ServerSide False,
     WOH ''CMSG_QUEST_CONFIRM_ACCEPT'' STATUS_LOGGEDIN PROCESS_THREADUNSAFE (WorldHandler ''HandleQuestConfirmAccept'') False,
     WOH ''SMSG_QUEST_CONFIRM_ACCEPT'' STATUS_NEVER PROCESS_INPLACE WHandle_ServerSide False,
     WOH ''CMSG_PUSHQUESTTOPARTY'' STATUS_LOGGEDIN PROCESS_THREADUNSAFE (WorldHandler ''HandlePushQuestToParty'') False,
     WOH ''CMSG_LIST_INVENTORY'' STATUS_LOGGEDIN PROCESS_THREADSAFE (WorldHandler ''HandleListInventoryOpcode'') False,
     WOH ''SMSG_LIST_INVENTORY'' STATUS_NEVER PROCESS_INPLACE WHandle_ServerSide False,
     WOH ''CMSG_SELL_ITEM'' STATUS_LOGGEDIN PROCESS_THREADSAFE (WorldHandler ''HandleSellItemOpcode'') False,
     WOH ''SMSG_SELL_ITEM'' STATUS_NEVER PROCESS_INPLACE WHandle_ServerSide False,
     WOH ''CMSG_BUY_ITEM'' STATUS_LOGGEDIN PROCESS_THREADSAFE (WorldHandler ''HandleBuyItemOpcode'') False,
     WOH ''CMSG_BUY_ITEM_IN_SLOT'' STATUS_LOGGEDIN PROCESS_THREADSAFE (WorldHandler ''HandleBuyItemInSlotOpcode'') False,
     WOH ''SMSG_BUY_ITEM'' STATUS_NEVER PROCESS_INPLACE WHandle_ServerSide False,
     WOH ''SMSG_BUY_FAILED'' STATUS_NEVER PROCESS_INPLACE WHandle_ServerSide False,
     WOH ''CMSG_TAXICLEARALLNODES'' STATUS_NEVER PROCESS_INPLACE WHandle_NULL False,
     WOH ''CMSG_TAXIENABLEALLNODES'' STATUS_NEVER PROCESS_INPLACE WHandle_NULL False,
     WOH ''CMSG_TAXISHOWNODES'' STATUS_NEVER PROCESS_INPLACE WHandle_NULL False,
     WOH ''SMSG_SHOWTAXINODES'' STATUS_NEVER PROCESS_INPLACE WHandle_ServerSide False,
     WOH ''CMSG_TAXINODE_STATUS_QUERY'' STATUS_LOGGEDIN PROCESS_THREADSAFE (WorldHandler ''HandleTaxiNodeStatusQueryOpcode'') False,
     WOH ''SMSG_TAXINODE_STATUS'' STATUS_NEVER PROCESS_INPLACE WHandle_ServerSide False,
     WOH ''CMSG_TAXIQUERYAVAILABLENODES'' STATUS_LOGGEDIN PROCESS_THREADSAFE (WorldHandler ''HandleTaxiQueryAvailableNodes'') False,
     WOH ''CMSG_ACTIVATETAXI'' STATUS_LOGGEDIN PROCESS_THREADSAFE (WorldHandler ''HandleActivateTaxiOpcode'') False,
     WOH ''SMSG_ACTIVATETAXIREPLY'' STATUS_NEVER PROCESS_INPLACE WHandle_ServerSide False,
     WOH ''SMSG_NEW_TAXI_PATH'' STATUS_NEVER PROCESS_INPLACE WHandle_ServerSide False,
     WOH ''CMSG_TRAINER_LIST'' STATUS_LOGGEDIN PROCESS_THREADSAFE (WorldHandler ''HandleTrainerListOpcode'') False,
     WOH ''SMSG_TRAINER_LIST'' STATUS_NEVER PROCESS_INPLACE WHandle_ServerSide False,
     WOH ''CMSG_TRAINER_BUY_SPELL'' STATUS_LOGGEDIN PROCESS_THREADSAFE (WorldHandler ''HandleTrainerBuySpellOpcode'') False,
     WOH ''SMSG_TRAINER_BUY_SUCCEEDED'' STATUS_NEVER PROCESS_INPLACE WHandle_ServerSide False,
     WOH ''SMSG_TRAINER_BUY_FAILED'' STATUS_NEVER PROCESS_INPLACE WHandle_ServerSide False,
     WOH ''CMSG_BINDER_ACTIVATE'' STATUS_LOGGEDIN PROCESS_THREADSAFE (WorldHandler ''HandleBinderActivateOpcode'') False,
     WOH ''SMSG_PLAYERBINDERROR'' STATUS_NEVER PROCESS_INPLACE WHandle_ServerSide False,
     WOH ''CMSG_BANKER_ACTIVATE'' STATUS_LOGGEDIN PROCESS_THREADSAFE (WorldHandler ''HandleBankerActivateOpcode'') False,
     WOH ''SMSG_SHOW_BANK'' STATUS_NEVER PROCESS_INPLACE WHandle_ServerSide False]"

definition node_rows_3 :: "WorldOpcodeHandler list" where
  "node_rows_3 = [
     WOH ''CMSG_BUY_BANK_SLOT'' STATUS_LOGGEDIN PROCESS_THREADSAFE (WorldHandler ''HandleBuyBankSlotOpcode'') False,
     WOH ''SMSG_BUY_BANK_SLOT_RESULT'' STATUS_NEVER PROCESS_INPLACE WHandle_ServerSide False,
     WOH ''CMSG_PETITION_SHOWLIST'' STATUS_LOGGEDIN PROCESS_THREADSAFE (WorldHandler ''HandlePetitionShowListOpcode'') False,
     WOH ''SMSG_PETITION_SHOWLIST'' STATUS_NEVER PROCESS_INPLACE WHandle_ServerSide False,
     WOH ''CMSG_PETITION_BUY'' STATUS_LOGGEDIN PROCESS_THREADSAFE (WorldHandler ''HandlePetitionBuyOpcode'') False,
     WOH ''CMSG_PETITION_SHOW_SIGNATURES'' STATUS_LOGGEDIN PROCESS_THREADSAFE (WorldHandler ''HandlePetitionShowSignOpcode'') False,
     WOH ''SMSG_PETITION_SHOW_SIGNATURES'' STATUS_NEVER PROCESS_INPLACE WHandle_ServerSide False,
     WOH ''CMSG_PETITION_SIGN'' STATUS_LOGGEDIN PROCESS_THREADSAFE (WorldHandler ''HandlePetitionSignOpcode'') False,
     WOH ''SMSG_PETITION_SIGN_RESULTS'' STATUS_NEVER PROCESS_INPLACE WHandle_ServerSide False,
     WOH ''MSG_PETITION_DECLINE'' STATUS_LOGGEDIN PROCESS_THREADSAFE (WorldHandler ''HandlePetitionDeclineOpcode'') False,
     WOH ''CMSG_OFFER_PETITION'' STATUS_LOGGEDIN PROCESS_THREADSAFE (WorldHandler ''HandleOfferPetitionOpcode'') False,
     WOH ''CMSG_TURN_IN_PETITION'' STATUS_LOGGEDIN PROCESS_THREADUNSAFE (WorldHandler ''HandleTurnInPetitionOpcode'') False,
     WOH ''SMSG_TURN_IN_PETITION_RESULTS'' STATUS_NEVER PROCESS_INPLACE WHandle_ServerSide False,
     WOH ''CMSG_PETITION_QUERY'' STATUS_LOGGEDIN PROCESS_THREADSAFE (WorldHandler ''HandlePetitionQueryOpcode'') False,
     WOH ''SMSG_PETITION_QUERY_RESPONSE'' STATUS_NEVER PROCESS_INPLACE WHandle_ServerSide False,
     WOH ''SMSG_FISH_NOT_HOOKED'' STATUS_NEVER PROCESS_INPLACE WHandle_ServerSide False,
     WOH ''SMSG_FISH_ESCAPED'' STATUS_NEVER PROCESS_INPLACE WHandle_ServerSide False,
     WOH ''CMSG_BUG'' STATUS_LOGGEDIN PROCESS_THREADUNSAFE (WorldHandler ''HandleBugOpcode'') False,
     WOH ''SMSG_NOTIFICATION'' STATUS_NEVER PROCESS_INPLACE WHandle_ServerSide False,
     WOH ''CMSG_PLAYED_TIME'' STATUS_LOGGEDIN PROCESS_THREADUNSAFE (WorldHandler ''HandlePlayedTime'') False,
     WOH ''SMSG_PLAYED_TIME'' STATUS_NEVER PROCESS_INPLACE WHandle_ServerSide False,
     WOH ''CMSG_QUERY_TIME'' STATUS_LOGGEDIN PROCESS_THREADUNSAFE (WorldHandler ''HandleQueryTimeOpcode'') False,
     WOH ''SMSG_QUERY_TIME_RESPONSE'' STATUS_NEVER PROCESS_INPLACE WHandle_ServerSide False,
     WOH ''SMSG_LOG_XPGAIN'' STATUS_NEVER PROCESS_INPLACE WHandle_ServerSide False,
     WOH ''SMSG_AURACASTLOG'' STATUS_NEVER PROCESS_INPLACE WHandle_ServerSide False,
     WOH ''CMSG_RECLAIM_CORPSE'' STATUS_LOGGEDIN PROCESS_THREADSAFE (WorldHandler ''HandleReclaimCorpseOpcode'') False,
     WOH ''CMSG_WRAP_ITEM'' STATUS_LOGGEDIN PROCESS_THREADSAFE (WorldHandler ''HandleWrapItemOpcode'') False,
     WOH ''SMSG_LEVELUP_INFO'' STATUS_NEVER PROCESS_INPLACE WHandle_ServerSide False,
     WOH ''MSG_MINIMAP_PING'' STATUS_LOGGEDIN PROCESS_THREADUNSAFE (WorldHandler ''HandleMinimapPingOpcode'') False,
     WOH ''SMSG_RESISTLOG'' STATUS_NEVER PROCESS_INPLACE WHandle_ServerSide False,
     WOH ''SMSG_ENCHANTMENTLOG'' STATUS_NEVER PROCESS_INPLACE WHandle_ServerSide False,
     WOH ''CMSG_SET_SKILL_CHEAT'' STATUS_NEVER PROCESS_INPLACE WHandle_NULL False,
     WOH ''SMSG_START_MIRROR_TIMER'' STATUS_NEVER PROCESS_INPLACE WHandle_ServerSide False,
     WOH ''SMSG_PAUSE_MIRROR_TIMER'' STATUS_NEVER PROCESS_INPLACE WHandle_ServerSide False,
     WOH ''SMSG_STOP_MIRROR_TIMER'' STATUS_NEVER PROCESS_INPLACE WHandle_ServerSide False,
     WOH ''CMSG_PING'' STATUS_NEVER PROCESS_INPLACE WHandle_EarlyProccess False,
     WOH ''SMSG_PONG'' STATUS_NEVER PROCESS_INPLACE WHandle_ServerSide False,
     WOH ''SMSG_CLEAR_COOLDOWN'' STATUS_NEVER PROCESS_INPLACE WHandle_ServerSide False,
     WOH ''SMSG_GAMEOBJECT_PAGETEXT'' STATUS_NEVER PROCESS_INPLACE WHandle_ServerSide False,
     WOH ''CMSG_SETSHEATHED'' STATUS_LOGGEDIN PROCESS_THREADSAFE (WorldHandler ''HandleSetSheathedOpcode'') False,
     WOH ''SMSG_COOLDOWN_CHEAT'' STATUS_NEVER PROCESS_INPLACE WHandle_ServerSide False,
     WOH ''SMSG_SPELL_DELAYED'' STATUS_NEVER PROCESS_INPLACE WHandle_ServerSide False,
     WOH ''CMSG_QUEST_POI_QUERY'' STATUS_LOGGEDIN PROCESS_THREADSAFE (WorldHandler ''HandleQuestPOIQuery'') False,
     WOH ''SMSG_QUEST_POI_QUERY_RESPONSE'' STATUS_NEVER PROCESS_INPLACE WHandle_ServerSide False,
     WOH ''CMSG_GHOST'' STATUS_NEVER PROCESS_INPLACE WHandle_NULL False,
     WOH ''CMSG_GM_INVIS'' STATUS_NEVER PROCESS_INPLACE WHandle_NULL False,
     WOH ''SMSG_INVALID_PROMOTION_CODE'' STATUS_NEVER PROCESS_INPLACE WHandle_ServerSide False,
     WOH ''MSG_GM_BIND_OTHER'' STATUS_NEVER PROCESS_INPLACE WHandle_NULL False,
     WOH ''MSG_GM_SUMMON'' STATUS_NEVER PROCESS_INPLACE WHandle_NULL False,
     WOH ''SMSG_ITEM_TIME_UPDATE'' STATUS_NEVER PROCESS_INPLACE WHandle_ServerSide False,
     WOH ''SMSG_ITEM_ENCHANT_TIME_UPDATE'' STATUS_NEVER PROCESS_INPLACE WHandle_ServerSide False,
     WOH ''SMSG_AUTH_CHALLENGE'' STATUS_NEVER PROCESS_INPLACE WHandle_ServerSide False,
     WOH ''CMSG_AUTH_SESSION'' STATUS_NEVER PROCESS_THREADUNSAFE WHandle_EarlyProccess False,
     WOH ''SMSG_AUTH_RESPONSE'' STATUS_NEVER PROCESS_INPLACE WHandle_ServerSide False,
     WOH ''MSG_GM_SHOWLABEL'' STATUS_NEVER PROCESS_INPLACE WHandle_NULL False,
     WOH ''CMSG_PET_CAST_SPELL'' STATUS_LOGGEDIN PROCESS_THREADSAFE (WorldHandler ''HandlePetCastSpellOpcode'') False,
     WOH ''MSG_SAVE_GUILD_EMBLEM'' STATUS_LOGGEDIN PROCESS_THREADUNSAFE (WorldHandler ''HandleSaveGuildEmblemOpcode'') False,
     WOH ''MSG_TABARDVENDOR_ACTIVATE'' STATUS_LOGGEDIN PROCESS_THREADSAFE (WorldHandler ''HandleTabardVendorActivateOpcode'') False,
     WOH ''SMSG_PLAY_SPELL_VISUAL'' STATUS_NEVER PROCESS_INPLACE WHandle_ServerSide False,
     WOH ''CMSG_ZONEUPDATE'' STATUS_LOGGEDIN PROCESS_THREADSAFE (WorldHandler ''HandleZoneUpdateOpcode'') False,
     WOH ''SMSG_PARTYKILLLOG'' STATUS_NEVER PROCESS_INPLACE WHandle_ServerSide False,
     WOH ''SMSG_COMPRESSED_UPDATE_OBJECT'' STATUS_NEVER PROCESS_INPLACE WHandle_ServerSide False,
     WOH ''SMSG_PLAY_SPELL_IMPACT'' STATUS_NEVER PROCESS_INPLACE WHandle_ServerSide False,
     WOH ''SMSG_EXPLORATION_EXPERIENCE'' STATUS_NEVER PROCESS_INPLACE WHandle_ServerSide False,
     WOH ''CMSG_GM_SET_SECURITY_GROUP'' STATUS_NEVER PROCESS_INPLACE WHandle_NULL False,
     WOH ''CMSG_GM_NUKE'' STATUS_NEVER PROCESS_INPLACE WHandle_NULL False,
     WOH ''MSG_RANDOM_ROLL'' STATUS_LOGGEDIN PROCESS_THREADSAFE (WorldHandler ''HandleRandomRollOpcode'') False,
     WOH ''SMSG_ENVIRONMENTALDAMAGELOG'' STATUS_NEVER PROCESS_INPLACE WHandle_ServerSide False,
     WOH ''CMSG_CHANGEPLAYER_DIFFICULTY'' STATUS_NEVER PROCESS_INPLACE WHandle_NULL False,
     WOH ''SMSG_RWHOIS'' STATUS_NEVER PROCESS_INPLACE WHandle_ServerSide False,
     WOH ''SMSG_LFG_PLAYER_REWARD'' STATUS_NEVER PROCESS_INPLACE WHandle_ServerSide False,
     WOH ''SMSG_LFG_TELEPORT_DENIED'' STATUS_NEVER PROCESS_INPLACE WHandle_ServerSide False,
     WOH ''CMSG_UNLEARN_SPELL'' STATUS_NEVER PROCESS_INPLACE WHandle_NULL False,
     WOH ''CMSG_UNLEARN_SKILL'' STATUS_LOGGEDIN PROCESS_THREADSAFE (WorldHandler ''HandleUnlearnSkillOpcode'') False,
     WOH ''SMSG_REMOVED_SPELL'' STATUS_NEVER PROCESS_INPLACE WHandle_ServerSide False,
     WOH ''CMSG_DECHARGE'' STATUS_NEVER PROCESS_INPLACE WHandle_NULL False,
     WOH ''CMSG_GMTICKET_CREATE'' STATUS_LOGGEDIN PROCESS_THREADUNSAFE (WorldHandler ''HandleGMTicketCreateOpcode'') False,
     WOH ''SMSG_GMTICKET_CREATE'' STATUS_NEVER PROCESS_INPLACE WHandle_ServerSide False,
     WOH ''CMSG_GMTICKET_UPDATETEXT'' STATUS_LOGGEDIN PROCESS_THREADUNSAFE (WorldHandler ''HandleGMTicketUpdateOpcode'') False,
     WOH ''SMSG_GMTICKET_UPDATETEXT'' STATUS_NEVER PROCESS_INPLACE WHandle_ServerSide False,
     WOH ''SMSG_ACCOUNT_DATA_TIMES'' STATUS_NEVER PROCESS_INPLACE WHandle_ServerSide False,
     WOH ''CMSG_REQUEST_ACCOUNT_DATA'' STATUS_AUTHED PROCESS_THREADUNSAFE (WorldHandler ''HandleRequestAccountData'') False,
     WOH ''CMSG_UPDATE_ACCOUNT_DATA'' STATUS_AUTHED PROCESS_THREADUNSAFE (WorldHandler ''HandleUpdateAccountData'') False,
     WOH ''SMSG_UPDATE_ACCOUNT_DATA'' STATUS_NEVER PROCESS_INPLACE WHandle_ServerSide False,
     WOH ''SMSG_CLEAR_FAR_SIGHT_IMMEDIATE'' STATUS_NEVER PROCESS_INPLACE WHandle_ServerSide False,
     WOH ''SMSG_CHANGEPLAYER_DIFFICULTY_RESULT'' STATUS_NEVER PROCESS_INPLACE WHandle_ServerSide False,
     WOH ''CMSG_GM_TEACH'' STATUS_NEVER PROCESS_INPLACE WHandle_NULL False,
     WOH ''CMSG_GM_CREATE_ITEM_TARGET'' STATUS_NEVER PROCESS_INPLACE WHandle_NULL False,
     WOH ''CMSG_GMTICKET_GETTICKET'' STATUS_LOGGEDIN PROCESS_THREADUNSAFE (WorldHandler ''HandleGMTicketGetTicketOpcode'') False,
     WOH ''SMSG_GMTICKET_GETTICKET'' STATUS_NEVER PROCESS_INPLACE WHandle_ServerSide False,
     WOH ''CMSG_UNLEARN_TALENTS'' STATUS_NEVER PROCESS_INPLACE WHandle_NULL False,
     WOH ''SMSG_UPDATE_INSTANCE_ENCOUNTER_UNIT'' STATUS_NEVER PROCESS_INPLACE WHandle_ServerSide False,
     WOH ''SMSG_GAMEOBJECT_DESPAWN_ANIM'' STATUS_NEVER PROCESS_INPLACE WHandle_ServerSide False,
     WOH ''MSG_CORPSE_QUERY'' STATUS_LOGGEDIN PROCESS_THREADUNSAFE (WorldHandler ''HandleCorpseQueryOpcode'') False,
     WOH ''CMSG_GMTICKET_DELETETICKET'' STATUS_LOGGEDIN PROCESS_THREADUNSAFE (WorldHandler ''HandleGMTicketDeleteOpcode'') False,
     WOH ''SMSG_GMTICKET_DELETETICKET'' STATUS_NEVER PROCESS_INPLACE WHandle_ServerSide False,
     WOH ''SMSG_CHAT_WRONG_FACTION'' STATUS_NEVER PROCESS_INPLACE WHandle_ServerSide False,
     WOH ''CMSG_GMTICKET_SYSTEMSTATUS'' STATUS_LOGGEDIN PROCESS_THREADUNSAFE (WorldHandler ''HandleGMTicketSystemStatusOpcode'') False,
     WOH ''SMSG_GMTICKET_SYSTEMSTATUS'' STATUS_NEVER PROCESS_INPLACE WHandle_ServerSide False,
     WOH ''CMSG_SPIRIT_HEALER_ACTIVATE'' STATUS_LOGGEDIN PROCESS_THREADUNSAFE (WorldHandler ''HandleSpiritHealerActivateOpcode'') False,
     WOH ''CMSG_SET_STAT_CHEAT'' STATUS_NEVER PROCESS_INPLACE WHandle_NULL False,
     WOH ''SMSG_QUEST_FORCE_REMOVE'' STATUS_NEVER PROCESS_INPLACE WHandle_ServerSide False,
     WOH ''CMSG_SKILL_BUY_STEP'' STATUS_NEVER PROCESS_INPLACE WHandle_NULL False,
     WOH ''CMSG_SKILL_BUY_RANK'' STATUS_NEVER PROCESS_INPLACE WHandle_NULL False,
     WOH ''CMSG_XP_CHEAT'' STATUS_NEVER PROCESS_INPLACE WHandle_NULL False,
     WOH ''SMSG_SPIRIT_HEALER_CONFIRM'' STATUS_NEVER PROCESS_INPLACE WHandle_ServerSide False,
     WOH ''CMSG_CHARACTER_POINT_CHEAT'' STATUS_NEVER PROCESS_INPLACE WHandle_NULL False,
     WOH ''SMSG_GOSSIP_POI'' STATUS_NEVER PROCESS_INPLACE WHandle_ServerSide False,
     WOH ''CMSG_CHAT_IGNORED'' STATUS_LOGGEDIN PROCESS_THREADUNSAFE (WorldHandler ''HandleChatIgnoredOpcode'') False,
     WOH ''CMSG_GM_VISION'' STATUS_NEVER PROCESS_INPLACE WHandle_NULL False,
     WOH ''CMSG_SERVER_COMMAND'' STATUS_NEVER PROCESS_INPLACE WHandle_NULL False,
     WOH ''CMSG_GM_SILENCE'' STATUS_NEVER PROCESS_INPLACE WHandle_NULL False,
     WOH ''CMSG_GM_REVEALTO'' STATUS_NEVER PROCESS_INPLACE WHandle_NULL False,
     WOH ''CMSG_GM_RESURRECT'' STATUS_NEVER PROCESS_INPLACE WHandle_NULL False,
     WOH ''CMSG_GM_SUMMONMOB'' STATUS_NEVER PROCESS_INPLACE WHandle_NULL False,
     WOH ''CMSG_GM_MOVECORPSE'' STATUS_NEVER PROCESS_INPLACE WHandle_NULL False,
     WOH ''CMSG_GM_FREEZE'' STATUS_NEVER PROCESS_INPLACE WHandle_NULL False,
     WOH ''CMSG_GM_UBERINVIS'' STATUS_NEVER PROCESS_INPLACE WHandle_NULL False,
     WOH ''CMSG_GM_REQUEST_PLAYER_INFO'' STATUS_NEVER PROCESS_INPLACE WHandle_NULL False,
     WOH ''SMSG_GM_PLAYER_INFO'' STATUS_NEVER PROCESS_INPLACE WHandle_NULL False,
     WOH ''CMSG_GUILD_RANK'' STATUS_LOGGEDIN PROCESS_THREADUNSAFE (WorldHandler ''HandleGuildRankOpcode'') False,
     WOH ''CMSG_GUILD_ADD_RANK'' STATUS_LOGGEDIN PROCESS_THREADUNSAFE (WorldHandler ''HandleGuildAddRankOpcode'') False,
     WOH ''CMSG_GUILD_DEL_RANK'' STATUS_LOGGEDIN PROCESS_THREADUNSAFE (WorldHandler ''HandleGuildDelRankOpcode'') False,
     WOH ''CMSG_GUILD_SET_PUBLIC_NOTE'' STATUS_LOGGEDIN PROCESS_THREADUNSAFE (WorldHandler ''HandleGuildSetPublicNoteOpcode'') False,
     WOH ''CMSG_GUILD_SET_OFFICER_NOTE'' STATUS_LOGGEDIN PROCESS_THREADUNSAFE (WorldHandler ''HandleGuildSetOfficerNoteOpcode'') False,
     WOH ''SMSG_LOGIN_VERIFY_WORLD'' STATUS_NEVER PROCESS_INPLACE WHandle_ServerSide False,
     WOH ''CMSG_CLEAR_EXPLORATION'' STATUS_NEVER PROCESS_INPLACE WHandle_NULL False,
     WOH ''CMSG_SEND_MAIL'' STATUS_LOGGEDIN PROCESS_THREADUNSAFE (WorldHandler ''HandleSendMail'') False,
     WOH ''SMSG_SEND_MAIL_RESULT'' STATUS_NEVER PROCESS_INPLACE WHandle_ServerSide False,
     WOH ''CMSG_GET_MAIL_LIST'' STATUS_LOGGEDIN PROCESS_THREADUNSAFE (WorldHandler ''HandleGetMailList'') False,
     WOH ''SMSG_MAIL_LIST_RESULT'' STATUS_NEVER PROCESS_INPLACE WHandle_ServerSide False,
     WOH ''CMSG_BATTLEFIELD_LIST'' STATUS_LOGGEDIN PROCESS_THREADUNSAFE (WorldHandler ''HandleBattlefieldListOpcode'') False,
     WOH ''SMSG_BATTLEFIELD_LIST'' STATUS_NEVER PROCESS_INPLACE WHandle_ServerSide False,
     WOH ''CMSG_BATTLEFIELD_JOIN'' STATUS_NEVER PROCESS_INPLACE WHandle_NULL False,
     WOH ''SMSG_FORCE_SET_VEHICLE_REC_ID'' STATUS_NEVER PROCESS_INPLACE WHandle_ServerSide False,
     WOH ''CMSG_SET_VEHICLE_REC_ID_ACK'' STATUS_NEVER PROCESS_INPLACE WHandle_NULL False,
     WOH ''CMSG_TAXICLEARNODE'' STATUS_NEVER PROCESS_INPLACE WHandle_NULL False,
     WOH ''CMSG_TAXIENABLENODE'' STATUS_NEVER PROCESS_INPLACE WHandle_NULL False,
     WOH ''CMSG_ITEM_TEXT_QUERY'' STATUS_LOGGEDIN PROCESS_THREADSAFE (WorldHandler ''HandleItemTextQuery'') False,
     WOH ''SMSG_ITEM_TEXT_QUERY_RESPONSE'' STATUS_NEVER PROCESS_INPLACE WHandle_ServerSide False,
     WOH ''CMSG_MAIL_TAKE_MONEY'' STATUS_LOGGEDIN PROCESS_THREADUNSAFE (WorldHandler ''HandleMailTakeMoney'') False,
     WOH ''CMSG_MAIL_TAKE_ITEM'' STATUS_LOGGEDIN PROCESS_THREADUNSAFE (WorldHandler ''HandleMailTakeItem'') False,
     WOH ''CMSG_MAIL_MARK_AS_READ'' STATUS_LOGGEDIN PROCESS_THREADUNSAFE (WorldHandler ''HandleMailMarkAsRead'') False,
     WOH ''CMSG_MAIL_RETURN_TO_SENDER'' STATUS_LOGGEDIN PROCESS_THREADUNSAFE (WorldHandler ''HandleMailReturnToSender'') False,
     WOH ''CMSG_MAIL_DELETE'' STATUS_LOGGEDIN PROCESS_THREADUNSAFE (WorldHandler ''HandleMailDelete'') False,
     WOH ''CMSG_MAIL_CREATE_TEXT_ITEM'' STATUS_LOGGEDIN PROCESS_THREADUNSAFE (WorldHandler ''HandleMailCreateTextItem'') False,
     WOH ''SMSG_SPELLLOGMISS'' STATUS_NEVER PROCESS_INPLACE WHandle_ServerSide False]"

definition node_rows_4 :: "WorldOpcodeHandler list" where
  "node_rows_4 = [
     WOH ''SMSG_SPELLLOGEXECUTE'' STATUS_NEVER PROCESS_INPLACE WHandle_ServerSide False,
     WOH ''SMSG_DEBUGAURAPROC'' STATUS_NEVER PROCESS_INPLACE WHandle_ServerSide False,
     WOH ''SMSG_PERIODICAURALOG'' STATUS_NEVER PROCESS_INPLACE WHandle_ServerSide False,
     WOH ''SMSG_SPELLDAMAGESHIELD'' STATUS_NEVER PROCESS_INPLACE WHandle_ServerSide False,
     WOH ''SMSG_SPELLNONMELEEDAMAGELOG'' STATUS_NEVER PROCESS_INPLACE WHandle_ServerSide False,
     WOH ''CMSG_LEARN_TALENT'' STATUS_LOGGEDIN PROCESS_THREADSAFE (WorldHandler ''HandleLearnTalentOpcode'') False,
     WOH ''SMSG_RESURRECT_FAILED'' STATUS_NEVER PROCESS_INPLACE WHandle_ServerSide False,
     WOH ''CMSG_TOGGLE_PVP'' STATUS_LOGGEDIN PROCESS_THREADUNSAFE (WorldHandler ''HandleTogglePvP'') False,
     WOH ''SMSG_ZONE_UNDER_ATTACK'' STATUS_NEVER PROCESS_INPLACE WHandle_ServerSide False,
     WOH ''MSG_AUCTION_HELLO'' STATUS_LOGGEDIN PROCESS_THREADUNSAFE (WorldHandler ''HandleAuctionHelloOpcode'') False,
     WOH ''CMSG_AUCTION_SELL_ITEM'' STATUS_LOGGEDIN PROCESS_THREADUNSAFE (WorldHandler ''HandleAuctionSellItem'') False,
     WOH ''CMSG_AUCTION_REMOVE_ITEM'' STATUS_LOGGEDIN PROCESS_THREADUNSAFE (WorldHandler ''HandleAuctionRemoveItem'') False,
     WOH ''CMSG_AUCTION_LIST_ITEMS'' STATUS_LOGGEDIN PROCESS_THREADSAFE (WorldHandler ''HandleAuctionListItems'') False,
     WOH ''CMSG_AUCTION_LIST_OWNER_ITEMS'' STATUS_LOGGEDIN PROCESS_THREADSAFE (WorldHandler ''HandleAuctionListOwnerItems'') False,
     WOH ''CMSG_AUCTION_PLACE_BID'' STATUS_LOGGEDIN PROCESS_THREADUNSAFE (WorldHandler ''HandleAuctionPlaceBid'') False,
     WOH ''SMSG_AUCTION_COMMAND_RESULT'' STATUS_NEVER PROCESS_INPLACE WHandle_ServerSide False,
     WOH ''SMSG_AUCTION_LIST_RESULT'' STATUS_NEVER PROCESS_INPLACE WHandle_ServerSide False,
     WOH ''SMSG_AUCTION_OWNER_LIST_RESULT'' STATUS_NEVER PROCESS_INPLACE WHandle_ServerSide False,
     WOH ''SMSG_AUCTION_BIDDER_NOTIFICATION'' STATUS_NEVER PROCESS_INPLACE WHandle_ServerSide False,
     WOH ''SMSG_AUCTION_OWNER_NOTIFICATION'' STATUS_NEVER PROCESS_INPLACE WHandle_ServerSide False,
     WOH ''SMSG_PROCRESIST'' STATUS_NEVER PROCESS_INPLACE WHandle_ServerSide False,
     WOH ''SMSG_COMBAT_EVENT_FAILED'' STATUS_NEVER PROCESS_INPLACE WHandle_ServerSide False,
     WOH ''SMSG_DISPEL_FAILED'' STATUS_NEVER PROCESS_INPLACE WHandle_ServerSide False,
     WOH ''SMSG_SPELLORDAMAGE_IMMUNE'' STATUS_NEVER PROCESS_INPLACE WHandle_ServerSide False,
     WOH ''CMSG_AUCTION_LIST_BIDDER_ITEMS'' STATUS_LOGGEDIN PROCESS_THREADSAFE (WorldHandler ''HandleAuctionListBidderItems'') False,
     WOH ''SMSG_AUCTION_BIDDER_LIST_RESULT'' STATUS_NEVER PROCESS_INPLACE WHandle_ServerSide False,
     WOH ''SMSG_SET_FLAT_SPELL_MODIFIER'' STATUS_NEVER PROCESS_INPLACE WHandle_ServerSide False,
     WOH ''SMSG_SET_PCT_SPELL_MODIFIER'' STATUS_NEVER PROCESS_INPLACE WHandle_ServerSide False,
     WOH ''CMSG_SET_AMMO'' STATUS_LOGGEDIN PROCESS_THREADSAFE (WorldHandler ''HandleSetAmmoOpcode'') False,
     WOH ''SMSG_CORPSE_RECLAIM_DELAY'' STATUS_NEVER PROCESS_INPLACE WHandle_ServerSide False,
     WOH ''CMSG_SET_ACTIVE_MOVER'' STATUS_LOGGEDIN PROCESS_THREADUNSAFE (WorldHandler ''HandleSetActiveMoverOpcode'') False,
     WOH ''CMSG_PET_CANCEL_AURA'' STATUS_LOGGEDIN PROCESS_THREADSAFE (WorldHandler ''HandlePetCancelAuraOpcode'') False,
     WOH ''CMSG_PLAYER_AI_CHEAT'' STATUS_NEVER PROCESS_INPLACE WHandle_NULL False,
     WOH ''CMSG_CANCEL_AUTO_REPEAT_SPELL'' STATUS_LOGGEDIN PROCESS_THREADSAFE (WorldHandler ''HandleCancelAutoRepeatSpellOpcode'') False,
     WOH ''MSG_GM_ACCOUNT_ONLINE'' STATUS_NEVER PROCESS_INPLACE WHandle_NULL False,
     WOH ''MSG_LIST_STABLED_PETS'' STATUS_LOGGEDIN PROCESS_THREADUNSAFE (WorldHandler ''HandleListStabledPetsOpcode'') False,
     WOH ''CMSG_STABLE_PET'' STATUS_LOGGEDIN PROCESS_THREADUNSAFE (WorldHandler ''HandleStablePet'') False,
     WOH ''CMSG_UNSTABLE_PET'' STATUS_LOGGEDIN PROCESS_THREADUNSAFE (WorldHandler ''HandleUnstablePet'') False,
     WOH ''CMSG_BUY_STABLE_SLOT'' STATUS_LOGGEDIN PROCESS_THREADUNSAFE (WorldHandler ''HandleBuyStableSlot'') False,
     WOH ''SMSG_STABLE_RESULT'' STATUS_NEVER PROCESS_INPLACE WHandle_ServerSide False,
     WOH ''CMSG_STABLE_REVIVE_PET'' STATUS_LOGGEDIN PROCESS_THREADUNSAFE (WorldHandler ''HandleStableRevivePet'') False,
     WOH ''CMSG_STABLE_SWAP_PET'' STATUS_LOGGEDIN PROCESS_THREADUNSAFE (WorldHandler ''HandleStableSwapPet'') False,
     WOH ''MSG_QUEST_PUSH_RESULT'' STATUS_LOGGEDIN PROCESS_THREADUNSAFE (WorldHandler ''HandleQuestPushResult'') False,
     WOH ''SMSG_PLAY_MUSIC'' STATUS_NEVER PROCESS_INPLACE WHandle_ServerSide False,
     WOH ''SMSG_PLAY_OBJECT_SOUND'' STATUS_NEVER PROCESS_INPLACE WHandle_ServerSide False,
     WOH ''CMSG_REQUEST_PET_INFO'' STATUS_LOGGEDIN PROCESS_THREADUNSAFE (WorldHandler ''HandleRequestPetInfoOpcode'') False,
     WOH ''CMSG_FAR_SIGHT'' STATUS_LOGGEDIN PROCESS_THREADSAFE (WorldHandler ''HandleFarSightOpcode'') False,
     WOH ''SMSG_SPELLDISPELLOG'' STATUS_NEVER PROCESS_INPLACE WHandle_ServerSide False,
     WOH ''SMSG_DAMAGE_CALC_LOG'' STATUS_NEVER PROCESS_INPLACE WHandle_ServerSide False,
     WOH ''CMSG_ENABLE_DAMAGE_LOG'' STATUS_NEVER PROCESS_INPLACE WHandle_NULL False,
     WOH ''CMSG_GROUP_CHANGE_SUB_GROUP'' STATUS_LOGGEDIN PROCESS_THREADUNSAFE (WorldHandler ''HandleGroupChangeSubGroupOpcode'') False,
     WOH ''CMSG_REQUEST_PARTY_MEMBER_STATS'' STATUS_LOGGEDIN PROCESS_THREADUNSAFE (WorldHandler ''HandleRequestPartyMemberStatsOpcode'') False,
     WOH ''CMSG_GROUP_SWAP_SUB_GROUP'' STATUS_LOGGEDIN PROCESS_THREADUNSAFE (WorldHandler ''HandleGroupSwapSubGroupOpcode'') False,
     WOH ''CMSG_RESET_FACTION_CHEAT'' STATUS_NEVER PROCESS_INPLACE WHandle_NULL False,
     WOH ''CMSG_AUTOSTORE_BANK_ITEM'' STATUS_LOGGEDIN PROCESS_THREADSAFE (WorldHandler ''HandleAutoStoreBankItemOpcode'') False,
     WOH ''CMSG_AUTOBANK_ITEM'' STATUS_LOGGEDIN PROCESS_THREADSAFE (WorldHandler ''HandleAutoBankItemOpcode'') False,
     WOH ''MSG_QUERY_NEXT_MAIL_TIME'' STATUS_LOGGEDIN PROCESS_THREADUNSAFE (WorldHandler ''HandleQueryNextMailTime'') False,
     WOH ''SMSG_RECEIVED_MAIL'' STATUS_NEVER PROCESS_INPLACE WHandle_ServerSide False,
     WOH ''SMSG_RAID_GROUP_ONLY'' STATUS_NEVER PROCESS_INPLACE WHandle_ServerSide False,
     WOH ''CMSG_SET_DURABILITY_CHEAT'' STATUS_NEVER PROCESS_INPLACE WHandle_NULL False,
     WOH ''CMSG_SET_PVP_RANK_CHEAT'' STATUS_NEVER PROCESS_INPLACE WHandle_NULL False,
     WOH ''CMSG_ADD_PVP_MEDAL_CHEAT'' STATUS_NEVER PROCESS_INPLACE WHandle_NULL False,
     WOH ''CMSG_DEL_PVP_MEDAL_CHEAT'' STATUS_NEVER PROCESS_INPLACE WHandle_NULL False,
     WOH ''CMSG_SET_PVP_TITLE'' STATUS_NEVER PROCESS_INPLACE WHandle_NULL False,
     WOH ''SMSG_PVP_CREDIT'' STATUS_NEVER PROCESS_INPLACE WHandle_ServerSide False,
     WOH ''SMSG_AUCTION_REMOVED_NOTIFICATION'' STATUS_NEVER PROCESS_INPLACE WHandle_ServerSide False,
     WOH ''CMSG_GROUP_RAID_CONVERT'' STATUS_LOGGEDIN PROCESS_THREADUNSAFE (WorldHandler ''HandleGroupRaidConvertOpcode'') False,
     WOH ''CMSG_GROUP_ASSISTANT_LEADER'' STATUS_LOGGEDIN PROCESS_THREADUNSAFE (WorldHandler ''HandleGroupAssistantLeaderOpcode'') False,
     WOH ''CMSG_BUYBACK_ITEM'' STATUS_LOGGEDIN PROCESS_THREADSAFE (WorldHandler ''HandleBuybackItem'') False,
     WOH ''SMSG_SERVER_MESSAGE'' STATUS_NEVER PROCESS_INPLACE WHandle_ServerSide False,
     WOH ''CMSG_SET_SAVED_INSTANCE_EXTEND'' STATUS_LOGGEDIN PROCESS_THREADUNSAFE (WorldHandler ''HandleSetSavedInstanceExtend'') False,
     WOH ''SMSG_LFG_OFFER_CONTINUE'' STATUS_NEVER PROCESS_INPLACE WHandle_ServerSide False,
     WOH ''CMSG_TEST_DROP_RATE'' STATUS_NEVER PROCESS_INPLACE WHandle_NULL False,
     WOH ''SMSG_TEST_DROP_RATE_RESULT'' STATUS_NEVER PROCESS_INPLACE WHandle_ServerSide False,
     WOH ''CMSG_LFG_GET_STATUS'' STATUS_LOGGEDIN PROCESS_THREADUNSAFE (WorldHandler ''HandleLfgGetStatus'') False,
     WOH ''SMSG_SHOW_MAILBOX'' STATUS_NEVER PROCESS_INPLACE WHandle_ServerSide False,
     WOH ''SMSG_RESET_RANGED_COMBAT_TIMER'' STATUS_NEVER PROCESS_INPLACE WHandle_ServerSide False,
     WOH ''SMSG_MEETINGSTONE_MEMBER_ADDED'' STATUS_NEVER PROCESS_INPLACE WHandle_ServerSide False,
     WOH ''SMSG_CHAT_NOT_IN_PARTY'' STATUS_NEVER PROCESS_INPLACE WHandle_ServerSide False,
     WOH ''CMSG_CANCEL_GROWTH_AURA'' STATUS_LOGGEDIN PROCESS_THREADUNSAFE (WorldHandler ''HandleCancelGrowthAuraOpcode'') False,
     WOH ''SMSG_CANCEL_AUTO_REPEAT'' STATUS_NEVER PROCESS_INPLACE WHandle_ServerSide False,
     WOH ''SMSG_STANDSTATE_UPDATE'' STATUS_NEVER PROCESS_INPLACE WHandle_ServerSide False,
     WOH ''SMSG_LOOT_ALL_PASSED'' STATUS_NEVER PROCESS_INPLACE WHandle_ServerSide False,
     WOH ''SMSG_LOOT_ROLL_WON'' STATUS_NEVER PROCESS_INPLACE WHandle_ServerSide False,
     WOH ''CMSG_LOOT_ROLL'' STATUS_LOGGEDIN PROCESS_THREADUNSAFE (WorldHandler ''HandleLootRoll'') False,
     WOH ''SMSG_LOOT_START_ROLL'' STATUS_NEVER PROCESS_INPLACE WHandle_ServerSide False,
     WOH ''SMSG_LOOT_ROLL'' STATUS_NEVER PROCESS_INPLACE WHandle_ServerSide False,
     WOH ''CMSG_LOOT_MASTER_GIVE'' STATUS_LOGGEDIN PROCESS_THREADSAFE (WorldHandler ''HandleLootMasterGiveOpcode'') False,
     WOH ''SMSG_LOOT_MASTER_LIST'' STATUS_NEVER PROCESS_INPLACE WHandle_ServerSide False,
     WOH ''SMSG_SET_FORCED_REACTIONS'' STATUS_NEVER PROCESS_INPLACE WHandle_ServerSide False,
     WOH ''SMSG_SPELL_FAILED_OTHER'' STATUS_NEVER PROCESS_INPLACE WHandle_ServerSide False,
     WOH ''SMSG_GAMEOBJECT_RESET_STATE'' STATUS_NEVER PROCESS_INPLACE WHandle_ServerSide False,
     WOH ''CMSG_REPAIR_ITEM'' STATUS_LOGGEDIN PROCESS_THREADSAFE (WorldHandler ''HandleRepairItemOpcode'') False,
     WOH ''SMSG_CHAT_PLAYER_NOT_FOUND'' STATUS_NEVER PROCESS_INPLACE WHandle_ServerSide False,
     WOH ''MSG_TALENT_WIPE_CONFIRM'' STATUS_LOGGEDIN PROCESS_THREADSAFE (WorldHandler ''HandleTalentWipeConfirmOpcode'') False,
     WOH ''SMSG_SUMMON_REQUEST'' STATUS_NEVER PROCESS_INPLACE WHandle_ServerSide False,
     WOH ''CMSG_SUMMON_RESPONSE'' STATUS_LOGGEDIN PROCESS_THREADUNSAFE (WorldHandler ''HandleSummonResponseOpcode'') False,
     WOH ''MSG_DEV_SHOWLABEL'' STATUS_NEVER PROCESS_INPLACE WHandle_NULL False,
     WOH ''SMSG_MONSTER_MOVE_TRANSPORT'' STATUS_NEVER PROCESS_INPLACE WHandle_ServerSide False,
     WOH ''SMSG_PET_BROKEN'' STATUS_NEVER PROCESS_INPLACE WHandle_ServerSide False,
     WOH ''MSG_MOVE_FEATHER_FALL'' STATUS_NEVER PROCESS_INPLACE WHandle_NULL False,
     WOH ''MSG_MOVE_WATER_WALK'' STATUS_NEVER PROCESS_INPLACE WHandle_NULL False,
     WOH ''CMSG_SERVER_BROADCAST'' STATUS_NEVER PROCESS_INPLACE WHandle_NULL False,
     WOH ''CMSG_SELF_RES'' STATUS_LOGGEDIN PROCESS_THREADSAFE (WorldHandler ''HandleSelfResOpcode'') False,
     WOH ''SMSG_FEIGN_DEATH_RESISTED'' STATUS_NEVER PROCESS_INPLACE WHandle_ServerSide False,
     WOH ''CMSG_RUN_SCRIPT'' STATUS_NEVER PROCESS_INPLACE WHandle_NULL False,
     WOH ''SMSG_SCRIPT_MESSAGE'' STATUS_NEVER PROCESS_INPLACE WHandle_ServerSide False,
     WOH ''SMSG_DUEL_COUNTDOWN'' STATUS_NEVER PROCESS_INPLACE WHandle_ServerSide False,
     WOH ''SMSG_AREA_TRIGGER_MESSAGE'' STATUS_NEVER PROCESS_INPLACE WHandle_ServerSide False,
     WOH ''CMSG_SHOWING_HELM'' STATUS_LOGGEDIN PROCESS_THREADUNSAFE (WorldHandler ''HandleShowingHelmOpcode'') False,
     WOH ''CMSG_SHOWING_CLOAK'' STATUS_LOGGEDIN PROCESS_THREADUNSAFE (WorldHandler ''HandleShowingCloakOpcode'') False,
     WOH ''SMSG_LFG_ROLE_CHOSEN'' STATUS_NEVER PROCESS_INPLACE WHandle_ServerSide False,
     WOH ''SMSG_PLAYER_SKINNED'' STATUS_NEVER PROCESS_INPLACE WHandle_ServerSide False,
     WOH ''SMSG_DURABILITY_DAMAGE_DEATH'' STATUS_NEVER PROCESS_INPLACE WHandle_ServerSide False,
     WOH ''CMSG_SET_EXPLORATION'' STATUS_NEVER PROCESS_INPLACE WHandle_NULL False,
     WOH ''CMSG_SET_ACTIONBAR_TOGGLES'' STATUS_AUTHED PROCESS_THREADUNSAFE (WorldHandler ''HandleSetActionBarToggles'') False,
     WOH ''UMSG_DELETE_GUILD_CHARTER'' STATUS_NEVER PROCESS_INPLACE WHandle_NULL False,
     WOH ''MSG_PETITION_RENAME'' STATUS_LOGGEDIN PROCESS_THREADSAFE (WorldHandler ''HandlePetitionRenameOpcode'') False,
     WOH ''SMSG_INIT_WORLD_STATES'' STATUS_NEVER PROCESS_INPLACE WHandle_ServerSide False,
     WOH ''SMSG_UPDATE_WORLD_STATE'' STATUS_NEVER PROCESS_INPLACE WHandle_ServerSide False,
     WOH ''CMSG_ITEM_NAME_QUERY'' STATUS_LOGGEDIN PROCESS_THREADSAFE (WorldHandler ''HandleItemNameQueryOpcode'') False,
     WOH ''SMSG_ITEM_NAME_QUERY_RESPONSE'' STATUS_NEVER PROCESS_INPLACE WHandle_ServerSide False,
     WOH ''SMSG_PET_ACTION_FEEDBACK'' STATUS_NEVER PROCESS_INPLACE WHandle_ServerSide False,
     WOH ''CMSG_CHAR_RENAME'' STATUS_AUTHED PROCESS_THREADUNSAFE (WorldHandler ''HandleCharRenameOpcode'') False,
     WOH ''SMSG_CHAR_RENAME'' STATUS_NEVER PROCESS_INPLACE WHandle_ServerSide False,
     WOH ''CMSG_MOVE_SPLINE_DONE'' STATUS_LOGGEDIN PROCESS_THREADSAFE (WorldHandler ''HandleMoveSplineDoneOpcode'') False,
     WOH ''CMSG_MOVE_FALL_RESET'' STATUS_LOGGEDIN PROCESS_THREADSAFE (WorldHandler ''HandleMovementOpcodes'') False,
     WOH ''SMSG_INSTANCE_SAVE_CREATED'' STATUS_NEVER PROCESS_INPLACE WHandle_ServerSide False,
     WOH ''SMSG_RAID_INSTANCE_INFO'' STATUS_NEVER PROCESS_INPLACE WHandle_ServerSide False,
     WOH ''CMSG_REQUEST_RAID_INFO'' STATUS_LOGGEDIN PROCESS_THREADUNSAFE (WorldHandler ''HandleRequestRaidInfoOpcode'') False,
     WOH ''CMSG_MOVE_TIME_SKIPPED'' STATUS_LOGGEDIN PROCESS_THREADSAFE (WorldHandler ''HandleMoveTimeSkippedOpcode'') False,
     WOH ''CMSG_MOVE_FEATHER_FALL_ACK'' STATUS_LOGGEDIN PROCESS_THREADSAFE (WorldHandler ''HandleFeatherFallAck'') False,
     WOH ''CMSG_MOVE_WATER_WALK_ACK'' STATUS_LOGGEDIN PROCESS_THREADSAFE (WorldHandler ''HandleMoveWaterWalkAck'') False,
     WOH ''CMSG_MOVE_NOT_ACTIVE_MOVER'' STATUS_LOGGEDIN PROCESS_THREADSAFE (WorldHandler ''HandleMoveNotActiveMover'') False,
     WOH ''SMSG_PLAY_SOUND'' STATUS_NEVER PROCESS_INPLACE WHandle_ServerSide False,
     WOH ''CMSG_BATTLEFIELD_STATUS'' STATUS_LOGGEDIN PROCESS_THREADUNSAFE (WorldHandler ''HandleBattlefieldStatusOpcode'') False,
     WOH ''SMSG_BATTLEFIELD_STATUS'' STATUS_NEVER PROCESS_INPLACE WHandle_ServerSide False,
     WOH ''CMSG_BATTLEFIELD_PORT'' STATUS_LOGGEDIN PROCESS_THREADUNSAFE (WorldHandler ''HandleBattleFieldPortOpcode'') False,
     WOH ''MSG_INSPECT_HONOR_STATS'' STATUS_LOGGEDIN PROCESS_THREADSAFE (WorldHandler ''HandleInspectHonorStatsOpcode'') False,
     WOH ''CMSG_BATTLEMASTER_HELLO'' STATUS_LOGGEDIN PROCESS_THREADUNSAFE (WorldHandler ''HandleBattlemasterHelloOpcode'') False,
     WOH ''CMSG_MOVE_START_SWIM_CHEAT'' STATUS_NEVER PROCESS_INPLACE WHandle_NULL False,
     WOH ''CMSG_MOVE_STOP_SWIM_CHEAT'' STATUS_NEVER PROCESS_INPLACE WHandle_NULL False,
     WOH ''SMSG_FORCE_WALK_SPEED_CHANGE'' STATUS_NEVER PROCESS_INPLACE WHandle_ServerSide False,
     WOH ''CMSG_FORCE_WALK_SPEED_CHANGE_ACK'' STATUS_LOGGEDIN PROCESS_THREADSAFE (WorldHandler ''HandleForceSpeedChangeAck'') False,
     WOH ''SMSG_FORCE_SWIM_BACK_SPEED_CHANGE'' STATUS_NEVER PROCESS_INPLACE WHandle_ServerSide False,
     WOH ''CMSG_FORCE_SWIM_BACK_SPEED_CHANGE_ACK'' STATUS_LOGGEDIN PROCESS_THREADSAFE (WorldHandler ''HandleForceSpeedChangeAck'') False,
     WOH ''SMSG_FORCE_TURN_RATE_CHANGE'' STATUS_NEVER PROCESS_INPLACE WHandle_ServerSide False]"

definition node_rows_5 :: "WorldOpcodeHandler list" where
  "node_rows_5 = [
     WOH ''CMSG_FORCE_TURN_RATE_CHANGE_ACK'' STATUS_LOGGEDIN PROCESS_THREADSAFE (WorldHandler ''HandleForceSpeedChangeAck'') False,
     WOH ''MSG_PVP_LOG_DATA'' STATUS_LOGGEDIN PROCESS_THREADUNSAFE (WorldHandler ''HandlePVPLogDataOpcode'') False,
     WOH ''CMSG_LEAVE_BATTLEFIELD'' STATUS_LOGGEDIN PROCESS_THREADUNSAFE (WorldHandler ''HandleBattlefieldLeaveOpcode'') False,
     WOH ''CMSG_AREA_SPIRIT_HEALER_QUERY'' STATUS_LOGGEDIN PROCESS_THREADUNSAFE (WorldHandler ''HandleAreaSpiritHealerQueryOpcode'') False,
     WOH ''CMSG_AREA_SPIRIT_HEALER_QUEUE'' STATUS_LOGGEDIN PROCESS_THREADUNSAFE (WorldHandler ''HandleAreaSpiritHealerQueueOpcode'') False,
     WOH ''SMSG_AREA_SPIRIT_HEALER_TIME'' STATUS_NEVER PROCESS_INPLACE WHandle_ServerSide False,
     WOH ''CMSG_GM_UNTEACH'' STATUS_NEVER PROCESS_INPLACE WHandle_NULL False,
     WOH ''SMSG_WARDEN_DATA'' STATUS_NEVER PROCESS_INPLACE WHandle_ServerSide False,
     WOH ''CMSG_WARDEN_DATA'' STATUS_NEVER PROCESS_INPLACE WHandle_NULL False,
     WOH ''SMSG_GROUP_JOINED_BATTLEGROUND'' STATUS_NEVER PROCESS_INPLACE WHandle_ServerSide False,
     WOH ''MSG_BATTLEGROUND_PLAYER_POSITIONS'' STATUS_LOGGEDIN PROCESS_THREADUNSAFE (WorldHandler ''HandleBattlegroundPlayerPositionsOpcode'') False,
     WOH ''CMSG_PET_STOP_ATTACK'' STATUS_LOGGEDIN PROCESS_THREADSAFE (WorldHandler ''HandlePetStopAttack'') False,
     WOH ''SMSG_BINDER_CONFIRM'' STATUS_NEVER PROCESS_INPLACE WHandle_ServerSide False,
     WOH ''SMSG_BATTLEGROUND_PLAYER_JOINED'' STATUS_NEVER PROCESS_INPLACE WHandle_ServerSide False,
     WOH ''SMSG_BATTLEGROUND_PLAYER_LEFT'' STATUS_NEVER PROCESS_INPLACE WHandle_ServerSide False,
     WOH ''CMSG_BATTLEMASTER_JOIN'' STATUS_LOGGEDIN PROCESS_THREADUNSAFE (WorldHandler ''HandleBattlemasterJoinOpcode'') False,
     WOH ''SMSG_ADDON_INFO'' STATUS_NEVER PROCESS_INPLACE WHandle_ServerSide False,
     WOH ''CMSG_PET_UNLEARN'' STATUS_NEVER PROCESS_INPLACE WHandle_NULL False,
     WOH ''SMSG_PET_UNLEARN_CONFIRM'' STATUS_NEVER PROCESS_INPLACE WHandle_ServerSide False,
     WOH ''SMSG_PARTY_MEMBER_STATS_FULL'' STATUS_NEVER PROCESS_INPLACE WHandle_ServerSide False,
     WOH ''CMSG_PET_SPELL_AUTOCAST'' STATUS_LOGGEDIN PROCESS_THREADSAFE (WorldHandler ''HandlePetSpellAutocastOpcode'') False,
     WOH ''SMSG_WEATHER'' STATUS_NEVER PROCESS_INPLACE WHandle_ServerSide False,
     WOH ''SMSG_PLAY_TIME_WARNING'' STATUS_NEVER PROCESS_INPLACE WHandle_ServerSide False,
     WOH ''SMSG_MINIGAME_SETUP'' STATUS_NEVER PROCESS_INPLACE WHandle_ServerSide False,
     WOH ''SMSG_MINIGAME_STATE'' STATUS_NEVER PROCESS_INPLACE WHandle_ServerSide False,
     WOH ''CMSG_MINIGAME_MOVE'' STATUS_NEVER PROCESS_INPLACE WHandle_NULL False,
     WOH ''SMSG_MINIGAME_MOVE_FAILED'' STATUS_NEVER PROCESS_INPLACE WHandle_ServerSide False,
     WOH ''SMSG_RAID_INSTANCE_MESSAGE'' STATUS_NEVER PROCESS_INPLACE WHandle_ServerSide False,
     WOH ''SMSG_COMPRESSED_MOVES'' STATUS_NEVER PROCESS_INPLACE WHandle_ServerSide False,
     WOH ''CMSG_GUILD_INFO_TEXT'' STATUS_LOGGEDIN PROCESS_THREADUNSAFE (WorldHandler ''HandleGuildChangeInfoTextOpcode'') False,
     WOH ''SMSG_CHAT_RESTRICTED'' STATUS_NEVER PROCESS_INPLACE WHandle_ServerSide False,
     WOH ''SMSG_SPLINE_SET_RUN_SPEED'' STATUS_NEVER PROCESS_INPLACE WHandle_ServerSide False,
     WOH ''SMSG_SPLINE_SET_RUN_BACK_SPEED'' STATUS_NEVER PROCESS_INPLACE WHandle_ServerSide False,
     WOH ''SMSG_SPLINE_SET_SWIM_SPEED'' STATUS_NEVER PROCESS_INPLACE WHandle_ServerSide False,
     WOH ''SMSG_SPLINE_SET_WALK_SPEED'' STATUS_NEVER PROCESS_INPLACE WHandle_ServerSide False,
     WOH ''SMSG_SPLINE_SET_SWIM_BACK_SPEED'' STATUS_NEVER PROCESS_INPLACE WHandle_ServerSide False,
     WOH ''SMSG_SPLINE_SET_TURN_RATE'' STATUS_NEVER PROCESS_INPLACE WHandle_ServerSide False,
     WOH ''SMSG_SPLINE_MOVE_UNROOT'' STATUS_NEVER PROCESS_INPLACE WHandle_ServerSide False,
     WOH ''SMSG_SPLINE_MOVE_FEATHER_FALL'' STATUS_NEVER PROCESS_INPLACE WHandle_ServerSide False,
     WOH ''SMSG_SPLINE_MOVE_NORMAL_FALL'' STATUS_NEVER PROCESS_INPLACE WHandle_ServerSide False,
     WOH ''SMSG_SPLINE_MOVE_SET_HOVER'' STATUS_NEVER PROCESS_INPLACE WHandle_ServerSide False,
     WOH ''SMSG_SPLINE_MOVE_UNSET_HOVER'' STATUS_NEVER PROCESS_INPLACE WHandle_ServerSide False,
     WOH ''SMSG_SPLINE_MOVE_WATER_WALK'' STATUS_NEVER PROCESS_INPLACE WHandle_ServerSide False,
     WOH ''SMSG_SPLINE_MOVE_LAND_WALK'' STATUS_NEVER PROCESS_INPLACE WHandle_ServerSide False,
     WOH ''SMSG_SPLINE_MOVE_START_SWIM'' STATUS_NEVER PROCESS_INPLACE WHandle_ServerSide False,
     WOH ''SMSG_SPLINE_MOVE_STOP_SWIM'' STATUS_NEVER PROCESS_INPLACE WHandle_ServerSide False,
     WOH ''SMSG_SPLINE_MOVE_SET_RUN_MODE'' STATUS_NEVER PROCESS_INPLACE WHandle_ServerSide False,
     WOH ''SMSG_SPLINE_MOVE_SET_WALK_MODE'' STATUS_NEVER PROCESS_INPLACE WHandle_ServerSide False,
     WOH ''CMSG_GM_NUKE_ACCOUNT'' STATUS_NEVER PROCESS_INPLACE WHandle_NULL False,
     WOH ''MSG_GM_DESTROY_CORPSE'' STATUS_NEVER PROCESS_INPLACE WHandle_NULL False,
     WOH ''CMSG_GM_DESTROY_ONLINE_CORPSE'' STATUS_NEVER PROCESS_INPLACE WHandle_NULL False,
     WOH ''CMSG_ACTIVATETAXIEXPRESS'' STATUS_LOGGEDIN PROCESS_THREADSAFE (WorldHandler ''HandleActivateTaxiExpressOpcode'') False,
     WOH ''SMSG_SET_FACTION_ATWAR'' STATUS_NEVER PROCESS_INPLACE WHandle_ServerSide False,
     WOH ''SMSG_GAMETIMEBIAS_SET'' STATUS_NEVER PROCESS_INPLACE WHandle_ServerSide False,
     WOH ''CMSG_DEBUG_ACTIONS_START'' STATUS_NEVER PROCESS_INPLACE WHandle_NULL False,
     WOH ''CMSG_DEBUG_ACTIONS_STOP'' STATUS_NEVER PROCESS_INPLACE WHandle_NULL False,
     WOH ''CMSG_SET_FACTION_INACTIVE'' STATUS_LOGGEDIN PROCESS_THREADUNSAFE (WorldHandler ''HandleSetFactionInactiveOpcode'') False,
     WOH ''CMSG_SET_WATCHED_FACTION'' STATUS_LOGGEDIN PROCESS_THREADUNSAFE (WorldHandler ''HandleSetWatchedFactionOpcode'') False,
     WOH ''MSG_MOVE_TIME_SKIPPED'' STATUS_NEVER PROCESS_INPLACE WHandle_NULL False,
     WOH ''SMSG_SPLINE_MOVE_ROOT'' STATUS_NEVER PROCESS_INPLACE WHandle_ServerSide False,
     WOH ''CMSG_SET_EXPLORATION_ALL'' STATUS_NEVER PROCESS_INPLACE WHandle_NULL False,
     WOH ''SMSG_INVALIDATE_PLAYER'' STATUS_NEVER PROCESS_INPLACE WHandle_ServerSide False,
     WOH ''CMSG_RESET_INSTANCES'' STATUS_LOGGEDIN PROCESS_THREADUNSAFE (WorldHandler ''HandleResetInstancesOpcode'') False,
     WOH ''SMSG_INSTANCE_RESET'' STATUS_NEVER PROCESS_INPLACE WHandle_ServerSide False,
     WOH ''SMSG_INSTANCE_RESET_FAILED'' STATUS_NEVER PROCESS_INPLACE WHandle_ServerSide False,
     WOH ''SMSG_UPDATE_LAST_INSTANCE'' STATUS_NEVER PROCESS_INPLACE WHandle_ServerSide False,
     WOH ''MSG_RAID_TARGET_UPDATE'' STATUS_LOGGEDIN PROCESS_THREADUNSAFE (WorldHandler ''HandleRaidTargetUpdateOpcode'') False,
     WOH ''MSG_RAID_READY_CHECK'' STATUS_LOGGEDIN PROCESS_THREADUNSAFE (WorldHandler ''HandleRaidReadyCheckOpcode'') False,
     WOH ''CMSG_LUA_USAGE'' STATUS_NEVER PROCESS_INPLACE WHandle_NULL False,
     WOH ''SMSG_PET_ACTION_SOUND'' STATUS_NEVER PROCESS_INPLACE WHandle_ServerSide False,
     WOH ''SMSG_PET_DISMISS_SOUND'' STATUS_NEVER PROCESS_INPLACE WHandle_ServerSide False,
     WOH ''SMSG_GHOSTEE_GONE'' STATUS_NEVER PROCESS_INPLACE WHandle_ServerSide False,
     WOH ''CMSG_GM_UPDATE_TICKET_STATUS'' STATUS_NEVER PROCESS_INPLACE WHandle_NULL False,
     WOH ''SMSG_GM_TICKET_STATUS_UPDATE'' STATUS_NEVER PROCESS_INPLACE WHandle_ServerSide False,
     WOH ''MSG_SET_DUNGEON_DIFFICULTY'' STATUS_LOGGEDIN PROCESS_THREADUNSAFE (WorldHandler ''HandleSetDungeonDifficultyOpcode'') False,
     WOH ''CMSG_GMSURVEY_SUBMIT'' STATUS_LOGGEDIN PROCESS_THREADUNSAFE (WorldHandler ''HandleGMSurveySubmit'') False,
     WOH ''SMSG_UPDATE_INSTANCE_OWNERSHIP'' STATUS_NEVER PROCESS_INPLACE WHandle_ServerSide False,
     WOH ''CMSG_IGNORE_KNOCKBACK_CHEAT'' STATUS_NEVER PROCESS_INPLACE WHandle_NULL False,
     WOH ''SMSG_CHAT_PLAYER_AMBIGUOUS'' STATUS_NEVER PROCESS_INPLACE WHandle_ServerSide False,
     WOH ''MSG_DELAY_GHOST_TELEPORT'' STATUS_NEVER PROCESS_INPLACE WHandle_NULL False,
     WOH ''SMSG_SPELLINSTAKILLLOG'' STATUS_NEVER PROCESS_INPLACE WHandle_ServerSide False,
     WOH ''SMSG_SPELL_UPDATE_CHAIN_TARGETS'' STATUS_NEVER PROCESS_INPLACE WHandle_ServerSide False,
     WOH ''CMSG_CHAT_FILTERED'' STATUS_NEVER PROCESS_INPLACE WHandle_NULL False,
     WOH ''SMSG_EXPECTED_SPAM_RECORDS'' STATUS_NEVER PROCESS_INPLACE WHandle_ServerSide False,
     WOH ''SMSG_SPELLSTEALLOG'' STATUS_NEVER PROCESS_INPLACE WHandle_ServerSide False,
     WOH ''CMSG_LOTTERY_QUERY_OBSOLETE'' STATUS_NEVER PROCESS_INPLACE WHandle_NULL False,
     WOH ''SMSG_LOTTERY_QUERY_RESULT_OBSOLETE'' STATUS_NEVER PROCESS_INPLACE WHandle_ServerSide False,
     WOH ''CMSG_BUY_LOTTERY_TICKET_OBSOLETE'' STATUS_NEVER PROCESS_INPLACE WHandle_NULL False,
     WOH ''SMSG_LOTTERY_RESULT_OBSOLETE'' STATUS_NEVER PROCESS_INPLACE WHandle_ServerSide False,
     WOH ''SMSG_CHARACTER_PROFILE'' STATUS_NEVER PROCESS_INPLACE WHandle_ServerSide False,
     WOH ''SMSG_CHARACTER_PROFILE_REALM_CONNECTED'' STATUS_NEVER PROCESS_INPLACE WHandle_ServerSide False,
     WOH ''SMSG_DEFENSE_MESSAGE'' STATUS_NEVER PROCESS_INPLACE WHandle_ServerSide False,
     WOH ''SMSG_INSTANCE_DIFFICULTY'' STATUS_NEVER PROCESS_INPLACE WHandle_ServerSide False,
     WOH ''MSG_GM_RESETINSTANCELIMIT'' STATUS_NEVER PROCESS_INPLACE WHandle_NULL False,
     WOH ''SMSG_MOTD'' STATUS_NEVER PROCESS_INPLACE WHandle_ServerSide False,
     WOH ''SMSG_MOVE_SET_CAN_TRANSITION_BETWEEN_SWIM_AND_FLY'' STATUS_NEVER PROCESS_INPLACE WHandle_ServerSide False,
     WOH ''SMSG_MOVE_UNSET_CAN_TRANSITION_BETWEEN_SWIM_AND_FLY'' STATUS_NEVER PROCESS_INPLACE WHandle_ServerSide False,
     WOH ''CMSG_MOVE_SET_CAN_TRANSITION_BETWEEN_SWIM_AND_FLY_ACK'' STATUS_NEVER PROCESS_INPLACE WHandle_NULL False,
     WOH ''MSG_MOVE_START_SWIM_CHEAT'' STATUS_NEVER PROCESS_INPLACE WHandle_NULL False,
     WOH ''MSG_MOVE_STOP_SWIM_CHEAT'' STATUS_NEVER PROCESS_INPLACE WHandle_NULL False,
     WOH ''SMSG_MOVE_SET_CAN_FLY'' STATUS_NEVER PROCESS_INPLACE WHandle_ServerSide False,
     WOH ''SMSG_MOVE_UNSET_CAN_FLY'' STATUS_NEVER PROCESS_INPLACE WHandle_ServerSide False,
     WOH ''CMSG_MOVE_SET_CAN_FLY_ACK'' STATUS_LOGGEDIN PROCESS_THREADSAFE (WorldHandler ''HandleMoveSetCanFlyAckOpcode'') False,
     WOH ''CMSG_MOVE_SET_FLY'' STATUS_LOGGEDIN PROCESS_THREADSAFE (WorldHandler ''HandleMovementOpcodes'') False,
     WOH ''CMSG_SOCKET_GEMS'' STATUS_LOGGEDIN PROCESS_THREADSAFE (WorldHandler ''HandleSocketOpcode'') False,
     WOH ''CMSG_ARENA_TEAM_CREATE'' STATUS_NEVER PROCESS_INPLACE WHandle_NULL False,
     WOH ''SMSG_ARENA_TEAM_COMMAND_RESULT'' STATUS_NEVER PROCESS_INPLACE WHandle_ServerSide False,
     WOH ''MSG_MOVE_UPDATE_CAN_TRANSITION_BETWEEN_SWIM_AND_FLY'' STATUS_NEVER PROCESS_INPLACE WHandle_NULL False,
     WOH ''CMSG_ARENA_TEAM_QUERY'' STATUS_LOGGEDIN PROCESS_THREADSAFE (WorldHandler ''HandleArenaTeamQueryOpcode'') False,
     WOH ''SMSG_ARENA_TEAM_QUERY_RESPONSE'' STATUS_NEVER PROCESS_INPLACE WHandle_ServerSide False,
     WOH ''CMSG_ARENA_TEAM_ROSTER'' STATUS_LOGGEDIN PROCESS_THREADSAFE (WorldHandler ''HandleArenaTeamRosterOpcode'') False,
     WOH ''SMSG_ARENA_TEAM_ROSTER'' STATUS_NEVER PROCESS_INPLACE WHandle_ServerSide False,
     WOH ''CMSG_ARENA_TEAM_INVITE'' STATUS_LOGGEDIN PROCESS_THREADUNSAFE (WorldHandler ''HandleArenaTeamInviteOpcode'') False,
     WOH ''SMSG_ARENA_TEAM_INVITE'' STATUS_NEVER PROCESS_INPLACE WHandle_ServerSide False,
     WOH ''CMSG_ARENA_TEAM_ACCEPT'' STATUS_LOGGEDIN PROCESS_THREADUNSAFE (WorldHandler ''HandleArenaTeamAcceptOpcode'') False,
     WOH ''CMSG_ARENA_TEAM_DECLINE'' STATUS_LOGGEDIN PROCESS_THREADUNSAFE (WorldHandler ''HandleArenaTeamDeclineOpcode'') False,
     WOH ''CMSG_ARENA_TEAM_LEAVE'' STATUS_LOGGEDIN PROCESS_THREADUNSAFE (WorldHandler ''HandleArenaTeamLeaveOpcode'') False,
     WOH ''CMSG_ARENA_TEAM_REMOVE'' STATUS_LOGGEDIN PROCESS_THREADUNSAFE (WorldHandler ''HandleArenaTeamRemoveOpcode'') False,
     WOH ''CMSG_ARENA_TEAM_DISBAND'' STATUS_LOGGEDIN PROCESS_THREADUNSAFE (WorldHandler ''HandleArenaTeamDisbandOpcode'') False,
     WOH ''CMSG_ARENA_TEAM_LEADER'' STATUS_LOGGEDIN PROCESS_THREADUNSAFE (WorldHandler ''HandleArenaTeamLeaderOpcode'') False,
     WOH ''SMSG_ARENA_TEAM_EVENT'' STATUS_NEVER PROCESS_INPLACE WHandle_ServerSide False,
     WOH ''CMSG_BATTLEMASTER_JOIN_ARENA'' STATUS_LOGGEDIN PROCESS_THREADUNSAFE (WorldHandler ''HandleBattlemasterJoinArena'') False,
     WOH ''MSG_MOVE_START_ASCEND'' STATUS_LOGGEDIN PROCESS_THREADSAFE (WorldHandler ''HandleMovementOpcodes'') True,
     WOH ''MSG_MOVE_STOP_ASCEND'' STATUS_LOGGEDIN PROCESS_THREADSAFE (WorldHandler ''HandleMovementOpcodes'') True,
     WOH ''SMSG_ARENA_TEAM_STATS'' STATUS_NEVER PROCESS_INPLACE WHandle_ServerSide False,
     WOH ''CMSG_LFG_JOIN'' STATUS_LOGGEDIN PROCESS_THREADUNSAFE (WorldHandler ''HandleLfgJoinOpcode'') False,
     WOH ''CMSG_LFG_LEAVE'' STATUS_LOGGEDIN PROCESS_THREADUNSAFE (WorldHandler ''HandleLfgLeaveOpcode'') False,
     WOH ''CMSG_SEARCH_LFG_JOIN'' STATUS_LOGGEDIN PROCESS_THREADUNSAFE (WorldHandler ''HandleLfrSearchJoinOpcode'') False,
     WOH ''CMSG_SEARCH_LFG_LEAVE'' STATUS_LOGGEDIN PROCESS_THREADUNSAFE (WorldHandler ''HandleLfrSearchLeaveOpcode'') False,
     WOH ''SMSG_UPDATE_LFG_LIST'' STATUS_NEVER PROCESS_INPLACE WHandle_ServerSide False,
     WOH ''SMSG_LFG_PROPOSAL_UPDATE'' STATUS_NEVER PROCESS_INPLACE WHandle_ServerSide False,
     WOH ''CMSG_LFG_PROPOSAL_RESULT'' STATUS_LOGGEDIN PROCESS_THREADUNSAFE (WorldHandler ''HandleLfgProposalResultOpcode'') False,
     WOH ''SMSG_LFG_ROLE_CHECK_UPDATE'' STATUS_NEVER PROCESS_INPLACE WHandle_ServerSide False,
     WOH ''SMSG_LFG_JOIN_RESULT'' STATUS_NEVER PROCESS_INPLACE WHandle_ServerSide False,
     WOH ''SMSG_LFG_QUEUE_STATUS'' STATUS_NEVER PROCESS_INPLACE WHandle_ServerSide False,
     WOH ''CMSG_SET_LFG_COMMENT'' STATUS_LOGGEDIN PROCESS_THREADUNSAFE (WorldHandler ''HandleLfgSetCommentOpcode'') False,
     WOH ''SMSG_LFG_UPDATE_PLAYER'' STATUS_NEVER PROCESS_INPLACE WHandle_ServerSide False,
     WOH ''SMSG_LFG_UPDATE_PARTY'' STATUS_NEVER PROCESS_INPLACE WHandle_ServerSide False,
     WOH ''SMSG_LFG_UPDATE_SEARCH'' STATUS_NEVER PROCESS_INPLACE WHandle_ServerSide False,
     WOH ''CMSG_LFG_SET_ROLES'' STATUS_LOGGEDIN PROCESS_THREADUNSAFE (WorldHandler ''HandleLfgSetRolesOpcode'') False,
     WOH ''CMSG_LFG_SET_NEEDS'' STATUS_NEVER PROCESS_INPLACE WHandle_NULL False,
     WOH ''CMSG_LFG_SET_BOOT_VOTE'' STATUS_LOGGEDIN PROCESS_THREADUNSAFE (WorldHandler ''HandleLfgSetBootVoteOpcode'') False,
     WOH ''SMSG_LFG_BOOT_PROPOSAL_UPDATE'' STATUS_NEVER PROCESS_INPLACE WHandle_ServerSide False,
     WOH ''CMSG_LFD_PLAYER_LOCK_INFO_REQUEST'' STATUS_LOGGEDIN PROCESS_THREADUNSAFE (WorldHandler ''HandleLfgPlayerLockInfoRequestOpcode'') False,
     WOH ''SMSG_LFG_PLAYER_INFO'' STATUS_NEVER PROCESS_INPLACE WHandle_ServerSide False,
     WOH ''CMSG_LFG_TELEPORT'' STATUS_LOGGEDIN PROCESS_THREADUNSAFE (WorldHandler ''HandleLfgTeleportOpcode'') False,
     WOH ''CMSG_LFD_PARTY_LOCK_INFO_REQUEST'' STATUS_LOGGEDIN PROCESS_THREADUNSAFE (WorldHandler ''HandleLfgPartyLockInfoRequestOpcode'') False]"

definition node_rows_6 :: "WorldOpcodeHandler list" where
  "node_rows_6 = [
     WOH ''SMSG_LFG_PARTY_INFO'' STATUS_NEVER PROCESS_INPLACE WHandle_ServerSide False,
     WOH ''SMSG_TITLE_EARNED'' STATUS_NEVER PROCESS_INPLACE WHandle_ServerSide False,
     WOH ''CMSG_SET_TITLE'' STATUS_LOGGEDIN PROCESS_THREADSAFE (WorldHandler ''HandleSetTitleOpcode'') False,
     WOH ''CMSG_CANCEL_MOUNT_AURA'' STATUS_LOGGEDIN PROCESS_THREADSAFE (WorldHandler ''HandleCancelMountAuraOpcode'') False,
     WOH ''SMSG_ARENA_ERROR'' STATUS_NEVER PROCESS_INPLACE WHandle_ServerSide False,
     WOH ''MSG_INSPECT_ARENA_TEAMS'' STATUS_LOGGEDIN PROCESS_THREADSAFE (WorldHandler ''HandleInspectArenaTeamsOpcode'') False,
     WOH ''SMSG_DEATH_RELEASE_LOC'' STATUS_NEVER PROCESS_INPLACE WHandle_ServerSide False,
     WOH ''CMSG_CANCEL_TEMP_ENCHANTMENT'' STATUS_LOGGEDIN PROCESS_THREADSAFE (WorldHandler ''HandleCancelTempEnchantmentOpcode'') False,
     WOH ''SMSG_FORCED_DEATH_UPDATE'' STATUS_NEVER PROCESS_INPLACE WHandle_ServerSide False,
     WOH ''CMSG_CHEAT_SET_HONOR_CURRENCY'' STATUS_NEVER PROCESS_INPLACE WHandle_NULL False,
     WOH ''CMSG_CHEAT_SET_ARENA_CURRENCY'' STATUS_NEVER PROCESS_INPLACE WHandle_NULL False,
     WOH ''MSG_MOVE_SET_FLIGHT_SPEED_CHEAT'' STATUS_NEVER PROCESS_INPLACE WHandle_NULL False,
     WOH ''MSG_MOVE_SET_FLIGHT_SPEED'' STATUS_NEVER PROCESS_INPLACE WHandle_NULL False,
     WOH ''MSG_MOVE_SET_FLIGHT_BACK_SPEED_CHEAT'' STATUS_NEVER PROCESS_INPLACE WHandle_NULL False,
     WOH ''MSG_MOVE_SET_FLIGHT_BACK_SPEED'' STATUS_NEVER PROCESS_INPLACE WHandle_NULL False,
     WOH ''SMSG_FORCE_FLIGHT_SPEED_CHANGE'' STATUS_NEVER PROCESS_INPLACE WHandle_ServerSide False,
     WOH ''CMSG_FORCE_FLIGHT_SPEED_CHANGE_ACK'' STATUS_LOGGEDIN PROCESS_THREADSAFE (WorldHandler ''HandleForceSpeedChangeAck'') False,
     WOH ''SMSG_FORCE_FLIGHT_BACK_SPEED_CHANGE'' STATUS_NEVER PROCESS_INPLACE WHandle_ServerSide False,
     WOH ''CMSG_FORCE_FLIGHT_BACK_SPEED_CHANGE_ACK'' STATUS_LOGGEDIN PROCESS_THREADSAFE (WorldHandler ''HandleForceSpeedChangeAck'') False,
     WOH ''SMSG_SPLINE_SET_FLIGHT_SPEED'' STATUS_NEVER PROCESS_INPLACE WHandle_ServerSide False,
     WOH ''SMSG_SPLINE_SET_FLIGHT_BACK_SPEED'' STATUS_NEVER PROCESS_INPLACE WHandle_ServerSide False,
     WOH ''CMSG_MAELSTROM_INVALIDATE_CACHE'' STATUS_NEVER PROCESS_INPLACE WHandle_NULL False,
     WOH ''SMSG_FLIGHT_SPLINE_SYNC'' STATUS_NEVER PROCESS_INPLACE WHandle_ServerSide False,
     WOH ''CMSG_SET_TAXI_BENCHMARK_MODE'' STATUS_LOGGEDIN PROCESS_THREADUNSAFE (WorldHandler ''HandleSetTaxiBenchmarkOpcode'') False,
     WOH ''SMSG_JOINED_BATTLEGROUND_QUEUE'' STATUS_NEVER PROCESS_INPLACE WHandle_ServerSide False,
     WOH ''SMSG_REALM_SPLIT'' STATUS_NEVER PROCESS_INPLACE WHandle_ServerSide False,
     WOH ''CMSG_REALM_SPLIT'' STATUS_AUTHED PROCESS_THREADUNSAFE (WorldHandler ''HandleRealmSplitOpcode'') False,
     WOH ''CMSG_MOVE_CHNG_TRANSPORT'' STATUS_LOGGEDIN PROCESS_THREADSAFE (WorldHandler ''HandleMovementOpcodes'') False,
     WOH ''MSG_PARTY_ASSIGNMENT'' STATUS_LOGGEDIN PROCESS_THREADUNSAFE (WorldHandler ''HandlePartyAssignmentOpcode'') False,
     WOH ''SMSG_OFFER_PETITION_ERROR'' STATUS_NEVER PROCESS_INPLACE WHandle_ServerSide False,
     WOH ''SMSG_TIME_SYNC_REQ'' STATUS_NEVER PROCESS_INPLACE WHandle_ServerSide False,
     WOH ''CMSG_TIME_SYNC_RESP'' STATUS_LOGGEDIN PROCESS_INPLACE (WorldHandler ''HandleTimeSyncResp'') False,
     WOH ''CMSG_SEND_LOCAL_EVENT'' STATUS_NEVER PROCESS_INPLACE WHandle_NULL False,
     WOH ''CMSG_SEND_GENERAL_TRIGGER'' STATUS_NEVER PROCESS_INPLACE WHandle_NULL False,
     WOH ''CMSG_SEND_COMBAT_TRIGGER'' STATUS_NEVER PROCESS_INPLACE WHandle_NULL False,
     WOH ''CMSG_MAELSTROM_GM_SENT_MAIL'' STATUS_NEVER PROCESS_INPLACE WHandle_NULL False,
     WOH ''SMSG_RESET_FAILED_NOTIFY'' STATUS_NEVER PROCESS_INPLACE WHandle_ServerSide False,
     WOH ''SMSG_REAL_GROUP_UPDATE'' STATUS_NEVER PROCESS_INPLACE WHandle_ServerSide False,
     WOH ''SMSG_LFG_DISABLED'' STATUS_NEVER PROCESS_INPLACE WHandle_ServerSide False,
     WOH ''CMSG_ACTIVE_PVP_CHEAT'' STATUS_NEVER PROCESS_INPLACE WHandle_NULL False,
     WOH ''CMSG_CHEAT_DUMP_ITEMS_DEBUG_ONLY'' STATUS_NEVER PROCESS_INPLACE WHandle_NULL False,
     WOH ''SMSG_CHEAT_DUMP_ITEMS_DEBUG_ONLY_RESPONSE'' STATUS_NEVER PROCESS_INPLACE WHandle_ServerSide False,
     WOH ''SMSG_CHEAT_DUMP_ITEMS_DEBUG_ONLY_RESPONSE_WRITE_FILE'' STATUS_NEVER PROCESS_INPLACE WHandle_ServerSide False,
     WOH ''SMSG_UPDATE_COMBO_POINTS'' STATUS_NEVER PROCESS_INPLACE WHandle_ServerSide False,
     WOH ''SMSG_VOICE_SESSION_ROSTER_UPDATE'' STATUS_NEVER PROCESS_THREADSAFE WHandle_ServerSide False,
     WOH ''SMSG_VOICE_SESSION_LEAVE'' STATUS_NEVER PROCESS_THREADSAFE WHandle_ServerSide False,
     WOH ''SMSG_VOICE_SESSION_ADJUST_PRIORITY'' STATUS_NEVER PROCESS_THREADSAFE WHandle_ServerSide False,
     WOH ''CMSG_VOICE_SET_TALKER_MUTED_REQUEST'' STATUS_LOGGEDIN PROCESS_THREADSAFE WHandle_NULL False,
     WOH ''SMSG_VOICE_SET_TALKER_MUTED'' STATUS_NEVER PROCESS_THREADSAFE WHandle_ServerSide False,
     WOH ''SMSG_INIT_EXTRA_AURA_INFO_OBSOLETE'' STATUS_NEVER PROCESS_INPLACE WHandle_ServerSide False,
     WOH ''SMSG_SET_EXTRA_AURA_INFO_OBSOLETE'' STATUS_NEVER PROCESS_INPLACE WHandle_ServerSide False,
     WOH ''SMSG_SET_EXTRA_AURA_INFO_NEED_UPDATE_OBSOLETE'' STATUS_NEVER PROCESS_INPLACE WHandle_ServerSide False,
     WOH ''SMSG_CLEAR_EXTRA_AURA_INFO_OBSOLETE'' STATUS_NEVER PROCESS_INPLACE WHandle_ServerSide False,
     WOH ''MSG_MOVE_START_DESCEND'' STATUS_LOGGEDIN PROCESS_THREADSAFE (WorldHandler ''HandleMovementOpcodes'') True,
     WOH ''CMSG_IGNORE_REQUIREMENTS_CHEAT'' STATUS_NEVER PROCESS_INPLACE WHandle_NULL False,
     WOH ''SMSG_IGNORE_REQUIREMENTS_CHEAT'' STATUS_NEVER PROCESS_INPLACE WHandle_ServerSide False,
     WOH ''SMSG_SPELL_CHANCE_PROC_LOG'' STATUS_NEVER PROCESS_INPLACE WHandle_ServerSide False,
     WOH ''CMSG_MOVE_SET_RUN_SPEED'' STATUS_NEVER PROCESS_INPLACE WHandle_NULL False,
     WOH ''SMSG_DISMOUNT'' STATUS_NEVER PROCESS_INPLACE WHandle_ServerSide False,
     WOH ''MSG_MOVE_UPDATE_CAN_FLY'' STATUS_NEVER PROCESS_INPLACE WHandle_NULL False,
     WOH ''MSG_RAID_READY_CHECK_CONFIRM'' STATUS_NEVER PROCESS_INPLACE WHandle_NULL False,
     WOH ''CMSG_VOICE_SESSION_ENABLE'' STATUS_AUTHED PROCESS_THREADSAFE (WorldHandler ''HandleEnableMicrophoneOpcode'') False,
     WOH ''SMSG_VOICE_SESSION_ENABLE'' STATUS_NEVER PROCESS_THREADSAFE WHandle_ServerSide False,
     WOH ''SMSG_VOICE_PARENTAL_CONTROLS'' STATUS_NEVER PROCESS_THREADSAFE WHandle_ServerSide False,
     WOH ''CMSG_GM_WHISPER'' STATUS_NEVER PROCESS_INPLACE WHandle_NULL False,
     WOH ''SMSG_GM_MESSAGECHAT'' STATUS_NEVER PROCESS_INPLACE WHandle_ServerSide False,
     WOH ''MSG_GM_GEARRATING'' STATUS_NEVER PROCESS_INPLACE WHandle_NULL False,
     WOH ''CMSG_COMMENTATOR_ENABLE'' STATUS_NEVER PROCESS_INPLACE WHandle_NULL False,
     WOH ''SMSG_COMMENTATOR_STATE_CHANGED'' STATUS_NEVER PROCESS_INPLACE WHandle_ServerSide False,
     WOH ''CMSG_COMMENTATOR_GET_MAP_INFO'' STATUS_NEVER PROCESS_INPLACE WHandle_NULL False,
     WOH ''SMSG_COMMENTATOR_MAP_INFO'' STATUS_NEVER PROCESS_INPLACE WHandle_ServerSide False,
     WOH ''CMSG_COMMENTATOR_GET_PLAYER_INFO'' STATUS_NEVER PROCESS_INPLACE WHandle_NULL False,
     WOH ''SMSG_COMMENTATOR_GET_PLAYER_INFO'' STATUS_NEVER PROCESS_INPLACE WHandle_ServerSide False,
     WOH ''SMSG_COMMENTATOR_PLAYER_INFO'' STATUS_NEVER PROCESS_INPLACE WHandle_ServerSide False,
     WOH ''CMSG_COMMENTATOR_ENTER_INSTANCE'' STATUS_NEVER PROCESS_INPLACE WHandle_NULL False,
     WOH ''CMSG_COMMENTATOR_EXIT_INSTANCE'' STATUS_NEVER PROCESS_INPLACE WHandle_NULL False,
     WOH ''CMSG_COMMENTATOR_INSTANCE_COMMAND'' STATUS_NEVER PROCESS_INPLACE WHandle_NULL False,
     WOH ''SMSG_CLEAR_TARGET'' STATUS_NEVER PROCESS_INPLACE WHandle_ServerSide False,
     WOH ''CMSG_BOT_DETECTED'' STATUS_NEVER PROCESS_INPLACE WHandle_NULL False,
     WOH ''SMSG_CROSSED_INEBRIATION_THRESHOLD'' STATUS_NEVER PROCESS_INPLACE WHandle_ServerSide False,
     WOH ''CMSG_CHEAT_PLAYER_LOGIN'' STATUS_NEVER PROCESS_INPLACE WHandle_NULL False,
     WOH ''CMSG_CHEAT_PLAYER_LOOKUP'' STATUS_NEVER PROCESS_INPLACE WHandle_NULL False,
     WOH ''SMSG_CHEAT_PLAYER_LOOKUP'' STATUS_NEVER PROCESS_INPLACE WHandle_ServerSide False,
     WOH ''SMSG_KICK_REASON'' STATUS_NEVER PROCESS_INPLACE WHandle_ServerSide False,
     WOH ''MSG_RAID_READY_CHECK_FINISHED'' STATUS_LOGGEDIN PROCESS_THREADUNSAFE (WorldHandler ''HandleRaidReadyCheckFinishedOpcode'') False,
     WOH ''CMSG_COMPLAIN'' STATUS_LOGGEDIN PROCESS_THREADUNSAFE (WorldHandler ''HandleComplainOpcode'') False,
     WOH ''SMSG_COMPLAIN_RESULT'' STATUS_NEVER PROCESS_INPLACE WHandle_ServerSide False,
     WOH ''SMSG_FEATURE_SYSTEM_STATUS'' STATUS_NEVER PROCESS_INPLACE WHandle_ServerSide False,
     WOH ''CMSG_GM_SHOW_COMPLAINTS'' STATUS_NEVER PROCESS_INPLACE WHandle_NULL False,
     WOH ''CMSG_GM_UNSQUELCH'' STATUS_NEVER PROCESS_INPLACE WHandle_NULL False,
     WOH ''CMSG_CHANNEL_SILENCE_VOICE'' STATUS_LOGGEDIN PROCESS_THREADSAFE WHandle_NULL False,
     WOH ''CMSG_CHANNEL_SILENCE_ALL'' STATUS_LOGGEDIN PROCESS_THREADSAFE WHandle_NULL False,
     WOH ''CMSG_CHANNEL_UNSILENCE_VOICE'' STATUS_LOGGEDIN PROCESS_THREADSAFE WHandle_NULL False,
     WOH ''CMSG_CHANNEL_UNSILENCE_ALL'' STATUS_LOGGEDIN PROCESS_THREADSAFE WHandle_NULL False,
     WOH ''CMSG_TARGET_CAST'' STATUS_NEVER PROCESS_INPLACE WHandle_NULL False,
     WOH ''CMSG_TARGET_SCRIPT_CAST'' STATUS_NEVER PROCESS_INPLACE WHandle_NULL False,
     WOH ''CMSG_CHANNEL_DISPLAY_LIST'' STATUS_LOGGEDIN PROCESS_THREADSAFE (WorldHandler ''HandleChannelDisplayListQuery'') False,
     WOH ''CMSG_SET_ACTIVE_VOICE_CHANNEL'' STATUS_AUTHED PROCESS_THREADSAFE (WorldHandler ''HandleVoiceChatQueryOpcode'') False,
     WOH ''CMSG_GET_CHANNEL_MEMBER_COUNT'' STATUS_LOGGEDIN PROCESS_THREADSAFE (WorldHandler ''HandleGetChannelMemberCount'') False,
     WOH ''SMSG_CHANNEL_MEMBER_COUNT'' STATUS_NEVER PROCESS_INPLACE WHandle_ServerSide False,
     WOH ''CMSG_CHANNEL_VOICE_ON'' STATUS_LOGGEDIN PROCESS_THREADSAFE (WorldHandler ''HandleChannelVoiceOnOpcode'') False,
     WOH ''CMSG_CHANNEL_VOICE_OFF'' STATUS_LOGGEDIN PROCESS_THREADSAFE (WorldHandler ''HandleChannelVoiceOffOpcode'') False,
     WOH ''CMSG_DEBUG_LIST_TARGETS'' STATUS_NEVER PROCESS_INPLACE WHandle_NULL False,
     WOH ''SMSG_DEBUG_LIST_TARGETS'' STATUS_NEVER PROCESS_INPLACE WHandle_ServerSide False,
     WOH ''SMSG_AVAILABLE_VOICE_CHANNEL'' STATUS_NEVER PROCESS_THREADSAFE WHandle_ServerSide False,
     WOH ''CMSG_ADD_VOICE_IGNORE'' STATUS_LOGGEDIN PROCESS_THREADSAFE (WorldHandler ''HandleVoiceIgnorePlayerByName'') False,
     WOH ''CMSG_DEL_VOICE_IGNORE'' STATUS_LOGGEDIN PROCESS_THREADSAFE (WorldHandler ''HandleVoiceUnIgnorePlayerByName'') False,
     WOH ''CMSG_PARTY_SILENCE'' STATUS_LOGGEDIN PROCESS_THREADSAFE WHandle_NULL False,
     WOH ''CMSG_PARTY_UNSILENCE'' STATUS_LOGGEDIN PROCESS_THREADSAFE WHandle_NULL False,
     WOH ''MSG_NOTIFY_PARTY_SQUELCH'' STATUS_NEVER PROCESS_INPLACE WHandle_NULL False,
     WOH ''SMSG_COMSAT_RECONNECT_TRY'' STATUS_NEVER PROCESS_INPLACE WHandle_ServerSide False,
     WOH ''SMSG_COMSAT_DISCONNECT'' STATUS_NEVER PROCESS_INPLACE WHandle_ServerSide False,
     WOH ''SMSG_COMSAT_CONNECT_FAIL'' STATUS_NEVER PROCESS_INPLACE WHandle_ServerSide False,
     WOH ''SMSG_VOICE_CHAT_STATUS'' STATUS_NEVER PROCESS_THREADSAFE WHandle_ServerSide False,
     WOH ''CMSG_REPORT_PVP_AFK'' STATUS_LOGGEDIN PROCESS_THREADUNSAFE (WorldHandler ''HandleReportPvPAFK'') False,
     WOH ''SMSG_REPORT_PVP_AFK_RESULT'' STATUS_NEVER PROCESS_INPLACE WHandle_ServerSide False,
     WOH ''CMSG_GUILD_BANKER_ACTIVATE'' STATUS_LOGGEDIN PROCESS_THREADUNSAFE (WorldHandler ''HandleGuildBankerActivate'') False,
     WOH ''CMSG_GUILD_BANK_QUERY_TAB'' STATUS_LOGGEDIN PROCESS_THREADUNSAFE (WorldHandler ''HandleGuildBankQueryTab'') False,
     WOH ''SMSG_GUILD_BANK_LIST'' STATUS_NEVER PROCESS_INPLACE WHandle_ServerSide False,
     WOH ''CMSG_GUILD_BANK_SWAP_ITEMS'' STATUS_LOGGEDIN PROCESS_THREADUNSAFE (WorldHandler ''HandleGuildBankSwapItems'') False,
     WOH ''CMSG_GUILD_BANK_BUY_TAB'' STATUS_LOGGEDIN PROCESS_THREADUNSAFE (WorldHandler ''HandleGuildBankBuyTab'') False,
     WOH ''CMSG_GUILD_BANK_UPDATE_TAB'' STATUS_LOGGEDIN PROCESS_THREADUNSAFE (WorldHandler ''HandleGuildBankUpdateTab'') False,
     WOH ''CMSG_GUILD_BANK_DEPOSIT_MONEY'' STATUS_LOGGEDIN PROCESS_THREADUNSAFE (WorldHandler ''HandleGuildBankDepositMoney'') False,
     WOH ''CMSG_GUILD_BANK_WITHDRAW_MONEY'' STATUS_LOGGEDIN PROCESS_THREADUNSAFE (WorldHandler ''HandleGuildBankWithdrawMoney'') False,
     WOH ''MSG_GUILD_BANK_LOG_QUERY'' STATUS_LOGGEDIN PROCESS_THREADUNSAFE (WorldHandler ''HandleGuildBankLogQuery'') False,
     WOH ''CMSG_SET_CHANNEL_WATCH'' STATUS_LOGGEDIN PROCESS_THREADSAFE (WorldHandler ''HandleSetChannelWatch'') False,
     WOH ''SMSG_USERLIST_ADD'' STATUS_NEVER PROCESS_INPLACE WHandle_ServerSide False,
     WOH ''SMSG_USERLIST_REMOVE'' STATUS_NEVER PROCESS_INPLACE WHandle_ServerSide False,
     WOH ''SMSG_USERLIST_UPDATE'' STATUS_NEVER PROCESS_INPLACE WHandle_ServerSide False,
     WOH ''CMSG_CLEAR_CHANNEL_WATCH'' STATUS_LOGGEDIN PROCESS_THREADUNSAFE (WorldHandler ''HandleClearChannelWatch'') False,
     WOH ''SMSG_INSPECT_TALENT'' STATUS_NEVER PROCESS_INPLACE WHandle_ServerSide False,
     WOH ''SMSG_GOGOGO_OBSOLETE'' STATUS_NEVER PROCESS_INPLACE WHandle_ServerSide False,
     WOH ''SMSG_ECHO_PARTY_SQUELCH'' STATUS_NEVER PROCESS_INPLACE WHandle_ServerSide False,
     WOH ''CMSG_SET_TITLE_SUFFIX'' STATUS_NEVER PROCESS_INPLACE WHandle_NULL False,
     WOH ''CMSG_SPELLCLICK'' STATUS_LOGGEDIN PROCESS_THREADSAFE (WorldHandler ''HandleSpellClick'') False,
     WOH ''SMSG_LOOT_LIST'' STATUS_NEVER PROCESS_INPLACE WHandle_ServerSide False,
     WOH ''CMSG_GM_CHARACTER_RESTORE'' STATUS_NEVER PROCESS_INPLACE WHandle_NULL False,
     WOH ''CMSG_GM_CHARACTER_SAVE'' STATUS_NEVER PROCESS_INPLACE WHandle_NULL False,
     WOH ''SMSG_VOICESESSION_FULL'' STATUS_NEVER PROCESS_THREADSAFE WHandle_ServerSide False,
     WOH ''MSG_GUILD_PERMISSIONS'' STATUS_LOGGEDIN PROCESS_THREADUNSAFE (WorldHandler ''HandleGuildPermissions'') False,
     WOH ''MSG_GUILD_BANK_MONEY_WITHDRAWN'' STATUS_LOGGEDIN PROCESS_THREADUNSAFE (WorldHandler ''HandleGuildBankMoneyWithdrawn'') False,
     WOH ''MSG_GUILD_EVENT_LOG_QUERY'' STATUS_LOGGEDIN PROCESS_THREADUNSAFE (WorldHandler ''HandleGuildEventLogQueryOpcode'') False,
     WOH ''CMSG_MAELSTROM_RENAME_GUILD'' STATUS_NEVER PROCESS_INPLACE WHandle_NULL False,
     WOH ''CMSG_GET_MIRRORIMAGE_DATA'' STATUS_LOGGEDIN PROCESS_THREADUNSAFE (WorldHandler ''HandleMirrorImageDataRequest'') False,
     WOH ''SMSG_MIRRORIMAGE_DATA'' STATUS_NEVER PROCESS_INPLACE WHandle_ServerSide False,
     WOH ''SMSG_FORCE_DISPLAY_UPDATE'' STATUS_NEVER PROCESS_INPLACE WHandle_ServerSide False,
     WOH ''SMSG_SPELL_CHANCE_RESIST_PUSHBACK'' STATUS_NEVER PROCESS_INPLACE WHandle_ServerSide False]"

definition node_rows_7 :: "WorldOpcodeHandler list" where
  "node_rows_7 = [
     WOH ''CMSG_IGNORE_DIMINISHING_RETURNS_CHEAT'' STATUS_NEVER PROCESS_INPLACE WHandle_NULL False,
     WOH ''SMSG_IGNORE_DIMINISHING_RETURNS_CHEAT'' STATUS_NEVER PROCESS_INPLACE WHandle_ServerSide False,
     WOH ''CMSG_KEEP_ALIVE'' STATUS_NEVER PROCESS_THREADUNSAFE WHandle_EarlyProccess False,
     WOH ''SMSG_RAID_READY_CHECK_ERROR'' STATUS_NEVER PROCESS_INPLACE WHandle_ServerSide False,
     WOH ''CMSG_OPT_OUT_OF_LOOT'' STATUS_AUTHED PROCESS_THREADUNSAFE (WorldHandler ''HandleOptOutOfLootOpcode'') False,
     WOH ''MSG_QUERY_GUILD_BANK_TEXT'' STATUS_LOGGEDIN PROCESS_THREADUNSAFE (WorldHandler ''HandleQueryGuildBankTabText'') False,
     WOH ''CMSG_SET_GUILD_BANK_TEXT'' STATUS_LOGGEDIN PROCESS_THREADUNSAFE (WorldHandler ''HandleSetGuildBankTabText'') False,
     WOH ''CMSG_SET_GRANTABLE_LEVELS'' STATUS_NEVER PROCESS_INPLACE WHandle_NULL False,
     WOH ''CMSG_GRANT_LEVEL'' STATUS_LOGGEDIN PROCESS_THREADUNSAFE (WorldHandler ''HandleGrantLevel'') False,
     WOH ''CMSG_REFER_A_FRIEND'' STATUS_NEVER PROCESS_INPLACE WHandle_NULL False,
     WOH ''MSG_GM_CHANGE_ARENA_RATING'' STATUS_NEVER PROCESS_INPLACE WHandle_NULL False,
     WOH ''CMSG_DECLINE_CHANNEL_INVITE'' STATUS_LOGGEDIN PROCESS_INPLACE (WorldHandler ''HandleChannelDeclineInvite'') False,
     WOH ''SMSG_GROUPACTION_THROTTLED'' STATUS_NEVER PROCESS_INPLACE WHandle_ServerSide False,
     WOH ''SMSG_OVERRIDE_LIGHT'' STATUS_NEVER PROCESS_INPLACE WHandle_ServerSide False,
     WOH ''SMSG_TOTEM_CREATED'' STATUS_NEVER PROCESS_INPLACE WHandle_ServerSide False,
     WOH ''CMSG_TOTEM_DESTROYED'' STATUS_LOGGEDIN PROCESS_THREADSAFE (WorldHandler ''HandleTotemDestroyed'') False,
     WOH ''CMSG_EXPIRE_RAID_INSTANCE'' STATUS_NEVER PROCESS_INPLACE WHandle_NULL False,
     WOH ''CMSG_NO_SPELL_VARIANCE'' STATUS_NEVER PROCESS_INPLACE WHandle_NULL False,
     WOH ''CMSG_QUESTGIVER_STATUS_MULTIPLE_QUERY'' STATUS_LOGGEDIN PROCESS_THREADUNSAFE (WorldHandler ''HandleQuestgiverStatusMultipleQuery'') False,
     WOH ''SMSG_QUESTGIVER_STATUS_MULTIPLE'' STATUS_NEVER PROCESS_INPLACE WHandle_ServerSide False,
     WOH ''CMSG_SET_PLAYER_DECLINED_NAMES'' STATUS_AUTHED PROCESS_THREADUNSAFE (WorldHandler ''HandleSetPlayerDeclinedNames'') False,
     WOH ''SMSG_SET_PLAYER_DECLINED_NAMES_RESULT'' STATUS_NEVER PROCESS_INPLACE WHandle_ServerSide False,
     WOH ''CMSG_QUERY_SERVER_BUCK_DATA'' STATUS_NEVER PROCESS_INPLACE WHandle_NULL False,
     WOH ''CMSG_CLEAR_SERVER_BUCK_DATA'' STATUS_NEVER PROCESS_INPLACE WHandle_NULL False,
     WOH ''SMSG_SERVER_BUCK_DATA'' STATUS_NEVER PROCESS_INPLACE WHandle_ServerSide False,
     WOH ''SMSG_SEND_UNLEARN_SPELLS'' STATUS_NEVER PROCESS_INPLACE WHandle_ServerSide False,
     WOH ''SMSG_PROPOSE_LEVEL_GRANT'' STATUS_NEVER PROCESS_INPLACE WHandle_ServerSide False,
     WOH ''CMSG_ACCEPT_LEVEL_GRANT'' STATUS_LOGGEDIN PROCESS_THREADUNSAFE (WorldHandler ''HandleAcceptGrantLevel'') False,
     WOH ''SMSG_REFER_A_FRIEND_FAILURE'' STATUS_NEVER PROCESS_INPLACE WHandle_ServerSide False,
     WOH ''SMSG_SPLINE_MOVE_SET_FLYING'' STATUS_NEVER PROCESS_INPLACE WHandle_ServerSide False,
     WOH ''SMSG_SPLINE_MOVE_UNSET_FLYING'' STATUS_NEVER PROCESS_INPLACE WHandle_ServerSide False,
     WOH ''SMSG_SUMMON_CANCEL'' STATUS_NEVER PROCESS_INPLACE WHandle_ServerSide False,
     WOH ''CMSG_CHANGE_PERSONAL_ARENA_RATING'' STATUS_NEVER PROCESS_INPLACE WHandle_NULL False,
     WOH ''CMSG_ALTER_APPEARANCE'' STATUS_LOGGEDIN PROCESS_THREADUNSAFE (WorldHandler ''HandleAlterAppearance'') False,
     WOH ''SMSG_ENABLE_BARBER_SHOP'' STATUS_NEVER PROCESS_INPLACE WHandle_ServerSide False,
     WOH ''SMSG_BARBER_SHOP_RESULT'' STATUS_NEVER PROCESS_INPLACE WHandle_ServerSide False,
     WOH ''CMSG_CALENDAR_GET_CALENDAR'' STATUS_LOGGEDIN PROCESS_THREADUNSAFE (WorldHandler ''HandleCalendarGetCalendar'') False,
     WOH ''CMSG_CALENDAR_GET_EVENT'' STATUS_LOGGEDIN PROCESS_THREADUNSAFE (WorldHandler ''HandleCalendarGetEvent'') False,
     WOH ''CMSG_CALENDAR_GUILD_FILTER'' STATUS_LOGGEDIN PROCESS_THREADUNSAFE (WorldHandler ''HandleCalendarGuildFilter'') False,
     WOH ''CMSG_CALENDAR_ARENA_TEAM'' STATUS_LOGGEDIN PROCESS_THREADUNSAFE (WorldHandler ''HandleCalendarArenaTeam'') False,
     WOH ''CMSG_CALENDAR_ADD_EVENT'' STATUS_LOGGEDIN PROCESS_THREADUNSAFE (WorldHandler ''HandleCalendarAddEvent'') False,
     WOH ''CMSG_CALENDAR_UPDATE_EVENT'' STATUS_LOGGEDIN PROCESS_THREADUNSAFE (WorldHandler ''HandleCalendarUpdateEvent'') False,
     WOH ''CMSG_CALENDAR_REMOVE_EVENT'' STATUS_LOGGEDIN PROCESS_THREADUNSAFE (WorldHandler ''HandleCalendarRemoveEvent'') False,
     WOH ''CMSG_CALENDAR_COPY_EVENT'' STATUS_LOGGEDIN PROCESS_THREADUNSAFE (WorldHandler ''HandleCalendarCopyEvent'') False,
     WOH ''CMSG_CALENDAR_EVENT_INVITE'' STATUS_LOGGEDIN PROCESS_THREADUNSAFE (WorldHandler ''HandleCalendarEventInvite'') False,
     WOH ''CMSG_CALENDAR_EVENT_RSVP'' STATUS_LOGGEDIN PROCESS_THREADUNSAFE (WorldHandler ''HandleCalendarEventRsvp'') False,
     WOH ''CMSG_CALENDAR_EVENT_REMOVE_INVITE'' STATUS_LOGGEDIN PROCESS_THREADUNSAFE (WorldHandler ''HandleCalendarEventRemoveInvite'') False,
     WOH ''CMSG_CALENDAR_EVENT_STATUS'' STATUS_LOGGEDIN PROCESS_THREADUNSAFE (WorldHandler ''HandleCalendarEventStatus'') False,
     WOH ''CMSG_CALENDAR_EVENT_MODERATOR_STATUS'' STATUS_LOGGEDIN PROCESS_THREADUNSAFE (WorldHandler ''HandleCalendarEventModeratorStatus'') False,
     WOH ''SMSG_CALENDAR_SEND_CALENDAR'' STATUS_NEVER PROCESS_INPLACE WHandle_ServerSide False,
     WOH ''SMSG_CALENDAR_SEND_EVENT'' STATUS_NEVER PROCESS_INPLACE WHandle_ServerSide False,
     WOH ''SMSG_CALENDAR_FILTER_GUILD'' STATUS_NEVER PROCESS_INPLACE WHandle_ServerSide False,
     WOH ''SMSG_CALENDAR_ARENA_TEAM'' STATUS_NEVER PROCESS_INPLACE WHandle_ServerSide False,
     WOH ''SMSG_CALENDAR_EVENT_INVITE'' STATUS_NEVER PROCESS_INPLACE WHandle_ServerSide False,
     WOH ''SMSG_CALENDAR_EVENT_INVITE_REMOVED'' STATUS_NEVER PROCESS_INPLACE WHandle_ServerSide False,
     WOH ''SMSG_CALENDAR_EVENT_STATUS'' STATUS_NEVER PROCESS_INPLACE WHandle_ServerSide False,
     WOH ''SMSG_CALENDAR_COMMAND_RESULT'' STATUS_NEVER PROCESS_INPLACE WHandle_ServerSide False,
     WOH ''SMSG_CALENDAR_RAID_LOCKOUT_ADDED'' STATUS_NEVER PROCESS_INPLACE WHandle_ServerSide False,
     WOH ''SMSG_CALENDAR_RAID_LOCKOUT_REMOVED'' STATUS_NEVER PROCESS_INPLACE WHandle_ServerSide False,
     WOH ''SMSG_CALENDAR_EVENT_INVITE_ALERT'' STATUS_NEVER PROCESS_INPLACE WHandle_ServerSide False,
     WOH ''SMSG_CALENDAR_EVENT_INVITE_REMOVED_ALERT'' STATUS_NEVER PROCESS_INPLACE WHandle_ServerSide False,
     WOH ''SMSG_CALENDAR_EVENT_INVITE_STATUS_ALERT'' STATUS_NEVER PROCESS_INPLACE WHandle_ServerSide False,
     WOH ''SMSG_CALENDAR_EVENT_REMOVED_ALERT'' STATUS_NEVER PROCESS_INPLACE WHandle_ServerSide False,
     WOH ''SMSG_CALENDAR_EVENT_UPDATED_ALERT'' STATUS_NEVER PROCESS_INPLACE WHandle_ServerSide False,
     WOH ''SMSG_CALENDAR_EVENT_MODERATOR_STATUS_ALERT'' STATUS_NEVER PROCESS_INPLACE WHandle_ServerSide False,
     WOH ''CMSG_CALENDAR_COMPLAIN'' STATUS_LOGGEDIN PROCESS_THREADUNSAFE (WorldHandler ''HandleCalendarComplain'') False,
     WOH ''CMSG_CALENDAR_GET_NUM_PENDING'' STATUS_LOGGEDIN PROCESS_THREADUNSAFE (WorldHandler ''HandleCalendarGetNumPending'') False,
     WOH ''SMSG_CALENDAR_SEND_NUM_PENDING'' STATUS_NEVER PROCESS_INPLACE WHandle_ServerSide False,
     WOH ''CMSG_SAVE_DANCE'' STATUS_NEVER PROCESS_INPLACE WHandle_NULL False,
     WOH ''SMSG_NOTIFY_DANCE'' STATUS_NEVER PROCESS_INPLACE WHandle_ServerSide False,
     WOH ''CMSG_PLAY_DANCE'' STATUS_NEVER PROCESS_INPLACE WHandle_NULL False,
     WOH ''SMSG_PLAY_DANCE'' STATUS_NEVER PROCESS_INPLACE WHandle_ServerSide False,
     WOH ''CMSG_LOAD_DANCES'' STATUS_NEVER PROCESS_INPLACE WHandle_NULL False,
     WOH ''CMSG_STOP_DANCE'' STATUS_NEVER PROCESS_INPLACE WHandle_NULL False,
     WOH ''SMSG_STOP_DANCE'' STATUS_NEVER PROCESS_INPLACE WHandle_ServerSide False,
     WOH ''CMSG_SYNC_DANCE'' STATUS_NEVER PROCESS_INPLACE WHandle_NULL False,
     WOH ''CMSG_DANCE_QUERY'' STATUS_NEVER PROCESS_INPLACE WHandle_NULL False,
     WOH ''SMSG_DANCE_QUERY_RESPONSE'' STATUS_NEVER PROCESS_INPLACE WHandle_ServerSide False,
     WOH ''SMSG_INVALIDATE_DANCE'' STATUS_NEVER PROCESS_INPLACE WHandle_ServerSide False,
     WOH ''CMSG_DELETE_DANCE'' STATUS_NEVER PROCESS_INPLACE WHandle_NULL False,
     WOH ''SMSG_LEARNED_DANCE_MOVES'' STATUS_NEVER PROCESS_INPLACE WHandle_ServerSide False,
     WOH ''CMSG_LEARN_DANCE_MOVE'' STATUS_NEVER PROCESS_INPLACE WHandle_NULL False,
     WOH ''CMSG_UNLEARN_DANCE_MOVE'' STATUS_NEVER PROCESS_INPLACE WHandle_NULL False,
     WOH ''CMSG_SET_RUNE_COUNT'' STATUS_NEVER PROCESS_INPLACE WHandle_NULL False,
     WOH ''CMSG_SET_RUNE_COOLDOWN'' STATUS_NEVER PROCESS_INPLACE WHandle_NULL False,
     WOH ''MSG_MOVE_SET_PITCH_RATE_CHEAT'' STATUS_NEVER PROCESS_INPLACE WHandle_NULL False,
     WOH ''MSG_MOVE_SET_PITCH_RATE'' STATUS_NEVER PROCESS_INPLACE WHandle_NULL False,
     WOH ''SMSG_FORCE_PITCH_RATE_CHANGE'' STATUS_NEVER PROCESS_INPLACE WHandle_ServerSide False,
     WOH ''CMSG_FORCE_PITCH_RATE_CHANGE_ACK'' STATUS_NEVER PROCESS_INPLACE WHandle_NULL False,
     WOH ''SMSG_SPLINE_SET_PITCH_RATE'' STATUS_NEVER PROCESS_INPLACE WHandle_ServerSide False,
     WOH ''CMSG_CALENDAR_EVENT_INVITE_NOTES'' STATUS_NEVER PROCESS_INPLACE WHandle_NULL False,
     WOH ''SMSG_CALENDAR_EVENT_INVITE_NOTES'' STATUS_NEVER PROCESS_INPLACE WHandle_ServerSide False,
     WOH ''SMSG_CALENDAR_EVENT_INVITE_NOTES_ALERT'' STATUS_NEVER PROCESS_INPLACE WHandle_ServerSide False,
     WOH ''CMSG_UPDATE_MISSILE_TRAJECTORY'' STATUS_LOGGEDIN PROCESS_THREADUNSAFE (WorldHandler ''HandleUpdateMissileTrajectory'') False,
     WOH ''SMSG_UPDATE_ACCOUNT_DATA_COMPLETE'' STATUS_NEVER PROCESS_INPLACE WHandle_ServerSide False,
     WOH ''SMSG_TRIGGER_MOVIE'' STATUS_NEVER PROCESS_INPLACE WHandle_ServerSide False,
     WOH ''CMSG_COMPLETE_MOVIE'' STATUS_NEVER PROCESS_INPLACE WHandle_NULL False,
     WOH ''CMSG_SET_GLYPH_SLOT'' STATUS_NEVER PROCESS_INPLACE WHandle_NULL False,
     WOH ''CMSG_SET_GLYPH'' STATUS_NEVER PROCESS_INPLACE WHandle_NULL False,
     WOH ''SMSG_ACHIEVEMENT_EARNED'' STATUS_NEVER PROCESS_INPLACE WHandle_ServerSide False,
     WOH ''SMSG_DYNAMIC_DROP_ROLL_RESULT'' STATUS_NEVER PROCESS_INPLACE WHandle_ServerSide False,
     WOH ''SMSG_CRITERIA_UPDATE'' STATUS_NEVER PROCESS_INPLACE WHandle_ServerSide False,
     WOH ''CMSG_QUERY_INSPECT_ACHIEVEMENTS'' STATUS_LOGGEDIN PROCESS_THREADSAFE (WorldHandler ''HandleQueryInspectAchievements'') False,
     WOH ''SMSG_RESPOND_INSPECT_ACHIEVEMENTS'' STATUS_NEVER PROCESS_INPLACE WHandle_ServerSide False,
     WOH ''CMSG_DISMISS_CONTROLLED_VEHICLE'' STATUS_LOGGEDIN PROCESS_THREADSAFE (WorldHandler ''HandleDismissControlledVehicle'') False,
     WOH ''CMSG_COMPLETE_ACHIEVEMENT_CHEAT'' STATUS_NEVER PROCESS_INPLACE WHandle_NULL False,
     WOH ''SMSG_QUESTUPDATE_ADD_PVP_KILL'' STATUS_NEVER PROCESS_INPLACE WHandle_ServerSide False,
     WOH ''CMSG_SET_CRITERIA_CHEAT'' STATUS_NEVER PROCESS_INPLACE WHandle_NULL False,
     WOH ''SMSG_CALENDAR_RAID_LOCKOUT_UPDATED'' STATUS_NEVER PROCESS_INPLACE WHandle_ServerSide False,
     WOH ''CMSG_UNITANIMTIER_CHEAT'' STATUS_NEVER PROCESS_INPLACE WHandle_NULL False,
     WOH ''CMSG_CHAR_CUSTOMIZE'' STATUS_AUTHED PROCESS_THREADUNSAFE (WorldHandler ''HandleCharCustomize'') False,
     WOH ''SMSG_CHAR_CUSTOMIZE'' STATUS_NEVER PROCESS_INPLACE WHandle_ServerSide False,
     WOH ''SMSG_PET_RENAMEABLE'' STATUS_NEVER PROCESS_INPLACE WHandle_ServerSide False,
     WOH ''CMSG_REQUEST_VEHICLE_EXIT'' STATUS_LOGGEDIN PROCESS_THREADSAFE (WorldHandler ''HandleRequestVehicleExit'') False,
     WOH ''CMSG_REQUEST_VEHICLE_PREV_SEAT'' STATUS_LOGGEDIN PROCESS_THREADSAFE (WorldHandler ''HandleChangeSeatsOnControlledVehicle'') False,
     WOH ''CMSG_REQUEST_VEHICLE_NEXT_SEAT'' STATUS_LOGGEDIN PROCESS_THREADSAFE (WorldHandler ''HandleChangeSeatsOnControlledVehicle'') False,
     WOH ''CMSG_REQUEST_VEHICLE_SWITCH_SEAT'' STATUS_LOGGEDIN PROCESS_THREADSAFE (WorldHandler ''HandleChangeSeatsOnControlledVehicle'') False,
     WOH ''CMSG_PET_LEARN_TALENT'' STATUS_LOGGEDIN PROCESS_THREADSAFE (WorldHandler ''HandlePetLearnTalent'') False,
     WOH ''CMSG_PET_UNLEARN_TALENTS'' STATUS_NEVER PROCESS_INPLACE WHandle_NULL False,
     WOH ''SMSG_SET_PHASE_SHIFT'' STATUS_NEVER PROCESS_INPLACE WHandle_ServerSide False,
     WOH ''SMSG_ALL_ACHIEVEMENT_DATA'' STATUS_NEVER PROCESS_INPLACE WHandle_ServerSide False,
     WOH ''CMSG_FORCE_SAY_CHEAT'' STATUS_NEVER PROCESS_INPLACE WHandle_NULL False,
     WOH ''SMSG_HEALTH_UPDATE'' STATUS_NEVER PROCESS_INPLACE WHandle_ServerSide False,
     WOH ''SMSG_POWER_UPDATE'' STATUS_NEVER PROCESS_INPLACE WHandle_ServerSide False,
     WOH ''CMSG_GAMEOBJ_REPORT_USE'' STATUS_LOGGEDIN PROCESS_THREADSAFE (WorldHandler ''HandleGameobjectReportUse'') False,
     WOH ''SMSG_HIGHEST_THREAT_UPDATE'' STATUS_NEVER PROCESS_INPLACE WHandle_ServerSide False,
     WOH ''SMSG_THREAT_UPDATE'' STATUS_NEVER PROCESS_INPLACE WHandle_ServerSide False,
     WOH ''SMSG_THREAT_REMOVE'' STATUS_NEVER PROCESS_INPLACE WHandle_ServerSide False,
     WOH ''SMSG_THREAT_CLEAR'' STATUS_NEVER PROCESS_INPLACE WHandle_ServerSide False,
     WOH ''SMSG_CONVERT_RUNE'' STATUS_NEVER PROCESS_INPLACE WHandle_ServerSide False,
     WOH ''SMSG_RESYNC_RUNES'' STATUS_NEVER PROCESS_INPLACE WHandle_ServerSide False,
     WOH ''SMSG_ADD_RUNE_POWER'' STATUS_NEVER PROCESS_INPLACE WHandle_ServerSide False,
     WOH ''CMSG_START_QUEST'' STATUS_NEVER PROCESS_INPLACE WHandle_NULL False,
     WOH ''CMSG_REMOVE_GLYPH'' STATUS_LOGGEDIN PROCESS_THREADSAFE (WorldHandler ''HandleRemoveGlyph'') False,
     WOH ''CMSG_DUMP_OBJECTS'' STATUS_NEVER PROCESS_INPLACE WHandle_NULL False,
     WOH ''SMSG_DUMP_OBJECTS_DATA'' STATUS_NEVER PROCESS_INPLACE WHandle_ServerSide False,
     WOH ''CMSG_DISMISS_CRITTER'' STATUS_LOGGEDIN PROCESS_THREADUNSAFE (WorldHandler ''HandleDismissCritter'') False,
     WOH ''SMSG_NOTIFY_DEST_LOC_SPELL_CAST'' STATUS_NEVER PROCESS_INPLACE WHandle_ServerSide False,
     WOH ''CMSG_AUCTION_LIST_PENDING_SALES'' STATUS_LOGGEDIN PROCESS_THREADUNSAFE (WorldHandler ''HandleAuctionListPendingSales'') False,
     WOH ''SMSG_AUCTION_LIST_PENDING_SALES'' STATUS_NEVER PROCESS_INPLACE WHandle_ServerSide False,
     WOH ''SMSG_MODIFY_COOLDOWN'' STATUS_NEVER PROCESS_INPLACE WHandle_ServerSide False,
     WOH ''SMSG_PET_UPDATE_COMBO_POINTS'' STATUS_NEVER PROCESS_INPLACE WHandle_ServerSide False,
     WOH ''CMSG_ENABLETAXI'' STATUS_LOGGEDIN PROCESS_THREADSAFE (WorldHandler ''HandleTaxiQueryAvailableNodes'') False,
     WOH ''SMSG_PRE_RESURRECT'' STATUS_NEVER PROCESS_INPLACE WHandle_ServerSide False,
     WOH ''SMSG_AURA_UPDATE_ALL'' STATUS_NEVER PROCESS_INPLACE WHandle_ServerSide False,
     WOH ''SMSG_AURA_UPDATE'' STATUS_NEVER PROCESS_INPLACE WHandle_ServerSide False,
     WOH ''CMSG_FLOOD_GRACE_CHEAT'' STATUS_NEVER PROCESS_INPLACE WHandle_NULL False]"

definition node_rows_8 :: "WorldOpcodeHandler list" where
  "node_rows_8 = [
     WOH ''SMSG_SERVER_FIRST_ACHIEVEMENT'' STATUS_NEVER PROCESS_INPLACE WHandle_ServerSide False,
     WOH ''SMSG_PET_LEARNED_SPELL'' STATUS_NEVER PROCESS_INPLACE WHandle_ServerSide False,
     WOH ''SMSG_PET_REMOVED_SPELL'' STATUS_NEVER PROCESS_INPLACE WHandle_ServerSide False,
     WOH ''CMSG_CHANGE_SEATS_ON_CONTROLLED_VEHICLE'' STATUS_LOGGEDIN PROCESS_THREADSAFE (WorldHandler ''HandleChangeSeatsOnControlledVehicle'') False,
     WOH ''CMSG_HEARTH_AND_RESURRECT'' STATUS_LOGGEDIN PROCESS_THREADSAFE (WorldHandler ''HandleHearthAndResurrect'') False,
     WOH ''SMSG_ON_CANCEL_EXPECTED_RIDE_VEHICLE_AURA'' STATUS_NEVER PROCESS_INPLACE WHandle_ServerSide False,
     WOH ''SMSG_CRITERIA_DELETED'' STATUS_NEVER PROCESS_INPLACE WHandle_ServerSide False,
     WOH ''SMSG_ACHIEVEMENT_DELETED'' STATUS_NEVER PROCESS_INPLACE WHandle_ServerSide False,
     WOH ''CMSG_SERVER_INFO_QUERY'' STATUS_NEVER PROCESS_INPLACE WHandle_NULL False,
     WOH ''SMSG_SERVER_INFO_RESPONSE'' STATUS_NEVER PROCESS_INPLACE WHandle_ServerSide False,
     WOH ''CMSG_CHECK_LOGIN_CRITERIA'' STATUS_NEVER PROCESS_INPLACE WHandle_NULL False,
     WOH ''SMSG_SERVER_BUCK_DATA_START'' STATUS_NEVER PROCESS_INPLACE WHandle_ServerSide False,
     WOH ''CMSG_SET_BREATH'' STATUS_NEVER PROCESS_INPLACE WHandle_NULL False,
     WOH ''CMSG_QUERY_VEHICLE_STATUS'' STATUS_NEVER PROCESS_INPLACE WHandle_NULL False,
     WOH ''SMSG_BATTLEGROUND_INFO_THROTTLED'' STATUS_NEVER PROCESS_INPLACE WHandle_ServerSide False,
     WOH ''SMSG_PLAYER_VEHICLE_DATA'' STATUS_NEVER PROCESS_INPLACE WHandle_ServerSide False,
     WOH ''CMSG_PLAYER_VEHICLE_ENTER'' STATUS_LOGGEDIN PROCESS_THREADUNSAFE (WorldHandler ''HandleEnterPlayerVehicle'') False,
     WOH ''CMSG_CONTROLLER_EJECT_PASSENGER'' STATUS_LOGGEDIN PROCESS_THREADUNSAFE (WorldHandler ''HandleEjectPassenger'') False,
     WOH ''SMSG_PET_GUIDS'' STATUS_NEVER PROCESS_INPLACE WHandle_ServerSide False,
     WOH ''SMSG_CLIENTCACHE_VERSION'' STATUS_NEVER PROCESS_INPLACE WHandle_ServerSide False,
     WOH ''CMSG_CHANGE_GDF_ARENA_RATING'' STATUS_NEVER PROCESS_INPLACE WHandle_NULL False,
     WOH ''CMSG_SET_ARENA_TEAM_RATING_BY_INDEX'' STATUS_NEVER PROCESS_INPLACE WHandle_NULL False,
     WOH ''CMSG_SET_ARENA_TEAM_WEEKLY_GAMES'' STATUS_NEVER PROCESS_INPLACE WHandle_NULL False,
     WOH ''CMSG_SET_ARENA_TEAM_SEASON_GAMES'' STATUS_NEVER PROCESS_INPLACE WHandle_NULL False,
     WOH ''CMSG_SET_ARENA_MEMBER_WEEKLY_GAMES'' STATUS_NEVER PROCESS_INPLACE WHandle_NULL False,
     WOH ''CMSG_SET_ARENA_MEMBER_SEASON_GAMES'' STATUS_NEVER PROCESS_INPLACE WHandle_NULL False,
     WOH ''SMSG_ITEM_REFUND_INFO_RESPONSE'' STATUS_NEVER PROCESS_INPLACE WHandle_ServerSide False,
     WOH ''CMSG_ITEM_REFUND_INFO'' STATUS_LOGGEDIN PROCESS_THREADSAFE (WorldHandler ''HandleItemRefundInfoRequest'') False,
     WOH ''CMSG_ITEM_REFUND'' STATUS_LOGGEDIN PROCESS_THREADSAFE (WorldHandler ''HandleItemRefund'') False,
     WOH ''SMSG_ITEM_REFUND_RESULT'' STATUS_NEVER PROCESS_INPLACE WHandle_ServerSide False,
     WOH ''CMSG_CORPSE_MAP_POSITION_QUERY'' STATUS_LOGGEDIN PROCESS_THREADUNSAFE (WorldHandler ''HandleCorpseMapPositionQuery'') False,
     WOH ''SMSG_CORPSE_MAP_POSITION_QUERY_RESPONSE'' STATUS_NEVER PROCESS_INPLACE WHandle_ServerSide False,
     WOH ''CMSG_UNUSED5'' STATUS_LOGGEDIN PROCESS_THREADUNSAFE WHandle_NULL False,
     WOH ''CMSG_UNUSED6'' STATUS_NEVER PROCESS_INPLACE WHandle_NULL False,
     WOH ''CMSG_CALENDAR_EVENT_SIGNUP'' STATUS_LOGGEDIN PROCESS_THREADUNSAFE (WorldHandler ''HandleCalendarEventSignup'') False,
     WOH ''SMSG_CALENDAR_CLEAR_PENDING_ACTION'' STATUS_NEVER PROCESS_INPLACE WHandle_ServerSide False,
     WOH ''SMSG_EQUIPMENT_SET_LIST'' STATUS_NEVER PROCESS_INPLACE WHandle_ServerSide False,
     WOH ''CMSG_EQUIPMENT_SET_SAVE'' STATUS_LOGGEDIN PROCESS_THREADUNSAFE (WorldHandler ''HandleEquipmentSetSave'') False,
     WOH ''CMSG_UPDATE_PROJECTILE_POSITION'' STATUS_LOGGEDIN PROCESS_THREADUNSAFE (WorldHandler ''HandleUpdateProjectilePosition'') False,
     WOH ''SMSG_SET_PROJECTILE_POSITION'' STATUS_NEVER PROCESS_INPLACE WHandle_ServerSide False,
     WOH ''SMSG_TALENTS_INFO'' STATUS_NEVER PROCESS_INPLACE WHandle_ServerSide False,
     WOH ''CMSG_LEARN_PREVIEW_TALENTS'' STATUS_LOGGEDIN PROCESS_THREADSAFE (WorldHandler ''HandleLearnPreviewTalents'') False,
     WOH ''CMSG_LEARN_PREVIEW_TALENTS_PET'' STATUS_LOGGEDIN PROCESS_THREADSAFE (WorldHandler ''HandleLearnPreviewTalentsPet'') False,
     WOH ''CMSG_SET_ACTIVE_TALENT_GROUP_OBSOLETE'' STATUS_NEVER PROCESS_INPLACE WHandle_NULL False,
     WOH ''CMSG_GM_GRANT_ACHIEVEMENT'' STATUS_NEVER PROCESS_INPLACE WHandle_NULL False,
     WOH ''CMSG_GM_REMOVE_ACHIEVEMENT'' STATUS_NEVER PROCESS_INPLACE WHandle_NULL False,
     WOH ''CMSG_GM_SET_CRITERIA_FOR_PLAYER'' STATUS_NEVER PROCESS_INPLACE WHandle_NULL False,
     WOH ''SMSG_ARENA_UNIT_DESTROYED'' STATUS_NEVER PROCESS_INPLACE WHandle_ServerSide False,
     WOH ''SMSG_ARENA_TEAM_CHANGE_FAILED_QUEUED'' STATUS_NEVER PROCESS_INPLACE WHandle_ServerSide False,
     WOH ''CMSG_PROFILEDATA_REQUEST'' STATUS_NEVER PROCESS_INPLACE WHandle_NULL False,
     WOH ''SMSG_PROFILEDATA_RESPONSE'' STATUS_NEVER PROCESS_INPLACE WHandle_ServerSide False,
     WOH ''CMSG_START_BATTLEFIELD_CHEAT'' STATUS_NEVER PROCESS_INPLACE WHandle_NULL False,
     WOH ''CMSG_END_BATTLEFIELD_CHEAT'' STATUS_NEVER PROCESS_INPLACE WHandle_NULL False,
     WOH ''SMSG_MULTIPLE_PACKETS'' STATUS_NEVER PROCESS_INPLACE WHandle_ServerSide False,
     WOH ''SMSG_MOVE_GRAVITY_DISABLE'' STATUS_NEVER PROCESS_INPLACE WHandle_ServerSide False,
     WOH ''CMSG_MOVE_GRAVITY_DISABLE_ACK'' STATUS_NEVER PROCESS_INPLACE WHandle_NULL False,
     WOH ''SMSG_MOVE_GRAVITY_ENABLE'' STATUS_NEVER PROCESS_INPLACE WHandle_ServerSide False,
     WOH ''CMSG_MOVE_GRAVITY_ENABLE_ACK'' STATUS_NEVER PROCESS_INPLACE WHandle_NULL False,
     WOH ''MSG_MOVE_GRAVITY_CHNG'' STATUS_NEVER PROCESS_INPLACE WHandle_ServerSide False,
     WOH ''SMSG_SPLINE_MOVE_GRAVITY_DISABLE'' STATUS_NEVER PROCESS_INPLACE WHandle_ServerSide False,
     WOH ''SMSG_SPLINE_MOVE_GRAVITY_ENABLE'' STATUS_NEVER PROCESS_INPLACE WHandle_ServerSide False,
     WOH ''CMSG_EQUIPMENT_SET_USE'' STATUS_LOGGEDIN PROCESS_THREADSAFE (WorldHandler ''HandleEquipmentSetUse'') False,
     WOH ''SMSG_EQUIPMENT_SET_USE_RESULT'' STATUS_NEVER PROCESS_INPLACE WHandle_ServerSide False,
     WOH ''CMSG_FORCE_ANIM'' STATUS_NEVER PROCESS_INPLACE WHandle_NULL False,
     WOH ''SMSG_FORCE_ANIM'' STATUS_NEVER PROCESS_INPLACE WHandle_ServerSide False,
     WOH ''CMSG_CHAR_FACTION_CHANGE'' STATUS_AUTHED PROCESS_THREADUNSAFE (WorldHandler ''HandleCharFactionOrRaceChange'') False,
     WOH ''SMSG_CHAR_FACTION_CHANGE'' STATUS_NEVER PROCESS_INPLACE WHandle_ServerSide False,
     WOH ''CMSG_PVP_QUEUE_STATS_REQUEST'' STATUS_NEVER PROCESS_INPLACE WHandle_NULL False,
     WOH ''SMSG_PVP_QUEUE_STATS'' STATUS_NEVER PROCESS_INPLACE WHandle_ServerSide False,
     WOH ''CMSG_SET_PAID_SERVICE_CHEAT'' STATUS_NEVER PROCESS_INPLACE WHandle_NULL False,
     WOH ''SMSG_BATTLEFIELD_MGR_ENTRY_INVITE'' STATUS_NEVER PROCESS_INPLACE WHandle_ServerSide False,
     WOH ''CMSG_BATTLEFIELD_MGR_ENTRY_INVITE_RESPONSE'' STATUS_LOGGEDIN PROCESS_THREADUNSAFE (WorldHandler ''HandleBfEntryInviteResponse'') False,
     WOH ''SMSG_BATTLEFIELD_MGR_ENTERED'' STATUS_NEVER PROCESS_INPLACE WHandle_ServerSide False,
     WOH ''SMSG_BATTLEFIELD_MGR_QUEUE_INVITE'' STATUS_NEVER PROCESS_INPLACE WHandle_ServerSide False,
     WOH ''CMSG_BATTLEFIELD_MGR_QUEUE_INVITE_RESPONSE'' STATUS_LOGGEDIN PROCESS_THREADUNSAFE (WorldHandler ''HandleBfQueueInviteResponse'') False,
     WOH ''CMSG_BATTLEFIELD_MGR_QUEUE_REQUEST'' STATUS_NEVER PROCESS_INPLACE WHandle_NULL False,
     WOH ''SMSG_BATTLEFIELD_MGR_QUEUE_REQUEST_RESPONSE'' STATUS_NEVER PROCESS_INPLACE WHandle_ServerSide False,
     WOH ''SMSG_BATTLEFIELD_MGR_EJECT_PENDING'' STATUS_NEVER PROCESS_INPLACE WHandle_ServerSide False,
     WOH ''SMSG_BATTLEFIELD_MGR_EJECTED'' STATUS_NEVER PROCESS_INPLACE WHandle_ServerSide False,
     WOH ''CMSG_BATTLEFIELD_MGR_EXIT_REQUEST'' STATUS_LOGGEDIN PROCESS_THREADUNSAFE (WorldHandler ''HandleBfExitRequest'') False,
     WOH ''SMSG_BATTLEFIELD_MGR_STATE_CHANGE'' STATUS_NEVER PROCESS_INPLACE WHandle_ServerSide False,
     WOH ''CMSG_BATTLEFIELD_MANAGER_ADVANCE_STATE'' STATUS_NEVER PROCESS_INPLACE WHandle_NULL False,
     WOH ''CMSG_BATTLEFIELD_MANAGER_SET_NEXT_TRANSITION_TIME'' STATUS_NEVER PROCESS_INPLACE WHandle_NULL False,
     WOH ''MSG_SET_RAID_DIFFICULTY'' STATUS_LOGGEDIN PROCESS_THREADUNSAFE (WorldHandler ''HandleSetRaidDifficultyOpcode'') False,
     WOH ''CMSG_TOGGLE_XP_GAIN'' STATUS_NEVER PROCESS_INPLACE WHandle_NULL False,
     WOH ''SMSG_TOGGLE_XP_GAIN'' STATUS_NEVER PROCESS_INPLACE WHandle_ServerSide False,
     WOH ''SMSG_GMRESPONSE_DB_ERROR'' STATUS_NEVER PROCESS_INPLACE WHandle_ServerSide False,
     WOH ''SMSG_GMRESPONSE_RECEIVED'' STATUS_NEVER PROCESS_INPLACE WHandle_ServerSide False,
     WOH ''CMSG_GMRESPONSE_RESOLVE'' STATUS_LOGGEDIN PROCESS_THREADUNSAFE (WorldHandler ''HandleGMResponseResolve'') False,
     WOH ''SMSG_GMRESPONSE_STATUS_UPDATE'' STATUS_NEVER PROCESS_INPLACE WHandle_ServerSide False,
     WOH ''SMSG_GMRESPONSE_CREATE_TICKET'' STATUS_NEVER PROCESS_INPLACE WHandle_ServerSide False,
     WOH ''CMSG_GMRESPONSE_CREATE_TICKET'' STATUS_NEVER PROCESS_INPLACE WHandle_NULL False,
     WOH ''CMSG_SERVERINFO'' STATUS_NEVER PROCESS_INPLACE WHandle_NULL False,
     WOH ''SMSG_SERVERINFO'' STATUS_NEVER PROCESS_INPLACE WHandle_ServerSide False,
     WOH ''CMSG_WORLD_STATE_UI_TIMER_UPDATE'' STATUS_LOGGEDIN PROCESS_INPLACE (WorldHandler ''HandleWorldStateUITimerUpdate'') False,
     WOH ''SMSG_WORLD_STATE_UI_TIMER_UPDATE'' STATUS_NEVER PROCESS_INPLACE WHandle_ServerSide False,
     WOH ''CMSG_CHAR_RACE_CHANGE'' STATUS_AUTHED PROCESS_THREADUNSAFE (WorldHandler ''HandleCharFactionOrRaceChange'') False,
     WOH ''MSG_VIEW_PHASE_SHIFT'' STATUS_NEVER PROCESS_INPLACE WHandle_NULL False,
     WOH ''SMSG_TALENTS_INVOLUNTARILY_RESET'' STATUS_NEVER PROCESS_INPLACE WHandle_ServerSide False,
     WOH ''CMSG_DEBUG_SERVER_GEO'' STATUS_NEVER PROCESS_INPLACE WHandle_NULL False,
     WOH ''SMSG_DEBUG_SERVER_GEO'' STATUS_NEVER PROCESS_INPLACE WHandle_ServerSide False,
     WOH ''SMSG_LOOT_SLOT_CHANGED'' STATUS_NEVER PROCESS_INPLACE WHandle_ServerSide False,
     WOH ''UMSG_UPDATE_GROUP_INFO'' STATUS_NEVER PROCESS_INPLACE WHandle_NULL False,
     WOH ''CMSG_READY_FOR_ACCOUNT_DATA_TIMES'' STATUS_AUTHED PROCESS_THREADUNSAFE (WorldHandler ''HandleReadyForAccountDataTimes'') False,
     WOH ''CMSG_QUERY_QUESTS_COMPLETED'' STATUS_LOGGEDIN PROCESS_THREADSAFE (WorldHandler ''HandleQueryQuestsCompleted'') False,
     WOH ''SMSG_QUERY_QUESTS_COMPLETED_RESPONSE'' STATUS_NEVER PROCESS_INPLACE WHandle_ServerSide False,
     WOH ''CMSG_GM_REPORT_LAG'' STATUS_LOGGEDIN PROCESS_THREADUNSAFE (WorldHandler ''HandleReportLag'') False,
     WOH ''CMSG_AFK_MONITOR_INFO_REQUEST'' STATUS_NEVER PROCESS_INPLACE WHandle_NULL False,
     WOH ''SMSG_AFK_MONITOR_INFO_RESPONSE'' STATUS_NEVER PROCESS_INPLACE WHandle_ServerSide False,
     WOH ''CMSG_AFK_MONITOR_INFO_CLEAR'' STATUS_NEVER PROCESS_INPLACE WHandle_NULL False,
     WOH ''SMSG_CORPSE_IS_NOT_IN_INSTANCE'' STATUS_NEVER PROCESS_INPLACE WHandle_ServerSide False,
     WOH ''CMSG_GM_NUKE_CHARACTER'' STATUS_NEVER PROCESS_INPLACE WHandle_NULL False,
     WOH ''CMSG_SET_ALLOW_LOW_LEVEL_RAID1'' STATUS_NEVER PROCESS_INPLACE WHandle_NULL False,
     WOH ''CMSG_SET_ALLOW_LOW_LEVEL_RAID2'' STATUS_NEVER PROCESS_INPLACE WHandle_NULL False,
     WOH ''SMSG_CAMERA_SHAKE'' STATUS_NEVER PROCESS_INPLACE WHandle_ServerSide False,
     WOH ''SMSG_SOCKET_GEMS_RESULT'' STATUS_NEVER PROCESS_INPLACE WHandle_ServerSide False,
     WOH ''CMSG_SET_CHARACTER_MODEL'' STATUS_NEVER PROCESS_INPLACE WHandle_NULL False,
     WOH ''SMSG_REDIRECT_CLIENT'' STATUS_NEVER PROCESS_INPLACE WHandle_ServerSide False,
     WOH ''CMSG_REDIRECTION_FAILED'' STATUS_NEVER PROCESS_INPLACE WHandle_NULL False,
     WOH ''SMSG_SUSPEND_COMMS'' STATUS_NEVER PROCESS_INPLACE WHandle_ServerSide False,
     WOH ''CMSG_SUSPEND_COMMS_ACK'' STATUS_NEVER PROCESS_INPLACE WHandle_NULL False,
     WOH ''SMSG_FORCE_SEND_QUEUED_PACKETS'' STATUS_NEVER PROCESS_INPLACE WHandle_ServerSide False,
     WOH ''CMSG_REDIRECTION_AUTH_PROOF'' STATUS_NEVER PROCESS_INPLACE WHandle_NULL False,
     WOH ''CMSG_DROP_NEW_CONNECTION'' STATUS_NEVER PROCESS_INPLACE WHandle_NULL False,
     WOH ''SMSG_SEND_ALL_COMBAT_LOG'' STATUS_NEVER PROCESS_INPLACE WHandle_ServerSide False,
     WOH ''SMSG_OPEN_LFG_DUNGEON_FINDER'' STATUS_NEVER PROCESS_INPLACE WHandle_ServerSide False,
     WOH ''SMSG_MOVE_SET_COLLISION_HGT'' STATUS_NEVER PROCESS_INPLACE WHandle_ServerSide False,
     WOH ''CMSG_MOVE_SET_COLLISION_HGT_ACK'' STATUS_UNHANDLED PROCESS_INPLACE WHandle_NULL False,
     WOH ''MSG_MOVE_SET_COLLISION_HGT'' STATUS_NEVER PROCESS_INPLACE WHandle_NULL False,
     WOH ''CMSG_CLEAR_RANDOM_BG_WIN_TIME'' STATUS_NEVER PROCESS_INPLACE WHandle_NULL False,
     WOH ''CMSG_CLEAR_HOLIDAY_BG_WIN_TIME'' STATUS_NEVER PROCESS_INPLACE WHandle_NULL False,
     WOH ''CMSG_COMMENTATOR_SKIRMISH_QUEUE_COMMAND'' STATUS_NEVER PROCESS_INPLACE WHandle_NULL False,
     WOH ''SMSG_COMMENTATOR_SKIRMISH_QUEUE_RESULT1'' STATUS_NEVER PROCESS_INPLACE WHandle_ServerSide False,
     WOH ''SMSG_COMMENTATOR_SKIRMISH_QUEUE_RESULT2'' STATUS_NEVER PROCESS_INPLACE WHandle_ServerSide False,
     WOH ''SMSG_COMPRESSED_UNKNOWN_1310'' STATUS_NEVER PROCESS_INPLACE WHandle_ServerSide False,
     WOH ''NUM_CLIENT_MSG_TYPES'' STATUS_NEVER PROCESS_INPLACE WHandle_NULL False,
     WOH ''LOGON_AUTH_MASTER'' STATUS_NEVER PROCESS_INPLACE WHandle_ServerSide False,
     WOH ''LOGON_INIT_NODE'' STATUS_NEVER PROCESS_INPLACE WHandle_NULL False,
     WOH ''NODE_INIT_ACK'' STATUS_NEVER PROCESS_INPLACE WHandle_ServerSide False,
     WOH ''LOGON_SYNC_DATA'' STATUS_NEVER PROCESS_INPLACE WHandle_ServerSide False,
     WOH ''NODE_SYNC_DATA'' STATUS_NEVER PROCESS_INPLACE WHandle_ServerSide False,
     WOH ''NODE_PLAYER_CHANGED_ZONE'' STATUS_NEVER PROCESS_INPLACE WHandle_ServerSide False,
     WOH ''NODE_PLAYER_DATA'' STATUS_NEVER PROCESS_INPLACE WHandle_ServerSide False,
     WOH ''NODE_MISC_DATA'' STATUS_NEVER PROCESS_INPLACE WHandle_ServerSide False,
     WOH ''NODE_PLAYERHOLDER_DATA'' STATUS_NEVER PROCESS_INPLACE WHandle_ServerSide False,
     WOH ''CLUSTER_PLAYER_DATA'' STATUS_LOGGEDIN PROCESS_INPLACE HandleNodeDataReciever False]"

definition node_zero_row :: WorldOpcodeHandler where
  "node_zero_row = WOH [] STATUS_AUTHED PROCESS_INPLACE WNullPointer False"

definition world_opcodeTable :: "WorldOpcodeHandler list" where
  "world_opcodeTable = node_rows_0 @ node_rows_1 @ node_rows_2 @ node_rows_3 @ node_rows_4 @ node_rows_5 @ node_rows_6 @ node_rows_7 @ node_rows_8 @ replicate (NUM_MSG_TYPES - 1322) node_zero_row"
definition world_LookupOpcodeName :: "u16 \<Rightarrow> string" where
  "world_LookupOpcodeName i =
     (if NUM_MSG_TYPES \<le> unat i then ''Received unknown opcode, it's more than max!''
      else woh_name (world_opcodeTable ! unat i))"

lemma length_node_rows:
  "length node_rows_0 = 147" "length node_rows_1 = 147" "length node_rows_2 = 147"
  "length node_rows_3 = 147" "length node_rows_4 = 147" "length node_rows_5 = 147"
  "length node_rows_6 = 147" "length node_rows_7 = 147" "length node_rows_8 = 146"
  by (simp_all add: node_rows_0_def node_rows_1_def node_rows_2_def node_rows_3_def
      node_rows_4_def node_rows_5_def node_rows_6_def node_rows_7_def node_rows_8_def)

lemma length_world_opcodeTable [simp]: "length world_opcodeTable = NUM_MSG_TYPES"
  by (simp add: world_opcodeTable_def length_node_rows NUM_MSG_TYPES_def)

section \<open>The two tables agree\<close>

text \<open>
  What the proxy passes on for a client in some state, the node processes in that state or drops; it
  never goes to the handler for the proxy's own packets or to a null pointer.
\<close>

definition proxy_passes_row :: "OpcodeHandler \<Rightarrow> bool" where
  "proxy_passes_row p \<longleftrightarrow> (to_node p = PACKET_STATE_NODE \<or> to_node p = PACKET_STATE_BOTH) \<and>
     (status p = STATUS_AUTHED \<or> status p = STATUS_LOGGEDIN \<or> status p = STATUS_TRANSFER)"

definition rows_agree :: "OpcodeHandler \<Rightarrow> WorldOpcodeHandler \<Rightarrow> bool" where
  "rows_agree p n \<longleftrightarrow> (proxy_passes_row p \<longrightarrow>
     (woh_status n = status p \<or> woh_status n = STATUS_NEVER) \<and>
     woh_handler n \<noteq> WNullPointer \<and> woh_handler n \<noteq> HandleNodeDataReciever)"

lemma rows_agree_0: "list_all2 rows_agree opcode_rows_0 node_rows_0"
  by (simp add: opcode_rows_0_def node_rows_0_def rows_agree_def proxy_passes_row_def)

lemma rows_agree_1: "list_all2 rows_agree opcode_rows_1 node_rows_1"
  by (simp add: opcode_rows_1_def node_rows_1_def rows_agree_def proxy_passes_row_def)

lemma rows_agree_2: "list_all2 rows_agree opcode_rows_2 node_rows_2"
  by (simp add: opcode_rows_2_def node_rows_2_def rows_agree_def proxy_passes_row_def)

lemma rows_agree_3: "list_all2 rows_agree opcode_rows_3 node_rows_3"
  by (simp add: opcode_rows_3_def node_rows_3_def rows_agree_def proxy_passes_row_def)

lemma rows_agree_4: "list_all2 rows_agree opcode_rows_4 node_rows_4"
  by (simp add: opcode_rows_4_def node_rows_4_def rows_agree_def proxy_passes_row_def)

lemma rows_agree_5: "list_all2 rows_agree opcode_rows_5 node_rows_5"
  by (simp add: opcode_rows_5_def node_rows_5_def rows_agree_def proxy_passes_row_def)

lemma rows_agree_6: "list_all2 rows_agree opcode_rows_6 node_rows_6"
  by (simp add: opcode_rows_6_def node_rows_6_def rows_agree_def proxy_passes_row_def)

lemma rows_agree_7: "list_all2 rows_agree opcode_rows_7 node_rows_7"
  by (simp add: opcode_rows_7_def node_rows_7_def rows_agree_def proxy_passes_row_def)

lemma rows_agree_8: "list_all2 rows_agree (opcode_rows_8 @ [zero_row]) node_rows_8"
  by (simp add: opcode_rows_8_def node_rows_8_def zero_row_def rows_agree_def proxy_passes_row_def)

lemma rows_agree_zero: "rows_agree zero_row n"
  by (simp add: rows_agree_def proxy_passes_row_def zero_row_def)

lemma tables_agree: "list_all2 rows_agree opcodeTable world_opcodeTable"
proof -
  have "list_all2 rows_agree
      (opcode_rows_0 @ opcode_rows_1 @ opcode_rows_2 @ opcode_rows_3 @ opcode_rows_4 @ opcode_rows_5 @
        opcode_rows_6 @ opcode_rows_7 @ (opcode_rows_8 @ [zero_row]) @ replicate 3 zero_row)
      (node_rows_0 @ node_rows_1 @ node_rows_2 @ node_rows_3 @ node_rows_4 @ node_rows_5 @ node_rows_6 @
        node_rows_7 @ node_rows_8 @ replicate 3 node_zero_row)"
    by (intro list_all2_appendI rows_agree_0 rows_agree_1 rows_agree_2 rows_agree_3 rows_agree_4
        rows_agree_5 rows_agree_6 rows_agree_7 rows_agree_8)
      (simp add: list_all2_conv_all_nth rows_agree_zero)
  then show ?thesis
    by (simp add: opcodeTable_def world_opcodeTable_def NUM_MSG_TYPES_def numeral_eq_Suc)
qed

lemma nth_tables_agree:
  "n < NUM_MSG_TYPES \<Longrightarrow> rows_agree (opcodeTable ! n) (world_opcodeTable ! n)"
  using tables_agree by (auto simp: list_all2_conv_all_nth)

lemma world_table_tail:
  "drop 0x528 world_opcodeTable =
    [WOH ''NODE_PLAYERHOLDER_DATA'' STATUS_NEVER PROCESS_INPLACE WHandle_ServerSide False,
     WOH ''CLUSTER_PLAYER_DATA'' STATUS_LOGGEDIN PROCESS_INPLACE HandleNodeDataReciever False,
     node_zero_row, node_zero_row, node_zero_row]"
  by (simp add: world_opcodeTable_def length_node_rows drop_append NUM_MSG_TYPES_def)
    (simp add: node_rows_8_def numeral_eq_Suc)

end
