(* ===== verification/WorldLink.thy ===== *)
theory WorldLink
  imports PoolSocket NodeOpcodes StdMap SessionMgr
begin

text \<open>
  The node's end of a player's link, \<open>game/Server/WorldSocket.cpp\<close> and \<open>WorldSession.cpp\<close>: the proxy
  logs in for the client, the socket queues its packets, and the session processes them in two
  threads, \<open>World::UpdateSessions\<close> and \<open>Map::Update\<close>, each with a filter of its own.

  The socket is a copy of the node's \<open>PoolSocket\<close> with another session behind it: its record extends
  that of the pool's link (whose own session it does not use) and holds the pointer \<open>m_Session\<close>
  (\<open>pl_m_Session\<close>, null or not), the session, which outlives the pointer, and whether
  \<open>sWorld->AddSession\<close> was called for it. What the game does with a player (the handlers of the
  opcodes, loading, leaving the world) and the database are arguments.
\<close>

section \<open>State\<close>

record wplayer =
  wp_guid :: u64
  wp_inWorld :: bool
  wp_zoneUpdateId :: u32

record wsession =
  ws_m_Socket :: bool
  ws_accountId :: u32
  ws_security :: u32
  ws_expansion :: u8
  ws_muteTime :: int
  ws_locale :: u8
  ws_recruiterId :: u32
  ws_isRecruiter :: bool
  ws_skipQueue :: bool
  ws_authenticated :: bool
  ws_forceTele :: bool
  ws_player :: "wplayer option"
  ws_GUIDLow :: u32
  ws_logoutTime :: int
  ws_inQueue :: bool
  ws_playerLoading :: bool
  ws_playerLogout :: bool
  ws_playerRecentlyLogout :: bool
  ws_playerSave :: bool
  ws_latency :: u32
  ws_clientTimeDelay :: u32
  ws_timeOutTime :: int
  ws_kicked :: bool
  ws_shouldSetOfflineInDB :: bool
  ws_newNode :: u32
  ws_SentToNode :: bool
  ws_m_Tutorials :: "u32 list"
  ws_recvQueue :: "wpacket locked_queue"

record 'c world_link = "'c pool_link" +
  wl_session :: "wsession option"
  wl_OverSpeedPings :: u32
  wl_AddSession :: bool

text \<open>
  What the login reads: a row of \<open>account\<close> as the texts of its ten columns (\<open>None\<close> is NULL), and the
  settings of the world.
\<close>

record account_row =
  ar_id :: "bytes option"
  ar_sessionkey :: "bytes option"
  ar_last_ip :: "bytes option"
  ar_locked :: "bytes option"
  ar_v :: "bytes option"
  ar_s :: "bytes option"
  ar_expansion :: "bytes option"
  ar_mutetime :: "bytes option"
  ar_locale :: "bytes option"
  ar_recruiter :: "bytes option"

record login_db =
  ldb_account :: "bytes \<Rightarrow> account_row option"
  ldb_banned :: "u32 \<Rightarrow> bool"
  ldb_recruits :: "u32 \<Rightarrow> bool"
  ldb_tutorials :: "u32 \<Rightarrow> u32 list option"

record world_settings =
  wc_closed :: bool
  wc_expansion :: u32
  wc_allowedSecurityLevel :: u32
  wc_timeout :: u32
  wc_maxOverspeedPings :: u32
  wc_realmId :: u32
  wc_clientcache :: u32

section \<open>Output\<close>

definition WorldSocket_CloseSocket :: "('c, 'z) pool_link_scheme \<Rightarrow> ('c, 'z) pool_link_scheme" where
  "WorldSocket_CloseSocket s =
     (if sk_closing s then s else s\<lparr>sk_closing := True, pl_m_Session := False\<rparr>)"

definition WorldSocket_handle_close :: "('c, 'z) pool_link_scheme \<Rightarrow> ('c, 'z) pool_link_scheme" where
  "WorldSocket_handle_close s = s\<lparr>sk_closing := True, pl_m_Session := False\<rparr>"

definition WorldSocket_SendPacket ::
  "('c \<Rightarrow> bytes \<Rightarrow> bytes \<times> 'c) \<Rightarrow> (bytes list \<Rightarrow> bool) \<Rightarrow> wpacket \<Rightarrow>
   ('c, 'z) pool_link_scheme \<Rightarrow> int \<times> ('c, 'z) pool_link_scheme" where
  "WorldSocket_SendPacket upd q_full pct s =
     (if sk_closing s then (-1, s)
      else
        (let header = Flexi_ServerPktHeader (word_of_nat (bb_size (buf pct) + 2)) (opcode pct)
         in case AuthCrypt_EncryptSend upd (take (Flexi_getHeaderLength header) (fsh_header header)) (sk_crypt s) of
              (hdr, crypt) \<Rightarrow> sock_put q_full (hdr @ storage (buf pct)) (s\<lparr>sk_crypt := crypt\<rparr>)))"

definition WorldSocket_cancel_wakeup_output ::
  "bool \<Rightarrow> ('c, 'z) pool_link_scheme \<Rightarrow> int \<times> ('c, 'z) pool_link_scheme" where
  "WorldSocket_cancel_wakeup_output wake s =
     (if \<not> pl_OutActive s then (0, s)
      else (if wake then 0 else -1, s\<lparr>pl_OutActive := False\<rparr>))"

definition WorldSocket_schedule_wakeup_output ::
  "bool \<Rightarrow> ('c, 'z) pool_link_scheme \<Rightarrow> int \<times> ('c, 'z) pool_link_scheme" where
  "WorldSocket_schedule_wakeup_output wake s =
     (if pl_OutActive s then (0, s)
      else (if wake then 0 else -1, s\<lparr>pl_OutActive := True\<rparr>))"

definition WorldSocket_handle_output_queue ::
  "(bytes list \<Rightarrow> bool) \<Rightarrow> bool \<Rightarrow> send_result \<Rightarrow> ('c, 'z) pool_link_scheme \<Rightarrow>
   int \<times> ('c, 'z) pool_link_scheme \<times> bytes" where
  "WorldSocket_handle_output_queue q_full wake r s =
     (case sk_msg_queue s of
        [] \<Rightarrow> with_wire (WorldSocket_cancel_wakeup_output wake s) []
      | mblk # rest \<Rightarrow>
         (let s1 = s\<lparr>sk_msg_queue := rest\<rparr>
          in case r of
               SendWouldBlock \<Rightarrow>
                 with_wire (WorldSocket_schedule_wakeup_output wake
                   (if q_full rest then s1 else s1\<lparr>sk_msg_queue := mblk # rest\<rparr>)) []
             | SendError \<Rightarrow> (-1, s1, [])
             | Sent n \<Rightarrow>
                 (if n = 0 then (-1, s1, [])
                  else if n < length mblk then
                    (if q_full rest then (-1, s1, take n mblk)
                     else with_wire (WorldSocket_schedule_wakeup_output wake
                       (s1\<lparr>sk_msg_queue := drop n mblk # rest\<rparr>)) (take n mblk))
                  else if rest = [] then with_wire (WorldSocket_cancel_wakeup_output wake s1) mblk
                  else (WRITE_MASK, s1, mblk))))"

definition WorldSocket_handle_output ::
  "(bytes list \<Rightarrow> bool) \<Rightarrow> bool \<Rightarrow> send_result \<Rightarrow> send_result \<Rightarrow> ('c, 'z) pool_link_scheme \<Rightarrow>
   int \<times> ('c, 'z) pool_link_scheme \<times> bytes" where
  "WorldSocket_handle_output q_full wake r r2 s =
     (if sk_closing s then (-1, s, [])
      else
        (let out = mb_unread (sk_outBuffer s)
         in if out = [] then WorldSocket_handle_output_queue q_full wake r2 s
            else (case r of
                SendWouldBlock \<Rightarrow> with_wire (WorldSocket_schedule_wakeup_output wake s) []
              | SendError \<Rightarrow> (-1, s, [])
              | Sent n \<Rightarrow>
                  (if n = 0 then (-1, s, [])
                   else if n < length out then
                     with_wire (WorldSocket_schedule_wakeup_output wake
                       (s\<lparr>sk_outBuffer := (sk_outBuffer s)\<lparr>mb_rd := 0, mb_data := drop n out\<rparr>\<rparr>)) (take n out)
                   else (case WorldSocket_handle_output_queue q_full wake r2
                             (s\<lparr>sk_outBuffer := mb_reset (sk_outBuffer s)\<rparr>) of
                         (i, s1, sent) \<Rightarrow> (i, s1, out @ sent))))))"

text \<open>The rounds of \<open>Update\<close>; \<open>None\<close>: more rounds than outcomes.\<close>

fun world_output_rounds ::
  "(bytes list \<Rightarrow> bool) \<Rightarrow> bool \<Rightarrow> (send_result \<times> send_result) list \<Rightarrow> ('c, 'z) pool_link_scheme \<Rightarrow>
   (int \<times> ('c, 'z) pool_link_scheme \<times> bytes) option" where
  "world_output_rounds q_full wake [] s = None"
| "world_output_rounds q_full wake ((r, r2) # rs) s =
     (case WorldSocket_handle_output q_full wake r r2 s of
        (ret, s1, bs) \<Rightarrow>
          if ret > 0 then map_option (\<lambda>(i, s2, bs2). (i, s2, bs @ bs2)) (world_output_rounds q_full wake rs s1)
          else Some (ret, s1, bs))"

definition WorldSocket_Update ::
  "(bytes list \<Rightarrow> bool) \<Rightarrow> bool \<Rightarrow> (send_result \<times> send_result) list \<Rightarrow> ('c, 'z) pool_link_scheme \<Rightarrow>
   (int \<times> ('c, 'z) pool_link_scheme \<times> bytes) option" where
  "WorldSocket_Update q_full wake rs s =
     (if sk_closing s then Some (-1, s, [])
      else if pl_OutActive s then Some (0, s, [])
      else if mb_unread (sk_outBuffer s) = [] \<and> sk_msg_queue s = [] then Some (0, s, [])
      else world_output_rounds q_full wake rs s)"

definition WorldSocket_open ::
  "('c \<Rightarrow> bytes \<Rightarrow> bytes \<times> 'c) \<Rightarrow> (bytes list \<Rightarrow> bool) \<Rightarrow> bytes \<Rightarrow> bytes \<Rightarrow>
   ('c, 'z) pool_link_scheme \<Rightarrow> int \<times> ('c, 'z) pool_link_scheme" where
  "WorldSocket_open upd q_full seed1 seed2 s =
     (case WorldSocket_SendPacket upd q_full
         (mk_pkt SMSG_AUTH_CHALLENGE ([U32 1, U32 (pl_Seed s)] @ map U8 seed1 @ map U8 seed2))
         (s\<lparr>pl_OutActive := True\<rparr>) of
        (r, s1) \<Rightarrow> if r = -1 then (-1, s1) else (0, s1))"

text \<open>Both ends of the node share the code, so that what is proved of the one holds of the other.\<close>

lemma World_is_Pool:
  "WorldSocket_CloseSocket = PoolSocket_CloseSocket" "WorldSocket_handle_close = PoolSocket_handle_close"
  "WorldSocket_SendPacket = PoolSocket_SendPacket"
  "WorldSocket_cancel_wakeup_output = PoolSocket_cancel_wakeup_output"
  "WorldSocket_schedule_wakeup_output = PoolSocket_schedule_wakeup_output"
  by (intro ext, simp add: WorldSocket_CloseSocket_def PoolSocket_CloseSocket_def WorldSocket_handle_close_def
      PoolSocket_handle_close_def WorldSocket_SendPacket_def PoolSocket_SendPacket_def
      WorldSocket_cancel_wakeup_output_def PoolSocket_cancel_wakeup_output_def
      WorldSocket_schedule_wakeup_output_def PoolSocket_schedule_wakeup_output_def)+

lemma World_is_Pool_queue: "WorldSocket_handle_output_queue = PoolSocket_handle_output_queue"
  by (intro ext) (unfold WorldSocket_handle_output_queue_def PoolSocket_handle_output_queue_def World_is_Pool, rule refl)

lemma World_is_Pool_output: "WorldSocket_handle_output = PoolSocket_handle_output"
  by (intro ext) (unfold WorldSocket_handle_output_def PoolSocket_handle_output_def World_is_Pool World_is_Pool_queue, rule refl)

interpretation world_out: sending "WorldSocket_SendPacket upd q_full" "WorldSocket_handle_output q_full"
  "flexi_block upd" q_full for upd q_full
  unfolding World_is_Pool World_is_Pool_output
  by unfold_locales (rule PoolSocket_sends Pool_output_writes; assumption)+


section \<open>Session\<close>

text \<open>
  The surroundings of a session: key stream and send queue of the socket, the settings, the time of
  the world, and the game: the handlers of the opcodes by their names, the invitation into a guild,
  the database callbacks, the end of pending transfers and the leaving of the world at a logout.
\<close>

record 'c wenv =
  we_upd :: "'c \<Rightarrow> bytes \<Rightarrow> bytes \<times> 'c"
  we_full :: "bytes list \<Rightarrow> bool"
  we_cf :: world_settings
  we_time :: int
  we_handler :: "string \<Rightarrow> wpacket \<Rightarrow> 'c world_link \<Rightarrow> 'c world_link"
  we_guildInvite :: "bytes \<Rightarrow> 'c world_link \<Rightarrow> 'c world_link"
  we_callbacks :: "'c world_link \<Rightarrow> 'c world_link"
  we_worldport :: "'c world_link \<Rightarrow> 'c world_link"
  we_leave :: "bool \<Rightarrow> 'c world_link \<Rightarrow> 'c world_link"

definition ResetTimeOutTime :: "world_settings \<Rightarrow> wsession \<Rightarrow> wsession" where
  "ResetTimeOutTime cf ss = ss\<lparr>ws_timeOutTime := int (unat (wc_timeout cf))\<rparr>"

definition UpdateTimeOutTime :: "u32 \<Rightarrow> wsession \<Rightarrow> wsession" where
  "UpdateTimeOutTime diff ss =
     (if int (unat diff) > ws_timeOutTime ss then ss\<lparr>ws_timeOutTime := 0\<rparr>
      else ss\<lparr>ws_timeOutTime := ws_timeOutTime ss - int (unat diff)\<rparr>)"

definition IsConnectionIdle :: "wsession \<Rightarrow> bool" where
  "IsConnectionIdle ss \<longleftrightarrow> ws_timeOutTime ss \<le> 0 \<and> \<not> ws_inQueue ss"

definition LogoutRequest :: "int \<Rightarrow> wsession \<Rightarrow> wsession" where
  "LogoutRequest requestTime ss = ss\<lparr>ws_logoutTime := requestTime\<rparr>"

definition ShouldLogOut :: "int \<Rightarrow> wsession \<Rightarrow> bool" where
  "ShouldLogOut currTime ss \<longleftrightarrow> 0 < ws_logoutTime ss \<and> ws_logoutTime ss + 20 \<le> currTime"

definition MAX_ACCOUNT_TUTORIAL_VALUES :: nat where "MAX_ACCOUNT_TUTORIAL_VALUES = 8"

definition WorldSession_new ::
  "world_settings \<Rightarrow> u32 \<Rightarrow> bool \<Rightarrow> u32 \<Rightarrow> u8 \<Rightarrow> int \<Rightarrow> u8 \<Rightarrow> u32 \<Rightarrow> bool \<Rightarrow> bool \<Rightarrow> wsession" where
  "WorldSession_new cf i sock sec expansion mute_time locale recruiter isARecruiter skipQueue =
     (let ss = \<lparr>ws_m_Socket = sock, ws_accountId = i, ws_security = sec, ws_expansion = expansion,
            ws_muteTime = mute_time, ws_locale = locale, ws_recruiterId = recruiter,
            ws_isRecruiter = isARecruiter, ws_skipQueue = skipQueue, ws_authenticated = False,
            ws_forceTele = False, ws_player = None, ws_GUIDLow = 0, ws_logoutTime = 0, ws_inQueue = False,
            ws_playerLoading = False, ws_playerLogout = False, ws_playerRecentlyLogout = False,
            ws_playerSave = False, ws_latency = 0, ws_clientTimeDelay = 0, ws_timeOutTime = 0,
            ws_kicked = False, ws_shouldSetOfflineInDB = True, ws_newNode = 0, ws_SentToNode = False,
            ws_m_Tutorials = replicate MAX_ACCOUNT_TUTORIAL_VALUES 0, ws_recvQueue = lq_new\<rparr>
      in if sock then ResetTimeOutTime cf ss else ss)"

definition on_wsess :: "(wsession \<Rightarrow> wsession) \<Rightarrow> 'c world_link \<Rightarrow> 'c world_link" where
  "on_wsess f l = l\<lparr>wl_session := map_option f (wl_session l)\<rparr>"

definition wl_player :: "'c world_link \<Rightarrow> wplayer option" where
  "wl_player l = Option.bind (wl_session l) ws_player"

definition world_SendPacket :: "'c wenv \<Rightarrow> wpacket \<Rightarrow> 'c world_link \<Rightarrow> 'c world_link" where
  "world_SendPacket env packet l =
     (case wl_session l of
        None \<Rightarrow> l
      | Some ss \<Rightarrow>
          if \<not> ws_m_Socket ss then l
          else (case WorldSocket_SendPacket (we_upd env) (we_full env) packet l of
                  (r, l1) \<Rightarrow> if r = -1 then WorldSocket_CloseSocket l1 else l1))"

definition QueuePacket :: "wpacket \<Rightarrow> wsession \<Rightarrow> wsession" where
  "QueuePacket new_packet ss = ss\<lparr>ws_recvQueue := lq_add new_packet (ws_recvQueue ss)\<rparr>"

definition world_SetPlayer :: "wplayer option \<Rightarrow> wsession \<Rightarrow> wsession" where
  "world_SetPlayer player ss =
     (let ss1 = ss\<lparr>ws_player := player\<rparr>
      in case player of None \<Rightarrow> ss1 | Some p \<Rightarrow> ss1\<lparr>ws_GUIDLow := GUID_LOPART (wp_guid p)\<rparr>)"

definition world_KickPlayer :: "bool \<Rightarrow> 'c world_link \<Rightarrow> 'c world_link" where
  "world_KickPlayer setKicked l =
     (case wl_session l of
        None \<Rightarrow> l
      | Some ss \<Rightarrow>
          (let l1 = (if ws_m_Socket ss then WorldSocket_CloseSocket l else l)
           in if setKicked then on_wsess (\<lambda>ss. ss\<lparr>ws_kicked := True\<rparr>) l1 else l1))"

text \<open>\<open>LogoutPlayer\<close>: the transfers end before the flags are set, the game leaves the world, then the client is told.\<close>

definition LogoutPlayer :: "'c wenv \<Rightarrow> bool \<Rightarrow> 'c world_link \<Rightarrow> 'c world_link" where
  "LogoutPlayer env save l =
     (let l1 = on_wsess (\<lambda>ss. ss\<lparr>ws_playerLogout := True, ws_playerSave := save\<rparr>) (we_worldport env l);
          l2 = (if wl_player l1 \<noteq> None
                then world_SendPacket env (mk_pkt SMSG_LOGOUT_COMPLETE [])
                       (on_wsess (world_SetPlayer None) (we_leave env save l1))
                else l1)
      in on_wsess (\<lambda>ss. LogoutRequest 0 (ss\<lparr>ws_playerLogout := False, ws_playerSave := False,
           ws_playerRecentlyLogout := True\<rparr>)) l2)"

text \<open>The destructor: the queued packets go with the session.\<close>

definition WorldSession_delete :: "'c wenv \<Rightarrow> 'c world_link \<Rightarrow> 'c world_link" where
  "WorldSession_delete env l =
     (let l1 = (if wl_player l \<noteq> None then LogoutPlayer env True l else l);
          l2 = (case wl_session l1 of
                  None \<Rightarrow> l1
                | Some ss \<Rightarrow> if ws_m_Socket ss then WorldSocket_CloseSocket l1 else l1)
      in l2\<lparr>wl_session := None\<rparr>)"

definition world_SendAuthResponse :: "'c wenv \<Rightarrow> u8 \<Rightarrow> bool \<Rightarrow> u32 \<Rightarrow> 'c world_link \<Rightarrow> 'c world_link" where
  "world_SendAuthResponse env code shortForm queuePos l =
     (case wl_session l of
        None \<Rightarrow> l
      | Some ss \<Rightarrow>
          world_SendPacket env (mk_pkt SMSG_AUTH_RESPONSE
            ([U8 code, U32 0, U8 0, U32 0, U8 (ws_expansion ss)] @
             (if shortForm then [] else [U32 queuePos, U8 0]))) l)"

text \<open>The addon list of a node's session is always empty: nothing calls \<open>ReadAddonsInfo\<close> on a node.\<close>

definition world_SendAddonsInfo :: "'c wenv \<Rightarrow> 'c world_link \<Rightarrow> 'c world_link" where
  "world_SendAddonsInfo env l = world_SendPacket env (mk_pkt SMSG_ADDON_INFO [U32 0]) l"

definition world_SendClientCacheVersion :: "'c wenv \<Rightarrow> u32 \<Rightarrow> 'c world_link \<Rightarrow> 'c world_link" where
  "world_SendClientCacheVersion env version l =
     world_SendPacket env (mk_pkt SMSG_CLIENTCACHE_VERSION [U32 version]) l"

definition world_SendTutorialsData :: "'c wenv \<Rightarrow> 'c world_link \<Rightarrow> 'c world_link" where
  "world_SendTutorialsData env l =
     (case wl_session l of
        None \<Rightarrow> l
      | Some ss \<Rightarrow> world_SendPacket env (mk_pkt SMSG_TUTORIAL_FLAGS (map U32 (ws_m_Tutorials ss))) l)"

text \<open>
  \<open>SendChangeNode\<close> asks for the move; \<open>Update\<close> sends the order to the proxy. The saving of the player
  and what its surroundings are told are the game's.
\<close>

definition SMSG_NOTIFICATION :: u16 where "SMSG_NOTIFICATION = 0x1CB"

definition SendChangeNode :: "'c wenv \<Rightarrow> u32 \<Rightarrow> 'c world_link \<Rightarrow> 'c world_link" where
  "SendChangeNode env NodeID l =
     on_wsess (\<lambda>ss. ss\<lparr>ws_newNode := NodeID\<rparr>)
       (world_SendPacket env (mk_pkt SMSG_NOTIFICATION
          [Str (ascii ''Performing a save and changing node...'')]) l)"

section \<open>Input\<close>

definition WorldSocket_handle_input_header ::
  "('c \<Rightarrow> bytes \<Rightarrow> bytes \<times> 'c) \<Rightarrow> ('c, 'z) input_header" where
  "WorldSocket_handle_input_header upd s =
     (if sk_recvWPct s \<noteq> None \<or>
         length (mb_unread (sk_header s)) \<noteq> Flexi_ClientPktHeader_sizeof then (HdrAssert, s)
      else
        (case AuthCrypt_DecryptRecv upd (mb_unread (sk_header s)) (sk_crypt s) of
          (plain, crypt) \<Rightarrow>
          (let header = Flexi_ClientPktHeader_at plain;
               hsize = EndianConvertReverse_u32 (fch_size header);
               hcmd = EndianConvert_u16 (fch_cmd header);
               s1 = s\<lparr>sk_crypt := crypt\<rparr>
           in if hsize < 2 then (HdrInvalid, s1)
              else
                (let hsize = hsize - 2;
                     pct = pkt_new hcmd;
                     pct1 = pct\<lparr>buf := bb_resize (unat hsize) (buf pct)\<rparr>
                 in if hsize > 0 then
                      (HdrOk, s1\<lparr>sk_recvWPct := Some pct1,
                         sk_recvPct_cap := bb_size (buf pct1), sk_recvPct_wr := 0\<rparr>)
                    else if recvPct_space s1 \<noteq> 0 then (HdrAssert, s1)
                    else (HdrOk, s1\<lparr>sk_recvWPct := Some pct\<rparr>)))))"

text \<open>Columns as the integers the code reads them as; NULL is zero.\<close>

definition GetUInt8 :: "bytes option \<Rightarrow> u8" where
  "GetUInt8 f = (case f of None \<Rightarrow> 0 | Some t \<Rightarrow> word_of_int (atol t))"

definition GetUInt32 :: "bytes option \<Rightarrow> u32" where
  "GetUInt32 f = (case f of None \<Rightarrow> 0 | Some t \<Rightarrow> word_of_int (atol t))"

definition GetUInt64 :: "bytes option \<Rightarrow> u64" where
  "GetUInt64 f = (case f of None \<Rightarrow> 0 | Some t \<Rightarrow> word_of_int (atol t))"

definition TOTAL_LOCALES :: u8 where "TOTAL_LOCALES = 9"
definition LOCALE_enUS :: u8 where "LOCALE_enUS = 0"

text \<open>
  The session of a login. The expansion is read from column four, the verifier \<open>v\<close>, and the recruiter
  from column seven, the mute time, as the code has it.
\<close>

definition login_session :: "world_settings \<Rightarrow> login_db \<Rightarrow> account_row \<Rightarrow> u32 \<Rightarrow> bool \<Rightarrow> bool \<Rightarrow> wsession" where
  "login_session cf db row security authed forceTele =
     (let expansion = GetUInt8 (ar_v row);
          expansion = (if wc_expansion cf < ucast expansion then ucast (wc_expansion cf) else expansion);
          i = GetUInt32 (ar_id row);
          mutetime = sint (GetUInt64 (ar_mutetime row));
          locale = GetUInt8 (ar_locale row);
          locale = (if TOTAL_LOCALES \<le> locale then LOCALE_enUS else locale);
          recruiter = GetUInt32 (ar_mutetime row)
      in (WorldSession_new cf i True security expansion mutetime locale recruiter (ldb_recruits db i) False)
           \<lparr>ws_m_Tutorials := (case ldb_tutorials db i of None \<Rightarrow> replicate MAX_ACCOUNT_TUTORIAL_VALUES 0 | Some ts \<Rightarrow> ts),
             ws_authenticated := authed, ws_forceTele := forceTele\<rparr>)"

definition WorldSocket_HandleAuthSession ::
  "('c \<Rightarrow> bytes \<Rightarrow> bytes \<times> 'c) \<Rightarrow> (bytes list \<Rightarrow> bool) \<Rightarrow> world_settings \<Rightarrow> login_db \<Rightarrow> wpacket \<Rightarrow>
   ('c, 'z) world_link_scheme \<Rightarrow> int \<times> ('c, 'z) world_link_scheme" where
  "WorldSocket_HandleAuthSession upd q_full cf db pct s =
     (let refuse = (\<lambda>packet. (-1, snd (WorldSocket_SendPacket upd q_full packet s)))
      in if wc_closed cf then refuse (mk_pkt SMSG_AUTH_RESPONSE [U8 AUTH_REJECT])
         else (case bb_shr_all [TStr, TU32, TU32, TBl, TBl] (buf pct) of
             Inr ([Str account, U32 _, U32 security, Bl authed, Bl forceTele], _) \<Rightarrow>
               (case ldb_account db account of
                  None \<Rightarrow> refuse (mk_pkt SMSG_AUTH_RESPONSE [U8 AUTH_UNKNOWN_ACCOUNT])
                | Some row \<Rightarrow>
                    if ldb_banned db (GetUInt32 (ar_id row)) then refuse (mk_pkt SMSG_AUTH_RESPONSE [U8 AUTH_BANNED])
                    else if security < wc_allowedSecurityLevel cf then refuse (mk_pkt 0 [])
                    else (0, s\<lparr>pl_m_Session := True, wl_AddSession := True,
                               wl_session := Some (login_session cf db row security authed forceTele)\<rparr>))
           | _ \<Rightarrow> (-1, s)))"

lemma login_session_sel [simp]:
  "ws_m_Socket (login_session cf db row security authed forceTele)"
  "ws_accountId (login_session cf db row security authed forceTele) = GetUInt32 (ar_id row)"
  "ws_security (login_session cf db row security authed forceTele) = security"
  "ws_authenticated (login_session cf db row security authed forceTele) = authed"
  "ws_forceTele (login_session cf db row security authed forceTele) = forceTele"
  "ws_player (login_session cf db row security authed forceTele) = None"
  "\<not> ws_inQueue (login_session cf db row security authed forceTele)"
  "\<not> ws_playerLoading (login_session cf db row security authed forceTele)"
  "ws_logoutTime (login_session cf db row security authed forceTele) = 0"
  "ws_newNode (login_session cf db row security authed forceTele) = 0"
  "ws_timeOutTime (login_session cf db row security authed forceTele) = int (unat (wc_timeout cf))"
  "ws_recvQueue (login_session cf db row security authed forceTele) = lq_new"
  by (simp_all add: login_session_def WorldSession_new_def ResetTimeOutTime_def Let_def)

text \<open>The times are microseconds; the limit for a ping that comes too early is 27 seconds.\<close>

definition WorldSocket_ping_count ::
  "u32 \<Rightarrow> nat \<Rightarrow> ('c, 'z) world_link_scheme \<Rightarrow> bool \<times> ('c, 'z) world_link_scheme" where
  "WorldSocket_ping_count max_count now s =
     (if pl_LastPingTime s = 0 then (False, s\<lparr>pl_LastPingTime := now\<rparr>)
      else
        (let diff_time = int now - int (pl_LastPingTime s);
             s1 = s\<lparr>pl_LastPingTime := now\<rparr>
         in if diff_time < 27 * 1000000 then
              (let s2 = s1\<lparr>wl_OverSpeedPings := wl_OverSpeedPings s1 + 1\<rparr>
               in (max_count \<noteq> 0 \<and> max_count < wl_OverSpeedPings s2 \<and> pl_m_Session s2 \<and>
                     (case wl_session s2 of None \<Rightarrow> False | Some ss \<Rightarrow> ws_security ss = SEC_PLAYER), s2))
            else (False, s1\<lparr>wl_OverSpeedPings := 0\<rparr>)))"

definition WorldSocket_HandlePing ::
  "('c \<Rightarrow> bytes \<Rightarrow> bytes \<times> 'c) \<Rightarrow> (bytes list \<Rightarrow> bool) \<Rightarrow> world_settings \<Rightarrow> nat \<Rightarrow> wpacket \<Rightarrow>
   ('c, 'z) world_link_scheme \<Rightarrow> int \<times> ('c, 'z) world_link_scheme" where
  "WorldSocket_HandlePing upd q_full cf now pct s =
     (case bb_shr_all [TU32, TU32] (buf pct) of
        Inr ([U32 ping, U32 latency], _) \<Rightarrow>
          (case WorldSocket_ping_count (wc_maxOverspeedPings cf) now s of
             (kick, s1) \<Rightarrow>
               if kick then (-1, s1)
               else if \<not> pl_m_Session s1 then (-1, s1)
               else WorldSocket_SendPacket upd q_full (mk_pkt SMSG_PONG [U32 ping])
                 (s1\<lparr>wl_session := map_option (\<lambda>ss. ss\<lparr>ws_latency := latency, ws_clientTimeDelay := 0\<rparr>)
                    (wl_session s1)\<rparr>))
      | _ \<Rightarrow> (-1, s))"

definition WorldSocket_ProcessIncoming ::
  "('c \<Rightarrow> bytes \<Rightarrow> bytes \<times> 'c) \<Rightarrow> (bytes list \<Rightarrow> bool) \<Rightarrow> world_settings \<Rightarrow> login_db \<Rightarrow> nat \<Rightarrow> wpacket \<Rightarrow>
   ('c, 'z) world_link_scheme \<Rightarrow> int \<times> ('c, 'z) world_link_scheme" where
  "WorldSocket_ProcessIncoming upd q_full cf db now new_pct s =
     (if sk_closing s then (-1, s)
      else if opcode new_pct = CMSG_PING then WorldSocket_HandlePing upd q_full cf now new_pct s
      else if opcode new_pct = CMSG_AUTH_SESSION then
        (if pl_m_Session s then (-1, s) else WorldSocket_HandleAuthSession upd q_full cf db new_pct s)
      else if opcode new_pct = CMSG_KEEP_ALIVE then (0, s)
      else if pl_m_Session s then
        (0, s\<lparr>wl_session := map_option (\<lambda>ss. QueuePacket new_pct (ResetTimeOutTime cf ss)) (wl_session s)\<rparr>)
      else (-1, s))"

definition WorldSocket_handle_input ::
  "('c \<Rightarrow> bytes \<Rightarrow> bytes \<times> 'c) \<Rightarrow> (bytes list \<Rightarrow> bool) \<Rightarrow> world_settings \<Rightarrow> login_db \<Rightarrow> nat \<Rightarrow> bool \<Rightarrow>
   (send_result \<times> send_result) list \<Rightarrow> recv_result \<Rightarrow> ('c, 'z) world_link_scheme \<Rightarrow>
   (in_result \<times> ('c, 'z) world_link_scheme \<times> bytes) option" where
  "WorldSocket_handle_input upd q_full cf db now wake rs r s =
     (let flush = (\<lambda>s1. map_option (\<lambda>(i, s2, bs). (InRet i, s2, bs)) (WorldSocket_Update q_full wake rs s1))
      in if sk_closing s then Some (InRet (-1), s, [])
         else case r of
           RecvWouldBlock \<Rightarrow> flush s
         | RecvError \<Rightarrow> Some (InRet (-1), s, [])
         | RecvEof \<Rightarrow> Some (InRet (-1), s, [])
         | RecvData bs \<Rightarrow>
             (case input_loop (WorldSocket_handle_input_header upd)
                 (WorldSocket_ProcessIncoming upd q_full cf db now) bs s of
               None \<Rightarrow> None
             | Some (Some ExWouldBlock, s1) \<Rightarrow> flush s1
             | Some (Some ExInvalid, s1) \<Rightarrow> Some (InRet (-1), s1, [])
             | Some (Some ExAssert, s1) \<Rightarrow> Some (InAborted, s1, [])
             | Some (None, s1) \<Rightarrow> if length bs = recv_size then Some (InRet 1, s1, []) else flush s1))"

section \<open>The two filters and the loop\<close>

definition MapSessionFilter_Process :: "wpacket \<Rightarrow> wplayer option \<Rightarrow> bool" where
  "MapSessionFilter_Process packet player =
     (if NUM_MSG_TYPES \<le> unat (opcode packet) then True
      else (let opHandle = world_opcodeTable ! unat (opcode packet)
            in if packetProcessing opHandle = PROCESS_INPLACE then True
               else if packetProcessing opHandle = PROCESS_THREADUNSAFE then False
               else (case player of None \<Rightarrow> False | Some p \<Rightarrow> wp_inWorld p)))"

definition WorldSessionFilter_Process :: "wpacket \<Rightarrow> wplayer option \<Rightarrow> bool" where
  "WorldSessionFilter_Process packet player =
     (if NUM_MSG_TYPES \<le> unat (opcode packet) then True
      else (let opHandle = world_opcodeTable ! unat (opcode packet)
            in if packetProcessing opHandle = PROCESS_INPLACE then True
               else if packetProcessing opHandle = PROCESS_THREADUNSAFE then True
               else (case player of None \<Rightarrow> True | Some p \<Rightarrow> \<not> wp_inWorld p)))"

datatype filter_kind = MapSessionFilter | WorldSessionFilter

definition filter_Process :: "filter_kind \<Rightarrow> wpacket \<Rightarrow> wplayer option \<Rightarrow> bool" where
  "filter_Process f = (case f of MapSessionFilter \<Rightarrow> MapSessionFilter_Process
     | WorldSessionFilter \<Rightarrow> WorldSessionFilter_Process)"

definition filter_ProcessLogout :: "filter_kind \<Rightarrow> bool" where
  "filter_ProcessLogout f \<longleftrightarrow> f = WorldSessionFilter"

definition PTN_GUILD_INVITE :: u32 where "PTN_GUILD_INVITE = 0"

definition HandleNodeDataReciever_at :: "'c wenv \<Rightarrow> wpacket \<Rightarrow> 'c world_link \<Rightarrow> 'c world_link" where
  "HandleNodeDataReciever_at env recvPacket l =
     (case bb_shr TU32 (buf recvPacket) of
        Inr (U32 packet, b) \<Rightarrow>
          (if packet = PTN_GUILD_INVITE then
             (case bb_shr TStr b of Inr (Str invitedName, _) \<Rightarrow> we_guildInvite env invitedName l | _ \<Rightarrow> l)
           else l)
      | _ \<Rightarrow> l)"

text \<open>The null pointer of an entry without a row cannot be called: \<open>None\<close>.\<close>

fun call_handler :: "'c wenv \<Rightarrow> world_handler \<Rightarrow> wpacket \<Rightarrow> 'c world_link \<Rightarrow> 'c world_link option" where
  "call_handler env WHandle_NULL p l = Some l"
| "call_handler env WHandle_EarlyProccess p l = Some l"
| "call_handler env WHandle_ServerSide p l = Some l"
| "call_handler env HandleNodeDataReciever p l = Some (HandleNodeDataReciever_at env p l)"
| "call_handler env (WorldHandler nam) p l = Some (we_handler env nam p l)"
| "call_handler env WNullPointer p l = None"

text \<open>What becomes of a packet taken from the queue.\<close>

datatype verdict = Handled | Skipped | Requeued

definition CMSG_CHAR_ENUM :: u16 where "CMSG_CHAR_ENUM = 0x037"

text \<open>\<open>EvaluateOpcode\<close> returns true at once; what follows its first line is dead.\<close>

definition EvaluateOpcode :: "wpacket \<Rightarrow> int \<Rightarrow> bool" where
  "EvaluateOpcode p time = True"

definition world_verdict :: "SessionStatus \<Rightarrow> wsession \<Rightarrow> verdict" where
  "world_verdict st ss =
     (case st of
        STATUS_LOGGEDIN \<Rightarrow>
          (case ws_player ss of
             None \<Rightarrow> if \<not> ws_playerRecentlyLogout ss then Requeued else Skipped
           | Some p \<Rightarrow> if wp_inWorld p then Handled else Skipped)
      | STATUS_LOGGEDIN_OR_RECENTLY_LOGGOUT \<Rightarrow>
          (if ws_player ss = None \<and> \<not> ws_playerRecentlyLogout ss \<and> \<not> ws_playerLogout ss then Skipped else Handled)
      | STATUS_TRANSFER \<Rightarrow>
          (case ws_player ss of None \<Rightarrow> Skipped | Some p \<Rightarrow> if wp_inWorld p then Skipped else Handled)
      | STATUS_AUTHED \<Rightarrow> if ws_inQueue ss then Skipped else Handled
      | STATUS_NEVER \<Rightarrow> Skipped
      | STATUS_UNHANDLED \<Rightarrow> Skipped)"

definition world_dispatch :: "'c wenv \<Rightarrow> wpacket \<Rightarrow> 'c world_link \<Rightarrow> (verdict \<times> 'c world_link) option" where
  "world_dispatch env packet l =
     (if NUM_MSG_TYPES \<le> unat (opcode packet) then None
      else (case wl_session l of
         None \<Rightarrow> None
       | Some ss \<Rightarrow>
           (let opHandle = world_opcodeTable ! unat (opcode packet);
                v = world_verdict (woh_status opHandle) ss;
                l1 = (if woh_status opHandle = STATUS_AUTHED \<and> v = Handled \<and> opcode packet = CMSG_CHAR_ENUM
                      then on_wsess (\<lambda>ss. ss\<lparr>ws_playerRecentlyLogout := False\<rparr>) l else l)
            in if v = Handled \<and> EvaluateOpcode packet (we_time env)
               then map_option (Pair Handled) (call_handler env (woh_handler opHandle) packet l1)
               else Some (v, l))))"

text \<open>
  The loop, with the packets it took and what became of them. The fuel is the number of packets that
  wait when it starts; packets that arrive meanwhile are left to the next update.
\<close>

fun world_io ::
  "'c wenv \<Rightarrow> filter_kind \<Rightarrow> nat \<Rightarrow> 'c world_link \<Rightarrow> ((wpacket \<times> verdict) list \<times> 'c world_link) option" where
  "world_io env f 0 l = Some ([], l)"
| "world_io env f (Suc n) l =
     (case wl_session l of
        None \<Rightarrow> None
      | Some ss \<Rightarrow>
          if \<not> ws_m_Socket ss then Some ([], l)
          else (case lq_next_check (\<lambda>p. filter_Process f p (ws_player ss)) (ws_recvQueue ss) of
                  (False, _, _) \<Rightarrow> Some ([], l)
                | (True, None, _) \<Rightarrow> Some ([], l)
                | (True, Some packet, q) \<Rightarrow>
                    (case world_dispatch env packet (on_wsess (\<lambda>ss. ss\<lparr>ws_recvQueue := q\<rparr>) l) of
                       None \<Rightarrow> None
                     | Some (v, l1) \<Rightarrow>
                         map_option (\<lambda>(log, l2). ((packet, v) # log, l2)) (world_io env f n l1))))"

definition requeued :: "(wpacket \<times> verdict) list \<Rightarrow> wpacket list" where
  "requeued log = map fst (filter (\<lambda>e. snd e = Requeued) log)"

definition handled :: "(wpacket \<times> verdict) list \<Rightarrow> wpacket list" where
  "handled log = map fst (filter (\<lambda>e. snd e = Handled) log)"

section \<open>Update\<close>

definition world_transfer :: "'c wenv \<Rightarrow> 'c world_link \<Rightarrow> 'c world_link" where
  "world_transfer env l =
     (case wl_session l of
        None \<Rightarrow> l
      | Some ss \<Rightarrow>
          if ws_newNode ss \<noteq> 0 \<and> ws_player ss \<noteq> None
          then on_wsess (\<lambda>ss. ss\<lparr>ws_newNode := 0\<rparr>)
                 (world_SendPacket env (mk_pkt NODE_MISC_DATA [U32 CL_DEF_TRANSFER_TO_NODE, U32 (ws_newNode ss)]) l)
          else l)"

definition world_logout_check :: "'c wenv \<Rightarrow> 'c world_link \<Rightarrow> bool \<times> 'c world_link" where
  "world_logout_check env l =
     (let l1 = (case wl_session l of
                  None \<Rightarrow> l
                | Some ss \<Rightarrow> if ShouldLogOut (we_time env) ss \<and> \<not> ws_playerLoading ss
                             then LogoutPlayer env True l else l);
          l2 = (if sk_closing l1 then on_wsess (\<lambda>ss. ss\<lparr>ws_m_Socket := False\<rparr>) l1 else l1)
      in (case wl_session l2 of None \<Rightarrow> False | Some ss \<Rightarrow> ws_m_Socket ss, l2))"

text \<open>\<open>None\<close>: a null socket is closed, the table is read past its end or a null handler is called.\<close>

definition WorldSession_Update ::
  "'c wenv \<Rightarrow> filter_kind \<Rightarrow> 'c world_link \<Rightarrow> (bool \<times> (wpacket \<times> verdict) list \<times> 'c world_link) option" where
  "WorldSession_Update env f l =
     (case wl_session l of
        None \<Rightarrow> None
      | Some ss \<Rightarrow>
          if IsConnectionIdle ss \<and> \<not> ws_m_Socket ss then None
          else
            (let l1 = (if IsConnectionIdle ss then WorldSocket_CloseSocket l else l)
             in case world_io env f (length (lq_queue (ws_recvQueue ss))) l1 of
                  None \<Rightarrow> None
                | Some (log, l2) \<Rightarrow>
                    (let l3 = on_wsess (\<lambda>ss. ss\<lparr>ws_recvQueue := lq_readd (requeued log) (ws_recvQueue ss)\<rparr>) l2;
                         l4 = world_transfer env (we_callbacks env l3)
                     in Some (if filter_ProcessLogout f
                              then (case world_logout_check env l4 of (b, l5) \<Rightarrow> (b, log, l5))
                              else (True, log, l4)))))"

section \<open>What the operations keep\<close>

text \<open>
  The part of a link that the game's code leaves alone: the session's pointer to the socket, its account,
  its place in the waiting queue and its packets; a closed socket stays closed, and the socket's pointer to the session is
  cleared exactly when the socket is closed. The arguments that stand for the game are assumed to keep to this.
\<close>

definition wl_core :: "'c world_link \<Rightarrow> (bool \<times> u32 \<times> bool \<times> wpacket locked_queue) option" where
  "wl_core l = map_option (\<lambda>ss. (ws_m_Socket ss, ws_accountId ss, ws_inQueue ss, ws_recvQueue ss)) (wl_session l)"

definition link_keeps :: "('c world_link \<Rightarrow> 'c world_link) \<Rightarrow> bool" where
  "link_keeps g \<longleftrightarrow> (\<forall>l. wl_core (g l) = wl_core l \<and> (\<not> pl_m_Session l \<longrightarrow> \<not> pl_m_Session (g l)) \<and>
     (pl_m_Session l \<and> \<not> sk_closing l \<longrightarrow> pl_m_Session (g l) = (\<not> sk_closing (g l))) \<and>
     (sk_closing l \<longrightarrow> sk_closing (g l)) \<and> wl_AddSession (g l) = wl_AddSession l)"

definition wenv_keeps :: "'c wenv \<Rightarrow> bool" where
  "wenv_keeps env \<longleftrightarrow> (\<forall>nam p. link_keeps (we_handler env nam p)) \<and> (\<forall>n. link_keeps (we_guildInvite env n)) \<and>
     link_keeps (we_callbacks env) \<and> link_keeps (we_worldport env) \<and> (\<forall>b. link_keeps (we_leave env b))"

lemma link_keepsD:
  assumes "link_keeps g"
  shows "wl_core (g l) = wl_core l" "\<not> pl_m_Session l \<Longrightarrow> \<not> pl_m_Session (g l)"
    "sk_closing l \<Longrightarrow> sk_closing (g l)" "wl_AddSession (g l) = wl_AddSession l"
    "pl_m_Session l \<Longrightarrow> \<not> sk_closing l \<Longrightarrow> pl_m_Session (g l) = (\<not> sk_closing (g l))"
  using assms unfolding link_keeps_def by simp_all

lemma link_keeps_id: "link_keeps (\<lambda>l. l)"
  by (simp add: link_keeps_def)

lemma link_keeps_comp:
  assumes "link_keeps g" and "link_keeps h"
  shows "link_keeps (\<lambda>l. g (h l))"
  unfolding link_keeps_def
proof
  fix l
  note g = link_keepsD [OF assms(1), of "h l"] and h = link_keepsD [OF assms(2), of l]
  show "wl_core (g (h l)) = wl_core l \<and> (\<not> pl_m_Session l \<longrightarrow> \<not> pl_m_Session (g (h l))) \<and>
    (pl_m_Session l \<and> \<not> sk_closing l \<longrightarrow> pl_m_Session (g (h l)) = (\<not> sk_closing (g (h l)))) \<and>
    (sk_closing l \<longrightarrow> sk_closing (g (h l))) \<and> wl_AddSession (g (h l)) = wl_AddSession l"
    using g h by auto
qed

lemma core_session:
  "wl_core l = Some (b, a, i, q) \<longleftrightarrow>
     (\<exists>ss. wl_session l = Some ss \<and> ws_m_Socket ss = b \<and> ws_accountId ss = a \<and> ws_inQueue ss = i \<and>
        ws_recvQueue ss = q)"
  by (auto simp: wl_core_def)

lemma core_None [simp]: "wl_core l = None \<longleftrightarrow> wl_session l = None"
  by (simp add: wl_core_def)

lemma link_keeps_on_wsess:
  assumes "\<And>ss. ws_m_Socket (f ss) = ws_m_Socket ss \<and> ws_accountId (f ss) = ws_accountId ss \<and>
    ws_inQueue (f ss) = ws_inQueue ss \<and> ws_recvQueue (f ss) = ws_recvQueue ss"
  shows "link_keeps (on_wsess f)"
  using assms by (simp add: link_keeps_def on_wsess_def wl_core_def map_option.compositionality comp_def)

lemma link_keeps_Close: "link_keeps WorldSocket_CloseSocket"
  by (simp add: link_keeps_def WorldSocket_CloseSocket_def wl_core_def)

lemma WorldSocket_Send_same:
  assumes "WorldSocket_SendPacket upd q_full p (l :: 'c world_link) = (r, l1)"
  shows "wl_session l1 = wl_session l \<and> pl_m_Session l1 = pl_m_Session l \<and> sk_closing l1 = sk_closing l \<and>
    wl_AddSession l1 = wl_AddSession l \<and> wl_OverSpeedPings l1 = wl_OverSpeedPings l"
  using assms
  by (auto simp: WorldSocket_SendPacket_def Let_def sock_put_def split: if_splits prod.splits)

lemma link_keeps_Send: "link_keeps (world_SendPacket env p)"
proof -
  have "link_keeps (\<lambda>l. case WorldSocket_SendPacket (we_upd env) (we_full env) p l of
      (r, l1) \<Rightarrow> if r = -1 then WorldSocket_CloseSocket l1 else l1)"
    by (auto simp: link_keeps_def wl_core_def WorldSocket_CloseSocket_def split: prod.splits
        dest!: WorldSocket_Send_same)
  then show ?thesis
    by (auto simp: link_keeps_def world_SendPacket_def split: option.splits)
qed

lemma Send_session [simp]: "wl_session (world_SendPacket env p l) = wl_session l"
  by (auto simp: world_SendPacket_def WorldSocket_CloseSocket_def split: option.splits prod.splits
      dest!: WorldSocket_Send_same)

lemma link_keeps_SetPlayer: "link_keeps (on_wsess (world_SetPlayer pl))"
  by (rule link_keeps_on_wsess) (cases pl; simp add: world_SetPlayer_def)

lemma link_keeps_if: "link_keeps g \<Longrightarrow> link_keeps h \<Longrightarrow> link_keeps (\<lambda>l. if c l then g l else h l)"
  by (simp add: link_keeps_def)

lemmas link_keeps_intros = link_keeps_comp [OF link_keeps_on_wsess] link_keeps_comp [OF link_keeps_Send]
  link_keeps_comp [OF link_keeps_SetPlayer] link_keeps_comp [OF link_keeps_Close] link_keeps_id

lemma LogoutPlayer_keeps:
  assumes "wenv_keeps env"
  shows "link_keeps (LogoutPlayer env save)"
proof -
  have w: "link_keeps (we_worldport env)" and v: "link_keeps (we_leave env save)"
    using assms by (simp_all add: wenv_keeps_def)
  define enter where "enter = (\<lambda>l. on_wsess (\<lambda>ss. ss\<lparr>ws_playerLogout := True, ws_playerSave := save\<rparr>) (we_worldport env l))"
  define leave where "leave = (\<lambda>l. world_SendPacket env (mk_pkt SMSG_LOGOUT_COMPLETE [])
      (on_wsess (world_SetPlayer None) (we_leave env save l)))"
  have b: "link_keeps enter" unfolding enter_def
    by (rule link_keeps_comp [OF link_keeps_on_wsess w]) simp
  have "link_keeps leave" unfolding leave_def
    by (rule link_keeps_comp [OF link_keeps_Send link_keeps_comp [OF link_keeps_SetPlayer v]])
  then have "link_keeps (\<lambda>l. if wl_player l \<noteq> None then leave l else l)"
    by (rule link_keeps_if) (rule link_keeps_id)
  from link_keeps_comp [OF this b]
  have "link_keeps (\<lambda>l. let l1 = enter l in if wl_player l1 \<noteq> None then leave l1 else l1)" by (simp add: Let_def)
  from link_keeps_comp [OF link_keeps_on_wsess this, of "\<lambda>ss. LogoutRequest 0 (ss\<lparr>ws_playerLogout := False,
      ws_playerSave := False, ws_playerRecentlyLogout := True\<rparr>)"]
  have "link_keeps (\<lambda>l. on_wsess (\<lambda>ss. LogoutRequest 0 (ss\<lparr>ws_playerLogout := False, ws_playerSave := False,
      ws_playerRecentlyLogout := True\<rparr>)) (let l1 = enter l in if wl_player l1 \<noteq> None then leave l1 else l1))"
    by (simp add: LogoutRequest_def)
  moreover have "LogoutPlayer env save = (\<lambda>l. on_wsess (\<lambda>ss. LogoutRequest 0 (ss\<lparr>ws_playerLogout := False,
      ws_playerSave := False, ws_playerRecentlyLogout := True\<rparr>))
      (let l1 = enter l in if wl_player l1 \<noteq> None then leave l1 else l1))"
    by (intro ext) (unfold LogoutPlayer_def enter_def leave_def Let_def, rule refl)
  ultimately show ?thesis by (simp only:)
qed

lemma call_handler_keeps:
  assumes "wenv_keeps env" and "call_handler env h p l = Some l1"
  shows "\<exists>g. link_keeps g \<and> l1 = g l"
proof (cases h)
  case HandleNodeDataReciever
  have "HandleNodeDataReciever_at env p l = l \<or> (\<exists>n. HandleNodeDataReciever_at env p l = we_guildInvite env n l)"
    unfolding HandleNodeDataReciever_at_def
    by (cases "bb_shr TU32 (buf p)") (simp_all del: bb_shr.simps split: prod.split field.split sum.split, blast)
  then show ?thesis
    using assms HandleNodeDataReciever link_keeps_id by (auto simp: wenv_keeps_def)
qed (use assms link_keeps_id in \<open>auto simp: wenv_keeps_def\<close>)

lemma world_dispatch_keeps:
  assumes "wenv_keeps env" and "world_dispatch env p l = Some (v, l1)"
  shows "\<exists>g. link_keeps g \<and> l1 = g l"
proof -
  let ?chr = "on_wsess (\<lambda>ss. ss\<lparr>ws_playerRecentlyLogout := False\<rparr>)"
  have k: "link_keeps ?chr" by (rule link_keeps_on_wsess) simp
  from assms(2) have "l1 = l \<or> (\<exists>h. call_handler env h p l = Some l1) \<or> (\<exists>h. call_handler env h p (?chr l) = Some l1)"
    by (auto simp: world_dispatch_def Let_def split: if_splits option.splits)
  then show ?thesis
  proof (elim disjE exE)
    assume "l1 = l"
    with link_keeps_id show ?thesis by blast
  next
    fix h assume "call_handler env h p (?chr l) = Some l1"
    from call_handler_keeps [OF assms(1) this] obtain g where "link_keeps g" "l1 = g (?chr l)" by blast
    with link_keeps_comp [OF this(1) k] show ?thesis by blast
  qed (rule call_handler_keeps [OF assms(1)])
qed

section \<open>No packet is lost\<close>

abbreviation wl_packets :: "'c world_link \<Rightarrow> wpacket list" where
  "wl_packets l \<equiv> (case wl_session l of None \<Rightarrow> [] | Some ss \<Rightarrow> lq_queue (ws_recvQueue ss))"

lemma core_packets: "wl_core l' = wl_core l \<Longrightarrow> wl_packets l' = wl_packets l"
  by (auto simp: wl_core_def split: option.splits)

lemma core_alive: "wl_core l' = wl_core l \<Longrightarrow> wl_session l \<noteq> None \<Longrightarrow> wl_session l' \<noteq> None"
  by (metis core_None)

lemma core_packets_keeps: "link_keeps g \<Longrightarrow> wl_packets (g l) = wl_packets l"
  by (rule core_packets) (simp add: link_keepsD)

lemma lq_next_check_simps:
  "lq_next_check c q = (False, x, q') \<Longrightarrow> q' = q \<and> (lq_queue q = [] \<or> (\<exists>p ps. lq_queue q = p # ps \<and> \<not> c p))"
  "lq_next_check c q = (True, x, q') \<Longrightarrow> \<exists>p. x = Some p \<and> lq_queue q = p # lq_queue q' \<and> c p"
  by (auto simp: lq_next_check_def split: list.splits if_splits)

lemma world_io_step:
  assumes "wl_session l = Some ss" and "ws_m_Socket ss"
    and "lq_next_check (\<lambda>p. filter_Process f p (ws_player ss)) (ws_recvQueue ss) = (True, Some p, q)"
  shows "world_io env f (Suc n) l =
    (case world_dispatch env p (on_wsess (\<lambda>ss. ss\<lparr>ws_recvQueue := q\<rparr>) l) of
       None \<Rightarrow> None
     | Some (v, l1) \<Rightarrow> map_option (\<lambda>(log, l2). ((p, v) # log, l2)) (world_io env f n l1))"
  using assms by simp

lemma world_io_stop:
  assumes "wl_session l = Some ss" and "\<not> ws_m_Socket ss \<or> lq_queue (ws_recvQueue ss) = [] \<or>
      (\<exists>p ps. lq_queue (ws_recvQueue ss) = p # ps \<and> \<not> filter_Process f p (ws_player ss))"
  shows "world_io env f n l = Some ([], l)"
  using assms by (cases n) (auto simp: lq_next_check_def)

lemma world_io_cases:
  assumes "wl_session l = Some ss"
  shows "world_io env f (Suc n) l = Some ([], l) \<or>
    (\<exists>p q. ws_m_Socket ss \<and> lq_queue (ws_recvQueue ss) = p # lq_queue q \<and> filter_Process f p (ws_player ss) \<and>
       world_io env f (Suc n) l =
         (case world_dispatch env p (on_wsess (\<lambda>ss. ss\<lparr>ws_recvQueue := q\<rparr>) l) of
            None \<Rightarrow> None
          | Some (v, l1) \<Rightarrow> map_option (\<lambda>(log, l2). ((p, v) # log, l2)) (world_io env f n l1)))"
proof -
  obtain b x q where nx: "lq_next_check (\<lambda>p. filter_Process f p (ws_player ss)) (ws_recvQueue ss) = (b, x, q)"
    by (rule prod_cases3)
  show ?thesis
  proof (cases "ws_m_Socket ss \<and> b")
    case True
    then have nx: "lq_next_check (\<lambda>p. filter_Process f p (ws_player ss)) (ws_recvQueue ss) = (True, x, q)"
      using nx by simp
    from lq_next_check_simps(2) [OF nx] obtain p where p: "x = Some p" "lq_queue (ws_recvQueue ss) = p # lq_queue q"
      "filter_Process f p (ws_player ss)" by blast
    from world_io_step [OF assms _ nx [unfolded p(1)]] True p(2,3) show ?thesis by blast
  next
    case False
    with nx lq_next_check_simps(1) [of "\<lambda>p. filter_Process f p (ws_player ss)" "ws_recvQueue ss" x q]
    have "\<not> ws_m_Socket ss \<or> lq_queue (ws_recvQueue ss) = [] \<or>
      (\<exists>p ps. lq_queue (ws_recvQueue ss) = p # ps \<and> \<not> filter_Process f p (ws_player ss))" by auto
    from world_io_stop [OF assms this] show ?thesis by blast
  qed
qed

lemma world_io_conserves:
  assumes env: "wenv_keeps env"
  shows "world_io env f n l = Some (log, l2) \<Longrightarrow> wl_session l \<noteq> None \<Longrightarrow>
    wl_session l2 \<noteq> None \<and> wl_packets l = map fst log @ wl_packets l2"
proof (induction n arbitrary: l log)
  case (Suc n)
  then obtain ss where ss: "wl_session l = Some ss" by auto
  from world_io_cases [OF ss, of env f n] show ?case
  proof (elim disjE exE conjE)
    fix p q
    let ?l = "on_wsess (\<lambda>ss. ss\<lparr>ws_recvQueue := q\<rparr>) l"
    assume q: "lq_queue (ws_recvQueue ss) = p # lq_queue q" and step: "world_io env f (Suc n) l =
      (case world_dispatch env p ?l of None \<Rightarrow> None
       | Some (v, l1) \<Rightarrow> map_option (\<lambda>(log, l2). ((p, v) # log, l2)) (world_io env f n l1))"
    from step Suc.prems(1) obtain v l1 log1 where d: "world_dispatch env p ?l = Some (v, l1)"
      and io: "world_io env f n l1 = Some (log1, l2)" "log = (p, v) # log1"
      by (auto split: option.splits)
    obtain g where g: "link_keeps g" "l1 = g ?l" using world_dispatch_keeps [OF env d] by blast
    have "wl_core l1 = wl_core ?l" unfolding g(2) by (rule link_keepsD(1) [OF g(1)])
    then have "wl_session l1 \<noteq> None" "wl_packets l1 = lq_queue q"
      using ss core_packets [of l1 ?l] by (auto simp: on_wsess_def wl_core_def)
    with Suc.IH [OF io(1)] io(2) q ss show ?thesis by simp
  qed (use Suc.prems in simp)
qed simp

lemma world_transfer_keeps: "link_keeps (world_transfer env)"
proof -
  have z: "link_keeps (on_wsess (\<lambda>ss. ss\<lparr>ws_newNode := 0\<rparr>))" by (rule link_keeps_on_wsess) simp
  have "\<exists>g. link_keeps g \<and> world_transfer env l = g l" for l
    using link_keeps_comp [OF z link_keeps_Send] link_keeps_id
    by (fastforce simp: world_transfer_def split: option.splits)
  then show ?thesis unfolding link_keeps_def [of "world_transfer env"] using link_keepsD by metis
qed

lemma logout_check_packets:
  assumes "wenv_keeps env" and "world_logout_check env l = (b, l1)" and "wl_session l \<noteq> None"
  shows "wl_session l1 \<noteq> None \<and> wl_packets l1 = wl_packets l"
proof -
  have "wl_core (LogoutPlayer env True l) = wl_core l"
    by (rule link_keepsD(1) [OF LogoutPlayer_keeps [OF assms(1)]])
  then have L: "wl_session (LogoutPlayer env True l) \<noteq> None" "wl_packets (LogoutPlayer env True l) = wl_packets l"
    using assms(3) core_packets by (auto simp: wl_core_def)
  have c: "wl_session (on_wsess (\<lambda>ss. ss\<lparr>ws_m_Socket := False\<rparr>) x) \<noteq> None \<longleftrightarrow> wl_session x \<noteq> None"
    "wl_packets (on_wsess (\<lambda>ss. ss\<lparr>ws_m_Socket := False\<rparr>) x) = wl_packets x" for x :: "'a world_link"
    by (auto simp: on_wsess_def split: option.split)
  obtain ss where ss: "wl_session l = Some ss" using assms(3) by auto
  define l0 where "l0 = (if ShouldLogOut (we_time env) ss \<and> \<not> ws_playerLoading ss then LogoutPlayer env True l else l)"
  have "l1 = (if sk_closing l0 then on_wsess (\<lambda>ss. ss\<lparr>ws_m_Socket := False\<rparr>) l0 else l0)"
    using assms(2) [unfolded world_logout_check_def Let_def ss option.case, folded l0_def] by simp
  moreover have "wl_session l0 \<noteq> None" "wl_packets l0 = wl_packets l" using L assms(3) by (simp_all add: l0_def)
  ultimately show ?thesis using c by (cases "sk_closing l0") simp_all
qed

text \<open>
  C10: An update neither loses nor reorders packets: it takes a prefix of the queue, each packet of which
  is handled, dropped or put back, and those put back stand in their order in front of the rest.
\<close>

theorem update_keeps_packets:
  assumes "WorldSession_Update env f l = Some (b, log, l')" and "wenv_keeps env"
  shows "\<exists>rest. wl_packets l = map fst log @ rest \<and> wl_packets l' = requeued log @ rest"
proof -
  obtain ss where ss: "wl_session l = Some ss"
    using assms(1) by (cases "wl_session l") (simp_all add: WorldSession_Update_def)
  define l1 where "l1 = (if IsConnectionIdle ss then WorldSocket_CloseSocket l else l)"
  have p1: "wl_session l1 = Some ss" using ss by (simp add: l1_def WorldSocket_CloseSocket_def)
  from assms(1) obtain l2 where io: "world_io env f (length (lq_queue (ws_recvQueue ss))) l1 = Some (log, l2)"
    unfolding WorldSession_Update_def ss l1_def [symmetric]
    by (auto simp: Let_def l1_def split: if_splits option.splits prod.splits)
  define l3 where "l3 = on_wsess (\<lambda>ss. ss\<lparr>ws_recvQueue := lq_readd (requeued log) (ws_recvQueue ss)\<rparr>) l2"
  define l4 where "l4 = world_transfer env (we_callbacks env l3)"
  have fin: "(if filter_ProcessLogout f then (case world_logout_check env l4 of (b, l5) \<Rightarrow> (b, log, l5))
      else (True, log, l4)) = (b, log, l')"
    using assms(1) io unfolding WorldSession_Update_def ss l4_def l3_def l1_def
    by (simp add: Let_def split: if_splits)
  have c: "wl_session l2 \<noteq> None" "wl_packets l1 = map fst log @ wl_packets l2"
    using world_io_conserves [OF assms(2) io] p1 by simp_all
  have "link_keeps (\<lambda>l. world_transfer env (we_callbacks env l))"
    by (rule link_keeps_comp [OF world_transfer_keeps]) (use assms(2) in \<open>simp add: wenv_keeps_def\<close>)
  from link_keepsD(1) [OF this, of l3] have core: "wl_core l4 = wl_core l3" by (simp add: l4_def)
  have "wl_session l3 \<noteq> None" using c(1) by (simp add: l3_def on_wsess_def)
  note l4 = core_alive [OF core this] core_packets [OF core]
  obtain b5 l5 where chk: "world_logout_check env l4 = (b5, l5)" by fastforce
  have "l' = l4 \<or> l' = l5" using fin unfolding chk by (simp split: if_splits)
  with logout_check_packets [OF assms(2) chk l4(1)] have "wl_packets l' = wl_packets l4" by (elim disjE) simp_all
  with l4(2) have "wl_packets l' = requeued log @ wl_packets l2"
    using c(1) by (auto simp: l3_def on_wsess_def lq_readd_def)
  with c(2) p1 ss show ?thesis by auto
qed

section \<open>Both threads together\<close>

text \<open>A packet whose opcode has a row with a handler.\<close>

definition node_row :: "wpacket \<Rightarrow> WorldOpcodeHandler" where
  "node_row p = world_opcodeTable ! unat (opcode p)"

definition node_safe :: "wpacket \<Rightarrow> bool" where
  "node_safe p \<longleftrightarrow> unat (opcode p) < NUM_MSG_TYPES \<and> woh_handler (node_row p) \<noteq> WNullPointer"

text \<open>
  A session whose player is in the world and stays: no logout, transfer, time-out or closed socket is
  under way. \<open>wenv_stays\<close>: the game leaves it so.
\<close>

definition in_world :: "'c world_link \<Rightarrow> bool" where
  "in_world l \<longleftrightarrow> \<not> sk_closing l \<and>
     (\<exists>ss p. wl_session l = Some ss \<and> ws_player ss = Some p \<and> wp_inWorld p \<and> ws_m_Socket ss \<and>
        0 < ws_timeOutTime ss \<and> ws_logoutTime ss = 0 \<and> ws_newNode ss = 0 \<and> \<not> ws_inQueue ss)"

definition stays :: "('c world_link \<Rightarrow> 'c world_link) \<Rightarrow> bool" where
  "stays g \<longleftrightarrow> link_keeps g \<and> (\<forall>l. in_world l \<longrightarrow> in_world (g l))"

definition wenv_stays :: "'c wenv \<Rightarrow> bool" where
  "wenv_stays env \<longleftrightarrow> (\<forall>nam p. stays (we_handler env nam p)) \<and> (\<forall>n. stays (we_guildInvite env n)) \<and>
     stays (we_callbacks env)"

text \<open>What a filter takes and what then happens, with a player in the world.\<close>

definition takes_in_world :: "filter_kind \<Rightarrow> wpacket \<Rightarrow> bool" where
  "takes_in_world f p \<longleftrightarrow> packetProcessing (node_row p) \<noteq>
     (case f of MapSessionFilter \<Rightarrow> PROCESS_THREADUNSAFE | WorldSessionFilter \<Rightarrow> PROCESS_THREADSAFE)"

definition handled_in_world :: "wpacket \<Rightarrow> bool" where
  "handled_in_world p \<longleftrightarrow> woh_status (node_row p) \<in>
     {STATUS_LOGGEDIN, STATUS_LOGGEDIN_OR_RECENTLY_LOGGOUT, STATUS_AUTHED}"

definition verdict_in_world :: "wpacket \<Rightarrow> verdict" where
  "verdict_in_world p = (if handled_in_world p then Handled else Skipped)"

lemma filter_in_world:
  assumes "unat (opcode p) < NUM_MSG_TYPES" and "wp_inWorld q"
  shows "filter_Process f p (Some q) = takes_in_world f p"
  using assms
  by (cases f; cases "packetProcessing (node_row p)")
    (simp_all add: filter_Process_def MapSessionFilter_Process_def WorldSessionFilter_Process_def
      takes_in_world_def node_row_def Let_def)

lemma in_world_verdict:
  assumes "ws_player ss = Some q" and "wp_inWorld q" and "\<not> ws_inQueue ss"
  shows "world_verdict (woh_status (node_row p)) ss = verdict_in_world p"
  using assms
  by (cases "woh_status (node_row p)") (simp_all add: world_verdict_def verdict_in_world_def handled_in_world_def)

lemma in_world_on_wsess:
  assumes "in_world l" and "\<And>ss. ws_player (f ss) = ws_player ss \<and> ws_m_Socket (f ss) = ws_m_Socket ss \<and>
    ws_timeOutTime (f ss) = ws_timeOutTime ss \<and> ws_logoutTime (f ss) = ws_logoutTime ss \<and>
    ws_newNode (f ss) = ws_newNode ss \<and> ws_inQueue (f ss) = ws_inQueue ss"
  shows "in_world (on_wsess f l)"
  using assms by (auto simp: in_world_def on_wsess_def)

lemma call_stays:
  assumes "wenv_stays env" and "h \<noteq> WNullPointer" and "in_world l"
  shows "\<exists>l1. call_handler env h p l = Some l1 \<and> in_world l1 \<and> wl_packets l1 = wl_packets l"
proof -
  have S: "in_world (g l) \<and> wl_packets (g l) = wl_packets l" if "stays g" for g
    using that assms(3) core_packets_keeps [of g l] by (auto simp: stays_def)
  have I: "stays (\<lambda>l. l)" by (simp add: stays_def link_keeps_id)
  show ?thesis
  proof (cases h)
    case HandleNodeDataReciever
    have "\<exists>g. stays g \<and> HandleNodeDataReciever_at env p l = g l"
      unfolding HandleNodeDataReciever_at_def using assms(1) I
      by (cases "bb_shr TU32 (buf p)")
        (auto simp: wenv_stays_def simp del: bb_shr.simps split: prod.split field.split sum.split)
    with S HandleNodeDataReciever show ?thesis by auto
  next
    case (WorldHandler nam)
    with S [of "we_handler env nam p"] assms(1) show ?thesis by (simp add: wenv_stays_def)
  qed (use assms S [OF I] in simp_all)
qed

lemma dispatch_in_world:
  assumes env: "wenv_stays env" and safe: "node_safe p" and l: "in_world l"
  shows "\<exists>l1. world_dispatch env p l = Some (verdict_in_world p, l1) \<and> in_world l1 \<and> wl_packets l1 = wl_packets l"
proof -
  from l obtain ss q where ss: "wl_session l = Some ss" "ws_player ss = Some q" "wp_inWorld q" "\<not> ws_inQueue ss"
    by (auto simp: in_world_def)
  let ?chr = "on_wsess (\<lambda>ss. ss\<lparr>ws_playerRecentlyLogout := False\<rparr>) l"
  have chr: "in_world ?chr" "wl_packets ?chr = wl_packets l"
    using in_world_on_wsess [OF l] ss by (simp_all add: on_wsess_def)
  have v: "world_verdict (woh_status (node_row p)) ss = verdict_in_world p" by (rule in_world_verdict [OF ss(2-4)])
  have n: "\<not> NUM_MSG_TYPES \<le> unat (opcode p)" "woh_handler (node_row p) \<noteq> WNullPointer"
    using safe by (simp_all add: node_safe_def)
  show ?thesis
  proof (cases "verdict_in_world p = Handled")
    case True
    define m where "m = (if woh_status (node_row p) = STATUS_AUTHED \<and> opcode p = CMSG_CHAR_ENUM then ?chr else l)"
    have "in_world m" "wl_packets m = wl_packets l" using chr l by (auto simp: m_def)
    from call_stays [OF env n(2) this(1), of p] this(2) obtain l1 where
      "call_handler env (woh_handler (node_row p)) p m = Some l1" "in_world l1" "wl_packets l1 = wl_packets l" by auto
    moreover have "world_dispatch env p l = map_option (Pair Handled) (call_handler env (woh_handler (node_row p)) p m)"
      using n(1) v True unfolding world_dispatch_def m_def
      by (simp add: ss(1) EvaluateOpcode_def Let_def node_row_def [symmetric])
    ultimately show ?thesis using True by simp
  next
    case False
    then have "world_dispatch env p l = Some (verdict_in_world p, l)"
      using n(1) v unfolding world_dispatch_def by (simp add: ss(1) Let_def node_row_def [symmetric])
    with l show ?thesis by simp
  qed
qed

lemma world_io_in_world:
  assumes env: "wenv_stays env"
  shows "in_world l \<Longrightarrow> list_all node_safe (wl_packets l) \<Longrightarrow> length (wl_packets l) \<le> n \<Longrightarrow>
    \<exists>l2. world_io env f n l = Some (map (\<lambda>p. (p, verdict_in_world p)) (takeWhile (takes_in_world f) (wl_packets l)), l2) \<and>
      in_world l2 \<and> wl_packets l2 = dropWhile (takes_in_world f) (wl_packets l)"
proof (induction n arbitrary: l)
  case 0
  then show ?case by simp
next
  case (Suc n)
  from Suc.prems(1) obtain ss q where ss: "wl_session l = Some ss" "ws_player ss = Some q" "wp_inWorld q" "ws_m_Socket ss"
    by (auto simp: in_world_def)
  show ?case
  proof (cases "lq_queue (ws_recvQueue ss)")
    case Nil
    with ss Suc.prems(1) world_io_stop [OF ss(1)] show ?thesis by simp
  next
    case (Cons p ps)
    let ?q = "(ws_recvQueue ss)\<lparr>lq_queue := ps\<rparr>"
    have P: "filter_Process f p (ws_player ss) = takes_in_world f p"
      using filter_in_world [OF _ ss(3)] Suc.prems(2) Cons ss(1,2) by (simp add: node_safe_def)
    show ?thesis
    proof (cases "takes_in_world f p")
      case False
      then have "world_io env f (Suc n) l = Some ([], l)" using P Cons by (intro world_io_stop [OF ss(1)]) simp
      with False Cons ss(1) Suc.prems(1) show ?thesis by simp
    next
      case True
      let ?l = "on_wsess (\<lambda>ss. ss\<lparr>ws_recvQueue := ?q\<rparr>) l"
      have nx: "lq_next_check (\<lambda>p. filter_Process f p (ws_player ss)) (ws_recvQueue ss) = (True, Some p, ?q)"
        using Cons P True by (simp add: lq_next_check_def)
      have l: "in_world ?l" by (rule in_world_on_wsess [OF Suc.prems(1)]) simp
      have pk: "wl_packets ?l = ps" using ss(1) by (simp add: on_wsess_def)
      have "node_safe p" using Suc.prems(2) Cons ss(1) by simp
      from dispatch_in_world [OF env this l] pk obtain l1 where
        d: "world_dispatch env p ?l = Some (verdict_in_world p, l1)" "in_world l1" "wl_packets l1 = ps" by auto
      have "list_all node_safe (wl_packets l1)" "length (wl_packets l1) \<le> n"
        using Suc.prems(2,3) Cons ss(1) d(3) by simp_all
      from Suc.IH [OF d(2) this] d(3) obtain l2 where "world_io env f n l1 =
          Some (map (\<lambda>p. (p, verdict_in_world p)) (takeWhile (takes_in_world f) ps), l2)"
        "in_world l2" "wl_packets l2 = dropWhile (takes_in_world f) ps" by auto
      with world_io_step [OF ss(1,4) nx, of env n] d(1) True Cons ss(1) show ?thesis by simp
    qed
  qed
qed

lemma requeued_in_world [simp]: "requeued (map (\<lambda>p. (p, verdict_in_world p)) ps) = []"
  by (induction ps) (simp_all add: requeued_def verdict_in_world_def)

lemma handled_of_map [simp]:
  "handled (map (\<lambda>p. (p, verdict_in_world p)) ps) = filter handled_in_world ps"
  by (induction ps) (simp_all add: handled_def verdict_in_world_def)

lemma in_world_settled:
  assumes "in_world l"
  shows "world_transfer env l = l" "world_logout_check env l = (True, l)"
  using assms by (auto simp: in_world_def world_transfer_def world_logout_check_def ShouldLogOut_def Let_def)

lemma update_in_world:
  assumes env: "wenv_stays env" and l: "in_world l" and safe: "list_all node_safe (wl_packets l)"
  shows "\<exists>l'. WorldSession_Update env f l =
      Some (True, map (\<lambda>p. (p, verdict_in_world p)) (takeWhile (takes_in_world f) (wl_packets l)), l') \<and>
    in_world l' \<and> wl_packets l' = dropWhile (takes_in_world f) (wl_packets l)"
proof -
  obtain ss where ss: "wl_session l = Some ss" "\<not> IsConnectionIdle ss"
    using l by (auto simp: in_world_def IsConnectionIdle_def)
  let ?taken = "map (\<lambda>p. (p, verdict_in_world p)) (takeWhile (takes_in_world f) (wl_packets l))"
  have n: "length (wl_packets l) \<le> length (lq_queue (ws_recvQueue ss))" using ss by simp
  from world_io_in_world [OF env l safe n, of f] obtain l2 where
    io: "world_io env f (length (lq_queue (ws_recvQueue ss))) l = Some (?taken, l2)"
    and l2: "in_world l2" "wl_packets l2 = dropWhile (takes_in_world f) (wl_packets l)" by auto
  let ?l3 = "on_wsess (\<lambda>ss. ss\<lparr>ws_recvQueue := lq_readd [] (ws_recvQueue ss)\<rparr>) l2"
  have l3: "in_world ?l3" by (rule in_world_on_wsess [OF l2(1)]) simp
  have p3: "wl_packets ?l3 = wl_packets l2" by (simp add: on_wsess_def lq_readd_def split: option.split)
  let ?l4 = "we_callbacks env ?l3"
  have cb: "stays (we_callbacks env)" using env by (simp add: wenv_stays_def)
  then have l4: "in_world ?l4" "wl_packets ?l4 = wl_packets l2"
    using l3 p3 core_packets_keeps [of "we_callbacks env" ?l3] by (simp_all add: stays_def)
  have "WorldSession_Update env f l = Some (True, ?taken, ?l4)"
    unfolding WorldSession_Update_def ss(1) option.case
    using ss io in_world_settled [OF l4(1), of env] by (simp add: Let_def)
  with l4 l2(2) show ?thesis by simp
qed

text \<open>Updates by the two threads in some order, with everything they took.\<close>

fun world_updates ::
  "'c wenv \<Rightarrow> filter_kind list \<Rightarrow> 'c world_link \<Rightarrow> ((wpacket \<times> verdict) list \<times> 'c world_link) option" where
  "world_updates env [] l = Some ([], l)"
| "world_updates env (f # fs) l =
     (case WorldSession_Update env f l of
        None \<Rightarrow> None
      | Some (b, log, l1) \<Rightarrow>
          if \<not> b then Some (log, l1) else map_option (apfst ((@) log)) (world_updates env fs l1))"

lemma takes_by_one: "takes_in_world MapSessionFilter p \<or> takes_in_world WorldSessionFilter p"
  by (simp add: takes_in_world_def)

lemma one_round_shortens:
  assumes "ps \<noteq> []"
  shows "length (dropWhile (takes_in_world WorldSessionFilter) (dropWhile (takes_in_world MapSessionFilter) ps)) < length ps"
proof -
  have le: "length (dropWhile P xs) \<le> length xs" for P and xs :: "wpacket list"
    by (induction xs) auto
  show ?thesis
  proof (cases ps)
    case (Cons p qs)
    with takes_by_one [of p] show ?thesis
      using le [of "takes_in_world WorldSessionFilter" "dropWhile (takes_in_world MapSessionFilter) qs"]
        le [of "takes_in_world MapSessionFilter" qs] le [of "takes_in_world WorldSessionFilter" qs]
      by auto
  qed (use assms in simp)
qed

text \<open>One round of both threads takes a prefix, which is not empty unless the queue is.\<close>

lemma one_round:
  assumes env: "wenv_stays env" and l: "in_world l" and safe: "list_all node_safe (wl_packets l)"
  obtains ps l2 where
    "\<And>fs. world_updates env (MapSessionFilter # WorldSessionFilter # fs) l =
      map_option (apfst ((@) (map (\<lambda>p. (p, verdict_in_world p)) ps))) (world_updates env fs l2)"
    "in_world l2" "list_all node_safe (wl_packets l2)" "wl_packets l = ps @ wl_packets l2"
    "wl_packets l \<noteq> [] \<Longrightarrow> length (wl_packets l2) < length (wl_packets l)"
proof -
  let ?M = "takes_in_world MapSessionFilter" and ?W = "takes_in_world WorldSessionFilter" and ?ps = "wl_packets l"
  let ?v = "map (\<lambda>p. (p, verdict_in_world p))"
  from update_in_world [OF env l safe, of MapSessionFilter] obtain l1 where
    m: "WorldSession_Update env MapSessionFilter l = Some (True, ?v (takeWhile ?M ?ps), l1)"
      "in_world l1" "wl_packets l1 = dropWhile ?M ?ps" by blast
  have s1: "list_all node_safe (wl_packets l1)"
    using safe unfolding m(3) list_all_iff by (meson set_dropWhileD)
  from update_in_world [OF env m(2) s1, of WorldSessionFilter] obtain l2 where
    w: "WorldSession_Update env WorldSessionFilter l1 = Some (True, ?v (takeWhile ?W (dropWhile ?M ?ps)), l2)"
      "in_world l2" "wl_packets l2 = dropWhile ?W (dropWhile ?M ?ps)" unfolding m(3) by blast
  have s2: "list_all node_safe (wl_packets l2)"
    using s1 unfolding w(3) m(3) list_all_iff by (meson set_dropWhileD)
  show thesis
  proof (rule that [OF _ w(2) s2])
    show "world_updates env (MapSessionFilter # WorldSessionFilter # fs) l =
      map_option (apfst ((@) (?v (takeWhile ?M ?ps @ takeWhile ?W (dropWhile ?M ?ps))))) (world_updates env fs l2)" for fs
      using m(1) w(1) by (cases "world_updates env fs l2") (simp_all add: apfst_def map_prod_def split: prod.split)
    show "wl_packets l = (takeWhile ?M ?ps @ takeWhile ?W (dropWhile ?M ?ps)) @ wl_packets l2"
      unfolding w(3) by simp
    show "length (wl_packets l2) < length ?ps" if "?ps \<noteq> []"
      using one_round_shortens [OF that] unfolding w(3) .
  qed
qed

text \<open>
  C7: The thread of the map and that of the world together process all packets of a player in the world,
  in the order of arrival and each once: after as many rounds as there are packets the queue is empty
  and exactly the packets for a state the session is in were handled.
\<close>

theorem both_threads_drain:
  assumes env: "wenv_stays env"
    and "in_world l" and "list_all node_safe (wl_packets l)" and "length (wl_packets l) \<le> k"
  shows "\<exists>log l'. world_updates env (concat (replicate k [MapSessionFilter, WorldSessionFilter])) l = Some (log, l') \<and>
    map fst log = wl_packets l \<and> handled log = filter handled_in_world (wl_packets l) \<and> wl_packets l' = [] \<and> in_world l'"
  using assms(2-)
proof (induction k arbitrary: l)
  case 0
  then show ?case by (simp add: handled_def)
next
  case (Suc k)
  obtain ps l2 where r: "\<And>fs. world_updates env (MapSessionFilter # WorldSessionFilter # fs) l =
      map_option (apfst ((@) (map (\<lambda>p. (p, verdict_in_world p)) ps))) (world_updates env fs l2)"
    "in_world l2" "list_all node_safe (wl_packets l2)" "wl_packets l = ps @ wl_packets l2"
    "wl_packets l \<noteq> [] \<Longrightarrow> length (wl_packets l2) < length (wl_packets l)"
    by (rule one_round [OF env Suc.prems(1,2)]) (rule that)
  have "length (wl_packets l2) \<le> k"
  proof (cases "wl_packets l = []")
    case False
    from r(5) [OF this] Suc.prems(3) show ?thesis by linarith
  qed (use r(4) in simp)
  from Suc.IH [OF r(2,3) this] obtain log l' where
    io: "world_updates env (concat (replicate k [MapSessionFilter, WorldSessionFilter])) l2 = Some (log, l')"
    "map fst log = wl_packets l2" "handled log = filter handled_in_world (wl_packets l2)" "wl_packets l' = []" "in_world l'"
    by blast
  let ?log = "map (\<lambda>p. (p, verdict_in_world p)) ps @ log"
  have "handled ?log = filter handled_in_world (wl_packets l)"
    using handled_of_map [of ps] io(3) unfolding r(4) by (simp add: handled_def)
  moreover have "map fst ?log = wl_packets l" using io(2) unfolding r(4) by (simp add: comp_def)
  moreover have "world_updates env (concat (replicate (Suc k) [MapSessionFilter, WorldSessionFilter])) l = Some (?log, l')"
    using io(1) by (simp add: r(1) del: world_updates.simps)
  ultimately show ?case using io(4,5) by blast
qed

section \<open>What the proxy lets through\<close>

text \<open>
  C11: No packet the proxy passes on for a client can make the node read past its table, call the null
  pointer of an entry without a row, or reach the handler for the proxy's own packets.
\<close>

theorem client_cannot_crash_node:
  assumes "unat (opcode p) < NUM_MSG_TYPES"
    and "to_the_node (to_node_procedure (to_node (opcodeTable ! unat (opcode p))))"
    and "status_permits (status (opcodeTable ! unat (opcode p))) client"
    and "wl_session l \<noteq> None"
  shows "world_dispatch env p l \<noteq> None \<and> woh_handler (node_row p) \<noteq> HandleNodeDataReciever"
proof -
  let ?row = "opcodeTable ! unat (opcode p)"
  have "proxy_passes_row ?row"
    using assms(2,3) by (auto simp: proxy_passes_row_def to_node_procedure_def status_permits_def split: PacketState.splits)
  with nth_tables_agree [OF assms(1)] have h: "woh_handler (node_row p) \<noteq> WNullPointer"
    "woh_handler (node_row p) \<noteq> HandleNodeDataReciever" by (auto simp: rows_agree_def node_row_def)
  have c: "call_handler env (woh_handler (node_row p)) p m \<noteq> None" for m :: "'b world_link"
    using h(1) by (cases "woh_handler (node_row p)") simp_all
  obtain ss where ss: "wl_session l = Some ss" using assms(4) by auto
  have "world_dispatch env p l \<noteq> None"
    using assms(1) c unfolding world_dispatch_def ss option.case by (simp add: Let_def node_row_def)
  with h(2) show ?thesis by simp
qed

section \<open>The socket\<close>

lemma World_header_is_Node: "WorldSocket_handle_input_header = NodeSocket_handleInputHeader"
  by (intro ext) (simp add: WorldSocket_handle_input_header_def NodeSocket_handleInputHeader_def)

lemma WorldSocket_Send_frame:
  "sk_header (snd (WorldSocket_SendPacket upd q_full p s)) = sk_header s"
  unfolding World_is_Pool by (rule PoolSocket_Send_frame')

lemma ping_count_header: "sk_header (snd (WorldSocket_ping_count n now s)) = sk_header s"
  by (simp add: WorldSocket_ping_count_def Let_def)

lemma WorldSocket_incoming_frame:
  assumes "WorldSocket_ProcessIncoming upd q_full cf db now p s = (ret, s')"
  shows "sk_header s' = sk_header s"
proof -
  have ping: "sk_header (snd (WorldSocket_HandlePing upd q_full cf now p s)) = sk_header s"
  proof (cases "WorldSocket_ping_count (wc_maxOverspeedPings cf) now s")
    case (Pair kick s1)
    then have "sk_header s1 = sk_header s" by (metis ping_count_header snd_conv)
    with Pair show ?thesis
      unfolding WorldSocket_HandlePing_def
      by (simp add: WorldSocket_Send_frame del: bb_shr.simps split: sum.split prod.split list.split field.split)
  qed
  have auth: "sk_header (snd (WorldSocket_HandleAuthSession upd q_full cf db p s)) = sk_header s"
    unfolding WorldSocket_HandleAuthSession_def Let_def
    by (simp add: WorldSocket_Send_frame del: bb_shr.simps
        split: sum.split prod.split list.split field.split option.split)
  have "sk_header (snd (WorldSocket_ProcessIncoming upd q_full cf db now p s)) = sk_header s"
    by (simp add: WorldSocket_ProcessIncoming_def ping auth)
  with assms show ?thesis by simp
qed

interpretation world_frame: framing
  "WorldSocket_handle_input_header upd" "WorldSocket_ProcessIncoming upd q_full cf db now"
  Flexi_ClientPktHeader_sizeof for upd q_full cf db now
  unfolding World_header_is_Node
  by unfold_locales
    (use Flexi_sizeof_pos NodeSocket_header_contract WorldSocket_incoming_frame in blast)+

section \<open>Logging in at a node\<close>

text \<open>
  The login as the node reads it: the proxy writes each truth value as four bytes, the node reads one,
  so that the second value it reads is the second byte of the first.
\<close>

definition login_packet :: "bytes \<Rightarrow> u32 \<Rightarrow> u32 \<Rightarrow> bool \<Rightarrow> bool \<Rightarrow> wpacket" where
  "login_packet account i security authed forceTele =
     mk_pkt CMSG_AUTH_SESSION [Str account, U32 i, U32 security, Bl authed, Bl forceTele]"

lemma bb_shr_all_append:
  "bb_shr_all (ts @ us) b =
     rbind (bb_shr_all ts b) (\<lambda>(fs, b1). rbind (bb_shr_all us b1) (\<lambda>(gs, b2). Inr (fs @ gs, b2)))"
proof (induction ts arbitrary: b)
  case Nil
  then show ?case by (cases "bb_shr_all us b") auto
next
  case (Cons t ts)
  show ?case
  proof (cases "bb_shr t b")
    case (Inr p)
    obtain f b1 where p: "bb_shr t b = Inr (f, b1)" using Inr by (cases p) simp
    show ?thesis
    proof (cases "bb_shr_all ts b1")
      case (Inr q)
      obtain fs b2 where q: "bb_shr_all ts b1 = Inr (fs, b2)" using Inr by (cases q) simp
      show ?thesis
      proof (cases "bb_shr_all us b2")
        case r: (Inr r)
        then show ?thesis by (cases r) (simp add: p q Cons.IH del: bb_shr.simps)
      qed (simp add: p q Cons.IH del: bb_shr.simps)
    qed (simp add: p Cons.IH del: bb_shr.simps)
  qed (simp del: bb_shr.simps)
qed

lemma word_le_bool: "word_le (if v then 1 else 0 :: u32) = [if v then 1 else 0, 0, 0, 0]"
proof -
  have four: "(4 :: nat) = Suc (Suc (Suc (Suc 0)))" by simp
  have "le_bytes 4 n = [word_of_nat n, word_of_nat (n div 256), word_of_nat (n div 256 div 256),
      word_of_nat (n div 256 div 256 div 256)]" for n
    by (simp only: four le_bytes.simps)
  from this [of "unat (if v then 1 else 0 :: u32)"] show ?thesis by (cases v) (simp_all add: word_le_def)
qed

lemma login_packet_read:
  assumes "0 \<notin> set account"
  shows "\<exists>b. bb_shr_all [TStr, TU32, TU32, TBl, TBl] (buf (login_packet account i security authed forceTele)) =
    Inr ([Str account, U32 i, U32 security, Bl authed, Bl False], b)"
proof -
  let ?b = "buf (login_packet account i security authed forceTele)"
  let ?fs = "[Str account, U32 i, U32 security]"
  let ?b1 = "?b\<lparr>rpos := length (fields_bytes ?fs)\<rparr>"
  have fst: "bb_shr_all [TStr, TU32, TU32] ?b = Inr (?fs, ?b1)"
    using mk_pkt_read [of ?fs CMSG_AUTH_SESSION "[Bl authed, Bl forceTele]"] assms
    by (simp add: login_packet_def)
  have un: "unread ?b1 = [if authed then 1 else 0] @ [0] @ ([0, 0] @ field_bytes (Bl forceTele))"
    by (simp add: unread_def login_packet_def fields_bytes_def word_le_bool)
  have le: "rpos ?b1 + 2 \<le> bb_size ?b1" by (simp add: login_packet_def fields_bytes_def bb_size_def mk_pkt_def)
  let ?b2 = "?b1\<lparr>rpos := rpos ?b1 + length [if authed then 1 else 0 :: u8]\<rparr>"
  have r1: "bb_read (length [if authed then 1 else 0 :: u8]) ?b1 = Inr ([if authed then 1 else 0], ?b2)"
    using le by (intro bb_read_unread [OF un]) simp
  have un2: "unread ?b2 = [0] @ ([0, 0] @ field_bytes (Bl forceTele))" by (rule unread_advance [OF un])
  have r2: "bb_read (length [0 :: u8]) ?b2 = Inr ([0], ?b2\<lparr>rpos := rpos ?b2 + length [0 :: u8]\<rparr>)"
    using le by (intro bb_read_unread [OF un2]) (simp add: bb_size_def)
  have b1: "le_word [if authed then 1 else 0] = (if authed then 1 else 0 :: u8)" "le_word [0] = (0 :: u8)"
    using le_word_u8 [of "if authed then 1 else 0"] le_word_u8 [of 0] by (simp_all only: word_le_u8)
  have "bb_shr_all [TBl, TBl] ?b1 = Inr ([Bl authed, Bl False], ?b2\<lparr>rpos := rpos ?b2 + length [0 :: u8]\<rparr>)"
    using r1 r2 b1 by (simp del: b1)
  with fst bb_shr_all_append [of "[TStr, TU32, TU32]" "[TBl, TBl]" ?b] show ?thesis by auto
qed

lemma node_login:
  assumes "\<not> wc_closed cf" and "ldb_account db account = Some row" and "\<not> ldb_banned db (GetUInt32 (ar_id row))"
    and "\<not> security < wc_allowedSecurityLevel cf" and "0 \<notin> set account"
  shows "WorldSocket_HandleAuthSession upd q_full cf db (login_packet account i security authed forceTele) s =
      (0, s\<lparr>pl_m_Session := True, wl_AddSession := True,
           wl_session := Some (login_session cf db row security authed False)\<rparr>)"
proof -
  obtain b where "bb_shr_all [TStr, TU32, TU32, TBl, TBl] (buf (login_packet account i security authed forceTele)) =
    Inr ([Str account, U32 i, U32 security, Bl authed, Bl False], b)" using login_packet_read [OF assms(5)] by blast
  with assms show ?thesis
    unfolding WorldSocket_HandleAuthSession_def Let_def by (simp del: bb_shr.simps bb_shr_all.simps)
qed

lemma login_opcode: "opcode (login_packet account i security authed forceTele) = CMSG_AUTH_SESSION"
  by (simp add: login_packet_def)

text \<open>What a login comes to: a refusal, an unreadable packet or a new session.\<close>

lemma login_read_cases:
  assumes "P z" and "\<And>account i security authed forceTele b.
      x = Inr ([Str account, U32 i, U32 security, Bl authed, Bl forceTele], b) \<Longrightarrow> P (g account security authed forceTele)"
  shows "P (case x of Inr ([Str account, U32 _, U32 security, Bl authed, Bl forceTele], _) \<Rightarrow>
    g account security authed forceTele | _ \<Rightarrow> z)"
  using assms by (simp split: sum.split prod.split list.split field.split) blast

definition login_accepted ::
  "world_settings \<Rightarrow> login_db \<Rightarrow> wpacket \<Rightarrow> ('c, 'z) world_link_scheme \<Rightarrow> ('c, 'z) world_link_scheme \<Rightarrow> bool" where
  "login_accepted cf db pct s s' \<longleftrightarrow> \<not> wc_closed cf \<and>
     (\<exists>account i security authed forceTele b row. bb_shr_all [TStr, TU32, TU32, TBl, TBl] (buf pct) =
        Inr ([Str account, U32 i, U32 security, Bl authed, Bl forceTele], b) \<and> ldb_account db account = Some row \<and>
      \<not> ldb_banned db (GetUInt32 (ar_id row)) \<and> wc_allowedSecurityLevel cf \<le> security \<and>
      s' = s\<lparr>pl_m_Session := True, wl_AddSession := True,
         wl_session := Some (login_session cf db row security authed forceTele)\<rparr>)"

lemma HandleAuthSession_outcome:
  assumes "WorldSocket_HandleAuthSession upd q_full cf db pct s = (r, s')"
  shows "r = -1 \<and> ((\<exists>p. s' = snd (WorldSocket_SendPacket upd q_full p s)) \<or> s' = s) \<or> r = 0 \<and> login_accepted cf db pct s s'"
proof -
  define P where "P res \<longleftrightarrow> fst res = -1 \<and> ((\<exists>p. snd res = snd (WorldSocket_SendPacket upd q_full p s)) \<or> snd res = s) \<or>
    fst res = 0 \<and> login_accepted cf db pct s (snd res)" for res :: "int \<times> ('a, 'b) world_link_scheme"
  have refuse: "P (-1, snd (WorldSocket_SendPacket upd q_full p s))" for p by (auto simp: P_def)
  have "P (WorldSocket_HandleAuthSession upd q_full cf db pct s)"
  proof (cases "wc_closed cf")
    case True
    show ?thesis unfolding WorldSocket_HandleAuthSession_def Let_def if_P [OF True] by (rule refuse)
  next
    case False
    note opn = this
    show ?thesis unfolding WorldSocket_HandleAuthSession_def Let_def if_not_P [OF opn]
    proof (rule login_read_cases)
      fix account i security authed forceTele b
      assume rd: "bb_shr_all [TStr, TU32, TU32, TBl, TBl] (buf pct) =
        Inr ([Str account, U32 i, U32 security, Bl authed, Bl forceTele], b)"
      have acc: "P (0, s\<lparr>pl_m_Session := True, wl_AddSession := True,
          wl_session := Some (login_session cf db row security authed forceTele)\<rparr>)"
        if "ldb_account db account = Some row" "\<not> ldb_banned db (GetUInt32 (ar_id row))"
          "\<not> security < wc_allowedSecurityLevel cf" for row
        using rd opn that unfolding P_def login_accepted_def fst_conv snd_conv linorder_not_less by blast
      show "P (case ldb_account db account of
          None \<Rightarrow> (-1, snd (WorldSocket_SendPacket upd q_full (mk_pkt SMSG_AUTH_RESPONSE [U8 AUTH_UNKNOWN_ACCOUNT]) s))
        | Some row \<Rightarrow>
            if ldb_banned db (GetUInt32 (ar_id row))
            then (-1, snd (WorldSocket_SendPacket upd q_full (mk_pkt SMSG_AUTH_RESPONSE [U8 AUTH_BANNED]) s))
            else if security < wc_allowedSecurityLevel cf then (-1, snd (WorldSocket_SendPacket upd q_full (mk_pkt 0 []) s))
            else (0, s\<lparr>pl_m_Session := True, wl_AddSession := True,
               wl_session := Some (login_session cf db row security authed forceTele)\<rparr>))"
        using acc by (simp add: refuse split: option.split)
    qed (simp add: P_def)
  qed
  with assms show ?thesis by (simp add: P_def)
qed

lemma no_session_pings:
  assumes "\<not> pl_m_Session s" and "wl_session s = None"
  shows "fst (WorldSocket_HandlePing upd q_full cf now pct s) = -1"
    "wl_session (snd (WorldSocket_HandlePing upd q_full cf now pct s)) = None"
    "\<not> pl_m_Session (snd (WorldSocket_HandlePing upd q_full cf now pct s))"
proof -
  obtain kick s1 where c: "WorldSocket_ping_count (wc_maxOverspeedPings cf) now s = (kick, s1)" by fastforce
  then have "wl_session s1 = None" "\<not> pl_m_Session s1"
    using assms by (auto simp: WorldSocket_ping_count_def Let_def split: if_splits)
  then show "fst (WorldSocket_HandlePing upd q_full cf now pct s) = -1"
    "wl_session (snd (WorldSocket_HandlePing upd q_full cf now pct s)) = None"
    "\<not> pl_m_Session (snd (WorldSocket_HandlePing upd q_full cf now pct s))"
    using assms unfolding WorldSocket_HandlePing_def c
    by (simp_all del: bb_shr.simps bb_shr_all.simps split: sum.split prod.split list.split field.split)
qed

text \<open>
  C12: The node's gate: without a session, a packet other than the login and the keep-alive ends the
  connection, and a session comes only from a readable login for a known, unbanned account whose
  security level suffices, while the world is open.
\<close>

theorem WorldSocket_gate:
  assumes "WorldSocket_ProcessIncoming upd q_full cf db now pct (s :: 'c world_link) = (r, s')"
    and "\<not> pl_m_Session s" and "wl_session s = None"
  shows "(r = 0 \<longrightarrow> opcode pct \<in> {CMSG_AUTH_SESSION, CMSG_KEEP_ALIVE}) \<and>
    (wl_session s' = None \<and> \<not> pl_m_Session s' \<or>
     opcode pct = CMSG_AUTH_SESSION \<and> r = 0 \<and> \<not> wc_closed cf \<and>
     (\<exists>account i security a f b row ss. bb_shr_all [TStr, TU32, TU32, TBl, TBl] (buf pct) =
          Inr ([Str account, U32 i, U32 security, Bl a, Bl f], b) \<and> ldb_account db account = Some row \<and>
        \<not> ldb_banned db (GetUInt32 (ar_id row)) \<and> wc_allowedSecurityLevel cf \<le> security \<and>
        wl_session s' = Some ss \<and> ws_accountId ss = GetUInt32 (ar_id row) \<and> ws_security ss = security))"
proof (cases "opcode pct = CMSG_AUTH_SESSION \<and> \<not> sk_closing s")
  case False
  have ret: "snd (WorldSocket_ProcessIncoming upd q_full cf db now pct s) = s'"
    "fst (WorldSocket_ProcessIncoming upd q_full cf db now pct s) = r" using assms(1) by simp_all
  with no_session_pings [OF assms(2,3)] False assms(2,3) show ?thesis
    by (auto simp: WorldSocket_ProcessIncoming_def split: if_splits)
next
  case True
  then have "WorldSocket_HandleAuthSession upd q_full cf db pct s = (r, s')"
    using assms(1,2) by (simp add: WorldSocket_ProcessIncoming_def opcode_defs)
  from HandleAuthSession_outcome [OF this] show ?thesis
  proof (elim disjE conjE exE)
    fix p assume "r = -1" and s': "s' = snd (WorldSocket_SendPacket upd q_full p s)"
    moreover obtain r1 where "WorldSocket_SendPacket upd q_full p s = (r1, s')" using s' by (metis prod.collapse)
    ultimately show ?thesis using WorldSocket_Send_same assms(2,3) by fastforce
  next
    assume "r = 0" and acc: "login_accepted cf db pct s s'"
    with True show ?thesis unfolding login_accepted_def by fastforce
  qed (use assms(2,3) in simp)
qed

definition SEC_ADMINISTRATOR :: u32 where "SEC_ADMINISTRATOR = 3"

text \<open>
  The login names no secret: whoever reaches the port of a node logs in to any account with any
  security level, that of an administrator included.
\<close>

lemma node_trusts_any_peer:
  assumes "\<not> wc_closed cf" and "ldb_account db account = Some row" and "\<not> ldb_banned db (GetUInt32 (ar_id row))"
    and "wc_allowedSecurityLevel cf \<le> SEC_ADMINISTRATOR" and "0 \<notin> set account"
    and "\<not> sk_closing s" and "\<not> pl_m_Session s"
  shows "\<exists>s' ss. WorldSocket_ProcessIncoming upd q_full cf db now
      (login_packet account 0 SEC_ADMINISTRATOR True False) s = (0, s') \<and> wl_session s' = Some ss \<and>
    ws_accountId ss = GetUInt32 (ar_id row) \<and> ws_security ss = SEC_ADMINISTRATOR \<and> ws_authenticated ss"
proof -
  have "\<not> SEC_ADMINISTRATOR < wc_allowedSecurityLevel cf" using assms(4) by simp
  from node_login [OF assms(1-3) this assms(5), of upd q_full 0 True False s] assms(6,7) show ?thesis
    by (auto simp: WorldSocket_ProcessIncoming_def login_opcode opcode_defs)
qed

text \<open>
  C29: The order to teleport a player that comes back is lost on the way: the proxy puts it into the login
  and clears its flag, but the node that accepts the login never sees it.
\<close>

theorem force_teleport_is_lost:
  assumes "net_holds (se_net env)" and "node_open client s" and "HasFlag FLAG_FORCE_TELEPORT client"
    and "bb_shr_all [TU32, TU32] (buf challenge) = Inr fs" and "se_username env (ss_accountId client) = Some account"
    and "0 \<notin> set account"
    and "WorldSocket_HandleAuthSession upd q_full cf db
      (login_packet account (ss_accountId client) (ss_security client) (ss_authed client) True) t = (0, t')"
  shows "\<exists>client' s' ss. Handle_SMSG_AUTH_CHALLENGE_at env challenge client = Some client' \<and>
    ss_NodeSocket client' = Some s' \<and> out_pending s' = out_pending s @
      flexi_wire (login_packet account (ss_accountId client) (ss_security client) (ss_authed client) True) \<and>
    \<not> HasFlag FLAG_FORCE_TELEPORT client' \<and> wl_session t' = Some ss \<and> \<not> ws_forceTele ss"
proof -
  let ?p = "login_packet account (ss_accountId client) (ss_security client) (ss_authed client) True"
  let ?c = "RemoveFlag FLAG_FORCE_TELEPORT client"
  have "node_open ?c s" using assms(2) by (simp add: node_open_def RemoveFlag_def)
  then obtain s' where s': "SendPacketToNode (se_net env) ?p ?c = ?c\<lparr>ss_NodeSocket := Some s'\<rparr>"
    "out_pending s' = out_pending s @ flexi_wire ?p"
    by (rule SendPacketToNode_holds [OF assms(1)])
  have h: "Handle_SMSG_AUTH_CHALLENGE_at env challenge client = Some (?c\<lparr>ss_NodeSocket := Some s'\<rparr>)"
    using assms(3,4,5) s'(1) by (simp add: Handle_SMSG_AUTH_CHALLENGE_at_def login_packet_def Let_def
        del: bb_shr.simps bb_shr_all.simps)
  have "\<not> HasFlag FLAG_FORCE_TELEPORT (?c\<lparr>ss_NodeSocket := Some s'\<rparr>)" 
    using HasFlag_Remove [of FLAG_FORCE_TELEPORT client] by (simp add: HasFlag_def)
  moreover obtain b where "bb_shr_all [TStr, TU32, TU32, TBl, TBl] (buf ?p) =
      Inr ([Str account, U32 (ss_accountId client), U32 (ss_security client), Bl (ss_authed client), Bl False], b)"
    using login_packet_read [OF assms(6)] by blast
  then have "\<exists>ss. wl_session t' = Some ss \<and> \<not> ws_forceTele ss"
    using assms(7) unfolding WorldSocket_HandleAuthSession_def Let_def
    by (auto simp del: bb_shr.simps bb_shr_all.simps split: if_splits option.splits)
  ultimately show ?thesis using h s'(2) by auto
qed

section \<open>Players that change their node\<close>

definition NODE_MASTER :: u32 where "NODE_MASTER = 1"
definition NODE_EASTERN_KINGDOM :: u32 where "NODE_EASTERN_KINGDOM = 2"
definition NODE_KALIMDOR :: u32 where "NODE_KALIMDOR = 3"
definition NODE_OUTLAND :: u32 where "NODE_OUTLAND = 4"
definition NODE_NORTHREND :: u32 where "NODE_NORTHREND = 5"

lemmas map_nodes = NODE_MASTER_def NODE_EASTERN_KINGDOM_def NODE_KALIMDOR_def NODE_OUTLAND_def NODE_NORTHREND_def

definition CL_PLR_SEND_NODE_CHANGED_MSG :: u32 where "CL_PLR_SEND_NODE_CHANGED_MSG = 1009"

definition city_zones :: "u32 list" where
  "city_zones = [440, 3523, 4395, 1637, 1638, 3487, 1497, 1519, 1537, 1657, 3557]"

text \<open>
  One branch of \<open>Player::SendNodeChangeCheck\<close>: it marks the session, tells the proxy's session what to
  announce (\<open>announced\<close>, the node named in the message) and asks for the move. The flag
  \<open>IsInCityMasterNode\<close>, which nothing reads, is left out.
\<close>

definition send_to :: "'c wenv \<Rightarrow> u32 \<Rightarrow> u32 \<Rightarrow> u32 \<Rightarrow> 'c world_link \<Rightarrow> 'c world_link" where
  "send_to env announced mid target l =
     SendChangeNode env target
       (world_SendPacket env (mk_pkt NODE_PLAYER_DATA [U32 CL_PLR_SEND_NODE_CHANGED_MSG, U32 announced, U32 mid])
          (on_wsess (\<lambda>ss. ss\<lparr>ws_SentToNode := True\<rparr>) l))"

text \<open>The zones with their maps are the argument \<open>areas\<close>, a table of the client's files.\<close>

definition SendNodeChangeCheck :: "(u32 \<Rightarrow> u32 option) \<Rightarrow> 'c wenv \<Rightarrow> 'c world_link \<Rightarrow> 'c world_link" where
  "SendNodeChangeCheck areas env l =
     (case wl_session l of
        None \<Rightarrow> l
      | Some ss \<Rightarrow>
          (case ws_player ss of
             None \<Rightarrow> l
           | Some p \<Rightarrow>
               (case areas (wp_zoneUpdateId p) of
                  None \<Rightarrow> l
                | Some mid \<Rightarrow>
                    (let nid = wc_realmId (we_cf env)
                     in if ws_SentToNode ss then l
                        else if wp_zoneUpdateId p \<in> set city_zones then
                          (if nid \<noteq> NODE_MASTER then send_to env NODE_MASTER mid NODE_MASTER l else l)
                        else
                          (let l1 = (if mid = 0 \<and> nid \<noteq> NODE_EASTERN_KINGDOM
                                     then send_to env nid mid NODE_EASTERN_KINGDOM l else l);
                               l2 = (if mid = 1 \<and> nid \<noteq> NODE_KALIMDOR
                                     then send_to env nid mid NODE_KALIMDOR l1 else l1);
                               l3 = (if mid = 530 \<and> nid \<noteq> NODE_OUTLAND
                                     then send_to env nid mid NODE_OUTLAND l2 else l2)
                           in if mid = 571 \<and> nid \<noteq> NODE_NORTHREND
                              then send_to env nid mid NODE_NORTHREND l3 else l3)))))"

text \<open>What the rule means: the node a zone of a map belongs to, if it belongs to one.\<close>

definition home_node :: "u32 \<Rightarrow> u32 \<Rightarrow> u32 option" where
  "home_node zone mid =
     (if zone \<in> set city_zones then Some NODE_MASTER
      else if mid = 0 then Some NODE_EASTERN_KINGDOM
      else if mid = 1 then Some NODE_KALIMDOR
      else if mid = 530 then Some NODE_OUTLAND
      else if mid = 571 then Some NODE_NORTHREND
      else None)"

lemma SendNodeChangeCheck_home:
  assumes "wl_session l = Some ss" and "ws_player ss = Some p" and "areas (wp_zoneUpdateId p) = Some mid"
  shows "SendNodeChangeCheck areas env l =
    (case home_node (wp_zoneUpdateId p) mid of
       None \<Rightarrow> l
     | Some n \<Rightarrow>
         if ws_SentToNode ss \<or> n = wc_realmId (we_cf env) then l
         else send_to env (if wp_zoneUpdateId p \<in> set city_zones then NODE_MASTER else wc_realmId (we_cf env)) mid n l)"
proof -
  consider "ws_SentToNode ss" | "wp_zoneUpdateId p \<in> set city_zones" "\<not> ws_SentToNode ss"
    | "mid \<in> {0, 1, 530, 571}" "wp_zoneUpdateId p \<notin> set city_zones" "\<not> ws_SentToNode ss"
    | "mid \<notin> {0, 1, 530, 571}" "wp_zoneUpdateId p \<notin> set city_zones" by blast
  then show ?thesis
  proof cases
    case 1
    then show ?thesis by (simp add: SendNodeChangeCheck_def assms Let_def split: option.split)
  next
    case 2
    then show ?thesis by (simp add: SendNodeChangeCheck_def home_node_def assms Let_def)
  next
    case 3
    note known = SendNodeChangeCheck_def home_node_def assms Let_def 3(2,3)
    from 3(1) consider "mid = 0" | "mid = 1" | "mid = 530" | "mid = 571" by blast
    then show ?thesis by cases (simp_all add: known)
  next
    case 4
    then show ?thesis by (simp add: SendNodeChangeCheck_def home_node_def assms Let_def)
  qed
qed

lemma send_to_session:
  "wl_session (send_to env announced mid target l) =
     map_option (\<lambda>ss. ss\<lparr>ws_SentToNode := True, ws_newNode := target\<rparr>) (wl_session l)"
  by (cases "wl_session l") (simp_all add: send_to_def SendChangeNode_def on_wsess_def)

text \<open>
  C13: The rule settles: a check orders a player exactly to the home of its zone if it is elsewhere, the
  next update sends that order, and no check at the home node orders it away again.
\<close>

theorem node_change_settles:
  assumes l: "wl_session l = Some ss" "ws_player ss = Some p" "\<not> ws_SentToNode ss" "ws_newNode ss = 0"
    and "areas (wp_zoneUpdateId p) = Some mid"
  shows "(\<exists>ss'. wl_session (SendNodeChangeCheck areas env l) = Some ss' \<and>
      ws_newNode ss' = (case home_node (wp_zoneUpdateId p) mid of
        None \<Rightarrow> 0 | Some n \<Rightarrow> if n = wc_realmId (we_cf env) then 0 else n)) \<and>
    (home_node (wp_zoneUpdateId p) mid = Some (wc_realmId (we_cf there)) \<longrightarrow> SendNodeChangeCheck areas there l = l)"
proof
  note home = SendNodeChangeCheck_home [where areas = areas and l = l, OF l(1,2) assms(5)]
  show "\<exists>ss'. wl_session (SendNodeChangeCheck areas env l) = Some ss' \<and>
      ws_newNode ss' = (case home_node (wp_zoneUpdateId p) mid of
        None \<Rightarrow> 0 | Some n \<Rightarrow> if n = wc_realmId (we_cf env) then 0 else n)"
    using l unfolding home by (simp add: send_to_session split: option.split)
  show "home_node (wp_zoneUpdateId p) mid = Some (wc_realmId (we_cf there)) \<longrightarrow> SendNodeChangeCheck areas there l = l"
    unfolding home by simp
qed

text \<open>The message names the node the player leaves, except for the cities.\<close>

lemma announced_node_is_the_old_one:
  assumes "wl_session l = Some ss" "ws_player ss = Some p" "areas (wp_zoneUpdateId p) = Some 1" "\<not> ws_SentToNode ss"
    and "wp_zoneUpdateId p \<notin> set city_zones" "wc_realmId (we_cf env) = NODE_MASTER"
  shows "SendNodeChangeCheck areas env l = send_to env NODE_MASTER 1 NODE_KALIMDOR l"
  using assms by (simp add: SendNodeChangeCheck_home home_node_def map_nodes)

text \<open>An order the proxy does not follow is never repeated: the mark is not taken back.\<close>

lemma order_not_repeated:
  assumes "wl_session l = Some ss" and "ws_SentToNode ss"
  shows "SendNodeChangeCheck areas env l = l"
  using assms unfolding SendNodeChangeCheck_def by (simp add: Let_def split: option.split)

section \<open>Concrete links\<close>

definition ex_settings :: "u32 \<Rightarrow> world_settings" where
  "ex_settings realm = \<lparr>wc_closed = False, wc_expansion = 2, wc_allowedSecurityLevel = 0, wc_timeout = 900,
     wc_maxOverspeedPings = 2, wc_realmId = realm, wc_clientcache = 12340\<rparr>"

definition ex_wenv :: "u32 \<Rightarrow> unit wenv" where
  "ex_wenv realm = \<lparr>we_upd = (\<lambda>c bs. (bs, c)), we_full = (\<lambda>_. False), we_cf = ex_settings realm, we_time = 1000,
     we_handler = (\<lambda>_ _ l. l), we_guildInvite = (\<lambda>_ l. l), we_callbacks = (\<lambda>l. l), we_worldport = (\<lambda>l. l),
     we_leave = (\<lambda>_ l. l)\<rparr>"

text \<open>Two accounts, with the numbers seven and eight.\<close>

definition ex_account :: "bytes \<Rightarrow> account_row" where
  "ex_account i = \<lparr>ar_id = Some i, ar_sessionkey = None, ar_last_ip = None, ar_locked = None, ar_v = None, ar_s = None,
     ar_expansion = Some (ascii ''2''), ar_mutetime = None, ar_locale = None, ar_recruiter = None\<rparr>"

definition ex_db :: login_db where
  "ex_db = \<lparr>ldb_account = [ascii ''ANNA'' \<mapsto> ex_account (ascii ''7''), ascii ''BERT'' \<mapsto> ex_account (ascii ''8'')],
     ldb_banned = (\<lambda>_. False), ldb_recruits = (\<lambda>_. False), ldb_tutorials = (\<lambda>_. None)\<rparr>"

definition ex_link :: "unit world_link" where
  "ex_link = pool_link.extend (pool_fresh None) \<lparr>wl_session = None, wl_OverSpeedPings = 0, wl_AddSession = False\<rparr>"

text \<open>A player in zone 14 of map 1, with the given packets waiting.\<close>

definition ex_playing :: "wpacket list \<Rightarrow> unit world_link" where
  "ex_playing ps = ex_link\<lparr>pl_m_Session := True, wl_session := Some
     ((WorldSession_new (ex_settings 1) 7 True 0 2 0 0 0 False False)
        \<lparr>ws_player := Some \<lparr>wp_guid = 42, wp_inWorld = True, wp_zoneUpdateId = 14\<rparr>,
         ws_recvQueue := \<lparr>lq_queue = ps, lq_canceled = False\<rparr>\<rparr>)\<rparr>"

lemma ex_link_sel [simp]:
  "wl_session ex_link = None" "\<not> wl_AddSession ex_link" "\<not> pl_m_Session ex_link" "\<not> sk_closing ex_link"
  "out_ok ex_link" "\<not> crypt_initialized (sk_crypt ex_link)" "out_pending ex_link = []"
  by (simp_all add: ex_link_def pool_link.defs pool_fresh_def out_ok_def mb_new_def AuthCrypt_new_def out_pending_def
      mb_unread_def)

lemma ex_wenv_sel [simp]:
  "we_full (ex_wenv r) = (\<lambda>_. False)" "we_cf (ex_wenv r) = ex_settings r" "we_time (ex_wenv r) = 1000"
  "we_callbacks (ex_wenv r) = (\<lambda>l. l)" "wc_realmId (ex_settings r) = r" "\<not> wc_closed (ex_settings r)"
  "wc_allowedSecurityLevel (ex_settings r) = 0" "wc_timeout (ex_settings r) = 900"
  by (simp_all add: ex_wenv_def ex_settings_def)

lemma ex_wenv_keeps: "wenv_keeps (ex_wenv r)"
  by (simp add: wenv_keeps_def ex_wenv_def link_keeps_id)

lemma ex_wenv_stays: "wenv_stays (ex_wenv r)"
  by (simp add: wenv_stays_def ex_wenv_def stays_def link_keeps_id)

lemma ex_playing_in_world: "in_world (ex_playing ps)" "wl_packets (ex_playing ps) = ps"
  by (simp_all add: in_world_def ex_playing_def WorldSession_new_def ResetTimeOutTime_def Let_def)

lemma ex_rows:
  "world_opcodeTable ! 8 = WOH ''CMSG_WORLD_TELEPORT'' STATUS_LOGGEDIN PROCESS_THREADUNSAFE
     (WorldHandler ''HandleWorldTeleportOpcode'') False"
  "world_opcodeTable ! 0x50 = WOH ''CMSG_NAME_QUERY'' STATUS_LOGGEDIN PROCESS_THREADSAFE
     (WorldHandler ''HandleNameQueryOpcode'') False"
  "world_opcodeTable ! 0x36 = WOH ''CMSG_CHAR_CREATE'' STATUS_AUTHED PROCESS_THREADUNSAFE
     (WorldHandler ''HandleCharCreateOpcode'') False"
  by (simp_all add: world_opcodeTable_def nth_append length_node_rows) (simp_all add: node_rows_0_def)

theorem update_keeps_packets_witness:
  "\<exists>log l' rest. WorldSession_Update (ex_wenv 1) WorldSessionFilter (ex_playing [mk_pkt 8 [], mk_pkt 0x50 [U64 42]]) =
       Some (True, log, l') \<and> map fst log = [mk_pkt 8 []] \<and>
     [mk_pkt 8 [], mk_pkt 0x50 [U64 42]] = map fst log @ rest \<and> wl_packets l' = requeued log @ rest"
proof -
  let ?l = "ex_playing [mk_pkt 8 [], mk_pkt 0x50 [U64 42]]"
  have "list_all node_safe (wl_packets ?l)"
    by (simp add: ex_playing_in_world node_safe_def node_row_def ex_rows NUM_MSG_TYPES_def)
  from update_in_world [OF ex_wenv_stays ex_playing_in_world(1) this, of 1 WorldSessionFilter] obtain l' where
    u: "WorldSession_Update (ex_wenv 1) WorldSessionFilter ?l = Some (True, [(mk_pkt 8 [], verdict_in_world (mk_pkt 8 []))], l')"
    by (auto simp: ex_playing_in_world takes_in_world_def node_row_def ex_rows)
  from update_keeps_packets [OF u ex_wenv_keeps] u show ?thesis by (auto simp: ex_playing_in_world)
qed

theorem both_threads_drain_witness:
  "\<exists>log l'. world_updates (ex_wenv 1) [MapSessionFilter, WorldSessionFilter, MapSessionFilter, WorldSessionFilter]
       (ex_playing [mk_pkt 8 [], mk_pkt 0x50 [U64 42]]) = Some (log, l') \<and>
     map fst log = [mk_pkt 8 [], mk_pkt 0x50 [U64 42]] \<and> handled log = [mk_pkt 8 [], mk_pkt 0x50 [U64 42]] \<and>
     wl_packets l' = [] \<and> in_world l'"
proof -
  let ?l = "ex_playing [mk_pkt 8 [], mk_pkt 0x50 [U64 42]]"
  have safe: "list_all node_safe (wl_packets ?l)" and two: "length (wl_packets ?l) \<le> 2"
    by (simp_all add: ex_playing_in_world node_safe_def node_row_def ex_rows NUM_MSG_TYPES_def)
  have twice: "concat (replicate 2 [MapSessionFilter, WorldSessionFilter]) =
      [MapSessionFilter, WorldSessionFilter, MapSessionFilter, WorldSessionFilter]" by (simp add: numeral_2_eq_2)
  from both_threads_drain [OF ex_wenv_stays ex_playing_in_world(1) safe two] show ?thesis
    unfolding twice ex_playing_in_world(2) by (simp add: handled_in_world_def node_row_def ex_rows del: world_updates.simps)
qed

theorem client_cannot_crash_node_witness:
  "world_dispatch (ex_wenv 1) (mk_pkt 0x36 []) (ex_playing []) \<noteq> None \<and>
   woh_handler (node_row (mk_pkt 0x36 [])) \<noteq> HandleNodeDataReciever"
  by (rule client_cannot_crash_node [where client = "example_session 0 [] []"])
    (simp_all add: row_CHAR_CREATE NUM_MSG_TYPES_def to_node_procedure_def status_permits_def example_session_def
      ex_playing_def)

theorem WorldSocket_gate_witness:
  "\<exists>s'. WorldSocket_ProcessIncoming plain_upd (\<lambda>_. False) (ex_settings 1) ex_db 0 (mk_pkt 0x36 []) ex_link = (-1, s') \<and>
     wl_session s' = None \<and> \<not> pl_m_Session s'"
proof -
  have in1: "WorldSocket_ProcessIncoming plain_upd (\<lambda>_. False) (ex_settings 1) ex_db 0 (mk_pkt 0x36 []) ex_link = (-1, ex_link)"
    by (simp add: WorldSocket_ProcessIncoming_def opcode_defs)
  from WorldSocket_gate [OF in1] in1 show ?thesis by simp
qed

lemma ex_accounts:
  "0 \<notin> set (ascii ''ANNA'')" "0 \<notin> set (ascii ''BERT'')"
  "ldb_account ex_db (ascii ''ANNA'') = Some (ex_account (ascii ''7''))"
  "ldb_account ex_db (ascii ''BERT'') = Some (ex_account (ascii ''8''))"
  "GetUInt32 (ar_id (ex_account (ascii ''7''))) = 7" "GetUInt32 (ar_id (ex_account (ascii ''8''))) = 8"
  "\<not> ldb_banned ex_db i"
  by (simp_all add: ascii_def ex_db_def ex_account_def GetUInt32_def is_digit_def dec_value_def long_sat_def)

theorem force_teleport_is_lost_witness:
  "\<exists>client' s' t' ss. Handle_SMSG_AUTH_CHALLENGE_at example_env (mk_pkt SMSG_AUTH_CHALLENGE [U32 1, U32 5])
       (example_session FLAG_FORCE_TELEPORT [] []) = Some client' \<and> ss_NodeSocket client' = Some s' \<and>
     out_pending s' = flexi_wire (login_packet (ascii ''ANNA'') 7 0 True True) \<and>
     WorldSocket_HandleAuthSession plain_upd (\<lambda>_. False) (ex_settings 1) ex_db
       (login_packet (ascii ''ANNA'') 7 0 True True) ex_link = (0, t') \<and>
     wl_session t' = Some ss \<and> \<not> ws_forceTele ss"
proof -
  let ?c = "example_session FLAG_FORCE_TELEPORT [] []"
  have sel: "se_username example_env (ss_accountId ?c) = Some (ascii ''ANNA'')" "ss_accountId ?c = 7" "ss_security ?c = 0"
    "ss_authed ?c" "HasFlag FLAG_FORCE_TELEPORT ?c"
    by (simp_all add: example_env_def example_session_def HasFlag_def session_flags)
  obtain b where rd: "bb_shr_all [TU32, TU32] (buf (mk_pkt SMSG_AUTH_CHALLENGE [U32 1, U32 5])) = Inr ([U32 1, U32 5], b)"
    using mk_pkt_read [of "[U32 1, U32 5]" SMSG_AUTH_CHALLENGE "[]"] by auto
  let ?t = "ex_link\<lparr>pl_m_Session := True, wl_AddSession := True,
     wl_session := Some (login_session (ex_settings 1) ex_db (ex_account (ascii ''7'')) (ss_security ?c) (ss_authed ?c) False)\<rparr>"
  have t: "WorldSocket_HandleAuthSession plain_upd (\<lambda>_. False) (ex_settings 1) ex_db
      (login_packet (ascii ''ANNA'') (ss_accountId ?c) (ss_security ?c) (ss_authed ?c) True) ex_link = (0, ?t)"
    by (rule node_login [OF _ ex_accounts(3) ex_accounts(7) _ ex_accounts(1)]) simp_all
  from force_teleport_is_lost [OF example_env_idle(2) example_node_open sel(5) rd sel(1) ex_accounts(1) t] t show ?thesis
    by (auto simp: sel out_pending_def sock_fresh_def mb_unread_def mb_new_def)
qed

text \<open>A player of the master node in map 1 is ordered to node 3, whose own check then does nothing.\<close>

theorem node_change_settles_witness:
  "\<exists>ss'. wl_session (SendNodeChangeCheck (\<lambda>_. Some 1) (ex_wenv NODE_MASTER) (ex_playing [])) = Some ss' \<and>
     ws_newNode ss' = NODE_KALIMDOR \<and>
     SendNodeChangeCheck (\<lambda>_. Some 1) (ex_wenv NODE_KALIMDOR) (ex_playing []) = ex_playing []"
proof -
  obtain ss p where l: "wl_session (ex_playing []) = Some ss" "ws_player ss = Some p" "\<not> ws_SentToNode ss" "ws_newNode ss = 0"
    and p: "wp_zoneUpdateId p = 14"
    by (simp add: ex_playing_def WorldSession_new_def Let_def ResetTimeOutTime_def)
  have h: "home_node 14 1 = Some NODE_KALIMDOR" by (simp add: home_node_def city_zones_def)
  from node_change_settles [OF l, of "\<lambda>_. Some 1" 1 "ex_wenv NODE_MASTER" "ex_wenv NODE_KALIMDOR"]
  show ?thesis by (auto simp: p h map_nodes)
qed

end
