(* ===== verification/NodeWorld.thy ===== *)
theory NodeWorld
  imports WorldLink
begin

text \<open>
  The sessions of a node, \<open>game/World/World.cpp\<close>: the queue of new sessions the sockets fill, the map of
  the sessions in use, the waiting players and the sessions of players whose link is gone.

  A session lives on the link it came over and both have one address, so that a pointer to a session is
  a number and using it after \<open>delete\<close> is an error value. The steps of the world are those of its own
  thread (\<open>UpdateSessions\<close>), of the threads of the maps, of the sockets and of the console commands that
kick players; they interleave. A step is one call of these functions: the threads of the maps
  run between the updates of the world's thread, and what the sockets share with it is under their locks.
\<close>

section \<open>State\<close>

datatype world_error = DanglingSession nat | SessionFault nat

record 'c world =
  wo_links :: "nat \<Rightarrow> 'c world_link option"
  wo_addSessQueue :: "nat locked_queue"
  wo_sessions :: "(u32 \<times> nat) list"
  wo_offlineSessions :: "(u32 \<times> nat) list"
  wo_QueuedPlayer :: "nat list"
  wo_playerLimit :: u32
  wo_maxActiveSessionCount :: u32
  wo_maxQueuedSessionCount :: u32

definition world_session :: "nat \<Rightarrow> 'c world \<Rightarrow> wsession option" where
  "world_session p w = Option.bind (wo_links w p) wl_session"

definition on_link :: "('c world_link \<Rightarrow> 'c world_link) \<Rightarrow> nat \<Rightarrow> 'c world \<Rightarrow> world_error + 'c world" where
  "on_link f p w =
     (case wo_links w p of
        None \<Rightarrow> Inl (DanglingSession p)
      | Some l \<Rightarrow> if wl_session l = None then Inl (DanglingSession p)
                  else Inr (w\<lparr>wo_links := (wo_links w)(p \<mapsto> f l)\<rparr>))"

section \<open>Operations\<close>

definition world_ActiveAndQueued :: "'c world \<Rightarrow> u32" where
  "world_ActiveAndQueued w = word_of_nat (length (wo_sessions w))"

definition world_ActiveSessionCount :: "'c world \<Rightarrow> u32" where
  "world_ActiveSessionCount w = word_of_nat (length (wo_sessions w)) - word_of_nat (length (wo_QueuedPlayer w))"

definition world_MaxSessionCounters :: "'c world \<Rightarrow> 'c world" where
  "world_MaxSessionCounters w =
     w\<lparr>wo_maxActiveSessionCount := max (wo_maxActiveSessionCount w) (world_ActiveSessionCount w),
       wo_maxQueuedSessionCount := max (wo_maxQueuedSessionCount w) (word_of_nat (length (wo_QueuedPlayer w)))\<rparr>"

definition KickSession :: "u32 \<Rightarrow> 'c world \<Rightarrow> world_error + bool \<times> 'c world" where
  "KickSession i w =
     (case map_of (wo_sessions w) i of
        None \<Rightarrow> Inr (True, w)
      | Some p \<Rightarrow>
          (case world_session p w of
             None \<Rightarrow> Inl (DanglingSession p)
           | Some ss \<Rightarrow>
               if ws_playerLoading ss then Inr (False, w)
               else rbind (on_link (world_KickPlayer False) p w) (\<lambda>w1. Inr (True, w1))))"

definition world_AddQueuedPlayer :: "'c wenv \<Rightarrow> nat \<Rightarrow> 'c world \<Rightarrow> world_error + 'c world" where
  "world_AddQueuedPlayer env p w =
     rbind (on_link (on_wsess (\<lambda>ss. ss\<lparr>ws_inQueue := True\<rparr>)) p w)
       (\<lambda>w1. let w2 = w1\<lparr>wo_QueuedPlayer := wo_QueuedPlayer w1 @ [p]\<rparr>
             in on_link (world_SendAuthResponse env AUTH_WAIT_QUEUE False
                  (word_of_nat (pos_in p 1 (wo_QueuedPlayer w2)))) p w2)"

text \<open>The old session of the account, which saves and takes the player out of the world.\<close>

definition replace_old :: "'c wenv \<Rightarrow> u32 \<Rightarrow> 'c world \<Rightarrow> world_error + 'c world" where
  "replace_old env i w =
     (case map_of (wo_sessions w) i of
        None \<Rightarrow> Inr w
      | Some old \<Rightarrow>
          rbind (on_link (\<lambda>l. WorldSession_delete env
              (on_wsess (\<lambda>ss. ss\<lparr>ws_shouldSetOfflineInDB := False\<rparr>) (LogoutPlayer env True l))) old w) Inr)"

definition world_AddSession_now :: "'c wenv \<Rightarrow> nat \<Rightarrow> 'c world \<Rightarrow> world_error + 'c world" where
  "world_AddSession_now env p w =
     (case world_session p w of
        None \<Rightarrow> Inl (DanglingSession p)
      | Some s \<Rightarrow>
          rbind (KickSession (ws_accountId s) w)
            (\<lambda>(ok, w1).
              if \<not> ok then on_link (\<lambda>l. WorldSession_delete env (world_KickPlayer True l)) p w1
              else rbind (replace_old env (ws_accountId s) w1)
                (\<lambda>w2.
                  let w3 = w2\<lparr>wo_sessions := um_set (ws_accountId s) p (wo_sessions w2)\<rparr>;
                      Sessions = world_ActiveAndQueued w3 - 1;
                      pLimit = wo_playerLimit w3
                  in if 0 < pLimit \<and> pLimit \<le> Sessions \<and> ws_security s = SEC_PLAYER \<and> \<not> ws_skipQueue s
                     then rbind (world_AddQueuedPlayer env p w3) (\<lambda>w4. Inr (world_MaxSessionCounters w4))
                     else rbind (on_link (\<lambda>l. world_SendTutorialsData env
                            (world_SendClientCacheVersion env (wc_clientcache (we_cf env))
                              (world_SendAddonsInfo env (world_SendAuthResponse env AUTH_OK True 0 l)))) p w3)
                          (\<lambda>w4. Inr (world_MaxSessionCounters w4)))))"

text \<open>\<open>while (addSessQueue.next(sess))\<close>: the fuel is the length of the queue.\<close>

fun add_new_sessions :: "'c wenv \<Rightarrow> nat \<Rightarrow> 'c world \<Rightarrow> world_error + 'c world" where
  "add_new_sessions env 0 w = Inr w"
| "add_new_sessions env (Suc n) w =
     (case lq_next (wo_addSessQueue w) of
        None \<Rightarrow> Inr w
      | Some (p, q) \<Rightarrow> rbind (world_AddSession_now env p (w\<lparr>wo_addSessQueue := q\<rparr>)) (add_new_sessions env n))"

definition update_session :: "'c wenv \<Rightarrow> u32 \<times> nat \<Rightarrow> 'c world \<Rightarrow> world_error + 'c world" where
  "update_session env e w =
     (case e of (i, p) \<Rightarrow>
       (case wo_links w p of
          None \<Rightarrow> Inl (DanglingSession p)
        | Some l \<Rightarrow>
            if wl_session l = None then Inl (DanglingSession p)
            else (case WorldSession_Update env WorldSessionFilter l of
                None \<Rightarrow> Inl (SessionFault p)
              | Some (True, _, l1) \<Rightarrow> Inr (w\<lparr>wo_links := (wo_links w)(p \<mapsto> l1)\<rparr>)
              | Some (False, _, l1) \<Rightarrow>
                  (let w1 = w\<lparr>wo_sessions := um_erase i (wo_sessions w), wo_links := (wo_links w)(p \<mapsto> l1)\<rparr>
                   in on_link (\<lambda>l. WorldSession_delete env
                        (on_wsess (\<lambda>ss. if i \<in> fst ` set (wo_offlineSessions w1)
                           then ss\<lparr>ws_shouldSetOfflineInDB := False\<rparr> else ss) l)) p w1))))"

fun update_each :: "('e \<Rightarrow> 'w \<Rightarrow> world_error + 'w) \<Rightarrow> 'e list \<Rightarrow> 'w \<Rightarrow> world_error + 'w" where
  "update_each f [] w = Inr w"
| "update_each f (e # es) w = rbind (f e w) (update_each f es)"

definition update_offline :: "'c wenv \<Rightarrow> u32 \<times> nat \<Rightarrow> 'c world \<Rightarrow> world_error + 'c world" where
  "update_offline env e w =
     (case e of (i, p) \<Rightarrow>
       (case world_session p w of
          None \<Rightarrow> Inl (DanglingSession p)
        | Some ss \<Rightarrow>
            if ws_player ss = None \<or> ws_kicked ss
            then (let w1 = w\<lparr>wo_offlineSessions := um_erase i (wo_offlineSessions w)\<rparr>
                  in on_link (\<lambda>l. WorldSession_delete env
                       (on_wsess (\<lambda>ss. if ws_accountId ss \<in> fst ` set (wo_sessions w1)
                          then ss\<lparr>ws_shouldSetOfflineInDB := False\<rparr> else ss) l)) p w1)
            else Inr w))"

definition UpdateSessions :: "'c wenv \<Rightarrow> 'c world \<Rightarrow> world_error + 'c world" where
  "UpdateSessions env w =
     rbind (add_new_sessions env (length (lq_queue (wo_addSessQueue w))) w)
       (\<lambda>w1. rbind (update_each (update_session env) (wo_sessions w1) w1)
         (\<lambda>w2. update_each (update_offline env) (wo_offlineSessions w2) w2))"

definition world_KickAll :: "'c world \<Rightarrow> world_error + 'c world" where
  "world_KickAll w =
     rbind (update_each (\<lambda>e. on_link (world_KickPlayer True) (snd e)) (wo_sessions w) (w\<lparr>wo_QueuedPlayer := []\<rparr>))
       (\<lambda>w1. update_each (\<lambda>e. on_link (world_KickPlayer True) (snd e)) (wo_offlineSessions w1) w1)"

definition world_KickAllLess :: "u32 \<Rightarrow> 'c world \<Rightarrow> world_error + 'c world" where
  "world_KickAllLess sec w =
     update_each (\<lambda>e. on_link (\<lambda>l. case wl_session l of
         None \<Rightarrow> l | Some ss \<Rightarrow> if ws_security ss < sec then world_KickPlayer True l else l) (snd e)) (wo_sessions w) w"

text \<open>
  A packet arrives at a socket; a login that was accepted has called \<open>sWorld->AddSession\<close>.
\<close>

definition world_receive :: "'c wenv \<Rightarrow> login_db \<Rightarrow> nat \<Rightarrow> nat \<Rightarrow> wpacket \<Rightarrow> 'c world \<Rightarrow> 'c world" where
  "world_receive env db now p pct w =
     (case wo_links w p of
        None \<Rightarrow> w
      | Some l \<Rightarrow>
          (case WorldSocket_ProcessIncoming (we_upd env) (we_full env) (we_cf env) db now pct l of
             (r, l1) \<Rightarrow>
               if wl_AddSession l1
               then w\<lparr>wo_links := (wo_links w)(p \<mapsto> l1\<lparr>wl_AddSession := False\<rparr>),
                      wo_addSessQueue := lq_add p (wo_addSessQueue w)\<rparr>
               else w\<lparr>wo_links := (wo_links w)(p \<mapsto> l1)\<rparr>))"

text \<open>A thread of the maps updates the session of one of its players, if the player is in the world.\<close>

definition map_update :: "'c wenv \<Rightarrow> nat \<Rightarrow> 'c world \<Rightarrow> world_error + 'c world" where
  "map_update env p w =
     (case wo_links w p of
        None \<Rightarrow> Inl (DanglingSession p)
      | Some l \<Rightarrow>
          if (case wl_player l of None \<Rightarrow> False | Some player \<Rightarrow> wp_inWorld player)
          then (case WorldSession_Update env MapSessionFilter l of
              None \<Rightarrow> Inl (SessionFault p)
            | Some (_, _, l1) \<Rightarrow> Inr (w\<lparr>wo_links := (wo_links w)(p \<mapsto> l1)\<rparr>))
          else Inr w)"

definition fresh_link :: "'c world_link \<Rightarrow> bool" where
  "fresh_link l \<longleftrightarrow> wl_session l = None \<and> \<not> pl_m_Session l \<and> \<not> wl_AddSession l \<and> \<not> sk_closing l"

inductive world_step :: "'c wenv \<Rightarrow> login_db \<Rightarrow> 'c world \<Rightarrow> 'c world \<Rightarrow> bool" for env db where
  accept: "world_step env db w (w\<lparr>wo_links := (wo_links w)(p \<mapsto> l)\<rparr>)" if "wo_links w p = None" "fresh_link l"
| receive: "world_step env db w (world_receive env db now p pct w)"
| hang_up: "world_step env db w (w\<lparr>wo_links := (wo_links w)(p \<mapsto> WorldSocket_handle_close l)\<rparr>)"
    if "wo_links w p = Some l"
| on_map: "world_step env db w w'" if "p \<in> snd ` set (wo_sessions w)" "map_update env p w = Inr w'"
| update: "world_step env db w w'" if "UpdateSessions env w = Inr w'"
| kick: "world_step env db w w'" if "world_KickAll w = Inr w' \<or> world_KickAllLess sec w = Inr w'"

definition world_start :: "u32 \<Rightarrow> 'c world" where
  "world_start limit = \<lparr>wo_links = (\<lambda>_. None), wo_addSessQueue = lq_new, wo_sessions = [], wo_offlineSessions = [],
     wo_QueuedPlayer = [], wo_playerLimit = limit, wo_maxActiveSessionCount = 0, wo_maxQueuedSessionCount = 0\<rparr>"

section \<open>What a step does to a link\<close>

definition wl_owner :: "'c world_link \<Rightarrow> (bool \<times> u32 \<times> bool) option" where
  "wl_owner l = map_option (\<lambda>ss. (ws_m_Socket ss, ws_accountId ss, ws_inQueue ss)) (wl_session l)"

definition link_moves :: "'c world_link \<Rightarrow> 'c world_link \<Rightarrow> bool" where
  "link_moves l l' \<longleftrightarrow> wl_owner l' = wl_owner l \<and> (\<not> pl_m_Session l \<longrightarrow> \<not> pl_m_Session l') \<and>
     (pl_m_Session l \<and> \<not> sk_closing l \<longrightarrow> pl_m_Session l' = (\<not> sk_closing l')) \<and>
     (sk_closing l \<longrightarrow> sk_closing l') \<and> wl_AddSession l' = wl_AddSession l"

text \<open>
  An open socket points to its session, a closed one to none; it never points to a deleted session, and
  the session holds the socket.
\<close>

definition link_ok :: "'c world_link \<Rightarrow> bool" where
  "link_ok l \<longleftrightarrow> (pl_m_Session l \<longleftrightarrow> wl_session l \<noteq> None \<and> \<not> sk_closing l) \<and> \<not> wl_AddSession l \<and>
     (\<forall>ss. wl_session l = Some ss \<longrightarrow> ws_m_Socket ss)"

lemma link_moves_refl [simp]: "link_moves l l"
  by (simp add: link_moves_def)

lemma link_moves_trans: "link_moves l l' \<Longrightarrow> link_moves l' l'' \<Longrightarrow> link_moves l l''"
  unfolding link_moves_def by auto

lemma owner_core: "wl_core l' = wl_core l \<Longrightarrow> wl_owner l' = wl_owner l"
  by (cases "wl_session l"; cases "wl_session l'") (simp_all add: wl_core_def wl_owner_def)

lemma keeps_moves: "link_keeps g \<Longrightarrow> link_moves l (g l)"
  using link_keepsD [of g l] by (auto simp: link_moves_def intro: owner_core)

lemma on_wsess_moves:
  assumes "\<And>ss. ws_m_Socket (f ss) = ws_m_Socket ss \<and> ws_accountId (f ss) = ws_accountId ss \<and>
    ws_inQueue (f ss) = ws_inQueue ss"
  shows "link_moves l (on_wsess f l)"
  using assms by (simp add: link_moves_def wl_owner_def on_wsess_def map_option.compositionality comp_def)

lemma moves_session:
  assumes "link_moves l l'" and "wl_session l = Some ss"
  obtains ss' where "wl_session l' = Some ss'" "ws_m_Socket ss' = ws_m_Socket ss"
    "ws_accountId ss' = ws_accountId ss" "ws_inQueue ss' = ws_inQueue ss"
  using assms by (auto simp: link_moves_def wl_owner_def)

lemma link_moves_ok:
  assumes "link_moves l l'" and "link_ok l"
  shows "link_ok l'"
proof -
  have "map_option fst (wl_owner l') = map_option fst (wl_owner l)" using assms(1) by (simp add: link_moves_def)
  then have "wl_session l' \<noteq> None \<longleftrightarrow> wl_session l \<noteq> None" "(\<forall>ss. wl_session l' = Some ss \<longrightarrow> ws_m_Socket ss) \<longleftrightarrow>
      (\<forall>ss. wl_session l = Some ss \<longrightarrow> ws_m_Socket ss)"
    by (cases "wl_session l"; cases "wl_session l'"; simp add: wl_owner_def)+
  with assms show ?thesis unfolding link_ok_def link_moves_def by auto
qed

lemma world_io_moves:
  assumes env: "wenv_keeps env"
  shows "world_io env f n l = Some (log, l2) \<Longrightarrow> wl_session l \<noteq> None \<Longrightarrow> link_moves l l2"
proof (induction n arbitrary: l log)
  case (Suc n)
  then obtain ss where ss: "wl_session l = Some ss" by auto
  from world_io_cases [OF ss, of env f n] show ?case
  proof (elim disjE exE conjE)
    fix p q
    let ?l = "on_wsess (\<lambda>ss. ss\<lparr>ws_recvQueue := q\<rparr>) l"
    assume step: "world_io env f (Suc n) l =
      (case world_dispatch env p ?l of None \<Rightarrow> None
       | Some (v, l1) \<Rightarrow> map_option (\<lambda>(log, l2). ((p, v) # log, l2)) (world_io env f n l1))"
    from step Suc.prems(1) obtain v l1 log1 where d: "world_dispatch env p ?l = Some (v, l1)"
      and io: "world_io env f n l1 = Some (log1, l2)" by (auto split: option.splits)
    obtain g where g: "link_keeps g" "l1 = g ?l" using world_dispatch_keeps [OF env d] by blast
    have "link_moves l ?l" by (rule on_wsess_moves) simp
    then have m: "link_moves l l1" unfolding g(2) by (rule link_moves_trans [OF _ keeps_moves [OF g(1)]])
    obtain ss1 where "wl_session l1 = Some ss1" by (rule moves_session [OF m ss])
    with Suc.IH [OF io] show ?thesis using link_moves_trans [OF m] by simp
  qed (use Suc.prems in simp)
qed simp

lemma logout_check_link:
  assumes env: "wenv_keeps env" and "world_logout_check env l = (b, l1)" and "wl_session l = Some ss" and "link_ok l"
  shows "\<exists>l0. link_moves l l0 \<and>
    (b \<and> l1 = l0 \<or> \<not> b \<and> sk_closing l0 \<and> l1 = on_wsess (\<lambda>ss. ss\<lparr>ws_m_Socket := False\<rparr>) l0)"
proof -
  define l0 where "l0 = (if ShouldLogOut (we_time env) ss \<and> \<not> ws_playerLoading ss then LogoutPlayer env True l else l)"
  have m: "link_moves l l0" using keeps_moves [OF LogoutPlayer_keeps [OF env]] by (simp add: l0_def)
  obtain ss0 where ss0: "wl_session l0 = Some ss0" "ws_m_Socket ss0 = ws_m_Socket ss" by (rule moves_session [OF m assms(3)])
  have "ws_m_Socket ss" using assms(3,4) by (simp add: link_ok_def)
  with ss0 assms(2) [unfolded world_logout_check_def Let_def assms(3) option.case, folded l0_def] m
  show ?thesis by (cases "sk_closing l0") (auto simp: on_wsess_def)
qed

lemma update_link:
  assumes env: "wenv_keeps env" and up: "WorldSession_Update env f l = Some (b, log, l')"
    and ss: "wl_session l = Some ss" and ok: "link_ok l"
  shows "\<exists>l0. link_moves l l0 \<and> (b \<and> l' = l0 \<or>
    \<not> b \<and> f = WorldSessionFilter \<and> sk_closing l0 \<and> l' = on_wsess (\<lambda>ss. ss\<lparr>ws_m_Socket := False\<rparr>) l0)"
proof -
  define l1 where "l1 = (if IsConnectionIdle ss then WorldSocket_CloseSocket l else l)"
  have m1: "link_moves l l1" using keeps_moves [OF link_keeps_Close, of l] by (simp add: l1_def)
  obtain ss1 where ss1: "wl_session l1 = Some ss1" by (rule moves_session [OF m1 ss])
  from up obtain l2 where io: "world_io env f (length (lq_queue (ws_recvQueue ss))) l1 = Some (log, l2)"
    unfolding WorldSession_Update_def ss l1_def [symmetric]
    by (auto simp: Let_def l1_def split: if_splits option.splits prod.splits)
  define l3 where "l3 = on_wsess (\<lambda>ss. ss\<lparr>ws_recvQueue := lq_readd (requeued log) (ws_recvQueue ss)\<rparr>) l2"
  define l4 where "l4 = world_transfer env (we_callbacks env l3)"
  have fin: "(if filter_ProcessLogout f then (case world_logout_check env l4 of (b, l5) \<Rightarrow> (b, log, l5))
      else (True, log, l4)) = (b, log, l')"
    using up io unfolding WorldSession_Update_def ss l4_def l3_def l1_def
    by (simp add: Let_def split: if_splits)
  have m3: "link_moves l2 l3" unfolding l3_def by (rule on_wsess_moves) simp
  have "link_keeps (\<lambda>l. world_transfer env (we_callbacks env l))"
    by (rule link_keeps_comp [OF world_transfer_keeps]) (use env in \<open>simp add: wenv_keeps_def\<close>)
  from keeps_moves [OF this, of l3] have m4: "link_moves l3 l4" by (simp add: l4_def)
  have m: "link_moves l l4"
    using world_io_moves [OF env io] ss1 by (intro link_moves_trans [OF m1] link_moves_trans [OF _ link_moves_trans [OF m3 m4]]) simp
  obtain ss4 where ss4: "wl_session l4 = Some ss4" by (rule moves_session [OF m ss])
  show ?thesis
  proof (cases "filter_ProcessLogout f")
    case True
    then have f: "f = WorldSessionFilter" by (simp add: filter_ProcessLogout_def)
    from True fin have chk: "world_logout_check env l4 = (b, l')" by (cases "world_logout_check env l4") simp
    from logout_check_link [OF env chk ss4 link_moves_ok [OF m ok]] f show ?thesis
      using link_moves_trans [OF m] by blast
  next
    case False
    with fin m show ?thesis by auto
  qed
qed

text \<open>Deleting a session leaves a closed link that points to nothing.\<close>

lemma delete_link:
  assumes env: "wenv_keeps env" and ss: "wl_session l = Some ss" "ws_m_Socket ss \<or> sk_closing l" and "\<not> wl_AddSession l"
    and "pl_m_Session l = (\<not> sk_closing l)"
  shows "wl_session (WorldSession_delete env l) = None \<and> link_ok (WorldSession_delete env l) \<and>
    sk_closing (WorldSession_delete env l)"
proof -
  define l1 where "l1 = (if wl_player l \<noteq> None then LogoutPlayer env True l else l)"
  have m: "link_moves l l1" using keeps_moves [OF LogoutPlayer_keeps [OF env], of l True] by (simp add: l1_def)
  obtain ss1 where ss1: "wl_session l1 = Some ss1" "ws_m_Socket ss1 = ws_m_Socket ss" by (rule moves_session [OF m ss(1)])
  have "WorldSession_delete env l =
      (if ws_m_Socket ss1 then WorldSocket_CloseSocket l1 else l1)\<lparr>wl_session := None\<rparr>"
    unfolding WorldSession_delete_def l1_def [symmetric] Let_def ss1(1) option.case ..
  with assms(3-5) m ss1(2) show ?thesis
    by (auto simp: WorldSocket_CloseSocket_def link_moves_def link_ok_def)
qed

section \<open>Who owns the sessions\<close>

text \<open>
  \<open>A\<close> gives the account of every session that is alive, \<open>S\<close> is the map of the sessions, \<open>Q\<close> holds the
  sessions that wait to be added: every session is owned once, under its account or in the queue.
\<close>

definition own :: "(nat \<Rightarrow> u32 option) \<Rightarrow> (u32 \<Rightarrow> nat option) \<Rightarrow> nat list \<Rightarrow> bool" where
  "own A S Q \<longleftrightarrow> (\<forall>i p. S i = Some p \<longrightarrow> A p = Some i) \<and> (\<forall>q \<in> set Q. A q \<noteq> None) \<and> (\<forall>i. \<forall>q \<in> set Q. S i \<noteq> Some q) \<and>
     distinct Q \<and> (\<forall>q i. A q = Some i \<longrightarrow> S i = Some q \<or> q \<in> set Q)"

lemma own_swap: "own A S Q \<Longrightarrow> set Q = set Q' \<Longrightarrow> distinct Q' \<Longrightarrow> own A S Q'"
  by (simp add: own_def)

lemma own_add:
  assumes "own A S (p # Q)" and "A p = Some i" and "S i = None"
  shows "own A (S(i \<mapsto> p)) Q"
  using assms unfolding own_def by (auto; metis option.distinct(1) option.inject)

lemma own_replace:
  assumes "own A S (p # Q)" and "A p = Some i" and "S i = Some old"
  shows "own (A(old := None)) (S(i \<mapsto> p)) Q"
proof -
  have "A old = Some i" "old \<noteq> p" "old \<notin> set Q" using assms by (auto simp: own_def)
  with assms show ?thesis unfolding own_def by (auto; metis option.distinct(1) option.inject)
qed

lemma own_drop:
  assumes "own A S (p # Q)"
  shows "own (A(p := None)) S Q"
  using assms unfolding own_def by auto

lemma own_erase:
  assumes "own A S Q" and "S i = Some p"
  shows "own (A(p := None)) (S(i := None)) Q"
proof -
  have "A p = Some i" "p \<notin> set Q" using assms by (auto simp: own_def)
  with assms show ?thesis unfolding own_def by (auto; metis option.distinct(1) option.inject)
qed

lemma own_new: "own A S Q \<Longrightarrow> A q = None \<Longrightarrow> own (A(q \<mapsto> i)) S (q # Q)"
  unfolding own_def by fastforce

definition acct :: "'c world \<Rightarrow> nat \<Rightarrow> u32 option" where
  "acct w p = map_option ws_accountId (world_session p w)"

definition world_inv :: "nat list \<Rightarrow> 'c world \<Rightarrow> bool" where
  "world_inv ps w \<longleftrightarrow> own (acct w) (map_of (wo_sessions w)) (ps @ lq_queue (wo_addSessQueue w)) \<and>
     distinct (map fst (wo_sessions w)) \<and> wo_offlineSessions w = [] \<and>
     (\<forall>p l. wo_links w p = Some l \<longrightarrow> link_ok l)"

text \<open>A session that waits in the queue of the players, or whose link is closed and has none any more.\<close>

definition stays_out :: "nat \<Rightarrow> 'c world \<Rightarrow> bool" where
  "stays_out p w \<longleftrightarrow> (\<exists>l. wo_links w p = Some l \<and>
     (case wl_session l of None \<Rightarrow> sk_closing l | Some ss \<Rightarrow> ws_inQueue ss))"

abbreviation set_link :: "nat \<Rightarrow> 'c world_link \<Rightarrow> 'c world \<Rightarrow> 'c world" where
  "set_link p l w \<equiv> w\<lparr>wo_links := (wo_links w)(p \<mapsto> l)\<rparr>"

lemma acct_Some: "acct w p \<noteq> None \<longleftrightarrow> (\<exists>l ss. wo_links w p = Some l \<and> wl_session l = Some ss)"
  by (cases "wo_links w p") (auto simp: acct_def world_session_def)

lemma acct_set_link [simp]: "acct (set_link p l w) = (acct w)(p := map_option ws_accountId (wl_session l))"
  by (auto simp: acct_def world_session_def)

lemma acct_queues [simp]:
  "acct (w\<lparr>wo_sessions := m\<rparr>) = acct w" "acct (w\<lparr>wo_addSessQueue := q\<rparr>) = acct w"
  by (intro ext; simp add: acct_def world_session_def)+

lemma on_link_alive:
  assumes "acct w p \<noteq> None"
  obtains l ss where "wo_links w p = Some l" "wl_session l = Some ss" "on_link f p w = Inr (set_link p (f l) w)"
  using assms unfolding acct_Some by (auto simp: on_link_def)

lemma moves_step:
  assumes inv: "world_inv ps w" and l: "wo_links w p = Some l" and m: "link_moves l l'"
  shows "world_inv ps (set_link p l' w)" "acct (set_link p l' w) = acct w"
    "stays_out q w \<Longrightarrow> stays_out q (set_link p l' w)"
proof -
  have o: "map_option (\<lambda>(m, a, i). a) (wl_owner l') = map_option (\<lambda>(m, a, i). a) (wl_owner l)"
    "map_option (\<lambda>(m, a, i). i) (wl_owner l') = map_option (\<lambda>(m, a, i). i) (wl_owner l)"
    using m by (simp_all add: link_moves_def)
  then have "map_option ws_accountId (wl_session l') = acct w p" using l
    by (simp add: wl_owner_def acct_def world_session_def map_option.compositionality comp_def)
  then show acct: "acct (set_link p l' w) = acct w" by simp
  have "link_ok l'" using inv l link_moves_ok [OF m] by (simp add: world_inv_def)
  with inv acct show "world_inv ps (set_link p l' w)" by (simp add: world_inv_def)
  show "stays_out q (set_link p l' w)" if "stays_out q w"
    using that l o(2) m
    by (cases "wl_session l"; cases "wl_session l'")
      (auto simp: stays_out_def wl_owner_def link_moves_def)
qed

lemma delete_step:
  assumes env: "wenv_keeps env" and l: "wo_links w p = Some l" "wl_session l = Some ss"
    and "ws_m_Socket ss \<or> sk_closing l" "\<not> wl_AddSession l" "pl_m_Session l = (\<not> sk_closing l)"
  shows "acct (set_link p (WorldSession_delete env l) w) = (acct w)(p := None)" "link_ok (WorldSession_delete env l)"
    "stays_out q w \<Longrightarrow> stays_out q (set_link p (WorldSession_delete env l) w)"
  using delete_link [OF env l(2) assms(4-6)] by (auto simp: stays_out_def)

lemma ok_deletable:
  assumes "link_ok l" and "link_moves l l1" and "wl_session l = Some ss"
  obtains ss1 where "wl_session l1 = Some ss1" "ws_m_Socket ss1" "\<not> wl_AddSession l1" "pl_m_Session l1 = (\<not> sk_closing l1)"
proof -
  obtain ss1 where "wl_session l1 = Some ss1" by (rule moves_session [OF assms(2,3)])
  with link_moves_ok [OF assms(2,1)] that show thesis by (simp add: link_ok_def)
qed

lemma KickPlayer_moves: "link_moves l (world_KickPlayer b l)"
proof -
  have k: "link_moves x (on_wsess (\<lambda>ss. ss\<lparr>ws_kicked := True\<rparr>) x)" for x :: "'a world_link"
    by (rule on_wsess_moves) simp
  show ?thesis using link_moves_trans [OF keeps_moves [OF link_keeps_Close] k] keeps_moves [OF link_keeps_Close, of l] k [of l]
    by (auto simp: world_KickPlayer_def Let_def split: option.split)
qed

section \<open>Adding a session\<close>

lemma KickSession_step:
  assumes inv: "world_inv ps w"
  obtains ok w1 where "KickSession i w = Inr (ok, w1)" "world_inv ps w1" "acct w1 = acct w"
    "wo_sessions w1 = wo_sessions w" "wo_addSessQueue w1 = wo_addSessQueue w" "\<And>q. stays_out q w \<Longrightarrow> stays_out q w1"
proof (cases "map_of (wo_sessions w) i")
  case None
  with that [of True w] inv show thesis by (simp add: KickSession_def)
next
  case (Some p)
  then have "acct w p \<noteq> None" using inv by (auto simp: world_inv_def own_def)
  then obtain l ss where l: "wo_links w p = Some l" "wl_session l = Some ss"
    and on: "on_link (world_KickPlayer False) p w = Inr (set_link p (world_KickPlayer False l) w)"
    by (rule on_link_alive [where f = "world_KickPlayer False"])
  show thesis
  proof (cases "ws_playerLoading ss")
    case True
    with Some l that [of False w] inv show thesis by (simp add: KickSession_def world_session_def)
  next
    case False
    show thesis
      by (rule that [of True "set_link p (world_KickPlayer False l) w"])
        (use False Some l on moves_step [OF inv l(1) KickPlayer_moves] in \<open>simp_all add: KickSession_def world_session_def\<close>)
  qed
qed

lemma link_ok_of: "world_inv ps w \<Longrightarrow> wo_links w p = Some l \<Longrightarrow> link_ok l"
  by (simp add: world_inv_def)

text \<open>The last step of adding a session is a packet or the queue; both leave the session where it is.\<close>

lemma finish_moves: 
  "link_moves l (world_SendTutorialsData env (world_SendClientCacheVersion env v
     (world_SendAddonsInfo env (world_SendAuthResponse env c b n l))))"
proof -
  have S: "link_moves x (world_SendPacket env p x)" for p and x :: "'a world_link" by (rule keeps_moves [OF link_keeps_Send])
  have a: "link_moves x (world_SendAuthResponse env c b n x)" for x :: "'a world_link"
    using S by (simp add: world_SendAuthResponse_def split: option.split)
  have t: "link_moves x (world_SendTutorialsData env x)" for x :: "'a world_link"
    using S by (simp add: world_SendTutorialsData_def split: option.split)
  have "link_moves x (world_SendClientCacheVersion env v (world_SendAddonsInfo env x))" for x :: "'a world_link"
    using link_moves_trans [OF S S] by (simp add: world_SendClientCacheVersion_def world_SendAddonsInfo_def)
  from link_moves_trans [OF link_moves_trans [OF a this] t] show ?thesis .
qed

text \<open>
  A good outcome: no deleted session is used, the invariant holds again, and whoever stayed out still
  does. What a handler of the game does to its own session may end the process.
\<close>

definition good :: "nat list \<Rightarrow> 'c world \<Rightarrow> world_error + 'c world \<Rightarrow> bool" where
  "good ps w r \<longleftrightarrow>
     (case r of
        Inl (DanglingSession p) \<Rightarrow> False
      | Inl (SessionFault p) \<Rightarrow> True
      | Inr w' \<Rightarrow> world_inv ps w' \<and> (\<forall>q. stays_out q w \<longrightarrow> stays_out q w'))"

lemma good_Inr: "good ps w (Inr w') \<longleftrightarrow> world_inv ps w' \<and> (\<forall>q. stays_out q w \<longrightarrow> stays_out q w')"
  by (simp add: good_def)

lemma good_fault [simp]: "good ps w (Inl (SessionFault p))"
  by (simp add: good_def)

lemma good_bind:
  assumes "good ps w r" and "\<And>w1. r = Inr w1 \<Longrightarrow> world_inv ps w1 \<Longrightarrow> good ps w1 (f w1)"
  shows "good ps w (rbind r f)"
proof (cases r)
  case (Inr w1)
  with assms(1) have w1: "world_inv ps w1" "\<And>q. stays_out q w \<Longrightarrow> stays_out q w1" by (simp_all add: good_Inr)
  from assms(2) [OF Inr w1(1)] w1(2) Inr show ?thesis
    by (cases "f w1") (auto simp: good_def split: world_error.splits)
qed (use assms(1) in simp)

lemma good_weaken: "good ps w1 r \<Longrightarrow> (\<And>q. stays_out q w \<Longrightarrow> stays_out q w1) \<Longrightarrow> good ps w r"
  by (auto simp: good_def split: sum.splits world_error.splits)

lemma good_moves:
  assumes "world_inv ps w" and "acct w p \<noteq> None" and "\<And>l. link_moves l (f l)"
  shows "good ps w (on_link f p w)"
proof -
  from assms(2) obtain l ss where l: "wo_links w p = Some l" "on_link f p w = Inr (set_link p (f l) w)"
    by (rule on_link_alive)
  with moves_step [OF assms(1) l(1) assms(3)] show ?thesis by (simp add: good_Inr)
qed

lemma world_inv_cong:
  assumes "wo_links w' = wo_links w" "wo_addSessQueue w' = wo_addSessQueue w" "wo_sessions w' = wo_sessions w"
    "wo_offlineSessions w' = wo_offlineSessions w"
  shows "world_inv ps w' \<longleftrightarrow> world_inv ps w" "acct w' = acct w" "stays_out q w' \<longleftrightarrow> stays_out q w"
proof -
  show a: "acct w' = acct w" using assms(1) by (intro ext) (simp add: acct_def world_session_def)
  show "world_inv ps w' \<longleftrightarrow> world_inv ps w" "stays_out q w' \<longleftrightarrow> stays_out q w"
    by (simp_all only: world_inv_def stays_out_def a assms)
qed

lemma counters_inv [simp]:
  "world_inv ps (world_MaxSessionCounters w) \<longleftrightarrow> world_inv ps w" "stays_out q (world_MaxSessionCounters w) \<longleftrightarrow> stays_out q w"
  by (rule world_inv_cong; simp add: world_MaxSessionCounters_def)+

lemma into_queue_good:
  assumes "world_inv ps w" and "acct w p \<noteq> None"
  shows "good ps w (world_AddQueuedPlayer env p w)"
proof -
  let ?f = "on_wsess (\<lambda>ss. ss\<lparr>ws_inQueue := True\<rparr>)"
  from assms(2) obtain l ss where l: "wo_links w p = Some l" "wl_session l = Some ss"
    "on_link ?f p w = Inr (set_link p (?f l) w)" by (rule on_link_alive)
  let ?w1 = "set_link p (?f l) w"
  have a1: "acct ?w1 = acct w" using l by (auto simp: on_wsess_def acct_def world_session_def)
  have "link_ok (?f l)" using link_ok_of [OF assms(1) l(1)] by (auto simp: link_ok_def on_wsess_def)
  with a1 assms(1) have i1: "world_inv ps ?w1" by (simp add: world_inv_def)
  have s1: "stays_out q ?w1" if "stays_out q w" for q
    using that l by (auto simp: stays_out_def on_wsess_def)
  let ?w2 = "?w1\<lparr>wo_QueuedPlayer := wo_QueuedPlayer w @ [p]\<rparr>"
  have w2: "world_inv ps ?w2" "acct ?w2 = acct w" "\<And>q. stays_out q ?w2 \<longleftrightarrow> stays_out q ?w1"
    using world_inv_cong [of ?w2 ?w1] i1 a1 by simp_all
  have m: "link_moves l (world_SendAuthResponse env c b n l)" for c b n l
    by (simp add: world_SendAuthResponse_def keeps_moves [OF link_keeps_Send] split: option.split)
  have "good ps ?w2 (on_link (world_SendAuthResponse env AUTH_WAIT_QUEUE False
      (word_of_nat (pos_in p 1 (wo_QueuedPlayer ?w2)))) p ?w2)"
    by (rule good_moves [OF w2(1)]) (use w2(2) assms(2) m in simp_all)
  then show ?thesis using l(3) s1 w2(3)
    by (auto simp: world_AddQueuedPlayer_def Let_def good_def split: sum.splits world_error.splits)
qed

lemma good_then_counters:
  assumes "good ps w r"
  shows "good ps w (rbind r (\<lambda>w1. Inr (world_MaxSessionCounters w1)))"
  by (rule good_bind [OF assms]) (simp add: good_Inr)

lemma on_link_delete:
  assumes env: "wenv_keeps env" and inv: "world_inv ps w" and "acct w p \<noteq> None" and "\<And>l. link_moves l (f l)"
  obtains l where "on_link (\<lambda>l. WorldSession_delete env (f l)) p w = Inr (set_link p l w)" "link_ok l"
    "acct (set_link p l w) = (acct w)(p := None)" "\<And>q. stays_out q w \<Longrightarrow> stays_out q (set_link p l w)"
proof -
  from assms(3) obtain l ss where l: "wo_links w p = Some l" "wl_session l = Some ss"
    "on_link (\<lambda>l. WorldSession_delete env (f l)) p w = Inr (set_link p (WorldSession_delete env (f l)) w)"
    by (rule on_link_alive)
  note moved = moves_step [OF inv l(1) assms(4) [of l]]
  obtain ss1 where d: "wl_session (f l) = Some ss1" "ws_m_Socket ss1" "\<not> wl_AddSession (f l)"
      "pl_m_Session (f l) = (\<not> sk_closing (f l))"
    by (rule ok_deletable [OF link_ok_of [OF inv l(1)] assms(4) l(2)])
  have "wo_links (set_link p (f l) w) p = Some (f l)" by simp
  from delete_step [OF env this d(1) _ d(3,4)] d(2) moved(2,3) l(3) that show thesis by simp
qed

lemma replace_old_step:
  assumes env: "wenv_keeps env" and inv: "world_inv (p # ps) w" and a: "acct w p = Some i"
  obtains w2 where "replace_old env i w = Inr w2" "world_inv ps (w2\<lparr>wo_sessions := um_set i p (wo_sessions w2)\<rparr>)"
    "acct w2 p = Some i" "\<And>q. stays_out q w \<Longrightarrow> stays_out q w2"
proof (cases "map_of (wo_sessions w) i")
  case None
  have "world_inv ps (w\<lparr>wo_sessions := um_set i p (wo_sessions w)\<rparr>)"
    using inv own_add [where A = "acct w" and S = "map_of (wo_sessions w)" and Q = "ps @ lq_queue (wo_addSessQueue w)", OF _ a None]
    by (simp add: world_inv_def)
  with that [of w] None a show thesis by (simp add: replace_old_def)
next
  case (Some old)
  have o: "acct w old = Some i" "old \<noteq> p" using inv Some by (auto simp: world_inv_def own_def)
  let ?f = "\<lambda>l. on_wsess (\<lambda>ss. ss\<lparr>ws_shouldSetOfflineInDB := False\<rparr>) (LogoutPlayer env True l)"
  have off: "link_moves l (on_wsess (\<lambda>ss. ss\<lparr>ws_shouldSetOfflineInDB := False\<rparr>) l)" for l :: "'a world_link"
    by (rule on_wsess_moves) simp
  have f: "link_moves l (?f l)" for l
    by (rule link_moves_trans [OF keeps_moves [OF LogoutPlayer_keeps [OF env]] off])
  have alive: "acct w old \<noteq> None" using o(1) by simp
  obtain l where l: "on_link (\<lambda>l. WorldSession_delete env (?f l)) old w = Inr (set_link old l w)" "link_ok l"
    "acct (set_link old l w) = (acct w)(old := None)" "\<And>q. stays_out q w \<Longrightarrow> stays_out q (set_link old l w)"
    by (rule on_link_delete [OF env inv alive f]) (rule that)
  have "own ((acct w)(old := None)) (map_of (um_set i p (wo_sessions w))) (ps @ lq_queue (wo_addSessQueue w))"
    using own_replace [where A = "acct w" and S = "map_of (wo_sessions w)" and Q = "ps @ lq_queue (wo_addSessQueue w)",
        OF _ a Some] inv by (simp add: world_inv_def)
  then have "world_inv ps ((set_link old l w)\<lparr>wo_sessions := um_set i p (wo_sessions w)\<rparr>)"
    using inv l(2,3) by (simp add: world_inv_def)
  with that [of "set_link old l w"] l(1,3,4) Some a o(2) show thesis by (simp add: replace_old_def)
qed

lemma AddSession_good:
  assumes env: "wenv_keeps env" and inv: "world_inv (p # ps) w"
  shows "good ps w (world_AddSession_now env p w)"
proof -
  have "acct w p \<noteq> None" using inv by (auto simp: world_inv_def own_def)
  then obtain s where s: "world_session p w = Some s" "acct w p = Some (ws_accountId s)" by (auto simp: acct_def)
  obtain ok w1 where k: "KickSession (ws_accountId s) w = Inr (ok, w1)" "world_inv (p # ps) w1" "acct w1 = acct w"
    "wo_sessions w1 = wo_sessions w" "wo_addSessQueue w1 = wo_addSessQueue w"
    "\<And>q. stays_out q w \<Longrightarrow> stays_out q w1" by (rule KickSession_step [OF inv, of "ws_accountId s"]) (rule that)
  show ?thesis
  proof (cases ok)
    case False
    have alive: "acct w1 p \<noteq> None" using k(3) s(2) by simp
    obtain l where l: "on_link (\<lambda>l. WorldSession_delete env (world_KickPlayer True l)) p w1 = Inr (set_link p l w1)"
      "link_ok l" "acct (set_link p l w1) = (acct w1)(p := None)" "\<And>q. stays_out q w1 \<Longrightarrow> stays_out q (set_link p l w1)"
      by (rule on_link_delete [OF env k(2) alive KickPlayer_moves [where b = True]]) (rule that)
    have "world_inv ps (set_link p l w1)" using k(2) l(2,3) own_drop by (simp add: world_inv_def)
    with l k False s show ?thesis by (simp add: world_AddSession_now_def good_Inr)
  next
    case True
    have a: "acct w1 p = Some (ws_accountId s)" using k(3) s(2) by simp
    obtain w2 where r: "replace_old env (ws_accountId s) w1 = Inr w2"
      "world_inv ps (w2\<lparr>wo_sessions := um_set (ws_accountId s) p (wo_sessions w2)\<rparr>)"
      "acct w2 p = Some (ws_accountId s)" "\<And>q. stays_out q w1 \<Longrightarrow> stays_out q w2"
      by (rule replace_old_step [OF env k(2) a]) (rule that)
    let ?w3 = "w2\<lparr>wo_sessions := um_set (ws_accountId s) p (wo_sessions w2)\<rparr>"
    have alive: "acct ?w3 p \<noteq> None" using r(3) by simp
    have s3: "stays_out q ?w3 \<longleftrightarrow> stays_out q w2" for q by (simp add: stays_out_def)
    note queue = good_then_counters [OF into_queue_good [OF r(2) alive], of env]
    have send: "good ps ?w3 (rbind (on_link (\<lambda>l. world_SendTutorialsData env
        (world_SendClientCacheVersion env (wc_clientcache (we_cf env))
          (world_SendAddonsInfo env (world_SendAuthResponse env AUTH_OK True 0 l)))) p ?w3)
        (\<lambda>w1. Inr (world_MaxSessionCounters w1)))"
      by (rule good_then_counters [OF good_moves [OF r(2) alive]]) (rule finish_moves)
    have "good ps ?w3 (world_AddSession_now env p w)"
      using queue send by (simp add: world_AddSession_now_def s(1) k(1) True r(1) Let_def)
    then show ?thesis by (rule good_weaken) (use k(6) r(4) s3 in blast)
  qed
qed

section \<open>Updating the sessions\<close>

lemma add_new_sessions_good:
  assumes env: "wenv_keeps env"
  shows "world_inv [] w \<Longrightarrow> good [] w (add_new_sessions env n w)"
proof (induction n arbitrary: w)
  case 0
  then show ?case by (simp add: good_Inr)
next
  case (Suc n)
  show ?case
  proof (cases "lq_next (wo_addSessQueue w)")
    case None
    with Suc.prems show ?thesis by (simp add: good_Inr)
  next
    case (Some e)
    then obtain p q where e: "lq_next (wo_addSessQueue w) = Some (p, q)" by (cases e) simp
    then have "lq_queue (wo_addSessQueue w) = p # lq_queue q" by (auto simp: lq_next_def split: list.splits)
    then have "world_inv [p] (w\<lparr>wo_addSessQueue := q\<rparr>)" using Suc.prems by (simp add: world_inv_def)
    from AddSession_good [OF env this] have "good [] w (world_AddSession_now env p (w\<lparr>wo_addSessQueue := q\<rparr>))"
      by (rule good_weaken) (simp add: stays_out_def)
    from good_bind [OF this Suc.IH] show ?thesis by (simp add: e)
  qed
qed

lemma forget_step:
  assumes inv: "world_inv ps w" and i: "map_of (wo_sessions w) i = Some p"
    and l: "wl_session l = None" "link_ok l" "sk_closing l"
  defines "w' \<equiv> (set_link p l w)\<lparr>wo_sessions := um_erase i (wo_sessions w)\<rparr>"
  shows "good ps w (Inr w')"
proof -
  have "own ((acct w)(p := None)) ((map_of (wo_sessions w))(i := None)) (ps @ lq_queue (wo_addSessQueue w))"
    by (rule own_erase [where A = "acct w" and S = "map_of (wo_sessions w)", OF _ i]) (use inv in \<open>simp add: world_inv_def\<close>)
  then have "world_inv ps w'" using inv l by (simp add: world_inv_def w'_def)
  moreover have "stays_out q w'" if "stays_out q w" for q using that l by (auto simp: stays_out_def w'_def)
  ultimately show ?thesis by (simp add: good_Inr)
qed

text \<open>A session whose socket is closed is taken out of the map and deleted; all others stay.\<close>

lemma update_session_ended:
  assumes env: "wenv_keeps env" and up: "WorldSession_Update env WorldSessionFilter l = Some (False, log, l1)"
    and l: "wo_links w p = Some l" "wl_session l \<noteq> None"
    and l1: "l1 = on_wsess (\<lambda>ss. ss\<lparr>ws_m_Socket := False\<rparr>) l0" "sk_closing l0" "link_ok l0" "wl_session l0 \<noteq> None"
  obtains l2 where "wl_session l2 = None" "link_ok l2" "sk_closing l2"
    "update_session env (i, p) w = Inr ((set_link p l2 w)\<lparr>wo_sessions := um_erase i (wo_sessions w)\<rparr>)"
proof -
  let ?w1 = "w\<lparr>wo_sessions := um_erase i (wo_sessions w), wo_links := (wo_links w)(p \<mapsto> l1)\<rparr>"
  define f where "f = (\<lambda>l :: 'a world_link. on_wsess (\<lambda>ss. if i \<in> fst ` set (wo_offlineSessions ?w1)
      then ss\<lparr>ws_shouldSetOfflineInDB := False\<rparr> else ss) l)"
  have fl: "wl_session (f l1) \<noteq> None" "sk_closing (f l1)" "\<not> wl_AddSession (f l1)" "\<not> pl_m_Session (f l1)"
    using l1 by (auto simp: f_def on_wsess_def link_ok_def)
  then obtain ss2 where "wl_session (f l1) = Some ss2" by auto
  from delete_link [OF env this _ fl(3)] fl(2,4) have d: "wl_session (WorldSession_delete env (f l1)) = None"
    "link_ok (WorldSession_delete env (f l1))" "sk_closing (WorldSession_delete env (f l1))" by simp_all
  have "on_link (\<lambda>l. WorldSession_delete env (f l)) p ?w1 =
      Inr ((set_link p (WorldSession_delete env (f l1)) w)\<lparr>wo_sessions := um_erase i (wo_sessions w)\<rparr>)"
    using l1 by (auto simp: on_link_def on_wsess_def)
  then have "update_session env (i, p) w =
      Inr ((set_link p (WorldSession_delete env (f l1)) w)\<lparr>wo_sessions := um_erase i (wo_sessions w)\<rparr>)"
    using up l unfolding f_def by (simp add: update_session_def Let_def)
  with d that show thesis by blast
qed

lemma update_session_good:
  assumes env: "wenv_keeps env" and inv: "world_inv ps w" and i: "map_of (wo_sessions w) i = Some p"
  shows "good ps w (update_session env (i, p) w) \<and>
    (\<forall>w'. update_session env (i, p) w = Inr w' \<longrightarrow> wo_sessions w' \<in> {wo_sessions w, um_erase i (wo_sessions w)})"
proof -
  have "acct w p \<noteq> None" using inv i by (auto simp: world_inv_def own_def)
  then obtain l ss where l: "wo_links w p = Some l" "wl_session l = Some ss" by (rule on_link_alive)
  have ok: "link_ok l" by (rule link_ok_of [OF inv l(1)])
  show ?thesis
  proof (cases "WorldSession_Update env WorldSessionFilter l")
    case None
    with l show ?thesis by (simp add: update_session_def)
  next
    case (Some r)
    then obtain b log l1 where up: "WorldSession_Update env WorldSessionFilter l = Some (b, log, l1)" by (cases r) auto
    obtain l0 where m: "link_moves l l0" "b \<and> l1 = l0 \<or>
        \<not> b \<and> sk_closing l0 \<and> l1 = on_wsess (\<lambda>ss. ss\<lparr>ws_m_Socket := False\<rparr>) l0"
      using update_link [OF env up l(2) ok] by blast
    obtain ss0 where ss0: "wl_session l0 = Some ss0" by (rule moves_session [OF m(1) l(2)])
    show ?thesis
    proof (cases b)
      case True
      then have "update_session env (i, p) w = Inr (set_link p l0 w)" using up l m(2) by (simp add: update_session_def)
      with moves_step [OF inv l(1) m(1)] show ?thesis by (simp add: good_Inr)
    next
      case False
      have l1: "l1 = on_wsess (\<lambda>ss. ss\<lparr>ws_m_Socket := False\<rparr>) l0" "sk_closing l0" using m(2) False by simp_all
      have alive: "wl_session l \<noteq> None" "wl_session l0 \<noteq> None" using l(2) ss0 by simp_all
      from False up have up: "WorldSession_Update env WorldSessionFilter l = Some (False, log, l1)" by simp
      obtain l2 where l2: "wl_session l2 = None" "link_ok l2" "sk_closing l2"
        "update_session env (i, p) w = Inr ((set_link p l2 w)\<lparr>wo_sessions := um_erase i (wo_sessions w)\<rparr>)"
        by (rule update_session_ended [OF env up l(1) alive(1) l1 link_moves_ok [OF m(1) ok] alive(2)])
      from forget_step [OF inv i l2(1-3)] l2(4) show ?thesis by simp
    qed
  qed
qed

lemma update_all_good:
  assumes env: "wenv_keeps env"
  shows "world_inv ps w \<Longrightarrow> distinct (map fst es) \<Longrightarrow> (\<And>i p. (i, p) \<in> set es \<Longrightarrow> map_of (wo_sessions w) i = Some p) \<Longrightarrow>
    good ps w (update_each (update_session env) es w)"
proof (induction es arbitrary: w)
  case Nil
  then show ?case by (simp add: good_Inr)
next
  case (Cons e es)
  obtain i p where e: "e = (i, p)" by (cases e)
  have "map_of (wo_sessions w) i = Some p" using Cons.prems(3) e by simp
  note u = update_session_good [OF env Cons.prems(1) this]
  have "good ps w1 (update_each (update_session env) es w1)"
    if w1: "update_session env (i, p) w = Inr w1" "world_inv ps w1" for w1
  proof (rule Cons.IH [OF w1(2)])
    show "distinct (map fst es)" using Cons.prems(2) by simp
    fix j q assume j: "(j, q) \<in> set es"
    then have "j \<noteq> i" using Cons.prems(2) e by (auto simp: image_iff)
    with u w1(1) Cons.prems(3) [of j q] j show "map_of (wo_sessions w1) j = Some q" by auto
  qed
  from good_bind [OF u [THEN conjunct1] this] show ?case by (simp add: e)
qed

lemma UpdateSessions_good:
  assumes env: "wenv_keeps env" and "world_inv [] w"
  shows "good [] w (UpdateSessions env w)"
  unfolding UpdateSessions_def
proof (rule good_bind [OF add_new_sessions_good [OF env assms(2)]], rule good_bind)
  fix w1 :: "'a world" assume "world_inv [] w1"
  then show "good [] w1 (update_each (update_session env) (wo_sessions w1) w1)"
    by (intro update_all_good [OF env]) (auto simp: world_inv_def)
next
  fix w1 w2 :: "'a world" assume "world_inv [] w2"
  then show "good [] w2 (update_each (update_offline env) (wo_offlineSessions w2) w2)"
    by (simp add: world_inv_def good_Inr)
qed

section \<open>The other steps\<close>

lemma kick_each_good:
  assumes f: "\<And>l. link_moves l (f l)"
  shows "world_inv ps w \<Longrightarrow> (\<And>e. e \<in> set es \<Longrightarrow> acct w (snd e) \<noteq> None) \<Longrightarrow>
    good ps w (update_each (\<lambda>e. on_link f (snd e)) es w)"
proof (induction es arbitrary: w)
  case Nil
  then show ?case by (simp add: good_Inr)
next
  case (Cons e es)
  have e: "acct w (snd e) \<noteq> None" using Cons.prems(2) by simp
  have "good ps w1 (update_each (\<lambda>e. on_link f (snd e)) es w1)"
    if w1: "on_link f (snd e) w = Inr w1" "world_inv ps w1" for w1
  proof (rule Cons.IH [OF w1(2)])
    obtain l ss where l: "wo_links w (snd e) = Some l" "on_link f (snd e) w = Inr (set_link (snd e) (f l) w)"
      using e by (rule on_link_alive)
    then have "acct w1 = acct w" using moves_step(2) [OF Cons.prems(1) l(1) f] w1(1) by simp
    then show "acct w1 (snd d) \<noteq> None" if "d \<in> set es" for d using Cons.prems(2) that by simp
  qed
  from good_bind [OF good_moves [OF Cons.prems(1) e f] this] show ?case by simp
qed

lemma sessions_alive: "world_inv ps w \<Longrightarrow> e \<in> set (wo_sessions w) \<Longrightarrow> acct w (snd e) \<noteq> None"
  by (cases e) (auto simp: world_inv_def own_def)

lemma KickAll_good:
  assumes "world_inv ps w"
  shows "good ps w (world_KickAll w)"
proof -
  let ?w = "w\<lparr>wo_QueuedPlayer := []\<rparr>"
  note c = world_inv_cong [of ?w w]
  have inv: "world_inv ps ?w" using c(1) assms by simp
  have "good ps ?w (update_each (\<lambda>e. on_link (world_KickPlayer True) (snd e)) (wo_sessions w) ?w)"
    by (rule kick_each_good [OF KickPlayer_moves inv]) (use sessions_alive [OF assms] c(2) in simp)
  then have "good ps w (update_each (\<lambda>e. on_link (world_KickPlayer True) (snd e)) (wo_sessions w) ?w)"
    by (rule good_weaken) (simp add: stays_out_def)
  from good_bind [OF this] show ?thesis
    unfolding world_KickAll_def by (simp add: world_inv_def good_Inr)
qed

lemma KickAllLess_good:
  assumes "world_inv ps w"
  shows "good ps w (world_KickAllLess sec w)"
  unfolding world_KickAllLess_def
  by (rule kick_each_good [OF _ assms sessions_alive [OF assms]])
    (simp add: KickPlayer_moves split: option.split)

lemma send_moves: "link_moves l (snd (WorldSocket_SendPacket upd q_full p l))"
proof (cases "WorldSocket_SendPacket upd q_full p l")
  case (Pair r l1)
  from WorldSocket_Send_same [OF this] Pair show ?thesis by (simp add: link_moves_def wl_owner_def)
qed

lemma session_update_moves:
  assumes "\<And>ss. ws_m_Socket (g ss) = ws_m_Socket ss \<and> ws_accountId (g ss) = ws_accountId ss \<and> ws_inQueue (g ss) = ws_inQueue ss"
  shows "link_moves l (l\<lparr>wl_session := map_option g (wl_session l)\<rparr>)"
  using on_wsess_moves [of g l] assms by (simp add: on_wsess_def)

lemma ping_moves: "link_moves l (snd (WorldSocket_HandlePing upd q_full cf now pct l))"
proof -
  obtain kick s1 where c: "WorldSocket_ping_count (wc_maxOverspeedPings cf) now l = (kick, s1)" by fastforce
  then have s1: "link_moves l s1"
    by (auto simp: link_moves_def wl_owner_def WorldSocket_ping_count_def Let_def split: if_splits)
  have lat: "link_moves s1 (s1\<lparr>wl_session := map_option (\<lambda>ss. ss\<lparr>ws_latency := v, ws_clientTimeDelay := 0\<rparr>)
      (wl_session s1)\<rparr>)" for v
    by (rule session_update_moves) simp
  show ?thesis unfolding WorldSocket_HandlePing_def c
    using s1 link_moves_trans [OF link_moves_trans [OF s1 lat] send_moves]
    by (simp del: bb_shr.simps bb_shr_all.simps split: sum.split prod.split list.split field.split)
qed

text \<open>A packet leaves a link as it is, but for the packets it queues, unless it is a login that is accepted.\<close>

lemma incoming_moves:
  assumes "WorldSocket_ProcessIncoming upd q_full cf db now pct l = (r, l1)" and ok: "link_ok l"
  shows "link_moves l l1 \<or> (\<exists>ss. wl_session l = None \<and> \<not> sk_closing l \<and> ws_m_Socket ss \<and>
    l1 = l\<lparr>pl_m_Session := True, wl_AddSession := True, wl_session := Some ss\<rparr>)"
proof -
  have snd1: "l1 = snd (WorldSocket_ProcessIncoming upd q_full cf db now pct l)" using assms(1) by simp
  consider "\<not> sk_closing l" "opcode pct = CMSG_AUTH_SESSION" "\<not> pl_m_Session l" | "\<not> sk_closing l" "opcode pct = CMSG_PING"
    | "sk_closing l \<or> opcode pct \<noteq> CMSG_PING \<and> (opcode pct = CMSG_AUTH_SESSION \<longrightarrow> pl_m_Session l)" by blast
  then show ?thesis
  proof cases
    case 1
    then have "WorldSocket_HandleAuthSession upd q_full cf db pct l = (r, l1)" and none: "wl_session l = None"
      using assms by (simp_all add: WorldSocket_ProcessIncoming_def link_ok_def opcode_defs)
    from HandleAuthSession_outcome [OF this(1)] 1(1) none show ?thesis
      using send_moves by (auto simp: login_accepted_def) (metis login_session_sel(1))
  next
    case 2
    with snd1 show ?thesis by (simp add: WorldSocket_ProcessIncoming_def ping_moves)
  next
    case 3
    have "link_moves l (l\<lparr>wl_session := map_option (\<lambda>ss. QueuePacket pct (ResetTimeOutTime cf ss)) (wl_session l)\<rparr>)"
      by (rule session_update_moves) (simp add: QueuePacket_def ResetTimeOutTime_def)
    with 3 show ?thesis unfolding snd1 by (auto simp: WorldSocket_ProcessIncoming_def)
  qed
qed

lemma receive_good:
  assumes inv: "world_inv [] w"
  shows "good [] w (Inr (world_receive env db now p pct w))"
proof (cases "wo_links w p")
  case None
  with inv show ?thesis by (simp add: world_receive_def good_Inr)
next
  case (Some l)
  obtain r l1 where in1: "WorldSocket_ProcessIncoming (we_upd env) (we_full env) (we_cf env) db now pct l = (r, l1)"
    by fastforce
  have ok: "link_ok l" by (rule link_ok_of [OF inv Some])
  from incoming_moves [OF in1 ok] show ?thesis
  proof
    assume m: "link_moves l l1"
    then have "\<not> wl_AddSession l1" using ok by (simp add: link_moves_def link_ok_def)
    with moves_step [OF inv Some m] Some in1 show ?thesis by (simp add: world_receive_def good_Inr)
  next
    assume "\<exists>ss. wl_session l = None \<and> \<not> sk_closing l \<and> ws_m_Socket ss \<and>
      l1 = l\<lparr>pl_m_Session := True, wl_AddSession := True, wl_session := Some ss\<rparr>"
    then obtain ss where ss: "wl_session l = None" "\<not> sk_closing l" "ws_m_Socket ss"
      "l1 = l\<lparr>pl_m_Session := True, wl_AddSession := True, wl_session := Some ss\<rparr>" by blast
    let ?w = "(set_link p (l1\<lparr>wl_AddSession := False\<rparr>) w)\<lparr>wo_addSessQueue := lq_add p (wo_addSessQueue w)\<rparr>"
    have w: "world_receive env db now p pct w = ?w" using Some in1 ss(4) by (simp add: world_receive_def)
    have o: "own (acct w) (map_of (wo_sessions w)) (lq_queue (wo_addSessQueue w))" using inv by (simp add: world_inv_def)
    have none: "acct w p = None" using Some ss(1) by (simp add: acct_def world_session_def)
    then have p: "p \<notin> set (lq_queue (wo_addSessQueue w))" using o by (auto simp: own_def)
    have "own ((acct w)(p \<mapsto> ws_accountId ss)) (map_of (wo_sessions w)) (lq_queue (wo_addSessQueue w) @ [p])"
      by (rule own_swap [OF own_new [OF o none]]) (use p o in \<open>auto simp: own_def\<close>)
    moreover have "link_ok (l1\<lparr>wl_AddSession := False\<rparr>)" using ss by (simp add: link_ok_def)
    ultimately have "world_inv [] ?w" using inv ss(4) by (simp add: world_inv_def lq_add_def)
    moreover have "stays_out q ?w" if "stays_out q w" for q
      using that Some ss(1,2) by (auto simp: stays_out_def)
    ultimately show ?thesis unfolding w by (simp add: good_Inr)
  qed
qed

lemma step_good:
  assumes env: "wenv_keeps env" and inv: "world_inv [] w" and "world_step env db w w'"
  shows "good [] w (Inr w')"
  using assms(3)
proof cases
  case (accept p l)
  have "acct (set_link p l w) = acct w" "link_ok l"
    using accept by (auto simp: fresh_link_def link_ok_def acct_def world_session_def)
  moreover have "stays_out q (set_link p l w)" if "stays_out q w" for q
    using that accept(2) by (auto simp: stays_out_def)
  ultimately show ?thesis using inv accept(1) by (simp add: good_Inr world_inv_def)
next
  case (receive now p pct)
  with receive_good [OF inv] show ?thesis by simp
next
  case (hang_up p l)
  have "link_moves l (WorldSocket_handle_close l)" by (simp add: link_moves_def wl_owner_def WorldSocket_handle_close_def)
  with moves_step [OF inv hang_up(2)] hang_up(1) show ?thesis by (simp add: good_Inr)
next
  case (on_map p)
  then have "acct w p \<noteq> None" using sessions_alive [OF inv] by force
  then obtain l ss where l: "wo_links w p = Some l" "wl_session l = Some ss" by (rule on_link_alive)
  show ?thesis
  proof (cases "w' = w")
    case True
    with inv show ?thesis by (simp add: good_Inr)
  next
    case False
    with on_map(2) l obtain b log l1 where up: "WorldSession_Update env MapSessionFilter l = Some (b, log, l1)"
      "w' = set_link p l1 w" by (auto simp: map_update_def split: option.splits if_splits)
    have "link_moves l l1" using update_link [OF env up(1) l(2) link_ok_of [OF inv l(1)]] by auto
    with moves_step [OF inv l(1)] up(2) show ?thesis by (simp add: good_Inr)
  qed
next
  case update
  with UpdateSessions_good [OF env inv] show ?thesis by simp
next
  case (kick sec)
  with KickAll_good [OF inv] KickAllLess_good [OF inv, of sec] show ?thesis by auto
qed

lemma steps_good:
  assumes env: "wenv_keeps env" and "(world_step env db)\<^sup>*\<^sup>* w w'" and inv: "world_inv [] w"
  shows "good [] w (Inr w')"
  using assms(2)
proof induction
  case base
  with inv show ?case by (simp add: good_Inr)
next
  case (step w1 w2)
  then have "good [] w1 (Inr w2)" by (intro step_good [OF env]) (simp add: good_Inr)
  then show ?case by (rule good_weaken) (use step.IH in \<open>simp add: good_Inr\<close>)
qed

lemma start_inv: "world_inv [] (world_start limit)"
  by (simp add: world_inv_def world_start_def own_def acct_def world_session_def lq_new_def)

section \<open>Theorems\<close>

text \<open>
  C8: In every state a node can reach, the update of its sessions uses no session that was deleted:
  neither one of the map of the sessions nor one that waits to be added.
\<close>

theorem no_dangling_session:
  assumes "wenv_keeps env" and "(world_step env db)\<^sup>*\<^sup>* (world_start limit) w"
  shows "UpdateSessions env w \<noteq> Inl (DanglingSession p)"
proof -
  have "world_inv [] w" using steps_good [OF assms start_inv] by (simp add: good_Inr)
  from UpdateSessions_good [OF assms(1) this] show ?thesis by (auto simp: good_def)
qed

text \<open>
  C30: A node never lets a waiting player in: from the moment a session stands in the queue, it either
  still stands there and every packet for authenticated clients is skipped, or it was deleted and its
  link is closed.
\<close>

theorem queue_never_admits:
  assumes "wenv_keeps env" and "(world_step env db)\<^sup>*\<^sup>* (world_start limit) w"
    and "wo_links w p = Some l" "wl_session l = Some ss" "ws_inQueue ss"
    and "(world_step env db)\<^sup>*\<^sup>* w w'"
  shows "\<exists>l'. wo_links w' p = Some l' \<and> (case wl_session l' of None \<Rightarrow> sk_closing l'
    | Some ss' \<Rightarrow> ws_inQueue ss' \<and> world_verdict STATUS_AUTHED ss' = Skipped)"
proof -
  have "world_inv [] w" using steps_good [OF assms(1,2) start_inv] by (simp add: good_Inr)
  from steps_good [OF assms(1,6) this] have "stays_out p w \<longrightarrow> stays_out p w'" by (simp add: good_Inr)
  moreover have "stays_out p w" using assms(3-5) by (simp add: stays_out_def)
  ultimately show ?thesis by (auto simp: stays_out_def world_verdict_def split: option.splits)
qed

section \<open>A login is answered\<close>

text \<open>A link of which nothing is enciphered and which takes all it is given.\<close>

definition sends_plain :: "'c world_link \<Rightarrow> bool" where
  "sends_plain l \<longleftrightarrow> \<not> sk_closing l \<and> out_ok l \<and> \<not> crypt_initialized (sk_crypt l)"

lemma world_Send_plain:
  assumes "we_full env = (\<lambda>_. False)" and "sends_plain l" and "wl_session l = Some ss" "ws_m_Socket ss"
  shows "sends_plain (world_SendPacket env p l) \<and>
    out_pending (world_SendPacket env p l) = out_pending l @ flexi_wire p"
proof -
  obtain r l1 where s: "PoolSocket_SendPacket (we_upd env) (\<lambda>_. False) p l = (r, l1)" by fastforce
  have r: "r = 0" "sk_closing l1 = sk_closing l" "sk_crypt l1 = sk_crypt l"
    using s assms(2) by (auto simp: sends_plain_def PoolSocket_SendPacket_def Let_def AuthCrypt_EncryptSend_def
        sock_put_def split: if_splits)
  have "flexi_block (we_upd env) l p = flexi_wire p"
    using assms(2) by (simp add: sends_plain_def flexi_block_def flexi_wire_def AuthCrypt_EncryptSend_def)
  with PoolSocket_sends [OF s] assms(2) r have "sends_plain l1" "out_pending l1 = out_pending l @ flexi_wire p"
    by (simp_all add: sends_plain_def)
  with s r(1) show ?thesis using assms(1,3,4) by (simp add: world_SendPacket_def World_is_Pool)
qed

text \<open>The four packets a node greets a session with.\<close>

definition greeting :: "'c wenv \<Rightarrow> wsession \<Rightarrow> wpacket list" where
  "greeting env ss =
     [mk_pkt SMSG_AUTH_RESPONSE [U8 AUTH_OK, U32 0, U8 0, U32 0, U8 (ws_expansion ss)],
      mk_pkt SMSG_ADDON_INFO [U32 0],
      mk_pkt SMSG_CLIENTCACHE_VERSION [U32 (wc_clientcache (we_cf env))],
      mk_pkt SMSG_TUTORIAL_FLAGS (map U32 (ws_m_Tutorials ss))]"

lemma greeting_sent:
  assumes full: "we_full env = (\<lambda>_. False)" and "sends_plain l" and ss: "wl_session l = Some ss" "ws_m_Socket ss"
  defines "l' \<equiv> world_SendTutorialsData env (world_SendClientCacheVersion env (wc_clientcache (we_cf env))
     (world_SendAddonsInfo env (world_SendAuthResponse env AUTH_OK True 0 l)))"
  shows "out_pending l' = out_pending l @ concat (map flexi_wire (greeting env ss)) \<and> wl_session l' = Some ss \<and> sends_plain l'"
proof -
  note send = world_Send_plain [OF full _ _ ss(2)]
  let ?g = "greeting env ss"
  let ?l1 = "world_SendPacket env (?g ! 0) l"
  let ?l2 = "world_SendPacket env (?g ! 1) ?l1"
  let ?l3 = "world_SendPacket env (?g ! 2) ?l2"
  let ?l4 = "world_SendPacket env (?g ! 3) ?l3"
  have l': "l' = ?l4"
    by (simp add: l'_def greeting_def world_SendTutorialsData_def world_SendClientCacheVersion_def
        world_SendAddonsInfo_def world_SendAuthResponse_def ss(1))
  have 1: "sends_plain ?l1" "out_pending ?l1 = out_pending l @ flexi_wire (?g ! 0)"
    using send [OF assms(2) ss(1), of "?g ! 0"] by simp_all
  have 2: "sends_plain ?l2" "out_pending ?l2 = out_pending ?l1 @ flexi_wire (?g ! 1)"
    using send [OF 1(1), of "?g ! 1"] ss(1) by simp_all
  have 3: "sends_plain ?l3" "out_pending ?l3 = out_pending ?l2 @ flexi_wire (?g ! 2)"
    using send [OF 2(1), of "?g ! 2"] ss(1) by simp_all
  have 4: "sends_plain ?l4" "out_pending ?l4 = out_pending ?l3 @ flexi_wire (?g ! 3)"
    using send [OF 3(1), of "?g ! 3"] ss(1) by simp_all
  show ?thesis unfolding l' using 1(2) 2(2) 3(2) 4 ss(1) by (simp add: greeting_def)
qed

text \<open>A session of an account that has none yet is greeted or, if the node is full, put into the queue.\<close>

lemma AddSession_new:
  assumes l: "wo_links w p = Some l" "wl_session l = Some s" and "map_of (wo_sessions w) (ws_accountId s) = None"
  defines "w3 \<equiv> w\<lparr>wo_sessions := um_set (ws_accountId s) p (wo_sessions w)\<rparr>"
  shows "world_AddSession_now env p w =
    (if 0 < wo_playerLimit w \<and> wo_playerLimit w \<le> world_ActiveAndQueued w3 - 1 \<and> ws_security s = SEC_PLAYER \<and> \<not> ws_skipQueue s
     then rbind (world_AddQueuedPlayer env p w3) (\<lambda>w4. Inr (world_MaxSessionCounters w4))
     else Inr (world_MaxSessionCounters (set_link p (world_SendTutorialsData env
       (world_SendClientCacheVersion env (wc_clientcache (we_cf env))
         (world_SendAddonsInfo env (world_SendAuthResponse env AUTH_OK True 0 l)))) w3)))"
  using assms(1-3)
  by (simp add: w3_def world_AddSession_now_def world_session_def KickSession_def replace_old_def Let_def on_link_def)

text \<open>
  C9: A login of the proxy at a node is answered: the world's next update takes the session into its map
  and sends the four greeting packets over the link, the acceptance of the login first.
\<close>

theorem login_is_answered:
  assumes "we_full env = (\<lambda>_. False)" and "wo_links w p = Some l" "fresh_link l" "sends_plain l"
    and "lq_queue (wo_addSessQueue w) = []" "wo_playerLimit w = 0"
    and "\<not> wc_closed (we_cf env)" "ldb_account db account = Some row" "\<not> ldb_banned db (GetUInt32 (ar_id row))"
      "\<not> security < wc_allowedSecurityLevel (we_cf env)" "0 \<notin> set account"
    and "map_of (wo_sessions w) (GetUInt32 (ar_id row)) = None"
  shows "\<exists>w' l' ss. add_new_sessions env 1
      (world_receive env db now p (login_packet account i security authed forceTele) w) = Inr w' \<and>
    map_of (wo_sessions w') (GetUInt32 (ar_id row)) = Some p \<and> wo_links w' p = Some l' \<and> wl_session l' = Some ss \<and>
    ws_accountId ss = GetUInt32 (ar_id row) \<and> ws_authenticated ss = authed \<and> \<not> ws_inQueue ss \<and>
    out_pending l' = out_pending l @ concat (map flexi_wire (greeting env ss))"
proof -
  let ?ss = "login_session (we_cf env) db row security authed False" and ?i = "GetUInt32 (ar_id row)"
  let ?l = "l\<lparr>pl_m_Session := True, wl_session := Some ?ss, wl_AddSession := False\<rparr>"
  let ?w = "(set_link p ?l w)\<lparr>wo_addSessQueue := lq_add p (wo_addSessQueue w)\<rparr>"
  have in1: "WorldSocket_ProcessIncoming (we_upd env) (we_full env) (we_cf env) db now
      (login_packet account i security authed forceTele) l =
      (0, l\<lparr>pl_m_Session := True, wl_AddSession := True, wl_session := Some ?ss\<rparr>)"
    using node_login [OF assms(7-11)] assms(3)
    by (simp add: WorldSocket_ProcessIncoming_def login_opcode opcode_defs fresh_link_def)
  have rc: "world_receive env db now p (login_packet account i security authed forceTele) w = ?w"
    using assms(2) in1 by (simp add: world_receive_def)
  have plain: "sends_plain ?l" using assms(4) by (simp add: sends_plain_def out_ok_def)
  note g = greeting_sent [OF assms(1) plain, of ?ss, simplified]
  let ?f = "\<lambda>l. world_SendTutorialsData env (world_SendClientCacheVersion env (wc_clientcache (we_cf env))
     (world_SendAddonsInfo env (world_SendAuthResponse env AUTH_OK True 0 l)))"
  let ?v = "?w\<lparr>wo_addSessQueue := wo_addSessQueue w, wo_sessions := um_set ?i p (wo_sessions w)\<rparr>"
  have nx: "lq_next (lq_add p (wo_addSessQueue w)) = Some (p, wo_addSessQueue w)"
    using assms(5) by (simp add: lq_next_Some lq_add_def)
  have "world_AddSession_now env p (?w\<lparr>wo_addSessQueue := wo_addSessQueue w\<rparr>) =
      Inr (world_MaxSessionCounters (set_link p (?f ?l) ?v))"
    using assms(6,12) by (simp add: AddSession_new [where l = ?l and s = ?ss])
  then have "add_new_sessions env 1 ?w = Inr (world_MaxSessionCounters (set_link p (?f ?l) ?v))"
    using nx by simp
  moreover have "out_pending ?l = out_pending l" by (simp add: out_pending_def)
  ultimately show ?thesis unfolding rc using g
    by (intro exI [of _ "world_MaxSessionCounters (set_link p (?f ?l) ?v)"] exI [of _ "?f ?l"] exI [of _ ?ss])
      (simp add: world_MaxSessionCounters_def)
qed

section \<open>A run\<close>

text \<open>A session without work: an update leaves its link as it is.\<close>

definition quiet :: "'c world_link \<Rightarrow> bool" where
  "quiet l \<longleftrightarrow> sends_plain l \<and> (\<exists>ss. wl_session l = Some ss \<and> ws_m_Socket ss \<and> ws_player ss = None \<and>
     0 < ws_timeOutTime ss \<and> ws_logoutTime ss = 0 \<and> lq_queue (ws_recvQueue ss) = [])"

lemma quiet_update:
  assumes "quiet l" and "we_callbacks env = (\<lambda>l. l)" and "wo_links w p = Some l"
  shows "update_session env (i, p) w = Inr w"
proof -
  from assms(1) obtain ss where ss: "wl_session l = Some ss" "ws_m_Socket ss" "ws_player ss = None"
    "0 < ws_timeOutTime ss" "ws_logoutTime ss = 0" "lq_queue (ws_recvQueue ss) = []" "\<not> sk_closing l"
    by (auto simp: quiet_def sends_plain_def)
  have id: "on_wsess (\<lambda>ss. ss\<lparr>ws_recvQueue := lq_readd [] (ws_recvQueue ss)\<rparr>) l = l"
    by (cases "wl_session l") (simp_all add: on_wsess_def lq_readd_def)
  have "WorldSession_Update env WorldSessionFilter l = Some (True, [], l)"
    using ss id assms(2)
    by (simp add: WorldSession_Update_def IsConnectionIdle_def requeued_def world_transfer_def
        filter_ProcessLogout_def world_logout_check_def ShouldLogOut_def Let_def)
  moreover have "set_link p l w = w" using assms(3) by (simp add: fun_upd_idem)
  ultimately show ?thesis using ss(1) assms(3) by (simp add: update_session_def)
qed

lemma quiet_update_all:
  assumes "we_callbacks env = (\<lambda>l. l)"
  shows "(\<And>e. e \<in> set es \<Longrightarrow> \<exists>l. wo_links w (snd e) = Some l \<and> quiet l) \<Longrightarrow> update_each (update_session env) es w = Inr w"
proof (induction es)
  case (Cons e es)
  obtain i p where e: "e = (i, p)" by (cases e)
  with Cons.prems [of e] obtain l where "wo_links w p = Some l" "quiet l" by auto
  from quiet_update [OF this(2) assms this(1)] Cons e show ?case by simp
qed simp

text \<open>Two players log in at a node with room for one; the second waits.\<close>

definition ex_world :: "unit world" where
  "ex_world = (world_start 1)\<lparr>wo_links := [0 \<mapsto> ex_link, 2 \<mapsto> ex_link]\<rparr>"

definition ex_arrived :: "bytes \<Rightarrow> unit world_link" where
  "ex_arrived i = ex_link\<lparr>pl_m_Session := True,
     wl_session := Some (login_session (ex_settings 1) ex_db (ex_account i) 0 True False), wl_AddSession := False\<rparr>"

definition ex_two :: "unit world" where
  "ex_two = (world_start 1)\<lparr>wo_links := [0 \<mapsto> ex_arrived (ascii ''7''), 2 \<mapsto> ex_arrived (ascii ''8'')],
     wo_addSessQueue := \<lparr>lq_queue = [0, 2], lq_canceled = False\<rparr>\<rparr>"

lemma ex_receive:
  assumes "wo_links w p = Some ex_link" and "ldb_account ex_db account = Some (ex_account i)" and "0 \<notin> set account"
  shows "world_receive (ex_wenv 1) ex_db 0 p (login_packet account 0 0 True False) w =
    (set_link p (ex_arrived i) w)\<lparr>wo_addSessQueue := lq_add p (wo_addSessQueue w)\<rparr>"
proof -
  have "WorldSocket_ProcessIncoming (we_upd (ex_wenv 1)) (we_full (ex_wenv 1)) (we_cf (ex_wenv 1)) ex_db 0
      (login_packet account 0 0 True False) ex_link =
      (0, ex_link\<lparr>pl_m_Session := True, wl_AddSession := True,
         wl_session := Some (login_session (ex_settings 1) ex_db (ex_account i) 0 True False)\<rparr>)"
    using node_login [OF _ assms(2) ex_accounts(7) _ assms(3), of "ex_settings 1" 0]
    by (simp add: WorldSocket_ProcessIncoming_def login_opcode opcode_defs)
  with assms(1) show ?thesis by (simp add: world_receive_def ex_arrived_def)
qed

lemma reach_two: "(world_step (ex_wenv 1) ex_db)\<^sup>*\<^sup>* (world_start 1) ex_two"
proof -
  let ?s = "world_step (ex_wenv 1) ex_db"
  have fr: "fresh_link ex_link" by (simp add: fresh_link_def)
  define w1 where "w1 = set_link 0 ex_link (world_start 1)"
  define w2 where "w2 = set_link 2 ex_link w1"
  define w3 where "w3 = world_receive (ex_wenv 1) ex_db 0 0 (login_packet (ascii ''ANNA'') 0 0 True False) w2"
  define w4 where "w4 = world_receive (ex_wenv 1) ex_db 0 2 (login_packet (ascii ''BERT'') 0 0 True False) w3"
  have a: "?s (world_start 1) w1" unfolding w1_def by (rule world_step.accept [OF _ fr]) (simp add: world_start_def)
  have b: "?s w1 w2" unfolding w2_def by (rule world_step.accept [OF _ fr]) (simp add: w1_def world_start_def)
  have c: "?s w2 w3" and d: "?s w3 w4" unfolding w3_def w4_def by (rule world_step.receive)+
  have w3: "w3 = (set_link 0 (ex_arrived (ascii ''7'')) w2)\<lparr>wo_addSessQueue := lq_add 0 (wo_addSessQueue w2)\<rparr>"
    unfolding w3_def by (rule ex_receive [OF _ ex_accounts(3,1)]) (simp add: w2_def w1_def)
  have "w4 = (set_link 2 (ex_arrived (ascii ''8'')) w3)\<lparr>wo_addSessQueue := lq_add 2 (wo_addSessQueue w3)\<rparr>"
    unfolding w4_def by (rule ex_receive [OF _ ex_accounts(4,2)]) (simp add: w3 w2_def)
  then have "w4 = ex_two" unfolding w3 w2_def w1_def
    by (simp add: ex_two_def world_start_def lq_add_def lq_new_def fun_eq_iff)
  with a b c d show ?thesis by (meson rtranclp.rtrancl_into_rtrancl rtranclp.rtrancl_refl)
qed

definition ex_greeted :: "unit world_link" where
  "ex_greeted = world_SendTutorialsData (ex_wenv 1) (world_SendClientCacheVersion (ex_wenv 1) 12340
     (world_SendAddonsInfo (ex_wenv 1) (world_SendAuthResponse (ex_wenv 1) AUTH_OK True 0 (ex_arrived (ascii ''7'')))))"

definition ex_waiting :: "unit world_link" where
  "ex_waiting = world_SendAuthResponse (ex_wenv 1) AUTH_WAIT_QUEUE False 1
     (on_wsess (\<lambda>ss. ss\<lparr>ws_inQueue := True\<rparr>) (ex_arrived (ascii ''8'')))"

definition ex_full :: "unit world" where
  "ex_full = (world_start 1)\<lparr>wo_links := [0 \<mapsto> ex_greeted, 2 \<mapsto> ex_waiting], wo_sessions := [(7, 0), (8, 2)],
     wo_QueuedPlayer := [2], wo_maxActiveSessionCount := 1, wo_maxQueuedSessionCount := 1\<rparr>"

lemma ex_arrived_sel:
  "wl_session (ex_arrived i) = Some (login_session (ex_settings 1) ex_db (ex_account i) 0 True False)"
  "sends_plain (ex_arrived i)" "out_pending (ex_arrived i) = []"
  using ex_link_sel by (simp_all add: ex_arrived_def sends_plain_def out_ok_def out_pending_def)

lemma ex_greeted_quiet: "quiet ex_greeted"
  using greeting_sent [where env = "ex_wenv 1", OF ex_wenv_sel(1) ex_arrived_sel(2,1), of "ascii ''7''"]
  by (simp add: ex_greeted_def quiet_def lq_new_def ex_settings_def)

lemma ex_waiting_quiet: "quiet ex_waiting"
  and ex_waiting_inQueue: "\<exists>ss. wl_session ex_waiting = Some ss \<and> ws_inQueue ss"
proof -
  let ?ss = "(login_session (ex_settings 1) ex_db (ex_account (ascii ''8'')) 0 True False)\<lparr>ws_inQueue := True\<rparr>"
  let ?l = "on_wsess (\<lambda>ss. ss\<lparr>ws_inQueue := True\<rparr>) (ex_arrived (ascii ''8''))"
  have l: "wl_session ?l = Some ?ss" "sends_plain ?l"
    using ex_arrived_sel(1,2) [of "ascii ''8''"] by (simp_all add: on_wsess_def sends_plain_def out_ok_def)
  from world_Send_plain [OF ex_wenv_sel(1) l(2,1)] l(1) show "quiet ex_waiting"
    by (simp add: ex_waiting_def world_SendAuthResponse_def quiet_def lq_new_def)
  show "\<exists>ss. wl_session ex_waiting = Some ss \<and> ws_inQueue ss"
    using l(1) by (simp add: ex_waiting_def world_SendAuthResponse_def)
qed

lemma ex_update: "UpdateSessions (ex_wenv 1) ex_two = Inr ex_full"
proof -
  let ?w1 = "ex_two\<lparr>wo_links := [0 \<mapsto> ex_greeted, 2 \<mapsto> ex_arrived (ascii ''8'')], wo_sessions := [(7, 0)],
     wo_addSessQueue := \<lparr>lq_queue = [2], lq_canceled = False\<rparr>, wo_maxActiveSessionCount := 1\<rparr>"
  have cc: "wc_clientcache (ex_settings 1) = 12340" by (simp add: ex_settings_def)
  have skip: "\<not> ws_skipQueue (login_session (ex_settings 1) ex_db row sec b c)" for row sec b c
    by (simp add: login_session_def WorldSession_new_def ResetTimeOutTime_def Let_def)
  have one: "world_AddSession_now (ex_wenv 1) 0 (ex_two\<lparr>wo_addSessQueue := \<lparr>lq_queue = [2], lq_canceled = False\<rparr>\<rparr>) = Inr ?w1"
    using ex_accounts(5)
    by (simp add: AddSession_new [OF _ ex_arrived_sel(1) [of "ascii ''7''"]] ex_two_def world_start_def cc
        world_ActiveAndQueued_def world_ActiveSessionCount_def world_MaxSessionCounters_def ex_greeted_def fun_upd_twist)
  have two: "world_AddSession_now (ex_wenv 1) 2 (?w1\<lparr>wo_addSessQueue := \<lparr>lq_queue = [], lq_canceled = False\<rparr>\<rparr>) = Inr ex_full"
    using ex_accounts(6)
    by (simp add: AddSession_new [OF _ ex_arrived_sel(1) [of "ascii ''8''"]] SEC_PLAYER_def skip ex_two_def world_start_def
        world_ActiveAndQueued_def world_ActiveSessionCount_def world_MaxSessionCounters_def world_AddQueuedPlayer_def
        on_link_def on_wsess_def ex_arrived_sel ex_waiting_def ex_full_def Let_def lq_new_def)
  have q: "wo_addSessQueue ex_two = \<lparr>lq_queue = [0, 2], lq_canceled = False\<rparr>" by (simp add: ex_two_def)
  have add: "add_new_sessions (ex_wenv 1) (Suc (Suc 0)) ex_two = Inr ex_full"
    using one two by (simp add: q lq_next_def)
  have s: "wo_sessions ex_full = [(7, 0), (8, 2)]" "wo_offlineSessions ex_full = []"
    by (simp_all add: ex_full_def world_start_def)
  have upd: "update_each (update_session (ex_wenv 1)) [(7, 0), (8, 2)] ex_full = Inr ex_full"
  proof (rule quiet_update_all [OF ex_wenv_sel(4)])
    fix e :: "u32 \<times> nat" assume "e \<in> set [(7, 0), (8, 2)]"
    then show "\<exists>l. wo_links ex_full (snd e) = Some l \<and> quiet l"
      using ex_greeted_quiet ex_waiting_quiet by (auto simp: ex_full_def)
  qed
  show ?thesis
    by (simp add: UpdateSessions_def q s add upd del: add_new_sessions.simps update_each.simps(2))
qed

lemma reach_full: "(world_step (ex_wenv 1) ex_db)\<^sup>*\<^sup>* (world_start 1) ex_full"
  by (rule rtranclp.rtrancl_into_rtrancl [OF reach_two]) (rule world_step.update [OF ex_update])

theorem no_dangling_session_witness:
  "UpdateSessions (ex_wenv 1) ex_full \<noteq> Inl (DanglingSession 2)"
  by (rule no_dangling_session [OF ex_wenv_keeps reach_full])

theorem queue_never_admits_witness:
  "\<exists>l'. wo_links (world_receive (ex_wenv 1) ex_db 0 2 (mk_pkt CMSG_CHAR_ENUM []) ex_full) 2 = Some l' \<and>
     (case wl_session l' of None \<Rightarrow> sk_closing l' | Some ss' \<Rightarrow> ws_inQueue ss' \<and> world_verdict STATUS_AUTHED ss' = Skipped)"
proof -
  obtain ss where w: "wo_links ex_full 2 = Some ex_waiting" "wl_session ex_waiting = Some ss" "ws_inQueue ss"
    using ex_waiting_inQueue by (auto simp: ex_full_def)
  have "(world_step (ex_wenv 1) ex_db)\<^sup>*\<^sup>* ex_full (world_receive (ex_wenv 1) ex_db 0 2 (mk_pkt CMSG_CHAR_ENUM []) ex_full)"
    by (rule r_into_rtranclp) (rule world_step.receive)
  from queue_never_admits [OF ex_wenv_keeps reach_full w this] show ?thesis .
qed

theorem login_is_answered_witness:
  "\<exists>w' l' ss. add_new_sessions (ex_wenv 1) 1 (world_receive (ex_wenv 1) ex_db 0 0
       (login_packet (ascii ''ANNA'') 7 0 True False) ((world_start 0)\<lparr>wo_links := [0 \<mapsto> ex_link]\<rparr>)) = Inr w' \<and>
     map_of (wo_sessions w') 7 = Some 0 \<and> wo_links w' 0 = Some l' \<and> wl_session l' = Some ss \<and> ws_accountId ss = 7 \<and>
     ws_authenticated ss = True \<and> \<not> ws_inQueue ss \<and> out_pending l' = concat (map flexi_wire (greeting (ex_wenv 1) ss))"
proof -
  have "sends_plain ex_link" "fresh_link ex_link" by (simp_all add: sends_plain_def fresh_link_def)
  note l = login_is_answered [OF ex_wenv_sel(1) _ this(2,1) _ _ _ ex_accounts(3,7) _ ex_accounts(1),
      of "(world_start 0)\<lparr>wo_links := [0 \<mapsto> ex_link]\<rparr>" 0 1 0 0 7 True False]
  then show ?thesis by (simp add: world_start_def lq_new_def ex_accounts)
qed

end
