(* ===== verification/Spec2Isabelle.thy ===== *)
theory Spec2Isabelle
  imports ClusterLogin WaitingQueue ProxyShutdown ChannelHub NodeWorld
begin

text \<open>
  HysteriaCoreClustering splits a game server into a proxy (\<open>src/src/server/shade\<close>), to which
  the game clients connect, and nodes (\<open>src/src/server/game\<close>), each of which runs some of the
  maps. This library models the cluster: the byte streams between the parts, the packets in
  them, the protocol that keeps proxy and nodes in step, the sessions of the clients at the proxy
  and at the nodes, and the chat channels the proxy runs for them. Paths below are relative to \<open>src/src/server\<close>.

  How the parts interact. A client logs in at a \<open>ClientSocket\<close> of the proxy, which creates a
  \<open>ClientSession\<close> and hands it to the \<open>ClientSessionMgr\<close>; the manager admits it or queues it and
  gives it to one of the updater threads, which drain its packets. Each packet is looked up in the
  opcode table and either handled by the proxy (login, channels, account data) or passed on through
  a \<open>NodeSocket\<close> to the node that serves the player's map, chosen by \<open>RoutingHelper\<close>. There a
  \<open>WorldSocket\<close> takes the login of the proxy for the client, creates a \<open>WorldSession\<close> and hands it
  to the \<open>World\<close>; the threads of the world and of the maps process its packets. Packets
  of the node come back on the same socket. Beside the sockets of the clients, one
  \<open>ControlSession\<close> for each node logs in at the node's \<open>PoolSocket\<close>, sends the configuration and
  the ranges of identifiers, and stores the last identifiers the node reports.

  Conventions. Integers have the width of the source as \<open>word\<close> types (Prelude) where they can wrap;
  records follow the classes field by field, with one prefix for each class; an operation that
  throws, fails an assertion, dereferences null or uses freed memory has such a value in its result
  (\<open>bb_error\<close>, \<open>mgr_error\<close>, \<open>hub_error\<close>, \<open>world_error\<close>, options); addresses of sessions and channels are numbers into explicit
  heaps wherever aliasing matters. OpenSSL (RC4, HMAC, SHA-1), zlib, the database, the clock and the
  kernel's send buffer are arguments. Threads appear as interleavings of the atomic steps: a queue's
  operation runs under its lock; the lock-free queue is split into its atomic exchanges.

  Theories, from the bottom.
  \<^item> Prelude, Codes: types, collections of rewrite rules, opcodes and response codes.
  \<^item> ByteBuffer, PacketHeader: \<open>shared/Packets/ByteBuffer.h\<close>, the two header formats and the
    stream cipher. Reading back what was written, exceptions of short packets, headers that
    delimit themselves.
  \<^item> PacketQueue: \<open>shared/Threading\<close>. The locale \<open>fifo\<close> is the contract of a queue, with
    interpretations for the locked and the producer-consumer queue; the lock-free queue refines
    a list under every interleaving.
  \<^item> OpcodeTable: all rows of \<open>shade/Server/Protocol/Opcodes.cpp\<close>.
  \<^item> SocketStream, SocketOutput: \<open>shade/Server/Generics/Socket.cpp\<close> with its three subclasses.
    The locale \<open>framing\<close> (header, payload, rejection) carries the reassembly theorem and its
    independence of the cutting of the stream; \<open>sending\<close> carries the order of the bytes under
    partial writes and full queues.
  \<^item> Routing: \<open>shade/Server/RoutingHelper.cpp\<close>; the locale \<open>node_registry\<close> for the flags of nodes.
  \<^item> GuidRange: the identifier counters of \<open>game/Globals/ObjectMgr.cpp\<close>; the locale \<open>strided\<close> gives
    uniqueness inside a node and disjointness between nodes once for all three counters.
  \<^item> PoolSocket, PoolNode: \<open>game/Pool\<close>, the node's end of the control link.
  \<^item> ControlLink, ClusterSync: \<open>shade/Server/Control\<close>, the proxy's end, and the two ends together:
    the initialisation packet, the identifiers over restarts, the delivery of packets through both sockets.
  \<^item> ClusterLogin: the login of the proxy at a node from the connection to the acknowledgement, as exchanges
    of bytes between the two sockets (\<open>cluster_login\<close>).
  \<^item> ClientAuth: \<open>shade/Server/Client/ClientSocket.cpp\<close> and \<open>shade/Addons\<close>; the login.
  \<^item> ClientSession: \<open>shade/Server/Client/ClientSession.cpp\<close> and the login and logout handlers; the
    step relation of a session with its invariant.
  \<^item> SessionMgr, WaitingQueue: \<open>shade/Server/Client/ClientSessionMgr.cpp\<close>,
    \<open>shade/Server/SessionUpdater.cpp\<close>; a heap of reference-counted sessions, the updaters, the
    waiting queue.
  \<^item> ProxyShutdown: the clock of \<open>shade/Proxy/Proxy.cpp\<close> with the countdowns of shutdown and halt, the
    commands of \<open>shade/Chat/Commands/Level4.cpp\<close> that start and cancel them, and the announcements;
    the times read from and written to texts by \<open>shared/Utilities/Util.cpp\<close>.
  \<^item> StdMap, Channel, ChannelHub: the ordered containers of the C++ library, one chat channel
    (\<open>shade/Chat/Channel.cpp\<close>), and all channels with the lists of the players
    (\<open>shade/Chat/ChannelMgr.cpp\<close>, \<open>shade/Handler/ChannelHandler.cpp\<close>).
  \<^item> NodeOpcodes: all rows of \<open>game/Server/Protocol/Opcodes.cpp\<close>, compared with the proxy's rows.
  \<^item> WorldLink: \<open>game/Server/WorldSocket.cpp\<close> and \<open>WorldSession.cpp\<close>, a client's link and session
    at a node: login, queue, the filters of the two threads, update, logout, change of the node.
    \<open>framing\<close> and \<open>sending\<close> are interpreted on its operations too.
  \<^item> NodeWorld: \<open>game/World/World.cpp\<close>, the sessions of all links of a node: adding, replacing,
    updating, kicking, the waiting queue; the steps of its threads with their invariant.
  \<^item> Utf8: \<open>src/dep/utf8cpp\<close>, the conversions of \<open>shared/Utilities/Util.cpp\<close> and the
    normalisation of player names.

  What the groups of lemmas show. Invariants: \<open>session_inv\<close> of a session, \<open>mgr_inv\<close> of the
  manager, \<open>chan_wf\<close> of a channel (with the ghost entries that owners leave who kick themselves), \<open>hub_wf\<close> of the channels together, \<open>link_ok\<close> and \<open>world_inv\<close> of
  the links and sessions of a node are kept by every operation; the step relations carry them to
  reachable states. Functional
  behaviour: each operation on every branch. End to end: \<open>proxy_to_node_delivery\<close>,
  \<open>node_to_proxy_delivery\<close>, \<open>handshake_opens_node\<close> and \<open>login_is_answered\<close> compose sender, link
  and receiver; \<open>client_cannot_crash_node\<close> composes the two opcode tables. Errors:
  states the code reaches and should not (a use after free in the waiting queue, a leaked session,
  a buffer overrun of a name, a shutdown a halt holds back) are theorems at a concrete input.

  Bounds and fuel. \<open>handle_input\<close> recurses on the bytes left. \<open>drain\<close>, \<open>admit_new\<close>, \<open>world_io\<close> and
  \<open>add_new_sessions\<close> carry as fuel the length of the queue they empty, which shrinks in each round;
  what arrives meanwhile is left to the next call. Loops over containers are structural. The loop of
  \<open>CleanupChannels\<close> reads the player's list anew in every round; it is a partial function (\<open>cleanup_loop\<close>)
  that \<open>logout_completes\<close> shows to return.

  Not modelled. The reactors and threads of ACE (\<open>Network.cpp\<close>, \<open>PoolSocketMgr.cpp\<close>); the proxy's
  handlers for whispers, guilds, tickets and battlegrounds and its caches; the game world of a node
  (entities, spells, maps, scripts, collision and the handlers of its opcodes, which are arguments of
  WorldLink), which is the single-server core the cluster was built around; the authentication server; configuration, logging and the database layer.
\<close>

end
